(* ===== verification/Prelude.thy ===== *)
theory Prelude
  imports Main "HOL-Library.Word"
begin

section \<open>Prelude: results, the error-state monad, shared automation\<close>

text \<open>
  What every component shares. Go code that can fail and that mutates shared state is a
  function from a state to a result and a new state; the new state is there on the error
  path too, because a Go function that returns an error keeps the mutations it made
  before. \<open>bindE\<close> is the sequence \<open>x, err := m(); if err != nil { return err }\<close>,
  \<open>deferE\<close> is \<open>defer common.KeepError(&rErr, c)\<close> of \<^verbatim>\<open>pkg/common/defer.go\<close>, \<open>mapE\<close>
  and \<open>forE\<close> are \<^verbatim>\<open>for range\<close> loops that stop at the first error.

  \<open>preserves I m\<close> says that \<open>m\<close> keeps the state predicate \<open>I\<close> on every path, the error
  paths included; the collection \<open>preserve\<close> holds its rules.
\<close>

named_theorems preserve "rules that show that an operation keeps a predicate of the state"
named_theorems sm_defs "definitions of the combinators of the error-state monad"

type_synonym bytes = string
type_synonym uint32 = "32 word"
type_synonym ('s, 'e, 'a) sm = "'s \<Rightarrow> ('e + 'a) \<times> 's"

subsection \<open>Combinators\<close>

definition returnE :: "'a \<Rightarrow> ('s, 'e, 'a) sm" where
  "returnE x s = (Inr x, s)"

definition throwE :: "'e \<Rightarrow> ('s, 'e, 'a) sm" where
  "throwE e s = (Inl e, s)"

definition liftE :: "'e + 'a \<Rightarrow> ('s, 'e, 'a) sm" where
  "liftE r s = (r, s)"

definition getE :: "('s \<Rightarrow> 'a) \<Rightarrow> ('s, 'e, 'a) sm" where
  "getE f s = (Inr (f s), s)"

definition modifyE :: "('s \<Rightarrow> 's) \<Rightarrow> ('s, 'e, unit) sm" where
  "modifyE f s = (Inr (), f s)"

definition bindE :: "('s, 'e, 'a) sm \<Rightarrow> ('a \<Rightarrow> ('s, 'e, 'b) sm) \<Rightarrow> ('s, 'e, 'b) sm" where
  "bindE m f s = (case m s of (Inl e, s') \<Rightarrow> (Inl e, s') | (Inr x, s') \<Rightarrow> f x s')"

text \<open>The error as a value, for code that inspects it or drops it.\<close>

definition tryE :: "('s, 'e, 'a) sm \<Rightarrow> ('s, 'f, 'e + 'a) sm" where
  "tryE m s = (Inr (fst (m s)), snd (m s))"

definition mapErrE :: "('e \<Rightarrow> 'f) \<Rightarrow> ('s, 'e, 'a) sm \<Rightarrow> ('s, 'f, 'a) sm" where
  "mapErrE w m s = (map_sum w id (fst (m s)), snd (m s))"

text \<open>
  \<^verbatim>\<open>KeepError\<close>: the deferred call always runs; its error is the result only when the
  function itself returned none.
\<close>

definition deferE :: "('s, 'e, 'a) sm \<Rightarrow> ('s, 'e, 'b) sm \<Rightarrow> ('s, 'e, 'a) sm" where
  "deferE m c s =
     (case m s of
        (Inl e, s') \<Rightarrow> (Inl e, snd (c s'))
      | (Inr x, s') \<Rightarrow> (case c s' of (Inl e, s'') \<Rightarrow> (Inl e, s'') | (Inr _, s'') \<Rightarrow> (Inr x, s'')))"

text \<open>\<^verbatim>\<open>IgnoreErrorIfFalse(&success, c)\<close>: the clean-up runs on failure only, its error is dropped.\<close>

definition onErrorE :: "('s, 'e, 'a) sm \<Rightarrow> ('s, 'e, 'b) sm \<Rightarrow> ('s, 'e, 'a) sm" where
  "onErrorE m c s =
     (case m s of (Inl e, s') \<Rightarrow> (Inl e, snd (c s')) | (Inr x, s') \<Rightarrow> (Inr x, s'))"

text \<open>\<^verbatim>\<open>defer common.IgnoreCloseError(f)\<close>: the deferred call always runs, its error is dropped.\<close>

definition finallyE :: "('s, 'e, 'a) sm \<Rightarrow> ('s, 'f, 'b) sm \<Rightarrow> ('s, 'e, 'a) sm" where
  "finallyE m c s = (fst (m s), snd (c (snd (m s))))"

primrec mapE :: "('a \<Rightarrow> ('s, 'e, 'b) sm) \<Rightarrow> 'a list \<Rightarrow> ('s, 'e, 'b list) sm" where
  "mapE f [] = returnE []"
| "mapE f (x # xs) = bindE (f x) (\<lambda>y. bindE (mapE f xs) (\<lambda>ys. returnE (y # ys)))"

primrec forE :: "('a \<Rightarrow> ('s, 'e, unit) sm) \<Rightarrow> 'a list \<Rightarrow> ('s, 'e, unit) sm" where
  "forE f [] = returnE ()"
| "forE f (x # xs) = bindE (f x) (\<lambda>_. forE f xs)"

declare returnE_def [sm_defs] throwE_def [sm_defs] liftE_def [sm_defs] getE_def [sm_defs]
  modifyE_def [sm_defs] bindE_def [sm_defs] tryE_def [sm_defs] mapErrE_def [sm_defs]
  deferE_def [sm_defs] onErrorE_def [sm_defs] finallyE_def [sm_defs]

subsection \<open>Equations\<close>

lemma bindE_returnE [simp]: "bindE (returnE x) f = f x"
  by (rule ext) (simp add: bindE_def returnE_def)

lemma bindE_throwE [simp]: "bindE (throwE e) f = throwE e"
  by (rule ext) (simp add: bindE_def throwE_def)

lemma bindE_liftE_Inr [simp]: "bindE (liftE (Inr x)) f = f x"
  by (rule ext) (simp add: bindE_def liftE_def)

lemma bindE_assoc: "bindE (bindE m f) g = bindE m (\<lambda>x. bindE (f x) g)"
  by (rule ext) (simp add: bindE_def split: prod.splits sum.splits)

lemma bindE_Inr_iff:
  "bindE m f s = (Inr y, t) \<longleftrightarrow> (\<exists>x u. m s = (Inr x, u) \<and> f x u = (Inr y, t))"
  by (auto simp: bindE_def split: prod.splits sum.splits)

lemma mapErrE_Inr_iff: "mapErrE w m s = (Inr x, t) \<longleftrightarrow> m s = (Inr x, t)"
  by (cases "m s"; cases "fst (m s)") (auto simp: mapErrE_def)

lemma bindE_cong_result: "m s = (Inr x, u) \<Longrightarrow> bindE m f s = f x u"
  by (simp add: bindE_def)

lemma bindE_cong_error: "m s = (Inl e, u) \<Longrightarrow> bindE m f s = (Inl e, u)"
  by (simp add: bindE_def)

subsection \<open>Operations that keep a predicate of the state\<close>

definition preserves :: "('s \<Rightarrow> bool) \<Rightarrow> ('s, 'e, 'a) sm \<Rightarrow> bool" where
  "preserves I m \<longleftrightarrow> (\<forall>s. I s \<longrightarrow> I (snd (m s)))"

lemma preservesI: "(\<And>s. I s \<Longrightarrow> I (snd (m s))) \<Longrightarrow> preserves I m"
  by (simp add: preserves_def)

lemma preservesD: "preserves I m \<Longrightarrow> I s \<Longrightarrow> I (snd (m s))"
  by (simp add: preserves_def)

lemma preserves_result: "preserves I m \<Longrightarrow> I s \<Longrightarrow> m s = (r, t) \<Longrightarrow> I t"
  by (metis preservesD snd_conv)

lemma preserves_returnE [preserve]: "preserves I (returnE x)"
  by (simp add: preserves_def returnE_def)

lemma preserves_throwE [preserve]: "preserves I (throwE e)"
  by (simp add: preserves_def throwE_def)

lemma preserves_liftE [preserve]: "preserves I (liftE r)"
  by (simp add: preserves_def liftE_def)

lemma preserves_getE [preserve]: "preserves I (getE f)"
  by (simp add: preserves_def getE_def)

lemma preserves_modifyE: "(\<And>s. I s \<Longrightarrow> I (f s)) \<Longrightarrow> preserves I (modifyE f)"
  by (simp add: preserves_def modifyE_def)

lemma preserves_bindE [preserve]:
  "preserves I m \<Longrightarrow> (\<And>x. preserves I (f x)) \<Longrightarrow> preserves I (bindE m f)"
  by (auto simp: preserves_def bindE_def split: prod.splits sum.splits)

lemma preserves_tryE [preserve]: "preserves I m \<Longrightarrow> preserves I (tryE m)"
  by (simp add: preserves_def tryE_def)

lemma preserves_mapErrE [preserve]: "preserves I m \<Longrightarrow> preserves I (mapErrE w m)"
  by (simp add: preserves_def mapErrE_def)

lemma preserves_deferE [preserve]:
  assumes m: "preserves I m" and c: "preserves I c"
  shows "preserves I (deferE m c)"
proof (rule preservesI)
  fix s assume "I s"
  then have im: "I (snd (m s))" using m by (simp add: preserves_def)
  then have "I (snd (c (snd (m s))))" using c by (simp add: preserves_def)
  then show "I (snd (deferE m c s))"
    by (cases "m s") (auto simp: deferE_def split: sum.splits prod.splits)
qed

lemma preserves_onErrorE [preserve]:
  assumes m: "preserves I m" and c: "preserves I c"
  shows "preserves I (onErrorE m c)"
proof (rule preservesI)
  fix s assume "I s"
  then have im: "I (snd (m s))" using m by (simp add: preserves_def)
  then have "I (snd (c (snd (m s))))" using c by (simp add: preserves_def)
  with im show "I (snd (onErrorE m c s))"
    by (cases "m s") (auto simp: onErrorE_def split: sum.splits prod.splits)
qed

lemma preserves_finallyE [preserve]: "preserves I m \<Longrightarrow> preserves I c \<Longrightarrow> preserves I (finallyE m c)"
  by (simp add: preserves_def finallyE_def)

lemma preserves_mapE [preserve]: "(\<And>x. preserves I (f x)) \<Longrightarrow> preserves I (mapE f xs)"
  by (induction xs) (auto intro!: preserve)

lemma preserves_forE [preserve]: "(\<And>x. preserves I (f x)) \<Longrightarrow> preserves I (forE f xs)"
  by (induction xs) (auto intro!: preserve)

lemma preserves_if [preserve]:
  "(b \<Longrightarrow> preserves I m) \<Longrightarrow> (\<not> b \<Longrightarrow> preserves I n) \<Longrightarrow> preserves I (if b then m else n)"
  by simp

lemma preserves_option [preserve]:
  "preserves I m \<Longrightarrow> (\<And>x. preserves I (f x)) \<Longrightarrow>
   preserves I (case v of None \<Rightarrow> m | Some x \<Rightarrow> f x)"
  by (cases v) auto

lemma preserves_sum [preserve]:
  "(\<And>x. preserves I (f x)) \<Longrightarrow> (\<And>x. preserves I (g x)) \<Longrightarrow>
   preserves I (case v of Inl x \<Rightarrow> f x | Inr x \<Rightarrow> g x)"
  by (cases v) auto

lemma preserves_prod [preserve]:
  "(\<And>x y. preserves I (f x y)) \<Longrightarrow> preserves I (case v of (x, y) \<Rightarrow> f x y)"
  by (cases v) auto

subsection \<open>What an operation returns\<close>

text \<open>
  \<open>triple P m Q\<close>: when \<open>m\<close> starts in a state with \<open>P\<close> and returns without an error, its
  result and its new state satisfy \<open>Q\<close>.
\<close>

definition triple :: "('s \<Rightarrow> bool) \<Rightarrow> ('s, 'e, 'a) sm \<Rightarrow> ('a \<Rightarrow> 's \<Rightarrow> bool) \<Rightarrow> bool" where
  "triple P m Q \<longleftrightarrow> (\<forall>s x t. P s \<longrightarrow> m s = (Inr x, t) \<longrightarrow> Q x t)"

lemma tripleI: "(\<And>s x t. P s \<Longrightarrow> m s = (Inr x, t) \<Longrightarrow> Q x t) \<Longrightarrow> triple P m Q"
  by (simp add: triple_def)

lemma tripleD: "triple P m Q \<Longrightarrow> P s \<Longrightarrow> m s = (Inr x, t) \<Longrightarrow> Q x t"
  by (simp add: triple_def)

lemma triple_returnE: "(\<And>s. P s \<Longrightarrow> Q x s) \<Longrightarrow> triple P (returnE x) Q"
  by (simp add: triple_def returnE_def)

lemma triple_modifyE: "(\<And>s. P s \<Longrightarrow> Q () (f s)) \<Longrightarrow> triple P (modifyE f) Q"
  by (simp add: triple_def modifyE_def)

lemma triple_getE: "(\<And>s. P s \<Longrightarrow> Q (f s) s) \<Longrightarrow> triple P (getE f) Q"
  by (auto simp: triple_def getE_def)

lemma triple_bindE: "triple P m R \<Longrightarrow> (\<And>x. triple (R x) (f x) Q) \<Longrightarrow> triple P (bindE m f) Q"
  unfolding triple_def bindE_Inr_iff by blast

lemma triple_keep: "preserves P m \<Longrightarrow> triple P m (\<lambda>_. P)"
  unfolding triple_def preserves_def by (metis snd_conv)

lemma triple_step: "preserves P m \<Longrightarrow> (\<And>x. triple P (f x) Q) \<Longrightarrow> triple P (bindE m f) Q"
  by (rule triple_bindE[OF triple_keep])

lemma triple_pre: "triple R m Q \<Longrightarrow> (\<And>s. P s \<Longrightarrow> R s) \<Longrightarrow> triple P m Q"
  unfolding triple_def by blast

lemma triple_facts: "(F \<Longrightarrow> triple P m Q) \<Longrightarrow> triple (\<lambda>s. F \<and> P s) m Q"
  by (auto simp: triple_def)

lemma triple_const: "(F \<Longrightarrow> triple (\<lambda>_. True) m Q) \<Longrightarrow> triple (\<lambda>_. F) m Q"
  by (auto simp: triple_def)

lemma preserves_True: "preserves (\<lambda>_. True) m"
  by (simp add: preserves_def)

subsection \<open>Results as values\<close>

definition bindR :: "'e + 'a \<Rightarrow> ('a \<Rightarrow> 'e + 'b) \<Rightarrow> 'e + 'b" where
  "bindR r f = (case r of Inl e \<Rightarrow> Inl e | Inr x \<Rightarrow> f x)"

lemma bindR_simps [simp]: "bindR (Inl e) f = Inl e" "bindR (Inr x) f = f x"
  by (simp_all add: bindR_def)

lemma bindR_Inr_iff: "bindR r f = Inr y \<longleftrightarrow> (\<exists>x. r = Inr x \<and> f x = Inr y)"
  by (cases r) auto

lemma bindR_Inl_iff:
  "bindR r f = Inl e \<longleftrightarrow> r = Inl e \<or> (\<exists>x. r = Inr x \<and> f x = Inl e)"
  by (cases r) auto

text \<open>The error of a check that returns only an error: \<open>None\<close> is Go's nil.\<close>

definition checkR :: "'e option \<Rightarrow> 'e + unit" where
  "checkR c = (case c of None \<Rightarrow> Inr () | Some e \<Rightarrow> Inl e)"

lemma checkR_simps [simp]:
  "checkR None = Inr ()" "checkR (Some e) = Inl e"
  "checkR c = Inr u \<longleftrightarrow> c = None" "checkR c = Inl e \<longleftrightarrow> c = Some e"
  by (auto simp: checkR_def split: option.splits)

end
