(* ===== verification/GoLib.thy ===== *)
theory GoLib
  imports Prelude
begin

section \<open>The parts of Go's standard library that the sources use\<close>

text \<open>
  Bytes and Go strings are both \<open>string\<close>, a list of 8-bit characters. This theory models
  \<^verbatim>\<open>bytes.Split\<close>, \<^verbatim>\<open>bytes.SplitN\<close> and \<^verbatim>\<open>bytes.Join\<close> for a separator of one byte,
  \<^verbatim>\<open>strconv.FormatUint\<close> and \<^verbatim>\<open>strconv.ParseUint\<close> in base 10, \<^verbatim>\<open>bufio.Scanner\<close> with
  \<^verbatim>\<open>bufio.ScanLines\<close>, \<^verbatim>\<open>strings.ToLower\<close>, and \<^verbatim>\<open>filepath.Clean\<close>, \<^verbatim>\<open>Join\<close>, \<^verbatim>\<open>Dir\<close> and
  \<^verbatim>\<open>Base\<close> for Unix. The lemmas are the round trips the components need.
\<close>

subsection \<open>Splitting and joining\<close>

fun bytes_split :: "char \<Rightarrow> bytes \<Rightarrow> bytes list" where
  "bytes_split c [] = [[]]"
| "bytes_split c (x # xs) =
     (if x = c then [] # bytes_split c xs
      else (case bytes_split c xs of [] \<Rightarrow> [[x]] | y # ys \<Rightarrow> (x # y) # ys))"

text \<open>\<open>bytes_splitN c n s\<close>: at most \<open>n\<close> parts, the last one is the unsplit remainder.\<close>

fun bytes_splitN :: "char \<Rightarrow> nat \<Rightarrow> bytes \<Rightarrow> bytes list" where
  "bytes_splitN c 0 s = []"
| "bytes_splitN c (Suc 0) s = [s]"
| "bytes_splitN c (Suc (Suc n)) s =
     (case dropWhile (\<lambda>x. x \<noteq> c) s of
        [] \<Rightarrow> [s]
      | _ # rest \<Rightarrow> takeWhile (\<lambda>x. x \<noteq> c) s # bytes_splitN c (Suc n) rest)"

fun bytes_join :: "char \<Rightarrow> bytes list \<Rightarrow> bytes" where
  "bytes_join c [] = []"
| "bytes_join c [x] = x"
| "bytes_join c (x # y # ys) = x @ c # bytes_join c (y # ys)"

lemma bytes_split_nonempty [simp]: "bytes_split c s \<noteq> []"
  by (cases s) (auto split: list.splits)

lemma takeWhile_sep [simp]:
  "c \<notin> set x \<Longrightarrow> takeWhile (\<lambda>z. z \<noteq> c) (x @ c # r) = x"
  "c \<notin> set x \<Longrightarrow> dropWhile (\<lambda>z. z \<noteq> c) (x @ c # r) = c # r"
  "c \<notin> set x \<Longrightarrow> takeWhile (\<lambda>z. z \<noteq> c) x = x"
  "c \<notin> set x \<Longrightarrow> dropWhile (\<lambda>z. z \<noteq> c) x = []"
  by (induction x) auto

lemma bytes_split_noSep: "c \<notin> set x \<Longrightarrow> bytes_split c x = [x]"
  by (induction x) auto

lemma bytes_split_append:
  "c \<notin> set x \<Longrightarrow> bytes_split c (x @ c # r) = x # bytes_split c r"
  by (induction x) auto

lemma bytes_split_join:
  "xs \<noteq> [] \<Longrightarrow> \<forall>x \<in> set xs. c \<notin> set x \<Longrightarrow> bytes_split c (bytes_join c xs) = xs"
  by (induction c xs rule: bytes_join.induct) (auto simp: bytes_split_noSep bytes_split_append)

lemma bytes_join_split: "bytes_join c (bytes_split c s) = s"
proof (induction s)
  case (Cons a s)
  then show ?case by (cases "bytes_split c s"; cases "tl (bytes_split c s)") auto
qed simp

lemma bytes_splitN_join:
  "xs \<noteq> [] \<Longrightarrow> length xs \<le> n \<Longrightarrow> \<forall>x \<in> set xs. c \<notin> set x \<Longrightarrow>
   bytes_splitN c n (bytes_join c xs) = xs"
proof (induction c xs arbitrary: n rule: bytes_join.induct)
  case (1 c)
  then show ?case by simp
next
  case (2 c x)
  then show ?case by (cases "(c, n, x)" rule: bytes_splitN.cases) auto
next
  case (3 c x y ys)
  then obtain m where n: "n = Suc (Suc m)"
    by (cases n; cases "n - 1") auto
  have "bytes_splitN c (Suc m) (bytes_join c (y # ys)) = y # ys"
    using 3 n by simp
  with 3 n show ?case by simp
qed

lemma set_bytes_split: "x \<in> set (bytes_split c s) \<Longrightarrow> set x \<subseteq> set s - {c}"
proof (induction c s arbitrary: x rule: bytes_split.induct)
  case (1 c)
  then show ?case by simp
next
  case (2 c a s)
  show ?case
  proof (cases "a = c")
    case True
    with 2 show ?thesis by force
  next
    case False
    obtain y ys where ys: "bytes_split c s = y # ys"
      by (cases "bytes_split c s") auto
    have mem: "\<And>z. z \<in> set (y # ys) \<Longrightarrow> set z \<subseteq> set s - {c}"
      using "2.IH"(2) False ys by simp
    from "2.prems" False ys have "x = a # y \<or> x \<in> set ys" by simp
    then show ?thesis
    proof
      assume "x = a # y"
      with mem[of y] False show ?thesis by auto
    next
      assume "x \<in> set ys"
      with mem[of x] show ?thesis by auto
    qed
  qed
qed

lemma set_bytes_splitN:
  "length (bytes_splitN c n s) < n \<Longrightarrow> x \<in> set (bytes_splitN c n s) \<Longrightarrow> set x \<subseteq> set s - {c}"
proof (induction c n s arbitrary: x rule: bytes_splitN.induct)
  case (3 c n s)
  show ?case
  proof (cases "dropWhile (\<lambda>x. x \<noteq> c) s")
    case Nil
    then have "c \<notin> set s"
      by (metis (mono_tags, lifting) dropWhile_eq_Nil_conv)
    with Nil "3.prems" show ?thesis by auto
  next
    case (Cons a r)
    then have sub: "set r \<subseteq> set s"
      by (metis set_dropWhileD set_subset_Cons subset_code(1))
    from Cons "3.prems" have len: "length (bytes_splitN c (Suc n) r) < Suc n" by simp
    from Cons "3.prems"(2)
    have "x = takeWhile (\<lambda>x. x \<noteq> c) s \<or> x \<in> set (bytes_splitN c (Suc n) r)" by simp
    then show ?thesis
    proof
      assume "x = takeWhile (\<lambda>x. x \<noteq> c) s"
      then show ?thesis by (auto dest: set_takeWhileD)
    next
      assume "x \<in> set (bytes_splitN c (Suc n) r)"
      with "3.IH"[OF Cons len] sub show ?thesis by auto
    qed
  qed
qed auto

lemma bytes_join_splitN: "0 < n \<Longrightarrow> bytes_join c (bytes_splitN c n s) = s"
proof (induction c n s rule: bytes_splitN.induct)
  case (3 c n s)
  show ?case
  proof (cases "dropWhile (\<lambda>x. x \<noteq> c) s")
    case Nil
    then have "bytes_splitN c (Suc (Suc n)) s = [s]" by (simp only: bytes_splitN.simps list.case)
    then show ?thesis by simp
  next
    case (Cons a r)
    then have a: "a = c" by (metis (mono_tags, lifting) dropWhile_eq_Cons_conv)
    have ne: "bytes_splitN c (Suc n) r \<noteq> []"
      by (cases n) (auto split: list.splits)
    then obtain y ys where y: "bytes_splitN c (Suc n) r = y # ys"
      by (cases "bytes_splitN c (Suc n) r") auto
    have "bytes_join c (bytes_splitN c (Suc n) r) = r" using "3.IH"[OF Cons] by simp
    with Cons a y show ?thesis
      by simp (metis Cons takeWhile_dropWhile_id)
  qed
qed auto

subsection \<open>Decimal numbers\<close>

definition is_digit :: "char \<Rightarrow> bool" where
  "is_digit c \<longleftrightarrow> 48 \<le> (of_char c :: nat) \<and> (of_char c :: nat) \<le> 57"

definition digit_char :: "nat \<Rightarrow> char" where
  "digit_char d = char_of (48 + d)"

definition digit_val :: "char \<Rightarrow> nat" where
  "digit_val c = of_char c - 48"

fun format_uint :: "nat \<Rightarrow> bytes" where
  "format_uint n = (if n < 10 then [digit_char n] else format_uint (n div 10) @ [digit_char (n mod 10)])"

declare format_uint.simps [simp del]

definition digits_val :: "bytes \<Rightarrow> nat" where
  "digits_val s = foldl (\<lambda>a c. 10 * a + digit_val c) 0 s"

text \<open>
  \<^verbatim>\<open>strconv.ParseUint(s, 10, bits)\<close>: a non-empty string of digits whose value fits. Its two
  errors, syntax and range, are one \<open>None\<close>: no caller distinguishes them.
\<close>

definition parse_uint :: "nat \<Rightarrow> bytes \<Rightarrow> nat option" where
  "parse_uint bits s =
     (if s = [] \<or> \<not> list_all is_digit s then None
      else if digits_val s < 2 ^ bits then Some (digits_val s) else None)"

lemma digit_char_simps [simp]:
  "d < 10 \<Longrightarrow> is_digit (digit_char d)" "d < 10 \<Longrightarrow> digit_val (digit_char d) = d"
  by (simp_all add: is_digit_def digit_char_def digit_val_def)

lemma format_uint_nonempty [simp]: "format_uint n \<noteq> []"
  by (subst format_uint.simps) simp

lemma format_uint_digits: "list_all is_digit (format_uint n)"
proof (induction n rule: format_uint.induct)
  case (1 n)
  then show ?case by (cases "n < 10") (simp_all add: format_uint.simps[of n])
qed

lemma digits_val_snoc: "digits_val (s @ [c]) = 10 * digits_val s + digit_val c"
  by (simp add: digits_val_def)

lemma digits_val_format_uint: "digits_val (format_uint n) = n"
proof (induction n rule: format_uint.induct)
  case (1 n)
  show ?case
  proof (cases "n < 10")
    case True
    then show ?thesis by (simp add: format_uint.simps[of n]) (simp add: digits_val_def)
  next
    case False
    with 1 show ?thesis by (simp add: format_uint.simps[of n] digits_val_snoc)
  qed
qed

lemma parse_format_uint: "n < 2 ^ bits \<Longrightarrow> parse_uint bits (format_uint n) = Some n"
  by (simp add: parse_uint_def format_uint_digits digits_val_format_uint)

lemma format_uint_inj: "format_uint m = format_uint n \<Longrightarrow> m = n"
  by (metis digits_val_format_uint)

text \<open>Signed numbers of 64 bits.\<close>

definition int64 :: "int \<Rightarrow> bool" where
  "int64 n \<longleftrightarrow> -(2 ^ 63) \<le> n \<and> n < 2 ^ 63"

definition format_int :: "int \<Rightarrow> bytes" where
  "format_int n = (if n < 0 then CHR ''-'' # format_uint (nat (-n)) else format_uint (nat n))"

text \<open>\<^verbatim>\<open>strconv.Atoi\<close>: an optional sign and decimal digits, in the range of 64 bits.\<close>

definition strconv_Atoi :: "bytes \<Rightarrow> int option" where
  "strconv_Atoi t =
     (let (neg, digits) = (case t of c # cs \<Rightarrow> if c = CHR ''-'' then (True, cs) else if c = CHR ''+'' then (False, cs) else (False, t) | [] \<Rightarrow> (False, [])) in
      case parse_uint 64 digits of
        None \<Rightarrow> None
      | Some n \<Rightarrow> (let v = (if neg then - int n else int n) in if int64 v then Some v else None))"

lemma atoi_format_int:
  assumes "int64 n"
  shows "strconv_Atoi (format_int n) = Some n"
proof -
  have h: "hd (format_uint k) \<noteq> CHR ''-''" "hd (format_uint k) \<noteq> CHR ''+''" for k
    using format_uint_digits[of k] format_uint_nonempty[of k] by (cases "format_uint k"; auto simp: is_digit_def)+
  have p: "n < 0 \<Longrightarrow> nat (- n) < 2 ^ 64" "n \<ge> 0 \<Longrightarrow> nat n < 2 ^ 64"
    using assms by (auto simp: int64_def)
  show ?thesis
  proof (cases "n < 0")
    case True
    then show ?thesis using assms parse_format_uint[OF p(1)] by (simp add: strconv_Atoi_def format_int_def)
  next
    case False
    then obtain c cs where c: "format_uint (nat n) = c # cs" using format_uint_nonempty by (cases "format_uint (nat n)") auto
    with False h[of "nat n"] assms parse_format_uint[OF p(2)] show ?thesis by (simp add: strconv_Atoi_def format_int_def)
  qed
qed

lemma not_digit_notin_format: "\<not> is_digit c \<Longrightarrow> c \<notin> set (format_uint n)"
  using format_uint_digits[of n] by (auto simp: list_all_iff)

subsection \<open>Reading lines\<close>

text \<open>
  \<^verbatim>\<open>bufio.NewScanner\<close> with \<^verbatim>\<open>ScanLines\<close>. A line ends at a newline or at the end of the data,
  one trailing carriage return is dropped, and a line whose newline is not within the first
  \<open>max\<close> bytes stops the scan (\<^verbatim>\<open>Scan\<close> returns false; the error is in \<^verbatim>\<open>Err\<close>). The default
  bound is \<open>bufio_MaxScanTokenSize\<close>. Lines are values here, as for callers that keep no slice of the
  scanner's buffer; \<open>LineScanner\<close> has the buffer.
\<close>

definition bufio_MaxScanTokenSize :: nat where
  "bufio_MaxScanTokenSize = 64 * 1024"

definition dropCR :: "bytes \<Rightarrow> bytes" where
  "dropCR l = (if l \<noteq> [] \<and> last l = CHR 0x0D then butlast l else l)"

function scan_lines :: "nat \<Rightarrow> bytes \<Rightarrow> bytes list" where
  "scan_lines mx s =
     (if s = [] then []
      else let l = takeWhile (\<lambda>x. x \<noteq> CHR 0x0A) s in
        if mx \<le> length l then []
        else dropCR l # scan_lines mx (drop 1 (dropWhile (\<lambda>x. x \<noteq> CHR 0x0A) s)))"
  by pat_completeness auto
termination
proof (relation "measure (\<lambda>(mx, s). length s)", goal_cases)
  case 1
  show ?case by simp
next
  case (2 mx s l)
  have le: "length (dropWhile (\<lambda>x. x \<noteq> CHR 0x0A) s) \<le> length s" by (rule length_dropWhile_le)
  from 2(1) have "0 < length s" by simp
  with le have "length (drop 1 (dropWhile (\<lambda>x. x \<noteq> CHR 0x0A) s)) < length s"
    unfolding length_drop by linarith
  then show ?case by (simp only: measure_def inv_image_def less_than_iff case_prod_conv mem_Collect_eq)
qed

declare scan_lines.simps [simp del]

lemma scan_lines_Nil [simp]: "scan_lines mx [] = []"
  by (subst scan_lines.simps) simp

lemma scan_lines_Cons:
  "CHR 0x0A \<notin> set l \<Longrightarrow> length l < mx \<Longrightarrow>
   scan_lines mx (l @ CHR 0x0A # r) = dropCR l # scan_lines mx r"
  by (subst scan_lines.simps) (simp add: Let_def)

lemma dropCR_id: "(l = [] \<or> last l \<noteq> CHR 0x0D) \<Longrightarrow> dropCR l = l"
  by (auto simp: dropCR_def)

text \<open>A list of lines, each ended by a newline, is read back as it was written.\<close>

definition plain_line :: "nat \<Rightarrow> bytes \<Rightarrow> bool" where
  "plain_line mx l \<longleftrightarrow>
     CHR 0x0A \<notin> set l \<and> (l = [] \<or> last l \<noteq> CHR 0x0D) \<and> length l < mx"

lemma scan_lines_concat:
  "\<forall>l \<in> set ls. plain_line mx l \<Longrightarrow>
   scan_lines mx (concat (map (\<lambda>l. l @ [CHR 0x0A]) ls)) = ls"
  by (induction ls) (auto simp: plain_line_def scan_lines_Cons dropCR_id)

subsection \<open>Lower case\<close>

text \<open>
  \<^verbatim>\<open>strings.ToLower\<close>, exact as far as the result is compared with ASCII literals, the only use
  the sources make of it: beside the ASCII capitals, two code points have an ASCII lower
  case, U+0130 (bytes C4 B0) and U+212A (bytes E2 84 AA).
\<close>

definition char_lower :: "char \<Rightarrow> char" where
  "char_lower c = (let n = of_char c :: nat in if 65 \<le> n \<and> n \<le> 90 then char_of (n + 32) else c)"

fun to_lower :: "bytes \<Rightarrow> bytes" where
  "to_lower (a # b # c # r) =
     (if a = CHR 0xC4 \<and> b = CHR 0xB0 then CHR ''i'' # to_lower (c # r)
      else if a = CHR 0xE2 \<and> b = CHR 0x84 \<and> c = CHR 0xAA then CHR ''k'' # to_lower r
      else char_lower a # to_lower (b # c # r))"
| "to_lower [a, b] = (if a = CHR 0xC4 \<and> b = CHR 0xB0 then ''i'' else [char_lower a, char_lower b])"
| "to_lower [a] = [char_lower a]"
| "to_lower [] = []"

subsection \<open>Paths\<close>

text \<open>\<^verbatim>\<open>filepath.Clean\<close>: the components of a path, \<^verbatim>\<open>.\<close> and empty ones dropped, \<^verbatim>\<open>..\<close> resolved.\<close>

fun clean_components :: "bool \<Rightarrow> bytes list \<Rightarrow> bytes list \<Rightarrow> bytes list" where
  "clean_components rooted out [] = rev out"
| "clean_components rooted out (p # ps) =
     (if p = [] \<or> p = ''.'' then clean_components rooted out ps
      else if p = ''..'' then
        (case out of
           [] \<Rightarrow> clean_components rooted (if rooted then [] else [''..'']) ps
         | q # qs \<Rightarrow> if q = ''..'' then clean_components rooted (''..'' # out) ps
                    else clean_components rooted qs ps)
      else clean_components rooted (p # out) ps)"

definition filepath_Clean :: "bytes \<Rightarrow> bytes" where
  "filepath_Clean path =
     (if path = [] then ''.''
      else let rooted = (hd path = CHR ''/'');
               body = bytes_join (CHR ''/'') (clean_components rooted [] (bytes_split (CHR ''/'') path))
           in if rooted then CHR ''/'' # body else if body = [] then ''.'' else body)"

definition filepath_Join :: "bytes list \<Rightarrow> bytes" where
  "filepath_Join elems =
     (let es = dropWhile (\<lambda>e. e = []) elems in
      if es = [] then [] else filepath_Clean (bytes_join (CHR ''/'') es))"

definition filepath_Dir :: "bytes \<Rightarrow> bytes" where
  "filepath_Dir path = filepath_Clean (rev (dropWhile (\<lambda>c. c \<noteq> CHR ''/'') (rev path)))"

definition filepath_Base :: "bytes \<Rightarrow> bytes" where
  "filepath_Base path =
     (if path = [] then ''.''
      else let p = rev (dropWhile (\<lambda>c. c = CHR ''/'') (rev path)) in
        if p = [] then ''/''
        else rev (takeWhile (\<lambda>c. c \<noteq> CHR ''/'') (rev p)))"

lemma clean_components_no_slash:
  assumes "\<forall>p \<in> set out. CHR ''/'' \<notin> set p" and "\<forall>p \<in> set ps. CHR ''/'' \<notin> set p"
    and "p \<in> set (clean_components r out ps)"
  shows "CHR ''/'' \<notin> set p"
  using assms
proof (induction r out ps rule: clean_components.induct)
  case (1 rooted out)
  then show ?case by simp
next
  case (2 rooted out q qs)
  then show ?case by (auto split: if_splits list.splits)
qed

subsection \<open>UTF-8\<close>

text \<open>
  \<^verbatim>\<open>utf8.ValidString\<close>. \<^verbatim>\<open>json.Marshal\<close> replaces what is not UTF-8, so that only texts of valid names decode to
  what was encoded.
\<close>

fun utf8_valid :: "nat list \<Rightarrow> bool" where
  "utf8_valid [] \<longleftrightarrow> True"
| "utf8_valid (a # r) \<longleftrightarrow>
     (let cont = (\<lambda>x lo hi. lo \<le> x \<and> x \<le> (hi :: nat)) in
      if a < 128 then utf8_valid r
      else case r of
          [] \<Rightarrow> False
        | b # r2 \<Rightarrow>
            if 194 \<le> a \<and> a \<le> 223 then cont b 128 191 \<and> utf8_valid r2
            else case r2 of
                [] \<Rightarrow> False
              | c # r3 \<Rightarrow>
                  if 224 \<le> a \<and> a \<le> 239
                  then cont b (if a = 224 then 160 else 128) (if a = 237 then 159 else 191) \<and> cont c 128 191 \<and> utf8_valid r3
                  else case r3 of
                      [] \<Rightarrow> False
                    | e # r4 \<Rightarrow>
                        240 \<le> a \<and> a \<le> 244 \<and> cont b (if a = 240 then 144 else 128) (if a = 244 then 143 else 191) \<and>
                        cont c 128 191 \<and> cont e 128 191 \<and> utf8_valid r4)"

definition utf8_ValidString :: "bytes \<Rightarrow> bool" where
  "utf8_ValidString t \<longleftrightarrow> utf8_valid (map of_char t)"

lemma utf8_ValidString_Nil [simp]: "utf8_ValidString []"
  by (simp add: utf8_ValidString_def)

lemma utf8_ValidString_ascii [simp]: "(of_char c :: nat) < 128 \<Longrightarrow> utf8_ValidString (c # t) = utf8_ValidString t"
  by (simp add: utf8_ValidString_def)

end
