(* ===== verification/AuthorizedKeys.thy ===== *)
theory AuthorizedKeys
  imports GoLib
begin

section \<open>Authorized keys (pkg/crypto/authorized-keys*.go)\<close>

text \<open>
  The format of \<^verbatim>\<open>authorized_keys\<close> files: lines with options, an algorithm, a key and a comment. What the
  package takes from elsewhere is an argument: \<open>unquote\<close> is \<^verbatim>\<open>strconv.Unquote\<close>, \<open>parseKey\<close> decodes the base64
  text of a key and parses it with \<^verbatim>\<open>x/crypto/ssh\<close>. A consumer is a function with its closure's variables as
  an accumulator; it answers whether to go on.
\<close>

subsection \<open>Space\<close>

text \<open>\<^verbatim>\<open>bytes.TrimSpace\<close>: the UTF-8 texts of the code points that \<^verbatim>\<open>unicode.IsSpace\<close> accepts.\<close>

definition space_encodings :: "bytes list" where
  "space_encodings =
     [[CHR 0x09], [CHR 0x0A], [CHR 0x0B], [CHR 0x0C], [CHR 0x0D], '' '', [CHR 0xC2, CHR 0x85], [CHR 0xC2, CHR 0xA0],
      [CHR 0xE1, CHR 0x9A, CHR 0x80], [CHR 0xE2, CHR 0x80, CHR 0xA8], [CHR 0xE2, CHR 0x80, CHR 0xA9],
      [CHR 0xE2, CHR 0x80, CHR 0xAF], [CHR 0xE2, CHR 0x81, CHR 0x9F], [CHR 0xE3, CHR 0x80, CHR 0x80],
      [CHR 0xE2, CHR 0x80, CHR 0x80], [CHR 0xE2, CHR 0x80, CHR 0x81], [CHR 0xE2, CHR 0x80, CHR 0x82],
      [CHR 0xE2, CHR 0x80, CHR 0x83], [CHR 0xE2, CHR 0x80, CHR 0x84], [CHR 0xE2, CHR 0x80, CHR 0x85],
      [CHR 0xE2, CHR 0x80, CHR 0x86], [CHR 0xE2, CHR 0x80, CHR 0x87], [CHR 0xE2, CHR 0x80, CHR 0x88],
      [CHR 0xE2, CHR 0x80, CHR 0x89], [CHR 0xE2, CHR 0x80, CHR 0x8A]]"

function trim_leading :: "bytes list \<Rightarrow> bytes \<Rightarrow> bytes" where
  "trim_leading es s =
     (case find (\<lambda>e. e \<noteq> [] \<and> take (length e) s = e) es of
        None \<Rightarrow> s
      | Some e \<Rightarrow> trim_leading es (drop (length e) s))"
  by pat_completeness auto
termination
proof (relation "measure (\<lambda>(es, s). length s)", goal_cases)
  case (2 es s e)
  then have e: "e \<noteq> []" "take (length e) s = e" by (auto simp: find_Some_iff)
  then have "0 < length e" "length e \<le> length s" by (simp, metis length_take min.cobounded1)
  then have "length (drop (length e) s) < length s" unfolding length_drop by linarith
  then show ?case by simp
qed simp

declare trim_leading.simps [simp del]

definition bytes_TrimSpace :: "bytes \<Rightarrow> bytes" where
  "bytes_TrimSpace s = rev (trim_leading (map rev space_encodings) (rev (trim_leading space_encodings s)))"

subsection \<open>Options\<close>

type_synonym key_option_type = "8 word"

text \<open>The constants, by their number.\<close>

definition authorizedKeyOptionTypeToName :: "(key_option_type \<times> bytes) list" where
  "authorizedKeyOptionTypeToName =
     [(0, ''''), (1, ''agent-forwarding''), (2, ''no-agent-forwarding''), (3, ''cert-authority''), (4, ''command''),
      (5, ''environment''), (6, ''expiry-time''), (7, ''from''), (8, ''permitlisten''), (9, ''permitopen''),
      (10, ''principals''), (11, ''port-forwarding''), (12, ''no-port-forwarding''), (13, ''pty''), (14, ''no-pty''),
      (15, ''no-touch-required''), (16, ''verify-required''), (17, ''restrict''), (18, ''tunnel''), (19, ''user-rc''),
      (20, ''no-user-rc''), (21, ''x11-forwarding''), (22, ''no-x11-forwarding'')]"

definition OptionType_MarshalText :: "key_option_type \<Rightarrow> bytes option" where
  "OptionType_MarshalText t = map_of authorizedKeyOptionTypeToName t"

definition OptionType_UnmarshalText :: "bytes \<Rightarrow> key_option_type option" where
  "OptionType_UnmarshalText text = map_of (map (\<lambda>(t, n). (n, t)) authorizedKeyOptionTypeToName) text"

definition OptionType_hasValue :: "key_option_type \<Rightarrow> bool" where
  "OptionType_hasValue t \<longleftrightarrow> t \<in> {4, 5, 6, 7, 8, 9, 10, 18}"

record key_option =
  ko_Type :: key_option_type
  ko_Value :: bytes

definition KeyOption_UnmarshalText :: "(bytes \<Rightarrow> bytes option) \<Rightarrow> bytes \<Rightarrow> key_option option" where
  "KeyOption_UnmarshalText unquote text =
     (let parts = bytes_splitN (CHR ''='') 2 text in
      case OptionType_UnmarshalText (hd parts) of
        None \<Rightarrow> None
      | Some t \<Rightarrow>
          if OptionType_hasValue t then
            (if length parts \<noteq> 2 then None
             else map_option (\<lambda>v. \<lparr>ko_Type = t, ko_Value = v\<rparr>) (unquote (parts ! 1)))
          else if length parts > 1 then None
          else Some \<lparr>ko_Type = t, ko_Value = []\<rparr>)"

subsection \<open>One line\<close>

datatype keys_err = ErrIllegalSshKey | ErrIllegalAuthorizedKeysFormat | ErrLineTooLong | ErrNoAuthorizedKeys

definition sshKeyAlgos :: "bytes list" where
  "sshKeyAlgos =
     [''ssh-rsa'', ''ssh-dss'', ''ecdsa-sha2-nistp256'', ''ecdsa-sha2-nistp384'', ''ecdsa-sha2-nistp521'',
      ''sk-ecdsa-sha2-nistp256@openssh.com'', ''ssh-ed25519'', ''sk-ssh-ed25519@openssh.com'']"

definition getSshKeyAlgo :: "bytes \<Rightarrow> bytes" where
  "getSshKeyAlgo s = (if s \<in> set sshKeyAlgos then s else [])"

definition isBlank :: "char \<Rightarrow> bool" where
  "isBlank c \<longleftrightarrow> c = CHR '' '' \<or> c = CHR 0x09"

definition cutOffSshKeyAlgo :: "bytes \<Rightarrow> bytes \<times> bytes" where
  "cutOffSshKeyAlgo s =
     (case dropWhile (\<lambda>c. \<not> isBlank c) s of
        [] \<Rightarrow> ([], s)
      | _ # rest \<Rightarrow>
          (let algo = getSshKeyAlgo (takeWhile (\<lambda>c. \<not> isBlank c) s) in if algo = [] then ([], s) else (algo, rest)))"

text \<open>
  The loop over the options: \<open>prev\<close> is the byte before, \<open>cur\<close> the text since the last comma. It ends at the first
  blank outside quotes, with the line from there, or at the end of the line, with its last byte.
\<close>

fun optionScan ::
    "(bytes \<Rightarrow> bytes option) \<Rightarrow> bool \<Rightarrow> char option \<Rightarrow> bytes \<Rightarrow> key_option list \<Rightarrow> bytes \<Rightarrow> (key_option list \<times> bytes) option" where
  "optionScan unquote inQuote prev cur opts [] = Some (opts, case prev of None \<Rightarrow> [] | Some c \<Rightarrow> [c])"
| "optionScan unquote inQuote prev cur opts (b # bs) =
     (let isEnd = (\<not> inQuote \<and> isBlank b) in
      if (b = CHR '','' \<and> \<not> inQuote) \<or> isEnd then
        (case (if cur = [] then Some opts else map_option (\<lambda>v. opts @ [v]) (KeyOption_UnmarshalText unquote cur)) of
           None \<Rightarrow> None
         | Some opts' \<Rightarrow>
             if isEnd then Some (opts', b # bs) else optionScan unquote inQuote (Some b) [] opts' bs)
      else optionScan unquote (if b = CHR 0x22 \<and> prev \<noteq> Some (CHR 0x5C) then \<not> inQuote else inQuote) (Some b) (cur @ [b]) opts bs)"

text \<open>\<open>None\<close> as the key: the line is empty or a comment.\<close>

definition parseAuthorizedKey ::
    "(bytes \<Rightarrow> bytes option) \<Rightarrow> (bytes \<Rightarrow> 'k option) \<Rightarrow> bytes \<Rightarrow> keys_err + ('k \<times> bytes \<times> key_option list) option" where
  "parseAuthorizedKey unquote parseKey line0 =
     (let line1 = bytes_TrimSpace line0 in
      if line1 = [] \<or> hd line1 = CHR ''#'' then Inr None
      else
        let (algo1, line2) = cutOffSshKeyAlgo line1 in
        bindR
          (if algo1 \<noteq> [] then Inr (algo1, line2, [])
           else case optionScan unquote False None [] [] line2 of
               None \<Rightarrow> Inl ErrIllegalAuthorizedKeysFormat
             | Some (options, rest) \<Rightarrow>
                 (let rest' = dropWhile isBlank rest in
                  if rest' = [] then Inl ErrIllegalAuthorizedKeysFormat
                  else let (algo2, line3) = cutOffSshKeyAlgo rest' in Inr (algo2, line3, options)))
          (\<lambda>(algo, line, options).
           if algo = [] then Inl ErrIllegalAuthorizedKeysFormat
           else
             let (base64Key, comment) =
               (case dropWhile (\<lambda>c. \<not> isBlank c) line of
                  [] \<Rightarrow> (bytes_TrimSpace line, [])
                | _ # rest \<Rightarrow> (bytes_TrimSpace (takeWhile (\<lambda>c. \<not> isBlank c) line), bytes_TrimSpace rest))
             in case parseKey base64Key of
                 None \<Rightarrow> Inl ErrIllegalSshKey
               | Some out \<Rightarrow> Inr (Some (out, comment, options))))"

subsection \<open>A whole file\<close>

definition maxAuthorizedKeysLineSize :: nat where
  "maxAuthorizedKeysLineSize = 10 * 1024"

type_synonym ('k, 'acc) key_consumer = "nat \<Rightarrow> 'k \<Rightarrow> bytes \<Rightarrow> key_option list \<Rightarrow> 'acc \<Rightarrow> keys_err + 'acc \<times> bool"

text \<open>The loop over the lines; the flag of the result tells whether the scanner came to its end.\<close>

fun authorizedKeysLoop ::
    "(bytes \<Rightarrow> bytes option) \<Rightarrow> (bytes \<Rightarrow> 'k option) \<Rightarrow> ('k, 'acc) key_consumer \<Rightarrow> nat \<Rightarrow> 'acc \<Rightarrow> bytes list \<Rightarrow> keys_err + 'acc \<times> bool" where
  "authorizedKeysLoop unquote parseKey consumer i acc [] = Inr (acc, True)"
| "authorizedKeysLoop unquote parseKey consumer i acc (l # ls) =
     bindR (parseAuthorizedKey unquote parseKey l) (\<lambda>r.
     case r of
       None \<Rightarrow> authorizedKeysLoop unquote parseKey consumer i acc ls
     | Some (pub, comment, options) \<Rightarrow>
         bindR (consumer i pub comment options acc) (\<lambda>(acc', canContinue).
         if canContinue then authorizedKeysLoop unquote parseKey consumer (Suc i) acc' ls else Inr (acc', False)))"

definition scan_failed :: "nat \<Rightarrow> bytes \<Rightarrow> bool" where
  "scan_failed mx s \<longleftrightarrow> list_ex (\<lambda>l. mx \<le> length l) (bytes_split (CHR 0x0A) s)"

definition parseAuthorizedKeys ::
    "(bytes \<Rightarrow> bytes option) \<Rightarrow> (bytes \<Rightarrow> 'k option) \<Rightarrow> ('k, 'acc) key_consumer \<Rightarrow> 'acc \<Rightarrow> bytes \<Rightarrow> keys_err + 'acc" where
  "parseAuthorizedKeys unquote parseKey consumer acc data =
     bindR (authorizedKeysLoop unquote parseKey consumer 0 acc (scan_lines maxAuthorizedKeysLineSize data)) (\<lambda>(acc', toEnd).
     if toEnd \<and> scan_failed maxAuthorizedKeysLineSize data then Inl ErrLineTooLong else Inr acc')"

definition AuthorizedKeys_ForEach ::
    "(bytes \<Rightarrow> bytes option) \<Rightarrow> (bytes \<Rightarrow> 'k option) \<Rightarrow> ('k, 'acc) key_consumer \<Rightarrow> 'acc \<Rightarrow> bytes \<Rightarrow> keys_err + 'acc" where
  "AuthorizedKeys_ForEach unquote parseKey consumer acc this =
     (if this = [] then Inr acc else parseAuthorizedKeys unquote parseKey consumer acc this)"

definition AuthorizedKeys_Get ::
    "(bytes \<Rightarrow> bytes option) \<Rightarrow> (bytes \<Rightarrow> 'k option) \<Rightarrow> bytes \<Rightarrow> keys_err + ('k \<times> key_option list) list" where
  "AuthorizedKeys_Get unquote parseKey this =
     AuthorizedKeys_ForEach unquote parseKey (\<lambda>i key comment opts result. Inr (result @ [(key, opts)], True)) [] this"

definition AuthorizedKeys_IsZero :: "bytes \<Rightarrow> bool" where
  "AuthorizedKeys_IsZero this \<longleftrightarrow> bytes_TrimSpace this = []"

definition AuthorizedKeys_Validate :: "(bytes \<Rightarrow> bytes option) \<Rightarrow> (bytes \<Rightarrow> 'k option) \<Rightarrow> bytes \<Rightarrow> keys_err + unit" where
  "AuthorizedKeys_Validate unquote parseKey this =
     (if AuthorizedKeys_IsZero this then Inr ()
      else bindR (AuthorizedKeys_ForEach unquote parseKey (\<lambda>_ _ _ _ _. Inr (True, False)) False this) (\<lambda>atLeastOne.
        if atLeastOne then Inr () else Inl ErrNoAuthorizedKeys))"

subsection \<open>Documented lines\<close>

text \<open>
  A line of the documented format: a known algorithm, the text of a key, and a comment. \<open>plainText\<close> is text
  without blanks and line ends that \<^verbatim>\<open>bytes.TrimSpace\<close> leaves alone.
\<close>

definition plainText :: "bytes \<Rightarrow> bool" where
  "plainText t \<longleftrightarrow> t \<noteq> [] \<and> (\<forall>c \<in> set t. 32 < (of_char c :: nat) \<and> (of_char c :: nat) < 127)"

lemma plainText_D:
  assumes "plainText t"
  shows "t \<noteq> []" "c \<in> set t \<Longrightarrow> \<not> isBlank c" "CHR 0x0A \<notin> set t" "CHR 0x0D \<notin> set t"
  using assms by (auto simp: plainText_def isBlank_def)

definition notPlain :: "bytes \<Rightarrow> bool" where
  "notPlain e \<longleftrightarrow> e \<noteq> [] \<and> ((of_char (hd e) :: nat) \<le> 32 \<or> 127 < (of_char (hd e) :: nat))"

lemma space_notPlain: "list_all notPlain space_encodings" "list_all notPlain (map rev space_encodings)"
  by (simp_all add: space_encodings_def notPlain_def)

lemma trim_leading_id:
  assumes "list_all notPlain es" "s \<noteq> []" "32 < (of_char (hd s) :: nat)" "(of_char (hd s) :: nat) < 127"
  shows "trim_leading es s = s"
proof -
  have "take (length e) s \<noteq> e" if "e \<in> set es" for e
  proof
    assume t: "take (length e) s = e"
    have "notPlain e" using assms(1) that by (simp add: list_all_iff)
    moreover have "hd e = hd s" using t assms(2) calculation unfolding notPlain_def by (metis hd_take length_greater_0_conv)
    ultimately show False using assms(3,4) by (simp add: notPlain_def)
  qed
  then have "find (\<lambda>e. e \<noteq> [] \<and> take (length e) s = e) es = None" by (auto simp: find_None_iff)
  then show ?thesis by (subst trim_leading.simps) simp
qed

lemma TrimSpace_id:
  assumes "t \<noteq> []" "32 < (of_char (hd t) :: nat)" "(of_char (hd t) :: nat) < 127"
    and "32 < (of_char (last t) :: nat)" "(of_char (last t) :: nat) < 127"
  shows "bytes_TrimSpace t = t"
proof -
  have a: "trim_leading space_encodings t = t" by (rule trim_leading_id[OF space_notPlain(1) assms(1-3)])
  have "trim_leading (map rev space_encodings) (rev t) = rev t"
    using assms by (intro trim_leading_id[OF space_notPlain(2)]) (simp_all add: hd_rev)
  with a show ?thesis by (simp add: bytes_TrimSpace_def)
qed

lemma TrimSpace_Nil [simp]: "bytes_TrimSpace [] = []"
proof -
  have "trim_leading es [] = []" for es
  proof -
    have "find (\<lambda>e. e \<noteq> [] \<and> take (length e) [] = e) es = None" by (auto simp: find_None_iff)
    then show ?thesis by (subst trim_leading.simps) simp
  qed
  then show ?thesis by (simp add: bytes_TrimSpace_def)
qed

lemma plainText_trim: "plainText t \<Longrightarrow> bytes_TrimSpace t = t"
  by (rule TrimSpace_id) (auto simp: plainText_def)

lemma cutOff_algo:
  assumes "algo \<in> set sshKeyAlgos"
  shows "cutOffSshKeyAlgo (algo @ CHR '' '' # r) = (algo, r)" "plainText algo"
proof -
  show p: "plainText algo" using assms by (auto simp: sshKeyAlgos_def plainText_def)
  then have "\<forall>c \<in> set algo. \<not> isBlank c" using plainText_D(2) by blast
  then have "dropWhile (\<lambda>c. \<not> isBlank c) (algo @ CHR '' '' # r) = CHR '' '' # r"
    "takeWhile (\<lambda>c. \<not> isBlank c) (algo @ CHR '' '' # r) = algo"
    by (simp_all add: dropWhile_append takeWhile_append isBlank_def)
  then show "cutOffSshKeyAlgo (algo @ CHR '' '' # r) = (algo, r)"
    using assms plainText_D(1)[OF p] by (simp add: cutOffSshKeyAlgo_def getSshKeyAlgo_def)
qed

definition keyLine :: "bytes \<times> bytes \<times> bytes option \<Rightarrow> bytes" where
  "keyLine l = (case l of (algo, key, comment) \<Rightarrow>
     algo @ CHR '' '' # key @ (case comment of None \<Rightarrow> [] | Some c \<Rightarrow> CHR '' '' # c))"

definition documented :: "bytes \<times> bytes \<times> bytes option \<Rightarrow> bool" where
  "documented l = (case l of (algo, key, comment) \<Rightarrow>
     algo \<in> set sshKeyAlgos \<and> plainText key \<and> (\<forall>c. comment = Some c \<longrightarrow> plainText c) \<and>
     length (keyLine l) < maxAuthorizedKeysLineSize)"

lemma parse_keyLine:
  assumes "documented (algo, key, comment)"
  shows "parseAuthorizedKey unquote parseKey (keyLine (algo, key, comment)) =
    (case parseKey key of None \<Rightarrow> Inl ErrIllegalSshKey
     | Some k \<Rightarrow> Inr (Some (k, (case comment of None \<Rightarrow> [] | Some c \<Rightarrow> c), [])))"
proof -
  let ?rest = "key @ (case comment of None \<Rightarrow> [] | Some c \<Rightarrow> CHR '' '' # c)"
  let ?l = "keyLine (algo, key, comment)"
  have l: "?l = algo @ CHR '' '' # ?rest" by (simp add: keyLine_def)
  have a: "algo \<in> set sshKeyAlgos" "plainText key" "\<And>c. comment = Some c \<Longrightarrow> plainText c" using assms by (simp_all add: documented_def)
  note al = cutOff_algo[OF a(1)]
  have hd: "hd ?l = hd algo" "last ?l = last (case comment of None \<Rightarrow> key | Some c \<Rightarrow> c)"
    using plainText_D(1)[OF al(2)] plainText_D(1)[OF a(2)] plainText_D(1)[OF a(3)] by (auto simp: l split: option.split)
  have h: "hd algo \<in> set algo" using plainText_D(1)[OF al(2)] by simp
  have la: "last ?l \<in> set key \<or> (\<exists>c. comment = Some c \<and> last ?l \<in> set c)"
    unfolding hd(2) using plainText_D(1)[OF a(2)] plainText_D(1)[OF a(3)] by (auto split: option.split)
  have "32 < (of_char (last ?l) :: nat) \<and> (of_char (last ?l) :: nat) < 127" using la a(2,3) by (auto simp: plainText_def)
  moreover have "32 < (of_char (hd ?l) :: nat) \<and> (of_char (hd ?l) :: nat) < 127" using h al(2) unfolding hd by (auto simp: plainText_def)
  ultimately have trim: "bytes_TrimSpace ?l = ?l" using l by (intro TrimSpace_id) auto
  have nh: "hd ?l \<noteq> CHR ''#''" using a(1) unfolding hd by (auto simp: sshKeyAlgos_def)
  have nb: "\<forall>c \<in> set key. \<not> isBlank c" using plainText_D(2)[OF a(2)] by blast
  have k: "dropWhile (\<lambda>c. \<not> isBlank c) ?rest = (case comment of None \<Rightarrow> [] | Some c \<Rightarrow> CHR '' '' # c)"
    "dropWhile (\<lambda>c. \<not> isBlank c) key = []" "comment \<noteq> None \<Longrightarrow> takeWhile (\<lambda>c. \<not> isBlank c) ?rest = key"
    using nb by (auto simp: isBlank_def dropWhile_append takeWhile_append split: option.split)
  show ?thesis
    using k plainText_D(1)[OF al(2)] plainText_trim[OF a(2)] plainText_trim[OF a(3)] nh
    unfolding parseAuthorizedKey_def trim Let_def unfolding l al(1)
    by (cases comment) (simp_all del: dropWhile_eq_Nil_conv split: option.split)
qed

text \<open>A file of such lines, with comments and empty lines between them.\<close>

datatype file_line = Ignored bytes | KeyLine bytes bytes "bytes option"

fun lineText :: "file_line \<Rightarrow> bytes" where
  "lineText (Ignored t) = t"
| "lineText (KeyLine algo key comment) = keyLine (algo, key, comment)"

fun wellFormed :: "(bytes \<Rightarrow> 'k option) \<Rightarrow> file_line \<Rightarrow> bool" where
  "wellFormed parseKey (Ignored t) \<longleftrightarrow> plain_line maxAuthorizedKeysLineSize t \<and> (t = [] \<or> hd t = CHR ''#'' \<and> bytes_TrimSpace t = t)"
| "wellFormed parseKey (KeyLine algo key comment) \<longleftrightarrow> documented (algo, key, comment) \<and> parseKey key \<noteq> None"

fun lineKeys :: "(bytes \<Rightarrow> 'k option) \<Rightarrow> file_line \<Rightarrow> 'k list" where
  "lineKeys parseKey (Ignored t) = []"
| "lineKeys parseKey (KeyLine algo key comment) = (case parseKey key of None \<Rightarrow> [] | Some k \<Rightarrow> [k])"

definition fileText :: "file_line list \<Rightarrow> bytes" where
  "fileText ls = concat (map (\<lambda>l. lineText l @ [CHR 0x0A]) ls)"

lemma wellFormed_plain: "wellFormed parseKey l \<Longrightarrow> plain_line maxAuthorizedKeysLineSize (lineText l)"
proof (cases l)
  case (KeyLine algo key comment)
  assume "wellFormed parseKey l"
  then have d: "algo \<in> set sshKeyAlgos" "plainText key" "\<And>c. comment = Some c \<Longrightarrow> plainText c"
      "length (keyLine (algo, key, comment)) < maxAuthorizedKeysLineSize"
    by (simp_all add: KeyLine documented_def)
  note p = plainText_D[OF cutOff_algo(2)[OF d(1)]] plainText_D[OF d(2)] plainText_D[OF d(3)]
  have "CHR 0x0A \<notin> set (keyLine (algo, key, comment))" "CHR 0x0D \<notin> set (keyLine (algo, key, comment))"
    using p by (auto simp: keyLine_def split: option.splits)
  moreover have "keyLine (algo, key, comment) \<noteq> []" by (simp add: keyLine_def)
  then have "last (keyLine (algo, key, comment)) \<in> set (keyLine (algo, key, comment))" by (rule last_in_set)
  ultimately show ?thesis using d(4) by (auto simp: KeyLine plain_line_def)
qed simp

lemma parse_ignored: "wellFormed parseKey (Ignored t) \<Longrightarrow> parseAuthorizedKey unquote parseKey t = Inr None"
  by (auto simp: parseAuthorizedKey_def)

lemma loop_collects:
  assumes "\<forall>l \<in> set ls. wellFormed parseKey l"
  shows "authorizedKeysLoop unquote parseKey (\<lambda>i key comment opts result. Inr (result @ [(key, opts)], True)) n acc (map lineText ls) =
    Inr (acc @ map (\<lambda>k. (k, [])) (concat (map (lineKeys parseKey) ls)), True)"
  using assms
proof (induction ls arbitrary: n acc)
  case (Cons l ls)
  show ?case
  proof (cases l)
    case (Ignored t)
    then show ?thesis using Cons by (simp add: parse_ignored)
  next
    case (KeyLine algo key comment)
    then obtain k where "parseKey key = Some k" "documented (algo, key, comment)" using Cons.prems by auto
    then show ?thesis using Cons KeyLine by (simp add: parse_keyLine)
  qed
qed simp

lemma split_lines:
  "\<forall>l \<in> set ls. CHR 0x0A \<notin> set l \<Longrightarrow> bytes_split (CHR 0x0A) (concat (map (\<lambda>l. l @ [CHR 0x0A]) ls)) = ls @ [[]]"
  by (induction ls) (simp_all add: bytes_split_append)

text \<open>
  C19: A file of documented lines, each with a known algorithm, the text of a key and perhaps a comment, between any
  empty lines and comments, is read as the list of its keys, in their order and without options.
\<close>

theorem documented_file_parses:
  assumes "\<forall>l \<in> set ls. wellFormed parseKey l"
  shows "AuthorizedKeys_Get unquote parseKey (fileText ls) = Inr (map (\<lambda>k. (k, [])) (concat (map (lineKeys parseKey) ls)))"
proof -
  have p: "\<forall>l \<in> set (map lineText ls). plain_line maxAuthorizedKeysLineSize l" using assms wellFormed_plain by auto
  have ft: "fileText ls = concat (map (\<lambda>l. l @ [CHR 0x0A]) (map lineText ls))" by (simp add: fileText_def comp_def)
  have sc: "scan_lines maxAuthorizedKeysLineSize (fileText ls) = map lineText ls" using scan_lines_concat[OF p] ft by simp
  have "bytes_split (CHR 0x0A) (fileText ls) = map lineText ls @ [[]]"
    unfolding ft by (rule split_lines) (use p in \<open>auto simp: plain_line_def\<close>)
  then have "\<not> scan_failed maxAuthorizedKeysLineSize (fileText ls)"
    using p by (auto simp: scan_failed_def list_ex_iff plain_line_def maxAuthorizedKeysLineSize_def)
  then show ?thesis
    using loop_collects[OF assms, of unquote 0 "[]"]
    by (simp add: AuthorizedKeys_Get_def AuthorizedKeys_ForEach_def parseAuthorizedKeys_def sc) (simp add: fileText_def)
qed

lemma documented_file_parses_witness:
  "AuthorizedKeys_Get (\<lambda>_. None) (\<lambda>t. if t = ''AAAA'' then Some True else None)
     (fileText [Ignored ''# me'', KeyLine ''ssh-ed25519'' ''AAAA'' (Some ''me@home''), Ignored []]) = Inr [(True, [])]"
proof -
  have "bytes_TrimSpace ''# me'' = ''# me''" by (rule TrimSpace_id) simp_all
  then show ?thesis
    using documented_file_parses[of "[Ignored ''# me'', KeyLine ''ssh-ed25519'' ''AAAA'' (Some ''me@home''), Ignored []]"
        "\<lambda>t. if t = ''AAAA'' then Some True else None" "\<lambda>_. None"]
    by (simp add: documented_def plainText_def plain_line_def sshKeyAlgos_def keyLine_def maxAuthorizedKeysLineSize_def)
qed

text \<open>
  The scan of the options takes a quote after a backslash as escaped, also when the backslash is the second one of an
  escaped backslash. A value that ends with a backslash never closes, and its line is rejected.
\<close>

theorem trailing_backslash_rejected:
  "parseAuthorizedKey unquote parseKey (''command='' @ [CHR 0x22, CHR 0x5C, CHR 0x5C, CHR 0x22] @ '' ssh-ed25519 AAAA'') =
   Inl ErrIllegalAuthorizedKeysFormat"
proof -
  have t: "bytes_TrimSpace (''command='' @ [CHR 0x22, CHR 0x5C, CHR 0x5C, CHR 0x22] @ '' ssh-ed25519 AAAA'') =
      ''command='' @ [CHR 0x22, CHR 0x5C, CHR 0x5C, CHR 0x22] @ '' ssh-ed25519 AAAA''"
    by (rule TrimSpace_id) simp_all
  show ?thesis unfolding parseAuthorizedKey_def t
    by (simp add: cutOffSshKeyAlgo_def getSshKeyAlgo_def sshKeyAlgos_def isBlank_def Let_def)
qed

end
