(* ===== verification/Templates.thy ===== *)
theory Templates
  imports AuthorizedKeys
begin

section \<open>Texts of the configuration that may be templates (pkg/template)\<close>

text \<open>
  A setting is a text: either a value, or a template whose result is read as a value. The engine of templates is a parameter: it parses a
  text, shows the nodes of the root (texts, or anything else), and executes with some data. Durations and addresses of the web are
  read and written by Go's packages, which are parameters, too.
\<close>

subsection \<open>The engine\<close>

datatype tmpl_err = TmplErr bytes | TmplMsg string tmpl_err | TmplAt nat tmpl_err

datatype tmpl_node = TextNode bytes | OtherNode

record ('p, 'd, 'u) tmpl_engine =
  tg_parse :: "bytes \<Rightarrow> bytes \<Rightarrow> tmpl_err + 'p"
  tg_nodes :: "'p \<Rightarrow> tmpl_node list"
  tg_execute :: "'p \<Rightarrow> 'd \<Rightarrow> tmpl_err + bytes"
  tg_ParseDuration :: "bytes \<Rightarrow> int option"
  tg_durationText :: "int \<Rightarrow> bytes"
  tg_parseUrl :: "bytes \<Rightarrow> tmpl_err + 'u"

definition illegalTemplate :: "string \<Rightarrow> tmpl_err + 'a \<Rightarrow> tmpl_err + 'a" where
  "illegalTemplate msg r = map_sum (TmplMsg msg) id r"

text \<open>The result of the template, read as a value; without a template there is none.\<close>

definition executed :: "('p, 'd, 'u) tmpl_engine \<Rightarrow> 'p option \<Rightarrow> 'd \<Rightarrow> (bytes \<Rightarrow> tmpl_err + 'v) \<Rightarrow> 'v \<Rightarrow> tmpl_err + 'v" where
  "executed tg tmpl data read none =
     (case tmpl of Some p \<Rightarrow> bindR (tg_execute tg p data) read | None \<Rightarrow> Inr none)"

subsection \<open>Strings (string.go, strings.go)\<close>

record 'p tmpl_string =
  ts_isHardCoded :: bool
  ts_plain :: bytes
  ts_tmpl :: "'p option"

definition tString_Render :: "('p, 'd, 'u) tmpl_engine \<Rightarrow> 'p tmpl_string \<Rightarrow> 'd \<Rightarrow> tmpl_err + bytes" where
  "tString_Render tg this data =
     (if ts_isHardCoded this then Inr (ts_plain this) else executed tg (ts_tmpl this) data Inr [])"

definition tString_MarshalText :: "'p tmpl_string \<Rightarrow> bytes" where
  "tString_MarshalText this = ts_plain this"

definition tString_IsZero :: "'p tmpl_string \<Rightarrow> bool" where
  "tString_IsZero this \<longleftrightarrow> length (ts_plain this) = 0"

definition tString_UnmarshalText :: "('p, 'd, 'u) tmpl_engine \<Rightarrow> bytes \<Rightarrow> tmpl_err + 'p tmpl_string" where
  "tString_UnmarshalText tg text =
     bindR (illegalTemplate ''illegal string template'' (tg_parse tg ''string'' text)) (\<lambda>tmpl.
     case tg_nodes tg tmpl of
       [] \<Rightarrow> Inr \<lparr>ts_isHardCoded = True, ts_plain = text, ts_tmpl = None\<rparr>
     | [TextNode tn] \<Rightarrow> Inr \<lparr>ts_isHardCoded = True, ts_plain = tn, ts_tmpl = None\<rparr>
     | _ \<Rightarrow> Inr \<lparr>ts_isHardCoded = False, ts_plain = text, ts_tmpl = Some tmpl\<rparr>)"

definition tString_isEqualTo :: "'p tmpl_string \<Rightarrow> 'p tmpl_string \<Rightarrow> bool" where
  "tString_isEqualTo this other \<longleftrightarrow> ts_plain this = ts_plain other"

text \<open>The strings of a list are read and rendered in order; an error tells the index.\<close>

fun tStringsFrom :: "('a \<Rightarrow> tmpl_err + 'b) \<Rightarrow> nat \<Rightarrow> 'a list \<Rightarrow> tmpl_err + 'b list" where
  "tStringsFrom f i [] = Inr []"
| "tStringsFrom f i (v # r) =
     (case f v of Inl e \<Rightarrow> Inl (TmplAt i e) | Inr rv \<Rightarrow> bindR (tStringsFrom f (i + 1) r) (\<lambda>result. Inr (rv # result)))"

definition NewStrings :: "('p, 'd, 'u) tmpl_engine \<Rightarrow> bytes list \<Rightarrow> tmpl_err + 'p tmpl_string list" where
  "NewStrings tg plains = tStringsFrom (tString_UnmarshalText tg) 0 plains"

definition tStrings_Render :: "('p, 'd, 'u) tmpl_engine \<Rightarrow> 'p tmpl_string list \<Rightarrow> 'd \<Rightarrow> tmpl_err + bytes list" where
  "tStrings_Render tg this data = tStringsFrom (\<lambda>v. tString_Render tg v data) 0 this"

definition tStrings_IsZero :: "'p tmpl_string list \<Rightarrow> bool" where
  "tStrings_IsZero this \<longleftrightarrow> length this = 0"

definition tStrings_isEqualTo :: "'p tmpl_string list \<Rightarrow> 'p tmpl_string list \<Rightarrow> bool" where
  "tStrings_isEqualTo this other \<longleftrightarrow> length this = length other \<and> list_all2 tString_isEqualTo this other"

subsection \<open>Values that may be hard-coded (bool.go, int64.go, uint64.go, duration.go)\<close>

text \<open>The four structs have the same shape.\<close>

record ('v, 'p) tmpl_value =
  tv_isHardCoded :: bool
  tv_hardCodedValue :: 'v
  tv_plain :: bytes
  tv_tmpl :: "'p option"

definition tValue_MarshalText :: "('v, 'p) tmpl_value \<Rightarrow> bytes" where
  "tValue_MarshalText this = tv_plain this"

definition tValue_IsZero :: "('v, 'p) tmpl_value \<Rightarrow> bool" where
  "tValue_IsZero this \<longleftrightarrow> length (tv_plain this) = 0"

definition tValue_isEqualTo :: "('v, 'p) tmpl_value \<Rightarrow> ('v, 'p) tmpl_value \<Rightarrow> bool" where
  "tValue_isEqualTo this other \<longleftrightarrow> tv_plain this = tv_plain other"

definition hardCoded :: "'v \<Rightarrow> bytes \<Rightarrow> ('v, 'p) tmpl_value" where
  "hardCoded v plain = \<lparr>tv_isHardCoded = True, tv_hardCodedValue = v, tv_plain = plain, tv_tmpl = None\<rparr>"

text \<open>\<open>none\<close> is the zero value of the type.\<close>

definition templated :: "('p, 'd, 'u) tmpl_engine \<Rightarrow> bytes \<Rightarrow> string \<Rightarrow> 'v \<Rightarrow> bytes \<Rightarrow> tmpl_err + ('v, 'p) tmpl_value" where
  "templated tg name msg none text =
     bindR (illegalTemplate msg (tg_parse tg name text)) (\<lambda>tmpl.
     Inr \<lparr>tv_isHardCoded = False, tv_hardCodedValue = none, tv_plain = text, tv_tmpl = Some tmpl\<rparr>)"

abbreviation falseTexts :: "bytes list" where
  "falseTexts \<equiv> [''false'', ''disabled'', ''0'', ''no'', ''off'', [], ''<nil>'', ''nil'', ''null'']"

abbreviation trueTexts :: "bytes list" where
  "trueTexts \<equiv> [''true'', ''enabled'', ''1'', ''yes'', ''on'']"

definition boolText :: "bytes \<Rightarrow> tmpl_err + bool" where
  "boolText s = Inr (to_lower (bytes_TrimSpace s) \<notin> set falseTexts)"

definition tBool_Render :: "('p, 'd, 'u) tmpl_engine \<Rightarrow> (bool, 'p) tmpl_value \<Rightarrow> 'd \<Rightarrow> tmpl_err + bool" where
  "tBool_Render tg this data =
     (if tv_isHardCoded this then Inr (tv_hardCodedValue this) else executed tg (tv_tmpl this) data boolText False)"

definition tBool_UnmarshalText :: "('p, 'd, 'u) tmpl_engine \<Rightarrow> bytes \<Rightarrow> tmpl_err + (bool, 'p) tmpl_value" where
  "tBool_UnmarshalText tg text =
     (if length text = 0 then Inr (hardCoded False [])
      else if to_lower (bytes_TrimSpace text) \<in> set falseTexts then Inr (hardCoded False text)
      else if to_lower (bytes_TrimSpace text) \<in> set trueTexts then Inr (hardCoded True text)
      else templated tg ''bool'' ''illegal bool template'' False text)"

definition BoolOf :: "bool \<Rightarrow> (bool, 'p) tmpl_value" where
  "BoolOf v = hardCoded v (if v then ''true'' else ''false'')"

text \<open>A result of only blanks is the zero of the type.\<close>

definition numberText :: "string \<Rightarrow> (bytes \<Rightarrow> 'v option) \<Rightarrow> 'v \<Rightarrow> bytes \<Rightarrow> tmpl_err + 'v" where
  "numberText msg read none s =
     (let plain = bytes_TrimSpace s in
      if length plain = 0 then Inr none
      else case read plain of None \<Rightarrow> Inl (TmplMsg msg (TmplErr s)) | Some v \<Rightarrow> Inr v)"

definition Int64Of :: "int \<Rightarrow> (int, 'p) tmpl_value" where
  "Int64Of v = hardCoded v (format_int v)"

definition int64Text :: "bytes \<Rightarrow> tmpl_err + int" where
  "int64Text = numberText ''templated int64 results in a value that cannot be parsed as int64'' strconv_Atoi 0"

definition tInt64_Render :: "('p, 'd, 'u) tmpl_engine \<Rightarrow> (int, 'p) tmpl_value \<Rightarrow> 'd \<Rightarrow> tmpl_err + int" where
  "tInt64_Render tg this data =
     (if tv_isHardCoded this then Inr (tv_hardCodedValue this) else executed tg (tv_tmpl this) data int64Text 0)"

definition tInt64_UnmarshalText :: "('p, 'd, 'u) tmpl_engine \<Rightarrow> bytes \<Rightarrow> tmpl_err + (int, 'p) tmpl_value" where
  "tInt64_UnmarshalText tg text =
     (if length text = 0 then Inr (hardCoded 0 [])
      else case strconv_Atoi text of
          Some v \<Rightarrow> Inr (Int64Of v)
        | None \<Rightarrow> templated tg ''int64'' ''illegal int64 template'' 0 text)"

definition Uint64Of :: "nat \<Rightarrow> (nat, 'p) tmpl_value" where
  "Uint64Of v = hardCoded v (format_uint v)"

definition uint64Text :: "bytes \<Rightarrow> tmpl_err + nat" where
  "uint64Text = numberText ''templated uint64 results in a value that cannot be parsed as uint64'' (parse_uint 64) 0"

definition tUint64_Render :: "('p, 'd, 'u) tmpl_engine \<Rightarrow> (nat, 'p) tmpl_value \<Rightarrow> 'd \<Rightarrow> tmpl_err + nat" where
  "tUint64_Render tg this data =
     (if tv_isHardCoded this then Inr (tv_hardCodedValue this) else executed tg (tv_tmpl this) data uint64Text 0)"

definition tUint64_UnmarshalText :: "('p, 'd, 'u) tmpl_engine \<Rightarrow> bytes \<Rightarrow> tmpl_err + (nat, 'p) tmpl_value" where
  "tUint64_UnmarshalText tg text =
     (if length text = 0 then Inr (hardCoded 0 [])
      else case parse_uint 64 text of
          Some v \<Rightarrow> Inr (Uint64Of v)
        | None \<Rightarrow> templated tg ''uint64'' ''illegal uint64 template'' 0 text)"

definition tDurationOf :: "('p, 'd, 'u) tmpl_engine \<Rightarrow> int \<Rightarrow> (int, 'p) tmpl_value" where
  "tDurationOf tg v = hardCoded v (tg_durationText tg v)"

definition durationValue :: "('p, 'd, 'u) tmpl_engine \<Rightarrow> bytes \<Rightarrow> tmpl_err + int" where
  "durationValue tg = numberText ''templated duration results in a value that cannot be parsed as duration'' (tg_ParseDuration tg) 0"

definition tDuration_Render :: "('p, 'd, 'u) tmpl_engine \<Rightarrow> (int, 'p) tmpl_value \<Rightarrow> 'd \<Rightarrow> tmpl_err + int" where
  "tDuration_Render tg this data =
     (if tv_isHardCoded this then Inr (tv_hardCodedValue this) else executed tg (tv_tmpl this) data (durationValue tg) 0)"

definition tDuration_UnmarshalText :: "('p, 'd, 'u) tmpl_engine \<Rightarrow> bytes \<Rightarrow> tmpl_err + (int, 'p) tmpl_value" where
  "tDuration_UnmarshalText tg text =
     (if length text = 0 then Inr (hardCoded 0 [])
      else case tg_ParseDuration tg text of
          Some v \<Rightarrow> Inr (tDurationOf tg v)
        | None \<Rightarrow> templated tg ''duration'' ''illegal duration template'' 0 text)"

subsection \<open>Addresses of the web and other values (url.go, text-marshaller.go)\<close>

record ('u, 'p) tmpl_url =
  tu_plain :: bytes
  tu_hardCoded :: "'u option"
  tu_tmpl :: "'p option"

definition tUrl_Render :: "('p, 'd, 'u) tmpl_engine \<Rightarrow> ('u, 'p) tmpl_url \<Rightarrow> 'd \<Rightarrow> tmpl_err + 'u option" where
  "tUrl_Render tg this data =
     (case tu_hardCoded this of
        Some v \<Rightarrow> Inr (Some v)
      | None \<Rightarrow> executed tg (tu_tmpl this) data (\<lambda>s. if length s = 0 then Inr None else map_sum id Some (tg_parseUrl tg s)) None)"

definition noUrl :: "('u, 'p) tmpl_url" where
  "noUrl = \<lparr>tu_plain = [], tu_hardCoded = None, tu_tmpl = None\<rparr>"

definition hardCodedUrl :: "('p, 'd, 'u) tmpl_engine \<Rightarrow> bytes \<Rightarrow> tmpl_err + ('u, 'p) tmpl_url" where
  "hardCodedUrl tg text =
     (if length text = 0 then Inr noUrl
      else bindR (illegalTemplate ''illegal url template'' (tg_parseUrl tg text)) (\<lambda>parsed.
        Inr \<lparr>tu_plain = text, tu_hardCoded = Some parsed, tu_tmpl = None\<rparr>))"

definition tUrl_UnmarshalText :: "('p, 'd, 'u) tmpl_engine \<Rightarrow> bytes \<Rightarrow> tmpl_err + ('u, 'p) tmpl_url" where
  "tUrl_UnmarshalText tg text =
     bindR (illegalTemplate ''illegal url template'' (tg_parse tg ''url'' text)) (\<lambda>tmpl.
     case tg_nodes tg tmpl of
       [] \<Rightarrow> hardCodedUrl tg text
     | [TextNode tn] \<Rightarrow> hardCodedUrl tg tn
     | _ \<Rightarrow> Inr \<lparr>tu_plain = text, tu_hardCoded = None, tu_tmpl = Some tmpl\<rparr>)"

definition tUrl_IsZero :: "('u, 'p) tmpl_url \<Rightarrow> bool" where
  "tUrl_IsZero this \<longleftrightarrow> length (tu_plain this) = 0"

definition tUrl_isEqualTo :: "('u, 'p) tmpl_url \<Rightarrow> ('u, 'p) tmpl_url \<Rightarrow> bool" where
  "tUrl_isEqualTo this other \<longleftrightarrow> tu_plain this = tu_plain other"

text \<open>\<^verbatim>\<open>TextMarshaller\<close>: the result is read by the method of its type; nothing is hard-coded.\<close>

record 'p tmpl_marshaller =
  tm_plain :: bytes
  tm_tmpl :: "'p option"

definition tMarshaller_Render ::
    "('p, 'd, 'u) tmpl_engine \<Rightarrow> (bytes \<Rightarrow> tmpl_err + 'v) \<Rightarrow> 'v \<Rightarrow> 'p tmpl_marshaller \<Rightarrow> 'd \<Rightarrow> tmpl_err + 'v" where
  "tMarshaller_Render tg read none this data =
     executed tg (tm_tmpl this) data
       (\<lambda>plain. map_sum (TmplMsg ''templated value results in a value that cannot be parsed'') id (read plain)) none"

definition tMarshaller_UnmarshalText :: "('p, 'd, 'u) tmpl_engine \<Rightarrow> bytes \<Rightarrow> tmpl_err + 'p tmpl_marshaller" where
  "tMarshaller_UnmarshalText tg text =
     (if length text = 0 then Inr \<lparr>tm_plain = [], tm_tmpl = None\<rparr>
      else bindR (illegalTemplate ''illegal textMarshaller template'' (tg_parse tg ''textMarshaller'' text)) (\<lambda>tmpl.
        Inr \<lparr>tm_plain = text, tm_tmpl = Some tmpl\<rparr>))"

definition tMarshaller_isEqualTo :: "'p tmpl_marshaller \<Rightarrow> 'p tmpl_marshaller \<Rightarrow> bool" where
  "tMarshaller_isEqualTo this other \<longleftrightarrow> tm_plain this = tm_plain other"

subsection \<open>The contract of a text\<close>

text \<open>
  \<open>reread\<close>: a value that was read is read again from its text. \<open>meaning\<close>: the value of a text is what executing it as a template gives, so
  that nothing but time is gained by a hard-coded value; \<open>ok\<close> is what is relied on of the engine.
\<close>

locale template_text =
  fixes ok :: bool and unmarshal :: "bytes \<Rightarrow> tmpl_err + 't" and marshal :: "'t \<Rightarrow> bytes" and equal :: "'t \<Rightarrow> 't \<Rightarrow> bool"
  assumes reread: "ok \<Longrightarrow> unmarshal t = Inr v \<Longrightarrow> unmarshal (marshal v) = Inr v"
    and equal_text: "equal v w \<longleftrightarrow> marshal v = marshal w"
begin

lemma equal_iff: "ok \<Longrightarrow> unmarshal s = Inr v \<Longrightarrow> unmarshal t = Inr w \<Longrightarrow> equal v w \<longleftrightarrow> v = w"
  using reread equal_text by (metis sum.inject(2))

end

locale template_value = template_text ok unmarshal marshal equal
  for ok :: bool and unmarshal :: "bytes \<Rightarrow> tmpl_err + 't" and marshal :: "'t \<Rightarrow> bytes" and equal :: "'t \<Rightarrow> 't \<Rightarrow> bool" +
  fixes render :: "'t \<Rightarrow> 'd \<Rightarrow> tmpl_err + 'v" and parse :: "bytes \<Rightarrow> tmpl_err + 'p" and execute :: "'p \<Rightarrow> 'd \<Rightarrow> tmpl_err + bytes"
    and read :: "bytes \<Rightarrow> tmpl_err + 'v"
  assumes meaning: "ok \<Longrightarrow> unmarshal t = Inr v \<Longrightarrow> parse t = Inr p \<Longrightarrow> render v d = bindR (execute p d) read"
    and parsed: "ok \<Longrightarrow> unmarshal t = Inr v \<Longrightarrow> \<not> isl (parse t)"
begin

lemma executes: "ok \<Longrightarrow> unmarshal t = Inr v \<Longrightarrow> \<exists>p. parse t = Inr p \<and> render v d = bindR (execute p d) read"
  using meaning parsed by (cases "parse t") fastforce+

end

text \<open>
  What is relied on: a text without braces is a template that gives the text; the text of a single node is one, and gives itself;
  a duration is written as it is read, without blanks or braces.
\<close>

definition engine_law :: "('p, 'd, 'u) tmpl_engine \<Rightarrow> bool" where
  "engine_law tg \<longleftrightarrow>
     (\<forall>name t. CHR ''{'' \<notin> set t \<longrightarrow> (\<exists>p. tg_parse tg name t = Inr p \<and> (\<forall>d. tg_execute tg p d = Inr t))) \<and>
     (\<forall>name t p x. tg_parse tg name t = Inr p \<longrightarrow> tg_nodes tg p = [TextNode x] \<longrightarrow>
        (\<forall>d. tg_execute tg p d = Inr x) \<and> (\<exists>q. tg_parse tg name x = Inr q \<and> tg_nodes tg q = [TextNode x])) \<and>
     (\<forall>name t p d. tg_parse tg name t = Inr p \<longrightarrow> tg_nodes tg p = [] \<longrightarrow> tg_execute tg p d = Inr []) \<and>
     (\<forall>t v. tg_ParseDuration tg t = Some v \<longrightarrow> bytes_TrimSpace t = t \<and> t \<noteq> [] \<and> CHR ''{'' \<notin> set t \<and> tg_ParseDuration tg (tg_durationText tg v) = Some v)"

lemma engine_plain:
  assumes "engine_law tg" and "CHR ''{'' \<notin> set t"
  obtains p where "tg_parse tg name t = Inr p" "\<And>d. tg_execute tg p d = Inr t"
  using assms unfolding engine_law_def by blast

lemma trim_leading_keeps: "x \<in> set s \<Longrightarrow> x \<notin> \<Union> (set ` set es) \<Longrightarrow> x \<in> set (trim_leading es s)"
proof (induction es s rule: trim_leading.induct)
  case (1 es s)
  show ?case
  proof (cases "find (\<lambda>e. e \<noteq> [] \<and> take (length e) s = e) es")
    case None
    with 1 show ?thesis by (subst trim_leading.simps) simp
  next
    case (Some e)
    then have e: "e \<in> set es" "take (length e) s = e" by (auto simp: find_Some_iff)
    from 1(2) have "x \<in> set (take (length e) s) \<or> x \<in> set (drop (length e) s)"
      by (metis UnE append_take_drop_id set_append)
    with e 1(3) have "x \<in> set (drop (length e) s)" by auto
    from 1(1)[OF Some this 1(3)] Some show ?thesis by (subst trim_leading.simps) simp
  qed
qed

lemma trim_keeps_brace: "CHR ''{'' \<in> set s \<Longrightarrow> CHR ''{'' \<in> set (bytes_TrimSpace s)"
  unfolding bytes_TrimSpace_def set_rev
  by (intro trim_leading_keeps) (auto simp: space_encodings_def intro!: trim_leading_keeps)

lemma lower_keeps_brace: "CHR ''{'' \<in> set s \<Longrightarrow> CHR ''{'' \<in> set (to_lower s)"
proof (induction s rule: to_lower.induct)
  case (1 a b c r)
  then show ?case by (auto simp: char_lower_def)
qed (auto simp: char_lower_def)

lemma trim_nothing: "bytes_TrimSpace [] = []"
proof -
  have "trim_leading es [] = []" for es by (subst trim_leading.simps) (auto simp: find_Some_iff split: option.splits)
  then show ?thesis by (simp add: bytes_TrimSpace_def)
qed

lemma fixed_text_plain: "to_lower (bytes_TrimSpace t) \<in> set falseTexts \<union> set trueTexts \<Longrightarrow> CHR ''{'' \<notin> set t"
  using lower_keeps_brace[OF trim_keeps_brace, of t] by auto

lemma atoi_chars: "strconv_Atoi t = Some v \<Longrightarrow> c \<in> set t \<Longrightarrow> c = CHR ''-'' \<or> c = CHR ''+'' \<or> is_digit c"
  by (auto simp: strconv_Atoi_def parse_uint_def list_all_iff split: list.splits if_splits)

lemma number_plain: "(\<And>c. c \<in> set t \<Longrightarrow> c = CHR ''-'' \<or> c = CHR ''+'' \<or> is_digit c) \<Longrightarrow> t \<noteq> [] \<Longrightarrow> bytes_TrimSpace t = t \<and> CHR ''{'' \<notin> set t"
  by (intro conjI plainText_trim) (fastforce simp: plainText_def is_digit_def)+

lemma atoi_plain: "strconv_Atoi t = Some v \<Longrightarrow> t \<noteq> [] \<and> bytes_TrimSpace t = t \<and> CHR ''{'' \<notin> set t"
  using number_plain[of t] atoi_chars[of t v] by (auto simp: strconv_Atoi_def parse_uint_def split: list.splits)

lemma parse_uint_plain: "parse_uint k t = Some n \<Longrightarrow> t \<noteq> [] \<and> bytes_TrimSpace t = t \<and> CHR ''{'' \<notin> set t"
  using number_plain[of t] by (auto simp: parse_uint_def list_all_iff split: if_splits)

text \<open>A value that is hard-coded by a text that has a plain meaning is the value of the template.\<close>

lemma hard_coded_meaning:
  assumes "engine_law tg" and "CHR ''{'' \<notin> set t" and "read t = Inr v"
  shows "\<exists>p. tg_parse tg name t = Inr p \<and> (\<forall>d. bindR (tg_execute tg p d) read = Inr v)"
proof -
  obtain p where "tg_parse tg name t = Inr p" "\<And>d. tg_execute tg p d = Inr t" using engine_plain[OF assms(1,2)] by blast
  with assms(3) show ?thesis by auto
qed

lemma templated_Inr:
  "templated tg name msg none t = Inr v \<longleftrightarrow>
   (\<exists>p. tg_parse tg name t = Inr p \<and> v = \<lparr>tv_isHardCoded = False, tv_hardCodedValue = none, tv_plain = t, tv_tmpl = Some p\<rparr>)"
  by (cases "tg_parse tg name t") (auto simp: templated_def illegalTemplate_def)

lemma tBool_UnmarshalText_cases:
  assumes "tBool_UnmarshalText tg t = Inr v"
  obtains (fixed) "v = hardCoded (to_lower (bytes_TrimSpace t) \<notin> set falseTexts) t" "CHR ''{'' \<notin> set t"
  | (tmpl) p where "tg_parse tg ''bool'' t = Inr p" "v = \<lparr>tv_isHardCoded = False, tv_hardCodedValue = False, tv_plain = t, tv_tmpl = Some p\<rparr>" "t \<noteq> []"
      "to_lower (bytes_TrimSpace t) \<notin> set falseTexts \<union> set trueTexts"
proof (cases "to_lower (bytes_TrimSpace t) \<in> set falseTexts \<union> set trueTexts")
  case True
  have "set falseTexts \<inter> set trueTexts = {}" "[] \<in> set falseTexts" by auto
  with True assms fixed_text_plain[OF True] show thesis
    by (intro fixed) (auto simp: tBool_UnmarshalText_def simp del: set_simps split: if_splits)
next
  case False
  then have "bytes_TrimSpace t \<noteq> []" by auto
  then have t: "t \<noteq> []" using trim_nothing by auto
  with False assms obtain p where "tg_parse tg ''bool'' t = Inr p"
      "v = \<lparr>tv_isHardCoded = False, tv_hardCodedValue = False, tv_plain = t, tv_tmpl = Some p\<rparr>"
    by (auto simp: tBool_UnmarshalText_def templated_Inr simp del: set_simps)
  then show thesis using t False by (rule tmpl)
qed

interpretation bools: template_value "engine_law tg" "tBool_UnmarshalText tg" tValue_MarshalText tValue_isEqualTo "tBool_Render tg" "tg_parse tg ''bool''"
    "tg_execute tg" boolText
proof unfold_locales
  fix t v assume "engine_law tg" and v: "tBool_UnmarshalText tg t = Inr v"
  from v have "tValue_MarshalText v = t"
    by (cases rule: tBool_UnmarshalText_cases) (simp_all add: tValue_MarshalText_def hardCoded_def)
  with v show "tBool_UnmarshalText tg (tValue_MarshalText v) = Inr v" by simp
next
  fix t v assume ok: "engine_law tg" and v: "tBool_UnmarshalText tg t = Inr v"
  from v have "\<exists>p. tg_parse tg ''bool'' t = Inr p \<and> (\<forall>d. tBool_Render tg v d = bindR (tg_execute tg p d) boolText)"
  proof (cases rule: tBool_UnmarshalText_cases)
    case fixed
    from hard_coded_meaning[OF ok fixed(2), of boolText _ "''bool''"] fixed(1) show ?thesis
      by (fastforce simp: tBool_Render_def hardCoded_def boolText_def)
  qed (auto simp: tBool_Render_def executed_def)
  then show "\<not> isl (tg_parse tg ''bool'' t)" "\<And>p d. tg_parse tg ''bool'' t = Inr p \<Longrightarrow> tBool_Render tg v d = bindR (tg_execute tg p d) boolText"
    by auto
qed (simp add: tValue_isEqualTo_def tValue_MarshalText_def)

text \<open>Strings, addresses and other values are read again, too; a text of one node was replaced by that text.\<close>

lemma engine_text_node: "engine_law tg \<Longrightarrow> tg_parse tg name t = Inr p \<Longrightarrow> tg_nodes tg p = [TextNode x] \<Longrightarrow>
    \<exists>q. tg_parse tg name x = Inr q \<and> tg_nodes tg q = [TextNode x]"
  unfolding engine_law_def by blast

lemma nodes_cases:
  obtains (none) "ns = []" | (text_node) x where "ns = [TextNode x]" | (other) "ns \<noteq> []" "\<And>x. ns \<noteq> [TextNode x]"
  by blast

lemma nodes_other: "ns \<noteq> [] \<Longrightarrow> (\<And>x. ns \<noteq> [TextNode x]) \<Longrightarrow> (case ns of [] \<Rightarrow> a | [TextNode x] \<Rightarrow> f x | _ \<Rightarrow> c) = c"
  by (auto split: list.splits tmpl_node.splits)

interpretation strings: template_text "engine_law tg" "tString_UnmarshalText tg" tString_MarshalText tString_isEqualTo
proof unfold_locales
  fix t v assume ok: "engine_law tg" and v: "tString_UnmarshalText tg t = Inr v"
  then obtain p where p: "tg_parse tg ''string'' t = Inr p"
    by (cases "tg_parse tg ''string'' t") (auto simp: tString_UnmarshalText_def illegalTemplate_def)
  show "tString_UnmarshalText tg (tString_MarshalText v) = Inr v"
  proof (cases "tg_nodes tg p" rule: nodes_cases)
    case (text_node x)
    with p v engine_text_node[OF ok p] show ?thesis by (auto simp: tString_UnmarshalText_def illegalTemplate_def tString_MarshalText_def)
  next
    case other
    with p v have "ts_plain v = t" by (auto simp: tString_UnmarshalText_def illegalTemplate_def nodes_other)
    with v show ?thesis by (simp add: tString_MarshalText_def)
  qed (use p v in \<open>auto simp: tString_UnmarshalText_def illegalTemplate_def tString_MarshalText_def\<close>)
qed (simp add: tString_isEqualTo_def tString_MarshalText_def)

lemma hardCodedUrl_Inr:
  "hardCodedUrl tg x = Inr v \<Longrightarrow> tu_plain v = x"
  by (cases "tg_parseUrl tg x") (auto simp: hardCodedUrl_def noUrl_def illegalTemplate_def split: if_splits)

interpretation urls: template_text "engine_law tg" "tUrl_UnmarshalText tg" tu_plain tUrl_isEqualTo
proof unfold_locales
  fix t v assume ok: "engine_law tg" and v: "tUrl_UnmarshalText tg t = Inr v"
  then obtain p where p: "tg_parse tg ''url'' t = Inr p"
    by (cases "tg_parse tg ''url'' t") (auto simp: tUrl_UnmarshalText_def illegalTemplate_def)
  show "tUrl_UnmarshalText tg (tu_plain v) = Inr v"
  proof (cases "tg_nodes tg p" rule: nodes_cases)
    case none
    with p v have "tu_plain v = t" by (auto simp: tUrl_UnmarshalText_def illegalTemplate_def hardCodedUrl_Inr)
    with v show ?thesis by simp
  next
    case (text_node x)
    with p v have h: "hardCodedUrl tg x = Inr v" by (simp add: tUrl_UnmarshalText_def illegalTemplate_def)
    with hardCodedUrl_Inr[OF h] engine_text_node[OF ok p text_node] show ?thesis by (auto simp: tUrl_UnmarshalText_def illegalTemplate_def)
  next
    case other
    with p v have "tu_plain v = t" by (auto simp: tUrl_UnmarshalText_def illegalTemplate_def nodes_other)
    with v show ?thesis by simp
  qed
qed (simp add: tUrl_isEqualTo_def)

interpretation marshallers: template_text True "tMarshaller_UnmarshalText tg" tm_plain tMarshaller_isEqualTo
proof unfold_locales
  fix t v assume v: "tMarshaller_UnmarshalText tg t = Inr v"
  then have "tm_plain v = t"
    by (cases "tg_parse tg ''textMarshaller'' t") (auto simp: tMarshaller_UnmarshalText_def illegalTemplate_def split: if_splits)
  with v show "tMarshaller_UnmarshalText tg (tm_plain v) = Inr v" by simp
qed (simp add: tMarshaller_isEqualTo_def)

text \<open>The three kinds of numbers are read alike: \<open>read\<close> and \<open>write\<close> are the formats of the values.\<close>

definition numberOr ::
    "('p, 'd, 'u) tmpl_engine \<Rightarrow> bytes \<Rightarrow> string \<Rightarrow> (bytes \<Rightarrow> 'v option) \<Rightarrow> ('v \<Rightarrow> bytes) \<Rightarrow> 'v \<Rightarrow> bytes \<Rightarrow> tmpl_err + ('v, 'p) tmpl_value" where
  "numberOr tg name msg read write none t =
     (if length t = 0 then Inr (hardCoded none [])
      else case read t of Some v \<Rightarrow> Inr (hardCoded v (write v)) | None \<Rightarrow> templated tg name msg none t)"

definition number_format :: "(bytes \<Rightarrow> 'v option) \<Rightarrow> ('v \<Rightarrow> bytes) \<Rightarrow> bool" where
  "number_format read write \<longleftrightarrow>
     (\<forall>t v. read t = Some v \<longrightarrow> t \<noteq> [] \<and> bytes_TrimSpace t = t \<and> CHR ''{'' \<notin> set t \<and> read (write v) = Some v)"

lemma numberOr_reread:
  assumes "number_format read write" and "numberOr tg name msg read write none t = Inr v"
  shows "numberOr tg name msg read write none (tv_plain v) = Inr v"
proof (cases "t = [] \<or> read t = None")
  case True
  with assms(2) have "tv_plain v = t" by (cases "t = []") (auto simp: numberOr_def hardCoded_def templated_Inr)
  with assms(2) show ?thesis by simp
next
  case False
  with assms(2) obtain x where x: "read t = Some x" "v = hardCoded x (write x)" by (auto simp: numberOr_def)
  with assms(1) have "read (write x) = Some x" "write x \<noteq> []" unfolding number_format_def by blast+
  with x show ?thesis by (simp add: numberOr_def hardCoded_def)
qed

lemma numberOr_meaning:
  assumes "engine_law tg" and "number_format read write" and "numberOr tg name msg read write none t = Inr v"
  shows "\<exists>p. tg_parse tg name t = Inr p \<and>
    (\<forall>d. (if tv_isHardCoded v then Inr (tv_hardCodedValue v) else executed tg (tv_tmpl v) d (numberText m read none) none) =
       bindR (tg_execute tg p d) (numberText m read none))"
proof (cases "t = [] \<or> read t \<noteq> None")
  case True
  have "CHR ''{'' \<notin> set t \<and> numberText m read none t = Inr (tv_hardCodedValue v) \<and> tv_isHardCoded v"
    using True assms(2,3) by (auto simp: numberOr_def number_format_def numberText_def hardCoded_def)
  with hard_coded_meaning[OF assms(1), of t "numberText m read none" _ name] show ?thesis by fastforce
next
  case False
  with assms(3) show ?thesis by (auto simp: numberOr_def templated_Inr executed_def)
qed

lemma int64_format: "number_format strconv_Atoi format_int"
proof -
  have "strconv_Atoi t = Some v \<Longrightarrow> int64 v" for t v by (auto simp: strconv_Atoi_def Let_def split: option.splits prod.splits if_splits)
  then show ?thesis using atoi_plain atoi_format_int by (auto simp: number_format_def)
qed

lemma uint64_format: "number_format (parse_uint 64) format_uint"
proof -
  have "parse_uint 64 t = Some v \<Longrightarrow> parse_uint 64 (format_uint v) = Some v" for t v
    by (rule parse_format_uint) (auto simp: parse_uint_def split: if_splits)
  then show ?thesis using parse_uint_plain by (auto simp: number_format_def)
qed

lemma duration_format: "engine_law tg \<Longrightarrow> number_format (tg_ParseDuration tg) (tg_durationText tg)"
  by (simp add: engine_law_def number_format_def)

lemma number_kinds:
  "tInt64_UnmarshalText tg = numberOr tg ''int64'' ''illegal int64 template'' strconv_Atoi format_int 0"
  "tUint64_UnmarshalText tg = numberOr tg ''uint64'' ''illegal uint64 template'' (parse_uint 64) format_uint 0"
  "tDuration_UnmarshalText tg = numberOr tg ''duration'' ''illegal duration template'' (tg_ParseDuration tg) (tg_durationText tg) 0"
  unfolding tInt64_UnmarshalText_def tUint64_UnmarshalText_def tDuration_UnmarshalText_def numberOr_def Int64Of_def Uint64Of_def tDurationOf_def
  by (rule ext, rule refl)+

lemma number_renders:
  "tInt64_Render tg v d = (if tv_isHardCoded v then Inr (tv_hardCodedValue v) else executed tg (tv_tmpl v) d int64Text 0)"
  "tUint64_Render tg w d = (if tv_isHardCoded w then Inr (tv_hardCodedValue w) else executed tg (tv_tmpl w) d uint64Text 0)"
  "tDuration_Render tg v d = (if tv_isHardCoded v then Inr (tv_hardCodedValue v) else executed tg (tv_tmpl v) d (durationValue tg) 0)"
  by (simp_all add: tInt64_Render_def tUint64_Render_def tDuration_Render_def)

lemma number_template:
  assumes format: "engine_law tg \<Longrightarrow> number_format read write" and unmarshal: "unmarshal = numberOr tg name msg read write none"
    and render: "\<And>v d. render v d = (if tv_isHardCoded v then Inr (tv_hardCodedValue v) else executed tg (tv_tmpl v) d (numberText m read none) none)"
  shows "template_value (engine_law tg) unmarshal tValue_MarshalText tValue_isEqualTo render (tg_parse tg name) (tg_execute tg) (numberText m read none)"
proof unfold_locales
  fix t v assume ok: "engine_law tg" and v: "unmarshal t = Inr v"
  from numberOr_reread[OF format[OF ok] v[unfolded unmarshal]]
  show "unmarshal (tValue_MarshalText v) = Inr v" by (simp add: unmarshal tValue_MarshalText_def)
  from numberOr_meaning[OF ok format[OF ok] v[unfolded unmarshal], of m] obtain p where p: "tg_parse tg name t = Inr p"
      "\<And>d. render v d = bindR (tg_execute tg p d) (numberText m read none)" unfolding render by blast
  then show "\<not> isl (tg_parse tg name t)" by simp
  fix q d assume "tg_parse tg name t = Inr q"
  with p show "render v d = bindR (tg_execute tg q d) (numberText m read none)" by simp
qed (simp add: tValue_isEqualTo_def tValue_MarshalText_def)

interpretation int64s: template_value "engine_law tg" "tInt64_UnmarshalText tg" tValue_MarshalText tValue_isEqualTo "tInt64_Render tg"
    "tg_parse tg ''int64''" "tg_execute tg" int64Text
  unfolding int64Text_def by (rule number_template[OF int64_format number_kinds(1)]) (simp add: number_renders int64Text_def)

interpretation uint64s: template_value "engine_law tg" "tUint64_UnmarshalText tg" tValue_MarshalText tValue_isEqualTo "tUint64_Render tg"
    "tg_parse tg ''uint64''" "tg_execute tg" uint64Text
  unfolding uint64Text_def by (rule number_template[OF uint64_format number_kinds(2)]) (simp add: number_renders uint64Text_def)

interpretation durations: template_value "engine_law tg" "tDuration_UnmarshalText tg" tValue_MarshalText tValue_isEqualTo "tDuration_Render tg"
    "tg_parse tg ''duration''" "tg_execute tg" "durationValue tg"
  unfolding durationValue_def by (rule number_template[OF duration_format number_kinds(3)]) (simp_all add: number_renders durationValue_def)

end
