(* ===== verification/World.thy ===== *)
theory World
  imports GoLib
begin

section \<open>The operating system the program runs on\<close>

text \<open>
  The package \<^verbatim>\<open>os\<close> as far as the sources use it: a file tree, the clock, the running
  processes and, for each path, the number of open file handles. The file tree is a list of
  nodes under their cleaned absolute paths. Every call may fail: \<open>w_fault\<close> says which call
  on which path returns an error other than "does not exist", so a statement about all
  worlds is a statement about all failures. Symbolic links are not modelled. An open file
  is named by its path; reads and writes are sequential, from the start or after a
  truncation, as the sources do them.
\<close>

datatype osop =
    OpStat | OpOpen | OpClose | OpFlock | OpUnlock | OpRead | OpWrite | OpSeek | OpTruncate
  | OpMkdir | OpRemove | OpRename | OpChown | OpChtimes | OpReadDir | OpProcesses | OpUids
  | OpKill | OpCopy

datatype os_err = ENotExist bytes | EFault osop bytes | EIsDir bytes | ENotDir bytes | ENotEmpty bytes

record fnode =
  n_isDir :: bool
  n_content :: bytes
  n_uid :: nat
  n_gid :: nat
  n_mode :: nat
  n_mtime :: int

type_synonym files = "(bytes \<times> fnode) list"

record world =
  w_files :: files
  w_fault :: "osop \<Rightarrow> bytes \<Rightarrow> bool"
  w_now :: int
  w_open :: "bytes \<Rightarrow> nat"
  w_procs :: "(nat \<times> uint32 list) list"

subsection \<open>File trees\<close>

definition fs_get :: "files \<Rightarrow> bytes \<Rightarrow> fnode option" where
  "fs_get fs p = map_of fs p"

definition fs_del :: "files \<Rightarrow> bytes \<Rightarrow> files" where
  "fs_del fs p = filter (\<lambda>e. fst e \<noteq> p) fs"

definition fs_put :: "files \<Rightarrow> bytes \<Rightarrow> fnode \<Rightarrow> files" where
  "fs_put fs p n = (p, n) # fs_del fs p"

definition under :: "bytes \<Rightarrow> bytes \<Rightarrow> bool" where
  "under p q \<longleftrightarrow> q = p \<or> take (Suc (length p)) q = p @ ''/''"

definition fs_delTree :: "files \<Rightarrow> bytes \<Rightarrow> files" where
  "fs_delTree fs p = filter (\<lambda>e. \<not> under p (fst e)) fs"

definition fs_move :: "files \<Rightarrow> bytes \<Rightarrow> bytes \<Rightarrow> files" where
  "fs_move fs p q =
     map (\<lambda>(r, n). (q @ drop (length p) r, n)) (filter (\<lambda>e. under p (fst e)) fs) @
     filter (\<lambda>e. \<not> under p (fst e) \<and> \<not> under q (fst e)) fs"

definition fs_hasChildren :: "files \<Rightarrow> bytes \<Rightarrow> bool" where
  "fs_hasChildren fs p \<longleftrightarrow> list_ex (\<lambda>e. under p (fst e) \<and> fst e \<noteq> p) fs"

lemma fs_get_del [simp]: "fs_get (fs_del fs p) q = (if q = p then None else fs_get fs q)"
  by (induction fs) (auto simp: fs_get_def fs_del_def)

lemma fs_get_put [simp]: "fs_get (fs_put fs p n) q = (if q = p then Some n else fs_get fs q)"
  using fs_get_del[of fs p q] by (auto simp: fs_put_def fs_get_def)

lemma fs_get_delTree [simp]:
  "fs_get (fs_delTree fs p) q = (if under p q then None else fs_get fs q)"
  by (induction fs) (auto simp: fs_get_def fs_delTree_def)

lemma under_refl [simp]: "under p p"
  by (simp add: under_def)

subsection \<open>Calls\<close>

definition os_Stat :: "bytes \<Rightarrow> ('w world_scheme, os_err, fnode) sm" where
  "os_Stat p s =
     (if w_fault s OpStat p then (Inl (EFault OpStat p), s)
      else case fs_get (w_files s) p of None \<Rightarrow> (Inl (ENotExist p), s) | Some n \<Rightarrow> (Inr n, s))"

definition opened :: "bytes \<Rightarrow> 'w world_scheme \<Rightarrow> 'w world_scheme" where
  "opened p s = s\<lparr>w_open := (w_open s)(p := Suc (w_open s p))\<rparr>"

text \<open>\<^verbatim>\<open>os.OpenFile(p, O_RDONLY, 0)\<close>.\<close>

definition os_OpenRead :: "bytes \<Rightarrow> ('w world_scheme, os_err, unit) sm" where
  "os_OpenRead p s =
     (if w_fault s OpOpen p then (Inl (EFault OpOpen p), s)
      else case fs_get (w_files s) p of
          None \<Rightarrow> (Inl (ENotExist p), s)
        | Some _ \<Rightarrow> (Inr (), opened p s))"

definition newFile :: "int \<Rightarrow> nat \<Rightarrow> fnode" where
  "newFile t mode = \<lparr>n_isDir = False, n_content = [], n_uid = 0, n_gid = 0, n_mode = mode, n_mtime = t\<rparr>"

definition newDir :: "int \<Rightarrow> nat \<Rightarrow> fnode" where
  "newDir t mode = \<lparr>n_isDir = True, n_content = [], n_uid = 0, n_gid = 0, n_mode = mode, n_mtime = t\<rparr>"

text \<open>
  \<^verbatim>\<open>os.OpenFile(p, O_RDWR|O_CREATE, mode)\<close>, with \<open>trunc\<close> for \<^verbatim>\<open>O_TRUNC\<close>. The parent
  directory has to exist for a new file.
\<close>

definition os_OpenCreate :: "bool \<Rightarrow> nat \<Rightarrow> bytes \<Rightarrow> ('w world_scheme, os_err, unit) sm" where
  "os_OpenCreate trunc mode p s =
     (if w_fault s OpOpen p then (Inl (EFault OpOpen p), s)
      else case fs_get (w_files s) p of
          Some n \<Rightarrow>
            if n_isDir n then (Inl (EIsDir p), s)
            else (Inr (), opened p
              (if trunc then s\<lparr>w_files := fs_put (w_files s) p (n\<lparr>n_content := [], n_mtime := w_now s\<rparr>)\<rparr> else s))
        | None \<Rightarrow>
            (case fs_get (w_files s) (filepath_Dir p) of
               None \<Rightarrow> (Inl (ENotExist p), s)
             | Some d \<Rightarrow>
                 if \<not> n_isDir d then (Inl (ENotDir p), s)
                 else (Inr (), opened p (s\<lparr>w_files := fs_put (w_files s) p (newFile (w_now s) mode)\<rparr>))))"

text \<open>\<^verbatim>\<open>Close\<close> releases the handle even when it returns an error.\<close>

definition os_Close :: "bytes \<Rightarrow> ('w world_scheme, os_err, unit) sm" where
  "os_Close p s =
     (if w_fault s OpClose p then Inl (EFault OpClose p) else Inr (),
      s\<lparr>w_open := (w_open s)(p := w_open s p - 1)\<rparr>)"

definition os_Check :: "osop \<Rightarrow> bytes \<Rightarrow> ('w world_scheme, os_err, unit) sm" where
  "os_Check op p s = (if w_fault s op p then Inl (EFault op p) else Inr (), s)"

text \<open>All bytes of an open file, from its start. A read error ends the data for a \<^verbatim>\<open>bufio.Scanner\<close>.\<close>

definition os_ReadAll :: "bytes \<Rightarrow> ('w world_scheme, os_err, bytes) sm" where
  "os_ReadAll p s =
     (if w_fault s OpRead p then (Inl (EFault OpRead p), s)
      else (Inr (case fs_get (w_files s) p of None \<Rightarrow> [] | Some n \<Rightarrow> n_content n), s))"

definition fs_setContent :: "bytes \<Rightarrow> (bytes \<Rightarrow> bytes) \<Rightarrow> 'w world_scheme \<Rightarrow> 'w world_scheme" where
  "fs_setContent p f s =
     (case fs_get (w_files s) p of
        None \<Rightarrow> s
      | Some n \<Rightarrow> s\<lparr>w_files := fs_put (w_files s) p (n\<lparr>n_content := f (n_content n), n_mtime := w_now s\<rparr>)\<rparr>)"

definition os_Truncate0 :: "bytes \<Rightarrow> ('w world_scheme, os_err, unit) sm" where
  "os_Truncate0 p s =
     (if w_fault s OpTruncate p then (Inl (EFault OpTruncate p), s) else (Inr (), fs_setContent p (\<lambda>_. []) s))"

text \<open>A write at the end of the file: every writer of the sources writes from offset 0 of an emptied file.\<close>

definition os_Write :: "bytes \<Rightarrow> bytes \<Rightarrow> ('w world_scheme, os_err, unit) sm" where
  "os_Write p bs s =
     (if w_fault s OpWrite p then (Inl (EFault OpWrite p), s) else (Inr (), fs_setContent p (\<lambda>c. c @ bs) s))"

definition os_RemoveAll :: "bytes \<Rightarrow> ('w world_scheme, os_err, unit) sm" where
  "os_RemoveAll p s =
     (if w_fault s OpRemove p then (Inl (EFault OpRemove p), s)
      else (Inr (), s\<lparr>w_files := fs_delTree (w_files s) p\<rparr>))"

definition os_Remove :: "bytes \<Rightarrow> ('w world_scheme, os_err, unit) sm" where
  "os_Remove p s =
     (if w_fault s OpRemove p then (Inl (EFault OpRemove p), s)
      else if fs_get (w_files s) p = None then (Inl (ENotExist p), s)
      else if fs_hasChildren (w_files s) p then (Inl (ENotEmpty p), s)
      else (Inr (), s\<lparr>w_files := fs_del (w_files s) p\<rparr>))"

definition os_Rename :: "bytes \<Rightarrow> bytes \<Rightarrow> ('w world_scheme, os_err, unit) sm" where
  "os_Rename p q s =
     (if w_fault s OpRename p then (Inl (EFault OpRename p), s)
      else if fs_get (w_files s) p = None \<or> fs_get (w_files s) (filepath_Dir q) = None
        then (Inl (ENotExist p), s)
      else if fs_hasChildren (w_files s) q then (Inl (ENotEmpty q), s)
      else (Inr (), s\<lparr>w_files := fs_move (w_files s) p q\<rparr>))"

definition os_Chown :: "bytes \<Rightarrow> nat \<Rightarrow> nat \<Rightarrow> ('w world_scheme, os_err, unit) sm" where
  "os_Chown p uid gid s =
     (if w_fault s OpChown p then (Inl (EFault OpChown p), s)
      else case fs_get (w_files s) p of
          None \<Rightarrow> (Inl (ENotExist p), s)
        | Some n \<Rightarrow> (Inr (), s\<lparr>w_files := fs_put (w_files s) p (n\<lparr>n_uid := uid, n_gid := gid\<rparr>)\<rparr>))"

definition os_Chtimes :: "bytes \<Rightarrow> int \<Rightarrow> ('w world_scheme, os_err, unit) sm" where
  "os_Chtimes p t s =
     (if w_fault s OpChtimes p then (Inl (EFault OpChtimes p), s)
      else case fs_get (w_files s) p of
          None \<Rightarrow> (Inl (ENotExist p), s)
        | Some n \<Rightarrow> (Inr (), s\<lparr>w_files := fs_put (w_files s) p (n\<lparr>n_mtime := t\<rparr>)\<rparr>))"

text \<open>\<^verbatim>\<open>os.MkdirAll\<close>: every missing ancestor of a cleaned path, from the root.\<close>

fun path_prefixes :: "bytes \<Rightarrow> bytes list \<Rightarrow> bytes list" where
  "path_prefixes base [] = []"
| "path_prefixes base (c # cs) =
     (let p = base @ CHR ''/'' # c in p # path_prefixes p cs)"

definition ancestors :: "bytes \<Rightarrow> bytes list" where
  "ancestors p = (case bytes_split (CHR ''/'') p of [] \<Rightarrow> [] | c # cs \<Rightarrow> path_prefixes c (filter (\<lambda>x. x \<noteq> []) cs))"

definition os_MkdirAll :: "bytes \<Rightarrow> nat \<Rightarrow> ('w world_scheme, os_err, unit) sm" where
  "os_MkdirAll p mode =
     forE (\<lambda>a s.
        if w_fault s OpMkdir a then (Inl (EFault OpMkdir a), s)
        else case fs_get (w_files s) a of
            None \<Rightarrow> (Inr (), s\<lparr>w_files := fs_put (w_files s) a (newDir (w_now s) mode)\<rparr>)
          | Some n \<Rightarrow> if n_isDir n then (Inr (), s) else (Inl (ENotDir a), s))
       (ancestors p)"

text \<open>\<^verbatim>\<open>sys.IsNotExist\<close> of \<^verbatim>\<open>pkg/sys/errors.go\<close> on the errors of this model.\<close>

fun isNotExist :: "os_err \<Rightarrow> bool" where
  "isNotExist (ENotExist _) = True"
| "isNotExist _ = False"

subsection \<open>Which calls leave the open handles alone\<close>

text \<open>\<open>handles_are h\<close>: the open handles are exactly \<open>h\<close>; used with \<open>preserves\<close> for leak freedom.\<close>

definition handles_are :: "(bytes \<Rightarrow> nat) \<Rightarrow> 'w world_scheme \<Rightarrow> bool" where
  "handles_are h s \<longleftrightarrow> w_open s = h"

lemma handles_are_setContent [simp]: "w_open (fs_setContent p f s) = w_open s"
  by (simp add: fs_setContent_def split: option.splits)

lemma handles_are_call [preserve]:
  "preserves (handles_are h) (os_Stat p)"
  "preserves (handles_are h) (os_Check op p)"
  "preserves (handles_are h) (os_ReadAll p)"
  "preserves (handles_are h) (os_Truncate0 p)"
  "preserves (handles_are h) (os_Write p bs)"
  "preserves (handles_are h) (os_RemoveAll p)"
  "preserves (handles_are h) (os_Remove p)"
  "preserves (handles_are h) (os_Rename p q)"
  "preserves (handles_are h) (os_Chown p u g)"
  "preserves (handles_are h) (os_Chtimes p t)"
  by (auto simp: preserves_def handles_are_def os_Stat_def os_Check_def os_ReadAll_def os_Truncate0_def
      os_Write_def os_RemoveAll_def os_Remove_def os_Rename_def os_Chown_def os_Chtimes_def
      split: option.splits)

lemma handles_are_MkdirAll [preserve]: "preserves (handles_are h) (os_MkdirAll p mode)"
  unfolding os_MkdirAll_def
  by (rule preserves_forE) (auto simp: preserves_def handles_are_def split: option.splits)

lemma os_Open_counts:
  "os_OpenRead p s = (Inr u, t) \<Longrightarrow> w_open t = (w_open s)(p := Suc (w_open s p))"
  "os_OpenRead p s = (Inl e, t) \<Longrightarrow> w_open t = w_open s"
  "os_OpenCreate tr m p s = (Inr u, t) \<Longrightarrow> w_open t = (w_open s)(p := Suc (w_open s p))"
  "os_OpenCreate tr m p s = (Inl e, t) \<Longrightarrow> w_open t = w_open s"
  by (auto simp: os_OpenRead_def os_OpenCreate_def opened_def split: if_splits option.splits)

lemma os_Close_counts: "w_open (snd (os_Close p s)) = (w_open s)(p := w_open s p - 1)"
  by (simp add: os_Close_def)

subsection \<open>Calls keep what extends the world\<close>

text \<open>\<open>more_is m\<close>: the fields of the record that extends the world, the program's own state, are \<open>m\<close>.\<close>

definition more_is :: "'a \<Rightarrow> 'a world_scheme \<Rightarrow> bool" where
  "more_is m s \<longleftrightarrow> world.more s = m"

lemma more_is_setContent [simp]: "world.more (fs_setContent p f s) = world.more s"
  by (simp add: fs_setContent_def split: option.splits)

lemma more_is_call [preserve]:
  "preserves (more_is m) (os_Stat p)"
  "preserves (more_is m) (os_Check op p)"
  "preserves (more_is m) (os_ReadAll p)"
  "preserves (more_is m) (os_Truncate0 p)"
  "preserves (more_is m) (os_Write p bs)"
  "preserves (more_is m) (os_RemoveAll p)"
  "preserves (more_is m) (os_Remove p)"
  "preserves (more_is m) (os_Rename p q)"
  "preserves (more_is m) (os_Chown p u g)"
  "preserves (more_is m) (os_Chtimes p t)"
  "preserves (more_is m) (os_Close p)"
  "preserves (more_is m) (os_OpenRead p)"
  "preserves (more_is m) (os_OpenCreate tr k p)"
  by (auto simp: preserves_def more_is_def os_Stat_def os_Check_def os_ReadAll_def os_Truncate0_def
      os_Write_def os_RemoveAll_def os_Remove_def os_Rename_def os_Chown_def os_Chtimes_def os_Close_def
      os_OpenRead_def os_OpenCreate_def opened_def split: option.splits)

lemma more_is_MkdirAll [preserve]: "preserves (more_is m) (os_MkdirAll p mode)"
  unfolding os_MkdirAll_def
  by (rule preserves_forE) (auto simp: preserves_def more_is_def split: option.splits)

subsection \<open>Directories\<close>

text \<open>
  The names \<^verbatim>\<open>ReadDir(-1)\<close> returns for a directory, each with whether it is a directory itself. The
  order of the names is that of the file tree, which Go leaves open.
\<close>

definition child_name :: "bytes \<Rightarrow> bytes \<Rightarrow> bytes option" where
  "child_name dir p =
     (let n = drop (Suc (length dir)) p in
      if take (Suc (length dir)) p = dir @ ''/'' \<and> n \<noteq> [] \<and> CHR ''/'' \<notin> set n then Some n else None)"

definition fs_children :: "files \<Rightarrow> bytes \<Rightarrow> (bytes \<times> bool) list" where
  "fs_children fs dir = List.map_filter (\<lambda>(p, n). map_option (\<lambda>c. (c, n_isDir n)) (child_name dir p)) fs"

definition os_ReadDir :: "bytes \<Rightarrow> ('w world_scheme, os_err, (bytes \<times> bool) list) sm" where
  "os_ReadDir p s =
     (if w_fault s OpReadDir p then (Inl (EFault OpReadDir p), s) else (Inr (fs_children (w_files s) p), s))"

lemma handles_are_ReadDir [preserve]: "preserves (handles_are h) (os_ReadDir p)"
  by (simp add: preserves_def os_ReadDir_def)

lemma more_is_ReadDir [preserve]: "preserves (more_is m) (os_ReadDir p)"
  by (simp add: preserves_def os_ReadDir_def)

end
