(* ===== verification/TemplateFuncs.thy ===== *)
theory TemplateFuncs
  imports Templates World
begin

section \<open>The functions a template may call (pkg/template/funcs.go)\<close>

text \<open>
  The functions that the program adds to those of the engine. The operating system, the fingerprints of keys and the formats of times are
  parameters: \<open>to_read\<close> is the whole content of a file that could be opened, \<open>to_stat\<close> what is known of it. A value of a template is a text, a
  key, a time, a list, or anything else, and may be absent.
\<close>

datatype func_err = FuncMsg string | FuncTmpl string tmpl_err | FuncAt nat tmpl_err | FuncOs os_err | FuncPanic

datatype ('k, 't, 'd) tmpl_arg = ArgText bytes | ArgKey 'k | ArgTime 't | ArgList "'d list" | ArgOther | ArgNil

record ('k, 't, 'i) tmpl_os =
  to_open :: "bytes \<Rightarrow> os_err option"
  to_read :: "bytes \<Rightarrow> os_err + bytes"
  to_stat :: "bytes \<Rightarrow> os_err + 'i"
  to_IsDir :: "'i \<Rightarrow> bool"
  to_LookupEnv :: "bytes \<Rightarrow> bytes option"
  to_sha256 :: "'k \<Rightarrow> bytes"
  to_FingerprintLegacyMD5 :: "'k \<Rightarrow> bytes"
  to_Type :: "'k \<Rightarrow> bytes"
  to_Format :: "'t \<Rightarrow> bytes \<Rightarrow> bytes"

subsection \<open>The first and the last element with a result\<close>

definition isFalse :: "bytes \<Rightarrow> bool" where
  "isFalse what \<longleftrightarrow> what \<in> set [''false'', ''0'', ''<nil>'', [], ''off'', ''no'']"

fun firstMatchingFrom :: "('d \<Rightarrow> tmpl_err + bytes) \<Rightarrow> nat \<Rightarrow> 'd list \<Rightarrow> func_err + bytes" where
  "firstMatchingFrom execute i [] = Inr []"
| "firstMatchingFrom execute i (elem # r) =
     (case execute elem of
        Inl e \<Rightarrow> Inl (FuncAt i e)
      | Inr v \<Rightarrow> if length v > 0 \<and> \<not> isFalse v then Inr v else firstMatchingFrom execute (i + 1) r)"

fun lastMatchingFrom :: "('d \<Rightarrow> tmpl_err + bytes) \<Rightarrow> nat \<Rightarrow> bytes \<Rightarrow> 'd list \<Rightarrow> func_err + bytes" where
  "lastMatchingFrom execute i result [] = Inr result"
| "lastMatchingFrom execute i result (elem # r) =
     (case execute elem of
        Inl e \<Rightarrow> Inl (FuncAt i e)
      | Inr v \<Rightarrow> lastMatchingFrom execute (i + 1) (if length v > 0 \<and> \<not> isFalse v then v else result) r)"

definition firstMatching :: "('p, 'd, 'u) tmpl_engine \<Rightarrow> bytes \<Rightarrow> ('k, 't, 'd) tmpl_arg \<Rightarrow> func_err + bytes" where
  "firstMatching tg text list =
     (case tg_parse tg ''firstMatching'' text of
        Inl e \<Rightarrow> Inl (FuncTmpl ''firstMatching cannot parse template'' e)
      | Inr t \<Rightarrow>
         case list of
           ArgList xs \<Rightarrow> firstMatchingFrom (tg_execute tg t) 0 xs
         | ArgNil \<Rightarrow> Inl FuncPanic
         | _ \<Rightarrow> Inl (FuncMsg ''cannot do firstMatching on element kind''))"

definition lastMatching :: "('p, 'd, 'u) tmpl_engine \<Rightarrow> bytes \<Rightarrow> ('k, 't, 'd) tmpl_arg \<Rightarrow> func_err + bytes" where
  "lastMatching tg text list =
     (case tg_parse tg ''lastMatching'' text of
        Inl e \<Rightarrow> Inl (FuncTmpl ''lastMatching cannot parse template'' e)
      | Inr t \<Rightarrow>
         case list of
           ArgList xs \<Rightarrow> lastMatchingFrom (tg_execute tg t) 0 [] xs
         | ArgNil \<Rightarrow> Inl FuncPanic
         | _ \<Rightarrow> Inl (FuncMsg ''cannot do lastMatching on element kind''))"

subsection \<open>Files and variables of the host\<close>

definition maximumReadFileSize :: nat where
  "maximumReadFileSize = 16 * 1024 * 1024"

definition tf_evalOpt :: "bytes \<Rightarrow> func_err + unit" where
  "tf_evalOpt v = (if v = ''optional'' then Inr () else Inl (FuncMsg ''illegal optional''))"

fun tf_evalOpts :: "bytes list \<Rightarrow> func_err + unit" where
  "tf_evalOpts [] = Inr ()"
| "tf_evalOpts (v # r) = bindR (tf_evalOpt v) (\<lambda>_. tf_evalOpts r)"

text \<open>The name of the file is the last argument; whether it is optional is told before.\<close>

definition tf_parseArgs :: "bytes \<Rightarrow> bytes list \<Rightarrow> func_err + bytes \<times> bool" where
  "tf_parseArgs arg0 args =
     (if length args > 0
      then bindR (tf_evalOpt arg0) (\<lambda>_. bindR (tf_evalOpts (butlast args)) (\<lambda>_. Inr (last args, True)))
      else Inr (arg0, False))"

definition tf_file :: "('k, 't, 'i) tmpl_os \<Rightarrow> bytes \<Rightarrow> bytes list \<Rightarrow> func_err + bytes" where
  "tf_file os arg0 args =
     bindR (tf_parseArgs arg0 args) (\<lambda>(filename, optional).
     if filename = [] then (if optional then Inr [] else Inl (FuncMsg ''no file specified''))
     else case to_open os filename of
         Some e \<Rightarrow> if isNotExist e \<and> optional then Inr [] else Inl (FuncOs e)
       | None \<Rightarrow>
          case to_read os filename of
            Inl e \<Rightarrow> Inl (FuncOs e)
          | Inr content \<Rightarrow> Inr (take maximumReadFileSize content))"

definition tf_stat :: "('k, 't, 'i) tmpl_os \<Rightarrow> bytes \<Rightarrow> bytes list \<Rightarrow> func_err + 'i option" where
  "tf_stat os arg0 args =
     bindR (tf_parseArgs arg0 args) (\<lambda>(filename, optional).
     if filename = [] then (if optional then Inr None else Inl (FuncMsg ''no file specified''))
     else case to_stat os filename of
         Inl e \<Rightarrow> if isNotExist e \<and> optional then Inr None else Inl (FuncOs e)
       | Inr fi \<Rightarrow> Inr (Some fi))"

definition tf_fileExists :: "('k, 't, 'i) tmpl_os \<Rightarrow> bytes \<Rightarrow> func_err + bool" where
  "tf_fileExists os filename =
     (case to_stat os filename of
        Inl e \<Rightarrow> if isNotExist e then Inr False else Inl (FuncOs e)
      | Inr fi \<Rightarrow> Inr (\<not> to_IsDir os fi))"

definition tf_dirExists :: "('k, 't, 'i) tmpl_os \<Rightarrow> bytes \<Rightarrow> func_err + bool" where
  "tf_dirExists os filename =
     (case to_stat os filename of
        Inl e \<Rightarrow> if isNotExist e then Inr False else Inl (FuncOs e)
      | Inr fi \<Rightarrow> Inr (to_IsDir os fi))"

definition tf_env :: "('k, 't, 'i) tmpl_os \<Rightarrow> bytes \<Rightarrow> bytes list \<Rightarrow> bytes" where
  "tf_env os key others = (case to_LookupEnv os key of Some v \<Rightarrow> v | None \<Rightarrow> case others of [] \<Rightarrow> [] | o1 # _ \<Rightarrow> o1)"

subsection \<open>Fingerprints of keys\<close>

text \<open>\<open>modern\<close> and \<open>long\<close> after all options.\<close>

fun fingerprintOpts :: "bool \<Rightarrow> bool \<Rightarrow> ('k, 't, 'd) tmpl_arg list \<Rightarrow> func_err + bool \<times> bool" where
  "fingerprintOpts modern long [] = Inr (modern, long)"
| "fingerprintOpts modern long (opt # r) =
     (if opt \<in> set [ArgText ''sha'', ArgText ''modern''] then fingerprintOpts True long r
      else if opt \<in> set [ArgText ''md5'', ArgText ''legacy''] then fingerprintOpts False long r
      else if opt = ArgText ''long'' then fingerprintOpts modern True r
      else if opt = ArgText ''short'' then fingerprintOpts modern False r
      else Inl (FuncMsg ''illegal option''))"

text \<open>The result of \<^verbatim>\<open>ssh.FingerprintSHA256\<close> is not used.\<close>

definition fingerprintPublicKey :: "('k, 't, 'i) tmpl_os \<Rightarrow> 'k \<Rightarrow> ('k, 't, 'd) tmpl_arg list \<Rightarrow> func_err + bytes" where
  "fingerprintPublicKey os what opts =
     bindR (fingerprintOpts False True opts) (\<lambda>(modern, long).
     if modern then Inr (to_sha256 os what)
     else Inr (if long then to_Type os what @ '':'' @ to_FingerprintLegacyMD5 os what else to_FingerprintLegacyMD5 os what))"

text \<open>The key comes last; all arguments before it are options.\<close>

definition tf_fingerprint :: "('k, 't, 'i) tmpl_os \<Rightarrow> ('k, 't, 'd) tmpl_arg \<Rightarrow> ('k, 't, 'd) tmpl_arg list \<Rightarrow> func_err + bytes" where
  "tf_fingerprint os arg args =
     (case last (arg # args) of
        ArgKey v \<Rightarrow> fingerprintPublicKey os v (butlast (arg # args))
      | _ \<Rightarrow> Inl (FuncMsg ''unsupported type''))"

subsection \<open>Formats of times\<close>

definition dateLayouts :: "(bytes \<times> bytes) list" where
  "dateLayouts =
     [(''default'', ''01/02 03:04:05PM '' @ [CHR 0x27] @ ''06 -0700''), (''ansic'', ''Mon Jan _2 15:04:05 2006''),
      (''unix'', ''Mon Jan _2 15:04:05 MST 2006''), (''ruby'', ''Mon Jan 02 15:04:05 -0700 2006''), (''rfc822'', ''02 Jan 06 15:04 MST''),
      (''rfc822z'', ''02 Jan 06 15:04 -0700''), (''rfc850'', ''Monday, 02-Jan-06 15:04:05 MST''), (''rfc1123'', ''Mon, 02 Jan 2006 15:04:05 MST''),
      (''rfc1123z'', ''Mon, 02 Jan 2006 15:04:05 -0700''), (''rfc3339'', ''2006-01-02T15:04:05Z07:00''),
      (''rfc3339Nano'', ''2006-01-02T15:04:05.999999999Z07:00''), (''kitchen'', ''3:04PM''), (''stamp'', ''Jan _2 15:04:05''),
      (''stampMilli'', ''Jan _2 15:04:05.000''), (''stampMicro'', ''Jan _2 15:04:05.000000''), (''stampNano'', ''Jan _2 15:04:05.000000000''),
      (''dateTime'', ''2006-01-02 15:04:05''), (''dateTimeT'', ''2006-01-02 15:04:05 MST''), (''date'', ''2006-01-02''), (''dateOnly'', ''2006-01-02''),
      (''time'', ''15:04:05''), (''timeOnly'', ''15:04:05'')]"

text \<open>\<open>sprint\<close> is \<^verbatim>\<open>fmt.Sprint\<close> of an option that is not a text. Options after the first are never looked at.\<close>

definition formatDate :: "('k, 't, 'i) tmpl_os \<Rightarrow> (('k, 't, 'd) tmpl_arg \<Rightarrow> bytes) \<Rightarrow> 't \<Rightarrow> ('k, 't, 'd) tmpl_arg list \<Rightarrow> func_err + bytes" where
  "formatDate os sprint what opts =
     Inr (to_Format os what
       (case opts of
          [] \<Rightarrow> the (map_of dateLayouts ''default'')
        | ArgText v # _ \<Rightarrow> (case map_of dateLayouts v of Some layout \<Rightarrow> layout | None \<Rightarrow> v)
        | v # _ \<Rightarrow> sprint v))"

definition tf_format :: "('k, 't, 'i) tmpl_os \<Rightarrow> (('k, 't, 'd) tmpl_arg \<Rightarrow> bytes) \<Rightarrow> ('k, 't, 'd) tmpl_arg \<Rightarrow> ('k, 't, 'd) tmpl_arg list \<Rightarrow> func_err + bytes" where
  "tf_format os sprint arg args =
     (case last (arg # args) of
        ArgTime v \<Rightarrow> formatDate os sprint v (butlast (arg # args))
      | _ \<Rightarrow> Inl (FuncMsg ''unsupported type''))"

subsection \<open>The last match is the first match of the reversed list\<close>

text \<open>A match is the first result that is not empty and not false; both functions are written over the list of all results.\<close>

definition matches :: "bytes list \<Rightarrow> bytes list" where
  "matches rs = filter (\<lambda>v. \<not> isFalse v) rs"

lemma firstMatchingFrom_results:
  assumes "\<And>x. x \<in> set xs \<Longrightarrow> execute x = Inr (f x)"
  shows "firstMatchingFrom execute i xs = Inr (case matches (map f xs) of [] \<Rightarrow> [] | v # _ \<Rightarrow> v)"
  using assms by (induction xs arbitrary: i) (auto simp: matches_def isFalse_def)

lemma lastMatchingFrom_results:
  assumes "\<And>x. x \<in> set xs \<Longrightarrow> execute x = Inr (f x)"
  shows "lastMatchingFrom execute i result xs = Inr (last (result # matches (map f xs)))"
  using assms by (induction xs arbitrary: i result) (auto simp: matches_def isFalse_def)

lemma lastMatchingFrom_Inr: "lastMatchingFrom execute i result xs = Inr v \<Longrightarrow> x \<in> set xs \<Longrightarrow> \<not> isl (execute x)"
  by (induction xs arbitrary: i result) (auto split: sum.splits)

lemma lastMatchingFrom_mono:
  assumes "\<forall>d v. f d = Inr v \<longrightarrow> g d = Inr v"
  shows "lastMatchingFrom f i result xs = Inr w \<Longrightarrow> lastMatchingFrom g j result xs = Inr w"
  using assms by (induction xs arbitrary: i j result) (auto split: sum.splits)

lemma last_is_first_reversed: "lastMatchingFrom execute i [] xs = Inr v \<Longrightarrow> firstMatchingFrom execute j (rev xs) = Inr v"
proof -
  assume l: "lastMatchingFrom execute i [] xs = Inr v"
  have f: "\<And>x. x \<in> set xs \<Longrightarrow> execute x = Inr (projr (execute x))" using lastMatchingFrom_Inr[OF l] by simp
  with l have "v = last ([] # matches (map (projr \<circ> execute) xs))" by (simp add: lastMatchingFrom_results[of xs execute "projr \<circ> execute"])
  moreover have "matches (map (projr \<circ> execute) (rev xs)) = rev (matches (map (projr \<circ> execute) xs))" by (simp add: matches_def rev_filter rev_map)
  moreover have "firstMatchingFrom execute j (rev xs) = Inr (case matches (map (projr \<circ> execute) (rev xs)) of [] \<Rightarrow> [] | v # _ \<Rightarrow> v)"
    using f by (intro firstMatchingFrom_results) simp
  ultimately show ?thesis by (cases "matches (map (projr \<circ> execute) xs)" rule: rev_cases) simp_all
qed

end
