(* ===== verification/TemplateExample.thy ===== *)
theory TemplateExample
  imports TemplateFuncs
begin

section \<open>Settings and the templates they stand for\<close>

text \<open>An engine of three kinds of templates: plain texts, a comment, and the data; durations are seconds.\<close>

type_synonym tiny = "tmpl_node list \<times> bool"

definition tiny_parse :: "bytes \<Rightarrow> bytes \<Rightarrow> tmpl_err + tiny" where
  "tiny_parse name t =
     (if t = [] \<or> t = ''{{/**/}}'' then Inr ([], False)
      else if t = ''{{.}}'' then Inr ([OtherNode], True)
      else if CHR ''{'' \<in> set t then Inl (TmplErr t)
      else Inr ([TextNode t], False))"

definition tiny_execute :: "tiny \<Rightarrow> bytes \<Rightarrow> tmpl_err + bytes" where
  "tiny_execute p d = Inr (if snd p then d else concat (map (\<lambda>n. case n of TextNode t \<Rightarrow> t | OtherNode \<Rightarrow> []) (fst p)))"

definition tiny_ParseDuration :: "bytes \<Rightarrow> int option" where
  "tiny_ParseDuration t = (if t \<noteq> [] \<and> last t = CHR ''s'' then map_option (\<lambda>n. int n * 1000000000) (parse_uint 32 (butlast t)) else None)"

definition tiny_durationText :: "int \<Rightarrow> bytes" where
  "tiny_durationText v = format_uint (nat (v div 1000000000)) @ ''s''"

definition tinyEngine :: "(tiny, bytes, bytes) tmpl_engine" where
  "tinyEngine = \<lparr>tg_parse = tiny_parse, tg_nodes = fst, tg_execute = tiny_execute, tg_ParseDuration = tiny_ParseDuration,
     tg_durationText = tiny_durationText, tg_parseUrl = Inr\<rparr>"

lemma tinyEngine_sel [simp]:
  "tg_parse tinyEngine = tiny_parse" "tg_nodes tinyEngine = fst" "tg_execute tinyEngine = tiny_execute"
  "tg_ParseDuration tinyEngine = tiny_ParseDuration" "tg_durationText tinyEngine = tiny_durationText"
  by (simp_all add: tinyEngine_def)

lemma tiny_duration:
  assumes "tiny_ParseDuration t = Some v"
  shows "bytes_TrimSpace t = t" "t \<noteq> []" "CHR ''{'' \<notin> set t" "tiny_ParseDuration (tiny_durationText v) = Some v"
proof -
  from assms obtain n where n: "t = butlast t @ ''s''" "parse_uint 32 (butlast t) = Some n" "v = int n * 1000000000"
    by (auto simp: tiny_ParseDuration_def split: if_splits) (metis append_butlast_last_id)
  have digits: "\<And>c. c \<in> set (butlast t) \<Longrightarrow> is_digit c"
    using n(2) by (auto simp: parse_uint_def list_all_iff split: if_splits)
  have chars: "\<And>c. c \<in> set t \<Longrightarrow> c = CHR ''s'' \<or> is_digit c" using digits by (subst (asm) n(1)) auto
  show "t \<noteq> []" using n(1) by auto
  then show "bytes_TrimSpace t = t" using chars by (intro plainText_trim) (fastforce simp: plainText_def is_digit_def)
  show "CHR ''{'' \<notin> set t" using chars[of "CHR ''{''"] by (auto simp: is_digit_def)
  have "parse_uint 32 (format_uint n) = Some n" using n(2) by (intro parse_format_uint) (auto simp: parse_uint_def split: if_splits)
  then show "tiny_ParseDuration (tiny_durationText v) = Some v" by (simp add: tiny_ParseDuration_def tiny_durationText_def n(3))
qed

lemma tiny_law: "engine_law tinyEngine"
  unfolding engine_law_def using tiny_duration
  by (auto simp: tiny_parse_def tiny_execute_def split: if_splits)

text \<open>
  C37: A setting means what its text means as a template, whether it is hard-coded or not: for switches, signed and unsigned numbers, and durations,
  the value that is read from a text renders to what executing the text as a template and reading the result gives, errors included.
\<close>

theorem values_mean_template:
  assumes law: "engine_law tg"
    and read: "tBool_UnmarshalText tg tb = Inr b" "tInt64_UnmarshalText tg ti = Inr i" "tUint64_UnmarshalText tg tn = Inr n"
      "tDuration_UnmarshalText tg td = Inr w"
  shows "(\<exists>p. tg_parse tg ''bool'' tb = Inr p \<and> tBool_Render tg b d = bindR (tg_execute tg p d) boolText) \<and>
    (\<exists>p. tg_parse tg ''int64'' ti = Inr p \<and> tInt64_Render tg i d = bindR (tg_execute tg p d) int64Text) \<and>
    (\<exists>p. tg_parse tg ''uint64'' tn = Inr p \<and> tUint64_Render tg n d = bindR (tg_execute tg p d) uint64Text) \<and>
    (\<exists>p. tg_parse tg ''duration'' td = Inr p \<and> tDuration_Render tg w d = bindR (tg_execute tg p d) (durationValue tg))"
  using bools.executes[OF law read(1)] int64s.executes[OF law read(2)] uint64s.executes[OF law read(3)] durations.executes[OF law read(4)]
  by blast

text \<open>
  C38: A text setting renders to the result of its template, but for a template without nodes, which has only comments: then the source of
  the template is the value.
\<close>

theorem string_renders_template:
  assumes "engine_law tg" and "tString_UnmarshalText tg t = Inr s" and "tg_parse tg ''string'' t = Inr p"
  shows "tString_Render tg s d = (if tg_nodes tg p = [] then Inr t else tg_execute tg p d)"
proof (cases "tg_nodes tg p")
  case Nil
  with assms(2,3) show ?thesis by (auto simp: tString_UnmarshalText_def illegalTemplate_def tString_Render_def)
next
  case (Cons n r)
  show ?thesis
  proof (cases "\<exists>x. n = TextNode x \<and> r = []")
    case True
    then obtain x where x: "tg_nodes tg p = [TextNode x]" using Cons by blast
    with assms(1,3) have "tg_execute tg p d = Inr x" unfolding engine_law_def by blast
    with assms(2,3) x show ?thesis by (auto simp: tString_UnmarshalText_def illegalTemplate_def tString_Render_def)
  next
    case False
    with Cons assms(2,3) show ?thesis
      by (auto simp: tString_UnmarshalText_def illegalTemplate_def tString_Render_def executed_def split: tmpl_node.splits list.splits)
         (cases "tg_execute tg p d"; simp)+
  qed
qed

text \<open>
  C39: The last element of a list with a result is the first one of the reversed list: where \<^verbatim>\<open>lastMatching\<close> succeeds, \<^verbatim>\<open>firstMatching\<close> gives the
  same for the list in reversed order, provided that the text means the same under both names.
\<close>

theorem last_match_is_first_reversed:
  assumes "tg_parse tg ''lastMatching'' text = Inr p" and "tg_parse tg ''firstMatching'' text = Inr q"
    and "\<forall>d v. tg_execute tg p d = Inr v \<longrightarrow> tg_execute tg q d = Inr v"
    and "lastMatching tg text (ArgList xs) = Inr v"
  shows "firstMatching tg text (ArgList (rev xs)) = Inr v"
  using last_is_first_reversed[of "tg_execute tg q" 0 xs v 0] lastMatchingFrom_mono[OF assms(3)] assms(1,2,4)
  by (simp add: firstMatching_def lastMatching_def)

subsection \<open>Witnesses\<close>

lemma values_mean_template_witness:
  "tBool_Render tinyEngine (hardCoded True ''Yes'') ''x'' = Inr True \<and> tInt64_Render tinyEngine (hardCoded (- 7) ''-7'') ''x'' = Inr (- 7)"
proof -
  have "bytes_TrimSpace ''Yes'' = ''Yes''" by (rule plainText_trim) (simp_all add: plainText_def)
  moreover have "to_lower ''Yes'' = ''yes''" by code_simp
  ultimately have b: "tBool_UnmarshalText tinyEngine ''Yes'' = Inr (hardCoded True ''Yes'')"
    by (simp add: tBool_UnmarshalText_def)
  have "strconv_Atoi ''-7'' = Some (- 7)"
    by (simp add: strconv_Atoi_def parse_uint_def is_digit_def digits_val_def digit_val_def int64_def)
  moreover have "format_int (- 7) = ''-7''" by (simp add: format_int_def format_uint.simps[of 7] digit_char_def char_of_eq_iff)
  ultimately have i: "tInt64_UnmarshalText tinyEngine ''-7'' = Inr (hardCoded (- 7) ''-7'')"
    by (simp add: tInt64_UnmarshalText_def Int64Of_def)
  have n: "tUint64_UnmarshalText tinyEngine ''{{.}}'' =
      Inr \<lparr>tv_isHardCoded = False, tv_hardCodedValue = 0, tv_plain = ''{{.}}'', tv_tmpl = Some ([OtherNode], True)\<rparr>" by code_simp
  have "tiny_ParseDuration ''90s'' = Some 90000000000"
    by (simp add: tiny_ParseDuration_def parse_uint_def is_digit_def digits_val_def digit_val_def)
  moreover have "format_uint 90 = ''90''" by (simp add: format_uint.simps[of 90] format_uint.simps[of 9] digit_char_def char_of_eq_iff)
  ultimately have w: "tDuration_UnmarshalText tinyEngine ''90s'' = Inr (hardCoded 90000000000 ''90s'')"
    by (simp add: tDuration_UnmarshalText_def tDurationOf_def tiny_durationText_def)
  from values_mean_template[OF tiny_law b i n w, of "''x''"] show ?thesis by (simp add: tBool_Render_def tInt64_Render_def hardCoded_def)
qed

lemma string_renders_template_witness: "tString_Render tinyEngine \<lparr>ts_isHardCoded = True, ts_plain = ''{{/**/}}'', ts_tmpl = None\<rparr> ''x'' = Inr ''{{/**/}}''"
proof -
  have s: "tString_UnmarshalText tinyEngine ''{{/**/}}'' = Inr \<lparr>ts_isHardCoded = True, ts_plain = ''{{/**/}}'', ts_tmpl = None\<rparr>" by code_simp
  have p: "tg_parse tinyEngine ''string'' ''{{/**/}}'' = Inr ([], False)" by code_simp
  from string_renders_template[OF tiny_law s p, of "''x''"] show ?thesis by simp
qed

lemma last_match_is_first_reversed_witness:
  "firstMatching tinyEngine ''{{.}}'' (ArgList (rev [''a'', ''no'', ''b'', ''0'']) :: (unit, unit, bytes) tmpl_arg) = Inr ''b''"
proof -
  have p: "tg_parse tinyEngine ''lastMatching'' ''{{.}}'' = Inr ([OtherNode], True)" by code_simp
  have q: "tg_parse tinyEngine ''firstMatching'' ''{{.}}'' = Inr ([OtherNode], True)" by code_simp
  have v: "lastMatching tinyEngine ''{{.}}'' (ArgList [''a'', ''no'', ''b'', ''0''] :: (unit, unit, bytes) tmpl_arg) = Inr ''b''" by code_simp
  show ?thesis by (rule last_match_is_first_reversed[OF p q _ v]) simp
qed

end
