(* ===== verification/EtcUnix.thy ===== *)
theory EtcUnix
  imports World
begin

section \<open>Columns of the Unix account files (pkg/user/etc-unix.go)\<close>

text \<open>
  The errors of package \<^verbatim>\<open>user\<close>, and the validators and the number parser its three file
  formats share. A validator that returns Go's nil is \<open>None\<close> here.
\<close>

datatype user_err =
    ErrNew string
  | ErrIllegalAmountOfColumns nat nat
  | ErrCannotParseEntryAt bytes uint32 user_err
  | ErrCannotWriteAt bytes uint32 user_err
  | ErrOs os_err
  | ErrGroupStillUsed uint32 bytes
  | ErrHomeDirIsFile bytes
  | ErrHomeDirExists bytes
  | ErrCannotCreateHomeDir bytes user_err
  | ErrCannotMoveHomeDir bytes bytes user_err
  | ErrCannotKill uint32 user_err
  | ErrCrypt bytes
  | Panic string

text \<open>The error variables of the package, each made by \<^verbatim>\<open>errors.New\<close> with its message.\<close>

abbreviation ErrEmptyUserName :: user_err where "ErrEmptyUserName \<equiv> ErrNew ''empty user name''"
abbreviation ErrTooLongUserName :: user_err where "ErrTooLongUserName \<equiv> ErrNew ''user name is longer than 32 characters''"
abbreviation ErrIllegalUserName :: user_err where "ErrIllegalUserName \<equiv> ErrNew ''illegal user name''"
abbreviation ErrEmptyGroupName :: user_err where "ErrEmptyGroupName \<equiv> ErrNew ''empty group name''"
abbreviation ErrTooLongGroupName :: user_err where "ErrTooLongGroupName \<equiv> ErrNew ''group name is longer than 32 characters''"
abbreviation ErrIllegalGroupName :: user_err where "ErrIllegalGroupName \<equiv> ErrNew ''illegal group name''"
abbreviation ErrTooLongGeocs :: user_err where "ErrTooLongGeocs \<equiv> ErrNew ''geocs is longer than 255 characters''"
abbreviation ErrIllegalGeocs :: user_err where "ErrIllegalGeocs \<equiv> ErrNew ''illegal geocs''"
abbreviation ErrEtcGroupEmptyGid :: user_err where "ErrEtcGroupEmptyGid \<equiv> ErrNew ''empty GID''"
abbreviation ErrEtcGroupIllegalGid :: user_err where "ErrEtcGroupIllegalGid \<equiv> ErrNew ''illegal GID''"
abbreviation ErrEtcPasswdEmptyUid :: user_err where "ErrEtcPasswdEmptyUid \<equiv> ErrNew ''empty UID''"
abbreviation ErrEtcPasswdIllegalUid :: user_err where "ErrEtcPasswdIllegalUid \<equiv> ErrNew ''illegal UID''"
abbreviation ErrEtcPasswdEmptyGid :: user_err where "ErrEtcPasswdEmptyGid \<equiv> ErrNew ''empty GID''"
abbreviation ErrEtcPasswdIllegalGid :: user_err where "ErrEtcPasswdIllegalGid \<equiv> ErrNew ''illegal GID''"
abbreviation ErrEtcPasswdEmptyHomeDir :: user_err where "ErrEtcPasswdEmptyHomeDir \<equiv> ErrNew ''empty home directory''"
abbreviation ErrEtcPasswdTooLongHomeDir :: user_err where "ErrEtcPasswdTooLongHomeDir \<equiv> ErrNew ''home directory is longer than 255 characters''"
abbreviation ErrEtcPasswdIllegalHomeDir :: user_err where "ErrEtcPasswdIllegalHomeDir \<equiv> ErrNew ''illegal home directory''"
abbreviation ErrEtcPasswdEmptyShell :: user_err where "ErrEtcPasswdEmptyShell \<equiv> ErrNew ''empty shell''"
abbreviation ErrEtcPasswdTooLongShell :: user_err where "ErrEtcPasswdTooLongShell \<equiv> ErrNew ''shell is longer than 255 characters''"
abbreviation ErrEtcPasswdIllegalShell :: user_err where "ErrEtcPasswdIllegalShell \<equiv> ErrNew ''illegal shell''"
abbreviation ErrEtcShadowEmptyPassword :: user_err where "ErrEtcShadowEmptyPassword \<equiv> ErrNew ''empty password''"
abbreviation ErrEtcShadowEmptyLastChangedAt :: user_err where "ErrEtcShadowEmptyLastChangedAt \<equiv> ErrNew ''empty last changed at''"
abbreviation ErrEtcShadowIllegalLastChangedAt :: user_err where "ErrEtcShadowIllegalLastChangedAt \<equiv> ErrNew ''illegal last changed at''"
abbreviation ErrEtcShadowIllegalMinimumAge :: user_err where "ErrEtcShadowIllegalMinimumAge \<equiv> ErrNew ''illegal minimum age''"
abbreviation ErrEtcShadowEmptyMaximumAge :: user_err where "ErrEtcShadowEmptyMaximumAge \<equiv> ErrNew ''empty maximum age''"
abbreviation ErrEtcShadowIllegalMaximumAge :: user_err where "ErrEtcShadowIllegalMaximumAge \<equiv> ErrNew ''illegal maximum age''"
abbreviation ErrEtcShadowIllegalWarnAge :: user_err where "ErrEtcShadowIllegalWarnAge \<equiv> ErrNew ''illegal warn age''"
abbreviation ErrEtcShadowIllegalInactiveAge :: user_err where "ErrEtcShadowIllegalInactiveAge \<equiv> ErrNew ''illegal inactive age''"
abbreviation ErrEtcShadowIllegalExpireAt :: user_err where "ErrEtcShadowIllegalExpireAt \<equiv> ErrNew ''illegal expire at''"
abbreviation ErrEtcShadowIllegalUnused :: user_err where "ErrEtcShadowIllegalUnused \<equiv> ErrNew ''illegal unused (9)''"
abbreviation ErrNotInitialized :: user_err where "ErrNotInitialized \<equiv> ErrNew ''was not initialized''"
abbreviation ErrNoSuchUser :: user_err where "ErrNoSuchUser \<equiv> ErrNew ''no such user''"
abbreviation ErrNoSuchGroup :: user_err where "ErrNoSuchGroup \<equiv> ErrNew ''no such group''"
abbreviation ErrUserDoesNotFulfilRequirement :: user_err where "ErrUserDoesNotFulfilRequirement \<equiv> ErrNew ''user does not fulfill requirement''"
abbreviation ErrGroupDoesNotFulfilRequirement :: user_err where "ErrGroupDoesNotFulfilRequirement \<equiv> ErrNew ''group does not fulfill requirement''"
abbreviation ErrNoSuchCrypt :: user_err where "ErrNoSuchCrypt \<equiv> ErrNew ''no such unix password hashing method''"

abbreviation byte :: "char \<Rightarrow> nat" where
  "byte c \<equiv> of_char c"

subsection \<open>Definitions\<close>

definition badUnixChar :: "nat \<Rightarrow> char \<Rightarrow> bool" where
  "badUnixChar i c \<longleftrightarrow>
     (i = 0 \<and> (c = CHR ''~'' \<or> c = CHR ''-'' \<or> c = CHR ''+'')) \<or> byte c < 33 \<or>
     c = CHR 0x5C \<or> c = CHR ''/'' \<or> c = CHR '':'' \<or> c = CHR ''*'' \<or> c = CHR ''?'' \<or>
     c = CHR 0x22 \<or> c = CHR ''>'' \<or> c = CHR ''<'' \<or> c = CHR ''|'' \<or> c = CHR '',''"

fun badUnixLoop :: "nat \<Rightarrow> bytes \<Rightarrow> bool" where
  "badUnixLoop i [] = True"
| "badUnixLoop i (c # cs) = (\<not> badUnixChar i c \<and> badUnixLoop (Suc i) cs)"

definition validateBadUnixUser :: "bytes \<Rightarrow> user_err \<Rightarrow> user_err \<Rightarrow> user_err \<Rightarrow> user_err option" where
  "validateBadUnixUser s errEmpty errTooLong errIllegal =
     (if length s = 0 then Some errEmpty
      else if length s > 32 then Some errTooLong
      else if s = ''.'' then Some errIllegal
      else if s = ''..'' then Some errIllegal
      else if badUnixLoop 0 s then None else Some errIllegal)"

text \<open>
  The loop of \<^verbatim>\<open>validateUnixName\<close>: \<open>None\<close> for a forbidden byte, else whether one of the
  bytes was not a digit. \<open>n\<close> is the length of the whole name.
\<close>

fun unixNameLoop :: "nat \<Rightarrow> nat \<Rightarrow> bool \<Rightarrow> bytes \<Rightarrow> bool option" where
  "unixNameLoop n i nonNumeric [] = Some nonNumeric"
| "unixNameLoop n i nonNumeric (c # cs) =
     (if 97 \<le> byte c \<and> byte c \<le> 122 then unixNameLoop n (Suc i) True cs
      else if 65 \<le> byte c \<and> byte c \<le> 90 then unixNameLoop n (Suc i) True cs
      else if 48 \<le> byte c \<and> byte c \<le> 57 then unixNameLoop n (Suc i) nonNumeric cs
      else if c = CHR ''_'' \<or> c = CHR ''.'' then unixNameLoop n (Suc i) True cs
      else if i > 0 \<and> c = CHR ''-'' then unixNameLoop n (Suc i) True cs
      else if i = n - 1 \<and> c = CHR ''$'' then unixNameLoop n (Suc i) True cs
      else None)"

definition validateUnixName :: "bytes \<Rightarrow> user_err \<Rightarrow> user_err \<Rightarrow> user_err \<Rightarrow> user_err option" where
  "validateUnixName s errEmpty errTooLong errIllegal =
     (let lIn = length s in
      if lIn = 0 then Some errEmpty
      else if lIn > 32 then Some errTooLong
      else if s = ''.'' then Some errIllegal
      else if s = ''..'' then Some errIllegal
      else case unixNameLoop lIn 0 False s of
          None \<Rightarrow> Some errIllegal
        | Some containsAtLeastOneNonNumeric \<Rightarrow> if containsAtLeastOneNonNumeric then None else Some errIllegal)"

definition validateUserName :: "bytes \<Rightarrow> bool \<Rightarrow> user_err option" where
  "validateUserName s allowBad =
     (if allowBad then validateBadUnixUser s ErrEmptyUserName ErrTooLongUserName ErrIllegalUserName
      else validateUnixName s ErrEmptyUserName ErrTooLongUserName ErrIllegalUserName)"

definition validateGroupName :: "bytes \<Rightarrow> bool \<Rightarrow> user_err option" where
  "validateGroupName s allowBad =
     (if allowBad then validateBadUnixUser s ErrEmptyGroupName ErrTooLongGroupName ErrIllegalGroupName
      else validateUnixName s ErrEmptyGroupName ErrTooLongGroupName ErrIllegalGroupName)"

definition illegalColumnChar :: "char \<Rightarrow> bool" where
  "illegalColumnChar c \<longleftrightarrow> c = CHR 0x00 \<or> c = CHR '':'' \<or> c = CHR 0x0A"

definition validateGeocs :: "bytes \<Rightarrow> user_err option" where
  "validateGeocs s =
     (if length s > 255 then Some ErrTooLongGeocs
      else if list_ex illegalColumnChar s then Some ErrIllegalGeocs else None)"

definition validateColonFilePathColumn ::
    "bytes \<Rightarrow> user_err \<Rightarrow> user_err \<Rightarrow> user_err \<Rightarrow> user_err option" where
  "validateColonFilePathColumn s errEmpty errTooLong errIllegal =
     (if length s = 0 then Some errEmpty
      else if length s > 255 then Some errTooLong
      else if list_ex illegalColumnChar s then Some errIllegal else None)"

text \<open>
  \<^verbatim>\<open>parseUint32Column\<close>; the caller has checked the number of columns, an index out of range
  panics in Go and never occurs.
\<close>

definition parseUint32Column ::
    "bytes list \<Rightarrow> nat \<Rightarrow> user_err option \<Rightarrow> user_err \<Rightarrow> user_err + (uint32 \<times> bool)" where
  "parseUint32Column line columnIndex errEmpty errIllegal =
     (if columnIndex \<ge> length line then Inl (Panic ''index out of range'')
      else if length (line ! columnIndex) = 0 then
        (case errEmpty of Some e \<Rightarrow> Inl e | None \<Rightarrow> Inr (0, False))
      else case parse_uint 32 (line ! columnIndex) of
          None \<Rightarrow> Inl errIllegal
        | Some v \<Rightarrow> Inr (word_of_nat v, True))"

text \<open>\<^verbatim>\<open>strconv.FormatUint(uint64(v), 10)\<close> of a 32-bit value.\<close>

definition formatUint32 :: "uint32 \<Rightarrow> bytes" where
  "formatUint32 v = format_uint (unat v)"

subsection \<open>Lemmas\<close>

text \<open>
  A byte that would end a column, a line or a member of a group never passes a validator.
\<close>

definition column_clean :: "bytes \<Rightarrow> bool" where
  "column_clean s \<longleftrightarrow> CHR '':'' \<notin> set s \<and> CHR 0x0A \<notin> set s"

lemma badUnixLoop_chars:
  "badUnixLoop i s \<Longrightarrow> c \<in> set s \<Longrightarrow> byte c \<ge> 33 \<and> c \<noteq> CHR '':'' \<and> c \<noteq> CHR '','' \<and> c \<noteq> CHR ''/''"
  by (induction i s rule: badUnixLoop.induct) (auto simp: badUnixChar_def not_less)

lemma unixNameLoop_badUnixLoop:
  "unixNameLoop n i b s = Some d \<Longrightarrow> badUnixLoop i s"
proof (induction n i b s rule: unixNameLoop.induct)
  case (1 n i b)
  then show ?case by simp
next
  case (2 n i b c cs)
  have ok: "\<not> badUnixChar i c"
    using "2.prems" by (auto simp: badUnixChar_def split: if_splits)
  have "badUnixLoop (Suc i) cs"
    using 2 by (auto split: if_splits)
  with ok show ?case by simp
qed

lemma validateUnixName_lax:
  "validateUnixName s e1 e2 e3 = None \<Longrightarrow> validateBadUnixUser s f1 f2 f3 = None"
  by (auto simp: validateUnixName_def validateBadUnixUser_def Let_def
      dest: unixNameLoop_badUnixLoop split: if_splits option.splits)

lemma validateBadUnixUser_chars:
  "validateBadUnixUser s e1 e2 e3 = None \<Longrightarrow>
   s \<noteq> [] \<and> length s \<le> 32 \<and> (\<forall>c \<in> set s. byte c \<ge> 33 \<and> c \<noteq> CHR '':'' \<and> c \<noteq> CHR '','' \<and> c \<noteq> CHR ''/'')"
  by (auto simp: validateBadUnixUser_def dest: badUnixLoop_chars split: if_splits)

lemma validateUserName_bad: "validateUserName s b = None \<Longrightarrow> validateUserName s True = None"
  by (cases b) (auto simp: validateUserName_def dest: validateUnixName_lax)

lemma validateGroupName_bad: "validateGroupName s b = None \<Longrightarrow> validateGroupName s True = None"
  by (cases b) (auto simp: validateGroupName_def dest: validateUnixName_lax)

definition name_clean :: "bytes \<Rightarrow> bool" where
  "name_clean s \<longleftrightarrow> s \<noteq> [] \<and> length s \<le> 32 \<and> (\<forall>c \<in> set s. byte c \<ge> 33 \<and> c \<noteq> CHR '':'' \<and> c \<noteq> CHR '','')"

lemma validateUserName_clean: "validateUserName s b = None \<Longrightarrow> name_clean s"
proof -
  assume "validateUserName s b = None"
  then have "validateUserName s True = None" by (rule validateUserName_bad)
  then have "validateBadUnixUser s ErrEmptyUserName ErrTooLongUserName ErrIllegalUserName = None"
    by (simp add: validateUserName_def)
  from validateBadUnixUser_chars[OF this] show ?thesis by (simp add: name_clean_def)
qed

lemma validateGroupName_clean: "validateGroupName s b = None \<Longrightarrow> name_clean s"
proof -
  assume "validateGroupName s b = None"
  then have "validateGroupName s True = None" by (rule validateGroupName_bad)
  then have "validateBadUnixUser s ErrEmptyGroupName ErrTooLongGroupName ErrIllegalGroupName = None"
    by (simp add: validateGroupName_def)
  from validateBadUnixUser_chars[OF this] show ?thesis by (simp add: name_clean_def)
qed

lemma name_clean_char:
  "name_clean s \<Longrightarrow> c \<in> set s \<Longrightarrow> byte c \<ge> 33 \<and> c \<noteq> CHR '':'' \<and> c \<noteq> CHR '',''"
  unfolding name_clean_def by blast

lemma name_clean_column: "name_clean s \<Longrightarrow> column_clean s"
  unfolding column_clean_def
  using name_clean_char[of s "CHR '':''"] name_clean_char[of s "CHR 0x0A"] by fastforce

lemma name_clean_no_comma: "name_clean s \<Longrightarrow> CHR '','' \<notin> set s"
  using name_clean_char[of s "CHR '',''"] by blast

lemma name_clean_last: "name_clean s \<Longrightarrow> last s \<noteq> CHR 0x0D"
proof -
  assume n: "name_clean s"
  then have "last s \<in> set s" by (simp add: name_clean_def)
  with n have "byte (last s) \<ge> 33" by (simp only: name_clean_def)
  then show ?thesis by (auto simp del: One_nat_def)
qed

lemma validateGeocs_clean: "validateGeocs s = None \<Longrightarrow> column_clean s \<and> length s \<le> 255"
  by (auto simp: validateGeocs_def column_clean_def list_ex_iff illegalColumnChar_def split: if_splits)

lemma validateColonFilePathColumn_clean:
  "validateColonFilePathColumn s e1 e2 e3 = None \<Longrightarrow> column_clean s \<and> s \<noteq> [] \<and> length s \<le> 255"
  by (auto simp: validateColonFilePathColumn_def column_clean_def list_ex_iff illegalColumnChar_def
      split: if_splits)

lemma formatUint32_nonempty [simp]: "formatUint32 v \<noteq> []"
  by (simp add: formatUint32_def)

lemma formatUint32_clean [simp]: "column_clean (formatUint32 v)"
  by (simp add: formatUint32_def column_clean_def not_digit_notin_format is_digit_def)

lemma parse_formatUint32: "parse_uint 32 (formatUint32 v) = Some (unat v)"
proof -
  have "unat v < 2 ^ 32" using unsigned_less[of v] by simp
  then show ?thesis by (simp add: formatUint32_def parse_format_uint)
qed

lemma parseUint32Column_format:
  "i < length line \<Longrightarrow> line ! i = formatUint32 v \<Longrightarrow> parseUint32Column line i e f = Inr (v, True)"
  by (simp add: parseUint32Column_def parse_formatUint32)

lemma parseUint32Column_empty:
  "i < length line \<Longrightarrow> line ! i = [] \<Longrightarrow> parseUint32Column line i None f = Inr (0, False)"
  by (simp add: parseUint32Column_def)

end
