(* ===== verification/LineScanner.thy ===== *)
theory LineScanner
  imports GoLib
begin

section \<open>The lines of a bufio.Scanner and its buffer\<close>

text \<open>
  \<^verbatim>\<open>Scanner.Bytes\<close> does not copy: a line is a slice of the scanner's buffer, and the reads that follow
  move and overwrite what the buffer holds. \<open>scan_lines\<close> of \<open>GoLib\<close> gives the lines as values,
  which is all that a caller sees who is done with a line before the next \<^verbatim>\<open>Scan\<close>. Who keeps the slice, as
  \<^verbatim>\<open>etc-colon-entry.go\<close> does, reads in the end what the buffer then holds at its place. So this theory
  models the buffer of \<^verbatim>\<open>bufio.Scanner\<close> (standard library) with \<^verbatim>\<open>ScanLines\<close> on a file, whose reads fill
  the room there is: its growth from 4096 bytes, its shift, and the slices.
\<close>

text \<open>A line as it was scanned, and its place: the number of the buffer and the offset in it.\<close>

record line_slice =
  sl_buffer :: nat
  sl_offset :: nat
  sl_line :: bytes

text \<open>The complete lines of a window of the buffer, and what is left of it behind them.\<close>

function window_lines :: "nat \<Rightarrow> nat \<Rightarrow> bytes \<Rightarrow> line_slice list" where
  "window_lines b off win =
     (let l = takeWhile (\<lambda>x. x \<noteq> CHR 0x0A) win in
      if length l = length win then []
      else \<lparr>sl_buffer = b, sl_offset = off, sl_line = dropCR l\<rparr> # window_lines b (off + length l + 1) (drop (length l + 1) win))"
  by pat_completeness auto
termination
proof (relation "measure (\<lambda>(b, off, win). length win)", goal_cases)
  case (2 b off win l)
  then have "length l \<le> length win" "length l \<noteq> length win" by (simp_all add: length_takeWhile_le)
  then show ?case by simp
qed simp

declare window_lines.simps [simp del]

definition window_left :: "bytes \<Rightarrow> bytes" where
  "window_left win = rev (takeWhile (\<lambda>x. x \<noteq> CHR 0x0A) (rev win))"

text \<open>
  The room for the next read. The buffer is what is used up, the window and what is free. The window is
  moved to the front when the buffer is full or more than half of it is used up; a full buffer is replaced by one of
  twice the size, up to the limit, and the old one stays as it is. None is \<^verbatim>\<open>ErrTooLong\<close>.
\<close>

definition startBufSize :: nat where
  "startBufSize = 4096"

definition make_room :: "nat \<Rightarrow> bytes list \<Rightarrow> bytes \<Rightarrow> bytes \<Rightarrow> bytes \<Rightarrow> (bytes list \<times> bytes \<times> bytes) option" where
  "make_room mx old used win free =
     (let buf = used @ win @ free;
          shift = used \<noteq> [] \<and> (free = [] \<or> length buf div 2 < length used);
          used' = (if shift then [] else used);
          free' = (if shift then drop (length win) buf else free)
      in if free' \<noteq> [] then Some (old, used', free')
         else if mx \<le> length buf then None
         else (let size = min (if length buf = 0 then startBufSize else 2 * length buf) mx
               in Some (old @ [buf], [], replicate (size - length win) (CHR 0x00))))"

lemma make_room_free: "make_room mx old used win free = Some (old', used', free') \<Longrightarrow> free' \<noteq> []"
  by (auto simp: make_room_def Let_def startBufSize_def min_def split: if_splits)

lemma make_room_kept:
  "used \<noteq> [] \<Longrightarrow> \<exists>used2 free2. make_room mx old used [] free = Some (old, used2, free2) \<and> used2 @ free2 = used @ free"
  by (cases "free = [] \<or> length (used @ free) div 2 < length used") (simp_all add: make_room_def Let_def)

text \<open>The scan of a file: the buffers in the end, and the lines. An incomplete line is given at the end of the file.\<close>

function scan_buffers :: "nat \<Rightarrow> bytes list \<Rightarrow> bytes \<Rightarrow> bytes \<Rightarrow> bytes \<Rightarrow> bytes \<Rightarrow> bytes list \<times> line_slice list" where
  "scan_buffers mx old used win free rest =
     (let ts = window_lines (length old) (length used) win;
          left = window_left win;
          used1 = used @ take (length win - length left) win
      in case make_room mx old used1 left free of
           None \<Rightarrow> (old @ [used1 @ left @ free], ts)
         | Some (old2, used2, free2) \<Rightarrow>
             if rest = [] then
               (old2 @ [used2 @ left @ free2],
                ts @ (if left = [] then [] else [\<lparr>sl_buffer = length old2, sl_offset = length used2, sl_line = dropCR left\<rparr>]))
             else (let n = min (length free2) (length rest) in
               apsnd (\<lambda>us. ts @ us) (scan_buffers mx old2 used2 (left @ take n rest) (drop n free2) (drop n rest))))"
  by pat_completeness auto
termination
proof (relation "measure (\<lambda>(mx, old, used, win, free, rest). length rest)", goal_cases)
  case (2 mx old used win free rest ts left used1 p old2 q used2 free2 n)
  then have "free2 \<noteq> []" by (auto dest: make_room_free)
  then have "0 < length free2" by simp
  then have "0 < n" using 2 by simp
  then show ?case using 2 by simp
qed simp

declare scan_buffers.simps [simp del]

text \<open>The lines of a file: each as it was scanned, and what its slice holds when the scan is over.\<close>

definition slice_content :: "bytes list \<Rightarrow> line_slice \<Rightarrow> bytes" where
  "slice_content bufs t = take (length (sl_line t)) (drop (sl_offset t) (bufs ! sl_buffer t))"

definition scan_slices :: "nat \<Rightarrow> bytes \<Rightarrow> (bytes \<times> bytes) list" where
  "scan_slices mx data =
     (let (bufs, ts) = scan_buffers mx [] [] [] [] data in map (\<lambda>t. (sl_line t, slice_content bufs t)) ts)"

subsection \<open>A file that fits into the first buffer\<close>

lemma window_lines_Cons:
  "CHR 0x0A \<notin> set l \<Longrightarrow>
   window_lines b off (l @ CHR 0x0A # r) = \<lparr>sl_buffer = b, sl_offset = off, sl_line = dropCR l\<rparr> # window_lines b (off + length l + 1) r"
  by (subst window_lines.simps) (simp add: Let_def)

lemma window_lines_left: "CHR 0x0A \<notin> set l \<Longrightarrow> window_lines b off l = []"
  by (subst window_lines.simps) (simp add: Let_def takeWhile_eq_all_conv[THEN iffD2])

abbreviation lines_text :: "bytes list \<Rightarrow> bytes" where
  "lines_text ls \<equiv> concat (map (\<lambda>l. l @ [CHR 0x0A]) ls)"

lemma lines_text_last: "ls \<noteq> [] \<Longrightarrow> last (lines_text ls) = CHR 0x0A"
  by (induction ls) auto

lemma window_left_lines: "CHR 0x0A \<notin> set r \<Longrightarrow> window_left (lines_text ls @ r) = r"
  by (cases ls rule: rev_cases) (auto simp: window_left_def)

text \<open>The slices of the complete lines of a window, read in a buffer that still holds the window.\<close>

lemma window_lines_content:
  "\<forall>l \<in> set ls. plain_line mx l \<Longrightarrow> CHR 0x0A \<notin> set r \<Longrightarrow> bufs ! b = pre @ lines_text ls @ post \<Longrightarrow>
   map (\<lambda>t. (sl_line t, slice_content bufs t)) (window_lines b (length pre) (lines_text ls @ r)) = map (\<lambda>l. (l, l)) ls"
proof (induction ls arbitrary: pre)
  case (Cons l ls)
  then have l: "CHR 0x0A \<notin> set l" "dropCR l = l" by (auto simp: plain_line_def dropCR_id)
  have w: "window_lines b (length pre) (lines_text (l # ls) @ r) =
      \<lparr>sl_buffer = b, sl_offset = length pre, sl_line = l\<rparr> # window_lines b (length (pre @ l @ [CHR 0x0A])) (lines_text ls @ r)"
    using window_lines_Cons[OF l(1), of b "length pre" "lines_text ls @ r"] l(2) by simp
  have "bufs ! b = (pre @ l @ [CHR 0x0A]) @ lines_text ls @ post" using Cons.prems(3) by simp
  then have i: "map (\<lambda>t. (sl_line t, slice_content bufs t))
      (window_lines b (length (pre @ l @ [CHR 0x0A])) (lines_text ls @ r)) = map (\<lambda>l. (l, l)) ls"
    using Cons.IH[of "pre @ l @ [CHR 0x0A]"] Cons.prems(1,2) by simp
  have c: "slice_content bufs \<lparr>sl_buffer = b, sl_offset = length pre, sl_line = l\<rparr> = l"
    using Cons.prems(3) by (simp add: slice_content_def)
  show ?case by (subst w) (simp only: list.map i c line_slice.select_convs)
qed (simp add: window_lines_left)

lemma scan_first_read:
  assumes "0 < length data" "length data \<le> startBufSize" "startBufSize \<le> mx"
  shows "scan_buffers mx [] [] [] [] data =
    scan_buffers mx [[]] [] data (replicate (startBufSize - length data) (CHR 0x00)) []"
proof -
  have "make_room mx [] [] [] [] = Some ([[]], [], replicate startBufSize (CHR 0x00))"
    using assms(3) by (simp add: make_room_def startBufSize_def min_def)
  moreover have "(@) [] = (id :: line_slice list \<Rightarrow> line_slice list)" by (rule ext) simp
  ultimately show ?thesis
    using assms by (subst scan_buffers.simps) (simp add: window_lines_left window_left_def Let_def min_def apsnd_def prod.map_id0)
qed

text \<open>
  No line of a file of up to 4096 bytes that ends in a newline is overwritten: the lines are what
  \<open>scan_lines\<close> gives, when they are scanned and in the end.
\<close>

lemma scan_slices_complete:
  assumes "\<forall>l \<in> set ls. plain_line mx l" "length (lines_text ls) \<le> startBufSize" "startBufSize \<le> mx"
  shows "scan_slices mx (lines_text ls) = map (\<lambda>l. (l, l)) ls"
proof (cases "ls = []")
  case True
  then show ?thesis
    using assms(3) by (simp add: scan_slices_def scan_buffers.simps[of mx "[]"] make_room_def startBufSize_def min_def
        window_lines_left window_left_def)
next
  case False
  let ?T = "lines_text ls" and ?F = "replicate (startBufSize - length (lines_text ls)) (CHR 0x00)"
  have ne: "?T \<noteq> []" using False by (cases ls) auto
  have left: "window_left ?T = []" using window_left_lines[of "[]" ls] by simp
  obtain used2 free2 where room: "make_room mx [[]] ?T [] ?F = Some ([[]], used2, free2)" "used2 @ free2 = ?T @ ?F"
    using make_room_kept[OF ne] by blast
  have e: "scan_buffers mx [[]] [] ?T ?F [] = ([[], ?T @ ?F], window_lines 1 0 ?T)"
    using room left by (subst scan_buffers.simps) (simp add: Let_def)
  have s: "scan_buffers mx [] [] [] [] ?T = ([[], ?T @ ?F], window_lines 1 0 ?T)"
    using scan_first_read[of ?T mx] ne assms(2,3) e by (simp add: Suc_le_eq)
  show ?thesis unfolding scan_slices_def s
    using window_lines_content[OF assms(1), of "[]" "[[], ?T @ ?F]" 1 "[]" ?F] by simp
qed

subsection \<open>A file whose last line does not end\<close>

text \<open>
  When more than half of the first buffer is used up and the file ends without a newline, the window, the
  incomplete line, is moved to the front of the buffer before the end of the file is noticed, over the first
  lines that were scanned.
\<close>

lemma scan_slices_incomplete:
  assumes "\<forall>l \<in> set (l # ls). plain_line mx l" "CHR 0x0A \<notin> set r" "r \<noteq> []"
    and "startBufSize div 2 < length (lines_text (l # ls))" "length (lines_text (l # ls) @ r) \<le> startBufSize" "startBufSize \<le> mx"
  shows "\<exists>us. scan_slices mx (lines_text (l # ls) @ r) = (l, take (length l) (r @ drop (length r) (lines_text (l # ls) @ r))) # us"
proof -
  let ?T = "lines_text (l # ls)" and ?F = "replicate (startBufSize - length (lines_text (l # ls) @ r)) (CHR 0x00)"
  let ?buf = "?T @ r @ ?F"
  have left: "window_left (?T @ r) = r" by (rule window_left_lines[OF assms(2)])
  have len: "length ?buf = startBufSize" using assms(5) by simp
  have "length r < length ?buf" using assms(4) by (simp add: startBufSize_def)
  then have fr: "drop (length r) ?buf \<noteq> []" by (metis drop_eq_Nil not_less)
  have room: "make_room mx [[]] ?T r ?F = Some ([[]], [], drop (length r) ?buf)"
    unfolding make_room_def Let_def len using assms(4) fr by auto
  have p: "CHR 0x0A \<notin> set l" "dropCR l = l" using assms(1) by (auto simp: plain_line_def dropCR_id)
  obtain us where w: "window_lines 1 0 (?T @ r) = \<lparr>sl_buffer = 1, sl_offset = 0, sl_line = l\<rparr> # us"
    using window_lines_Cons[OF p(1), of 1 0 "lines_text ls @ r"] p(2) by simp
  have e: "\<exists>vs. scan_buffers mx [[]] [] (?T @ r) ?F [] =
      ([[], r @ drop (length r) ?buf], \<lparr>sl_buffer = 1, sl_offset = 0, sl_line = l\<rparr> # vs)"
    using room left w by (subst scan_buffers.simps) (simp add: Let_def)
  have s: "scan_buffers mx [] [] [] [] (?T @ r) = scan_buffers mx [[]] [] (?T @ r) ?F []"
    by (rule scan_first_read) (use assms(3,5,6) in auto)
  have "take (length l) (r @ drop (length r) ?buf) = take (length l) (r @ drop (length r) (?T @ r))"
    by (simp add: drop_append take_append)
  then show ?thesis unfolding scan_slices_def s using e by (auto simp: slice_content_def)
qed

end
