(* ===== verification/EtcColon.thy ===== *)
theory EtcColon
  imports EtcUnix LineScanner
begin

section \<open>Colon separated files (pkg/user/etc-colon-entry.go)\<close>

text \<open>
  \<^verbatim>\<open>etcColonEntry\<close> and \<^verbatim>\<open>etcColonEntries\<close> are generic over the type of a row, which gives a
  \<open>decode\<close> from columns and an \<open>encode\<close> to columns (\<^verbatim>\<open>etcColonEntryValue\<close>). The model takes the
  two functions as arguments, and a third one that says what becomes of a row when the columns it was decoded from
  change: the byte columns of a row are slices of the scanner's buffer (\<open>LineScanner\<close>). The locale \<open>colon_value\<close> states what the file code relies on
  and proves the file round trips once. The theories of the three row types interpret it.
\<close>

record 'a colon_entry =
  ce_entry :: "'a option"
  ce_rawLine :: bytes

type_synonym 'a row_decode = "bytes list \<Rightarrow> bool \<Rightarrow> user_err + 'a"
type_synonym 'a row_reslice = "bytes list \<Rightarrow> 'a \<Rightarrow> 'a"
type_synonym 'a row_encode = "'a \<Rightarrow> bool \<Rightarrow> user_err + bytes list"

subsection \<open>One entry\<close>

definition colon_entry_zero :: "'a colon_entry" where
  "colon_entry_zero = \<lparr>ce_entry = None, ce_rawLine = []\<rparr>"

definition colon_entry_IsZero :: "'a colon_entry \<Rightarrow> bool" where
  "colon_entry_IsZero e \<longleftrightarrow> ce_entry e = None \<and> length (ce_rawLine e) = 0"

definition colon_entry_decode ::
    "'a row_decode \<Rightarrow> bytes \<Rightarrow> nat \<Rightarrow> bool \<Rightarrow> bool \<Rightarrow> user_err + 'a colon_entry" where
  "colon_entry_decode dec rawLine expectedNumberOfColons allowBadName allowBadEntries =
     (let line = bytes_splitN (CHR '':'') (expectedNumberOfColons + 1) rawLine in
      if length line = 1 \<and> length (line ! 0) = 0 then Inr colon_entry_zero
      else if length line \<noteq> expectedNumberOfColons then
        (if allowBadEntries then Inr \<lparr>ce_entry = None, ce_rawLine = rawLine\<rparr>
         else Inl (ErrIllegalAmountOfColumns expectedNumberOfColons (length line)))
      else (case dec line allowBadName of
          Inl err \<Rightarrow>
            (if allowBadEntries then Inr \<lparr>ce_entry = None, ce_rawLine = rawLine\<rparr> else Inl err)
        | Inr v \<Rightarrow> Inr \<lparr>ce_entry = Some v, ce_rawLine = []\<rparr>))"

text \<open>
  What an entry is when the bytes of its line have become others: its columns keep their places and
  lengths.
\<close>

fun cut_like :: "bytes list \<Rightarrow> bytes \<Rightarrow> bytes list" where
  "cut_like [] l = []"
| "cut_like (c # cs) l = take (length c) l # cut_like cs (drop (length c + 1) l)"

definition colon_entry_later ::
    "'a row_reslice \<Rightarrow> nat \<Rightarrow> bytes \<Rightarrow> bytes \<Rightarrow> 'a colon_entry \<Rightarrow> 'a colon_entry" where
  "colon_entry_later rs expectedNumberOfColons now later e =
     (case ce_entry e of
        Some v \<Rightarrow> e\<lparr>ce_entry := Some (rs (cut_like (bytes_splitN (CHR '':'') (expectedNumberOfColons + 1) now) later) v)\<rparr>
      | None \<Rightarrow> if ce_rawLine e = [] then e else e\<lparr>ce_rawLine := later\<rparr>)"

lemma cut_like_join: "cut_like xs (bytes_join c xs) = xs"
  by (induction c xs rule: bytes_join.induct) auto

text \<open>The bytes one entry writes: nothing for a zero entry.\<close>

definition colon_entry_text :: "'a row_encode \<Rightarrow> bool \<Rightarrow> 'a colon_entry \<Rightarrow> user_err + bytes" where
  "colon_entry_text enc allowBadName e =
     (case ce_entry e of
        Some v \<Rightarrow> bindR (enc v allowBadName) (\<lambda>line. Inr (bytes_join (CHR '':'') line @ [CHR 0x0A]))
      | None \<Rightarrow> if length (ce_rawLine e) > 0 then Inr (ce_rawLine e @ [CHR 0x0A]) else Inr [])"

definition colon_entry_encode ::
    "'a row_encode \<Rightarrow> bool \<Rightarrow> bytes \<Rightarrow> 'a colon_entry \<Rightarrow> ('w world_scheme, user_err, unit) sm" where
  "colon_entry_encode enc allowBadName fn e =
     bindE (liftE (colon_entry_text enc allowBadName e))
       (\<lambda>txt. if txt = [] then returnE () else mapErrE ErrOs (os_Write fn txt))"

subsection \<open>All entries of a file\<close>

text \<open>
  Each line is decoded as it is scanned; the entries are read when the scan is over. (An \<^verbatim>\<open>encode\<close> appends the newline
  of a bad line behind its slice, in the buffer: of a file that fits into the buffer that is the line's own end.)
\<close>

fun colon_decode_loop ::
    "'a row_decode \<Rightarrow> 'a row_reslice \<Rightarrow> nat \<Rightarrow> bool \<Rightarrow> bool \<Rightarrow> bytes \<Rightarrow> uint32 \<Rightarrow> (bytes \<times> bytes) list \<Rightarrow> user_err + 'a colon_entry list" where
  "colon_decode_loop dec rs n ab abe fn lineNum [] = Inr []"
| "colon_decode_loop dec rs n ab abe fn lineNum ((l, later) # ls) =
     (case colon_entry_decode dec l n ab abe of
        Inl err \<Rightarrow> Inl (ErrCannotParseEntryAt fn lineNum err)
      | Inr e \<Rightarrow> bindR (colon_decode_loop dec rs n ab abe fn (lineNum + 1) ls) (\<lambda>es. Inr (colon_entry_later rs n l later e # es)))"

definition colon_entries_decode ::
    "'a row_decode \<Rightarrow> 'a row_reslice \<Rightarrow> nat \<Rightarrow> bool \<Rightarrow> bool \<Rightarrow> bytes \<Rightarrow> bytes \<Rightarrow> user_err + 'a colon_entry list" where
  "colon_entries_decode dec rs n ab abe fn data =
     colon_decode_loop dec rs n ab abe fn 0 (scan_slices bufio_MaxScanTokenSize data)"

lemma colon_entries_decode_Nil [simp]: "colon_entries_decode dec rs n ab abe fn [] = Inr []"
  using scan_slices_complete[of "[]" bufio_MaxScanTokenSize]
  by (simp add: colon_entries_decode_def bufio_MaxScanTokenSize_def startBufSize_def)

fun colon_encode_loop ::
    "'a row_encode \<Rightarrow> bool \<Rightarrow> bytes \<Rightarrow> uint32 \<Rightarrow> 'a colon_entry list \<Rightarrow> ('w world_scheme, user_err, unit) sm" where
  "colon_encode_loop enc ab fn lineNum [] = returnE ()"
| "colon_encode_loop enc ab fn lineNum (e # es) =
     bindE (mapErrE (ErrCannotWriteAt fn lineNum) (colon_entry_encode enc ab fn e))
       (\<lambda>_. colon_encode_loop enc ab fn (lineNum + 1) es)"

definition colon_entries_encode ::
    "'a row_encode \<Rightarrow> bool \<Rightarrow> bytes \<Rightarrow> 'a colon_entry list \<Rightarrow> ('w world_scheme, user_err, unit) sm" where
  "colon_entries_encode enc ab fn es =
     bindE (mapErrE (\<lambda>e. ErrCannotWriteAt fn 0 (ErrOs e)) (os_Check OpSeek fn)) (\<lambda>_.
     bindE (mapErrE (\<lambda>e. ErrCannotWriteAt fn 0 (ErrOs e)) (os_Truncate0 fn)) (\<lambda>_.
     colon_encode_loop enc ab fn 0 es))"

subsection \<open>The text of a file\<close>

text \<open>What a complete encode writes, as a value, and the longest part of it a failing one writes.\<close>

fun entries_text :: "'a row_encode \<Rightarrow> bool \<Rightarrow> 'a colon_entry list \<Rightarrow> user_err + bytes" where
  "entries_text enc ab [] = Inr []"
| "entries_text enc ab (e # es) =
     bindR (colon_entry_text enc ab e) (\<lambda>t. bindR (entries_text enc ab es) (\<lambda>ts. Inr (t @ ts)))"

fun encodable_prefix :: "'a row_encode \<Rightarrow> bool \<Rightarrow> 'a colon_entry list \<Rightarrow> bytes" where
  "encodable_prefix enc ab [] = []"
| "encodable_prefix enc ab (e # es) =
     (case colon_entry_text enc ab e of Inl _ \<Rightarrow> [] | Inr t \<Rightarrow> t @ encodable_prefix enc ab es)"

definition file_content :: "'w world_scheme \<Rightarrow> bytes \<Rightarrow> bytes option" where
  "file_content s p = map_option n_content (fs_get (w_files s) p)"

definition writable :: "'w world_scheme \<Rightarrow> bytes \<Rightarrow> bool" where
  "writable s p \<longleftrightarrow> \<not> w_fault s OpSeek p \<and> \<not> w_fault s OpTruncate p \<and> \<not> w_fault s OpWrite p"

lemma encodable_prefix_all: "entries_text enc ab es = Inr t \<Longrightarrow> encodable_prefix enc ab es = t"
  by (induction es arbitrary: t) (auto simp: bindR_Inr_iff split: sum.splits)

lemma setContent_simps [simp]:
  "fs_get (w_files (fs_setContent p f s)) q =
     (if q = p then map_option (\<lambda>n. n\<lparr>n_content := f (n_content n), n_mtime := w_now s\<rparr>) (fs_get (w_files s) p)
      else fs_get (w_files s) q)"
  "w_fault (fs_setContent p f s) = w_fault s"
  "w_now (fs_setContent p f s) = w_now s"
  "w_procs (fs_setContent p f s) = w_procs s"
  by (auto simp: fs_setContent_def split: option.splits)

lemma file_content_set [simp]:
  "file_content (fs_setContent p f s) q = (if q = p then map_option f (file_content s p) else file_content s q)"
  by (auto simp: file_content_def option.map_comp comp_def)

lemma colon_encode_loop_writes:
  assumes "\<not> w_fault s OpWrite fn" and "file_content s fn = Some c"
  shows "file_content (snd (colon_encode_loop enc ab fn k es s)) fn = Some (c @ encodable_prefix enc ab es) \<and>
    ((\<exists>u. fst (colon_encode_loop enc ab fn k es s) = Inr u) \<longleftrightarrow> (\<exists>t. entries_text enc ab es = Inr t))"
  using assms
proof (induction es arbitrary: s c k)
  case Nil
  then show ?case by (simp add: returnE_def)
next
  case (Cons e es)
  show ?case
  proof (cases "colon_entry_text enc ab e")
    case (Inl err)
    with Cons.prems show ?thesis
      by (simp add: bindE_def mapErrE_def colon_entry_encode_def liftE_def)
  next
    case (Inr t)
    define s' where "s' = (if t = [] then s else fs_setContent fn (\<lambda>c. c @ t) s)"
    have step: "colon_encode_loop enc ab fn k (e # es) s = colon_encode_loop enc ab fn (k + 1) es s'"
      using Inr Cons.prems
      by (simp add: bindE_def mapErrE_def colon_entry_encode_def liftE_def os_Write_def s'_def returnE_def)
    have "\<not> w_fault s' OpWrite fn" "file_content s' fn = Some (c @ t)"
      using Cons.prems by (simp_all add: s'_def)
    from Cons.IH[OF this, of "k + 1"] Inr step show ?thesis
      by (auto simp: bindR_def split: sum.splits)
  qed
qed

lemma colon_entries_encode_writes:
  assumes "writable s fn" and "file_content s fn = Some c"
  shows "file_content (snd (colon_entries_encode enc ab fn es s)) fn = Some (encodable_prefix enc ab es)"
    and "(\<exists>u. fst (colon_entries_encode enc ab fn es s) = Inr u) \<longleftrightarrow> (\<exists>t. entries_text enc ab es = Inr t)"
proof -
  let ?s = "fs_setContent fn (\<lambda>_. []) s"
  have eq: "colon_entries_encode enc ab fn es s = colon_encode_loop enc ab fn 0 es ?s"
    using assms by (simp add: colon_entries_encode_def bindE_def mapErrE_def os_Check_def os_Truncate0_def writable_def)
  have "\<not> w_fault ?s OpWrite fn" "file_content ?s fn = Some []"
    using assms by (simp_all add: writable_def)
  from colon_encode_loop_writes[OF this, of enc ab 0 es] eq
  show "file_content (snd (colon_entries_encode enc ab fn es s)) fn = Some (encodable_prefix enc ab es)"
    and "(\<exists>u. fst (colon_entries_encode enc ab fn es s) = Inr u) \<longleftrightarrow> (\<exists>t. entries_text enc ab es = Inr t)"
    by simp_all
qed

lemma colon_entries_encode_frame:
  "fn \<noteq> q \<Longrightarrow> preserves (\<lambda>s. file_content s q = c) (colon_entries_encode enc ab fn es)"
proof -
  assume q: "fn \<noteq> q"
  have w: "preserves (\<lambda>s. file_content s q = c) (os_Write fn t)" for t
    using q by (auto simp: preserves_def os_Write_def)
  have l: "preserves (\<lambda>s. file_content s q = c) (colon_encode_loop enc ab fn k es)" for k
    by (induction es arbitrary: k) (auto intro!: preserve w simp: colon_entry_encode_def)
  have t: "preserves (\<lambda>s. file_content s q = c) (os_Truncate0 fn)"
    "preserves (\<lambda>s. file_content s q = c) (os_Check OpSeek fn)"
    using q by (auto simp: preserves_def os_Check_def os_Truncate0_def)
  show ?thesis
    unfolding colon_entries_encode_def by (intro preserve l t)
qed

lemma colon_entries_encode_handles [preserve]:
  "preserves (handles_are h) (colon_entries_encode enc ab fn es)"
proof -
  have "preserves (handles_are h) (colon_encode_loop enc ab fn k es)" for k
    by (induction es arbitrary: k) (auto intro!: preserve simp: colon_entry_encode_def)
  then show ?thesis unfolding colon_entries_encode_def by (auto intro!: preserve)
qed

subsection \<open>The interface of a row type\<close>

text \<open>An entry whose line the scanner returns unchanged and which decodes to itself again.\<close>

definition entry_stable ::
    "'a row_decode \<Rightarrow> 'a row_encode \<Rightarrow> nat \<Rightarrow> ('a \<Rightarrow> bool) \<Rightarrow> bool \<Rightarrow> bool \<Rightarrow> 'a colon_entry \<Rightarrow> bool" where
  "entry_stable dec enc ncols wfv ab abe e \<longleftrightarrow>
     (case ce_entry e of
        Some v \<Rightarrow> wfv v \<and> ce_rawLine e = [] \<and>
          (case enc v ab of Inl _ \<Rightarrow> False
           | Inr cols \<Rightarrow> length (bytes_join (CHR '':'') cols) < bufio_MaxScanTokenSize)
      | None \<Rightarrow> ce_rawLine e = [] \<or>
          (plain_line bufio_MaxScanTokenSize (ce_rawLine e) \<and>
           colon_entry_decode dec (ce_rawLine e) ncols ab abe = Inr e))"

locale colon_value =
  fixes dec :: "'a row_decode" and rs :: "'a row_reslice" and enc :: "'a row_encode"
    and ncols :: nat and wfv :: "'a \<Rightarrow> bool"
  assumes several_columns: "2 \<le> ncols"
    and encode_length: "enc v ab = Inr cols \<Longrightarrow> length cols = ncols"
    and encode_clean: "wfv v \<Longrightarrow> enc v ab = Inr cols \<Longrightarrow> c \<in> set cols \<Longrightarrow> column_clean c"
    and encode_last: "wfv v \<Longrightarrow> enc v ab = Inr cols \<Longrightarrow> last cols = [] \<or> last (last cols) \<noteq> CHR 0x0D"
    and decode_encode: "wfv v \<Longrightarrow> enc v ab = Inr cols \<Longrightarrow> dec cols ab = Inr v"
    and reslice_same: "dec cols ab = Inr v \<Longrightarrow> rs cols v = v"
    and decode_valid: "dec cols ab = Inr v \<Longrightarrow> \<exists>cols'. enc v ab = Inr cols'"
    and decode_wf: "dec cols ab = Inr v \<Longrightarrow> length cols = ncols \<Longrightarrow> \<forall>c \<in> set cols. column_clean c \<Longrightarrow>
      last cols = [] \<or> last (last cols) \<noteq> CHR 0x0D \<Longrightarrow> wfv v"
begin

text \<open>An entry whose line stays as it is stays as it is.\<close>

lemma entry_later_same: "colon_entry_decode dec l ncols ab abe = Inr e \<Longrightarrow> colon_entry_later rs ncols l l e = e"
proof (cases "ce_entry e")
  case None
  moreover assume "colon_entry_decode dec l ncols ab abe = Inr e"
  ultimately show ?thesis
    by (auto simp: colon_entry_decode_def colon_entry_later_def colon_entry_zero_def Let_def split: if_splits sum.splits)
next
  case (Some v)
  let ?cols = "bytes_splitN (CHR '':'') (ncols + 1) l"
  have cut: "cut_like ?cols l = ?cols" using cut_like_join[of ?cols "CHR '':''"] by (simp add: bytes_join_splitN)
  assume "colon_entry_decode dec l ncols ab abe = Inr e"
  then have "dec ?cols ab = Inr v"
    using Some by (auto simp: colon_entry_decode_def Let_def colon_entry_zero_def split: if_splits sum.splits)
  then have "rs ?cols v = v" by (rule reslice_same)
  then show ?thesis using Some cut by (cases e) (simp add: colon_entry_later_def)
qed

lemma join_clean: "\<forall>c \<in> set cols. column_clean c \<Longrightarrow> CHR 0x0A \<notin> set (bytes_join (CHR '':'') cols)"
  by (induction "CHR '':''" cols rule: bytes_join.induct) (auto simp: column_clean_def)

lemma join_last:
  "cols \<noteq> [] \<Longrightarrow> last cols = [] \<or> last (last cols) \<noteq> CHR 0x0D \<Longrightarrow>
   bytes_join (CHR '':'') cols = [] \<or> last (bytes_join (CHR '':'') cols) \<noteq> CHR 0x0D"
proof (induction "CHR '':''" cols rule: bytes_join.induct)
  case (3 x y ys)
  then show ?case by (cases "bytes_join (CHR '':'') (y # ys) = []") auto
qed auto

lemma last_join:
  "cols \<noteq> [] \<Longrightarrow> last cols \<noteq> [] \<Longrightarrow>
   bytes_join c cols \<noteq> [] \<and> last (bytes_join c cols) = last (last cols)"
  by (induction c cols rule: bytes_join.induct) auto

lemma value_line_plain:
  assumes "wfv v" "enc v ab = Inr cols" "length (bytes_join (CHR '':'') cols) < bufio_MaxScanTokenSize"
  shows "plain_line bufio_MaxScanTokenSize (bytes_join (CHR '':'') cols)"
proof -
  have "cols \<noteq> []" using encode_length[OF assms(2)] several_columns by auto
  moreover have "\<forall>c \<in> set cols. column_clean c" using encode_clean[OF assms(1,2)] by blast
  ultimately show ?thesis
    using join_clean join_last encode_last[OF assms(1,2)] assms(3) by (auto simp: plain_line_def)
qed

lemma decode_value_line:
  assumes "wfv v" "enc v ab = Inr cols"
  shows "colon_entry_decode dec (bytes_join (CHR '':'') cols) ncols ab abe = Inr \<lparr>ce_entry = Some v, ce_rawLine = []\<rparr>"
proof -
  have len: "length cols = ncols" by (rule encode_length[OF assms(2)])
  then have ne: "cols \<noteq> []" using several_columns by auto
  have "\<forall>c \<in> set cols. CHR '':'' \<notin> set c"
    using encode_clean[OF assms] by (simp add: column_clean_def)
  then have "bytes_splitN (CHR '':'') (ncols + 1) (bytes_join (CHR '':'') cols) = cols"
    using bytes_splitN_join[OF ne, of "ncols + 1"] len by simp
  then show ?thesis
    using len several_columns decode_encode[OF assms] by (simp add: colon_entry_decode_def)
qed

text \<open>A stable entry that is not zero is one line, and that line decodes to the entry.\<close>

lemma stable_line:
  assumes "entry_stable dec enc ncols wfv ab abe e" "\<not> colon_entry_IsZero e"
  obtains l where "colon_entry_text enc ab e = Inr (l @ [CHR 0x0A])"
    "plain_line bufio_MaxScanTokenSize l" "colon_entry_decode dec l ncols ab abe = Inr e"
proof (cases "ce_entry e")
  case None
  with assms that[of "ce_rawLine e"] show ?thesis
    by (auto simp: entry_stable_def colon_entry_IsZero_def colon_entry_text_def)
next
  case (Some v)
  with assms obtain cols where c: "wfv v" "enc v ab = Inr cols" "ce_rawLine e = []"
      "length (bytes_join (CHR '':'') cols) < bufio_MaxScanTokenSize"
    by (auto simp: entry_stable_def split: sum.splits)
  have "e = \<lparr>ce_entry = Some v, ce_rawLine = []\<rparr>" using Some c(3) by (cases e) simp
  with that[of "bytes_join (CHR '':'') cols"] c value_line_plain[OF c(1,2,4)] decode_value_line[OF c(1,2)] Some
  show ?thesis by (simp add: colon_entry_text_def)
qed

lemma zero_text: "colon_entry_IsZero e \<Longrightarrow> colon_entry_text enc ab e = Inr []"
  by (simp add: colon_entry_IsZero_def colon_entry_text_def)

lemma decode_loop_text:
  "\<forall>e \<in> set es. entry_stable dec enc ncols wfv ab abe e \<Longrightarrow>
   \<exists>ls. entries_text enc ab es = Inr (concat (map (\<lambda>l. l @ [CHR 0x0A]) ls)) \<and>
     (\<forall>l \<in> set ls. plain_line bufio_MaxScanTokenSize l) \<and>
     (\<forall>k. colon_decode_loop dec rs ncols ab abe fn k (map (\<lambda>l. (l, l)) ls) = Inr (filter (\<lambda>e. \<not> colon_entry_IsZero e) es))"
proof (induction es)
  case Nil
  show ?case by (rule exI[of _ "[]"]) simp
next
  case (Cons e es)
  then obtain ls where ls: "entries_text enc ab es = Inr (concat (map (\<lambda>l. l @ [CHR 0x0A]) ls))"
      "\<forall>l \<in> set ls. plain_line bufio_MaxScanTokenSize l"
      "\<forall>k. colon_decode_loop dec rs ncols ab abe fn k (map (\<lambda>l. (l, l)) ls) = Inr (filter (\<lambda>e. \<not> colon_entry_IsZero e) es)"
    by auto
  show ?case
  proof (cases "colon_entry_IsZero e")
    case True
    with ls show ?thesis by (intro exI[of _ ls]) (simp add: zero_text)
  next
    case False
    obtain l where "colon_entry_text enc ab e = Inr (l @ [CHR 0x0A])"
        "plain_line bufio_MaxScanTokenSize l" "colon_entry_decode dec l ncols ab abe = Inr e"
      using stable_line[of ab abe e] Cons.prems False by auto
    with ls False entry_later_same[of l ab abe e] show ?thesis by (intro exI[of _ "l # ls"]) simp
  qed
qed

text \<open>
  The file round trip: what a save writes, the next load reads, zero entries left out, when the text fits
  into the first buffer of the scanner.
\<close>

lemma entries_roundtrip:
  assumes "\<forall>e \<in> set es. entry_stable dec enc ncols wfv ab abe e"
    and "entries_text enc ab es = Inr txt" and "length txt \<le> startBufSize"
  shows "colon_entries_decode dec rs ncols ab abe fn txt = Inr (filter (\<lambda>e. \<not> colon_entry_IsZero e) es)"
proof -
  from decode_loop_text[OF assms(1), of fn] obtain ls
    where ls: "entries_text enc ab es = Inr (lines_text ls)"
      "\<forall>l \<in> set ls. plain_line bufio_MaxScanTokenSize l"
      "\<forall>k. colon_decode_loop dec rs ncols ab abe fn k (map (\<lambda>l. (l, l)) ls) = Inr (filter (\<lambda>e. \<not> colon_entry_IsZero e) es)"
    by blast
  then have "txt = lines_text ls" using assms(2) by simp
  then have "scan_slices bufio_MaxScanTokenSize txt = map (\<lambda>l. (l, l)) ls"
    using scan_slices_complete[OF ls(2)] assms(3) by (simp add: bufio_MaxScanTokenSize_def startBufSize_def)
  then show ?thesis using ls(3) by (simp add: colon_entries_decode_def)
qed

lemma entries_encodable:
  "\<forall>e \<in> set es. entry_stable dec enc ncols wfv ab abe e \<Longrightarrow> \<exists>txt. entries_text enc ab es = Inr txt"
  using decode_loop_text[of es ab abe] by blast

text \<open>What decoding one line gives is stable, as long as its canonical form is not too long.\<close>

lemma decoded_stable:
  assumes d: "colon_entry_decode dec l ncols ab abe = Inr e" and p: "plain_line bufio_MaxScanTokenSize l"
    and short: "\<And>v cols. ce_entry e = Some v \<Longrightarrow> enc v ab = Inr cols \<Longrightarrow>
      length (bytes_join (CHR '':'') cols) < bufio_MaxScanTokenSize"
  shows "entry_stable dec enc ncols wfv ab abe e"
proof (cases "ce_entry e")
  case None
  then have "e = colon_entry_zero \<or> e = \<lparr>ce_entry = None, ce_rawLine = l\<rparr>"
    using d by (auto simp: colon_entry_decode_def Let_def split: if_splits sum.splits)
  then show ?thesis using p d by (auto simp: entry_stable_def colon_entry_zero_def)
next
  case (Some v)
  let ?cols = "bytes_splitN (CHR '':'') (ncols + 1) l"
  have e: "dec ?cols ab = Inr v" "length ?cols = ncols" "ce_rawLine e = []"
    using d Some by (auto simp: colon_entry_decode_def Let_def colon_entry_zero_def split: if_splits sum.splits)
  have sub: "x \<in> set ?cols \<Longrightarrow> set x \<subseteq> set l - {CHR '':''}" for x
    using set_bytes_splitN[of "CHR '':''" "ncols + 1" l x] e(2) by simp
  then have clean: "\<forall>c \<in> set ?cols. column_clean c"
    using p by (force simp: column_clean_def plain_line_def)
  have ne: "?cols \<noteq> []" using e(2) several_columns by auto
  have join: "bytes_join (CHR '':'') ?cols = l" by (rule bytes_join_splitN) simp
  have last: "last ?cols = [] \<or> last (last ?cols) \<noteq> CHR 0x0D"
    using p join last_join[OF ne, of "CHR '':''"] by (auto simp: plain_line_def)
  have "wfv v" by (rule decode_wf[OF e(1,2) clean last])
  then show ?thesis using Some e(3) decode_valid[OF e(1)] short[OF Some] by (auto simp: entry_stable_def)
qed

end

end
