(* ===== verification/EtcRows.thy ===== *)
theory EtcRows
  imports EtcColon
begin

section \<open>The rows of /etc/group, /etc/passwd and /etc/shadow\<close>

text \<open>
  \<^verbatim>\<open>etcGroupEntry\<close>, \<^verbatim>\<open>etcPasswdEntry\<close> and \<^verbatim>\<open>etcShadowEntry\<close> of \<^verbatim>\<open>pkg/user/etc-group.go\<close>,
  \<^verbatim>\<open>etc-passwd.go\<close> and \<^verbatim>\<open>etc-shadow.go\<close>, each with its validation, its decode and its encode,
  and its interpretation of \<open>colon_value\<close>. The well-formedness predicates say what the
  validators do not check and what the files guarantee: a password column holds no colon or
  newline, a shell does not end in a carriage return, an absent number is zero.
\<close>

subsection \<open>Groups\<close>

record etcGroupEntry =
  g_name :: bytes
  g_password :: bytes
  g_gid :: uint32
  g_userNames :: "bytes list"

definition etcGroupColons :: nat where "etcGroupColons = 4"

fun validateUserNames :: "bytes list \<Rightarrow> bool \<Rightarrow> user_err option" where
  "validateUserNames [] ab = None"
| "validateUserNames (un # uns) ab =
     (case validateUserName un ab of Some err \<Rightarrow> Some err | None \<Rightarrow> validateUserNames uns ab)"

definition etcGroup_validate :: "etcGroupEntry \<Rightarrow> bool \<Rightarrow> user_err option" where
  "etcGroup_validate e ab =
     (case validateGroupName (g_name e) ab of
        Some err \<Rightarrow> Some err
      | None \<Rightarrow> validateUserNames (g_userNames e) ab)"

definition etcGroup_decode :: "etcGroupEntry row_decode" where
  "etcGroup_decode line ab =
     bindR (parseUint32Column line 2 (Some ErrEtcGroupEmptyGid) ErrEtcGroupIllegalGid) (\<lambda>(gid, _).
     let e = \<lparr>g_name = line ! 0, g_password = line ! 1, g_gid = gid,
              g_userNames = (if length (line ! 3) > 0 then bytes_split (CHR '','') (line ! 3) else [])\<rparr>
     in bindR (checkR (etcGroup_validate e ab)) (\<lambda>_. Inr e))"

text \<open>The columns that are slices of the line; the numbers are parsed.\<close>

definition etcGroup_reslice :: "etcGroupEntry row_reslice" where
  "etcGroup_reslice line e = e\<lparr>g_name := line ! 0, g_password := line ! 1, g_userNames := cut_like (g_userNames e) (line ! 3)\<rparr>"

definition etcGroup_encode :: "etcGroupEntry row_encode" where
  "etcGroup_encode e ab =
     bindR (checkR (etcGroup_validate e ab)) (\<lambda>_.
     Inr [g_name e, g_password e, formatUint32 (g_gid e), bytes_join (CHR '','') (g_userNames e)])"

definition addUniqueUserName :: "bytes \<Rightarrow> etcGroupEntry \<Rightarrow> etcGroupEntry" where
  "addUniqueUserName username e =
     (if username \<in> set (g_userNames e) then e else e\<lparr>g_userNames := g_userNames e @ [username]\<rparr>)"

definition removeUserName :: "bytes \<Rightarrow> etcGroupEntry \<Rightarrow> etcGroupEntry" where
  "removeUserName username e = e\<lparr>g_userNames := filter (\<lambda>candidate. candidate \<noteq> username) (g_userNames e)\<rparr>"

definition etcGroup_wf :: "etcGroupEntry \<Rightarrow> bool" where
  "etcGroup_wf e \<longleftrightarrow> column_clean (g_password e)"

lemma etcGroupEntry_eta [simp]:
  "\<lparr>g_name = g_name e, g_password = g_password e, g_gid = g_gid e, g_userNames = g_userNames e\<rparr> = (e :: etcGroupEntry)"
  by (cases e) simp

lemma validateUserNames_None:
  "validateUserNames uns ab = None \<longleftrightarrow> (\<forall>un \<in> set uns. validateUserName un ab = None)"
  by (induction uns) (auto split: option.splits)

lemma etcGroup_validate_clean:
  assumes "etcGroup_validate e ab = None"
  shows "name_clean (g_name e)" "\<forall>un \<in> set (g_userNames e). name_clean un"
  using assms
  by (auto simp: etcGroup_validate_def validateUserNames_None dest: validateGroupName_clean validateUserName_clean
      split: option.splits)

lemma join_users_clean:
  "\<forall>un \<in> set uns. name_clean un \<Longrightarrow> column_clean (bytes_join (CHR '','') uns)"
  by (induction "CHR '',''" uns rule: bytes_join.induct)
     (auto dest!: name_clean_column simp: column_clean_def)

lemma join_users_last:
  "\<forall>un \<in> set uns. name_clean un \<Longrightarrow>
   bytes_join (CHR '','') uns = [] \<or> last (bytes_join (CHR '','') uns) \<noteq> CHR 0x0D"
proof (induction "CHR '',''" uns rule: bytes_join.induct)
  case (3 x y ys)
  then show ?case by (cases "bytes_join (CHR '','') (y # ys) = []") auto
qed (auto dest: name_clean_last)

lemma join_users_empty:
  "\<forall>un \<in> set uns. name_clean un \<Longrightarrow> bytes_join (CHR '','') uns = [] \<longleftrightarrow> uns = []"
  by (cases "(CHR '','', uns)" rule: bytes_join.cases) (auto simp: name_clean_def)

lemma etcGroup_encode_Inr:
  "etcGroup_encode e ab = Inr cols \<longleftrightarrow> etcGroup_validate e ab = None \<and>
     cols = [g_name e, g_password e, formatUint32 (g_gid e), bytes_join (CHR '','') (g_userNames e)]"
  by (auto simp: etcGroup_encode_def bindR_Inr_iff)

lemma etcGroup_decode_encode:
  assumes "etcGroup_encode e ab = Inr cols"
  shows "etcGroup_decode cols ab = Inr e"
proof -
  from assms have v: "etcGroup_validate e ab = None"
    and c: "cols = [g_name e, g_password e, formatUint32 (g_gid e), bytes_join (CHR '','') (g_userNames e)]"
    by (auto simp: etcGroup_encode_Inr)
  note clean = etcGroup_validate_clean(2)[OF v]
  then have "\<forall>un \<in> set (g_userNames e). CHR '','' \<notin> set un"
    using name_clean_no_comma by blast
  then have u: "(if length (cols ! 3) > 0 then bytes_split (CHR '','') (cols ! 3) else []) = g_userNames e"
    using c join_users_empty[OF clean] bytes_split_join[of "g_userNames e" "CHR '',''"] by auto
  have p: "parseUint32Column cols 2 (Some ErrEtcGroupEmptyGid) ErrEtcGroupIllegalGid = Inr (g_gid e, True)"
    by (rule parseUint32Column_format) (simp_all add: c)
  have "etcGroup_decode cols ab = bindR (checkR (etcGroup_validate e ab)) (\<lambda>_. Inr e)"
    unfolding etcGroup_decode_def p u Let_def by (simp add: c)
  with v show ?thesis by simp
qed

interpretation groupRow: colon_value etcGroup_decode etcGroup_reslice etcGroup_encode etcGroupColons etcGroup_wf
proof (unfold_locales, goal_cases)
  case 1
  show ?case by (simp add: etcGroupColons_def)
next
  case (2 v ab cols)
  then show ?case by (simp add: etcGroup_encode_Inr etcGroupColons_def)
next
  case (3 v ab cols c)
  then show ?case
    by (auto simp: etcGroup_encode_Inr etcGroup_wf_def
        dest: etcGroup_validate_clean(1) [THEN name_clean_column] etcGroup_validate_clean(2) [THEN join_users_clean])
next
  case (4 v ab cols)
  then show ?case using join_users_last etcGroup_validate_clean(2) by (auto simp: etcGroup_encode_Inr)
next
  case (5 v ab cols)
  then show ?case by (simp add: etcGroup_decode_encode)
next
  case (6 cols ab v)
  have "cut_like (bytes_split c s) s = bytes_split c s" for c s
    using cut_like_join[of "bytes_split c s" c] by (simp add: bytes_join_split)
  then show ?case using 6
    by (auto simp: etcGroup_decode_def etcGroup_reslice_def Let_def bindR_Inr_iff split: prod.splits if_splits)
next
  case (7 cols ab v)
  then show ?case by (auto simp: etcGroup_decode_def etcGroup_encode_Inr Let_def bindR_Inr_iff split: prod.splits)
next
  case (8 cols ab v)
  then have "g_password v = cols ! 1"
    by (auto simp: etcGroup_decode_def Let_def bindR_Inr_iff split: prod.splits)
  with 8 show ?case by (simp add: etcGroup_wf_def etcGroupColons_def)
qed

subsection \<open>Users\<close>

record etcPasswdEntry =
  p_name :: bytes
  p_password :: bytes
  p_uid :: uint32
  p_gid :: uint32
  p_geocs :: bytes
  p_homeDir :: bytes
  p_shell :: bytes

definition etcPasswdColons :: nat where "etcPasswdColons = 7"

definition etcPasswd_validatePassword :: "etcPasswdEntry \<Rightarrow> bytes \<Rightarrow> user_err + bool" where
  "etcPasswd_validatePassword e pass =
     (if p_password e = ''x'' then Inr False else Inr (p_password e = pass))"

definition etcPasswd_validate :: "etcPasswdEntry \<Rightarrow> bool \<Rightarrow> user_err option" where
  "etcPasswd_validate e ab =
     (case validateUserName (p_name e) ab of Some err \<Rightarrow> Some err | None \<Rightarrow>
     (case validateGeocs (p_geocs e) of Some err \<Rightarrow> Some err | None \<Rightarrow>
     (case validateColonFilePathColumn (p_homeDir e) ErrEtcPasswdEmptyHomeDir ErrEtcPasswdTooLongHomeDir
         ErrEtcPasswdIllegalHomeDir of Some err \<Rightarrow> Some err | None \<Rightarrow>
     validateColonFilePathColumn (p_shell e) ErrEtcPasswdEmptyShell ErrEtcPasswdTooLongShell ErrEtcPasswdIllegalShell)))"

definition etcPasswd_decode :: "etcPasswdEntry row_decode" where
  "etcPasswd_decode line ab =
     bindR (parseUint32Column line 2 (Some ErrEtcPasswdEmptyUid) ErrEtcPasswdIllegalUid) (\<lambda>(uid, _).
     bindR (parseUint32Column line 3 (Some ErrEtcPasswdEmptyGid) ErrEtcPasswdIllegalGid) (\<lambda>(gid, _).
     let e = \<lparr>p_name = line ! 0, p_password = line ! 1, p_uid = uid, p_gid = gid,
              p_geocs = line ! 4, p_homeDir = line ! 5, p_shell = line ! 6\<rparr>
     in bindR (checkR (etcPasswd_validate e ab)) (\<lambda>_. Inr e)))"

definition etcPasswd_reslice :: "etcPasswdEntry row_reslice" where
  "etcPasswd_reslice line e =
     e\<lparr>p_name := line ! 0, p_password := line ! 1, p_geocs := line ! 4, p_homeDir := line ! 5, p_shell := line ! 6\<rparr>"

definition etcPasswd_encode :: "etcPasswdEntry row_encode" where
  "etcPasswd_encode e ab =
     bindR (checkR (etcPasswd_validate e ab)) (\<lambda>_.
     Inr [p_name e, p_password e, formatUint32 (p_uid e), formatUint32 (p_gid e),
          p_geocs e, p_homeDir e, p_shell e])"

definition etcPasswd_wf :: "etcPasswdEntry \<Rightarrow> bool" where
  "etcPasswd_wf e \<longleftrightarrow> column_clean (p_password e) \<and> last (p_shell e) \<noteq> CHR 0x0D"

lemma etcPasswdEntry_eta [simp]:
  "\<lparr>p_name = p_name e, p_password = p_password e, p_uid = p_uid e, p_gid = p_gid e, p_geocs = p_geocs e, p_homeDir = p_homeDir e, p_shell = p_shell e\<rparr> = (e :: etcPasswdEntry)"
  by (cases e) simp

lemma etcPasswd_validate_clean:
  assumes "etcPasswd_validate e ab = None"
  shows "name_clean (p_name e)" "column_clean (p_geocs e)" "column_clean (p_homeDir e)"
    "column_clean (p_shell e)" "p_shell e \<noteq> []"
  using assms
  by (auto simp: etcPasswd_validate_def dest: validateUserName_clean validateGeocs_clean
      validateColonFilePathColumn_clean split: option.splits)

lemma etcPasswd_encode_Inr:
  "etcPasswd_encode e ab = Inr cols \<longleftrightarrow> etcPasswd_validate e ab = None \<and>
     cols = [p_name e, p_password e, formatUint32 (p_uid e), formatUint32 (p_gid e),
             p_geocs e, p_homeDir e, p_shell e]"
  by (auto simp: etcPasswd_encode_def bindR_Inr_iff)

interpretation passwdRow: colon_value etcPasswd_decode etcPasswd_reslice etcPasswd_encode etcPasswdColons etcPasswd_wf
proof (unfold_locales, goal_cases)
  case 1
  show ?case by (simp add: etcPasswdColons_def)
next
  case (2 v ab cols)
  then show ?case by (simp add: etcPasswd_encode_Inr etcPasswdColons_def)
next
  case (3 v ab cols c)
  then show ?case
    using etcPasswd_validate_clean[of v ab] name_clean_column by (auto simp: etcPasswd_encode_Inr etcPasswd_wf_def)
next
  case (4 v ab cols)
  then show ?case by (simp add: etcPasswd_encode_Inr etcPasswd_wf_def)
next
  case (5 v ab cols)
  then have c: "cols = [p_name v, p_password v, formatUint32 (p_uid v), formatUint32 (p_gid v),
             p_geocs v, p_homeDir v, p_shell v]" and va: "etcPasswd_validate v ab = None"
    by (simp_all add: etcPasswd_encode_Inr)
  have "parseUint32Column cols 2 (Some ErrEtcPasswdEmptyUid) ErrEtcPasswdIllegalUid = Inr (p_uid v, True)"
    "parseUint32Column cols 3 (Some ErrEtcPasswdEmptyGid) ErrEtcPasswdIllegalGid = Inr (p_gid v, True)"
    by (rule parseUint32Column_format; simp add: c)+
  then show ?case using c va by (simp add: etcPasswd_decode_def Let_def)
next
  case (6 cols ab v)
  then show ?case by (auto simp: etcPasswd_decode_def etcPasswd_reslice_def Let_def bindR_Inr_iff split: prod.splits)
next
  case (7 cols ab v)
  then show ?case by (auto simp: etcPasswd_decode_def etcPasswd_encode_Inr Let_def bindR_Inr_iff split: prod.splits)
next
  case (8 cols ab v)
  have v: "p_password v = cols ! 1" "p_shell v = cols ! 6" "etcPasswd_validate v ab = None"
    using 8(1) by (auto simp: etcPasswd_decode_def Let_def bindR_Inr_iff split: prod.splits)
  have "cols \<noteq> []" using 8(2) by (auto simp: etcPasswdColons_def)
  then have "last cols = cols ! 6" using 8(2) by (simp add: etcPasswdColons_def last_conv_nth)
  then show ?case
    using v 8 etcPasswd_validate_clean(5)[OF v(3)] by (auto simp: etcPasswd_wf_def etcPasswdColons_def)
qed

subsection \<open>Shadows\<close>

record etcShadowEntry =
  s_name :: bytes
  s_password :: bytes
  s_lastChangedAtInDays :: uint32
  s_minimumAgeInDays :: uint32
  s_maximumAgeInDays :: uint32
  s_warnAgeInDays :: uint32
  s_hasWarnAge :: bool
  s_inactiveAgeInDays :: uint32
  s_hasInactiveAge :: bool
  s_expireAtTsInDays :: uint32
  s_hasExpire :: bool

definition etcShadowColons :: nat where "etcShadowColons = 9"

definition etcShadow_validate :: "etcShadowEntry \<Rightarrow> bool \<Rightarrow> user_err option" where
  "etcShadow_validate e ab =
     (case validateUserName (s_name e) ab of Some err \<Rightarrow> Some err
      | None \<Rightarrow> if length (s_password e) = 0 then Some ErrEtcShadowEmptyPassword else None)"

definition etcShadow_decode :: "etcShadowEntry row_decode" where
  "etcShadow_decode line ab =
     bindR (parseUint32Column line 2 (Some ErrEtcShadowEmptyLastChangedAt) ErrEtcShadowIllegalLastChangedAt) (\<lambda>(lc, _).
     bindR (parseUint32Column line 3 None ErrEtcShadowIllegalMinimumAge) (\<lambda>(mi, _).
     bindR (parseUint32Column line 4 (Some ErrEtcShadowEmptyMaximumAge) ErrEtcShadowIllegalMaximumAge) (\<lambda>(ma, _).
     bindR (parseUint32Column line 5 None ErrEtcShadowIllegalWarnAge) (\<lambda>(wa, hwa).
     bindR (parseUint32Column line 6 None ErrEtcShadowIllegalInactiveAge) (\<lambda>(ia, hia).
     bindR (parseUint32Column line 7 None ErrEtcShadowIllegalExpireAt) (\<lambda>(ex, hex).
     if length (line ! 8) \<noteq> 0 then Inl ErrEtcShadowIllegalUnused
     else let e = \<lparr>s_name = line ! 0, s_password = line ! 1, s_lastChangedAtInDays = lc,
                   s_minimumAgeInDays = mi, s_maximumAgeInDays = ma, s_warnAgeInDays = wa, s_hasWarnAge = hwa,
                   s_inactiveAgeInDays = ia, s_hasInactiveAge = hia, s_expireAtTsInDays = ex, s_hasExpire = hex\<rparr>
       in bindR (checkR (etcShadow_validate e ab)) (\<lambda>_. Inr e)))))))"

definition etcShadow_reslice :: "etcShadowEntry row_reslice" where
  "etcShadow_reslice line e = e\<lparr>s_name := line ! 0, s_password := line ! 1\<rparr>"

definition optColumn :: "bool \<Rightarrow> uint32 \<Rightarrow> bytes" where
  "optColumn has v = (if has then formatUint32 v else [])"

definition etcShadow_encode :: "etcShadowEntry row_encode" where
  "etcShadow_encode e ab =
     bindR (checkR (etcShadow_validate e ab)) (\<lambda>_.
     Inr [s_name e, s_password e, formatUint32 (s_lastChangedAtInDays e), formatUint32 (s_minimumAgeInDays e),
          formatUint32 (s_maximumAgeInDays e), optColumn (s_hasWarnAge e) (s_warnAgeInDays e),
          optColumn (s_hasInactiveAge e) (s_inactiveAgeInDays e), optColumn (s_hasExpire e) (s_expireAtTsInDays e), []])"

definition etcShadow_wf :: "etcShadowEntry \<Rightarrow> bool" where
  "etcShadow_wf e \<longleftrightarrow> column_clean (s_password e) \<and>
     (\<not> s_hasWarnAge e \<longrightarrow> s_warnAgeInDays e = 0) \<and> (\<not> s_hasInactiveAge e \<longrightarrow> s_inactiveAgeInDays e = 0) \<and>
     (\<not> s_hasExpire e \<longrightarrow> s_expireAtTsInDays e = 0)"

lemma etcShadowEntry_eta [simp]:
  "\<lparr>s_name = s_name e, s_password = s_password e, s_lastChangedAtInDays = s_lastChangedAtInDays e, s_minimumAgeInDays = s_minimumAgeInDays e, s_maximumAgeInDays = s_maximumAgeInDays e, s_warnAgeInDays = s_warnAgeInDays e, s_hasWarnAge = s_hasWarnAge e, s_inactiveAgeInDays = s_inactiveAgeInDays e, s_hasInactiveAge = s_hasInactiveAge e, s_expireAtTsInDays = s_expireAtTsInDays e, s_hasExpire = s_hasExpire e\<rparr> = (e :: etcShadowEntry)"
  by (cases e) simp

lemma optColumn_clean [simp]: "column_clean (optColumn has v)"
  by (simp add: optColumn_def column_clean_def[of "[]"])

lemma parseUint32Column_opt:
  "i < length line \<Longrightarrow> line ! i = optColumn has v \<Longrightarrow> (\<not> has \<longrightarrow> v = 0) \<Longrightarrow>
   parseUint32Column line i None f = Inr (v, has)"
  by (cases has) (auto simp: optColumn_def parseUint32Column_empty parseUint32Column_format)

lemma parseUint32Column_absent:
  "parseUint32Column line i None f = Inr (v, has) \<Longrightarrow> \<not> has \<longrightarrow> v = 0"
  by (auto simp: parseUint32Column_def split: if_splits option.splits)

lemma etcShadow_encode_Inr:
  "etcShadow_encode e ab = Inr cols \<longleftrightarrow> etcShadow_validate e ab = None \<and>
     cols = [s_name e, s_password e, formatUint32 (s_lastChangedAtInDays e), formatUint32 (s_minimumAgeInDays e),
          formatUint32 (s_maximumAgeInDays e), optColumn (s_hasWarnAge e) (s_warnAgeInDays e),
          optColumn (s_hasInactiveAge e) (s_inactiveAgeInDays e), optColumn (s_hasExpire e) (s_expireAtTsInDays e), []]"
  by (auto simp: etcShadow_encode_def bindR_Inr_iff)

lemma etcShadow_decode_encode:
  assumes "etcShadow_wf e" "etcShadow_encode e ab = Inr cols"
  shows "etcShadow_decode cols ab = Inr e"
proof -
  from assms(2) have v: "etcShadow_validate e ab = None"
    and c: "cols = [s_name e, s_password e, formatUint32 (s_lastChangedAtInDays e), formatUint32 (s_minimumAgeInDays e),
          formatUint32 (s_maximumAgeInDays e), optColumn (s_hasWarnAge e) (s_warnAgeInDays e),
          optColumn (s_hasInactiveAge e) (s_inactiveAgeInDays e), optColumn (s_hasExpire e) (s_expireAtTsInDays e), []]"
    by (simp_all add: etcShadow_encode_Inr)
  have n: "parseUint32Column cols 2 f g = Inr (s_lastChangedAtInDays e, True)"
    "parseUint32Column cols 3 f g = Inr (s_minimumAgeInDays e, True)"
    "parseUint32Column cols 4 f g = Inr (s_maximumAgeInDays e, True)" for f g
    by (rule parseUint32Column_format; simp add: c)+
  have o: "parseUint32Column cols 5 None g = Inr (s_warnAgeInDays e, s_hasWarnAge e)"
    "parseUint32Column cols 6 None g = Inr (s_inactiveAgeInDays e, s_hasInactiveAge e)"
    "parseUint32Column cols 7 None g = Inr (s_expireAtTsInDays e, s_hasExpire e)" for g
    by (rule parseUint32Column_opt; use assms(1) in \<open>simp add: c etcShadow_wf_def\<close>)+
  show ?thesis unfolding etcShadow_decode_def n o using v c by (simp add: Let_def)
qed

interpretation shadowRow: colon_value etcShadow_decode etcShadow_reslice etcShadow_encode etcShadowColons etcShadow_wf
proof (unfold_locales, goal_cases)
  case 1
  show ?case by (simp add: etcShadowColons_def)
next
  case (2 v ab cols)
  then show ?case by (simp add: etcShadow_encode_Inr etcShadowColons_def)
next
  case (3 v ab cols c)
  have "name_clean (s_name v)"
    using 3(2) by (auto simp: etcShadow_encode_Inr etcShadow_validate_def dest: validateUserName_clean split: option.splits)
  with 3 show ?case
    by (auto simp: etcShadow_encode_Inr etcShadow_wf_def column_clean_def[of "[]"] dest: name_clean_column)
next
  case (4 v ab cols)
  then show ?case by (simp add: etcShadow_encode_Inr)
next
  case (5 v ab cols)
  then show ?case by (rule etcShadow_decode_encode)
next
  case (6 cols ab v)
  then show ?case
    by (auto simp: etcShadow_decode_def etcShadow_reslice_def Let_def bindR_Inr_iff split: prod.splits if_splits)
next
  case (7 cols ab v)
  then show ?case
    by (auto simp: etcShadow_decode_def etcShadow_encode_Inr Let_def bindR_Inr_iff split: prod.splits if_splits)
next
  case (8 cols ab v)
  then show ?case
    by (auto simp: etcShadow_decode_def etcShadow_wf_def etcShadowColons_def Let_def bindR_Inr_iff
        dest!: parseUint32Column_absent split: prod.splits if_splits)
qed

end
