(* ===== verification/UserModel.thy ===== *)
theory UserModel
  imports EtcRows
begin

section \<open>Users, groups and requirements (pkg/user)\<close>

text \<open>
  The value types of package \<^verbatim>\<open>user\<close>: \<^verbatim>\<open>Group\<close>, \<^verbatim>\<open>User\<close>, \<^verbatim>\<open>GroupRequirement\<close>,
  \<^verbatim>\<open>Requirement\<close>, the options of \<^verbatim>\<open>Ensure\<close> and of the deletions. A Go pointer that may be nil
  is an \<open>option\<close>. \<^verbatim>\<open>Clone\<close> copies strings and is the identity on values.
\<close>

type_synonym gid = uint32
type_synonym uid = uint32

subsection \<open>Groups (group_unix.go)\<close>

record group =
  gr_Gid :: gid
  gr_Name :: bytes

definition Group_isEqualTo :: "group \<Rightarrow> group \<Rightarrow> bool" where
  "Group_isEqualTo a b \<longleftrightarrow> gr_Gid a = gr_Gid b \<and> gr_Name a = gr_Name b"

definition Groups_Contains :: "group list \<Rightarrow> group option \<Rightarrow> bool" where
  "Groups_Contains gs other = (case other of None \<Rightarrow> False | Some o' \<Rightarrow> list_ex (\<lambda>c. Group_isEqualTo c o') gs)"

text \<open>The loop of \<^verbatim>\<open>Groups.isEqualTo\<close>: it returns true at the first position where the two agree.\<close>

definition Groups_isEqualTo :: "group list \<Rightarrow> group list \<Rightarrow> bool" where
  "Groups_isEqualTo this other =
     (if length this \<noteq> length other then False
      else list_ex (\<lambda>(c, o'). Group_isEqualTo c o') (zip this other))"

subsection \<open>Users (user_unix.go)\<close>

record user =
  us_Name :: bytes
  us_DisplayName :: bytes
  us_Uid :: uid
  us_Group :: group
  us_Groups :: "group list"
  us_Shell :: bytes
  us_HomeDir :: bytes

definition User_isEqualTo :: "user \<Rightarrow> user \<Rightarrow> bool" where
  "User_isEqualTo a b \<longleftrightarrow>
     us_Name a = us_Name b \<and> us_DisplayName a = us_DisplayName b \<and> us_Uid a = us_Uid b \<and>
     Group_isEqualTo (us_Group a) (us_Group b) \<and> Groups_isEqualTo (us_Groups a) (us_Groups b) \<and>
     us_Shell a = us_Shell b \<and> us_HomeDir a = us_HomeDir b"

record credential =
  cr_Uid :: uint32
  cr_Gid :: uint32
  cr_Groups :: "uint32 list"

definition User_ToCredentials :: "user \<Rightarrow> credential" where
  "User_ToCredentials u = \<lparr>cr_Uid = us_Uid u, cr_Gid = gr_Gid (us_Group u), cr_Groups = map gr_Gid (us_Groups u)\<rparr>"

subsection \<open>Requirements (group-requirement_unix.go, requirement_unix.go)\<close>

record group_requirement =
  gq_Gid :: "gid option"
  gq_Name :: bytes

record requirement =
  rq_Name :: bytes
  rq_DisplayName :: bytes
  rq_Uid :: "uid option"
  rq_Group :: group_requirement
  rq_Groups :: "group_requirement list"
  rq_Shell :: bytes
  rq_HomeDir :: bytes
  rq_Skel :: bytes

definition defaultGroupName :: bytes where
  "defaultGroupName = ''bifroest''"

definition GroupRequirement_OrDefaults :: "group_requirement \<Rightarrow> group_requirement" where
  "GroupRequirement_OrDefaults this =
     (case gq_Gid this of
        Some g \<Rightarrow> if gq_Name this = [] then this\<lparr>gq_Name := CHR ''g'' # formatUint32 g\<rparr> else this
      | None \<Rightarrow> this)"

definition GroupRequirement_OrDefaultsForUser :: "group_requirement \<Rightarrow> requirement option \<Rightarrow> group_requirement" where
  "GroupRequirement_OrDefaultsForUser this usr =
     (let result = GroupRequirement_OrDefaults this in
      case usr of
        None \<Rightarrow> result
      | Some u \<Rightarrow> if gq_Name result = [] \<and> gq_Gid result = None then result\<lparr>gq_Name := rq_Name u\<rparr> else result)"

definition GroupRequirement_IsZero :: "group_requirement \<Rightarrow> bool" where
  "GroupRequirement_IsZero this \<longleftrightarrow> gq_Gid this = None \<and> length (gq_Name this) = 0"

definition GroupRequirement_isEqualTo :: "group_requirement \<Rightarrow> group_requirement \<Rightarrow> bool" where
  "GroupRequirement_isEqualTo a b \<longleftrightarrow> gq_Gid a = gq_Gid b \<and> gq_Name a = gq_Name b"

definition GroupRequirement_doesFulfilRef :: "group_requirement \<Rightarrow> etcGroupEntry \<Rightarrow> bool" where
  "GroupRequirement_doesFulfilRef this ref =
     (if gq_Name this = [] \<and> gq_Gid this = None then False
      else (case gq_Gid this of None \<Rightarrow> True | Some g \<Rightarrow> g = g_gid ref) \<and>
           (gq_Name this = [] \<or> gq_Name this = g_name ref))"

definition GroupRequirements_isEqualTo :: "group_requirement list \<Rightarrow> group_requirement list \<Rightarrow> bool" where
  "GroupRequirements_isEqualTo this other =
     (if length this \<noteq> length other then False
      else list_ex (\<lambda>(c, o'). GroupRequirement_isEqualTo c o') (zip this other))"

definition Requirement_OrDefaults :: "requirement \<Rightarrow> requirement" where
  "Requirement_OrDefaults this =
     (let r1 = (case rq_Uid this of
                  Some u \<Rightarrow> if rq_Name this = [] then this\<lparr>rq_Name := CHR ''u'' # formatUint32 u\<rparr> else this
                | None \<Rightarrow> this);
          r2 = (if rq_HomeDir r1 = [] \<and> rq_Name r1 \<noteq> []
                then r1\<lparr>rq_HomeDir := filepath_Join [''/home'', rq_Name r1]\<rparr> else r1);
          r3 = (if GroupRequirement_IsZero (rq_Group r2)
                then r2\<lparr>rq_Group := \<lparr>gq_Gid = None, gq_Name = rq_Name this\<rparr>\<rparr> else r2)
      in if rq_Groups r3 = [] then r3\<lparr>rq_Groups := [\<lparr>gq_Gid = None, gq_Name = defaultGroupName\<rparr>]\<rparr> else r3)"

definition Requirement_IsZero :: "requirement \<Rightarrow> bool" where
  "Requirement_IsZero this \<longleftrightarrow>
     rq_Name this = [] \<and> rq_DisplayName this = [] \<and> rq_Uid this = None \<and>
     GroupRequirement_IsZero (rq_Group this) \<and> rq_Groups this = [] \<and> rq_Shell this = [] \<and>
     rq_HomeDir this = [] \<and> rq_Skel this = []"

definition Requirement_isEqualTo :: "requirement \<Rightarrow> requirement \<Rightarrow> bool" where
  "Requirement_isEqualTo a b \<longleftrightarrow>
     rq_Name a = rq_Name b \<and> rq_DisplayName a = rq_DisplayName b \<and> rq_Uid a = rq_Uid b \<and>
     GroupRequirement_isEqualTo (rq_Group a) (rq_Group b) \<and>
     GroupRequirements_isEqualTo (rq_Groups a) (rq_Groups b) \<and>
     rq_Shell a = rq_Shell b \<and> rq_HomeDir a = rq_HomeDir b \<and> rq_Skel a = rq_Skel b"

definition Requirement_doesFulfilRef :: "requirement \<Rightarrow> etcPasswdEntry \<Rightarrow> bool" where
  "Requirement_doesFulfilRef this target =
     (if rq_Name this = [] \<and> rq_Uid this = None then False
      else (rq_Name this = [] \<or> rq_Name this = p_name target) \<and>
           rq_DisplayName this = p_geocs target \<and>
           (case rq_Uid this of None \<Rightarrow> True | Some u \<Rightarrow> u = p_uid target) \<and>
           rq_Shell this = p_shell target \<and> rq_HomeDir this = p_homeDir target)"

subsection \<open>Options (ensure.go, repository.go)\<close>

type_synonym onHomeDirExist = "8 word"

abbreviation EnsureOnHomeDirExistUnknown :: onHomeDirExist where "EnsureOnHomeDirExistUnknown \<equiv> 0"
abbreviation EnsureOnHomeDirExistFail :: onHomeDirExist where "EnsureOnHomeDirExistFail \<equiv> 1"
abbreviation EnsureOnHomeDirExistTakeover :: onHomeDirExist where "EnsureOnHomeDirExistTakeover \<equiv> 2"
abbreviation EnsureOnHomeDirExistOverwrite :: onHomeDirExist where "EnsureOnHomeDirExistOverwrite \<equiv> 3"

record ensure_opts =
  eo_CreateAllowed :: "bool option"
  eo_ModifyAllowed :: "bool option"
  eo_HomeDir :: "bool option"
  eo_OnHomeDirExist :: onHomeDirExist

definition optTrue :: "('o \<Rightarrow> bool option) \<Rightarrow> 'o option \<Rightarrow> bool" where
  "optTrue f this = (case this of None \<Rightarrow> True | Some x \<Rightarrow> (case f x of None \<Rightarrow> True | Some v \<Rightarrow> v))"

definition IsCreateAllowed :: "ensure_opts option \<Rightarrow> bool" where
  "IsCreateAllowed = optTrue eo_CreateAllowed"

definition IsModifyAllowed :: "ensure_opts option \<Rightarrow> bool" where
  "IsModifyAllowed = optTrue eo_ModifyAllowed"

definition EnsureOpts_IsHomeDir :: "ensure_opts option \<Rightarrow> bool" where
  "EnsureOpts_IsHomeDir = optTrue eo_HomeDir"

definition GetOnHomeDirExist :: "ensure_opts option \<Rightarrow> onHomeDirExist" where
  "GetOnHomeDirExist this =
     (case this of
        Some x \<Rightarrow> if eo_OnHomeDirExist x \<noteq> EnsureOnHomeDirExistUnknown then eo_OnHomeDirExist x
                  else EnsureOnHomeDirExistOverwrite
      | None \<Rightarrow> EnsureOnHomeDirExistOverwrite)"

definition OnHomeDirExist_MarshalText :: "onHomeDirExist \<Rightarrow> bytes option" where
  "OnHomeDirExist_MarshalText this =
     (if this = EnsureOnHomeDirExistUnknown then Some ''unknown''
      else if this = EnsureOnHomeDirExistFail then Some ''fail''
      else if this = EnsureOnHomeDirExistTakeover then Some ''takeover''
      else if this = EnsureOnHomeDirExistOverwrite then Some ''overwrite''
      else None)"

definition OnHomeDirExist_UnmarshalText :: "bytes \<Rightarrow> onHomeDirExist option" where
  "OnHomeDirExist_UnmarshalText text =
     (let t = to_lower text in
      if t = ''unknown'' \<or> t = [] then Some EnsureOnHomeDirExistUnknown
      else if t = ''fail'' then Some EnsureOnHomeDirExistFail
      else if t = ''takeover'' then Some EnsureOnHomeDirExistTakeover
      else if t = ''overwrite'' \<or> t = ''override'' then Some EnsureOnHomeDirExistOverwrite
      else None)"

datatype ensure_result =
  EnsureResultUnknown | EnsureResultError | EnsureResultUnchanged | EnsureResultModified | EnsureResultCreated

record delete_opts =
  do_HomeDir :: "bool option"
  do_KillProcesses :: "bool option"

definition DeleteOpts_IsHomeDir :: "delete_opts option \<Rightarrow> bool" where
  "DeleteOpts_IsHomeDir = optTrue do_HomeDir"

definition IsKillProcesses :: "delete_opts option \<Rightarrow> bool" where
  "IsKillProcesses = optTrue do_KillProcesses"

subsection \<open>Lemmas\<close>

lemma GroupRequirement_OrDefaults_idem:
  "GroupRequirement_OrDefaults (GroupRequirement_OrDefaults r) = GroupRequirement_OrDefaults r"
  by (auto simp: GroupRequirement_OrDefaults_def split: option.splits)

lemma Groups_isEqualTo_first:
  "g # gs \<noteq> [] \<Longrightarrow> length gs = length hs \<Longrightarrow> Groups_isEqualTo (g # gs) (g # hs)"
  by (simp add: Groups_isEqualTo_def Group_isEqualTo_def)

lemma Groups_isEqualTo_Nil: "\<not> Groups_isEqualTo [] []"
  by (simp add: Groups_isEqualTo_def)

lemma OnHomeDirExist_text_roundtrip:
  "OnHomeDirExist_MarshalText v = Some t \<Longrightarrow> OnHomeDirExist_UnmarshalText t = Some v"
  by (auto simp: OnHomeDirExist_MarshalText_def OnHomeDirExist_UnmarshalText_def char_lower_def Let_def split: if_splits)

lemma OnHomeDirExist_UnmarshalText_valid:
  "OnHomeDirExist_UnmarshalText t = Some v \<Longrightarrow> \<exists>u. OnHomeDirExist_MarshalText v = Some u"
  by (auto simp: OnHomeDirExist_MarshalText_def OnHomeDirExist_UnmarshalText_def Let_def split: if_splits)

lemma doesFulfilRef_OrDefaultsForUser:
  "GroupRequirement_doesFulfilRef r ref \<Longrightarrow> gq_Name r \<noteq> [] \<Longrightarrow>
   GroupRequirement_doesFulfilRef (GroupRequirement_OrDefaultsForUser r u) ref"
  by (auto simp: GroupRequirement_OrDefaultsForUser_def GroupRequirement_OrDefaults_def Let_def split: option.splits)

end
