(* ===== verification/EtcHandles.thy ===== *)
theory EtcHandles
  imports UserModel
begin

section \<open>The repository's state and its file handles\<close>

text \<open>
  \<^verbatim>\<open>EtcColonRepository\<close>, \<^verbatim>\<open>etcColonRepositoryHandles\<close> and \<^verbatim>\<open>etcColonRepositoryHandle\<close> of package
  \<^verbatim>\<open>user\<close>. The entries of the three files and the index maps of the repository share
  pointers to the rows, and the sources mutate a row through one of them and read it through
  another. So the rows live in three heaps, a handle's entries and the maps hold addresses, and a load
  puts the rows it decodes at fresh addresses. The repository's record extends the world.

  The repository's mutex makes the public operations of one process atomic; the model is one
  operation at a time. The locks on the files are calls that can fail.
\<close>

record handle =
  h_fn :: bytes
  h_tempFn :: bytes
  h_numberOfColons :: nat
  h_entries :: "nat colon_entry list"
  h_numberOfReads :: "64 word"

record etcPasswdRef =
  pr_passwd :: nat
  pr_shadow :: "nat option"

record repo = world +
  r_CreateFilesIfAbsent :: "bool option"
  r_AllowBadName :: "bool option"
  r_AllowBadLine :: "bool option"
  r_passwd :: handle
  r_group :: handle
  r_shadow :: handle
  r_heapP :: "nat \<Rightarrow> etcPasswdEntry option"
  r_heapG :: "nat \<Rightarrow> etcGroupEntry option"
  r_heapS :: "nat \<Rightarrow> etcShadowEntry option"
  r_next :: nat
  r_nameToUser :: "bytes \<Rightarrow> etcPasswdRef option"
  r_idToUser :: "uid \<Rightarrow> etcPasswdRef option"
  r_nameToGroup :: "bytes \<Rightarrow> nat option"
  r_idToGroup :: "gid \<Rightarrow> nat option"
  r_usernameToGroups :: "bytes \<Rightarrow> nat list option"

type_synonym 'a rm = "(repo, user_err, 'a) sm"

subsection \<open>Settings\<close>

definition getCreateFilesIfAbsent :: "repo \<Rightarrow> bool" where
  "getCreateFilesIfAbsent s = (case r_CreateFilesIfAbsent s of Some v \<Rightarrow> v | None \<Rightarrow> False)"

definition getAllowBadName :: "repo \<Rightarrow> bool" where
  "getAllowBadName s = (case r_AllowBadName s of Some v \<Rightarrow> v | None \<Rightarrow> True)"

definition getAllowBadLine :: "repo \<Rightarrow> bool" where
  "getAllowBadLine s = (case r_AllowBadLine s of Some v \<Rightarrow> v | None \<Rightarrow> True)"

text \<open>
  \<^verbatim>\<open>init\<close> of a handle, for an absolute file name (\<^verbatim>\<open>filepath.Abs\<close> of it is its clean form).
  The name of the temporary file is built before \<^verbatim>\<open>fn\<close> is made absolute.
\<close>

definition handle_init :: "bytes \<Rightarrow> bytes \<Rightarrow> nat \<Rightarrow> handle \<Rightarrow> handle" where
  "handle_init fn defFn numberOfColons this =
     (if h_numberOfColons this > 0 then this
      else let f = (if fn = [] then defFn else fn) in
        this\<lparr>h_fn := filepath_Clean f,
             h_tempFn := filepath_Join [filepath_Dir f, CHR ''n'' # filepath_Base f],
             h_numberOfColons := numberOfColons\<rparr>)"

definition handles_init :: "bytes \<Rightarrow> bytes \<Rightarrow> bytes \<Rightarrow> unit rm" where
  "handles_init passwdFn groupFn shadowFn =
     modifyE (\<lambda>s. s\<lparr>r_passwd := handle_init passwdFn ''/etc/passwd'' etcPasswdColons (r_passwd s),
                     r_group := handle_init groupFn ''/etc/group'' etcGroupColons (r_group s),
                     r_shadow := handle_init shadowFn ''/etc/shadow'' etcShadowColons (r_shadow s)\<rparr>)"

definition getDirectories :: "repo \<Rightarrow> bytes list" where
  "getDirectories s =
     remdups [filepath_Dir (h_fn (r_passwd s)), filepath_Dir (h_fn (r_group s)), filepath_Dir (h_fn (r_shadow s))]"

text \<open>\<^verbatim>\<open>matchesFilename\<close>, for an absolute clean name.\<close>

definition matchesFilename :: "repo \<Rightarrow> bytes \<Rightarrow> bool" where
  "matchesFilename s name =
     (if h_fn (r_passwd s) = name \<or> h_tempFn (r_passwd s) = name then True
      else if h_fn (r_group s) = name \<or> h_tempFn (r_shadow s) = name then True
      else if h_fn (r_shadow s) = name \<or> h_tempFn (r_shadow s) = name then True
      else False)"

subsection \<open>Opening and closing\<close>

text \<open>
  \<^verbatim>\<open>openFile\<close>: an absent file is created, with its directory, when the settings allow it;
  after the lock fails the file is closed again.
\<close>

definition lockOrClose :: "bytes \<Rightarrow> unit rm" where
  "lockOrClose fn = onErrorE (mapErrE ErrOs (os_Check OpFlock fn)) (mapErrE ErrOs (os_Close fn))"

definition handles_openFile :: "bytes \<Rightarrow> bool \<Rightarrow> unit rm" where
  "handles_openFile fn rw s =
     (case (if rw then os_OpenCreate False 384 fn else os_OpenRead fn) s of
        (Inr _, t) \<Rightarrow> lockOrClose fn t
      | (Inl e, t) \<Rightarrow>
          if isNotExist e \<and> getCreateFilesIfAbsent s then
            bindE (tryE (os_MkdirAll (filepath_Dir fn) 448)) (\<lambda>_.
            bindE (mapErrE ErrOs (os_OpenCreate False 384 fn)) (\<lambda>_. lockOrClose fn)) t
          else (Inl (ErrOs e), t))"

text \<open>An opened file: its path, and whether it is one of the three data files, which are unlocked first.\<close>

type_synonym opened_file = "bytes \<times> bool"

fun close_file :: "opened_file \<Rightarrow> (repo, user_err, unit) sm" where
  "close_file (p, True) = deferE (mapErrE ErrOs (os_Check OpUnlock p)) (mapErrE ErrOs (os_Close p))"
| "close_file (p, False) = mapErrE ErrOs (os_Close p)"

text \<open>\<^verbatim>\<open>close\<close> of the opened handles: deferred calls run last first, the first error is kept.\<close>

fun close_files :: "opened_file list \<Rightarrow> (repo, user_err, unit) sm" where
  "close_files [] = returnE ()"
| "close_files (f # fs) = deferE (close_file f) (close_files fs)"

definition opened_close :: "opened_file list \<Rightarrow> unit rm" where
  "opened_close fs = close_files (rev fs)"

fun open_files :: "opened_file list \<Rightarrow> (bytes \<times> bool \<times> bool) list \<Rightarrow> opened_file list rm" where
  "open_files acc [] = returnE acc"
| "open_files acc ((p, isData, rw) # ps) =
     bindE (onErrorE (if p = [] then throwE ErrNotInitialized else handles_openFile p rw) (opened_close acc))
       (\<lambda>_. open_files (acc @ [(p, isData)]) ps)"

definition handles_open :: "bool \<Rightarrow> opened_file list rm" where
  "handles_open rw s =
     open_files []
       ((if rw then map (\<lambda>d. (filepath_Join [d, ''.pwd.lock''], False, True)) (getDirectories s) else []) @
        [(h_fn (r_passwd s), True, rw), (h_fn (r_group s), True, rw), (h_fn (r_shadow s), True, rw)]) s"

subsection \<open>Loading and saving\<close>

fun alloc_entries ::
    "nat \<Rightarrow> 'a colon_entry list \<Rightarrow> (nat \<Rightarrow> 'a option) \<Rightarrow> nat colon_entry list \<times> (nat \<Rightarrow> 'a option) \<times> nat" where
  "alloc_entries n [] h = ([], h, n)"
| "alloc_entries n (e # es) h =
     (case ce_entry e of
        None \<Rightarrow> (let (as, h', n') = alloc_entries n es h
                 in (\<lparr>ce_entry = None, ce_rawLine = ce_rawLine e\<rparr> # as, h', n'))
      | Some v \<Rightarrow> (let (as, h', n') = alloc_entries (Suc n) es (h(n := Some v))
                 in (\<lparr>ce_entry = Some n, ce_rawLine = ce_rawLine e\<rparr> # as, h', n')))"

definition deref :: "(nat \<Rightarrow> 'a option) \<Rightarrow> nat colon_entry \<Rightarrow> 'a colon_entry" where
  "deref h e = \<lparr>ce_entry = Option.bind (ce_entry e) h, ce_rawLine = ce_rawLine e\<rparr>"

text \<open>What a \<^verbatim>\<open>bufio.Scanner\<close> sees of a file: nobody looks at its error, a failed read is the end of the data.\<close>

definition scanned :: "bytes \<Rightarrow> repo \<Rightarrow> bytes" where
  "scanned fn s = (case fst (os_ReadAll fn s) of Inl _ \<Rightarrow> [] | Inr d \<Rightarrow> d)"

definition passwd_load :: "unit rm" where
  "passwd_load s =
     (case colon_entries_decode etcPasswd_decode etcPasswd_reslice (h_numberOfColons (r_passwd s)) (getAllowBadName s)
          (getAllowBadLine s) (h_fn (r_passwd s)) (scanned (h_fn (r_passwd s)) s) of
        Inl e \<Rightarrow> (Inl e, s)
      | Inr es \<Rightarrow> let (as, h, n) = alloc_entries (r_next s) es (r_heapP s) in
          (Inr (), s\<lparr>r_passwd := (r_passwd s)\<lparr>h_entries := as, h_numberOfReads := h_numberOfReads (r_passwd s) + 1\<rparr>,
                     r_heapP := h, r_next := n\<rparr>))"

definition group_load :: "unit rm" where
  "group_load s =
     (case colon_entries_decode etcGroup_decode etcGroup_reslice (h_numberOfColons (r_group s)) (getAllowBadName s)
          (getAllowBadLine s) (h_fn (r_group s)) (scanned (h_fn (r_group s)) s) of
        Inl e \<Rightarrow> (Inl e, s)
      | Inr es \<Rightarrow> let (as, h, n) = alloc_entries (r_next s) es (r_heapG s) in
          (Inr (), s\<lparr>r_group := (r_group s)\<lparr>h_entries := as, h_numberOfReads := h_numberOfReads (r_group s) + 1\<rparr>,
                     r_heapG := h, r_next := n\<rparr>))"

definition shadow_load :: "unit rm" where
  "shadow_load s =
     (case colon_entries_decode etcShadow_decode etcShadow_reslice (h_numberOfColons (r_shadow s)) (getAllowBadName s)
          (getAllowBadLine s) (h_fn (r_shadow s)) (scanned (h_fn (r_shadow s)) s) of
        Inl e \<Rightarrow> (Inl e, s)
      | Inr es \<Rightarrow> let (as, h, n) = alloc_entries (r_next s) es (r_heapS s) in
          (Inr (), s\<lparr>r_shadow := (r_shadow s)\<lparr>h_entries := as, h_numberOfReads := h_numberOfReads (r_shadow s) + 1\<rparr>,
                     r_heapS := h, r_next := n\<rparr>))"

definition handles_load :: "unit rm" where
  "handles_load = bindE passwd_load (\<lambda>_. bindE group_load (\<lambda>_. shadow_load))"

text \<open>\<^verbatim>\<open>save\<close> of one file: seek, truncate, then encode, which seeks and truncates again.\<close>

definition save_file :: "'a row_encode \<Rightarrow> bool \<Rightarrow> bytes \<Rightarrow> 'a colon_entry list \<Rightarrow> unit rm" where
  "save_file enc ab fn es =
     bindE (mapErrE ErrOs (os_Check OpSeek fn)) (\<lambda>_.
     bindE (mapErrE ErrOs (os_Truncate0 fn)) (\<lambda>_.
     colon_entries_encode enc ab fn es))"

definition passwd_save :: "unit rm" where
  "passwd_save s = save_file etcPasswd_encode (getAllowBadName s) (h_fn (r_passwd s))
     (map (deref (r_heapP s)) (h_entries (r_passwd s))) s"

definition group_save :: "unit rm" where
  "group_save s = save_file etcGroup_encode (getAllowBadName s) (h_fn (r_group s))
     (map (deref (r_heapG s)) (h_entries (r_group s))) s"

definition shadow_save :: "unit rm" where
  "shadow_save s = save_file etcShadow_encode (getAllowBadName s) (h_fn (r_shadow s))
     (map (deref (r_heapS s)) (h_entries (r_shadow s))) s"

definition handles_save :: "unit rm" where
  "handles_save = bindE passwd_save (\<lambda>_. bindE group_save (\<lambda>_. shadow_save))"

subsection \<open>Lemmas: open handles are balanced\<close>

definition plus_open :: "(bytes \<Rightarrow> nat) \<Rightarrow> opened_file list \<Rightarrow> bytes \<Rightarrow> nat" where
  "plus_open h fs p = h p + length (filter (\<lambda>f. fst f = p) fs)"

lemma plus_open_simps [simp]:
  "plus_open h [] = h"
  "plus_open h (fs @ [(p, k)]) = (plus_open h fs)(p := Suc (plus_open h fs p))"
  by (auto simp: plus_open_def)

lemma close_file_open: "w_open (snd (close_file (p, k) s)) = (w_open s)(p := w_open s p - 1)"
  by (cases k) (auto simp: deferE_def mapErrE_def os_Check_def os_Close_def split: prod.splits sum.splits)

lemma snd_deferE: "snd (deferE m c s) = snd (c (snd (m s)))"
  by (auto simp: deferE_def split: prod.splits sum.splits)

lemma opened_close_open:
  "w_open s = plus_open h fs \<Longrightarrow> w_open (snd (opened_close fs s)) = h"
proof (induction fs arbitrary: s rule: rev_induct)
  case Nil
  then show ?case by (simp add: opened_close_def returnE_def)
next
  case (snoc f fs)
  obtain p k where f: "f = (p, k)" by (cases f)
  have "w_open (snd (close_file f s)) = plus_open h fs"
    using snoc.prems by (simp add: f close_file_open fun_eq_iff del: close_file.simps)
  from snoc.IH[OF this] show ?case
    by (simp add: opened_close_def snd_deferE del: close_file.simps)
qed

lemma lockOrClose_open:
  "w_open s = h(p := Suc (h p)) \<Longrightarrow>
   (case lockOrClose p s of (Inr u, t) \<Rightarrow> w_open t = h(p := Suc (h p)) | (Inl e, t) \<Rightarrow> w_open t = h)"
  by (simp add: lockOrClose_def onErrorE_def mapErrE_def os_Check_def os_Close_def)

lemma MkdirAll_open: "tryE (os_MkdirAll p m) s = (r, t) \<Longrightarrow> w_open t = w_open s"
  using preservesD[OF handles_are_MkdirAll[of "w_open s"], of s] by (auto simp: handles_are_def tryE_def)

lemma handles_openFile_open:
  "case handles_openFile p rw s of
     (Inr u, t) \<Rightarrow> w_open t = (w_open s)(p := Suc (w_open s p)) | (Inl e, t) \<Rightarrow> w_open t = w_open s"
proof -
  obtain r t where o: "(if rw then os_OpenCreate False 384 p else os_OpenRead p) s = (r, t)"
    by (cases "(if rw then os_OpenCreate False 384 p else os_OpenRead p) s")
  show ?thesis
  proof (cases r)
    case (Inr u)
    then have "w_open t = (w_open s)(p := Suc (w_open s p))"
      using o by (auto dest: os_Open_counts split: if_splits)
    with lockOrClose_open[OF this] Inr o show ?thesis by (simp add: handles_openFile_def)
  next
    case (Inl e)
    then have t: "w_open t = w_open s" using o by (auto dest: os_Open_counts split: if_splits)
    show ?thesis
    proof (cases "isNotExist e \<and> getCreateFilesIfAbsent s")
      case False
      with Inl o t show ?thesis by (auto simp: handles_openFile_def)
    next
      case True
      obtain x :: "user_err + os_err + unit" and t1 where m: "tryE (os_MkdirAll (filepath_Dir p) 448) t = (x, t1)"
        by (metis surj_pair)
      then have t1: "w_open t1 = w_open s" using MkdirAll_open[OF m] t by simp
      obtain y where x: "x = Inr y" using m by (auto simp: tryE_def)
      obtain r2 t2 where o2: "os_OpenCreate False 384 p t1 = (r2, t2)"
        by (cases "os_OpenCreate False 384 p t1")
      show ?thesis
      proof (cases r2)
        case (Inl e2)
        then have "w_open t2 = w_open s" using os_Open_counts(4)[OF o2[unfolded Inl]] t1 by simp
        with True o m x o2 Inl \<open>r = Inl e\<close> show ?thesis
          by (simp add: handles_openFile_def bindE_def mapErrE_def)
      next
        case (Inr u)
        then have "w_open t2 = (w_open s)(p := Suc (w_open s p))" using os_Open_counts(3)[OF o2[unfolded Inr]] t1 by simp
        from lockOrClose_open[OF this] True o m x o2 Inr \<open>r = Inl e\<close> show ?thesis
          by (simp add: handles_openFile_def bindE_def mapErrE_def)
      qed
    qed
  qed
qed

lemma open_files_open:
  "w_open s = plus_open h acc \<Longrightarrow>
   (case open_files acc ps s of (Inr fs, t) \<Rightarrow> w_open t = plus_open h fs | (Inl e, t) \<Rightarrow> w_open t = h)"
proof (induction acc ps arbitrary: s rule: open_files.induct)
  case (1 acc)
  then show ?case by (simp add: returnE_def)
next
  case (2 acc p isData rw ps)
  define m where "m = (if p = [] then throwE ErrNotInitialized else handles_openFile p rw)"
  have m: "case m s of (Inr u, t) \<Rightarrow> w_open t = (w_open s)(p := Suc (w_open s p)) | (Inl e, t) \<Rightarrow> w_open t = w_open s"
    using handles_openFile_open[where p = p and rw = rw and s = s] by (simp add: m_def throwE_def)
  obtain r t where r: "m s = (r, t)" by (cases "m s")
  show ?case
  proof (cases r)
    case (Inl e)
    with m r "2.prems" have "w_open t = plus_open h acc" by simp
    with Inl r opened_close_open[OF this] show ?thesis
      by (simp add: bindE_def onErrorE_def m_def[symmetric])
  next
    case (Inr u)
    with m r "2.prems" have "w_open t = plus_open h (acc @ [(p, isData)])" by simp
    from "2.IH"[OF this] Inr r show ?thesis by (simp add: bindE_def onErrorE_def m_def[symmetric])
  qed
qed

lemma handles_open_open:
  "case handles_open rw s of (Inr fs, t) \<Rightarrow> w_open t = plus_open (w_open s) fs | (Inl e, t) \<Rightarrow> w_open t = w_open s"
  using open_files_open[of s "w_open s" "[]"] by (simp add: handles_open_def)

text \<open>
  The pattern of every writing operation: open, run a body that opens nothing, close by a
  deferred call. No path leaves a handle open.
\<close>

lemma open_body_close_balanced:
  assumes "\<And>f h. preserves (handles_are h) (body f)"
  shows "w_open (snd (bindE (handles_open rw) (\<lambda>f. deferE (body f) (opened_close f)) s)) = w_open s"
proof -
  obtain r t where r: "handles_open rw s = (r, t)" by (cases "handles_open rw s")
  show ?thesis
  proof (cases r)
    case (Inl e)
    with r handles_open_open[where rw = rw and s = s] show ?thesis by (simp add: bindE_def)
  next
    case (Inr fs)
    with r handles_open_open[where rw = rw and s = s] have t: "w_open t = plus_open (w_open s) fs" by simp
    have "w_open (snd (body fs t)) = w_open t"
      using preservesD[OF assms, of "w_open t" t fs] by (simp add: handles_are_def)
    with opened_close_open t Inr r show ?thesis by (simp add: bindE_def snd_deferE)
  qed
qed

lemma handles_load_handles [preserve]: "preserves (handles_are h) handles_load"
proof -
  have "preserves (handles_are h) passwd_load" "preserves (handles_are h) group_load"
    "preserves (handles_are h) shadow_load"
    by (auto simp: preserves_def handles_are_def passwd_load_def group_load_def shadow_load_def
        split: sum.splits prod.splits)
  then show ?thesis unfolding handles_load_def by (intro preserve)
qed

lemma save_file_handles [preserve]: "preserves (handles_are h) (save_file enc ab fn es)"
  unfolding save_file_def by (intro preserve)

lemma preserves_depend: "(\<And>x. preserves I (m x)) \<Longrightarrow> preserves I (\<lambda>s. m (f s) s)"
  by (simp add: preserves_def)

lemma handles_save_handles [preserve]: "preserves (handles_are h) handles_save"
proof -
  have "preserves (handles_are h) passwd_save" "preserves (handles_are h) group_save"
    "preserves (handles_are h) shadow_save"
    using save_file_handles unfolding passwd_save_def group_save_def shadow_save_def preserves_def by blast+
  then show ?thesis unfolding handles_save_def by (intro preserve)
qed

subsection \<open>Lemmas: allocation\<close>

definition fresh_above :: "nat \<Rightarrow> (nat \<Rightarrow> 'a option) \<Rightarrow> bool" where
  "fresh_above n h \<longleftrightarrow> (\<forall>a \<ge> n. h a = None)"

lemma alloc_entries_props:
  assumes "alloc_entries n es h = (as, h', n')"
  shows "n \<le> n'" "\<forall>a < n. h' a = h a" "fresh_above n h \<Longrightarrow> fresh_above n' h'"
    "map (deref h') as = es" "\<forall>e \<in> set as. \<forall>a. ce_entry e = Some a \<longrightarrow> n \<le> a \<and> a < n'"
    "distinct (List.map_filter ce_entry as)"
proof -
  have "n \<le> n' \<and> (\<forall>a < n. h' a = h a) \<and> (fresh_above n h \<longrightarrow> fresh_above n' h') \<and>
    map (deref h') as = es \<and> (\<forall>e \<in> set as. \<forall>a. ce_entry e = Some a \<longrightarrow> n \<le> a \<and> a < n') \<and>
    distinct (List.map_filter ce_entry as)"
    using assms
  proof (induction n es h arbitrary: as h' n' rule: alloc_entries.induct)
    case (1 n h)
    then show ?case by simp
  next
    case (2 n e es h)
    show ?case
    proof (cases "ce_entry e")
      case None
      obtain as1 h1 n1 where a: "alloc_entries n es h = (as1, h1, n1)" by (cases "alloc_entries n es h")
      with 2 None show ?thesis
        by (auto simp: deref_def Let_def List.map_filter_simps)
    next
      case (Some v)
      obtain as1 h1 n1 where a: "alloc_entries (Suc n) es (h(n := Some v)) = (as1, h1, n1)"
        by (cases "alloc_entries (Suc n) es (h(n := Some v))")
      have eq: "as = \<lparr>ce_entry = Some n, ce_rawLine = ce_rawLine e\<rparr> # as1" "h' = h1" "n' = n1"
        using "2.prems" Some a by (simp_all add: Let_def)
      note IH = "2.IH"(2)[OF Some a]
      from IH have hn: "h1 n = Some v" by simp
      have new: "n \<notin> set (List.map_filter ce_entry as1)"
        using IH by (force simp: List.map_filter_def)
      have fr: "fresh_above n h \<Longrightarrow> fresh_above (Suc n) (h(n := Some v))"
        by (simp add: fresh_above_def)
      have fr1: "fresh_above n h \<longrightarrow> fresh_above n1 h1" using IH fr by blast
      have e: "deref h1 \<lparr>ce_entry = Some n, ce_rawLine = ce_rawLine e\<rparr> = e"
        using hn Some by (cases e) (simp add: deref_def)
      have old: "\<forall>a < n. h1 a = h a" using IH by simp
      have bnd: "\<forall>e \<in> set as. \<forall>a. ce_entry e = Some a \<longrightarrow> n \<le> a \<and> a < n'"
        using IH eq by (auto simp: Suc_le_eq dest: less_imp_le)
      show ?thesis
        unfolding eq using IH new fr1 e old bnd[unfolded eq] by (simp add: List.map_filter_simps)
    qed
  qed
  then show "n \<le> n'" "\<forall>a < n. h' a = h a" "fresh_above n h \<Longrightarrow> fresh_above n' h'"
    "map (deref h') as = es" "\<forall>e \<in> set as. \<forall>a. ce_entry e = Some a \<longrightarrow> n \<le> a \<and> a < n'"
    "distinct (List.map_filter ce_entry as)" by blast+
qed

end
