(* ===== verification/EtcRepository.thy ===== *)
theory EtcRepository
  imports EtcHandles
begin

section \<open>Indexes, lookups and passwords (pkg/user/etc-colon-repository.go)\<close>

text \<open>
  \<^verbatim>\<open>rebuildIndexes\<close> builds the five maps from the entries of the three handles; the lookups
  read them. \<^verbatim>\<open>validatePassword\<close> decides on a password with the hashing methods of
  \<^verbatim>\<open>pkg/crypto/unix/password\<close>, whose implementations are third-party code and a parameter:
  a list of prefixes with a verifier each.
\<close>

subsection \<open>Indexes\<close>

definition pointers :: "nat colon_entry list \<Rightarrow> nat list" where
  "pointers es = List.map_filter ce_entry es"

definition addMember :: "nat \<Rightarrow> (bytes \<Rightarrow> nat list option) \<Rightarrow> bytes \<Rightarrow> (bytes \<Rightarrow> nat list option)" where
  "addMember a m un = m(un := Some ((case m un of None \<Rightarrow> [] | Some l \<Rightarrow> l) @ [a]))"

fun loadGroupsRefs ::
    "(nat \<Rightarrow> etcGroupEntry option) \<Rightarrow> nat list \<Rightarrow>
     (bytes \<Rightarrow> nat option) \<times> (gid \<Rightarrow> nat option) \<times> (bytes \<Rightarrow> nat list option) \<Rightarrow>
     (bytes \<Rightarrow> nat option) \<times> (gid \<Rightarrow> nat option) \<times> (bytes \<Rightarrow> nat list option)" where
  "loadGroupsRefs h [] m = m"
| "loadGroupsRefs h (a # as) (n2g, i2g, u2g) =
     (case h a of
        None \<Rightarrow> loadGroupsRefs h as (n2g, i2g, u2g)
      | Some g \<Rightarrow> loadGroupsRefs h as
          (n2g(g_name g := Some a), i2g(g_gid g := Some a), foldl (addMember a) u2g (g_userNames g)))"

fun loadShadowsRefs :: "(nat \<Rightarrow> etcShadowEntry option) \<Rightarrow> nat list \<Rightarrow> (bytes \<Rightarrow> nat option) \<Rightarrow> bytes \<Rightarrow> nat option" where
  "loadShadowsRefs h [] m = m"
| "loadShadowsRefs h (a # as) m =
     (case h a of None \<Rightarrow> loadShadowsRefs h as m | Some e \<Rightarrow> loadShadowsRefs h as (m(s_name e := Some a)))"

fun loadUsersRefs ::
    "(nat \<Rightarrow> etcPasswdEntry option) \<Rightarrow> (bytes \<Rightarrow> nat option) \<Rightarrow> nat list \<Rightarrow>
     (bytes \<Rightarrow> etcPasswdRef option) \<times> (uid \<Rightarrow> etcPasswdRef option) \<Rightarrow>
     (bytes \<Rightarrow> etcPasswdRef option) \<times> (uid \<Rightarrow> etcPasswdRef option)" where
  "loadUsersRefs h shadows [] m = m"
| "loadUsersRefs h shadows (a # as) (n2u, i2u) =
     (case h a of
        None \<Rightarrow> loadUsersRefs h shadows as (n2u, i2u)
      | Some e \<Rightarrow>
          let ref = \<lparr>pr_passwd = a, pr_shadow = shadows (p_name e)\<rparr> in
          loadUsersRefs h shadows as (n2u(p_name e := Some ref), i2u(p_uid e := Some ref)))"

definition rebuildIndexes :: "unit rm" where
  "rebuildIndexes = modifyE (\<lambda>s.
     let (n2g, i2g, u2g) = loadGroupsRefs (r_heapG s) (pointers (h_entries (r_group s)))
           (\<lambda>_. None, \<lambda>_. None, \<lambda>_. None);
         shadows = loadShadowsRefs (r_heapS s) (pointers (h_entries (r_shadow s))) (\<lambda>_. None);
         (n2u, i2u) = loadUsersRefs (r_heapP s) shadows (pointers (h_entries (r_passwd s))) (\<lambda>_. None, \<lambda>_. None)
     in s\<lparr>r_nameToGroup := n2g, r_idToGroup := i2g, r_usernameToGroups := u2g,
          r_nameToUser := n2u, r_idToUser := i2u\<rparr>)"

text \<open>
  \<^verbatim>\<open>openAndLoad(rw, true)\<close> leaves the files open for its caller and closes them on an error;
  \<^verbatim>\<open>openAndLoad(false, false)\<close>, the body of \<^verbatim>\<open>load\<close>, always closes them.
\<close>

definition loadAndIndex :: "unit rm" where
  "loadAndIndex = bindE handles_load (\<lambda>_. rebuildIndexes)"

definition openAndLoad :: "opened_file list rm" where
  "openAndLoad = bindE (handles_open True) (\<lambda>f.
     onErrorE (bindE loadAndIndex (\<lambda>_. returnE f)) (opened_close f))"

definition load :: "unit rm" where
  "load = bindE (handles_open False) (\<lambda>f. deferE loadAndIndex (opened_close f))"

subsection \<open>Lookups\<close>

definition refToGroup :: "etcGroupEntry \<Rightarrow> group" where
  "refToGroup e = \<lparr>gr_Gid = g_gid e, gr_Name = g_name e\<rparr>"

definition lookupGroupById :: "repo \<Rightarrow> gid \<Rightarrow> group option" where
  "lookupGroupById s i = (case r_idToGroup s i of None \<Rightarrow> None | Some a \<Rightarrow> map_option refToGroup (r_heapG s a))"

definition refAndGroupsToUser :: "etcPasswdEntry \<Rightarrow> group \<Rightarrow> group list \<Rightarrow> user" where
  "refAndGroupsToUser e g gs =
     \<lparr>us_Name = p_name e, us_DisplayName = p_geocs e, us_Uid = p_uid e, us_Group = g, us_Groups = gs,
      us_Shell = p_shell e, us_HomeDir = p_homeDir e\<rparr>"

definition groupsOf :: "repo \<Rightarrow> bytes \<Rightarrow> group list" where
  "groupsOf s name =
     (case r_usernameToGroups s name of
        None \<Rightarrow> []
      | Some as \<Rightarrow> map refToGroup (List.map_filter (r_heapG s) as))"

text \<open>A dangling pointer does not occur in Go; the branch for it is a panic.\<close>

definition refToUser :: "repo \<Rightarrow> etcPasswdRef \<Rightarrow> user_err + user" where
  "refToUser s ref =
     (case r_heapP s (pr_passwd ref) of
        None \<Rightarrow> Inl (Panic ''dangling pointer'')
      | Some e \<Rightarrow>
          let g = (case lookupGroupById s (p_gid e) of
                     Some g \<Rightarrow> g
                   | None \<Rightarrow> \<lparr>gr_Gid = p_gid e, gr_Name = CHR ''g'' # formatUint32 (p_gid e)\<rparr>)
          in Inr (refAndGroupsToUser e g (groupsOf s (p_name e))))"

definition LookupByName :: "repo \<Rightarrow> bytes \<Rightarrow> user_err + user" where
  "LookupByName s name = (case r_nameToUser s name of None \<Rightarrow> Inl ErrNoSuchUser | Some ref \<Rightarrow> refToUser s ref)"

definition LookupById :: "repo \<Rightarrow> uid \<Rightarrow> user_err + user" where
  "LookupById s i = (case r_idToUser s i of None \<Rightarrow> Inl ErrNoSuchUser | Some ref \<Rightarrow> refToUser s ref)"

definition LookupGroupByName :: "repo \<Rightarrow> bytes \<Rightarrow> user_err + group" where
  "LookupGroupByName s name =
     (case r_nameToGroup s name of
        None \<Rightarrow> Inl ErrNoSuchGroup
      | Some a \<Rightarrow> (case r_heapG s a of None \<Rightarrow> Inl (Panic ''dangling pointer'') | Some e \<Rightarrow> Inr (refToGroup e)))"

definition LookupGroupById :: "repo \<Rightarrow> gid \<Rightarrow> user_err + group" where
  "LookupGroupById s i = (case lookupGroupById s i of None \<Rightarrow> Inl ErrNoSuchGroup | Some g \<Rightarrow> Inr g)"

definition lookupByRequirement :: "repo \<Rightarrow> requirement \<Rightarrow> etcPasswdRef option" where
  "lookupByRequirement s req =
     (case (if rq_Name req \<noteq> [] then r_nameToUser s (rq_Name req) else None) of
        Some ref \<Rightarrow> Some ref
      | None \<Rightarrow> (case rq_Uid req of Some u \<Rightarrow> r_idToUser s u | None \<Rightarrow> None))"

definition lookupGroupByRequirement :: "repo \<Rightarrow> group_requirement \<Rightarrow> nat option" where
  "lookupGroupByRequirement s req =
     (case (if gq_Name req \<noteq> [] then r_nameToGroup s (gq_Name req) else None) of
        Some a \<Rightarrow> Some a
      | None \<Rightarrow> (case gq_Gid req of Some g \<Rightarrow> r_idToGroup s g | None \<Rightarrow> None))"

subsection \<open>Passwords (etc-shadow.go, pkg/crypto/unix/password/crypt.go)\<close>

type_synonym crypt = "bytes \<Rightarrow> bytes \<Rightarrow> user_err + bool"

text \<open>
  The registered methods are a Go map from prefix to method; no prefix is a prefix of another
  one, so the order of the map does not matter and a list stands for it.
\<close>

fun password_Validate :: "(bytes \<times> crypt) list \<Rightarrow> bytes \<Rightarrow> bytes \<Rightarrow> user_err + bool" where
  "password_Validate [] pass hash = Inl ErrNoSuchCrypt"
| "password_Validate ((pre, validate) # insts) pass hash =
     (if take (length pre) hash = pre then validate pass hash else password_Validate insts pass hash)"

definition todayInDays :: "'w world_scheme \<Rightarrow> uint32" where
  "todayInDays s = word_of_int (w_now s div 1000000000 div 60 div 60 div 24)"

definition etcShadow_validatePassword ::
    "(bytes \<times> crypt) list \<Rightarrow> uint32 \<Rightarrow> etcShadowEntry \<Rightarrow> bytes \<Rightarrow> user_err + bool" where
  "etcShadow_validatePassword insts today e pass =
     (if length (s_password e) = 0 \<or> s_password e = ''*'' \<or> s_password e = ''!'' \<or> s_password e = ''!!''
      then Inr False
      else bindR (password_Validate insts pass (s_password e)) (\<lambda>ok.
        if \<not> ok then Inr False
        else if s_hasInactiveAge e \<and>
          s_maximumAgeInDays e + s_lastChangedAtInDays e + s_inactiveAgeInDays e \<le> today then Inr False
        else if s_hasExpire e \<and> s_expireAtTsInDays e \<le> today then Inr False
        else Inr True))"

definition etcPasswdRef_validatePassword ::
    "(bytes \<times> crypt) list \<Rightarrow> repo \<Rightarrow> etcPasswdRef \<Rightarrow> bytes \<Rightarrow> user_err + bool" where
  "etcPasswdRef_validatePassword insts s ref pass =
     (case pr_shadow ref of
        Some a \<Rightarrow> (case r_heapS s a of
            Some e \<Rightarrow> etcShadow_validatePassword insts (todayInDays s) e pass
          | None \<Rightarrow> Inl (Panic ''dangling pointer''))
      | None \<Rightarrow> (case r_heapP s (pr_passwd ref) of
            Some e \<Rightarrow> etcPasswd_validatePassword e pass
          | None \<Rightarrow> Inl (Panic ''dangling pointer'')))"

definition ValidatePasswordByName :: "(bytes \<times> crypt) list \<Rightarrow> repo \<Rightarrow> bytes \<Rightarrow> bytes \<Rightarrow> user_err + bool" where
  "ValidatePasswordByName insts s name pass =
     (case r_nameToUser s name of
        None \<Rightarrow> Inl ErrNoSuchUser
      | Some ref \<Rightarrow> etcPasswdRef_validatePassword insts s ref pass)"

definition ValidatePasswordById :: "(bytes \<times> crypt) list \<Rightarrow> repo \<Rightarrow> uid \<Rightarrow> bytes \<Rightarrow> user_err + bool" where
  "ValidatePasswordById insts s i pass =
     (case r_idToUser s i of
        None \<Rightarrow> Inl ErrNoSuchUser
      | Some ref \<Rightarrow> etcPasswdRef_validatePassword insts s ref pass)"

subsection \<open>Lemmas: what the maps hold\<close>

text \<open>
  The maps are last-wins indexes of the rows: \<open>index_of f rows k\<close> is the last row whose key is
  \<open>k\<close>, the row an abstract account database would return.
\<close>

definition index_of :: "('a \<Rightarrow> 'k) \<Rightarrow> ('p \<times> 'a) list \<Rightarrow> 'k \<Rightarrow> ('p \<times> 'a) option" where
  "index_of key rows k = find (\<lambda>(_, v). key v = k) (rev rows)"

definition rows :: "(nat \<Rightarrow> 'a option) \<Rightarrow> nat list \<Rightarrow> (nat \<times> 'a) list" where
  "rows h as = List.map_filter (\<lambda>a. map_option (Pair a) (h a)) as"

lemma rows_simps [simp]:
  "rows h [] = []"
  "rows h (a # as) = (case h a of None \<Rightarrow> rows h as | Some v \<Rightarrow> (a, v) # rows h as)"
  by (auto simp: rows_def List.map_filter_simps split: option.splits)

lemma find_append: "find P (xs @ ys) = (case find P xs of None \<Rightarrow> find P ys | Some x \<Rightarrow> Some x)"
  by (induction xs) auto

lemma index_of_Cons:
  "index_of key (r # rs) k =
     (case index_of key rs k of None \<Rightarrow> (if key (snd r) = k then Some r else None) | Some x \<Rightarrow> Some x)"
  by (cases r) (auto simp: index_of_def find_append split: option.splits)

lemma index_of_Nil [simp]: "index_of key [] k = None"
  by (simp add: index_of_def)

lemma index_of_Some: "index_of key rs k = Some (a, v) \<Longrightarrow> (a, v) \<in> set rs \<and> key v = k"
  by (induction rs) (auto simp: index_of_Cons split: option.splits if_splits)

lemma index_of_None: "index_of key rs k = None \<longleftrightarrow> (\<forall>r \<in> set rs. key (snd r) \<noteq> k)"
  by (induction rs) (auto simp: index_of_Cons split: option.splits if_splits)

lemma in_rows: "(a, v) \<in> set (rows h as) \<longleftrightarrow> a \<in> set as \<and> h a = Some v"
  by (induction as) (auto split: option.splits)

definition or_else :: "'a option \<Rightarrow> 'a option \<Rightarrow> 'a option" where
  "or_else x y = (case x of None \<Rightarrow> y | Some _ \<Rightarrow> x)"

lemma or_else_simps [simp]:
  "or_else None y = y" "or_else (Some x) y = Some x" "or_else x None = x"
  by (auto simp: or_else_def split: option.splits)

lemma loadUsersRefs_index:
  "loadUsersRefs h sh as (m, i) =
     (\<lambda>n. or_else (map_option (\<lambda>(a, e). \<lparr>pr_passwd = a, pr_shadow = sh (p_name e)\<rparr>) (index_of p_name (rows h as) n)) (m n),
      \<lambda>u. or_else (map_option (\<lambda>(a, e). \<lparr>pr_passwd = a, pr_shadow = sh (p_name e)\<rparr>) (index_of p_uid (rows h as) u)) (i u))"
proof (induction as arbitrary: m i)
  case (Cons a as)
  show ?case
    by (auto simp: Cons.IH index_of_Cons Let_def fun_eq_iff or_else_def split: option.splits)
qed (simp add: or_else_def)

lemma loadShadowsRefs_index:
  "loadShadowsRefs h as m = (\<lambda>n. or_else (map_option fst (index_of s_name (rows h as) n)) (m n))"
proof (induction as arbitrary: m)
  case (Cons a as)
  show ?case
    by (auto simp: Cons.IH index_of_Cons fun_eq_iff or_else_def split: option.splits)
qed (simp add: or_else_def)

lemma loadGroupsRefs_index:
  "fst (loadGroupsRefs h as (m, i, u)) = (\<lambda>n. or_else (map_option fst (index_of g_name (rows h as) n)) (m n))"
  "fst (snd (loadGroupsRefs h as (m, i, u))) = (\<lambda>g. or_else (map_option fst (index_of g_gid (rows h as) g)) (i g))"
proof (induction as arbitrary: m i u)
  case Nil
  {
    case 1 show ?case by (simp add: or_else_def)
  next
    case 2 show ?case by (simp add: or_else_def)
  }
next
  case (Cons a as)
  {
    case 1 show ?case
      by (auto simp: Cons.IH index_of_Cons fun_eq_iff or_else_def split: option.splits)
  next
    case 2 show ?case
      by (auto simp: Cons.IH index_of_Cons fun_eq_iff or_else_def split: option.splits)
  }
qed

text \<open>The memberships: every row lists its members, and the map lists the rows of a member, in file order.\<close>

definition members :: "(bytes \<Rightarrow> nat list option) \<Rightarrow> bytes \<Rightarrow> nat list" where
  "members m un = (case m un of None \<Rightarrow> [] | Some l \<Rightarrow> l)"

lemma members_addMember: "members (addMember a m x) un = members m un @ (if x = un then [a] else [])"
  by (simp add: members_def addMember_def)

lemma foldl_addMember:
  "members (foldl (addMember a) m uns) un = members m un @ replicate (count_list uns un) a"
  by (induction uns arbitrary: m) (auto simp: members_addMember)

lemma loadGroupsRefs_members:
  "members (snd (snd (loadGroupsRefs h as (m, i, u)))) un =
   members u un @ concat (map (\<lambda>(a, g). replicate (count_list (g_userNames g) un) a) (rows h as))"
proof (induction as arbitrary: m i u)
  case (Cons a as)
  show ?case by (cases "h a") (simp_all add: Cons.IH foldl_addMember)
qed simp

lemma openAndLoad_handles:
  "case openAndLoad s of (Inr f, t) \<Rightarrow> w_open t = plus_open (w_open s) f | (Inl e, t) \<Rightarrow> w_open t = w_open s"
proof -
  have body: "preserves (handles_are h) (bindE loadAndIndex (\<lambda>_. returnE f))" for h f
    unfolding loadAndIndex_def rebuildIndexes_def
    by (intro preserve preserves_modifyE) (auto simp: handles_are_def Let_def split: prod.splits)
  obtain r t where r: "handles_open True s = (r, t)" by (cases "handles_open True s")
  show ?thesis
  proof (cases r)
    case (Inl e)
    with r handles_open_open[where rw = True and s = s] show ?thesis by (simp add: openAndLoad_def bindE_def)
  next
    case (Inr f)
    with r handles_open_open[where rw = True and s = s] have t: "w_open t = plus_open (w_open s) f" by simp
    obtain r2 t2 where b: "bindE loadAndIndex (\<lambda>_. returnE f) t = (r2, t2)"
      by (metis surj_pair)
    then have t2: "w_open t2 = plus_open (w_open s) f"
      using preserves_result[OF body, of "w_open t" t f r2 t2] t by (simp add: handles_are_def)
    show ?thesis
    proof (cases r2)
      case (Inl e)
      with b r \<open>r = Inr f\<close> opened_close_open[OF t2] show ?thesis
        by (simp add: openAndLoad_def bindE_def[of "handles_open True"] onErrorE_def)
    next
      case (Inr f2)
      then have "f2 = f" using b by (auto simp: bindE_Inr_iff returnE_def)
      with Inr b r \<open>r = Inr f\<close> t2 show ?thesis
        by (simp add: openAndLoad_def bindE_def[of "handles_open True"] onErrorE_def)
    qed
  qed
qed

lemma open_load_body_close_balanced:
  assumes "\<And>f h. preserves (handles_are h) (body f)"
  shows "w_open (snd (bindE openAndLoad (\<lambda>f. deferE (body f) (opened_close f)) s)) = w_open s"
proof -
  obtain r t where r: "openAndLoad s = (r, t)" by (cases "openAndLoad s")
  show ?thesis
  proof (cases r)
    case (Inl e)
    with r openAndLoad_handles[of s] show ?thesis by (simp add: bindE_def)
  next
    case (Inr f)
    with r openAndLoad_handles[of s] have t: "w_open t = plus_open (w_open s) f" by simp
    have "w_open (snd (body f t)) = w_open t"
      using preservesD[OF assms, of "w_open t" t f] by (simp add: handles_are_def)
    with opened_close_open t Inr r show ?thesis by (simp add: bindE_def snd_deferE)
  qed
qed

end
