(* ===== verification/SessionModel.thy ===== *)
theory SessionModel
  imports World
begin

section \<open>Sessions: values and configuration (pkg/session, pkg/configuration)\<close>

text \<open>
  The value types of package \<^verbatim>\<open>session\<close> and the state of \<^verbatim>\<open>FsRepository\<close>: the world, the
  configuration of \<^verbatim>\<open>SessionFs\<close> and the connection interceptors of the sessions. Times are
  nanoseconds, the zero \<^verbatim>\<open>time.Time\<close> is \<open>None\<close>.

  What the package takes from elsewhere is the record \<open>deps\<close>, an argument of the operations: the text
  form of a UUID and the generator (\<^verbatim>\<open>google/uuid\<close>), the JSON form of the two stored records
  (\<^verbatim>\<open>encoding/json\<close> over the text of \<^verbatim>\<open>net.Host\<close>), the base58 check of a key file's name, and a public
  key's file name, line and parser (SHA-1, base58, base64, \<^verbatim>\<open>x/crypto/ssh\<close>). \<open>deps_ok\<close> states
  what the package relies on. A context is never cancelled.
\<close>

unbundle bit_operations_syntax

subsection \<open>State (state.go)\<close>

type_synonym session_state = "8 word"

abbreviation StateUnchanged :: session_state where "StateUnchanged \<equiv> 0"
abbreviation StateNew :: session_state where "StateNew \<equiv> 1"
abbreviation StateAuthorized :: session_state where "StateAuthorized \<equiv> 2"
abbreviation StateDisposed :: session_state where "StateDisposed \<equiv> 3"

definition State_UnmarshalText :: "bytes \<Rightarrow> session_state option" where
  "State_UnmarshalText text =
     (if text = [] \<or> text = ''unchanged'' then Some StateUnchanged
      else if text = ''new'' then Some StateNew
      else if text = ''authorized'' then Some StateAuthorized
      else if text = ''disposed'' then Some StateDisposed
      else None)"

definition State_MarshalText :: "session_state \<Rightarrow> bytes option" where
  "State_MarshalText this =
     (if this = StateUnchanged then Some []
      else if this = StateNew then Some ''new''
      else if this = StateAuthorized then Some ''authorized''
      else if this = StateDisposed then Some ''disposed''
      else None)"

lemma legal_states [simp]:
  "\<exists>y. State_MarshalText StateUnchanged = Some y" "\<exists>y. State_MarshalText StateNew = Some y"
  "\<exists>y. State_MarshalText StateAuthorized = Some y" "\<exists>y. State_MarshalText StateDisposed = Some y"
  by (simp_all add: State_MarshalText_def)

subsection \<open>Flow names (configuration/flow-key.go)\<close>

definition flowChar :: "char \<Rightarrow> bool" where
  "flowChar c \<longleftrightarrow> (let n = of_char c :: nat in
     (97 \<le> n \<and> 122 \<ge> n) \<or> (65 \<le> n \<and> 90 \<ge> n) \<or> (48 \<le> n \<and> 57 \<ge> n) \<or> c = CHR ''-'' \<or> c = CHR ''.'')"

definition FlowName_Validate :: "bytes \<Rightarrow> bool" where
  "FlowName_Validate this = (if length this = 0 then False else list_all flowChar this)"

definition FlowName_UnmarshalText :: "bytes \<Rightarrow> bytes option" where
  "FlowName_UnmarshalText text = (if FlowName_Validate text then Some text else None)"

subsection \<open>Errors\<close>

datatype sess_err =
    ErrNoSuchSession
  | ErrMaxConnectionsPerSessionReached
  | SErrOs os_err
  | SErrDecode bytes
  | SErrKey nat
  | SErrEncodeState session_state
  | SErrUuid
  | SErrCannotCreate sess_err
  | SErrCannotDispose sess_err
  | SErrCannotFind sess_err
  | SPanic string

text \<open>\<^verbatim>\<open>sys.IsNotExist(err)\<close> and \<^verbatim>\<open>errors.Is(err, ErrNoSuchSession)\<close> look through the wrapping.\<close>

fun sessIsNotExist :: "sess_err \<Rightarrow> bool" where
  "sessIsNotExist (SErrOs e) = isNotExist e"
| "sessIsNotExist (SErrCannotCreate e) = sessIsNotExist e"
| "sessIsNotExist (SErrCannotDispose e) = sessIsNotExist e"
| "sessIsNotExist (SErrCannotFind e) = sessIsNotExist e"
| "sessIsNotExist _ = False"

fun isNoSuchSession :: "sess_err \<Rightarrow> bool" where
  "isNoSuchSession ErrNoSuchSession = True"
| "isNoSuchSession (SErrCannotCreate e) = isNoSuchSession e"
| "isNoSuchSession (SErrCannotDispose e) = isNoSuchSession e"
| "isNoSuchSession (SErrCannotFind e) = isNoSuchSession e"
| "isNoSuchSession _ = False"

subsection \<open>The repository's state\<close>

type_synonym sid = bytes

text \<open>\<^verbatim>\<open>fsConnectionInterceptorStack\<close>: one for all connections of a session.\<close>

record stack =
  st_flow :: bytes
  st_id :: sid
  st_created :: int
  st_active :: "32 word"
  st_lastActivity :: int
  st_disposed :: bool

record fsrepo = world +
  sr_Storage :: bytes
  sr_FileMode :: "32 word"
  sr_IdleTimeout :: int
  sr_MaxTimeout :: int
  sr_MaxConnections :: "16 word"
  sr_touchThreshold :: int
  sr_uuids :: nat
  sr_stacks :: "stack list"
  sr_interceptors :: "(bytes \<times> (sid \<times> nat) list) list"

type_synonym 'a fm = "(fsrepo, sess_err, 'a) sm"

text \<open>\<^verbatim>\<open>fs\<close> with its \<^verbatim>\<open>fsInfo\<close>: a session in memory.\<close>

record fs_session =
  ss_flow :: bytes
  ss_id :: sid
  ss_state :: session_state
  ss_createdAt :: int
  ss_remoteUser :: bytes
  ss_remoteHost :: bytes

text \<open>What the two JSON files hold: state, user and host of \<^verbatim>\<open>fsInfo\<close>, user and host of \<^verbatim>\<open>fsLastAccessed\<close>.\<close>

type_synonym info_json = "session_state \<times> bytes \<times> bytes"
type_synonym la_json = "bytes \<times> bytes"

record 'k deps =
  d_newUuid :: "nat \<Rightarrow> sid option"
  d_uuidText :: "sid \<Rightarrow> bytes"
  d_uuidParse :: "bytes \<Rightarrow> sid option"
  d_infoEncode :: "info_json \<Rightarrow> bytes"
  d_infoDecode :: "bytes \<Rightarrow> info_json option"
  d_hostText :: "bytes \<Rightarrow> bytes"
  d_laEncode :: "la_json \<Rightarrow> bytes"
  d_laDecode :: "bytes \<Rightarrow> la_json option"
  d_isKeyHash :: "bytes \<Rightarrow> bool"
  d_keyHash :: "'k \<Rightarrow> bytes"
  d_keyLine :: "'k \<Rightarrow> bytes"
  d_keyParse :: "bytes \<Rightarrow> 'k option"

text \<open>
  The documented behaviour relied on: JSON reads what it wrote of legal states, of UTF-8 texts and of hosts in the form in which
  \<^verbatim>\<open>net.Host\<close> writes them (\<open>d_hostText\<close>: what its \<^verbatim>\<open>MarshalText\<close> gives after \<^verbatim>\<open>UnmarshalText\<close>; an address has several
  texts), and what it reads is of this kind (other bytes are replaced, other states refused); a UUID's text has no slash and parses back, a key's hash is a hash and has no slash, and a
  key's line parses back, is not empty and fits the scanner.
\<close>

definition maxFsRepositoryPublicKeyLineSize :: nat where
  "maxFsRepositoryPublicKeyLineSize = 6 * 1024"

definition validNames :: "'k deps \<Rightarrow> bytes \<Rightarrow> bytes \<Rightarrow> bool" where
  "validNames d user host \<longleftrightarrow> utf8_ValidString user \<and> utf8_ValidString host \<and> d_hostText d host = host"

definition deps_ok :: "'k deps \<Rightarrow> bool" where
  "deps_ok d \<longleftrightarrow>
     (\<forall>i. d_uuidParse d (d_uuidText d i) = Some i \<and> d_uuidText d i \<noteq> [] \<and> CHR ''/'' \<notin> set (d_uuidText d i) \<and>
        CHR ''.'' \<notin> set (d_uuidText d i)) \<and>
     (\<forall>u h. validNames d u h \<longrightarrow>
        (\<forall>st. State_MarshalText st \<noteq> None \<longrightarrow> d_infoDecode d (d_infoEncode d (st, u, h)) = Some (st, u, h)) \<and>
        d_laDecode d (d_laEncode d (u, h)) = Some (u, h)) \<and>
     (\<forall>t st u h. d_infoDecode d t = Some (st, u, h) \<longrightarrow> validNames d u h \<and> State_MarshalText st \<noteq> None) \<and>
     (\<forall>k. d_isKeyHash d (d_keyHash d k) \<and> CHR ''/'' \<notin> set (d_keyHash d k) \<and> CHR ''~'' \<notin> set (d_keyHash d k)) \<and>
     (\<forall>k. d_keyParse d (d_keyLine d k) = Some k \<and> d_keyLine d k \<noteq> [] \<and>
        plain_line maxFsRepositoryPublicKeyLineSize (d_keyLine d k))"

subsection \<open>Creating the repository\<close>

definition defaultTouchThreshold :: int where
  "defaultTouchThreshold = 60 * 1000000000"

text \<open>The threshold of \<^verbatim>\<open>NewFsRepository\<close>; Go's division of durations truncates.\<close>

definition touchThresholdOf :: "int \<Rightarrow> int \<Rightarrow> int" where
  "touchThresholdOf idle maxT =
     (let t0 = defaultTouchThreshold;
          t1 = (if idle > 0 then idle else t0);
          t2 = (if maxT > 0 \<and> maxT < t1 then maxT else t1)
      in if t2 > defaultTouchThreshold then defaultTouchThreshold else t2 div 2)"

definition NewFsRepository :: "fsrepo \<Rightarrow> fsrepo" where
  "NewFsRepository s =
     s\<lparr>sr_touchThreshold := touchThresholdOf (sr_IdleTimeout s) (sr_MaxTimeout s), sr_interceptors := [], sr_stacks := []\<rparr>"

text \<open>The octal masks 0400, 0040, 0004 and 0100, 0010, 0001.\<close>

definition dirFileMode :: "32 word \<Rightarrow> 32 word" where
  "dirFileMode mode =
     (let r1 = (if mode AND 0x100 > 0 then mode OR 0x40 else mode);
          r2 = (if r1 AND 0x20 > 0 then r1 OR 0x8 else r1)
      in if r2 AND 0x4 > 0 then r2 OR 0x1 else r2)"

definition sess_dir :: "'k deps \<Rightarrow> bytes \<Rightarrow> bytes \<Rightarrow> sid \<Rightarrow> bytes" where
  "sess_dir d storage flow i = filepath_Join [storage, flow, d_uuidText d i]"

definition sess_file :: "'k deps \<Rightarrow> bytes \<Rightarrow> bytes \<Rightarrow> sid \<Rightarrow> bytes \<Rightarrow> bytes" where
  "sess_file d storage flow i kind = filepath_Join [sess_dir d storage flow i, kind]"

abbreviation FsFileSession :: bytes where "FsFileSession \<equiv> ''s''"
abbreviation FsFileLastAccessed :: bytes where "FsFileLastAccessed \<equiv> ''la''"
abbreviation FsFileAccessToken :: bytes where "FsFileAccessToken \<equiv> ''at''"
abbreviation FsFileEnvironmentToken :: bytes where "FsFileEnvironmentToken \<equiv> ''et''"
abbreviation FsFilePublicKeysPrefix :: bytes where "FsFilePublicKeysPrefix \<equiv> ''pk-''"

definition publicKeyKind :: "'k deps \<Rightarrow> 'k \<Rightarrow> bytes" where
  "publicKeyKind d pub = FsFilePublicKeysPrefix @ d_keyHash d pub"

subsection \<open>Comparing a token with a file (common.go)\<close>

text \<open>
  The loop of \<^verbatim>\<open>isReaderEqualToBytes\<close>: \<open>left\<close> is what the reader has not delivered yet, \<open>right\<close> the
  bytes from the offset on. A read of a file delivers a full buffer unless the file ends.
\<close>

definition readerBufferSize :: nat where
  "readerBufferSize = 4 * 1024"

function isReaderEqualToBytes :: "bytes \<Rightarrow> bytes \<Rightarrow> bool" where
  "isReaderEqualToBytes left right =
     (if right = [] then True
      else if left = [] then False
      else let segmentL = min (length right) readerBufferSize; chunk = take readerBufferSize left in
        if length chunk \<noteq> segmentL then False
        else if chunk \<noteq> take segmentL right then False
        else isReaderEqualToBytes (drop readerBufferSize left) (drop readerBufferSize right))"
  by pat_completeness auto
termination
  by (relation "measure (\<lambda>(left, right). length right)") (auto simp: readerBufferSize_def)

declare isReaderEqualToBytes.simps [simp del]

subsection \<open>Lemmas\<close>

lemma State_text_roundtrip: "State_MarshalText v = Some t \<Longrightarrow> State_UnmarshalText t = Some v"
  by (auto simp: State_MarshalText_def State_UnmarshalText_def split: if_splits)

lemma State_text_valid: "State_UnmarshalText t = Some v \<Longrightarrow> \<exists>u. State_MarshalText v = Some u"
  by (auto simp: State_MarshalText_def State_UnmarshalText_def split: if_splits)

lemma touchThreshold_bounds:
  "0 \<le> touchThresholdOf idle maxT \<and> touchThresholdOf idle maxT \<le> defaultTouchThreshold \<and>
   (0 < idle \<longrightarrow> touchThresholdOf idle maxT < idle) \<and> (0 < maxT \<longrightarrow> touchThresholdOf idle maxT < maxT)"
  by (auto simp: touchThresholdOf_def defaultTouchThreshold_def Let_def)

lemma isReaderEqualToBytes_iff:
  "isReaderEqualToBytes left right \<longleftrightarrow>
     take (length right) left = right \<and> (length right mod readerBufferSize \<noteq> 0 \<longrightarrow> left = right)"
proof (induction "length right" arbitrary: left right rule: less_induct)
  case less
  let ?n = readerBufferSize
  have n: "0 < ?n" by (simp add: readerBufferSize_def)
  show ?case
  proof (cases "right = [] \<or> left = []")
    case True
    then show ?thesis by (subst isReaderEqualToBytes.simps) (cases right; auto)
  next
    case False
    show ?thesis
    proof (cases "?n \<le> length right")
      case True
      let ?l = "drop ?n left" and ?r = "drop ?n right"
      have m: "length ?r mod ?n = length right mod ?n" using True by (simp add: le_mod_geq)
      have eq: "isReaderEqualToBytes left right \<longleftrightarrow>
          length (take ?n left) = ?n \<and> take ?n left = take ?n right \<and> isReaderEqualToBytes ?l ?r"
        using False True by (subst isReaderEqualToBytes.simps) (auto simp: min_def Let_def)
      have t: "take (length right) left = right \<longleftrightarrow>
          take ?n left = take ?n right \<and> take (length ?r) ?l = ?r" if "?n \<le> length left"
        using True that by (metis append_eq_append_conv append_take_drop_id drop_take length_drop length_take min.absorb2
            take_take min.absorb1)
      have IH: "isReaderEqualToBytes ?l ?r \<longleftrightarrow>
          take (length ?r) ?l = ?r \<and> (length ?r mod ?n \<noteq> 0 \<longrightarrow> ?l = ?r)"
        by (rule less) (use True False n in auto)
      have len: "length (take ?n left) = ?n \<longleftrightarrow> ?n \<le> length left" by auto
      have long: "take (length right) left = right \<Longrightarrow> ?n \<le> length left"
        using True by (metis length_take min.bounded_iff)
      have same: "take ?n left = take ?n right \<Longrightarrow> (?l = ?r \<longleftrightarrow> left = right)"
        by (metis append_take_drop_id)
      show ?thesis
      proof (cases "?n \<le> length left")
        case True
        then show ?thesis using eq t same IH len unfolding m by blast
      next
        case False
        then show ?thesis using eq len long by blast
      qed
    next
      case sm: False
      then have mod: "length right mod ?n \<noteq> 0" using False by simp
      have "isReaderEqualToBytes left right \<longleftrightarrow> take ?n left = right"
        using False sm by (subst isReaderEqualToBytes.simps) (auto simp: min_def Let_def isReaderEqualToBytes.simps[of _ "[]"])
      also have "\<dots> \<longleftrightarrow> left = right"
        using sm by (auto simp: take_all_iff)
      finally show ?thesis using mod by auto
    qed
  qed
qed

end
