(* ===== verification/SessionStore.thy ===== *)
theory SessionStore
  imports SessionModel
begin

section \<open>The sessions on the file system (pkg/session/fs.go, fs-info.go, fs-lastaccessed.go, fs-repository.go)\<close>

text \<open>
  The operations of \<^verbatim>\<open>FsRepository\<close> and of a session \<^verbatim>\<open>fs\<close>. The repository's mutex makes every
  public operation of one process atomic; the connection interceptors, which are not, are in
  \<open>SessionConns\<close>. A method that changes the session it is called on returns the changed value.
\<close>

abbreviation osE :: "(fsrepo, os_err, 'a) sm \<Rightarrow> 'a fm" where
  "osE \<equiv> mapErrE SErrOs"

subsection \<open>Files\<close>

definition fileOf :: "'k deps \<Rightarrow> bytes \<Rightarrow> sid \<Rightarrow> bytes \<Rightarrow> fsrepo \<Rightarrow> bytes" where
  "fileOf d flow i kind s = sess_file d (sr_Storage s) flow i kind"

definition dirOf :: "'k deps \<Rightarrow> bytes \<Rightarrow> sid \<Rightarrow> fsrepo \<Rightarrow> bytes" where
  "dirOf d flow i s = sess_dir d (sr_Storage s) flow i"

definition sess_openRead :: "'k deps \<Rightarrow> bytes \<Rightarrow> sid \<Rightarrow> bytes \<Rightarrow> bytes fm" where
  "sess_openRead d flow i kind =
     bindE (getE (fileOf d flow i kind)) (\<lambda>fn. bindE (osE (os_OpenRead fn)) (\<lambda>_. returnE fn))"

definition sess_openWrite :: "'k deps \<Rightarrow> bytes \<Rightarrow> sid \<Rightarrow> bytes \<Rightarrow> bool \<Rightarrow> bytes fm" where
  "sess_openWrite d flow i kind rw =
     bindE (getE (\<lambda>s. (fileOf d flow i kind s, sr_FileMode s))) (\<lambda>(fn, mode).
     bindE (tryE (osE (os_MkdirAll (filepath_Dir fn) (unat (dirFileMode mode))))) (\<lambda>_ :: sess_err + unit.
     bindE (osE (os_OpenCreate (\<not> rw) (unat mode) fn)) (\<lambda>_. returnE fn)))"

definition sess_stat :: "'k deps \<Rightarrow> bytes \<Rightarrow> sid \<Rightarrow> bytes \<Rightarrow> fnode fm" where
  "sess_stat d flow i kind = bindE (getE (fileOf d flow i kind)) (\<lambda>fn. osE (os_Stat fn))"

subsection \<open>A session's own files (fs.go, fs-info.go, fs-lastaccessed.go)\<close>

definition info_save :: "'k deps \<Rightarrow> fs_session \<Rightarrow> unit fm" where
  "info_save d sess =
     bindE (sess_openWrite d (ss_flow sess) (ss_id sess) FsFileSession False) (\<lambda>fn.
     finallyE
       (bindE (if State_MarshalText (ss_state sess) = None then throwE (SErrEncodeState (ss_state sess))
               else osE (os_Write fn (d_infoEncode d (ss_state sess, ss_remoteUser sess, ss_remoteHost sess)))) (\<lambda>_.
        bindE (getE w_now) (\<lambda>now. osE (os_Chtimes fn now))))
       (os_Close fn))"

definition la_save :: "'k deps \<Rightarrow> fs_session \<Rightarrow> bytes \<Rightarrow> bytes \<Rightarrow> unit fm" where
  "la_save d sess user host =
     bindE (sess_stat d (ss_flow sess) (ss_id sess) FsFileSession) (\<lambda>_.
     bindE (sess_openWrite d (ss_flow sess) (ss_id sess) FsFileLastAccessed False) (\<lambda>fn.
     finallyE
       (bindE (osE (os_Write fn (d_laEncode d (user, host)))) (\<lambda>_.
        bindE (getE w_now) (\<lambda>now. osE (os_Chtimes fn now))))
       (os_Close fn)))"

definition notifyLastAccess ::
    "'k deps \<Rightarrow> fs_session \<Rightarrow> bytes \<Rightarrow> bytes \<Rightarrow> session_state \<Rightarrow> (session_state \<times> fs_session) fm" where
  "notifyLastAccess d sess user host newState =
     bindE (la_save d sess user host) (\<lambda>_.
     if newState \<noteq> 0 \<and> newState \<noteq> ss_state sess then
       (let sess' = sess\<lparr>ss_state := newState\<rparr> in
        bindE (info_save d sess') (\<lambda>_. returnE (ss_state sess, sess')))
     else returnE (ss_state sess, sess))"

definition getToken :: "'k deps \<Rightarrow> fs_session \<Rightarrow> bytes \<Rightarrow> bytes fm" where
  "getToken d sess kind =
     bindE (tryE (sess_openRead d (ss_flow sess) (ss_id sess) kind)) (\<lambda>r.
     case r of
       Inl e \<Rightarrow> if sessIsNotExist e then returnE [] else throwE e
     | Inr fn \<Rightarrow> deferE (osE (os_ReadAll fn)) (osE (os_Close fn)))"

definition setToken :: "'k deps \<Rightarrow> fs_session \<Rightarrow> bytes \<Rightarrow> bytes \<Rightarrow> unit fm" where
  "setToken d sess kind data =
     (if length data = 0 then
        bindE (getE (fileOf d (ss_flow sess) (ss_id sess) kind)) (\<lambda>fn.
        bindE (tryE (osE (os_Remove fn))) (\<lambda>r.
        case r of Inl e \<Rightarrow> if sessIsNotExist e then returnE () else throwE e | Inr _ \<Rightarrow> returnE ()))
      else
        bindE (sess_openWrite d (ss_flow sess) (ss_id sess) kind False) (\<lambda>fn.
        deferE (osE (os_Write fn data)) (osE (os_Close fn))))"

definition AuthorizationToken :: "'k deps \<Rightarrow> fs_session \<Rightarrow> bytes fm" where
  "AuthorizationToken d sess = getToken d sess FsFileAccessToken"

definition EnvironmentToken :: "'k deps \<Rightarrow> fs_session \<Rightarrow> bytes fm" where
  "EnvironmentToken d sess = getToken d sess FsFileEnvironmentToken"

definition SetAuthorizationToken :: "'k deps \<Rightarrow> fs_session \<Rightarrow> bytes \<Rightarrow> unit fm" where
  "SetAuthorizationToken d sess data = setToken d sess FsFileAccessToken data"

definition SetEnvironmentToken :: "'k deps \<Rightarrow> fs_session \<Rightarrow> bytes \<Rightarrow> unit fm" where
  "SetEnvironmentToken d sess data = setToken d sess FsFileEnvironmentToken data"

text \<open>\<^verbatim>\<open>lastAccessed\<close>: the remote of the file, and the file's modification time.\<close>

definition lastAccessed :: "'k deps \<Rightarrow> fs_session \<Rightarrow> (la_json \<times> int) fm" where
  "lastAccessed d sess =
     bindE (sess_openRead d (ss_flow sess) (ss_id sess) FsFileLastAccessed) (\<lambda>fn.
     finallyE
       (bindE (osE (os_ReadAll fn)) (\<lambda>data.
        case d_laDecode d data of
          None \<Rightarrow> throwE (SErrDecode fn)
        | Some la \<Rightarrow> bindE (osE (os_Stat fn)) (\<lambda>fi. returnE (la, n_mtime fi))))
       (os_Close fn))"

text \<open>\<^verbatim>\<open>fsLastAccessedRemote\<close>: its user and host are read from the session's info.\<close>

definition LastAccessedRemote :: "fs_session \<Rightarrow> la_json \<Rightarrow> bytes \<times> bytes" where
  "LastAccessedRemote sess la = (ss_remoteUser sess, ss_remoteHost sess)"

definition ValidUntil :: "'k deps \<Rightarrow> fs_session \<Rightarrow> int option fm" where
  "ValidUntil d sess =
     bindE (lastAccessed d sess) (\<lambda>(_, lat).
     bindE (getE (\<lambda>s. (sr_IdleTimeout s, sr_MaxTimeout s))) (\<lambda>(idle, maxT).
     let result = (if idle > 0 then Some (lat + idle) else None) in
     returnE (if maxT > 0 then
         (case result of None \<Rightarrow> Some (lat + maxT)
          | Some r \<Rightarrow> if lat + maxT < r then Some (lat + maxT) else Some r)
       else result)))"

subsection \<open>Predicates (predicates.go)\<close>

type_synonym sess_predicate = "fs_session \<Rightarrow> bool fm"

definition isExpiredWithThreshold :: "'k deps \<Rightarrow> int \<Rightarrow> sess_predicate" where
  "isExpiredWithThreshold d threshold sess =
     (if ss_state sess = StateDisposed then returnE True
      else bindE (ValidUntil d sess) (\<lambda>vu.
        case vu of
          None \<Rightarrow> returnE False
        | Some t \<Rightarrow> bindE (getE w_now) (\<lambda>now. returnE (\<not> now < t + threshold))))"

definition IsExpired :: "'k deps \<Rightarrow> sess_predicate" where
  "IsExpired d sess = isExpiredWithThreshold d 0 sess"

definition IsNotExpired :: "'k deps \<Rightarrow> sess_predicate" where
  "IsNotExpired d sess = bindE (IsExpired d sess) (\<lambda>expired. returnE (\<not> expired))"

definition IsStillValid :: "'k deps \<Rightarrow> sess_predicate" where
  "IsStillValid d sess = bindE (IsNotExpired d sess) (\<lambda>ok. returnE ok)"

definition IsFlow :: "bytes \<Rightarrow> sess_predicate" where
  "IsFlow flow sess = returnE (ss_flow sess = flow)"

definition IsRemoteName :: "bytes \<Rightarrow> sess_predicate" where
  "IsRemoteName name sess = returnE (ss_remoteUser sess = name)"

fun Predicates_Matches :: "sess_predicate list \<Rightarrow> sess_predicate" where
  "Predicates_Matches [] sess = returnE True"
| "Predicates_Matches (p # ps) sess =
     bindE (p sess) (\<lambda>ok. if ok then Predicates_Matches ps sess else returnE False)"

record find_opts =
  fo_Predicates :: "sess_predicate list"
  fo_AutoCleanUpAllowed :: "bool option"

definition GetPredicates :: "find_opts option \<Rightarrow> sess_predicate list" where
  "GetPredicates this = (case this of None \<Rightarrow> [] | Some o' \<Rightarrow> fo_Predicates o')"

definition IsAutoCleanUpAllowed :: "find_opts option \<Rightarrow> bool" where
  "IsAutoCleanUpAllowed this =
     (case this of None \<Rightarrow> False | Some o' \<Rightarrow> (case fo_AutoCleanUpAllowed o' of None \<Rightarrow> False | Some v \<Rightarrow> v))"

subsection \<open>Finding one session and disposing it (fs-repository.go)\<close>

text \<open>
  \<^verbatim>\<open>findBy\<close> with its two clean-ups as arguments: what to do with a broken session and with
  unexpected files. \<^verbatim>\<open>disposeBy\<close> calls it without options, so neither happens there; \<open>findBy\<close> below
  passes the clean-ups the options allow, which dispose and delete the session.
\<close>

definition findByWith ::
    "'k deps \<Rightarrow> unit fm \<Rightarrow> (fs_session \<Rightarrow> unit fm) \<Rightarrow> sess_predicate list \<Rightarrow> bool \<Rightarrow> bytes \<Rightarrow> sid \<Rightarrow> fs_session fm" where
  "findByWith d clean unexpected preds expectedToExist flow i =
     bindE (tryE (sess_openRead d flow i FsFileSession)) (\<lambda>r.
     case r of
       Inl err \<Rightarrow>
         if sessIsNotExist err then
           bindE (if expectedToExist then clean else returnE ()) (\<lambda>_. throwE ErrNoSuchSession)
         else throwE err
     | Inr fn \<Rightarrow>
         finallyE
           (bindE (tryE (osE (os_ReadAll fn))) (\<lambda>data :: sess_err + bytes.
            case (case data of Inl _ \<Rightarrow> None | Inr t \<Rightarrow> d_infoDecode d t) of
              None \<Rightarrow> bindE clean (\<lambda>_. throwE (SErrDecode fn))
            | Some (st, u, h) \<Rightarrow>
                bindE (tryE (osE (os_Stat fn))) (\<lambda>fi :: sess_err + fnode.
                case fi of
                  Inl e \<Rightarrow> bindE clean (\<lambda>_. throwE e)
                | Inr n \<Rightarrow>
                    let sess = \<lparr>ss_flow = flow, ss_id = i, ss_state = st, ss_createdAt = n_mtime n,
                                ss_remoteUser = u, ss_remoteHost = h\<rparr> in
                    bindE (unexpected sess) (\<lambda>_.
                    bindE (Predicates_Matches preds sess) (\<lambda>ok.
                    if ok then returnE sess else throwE ErrNoSuchSession)))))
           (os_Close fn))"

definition findByPlain :: "'k deps \<Rightarrow> bytes \<Rightarrow> sid \<Rightarrow> fs_session fm" where
  "findByPlain d flow i = findByWith d (returnE ()) (\<lambda>_. returnE ()) [] False flow i"

definition lookupStack :: "fsrepo \<Rightarrow> bytes \<Rightarrow> sid \<Rightarrow> nat option" where
  "lookupStack s flow i =
     (case map_of (sr_interceptors s) flow of None \<Rightarrow> None | Some byFlow \<Rightarrow> map_of byFlow i)"

definition updateStack :: "nat \<Rightarrow> (stack \<Rightarrow> stack) \<Rightarrow> fsrepo \<Rightarrow> fsrepo" where
  "updateStack k f s =
     (if k < length (sr_stacks s) then s\<lparr>sr_stacks := (sr_stacks s)[k := f (sr_stacks s ! k)]\<rparr> else s)"

text \<open>The first part of \<^verbatim>\<open>disposeBy\<close>: the connections of the session are told, if there are any.\<close>

definition disposeStack :: "bytes \<Rightarrow> sid \<Rightarrow> bool fm" where
  "disposeStack flow i s =
     (case lookupStack s flow i of
        None \<Rightarrow> (Inr False, s)
      | Some k \<Rightarrow>
          (Inr (k < length (sr_stacks s) \<and> 0 < sint (st_active (sr_stacks s ! k))), updateStack k (\<lambda>st. st\<lparr>st_disposed := True\<rparr>) s))"

definition disposeBy :: "'k deps \<Rightarrow> bytes \<Rightarrow> sid \<Rightarrow> bool fm" where
  "disposeBy d flow i =
     bindE (disposeStack flow i) (\<lambda>disposed.
     bindE (tryE (findByPlain d flow i)) (\<lambda>r.
     case r of
       Inl err \<Rightarrow> if isNoSuchSession err then returnE disposed else throwE (SErrCannotDispose err)
     | Inr sess \<Rightarrow>
         if ss_state sess = StateDisposed then returnE True
         else bindE (mapErrE SErrCannotDispose (info_save d (sess\<lparr>ss_state := StateDisposed\<rparr>))) (\<lambda>_. returnE disposed)))"

definition deleteBy :: "'k deps \<Rightarrow> bytes \<Rightarrow> sid \<Rightarrow> unit fm" where
  "deleteBy d flow i =
     bindE (getE (dirOf d flow i)) (\<lambda>dir.
     bindE (disposeBy d flow i) (\<lambda>_.
     bindE (tryE (osE (os_RemoveAll dir))) (\<lambda>r.
     case r of Inl e \<Rightarrow> if sessIsNotExist e then returnE () else throwE e | Inr _ \<Rightarrow> returnE ())))"

definition doFindAutoCleanIfAllowed :: "'k deps \<Rightarrow> bytes \<Rightarrow> sid \<Rightarrow> find_opts option \<Rightarrow> unit fm" where
  "doFindAutoCleanIfAllowed d flow i opts =
     (if IsAutoCleanUpAllowed opts
      then bindE (tryE (deleteBy d flow i)) (\<lambda>_ :: sess_err + unit. returnE ()) else returnE ())"

definition isExpectedFile :: "'k deps \<Rightarrow> bytes \<Rightarrow> bool" where
  "isExpectedFile d name \<longleftrightarrow>
     name = FsFileSession \<or> name = FsFileLastAccessed \<or> name = FsFileAccessToken \<or> name = FsFileEnvironmentToken \<or>
     (take 3 name = FsFilePublicKeysPrefix \<and> d_isKeyHash d (drop 3 name))"

definition deleteUnexpectedFiles :: "'k deps \<Rightarrow> fs_session \<Rightarrow> unit fm" where
  "deleteUnexpectedFiles d sess =
     bindE (getE (dirOf d (ss_flow sess) (ss_id sess))) (\<lambda>dirName.
     bindE (osE (os_OpenRead dirName)) (\<lambda>_.
     finallyE
       (bindE (osE (os_ReadDir dirName)) (\<lambda>entries.
        forE (\<lambda>(name, _).
          if isExpectedFile d name then returnE ()
          else let fn = filepath_Join [dirName, name] in
            bindE (tryE (osE (os_Stat fn))) (\<lambda>r.
            case r of
              Inl e \<Rightarrow> if sessIsNotExist e then returnE () else throwE e
            | Inr _ \<Rightarrow> osE (os_RemoveAll fn))) entries))
       (os_Close dirName)))"

definition doAutoCleanUnexpectedFilesIfAllowed :: "'k deps \<Rightarrow> find_opts option \<Rightarrow> fs_session \<Rightarrow> unit fm" where
  "doAutoCleanUnexpectedFilesIfAllowed d opts sess =
     (if IsAutoCleanUpAllowed opts
      then bindE (tryE (deleteUnexpectedFiles d sess)) (\<lambda>_ :: sess_err + unit. returnE ()) else returnE ())"

definition findBy :: "'k deps \<Rightarrow> bytes \<Rightarrow> sid \<Rightarrow> find_opts option \<Rightarrow> bool \<Rightarrow> fs_session fm" where
  "findBy d flow i opts expectedToExist =
     findByWith d (doFindAutoCleanIfAllowed d flow i opts) (doAutoCleanUnexpectedFilesIfAllowed d opts)
       (GetPredicates opts) expectedToExist flow i"

definition FindBy :: "'k deps \<Rightarrow> bytes \<Rightarrow> sid \<Rightarrow> find_opts option \<Rightarrow> fs_session fm" where
  "FindBy d flow i opts = findBy d flow i opts False"

text \<open>Without options \<open>findBy\<close> is the plain one that \<open>disposeBy\<close> uses.\<close>

lemma findBy_plain: "findBy d flow i None False = findByPlain d flow i"
proof -
  have "doAutoCleanUnexpectedFilesIfAllowed d None = (\<lambda>_. returnE ())"
    by (rule ext) (simp add: doAutoCleanUnexpectedFilesIfAllowed_def IsAutoCleanUpAllowed_def)
  then show ?thesis
    by (simp add: findBy_def findByPlain_def doFindAutoCleanIfAllowed_def IsAutoCleanUpAllowed_def GetPredicates_def)
qed

definition DeleteBy :: "'k deps \<Rightarrow> bytes \<Rightarrow> sid \<Rightarrow> unit fm" where
  "DeleteBy d flow i = deleteBy d flow i"

definition fs_Dispose :: "'k deps \<Rightarrow> fs_session \<Rightarrow> bool fm" where
  "fs_Dispose d sess = disposeBy d (ss_flow sess) (ss_id sess)"

subsection \<open>Creating a session\<close>

definition newUuid :: "'k deps \<Rightarrow> sid fm" where
  "newUuid d s =
     (case d_newUuid d (sr_uuids s) of
        None \<Rightarrow> (Inl SErrUuid, s)
      | Some i \<Rightarrow> (Inr i, s\<lparr>sr_uuids := Suc (sr_uuids s)\<rparr>))"

text \<open>\<^verbatim>\<open>time.Now().Truncate(time.Millisecond)\<close>.\<close>

definition truncateMilli :: "int \<Rightarrow> int" where
  "truncateMilli t = t - t mod 1000000"

definition sess_Create :: "'k deps \<Rightarrow> bytes \<Rightarrow> bytes \<Rightarrow> bytes \<Rightarrow> bytes \<Rightarrow> fs_session fm" where
  "sess_Create d flow user host authToken =
     mapErrE SErrCannotCreate
       (bindE (newUuid d) (\<lambda>i.
        bindE (getE w_now) (\<lambda>now.
        let sess = \<lparr>ss_flow = flow, ss_id = i, ss_state = StateNew, ss_createdAt = truncateMilli now,
                    ss_remoteUser = user, ss_remoteHost = host\<rparr> in
        bindE (info_save d sess) (\<lambda>_.
        bindE (notifyLastAccess d sess user host StateUnchanged) (\<lambda>(_, sess').
        bindE (if length authToken > 0 then setToken d sess' FsFileAccessToken authToken else returnE ()) (\<lambda>_.
        returnE sess'))))))"

subsection \<open>Public keys\<close>

text \<open>
  \<^verbatim>\<open>findPublicKeyIn\<close>: each line that is not empty is decoded and given to the consumer, whose
  closure variable is the accumulator. The scanner's own error is ignored.
\<close>

fun keyLoop :: "'k deps \<Rightarrow> ('acc \<Rightarrow> 'k \<Rightarrow> ('acc \<times> bool) fm) \<Rightarrow> nat \<Rightarrow> 'acc \<Rightarrow> bytes list \<Rightarrow> 'acc fm" where
  "keyLoop d consumer lineN acc [] = returnE acc"
| "keyLoop d consumer lineN acc (line # ls) =
     (if line = [] then keyLoop d consumer (Suc lineN) acc ls
      else case d_keyParse d line of
          None \<Rightarrow> throwE (SErrKey lineN)
        | Some candidate \<Rightarrow>
            bindE (consumer acc candidate) (\<lambda>(acc', canContinue).
            if canContinue then keyLoop d consumer (Suc lineN) acc' ls else returnE acc'))"

definition findPublicKeyIn :: "'k deps \<Rightarrow> bytes \<Rightarrow> ('acc \<Rightarrow> 'k \<Rightarrow> ('acc \<times> bool) fm) \<Rightarrow> 'acc \<Rightarrow> 'acc fm" where
  "findPublicKeyIn d fn consumer acc =
     bindE (tryE (osE (os_ReadAll fn))) (\<lambda>data.
     keyLoop d consumer 0 acc
       (scan_lines maxFsRepositoryPublicKeyLineSize (case data of Inl (_ :: sess_err) \<Rightarrow> [] | Inr t \<Rightarrow> t)))"

definition matchKey :: "'k \<Rightarrow> bool \<Rightarrow> 'k \<Rightarrow> (bool \<times> bool) fm" where
  "matchKey pub found candidate = (if pub \<noteq> candidate then returnE (found, True) else returnE (True, False))"

definition hasPublicKey :: "'k deps \<Rightarrow> bytes \<Rightarrow> sid \<Rightarrow> 'k \<Rightarrow> bool fm" where
  "hasPublicKey d flow i pub =
     bindE (tryE (sess_openRead d flow i (publicKeyKind d pub))) (\<lambda>r.
     case r of
       Inl e \<Rightarrow> if sessIsNotExist e then returnE False else throwE e
     | Inr fn \<Rightarrow> deferE (findPublicKeyIn d fn (matchKey pub) False) (osE (os_Close fn)))"

definition addPublicKey :: "'k deps \<Rightarrow> bytes \<Rightarrow> sid \<Rightarrow> 'k \<Rightarrow> unit fm" where
  "addPublicKey d flow i pub =
     bindE (sess_stat d flow i FsFileSession) (\<lambda>_.
     bindE (sess_openWrite d flow i (publicKeyKind d pub) True) (\<lambda>fn.
     deferE
       (bindE (findPublicKeyIn d fn (matchKey pub) False) (\<lambda>alreadyContained.
        if alreadyContained then returnE ()
        else osE (os_Write fn (d_keyLine d pub @ [CHR 0x0A]))))
       (osE (os_Close fn))))"

text \<open>
  \<^verbatim>\<open>deletePublicKey\<close>. The closure \<^verbatim>\<open>add\<close> writes the key that is to be deleted, not its argument,
  for every other key of the file. The buffer file is removed unless it was renamed.
\<close>

definition deletePublicKeyMain :: "'k deps \<Rightarrow> 'k \<Rightarrow> bytes \<Rightarrow> bytes \<Rightarrow> bool fm" where
  "deletePublicKeyMain d pub fn fnBuf =
     bindE (findPublicKeyIn d fn (\<lambda>nAdded candidate.
        if pub \<noteq> candidate
        then bindE (osE (os_Write fnBuf (d_keyLine d pub @ [CHR 0x0A]))) (\<lambda>_. returnE (Suc nAdded, True))
        else returnE (nAdded, True)) 0) (\<lambda>nAdded.
     if nAdded \<le> 0 then bindE (osE (os_Remove fn)) (\<lambda>_. returnE False)
     else bindE (osE (os_Rename fnBuf fn)) (\<lambda>_. returnE True))"

definition deletePublicKey :: "'k deps \<Rightarrow> bytes \<Rightarrow> sid \<Rightarrow> 'k \<Rightarrow> unit fm" where
  "deletePublicKey d flow i pub =
     bindE (tryE (sess_openRead d flow i (publicKeyKind d pub))) (\<lambda>r.
     case r of
       Inl e \<Rightarrow> if sessIsNotExist e then returnE () else throwE e
     | Inr fn \<Rightarrow>
         deferE
           (bindE (getE (\<lambda>s. unat (sr_FileMode s))) (\<lambda>mode.
            bindE (osE (os_OpenCreate True mode (fn @ ''~''))) (\<lambda>_.
            bindE (tryE (deletePublicKeyMain d pub fn (fn @ ''~''))) (\<lambda>res :: sess_err + bool.
            bindE (tryE (osE (os_Close (fn @ ''~'')))) (\<lambda>closed :: sess_err + unit.
            bindE (if res = Inr True then returnE ()
                   else bindE (tryE (osE (os_Remove (fn @ ''~'')))) (\<lambda>_ :: sess_err + unit. returnE ())) (\<lambda>_.
            case res of
              Inl e \<Rightarrow> throwE e
            | Inr _ \<Rightarrow> liftE closed))))))
           (osE (os_Close fn)))"

definition hasAccessToken :: "'k deps \<Rightarrow> bytes \<Rightarrow> sid \<Rightarrow> bytes \<Rightarrow> bool fm" where
  "hasAccessToken d flow i t =
     bindE (tryE (sess_openRead d flow i FsFileAccessToken)) (\<lambda>r.
     case r of
       Inl e \<Rightarrow> if sessIsNotExist e then returnE False else throwE e
     | Inr fn \<Rightarrow>
         deferE (bindE (if t = [] then returnE [] else osE (os_ReadAll fn)) (\<lambda>data.
                 returnE (isReaderEqualToBytes data t)))
           (osE (os_Close fn)))"

subsection \<open>Searching all sessions\<close>

text \<open>
  \<^verbatim>\<open>iterateFlows\<close> and \<^verbatim>\<open>iterateFlowDirs\<close> over the entries of a directory. What is not a
  directory with a proper name is removed when the clean-up is allowed, and skipped.
\<close>

definition cleanPath :: "find_opts option \<Rightarrow> bytes \<Rightarrow> unit fm" where
  "cleanPath opts fn =
     (if IsAutoCleanUpAllowed opts
      then bindE (tryE (osE (os_RemoveAll fn))) (\<lambda>_ :: sess_err + unit. returnE ()) else returnE ())"

fun entryLoop ::
    "find_opts option \<Rightarrow> bytes \<Rightarrow> (bytes \<Rightarrow> 'n option) \<Rightarrow> ('acc \<Rightarrow> 'n \<Rightarrow> ('acc \<times> bool) fm) \<Rightarrow> 'acc \<Rightarrow>
     (bytes \<times> bool) list \<Rightarrow> 'acc fm" where
  "entryLoop opts dirName parse consumer acc [] = returnE acc"
| "entryLoop opts dirName parse consumer acc ((name, isDir) # es) =
     (if \<not> isDir then
        bindE (cleanPath opts (filepath_Join [dirName, name])) (\<lambda>_. entryLoop opts dirName parse consumer acc es)
      else case parse name of
          None \<Rightarrow>
            bindE (cleanPath opts (filepath_Join [dirName, name])) (\<lambda>_. entryLoop opts dirName parse consumer acc es)
        | Some n \<Rightarrow>
            bindE (consumer acc n) (\<lambda>(acc', canContinue).
            if canContinue then entryLoop opts dirName parse consumer acc' es else returnE acc'))"

definition iterateFlows :: "find_opts option \<Rightarrow> ('acc \<Rightarrow> bytes \<Rightarrow> ('acc \<times> bool) fm) \<Rightarrow> 'acc \<Rightarrow> 'acc fm" where
  "iterateFlows opts consumer acc =
     bindE (getE sr_Storage) (\<lambda>dirName.
     bindE (tryE (osE (os_OpenRead dirName))) (\<lambda>r.
     case r of
       Inl e \<Rightarrow> if sessIsNotExist e then returnE acc else throwE e
     | Inr _ \<Rightarrow>
         deferE (bindE (osE (os_ReadDir dirName)) (\<lambda>es. entryLoop opts dirName FlowName_UnmarshalText consumer acc es))
           (osE (os_Close dirName))))"

definition iterateFlowDirs ::
    "'k deps \<Rightarrow> bytes \<Rightarrow> find_opts option \<Rightarrow> ('acc \<Rightarrow> sid \<Rightarrow> ('acc \<times> bool) fm) \<Rightarrow> 'acc \<Rightarrow> 'acc fm" where
  "iterateFlowDirs d flow opts consumer acc =
     bindE (getE (\<lambda>s. filepath_Join [sr_Storage s, flow])) (\<lambda>dirName.
     bindE (tryE (osE (os_OpenRead dirName))) (\<lambda>r.
     bindE (case r of
         Inl e \<Rightarrow> if sessIsNotExist e then returnE (acc, []) else throwE e
       | Inr _ \<Rightarrow>
           deferE (bindE (osE (os_ReadDir dirName)) (\<lambda>es.
                   bindE (entryLoop opts dirName (d_uuidParse d) consumer acc es) (\<lambda>acc'. returnE (acc', es))))
             (osE (os_Close dirName))) (\<lambda>(acc', entries).
     bindE (if entries = [] \<and> IsAutoCleanUpAllowed opts
            then bindE (tryE (osE (os_Remove dirName))) (\<lambda>_ :: sess_err + unit. returnE ()) else returnE ()) (\<lambda>_.
     returnE acc'))))"

text \<open>One step of a search: a candidate that is gone or does not match is passed over.\<close>

definition tryCandidate ::
    "'k deps \<Rightarrow> (bytes \<Rightarrow> sid \<Rightarrow> bool fm) \<Rightarrow> find_opts option \<Rightarrow> bytes \<Rightarrow> sid \<Rightarrow> fs_session option fm" where
  "tryCandidate d probe opts flow i =
     bindE (tryE (bindE (probe flow i) (\<lambda>ok. if ok then findBy d flow i opts True else throwE ErrNoSuchSession))) (\<lambda>r.
     case r of
       Inl e \<Rightarrow> if isNoSuchSession e then returnE None else throwE e
     | Inr candidate \<Rightarrow> returnE (Some candidate))"

definition searchFirst :: "'k deps \<Rightarrow> (bytes \<Rightarrow> sid \<Rightarrow> bool fm) \<Rightarrow> find_opts option \<Rightarrow> fs_session fm" where
  "searchFirst d probe opts =
     bindE (mapErrE SErrCannotFind
       (iterateFlows opts (\<lambda>result flow.
          bindE (iterateFlowDirs d flow opts (\<lambda>result i.
            bindE (tryCandidate d probe opts flow i) (\<lambda>c.
            case c of None \<Rightarrow> returnE (result, True) | Some sess \<Rightarrow> returnE (Some sess, False))) result) (\<lambda>result'.
          returnE (result', result' = None))) None)) (\<lambda>result.
     case result of None \<Rightarrow> throwE ErrNoSuchSession | Some sess \<Rightarrow> returnE sess)"

definition FindByPublicKey :: "'k deps \<Rightarrow> 'k \<Rightarrow> find_opts option \<Rightarrow> fs_session fm" where
  "FindByPublicKey d key opts = searchFirst d (\<lambda>flow i. hasPublicKey d flow i key) opts"

definition FindByAccessToken :: "'k deps \<Rightarrow> bytes \<Rightarrow> find_opts option \<Rightarrow> fs_session fm" where
  "FindByAccessToken d t opts = searchFirst d (\<lambda>flow i. hasAccessToken d flow i t) opts"

definition FindAll :: "'k deps \<Rightarrow> (fs_session \<Rightarrow> bool fm) \<Rightarrow> find_opts option \<Rightarrow> unit fm" where
  "FindAll d consumer opts =
     bindE (iterateFlows opts (\<lambda>canContinue flow.
       bindE (iterateFlowDirs d flow opts (\<lambda>canContinue i.
         bindE (tryCandidate d (\<lambda>_ _. returnE True) opts flow i) (\<lambda>c.
         case c of
           None \<Rightarrow> returnE (canContinue, True)
         | Some sess \<Rightarrow> bindE (consumer sess) (\<lambda>cc. returnE (cc, cc)))) canContinue) (\<lambda>cc.
       returnE (cc, cc))) True) (\<lambda>_. returnE ())"

end
