(* ===== verification/Passwords.thy ===== *)
theory Passwords
  imports AuthorizedKeys World
begin

section \<open>Passwords (pkg/crypto/password*.go, pkg/configuration/authorization-simple-entry.go)\<close>

text \<open>
  A password of the configuration is a text \<^verbatim>\<open>type:encoded\<close>, given directly or in a file. The record \<open>bcrypt\<close> stands
  for \<^verbatim>\<open>x/crypto/bcrypt\<close>: \<open>bc_generate\<close> is \<^verbatim>\<open>GenerateFromPassword\<close>, \<open>None\<close> for its error, \<open>bc_compare\<close> is
  \<^verbatim>\<open>CompareHashAndPassword\<close>. The random bytes that \<^verbatim>\<open>Generate\<close> reads are an argument.
\<close>

datatype pw_err =
    ErrIllegalPassword bytes
  | ErrIllegalPasswordType bytes
  | ErrIllegalPasswordTypeNumber "8 word"
  | ErrIllegalPasswordFile
  | ErrCannotSavePassword
  | ErrPasswordOs os_err
  | ErrRandom
  | ErrBcrypt
  | ErrRequiredButAbsent
  | ErrKeys keys_err

datatype bc_result = BcMatch | BcMismatch | BcTooShort | BcOther

record bcrypt =
  bc_generate :: "bytes \<Rightarrow> bytes option"
  bc_compare :: "bytes \<Rightarrow> bytes \<Rightarrow> bc_result"

subsection \<open>Types of passwords (password-type.go, password-bcrypt.go)\<close>

type_synonym password_type = "8 word"

abbreviation PasswordTypePlain :: password_type where "PasswordTypePlain \<equiv> 0"
abbreviation PasswordTypeBcrypt :: password_type where "PasswordTypeBcrypt \<equiv> 1"

definition PasswordType_MarshalText :: "password_type \<Rightarrow> pw_err + bytes" where
  "PasswordType_MarshalText t =
     (if t = PasswordTypePlain then Inr ''plain'' else if t = PasswordTypeBcrypt then Inr ''bcrypt''
      else Inl (ErrIllegalPasswordTypeNumber t))"

definition PasswordType_Set :: "bytes \<Rightarrow> pw_err + password_type" where
  "PasswordType_Set plain =
     (if plain = ''plain'' then Inr PasswordTypePlain else if plain = ''bcrypt'' then Inr PasswordTypeBcrypt
      else Inl (ErrIllegalPasswordType plain))"

definition encodeBcrypt :: "bcrypt \<Rightarrow> bytes \<Rightarrow> pw_err + bytes" where
  "encodeBcrypt bc password = (case bc_generate bc password of None \<Rightarrow> Inl ErrBcrypt | Some h \<Rightarrow> Inr h)"

definition compareBcrypt :: "bcrypt \<Rightarrow> bytes \<Rightarrow> bytes \<Rightarrow> pw_err + bool" where
  "compareBcrypt bc encoded password =
     (case bc_compare bc encoded password of
        BcMismatch \<Rightarrow> Inr False | BcTooShort \<Rightarrow> Inr False | BcOther \<Rightarrow> Inl ErrBcrypt | BcMatch \<Rightarrow> Inr True)"

definition PasswordType_Encode :: "bcrypt \<Rightarrow> password_type \<Rightarrow> bytes \<Rightarrow> pw_err + bytes" where
  "PasswordType_Encode bc t password =
     (if t = PasswordTypePlain then Inr password else if t = PasswordTypeBcrypt then encodeBcrypt bc password
      else Inl (ErrIllegalPasswordTypeNumber t))"

definition PasswordType_Compare :: "bcrypt \<Rightarrow> password_type \<Rightarrow> bytes \<Rightarrow> bytes \<Rightarrow> pw_err + bool" where
  "PasswordType_Compare bc t encoded password =
     (if t = PasswordTypePlain then Inr (encoded = password)
      else if t = PasswordTypeBcrypt then compareBcrypt bc encoded password
      else Inl (ErrIllegalPasswordTypeNumber t))"

text \<open>\<^verbatim>\<open>base64.RawStdEncoding\<close>: three bytes are four characters, a rest of one or two bytes two or three.\<close>

definition base64_char :: "nat \<Rightarrow> char" where
  "base64_char n =
     (if n < 26 then char_of (65 + n) else if n < 52 then char_of (97 + (n - 26)) else if n < 62 then char_of (48 + (n - 52))
      else if n = 62 then CHR ''+'' else CHR ''/'')"

fun base64_raw :: "bytes \<Rightarrow> bytes" where
  "base64_raw (a # b # c # r) =
     (let n = of_char a * 65536 + of_char b * 256 + of_char c :: nat in
      base64_char (n div 262144) # base64_char (n div 4096 mod 64) # base64_char (n div 64 mod 64) # base64_char (n mod 64) #
      base64_raw r)"
| "base64_raw [a, b] =
     (let n = of_char a * 1024 + of_char b * 4 :: nat in
      [base64_char (n div 4096), base64_char (n div 64 mod 64), base64_char (n mod 64)])"
| "base64_raw [a] = (let n = of_char a * 16 :: nat in [base64_char (n div 64), base64_char (n mod 64)])"
| "base64_raw [] = []"

definition PasswordType_Generate :: "bcrypt \<Rightarrow> bytes option \<Rightarrow> password_type \<Rightarrow> pw_err + bytes \<times> bytes" where
  "PasswordType_Generate bc rand t =
     (case rand of
        None \<Rightarrow> Inl ErrRandom
      | Some buf \<Rightarrow>
          (let decoded = base64_raw buf in
           bindR (PasswordType_Encode bc t decoded) (\<lambda>suffix.
           let prefix = (case PasswordType_MarshalText t of Inl _ \<Rightarrow> [] | Inr b \<Rightarrow> b) in
           Inr (decoded, prefix @ CHR '':'' # suffix))))"

subsection \<open>Passwords (password.go)\<close>

definition Password_Validate :: "bytes \<Rightarrow> pw_err + unit" where
  "Password_Validate this =
     (if this = [] then Inr ()
      else let parts = bytes_splitN (CHR '':'') 2 this in
        if length parts \<noteq> 2 then Inl (ErrIllegalPassword this)
        else case PasswordType_Set (hd parts) of Inl _ \<Rightarrow> Inl (ErrIllegalPassword this) | Inr _ \<Rightarrow> Inr ())"

definition Password_MarshalText :: "bytes \<Rightarrow> pw_err + bytes" where
  "Password_MarshalText this = bindR (Password_Validate this) (\<lambda>_. Inr this)"

definition Password_Set :: "bytes \<Rightarrow> pw_err + bytes" where
  "Password_Set plain = bindR (Password_Validate plain) (\<lambda>_. Inr plain)"

definition Password_Compare :: "bcrypt \<Rightarrow> bytes \<Rightarrow> bytes \<Rightarrow> pw_err + bool" where
  "Password_Compare bc this withPassword =
     (case dropWhile (\<lambda>c. c \<noteq> CHR '':'') this of
        [] \<Rightarrow> Inl (ErrIllegalPassword this)
      | _ # encoded \<Rightarrow>
          (case PasswordType_Set (takeWhile (\<lambda>c. c \<noteq> CHR '':'') this) of
             Inl _ \<Rightarrow> Inl (ErrIllegalPassword this)
           | Inr t \<Rightarrow> PasswordType_Compare bc t encoded withPassword))"

definition Password_SetPassword :: "password_type \<Rightarrow> bytes \<Rightarrow> pw_err + bytes" where
  "Password_SetPassword t password = bindR (PasswordType_MarshalText t) (\<lambda>bt. Inr (bt @ password))"

subsection \<open>Password files (password-file.go)\<close>

type_synonym ('w, 'a) pwm = "('w world_scheme, pw_err, 'a) sm"

definition PasswordFile_GetPassword :: "bytes \<Rightarrow> ('w, bytes) pwm" where
  "PasswordFile_GetPassword this =
     (if this = [] then returnE []
      else bindE (tryE (os_OpenRead this)) (\<lambda>r :: os_err + unit.
        case r of
          Inl e \<Rightarrow> if isNotExist e then returnE [] else throwE ErrIllegalPasswordFile
        | Inr _ \<Rightarrow>
            finallyE
              (bindE (mapErrE (\<lambda>_. ErrIllegalPasswordFile) (os_ReadAll this)) (\<lambda>b.
               case Password_Validate b of Inl _ \<Rightarrow> throwE ErrIllegalPasswordFile | Inr _ \<Rightarrow> returnE b))
              (os_Close this)))"

text \<open>\<^verbatim>\<open>os.WriteFile\<close>: the file is created or emptied, written and closed; the first error is the result.\<close>

definition os_WriteFile :: "bytes \<Rightarrow> bytes \<Rightarrow> nat \<Rightarrow> ('w world_scheme, os_err, unit) sm" where
  "os_WriteFile fn b perm = bindE (os_OpenCreate True perm fn) (\<lambda>_. deferE (os_Write fn b) (os_Close fn))"

definition PasswordFile_SetPassword :: "bytes \<Rightarrow> bytes \<Rightarrow> ('w, unit) pwm" where
  "PasswordFile_SetPassword this v =
     (if this = [] then (if v \<noteq> [] then throwE ErrCannotSavePassword else returnE ())
      else case Password_MarshalText v of
          Inl _ \<Rightarrow> throwE ErrCannotSavePassword
        | Inr b \<Rightarrow>
            bindE (tryE (os_MkdirAll (filepath_Dir this) 448)) (\<lambda>_ :: os_err + unit.
            mapErrE (\<lambda>_. ErrCannotSavePassword) (os_WriteFile this b 384)))"

subsection \<open>Entries of the simple authorization (authorization-simple-entry.go)\<close>

record simple_entry =
  se_Name :: bytes
  se_AuthorizedKeys :: bytes
  se_AuthorizedKeysFile :: bytes
  se_Password :: bytes
  se_PasswordFile :: bytes
  se_CreateType :: "password_type option"

definition simpleEntry_GetPassword :: "simple_entry \<Rightarrow> ('w, bytes) pwm" where
  "simpleEntry_GetPassword e =
     (if se_Password e \<noteq> [] then returnE (se_Password e)
      else if se_PasswordFile e \<noteq> [] then PasswordFile_GetPassword (se_PasswordFile e)
      else returnE [])"

text \<open>
  The creation of a password file. \<^verbatim>\<open>GetPassword\<close> returns an empty password along with its error, and the
  emptiness is asked first.
\<close>

definition createPasswordFile :: "bcrypt \<Rightarrow> bytes option \<Rightarrow> simple_entry \<Rightarrow> ('w, unit) pwm" where
  "createPasswordFile bc rand e =
     (case se_CreateType e of
        None \<Rightarrow> returnE ()
      | Some t \<Rightarrow>
          if se_Name e = [] then returnE ()
          else bindE (liftE (PasswordType_MarshalText t)) (\<lambda>_.
            if se_PasswordFile e = [] then returnE ()
            else bindE (tryE (PasswordFile_GetPassword (se_PasswordFile e))) (\<lambda>r :: pw_err + bytes.
              let pw = (case r of Inl _ \<Rightarrow> [] | Inr b \<Rightarrow> b) in
              if pw = [] then
                bindE (liftE (PasswordType_Generate bc rand t)) (\<lambda>(decoded, encoded).
                PasswordFile_SetPassword (se_PasswordFile e) encoded)
              else returnE ())))"

definition AuthorizedKeysFile_ForEach ::
    "(bytes \<Rightarrow> bytes option) \<Rightarrow> (bytes \<Rightarrow> 'k option) \<Rightarrow> ('k, 'acc) key_consumer \<Rightarrow> 'acc \<Rightarrow> bytes \<Rightarrow> ('w, 'acc) pwm" where
  "AuthorizedKeysFile_ForEach unquote parseKey consumer acc this =
     (if this = [] then returnE acc
      else bindE (mapErrE ErrPasswordOs (os_OpenRead this)) (\<lambda>_.
        finallyE
          (bindE (mapErrE ErrPasswordOs (os_ReadAll this)) (\<lambda>data.
           liftE (map_sum ErrKeys id (parseAuthorizedKeys unquote parseKey consumer acc data))))
          (os_Close this)))"

definition AuthorizedKeysFile_Validate :: "(bytes \<Rightarrow> bytes option) \<Rightarrow> (bytes \<Rightarrow> 'k option) \<Rightarrow> bytes \<Rightarrow> ('w, unit) pwm" where
  "AuthorizedKeysFile_Validate unquote parseKey this =
     (if this = [] then returnE ()
      else bindE (AuthorizedKeysFile_ForEach unquote parseKey (\<lambda>_ _ _ _ _. Inr (True, False)) False this) (\<lambda>atLeastOne.
        if atLeastOne then returnE () else throwE (ErrKeys ErrNoAuthorizedKeys)))"

definition simpleEntry_Validate ::
    "(bytes \<Rightarrow> bytes option) \<Rightarrow> (bytes \<Rightarrow> 'k option) \<Rightarrow> bcrypt \<Rightarrow> bytes option \<Rightarrow> simple_entry \<Rightarrow> ('w, unit) pwm" where
  "simpleEntry_Validate unquote parseKey bc rand e =
     bindE (createPasswordFile bc rand e) (\<lambda>_.
     bindE (if se_Name e = [] then throwE ErrRequiredButAbsent else returnE ()) (\<lambda>_.
     bindE (liftE (map_sum ErrKeys id (AuthorizedKeys_Validate unquote parseKey (se_AuthorizedKeys e)))) (\<lambda>_.
     bindE (AuthorizedKeysFile_Validate unquote parseKey (se_AuthorizedKeysFile e)) (\<lambda>_.
     bindE (liftE (Password_Validate (se_Password e))) (\<lambda>_.
     bindE (PasswordFile_GetPassword (se_PasswordFile e)) (\<lambda>_.
     case se_CreateType e of
       None \<Rightarrow> returnE ()
     | Some t \<Rightarrow> bindE (liftE (PasswordType_MarshalText t)) (\<lambda>_. returnE ())))))))"

subsection \<open>Properties\<close>

lemma splitN_sep: "c \<notin> set x \<Longrightarrow> bytes_splitN c 2 (x @ c # r) = [x, r]"
  by (simp add: numeral_2_eq_2)

lemma PasswordType_texts [simp]:
  "PasswordType_MarshalText t = Inr b \<Longrightarrow> PasswordType_Set b = Inr t"
  "PasswordType_MarshalText t = Inr b \<Longrightarrow> CHR '':'' \<notin> set b"
  by (auto simp: PasswordType_MarshalText_def PasswordType_Set_def split: if_splits)

lemma typed_password:
  assumes "PasswordType_MarshalText t = Inr b"
  shows "Password_Validate (b @ CHR '':'' # x) = Inr ()"
    "Password_Compare bc (b @ CHR '':'' # x) p = PasswordType_Compare bc t x p"
  using PasswordType_texts[OF assms] by (simp_all add: Password_Validate_def splitN_sep Password_Compare_def)

definition bcrypt_ok :: "bcrypt \<Rightarrow> bool" where
  "bcrypt_ok bc \<longleftrightarrow> (\<forall>p h. bc_generate bc p = Some h \<longrightarrow> bc_compare bc h p = BcMatch)"

lemma generate_compare:
  assumes "bcrypt_ok bc" "PasswordType_Generate bc rand t = Inr (decoded, encoded)"
  shows "Password_Validate encoded = Inr () \<and> encoded \<noteq> [] \<and> Password_Compare bc encoded decoded = Inr True"
proof -
  obtain suffix where e: "PasswordType_Encode bc t decoded = Inr suffix"
    "encoded = (case PasswordType_MarshalText t of Inl _ \<Rightarrow> [] | Inr b \<Rightarrow> b) @ CHR '':'' # suffix"
    using assms(2) by (auto simp: PasswordType_Generate_def Let_def bindR_Inr_iff split: option.splits)
  then obtain b where b: "PasswordType_MarshalText t = Inr b"
    by (auto simp: PasswordType_Encode_def PasswordType_MarshalText_def split: if_splits)
  have "PasswordType_Compare bc t suffix decoded = Inr True"
    using e(1) assms(1)
    by (auto simp: PasswordType_Encode_def PasswordType_Compare_def encodeBcrypt_def compareBcrypt_def bcrypt_ok_def
        split: if_splits option.splits)
  then show ?thesis using typed_password[OF b] e(2) b by simp
qed

text \<open>
  What \<^verbatim>\<open>SetPassword\<close> stores is not a password, because the colon after the type is missing: it does not
  validate, and no comparison with it succeeds.
\<close>

theorem set_password_unusable:
  assumes "Password_SetPassword t password = Inr p" "password = [] \<or> hd password \<noteq> CHR '':''"
  shows "Password_Validate p = Inl (ErrIllegalPassword p) \<and> Password_Compare bc p w = Inl (ErrIllegalPassword p)"
proof -
  obtain b where b: "PasswordType_MarshalText t = Inr b" "p = b @ password"
    using assms(1) by (auto simp: Password_SetPassword_def bindR_Inr_iff)
  then have bt: "b \<in> {''plain'', ''bcrypt''}" by (auto simp: PasswordType_MarshalText_def split: if_splits)
  then have nc: "CHR '':'' \<notin> set b" by auto
  let ?u = "takeWhile (\<lambda>c. c \<noteq> CHR '':'') password" and ?d = "dropWhile (\<lambda>c. c \<noteq> CHR '':'') password"
  have tw: "takeWhile (\<lambda>c. c \<noteq> CHR '':'') p = b @ ?u" and dw: "dropWhile (\<lambda>c. c \<noteq> CHR '':'') p = ?d"
    using nc unfolding b(2) by (auto simp: takeWhile_append dropWhile_append)
  have u: "?d \<noteq> [] \<Longrightarrow> ?u \<noteq> []" using assms(2) by (cases password) auto
  have "b @ ?u \<noteq> ''plain''" "b @ ?u \<noteq> ''bcrypt''" if "?u \<noteq> []"
    using bt that by (cases ?u; auto)+
  then have ill: "?d \<noteq> [] \<Longrightarrow> PasswordType_Set (b @ ?u) = Inl (ErrIllegalPasswordType (b @ ?u))"
    using u by (simp add: PasswordType_Set_def)
  have "p \<noteq> []" using bt b(2) by auto
  then show ?thesis using ill tw dw
    by (cases ?d) (simp_all add: Password_Validate_def Password_Compare_def numeral_2_eq_2 del: dropWhile_eq_Nil_conv)
qed

lemma set_password_unusable_witness:
  "Password_SetPassword PasswordTypePlain ''bar'' = Inr ''plainbar'' \<and>
   Password_Validate ''plainbar'' = Inl (ErrIllegalPassword ''plainbar'')"
proof -
  have "Password_SetPassword PasswordTypePlain ''bar'' = Inr ''plainbar''"
    by (simp add: Password_SetPassword_def PasswordType_MarshalText_def)
  then show ?thesis using set_password_unusable[of PasswordTypePlain "''bar''" "''plainbar''"] by simp
qed

lemma map_sum_Inr_iff: "map_sum f id r = Inr x \<longleftrightarrow> r = Inr x"
  by (cases r) auto

lemma MkdirAll_keeps:
  "preserves (\<lambda>s. fs_get (w_files s) p = Some n \<and> w_fault s = f) (os_MkdirAll q m)"
  unfolding os_MkdirAll_def by (rule preserves_forE) (auto simp: preserves_def split: option.splits)

lemma MkdirAll_result: "fst (os_MkdirAll q m s) = r \<Longrightarrow> fs_get (w_files s) p = Some n \<Longrightarrow>
    fs_get (w_files (snd (os_MkdirAll q m s))) p = Some n"
  using preservesD[OF MkdirAll_keeps, of s p n "w_fault s"] by blast

lemma MkdirAll_fault: "w_fault (snd (os_MkdirAll q m s)) = w_fault s"
proof -
  have "preserves (\<lambda>t. w_fault t = w_fault s) (os_MkdirAll q m)"
    unfolding os_MkdirAll_def by (rule preserves_forE) (auto simp: preserves_def split: option.splits)
  then show ?thesis unfolding preserves_def by blast
qed

lemma WriteFile_writes:
  assumes "os_WriteFile fn b m s = (Inr (), t)"
  shows "\<exists>n. fs_get (w_files t) fn = Some n \<and> n_content n = b \<and> w_fault t = w_fault s"
  using assms
  by (auto simp: os_WriteFile_def bindE_def deferE_def os_OpenCreate_def os_Write_def os_Close_def opened_def fs_setContent_def newFile_def
      split: if_splits option.splits prod.splits sum.splits)

lemma WriteFile_existing:
  assumes "\<forall>op p. \<not> w_fault s op p" "fs_get (w_files s) fn = Some n" "\<not> n_isDir n"
  shows "fst (os_WriteFile fn b m s) = Inr ()"
  using assms by (simp add: os_WriteFile_def bindE_def deferE_def os_OpenCreate_def os_Write_def os_Close_def opened_def fs_setContent_def)

lemma WriteFile_new:
  assumes "\<forall>op p. \<not> w_fault s op p" "fs_get (w_files s) fn = None" "fs_get (w_files s) (filepath_Dir fn) = Some d" "n_isDir d"
  shows "fst (os_WriteFile fn b m s) = Inr ()"
  using assms by (simp add: os_WriteFile_def bindE_def deferE_def os_OpenCreate_def os_Write_def os_Close_def opened_def fs_setContent_def)

lemma SetPassword_writes:
  assumes "PasswordFile_SetPassword fn v s = (Inr (), t)" "fn \<noteq> []"
  shows "\<exists>n. fs_get (w_files t) fn = Some n \<and> n_content n = v \<and> w_fault t = w_fault s"
proof -
  obtain r u where u: "os_MkdirAll (filepath_Dir fn) 448 s = (r, u)" by (cases "os_MkdirAll (filepath_Dir fn) 448 s")
  then have f: "w_fault u = w_fault s" using MkdirAll_fault[of "filepath_Dir fn" 448 s] by simp
  have "os_WriteFile fn v 384 u = (Inr (), t)"
    using assms u by (cases "os_WriteFile fn v 384 u")
      (auto simp: PasswordFile_SetPassword_def bindE_def tryE_def mapErrE_def throwE_def Password_MarshalText_def bindR_def
        map_sum_Inr_iff split: sum.splits)
  then show ?thesis using WriteFile_writes f by metis
qed

lemma createPasswordFile_generates:
  assumes "se_CreateType e = Some t" "se_Name e \<noteq> []" "se_PasswordFile e \<noteq> []" "PasswordType_MarshalText t = Inr b"
    and "PasswordFile_GetPassword (se_PasswordFile e) s = (r, u)" "r = Inr [] \<or> (\<exists>err. r = Inl err)"
  shows "createPasswordFile bc rand e s =
    (case PasswordType_Generate bc rand t of Inl err \<Rightarrow> (Inl err, u) | Inr (decoded, encoded) \<Rightarrow> PasswordFile_SetPassword (se_PasswordFile e) encoded u)"
  using assms
  by (auto simp: createPasswordFile_def bindE_def liftE_def tryE_def Let_def split: sum.splits prod.splits)

text \<open>
  When validating an entry creates its password file, the password that is generated for the log is accepted by the
  password read back from the file.
\<close>

theorem created_password_accepted:
  assumes "bcrypt_ok bc" "se_CreateType e = Some t" "se_Name e \<noteq> []" "se_PasswordFile e \<noteq> []" "se_Password e = []"
    and "fs_get (w_files s) (se_PasswordFile e) = None" "\<forall>op. \<not> w_fault s op (se_PasswordFile e)"
    and "createPasswordFile bc rand e s = (Inr (), u)"
  shows "\<exists>decoded encoded. PasswordType_Generate bc rand t = Inr (decoded, encoded) \<and>
    fst (simpleEntry_GetPassword e u) = Inr encoded \<and> Password_Compare bc encoded decoded = Inr True"
proof -
  have get: "PasswordFile_GetPassword (se_PasswordFile e) s = (Inr [], s)"
    using assms(4,6,7) by (simp add: PasswordFile_GetPassword_def bindE_def tryE_def os_OpenRead_def returnE_def)
  obtain b where b: "PasswordType_MarshalText t = Inr b"
    using assms(2-4,8) by (cases "PasswordType_MarshalText t") (auto simp: createPasswordFile_def bindE_def liftE_def)
  obtain decoded encoded where g: "PasswordType_Generate bc rand t = Inr (decoded, encoded)"
      "PasswordFile_SetPassword (se_PasswordFile e) encoded s = (Inr (), u)"
    using createPasswordFile_generates[OF assms(2-4) b get, of bc rand] assms(8) by (auto split: sum.splits)
  obtain n where n: "fs_get (w_files u) (se_PasswordFile e) = Some n" "n_content n = encoded" "w_fault u = w_fault s"
    using SetPassword_writes[OF g(2) assms(4)] by blast
  have c: "Password_Validate encoded = Inr ()" "Password_Compare bc encoded decoded = Inr True"
    using generate_compare[OF assms(1) g(1)] by blast+
  have "fst (simpleEntry_GetPassword e u) = Inr encoded"
    using n c(1) assms(4,5,7)
    by (simp add: simpleEntry_GetPassword_def PasswordFile_GetPassword_def bindE_def tryE_def mapErrE_def os_OpenRead_def opened_def
        os_ReadAll_def finallyE_def returnE_def)
  then show ?thesis using g(1) c(2) by blast
qed

text \<open>
  A password file that exists, but whose content is not a password, is overwritten with a new password when the
  entry asks to create absent files: the error of reading it is not looked at.
\<close>

theorem broken_password_file_replaced:
  assumes "se_CreateType e = Some t" "se_Name e \<noteq> []" "se_PasswordFile e \<noteq> []"
    and "fs_get (w_files s) (se_PasswordFile e) = Some n" "\<not> n_isDir n" "Password_Validate (n_content n) \<noteq> Inr ()"
    and "\<forall>op p. \<not> w_fault s op p" "bcrypt_ok bc" "PasswordType_Generate bc rand t = Inr (decoded, encoded)"
    and "PasswordType_MarshalText t = Inr b"
  shows "\<exists>u m. createPasswordFile bc rand e s = (Inr (), u) \<and>
    fs_get (w_files u) (se_PasswordFile e) = Some m \<and> n_content m = encoded"
proof -
  let ?fn = "se_PasswordFile e"
  obtain err where "Password_Validate (n_content n) = Inl err" using assms(6) by (cases "Password_Validate (n_content n)") auto
  then have get: "PasswordFile_GetPassword ?fn s = (Inl ErrIllegalPasswordFile, s)"
    using assms(3,4,7)
    by (simp add: PasswordFile_GetPassword_def bindE_def tryE_def mapErrE_def os_OpenRead_def opened_def os_ReadAll_def finallyE_def
        throwE_def os_Close_def)
  obtain r v where v: "os_MkdirAll (filepath_Dir ?fn) 448 s = (r, v)" by (cases "os_MkdirAll (filepath_Dir ?fn) 448 s")
  have vf: "fs_get (w_files v) ?fn = Some n" "\<forall>op p. \<not> w_fault v op p"
    using MkdirAll_result[OF refl assms(4), of "filepath_Dir ?fn" 448] MkdirAll_fault[of "filepath_Dir ?fn" 448 s] v assms(7) by simp_all
  obtain u where u: "os_WriteFile ?fn encoded 384 v = (Inr (), u)"
    using WriteFile_existing[OF vf(2,1) assms(5)] by (metis prod.collapse)
  have val: "Password_Validate encoded = Inr ()" using generate_compare[OF assms(8,9)] by blast
  have "PasswordFile_SetPassword ?fn encoded s = (Inr (), u)"
    using assms(3) val v u by (simp add: PasswordFile_SetPassword_def Password_MarshalText_def bindE_def tryE_def mapErrE_def)
  moreover have "createPasswordFile bc rand e s = PasswordFile_SetPassword ?fn encoded s"
    using createPasswordFile_generates[OF assms(1-3,10) get, of bc rand] assms(9) by simp
  ultimately show ?thesis using WriteFile_writes[OF u] by auto
qed

definition exEntry :: simple_entry where
  "exEntry = \<lparr>se_Name = ''foo'', se_AuthorizedKeys = [], se_AuthorizedKeysFile = [], se_Password = [], se_PasswordFile = ''/p'',
     se_CreateType = Some PasswordTypePlain\<rparr>"

definition exWorld :: "bytes \<Rightarrow> world" where
  "exWorld c = \<lparr>w_files = [(''/'', newDir 0 0), (''/p'', (newFile 0 0)\<lparr>n_content := c\<rparr>)], w_fault = (\<lambda>_ _. False), w_now = 0,
     w_open = (\<lambda>_. 0), w_procs = []\<rparr>"

lemma broken_password_file_replaced_witness:
  "\<exists>u m. createPasswordFile \<lparr>bc_generate = Some, bc_compare = (\<lambda>h p. if h = p then BcMatch else BcMismatch)\<rparr> (Some ''A'') exEntry
      (exWorld ''secret'') = (Inr (), u) \<and> fs_get (w_files u) ''/p'' = Some m \<and> n_content m = ''plain:QQ''"
proof -
  let ?bc = "\<lparr>bc_generate = Some, bc_compare = (\<lambda>h p. if h = p then BcMatch else BcMismatch)\<rparr>"
  have g: "PasswordType_Generate ?bc (Some ''A'') PasswordTypePlain = Inr (''QQ'', ''plain:QQ'')"
    by (simp add: PasswordType_Generate_def PasswordType_Encode_def PasswordType_MarshalText_def base64_char_def Let_def char_of_eq_iff)
  have f: "fs_get (w_files (exWorld ''secret'')) ''/p'' = Some ((newFile 0 0)\<lparr>n_content := ''secret''\<rparr>)"
    by (simp add: exWorld_def fs_get_def)
  show ?thesis
    using broken_password_file_replaced[of exEntry PasswordTypePlain "exWorld ''secret''" _ ?bc "Some ''A''" "''QQ''" "''plain:QQ''" "''plain''"] f g
    by (simp add: exEntry_def newFile_def exWorld_def bcrypt_ok_def Password_Validate_def numeral_2_eq_2 PasswordType_MarshalText_def)
qed

lemma created_password_accepted_witness:
  "\<exists>u. createPasswordFile \<lparr>bc_generate = Some, bc_compare = (\<lambda>h p. if h = p then BcMatch else BcMismatch)\<rparr> (Some ''A'')
      (exEntry\<lparr>se_PasswordFile := ''/q''\<rparr>) (exWorld []) = (Inr (), u) \<and>
     fst (simpleEntry_GetPassword (exEntry\<lparr>se_PasswordFile := ''/q''\<rparr>) u) = Inr ''plain:QQ''"
proof -
  let ?bc = "\<lparr>bc_generate = Some, bc_compare = (\<lambda>h p. if h = p then BcMatch else BcMismatch)\<rparr>" and ?e = "exEntry\<lparr>se_PasswordFile := ''/q''\<rparr>"
  have g: "PasswordType_Generate ?bc (Some ''A'') PasswordTypePlain = Inr (''QQ'', ''plain:QQ'')"
    by (simp add: PasswordType_Generate_def PasswordType_Encode_def PasswordType_MarshalText_def base64_char_def Let_def char_of_eq_iff)
  let ?s = "exWorld [] :: world"
  have nf: "\<forall>op p. \<not> w_fault ?s op p" and q: "fs_get (w_files ?s) ''/q'' = None" "fs_get (w_files ?s) ''/'' = Some (newDir 0 0)"
    by (simp_all add: exWorld_def fs_get_def)
  have dir: "filepath_Dir ''/q'' = ''/''" by (simp add: filepath_Dir_def filepath_Clean_def)
  have mk: "os_MkdirAll ''/'' 448 ?s = (Inr (), ?s)" by (simp add: os_MkdirAll_def ancestors_def returnE_def)
  obtain u where u: "os_WriteFile ''/q'' ''plain:QQ'' 384 ?s = (Inr (), u)"
    using WriteFile_new[OF nf q(1), of "newDir 0 0"] q(2) by (metis dir prod.collapse newDir_def fnode.select_convs(1))
  have "PasswordFile_GetPassword ''/q'' ?s = (Inr [], ?s)"
    using nf q(1) by (simp add: PasswordFile_GetPassword_def bindE_def tryE_def os_OpenRead_def returnE_def)
  then have "createPasswordFile ?bc (Some ''A'') ?e ?s = PasswordFile_SetPassword ''/q'' ''plain:QQ'' ?s"
    using createPasswordFile_generates[of ?e PasswordTypePlain "''plain''" ?s "Inr []" ?s ?bc "Some ''A''"] g
    by (simp add: exEntry_def PasswordType_MarshalText_def)
  also have "\<dots> = (Inr (), u)"
    using u dir mk typed_password(1)[of PasswordTypePlain "''plain''" "''QQ''"]
    by (simp add: PasswordFile_SetPassword_def Password_MarshalText_def bindE_def tryE_def mapErrE_def PasswordType_MarshalText_def)
  finally have u: "createPasswordFile ?bc (Some ''A'') ?e ?s = (Inr (), u)" .
  then show ?thesis
    using created_password_accepted[of ?bc ?e PasswordTypePlain "exWorld []" "Some ''A''" u] g
    by (simp add: bcrypt_ok_def exEntry_def exWorld_def fs_get_def)
qed

end
