(* ===== verification/AuthModel.thy ===== *)
theory AuthModel
  imports EtcRepository SessionStore Passwords
begin

section \<open>Requests, authorizations and what the authorizers share (pkg/authorization)\<close>

text \<open>
  An authorizer decides on a request of a client with the help of the session store, the state of the model here,
  and answers with an authorization or \<open>Forbidden\<close>. The record \<open>adeps\<close> holds what the package takes from
  elsewhere: the JSON texts of the tokens, \<^verbatim>\<open>strings.EqualFold\<close>, \<^verbatim>\<open>strconv.Unquote\<close> and \<^verbatim>\<open>strconv.Quote\<close>, \<^verbatim>\<open>ssh.ParseAuthorizedKey\<close>, base64 with \<^verbatim>\<open>ssh.ParsePublicKey\<close>,
  \<^verbatim>\<open>bcrypt\<close>. \<open>adeps_ok\<close> states what the code relies on. The user repository is only read: it is an argument.
  \<open>ar_validate\<close> is the request's \<^verbatim>\<open>Validate\<close>, the answer of the environments to an authorization.
\<close>

datatype err_type = TConfig | TSystem | TUser | TExpired | TPermission | TNetwork

datatype auth_err =
    AErrNoSuchAuthorization
  | AErrUser user_err
  | AErrSession sess_err
  | AErrPassword pw_err
  | AErrKeysFile bytes
  | AErrMsg string
  | AErrTyped err_type string
  | AErrFlow bytes auth_err

type_synonym 'a am = "(fsrepo, auth_err, 'a) sm"
type_synonym env_vars = "(bytes \<times> bytes) list"

text \<open>\<^verbatim>\<open>errors.Is(err, ErrNoSuchAuthorization)\<close> and \<^verbatim>\<open>errors.IsType\<close> look through the wrapping.\<close>

fun isNoSuchAuthorization :: "auth_err \<Rightarrow> bool" where
  "isNoSuchAuthorization AErrNoSuchAuthorization = True"
| "isNoSuchAuthorization (AErrFlow _ e) = isNoSuchAuthorization e"
| "isNoSuchAuthorization _ = False"

fun isType :: "err_type set \<Rightarrow> auth_err \<Rightarrow> bool" where
  "isType ts (AErrTyped t _) = (t \<in> ts)"
| "isType ts (AErrFlow _ e) = isType ts e"
| "isType ts _ = False"

subsection \<open>Authorizations\<close>

record oidc_token =
  ot_accessToken :: bytes
  ot_refreshToken :: bytes
  ot_idToken :: bytes

datatype details =
    DLocal user
  | DSimple simple_entry
  | DHtpasswd
  | DNone
  | DOidc oidc_token "bytes option" "bytes option"

text \<open>A remote is a user and a host; \<^verbatim>\<open>oidc\<close> leaves it nil in two places.\<close>

record 'k authorization =
  au_details :: details
  au_remote :: "(bytes \<times> bytes) option"
  au_envVars :: env_vars
  au_flow :: bytes
  au_session :: "fs_session option"
  au_sessionsPublicKey :: "'k option"

datatype 'k answer = Forbidden "bytes \<times> bytes" | Authorized "'k authorization"

definition IsAuthorized :: "'k answer \<Rightarrow> bool" where
  "IsAuthorized a \<longleftrightarrow> (case a of Forbidden _ \<Rightarrow> False | Authorized _ \<Rightarrow> True)"

definition FindSession :: "'k answer \<Rightarrow> fs_session option" where
  "FindSession a = (case a of Forbidden _ \<Rightarrow> None | Authorized au \<Rightarrow> au_session au)"

text \<open>The requests of the three ways to log in as one record.\<close>

record 'k request =
  ar_remote :: "bytes \<times> bytes"
  ar_key :: 'k
  ar_password :: bytes
  ar_prompt :: "auth_err + bytes"
  ar_sendInfo :: "bytes \<Rightarrow> auth_err + unit"
  ar_validate :: "'k authorization \<Rightarrow> auth_err + bool"

record 'k adeps =
  ad_localEncode :: "bytes \<times> uid option \<times> env_vars \<Rightarrow> bytes"
  ad_localDecode :: "bytes \<Rightarrow> (bytes \<times> uid option \<times> env_vars) option"
  ad_nameEncode :: "bytes \<times> env_vars \<Rightarrow> bytes"
  ad_nameDecode :: "bytes \<Rightarrow> (bytes \<times> env_vars) option"
  ad_oidcEncode :: "oidc_token \<Rightarrow> bytes"
  ad_oidcDecode :: "bytes \<Rightarrow> oidc_token option"
  ad_equalFold :: "bytes \<Rightarrow> bytes \<Rightarrow> bool"
  ad_unquote :: "bytes \<Rightarrow> bytes option"
  ad_quote :: "bytes \<Rightarrow> bytes"
  ad_parsePublicKey :: "bytes \<Rightarrow> 'k option"
  ad_parseAuthorizedKey :: "bytes \<Rightarrow> ('k \<times> bytes) option"
  ad_bcrypt :: bcrypt
  ad_crypts :: "(bytes \<times> crypt) list"

definition adeps_ok :: "'k adeps \<Rightarrow> bool" where
  "adeps_ok ad \<longleftrightarrow>
     (\<forall>n u. ad_localEncode ad (n, u, []) \<noteq> [] \<and>
        (utf8_ValidString n \<longrightarrow> ad_localDecode ad (ad_localEncode ad (n, u, [])) = Some (n, u, []))) \<and>
     (\<forall>n. ad_nameEncode ad (n, []) \<noteq> [] \<and>
        (utf8_ValidString n \<longrightarrow> ad_nameDecode ad (ad_nameEncode ad (n, [])) = Some (n, []))) \<and>
     (\<forall>x. ad_oidcEncode ad x \<noteq> []) \<and>
     (\<forall>n. ad_equalFold ad n n) \<and>
     (\<forall>t k rest. ad_parseAuthorizedKey ad t = Some (k, rest) \<longrightarrow> length rest < length t)"

abbreviation sessE :: "'a fm \<Rightarrow> 'a am" where
  "sessE \<equiv> mapErrE AErrSession"

subsection \<open>Sessions of a request\<close>

text \<open>The options of every search for a session: the flow, still valid, and of the remote user.\<close>

definition requestOpts :: "'k deps \<Rightarrow> bytes \<Rightarrow> 'k request \<Rightarrow> find_opts option" where
  "requestOpts d flow req =
     Some \<lparr>fo_Predicates = [IsFlow flow, IsStillValid d, IsRemoteName (fst (ar_remote req))], fo_AutoCleanUpAllowed = None\<rparr>"

definition findSessionByKey :: "'k deps \<Rightarrow> bytes \<Rightarrow> 'k request \<Rightarrow> fs_session option am" where
  "findSessionByKey d flow req =
     bindE (tryE (FindByPublicKey d (ar_key req) (requestOpts d flow req))) (\<lambda>r :: sess_err + fs_session.
     case r of
       Inl e \<Rightarrow> if isNoSuchSession e then returnE None else throwE (AErrSession e)
     | Inr sess \<Rightarrow> returnE (Some sess))"

text \<open>The body of every \<^verbatim>\<open>ensureSessionFor\<close> after its token was encoded to \<open>at\<close>.\<close>

definition ensureSession :: "'k deps \<Rightarrow> bytes \<Rightarrow> 'k request \<Rightarrow> bytes \<Rightarrow> fs_session am" where
  "ensureSession d flow req at =
     bindE (tryE (FindByAccessToken d at (requestOpts d flow req))) (\<lambda>r :: sess_err + fs_session.
     case r of
       Inl e \<Rightarrow>
         if isNoSuchSession e then sessE (sess_Create d flow (fst (ar_remote req)) (snd (ar_remote req)) at)
         else throwE (AErrSession e)
     | Inr sess \<Rightarrow> returnE sess)"

definition forbidden :: "'k request \<Rightarrow> 'k answer am" where
  "forbidden req = returnE (Forbidden (ar_remote req))"

text \<open>The last part of every \<^verbatim>\<open>RestoreFromSession\<close>: the remote of the session's last access.\<close>

definition restoredRemote :: "'k deps \<Rightarrow> fs_session \<Rightarrow> (bytes \<times> bytes) am" where
  "restoredRemote d sess =
     bindE (sessE (lastAccessed d sess)) (\<lambda>(la, _). returnE (LastAccessedRemote sess la))"

text \<open>\<^verbatim>\<open>RestoreOpts.IsAutoCleanUpAllowed\<close>; the outer option is a nil pointer.\<close>

definition RestoreOpts_IsAutoCleanUpAllowed :: "bool option option \<Rightarrow> bool" where
  "RestoreOpts_IsAutoCleanUpAllowed opts =
     (case opts of None \<Rightarrow> False | Some v \<Rightarrow> (case v of None \<Rightarrow> False | Some b \<Rightarrow> b))"

text \<open>\<^verbatim>\<open>cleanFromSessionOnly\<close>.\<close>

definition cleanFromSessionOnly :: "'k deps \<Rightarrow> fs_session \<Rightarrow> bool option option \<Rightarrow> 'a am" where
  "cleanFromSessionOnly d sess opts =
     (if RestoreOpts_IsAutoCleanUpAllowed opts
      then bindE (sessE (SetAuthorizationToken d sess [])) (\<lambda>_. throwE AErrNoSuchAuthorization)
      else throwE AErrNoSuchAuthorization)"

text \<open>\<^verbatim>\<open>Dispose\<close> of an authorization. Only \<^verbatim>\<open>none\<close> has no token to take out of the session.\<close>

definition disposeAuth :: "'k deps \<Rightarrow> 'k answer \<Rightarrow> bool am" where
  "disposeAuth d a =
     (case a of
        Forbidden _ \<Rightarrow> returnE False
      | Authorized au \<Rightarrow>
          (case au_session au of
             None \<Rightarrow> returnE False
           | Some sess \<Rightarrow>
               if au_details au = DNone then returnE True
               else bindE (sessE (SetAuthorizationToken d sess [])) (\<lambda>_. returnE True)))"

subsection \<open>Files of authorized keys (pkg/crypto/ssh.go)\<close>

definition os_ReadFile :: "bytes \<Rightarrow> ('w world_scheme, os_err, bytes) sm" where
  "os_ReadFile fn = bindE (os_OpenRead fn) (\<lambda>_. finallyE (os_ReadAll fn) (os_Close fn))"

text \<open>
  The loop over the entries of one file. \<^verbatim>\<open>ssh.ParseAuthorizedKey\<close> returns the rest after the entry, which is shorter;
  should it not be, the loop would not end, which is an error here that \<open>adeps_ok\<close> excludes.
\<close>

function eachKeyOf ::
    "('k \<Rightarrow> 'acc \<times> bool) \<Rightarrow> (bytes \<Rightarrow> ('k \<times> bytes) option) \<Rightarrow> bytes \<Rightarrow> 'acc \<Rightarrow> bytes \<Rightarrow> auth_err + 'acc \<times> bool" where
  "eachKeyOf callback parse file acc rest =
     (if rest = [] then Inr (acc, True)
      else case parse rest of
          None \<Rightarrow> Inl (AErrKeysFile file)
        | Some (pub, rest') \<Rightarrow>
            (let (acc', canContinue) = callback pub in
             if \<not> canContinue then Inr (acc', False)
             else if length rest' < length rest then eachKeyOf callback parse file acc' rest'
             else Inl (AErrMsg ''the parser does not advance'')))"
  by pat_completeness auto
termination by (relation "measure (\<lambda>(_, _, _, _, rest). length rest)") auto

declare eachKeyOf.simps [simp del]

fun DoWithEachAuthorizedKey ::
    "'k adeps \<Rightarrow> bool \<Rightarrow> ('k \<Rightarrow> 'acc \<times> bool) \<Rightarrow> 'acc \<Rightarrow> bytes list \<Rightarrow> 'acc am" where
  "DoWithEachAuthorizedKey ad requireExistence callback acc [] = returnE acc"
| "DoWithEachAuthorizedKey ad requireExistence callback acc (file # files) =
     bindE (tryE (os_ReadFile file)) (\<lambda>r :: os_err + bytes.
     case r of
       Inl e \<Rightarrow>
         if \<not> requireExistence \<and> isNotExist e then DoWithEachAuthorizedKey ad requireExistence callback acc files
         else throwE (AErrKeysFile file)
     | Inr data \<Rightarrow>
         bindE (liftE (eachKeyOf callback (ad_parseAuthorizedKey ad) file acc data)) (\<lambda>(acc', canContinue).
         if canContinue then DoWithEachAuthorizedKey ad requireExistence callback acc' files else returnE acc'))"

end
