(* ===== verification/EtcEnsure.thy ===== *)
theory EtcEnsure
  imports EtcRepository
begin

section \<open>Ensuring groups and users (pkg/user/etc-colon-repository.go)\<close>

text \<open>
  \<^verbatim>\<open>EnsureGroup\<close> and \<^verbatim>\<open>Ensure\<close> with everything they call: the pre-checks, the generated ids, the
  rows they create or change, the updates of the index maps, the save of the three files and
  the home directory. The library that copies the skeleton directory (\<^verbatim>\<open>otiai10/copy\<close>) is the
  parameter \<open>cp\<close>: source, destination, owner and group.
\<close>

type_synonym copier = "bytes \<Rightarrow> bytes \<Rightarrow> uint32 \<Rightarrow> uint32 \<Rightarrow> (repo, os_err, unit) sm"

subsection \<open>Rows for a requirement (etc-group.go, etc-passwd.go)\<close>

definition toEtcGroupRef :: "group_requirement \<Rightarrow> gid \<Rightarrow> etcGroupEntry" where
  "toEtcGroupRef this generated =
     (let gid = (case gq_Gid this of Some v \<Rightarrow> v | None \<Rightarrow> generated) in
      \<lparr>g_name = (if gq_Name this \<noteq> [] then gq_Name this else CHR ''g'' # formatUint32 gid),
       g_password = ''x'', g_gid = gid, g_userNames = []\<rparr>)"

definition updateEtcGroupRef :: "group_requirement \<Rightarrow> etcGroupEntry \<Rightarrow> etcGroupEntry" where
  "updateEtcGroupRef this ref =
     (let r1 = (case gq_Gid this of Some v \<Rightarrow> ref\<lparr>g_gid := v\<rparr> | None \<Rightarrow> ref)
      in if gq_Name this \<noteq> [] then r1\<lparr>g_name := gq_Name this\<rparr> else r1)"

definition toEtcPasswdRef :: "requirement \<Rightarrow> gid \<Rightarrow> uid \<Rightarrow> uint32 \<Rightarrow> etcPasswdEntry \<times> etcShadowEntry" where
  "toEtcPasswdRef this gid generated today =
     (let uid = (case rq_Uid this of Some v \<Rightarrow> v | None \<Rightarrow> generated);
          name = (if rq_Name this \<noteq> [] then rq_Name this else CHR ''u'' # formatUint32 uid)
      in (\<lparr>p_name = name, p_password = ''x'', p_uid = uid, p_gid = gid, p_geocs = rq_DisplayName this,
           p_homeDir = rq_HomeDir this, p_shell = rq_Shell this\<rparr>,
          \<lparr>s_name = name, s_password = ''*'', s_lastChangedAtInDays = today, s_minimumAgeInDays = 0,
           s_maximumAgeInDays = 99999, s_warnAgeInDays = 7, s_hasWarnAge = True, s_inactiveAgeInDays = 0,
           s_hasInactiveAge = False, s_expireAtTsInDays = 0, s_hasExpire = False\<rparr>))"

definition updateEtcPasswdRow :: "requirement \<Rightarrow> gid \<Rightarrow> etcPasswdEntry \<Rightarrow> etcPasswdEntry" where
  "updateEtcPasswdRow this gid ref =
     (let r1 = (case rq_Uid this of Some v \<Rightarrow> ref\<lparr>p_uid := v\<rparr> | None \<Rightarrow> ref);
          r2 = (if rq_Name this \<noteq> [] then r1\<lparr>p_name := rq_Name this\<rparr> else r1)
      in r2\<lparr>p_gid := gid, p_geocs := rq_DisplayName this, p_shell := rq_Shell this, p_homeDir := rq_HomeDir this\<rparr>)"

subsection \<open>Generated ids\<close>

definition findHighestGid :: "repo \<Rightarrow> gid" where
  "findHighestGid s =
     foldl (\<lambda>result e. if g_gid e = 65534 \<and> g_name e = ''nogroup'' then result
                        else if g_gid e > result then g_gid e else result)
       0 (List.map_filter (r_heapG s) (pointers (h_entries (r_group s))))"

definition findHighestUid :: "repo \<Rightarrow> uid" where
  "findHighestUid s =
     foldl (\<lambda>result e. if p_uid e = 65534 \<and> p_name e = ''nobody'' then result
                        else if p_uid e > result then p_uid e else result)
       0 (List.map_filter (r_heapP s) (pointers (h_entries (r_passwd s))))"

text \<open>The generator both id kinds share: one more than the highest id, not below 1000, not 65534.\<close>

definition nextId :: "uint32 \<Rightarrow> uint32" where
  "nextId highest =
     (if highest < 1000 then 1000
      else let result = highest + 1 in if result = 65534 then result + 1 else result)"

subsection \<open>Groups\<close>

definition getGroupRow :: "nat \<Rightarrow> etcGroupEntry rm" where
  "getGroupRow a s = (case r_heapG s a of None \<Rightarrow> (Inl (Panic ''dangling pointer''), s) | Some e \<Rightarrow> (Inr e, s))"

definition getPasswdRow :: "nat \<Rightarrow> etcPasswdEntry rm" where
  "getPasswdRow a s = (case r_heapP s a of None \<Rightarrow> (Inl (Panic ''dangling pointer''), s) | Some e \<Rightarrow> (Inr e, s))"

definition fulfilsGroup :: "repo \<Rightarrow> group_requirement \<Rightarrow> nat \<Rightarrow> bool" where
  "fulfilsGroup s req a = (case r_heapG s a of None \<Rightarrow> False | Some e \<Rightarrow> GroupRequirement_doesFulfilRef req e)"

definition preEnsureGroup ::
    "repo \<Rightarrow> group_requirement \<Rightarrow> ensure_opts option \<Rightarrow> user_err + (nat option \<times> group option \<times> ensure_result)" where
  "preEnsureGroup s req opts =
     (let existing = lookupGroupByRequirement s req in
      case existing of
        Some a \<Rightarrow>
          if fulfilsGroup s req a
          then Inr (Some a, map_option refToGroup (r_heapG s a), EnsureResultUnchanged)
          else if \<not> IsModifyAllowed opts then Inl ErrGroupDoesNotFulfilRequirement
          else Inr (Some a, None, EnsureResultUnknown)
      | None \<Rightarrow>
          if \<not> IsCreateAllowed opts then Inl ErrNoSuchGroup
          else if \<not> IsModifyAllowed opts then Inl ErrGroupDoesNotFulfilRequirement
          else Inr (None, None, EnsureResultUnknown))"

definition createGroup :: "group_requirement \<Rightarrow> (nat \<times> group \<times> ensure_result) rm" where
  "createGroup tReq s =
     (let e = toEtcGroupRef tReq (nextId (findHighestGid s)); a = r_next s in
      (Inr (a, refToGroup e, EnsureResultCreated),
       s\<lparr>r_heapG := (r_heapG s)(a := Some e), r_next := Suc a,
         r_group := (r_group s)\<lparr>h_entries := h_entries (r_group s) @ [\<lparr>ce_entry = Some a, ce_rawLine = []\<rparr>]\<rparr>,
         r_nameToGroup := (r_nameToGroup s)(g_name e := Some a),
         r_idToGroup := (r_idToGroup s)(g_gid e := Some a)\<rparr>))"

text \<open>The two index updates of the branch that changes an existing group, as they are written.\<close>

definition modifyGroup :: "group_requirement \<Rightarrow> nat \<Rightarrow> (nat \<times> group \<times> ensure_result) rm" where
  "modifyGroup tReq a =
     bindE (getGroupRow a) (\<lambda>old.
     let new = updateEtcGroupRef tReq old in
     bindE (modifyE (\<lambda>s. s\<lparr>r_heapG := (r_heapG s)(a := Some new)\<rparr>)) (\<lambda>_.
     bindE (modifyE (\<lambda>s. if g_name old \<noteq> g_name new
         then s\<lparr>r_nameToGroup := ((r_nameToGroup s)(g_name old := None))(g_name new := Some a)\<rparr> else s)) (\<lambda>_.
     bindE (modifyE (\<lambda>s. if g_gid old \<noteq> g_gid new
         then s\<lparr>r_idToGroup := ((r_idToGroup s)(g_gid new := None))(g_gid new := Some a)\<rparr> else s)) (\<lambda>_.
     returnE (a, refToGroup new, EnsureResultModified)))))"

definition ensureGroup ::
    "requirement option \<Rightarrow> group_requirement \<Rightarrow> ensure_opts option \<Rightarrow> (nat \<times> group \<times> ensure_result) rm" where
  "ensureGroup forUser req opts s =
     (let tReq = GroupRequirement_OrDefaultsForUser req forUser in
      case preEnsureGroup s tReq opts of
        Inl e \<Rightarrow> (Inl e, s)
      | Inr (Some a, Some g, r) \<Rightarrow> (Inr (a, g, r), s)
      | Inr (Some a, None, _) \<Rightarrow> modifyGroup tReq a s
      | Inr (None, _, _) \<Rightarrow> createGroup tReq s)"

definition ensureGroups :: "group_requirement list \<Rightarrow> ensure_opts option \<Rightarrow> (nat \<times> group) list rm" where
  "ensureGroups reqs opts =
     mapE (\<lambda>req. bindE (ensureGroup None req opts) (\<lambda>(a, g, _). returnE (a, g))) reqs"

definition EnsureGroup :: "group_requirement \<Rightarrow> ensure_opts option \<Rightarrow> (group \<times> ensure_result) rm" where
  "EnsureGroup req opts s =
     (let tReq = GroupRequirement_OrDefaults req in
      case preEnsureGroup s tReq opts of
        Inl e \<Rightarrow> (Inl e, s)
      | Inr (_, Some g, r) \<Rightarrow> (Inr (g, r), s)
      | Inr (_, None, _) \<Rightarrow>
          bindE openAndLoad (\<lambda>f. deferE
            (bindE (ensureGroup None tReq opts) (\<lambda>(_, g, r).
             bindE (if r = EnsureResultModified \<or> r = EnsureResultCreated then handles_save else returnE ()) (\<lambda>_.
             returnE (g, r))))
            (opened_close f)) s)"

subsection \<open>Home directories\<close>

definition chownRecursively :: "bytes \<Rightarrow> uint32 \<Rightarrow> uint32 \<Rightarrow> unit rm" where
  "chownRecursively fn uid gid =
     bindE (mapErrE ErrOs (os_Stat fn)) (\<lambda>_.
     bindE (getE (\<lambda>s. map fst (filter (\<lambda>e. under fn (fst e)) (w_files s)))) (\<lambda>ps.
     forE (\<lambda>p. mapErrE ErrOs (os_Chown p (unat uid) (unat gid))) ps))"

definition existingHomeDirCheck :: "uint32 \<Rightarrow> uint32 \<Rightarrow> bytes \<Rightarrow> onHomeDirExist \<Rightarrow> bool rm" where
  "existingHomeDirCheck uid gid homeDir ohde =
     bindE (tryE (os_Stat homeDir)) (\<lambda>r.
     case r of
       Inl err \<Rightarrow> if isNotExist err then returnE True else throwE (ErrOs err)
     | Inr fi \<Rightarrow>
         if ohde = EnsureOnHomeDirExistTakeover then
           (if \<not> n_isDir fi then throwE (ErrHomeDirIsFile homeDir)
            else bindE (chownRecursively homeDir uid gid) (\<lambda>_. returnE False))
         else if ohde = EnsureOnHomeDirExistOverwrite then
           bindE (mapErrE ErrOs (os_RemoveAll homeDir)) (\<lambda>_. returnE True)
         else throwE (ErrHomeDirExists homeDir))"

definition createHomeDir :: "copier \<Rightarrow> uint32 \<Rightarrow> uint32 \<Rightarrow> bytes \<Rightarrow> bytes \<Rightarrow> onHomeDirExist \<Rightarrow> unit rm" where
  "createHomeDir cp uid gid skel homeDir ohde =
     mapErrE (ErrCannotCreateHomeDir homeDir)
       (bindE (existingHomeDirCheck uid gid homeDir ohde) (\<lambda>canContinue.
        if \<not> canContinue then returnE ()
        else bindE (mapErrE ErrOs (os_MkdirAll homeDir 448)) (\<lambda>_.
          bindE (mapErrE ErrOs (os_Chown homeDir (unat uid) (unat gid))) (\<lambda>_.
          if skel \<noteq> [] then mapErrE ErrOs (cp skel homeDir uid gid) else returnE ()))))"

definition moveHomeDir :: "uint32 \<Rightarrow> uint32 \<Rightarrow> bytes \<Rightarrow> bytes \<Rightarrow> onHomeDirExist \<Rightarrow> unit rm" where
  "moveHomeDir uid gid oldHomeDir newHomeDir ohde =
     mapErrE (ErrCannotMoveHomeDir oldHomeDir newHomeDir)
       (bindE (existingHomeDirCheck uid gid newHomeDir ohde) (\<lambda>canContinue.
        if \<not> canContinue then returnE ()
        else bindE (tryE (os_Stat oldHomeDir)) (\<lambda>r.
          case r of
            Inl err \<Rightarrow> if isNotExist err then returnE () else throwE (ErrOs err)
          | Inr _ \<Rightarrow>
              bindE (tryE (os_MkdirAll (filepath_Dir newHomeDir) 448)) (\<lambda>_.
              bindE (mapErrE ErrOs (os_Rename oldHomeDir newHomeDir)) (\<lambda>_.
              chownRecursively newHomeDir uid gid)))))"

subsection \<open>Users\<close>

definition groupsFulfilled :: "repo \<Rightarrow> group_requirement list \<Rightarrow> nat list \<Rightarrow> bool" where
  "groupsFulfilled s reqs refs \<longleftrightarrow>
     length reqs = length refs \<and> list_all (\<lambda>a. list_ex (\<lambda>req. fulfilsGroup s req a) reqs) refs"

definition isRequirementFulfilled :: "repo \<Rightarrow> requirement \<Rightarrow> user_err + (etcPasswdRef option \<times> user option)" where
  "isRequirementFulfilled s req =
     (case lookupByRequirement s req of
        None \<Rightarrow> Inr (None, None)
      | Some existing \<Rightarrow>
          (case r_heapP s (pr_passwd existing) of
             None \<Rightarrow> Inl (Panic ''dangling pointer'')
           | Some e \<Rightarrow>
               if \<not> Requirement_doesFulfilRef req e then Inr (Some existing, None)
               else (case lookupGroupByRequirement s (rq_Group req) of
                   None \<Rightarrow> Inr (Some existing, None)
                 | Some ga \<Rightarrow>
                     if \<not> fulfilsGroup s (rq_Group req) ga then Inr (Some existing, None)
                     else if map_option g_gid (r_heapG s ga) \<noteq> Some (p_gid e) then Inr (Some existing, None)
                     else if \<not> groupsFulfilled s (rq_Groups req) (members (r_usernameToGroups s) (p_name e))
                     then Inr (Some existing, None)
                     else bindR (refToUser s existing) (\<lambda>u. Inr (Some existing, Some u)))))"

definition ensurePreChecks ::
    "repo \<Rightarrow> requirement \<Rightarrow> ensure_opts option \<Rightarrow> user_err + (etcPasswdRef option \<times> user option)" where
  "ensurePreChecks s req opts =
     bindR (isRequirementFulfilled s req) (\<lambda>(existing, user).
     case user of
       Some u \<Rightarrow> Inr (None, Some u)
     | None \<Rightarrow>
         if existing = None \<and> \<not> IsCreateAllowed opts then Inl ErrNoSuchUser
         else if \<not> IsModifyAllowed opts then Inl ErrUserDoesNotFulfilRequirement
         else Inr (existing, None))"

definition updateGroupRow :: "(etcGroupEntry \<Rightarrow> etcGroupEntry) \<Rightarrow> nat \<Rightarrow> repo \<Rightarrow> repo" where
  "updateGroupRow f a s =
     (case r_heapG s a of None \<Rightarrow> s | Some e \<Rightarrow> s\<lparr>r_heapG := (r_heapG s)(a := Some (f e))\<rparr>)"

definition createUser ::
    "copier \<Rightarrow> requirement \<Rightarrow> bytes \<Rightarrow> ensure_opts option \<Rightarrow> group \<Rightarrow> (nat \<times> group) list \<Rightarrow> (user \<times> ensure_result) rm" where
  "createUser cp tReq skel opts grp groupRefs =
     bindE (getE (\<lambda>s. (toEtcPasswdRef tReq (gr_Gid grp) (nextId (findHighestUid s)) (todayInDays s), r_next s)))
       (\<lambda>((pe, se), a).
     let ref = \<lparr>pr_passwd = a, pr_shadow = Some (Suc a)\<rparr> in
     bindE (modifyE (\<lambda>s. s\<lparr>
         r_heapP := (r_heapP s)(a := Some pe), r_heapS := (r_heapS s)(Suc a := Some se), r_next := Suc (Suc a),
         r_passwd := (r_passwd s)\<lparr>h_entries := h_entries (r_passwd s) @ [\<lparr>ce_entry = Some a, ce_rawLine = []\<rparr>]\<rparr>,
         r_shadow := (r_shadow s)\<lparr>h_entries := h_entries (r_shadow s) @ [\<lparr>ce_entry = Some (Suc a), ce_rawLine = []\<rparr>]\<rparr>,
         r_nameToUser := (r_nameToUser s)(p_name pe := Some ref),
         r_idToUser := (r_idToUser s)(p_gid pe := Some ref)\<rparr>)) (\<lambda>_.
     bindE (modifyE (\<lambda>s. foldl (\<lambda>s ga. updateGroupRow (\<lambda>e. e\<lparr>g_userNames := g_userNames e @ [p_name pe]\<rparr>) ga s)
         s (map fst groupRefs))) (\<lambda>_.
     bindE handles_save (\<lambda>_.
     bindE (if length (p_homeDir pe) > 0 \<and> EnsureOpts_IsHomeDir opts
            then createHomeDir cp (p_uid pe) (p_gid pe) skel (p_homeDir pe) (GetOnHomeDirExist opts)
            else returnE ()) (\<lambda>_.
     returnE (refAndGroupsToUser pe grp (map snd groupRefs), EnsureResultCreated))))))"

text \<open>
  The groups of the user that the requirement does not name: the map from group id to row that
  the source fills and then empties, so that of two rows with one id the last one stays.
\<close>

fun lastByGid :: "(nat \<Rightarrow> etcGroupEntry option) \<Rightarrow> nat list \<Rightarrow> nat list" where
  "lastByGid h [] = []"
| "lastByGid h (a # as) =
     (if list_ex (\<lambda>b. map_option g_gid (h b) = map_option g_gid (h a)) as
      then lastByGid h as else a # lastByGid h as)"

definition notAlreadyHandled :: "repo \<Rightarrow> bytes \<Rightarrow> nat list \<Rightarrow> nat list" where
  "notAlreadyHandled s name groupRefs =
     filter (\<lambda>a. \<not> list_ex (\<lambda>b. map_option g_gid (r_heapG s b) = map_option g_gid (r_heapG s a)) groupRefs)
       (lastByGid (r_heapG s) (members (r_usernameToGroups s) name))"

text \<open>
  \<^verbatim>\<open>updateEtcPasswdRef\<close>: id, group and name of the row first, then the name of the shadow row. A
  user without a shadow row has a nil pointer there, and the write through it panics.
\<close>

definition updateUserRows :: "requirement \<Rightarrow> gid \<Rightarrow> etcPasswdRef \<Rightarrow> etcPasswdEntry rm" where
  "updateUserRows tReq gid existing =
     bindE (getPasswdRow (pr_passwd existing)) (\<lambda>old.
     let new = updateEtcPasswdRow tReq gid old in
     if rq_Name tReq \<noteq> [] then
       (case pr_shadow existing of
          None \<Rightarrow>
            bindE (modifyE (\<lambda>s. s\<lparr>r_heapP := (r_heapP s)(pr_passwd existing :=
                Some (old\<lparr>p_uid := p_uid new, p_gid := p_gid new, p_name := p_name new\<rparr>))\<rparr>))
              (\<lambda>_. throwE (Panic ''nil pointer dereference''))
        | Some sa \<Rightarrow>
            bindE (modifyE (\<lambda>s. s\<lparr>r_heapP := (r_heapP s)(pr_passwd existing := Some new),
                r_heapS := (r_heapS s)(sa := map_option (\<lambda>e. e\<lparr>s_name := rq_Name tReq\<rparr>) (r_heapS s sa))\<rparr>))
              (\<lambda>_. returnE new))
     else bindE (modifyE (\<lambda>s. s\<lparr>r_heapP := (r_heapP s)(pr_passwd existing := Some new)\<rparr>)) (\<lambda>_. returnE new))"

definition modifyUser ::
    "requirement \<Rightarrow> ensure_opts option \<Rightarrow> group \<Rightarrow> (nat \<times> group) list \<Rightarrow> etcPasswdRef \<Rightarrow> (user \<times> ensure_result) rm" where
  "modifyUser tReq opts grp groupRefs existing =
     bindE (getPasswdRow (pr_passwd existing)) (\<lambda>old.
     bindE (updateUserRows tReq (gr_Gid grp) existing) (\<lambda>new.
     bindE (modifyE (\<lambda>s. if p_name old = p_name new
         then s\<lparr>r_nameToUser := ((r_nameToUser s)(p_name old := None))(p_name new := Some existing)\<rparr> else s)) (\<lambda>_.
     bindE (modifyE (\<lambda>s. if p_uid old \<noteq> p_uid new
         then s\<lparr>r_idToUser := ((r_idToUser s)(p_uid old := None))(p_uid new := Some existing)\<rparr> else s)) (\<lambda>_.
     bindE (getE (\<lambda>s. notAlreadyHandled s (p_name new) (map fst groupRefs))) (\<lambda>others.
     bindE (modifyE (\<lambda>s. if p_name old \<noteq> p_name new
         then (foldl (\<lambda>s ga. updateGroupRow (removeUserName (p_name old)) ga s) s
                 (members (r_usernameToGroups s) (p_name old)))
              \<lparr>r_usernameToGroups := (r_usernameToGroups s)(p_name old := None)\<rparr> else s)) (\<lambda>_.
     bindE (modifyE (\<lambda>s. foldl (\<lambda>s ga. updateGroupRow (addUniqueUserName (p_name new)) ga s) s (map fst groupRefs))) (\<lambda>_.
     bindE (modifyE (\<lambda>s. foldl (\<lambda>s ga. updateGroupRow (removeUserName (p_name new)) ga s) s others)) (\<lambda>_.
     bindE (modifyE (\<lambda>s. s\<lparr>r_usernameToGroups := (r_usernameToGroups s)(p_name new := Some (map fst groupRefs))\<rparr>)) (\<lambda>_.
     bindE handles_save (\<lambda>_.
     bindE (if p_homeDir old \<noteq> p_homeDir new \<and> EnsureOpts_IsHomeDir opts
            then moveHomeDir (p_uid new) (p_gid new) (p_homeDir old) (p_homeDir new) (GetOnHomeDirExist opts)
            else returnE ()) (\<lambda>_.
     returnE (refAndGroupsToUser new grp (map snd groupRefs), EnsureResultModified))))))))))))"

definition ensureOpened :: "copier \<Rightarrow> requirement \<Rightarrow> bytes \<Rightarrow> ensure_opts option \<Rightarrow> (user \<times> ensure_result) rm" where
  "ensureOpened cp tReq skel opts s =
     (case ensurePreChecks s tReq opts of
        Inl e \<Rightarrow> (Inl e, s)
      | Inr (_, Some u) \<Rightarrow> (Inr (u, EnsureResultUnchanged), s)
      | Inr (existing, None) \<Rightarrow>
          bindE (ensureGroup (Some tReq) (rq_Group tReq) opts) (\<lambda>(_, grp, _).
          bindE (ensureGroups (rq_Groups tReq) opts) (\<lambda>groupRefs.
          case existing of
            None \<Rightarrow> createUser cp tReq skel opts grp groupRefs
          | Some ref \<Rightarrow> modifyUser tReq opts grp groupRefs ref)) s)"

definition Ensure :: "copier \<Rightarrow> requirement \<Rightarrow> ensure_opts option \<Rightarrow> (user \<times> ensure_result) rm" where
  "Ensure cp req opts s =
     (let tReq = Requirement_OrDefaults req in
      case ensurePreChecks s tReq opts of
        Inl e \<Rightarrow> (Inl e, s)
      | Inr (_, Some u) \<Rightarrow> (Inr (u, EnsureResultUnchanged), s)
      | Inr (_, None) \<Rightarrow>
          bindE openAndLoad (\<lambda>f. deferE (ensureOpened cp tReq (rq_Skel req) opts) (opened_close f)) s)"

end
