(* ===== verification/EtcDelete.thy ===== *)
theory EtcDelete
  imports EtcEnsure
begin

section \<open>Deleting users and groups (pkg/user/etc-colon-repository.go)\<close>

text \<open>
  \<^verbatim>\<open>DeleteById\<close>, \<^verbatim>\<open>DeleteByName\<close> and their group counterparts, through \<^verbatim>\<open>deleteRef\<close> and
  \<^verbatim>\<open>deleteGroupRef\<close>: the selection runs on the reloaded indexes, then the maps, the entries of the
  handles, the files, the processes and the home directory follow. The process table of
  \<^verbatim>\<open>gopsutil\<close> is \<open>w_procs\<close>: each process with the uids it reports.
\<close>

subsection \<open>Users\<close>

fun killEach :: "uint32 \<Rightarrow> (nat \<times> uint32 list) list \<Rightarrow> unit rm" where
  "killEach uid [] = returnE ()"
| "killEach uid ((pid, uids) # ps) =
     bindE (mapErrE ErrOs (os_Check OpUids (format_uint pid))) (\<lambda>_.
     if uids = [] \<or> hd uids \<noteq> uid then killEach uid ps
     else bindE (mapErrE ErrOs (os_Check OpKill (format_uint pid))) (\<lambda>_.
       bindE (modifyE (\<lambda>s. s\<lparr>w_procs := filter (\<lambda>p. fst p \<noteq> pid) (w_procs s)\<rparr>)) (\<lambda>_. killEach uid ps)))"

definition killAllOf :: "uint32 \<Rightarrow> unit rm" where
  "killAllOf uid =
     mapErrE (ErrCannotKill uid)
       (bindE (mapErrE ErrOs (os_Check OpProcesses [])) (\<lambda>_.
        bindE (getE w_procs) (\<lambda>ps. killEach uid ps)))"

text \<open>
  The two \<^verbatim>\<open>slices.DeleteFunc\<close> calls. The second one reads the name of the user's shadow row
  for every shadow entry, and panics when the user has none.
\<close>

definition withoutUid :: "(nat \<Rightarrow> etcPasswdEntry option) \<Rightarrow> uid \<Rightarrow> nat colon_entry list \<Rightarrow> nat colon_entry list" where
  "withoutUid h uid es = filter (\<lambda>e. map_option p_uid (Option.bind (ce_entry e) h) \<noteq> Some uid) es"

definition withoutShadow ::
    "(nat \<Rightarrow> etcShadowEntry option) \<Rightarrow> nat option \<Rightarrow> nat colon_entry list \<Rightarrow> user_err + nat colon_entry list" where
  "withoutShadow h shadow es =
     (case Option.bind shadow h of
        Some row \<Rightarrow> Inr (filter (\<lambda>e. map_option s_name (Option.bind (ce_entry e) h) \<noteq> Some (s_name row)) es)
      | None \<Rightarrow> if list_ex (\<lambda>e. ce_entry e \<noteq> None) es then Inl (Panic ''nil pointer dereference'') else Inr es)"

definition deleteOpened :: "delete_opts option \<Rightarrow> (repo \<Rightarrow> etcPasswdRef option) \<Rightarrow> unit rm" where
  "deleteOpened opts selector =
     bindE (getE selector) (\<lambda>sel.
     case sel of
       None \<Rightarrow> throwE ErrNoSuchUser
     | Some ref \<Rightarrow>
         bindE (getPasswdRow (pr_passwd ref)) (\<lambda>row.
         bindE (modifyE (\<lambda>s. s\<lparr>r_nameToUser := (r_nameToUser s)(p_name row := None),
                                r_idToUser := (r_idToUser s)(p_uid row := None)\<rparr>)) (\<lambda>_.
         bindE (modifyE (\<lambda>s. (foldl (\<lambda>s ga. updateGroupRow (removeUserName (p_name row)) ga s) s
                   (members (r_usernameToGroups s) (p_name row)))
                 \<lparr>r_usernameToGroups := (r_usernameToGroups s)(p_name row := None)\<rparr>)) (\<lambda>_.
         bindE (modifyE (\<lambda>s. s\<lparr>r_passwd := (r_passwd s)\<lparr>h_entries :=
                   withoutUid (r_heapP s) (p_uid row) (h_entries (r_passwd s))\<rparr>\<rparr>)) (\<lambda>_.
         bindE (\<lambda>s. (withoutShadow (r_heapS s) (pr_shadow ref) (h_entries (r_shadow s)), s)) (\<lambda>shadows.
         bindE (modifyE (\<lambda>s. s\<lparr>r_shadow := (r_shadow s)\<lparr>h_entries := shadows\<rparr>\<rparr>)) (\<lambda>_.
         bindE handles_save (\<lambda>_.
         bindE (if IsKillProcesses opts then killAllOf (p_uid row) else returnE ()) (\<lambda>_.
         if DeleteOpts_IsHomeDir opts then mapErrE ErrOs (os_RemoveAll (p_homeDir row)) else returnE ())))))))))"

definition deleteRef :: "delete_opts option \<Rightarrow> (repo \<Rightarrow> etcPasswdRef option) \<Rightarrow> unit rm" where
  "deleteRef opts selector = bindE openAndLoad (\<lambda>f. deferE (deleteOpened opts selector) (opened_close f))"

definition DeleteById :: "uid \<Rightarrow> delete_opts option \<Rightarrow> unit rm" where
  "DeleteById i opts = deleteRef opts (\<lambda>s. r_idToUser s i)"

definition DeleteByName :: "bytes \<Rightarrow> delete_opts option \<Rightarrow> unit rm" where
  "DeleteByName name opts = deleteRef opts (\<lambda>s. r_nameToUser s name)"

subsection \<open>Groups\<close>

definition withoutGid :: "(nat \<Rightarrow> etcGroupEntry option) \<Rightarrow> gid \<Rightarrow> nat colon_entry list \<Rightarrow> nat colon_entry list" where
  "withoutGid h gid es = filter (\<lambda>e. map_option g_gid (Option.bind (ce_entry e) h) \<noteq> Some gid) es"

definition groupUser :: "repo \<Rightarrow> gid \<Rightarrow> etcPasswdEntry option" where
  "groupUser s gid =
     find (\<lambda>e. p_gid e = gid) (List.map_filter (r_heapP s) (pointers (h_entries (r_passwd s))))"

definition deleteGroupOpened :: "(repo \<Rightarrow> nat option) \<Rightarrow> unit rm" where
  "deleteGroupOpened selector =
     bindE (getE selector) (\<lambda>sel.
     case sel of
       None \<Rightarrow> throwE ErrNoSuchGroup
     | Some a \<Rightarrow>
         bindE (getGroupRow a) (\<lambda>row.
         bindE (getE (\<lambda>s. groupUser s (g_gid row))) (\<lambda>usedBy.
         case usedBy of
           Some e \<Rightarrow> throwE (ErrGroupStillUsed (p_uid e) (p_name e))
         | None \<Rightarrow>
             bindE (modifyE (\<lambda>s. s\<lparr>r_nameToGroup := (r_nameToGroup s)(g_name row := None),
                                    r_idToGroup := (r_idToGroup s)(g_gid row := None),
                                    r_group := (r_group s)\<lparr>h_entries :=
                                      withoutGid (r_heapG s) (g_gid row) (h_entries (r_group s))\<rparr>\<rparr>)) (\<lambda>_.
             handles_save))))"

definition deleteGroupRef :: "(repo \<Rightarrow> nat option) \<Rightarrow> unit rm" where
  "deleteGroupRef selector = bindE openAndLoad (\<lambda>f. deferE (deleteGroupOpened selector) (opened_close f))"

definition DeleteGroupById :: "gid \<Rightarrow> unit rm" where
  "DeleteGroupById i = deleteGroupRef (\<lambda>s. r_idToGroup s i)"

definition DeleteGroupByName :: "bytes \<Rightarrow> unit rm" where
  "DeleteGroupByName name = deleteGroupRef (\<lambda>s. r_nameToGroup s name)"

end
