(* ===== verification/SysModel.thy ===== *)
theory SysModel
  imports GoLib "HOL-Library.AList" "HOL-Library.Multiset"
begin

section \<open>Signals and environment variables (pkg/sys)\<close>

text \<open>
  \<^verbatim>\<open>signal.go\<close> with the table of \<^verbatim>\<open>signal_unix.go\<close> (the numbers are those of Linux) and \<^verbatim>\<open>env.go\<close>. A Go map is an
  association list in the order of one iteration: the functions that range over a map take that list, and a statement
  about every iteration order is a statement about every list with the same multiset.
\<close>

subsection \<open>Upper case and hexadecimal numbers\<close>

text \<open>
  \<^verbatim>\<open>strings.ToUpper\<close>, exact as far as the result is compared with ASCII texts, the only use the sources make of it: beside
  the ASCII letters, two code points have an ASCII upper case, U+0131 (bytes C4 B1) and U+017F (bytes C5 BF).
\<close>

definition char_upper :: "char \<Rightarrow> char" where
  "char_upper c = (let n = of_char c :: nat in if 97 \<le> n \<and> n \<le> 122 then char_of (n - 32) else c)"

fun to_upper :: "bytes \<Rightarrow> bytes" where
  "to_upper (a # b # r) =
     (if a = CHR 0xC4 \<and> b = CHR 0xB1 then CHR ''I'' # to_upper r
      else if a = CHR 0xC5 \<and> b = CHR 0xBF then CHR ''S'' # to_upper r
      else char_upper a # to_upper (b # r))"
| "to_upper [a] = [char_upper a]"
| "to_upper [] = []"

definition hex_val :: "char \<Rightarrow> nat option" where
  "hex_val c =
     (let n = of_char c :: nat in
      if 48 \<le> n \<and> n \<le> 57 then Some (n - 48)
      else if 97 \<le> n \<and> n \<le> 102 then Some (n - 87)
      else if 65 \<le> n \<and> n \<le> 70 then Some (n - 55)
      else None)"

fun hexs_val :: "nat \<Rightarrow> bytes \<Rightarrow> nat option" where
  "hexs_val acc [] = Some acc"
| "hexs_val acc (c # cs) = (case hex_val c of None \<Rightarrow> None | Some d \<Rightarrow> hexs_val (16 * acc + d) cs)"

text \<open>\<^verbatim>\<open>strconv.ParseUint(s, 16, bits)\<close> and \<^verbatim>\<open>strconv.FormatUint(n, 16)\<close>.\<close>

definition parse_hex :: "nat \<Rightarrow> bytes \<Rightarrow> nat option" where
  "parse_hex bits s =
     (if s = [] then None
      else case hexs_val 0 s of None \<Rightarrow> None | Some n \<Rightarrow> if n < 2 ^ bits then Some n else None)"

definition hex_digit :: "nat \<Rightarrow> char" where
  "hex_digit d = (if d < 10 then char_of (48 + d) else char_of (87 + d))"

fun format_hex :: "nat \<Rightarrow> bytes" where
  "format_hex n = (if n < 16 then [hex_digit n] else format_hex (n div 16) @ [hex_digit (n mod 16)])"

declare format_hex.simps [simp del]

lemma less_16_cases: "(d::nat) < 16 \<Longrightarrow>
   d = 0 \<or> d = 1 \<or> d = 2 \<or> d = 3 \<or> d = 4 \<or> d = 5 \<or> d = 6 \<or> d = 7 \<or> d = 8 \<or> d = 9 \<or> d = 10 \<or> d = 11 \<or> d = 12 \<or> d = 13 \<or> d = 14 \<or> d = 15"
  by arith

lemma hex_digit_upper: "d < 16 \<Longrightarrow> hex_val (char_upper (hex_digit d)) = Some d"
  by (drule less_16_cases, elim disjE) (simp_all add: hex_digit_def hex_val_def char_upper_def)

lemma hex_digit_ascii: "d < 16 \<Longrightarrow> (of_char (hex_digit d) :: nat) < 128"
  by (simp add: hex_digit_def)

lemma hexs_val_append: "hexs_val acc (s @ t) = Option.bind (hexs_val acc s) (\<lambda>a. hexs_val a t)"
  by (induction acc s rule: hexs_val.induct) (auto split: option.splits)

lemma format_hex_nonempty [simp]: "format_hex n \<noteq> []"
  by (subst format_hex.simps) simp

lemma to_upper_ascii: "\<forall>c \<in> set s. (of_char c :: nat) < 128 \<Longrightarrow> to_upper s = map char_upper s"
  by (induction s rule: to_upper.induct) auto

lemma format_hex_ascii: "\<forall>c \<in> set (format_hex n). (of_char c :: nat) < 128"
proof (induction n rule: format_hex.induct)
  case (1 n)
  then show ?case by (cases "n < 16") (auto simp: format_hex.simps[of n] hex_digit_ascii)
qed

lemma hexs_val_upper: "hexs_val 0 (map char_upper (format_hex n)) = Some n"
proof (induction n rule: format_hex.induct)
  case (1 n)
  then show ?case
    by (cases "n < 16") (simp_all add: format_hex.simps[of n] hex_digit_upper hexs_val_append)
qed

lemma parse_upper_hex: "parse_hex bits (to_upper (format_hex n)) = (if n < 2 ^ bits then Some n else None)"
  by (simp add: parse_hex_def to_upper_ascii format_hex_ascii hexs_val_upper)

subsection \<open>Signals (signal.go, signal_unix.go)\<close>

type_synonym signal = "16 word"

definition strToSignal :: "(bytes \<times> signal) list" where
  "strToSignal =
     [(''ABRT'', 6), (''ALRM'', 14), (''BUS'', 7), (''CHLD'', 17), (''CLD'', 17), (''CONT'', 18), (''FPE'', 8),
      (''HUP'', 1), (''ILL'', 4), (''INT'', 2), (''IO'', 29), (''IOT'', 6), (''KILL'', 9), (''PIPE'', 13),
      (''POLL'', 29), (''PROF'', 27), (''PWR'', 30), (''QUIT'', 3), (''SEGV'', 11), (''STOP'', 19), (''SYS'', 31),
      (''TERM'', 15), (''TRAP'', 5), (''TSTP'', 20), (''TTIN'', 21), (''TTOU'', 22), (''URG'', 23), (''USR1'', 10),
      (''USR2'', 12), (''VTALRM'', 26), (''WINCH'', 28), (''XCPU'', 24), (''XFSZ'', 25)]"

text \<open>The reverse table: of two names of one signal, the one that the iteration reaches last stays.\<close>

definition signalToStr :: "(bytes \<times> signal) list \<Rightarrow> signal \<Rightarrow> bytes option" where
  "signalToStr order = foldl (\<lambda>m (str, sig). m(sig := Some str)) (\<lambda>_. None) order"

definition prefix0x :: bytes where "prefix0x = ''0x''"
definition prefix0X :: bytes where "prefix0X = ''0X''"
definition prefixSig :: bytes where "prefixSig = ''SIG''"

definition Signal_String :: "(bytes \<times> signal) list \<Rightarrow> signal \<Rightarrow> bytes" where
  "Signal_String order this =
     (if this = 0 then []
      else case signalToStr order this of
          None \<Rightarrow> prefix0x @ format_hex (unat this)
        | Some str \<Rightarrow> prefixSig @ str)"

text \<open>\<^verbatim>\<open>Set\<close>: \<open>None\<close> is \<^verbatim>\<open>ErrUnknownSignal\<close>, and leaves the receiver as it was.\<close>

definition Signal_Set :: "bytes \<Rightarrow> signal option" where
  "Signal_Set plain =
     (if length plain = 0 then Some 0
      else let plainU = to_upper plain in
        if take (length prefixSig) plainU = prefixSig
        then map_of strToSignal (drop (length prefixSig) plainU)
        else if take (length prefix0X) plainU = prefix0X
        then map_option of_nat (parse_hex 8 (drop (length prefix0X) plainU))
        else case map_of strToSignal plainU of
            Some candidate \<Rightarrow> Some candidate
          | None \<Rightarrow> map_option of_nat (parse_uint 8 plainU))"

text \<open>\<^verbatim>\<open>(*local).signal\<close> of \<^verbatim>\<open>pkg/environment/local_unix.go\<close>: what the process gets for a signal of the client.\<close>

abbreviation SIGKILL :: signal where "SIGKILL \<equiv> 9"

definition signalFor :: "bytes \<Rightarrow> signal" where
  "signalFor signal = (case Signal_Set signal of None \<Rightarrow> SIGKILL | Some sig \<Rightarrow> sig)"

lemma foldl_update:
  "foldl (\<lambda>m (str, sig). m(sig := Some str)) m0 order sig = Some str \<Longrightarrow>
   (str, sig) \<in> set order \<or> m0 sig = Some str"
  by (induction order arbitrary: m0) (fastforce split: if_splits)+

lemma foldl_update_dom:
  "foldl (\<lambda>m (str, sig). m(sig := Some str)) m0 order sig = None \<longleftrightarrow> sig \<notin> snd ` set order \<and> m0 sig = None"
  by (induction order arbitrary: m0) (auto split: if_splits)

lemma signalToStr_Some: "signalToStr order sig = Some str \<Longrightarrow> (str, sig) \<in> set order"
  using foldl_update[of "\<lambda>_. None" order sig str] by (simp add: signalToStr_def)

lemma signalToStr_None: "signalToStr order sig = None \<longleftrightarrow> sig \<notin> snd ` set order"
  by (simp add: signalToStr_def foldl_update_dom)

lemma strToSignal_table:
  "list_all (\<lambda>(str, sig). map_of strToSignal str = Some sig \<and> to_upper str = str) strToSignal"
  by code_simp

lemma strToSignal_names: "(str, sig) \<in> set strToSignal \<Longrightarrow> map_of strToSignal str = Some sig \<and> to_upper str = str"
  using strToSignal_table by (auto simp: list_all_iff)

lemma to_upper_prefix:
  "to_upper (''SIG'' @ s) = ''SIG'' @ to_upper s" "to_upper (''0x'' @ s) = ''0X'' @ to_upper s"
  by (cases s; simp add: char_upper_def char_of_eq_iff)+

subsection \<open>Environment variables (env.go)\<close>

text \<open>\<^verbatim>\<open>EnvVars\<close> is a map; a nil map and an empty one differ only in \<^verbatim>\<open>Strings\<close> returning nil, which is a list of length 0 as well.\<close>

type_synonym env_map = "(bytes \<times> bytes) list"

abbreviation EnvVars_set :: "bytes \<Rightarrow> bytes \<Rightarrow> env_map \<Rightarrow> env_map" where
  "EnvVars_set k v ev \<equiv> AList.update k v ev"

definition EnvVars_add :: "bytes \<Rightarrow> env_map \<Rightarrow> env_map" where
  "EnvVars_add line ev =
     (case bytes_splitN (CHR ''='') 2 line of
        [k] \<Rightarrow> EnvVars_set k [] ev
      | k # v # _ \<Rightarrow> EnvVars_set k v ev
      | [] \<Rightarrow> ev)"

definition EnvVars_Add :: "bytes list \<Rightarrow> env_map \<Rightarrow> env_map" where
  "EnvVars_Add lines ev = foldl (\<lambda>ev line. EnvVars_add line ev) ev lines"

fun EnvVars_setAll :: "bytes list \<Rightarrow> env_map \<Rightarrow> env_map" where
  "EnvVars_setAll (k # v # kv) ev = EnvVars_setAll kv (EnvVars_set k v ev)"
| "EnvVars_setAll _ ev = ev"

text \<open>\<^verbatim>\<open>Set\<close> panics when called with an odd number of arguments.\<close>

definition EnvVars_Set :: "bytes list \<Rightarrow> env_map \<Rightarrow> string + env_map" where
  "EnvVars_Set kOrV ev =
     (if length kOrV mod 2 \<noteq> 0 then Inl ''Set(..) should be called with an even number of arguments''
      else Inr (EnvVars_setAll kOrV ev))"

definition EnvVars_AddAllOf :: "env_map \<Rightarrow> env_map \<Rightarrow> env_map" where
  "EnvVars_AddAllOf other ev = foldl (\<lambda>ev (k, v). EnvVars_set k v ev) ev other"

text \<open>\<^verbatim>\<open>Strings\<close>, in one of the orders a range over the map can have.\<close>

definition EnvVars_Strings :: "env_map \<Rightarrow> bytes list" where
  "EnvVars_Strings ev = map (\<lambda>(k, v). k @ ''='' @ v) ev"

lemma map_of_foldl_update:
  "distinct (map fst other) \<Longrightarrow>
   map_of (EnvVars_AddAllOf other ev) = map_of ev ++ map_of other"
proof (induction other arbitrary: ev)
  case (Cons e other)
  then show ?case
    by (cases e) (auto simp: EnvVars_AddAllOf_def update_conv' fun_eq_iff map_add_def dom_def image_iff split: option.splits
        dest: map_of_SomeD)
qed (simp add: EnvVars_AddAllOf_def)

lemma EnvVars_add_shape: "\<exists>k v. CHR ''='' \<notin> set k \<and> EnvVars_add line ev = EnvVars_set k v ev"
proof (cases "CHR ''='' \<in> set line")
  case True
  then show ?thesis
    by (intro exI[of _ "takeWhile (\<lambda>x. x \<noteq> CHR ''='') line"] exI[of _ "tl (dropWhile (\<lambda>x. x \<noteq> CHR ''='') line)"])
      (auto simp: EnvVars_add_def numeral_2_eq_2 dest: set_takeWhileD split: list.splits)
next
  case False
  then have "dropWhile (\<lambda>x. x \<noteq> CHR ''='') line = []" by simp
  with False show ?thesis by (intro exI[of _ line] exI[of _ "[]"]) (simp add: EnvVars_add_def numeral_2_eq_2)
qed

lemma distinct_update [simp]: "distinct (map fst ev) \<Longrightarrow> distinct (map fst (AList.update k v ev))"
  by (rule distinct_update)

lemma distinct_EnvVars [intro]:
  "distinct (map fst ev) \<Longrightarrow> distinct (map fst (EnvVars_AddAllOf other ev))"
  "distinct (map fst ev) \<Longrightarrow> distinct (map fst (EnvVars_Add lines ev))"
proof -
  show "distinct (map fst ev) \<Longrightarrow> distinct (map fst (EnvVars_AddAllOf other ev))"
    by (induction other arbitrary: ev) (auto simp: EnvVars_AddAllOf_def)
  show "distinct (map fst ev) \<Longrightarrow> distinct (map fst (EnvVars_Add lines ev))"
  proof (induction lines arbitrary: ev)
    case (Cons l lines)
    obtain k v where "EnvVars_add l ev = EnvVars_set k v ev" using EnvVars_add_shape by blast
    with Cons show ?case by (simp add: EnvVars_Add_def)
  qed (simp add: EnvVars_Add_def)
qed

text \<open>The lines of a map whose keys hold no equals sign, added again in any order, give the map back.\<close>

lemma splitN_line: "CHR ''='' \<notin> set k \<Longrightarrow> bytes_splitN (CHR ''='') 2 (k @ ''='' @ v) = [k, v]"
  by (simp add: numeral_2_eq_2)

lemma EnvVars_add_line: "CHR ''='' \<notin> set k \<Longrightarrow> EnvVars_add (k @ ''='' @ v) ev = EnvVars_set k v ev"
  by (simp add: EnvVars_add_def splitN_line del: append_Cons append_Nil)

lemma EnvVars_Add_Strings:
  "\<forall>k \<in> fst ` set ev. CHR ''='' \<notin> set k \<Longrightarrow> EnvVars_Add (EnvVars_Strings ev) ev0 = EnvVars_AddAllOf ev ev0"
proof (induction ev arbitrary: ev0)
  case (Cons e ev)
  then show ?case
    using EnvVars_add_line[of "fst e" "snd e" ev0]
    by (cases e) (simp add: EnvVars_Add_def EnvVars_Strings_def EnvVars_AddAllOf_def)
qed (simp_all add: EnvVars_Add_def EnvVars_Strings_def EnvVars_AddAllOf_def)

subsection \<open>Properties\<close>

text \<open>
  the text of a signal is read back as that signal exactly for the signals below 256, whatever the
  order in which the table of names is turned around: the hexadecimal text of a larger one is written in full but
  read with 8 bits.
\<close>

theorem signal_text_roundtrip:
  assumes "mset order = mset strToSignal"
  shows "Signal_Set (Signal_String order s) = Some s \<longleftrightarrow> s < 256"
proof (cases "s = 0 \<or> signalToStr order s = None")
  case True
  have u: "unat s < 2 ^ 8 \<longleftrightarrow> s < 256" by (simp add: word_less_nat_alt)
  have "Signal_Set (prefix0x @ format_hex (unat s)) = (if unat s < 2 ^ 8 then Some s else None)"
    by (simp add: Signal_Set_def prefix0x_def prefixSig_def prefix0X_def to_upper_prefix[simplified] parse_upper_hex)
  with True u show ?thesis
    by (cases "s = 0") (auto simp: Signal_String_def Signal_Set_def)
next
  case False
  then obtain str where str: "signalToStr order s = Some str" "s \<noteq> 0" by auto
  have set: "set order = set strToSignal" using assms by (metis set_mset_mset)
  have i: "(str, s) \<in> set strToSignal" using signalToStr_Some[OF str(1)] set by simp
  note t = strToSignal_names[OF i]
  have "s < 256" using i by (auto simp: strToSignal_def)
  with t str show ?thesis
    by (simp add: Signal_String_def Signal_Set_def prefixSig_def to_upper_prefix[simplified])
qed

theorem signal_text_roundtrip_witness: "Signal_Set (Signal_String strToSignal 64) = Some 64"
  by (simp add: signal_text_roundtrip)

end
