(* ===== verification/EnvModel.thy ===== *)
theory EnvModel
  imports AuthModel EtcEnsure EtcDelete SysModel
begin

section \<open>The host, requests and templates of the environments (pkg/environment, pkg/configuration)\<close>

text \<open>
  An environment works on the user repository and on the session store of one host: they share the file tree, the
  clock, the failures and the processes. The record \<open>host\<close> holds that world once and beside it what each of the two
  keeps in memory; \<open>viaUsers\<close> and \<open>viaStore\<close> run an operation of one of them on the host. A template of the
  configuration is a function of the request, the evaluation of \<^verbatim>\<open>text/template\<close> being a parameter; a template that
  is not configured renders to the empty text.
\<close>

subsection \<open>The host\<close>

record host =
  ho_world :: world
  ho_users :: "unit repo_ext"
  ho_store :: "unit fsrepo_ext"

definition usersOf :: "host \<Rightarrow> repo" where
  "usersOf h = world.extend (ho_world h) (ho_users h)"

definition storeOf :: "host \<Rightarrow> fsrepo" where
  "storeOf h = world.extend (ho_world h) (ho_store h)"

definition putUsers :: "repo \<Rightarrow> host \<Rightarrow> host" where
  "putUsers u h = h\<lparr>ho_world := world.truncate u, ho_users := world.more u\<rparr>"

definition putStore :: "fsrepo \<Rightarrow> host \<Rightarrow> host" where
  "putStore s h = h\<lparr>ho_world := world.truncate s, ho_store := world.more s\<rparr>"

definition viaUsers :: "(user_err \<Rightarrow> 'e) \<Rightarrow> 'a rm \<Rightarrow> (host, 'e, 'a) sm" where
  "viaUsers w m h = (let (r, u) = m (usersOf h) in (map_sum w id r, putUsers u h))"

definition viaStore :: "('x \<Rightarrow> 'e) \<Rightarrow> (fsrepo, 'x, 'a) sm \<Rightarrow> (host, 'e, 'a) sm" where
  "viaStore w m h = (let (r, s) = m (storeOf h) in (map_sum w id r, putStore s h))"

lemma world_split: "world.extend (world.truncate u) (world.more u) = u"
  by (cases u) (simp add: world.defs)

lemma host_views [simp]:
  "usersOf (putUsers u h) = u" "storeOf (putStore s h) = s"
  "putUsers (usersOf h) h = h" "putStore (storeOf h) h = h"
  "ho_store (putUsers u h) = ho_store h" "ho_users (putStore s h) = ho_users h"
  by (simp_all add: usersOf_def storeOf_def putUsers_def putStore_def world_split) (simp_all add: world.defs)

lemma shared_world [simp]:
  "w_files (usersOf h) = w_files (ho_world h)" "w_files (storeOf h) = w_files (ho_world h)"
  "w_fault (usersOf h) = w_fault (ho_world h)" "w_fault (storeOf h) = w_fault (ho_world h)"
  "w_files (ho_world (putUsers u h)) = w_files u" "w_files (ho_world (putStore s h)) = w_files s"
  "w_fault (ho_world (putUsers u h)) = w_fault u" "w_fault (ho_world (putStore s h)) = w_fault s"
  by (simp_all add: usersOf_def storeOf_def putUsers_def putStore_def world.defs)

text \<open>An operation of the session store leaves what the user repository has in memory, and the other way round.\<close>

lemma viaStore_users: "viaStore w m h = (r, t) \<Longrightarrow> ho_users t = ho_users h"
  by (auto simp: viaStore_def split: prod.splits)

lemma viaUsers_store: "viaUsers w m h = (r, t) \<Longrightarrow> ho_store t = ho_store h"
  by (auto simp: viaUsers_def split: prod.splits)

lemma viaStore_eq: "m (storeOf h) = (r, s) \<Longrightarrow> viaStore w m h = (map_sum w id r, putStore s h)"
  by (simp add: viaStore_def)

lemma viaUsers_eq: "m (usersOf h) = (r, u) \<Longrightarrow> viaUsers w m h = (map_sum w id r, putUsers u h)"
  by (simp add: viaUsers_def)

subsection \<open>Errors (pkg/environment/repository.go, pkg/errors)\<close>

text \<open>\<open>EErrMsg\<close> is an error that wraps another one with \<^verbatim>\<open>fmt.Errorf\<close>, \<open>EErrTyped\<close> an error of \<^verbatim>\<open>errors.Newf\<close>.\<close>

datatype env_err =
    ErrNoSuchEnvironment
  | ErrNotAcceptable
  | EErrUser user_err
  | EErrSession sess_err
  | EErrText bytes
  | EErrMsg string env_err
  | EErrTyped err_type string "env_err option"

type_synonym 'a em = "(host, env_err, 'a) sm"

fun isNoSuchEnvironment :: "env_err \<Rightarrow> bool" where
  "isNoSuchEnvironment ErrNoSuchEnvironment = True"
| "isNoSuchEnvironment (EErrMsg _ e) = isNoSuchEnvironment e"
| "isNoSuchEnvironment (EErrTyped _ _ (Some e)) = isNoSuchEnvironment e"
| "isNoSuchEnvironment _ = False"

fun env_isNoSuchUser :: "env_err \<Rightarrow> bool" where
  "env_isNoSuchUser (EErrUser e) = (e = ErrNoSuchUser)"
| "env_isNoSuchUser (EErrMsg _ e) = env_isNoSuchUser e"
| "env_isNoSuchUser (EErrTyped _ _ (Some e)) = env_isNoSuchUser e"
| "env_isNoSuchUser _ = False"

definition wrapR :: "('e \<Rightarrow> 'f) \<Rightarrow> 'e + 'a \<Rightarrow> 'f + 'a" where
  "wrapR w r = map_sum w id r"

lemma wrapR_simps [simp]: "wrapR w (Inr x) = Inr x" "wrapR w (Inl e) = Inl (w e)" "wrapR w r = Inr x \<longleftrightarrow> r = Inr x"
  by (cases r; simp add: wrapR_def)+

subsection \<open>Contexts, requests and tasks (context.go, request.go, task.go)\<close>

record 'k env_context =
  ec_authorization :: "'k authorization"
  ec_remote :: "bytes \<times> bytes"

type_synonym task_type = "8 word"

abbreviation TaskTypeShell :: task_type where "TaskTypeShell \<equiv> 0"
abbreviation TaskTypeSftp :: task_type where "TaskTypeSftp \<equiv> 1"

definition TaskType_String :: "task_type \<Rightarrow> bytes" where
  "TaskType_String this =
     (if this = TaskTypeShell then ''shell'' else if this = TaskTypeSftp then ''sftp''
      else ''illegal-task-type-'' @ format_uint (unat this))"

text \<open>What a task reads of its ssh session: the command, the variables the client sent, whether it asked for its agent and for a terminal.\<close>

record 'k env_task = "'k env_context" +
  et_taskType :: task_type
  et_rawCommand :: bytes
  et_environ :: "bytes list"
  et_agentRequested :: bool
  et_pty :: "bytes option"

definition FindOpts_IsAutoCleanUpAllowed :: "bool option option \<Rightarrow> bool" where
  "FindOpts_IsAutoCleanUpAllowed this = (case this of Some (Some v) \<Rightarrow> v | _ \<Rightarrow> False)"

subsection \<open>Templates (pkg/configuration/user-requirement-template.go, group-requirement-template.go)\<close>

type_synonym ('k, 'a) tmpl = "'k env_context \<Rightarrow> env_err + 'a"
type_synonym 'k str_tmpl = "('k, bytes) tmpl option"

definition String_Render :: "'k str_tmpl \<Rightarrow> ('k, bytes) tmpl" where
  "String_Render this data = (case this of None \<Rightarrow> Inr [] | Some t \<Rightarrow> t data)"

record 'k group_requirement_template =
  gt_Gid :: "('k, gid) tmpl option"
  gt_Name :: "'k str_tmpl"

definition renderOptional :: "string \<Rightarrow> ('k, 'a) tmpl option \<Rightarrow> ('k, 'a option) tmpl" where
  "renderOptional key t data =
     (case t of None \<Rightarrow> Inr None | Some f \<Rightarrow> bindR (wrapR (EErrMsg key) (f data)) (\<lambda>v. Inr (Some v)))"

definition GroupRequirementTemplate_Render :: "'k group_requirement_template \<Rightarrow> ('k, group_requirement) tmpl" where
  "GroupRequirementTemplate_Render this data =
     bindR (renderOptional ''gid'' (gt_Gid this) data) (\<lambda>gid.
     bindR (wrapR (EErrMsg ''name'') (String_Render (gt_Name this) data)) (\<lambda>name.
     Inr \<lparr>gq_Gid = gid, gq_Name = name\<rparr>))"

fun GroupRequirementTemplates_Render :: "'k group_requirement_template list \<Rightarrow> ('k, group_requirement list) tmpl" where
  "GroupRequirementTemplates_Render [] data = Inr []"
| "GroupRequirementTemplates_Render (t # ts) data =
     bindR (wrapR (EErrMsg ''index'') (GroupRequirementTemplate_Render t data)) (\<lambda>g.
     bindR (GroupRequirementTemplates_Render ts data) (\<lambda>gs. Inr (g # gs)))"

record 'k user_requirement_template =
  ut_Name :: "'k str_tmpl"
  ut_DisplayName :: "'k str_tmpl"
  ut_Uid :: "('k, uid) tmpl option"
  ut_Group :: "'k group_requirement_template"
  ut_Groups :: "'k group_requirement_template list"
  ut_Shell :: "'k str_tmpl"
  ut_HomeDir :: "'k str_tmpl"
  ut_Skel :: "'k str_tmpl"

definition UserRequirementTemplate_Render :: "'k user_requirement_template \<Rightarrow> ('k, requirement) tmpl" where
  "UserRequirementTemplate_Render this data =
     bindR (wrapR (EErrMsg ''name'') (String_Render (ut_Name this) data)) (\<lambda>name.
     bindR (wrapR (EErrMsg ''displayName'') (String_Render (ut_DisplayName this) data)) (\<lambda>displayName.
     bindR (renderOptional ''uid'' (ut_Uid this) data) (\<lambda>uid.
     bindR (GroupRequirementTemplate_Render (ut_Group this) data) (\<lambda>grp.
     bindR (GroupRequirementTemplates_Render (ut_Groups this) data) (\<lambda>groups.
     bindR (wrapR (EErrMsg ''shell'') (String_Render (ut_Shell this) data)) (\<lambda>shell.
     bindR (wrapR (EErrMsg ''homeDir'') (String_Render (ut_HomeDir this) data)) (\<lambda>homeDir.
     bindR (wrapR (EErrMsg ''skel'') (String_Render (ut_Skel this) data)) (\<lambda>skel.
     Inr \<lparr>rq_Name = name, rq_DisplayName = displayName, rq_Uid = uid, rq_Group = grp, rq_Groups = groups,
          rq_Shell = shell, rq_HomeDir = homeDir, rq_Skel = skel\<rparr>))))))))"

end
