(* ===== verification/SharedEnvs.thy ===== *)
theory SharedEnvs
  imports EnvModel
begin

section \<open>Environments that connections share in memory (docker-repository.go, docker.go, kubernetes-repository.go, kubernetes.go)\<close>

text \<open>
  What the repositories of containers and of pods do alike. The state has everything outside of the program (\<open>'e\<close>: the engine or the
  cluster), the environments in memory (\<open>es_instances\<close>, never freed, so that an index stands for a pointer), the map of active ones, and
  the locks of the sessions. \<open>es_held\<close> has the locks that are not given up while this goroutine waits: those it holds itself, and those of
  goroutines that never go on. To wait for such a lock for writing, or to wait for writing on one that is held for reading, is never to
  return: this is the outcome \<open>NeverReturns\<close>, in which no deferred call runs, so that what is held stays held for everybody. A lock that
  another goroutine holds and gives up is waited for: the state an operation starts with is the one in which it got its first lock, and
  what other goroutines do between the lock for reading and the one for writing, the waiting included, is the function \<open>others\<close>;
  \<open>es_held (others u) = es_held u\<close> says that none of them gets stuck with the lock meanwhile. \<open>es_removed\<close> are the ids of what was asked to be
  removed.
\<close>

subsection \<open>The contract of environments that are shared in memory\<close>

text \<open>
  Repositories of containers and of pods keep at most one environment for a session in memory and hand it out again. \<open>active\<close> is what a
  state has for a session, \<open>session_of\<close> the session an environment belongs to, \<open>wanted\<close> the session of a request that is accepted.
\<close>

locale shared_environments =
  fixes ok :: "'s \<Rightarrow> bool" and active :: "'s \<Rightarrow> 'i \<Rightarrow> 'r option" and session_of :: "'s \<Rightarrow> 'r \<Rightarrow> 'i"
    and wanted :: "'q \<Rightarrow> 'i option" and ensure :: "'q \<Rightarrow> ('s, 'x, 'r) sm"
    and sought :: "'f \<Rightarrow> 'i" and find :: "'f \<Rightarrow> ('s, 'x, 'r) sm"
  assumes active_session: "ok s \<Longrightarrow> active s i = Some r \<Longrightarrow> session_of s r = i"
    and ensured: "ok s \<Longrightarrow> ensure q s = (Inr r, t) \<Longrightarrow> ok t \<and> (\<exists>i. wanted q = Some i \<and> active t i = Some r)"
    and found: "ok s \<Longrightarrow> find f s = (Inr r, t) \<Longrightarrow> ok t \<and> active t (sought f) = Some r"
    and active_found: "ok s \<Longrightarrow> active s (sought f) = Some r \<Longrightarrow> fst (find f s) = Inr r"
begin

lemma ensured_session:
  assumes "ok s" and "ensure q s = (Inr r, t)"
  shows "wanted q = Some (session_of t r)"
  using ensured[OF assms] active_session by fastforce

lemma found_session: "ok s \<Longrightarrow> find f s = (Inr r, t) \<Longrightarrow> session_of t r = sought f"
  using found active_session by fastforce

lemma ensured_then_found:
  assumes "ok s" and "ensure q s = (Inr r, t)" and "wanted q = Some (sought f)"
  shows "fst (find f t) = Inr r"
  using ensured[OF assms(1,2)] assms(3) active_found by fastforce

lemma not_wanted: "ok s \<Longrightarrow> wanted q = None \<Longrightarrow> isl (fst (ensure q s))"
  using ensured[of s q] by (cases "ensure q s"; cases "fst (ensure q s)") auto

end

subsection \<open>State and effects\<close>

datatype held = Free | Reading | Writing

text \<open>An environment in memory; \<open>ei_owners\<close> is its counter of owners, an \<^verbatim>\<open>atomic.Int32\<close>. The kinds of environments extend it.\<close>

record env_instance =
  ei_sessionId :: sid
  ei_owners :: "32 word"

record ('e, 'm) shared_state =
  es_engine :: 'e
  es_instances :: "'m env_instance_scheme list"
  es_active :: "sid \<Rightarrow> nat option"
  es_held :: "sid \<Rightarrow> held"
  es_removed :: "bytes list"

datatype shared_err = SErr env_err | NeverReturns

type_synonym ('e, 'm, 'a) em = "(('e, 'm) shared_state, shared_err, 'a) sm"

definition engineE :: "('x \<Rightarrow> env_err) \<Rightarrow> ('e \<Rightarrow> ('x + 'a) \<times> 'e) \<Rightarrow> ('e, 'm, 'a) em" where
  "engineE w call s = (let (r, e) = call (es_engine s) in (map_sum (SErr \<circ> w) id r, s\<lparr>es_engine := e\<rparr>))"

definition liftS :: "env_err + 'a \<Rightarrow> ('e, 'm, 'a) em" where
  "liftS r = liftE (map_sum SErr id r)"

definition onEnvErr :: "(env_err \<Rightarrow> env_err) \<Rightarrow> shared_err \<Rightarrow> shared_err" where
  "onEnvErr w e = (case e of SErr x \<Rightarrow> SErr (w x) | NeverReturns \<Rightarrow> NeverReturns)"

subsection \<open>Locks and owners\<close>

definition lockS :: "held \<Rightarrow> sid \<Rightarrow> ('e, 'm, unit) em" where
  "lockS mode i s =
     (if es_held s i = Writing \<or> (mode = Writing \<and> es_held s i = Reading) then (Inl NeverReturns, s)
      else (Inr (), s\<lparr>es_held := (es_held s)(i := mode)\<rparr>))"

definition unlockS :: "sid \<Rightarrow> ('e, 'm) shared_state \<Rightarrow> ('e, 'm) shared_state" where
  "unlockS i s = s\<lparr>es_held := (es_held s)(i := Free)\<rparr>"

text \<open>The lock until the function returns.\<close>

definition withLock :: "held \<Rightarrow> sid \<Rightarrow> ('e, 'm, 'a) em \<Rightarrow> ('e, 'm, 'a) em" where
  "withLock mode i m =
     bindE (lockS mode i) (\<lambda>_ s. case m s of (r, t) \<Rightarrow> (r, if r = Inl NeverReturns then t else unlockS i t))"

definition addOwner :: "int \<Rightarrow> nat \<Rightarrow> ('e, 'm) shared_state \<Rightarrow> ('e, 'm) shared_state" where
  "addOwner n ref s = s\<lparr>es_instances := (es_instances s)[ref := (es_instances s ! ref)\<lparr>ei_owners := ei_owners (es_instances s ! ref) + word_of_int n\<rparr>]\<rparr>"

text \<open>An active environment gets one more owner.\<close>

definition orActive :: "sid \<Rightarrow> ('e, 'm, nat) em \<Rightarrow> ('e, 'm, nat) em" where
  "orActive i m s = (case es_active s i of Some ref \<Rightarrow> (Inr ref, addOwner 1 ref s) | None \<Rightarrow> m s)"

text \<open>
  The read phase answers at once with an active environment or an error, else with what was found; the read lock is given up when it
  ends. Under the write lock \<open>fresh\<close> makes an environment unless there is an active one by then.
\<close>

definition readPhase :: "('e, 'm, 'f) em \<Rightarrow> sid \<Rightarrow> ('e, 'm, nat + 'f) em" where
  "readPhase search i =
     withLock Reading i (\<lambda>s.
       case es_active s i of
         Some ref \<Rightarrow> (Inr (Inl ref), addOwner 1 ref s)
       | None \<Rightarrow> bindE search (\<lambda>found. returnE (Inr found)) s)"

definition sharedOr ::
    "(('e, 'm) shared_state \<Rightarrow> ('e, 'm) shared_state) \<Rightarrow> sid \<Rightarrow> ('e, 'm, 'f) em \<Rightarrow> ('f \<Rightarrow> ('e, 'm, nat) em) \<Rightarrow> ('e, 'm, nat) em" where
  "sharedOr others i search fresh =
     bindE (readPhase search i) (\<lambda>r.
     case r of
       Inl ref \<Rightarrow> returnE ref
     | Inr found \<Rightarrow> (\<lambda>s. withLock Writing i (orActive i (fresh found)) (others s)))"

text \<open>\<open>remember\<close>: a new environment with one owner; it becomes the active one of the session only afterwards.\<close>

definition remember :: "'m env_instance_scheme \<Rightarrow> ('e, 'm, nat) em" where
  "remember env s = (Inr (length (es_instances s)), s\<lparr>es_instances := es_instances s @ [env\<lparr>ei_owners := 1\<rparr>]\<rparr>)"

definition activate :: "sid \<Rightarrow> nat \<Rightarrow> ('e, 'm, nat) em" where
  "activate i ref s = (Inr ref, s\<lparr>es_active := (es_active s)(i := Some ref)\<rparr>)"

text \<open>The loop that waits for the helper process: it ends without an error when all tries are used up.\<close>

datatype 'a try_result = TryOk 'a | TryAgain | TryFailed env_err

fun awaitReady ::
    "('e \<Rightarrow> env_err option) \<Rightarrow> ('e \<Rightarrow> 'a try_result \<times> 'e) \<Rightarrow> ('e \<Rightarrow> (env_err + unit) \<times> 'e) \<Rightarrow> nat \<Rightarrow> ('e, 'm, 'a option) em" where
  "awaitReady ctxErr probe sleep 0 = returnE None"
| "awaitReady ctxErr probe sleep (Suc tries) =
     (\<lambda>s. case ctxErr (es_engine s) of
        Some err \<Rightarrow> (Inl (SErr err), s)
      | None \<Rightarrow>
          (case probe (es_engine s) of
             (TryOk x, e) \<Rightarrow> (Inr (Some x), s\<lparr>es_engine := e\<rparr>)
           | (TryFailed err, e) \<Rightarrow> (Inl (SErr err), s\<lparr>es_engine := e\<rparr>)
           | (TryAgain, e) \<Rightarrow> bindE (engineE id sleep) (\<lambda>_. awaitReady ctxErr probe sleep tries) (s\<lparr>es_engine := e\<rparr>)))"

definition closeGuarded :: "nat \<Rightarrow> ('e, 'm, unit) em" where
  "closeGuarded ref s =
     (let t = addOwner (-1) ref s; env = es_instances t ! ref in
      (Inr (), if sint (ei_owners env) > 0 then t else t\<lparr>es_active := (es_active t)(ei_sessionId env := None)\<rparr>))"

subsection \<open>Errors of the program always return\<close>

definition returns :: "('e, 'm, 'a) em \<Rightarrow> bool" where
  "returns m \<longleftrightarrow> (\<forall>s. fst (m s) \<noteq> Inl NeverReturns)"

lemma returnsD: "returns m \<Longrightarrow> m s = (r, t) \<Longrightarrow> r \<noteq> Inl NeverReturns"
  unfolding returns_def by (metis fst_conv)

lemma returns_bind: "returns m \<Longrightarrow> (\<And>x. returns (f x)) \<Longrightarrow> returns (bindE m f)"
  unfolding returns_def by (auto simp: bindE_def split: prod.splits sum.splits) (metis fst_conv)+

lemma returns_engine: "returns (engineE w call)"
  by (auto simp: returns_def engineE_def split: prod.splits sum.splits) (metis map_sum.simps shared_err.distinct(1) o_apply sum.exhaust sum.inject(1) sum.distinct(1))

lemma returns_lift: "returns (liftS r)"
  by (cases r) (auto simp: returns_def liftS_def liftE_def)

lemma returns_simps [simp]: "returns (returnE x)" "returns (throwE (SErr e))"
  by (simp_all add: returns_def returnE_def throwE_def)

lemma returns_mapErr: "returns m \<Longrightarrow> returns (mapErrE (onEnvErr w) m)"
  by (auto simp: returns_def mapErrE_def onEnvErr_def map_sum_def split: sum.splits shared_err.splits)

lemma returns_onError: "returns m \<Longrightarrow> returns (onErrorE m c)"
  unfolding returns_def onErrorE_def by (auto split: prod.splits sum.splits) (metis fst_conv)

lemma returns_try: "returns (tryE m)"
  by (auto simp: returns_def tryE_def split: prod.splits)

lemma returns_remember: "returns (remember env)" "returns (activate i ref)"
  by (simp_all add: returns_def remember_def activate_def)

lemma returns_await: "returns (awaitReady ctxErr probe sleep n :: ('e, 'm, 'a option) em)"
proof (induction n)
  case (Suc n)
  have "returns (bindE (engineE id sleep) (\<lambda>_. awaitReady ctxErr probe sleep n :: ('e, 'm, 'a option) em))"
    by (intro returns_bind returns_engine Suc)
  then show ?case by (auto simp: returns_def split: option.splits prod.splits try_result.splits)
qed simp

lemmas returns_rules = returns_bind returns_engine returns_lift returns_mapErr returns_onError returns_try returns_remember returns_await returns_simps

subsection \<open>What operations leave as it is\<close>

definition memory :: "'m env_instance_scheme list \<times> (sid \<Rightarrow> nat option) \<times> (sid \<Rightarrow> held) \<Rightarrow> ('e, 'm) shared_state \<Rightarrow> bool" where
  "memory x s \<longleftrightarrow> (es_instances s, es_active s, es_held s) = x"

lemma memory_engine: "preserves (memory x) (engineE w call)"
  by (auto simp: preserves_def memory_def engineE_def split: prod.splits)

lemma memory_lift: "preserves (memory x) (liftS r)"
  by (simp add: preserves_def liftS_def liftE_def)

lemma memory_await: "preserves (memory x) (awaitReady ctxErr probe sleep n :: ('e, 'm, 'a option) em)"
proof (induction n)
  case (Suc n)
  have "preserves (memory x) (bindE (engineE id sleep) (\<lambda>_. awaitReady ctxErr probe sleep n :: ('e, 'm, 'a option) em))"
    by (intro preserve memory_engine Suc)
  then show ?case by (auto simp: preserves_def memory_def split: option.splits prod.splits try_result.splits)
qed (simp add: preserve)

lemmas memory_shared = memory_engine memory_lift memory_await

lemma memory_keeps: "(\<And>x. preserves (memory x) m) \<Longrightarrow> m s = (r, t) \<Longrightarrow> memory (es_instances s, es_active s, es_held s) t"
  by (rule preserves_result[of "memory (es_instances s, es_active s, es_held s)" m s r t]) (simp_all add: memory_def)

lemma engineE_Inr: "engineE w call s = (Inr x, t) \<longleftrightarrow> (\<exists>e. call (es_engine s) = (Inr x, e) \<and> t = s\<lparr>es_engine := e\<rparr>)"
  by (cases "call (es_engine s)"; cases "fst (call (es_engine s))") (auto simp: engineE_def)

lemma liftS_Inr: "liftS r s = (Inr x, t) \<longleftrightarrow> r = Inr x \<and> t = s"
  by (cases r) (auto simp: liftS_def liftE_def)

text \<open>Making an environment from what is prepared: \<open>prep\<close> touches nothing in memory.\<close>

lemma remember_cases:
  fixes prep :: "('e, 'm, 'm env_instance_scheme) em"
  assumes "mapErrE (onEnvErr w) (bindE prep remember) s = (r, t)" and p: "\<And>x. preserves (memory x) prep" and R: "returns prep"
  obtains (made) env u where "prep s = (Inr env, u)" "r = Inr (length (es_instances s))"
      "memory (es_instances s @ [env\<lparr>ei_owners := 1\<rparr>], es_active s, es_held s) t"
  | (failed) err where "r = Inl (SErr err)" "memory (es_instances s, es_active s, es_held s) t"
proof -
  obtain q u where q: "prep s = (q, u)" by (cases "prep s")
  note u = memory_keeps[OF p q]
  show thesis
  proof (cases q)
    case (Inl e)
    with R q obtain err where "e = SErr err" by (cases e) (auto simp: returns_def, metis fst_conv)
    with assms(1) Inl q u show thesis
      by (intro failed) (auto simp: mapErrE_def bindE_def onEnvErr_def)
  next
    case (Inr env)
    with assms(1) q u show thesis
      by (intro made[of env u]) (auto simp: mapErrE_def bindE_def remember_def memory_def)
  qed
qed

subsection \<open>Phases\<close>

definition locked :: "sid \<Rightarrow> ('e, 'm) shared_state \<Rightarrow> ('e, 'm) shared_state" where
  "locked i s = s\<lparr>es_held := (es_held s)(i := Writing)\<rparr>"

lemma withLock_free:
  "es_held s i = Free \<Longrightarrow> withLock mode i m s =
     (case m (s\<lparr>es_held := (es_held s)(i := mode)\<rparr>) of (r, t) \<Rightarrow> (r, if r = Inl NeverReturns then t else unlockS i t))"
  by (simp add: withLock_def lockS_def bindE_def)

lemma withLock_held: "es_held s i = Writing \<Longrightarrow> withLock mode i m s = (Inl NeverReturns, s)"
  by (simp add: withLock_def lockS_def bindE_def)

lemma readPhase_cases:
  fixes s t :: "('e, 'm) shared_state"
  assumes "readPhase search i s = (r, t)" and "es_held s i = Free"
    and m: "\<And>x. preserves (memory x) search" and R: "returns search"
  obtains (hit) ref where "es_active s i = Some ref" "r = Inr (Inl ref)" "t = addOwner 1 ref s"
  | (looked) c u where "es_active s i = None" "r = Inr (Inr c)" "memory (es_instances s, es_active s, es_held s) t"
      "search (s\<lparr>es_held := (es_held s)(i := Reading)\<rparr>) = (Inr c, u)"
  | (failed) err where "r = Inl (SErr err)" "memory (es_instances s, es_active s, es_held s) t"
proof -
  have restored: "(es_held s)(i := Free) = es_held s" using assms(2) by (simp add: fun_upd_idem)
  obtain q u where q: "search (s\<lparr>es_held := (es_held s)(i := Reading)\<rparr>) = (q, u)"
    by (cases "search (s\<lparr>es_held := (es_held s)(i := Reading)\<rparr>)")
  have u: "memory (es_instances s, es_active s, (es_held s)(i := Reading)) u"
    using memory_keeps[OF m q] by simp
  have N: "q \<noteq> Inl NeverReturns" by (rule returnsD[OF R q])
  show thesis
  proof (cases "es_active s i")
    case (Some ref)
    with assms restored show thesis by (intro hit) (auto simp: readPhase_def withLock_free unlockS_def addOwner_def)
  next
    case None
    show thesis
    proof (cases q)
      case (Inl e)
      with N obtain err where "e = SErr err" by (cases e) auto
      with assms None q Inl u restored show thesis
        by (intro failed) (auto simp: readPhase_def withLock_free unlockS_def memory_def bindE_def)
    next
      case (Inr c)
      with assms None q u restored show thesis
        by (intro looked) (auto simp: readPhase_def withLock_free unlockS_def memory_def bindE_def returnE_def)
    qed
  qed
qed

lemma sharedOr_active:
  assumes "es_held s i = Free" and "es_active s i = Some ref"
  shows "sharedOr others i search fresh s = (Inr ref, addOwner 1 ref s)"
proof -
  have "(es_held s)(i := Free) = es_held s" using assms(1) by (simp add: fun_upd_idem)
  with assms show ?thesis
    by (simp add: sharedOr_def readPhase_def withLock_free bindE_def returnE_def unlockS_def addOwner_def)
qed

lemma sharedOr_held: "es_held s i = Writing \<Longrightarrow> sharedOr others i search fresh s = (Inl NeverReturns, s)"
  by (simp add: sharedOr_def bindE_def readPhase_def withLock_held)

text \<open>What a search that found nothing active leads to.\<close>

lemma sharedOr_cases:
  assumes "es_held s i = Free" and "\<And>u. es_held (others u) = es_held u" and m: "\<And>x. preserves (memory x) search" and R: "returns search"
  obtains (ended) r t where "sharedOr others i search fresh s = (r, t)" "r \<noteq> Inl NeverReturns" "\<And>ref. r = Inr ref \<Longrightarrow> es_active s i = Some ref \<and> t = addOwner 1 ref s"
      "\<And>found u. readPhase search i s \<noteq> (Inr (Inr found), u)"
  | (locked) found u v where "readPhase search i s = (Inr (Inr found), u)" "memory (es_instances s, es_active s, es_held s) u"
      "search (s\<lparr>es_held := (es_held s)(i := Reading)\<rparr>) = (Inr found, v)"
      "sharedOr others i search fresh s =
         (case orActive i (fresh found) (locked i (others u)) of (r, t) \<Rightarrow> (r, if r = Inl NeverReturns then t else unlockS i t))"
proof -
  obtain q u where q: "readPhase search i s = (q, u)" by (cases "readPhase search i s")
  from q assms(1) m R show thesis
  proof (cases rule: readPhase_cases)
    case (hit ref)
    with q show thesis by (intro ended) (auto simp: sharedOr_def bindE_def returnE_def)
  next
    case (failed err)
    with q show thesis by (intro ended) (auto simp: sharedOr_def bindE_def)
  next
    case (looked found v)
    then have "es_held (others u) i = Free" using assms(1,2) by (simp add: memory_def)
    with looked q show thesis by (intro locked) (auto simp: sharedOr_def bindE_def withLock_free locked_def)
  qed
qed

subsection \<open>Active environments are those of their sessions\<close>

definition active_ok :: "('e, 'm) shared_state \<Rightarrow> bool" where
  "active_ok s \<longleftrightarrow> (\<forall>i r. es_active s i = Some r \<longrightarrow> r < length (es_instances s) \<and> ei_sessionId (es_instances s ! r) = i)"

definition others_ok :: "(('e, 'm) shared_state \<Rightarrow> ('e, 'm) shared_state) \<Rightarrow> bool" where
  "others_ok others \<longleftrightarrow> (\<forall>u. (active_ok u \<longrightarrow> active_ok (others u)) \<and> es_held (others u) = es_held u)"

lemma addOwner_session [simp]: "ei_sessionId (es_instances (addOwner n ref s) ! r) = ei_sessionId (es_instances s ! r)"
  by (cases "r = ref"; cases "r < length (es_instances s)") (simp_all add: addOwner_def not_less list_update_beyond)

lemma addOwner_memory [simp]:
  "es_active (addOwner n ref s) = es_active s" "es_held (addOwner n ref s) = es_held s" "length (es_instances (addOwner n ref s)) = length (es_instances s)"
  by (simp_all add: addOwner_def not_less list_update_beyond)

lemma addOwner_owners: "ref < length (es_instances s) \<Longrightarrow> ei_owners (es_instances (addOwner n ref s) ! ref) = ei_owners (es_instances s ! ref) + word_of_int n"
  by (simp add: addOwner_def)

lemma active_ok_owner [simp]: "active_ok (addOwner n ref s) \<longleftrightarrow> active_ok s"
  by (simp add: active_ok_def)

lemma active_ok_same: "memory (es_instances s, es_active s, h) t \<Longrightarrow> active_ok s \<Longrightarrow> active_ok t"
  by (auto simp: memory_def active_ok_def)

lemma active_ok_held [simp]: "active_ok (s\<lparr>es_held := h\<rparr>) \<longleftrightarrow> active_ok s" "active_ok (unlockS i s) \<longleftrightarrow> active_ok s" "active_ok (locked i s) \<longleftrightarrow> active_ok s"
  by (simp_all add: active_ok_def unlockS_def locked_def)

lemma remembered_active:
  assumes "active_ok s" and "memory (es_instances s @ [env], es_active s, es_held s) t" and "ei_sessionId env = i"
  shows "active_ok (t\<lparr>es_active := (es_active t)(i := Some (length (es_instances s)))\<rparr>)"
  using assms by (fastforce simp: memory_def active_ok_def nth_append)

text \<open>
  \<open>fresh_ok\<close>: when \<open>fresh\<close> makes an environment under the write lock of a session, it is the active one of the session and the locks are as
  they were; \<open>P\<close> is what is known of what the search found.
\<close>

definition fresh_ok :: "sid \<Rightarrow> ('f \<Rightarrow> bool) \<Rightarrow> ('f \<Rightarrow> ('e, 'm, nat) em) \<Rightarrow> bool" where
  "fresh_ok i P fresh \<longleftrightarrow>
     (\<forall>found s ref t. P found \<longrightarrow> active_ok s \<longrightarrow> es_held s i = Writing \<longrightarrow> fresh found s = (Inr ref, t) \<longrightarrow>
        active_ok t \<and> es_active t i = Some ref \<and> es_held t = es_held s)"

lemma fresh_okD:
  "fresh_ok i P fresh \<Longrightarrow> P found \<Longrightarrow> active_ok s \<Longrightarrow> es_held s i = Writing \<Longrightarrow> fresh found s = (Inr ref, t) \<Longrightarrow>
     active_ok t \<and> es_active t i = Some ref \<and> es_held t = es_held s"
  unfolding fresh_ok_def by blast

lemma sharedOr_success:
  assumes others: "others_ok others" and ok: "active_ok s" and free: "es_held s i = Free"
    and m: "\<And>x. preserves (memory x) search" and R: "returns search"
    and P: "\<And>s found t. search s = (Inr found, t) \<Longrightarrow> P found" and fresh: "fresh_ok i P fresh"
    and f: "sharedOr others i search fresh s = (Inr ref, t)"
  shows "active_ok t \<and> es_active t i = Some ref \<and> es_held t = es_held s"
proof -
  obtain q u where q: "readPhase search i s = (q, u)" by (cases "readPhase search i s")
  from q free m R show ?thesis
  proof (cases rule: readPhase_cases)
    case (hit r)
    with f q ok show ?thesis by (auto simp: sharedOr_def bindE_def returnE_def)
  next
    case (failed err)
    with f q show ?thesis by (simp add: sharedOr_def bindE_def)
  next
    case (looked found v)
    let ?u = "locked i (others u)"
    have o: "active_ok (others u)" "es_held (others u) = es_held s"
      using others active_ok_same[OF looked(3) ok] looked(3) by (auto simp: others_ok_def memory_def)
    obtain p w where p: "orActive i (fresh found) ?u = (p, w)" by (cases "orActive i (fresh found) ?u")
    have e: "p = Inr ref" "t = unlockS i w"
      using f q looked(2) free o(2) p by (auto simp: sharedOr_def bindE_def withLock_free locked_def)
    have u: "active_ok ?u" "es_held ?u = (es_held s)(i := Writing)" using o by (simp_all add: locked_def)
    have "active_ok w \<and> es_active w i = Some ref \<and> es_held w = es_held ?u"
    proof (cases "es_active ?u i")
      case None
      with p e(1) have "fresh found ?u = (Inr ref, w)" by (simp add: orActive_def)
      with fresh_okD[OF fresh P[OF looked(4)] u(1)] u(2) show ?thesis by simp
    next
      case (Some r)
      with p e(1) u show ?thesis by (auto simp: orActive_def)
    qed
    with e(2) u(2) free show ?thesis by (auto simp: unlockS_def active_ok_def)
  qed
qed

text \<open>A search that creates nothing but finds an error, or an environment under the write lock that returns, returns.\<close>

lemma sharedOr_returns:
  assumes "es_held s i = Free" and "\<And>u. es_held (others u) = es_held u" and "\<And>x. preserves (memory x) search" and "returns search"
    and fresh: "\<And>found. returns (fresh found)"
  shows "fst (sharedOr others i search fresh s) \<noteq> Inl NeverReturns"
proof -
  have "fst (orActive i (fresh found) u) \<noteq> Inl NeverReturns" for found u
    using fresh by (auto simp: orActive_def returns_def split: option.splits)
  then show ?thesis
    by (cases rule: sharedOr_cases[OF assms(1-4), where fresh = fresh]) (auto split: prod.splits, metis fst_conv)
qed

text \<open>An attempt that returns gives the lock up and keeps what is known of the active environments, failed or not.\<close>

definition fresh_keeps :: "sid \<Rightarrow> ('f \<Rightarrow> bool) \<Rightarrow> ('f \<Rightarrow> ('e, 'm, nat) em) \<Rightarrow> bool" where
  "fresh_keeps i P fresh \<longleftrightarrow>
     (\<forall>found s r t. P found \<longrightarrow> active_ok s \<longrightarrow> es_held s i = Writing \<longrightarrow> fresh found s = (r, t) \<longrightarrow>
        r \<noteq> Inl NeverReturns \<and> active_ok t \<and> es_held t = es_held s)"

lemma sharedOr_keeps:
  assumes others: "others_ok others" and ok: "active_ok s" and free: "es_held s i = Free"
    and m: "\<And>x. preserves (memory x) search" and R: "returns search"
    and P: "\<And>s found t. search s = (Inr found, t) \<Longrightarrow> P found" and fresh: "fresh_keeps i P fresh"
    and f: "sharedOr others i search fresh s = (r, t)"
  shows "r \<noteq> Inl NeverReturns \<and> active_ok t \<and> es_held t = es_held s"
proof -
  obtain q u where q: "readPhase search i s = (q, u)" by (cases "readPhase search i s")
  from q free m R show ?thesis
  proof (cases rule: readPhase_cases)
    case (hit ref)
    with f q ok show ?thesis by (auto simp: sharedOr_def bindE_def returnE_def)
  next
    case (failed err)
    with f q active_ok_same[OF failed(2) ok] show ?thesis by (auto simp: sharedOr_def bindE_def memory_def)
  next
    case (looked found v)
    let ?u = "locked i (others u)"
    have o: "active_ok (others u)" "es_held (others u) = es_held s"
      using others active_ok_same[OF looked(3) ok] looked(3) by (auto simp: others_ok_def memory_def)
    obtain p w where p: "orActive i (fresh found) ?u = (p, w)" by (cases "orActive i (fresh found) ?u")
    have u: "active_ok ?u" "es_held ?u = (es_held s)(i := Writing)" using o by (simp_all add: locked_def)
    have w: "p \<noteq> Inl NeverReturns \<and> active_ok w \<and> es_held w = es_held ?u"
    proof (cases "es_active ?u i")
      case None
      with p have "fresh found ?u = (p, w)" by (simp add: orActive_def)
      moreover have "es_held ?u i = Writing" using u(2) by simp
      ultimately show ?thesis using fresh P[OF looked(4)] u(1) unfolding fresh_keeps_def by blast
    next
      case (Some ref)
      with p u show ?thesis by (auto simp: orActive_def)
    qed
    have "r = p \<and> t = unlockS i w"
      using f q looked(2) free o(2) p w by (auto simp: sharedOr_def bindE_def withLock_free locked_def)
    with w u(2) free show ?thesis by (auto simp: unlockS_def active_ok_def)
  qed
qed

end
