(* ===== verification/NetModel.thy ===== *)
theory NetModel
  imports SysModel
begin

section \<open>Hosts, ports, purposes and addresses (pkg/net)\<close>

text \<open>
  An IP address is its bytes. What package \<^verbatim>\<open>net\<close> of the standard library does with it is the record \<open>net_lib\<close>:
  \<^verbatim>\<open>ParseIP\<close>, the text of an address, \<^verbatim>\<open>IP.Equal\<close> and \<^verbatim>\<open>ResolveTCPAddr\<close>. \<open>net_lib_ok\<close> states what the round trips rely
  on: the text of an address of 4 or 16 bytes is not empty, holds no bracket and parses to an equal address.
\<close>

record net_lib =
  nl_parseIP :: "bytes \<Rightarrow> bytes option"
  nl_ipText :: "bytes \<Rightarrow> bytes"
  nl_ipEqual :: "bytes \<Rightarrow> bytes \<Rightarrow> bool"
  nl_resolveTCP :: "bytes \<Rightarrow> bytes \<Rightarrow> bytes option"

definition net_lib_ok :: "net_lib \<Rightarrow> bool" where
  "net_lib_ok nl \<longleftrightarrow>
     (\<forall>ip. length ip \<in> {4, 16} \<longrightarrow>
        nl_ipText nl ip \<noteq> [] \<and> CHR ''['' \<notin> set (nl_ipText nl ip) \<and> CHR '']'' \<notin> set (nl_ipText nl ip) \<and>
        (\<exists>ip'. nl_parseIP nl (nl_ipText nl ip) = Some ip' \<and> ip' \<noteq> [] \<and> nl_ipEqual nl ip ip')) \<and>
     nl_ipEqual nl [] [] \<and> nl_parseIP nl [] = None"

datatype net_err =
    NetIllegalIp bytes
  | NetIllegalHostPort bytes
  | NetInvalidPort bytes
  | NetIllegalAddress bytes
  | ErrIllegalPurpose bytes

subsection \<open>Hosts (host.go)\<close>

record net_host =
  nh_IP :: bytes
  nh_Dns :: bytes

definition Host_String :: "net_lib \<Rightarrow> net_host \<Rightarrow> bytes" where
  "Host_String nl this = (if length (nh_IP this) \<noteq> 0 then nl_ipText nl (nh_IP this) else nh_Dns this)"

text \<open>\<^verbatim>\<open>IP.MarshalText\<close> refuses an address that has neither 4 nor 16 bytes.\<close>

definition Host_MarshalText :: "net_lib \<Rightarrow> net_host \<Rightarrow> net_err + bytes" where
  "Host_MarshalText nl this =
     (if length (nh_IP this) \<noteq> 0
      then if length (nh_IP this) = 4 \<or> length (nh_IP this) = 16 then Inr (nl_ipText nl (nh_IP this)) else Inl (NetIllegalIp (nh_IP this))
      else Inr (nh_Dns this))"

definition Host_UnmarshalText :: "net_lib \<Rightarrow> bytes \<Rightarrow> net_host" where
  "Host_UnmarshalText nl text =
     (if length text = 0 then \<lparr>nh_IP = [], nh_Dns = []\<rparr>
      else case nl_parseIP nl text of
          Some v \<Rightarrow> \<lparr>nh_IP = v, nh_Dns = []\<rparr>
        | None \<Rightarrow> \<lparr>nh_IP = [], nh_Dns = text\<rparr>)"

definition Host_IsZero :: "net_host \<Rightarrow> bool" where
  "Host_IsZero this \<longleftrightarrow> length (nh_IP this) = 0 \<and> nh_Dns this = []"

definition Host_Validate :: "net_host \<Rightarrow> net_err + unit" where
  "Host_Validate this =
     (if length (nh_IP this) = 4 \<or> length (nh_IP this) = 16 \<or> length (nh_IP this) = 0 then Inr () else Inl (NetIllegalIp (nh_IP this)))"

definition Host_isEqualTo :: "net_lib \<Rightarrow> net_host \<Rightarrow> net_host \<Rightarrow> bool" where
  "Host_isEqualTo nl a b \<longleftrightarrow> nl_ipEqual nl (nh_IP a) (nh_IP b) \<and> nh_Dns a = nh_Dns b"

subsection \<open>Hosts with ports (host-port.go)\<close>

record host_port =
  hp_Host :: net_host
  hp_Port :: "16 word"

definition bracketed :: "bytes \<Rightarrow> bytes" where
  "bracketed host = (if CHR '':'' \<in> set host then ''['' @ host @ '']'' else host)"

definition HostPort_String :: "net_lib \<Rightarrow> host_port \<Rightarrow> bytes" where
  "HostPort_String nl this =
     (let host = Host_String nl (hp_Host this) in
      if host = [] \<and> hp_Port this = 0 then []
      else bracketed host @ '':'' @ format_uint (unat (hp_Port this)))"

definition HostPort_Validate :: "host_port \<Rightarrow> net_err + unit" where
  "HostPort_Validate this =
     bindR (Host_Validate (hp_Host this)) (\<lambda>_.
     if (\<not> Host_IsZero (hp_Host this) \<and> hp_Port this = 0) \<or> (Host_IsZero (hp_Host this) \<and> hp_Port this > 0)
     then Inl (NetIllegalHostPort []) else Inr ())"

definition HostPort_MarshalText :: "net_lib \<Rightarrow> host_port \<Rightarrow> net_err + bytes" where
  "HostPort_MarshalText nl this =
     bindR (HostPort_Validate this) (\<lambda>_.
     bindR (Host_MarshalText nl (hp_Host this)) (\<lambda>host.
     if length host = 0 \<and> hp_Port this = 0 then Inr []
     else Inr (bracketed host @ '':'' @ format_uint (unat (hp_Port this)))))"

text \<open>The two halves of the text; \<^verbatim>\<open>len(in) < n+1\<close> cannot hold of an index in \<^verbatim>\<open>in\<close>.\<close>

definition splitHostPort :: "bytes \<Rightarrow> (bytes \<times> bytes) option" where
  "splitHostPort t =
     (if hd t = CHR ''[''
      then (case dropWhile (\<lambda>c. c \<noteq> CHR '']'') t of
              b # c # rest \<Rightarrow> if c = CHR '':'' then Some (tl (takeWhile (\<lambda>c. c \<noteq> CHR '']'') t), rest) else None
            | _ \<Rightarrow> None)
      else (case dropWhile (\<lambda>c. c \<noteq> CHR '':'') t of
              c # rest \<Rightarrow> Some (takeWhile (\<lambda>c. c \<noteq> CHR '':'') t, rest)
            | [] \<Rightarrow> None))"

definition HostPort_UnmarshalText :: "net_lib \<Rightarrow> bytes \<Rightarrow> net_err + host_port" where
  "HostPort_UnmarshalText nl text =
     (if length text = 0 then Inr \<lparr>hp_Host = \<lparr>nh_IP = [], nh_Dns = []\<rparr>, hp_Port = 0\<rparr>
      else case splitHostPort text of
          None \<Rightarrow> Inl (NetIllegalHostPort text)
        | Some (hostPart, portPart) \<Rightarrow>
            if CHR '':'' \<in> set portPart then Inl (NetIllegalHostPort text)
            else (case parse_uint 16 portPart of
                None \<Rightarrow> Inl (NetInvalidPort portPart)
              | Some port \<Rightarrow>
                  if port = 0 then Inl (NetInvalidPort portPart)
                  else Inr \<lparr>hp_Host = Host_UnmarshalText nl hostPart, hp_Port = of_nat port\<rparr>))"

definition HostPort_IsZero :: "host_port \<Rightarrow> bool" where
  "HostPort_IsZero this \<longleftrightarrow> Host_IsZero (hp_Host this) \<and> hp_Port this = 0"

definition HostPort_isEqualTo :: "net_lib \<Rightarrow> host_port \<Rightarrow> host_port \<Rightarrow> bool" where
  "HostPort_isEqualTo nl a b \<longleftrightarrow> Host_isEqualTo nl (hp_Host a) (hp_Host b) \<and> hp_Port a = hp_Port b"

subsection \<open>Purposes (pupose.go)\<close>

text \<open>A rune outside of ASCII is illegal, and so is each of its bytes.\<close>

fun purposeLoop :: "bool \<Rightarrow> bytes \<Rightarrow> bool" where
  "purposeLoop segmentStart [] = (\<not> segmentStart)"
| "purposeLoop segmentStart (c # cs) =
     (let n = of_char c :: nat in
      if (97 \<le> n \<and> n \<le> 122) \<or> (65 \<le> n \<and> n \<le> 90) then purposeLoop False cs
      else if 48 \<le> n \<and> n \<le> 57 then (if segmentStart then False else purposeLoop False cs)
      else if c = CHR ''-'' \<or> c = CHR ''.'' \<or> c = CHR ''_'' then (if segmentStart then False else purposeLoop True cs)
      else False)"

definition Purpose_Validate :: "bytes \<Rightarrow> net_err + unit" where
  "Purpose_Validate this =
     (if length this = 0 then Inr () else if purposeLoop True this then Inr () else Inl (ErrIllegalPurpose this))"

definition Purpose_MarshalText :: "bytes \<Rightarrow> net_err + bytes" where
  "Purpose_MarshalText this = bindR (Purpose_Validate this) (\<lambda>_. Inr this)"

text \<open>\<^verbatim>\<open>UnmarshalText\<close> on a receiver that holds \<open>this\<close>: the validation is of the receiver.\<close>

definition Purpose_UnmarshalText :: "bytes \<Rightarrow> bytes \<Rightarrow> net_err + bytes" where
  "Purpose_UnmarshalText this text = bindR (Purpose_Validate this) (\<lambda>_. Inr text)"

subsection \<open>Addresses to listen to (address.go)\<close>

text \<open>An address is nil or the text of a resolved TCP address.\<close>

definition Address_UnmarshalText :: "net_lib \<Rightarrow> bytes \<Rightarrow> net_err + bytes option" where
  "Address_UnmarshalText nl text =
     (if length text = 0 then Inr None
      else let (network, address) =
          (case bytes_splitN (CHR '':'') 2 text of
             n # a # _ \<Rightarrow> if n = ''tcp'' \<or> n = ''tcp4'' \<or> n = ''tcp6'' then (n, a) else (''tcp'', text)
           | _ \<Rightarrow> (''tcp'', text))
        in case nl_resolveTCP nl network address of
            None \<Rightarrow> Inl (NetIllegalAddress text)
          | Some v \<Rightarrow> Inr (Some v))"

text \<open>\<^verbatim>\<open>NewAddress\<close> drops the error.\<close>

definition NewAddress :: "net_lib \<Rightarrow> bytes \<Rightarrow> net_err + bytes option" where
  "NewAddress nl plain = (case Address_UnmarshalText nl plain of Inl _ \<Rightarrow> Inr None | Inr a \<Rightarrow> Inr a)"

definition NetAddresses_Trim :: "bytes option list \<Rightarrow> bytes option list" where
  "NetAddresses_Trim this = filter (\<lambda>e. e \<noteq> None) this"

subsection \<open>Properties\<close>

lemma format_uint_port: "parse_uint 16 (format_uint (unat (p :: 16 word))) = Some (unat p)"
  by (rule parse_format_uint) (use unsigned_less[of p, where 'a = nat] in simp)

lemma splitHostPort_bracketed:
  assumes "CHR ''['' \<notin> set h" "CHR '']'' \<notin> set h" "h \<noteq> []"
  shows "splitHostPort (bracketed h @ CHR '':'' # r) = Some (h, r)"
proof (cases "CHR '':'' \<in> set h")
  case True
  have "takeWhile (\<lambda>c. c \<noteq> CHR '']'') (CHR ''['' # h @ CHR '']'' # CHR '':'' # r) = CHR ''['' # h"
    "dropWhile (\<lambda>c. c \<noteq> CHR '']'') (CHR ''['' # h @ CHR '']'' # CHR '':'' # r) = CHR '']'' # CHR '':'' # r"
    using takeWhile_sep(1,2)[of "CHR '']''" "CHR ''['' # h" "CHR '':'' # r"] assms(2) by simp_all
  then show ?thesis using True by (simp add: bracketed_def splitHostPort_def)
next
  case False
  then have "hd (h @ CHR '':'' # r) \<noteq> CHR ''[''" using assms(1,3) by (cases h) auto
  then show ?thesis using False by (simp add: bracketed_def splitHostPort_def)
qed

text \<open>
  The text of a valid host with a port is read back as an equal host and the same port, whether the host is an
  address, whose colons are kept apart by brackets, or a name that is not itself the text of an address.
\<close>

theorem host_port_roundtrip:
  assumes "net_lib_ok nl" and "HostPort_MarshalText nl hp = Inr text"
    and "nh_IP (hp_Host hp) = [] \<Longrightarrow> nl_parseIP nl (nh_Dns (hp_Host hp)) = None \<and>
      CHR ''['' \<notin> set (nh_Dns (hp_Host hp)) \<and> CHR '']'' \<notin> set (nh_Dns (hp_Host hp))"
    and "nh_IP (hp_Host hp) \<noteq> [] \<Longrightarrow> nh_Dns (hp_Host hp) = []"
  shows "\<exists>hp'. HostPort_UnmarshalText nl text = Inr hp' \<and> HostPort_isEqualTo nl hp hp'"
proof (cases "Host_IsZero (hp_Host hp)")
  case True
  then have "hp_Port hp = 0" "text = []"
    using assms(2) by (auto simp: HostPort_MarshalText_def HostPort_Validate_def Host_Validate_def Host_IsZero_def
        Host_MarshalText_def bindR_Inr_iff word_neq_0_conv[symmetric] split: if_splits)
  then show ?thesis using True assms(1)
    by (cases hp) (auto simp: HostPort_UnmarshalText_def HostPort_isEqualTo_def Host_isEqualTo_def Host_IsZero_def net_lib_ok_def)
next
  case False
  let ?h = "Host_String nl (hp_Host hp)"
  have p: "hp_Port hp \<noteq> 0" and len: "length (nh_IP (hp_Host hp)) \<in> {0, 4, 16}"
    and tx: "text = bracketed ?h @ '':'' @ format_uint (unat (hp_Port hp))"
    using assms(2) False by (auto simp: HostPort_MarshalText_def HostPort_Validate_def Host_Validate_def
        Host_MarshalText_def Host_String_def bindR_Inr_iff split: if_splits)
  have h: "CHR ''['' \<notin> set ?h" "CHR '']'' \<notin> set ?h" "?h \<noteq> []"
    using assms(1,3) len False by (auto simp: Host_String_def net_lib_ok_def Host_IsZero_def)
  have un: "Host_isEqualTo nl (hp_Host hp) (Host_UnmarshalText nl ?h)"
  proof (cases "nh_IP (hp_Host hp) = []")
    case True
    then show ?thesis using assms(1,3) False
      by (simp add: Host_UnmarshalText_def Host_String_def Host_isEqualTo_def net_lib_ok_def Host_IsZero_def)
  next
    case False
    then obtain ip' where "nl_parseIP nl ?h = Some ip'" "nl_ipEqual nl (nh_IP (hp_Host hp)) ip'"
      using assms(1) len by (auto simp: Host_String_def net_lib_ok_def)
    then show ?thesis using h(3) assms(4)[OF False] by (simp add: Host_UnmarshalText_def Host_isEqualTo_def)
  qed
  have "CHR '':'' \<notin> set (format_uint (unat (hp_Port hp)))" by (rule not_digit_notin_format) (simp add: is_digit_def)
  moreover have "unat (hp_Port hp) \<noteq> 0" using p by (simp add: unat_eq_0)
  moreover have "text \<noteq> []" by (simp add: tx)
  ultimately have "HostPort_UnmarshalText nl text = Inr \<lparr>hp_Host = Host_UnmarshalText nl ?h, hp_Port = hp_Port hp\<rparr>"
    using splitHostPort_bracketed[OF h] by (simp add: HostPort_UnmarshalText_def tx format_uint_port)
  then show ?thesis using un by (simp add: HostPort_isEqualTo_def)
qed

text \<open>A library with one address of each length.\<close>

definition exNetLib :: net_lib where
  "exNetLib = \<lparr>nl_parseIP = (\<lambda>t. if t = ''0.4'' then Some (replicate 4 (CHR ''a'')) else if t = ''::6'' then Some (replicate 16 (CHR ''a'')) else None),
     nl_ipText = (\<lambda>ip. if length ip = 4 then ''0.4'' else ''::6''), nl_ipEqual = (\<lambda>a b. length a = length b),
     nl_resolveTCP = (\<lambda>n a. None)\<rparr>"

lemma exNetLib_ok: "net_lib_ok exNetLib"
  by (auto simp: net_lib_ok_def exNetLib_def)

theorem host_port_roundtrip_witness:
  "\<exists>hp'. HostPort_UnmarshalText exNetLib ''[::6]:8080'' = Inr hp' \<and>
     HostPort_isEqualTo exNetLib \<lparr>hp_Host = \<lparr>nh_IP = replicate 16 (CHR ''b''), nh_Dns = []\<rparr>, hp_Port = 8080\<rparr> hp'"
  by (rule host_port_roundtrip[OF exNetLib_ok])
    (simp_all add: HostPort_MarshalText_def HostPort_Validate_def Host_Validate_def Host_IsZero_def Host_MarshalText_def
      exNetLib_def bracketed_def format_uint.simps digit_char_def char_of_eq_iff)

text \<open>
  a purpose that is read into an empty variable is never checked: every text is accepted, also those the
  validation refuses.
\<close>

theorem purpose_read_unchecked:
  "Purpose_UnmarshalText [] text = Inr text \<and> (Purpose_MarshalText ''../x'' = Inl (ErrIllegalPurpose ''../x''))"
  by (simp add: Purpose_UnmarshalText_def Purpose_Validate_def Purpose_MarshalText_def)

end
