(* ===== verification/Enums.thy ===== *)
theory Enums
  imports SysModel AuthorizedKeys
begin

section \<open>Enumerations and their texts (pkg/sys, pkg/ssh, pkg/configuration, pkg/crypto)\<close>

text \<open>
  Many settings are 8-bit numbers with a table of their names. \<open>enum_text\<close> looks a code up in its table, \<open>enum_value\<close> is the lookup in
  the reversed table, which the source builds by ranging over the first one; \<open>enum_string\<close> is the text that log output shows for any
  number. A list of values is a text with commas: \<open>trimmed_list\<close> reads it as \<^verbatim>\<open>pkg/sys\<close> does, \<open>appended_list\<close> as \<^verbatim>\<open>pkg/ssh\<close> does, which adds
  to the values that are there. The locale \<open>enumeration\<close> holds what follows from a table without duplicates, and is interpreted with
  every table of the source.
\<close>

type_synonym 'v names = "('v \<times> bytes) list"

definition enum_text :: "'v names \<Rightarrow> 'v \<Rightarrow> bytes option" where
  "enum_text names this = map_of names this"

definition enum_value :: "'v names \<Rightarrow> bytes \<Rightarrow> 'v option" where
  "enum_value names text = map_of (map (\<lambda>(v, t). (t, v)) names) text"

definition enum_string :: "bytes \<Rightarrow> (8 word) names \<Rightarrow> 8 word \<Rightarrow> bytes" where
  "enum_string illegal names this = (case enum_text names this of Some v \<Rightarrow> v | None \<Rightarrow> illegal @ format_uint (unat this))"

fun trimmed_list :: "(bytes \<Rightarrow> 'v option) \<Rightarrow> bytes list \<Rightarrow> 'v list option" where
  "trimmed_list read [] = Some []"
| "trimmed_list read (part # parts) =
     (case read (bytes_TrimSpace part) of None \<Rightarrow> None | Some v \<Rightarrow> map_option ((#) v) (trimmed_list read parts))"

text \<open>What was appended before an illegal value stays: the result is the list and whether all of it was read.\<close>

fun appended_list :: "(bytes \<Rightarrow> 'v option) \<Rightarrow> bytes list \<Rightarrow> 'v list \<Rightarrow> 'v list \<times> bool" where
  "appended_list unmarshal [] this = (this, True)"
| "appended_list unmarshal (v # texts) this =
     (case unmarshal v of None \<Rightarrow> (this, False) | Some buf \<Rightarrow> appended_list unmarshal texts (this @ [buf]))"

fun texts_of :: "('v \<Rightarrow> bytes option) \<Rightarrow> 'v list \<Rightarrow> bytes list option" where
  "texts_of marshal [] = Some []"
| "texts_of marshal (v # vs) = (case marshal v of None \<Rightarrow> None | Some t \<Rightarrow> map_option ((#) t) (texts_of marshal vs))"

lemma map_of_rev:
  "distinct (map snd names) \<Longrightarrow> map_of (map (\<lambda>(v, t). (t, v)) names) t = Some v \<longleftrightarrow> (v, t) \<in> set names"
  by (subst map_of_eq_Some_iff) (force simp: o_def case_prod_beta)+

locale enumeration =
  fixes names :: "'v names"
  assumes codes: "distinct (map fst names)" and texts: "distinct (map snd names)"
    and plain: "list_all (\<lambda>(v, t). t \<noteq> [] \<and> CHR '','' \<notin> set t \<and> bytes_TrimSpace t = t) names"
begin

lemma value_iff_text: "enum_value names t = Some v \<longleftrightarrow> enum_text names v = Some t"
  using codes texts by (simp add: enum_value_def enum_text_def map_of_rev)

lemma value_of_text: "enum_text names v = Some t \<Longrightarrow> enum_value names t = Some v"
  by (simp add: value_iff_text)

lemma text_plain: "enum_text names v = Some t \<Longrightarrow> t \<noteq> [] \<and> CHR '','' \<notin> set t \<and> bytes_TrimSpace t = t"
  using plain by (auto simp: enum_text_def list_all_iff dest: map_of_SomeD)

lemma texts_plain: "texts_of (enum_text names) vs = Some ts \<Longrightarrow> t \<in> set ts \<Longrightarrow> CHR '','' \<notin> set t"
  by (induction vs arbitrary: ts) (auto split: option.splits dest: text_plain)

lemma texts_split:
  assumes "texts_of (enum_text names) vs = Some ts" and "vs \<noteq> []"
  shows "bytes_split (CHR '','') (bytes_join (CHR '','') ts) = ts"
proof (rule bytes_split_join)
  show "ts \<noteq> []" using assms by (cases vs) (auto split: option.splits)
qed (use assms texts_plain in blast)

lemma trimmed_texts: "texts_of (enum_text names) vs = Some ts \<Longrightarrow> trimmed_list (enum_value names) ts = Some vs"
  by (induction vs arbitrary: ts) (auto split: option.splits simp: value_of_text text_plain)

lemma appended_texts: "texts_of (enum_text names) vs = Some ts \<Longrightarrow> appended_list (enum_value names) ts this = (this @ vs, True)"
  by (induction vs arbitrary: ts this) (auto split: option.splits simp: value_of_text)

lemma trimmed_roundtrip:
  assumes "texts_of (enum_text names) vs = Some ts" and "vs \<noteq> []"
  shows "trimmed_list (enum_value names) (bytes_split (CHR '','') (bytes_join (CHR '','') ts)) = Some vs"
  using assms by (simp add: texts_split trimmed_texts)

lemma appended_roundtrip:
  assumes "texts_of (enum_text names) vs = Some ts" and "vs \<noteq> []"
  shows "appended_list (enum_value names) (bytes_split (CHR '','') (bytes_join (CHR '','') ts)) this = (this @ vs, True)"
  using assms by (simp add: texts_split appended_texts)

end

subsection \<open>Operating systems (os.go)\<close>

type_synonym sys_os = "8 word"

abbreviation OsUnknown :: sys_os where "OsUnknown \<equiv> 0"
abbreviation OsLinux :: sys_os where "OsLinux \<equiv> 1"
abbreviation OsWindows :: sys_os where "OsWindows \<equiv> 2"

definition osToName :: "sys_os names" where
  "osToName = [(OsLinux, ''linux''), (OsWindows, ''windows'')]"

definition osToExt :: "sys_os names" where
  "osToExt = [(OsWindows, ''.exe'')]"

definition Os_String :: "sys_os \<Rightarrow> bytes" where
  "Os_String this = enum_string ''illegal-os-'' osToName this"

definition Os_MarshalText :: "sys_os \<Rightarrow> bytes option" where
  "Os_MarshalText this = enum_text osToName this"

definition Os_UnmarshalText :: "bytes \<Rightarrow> sys_os option" where
  "Os_UnmarshalText text = enum_value osToName text"

definition Os_SetOci :: "bytes \<Rightarrow> sys_os option" where
  "Os_SetOci plain = Os_UnmarshalText plain"

definition Os_AppendExtToFilename :: "sys_os \<Rightarrow> bytes \<Rightarrow> bytes" where
  "Os_AppendExtToFilename this filename = filename @ (case map_of osToExt this of Some v \<Rightarrow> v | None \<Rightarrow> [])"

definition Os_IsUnix :: "sys_os \<Rightarrow> bool" where
  "Os_IsUnix this \<longleftrightarrow> this = OsLinux"

definition Oses_String :: "sys_os list \<Rightarrow> bytes" where
  "Oses_String this = bytes_join (CHR '','') (map Os_String this)"

definition Oses_Set :: "bytes \<Rightarrow> sys_os list option" where
  "Oses_Set plain = trimmed_list Os_UnmarshalText (bytes_split (CHR '','') plain)"

interpretation os: enumeration osToName
  by unfold_locales code_simp+

subsection \<open>Architectures (arch.go)\<close>

type_synonym sys_arch = "8 word"

abbreviation ArchUnknown :: sys_arch where "ArchUnknown \<equiv> 0"
abbreviation Arch386 :: sys_arch where "Arch386 \<equiv> 1"
abbreviation ArchAmd64 :: sys_arch where "ArchAmd64 \<equiv> 2"
abbreviation ArchArmV6 :: sys_arch where "ArchArmV6 \<equiv> 3"
abbreviation ArchArmV7 :: sys_arch where "ArchArmV7 \<equiv> 4"
abbreviation ArchArm64 :: sys_arch where "ArchArm64 \<equiv> 5"
abbreviation ArchRiscV64 :: sys_arch where "ArchRiscV64 \<equiv> 6"

record archDetails =
  ad_name :: bytes
  ad_bare :: bytes
  ad_oci :: bytes

definition archToDetails :: "(sys_arch \<times> archDetails) list" where
  "archToDetails =
     [(Arch386, \<lparr>ad_name = ''386'', ad_bare = [], ad_oci = []\<rparr>),
      (ArchAmd64, \<lparr>ad_name = ''amd64'', ad_bare = [], ad_oci = []\<rparr>),
      (ArchArmV6, \<lparr>ad_name = ''armv6'', ad_bare = ''arm'', ad_oci = ''arm/v6''\<rparr>),
      (ArchArmV7, \<lparr>ad_name = ''armv7'', ad_bare = ''arm'', ad_oci = ''arm/v7''\<rparr>),
      (ArchArm64, \<lparr>ad_name = ''arm64'', ad_bare = [], ad_oci = []\<rparr>),
      (ArchRiscV64, \<lparr>ad_name = ''riscv64'', ad_bare = [], ad_oci = []\<rparr>)]"

definition archNames :: "sys_arch names" where
  "archNames = map (\<lambda>(k, v). (k, ad_name v)) archToDetails"

definition archOciNames :: "sys_arch names" where
  "archOciNames = map (\<lambda>(k, v). (k, if ad_oci v \<noteq> [] then ad_oci v else ad_name v)) archToDetails"

definition Arch_String :: "sys_arch \<Rightarrow> bytes" where
  "Arch_String this = enum_string ''illegal-arch-'' archNames this"

definition Arch_Oci :: "sys_arch \<Rightarrow> bytes" where
  "Arch_Oci this =
     (case map_of archToDetails this of
        None \<Rightarrow> ''illegal-arch-'' @ format_uint (unat this)
      | Some v \<Rightarrow> if ad_oci v \<noteq> [] then ad_oci v else ad_name v)"

definition Arch_Bare :: "sys_arch \<Rightarrow> bytes" where
  "Arch_Bare this =
     (case map_of archToDetails this of
        None \<Rightarrow> ''illegal-arch-'' @ format_uint (unat this)
      | Some v \<Rightarrow> if ad_bare v \<noteq> [] then ad_bare v else ad_name v)"

definition Arch_MarshalText :: "sys_arch \<Rightarrow> bytes option" where
  "Arch_MarshalText this = map_option ad_name (map_of archToDetails this)"

definition Arch_UnmarshalText :: "bytes \<Rightarrow> sys_arch option" where
  "Arch_UnmarshalText text = enum_value archNames text"

definition Arch_SetOci :: "bytes \<Rightarrow> sys_arch option" where
  "Arch_SetOci plain = enum_value archOciNames plain"

definition Archs_String :: "sys_arch list \<Rightarrow> bytes" where
  "Archs_String this = bytes_join (CHR '','') (map Arch_String this)"

definition Archs_Set :: "bytes \<Rightarrow> sys_arch list option" where
  "Archs_Set plain = trimmed_list Arch_UnmarshalText (bytes_split (CHR '','') plain)"

interpretation arch: enumeration archNames
  by unfold_locales code_simp+

interpretation archOci: enumeration archOciNames
  by unfold_locales code_simp+

lemma Arch_MarshalText_names: "Arch_MarshalText this = enum_text archNames this"
proof -
  have "map_of (map (\<lambda>(k, v). (k, f v)) xs) k = map_option f (map_of xs k)"
    for f :: "archDetails \<Rightarrow> bytes" and xs and k :: sys_arch
    by (induction xs) auto
  then show ?thesis by (simp add: Arch_MarshalText_def enum_text_def archNames_def del: map_of_map)
qed

subsection \<open>Editions, binaries and which of them run where (edition.go, binaries.go, binary-compatibility.go)\<close>

type_synonym edition = "8 word"

abbreviation EditionGeneric :: edition where "EditionGeneric \<equiv> 1"
abbreviation EditionExtended :: edition where "EditionExtended \<equiv> 2"

definition editionToName :: "edition names" where
  "editionToName = [(EditionExtended, ''extended''), (EditionGeneric, ''generic'')]"

definition Edition_String :: "edition \<Rightarrow> bytes" where
  "Edition_String this = enum_string ''illegal-edition-'' editionToName this"

definition Edition_MarshalText :: "edition \<Rightarrow> bytes option" where
  "Edition_MarshalText this = enum_text editionToName this"

definition Edition_UnmarshalText :: "bytes \<Rightarrow> edition option" where
  "Edition_UnmarshalText text = (if length text = 0 then Some EditionGeneric else enum_value editionToName text)"

definition Editions_String :: "edition list \<Rightarrow> bytes" where
  "Editions_String this = bytes_join (CHR '','') (map Edition_String this)"

definition Editions_Set :: "bytes \<Rightarrow> edition list option" where
  "Editions_Set plain = trimmed_list Edition_UnmarshalText (bytes_split (CHR '','') plain)"

interpretation edition: enumeration editionToName
  by unfold_locales code_simp+

definition BifroestBinaryFileLocation :: "sys_os \<Rightarrow> bytes" where
  "BifroestBinaryFileLocation os =
     (if os = OsWindows then ''C:'' @ [CHR 0x5C] @ ''Program Files'' @ [CHR 0x5C] @ ''Engity'' @ [CHR 0x5C] @ ''Bifroest'' @ [CHR 0x5C] @ ''bifroest.exe''
      else if os = OsLinux then ''/usr/bin/bifroest'' else [])"

definition BifroestBinaryDirLocation :: "sys_os \<Rightarrow> bytes" where
  "BifroestBinaryDirLocation os =
     (if os = OsWindows then ''C:'' @ [CHR 0x5C] @ ''Program Files'' @ [CHR 0x5C] @ ''Engity'' @ [CHR 0x5C] @ ''Bifroest''
      else if os = OsLinux then ''/usr/bin'' else [])"

definition binaryCompatibilityMatrix :: "(sys_os \<times> (sys_arch \<times> sys_arch list) list) list" where
  "binaryCompatibilityMatrix =
     [(OsLinux, [(ArchAmd64, [Arch386]), (ArchArm64, [ArchArmV6, ArchArmV7])]),
      (OsWindows, [(ArchAmd64, [Arch386]), (ArchArm64, [ArchArmV6, ArchArmV7])])]"

definition IsBinaryCompatibleWithHost :: "sys_os \<Rightarrow> sys_arch \<Rightarrow> sys_os \<Rightarrow> sys_arch \<Rightarrow> bool" where
  "IsBinaryCompatibleWithHost binaryOs binaryArch hostOs hostArch =
     (if binaryOs \<noteq> hostOs then False
      else if binaryArch = hostArch then True
      else case map_of binaryCompatibilityMatrix hostOs of
          None \<Rightarrow> False
        | Some byOS \<Rightarrow> (case map_of byOS hostArch of None \<Rightarrow> False | Some byArch \<Rightarrow> binaryArch \<in> set byArch))"

subsection \<open>Modes of files (file-mode.go)\<close>

definition oct_val :: "char \<Rightarrow> nat option" where
  "oct_val c = (let n = of_char c :: nat in if 48 \<le> n \<and> n \<le> 55 then Some (n - 48) else None)"

fun octs_val :: "nat \<Rightarrow> bytes \<Rightarrow> nat option" where
  "octs_val acc [] = Some acc"
| "octs_val acc (c # cs) = (case oct_val c of None \<Rightarrow> None | Some d \<Rightarrow> octs_val (8 * acc + d) cs)"

fun format_oct :: "nat \<Rightarrow> bytes" where
  "format_oct n = (if n < 8 then [digit_char n] else format_oct (n div 8) @ [digit_char (n mod 8)])"

declare format_oct.simps [simp del]

definition FileMode_String :: "32 word \<Rightarrow> bytes" where
  "FileMode_String this =
     (let result = format_oct (unat this);
          ml = 4 - int (length result)
      in if ml > 0 then replicate (nat ml) (CHR ''0'') else result)"

definition FileMode_UnmarshalText :: "bytes \<Rightarrow> 32 word option" where
  "FileMode_UnmarshalText text =
     (if text = [] then None
      else case octs_val 0 text of None \<Rightarrow> None | Some n \<Rightarrow> if n < 2 ^ 32 then Some (of_nat n) else None)"

lemma oct_digit: "d < 8 \<Longrightarrow> oct_val (digit_char d) = Some d"
  by (simp add: oct_val_def digit_char_def)

lemma octs_val_append: "octs_val acc (s @ t) = Option.bind (octs_val acc s) (\<lambda>a. octs_val a t)"
  by (induction acc s rule: octs_val.induct) (auto split: option.splits)

lemma octs_val_format: "octs_val 0 (format_oct n) = Some n"
proof (induction n rule: format_oct.induct)
  case (1 n)
  then show ?case by (cases "n < 8") (simp_all add: format_oct.simps[of n] oct_digit octs_val_append)
qed

lemma format_oct_nonempty [simp]: "format_oct n \<noteq> []"
  by (subst format_oct.simps) simp

lemma format_oct_short: "length (format_oct n) < 4 \<longleftrightarrow> n < 512"
proof -
  have a: "length (format_oct m) = (if m < 8 then 1 else Suc (length (format_oct (m div 8))))" for m
    by (subst format_oct.simps) simp
  have z: "length (format_oct m) \<noteq> 0" for m by simp
  show ?thesis
    using z[of "n div 8 div 8 div 8"] by (simp add: a[of n] a[of "n div 8"] a[of "n div 8 div 8"] a[of "n div 8 div 8 div 8"]) auto
qed

lemma octs_zeros: "octs_val 0 (replicate k (CHR ''0'')) = Some 0"
  by (induction k) (simp_all add: oct_val_def)

lemma file_mode_text:
  "FileMode_UnmarshalText (FileMode_String m) = Some (if unat m < 512 then 0 else m)"
proof (cases "unat m < 512")
  case True
  then have "length (format_oct (unat m)) < 4" by (simp add: format_oct_short)
  then obtain k where k: "4 - length (format_oct (unat m)) = Suc k" by (metis Suc_diff_Suc)
  have "FileMode_String m = replicate (Suc k) (CHR ''0'')"
    using \<open>length _ < 4\<close> by (simp add: FileMode_String_def Let_def nat_diff_distrib' flip: k)
  with True octs_zeros[of "Suc k"] show ?thesis by (simp add: FileMode_UnmarshalText_def)
next
  case False
  then have "\<not> length (format_oct (unat m)) < 4" by (simp add: format_oct_short)
  with False show ?thesis
    by (simp add: FileMode_String_def FileMode_UnmarshalText_def octs_val_format) (use unsigned_less[of m, where ?'a = nat] in simp)
qed

subsection \<open>Ciphers (cipher.go)\<close>

type_synonym ssh_cipher = "8 word"

abbreviation CipherAes128Cbc :: ssh_cipher where "CipherAes128Cbc \<equiv> 0"
abbreviation Cipher3desCbc :: ssh_cipher where "Cipher3desCbc \<equiv> 1"
abbreviation CipherArcfour :: ssh_cipher where "CipherArcfour \<equiv> 2"
abbreviation CipherArcfour128 :: ssh_cipher where "CipherArcfour128 \<equiv> 3"
abbreviation CipherArcfour256 :: ssh_cipher where "CipherArcfour256 \<equiv> 4"
abbreviation CipherChacha20Poly1305 :: ssh_cipher where "CipherChacha20Poly1305 \<equiv> 5"
abbreviation CipherAes128Ctr :: ssh_cipher where "CipherAes128Ctr \<equiv> 6"
abbreviation CipherAes192Ctr :: ssh_cipher where "CipherAes192Ctr \<equiv> 7"
abbreviation CipherAes256Ctr :: ssh_cipher where "CipherAes256Ctr \<equiv> 8"
abbreviation CipherAes128Gcm :: ssh_cipher where "CipherAes128Gcm \<equiv> 9"
abbreviation CipherAes256Gcm :: ssh_cipher where "CipherAes256Gcm \<equiv> 10"

definition cipher2Name :: "ssh_cipher names" where
  "cipher2Name =
     [(CipherAes128Cbc, ''aes128-cbc''),
      (Cipher3desCbc, ''3des-cbc''),
      (CipherArcfour, ''arcfour''),
      (CipherArcfour128, ''arcfour128''),
      (CipherArcfour256, ''arcfour256''),
      (CipherChacha20Poly1305, ''chacha20-poly1305@openssh.com''),
      (CipherAes128Ctr, ''aes128-ctr''),
      (CipherAes192Ctr, ''aes192-ctr''),
      (CipherAes256Ctr, ''aes256-ctr''),
      (CipherAes128Gcm, ''aes128-gcm@openssh.com''),
      (CipherAes256Gcm, ''aes256-gcm@openssh.com'')]"

definition DefaultCiphers :: "ssh_cipher list" where
  "DefaultCiphers = [CipherAes256Gcm, CipherAes256Ctr, CipherAes192Ctr]"

definition Cipher_MarshalText :: "ssh_cipher \<Rightarrow> bytes option" where
  "Cipher_MarshalText this = enum_text cipher2Name this"

definition Cipher_String :: "ssh_cipher \<Rightarrow> bytes" where
  "Cipher_String this = enum_string ''illegal-ssh-cipher-'' cipher2Name this"

definition Cipher_UnmarshalText :: "bytes \<Rightarrow> ssh_cipher option" where
  "Cipher_UnmarshalText text = enum_value cipher2Name text"

definition Ciphers_MarshalText :: "ssh_cipher list \<Rightarrow> bytes option" where
  "Ciphers_MarshalText this = map_option (bytes_join (CHR '','')) (texts_of Cipher_MarshalText this)"

definition Ciphers_UnmarshalText :: "bytes \<Rightarrow> ssh_cipher list \<Rightarrow> ssh_cipher list \<times> bool" where
  "Ciphers_UnmarshalText text this = appended_list Cipher_UnmarshalText (bytes_split (CHR '','') text) this"

definition Ciphers_isEqualTo :: "ssh_cipher list \<Rightarrow> ssh_cipher list \<Rightarrow> bool" where
  "Ciphers_isEqualTo this other \<longleftrightarrow> length this = length other \<and> list_all2 (=) this other"

definition Ciphers_Contains :: "ssh_cipher list \<Rightarrow> ssh_cipher \<Rightarrow> bool" where
  "Ciphers_Contains this v \<longleftrightarrow> v \<in> set this"

interpretation ssh_cipher: enumeration cipher2Name
  by unfold_locales code_simp+

subsection \<open>Key exchanges (key-exchange.go)\<close>

type_synonym key_exchange = "8 word"

abbreviation KeyExchangeDh1Sha1 :: key_exchange where "KeyExchangeDh1Sha1 \<equiv> 0"
abbreviation KeyExchangeDh14Sha1 :: key_exchange where "KeyExchangeDh14Sha1 \<equiv> 1"
abbreviation KeyExchangeDh14Sha256 :: key_exchange where "KeyExchangeDh14Sha256 \<equiv> 2"
abbreviation KeyExchangeDh16Sha512 :: key_exchange where "KeyExchangeDh16Sha512 \<equiv> 3"
abbreviation KeyExchangeEcdh256 :: key_exchange where "KeyExchangeEcdh256 \<equiv> 4"
abbreviation KeyExchangeEcdh384 :: key_exchange where "KeyExchangeEcdh384 \<equiv> 5"
abbreviation KeyExchangeEcdh521 :: key_exchange where "KeyExchangeEcdh521 \<equiv> 6"
abbreviation KeyExchangeCurve25519Sha256LibSsh :: key_exchange where "KeyExchangeCurve25519Sha256LibSsh \<equiv> 7"
abbreviation KeyExchangeCurve25519Sha256 :: key_exchange where "KeyExchangeCurve25519Sha256 \<equiv> 8"
abbreviation KeyExchangeDhgexSha1 :: key_exchange where "KeyExchangeDhgexSha1 \<equiv> 9"
abbreviation KeyExchangeDhgexSha256 :: key_exchange where "KeyExchangeDhgexSha256 \<equiv> 10"
abbreviation KeyExchangeMlkem768x25519xSha256 :: key_exchange where "KeyExchangeMlkem768x25519xSha256 \<equiv> 11"

definition keyExchange2Name :: "key_exchange names" where
  "keyExchange2Name =
     [(KeyExchangeDh1Sha1, ''diffie-hellman-group1-sha1''),
      (KeyExchangeDh14Sha1, ''diffie-hellman-group14-sha1''),
      (KeyExchangeDh14Sha256, ''diffie-hellman-group14-sha256''),
      (KeyExchangeDh16Sha512, ''diffie-hellman-group16-sha512''),
      (KeyExchangeEcdh256, ''ecdh-sha2-nistp256''),
      (KeyExchangeEcdh384, ''ecdh-sha2-nistp384''),
      (KeyExchangeEcdh521, ''ecdh-sha2-nistp521''),
      (KeyExchangeCurve25519Sha256LibSsh, ''curve25519-sha256@libssh.org''),
      (KeyExchangeCurve25519Sha256, ''curve25519-sha256''),
      (KeyExchangeDhgexSha1, ''diffie-hellman-group-exchange-sha1''),
      (KeyExchangeDhgexSha256, ''diffie-hellman-group-exchange-sha256''),
      (KeyExchangeMlkem768x25519xSha256, ''mlkem768x25519-sha256'')]"

definition DefaultKeyExchanges :: "key_exchange list" where
  "DefaultKeyExchanges = [KeyExchangeCurve25519Sha256LibSsh, KeyExchangeCurve25519Sha256, KeyExchangeDh16Sha512, KeyExchangeMlkem768x25519xSha256]"

definition KeyExchange_MarshalText :: "key_exchange \<Rightarrow> bytes option" where
  "KeyExchange_MarshalText this = enum_text keyExchange2Name this"

definition KeyExchange_String :: "key_exchange \<Rightarrow> bytes" where
  "KeyExchange_String this = enum_string ''illegal-ssh-key-exchange-'' keyExchange2Name this"

definition KeyExchange_UnmarshalText :: "bytes \<Rightarrow> key_exchange option" where
  "KeyExchange_UnmarshalText text = enum_value keyExchange2Name text"

definition KeyExchanges_MarshalText :: "key_exchange list \<Rightarrow> bytes option" where
  "KeyExchanges_MarshalText this = map_option (bytes_join (CHR '','')) (texts_of KeyExchange_MarshalText this)"

definition KeyExchanges_UnmarshalText :: "bytes \<Rightarrow> key_exchange list \<Rightarrow> key_exchange list \<times> bool" where
  "KeyExchanges_UnmarshalText text this = appended_list KeyExchange_UnmarshalText (bytes_split (CHR '','') text) this"

definition KeyExchanges_isEqualTo :: "key_exchange list \<Rightarrow> key_exchange list \<Rightarrow> bool" where
  "KeyExchanges_isEqualTo this other \<longleftrightarrow> length this = length other \<and> list_all2 (=) this other"

definition KeyExchanges_Contains :: "key_exchange list \<Rightarrow> key_exchange \<Rightarrow> bool" where
  "KeyExchanges_Contains this v \<longleftrightarrow> v \<in> set this"

interpretation key_exchange: enumeration keyExchange2Name
  by unfold_locales code_simp+

subsection \<open>Message authentications (message-authentication.go)\<close>

type_synonym message_authentication = "8 word"

abbreviation MessageAuthenticationHmacSha1 :: message_authentication where "MessageAuthenticationHmacSha1 \<equiv> 0"
abbreviation MessageAuthenticationHmacSha1B96 :: message_authentication where "MessageAuthenticationHmacSha1B96 \<equiv> 1"
abbreviation MessageAuthenticationHmacSha2B256 :: message_authentication where "MessageAuthenticationHmacSha2B256 \<equiv> 2"
abbreviation MessageAuthenticationHmacSha2B512 :: message_authentication where "MessageAuthenticationHmacSha2B512 \<equiv> 3"
abbreviation MessageAuthenticationHmacSha2B256Etm :: message_authentication where "MessageAuthenticationHmacSha2B256Etm \<equiv> 4"
abbreviation MessageAuthenticationHmacSha2B512Etm :: message_authentication where "MessageAuthenticationHmacSha2B512Etm \<equiv> 5"

definition messageAuthentication2Name :: "message_authentication names" where
  "messageAuthentication2Name =
     [(MessageAuthenticationHmacSha1, ''hmac-sha1''),
      (MessageAuthenticationHmacSha1B96, ''hmac-sha1-96''),
      (MessageAuthenticationHmacSha2B256, ''hmac-sha2-256''),
      (MessageAuthenticationHmacSha2B512, ''hmac-sha2-512''),
      (MessageAuthenticationHmacSha2B256Etm, ''hmac-sha2-256-etm@openssh.com''),
      (MessageAuthenticationHmacSha2B512Etm, ''hmac-sha2-512-etm@openssh.com'')]"

definition DefaultMessageAuthentications :: "message_authentication list" where
  "DefaultMessageAuthentications = [MessageAuthenticationHmacSha2B512Etm, MessageAuthenticationHmacSha2B256Etm]"

definition MessageAuthentication_MarshalText :: "message_authentication \<Rightarrow> bytes option" where
  "MessageAuthentication_MarshalText this = enum_text messageAuthentication2Name this"

definition MessageAuthentication_String :: "message_authentication \<Rightarrow> bytes" where
  "MessageAuthentication_String this = enum_string ''illegal-ssh-message-authentication-'' messageAuthentication2Name this"

definition MessageAuthentication_UnmarshalText :: "bytes \<Rightarrow> message_authentication option" where
  "MessageAuthentication_UnmarshalText text = enum_value messageAuthentication2Name text"

definition MessageAuthentications_MarshalText :: "message_authentication list \<Rightarrow> bytes option" where
  "MessageAuthentications_MarshalText this = map_option (bytes_join (CHR '','')) (texts_of MessageAuthentication_MarshalText this)"

definition MessageAuthentications_UnmarshalText :: "bytes \<Rightarrow> message_authentication list \<Rightarrow> message_authentication list \<times> bool" where
  "MessageAuthentications_UnmarshalText text this = appended_list MessageAuthentication_UnmarshalText (bytes_split (CHR '','') text) this"

definition MessageAuthentications_isEqualTo :: "message_authentication list \<Rightarrow> message_authentication list \<Rightarrow> bool" where
  "MessageAuthentications_isEqualTo this other \<longleftrightarrow> length this = length other \<and> list_all2 (=) this other"

definition MessageAuthentications_Contains :: "message_authentication list \<Rightarrow> message_authentication \<Rightarrow> bool" where
  "MessageAuthentications_Contains this v \<longleftrightarrow> v \<in> set this"

interpretation message_authentication: enumeration messageAuthentication2Name
  by unfold_locales code_simp+

subsection \<open>Pull policies (pkg/configuration/pull-policy.go)\<close>

text \<open>Two more names are read as \<open>PullPolicyIfAbsent\<close>.\<close>

type_synonym pull_policy = "8 word"

abbreviation PullPolicyIfAbsent :: pull_policy where "PullPolicyIfAbsent \<equiv> 0"
abbreviation PullPolicyAlways :: pull_policy where "PullPolicyAlways \<equiv> 1"
abbreviation PullPolicyNever :: pull_policy where "PullPolicyNever \<equiv> 2"

definition pullPolicyToName :: "pull_policy names" where
  "pullPolicyToName = [(PullPolicyIfAbsent, ''ifAbsent''), (PullPolicyAlways, ''always''), (PullPolicyNever, ''never'')]"

definition nameToPullPolicy :: "bytes \<Rightarrow> pull_policy option" where
  "nameToPullPolicy text =
     (if text = [] \<or> text = ''if-absent'' then Some PullPolicyIfAbsent else enum_value pullPolicyToName text)"

definition PullPolicy_MarshalText :: "pull_policy \<Rightarrow> bytes option" where
  "PullPolicy_MarshalText this = enum_text pullPolicyToName this"

definition PullPolicy_String :: "pull_policy \<Rightarrow> bytes" where
  "PullPolicy_String this = enum_string ''illegal-pull-policy-'' pullPolicyToName this"

definition PullPolicy_UnmarshalText :: "bytes \<Rightarrow> pull_policy option" where
  "PullPolicy_UnmarshalText text = nameToPullPolicy text"

interpretation pullPolicy: enumeration pullPolicyToName
  by unfold_locales code_simp+

lemma pull_policy_read_back:
  assumes "PullPolicy_MarshalText p = Some t" shows "PullPolicy_UnmarshalText t = Some p"
proof -
  have "t \<noteq> ''if-absent''"
  proof
    assume "t = ''if-absent''"
    with assms have "enum_value pullPolicyToName ''if-absent'' = Some p"
      by (simp add: PullPolicy_MarshalText_def pullPolicy.value_iff_text)
    moreover have "enum_value pullPolicyToName ''if-absent'' = None" by code_simp
    ultimately show False by simp
  qed
  with assms pullPolicy.text_plain[of p t] show ?thesis
    by (simp add: PullPolicy_MarshalText_def PullPolicy_UnmarshalText_def nameToPullPolicy_def pullPolicy.value_of_text)
qed

subsection \<open>Lists of settings are read back\<close>

lemma ssh_lists_read_back:
  "Ciphers_MarshalText cs = Some t \<Longrightarrow> cs \<noteq> [] \<Longrightarrow> Ciphers_UnmarshalText t this = (this @ cs, True)"
  "KeyExchanges_MarshalText ks = Some t \<Longrightarrow> ks \<noteq> [] \<Longrightarrow> KeyExchanges_UnmarshalText t this = (this @ ks, True)"
  "MessageAuthentications_MarshalText ms = Some t \<Longrightarrow> ms \<noteq> [] \<Longrightarrow> MessageAuthentications_UnmarshalText t this = (this @ ms, True)"
  by (auto simp: Ciphers_MarshalText_def Ciphers_UnmarshalText_def Cipher_MarshalText_def[abs_def] Cipher_UnmarshalText_def[abs_def]
      KeyExchanges_MarshalText_def KeyExchanges_UnmarshalText_def KeyExchange_MarshalText_def[abs_def] KeyExchange_UnmarshalText_def[abs_def]
      MessageAuthentications_MarshalText_def MessageAuthentications_UnmarshalText_def MessageAuthentication_MarshalText_def[abs_def]
      MessageAuthentication_UnmarshalText_def[abs_def] ssh_cipher.appended_roundtrip key_exchange.appended_roundtrip
      message_authentication.appended_roundtrip)

text \<open>What the texts of all values are when no value is illegal.\<close>

lemma strings_of: "list_all (\<lambda>v. f v \<noteq> None) vs \<Longrightarrow> texts_of f vs = Some (map (\<lambda>v. the (f v)) vs)"
  by (induction vs) auto

lemma platforms_read_back:
  assumes "list_all (\<lambda>v. Os_MarshalText v \<noteq> None) vs" and "vs \<noteq> []"
    and "list_all (\<lambda>a. Arch_MarshalText a \<noteq> None) as" and "as \<noteq> []"
  shows "Oses_Set (Oses_String vs) = Some vs \<and> Archs_Set (Archs_String as) = Some as"
proof -
  have o: "map (\<lambda>v. the (enum_text osToName v)) vs = map Os_String vs"
    using assms(1) by (auto simp: list_all_iff Os_MarshalText_def Os_String_def enum_string_def)
  have a: "map (\<lambda>v. the (enum_text archNames v)) as = map Arch_String as"
    using assms(3) by (auto simp: list_all_iff Arch_MarshalText_names Arch_String_def enum_string_def)
  have "Oses_Set (Oses_String vs) = Some vs"
        using os.trimmed_roundtrip[OF strings_of assms(2)] assms(1)
    by (simp add: Oses_Set_def Oses_String_def Os_MarshalText_def Os_UnmarshalText_def[abs_def] flip: o)
  moreover have "Archs_Set (Archs_String as) = Some as"
        using arch.trimmed_roundtrip[OF strings_of assms(4)] assms(3)
    by (simp add: Archs_Set_def Archs_String_def Arch_MarshalText_names Arch_UnmarshalText_def[abs_def] flip: a)
  ultimately show ?thesis by simp
qed

end
