(* ===== verification/ImpWire.thy ===== *)
theory ImpWire
  imports NetModel AuthorizedKeys
begin

section \<open>Messages to the helper process (pkg/errors, pkg/connection, internal/imp/protocol)\<close>

text \<open>
  The helper process inside an environment (imp) and the service talk over a stream of bytes. What a message is made of is
  here: the errors of the program and how they travel, ids of connections, methods, headers, requests and responses. The
  encoding of numbers and strings is that of a library, the parameter \<open>msgpack\<close>. \<open>carries m d w\<close> says that reading with \<open>d\<close> what
  \<open>m\<close> wrote gives \<open>w\<close> and leaves what follows; the locale \<open>message\<close> is the promise that a type of messages travels so.
\<close>

named_theorems carry "rules that show that what is written is read back"

subsection \<open>Errors (pkg/errors/error.go, type.go, remote.go)\<close>

type_synonym error_type = "8 word"

abbreviation ErrUnknownType :: error_type where "ErrUnknownType \<equiv> 0"
abbreviation ErrSystem :: error_type where "ErrSystem \<equiv> 1"
abbreviation ErrConfig :: error_type where "ErrConfig \<equiv> 2"
abbreviation ErrNetwork :: error_type where "ErrNetwork \<equiv> 3"

definition strToType :: "(bytes \<times> error_type) list" where
  "strToType = [(''unknown'', 0), (''system'', 1), (''config'', 2), (''network'', 3), (''user'', 4), (''permission'', 5), (''expired'', 6)]"

definition typeToStr :: "error_type \<Rightarrow> bytes option" where
  "typeToStr t = map_of (map (\<lambda>(k, v). (v, k)) strToType) t"

definition Type_String :: "error_type \<Rightarrow> bytes" where
  "Type_String t = (case typeToStr t of Some v \<Rightarrow> v | None \<Rightarrow> ''unknown-error-type-'' @ format_uint (unat t))"

definition Type_MarshalText :: "error_type \<Rightarrow> bytes option" where
  "Type_MarshalText t = typeToStr t"

definition Type_Set :: "bytes \<Rightarrow> error_type option" where
  "Type_Set plain = map_of strToType (to_lower plain)"

text \<open>
  An error of another package with its text and what it wraps, an error of the \<^verbatim>\<open>net\<close> or \<^verbatim>\<open>syscall\<close> packages that is shown to
  users, an \<^verbatim>\<open>*errors.Error\<close>, a \<^verbatim>\<open>RemoteError\<close>.
\<close>

datatype net_kind = DNSError | AddrError | InvalidAddrError | UnknownNetworkError | ParseError | Errno | OpError

datatype go_error =
    ErrPlain bytes "go_error option"
  | ErrNet net_kind bytes "go_error option"
  | ErrTyped error_type bytes "go_error option" bool
  | ErrRemote go_error

fun error_text :: "go_error \<Rightarrow> bytes" where
  "error_text (ErrPlain m _) = m"
| "error_text (ErrNet _ m _) = m"
| "error_text (ErrTyped _ m _ _) = m"
| "error_text (ErrRemote e) = error_text e"

text \<open>\<^verbatim>\<open>IsError\<close>: the first \<^verbatim>\<open>*errors.Error\<close> in the chain: its type, text and whether it is for users.\<close>

fun IsError :: "go_error \<Rightarrow> (error_type \<times> bytes \<times> bool) option" where
  "IsError (ErrTyped t m _ u) = Some (t, m, u)"
| "IsError (ErrRemote e) = IsError e"
| "IsError (ErrPlain _ None) = None"
| "IsError (ErrPlain _ (Some e)) = IsError e"
| "IsError (ErrNet _ _ None) = None"
| "IsError (ErrNet _ _ (Some e)) = IsError e"

text \<open>\<^verbatim>\<open>Newf\<close> with a message that ends in the wrapped error.\<close>

definition Newf :: "error_type \<Rightarrow> bytes \<Rightarrow> go_error option \<Rightarrow> go_error" where
  "Newf t msg cause =
     (case cause of
        None \<Rightarrow> ErrTyped t msg None False
      | Some e \<Rightarrow> ErrTyped (case IsError e of Some (u, _, _) \<Rightarrow> u | None \<Rightarrow> t) (msg @ error_text e) (Some e) False)"

fun error_IsType :: "error_type set \<Rightarrow> go_error \<Rightarrow> bool" where
  "error_IsType ts (ErrTyped t _ None _) = (t \<in> ts)"
| "error_IsType ts (ErrTyped t _ (Some e) _) = (t \<in> ts \<or> error_IsType ts e)"
| "error_IsType ts (ErrRemote e) = error_IsType ts e"
| "error_IsType ts (ErrPlain _ None) = False"
| "error_IsType ts (ErrPlain _ (Some e)) = error_IsType ts e"
| "error_IsType ts (ErrNet _ _ None) = False"
| "error_IsType ts (ErrNet _ _ (Some e)) = error_IsType ts e"

definition AsRemoteError :: "go_error option \<Rightarrow> go_error option" where
  "AsRemoteError err = map_option ErrRemote err"

subsection \<open>The stream\<close>

text \<open>What can be read, what was written, and after how many bytes writing fails because the other side is gone.\<close>

record stream =
  st_in :: bytes
  st_out :: bytes
  st_limit :: "nat option"

type_synonym ('m, 'a) io = "('m stream_scheme, go_error, 'a) sm"

definition writeE :: "bytes \<Rightarrow> ('m, unit) io" where
  "writeE bs s =
     (case st_limit s of
        Some n \<Rightarrow> if length (st_out s) + length bs > n
                   then (Inl (ErrPlain ''broken pipe'' None), s\<lparr>st_out := take n (st_out s @ bs)\<rparr>)
                   else (Inr (), s\<lparr>st_out := st_out s @ bs\<rparr>)
      | None \<Rightarrow> (Inr (), s\<lparr>st_out := st_out s @ bs\<rparr>))"

definition readE :: "(bytes \<Rightarrow> go_error + 'a \<times> bytes) \<Rightarrow> ('m, 'a) io" where
  "readE r s = (case r (st_in s) of Inl e \<Rightarrow> (Inl e, s) | Inr (v, rest) \<Rightarrow> (Inr v, s\<lparr>st_in := rest\<rparr>))"

fun readByte :: "bytes \<Rightarrow> go_error + char \<times> bytes" where
  "readByte [] = Inl (ErrPlain ''EOF'' None)"
| "readByte (c # cs) = Inr (c, cs)"

text \<open>The library of the encoding (vmihailenco/msgpack): what it writes is read back; strings have less than \<^verbatim>\<open>2^32\<close> bytes.\<close>

record msgpack =
  mp_uint8 :: "8 word \<Rightarrow> bytes"
  mp_uint16 :: "16 word \<Rightarrow> bytes"
  mp_int :: "int \<Rightarrow> bytes"
  mp_bool :: "bool \<Rightarrow> bytes"
  mp_string :: "bytes \<Rightarrow> bytes"
  mp_bytes :: "bytes \<Rightarrow> bytes"
  mp_readUint8 :: "bytes \<Rightarrow> go_error + 8 word \<times> bytes"
  mp_readUint16 :: "bytes \<Rightarrow> go_error + 16 word \<times> bytes"
  mp_readInt :: "bytes \<Rightarrow> go_error + int \<times> bytes"
  mp_readBool :: "bytes \<Rightarrow> go_error + bool \<times> bytes"
  mp_readString :: "bytes \<Rightarrow> go_error + bytes \<times> bytes"
  mp_readBytes :: "bytes \<Rightarrow> go_error + bytes \<times> bytes"

definition reads_back :: "('a \<Rightarrow> bool) \<Rightarrow> ('a \<Rightarrow> bytes) \<Rightarrow> (bytes \<Rightarrow> go_error + 'a \<times> bytes) \<Rightarrow> bool" where
  "reads_back P w r \<longleftrightarrow> (\<forall>v rest. P v \<longrightarrow> r (w v @ rest) = Inr (v, rest))"

definition short :: "bytes \<Rightarrow> bool" where
  "short s \<longleftrightarrow> length s < 2 ^ 32"

definition msgpack_ok :: "msgpack \<Rightarrow> bool" where
  "msgpack_ok mp \<longleftrightarrow>
     reads_back (\<lambda>_. True) (mp_uint8 mp) (mp_readUint8 mp) \<and> reads_back (\<lambda>_. True) (mp_uint16 mp) (mp_readUint16 mp) \<and>
     reads_back int64 (mp_int mp) (mp_readInt mp) \<and> reads_back (\<lambda>_. True) (mp_bool mp) (mp_readBool mp) \<and>
     reads_back short (mp_string mp) (mp_readString mp) \<and> reads_back short (mp_bytes mp) (mp_readBytes mp)"

subsection \<open>Errors on the stream\<close>

definition Type_EncodeMsgPack :: "msgpack \<Rightarrow> error_type \<Rightarrow> ('m, unit) io" where
  "Type_EncodeMsgPack mp this = writeE (mp_uint8 mp this)"

definition Type_DecodeMsgPack :: "msgpack \<Rightarrow> ('m, error_type) io" where
  "Type_DecodeMsgPack mp =
     bindE (readE (mp_readUint8 mp)) (\<lambda>v.
     if typeToStr v = None then throwE (ErrPlain (''unknown error type: '' @ format_uint (unat v) @ '' (msgpck)'') None)
     else returnE v)"

definition Error_EncodeMsgPack :: "msgpack \<Rightarrow> error_type \<times> bytes \<times> bool \<Rightarrow> ('m, unit) io" where
  "Error_EncodeMsgPack mp this =
     (case this of (t, message, userFacing) \<Rightarrow>
        bindE (Type_EncodeMsgPack mp t) (\<lambda>_.
        if t \<noteq> 0 then bindE (writeE (mp_string mp message)) (\<lambda>_. writeE (mp_bool mp userFacing)) else returnE ()))"

definition Error_DecodeMsgPack :: "msgpack \<Rightarrow> ('m, error_type \<times> bytes \<times> bool) io" where
  "Error_DecodeMsgPack mp =
     bindE (Type_DecodeMsgPack mp) (\<lambda>t.
     if t \<noteq> 0 then bindE (readE (mp_readString mp)) (\<lambda>message. bindE (readE (mp_readBool mp)) (\<lambda>userFacing. returnE (t, message, userFacing)))
     else returnE (0, [], False))"

text \<open>The functions \<^verbatim>\<open>EncodeMsgPack\<close> and \<^verbatim>\<open>DecodeMsgPack\<close> of the package, for an error that may be nil.\<close>

definition errors_EncodeMsgPack :: "msgpack \<Rightarrow> go_error option \<Rightarrow> ('m, unit) io" where
  "errors_EncodeMsgPack mp err =
     (case err of
        None \<Rightarrow> Error_EncodeMsgPack mp (0, [], False)
      | Some e \<Rightarrow> Error_EncodeMsgPack mp (case IsError e of Some te \<Rightarrow> te | None \<Rightarrow> (ErrSystem, error_text e, False)))"

definition errors_DecodeMsgPack :: "msgpack \<Rightarrow> ('m, go_error option) io" where
  "errors_DecodeMsgPack mp =
     bindE (Error_DecodeMsgPack mp) (\<lambda>(t, message, userFacing).
     returnE (if t = 0 then None else Some (ErrTyped t message None userFacing)))"

text \<open>What of an error arrives: its type, text and audience, but neither its cause nor its identity.\<close>

definition wire_error :: "go_error option \<Rightarrow> go_error option" where
  "wire_error err =
     (case err of
        None \<Rightarrow> None
      | Some e \<Rightarrow>
          (case IsError e of
             None \<Rightarrow> Some (ErrTyped ErrSystem (error_text e) None False)
           | Some (t, m, u) \<Rightarrow> if t = 0 then None else Some (ErrTyped t m None u)))"

fun error_fits :: "go_error option \<Rightarrow> bool" where
  "error_fits None = True"
| "error_fits (Some e) = (case IsError e of None \<Rightarrow> short (error_text e) | Some (t, m, u) \<Rightarrow> typeToStr t \<noteq> None \<and> short m)"

subsection \<open>Ids of connections (pkg/connection/id.go)\<close>

text \<open>A uuid is its 16 bytes. The zero id is the empty byte string on the stream.\<close>

type_synonym conn_id = bytes

definition Id_zero :: conn_id where "Id_zero = replicate 16 (CHR 0x00)"

definition Id_IsZero :: "conn_id \<Rightarrow> bool" where
  "Id_IsZero this = list_all (\<lambda>v. v = CHR 0x00) this"

definition Id_MarshalBinary :: "conn_id \<Rightarrow> bytes" where
  "Id_MarshalBinary this = (if Id_IsZero this then [] else this)"

definition Id_UnmarshalBinary :: "bytes \<Rightarrow> go_error + conn_id" where
  "Id_UnmarshalBinary b =
     (if length b = 0 then Inr Id_zero
      else if length b = 16 then Inr b
      else Inl (ErrPlain (''invalid UUID (got '' @ format_uint (length b) @ '' bytes)'') None))"

definition Id_EncodeMsgPack :: "msgpack \<Rightarrow> conn_id \<Rightarrow> ('m, unit) io" where
  "Id_EncodeMsgPack mp this = writeE (mp_bytes mp (Id_MarshalBinary this))"

definition Id_DecodeMsgPack :: "msgpack \<Rightarrow> ('m, conn_id) io" where
  "Id_DecodeMsgPack mp = bindE (readE (mp_readBytes mp)) (\<lambda>b. liftE (Id_UnmarshalBinary b))"

subsection \<open>Methods and headers (method.go, header.go)\<close>

type_synonym imp_method = "8 word"

abbreviation MethodPing :: imp_method where "MethodPing \<equiv> 0"
abbreviation MethodKill :: imp_method where "MethodKill \<equiv> 1"
abbreviation MethodTcpForward :: imp_method where "MethodTcpForward \<equiv> 2"
abbreviation MethodNamedPipe :: imp_method where "MethodNamedPipe \<equiv> 3"
abbreviation MethodGetConnectionExitCode :: imp_method where "MethodGetConnectionExitCode \<equiv> 4"
abbreviation MethodGetEnvironment :: imp_method where "MethodGetEnvironment \<equiv> 5"

definition stringToProtocolMethod :: "(bytes \<times> imp_method) list" where
  "stringToProtocolMethod =
     [(''ping'', MethodPing), (''kill'', MethodKill), (''tcpForward'', MethodTcpForward), (''namedPipe'', MethodNamedPipe),
      (''getConnectionExitCode'', MethodGetConnectionExitCode), (''getEnvironment'', MethodGetEnvironment)]"

definition protocolMethodToString :: "imp_method \<Rightarrow> bytes option" where
  "protocolMethodToString m = map_of (map (\<lambda>(k, v). (v, k)) stringToProtocolMethod) m"

definition Method_String :: "imp_method \<Rightarrow> bytes" where
  "Method_String this = (case protocolMethodToString this of Some v \<Rightarrow> v | None \<Rightarrow> ''illegal-method-'' @ format_uint (unat this))"

definition ErrIllegalMethod :: go_error where
  "ErrIllegalMethod = Newf ErrSystem ''Illegal protocol method'' None"

definition Method_MarshalText :: "imp_method \<Rightarrow> go_error + bytes" where
  "Method_MarshalText this =
     (case protocolMethodToString this of
        Some v \<Rightarrow> Inr v
      | None \<Rightarrow> Inl (ErrTyped ErrSystem (error_text ErrIllegalMethod @ '': '' @ format_uint (unat this)) (Some ErrIllegalMethod) False))"

definition Method_Validate :: "imp_method \<Rightarrow> go_error + unit" where
  "Method_Validate this = bindR (Method_MarshalText this) (\<lambda>_. Inr ())"

definition Method_EncodeMsgPack :: "msgpack \<Rightarrow> imp_method \<Rightarrow> ('m, unit) io" where
  "Method_EncodeMsgPack mp this = writeE (mp_uint8 mp this)"

definition Method_DecodeMsgPack :: "msgpack \<Rightarrow> ('m, imp_method) io" where
  "Method_DecodeMsgPack mp =
     bindE (readE (mp_readUint8 mp)) (\<lambda>plain. bindE (liftE (Method_Validate plain)) (\<lambda>_. returnE plain))"

record imp_header =
  ih_Method :: imp_method
  ih_ConnectionId :: conn_id

definition HeaderMagic :: char where "HeaderMagic = char_of (183 :: nat)"

definition Header_EncodeMsgPack :: "msgpack \<Rightarrow> imp_header \<Rightarrow> ('m, unit) io" where
  "Header_EncodeMsgPack mp this =
     bindE (writeE [HeaderMagic]) (\<lambda>_.
     bindE (Method_EncodeMsgPack mp (ih_Method this)) (\<lambda>_.
     Id_EncodeMsgPack mp (ih_ConnectionId this)))"

definition Header_DecodeMsgPack :: "msgpack \<Rightarrow> ('m, imp_header) io" where
  "Header_DecodeMsgPack mp =
     bindE (readE readByte) (\<lambda>b.
     if b \<noteq> HeaderMagic
     then throwE (ErrPlain (''header magic number is invalid - expected 183, got '' @ format_uint (of_char b)) None)
     else bindE (Method_DecodeMsgPack mp) (\<lambda>m.
          bindE (Id_DecodeMsgPack mp) (\<lambda>i.
          returnE \<lparr>ih_Method = m, ih_ConnectionId = i\<rparr>)))"

subsection \<open>Requests and responses (method-*.go)\<close>

text \<open>Requests without content: ping, the exit code and the variables.\<close>

definition emptyRequest_EncodeMsgPack :: "unit \<Rightarrow> ('m, unit) io" where
  "emptyRequest_EncodeMsgPack this = returnE ()"

definition emptyRequest_DecodeMsgPack :: "('m, unit) io" where
  "emptyRequest_DecodeMsgPack = returnE ()"

definition Signal_EncodeMsgPack :: "msgpack \<Rightarrow> signal \<Rightarrow> ('m, unit) io" where
  "Signal_EncodeMsgPack mp this = writeE (mp_uint16 mp this)"

definition Signal_DecodeMsgPack :: "msgpack \<Rightarrow> ('m, signal) io" where
  "Signal_DecodeMsgPack mp = readE (mp_readUint16 mp)"

record kill_request =
  kr_pid :: int
  kr_signal :: signal

definition killRequest_EncodeMsgPack :: "msgpack \<Rightarrow> kill_request \<Rightarrow> ('m, unit) io" where
  "killRequest_EncodeMsgPack mp this = bindE (writeE (mp_int mp (kr_pid this))) (\<lambda>_. Signal_EncodeMsgPack mp (kr_signal this))"

definition killRequest_DecodeMsgPack :: "msgpack \<Rightarrow> ('m, kill_request) io" where
  "killRequest_DecodeMsgPack mp =
     bindE (readE (mp_readInt mp)) (\<lambda>pid. bindE (Signal_DecodeMsgPack mp) (\<lambda>sig. returnE \<lparr>kr_pid = pid, kr_signal = sig\<rparr>))"

fun netError :: "net_err \<Rightarrow> go_error" where
  "netError (NetIllegalIp ip) = Newf ErrConfig ''illegal IP address'' None"
| "netError (NetIllegalHostPort t) = Newf ErrConfig (''illegal host-port: '' @ t) None"
| "netError (NetInvalidPort t) = Newf ErrSystem (''illegal host-port: invalid port '' @ t) None"
| "netError (NetIllegalAddress t) = ErrPlain (''illegal network address '' @ t) None"
| "netError (ErrIllegalPurpose t) = Newf ErrConfig (''illegal purpose: '' @ t) None"

definition tcpForwardRequest_EncodeMsgPack :: "net_lib \<Rightarrow> msgpack \<Rightarrow> host_port \<Rightarrow> ('m, unit) io" where
  "tcpForwardRequest_EncodeMsgPack nl mp target =
     bindE (mapErrE netError (liftE (HostPort_MarshalText nl target))) (\<lambda>b. writeE (mp_bytes mp b))"

definition tcpForwardRequest_DecodeMsgPack :: "net_lib \<Rightarrow> msgpack \<Rightarrow> ('m, host_port) io" where
  "tcpForwardRequest_DecodeMsgPack nl mp =
     bindE (readE (mp_readBytes mp)) (\<lambda>b. mapErrE netError (liftE (HostPort_UnmarshalText nl b)))"

definition namedPipeRequest_EncodeMsgPack :: "msgpack \<Rightarrow> bytes \<Rightarrow> ('m, unit) io" where
  "namedPipeRequest_EncodeMsgPack mp purpose =
     bindE (mapErrE netError (liftE (Purpose_MarshalText purpose))) (\<lambda>b. writeE (mp_bytes mp b))"

text \<open>The receiver is the zero purpose, which is valid, so every text is accepted.\<close>

definition namedPipeRequest_DecodeMsgPack :: "msgpack \<Rightarrow> ('m, bytes) io" where
  "namedPipeRequest_DecodeMsgPack mp =
     bindE (readE (mp_readBytes mp)) (\<lambda>b. mapErrE netError (liftE (Purpose_UnmarshalText [] b)))"

text \<open>The responses of ping, kill and forwarding hold an error only.\<close>

definition errorResponse_EncodeMsgPack :: "msgpack \<Rightarrow> go_error option \<Rightarrow> ('m, unit) io" where
  "errorResponse_EncodeMsgPack mp err = errors_EncodeMsgPack mp err"

definition errorResponse_DecodeMsgPack :: "msgpack \<Rightarrow> ('m, go_error option) io" where
  "errorResponse_DecodeMsgPack mp = errors_DecodeMsgPack mp"

definition namedPipeResponse_EncodeMsgPack :: "msgpack \<Rightarrow> bytes \<times> go_error option \<Rightarrow> ('m, unit) io" where
  "namedPipeResponse_EncodeMsgPack mp this = bindE (writeE (mp_string mp (fst this))) (\<lambda>_. errors_EncodeMsgPack mp (snd this))"

definition namedPipeResponse_DecodeMsgPack :: "msgpack \<Rightarrow> ('m, bytes \<times> go_error option) io" where
  "namedPipeResponse_DecodeMsgPack mp =
     bindE (readE (mp_readString mp)) (\<lambda>path. bindE (errors_DecodeMsgPack mp) (\<lambda>err. returnE (path, err)))"

record exit_response =
  er_found :: bool
  er_exitCode :: int
  er_error :: "go_error option"

definition exitCodeResponse_EncodeMsgPack :: "msgpack \<Rightarrow> exit_response \<Rightarrow> ('m, unit) io" where
  "exitCodeResponse_EncodeMsgPack mp this =
     bindE (writeE (mp_bool mp (er_found this))) (\<lambda>_.
     bindE (writeE (mp_int mp (er_exitCode this))) (\<lambda>_.
     errors_EncodeMsgPack mp (er_error this)))"

definition exitCodeResponse_DecodeMsgPack :: "msgpack \<Rightarrow> ('m, exit_response) io" where
  "exitCodeResponse_DecodeMsgPack mp =
     bindE (readE (mp_readBool mp)) (\<lambda>found.
     bindE (readE (mp_readInt mp)) (\<lambda>exitCode.
     bindE (errors_DecodeMsgPack mp) (\<lambda>err.
     returnE \<lparr>er_found = found, er_exitCode = exitCode, er_error = err\<rparr>)))"

definition environmentResponse_EncodeMsgPack :: "msgpack \<Rightarrow> env_map \<times> go_error option \<Rightarrow> ('m, unit) io" where
  "environmentResponse_EncodeMsgPack mp this =
     bindE (writeE (mp_int mp (int (length (fst this))))) (\<lambda>_.
     bindE (forE (\<lambda>(k, v). bindE (writeE (mp_string mp k)) (\<lambda>_. writeE (mp_string mp v))) (fst this)) (\<lambda>_.
     errors_EncodeMsgPack mp (snd this)))"

fun readVariables :: "msgpack \<Rightarrow> nat \<Rightarrow> env_map \<Rightarrow> ('m, env_map) io" where
  "readVariables mp 0 variables = returnE variables"
| "readVariables mp (Suc n) variables =
     bindE (readE (mp_readString mp)) (\<lambda>k.
     bindE (readE (mp_readString mp)) (\<lambda>v.
     readVariables mp n (EnvVars_set k v variables)))"

definition environmentResponse_DecodeMsgPack :: "msgpack \<Rightarrow> ('m, env_map \<times> go_error option) io" where
  "environmentResponse_DecodeMsgPack mp =
     bindE (readE (mp_readInt mp)) (\<lambda>numberOfVariables.
     bindE (readVariables mp (nat numberOfVariables) []) (\<lambda>variables.
     bindE (errors_DecodeMsgPack mp) (\<lambda>err.
     returnE (variables, err))))"

subsection \<open>What is written is read back\<close>

definition carries :: "('m, unit) io \<Rightarrow> ('n, 'a) io \<Rightarrow> 'a \<Rightarrow> bool" where
  "carries m d w \<longleftrightarrow>
     (\<exists>bs. (\<forall>s. st_limit s = None \<longrightarrow> m s = (Inr (), s\<lparr>st_out := st_out s @ bs\<rparr>)) \<and>
           (\<forall>s rest. st_in s = bs @ rest \<longrightarrow> d s = (Inr w, s\<lparr>st_in := rest\<rparr>)))"

lemma carriesE:
  assumes "carries m d w"
  obtains bs where "\<And>s. st_limit s = None \<Longrightarrow> m s = (Inr (), s\<lparr>st_out := st_out s @ bs\<rparr>)"
    "\<And>s rest. st_in s = bs @ rest \<Longrightarrow> d s = (Inr w, s\<lparr>st_in := rest\<rparr>)"
  using assms unfolding carries_def by blast

lemma carries_field: "reads_back P w r \<Longrightarrow> P v \<Longrightarrow> carries (writeE (w v)) (readE r) v"
  unfolding carries_def reads_back_def by (intro exI[of _ "w v"]) (simp add: writeE_def readE_def)

lemma carries_byte [carry]: "carries (writeE [c]) (readE readByte) c"
  unfolding carries_def by (intro exI[of _ "[c]"]) (simp add: writeE_def readE_def)

lemma carries_return [carry]: "carries (returnE ()) (returnE w) w"
  unfolding carries_def by (intro exI[of _ "[]"]) (auto simp: returnE_def)

lemma carries_returnI: "v = w \<Longrightarrow> carries (returnE ()) (returnE v) w"
  by (simp add: carries_return)

lemma carries_seq [carry]:
  assumes "carries m d v" and "carries m' (k v) w"
  shows "carries (bindE m (\<lambda>_. m')) (bindE d k) w"
proof -
  obtain bs where b: "\<And>s. st_limit s = None \<Longrightarrow> m s = (Inr (), s\<lparr>st_out := st_out s @ bs\<rparr>)"
    "\<And>s rest. st_in s = bs @ rest \<Longrightarrow> d s = (Inr v, s\<lparr>st_in := rest\<rparr>)" using assms(1) unfolding carries_def by blast
  obtain cs where c: "\<And>s. st_limit s = None \<Longrightarrow> m' s = (Inr (), s\<lparr>st_out := st_out s @ cs\<rparr>)"
    "\<And>s rest. st_in s = cs @ rest \<Longrightarrow> k v s = (Inr w, s\<lparr>st_in := rest\<rparr>)" using assms(2) unfolding carries_def by blast
  show ?thesis unfolding carries_def by (intro exI[of _ "bs @ cs"]) (simp add: bindE_def b c)
qed

lemma bindE_unit: "bindE m returnE = (m :: ('s, 'e, unit) sm)"
  by (rule ext) (auto simp: bindE_def returnE_def split: prod.splits sum.splits)

text \<open>The reader does more with the last thing it reads than the writer.\<close>

lemma carries_then:
  "carries (m :: ('m, unit) io) d v \<Longrightarrow> carries (returnE () :: ('m, unit) io) (k v) w \<Longrightarrow> carries m (bindE d k) w"
  using carries_seq[of m d v "returnE ()" k w] by (simp add: bindE_unit)

lemma carries_mapErr [carry]: "carries m d w \<Longrightarrow> carries m (mapErrE g d) w"
  by (auto simp: carries_def mapErrE_def)

locale message =
  fixes enc :: "'a \<Rightarrow> ('m, unit) io" and dec :: "('n, 'b) io" and valid :: "'a \<Rightarrow> bool" and received :: "'a \<Rightarrow> 'b"
  assumes transfer: "valid v \<Longrightarrow> carries (enc v) dec (received v)"
begin

text \<open>What is sent after the message does not matter to the one who reads it, and is left to be read.\<close>

lemma delivered:
  assumes "valid v" and "st_limit s = None"
  obtains bs where "enc v s = (Inr (), s\<lparr>st_out := st_out s @ bs\<rparr>)"
    "\<And>t rest. st_in t = bs @ rest \<Longrightarrow> dec t = (Inr (received v), t\<lparr>st_in := rest\<rparr>)"
  using transfer[OF assms(1)] assms(2) by (elim carriesE) blast

end

lemma msgpack_carries:
  assumes "msgpack_ok mp"
  shows "carries (writeE (mp_uint8 mp w8)) (readE (mp_readUint8 mp)) w8"
    and "carries (writeE (mp_uint16 mp w16)) (readE (mp_readUint16 mp)) w16"
    and "int64 n \<Longrightarrow> carries (writeE (mp_int mp n)) (readE (mp_readInt mp)) n"
    and "carries (writeE (mp_bool mp b)) (readE (mp_readBool mp)) b"
    and "short s \<Longrightarrow> carries (writeE (mp_string mp s)) (readE (mp_readString mp)) s"
    and "short s \<Longrightarrow> carries (writeE (mp_bytes mp s)) (readE (mp_readBytes mp)) s"
  using assms by (auto simp: msgpack_ok_def intro: carries_field)

lemma typeToStr_zero [simp]: "typeToStr 0 = Some ''unknown''"
  by (simp add: typeToStr_def strToType_def)

lemma typeToStr_named [simp]: "typeToStr 1 = Some ''system''" "typeToStr 2 = Some ''config''" "typeToStr 3 = Some ''network''"
  by (simp_all add: typeToStr_def strToType_def)

lemma Type_carries:
  assumes "msgpack_ok mp" and "typeToStr t \<noteq> None"
  shows "carries (Type_EncodeMsgPack mp t) (Type_DecodeMsgPack mp) t"
  unfolding Type_EncodeMsgPack_def Type_DecodeMsgPack_def
  by (rule carries_then[OF msgpack_carries(1)[OF assms(1)]]) (use assms(2) in \<open>auto intro: carry\<close>)

lemma Error_carries:
  assumes "msgpack_ok mp" and "typeToStr t \<noteq> None" and "short m"
  shows "carries (Error_EncodeMsgPack mp (t, m, u)) (Error_DecodeMsgPack mp) (if t = 0 then (0, [], False) else (t, m, u))"
proof (cases "t = 0")
  case True
  show ?thesis unfolding Error_EncodeMsgPack_def Error_DecodeMsgPack_def True prod.case
    by (rule carries_seq[OF Type_carries[OF assms(1)]]) (auto intro: carry)
next
  case False
  show ?thesis unfolding Error_EncodeMsgPack_def Error_DecodeMsgPack_def prod.case
    by (rule carries_seq[OF Type_carries[OF assms(1,2)]], simp only: False simp_thms if_True if_False)
      (rule carries_seq[OF msgpack_carries(5)[OF assms(1,3)]], rule carries_then[OF msgpack_carries(4)[OF assms(1)] carries_return])
qed

lemma errors_carries:
  assumes "msgpack_ok mp" and "error_fits err"
  shows "carries (errors_EncodeMsgPack mp err) (errors_DecodeMsgPack mp) (wire_error err)"
proof (cases err)
  case None
  have "carries (Error_EncodeMsgPack mp (0, [], False)) (Error_DecodeMsgPack mp) (0, [], False)"
    using Error_carries[OF assms(1), of 0 "[]" False] by (simp add: short_def)
  then show ?thesis unfolding errors_EncodeMsgPack_def errors_DecodeMsgPack_def None option.case
    by (rule carries_then) (simp add: wire_error_def carry)
next
  case (Some e)
  obtain t m u where te: "(case IsError e of Some te \<Rightarrow> te | None \<Rightarrow> (ErrSystem, error_text e, False)) = (t, m, u)"
    by (metis prod_cases3)
  have ok: "typeToStr t \<noteq> None" "short m"
    using te assms(2) Some by (auto split: option.splits)
  have w: "wire_error err = (if t = 0 then None else Some (ErrTyped t m None u))"
    using te Some by (auto simp: wire_error_def split: option.splits)
  show ?thesis unfolding errors_EncodeMsgPack_def errors_DecodeMsgPack_def Some option.case te
    by (rule carries_then[OF Error_carries[OF assms(1) ok]]) (use w Some in \<open>auto intro: carry\<close>)
qed

interpretation errorMessage: message "errors_EncodeMsgPack mp" "errors_DecodeMsgPack mp" "\<lambda>err. msgpack_ok mp \<and> error_fits err" wire_error
  by unfold_locales (simp add: errors_carries)

lemma Id_binary:
  assumes "length i = 16"
  shows "Id_UnmarshalBinary (Id_MarshalBinary i) = Inr i" and "short (Id_MarshalBinary i)"
proof -
  have "Id_IsZero i \<Longrightarrow> i = Id_zero"
    using assms by (auto simp: Id_IsZero_def Id_zero_def list_all_iff intro: replicate_eqI)
  then show "Id_UnmarshalBinary (Id_MarshalBinary i) = Inr i" "short (Id_MarshalBinary i)"
    using assms by (auto simp: Id_UnmarshalBinary_def Id_MarshalBinary_def short_def)
qed

lemma mapErrE_liftE: "mapErrE w (liftE r) = liftE (map_sum w id r)"
  by (rule ext) (simp add: mapErrE_def liftE_def)

lemma carries_lift: "carries m d v \<Longrightarrow> f v = Inr w \<Longrightarrow> carries (m :: ('m, unit) io) (bindE d (\<lambda>x. liftE (f x))) w"
  by (rule carries_then) (auto simp: carries_def returnE_def liftE_def intro!: exI[of _ "[]"])

interpretation idMessage: message "Id_EncodeMsgPack mp" "Id_DecodeMsgPack mp" "\<lambda>i. msgpack_ok mp \<and> length i = 16" id
  by unfold_locales
    (auto simp: Id_EncodeMsgPack_def Id_DecodeMsgPack_def Id_binary intro!: carries_lift[OF msgpack_carries(6)])

lemma Method_carries:
  assumes "msgpack_ok mp" and "protocolMethodToString m \<noteq> None"
  shows "carries (Method_EncodeMsgPack mp m) (Method_DecodeMsgPack mp) m"
proof -
  have "Method_Validate m = Inr ()" using assms(2) by (auto simp: Method_Validate_def Method_MarshalText_def)
  then show ?thesis unfolding Method_EncodeMsgPack_def Method_DecodeMsgPack_def
    by (intro carries_then[OF msgpack_carries(1)[OF assms(1)]]) (simp add: carry)
qed

definition header_ok :: "imp_header \<Rightarrow> bool" where
  "header_ok h \<longleftrightarrow> protocolMethodToString (ih_Method h) \<noteq> None \<and> length (ih_ConnectionId h) = 16"

interpretation headerMessage: message "Header_EncodeMsgPack mp" "Header_DecodeMsgPack mp" "\<lambda>h. msgpack_ok mp \<and> header_ok h" id
proof
  fix h assume h: "msgpack_ok mp \<and> header_ok h"
  have i: "carries (Id_EncodeMsgPack mp (ih_ConnectionId h)) (Id_DecodeMsgPack mp) (ih_ConnectionId h)"
    using idMessage.transfer[of mp "ih_ConnectionId h"] h by (simp add: header_ok_def)
  have m: "carries (Method_EncodeMsgPack mp (ih_Method h)) (Method_DecodeMsgPack mp) (ih_Method h)"
    by (rule Method_carries) (use h in \<open>auto simp: header_ok_def\<close>)
  show "carries (Header_EncodeMsgPack mp h) (Header_DecodeMsgPack mp) (id h)"
    unfolding Header_EncodeMsgPack_def Header_DecodeMsgPack_def
    by (rule carries_seq[OF carries_byte], simp only: simp_thms if_False)
      (rule carries_seq[OF m], rule carries_then[OF i], rule carries_returnI, simp)
qed

interpretation emptyRequest: message emptyRequest_EncodeMsgPack emptyRequest_DecodeMsgPack "\<lambda>_. True" id
  by unfold_locales (simp add: emptyRequest_EncodeMsgPack_def emptyRequest_DecodeMsgPack_def carry)

interpretation killRequest: message "killRequest_EncodeMsgPack mp" "killRequest_DecodeMsgPack mp" "\<lambda>r :: kill_request. msgpack_ok mp \<and> int64 (kr_pid r)" id
proof
  fix r :: kill_request assume r: "msgpack_ok mp \<and> int64 (kr_pid r)"
  show "carries (killRequest_EncodeMsgPack mp r) (killRequest_DecodeMsgPack mp) (id r)"
    unfolding killRequest_EncodeMsgPack_def killRequest_DecodeMsgPack_def Signal_EncodeMsgPack_def Signal_DecodeMsgPack_def
    by (rule carries_seq[OF msgpack_carries(3)], (simp add: r)+, rule carries_then[OF msgpack_carries(2)])
      (simp add: r, rule carries_returnI, simp)
qed

text \<open>The target that arrives: the host's text is parsed again.\<close>

definition arrived_target :: "net_lib \<Rightarrow> host_port \<Rightarrow> host_port" where
  "arrived_target nl target =
     (case bindR (HostPort_MarshalText nl target) (HostPort_UnmarshalText nl) of Inr t \<Rightarrow> t | Inl _ \<Rightarrow> target)"

definition target_ok :: "net_lib \<Rightarrow> host_port \<Rightarrow> bool" where
  "target_ok nl target \<longleftrightarrow>
     (case HostPort_MarshalText nl target of Inl _ \<Rightarrow> False | Inr b \<Rightarrow> short b \<and> \<not> isl (HostPort_UnmarshalText nl b))"

interpretation forwardRequest: message "tcpForwardRequest_EncodeMsgPack nl mp" "tcpForwardRequest_DecodeMsgPack nl mp"
  "\<lambda>t. msgpack_ok mp \<and> target_ok nl t" "arrived_target nl"
proof
  fix t assume t: "msgpack_ok mp \<and> target_ok nl t"
  obtain b where b: "HostPort_MarshalText nl t = Inr b" "short b" "HostPort_UnmarshalText nl b = Inr (arrived_target nl t)"
    using t by (auto simp: target_ok_def arrived_target_def isl_def split: sum.splits)
  have "carries (writeE (mp_bytes mp b)) (bindE (readE (mp_readBytes mp)) (\<lambda>b. liftE (map_sum netError id (HostPort_UnmarshalText nl b)))) (arrived_target nl t)"
    by (rule carries_lift[OF msgpack_carries(6)]) (simp_all add: t b)
  then show "carries (tcpForwardRequest_EncodeMsgPack nl mp t) (tcpForwardRequest_DecodeMsgPack nl mp) (arrived_target nl t)"
    by (simp add: tcpForwardRequest_EncodeMsgPack_def tcpForwardRequest_DecodeMsgPack_def b mapErrE_liftE)
qed

interpretation pipeRequest: message "namedPipeRequest_EncodeMsgPack mp" "namedPipeRequest_DecodeMsgPack mp"
  "\<lambda>p. msgpack_ok mp \<and> short p \<and> Purpose_Validate p = Inr ()" id
proof
  fix p assume p: "msgpack_ok mp \<and> short p \<and> Purpose_Validate p = Inr ()"
  have "carries (writeE (mp_bytes mp p)) (bindE (readE (mp_readBytes mp)) (\<lambda>b. liftE (map_sum netError id (Purpose_UnmarshalText [] b)))) p"
    by (rule carries_lift[OF msgpack_carries(6)]) (simp_all add: p Purpose_UnmarshalText_def Purpose_Validate_def)
  then show "carries (namedPipeRequest_EncodeMsgPack mp p) (namedPipeRequest_DecodeMsgPack mp) (id p)"
    using p by (simp add: namedPipeRequest_EncodeMsgPack_def namedPipeRequest_DecodeMsgPack_def mapErrE_liftE Purpose_MarshalText_def)
qed

interpretation errorResponse: message "errorResponse_EncodeMsgPack mp" "errorResponse_DecodeMsgPack mp"
  "\<lambda>err. msgpack_ok mp \<and> error_fits err" wire_error
  by unfold_locales (simp add: errors_carries errorResponse_EncodeMsgPack_def errorResponse_DecodeMsgPack_def)

interpretation pipeResponse: message "namedPipeResponse_EncodeMsgPack mp" "namedPipeResponse_DecodeMsgPack mp"
  "\<lambda>r. msgpack_ok mp \<and> short (fst r) \<and> error_fits (snd r)" "map_prod id wire_error"
proof
  fix r :: "bytes \<times> go_error option" assume r: "msgpack_ok mp \<and> short (fst r) \<and> error_fits (snd r)"
  show "carries (namedPipeResponse_EncodeMsgPack mp r) (namedPipeResponse_DecodeMsgPack mp) (map_prod id wire_error r)"
    unfolding namedPipeResponse_EncodeMsgPack_def namedPipeResponse_DecodeMsgPack_def
    by (rule carries_seq[OF msgpack_carries(5)], (simp add: r)+, rule carries_then[OF errors_carries])
      (simp_all add: r, rule carries_returnI, simp add: map_prod_def split_def)
qed

definition exit_received :: "exit_response \<Rightarrow> exit_response" where
  "exit_received r = r\<lparr>er_error := wire_error (er_error r)\<rparr>"

interpretation exitResponse: message "exitCodeResponse_EncodeMsgPack mp" "exitCodeResponse_DecodeMsgPack mp"
  "\<lambda>r. msgpack_ok mp \<and> int64 (er_exitCode r) \<and> error_fits (er_error r)" exit_received
proof
  fix r :: exit_response assume r: "msgpack_ok mp \<and> int64 (er_exitCode r) \<and> error_fits (er_error r)"
  show "carries (exitCodeResponse_EncodeMsgPack mp r) (exitCodeResponse_DecodeMsgPack mp) (exit_received r)"
    unfolding exitCodeResponse_EncodeMsgPack_def exitCodeResponse_DecodeMsgPack_def
    by (rule carries_seq[OF msgpack_carries(4)], simp add: r, rule carries_seq[OF msgpack_carries(3)], (simp add: r)+,
        rule carries_then[OF errors_carries]) (simp_all add: r, rule carries_returnI, simp add: exit_received_def)
qed

definition variables_ok :: "env_map \<Rightarrow> bool" where
  "variables_ok vs \<longleftrightarrow> length vs < 2 ^ 63 \<and> (\<forall>(k, v) \<in> set vs. short k \<and> short v)"

lemma variables_carries:
  assumes "msgpack_ok mp" and "\<forall>(k, v) \<in> set vs. short k \<and> short v"
  shows "carries (forE (\<lambda>(k, v). bindE (writeE (mp_string mp k)) (\<lambda>_. writeE (mp_string mp v))) vs)
           (readVariables mp (length vs) acc) (EnvVars_AddAllOf vs acc)"
  using assms(2)
proof (induction vs arbitrary: acc)
  case Nil
  then show ?case by (simp add: EnvVars_AddAllOf_def carry)
next
  case (Cons e vs)
  obtain k v where e: "e = (k, v)" "short k" "short v" using Cons.prems by (cases e) auto
  show ?case
    unfolding e(1) forE.simps prod.case bindE_assoc list.size(4) readVariables.simps One_nat_def add_Suc_right add_0_right
    by (rule carries_seq[OF msgpack_carries(5)[OF assms(1) e(2)]], rule carries_seq[OF msgpack_carries(5)[OF assms(1) e(3)]])
      (use Cons.IH[of "EnvVars_set k v acc"] Cons.prems in \<open>simp add: EnvVars_AddAllOf_def\<close>)
qed

interpretation environmentResponse: message "environmentResponse_EncodeMsgPack mp" "environmentResponse_DecodeMsgPack mp"
  "\<lambda>r. msgpack_ok mp \<and> variables_ok (fst r) \<and> error_fits (snd r)" "map_prod (\<lambda>vs. EnvVars_AddAllOf vs []) wire_error"
proof
  fix r :: "env_map \<times> go_error option" assume r: "msgpack_ok mp \<and> variables_ok (fst r) \<and> error_fits (snd r)"
  have n: "int64 (int (length (fst r)))" and vs: "\<forall>(k, v) \<in> set (fst r). short k \<and> short v"
    using r by (simp_all add: variables_ok_def int64_def)
  have e: "carries (errors_EncodeMsgPack mp (snd r))
      (bindE (errors_DecodeMsgPack mp) (\<lambda>err. returnE (EnvVars_AddAllOf (fst r) [], err)))
      (map_prod (\<lambda>vs. EnvVars_AddAllOf vs []) wire_error r)"
    by (rule carries_then[OF errors_carries]) (simp_all add: r, rule carries_returnI, simp add: map_prod_def split_def)
  have v: "carries (forE (\<lambda>(k, v). bindE (writeE (mp_string mp k)) (\<lambda>_. writeE (mp_string mp v))) (fst r))
      (readVariables mp (nat (int (length (fst r)))) []) (EnvVars_AddAllOf (fst r) [])"
    unfolding nat_int by (rule variables_carries) (use r vs in auto)
  show "carries (environmentResponse_EncodeMsgPack mp r) (environmentResponse_DecodeMsgPack mp)
      (map_prod (\<lambda>vs. EnvVars_AddAllOf vs []) wire_error r)"
    unfolding environmentResponse_EncodeMsgPack_def environmentResponse_DecodeMsgPack_def
    by (rule carries_seq[OF msgpack_carries(3)[OF _ n]], (use r in simp), rule carries_seq[OF v], rule e)
qed

end
