(* ===== verification/ImpProtocol.thy ===== *)
theory ImpProtocol
  imports ImpWire
begin

section \<open>The helper process and its master (internal/imp/protocol)\<close>

text \<open>
  \<open>serveConn\<close> is what the helper process does with one connection: it reads a header, lets the handler of the method read its
  request, act and write its response. \<open>Master_do\<close> and the methods of the master are the other side. What the process finds on
  its host is the record \<open>imp_os\<close>; the only change it makes there is to send signals, kept in the state.
\<close>

subsection \<open>The process inside the environment (imp.go)\<close>

datatype read_result = FileContent bytes | FileNotExist | FileError go_error

datatype signal_result = SignalSent | ErrProcessDone | SignalError go_error

text \<open>
  \<open>io_processes\<close> gives the ids of the processes with their variables, \<open>None\<close> where they cannot be read; \<open>io_dial\<close> connects to the
  text of a target, \<open>io_newPipe\<close> is \<^verbatim>\<open>net.NewNamedPipe\<close> with the path of the pipe, \<open>io_idText\<close> the text of an id.
\<close>

record imp_os =
  io_processes :: "go_error + (int \<times> bytes list option) list"
  io_environ :: "bytes list"
  io_readFile :: "bytes \<Rightarrow> read_result"
  io_signal :: "int \<Rightarrow> signal \<Rightarrow> signal_result"
  io_dial :: "bytes \<Rightarrow> go_error + unit"
  io_newPipe :: "bytes \<Rightarrow> go_error + bytes"
  io_idText :: "conn_id \<Rightarrow> bytes"
  io_exitCodePath :: bytes
  io_signalNames :: "(bytes \<times> signal) list"

record imp_state = stream +
  is_sent :: "(int \<times> signal) list"

type_synonym 'a im = "(imp_state, go_error, 'a) sm"

text \<open>How the connection goes on after the handler has answered: it ends, or bytes are copied to a target or a pipe.\<close>

datatype imp_outcome = Answered | CopyTarget host_port | CopyPipe bytes

definition handlingFailed :: "imp_header \<Rightarrow> go_error \<Rightarrow> go_error" where
  "handlingFailed header err = Newf ErrNetwork (''handling '' @ Method_String (ih_Method header) @ '' failed: '') (Some err)"

definition handleFromServerSide :: "imp_header \<Rightarrow> 'q im \<Rightarrow> ('q \<Rightarrow> 'p im) \<Rightarrow> ('p \<Rightarrow> unit im) \<Rightarrow> imp_outcome im" where
  "handleFromServerSide header dec action enc =
     mapErrE (handlingFailed header) (bindE dec (\<lambda>req. bindE (action req) (\<lambda>rsp. bindE (enc rsp) (\<lambda>_. returnE Answered))))"

definition handleMethodPing :: "msgpack \<Rightarrow> imp_header \<Rightarrow> imp_outcome im" where
  "handleMethodPing mp header =
     handleFromServerSide header emptyRequest_DecodeMsgPack (\<lambda>_. returnE None) (errorResponse_EncodeMsgPack mp)"

subsection \<open>Signals (method-kill.go, method-kill_unix.go)\<close>

definition ErrNoSuchProcess :: go_error where
  "ErrNoSuchProcess = Newf ErrSystem ''no such process'' None"

definition connection_EnvName :: bytes where "connection_EnvName = ''BIFROEST_CONNECTION_ID''"

text \<open>The search for a process of the connection: the first one with its variable; 0 when there is none.\<close>

fun processOf :: "bytes \<Rightarrow> (int \<times> bytes list option) list \<Rightarrow> int" where
  "processOf expectedEnv [] = 0"
| "processOf expectedEnv ((p, envs) # candidates) =
     (case envs of
        None \<Rightarrow> processOf expectedEnv candidates
      | Some es \<Rightarrow> if expectedEnv \<in> set es \<and> p \<noteq> 0 then p else processOf expectedEnv candidates)"

definition imp_kill :: "imp_os \<Rightarrow> int \<Rightarrow> signal \<Rightarrow> unit im" where
  "imp_kill os pid sig s =
     (case io_signal os pid sig of
        SignalSent \<Rightarrow> (Inr (), s\<lparr>is_sent := is_sent s @ [(pid, sig)]\<rparr>)
      | ErrProcessDone \<Rightarrow> (Inl ErrNoSuchProcess, s)
      | SignalError e \<Rightarrow> (Inl e, s))"

definition cannotKill :: "imp_os \<Rightarrow> imp_header \<Rightarrow> kill_request \<Rightarrow> int \<Rightarrow> go_error \<Rightarrow> go_error" where
  "cannotKill os header req pid err =
     Newf ErrSystem (''cannot kill process '' @ format_int pid @ '' of '' @ io_idText os (ih_ConnectionId header) @ '' with '' @
       Signal_String (io_signalNames os) (kr_signal req) @ '': '') (Some err)"

definition killAction :: "imp_os \<Rightarrow> imp_header \<Rightarrow> kill_request \<Rightarrow> go_error option im" where
  "killAction os header req =
     (let expectedEnv = connection_EnvName @ ''='' @ io_idText os (ih_ConnectionId header) in
      case (if kr_pid req = 0 then map_sum (cannotKill os header req 0) (processOf expectedEnv) (io_processes os) else Inr (kr_pid req)) of
        Inl err \<Rightarrow> returnE (Some err)
      | Inr pid \<Rightarrow>
          if pid = 0 then returnE (Some ErrNoSuchProcess)
          else bindE (tryE (imp_kill os pid (kr_signal req))) (\<lambda>killed :: go_error + unit.
               returnE (case killed of Inl err \<Rightarrow> Some (cannotKill os header req pid err) | Inr _ \<Rightarrow> None)))"

definition handleMethodKill :: "msgpack \<Rightarrow> imp_os \<Rightarrow> imp_header \<Rightarrow> imp_outcome im" where
  "handleMethodKill mp os header =
     handleFromServerSide header (killRequest_DecodeMsgPack mp) (killAction os header) (errorResponse_EncodeMsgPack mp)"

subsection \<open>Exit codes and variables (method-get-connection-exit-code.go, method-get-environment.go)\<close>

definition exitCodeAction :: "imp_os \<Rightarrow> imp_header \<Rightarrow> unit \<Rightarrow> exit_response im" where
  "exitCodeAction os header req =
     returnE
       (if Id_IsZero (ih_ConnectionId header) then \<lparr>er_found = False, er_exitCode = 0, er_error = None\<rparr>
        else case io_readFile os (filepath_Join [io_exitCodePath os, io_idText os (ih_ConnectionId header)]) of
            FileNotExist \<Rightarrow> \<lparr>er_found = False, er_exitCode = 0, er_error = None\<rparr>
          | FileError e \<Rightarrow> \<lparr>er_found = False, er_exitCode = 0, er_error = Some e\<rparr>
          | FileContent b \<Rightarrow>
              (case strconv_Atoi (bytes_TrimSpace b) of
                 None \<Rightarrow> \<lparr>er_found = False, er_exitCode = 0, er_error = None\<rparr>
               | Some v \<Rightarrow> \<lparr>er_found = True, er_exitCode = v, er_error = None\<rparr>))"

definition handleMethodGetConnectionExitCode :: "msgpack \<Rightarrow> imp_os \<Rightarrow> imp_header \<Rightarrow> imp_outcome im" where
  "handleMethodGetConnectionExitCode mp os header =
     handleFromServerSide header emptyRequest_DecodeMsgPack (exitCodeAction os header) (exitCodeResponse_EncodeMsgPack mp)"

definition handleMethodGetEnvironment :: "msgpack \<Rightarrow> imp_os \<Rightarrow> imp_header \<Rightarrow> imp_outcome im" where
  "handleMethodGetEnvironment mp os header =
     handleFromServerSide header emptyRequest_DecodeMsgPack (\<lambda>_. returnE (EnvVars_Add (io_environ os) [], None))
       (environmentResponse_EncodeMsgPack mp)"

subsection \<open>Errors that users may see (errors.go)\<close>

fun findNetError :: "net_kind \<Rightarrow> go_error \<Rightarrow> go_error option" where
  "findNetError k (ErrNet k' m c) = (if k = k' then Some (ErrNet k' m c) else case c of None \<Rightarrow> None | Some e \<Rightarrow> findNetError k e)"
| "findNetError k (ErrPlain _ c) = (case c of None \<Rightarrow> None | Some e \<Rightarrow> findNetError k e)"
| "findNetError k (ErrTyped _ _ c _) = (case c of None \<Rightarrow> None | Some e \<Rightarrow> findNetError k e)"
| "findNetError k (ErrRemote e) = findNetError k e"

fun reWrapIfUserFacingErrors :: "go_error \<Rightarrow> net_kind list \<Rightarrow> go_error" where
  "reWrapIfUserFacingErrors err [] = err"
| "reWrapIfUserFacingErrors err (target # targets) =
     (case findNetError target err of
        Some tErr \<Rightarrow> ErrTyped ErrNetwork (error_text tErr) (Some tErr) True
      | None \<Rightarrow> reWrapIfUserFacingErrors err targets)"

definition reWrapIfUserFacingNetworkErrors :: "go_error \<Rightarrow> go_error" where
  "reWrapIfUserFacingNetworkErrors err =
     reWrapIfUserFacingErrors err [DNSError, AddrError, InvalidAddrError, UnknownNetworkError, ParseError, Errno, OpError]"

subsection \<open>Forwarding and pipes (method-tcp-forward.go, method-named-pipe.go)\<close>

definition handleMethodTcpForward :: "net_lib \<Rightarrow> msgpack \<Rightarrow> imp_os \<Rightarrow> imp_header \<Rightarrow> imp_outcome im" where
  "handleMethodTcpForward nl mp os header =
     mapErrE (handlingFailed header)
       (bindE (tcpForwardRequest_DecodeMsgPack nl mp) (\<lambda>target.
        case io_dial os (HostPort_String nl target) of
          Inl err \<Rightarrow> bindE (errorResponse_EncodeMsgPack mp (Some (reWrapIfUserFacingNetworkErrors err))) (\<lambda>_. returnE Answered)
        | Inr _ \<Rightarrow> bindE (errorResponse_EncodeMsgPack mp None) (\<lambda>_. returnE (CopyTarget target))))"

definition handleMethodNamedPipe :: "msgpack \<Rightarrow> imp_os \<Rightarrow> imp_header \<Rightarrow> imp_outcome im" where
  "handleMethodNamedPipe mp os header =
     mapErrE (handlingFailed header)
       (bindE (mapErrE (\<lambda>e. Newf ErrNetwork ''cannot decode request: '' (Some e)) (namedPipeRequest_DecodeMsgPack mp)) (\<lambda>purpose.
        case io_newPipe os purpose of
          Inl err \<Rightarrow> bindE (namedPipeResponse_EncodeMsgPack mp ([], Some (reWrapIfUserFacingNetworkErrors err))) (\<lambda>_. returnE Answered)
        | Inr path \<Rightarrow>
            bindE (mapErrE (\<lambda>e. Newf ErrNetwork ''cannot encode response: '' (Some e)) (namedPipeResponse_EncodeMsgPack mp (path, None))) (\<lambda>_.
            returnE (CopyPipe path))))"

text \<open>The dispatch over the method of the header.\<close>

definition serveConn :: "net_lib \<Rightarrow> msgpack \<Rightarrow> imp_os \<Rightarrow> imp_outcome im" where
  "serveConn nl mp os =
     bindE (Header_DecodeMsgPack mp) (\<lambda>header.
     if ih_Method header = MethodPing then handleMethodPing mp header
     else if ih_Method header = MethodKill then handleMethodKill mp os header
     else if ih_Method header = MethodTcpForward then handleMethodTcpForward nl mp os header
     else if ih_Method header = MethodNamedPipe then handleMethodNamedPipe mp os header
     else if ih_Method header = MethodGetConnectionExitCode then handleMethodGetConnectionExitCode mp os header
     else if ih_Method header = MethodGetEnvironment then handleMethodGetEnvironment mp os header
     else throwE (Newf ErrNetwork (''unsupported method '' @ Method_String (ih_Method header)) None))"

subsection \<open>The master (header.go, master.go, master-session.go)\<close>

text \<open>
  A connection to a helper process: \<open>pe_answer\<close> is what the other side answers to the bytes that were sent, \<open>pe_limit\<close> the number
  of bytes it takes, \<open>pe_close\<close> the answer of \<^verbatim>\<open>Close\<close>. The master reads after it has sent its request.
\<close>

record imp_peer =
  pe_answer :: "bytes \<Rightarrow> bytes"
  pe_limit :: "nat option"
  pe_close :: "go_error + unit"

type_synonym 'a ms = "(stream, go_error, 'a) sm"

definition awaitPeer :: "imp_peer \<Rightarrow> unit ms" where
  "awaitPeer peer = modifyE (\<lambda>s. s\<lparr>st_in := st_in s @ pe_answer peer (st_out s)\<rparr>)"

definition openStream :: "imp_peer \<Rightarrow> stream" where
  "openStream peer = \<lparr>st_in = [], st_out = [], st_limit = pe_limit peer\<rparr>"

definition handleFromClientSide :: "imp_peer \<Rightarrow> imp_header \<Rightarrow> unit ms \<Rightarrow> 'p ms \<Rightarrow> ('p \<Rightarrow> go_error + 'a) \<Rightarrow> 'a ms" where
  "handleFromClientSide peer header encReq dec action =
     bindE (mapErrE (handlingFailed header) (bindE encReq (\<lambda>_. bindE (awaitPeer peer) (\<lambda>_. dec)))) (\<lambda>rsp. liftE (action rsp))"

definition Master_do :: "msgpack \<Rightarrow> go_error + imp_peer \<Rightarrow> conn_id \<Rightarrow> imp_method \<Rightarrow> (imp_peer \<Rightarrow> imp_header \<Rightarrow> 'a ms) \<Rightarrow> go_error + 'a" where
  "Master_do mp dial connectionId method action =
     bindR dial (\<lambda>peer.
     let header = \<lparr>ih_Method = method, ih_ConnectionId = connectionId\<rparr> in
     fst (deferE (bindE (Header_EncodeMsgPack mp header) (\<lambda>_. action peer header)) (liftE (pe_close peer)) (openStream peer)))"

definition remoteResult :: "go_error option \<Rightarrow> 'a \<Rightarrow> go_error + 'a" where
  "remoteResult err v = (case AsRemoteError err of Some e \<Rightarrow> Inl e | None \<Rightarrow> Inr v)"

definition methodPing :: "msgpack \<Rightarrow> go_error + imp_peer \<Rightarrow> conn_id \<Rightarrow> go_error + unit" where
  "methodPing mp dial connectionId =
     Master_do mp dial connectionId MethodPing (\<lambda>peer header.
       handleFromClientSide peer header (emptyRequest_EncodeMsgPack ()) (errorResponse_DecodeMsgPack mp) (\<lambda>err. remoteResult err ()))"

definition methodKill :: "msgpack \<Rightarrow> go_error + imp_peer \<Rightarrow> conn_id \<Rightarrow> int \<Rightarrow> signal \<Rightarrow> go_error + unit" where
  "methodKill mp dial connectionId pid sig =
     Master_do mp dial connectionId MethodKill (\<lambda>peer header.
       handleFromClientSide peer header (killRequest_EncodeMsgPack mp \<lparr>kr_pid = pid, kr_signal = sig\<rparr>)
         (errorResponse_DecodeMsgPack mp) (\<lambda>err. remoteResult err ()))"

definition ErrNotFound :: go_error where
  "ErrNotFound = Newf ErrSystem ''connection not found'' None"

definition methodGetConnectionExitCode :: "msgpack \<Rightarrow> go_error + imp_peer \<Rightarrow> conn_id \<Rightarrow> go_error + int" where
  "methodGetConnectionExitCode mp dial connectionId =
     Master_do mp dial connectionId MethodGetConnectionExitCode (\<lambda>peer header.
       handleFromClientSide peer header (emptyRequest_EncodeMsgPack ()) (exitCodeResponse_DecodeMsgPack mp)
         (\<lambda>v. bindR (remoteResult (er_error v) ()) (\<lambda>_. if \<not> er_found v then Inl ErrNotFound else Inr (er_exitCode v))))"

definition methodGetEnvironment :: "msgpack \<Rightarrow> go_error + imp_peer \<Rightarrow> conn_id \<Rightarrow> go_error + env_map" where
  "methodGetEnvironment mp dial connectionId =
     Master_do mp dial connectionId MethodGetEnvironment (\<lambda>peer header.
       handleFromClientSide peer header (emptyRequest_EncodeMsgPack ()) (environmentResponse_DecodeMsgPack mp)
         (\<lambda>v. remoteResult (snd v) (fst v)))"

text \<open>
  \<^verbatim>\<open>methodTcpForward\<close> and \<^verbatim>\<open>methodNamedPipe\<close> keep the connection when they succeed; the result is the path of the pipe. The
  multiplexer over the connection (smux) is the library's.
\<close>

definition requestFailed :: "imp_method \<Rightarrow> go_error \<Rightarrow> go_error" where
  "requestFailed method err = Newf ErrNetwork (''handling '' @ Method_String method @ '' failed: '') (Some err)"

definition methodTcpForward :: "net_lib \<Rightarrow> msgpack \<Rightarrow> go_error + imp_peer \<Rightarrow> conn_id \<Rightarrow> host_port \<Rightarrow> go_error + unit" where
  "methodTcpForward nl mp dial connectionId target =
     map_sum (requestFailed MethodTcpForward) id
       (bindR dial (\<lambda>peer.
        fst (bindE (Header_EncodeMsgPack mp \<lparr>ih_Method = MethodTcpForward, ih_ConnectionId = connectionId\<rparr>) (\<lambda>_.
             bindE (tcpForwardRequest_EncodeMsgPack nl mp target) (\<lambda>_.
             bindE (awaitPeer peer) (\<lambda>_.
             bindE (errorResponse_DecodeMsgPack mp) (\<lambda>err. liftE (remoteResult err ()))))) (openStream peer))))"

definition methodNamedPipe :: "msgpack \<Rightarrow> go_error + imp_peer \<Rightarrow> conn_id \<Rightarrow> bytes \<Rightarrow> go_error + bytes" where
  "methodNamedPipe mp dial connectionId purpose =
     map_sum (requestFailed MethodNamedPipe) id
       (bindR dial (\<lambda>peer.
        fst (bindE (Header_EncodeMsgPack mp \<lparr>ih_Method = MethodNamedPipe, ih_ConnectionId = connectionId\<rparr>) (\<lambda>_.
             bindE (namedPipeRequest_EncodeMsgPack mp purpose) (\<lambda>_.
             bindE (awaitPeer peer) (\<lambda>_.
             bindE (namedPipeResponse_DecodeMsgPack mp) (\<lambda>(path, err). liftE (remoteResult err path))))) (openStream peer))))"

text \<open>The methods of a session of the master; \<^verbatim>\<open>errors.Is\<close> compares with the one value of \<open>ErrNotFound\<close>.\<close>

definition InitiateTcpForward :: "net_lib \<Rightarrow> (conn_id \<Rightarrow> bytes) \<Rightarrow> msgpack \<Rightarrow> go_error + imp_peer \<Rightarrow> conn_id \<Rightarrow> host_port \<Rightarrow> go_error + unit" where
  "InitiateTcpForward nl idText mp dial connectionId target =
     map_sum (\<lambda>err. Newf ErrNetwork (''cannot initiate direct tcp connection for '' @ idText connectionId @ '' to '' @ HostPort_String nl target @ '': '') (Some err)) id
       (methodTcpForward nl mp dial connectionId target)"

definition InitiateNamedPipe :: "(conn_id \<Rightarrow> bytes) \<Rightarrow> msgpack \<Rightarrow> go_error + imp_peer \<Rightarrow> conn_id \<Rightarrow> bytes \<Rightarrow> go_error + bytes" where
  "InitiateNamedPipe idText mp dial connectionId purpose =
     map_sum (\<lambda>err. Newf ErrNetwork (''cannot named pipe for '' @ idText connectionId @ '' of '' @ purpose @ '': '') (Some err)) id
       (methodNamedPipe mp dial connectionId purpose)"

definition GetConnectionExitCode :: "(conn_id \<Rightarrow> bytes) \<Rightarrow> msgpack \<Rightarrow> go_error + imp_peer \<Rightarrow> conn_id \<Rightarrow> go_error + int" where
  "GetConnectionExitCode idText mp dial connectionId =
     (case methodGetConnectionExitCode mp dial connectionId of
        Inl err \<Rightarrow> if err = ErrNotFound then Inl ErrNotFound
                   else Inl (Newf ErrNetwork (''cannot get connection exitCode for '' @ idText connectionId @ '': '') (Some err))
      | Inr v \<Rightarrow> Inr v)"

text \<open>A helper process as the other side: it answers what \<open>serveConn\<close> writes.\<close>

definition imp_started :: "bytes \<Rightarrow> imp_state" where
  "imp_started received = \<lparr>st_in = received, st_out = [], st_limit = None, is_sent = []\<rparr>"

definition imp_of :: "net_lib \<Rightarrow> msgpack \<Rightarrow> imp_os \<Rightarrow> imp_peer" where
  "imp_of nl mp os =
     \<lparr>pe_answer = (\<lambda>sent. st_out (snd (serveConn nl mp os (imp_started sent)))), pe_limit = None, pe_close = Inr ()\<rparr>"

subsection \<open>Who may connect (certificates.go, imp.go, master.go)\<close>

text \<open>
  What the verifiers read of a certificate: its public key and the names of its subject, each a pair of a type and a value
  that may be a text. \<open>parse\<close> and \<open>parseId\<close> are \<^verbatim>\<open>x509.ParseCertificate\<close> and the text of a session's id; \<open>sameKey\<close> is \<^verbatim>\<open>IsEqualTo\<close>
  of keys. The answers are the errors; the certificate chains are not looked at.
\<close>

record 'key certificate =
  ce_PublicKey :: "'key option"
  ce_Names :: "(bytes \<times> bytes option) list"

definition ObjectIdSessionId_type :: "bytes \<Rightarrow> bytes \<Rightarrow> bool" where
  "ObjectIdSessionId_type oid t \<longleftrightarrow> oid = t"

definition peerVerifierForPublicKey ::
    "(bytes \<Rightarrow> 'key certificate option) \<Rightarrow> ('key \<Rightarrow> 'key \<Rightarrow> bool) \<Rightarrow> 'key \<Rightarrow> bytes list \<Rightarrow> string + unit" where
  "peerVerifierForPublicKey parse sameKey expected rawCerts =
     (case rawCerts of
        [] \<Rightarrow> Inl ''no remote certificates presented: rejecting''
      | raw # _ \<Rightarrow>
          (case parse raw of
             None \<Rightarrow> Inl ''failed to parse remote certificate: rejecting''
           | Some cert \<Rightarrow>
               (case ce_PublicKey cert of
                  None \<Rightarrow> Inl ''illegal peer public key: rejecting''
                | Some pKey \<Rightarrow> if sameKey expected pKey then Inr () else Inl ''remote certificate does not match expected: rejecting'')))"

fun sessionName :: "bytes \<Rightarrow> (bytes \<Rightarrow> 'sid option) \<Rightarrow> 'sid \<Rightarrow> (bytes \<times> bytes option) list \<Rightarrow> string + unit" where
  "sessionName oid parseId expected [] = Inl ''peer certificate has no extraName: rejecting''"
| "sessionName oid parseId expected ((t, value) # names) =
     (if ObjectIdSessionId_type oid t
      then case Option.bind value parseId of
          Some i \<Rightarrow> if i = expected then Inr () else Inl ''peer certificate was issued for another sessionId: rejecting''
        | None \<Rightarrow> Inl ''peer certificate has extraName but no sessionId value: rejecting''
      else sessionName oid parseId expected names)"

definition peerVerifierForSessionId ::
    "bytes \<Rightarrow> (bytes \<Rightarrow> 'key certificate option) \<Rightarrow> (bytes \<Rightarrow> 'sid option) \<Rightarrow> 'sid \<Rightarrow> bytes list \<Rightarrow> string + unit" where
  "peerVerifierForSessionId oid parse parseId expected rawCerts =
     (case rawCerts of
        [] \<Rightarrow> Inl ''no remote certificates presented: rejecting''
      | raw # _ \<Rightarrow>
          (case parse raw of
             None \<Rightarrow> Inl ''failed to parse remote certificate: rejecting''
           | Some cert \<Rightarrow> sessionName oid parseId expected (ce_Names cert)))"

definition alwaysRejectPeerVerifier :: "bytes list \<Rightarrow> string + unit" where
  "alwaysRejectPeerVerifier rawCerts = Inl ''not initialized -> rejecting''"

text \<open>\<^verbatim>\<open>tlsConfigFor\<close>: which verifier the master uses for a helper process.\<close>

definition tlsConfigFor ::
    "bytes \<Rightarrow> (bytes \<Rightarrow> 'key certificate option) \<Rightarrow> ('key \<Rightarrow> 'key \<Rightarrow> bool) \<Rightarrow> (bytes \<Rightarrow> 'sid option) \<Rightarrow> ('sid \<Rightarrow> bool) \<Rightarrow>
     'key option \<Rightarrow> 'sid \<Rightarrow> go_error + (bytes list \<Rightarrow> string + unit)" where
  "tlsConfigFor oid parse sameKey parseId isZero publicKey sessionId =
     (case publicKey of
        Some pub \<Rightarrow> Inr (peerVerifierForPublicKey parse sameKey pub)
      | None \<Rightarrow>
          if \<not> isZero sessionId then Inr (peerVerifierForSessionId oid parse parseId sessionId)
          else Inl (Newf ErrSystem ''the imp ref provider neither a publicKey nor a sessionId'' None))"

definition DefaultPort :: nat where "DefaultPort = 9687"

definition Imp_getAddr :: "bytes \<Rightarrow> bytes" where
  "Imp_getAddr addr = (if addr \<noteq> [] then addr else CHR '':'' # format_uint DefaultPort)"

end
