(* ===== verification/DockerModel.thy ===== *)
theory DockerModel
  imports Complex_Main SharedEnvs NetModel Enums ImpProtocol
begin

section \<open>Containers as environments: configuration and what is asked of the engine (docker-repository.go, docker.go)\<close>

text \<open>
  The engine, the encodings and the helper process are parameters, gathered in the record \<open>docker_deps\<close>; \<open>'e\<close> is the state of the
  engine and of everything else outside of the program. This theory has the data the engine is given and gives, and how the
  settings of a flow become the configuration of a container.
\<close>

subsection \<open>The progress of a pull (docker-image-pull-progress.go)\<close>

text \<open>
  Floating point numbers are rational numbers that a rounding \<open>fl\<close> (of 64 bits) or \<open>fl32\<close> follows. The layers are a list instead
  of a map, in the order of their first messages, which fixes the order of the additions. A message has the layer, the status,
  the numbers of bytes and an error; a message that cannot be decoded is an error.
\<close>

record go_float =
  fl :: "rat \<Rightarrow> rat"
  fl32 :: "rat \<Rightarrow> rat"

record pull_layer =
  pl_last :: int
  pl_total :: int
  pl_complete :: bool

record pull_message =
  pm_ID :: bytes
  pm_Status :: bytes
  pm_Progress :: "(int \<times> int) option"
  pm_Error :: "bytes option"

fun sumLayers :: "go_float \<Rightarrow> (bytes \<times> pull_layer) list \<Rightarrow> rat \<Rightarrow> rat \<Rightarrow> (rat \<times> rat) option" where
  "sumLayers gf [] l t = Some (l, t)"
| "sumLayers gf ((_, y) # layers) l t =
     (if \<not> pl_complete y \<and> pl_total y \<le> 0 then None
      else let lLast = (if pl_complete y \<and> pl_last y \<le> 0 then pl_total y else pl_last y) in
        sumLayers gf layers (fl gf (l + fl gf (of_int lLast))) (fl gf (t + fl gf (of_int (pl_total y)))))"

definition calculateProgress :: "go_float \<Rightarrow> (bytes \<times> pull_layer) list \<Rightarrow> rat" where
  "calculateProgress gf layers =
     (case sumLayers gf layers 0 0 of
        None \<Rightarrow> 0
      | Some (l, t) \<Rightarrow>
          (let t1 = (if t < l then l else t); t2 = (if t1 = 0 then 1 else t1) in fl32 gf (fl gf (l / t2))))"

definition nextLayers :: "pull_message \<Rightarrow> (bytes \<times> pull_layer) list \<Rightarrow> (bytes \<times> pull_layer) list" where
  "nextLayers jm layers =
     (let status = pm_Status jm in
      if status = ''Pulling fs layer'' then AList.update (pm_ID jm) \<lparr>pl_last = 0, pl_total = 0, pl_complete = False\<rparr> layers
      else if status = ''Downloading layer'' \<or> status = ''Downloading''
      then (case pm_Progress jm of
              Some (n, m) \<Rightarrow> AList.update (pm_ID jm) \<lparr>pl_last = n, pl_total = m, pl_complete = False\<rparr> layers
            | None \<Rightarrow> layers)
      else if status = ''Download complete'' \<or> status = ''Already exists''
      then (let existing = (case map_of layers (pm_ID jm) of Some y \<Rightarrow> y | None \<Rightarrow> \<lparr>pl_last = 0, pl_total = 0, pl_complete = False\<rparr>)
            in AList.update (pm_ID jm) (existing\<lparr>pl_complete := True\<rparr>) layers)
      else layers)"

fun pullLoop ::
    "go_float \<Rightarrow> (rat \<Rightarrow> ('s, env_err, unit) sm) \<Rightarrow> (env_err + pull_message) list \<Rightarrow> (bytes \<times> pull_layer) list \<Rightarrow> rat \<Rightarrow> ('s, env_err, unit) sm" where
  "pullLoop gf report [] layers progress = returnE ()"
| "pullLoop gf report (Inl err # msgs) layers progress = throwE err"
| "pullLoop gf report (Inr jm # msgs) layers progress =
     (case pm_Error jm of
        Some err \<Rightarrow> throwE (EErrText err)
      | None \<Rightarrow>
          (let layers' = nextLayers jm layers; progressCandidate = calculateProgress gf layers' in
           if progressCandidate > progress
           then bindE (report progressCandidate) (\<lambda>_. pullLoop gf report msgs layers' progressCandidate)
           else pullLoop gf report msgs layers' progress))"

definition handleImagePullProgress ::
    "go_float \<Rightarrow> (rat \<Rightarrow> ('s, env_err, unit) sm) \<Rightarrow> ('s, env_err, unit) sm \<Rightarrow> (env_err + pull_message) list \<Rightarrow> ('s, env_err, unit) sm" where
  "handleImagePullProgress gf report completed msgs = bindE (pullLoop gf report msgs [] 0) (\<lambda>_. completed)"

subsection \<open>Errors\<close>

fun env_typeOf :: "env_err \<Rightarrow> err_type option" where
  "env_typeOf (EErrTyped t _ _) = Some t"
| "env_typeOf (EErrMsg _ e) = env_typeOf e"
| "env_typeOf _ = None"

text \<open>\<^verbatim>\<open>errors.Newf\<close> that wraps an error: the type of an error of this kind inside is kept.\<close>

definition env_wrapf :: "err_type \<Rightarrow> string \<Rightarrow> env_err \<Rightarrow> env_err" where
  "env_wrapf t msg e = EErrTyped (case env_typeOf e of Some u \<Rightarrow> u | None \<Rightarrow> t) msg (Some e)"

definition containerContainsProblemsErr :: env_err where
  "containerContainsProblemsErr = EErrTyped TSystem ''container contains problems'' None"

text \<open>\<^verbatim>\<open>errors.Is\<close>\<close>

fun errorsIs :: "env_err \<Rightarrow> env_err \<Rightarrow> bool" where
  "errorsIs (EErrMsg _ e) target = errorsIs e target"
| "errorsIs (EErrTyped t m (Some e)) target = errorsIs e target"
| "errorsIs e target \<longleftrightarrow> e = target"

definition isContainerProblem :: "env_err \<Rightarrow> bool" where
  "isContainerProblem err = errorsIs err containerContainsProblemsErr"

text \<open>An error of the engine: its text, whether \<^verbatim>\<open>errdefs.IsNotFound\<close> holds of it, and what it wraps.\<close>

datatype api_err = ApiErr (ae_text: bytes) (ae_notFound: bool) (ae_cause: "api_err option")

fun isNoSuchImageError :: "api_err \<Rightarrow> bool" where
  "isNoSuchImageError (ApiErr msg _ cause) =
     (if take 14 msg = ''No such image:'' then True
      else case cause of None \<Rightarrow> False | Some e \<Rightarrow> isNoSuchImageError e)"

definition apiError :: "api_err \<Rightarrow> env_err" where
  "apiError e = EErrText (ae_text e)"

subsection \<open>Mounts\<close>

text \<open>The two packages of the engine's client declare the same fields, so that one record stands for both types of a mount.\<close>

record mount_bind =
  mb_Propagation :: bytes
  mb_NonRecursive :: bool
  mb_CreateMountpoint :: bool
  mb_ReadOnlyNonRecursive :: bool
  mb_ReadOnlyForceRecursive :: bool

record mount_driver =
  md_Name :: bytes
  md_Options :: "(bytes \<times> bytes) list"

record mount_volume =
  mv_NoCopy :: bool
  mv_Labels :: "(bytes \<times> bytes) list"
  mv_Subpath :: bytes
  mv_DriverConfig :: "mount_driver option"

record mount_tmpfs =
  mt_SizeBytes :: int
  mt_Mode :: "32 word"
  mt_Options :: "bytes list list"

record container_mount =
  mo_Type :: bytes
  mo_Source :: bytes
  mo_Target :: bytes
  mo_ReadOnly :: bool
  mo_Consistency :: bytes
  mo_BindOptions :: "mount_bind option"
  mo_VolumeOptions :: "mount_volume option"
  mo_ImageOptions :: "bytes option"
  mo_TmpfsOptions :: "mount_tmpfs option"
  mo_ClusterOptions :: "unit option"

definition toDockerBindOptions :: "mount_bind option \<Rightarrow> mount_bind option" where
  "toDockerBindOptions value =
     (case value of None \<Rightarrow> None
      | Some v \<Rightarrow> Some \<lparr>mb_Propagation = mb_Propagation v, mb_NonRecursive = mb_NonRecursive v, mb_CreateMountpoint = mb_CreateMountpoint v,
          mb_ReadOnlyNonRecursive = mb_ReadOnlyNonRecursive v, mb_ReadOnlyForceRecursive = mb_ReadOnlyForceRecursive v\<rparr>)"

definition toDockerDriver :: "mount_driver option \<Rightarrow> mount_driver option" where
  "toDockerDriver value = (case value of None \<Rightarrow> None | Some v \<Rightarrow> Some \<lparr>md_Name = md_Name v, md_Options = md_Options v\<rparr>)"

definition toDockerVolumeOptions :: "mount_volume option \<Rightarrow> mount_volume option" where
  "toDockerVolumeOptions value =
     (case value of None \<Rightarrow> None
      | Some v \<Rightarrow> Some \<lparr>mv_NoCopy = mv_NoCopy v, mv_Labels = mv_Labels v, mv_Subpath = mv_Subpath v,
          mv_DriverConfig = toDockerDriver (mv_DriverConfig v)\<rparr>)"

definition toDockerImageOptions :: "bytes option \<Rightarrow> bytes option" where
  "toDockerImageOptions value = (case value of None \<Rightarrow> None | Some v \<Rightarrow> Some v)"

definition toDockerTmpfsOptions :: "mount_tmpfs option \<Rightarrow> mount_tmpfs option" where
  "toDockerTmpfsOptions value =
     (case value of None \<Rightarrow> None | Some v \<Rightarrow> Some \<lparr>mt_SizeBytes = mt_SizeBytes v, mt_Mode = mt_Mode v, mt_Options = mt_Options v\<rparr>)"

definition toDockerClusterOptions :: "unit option \<Rightarrow> unit option" where
  "toDockerClusterOptions value = (case value of None \<Rightarrow> None | Some v \<Rightarrow> Some ())"

definition toDockerMount :: "container_mount \<Rightarrow> container_mount" where
  "toDockerMount value =
     \<lparr>mo_Type = mo_Type value, mo_Source = mo_Source value, mo_Target = mo_Target value, mo_ReadOnly = mo_ReadOnly value,
      mo_Consistency = mo_Consistency value, mo_BindOptions = toDockerBindOptions (mo_BindOptions value),
      mo_VolumeOptions = toDockerVolumeOptions (mo_VolumeOptions value), mo_ImageOptions = toDockerImageOptions (mo_ImageOptions value),
      mo_TmpfsOptions = toDockerTmpfsOptions (mo_TmpfsOptions value), mo_ClusterOptions = toDockerClusterOptions (mo_ClusterOptions value)\<rparr>"

lemma toDockerMount_id [simp]: "toDockerMount m = m"
  by (simp add: toDockerMount_def toDockerBindOptions_def toDockerVolumeOptions_def toDockerDriver_def toDockerImageOptions_def
      toDockerTmpfsOptions_def toDockerClusterOptions_def split: option.splits)

subsection \<open>Containers\<close>

text \<open>What is read of a container: \<open>ct_Networks\<close> and \<open>ct_Ports\<close> in the order of their iteration, \<open>None\<close> for missing network settings.\<close>

record container_port =
  cp_PrivatePort :: "16 word"
  cp_PublicPort :: "16 word"
  cp_Type :: bytes
  cp_IP :: bytes

record container =
  ct_ID :: bytes
  ct_Status :: bytes
  ct_Image :: bytes
  ct_Names :: "bytes list"
  ct_Labels :: "(bytes \<times> bytes) list"
  ct_Networks :: "(bytes \<times> bytes) list option"
  ct_Ports :: "container_port list"

record container_config =
  cc_Labels :: "(bytes \<times> bytes) list"
  cc_ExposedPorts :: "bytes list"
  cc_Image :: bytes
  cc_Entrypoint :: "bytes list"
  cc_Cmd :: "bytes list"
  cc_User :: bytes
  cc_Env :: "bytes list"

record host_config =
  hc_AutoRemove :: bool
  hc_PublishAllPorts :: bool
  hc_Binds :: "bytes list"
  hc_Mounts :: "container_mount list"
  hc_CapAdd :: "bytes list"
  hc_Privileged :: bool
  hc_DNS :: "bytes list"
  hc_DNSSearch :: "bytes list"

datatype container_filter = ByLabel bytes "bytes option" | ById bytes

record docker_env = env_instance +
  do_containerId :: bytes
  do_remoteUser :: bytes
  do_remoteHost :: net_host
  do_shellCommand :: "bytes list"
  do_execCommand :: "bytes list"
  do_sftpCommand :: "bytes list"
  do_user :: bytes
  do_directory :: bytes
  do_portForwardingAllowed :: bool
  do_impBinding :: host_port

text \<open>
  The settings of a flow (\<^verbatim>\<open>pkg/configuration/environment-docker.go\<close>). The four that say where the engine is are rendered without any data,
  \<open>dc_CleanOrphan\<close> with a container.
\<close>

record 'k env_docker_conf =
  dc_LoginAllowed :: "('k, bool) tmpl"
  dc_Host :: "env_err + bytes"
  dc_ApiVersion :: "env_err + bytes"
  dc_CertPath :: "env_err + bytes"
  dc_TlsVerify :: "env_err + bool"
  dc_Image :: "'k str_tmpl"
  dc_ImagePullPolicy :: pull_policy
  dc_ImagePullCredentials :: "'k str_tmpl"
  dc_Networks :: "'k str_tmpl list"
  dc_Volumes :: "'k str_tmpl list"
  dc_Mounts :: "'k str_tmpl list"
  dc_Capabilities :: "'k str_tmpl list"
  dc_Privileged :: "('k, bool) tmpl"
  dc_DnsServers :: "'k str_tmpl list"
  dc_DnsSearch :: "'k str_tmpl list"
  dc_ShellCommand :: "'k str_tmpl list"
  dc_ExecCommand :: "'k str_tmpl list"
  dc_SftpCommand :: "'k str_tmpl list"
  dc_Directory :: "'k str_tmpl"
  dc_User :: "'k str_tmpl"
  dc_Banner :: "'k str_tmpl"
  dc_PortForwardingAllowed :: "('k, bool) tmpl"
  dc_ImpPublishHost :: net_host
  dc_CleanOrphan :: "container \<Rightarrow> env_err + bool"

record 'k docker_repository =
  dk_flow :: bytes
  dk_conf :: "'k env_docker_conf"
  dk_hostOs :: sys_os
  dk_hostArch :: sys_arch
  dk_defaultLogLevelName :: bytes

text \<open>\<^verbatim>\<open>registry.AuthConfig\<close>, as far as it is looked at.\<close>

record auth_config =
  ac_Auth :: bytes
  ac_Username :: bytes
  ac_Password :: bytes

text \<open>
  \<open>dd_list\<close> answers the containers that match, at most as many as the first argument says; \<open>dd_pull\<close> the messages of a pull;
  \<open>dd_startPreparation\<close> whether the client is shown a progress, which \<open>dd_report\<close>, \<open>dd_completed\<close> and \<open>dd_reportError\<close> show. \<open>dd_parseMount\<close> reads one mount, the three \<open>dd_auth\<close> functions
  credentials. \<open>dd_ctxErr\<close> is the error of the request's context.
\<close>

record ('k, 'e) docker_deps =
  dd_idText :: "sid \<Rightarrow> bytes"
  dd_idParse :: "bytes \<Rightarrow> sid option"
  dd_jsonEncode :: "bytes list \<Rightarrow> bytes"
  dd_jsonDecode :: "bytes \<Rightarrow> bytes list option"
  dd_net :: net_lib
  dd_base64 :: "bytes \<Rightarrow> bytes"
  dd_base64Url :: "bytes \<Rightarrow> bytes"
  dd_authDecode :: "bytes \<Rightarrow> auth_config option"
  dd_authJson :: "bytes \<Rightarrow> auth_config option"
  dd_authEncode :: "auth_config \<Rightarrow> env_err + bytes"
  dd_parseMount :: "bytes \<Rightarrow> env_err + container_mount"
  dd_masterKey :: "env_err + bytes"
  dd_findBinary :: "sys_os \<Rightarrow> sys_arch \<Rightarrow> env_err + bytes"
  dd_absPath :: "bytes \<Rightarrow> env_err + bytes"
  dd_list :: "nat option \<Rightarrow> container_filter \<Rightarrow> 'e \<Rightarrow> (api_err + container list) \<times> 'e"
  dd_create :: "container_config \<Rightarrow> host_config \<Rightarrow> bytes list \<Rightarrow> 'e \<Rightarrow> (api_err + bytes) \<times> 'e"
  dd_start :: "bytes \<Rightarrow> 'e \<Rightarrow> (api_err + unit) \<times> 'e"
  dd_remove :: "bytes \<Rightarrow> 'e \<Rightarrow> (api_err + unit) \<times> 'e"
  dd_pull :: "bytes \<Rightarrow> bytes \<Rightarrow> 'e \<Rightarrow> (api_err + (env_err + pull_message) list) \<times> 'e"
  dd_float :: go_float
  dd_report :: "rat \<Rightarrow> 'e \<Rightarrow> (env_err + unit) \<times> 'e"
  dd_completed :: "'e \<Rightarrow> (env_err + unit) \<times> 'e"
  dd_reportError :: "'e \<Rightarrow> (env_err + unit) \<times> 'e"
  dd_startPreparation :: "'k env_context \<Rightarrow> bytes \<Rightarrow> 'e \<Rightarrow> (env_err + bool) \<times> 'e"
  dd_impOpen :: "docker_env \<Rightarrow> env_err + unit"
  dd_newConnId :: "'e \<Rightarrow> (env_err + conn_id) \<times> 'e"
  dd_ctxErr :: "'e \<Rightarrow> env_err option"
  dd_ping :: "docker_env \<Rightarrow> conn_id \<Rightarrow> 'e \<Rightarrow> unit try_result \<times> 'e"
  dd_sleep :: "'e \<Rightarrow> (env_err + unit) \<times> 'e"

abbreviation DockerLabelFlow :: bytes where "DockerLabelFlow \<equiv> ''org.engity.bifroest/flow''"
abbreviation DockerLabelSessionId :: bytes where "DockerLabelSessionId \<equiv> ''org.engity.bifroest/session-id''"
abbreviation DockerLabelCreatedRemoteUser :: bytes where "DockerLabelCreatedRemoteUser \<equiv> ''org.engity.bifroest/created-remote-user''"
abbreviation DockerLabelCreatedRemoteHost :: bytes where "DockerLabelCreatedRemoteHost \<equiv> ''org.engity.bifroest/created-remote-host''"
abbreviation DockerLabelShellCommand :: bytes where "DockerLabelShellCommand \<equiv> ''org.engity.bifroest/shellCommand''"
abbreviation DockerLabelExecCommand :: bytes where "DockerLabelExecCommand \<equiv> ''org.engity.bifroest/execCommand''"
abbreviation DockerLabelSftpCommand :: bytes where "DockerLabelSftpCommand \<equiv> ''org.engity.bifroest/sftpCommand''"
abbreviation DockerLabelUser :: bytes where "DockerLabelUser \<equiv> ''org.engity.bifroest/user''"
abbreviation DockerLabelDirectory :: bytes where "DockerLabelDirectory \<equiv> ''org.engity.bifroest/directory''"
abbreviation DockerLabelPortForwardingAllowed :: bytes where "DockerLabelPortForwardingAllowed \<equiv> ''org.engity.bifroest/portForwardingAllowed''"

abbreviation imp_ServicePort :: nat where "imp_ServicePort \<equiv> 8683"

definition labelOf :: "(bytes \<times> bytes) list \<Rightarrow> bytes \<Rightarrow> bytes" where
  "labelOf labels name = (case map_of labels name of Some v \<Rightarrow> v | None \<Rightarrow> [])"

subsection \<open>Rendering the settings\<close>

fun Strings_Render :: "'k str_tmpl list \<Rightarrow> ('k, bytes list) tmpl" where
  "Strings_Render [] data = Inr []"
| "Strings_Render (v # vs) data =
     bindR (wrapR (EErrMsg ''index'') (String_Render v data)) (\<lambda>rv. bindR (Strings_Render vs data) (\<lambda>rvs. Inr (rv # rvs)))"

definition configE :: "string \<Rightarrow> env_err + 'a \<Rightarrow> env_err + 'a" where
  "configE msg r = wrapR (env_wrapf TConfig msg) r"

definition backslashed :: "bytes list \<Rightarrow> bytes" where
  "backslashed parts = bytes_join (CHR 0x5C) parts"

definition windowsShell :: bytes where
  "windowsShell = backslashed [''C:'', ''WINDOWS'', ''system32'', ''cmd.exe'']"

definition resolveEncodedShellCommand :: "('k, 'e) docker_deps \<Rightarrow> 'k docker_repository \<Rightarrow> ('k, bytes) tmpl" where
  "resolveEncodedShellCommand dd this req =
     bindR (configE ''cannot evaluate shellCommand'' (Strings_Render (dc_ShellCommand (dk_conf this)) req)) (\<lambda>v.
     if length v \<noteq> 0 then Inr (dd_jsonEncode dd v)
     else if dk_hostOs this = OsWindows then Inr (dd_jsonEncode dd [windowsShell])
     else if dk_hostOs this = OsLinux then Inr (dd_jsonEncode dd [''/bin/sh''])
     else Inl (EErrTyped TConfig ''shellCommand was not defined for docker environment and default cannot be resolved'' None))"

definition resolveEncodedExecCommand :: "('k, 'e) docker_deps \<Rightarrow> 'k docker_repository \<Rightarrow> ('k, bytes) tmpl" where
  "resolveEncodedExecCommand dd this req =
     bindR (configE ''cannot evaluate execCommand'' (Strings_Render (dc_ExecCommand (dk_conf this)) req)) (\<lambda>v.
     if length v \<noteq> 0 then Inr (dd_jsonEncode dd v)
     else if dk_hostOs this = OsWindows then Inr (dd_jsonEncode dd [windowsShell, ''/C''])
     else if dk_hostOs this = OsLinux then Inr (dd_jsonEncode dd [''/bin/sh'', ''-c''])
     else Inl (EErrTyped TConfig ''execCommand was not defined for docker environment and default cannot be resolved'' None))"

definition resolveEncodedSftpCommand :: "('k, 'e) docker_deps \<Rightarrow> 'k docker_repository \<Rightarrow> ('k, bytes) tmpl" where
  "resolveEncodedSftpCommand dd this req =
     bindR (configE ''cannot evaluate sftpCommand'' (Strings_Render (dc_SftpCommand (dk_conf this)) req)) (\<lambda>v.
     if length v \<noteq> 0 then Inr (dd_jsonEncode dd v)
     else if length (BifroestBinaryFileLocation (dk_hostOs this)) = 0
     then Inl (EErrTyped TConfig ''sftpCommand was not defined for docker environment and default cannot be resolved'' None)
     else Inr (dd_jsonEncode dd [BifroestBinaryFileLocation (dk_hostOs this), ''sftp-server'']))"

text \<open>The labels of a container: what is needed to use it again later.\<close>

definition containerLabels :: "('k, 'e) docker_deps \<Rightarrow> 'k docker_repository \<Rightarrow> 'k env_context \<Rightarrow> fs_session \<Rightarrow> env_err + (bytes \<times> bytes) list" where
  "containerLabels dd this req sess =
     bindR (resolveEncodedShellCommand dd this req) (\<lambda>shell.
     bindR (resolveEncodedExecCommand dd this req) (\<lambda>exec.
     bindR (resolveEncodedSftpCommand dd this req) (\<lambda>sftp.
     bindR (configE ''cannot evaluate user'' (String_Render (dc_User (dk_conf this)) req)) (\<lambda>user.
     bindR (configE ''cannot evaluate directory'' (String_Render (dc_Directory (dk_conf this)) req)) (\<lambda>directory.
     bindR (configE ''cannot evaluate portForwardingAllowed'' (dc_PortForwardingAllowed (dk_conf this) req)) (\<lambda>pf.
     Inr ([(DockerLabelFlow, dk_flow this), (DockerLabelSessionId, dd_idText dd (ss_id sess)),
           (DockerLabelCreatedRemoteUser, fst (ec_remote req)), (DockerLabelCreatedRemoteHost, snd (ec_remote req)),
           (DockerLabelShellCommand, shell), (DockerLabelExecCommand, exec), (DockerLabelSftpCommand, sftp),
           (DockerLabelUser, user), (DockerLabelDirectory, directory)] @
          (if pf then [(DockerLabelPortForwardingAllowed, ''true'')] else []))))))))"

definition resolveContainerConfig ::
    "('k, 'e) docker_deps \<Rightarrow> 'k docker_repository \<Rightarrow> 'k env_context \<Rightarrow> fs_session \<Rightarrow> env_err + container_config" where
  "resolveContainerConfig dd this req sess =
     bindR (containerLabels dd this req sess) (\<lambda>labels.
     bindR (configE ''cannot evaluate image'' (String_Render (dc_Image (dk_conf this)) req)) (\<lambda>image.
     let location = BifroestBinaryFileLocation (dk_hostOs this) in
     if length location = 0 then Inl (EErrTyped TConfig ''cannot resolve target path for host'' None)
     else bindR (dd_masterKey dd) (\<lambda>masterPub.
     Inr \<lparr>cc_Labels = labels, cc_ExposedPorts = [format_uint imp_ServicePort @ ''/tcp''], cc_Image = image, cc_Entrypoint = [],
          cc_Cmd = [location, ''imp'', ''--log.colorMode=always''] @
            (if dk_defaultLogLevelName this \<noteq> [] then [''--log.level='' @ dk_defaultLogLevelName this] else []),
          cc_User = (if dk_hostOs this = OsLinux then ''root'' else []),
          cc_Env = [''BIFROEST_MASTER_PUBLIC_KEY='' @ dd_base64 dd masterPub, ''BIFROEST_SESSION_ID='' @ dd_idText dd (ss_id sess)]\<rparr>)))"

fun parseMounts :: "('k, 'e) docker_deps \<Rightarrow> bytes list \<Rightarrow> env_err + container_mount list" where
  "parseMounts dd [] = Inr []"
| "parseMounts dd (raw # raws) =
     bindR (configE ''cannot evaluate mount'' (dd_parseMount dd raw)) (\<lambda>v. bindR (parseMounts dd raws) (\<lambda>vs. Inr (v # vs)))"

definition impBinaryMount :: "bytes \<Rightarrow> bytes \<Rightarrow> container_mount" where
  "impBinaryMount source target =
     \<lparr>mo_Type = ''bind'', mo_Source = source, mo_Target = target, mo_ReadOnly = True, mo_Consistency = [],
      mo_BindOptions = Some \<lparr>mb_Propagation = [], mb_NonRecursive = True, mb_CreateMountpoint = True,
        mb_ReadOnlyNonRecursive = False, mb_ReadOnlyForceRecursive = False\<rparr>,
      mo_VolumeOptions = None, mo_ImageOptions = None, mo_TmpfsOptions = None, mo_ClusterOptions = None\<rparr>"

definition resolveHostConfig :: "('k, 'e) docker_deps \<Rightarrow> 'k docker_repository \<Rightarrow> 'k env_context \<Rightarrow> env_err + host_config" where
  "resolveHostConfig dd this req =
     (let conf = dk_conf this in
      bindR (configE ''cannot evaluate volumes'' (Strings_Render (dc_Volumes conf) req)) (\<lambda>binds.
      bindR (configE ''cannot evaluate mounts'' (Strings_Render (dc_Mounts conf) req)) (\<lambda>raws.
      bindR (parseMounts dd raws) (\<lambda>values.
      bindR (configE ''cannot evaluate capabilities'' (Strings_Render (dc_Capabilities conf) req)) (\<lambda>capAdd.
      bindR (configE ''cannot evaluate capabilities'' (dc_Privileged conf req)) (\<lambda>privileged.
      bindR (configE ''cannot evaluate dnsServer'' (Strings_Render (dc_DnsServers conf) req)) (\<lambda>dns.
      bindR (configE ''cannot evaluate dnsSearch'' (Strings_Render (dc_DnsSearch conf) req)) (\<lambda>dnsSearch.
      bindR (configE ''cannot resolve imp binary path'' (dd_findBinary dd (dk_hostOs this) (dk_hostArch this))) (\<lambda>impBinaryPath.
      bindR (if impBinaryPath = [] then Inr []
             else bindR (configE ''cannot resolve full imp binary path'' (dd_absPath dd impBinaryPath)) (\<lambda>absPath.
                  let targetPath = BifroestBinaryFileLocation (dk_hostOs this) in
                  if targetPath = [] then Inl (EErrTyped TConfig ''cannot resolve target path for host'' None)
                  else Inr [impBinaryMount absPath targetPath])) (\<lambda>impMount.
      Inr \<lparr>hc_AutoRemove = True, hc_PublishAllPorts = (\<not> Host_IsZero (dc_ImpPublishHost conf)), hc_Binds = binds,
           hc_Mounts = map toDockerMount values @ impMount, hc_CapAdd = capAdd, hc_Privileged = privileged, hc_DNS = dns,
           hc_DNSSearch = dnsSearch\<rparr>))))))))))"

definition resolveNetworkingConfig :: "'k docker_repository \<Rightarrow> ('k, bytes list) tmpl" where
  "resolveNetworkingConfig this req = configE ''cannot evaluate network'' (Strings_Render (dc_Networks (dk_conf this)) req)"

definition authComplete :: "auth_config \<Rightarrow> bool" where
  "authComplete buf \<longleftrightarrow> ac_Auth buf \<noteq> [] \<or> ac_Username buf \<noteq> [] \<or> ac_Password buf \<noteq> []"

text \<open>A JSON text without credentials leaves the three fields of the buffer empty.\<close>

definition resolvePullCredentials :: "('k, 'e) docker_deps \<Rightarrow> 'k docker_repository \<Rightarrow> ('k, bytes) tmpl" where
  "resolvePullCredentials dd this req =
     configE ''cannot resolve image pull credentials''
       (bindR (String_Render (dc_ImagePullCredentials (dk_conf this)) req) (\<lambda>plain.
        if plain = [] then Inr []
        else if (case dd_authDecode dd plain of Some buf \<Rightarrow> authComplete buf | None \<Rightarrow> False) then Inr plain
        else if (case dd_authJson dd plain of Some buf \<Rightarrow> authComplete buf | None \<Rightarrow> False) then Inr (dd_base64Url dd plain)
        else dd_authEncode dd \<lparr>ac_Auth = plain, ac_Username = [], ac_Password = []\<rparr>))"

end
