(* ===== verification/Docker.thy ===== *)
theory Docker
  imports DockerModel
begin

section \<open>The repository of containers (docker-repository.go, docker.go)\<close>

text \<open>The repository on the state of \<open>SharedEnvs\<close>; the outside is the engine.\<close>

type_synonym 'e docker_state = "('e, unit docker_env_ext) shared_state"
type_synonym ('e, 'a) dm = "('e docker_state, shared_err, 'a) sm"

subsection \<open>Containers (docker-repository.go)\<close>

definition removeContainer :: "('k, 'e) docker_deps \<Rightarrow> bytes \<Rightarrow> ('e, bool) dm" where
  "removeContainer dd i s =
     (let (r, e) = dd_remove dd i (es_engine s); t = s\<lparr>es_engine := e, es_removed := es_removed s @ [i]\<rparr> in
      case r of
        Inr _ \<Rightarrow> (Inr True, t)
      | Inl err \<Rightarrow> if ae_notFound err then (Inr False, t) else (Inl (SErr (EErrTyped TSystem ''cannot remove container'' (Some (apiError err)))), t))"

text \<open>The exit code of a container from its status, -1 when it has none.\<close>

definition exitCodeOf :: "bytes \<Rightarrow> int" where
  "exitCodeOf status0 =
     (if take 8 status0 = ''Exited ('' then
        (let status = drop 8 status0; number = takeWhile (\<lambda>c. c \<noteq> CHR '')'') status in
         if length number > 0 \<and> length number < length status
         then (case strconv_Atoi number of Some v \<Rightarrow> v | None \<Rightarrow> -1) else -1)
      else -1)"

definition findContainerBy :: "('k, 'e) docker_deps \<Rightarrow> container_filter \<Rightarrow> ('e, (container \<times> int) option) dm" where
  "findContainerBy dd selection =
     bindE (engineE (\<lambda>e. EErrTyped TSystem ''cannot list container'' (Some (apiError e))) (dd_list dd (Some 1) selection)) (\<lambda>list.
     returnE (case list of [] \<Rightarrow> None | c # _ \<Rightarrow> Some (c, exitCodeOf (ct_Status c))))"

definition findContainerBySession :: "('k, 'e) docker_deps \<Rightarrow> sid \<Rightarrow> ('e, (container \<times> int) option) dm" where
  "findContainerBySession dd i = findContainerBy dd (ByLabel DockerLabelSessionId (Some (dd_idText dd i)))"

definition findContainerById :: "('k, 'e) docker_deps \<Rightarrow> bytes \<Rightarrow> ('e, (container \<times> int) option) dm" where
  "findContainerById dd i = findContainerBy dd (ById i)"

text \<open>The messages of a pull are only read where the client is shown the progress; then it is shown a failure, too.\<close>

definition pullMessages :: "('k, 'e) docker_deps \<Rightarrow> bool \<Rightarrow> (env_err + pull_message) list \<Rightarrow> ('e, unit) dm" where
  "pullMessages dd progress msgs =
     (if \<not> progress then returnE ()
      else engineE id (handleImagePullProgress (dd_float dd) (dd_report dd) (dd_completed dd) msgs))"

definition pullImage :: "('k, 'e) docker_deps \<Rightarrow> 'k docker_repository \<Rightarrow> 'k env_context \<Rightarrow> bytes \<Rightarrow> ('e, unit) dm" where
  "pullImage dd this req ref =
     bindE (engineE id (dd_startPreparation dd req ref)) (\<lambda>progress.
     onErrorE
       (bindE (liftS (resolvePullCredentials dd this req)) (\<lambda>auth.
        bindE (engineE apiError (dd_pull dd ref auth)) (pullMessages dd progress)))
       (if progress then engineE id (dd_reportError dd) else returnE ()))"

definition cannotPull :: "('e, unit) dm \<Rightarrow> ('e, unit) dm" where
  "cannotPull = mapErrE (onEnvErr (env_wrapf TSystem ''cannot pull container image''))"

definition cannotCreate :: "api_err \<Rightarrow> env_err" where
  "cannotCreate e = EErrTyped TSystem ''cannot create container'' (Some (apiError e))"

definition createPulled ::
    "('k, 'e) docker_deps \<Rightarrow> 'k docker_repository \<Rightarrow> 'k env_context \<Rightarrow> container_config \<Rightarrow> host_config \<Rightarrow> bytes list \<Rightarrow> ('e, bytes) dm" where
  "createPulled dd this req config hostConfig networks =
     (let policy = dc_ImagePullPolicy (dk_conf this); create = engineE cannotCreate (dd_create dd config hostConfig networks) in
      bindE (if policy = PullPolicyAlways then cannotPull (pullImage dd this req (cc_Image config)) else returnE ()) (\<lambda>_ s.
      case dd_create dd config hostConfig networks (es_engine s) of
        (Inl err, e) \<Rightarrow>
          (let t = s\<lparr>es_engine := e\<rparr> in
           if isNoSuchImageError err \<and> policy \<noteq> PullPolicyAlways \<and> policy \<noteq> PullPolicyNever
           then bindE (cannotPull (pullImage dd this req (cc_Image config))) (\<lambda>_. create) t
           else (Inl (SErr (cannotCreate err)), t))
      | (Inr i, e) \<Rightarrow> (Inr i, s\<lparr>es_engine := e\<rparr>)))"

definition startCreated :: "('k, 'e) docker_deps \<Rightarrow> bytes \<Rightarrow> ('e, container) dm" where
  "startCreated dd containerId =
     bindE (engineE (\<lambda>e. EErrTyped TSystem ''cannot start container'' (Some (apiError e))) (dd_start dd containerId)) (\<lambda>_.
     bindE (findContainerById dd containerId) (\<lambda>c.
     case c of None \<Rightarrow> throwE (SErr (EErrTyped TSystem ''container died instant after initial start'' None)) | Some (c, _) \<Rightarrow> returnE c))"

definition createContainerBy :: "('k, 'e) docker_deps \<Rightarrow> 'k docker_repository \<Rightarrow> 'k env_context \<Rightarrow> fs_session \<Rightarrow> ('e, container) dm" where
  "createContainerBy dd this req sess =
     bindE (liftS (resolveContainerConfig dd this req sess)) (\<lambda>config.
     bindE (liftS (resolveHostConfig dd this req)) (\<lambda>hostConfig.
     bindE (liftS (resolveNetworkingConfig this req)) (\<lambda>networks.
     bindE (createPulled dd this req config hostConfig networks) (\<lambda>containerId.
     onErrorE (startCreated dd containerId) (removeContainer dd containerId)))))"

subsection \<open>Environments from containers (docker.go)\<close>

definition problem :: "string \<Rightarrow> env_err + 'a" where
  "problem msg = Inl (EErrMsg msg containerContainsProblemsErr)"

definition decodedLabel :: "('k, 'e) docker_deps \<Rightarrow> (bytes \<times> bytes) list \<Rightarrow> bytes \<Rightarrow> env_err + bytes list" where
  "decodedLabel dd labels name =
     (let v = labelOf labels name in
      if v = [] then problem ''missing label''
      else case dd_jsonDecode dd v of None \<Rightarrow> problem ''cannot decode label'' | Some r \<Rightarrow> Inr r)"

fun networkAddress :: "net_lib \<Rightarrow> (bytes \<times> bytes) list \<Rightarrow> env_err + host_port" where
  "networkAddress nl [] = problem ''network configuration of container does not any valid network configuration''"
| "networkAddress nl ((n, ip) # networks) =
     (if ip \<noteq> [] then Inr \<lparr>hp_Host = Host_UnmarshalText nl ip, hp_Port = of_nat imp_ServicePort\<rparr> else networkAddress nl networks)"

fun publishedAddress :: "net_lib \<Rightarrow> net_host \<Rightarrow> container_port list \<Rightarrow> env_err + host_port" where
  "publishedAddress nl iph [] = problem ''container does not have any valid exposed port''"
| "publishedAddress nl iph (candidate # ports) =
     (if cp_PrivatePort candidate \<noteq> of_nat imp_ServicePort \<or> cp_Type candidate \<noteq> ''tcp'' then publishedAddress nl iph ports
      else let host = Host_UnmarshalText nl (cp_IP candidate) in
        Inr \<lparr>hp_Host = (if Host_IsZero host then iph else host), hp_Port = cp_PublicPort candidate\<rparr>)"

definition resolveImpBinding :: "('k, 'e) docker_deps \<Rightarrow> 'k docker_repository \<Rightarrow> container \<Rightarrow> env_err + host_port" where
  "resolveImpBinding dd this c =
     (let iph = dc_ImpPublishHost (dk_conf this) in
      if Host_IsZero iph
      then (case ct_Networks c of None \<Rightarrow> problem ''missing network settings of container'' | Some networks \<Rightarrow> networkAddress (dd_net dd) networks)
      else publishedAddress (dd_net dd) iph (ct_Ports c))"

definition parseContainer :: "('k, 'e) docker_deps \<Rightarrow> 'k docker_repository \<Rightarrow> container \<Rightarrow> env_err + docker_env" where
  "parseContainer dd this c =
     (let labels = ct_Labels c; label = labelOf labels in
      if label DockerLabelFlow = [] then problem ''missing label flow''
      else if label DockerLabelFlow \<noteq> dk_flow this then problem ''expected another flow''
      else if label DockerLabelSessionId = [] then problem ''missing label session-id''
      else bindR (case dd_idParse dd (label DockerLabelSessionId) of None \<Rightarrow> problem ''cannot decode label session-id'' | Some i \<Rightarrow> Inr i) (\<lambda>sessionId.
      if label DockerLabelCreatedRemoteHost = [] then problem ''missing label created-remote-host''
      else bindR (decodedLabel dd labels DockerLabelShellCommand) (\<lambda>shell.
      bindR (decodedLabel dd labels DockerLabelExecCommand) (\<lambda>exec.
      bindR (if label DockerLabelSftpCommand = [] then Inr [] else decodedLabel dd labels DockerLabelSftpCommand) (\<lambda>sftp.
      bindR (resolveImpBinding dd this c) (\<lambda>binding.
      Inr \<lparr>ei_sessionId = sessionId, ei_owners = 0, do_containerId = ct_ID c, do_remoteUser = label DockerLabelCreatedRemoteUser,
           do_remoteHost = Host_UnmarshalText (dd_net dd) (label DockerLabelCreatedRemoteHost), do_shellCommand = shell, do_execCommand = exec,
           do_sftpCommand = sftp, do_user = label DockerLabelUser, do_directory = label DockerLabelDirectory,
           do_portForwardingAllowed = (label DockerLabelPortForwardingAllowed = ''true''), do_impBinding = binding\<rparr>))))))"

definition newDocker :: "('k, 'e) docker_deps \<Rightarrow> 'k docker_repository \<Rightarrow> container \<Rightarrow> ('e, nat) dm" where
  "newDocker dd this c =
     mapErrE (onEnvErr (env_wrapf TSystem ''cannot create environment from container''))
       (bindE (liftS (parseContainer dd this c)) (\<lambda>env.
        bindE (liftS (dd_impOpen dd env)) (\<lambda>_.
        bindE (engineE id (dd_newConnId dd)) (\<lambda>connId.
        bindE (awaitReady (dd_ctxErr dd) (dd_ping dd env connId) (dd_sleep dd) 200) (\<lambda>_.
        remember env)))))"

subsection \<open>Finding and ensuring (docker-repository.go)\<close>

definition removeUnchecked :: "('k, 'e) docker_deps \<Rightarrow> bytes \<Rightarrow> ('e, unit) dm" where
  "removeUnchecked dd i s = (Inr (), snd (removeContainer dd i s))"

text \<open>The container that is used, where \<open>found\<close> is what the read phase found. One that has exited is not replaced: it is used all the same.\<close>

definition chosenContainer ::
    "('k, 'e) docker_deps \<Rightarrow> 'k docker_repository \<Rightarrow> fs_session \<Rightarrow> bool option option \<Rightarrow> 'k env_context option \<Rightarrow>
     (container \<times> int) option \<Rightarrow> ('e, container) dm" where
  "chosenContainer dd this sess opts createUsing found =
     (case found of
        Some (c, exitCode) \<Rightarrow>
          if exitCode \<ge> 0 then
            bindE (if FindOpts_IsAutoCleanUpAllowed opts then bindE (removeContainer dd (ct_ID c)) (\<lambda>_. returnE ()) else returnE ()) (\<lambda>_.
            if createUsing = None then throwE (SErr ErrNoSuchEnvironment) else returnE c)
          else returnE c
      | None \<Rightarrow>
          (case createUsing of
             Some req \<Rightarrow> createContainerBy dd this req sess
           | None \<Rightarrow> throwE (SErr ErrNoSuchEnvironment)))"

text \<open>What happens under the write lock where no environment is active; \<open>retry\<close> is the second attempt.\<close>

definition freshContainer ::
    "('k, 'e) docker_deps \<Rightarrow> 'k docker_repository \<Rightarrow> fs_session \<Rightarrow> bool option option \<Rightarrow> 'k env_context option \<Rightarrow> bool \<Rightarrow> ('e, nat) dm \<Rightarrow>
     (container \<times> int) option \<Rightarrow> ('e, nat) dm" where
  "freshContainer dd this sess opts createUsing retryAllowed retry found =
     bindE (chosenContainer dd this sess opts createUsing found) (\<lambda>c s.
     case newDocker dd this c s of
       (Inr ref, t) \<Rightarrow> activate (ss_id sess) ref t
     | (Inl (SErr err), t) \<Rightarrow>
         if isContainerProblem err then
           if createUsing \<noteq> None then
             bindE (removeUnchecked dd (ct_ID c)) (\<lambda>_. if \<not> retryAllowed then throwE (SErr err) else retry) t
           else if FindOpts_IsAutoCleanUpAllowed opts then
             bindE (removeUnchecked dd (ct_ID c)) (\<lambda>_. throwE (SErr ErrNoSuchEnvironment)) t
           else (Inl (SErr err), t)
         else (Inl (SErr err), t)
     | (Inl NeverReturns, t) \<Rightarrow> (Inl NeverReturns, t))"

definition searchContainer :: "('k, 'e) docker_deps \<Rightarrow> sid \<Rightarrow> bool \<Rightarrow> ('e, (container \<times> int) option) dm" where
  "searchContainer dd i creating =
     bindE (findContainerBySession dd i) (\<lambda>found.
     if found = None \<and> \<not> creating then throwE (SErr ErrNoSuchEnvironment) else returnE found)"

function findOrEnsureBySession ::
    "('k, 'e) docker_deps \<Rightarrow> ('e docker_state \<Rightarrow> 'e docker_state) \<Rightarrow> 'k docker_repository \<Rightarrow> fs_session \<Rightarrow> bool option option \<Rightarrow>
     'k env_context option \<Rightarrow> bool \<Rightarrow> ('e, nat) dm" where
  "findOrEnsureBySession dd others this sess opts createUsing retryAllowed =
     sharedOr others (ss_id sess) (searchContainer dd (ss_id sess) (createUsing \<noteq> None))
       (freshContainer dd this sess opts createUsing retryAllowed
         (if retryAllowed then findOrEnsureBySession dd others this sess opts createUsing False else throwE (SErr ErrNoSuchEnvironment)))"
  by pat_completeness auto
termination
  by (relation "measure (\<lambda>(dd, others, this, sess, opts, createUsing, retryAllowed). if retryAllowed then 1 else 0)") simp_all

declare findOrEnsureBySession.simps [simp del]

definition docker_WillBeAccepted :: "'k docker_repository \<Rightarrow> ('k, bool) tmpl" where
  "docker_WillBeAccepted this ctx = wrapR (EErrMsg ''cannot evaluate if user is allowed to login or not'') (dc_LoginAllowed (dk_conf this) ctx)"

definition docker_DoesSupportPty :: "'k docker_repository \<Rightarrow> ('k, bool) tmpl" where
  "docker_DoesSupportPty this ctx = Inr True"

definition docker_Ensure ::
    "('k, 'e) docker_deps \<Rightarrow> ('e docker_state \<Rightarrow> 'e docker_state) \<Rightarrow> 'k docker_repository \<Rightarrow> 'k env_context \<Rightarrow> ('e, nat) dm" where
  "docker_Ensure dd others this req =
     bindE (liftS (docker_WillBeAccepted this req)) (\<lambda>ok.
     if \<not> ok then throwE (SErr ErrNotAcceptable)
     else case au_session (ec_authorization req) of
         None \<Rightarrow> throwE (SErr (EErrTyped TSystem ''authorization without session'' None))
       | Some sess \<Rightarrow> findOrEnsureBySession dd others this sess None (Some req) True)"

definition docker_FindBySession ::
    "('k, 'e) docker_deps \<Rightarrow> ('e docker_state \<Rightarrow> 'e docker_state) \<Rightarrow> 'k docker_repository \<Rightarrow> fs_session \<Rightarrow> bool option option \<Rightarrow> ('e, nat) dm" where
  "docker_FindBySession dd others this sess opts = findOrEnsureBySession dd others this sess opts None False"

subsection \<open>Disposing and closing (docker.go)\<close>

definition docker_Dispose :: "('k, 'e) docker_deps \<Rightarrow> nat \<Rightarrow> ('e, bool) dm" where
  "docker_Dispose dd ref s =
     withLock Writing (ei_sessionId (es_instances s ! ref))
       (deferE (mapErrE (onEnvErr (env_wrapf TSystem ''cannot dispose environment'')) (removeContainer dd (do_containerId (es_instances s ! ref))))
          (closeGuarded ref)) s"

definition docker_Close :: "nat \<Rightarrow> ('e, unit) dm" where
  "docker_Close ref s = withLock Writing (ei_sessionId (es_instances s ! ref)) (closeGuarded ref) s"

end
