(* ===== verification/LocalEnv.thy ===== *)
theory LocalEnv
  imports EnvModel
begin

section \<open>Local environments (pkg/environment/local-repository*.go, local-token_unix.go, local.go, local_unix.go)\<close>

text \<open>
  The repository of the flows whose users work on the host itself, on a unix system. \<^verbatim>\<open>Ensure\<close> looks up or makes the
  user, stores a token in the session, and \<^verbatim>\<open>FindBySession\<close> restores the environment from that token. The token's
  JSON text is a parameter. \<open>cp\<close> is the recursive copy of a skeleton directory.
\<close>

subsection \<open>Configuration (pkg/configuration/environment-local_unix.go, environment-local-dispose.go)\<close>

record 'k env_local_dispose =
  ld_DeleteManagedUser :: "('k, bool) tmpl"
  ld_DeleteManagedUserHomeDir :: "('k, bool) tmpl"
  ld_KillManagedUserProcesses :: "('k, bool) tmpl"

record 'k env_local_conf =
  el_User :: "'k user_requirement_template"
  el_LoginAllowed :: "('k, bool) tmpl"
  el_CreateIfAbsent :: "('k, bool) tmpl"
  el_UpdateIfDifferent :: "('k, bool) tmpl"
  el_Dispose :: "'k env_local_dispose"
  el_Banner :: "'k str_tmpl"
  el_PortForwardingAllowed :: "('k, bool) tmpl"

record 'k local_repository =
  lr_flow :: bytes
  lr_conf :: "'k env_local_conf"

text \<open>\<^verbatim>\<open>NewLocalRepository\<close>; \<open>users\<close> is what \<^verbatim>\<open>user.DefaultRepositoryProvider.Create\<close> answers.\<close>

definition NewLocalRepository :: "env_err + unit \<Rightarrow> bytes \<Rightarrow> 'k env_local_conf option \<Rightarrow> env_err + 'k local_repository" where
  "NewLocalRepository users flow conf =
     (case conf of
        None \<Rightarrow> Inl (EErrText ''nil configuration'')
      | Some c \<Rightarrow> bindR users (\<lambda>_. Inr \<lparr>lr_flow = flow, lr_conf = c\<rparr>))"

subsection \<open>Tokens (local-token_unix.go)\<close>

record local_token =
  lt_Name :: bytes
  lt_Uid :: "uid option"
  lt_Managed :: bool
  lt_DeleteOnDispose :: bool
  lt_DeleteHomeDirOnDispose :: bool
  lt_KillProcessesOnDispose :: bool
  lt_PortForwardingAllowed :: bool

record local_deps =
  ld_encode :: "local_token \<Rightarrow> bytes"
  ld_decode :: "bytes \<Rightarrow> local_token option"

text \<open>JSON texts are not empty, and \<^verbatim>\<open>json.Unmarshal\<close> reads what \<^verbatim>\<open>json.Marshal\<close> wrote of a UTF-8 name.\<close>

definition local_deps_ok :: "local_deps \<Rightarrow> bool" where
  "local_deps_ok ld \<longleftrightarrow> (\<forall>lt. ld_encode ld lt \<noteq> [] \<and> (utf8_ValidString (lt_Name lt) \<longrightarrow> ld_decode ld (ld_encode ld lt) = Some lt))"

definition newLocalToken :: "'k local_repository \<Rightarrow> user \<Rightarrow> 'k env_context \<Rightarrow> bool \<Rightarrow> env_err + local_token" where
  "newLocalToken this u req userIsManaged =
     bindR (el_PortForwardingAllowed (lr_conf this) req) (\<lambda>portForwardingAllowed.
     bindR (ld_DeleteManagedUser (el_Dispose (lr_conf this)) req) (\<lambda>deleteOnDispose.
     bindR (ld_DeleteManagedUserHomeDir (el_Dispose (lr_conf this)) req) (\<lambda>deleteHomeDirOnDispose.
     bindR (ld_KillManagedUserProcesses (el_Dispose (lr_conf this)) req) (\<lambda>killProcessesOnDispose.
     Inr \<lparr>lt_Name = us_Name u, lt_Uid = Some (us_Uid u), lt_Managed = userIsManaged,
          lt_DeleteOnDispose = (deleteOnDispose \<and> userIsManaged),
          lt_DeleteHomeDirOnDispose = (deleteHomeDirOnDispose \<and> deleteOnDispose \<and> userIsManaged),
          lt_KillProcessesOnDispose = (killProcessesOnDispose \<and> userIsManaged),
          lt_PortForwardingAllowed = portForwardingAllowed\<rparr>))))"

subsection \<open>Environments (local_unix.go)\<close>

record local_env =
  le_session :: fs_session
  le_user :: user
  le_portForwardingAllowed :: bool
  le_deleteUserOnDispose :: bool
  le_deleteUserHomeDirOnDispose :: bool
  le_killUserProcessesOnDispose :: bool

definition newLocalEnv :: "user \<Rightarrow> fs_session \<Rightarrow> bool \<Rightarrow> local_token \<Rightarrow> local_env" where
  "newLocalEnv u sess portForwardingAllowed lt =
     \<lparr>le_session = sess, le_user = u, le_portForwardingAllowed = portForwardingAllowed,
      le_deleteUserOnDispose = lt_DeleteOnDispose lt, le_deleteUserHomeDirOnDispose = lt_DeleteHomeDirOnDispose lt,
      le_killUserProcessesOnDispose = lt_KillProcessesOnDispose lt\<rparr>"

subsection \<open>The repository (local-repository.go, local-repository_unix.go)\<close>

definition local_WillBeAccepted :: "'k local_repository \<Rightarrow> ('k, bool) tmpl" where
  "local_WillBeAccepted this ctx =
     wrapR (EErrMsg ''cannot evaluate if user is allowed to login or not'') (el_LoginAllowed (lr_conf this) ctx)"

definition local_DoesSupportPty :: "'k local_repository \<Rightarrow> ('k, bool) tmpl" where
  "local_DoesSupportPty this ctx = Inr True"

record local_ensure_opts =
  leo_createIfAbsent :: bool
  leo_updateIfDifferent :: bool

definition canCreateOrUpdate :: "local_ensure_opts \<Rightarrow> bool" where
  "canCreateOrUpdate this \<longleftrightarrow> leo_createIfAbsent this \<or> leo_updateIfDifferent this"

definition getEnsureOptsOf :: "'k local_repository \<Rightarrow> ('k, local_ensure_opts) tmpl" where
  "getEnsureOptsOf this r =
     bindR (wrapR (EErrMsg ''cannot render createIfAbsent'') (el_CreateIfAbsent (lr_conf this) r)) (\<lambda>c.
     bindR (wrapR (EErrMsg ''cannot render updateIfDifferent'') (el_UpdateIfDifferent (lr_conf this) r)) (\<lambda>u.
     Inr \<lparr>leo_createIfAbsent = c, leo_updateIfDifferent = u\<rparr>))"

definition lookupByName :: "'k str_tmpl \<Rightarrow> 'k env_context \<Rightarrow> user em" where
  "lookupByName tmpl r =
     bindE (liftE (wrapR (EErrMsg ''cannot render user name'') (String_Render tmpl r))) (\<lambda>name.
     viaUsers EErrUser (\<lambda>s. (LookupByName s name, s)))"

definition lookupByUid :: "('k, uid) tmpl \<Rightarrow> 'k env_context \<Rightarrow> user em" where
  "lookupByUid tmpl r =
     bindE (liftE (wrapR (EErrMsg ''cannot render UID'') (tmpl r))) (\<lambda>uid.
     viaUsers EErrUser (\<lambda>s. (LookupById s uid, s)))"

definition lookupUserBy :: "'k local_repository \<Rightarrow> 'k env_context \<Rightarrow> user em" where
  "lookupUserBy this req =
     (if ut_Name (el_User (lr_conf this)) \<noteq> None then lookupByName (ut_Name (el_User (lr_conf this))) req
      else case ut_Uid (el_User (lr_conf this)) of
          Some v \<Rightarrow> lookupByUid v req
        | None \<Rightarrow> throwE (EErrTyped TSystem ''neither a user name nor user id configured'' None))"

definition local_ensureUser :: "copier \<Rightarrow> requirement \<Rightarrow> local_ensure_opts \<Rightarrow> (user \<times> ensure_result) em" where
  "local_ensureUser cp req opts =
     mapErrE (EErrMsg ''cannot ensure user'')
       (viaUsers EErrUser (Ensure cp req (Some
          \<lparr>eo_CreateAllowed = Some (leo_createIfAbsent opts), eo_ModifyAllowed = Some (leo_updateIfDifferent opts),
           eo_HomeDir = None, eo_OnHomeDirExist = EnsureOnHomeDirExistUnknown\<rparr>)))"

definition ensureUserByTask :: "copier \<Rightarrow> 'k local_repository \<Rightarrow> 'k env_context \<Rightarrow> local_ensure_opts \<Rightarrow> (user \<times> ensure_result) em" where
  "ensureUserByTask cp this r opts =
     bindE (liftE (wrapR (EErrMsg ''cannot render user requirement'') (UserRequirementTemplate_Render (el_User (lr_conf this)) r))) (\<lambda>req.
     local_ensureUser cp req opts)"

text \<open>\<^verbatim>\<open>userNotFound\<close> of \<^verbatim>\<open>FindBySession\<close>: only an allowed clean-up takes the token away and makes the environment unknown.\<close>

definition local_userNotFound :: "'k deps \<Rightarrow> fs_session \<Rightarrow> bool option option \<Rightarrow> local_env em" where
  "local_userNotFound d sess opts =
     (if \<not> FindOpts_IsAutoCleanUpAllowed opts
      then throwE (EErrTyped TExpired ''user of session cannot longer be found; treat as expired'' None)
      else bindE (mapErrE (\<lambda>e. EErrTyped TSystem ''cannot clear existing environment token of session'' (Some e))
                   (viaStore EErrSession (SetEnvironmentToken d sess []))) (\<lambda>_.
           throwE ErrNoSuchEnvironment))"

definition local_tokenUser :: "'k deps \<Rightarrow> fs_session \<Rightarrow> bool option option \<Rightarrow> local_token \<Rightarrow> user_err + user \<Rightarrow> local_env em" where
  "local_tokenUser d sess opts lt found =
     (case found of
        Inl e \<Rightarrow> if e = ErrNoSuchUser then local_userNotFound d sess opts
                 else throwE (EErrTyped TSystem ''cannot lookup environment's user'' (Some (EErrUser e)))
      | Inr u \<Rightarrow> returnE (newLocalEnv u sess (lt_PortForwardingAllowed lt) lt))"

definition local_FindBySession :: "local_deps \<Rightarrow> 'k deps \<Rightarrow> fs_session \<Rightarrow> bool option option \<Rightarrow> local_env em" where
  "local_FindBySession ld d sess opts =
     bindE (mapErrE (\<lambda>e. EErrTyped TSystem ''cannot get environment token'' (Some e))
             (viaStore EErrSession (EnvironmentToken d sess))) (\<lambda>ltb.
     if length ltb = 0 then throwE ErrNoSuchEnvironment
     else case ld_decode ld ltb of
         None \<Rightarrow> throwE (EErrTyped TSystem ''cannot decode environment token'' None)
       | Some lt \<Rightarrow>
           if length (lt_Name lt) \<noteq> 0
           then bindE (getE (\<lambda>h. LookupByName (usersOf h) (lt_Name lt))) (local_tokenUser d sess opts lt)
           else case lt_Uid lt of
               Some v \<Rightarrow> bindE (getE (\<lambda>h. LookupById (usersOf h) v)) (local_tokenUser d sess opts lt)
             | None \<Rightarrow> throwE (EErrTyped TSystem ''environment token does not contain valid user information'' None))"

definition local_Ensure :: "copier \<Rightarrow> local_deps \<Rightarrow> 'k deps \<Rightarrow> 'k local_repository \<Rightarrow> 'k env_context \<Rightarrow> local_env em" where
  "local_Ensure cp ld d this req =
     bindE (liftE (local_WillBeAccepted this req)) (\<lambda>ok.
     if \<not> ok then throwE ErrNotAcceptable
     else case au_session (ec_authorization req) of
         None \<Rightarrow> throwE (EErrTyped TSystem ''authorization without session'' None)
       | Some sess \<Rightarrow>
           bindE (tryE (local_FindBySession ld d sess None)) (\<lambda>existing.
           case existing of
             Inr e \<Rightarrow> returnE e
           | Inl _ \<Rightarrow>
               bindE (liftE (getEnsureOptsOf this req)) (\<lambda>ensureOpts.
               bindE (if \<not> canCreateOrUpdate ensureOpts
                      then bindE (lookupUserBy this req) (\<lambda>u. returnE (u, False))
                      else bindE (ensureUserByTask cp this req ensureOpts) (\<lambda>(u, _). returnE (u, True))) (\<lambda>(u, userIsManaged).
               bindE (liftE (newLocalToken this u req userIsManaged)) (\<lambda>lt.
               bindE (liftE (el_PortForwardingAllowed (lr_conf this) req)) (\<lambda>portForwardingAllowed.
               bindE (mapErrE (\<lambda>e. EErrTyped TSystem ''cannot store environment token at session'' (Some e))
                       (viaStore EErrSession (SetEnvironmentToken d sess (ld_encode ld lt)))) (\<lambda>_.
               returnE (newLocalEnv u sess portForwardingAllowed lt))))))))"

subsection \<open>What an environment does (local.go, local_unix.go)\<close>

definition local_Banner :: "'k local_repository \<Rightarrow> ('k, bytes) tmpl" where
  "local_Banner this req = String_Render (el_Banner (lr_conf this)) req"

definition local_IsPortForwardingAllowed :: "local_env \<Rightarrow> bool" where
  "local_IsPortForwardingAllowed this = le_portForwardingAllowed this"

text \<open>\<^verbatim>\<open>NewDestinationConnection\<close>; \<open>dial\<close> is \<^verbatim>\<open>net.Dialer.DialContext\<close>.\<close>

definition local_NewDestinationConnection :: "('a \<Rightarrow> env_err + 'c) \<Rightarrow> local_env \<Rightarrow> 'a \<Rightarrow> env_err + 'c" where
  "local_NewDestinationConnection dial this dest =
     (if \<not> le_portForwardingAllowed this then Inl (EErrTyped TPermission ''portforwarning not allowed'' None)
      else dial dest)"

definition local_dispose :: "local_env \<Rightarrow> bool em" where
  "local_dispose this =
     (if le_deleteUserOnDispose this
      then bindE (tryE (viaUsers id (DeleteById (us_Uid (le_user this)) (Some
              \<lparr>do_HomeDir = Some (le_deleteUserHomeDirOnDispose this),
               do_KillProcesses = Some (le_killUserProcessesOnDispose this)\<rparr>)))) (\<lambda>r.
        case r of
          Inl e \<Rightarrow> if e = ErrNoSuchUser then returnE False else throwE (EErrUser e)
        | Inr _ \<Rightarrow> returnE True)
      else returnE False)"

definition local_Dispose :: "'k deps \<Rightarrow> local_env \<Rightarrow> bool em" where
  "local_Dispose d this =
     mapErrE (\<lambda>e. EErrTyped TSystem ''cannot dispose environment'' (Some e))
       (bindE (local_dispose this) (\<lambda>disposed.
        bindE (viaStore EErrSession (SetEnvironmentToken d (le_session this) [])) (\<lambda>_.
        returnE disposed)))"

end
