(* ===== verification/EnvRun.thy ===== *)
theory EnvRun
  imports LocalEnv
begin

section \<open>Running a task in a local environment (pkg/environment/local.go, local_unix.go)\<close>

text \<open>
  \<^verbatim>\<open>Run\<close> has two parts. The first one makes the command: the program, its arguments, the credentials of the user and the
  environment variables. The second one is a loop over the four channels of the running command; a run is the sequence of
  what the loop receives. What the process of the server provides is a parameter: \<open>ro_lookupEnv\<close> its variables, and the
  answers of \<^verbatim>\<open>os.Executable\<close>, \<^verbatim>\<open>net.NewNamedPipe\<close> and \<^verbatim>\<open>pty.Open\<close> with \<^verbatim>\<open>configureCmdForPty\<close>.
\<close>

record run_os =
  ro_lookupEnv :: "bytes \<Rightarrow> bytes option"
  ro_executable :: "env_err + bytes"
  ro_agentPipe :: "env_err + bytes"
  ro_openPty :: "env_err + unit"

record command =
  cm_Path :: bytes
  cm_Args :: "bytes list"
  cm_Dir :: bytes
  cm_Credential :: credential
  cm_Env :: "bytes list"
  cm_onPty :: bool

subsection \<open>The command\<close>

definition local_getPathEnv :: "run_os \<Rightarrow> bytes" where
  "local_getPathEnv os =
     (let v = (case ro_lookupEnv os ''PATH'' of None \<Rightarrow> [] | Some v \<Rightarrow> v) in
      if v \<noteq> [] then v else ''/bin:/usr/bin'')"

text \<open>The variables of \<^verbatim>\<open>Set\<close> are written out in pairs, so its panic does not occur.\<close>

definition createCmdAndEnv :: "run_os \<Rightarrow> local_env \<Rightarrow> 'k env_task \<Rightarrow> command \<times> env_map" where
  "createCmdAndEnv os this t =
     (let u = le_user this;
          ev1 = [(''PATH'', local_getPathEnv os)];
          ev2 = (case ro_lookupEnv os ''TZ'' of Some v \<Rightarrow> EnvVars_setAll [''TZ'', v] ev1 | None \<Rightarrow> ev1);
          ev3 = EnvVars_AddAllOf (au_envVars (ec_authorization t)) ev2;
          ev4 = EnvVars_Add (et_environ t) ev3;
          ev5 = EnvVars_setAll [''HOME'', us_HomeDir u, ''USER'', us_Name u, ''LOGNAME'', us_Name u, ''SHELL'', us_Shell u] ev4
      in (\<lparr>cm_Path = [], cm_Args = [], cm_Dir = us_HomeDir u, cm_Credential = User_ToCredentials u, cm_Env = [], cm_onPty = False\<rparr>, ev5))"

definition configureShellCmd :: "local_env \<Rightarrow> 'k env_task \<Rightarrow> command \<Rightarrow> command" where
  "configureShellCmd this t cmd =
     (let shell = us_Shell (le_user this); rc = et_rawCommand t in
      if length rc > 0 then cmd\<lparr>cm_Path := shell, cm_Args := [filepath_Base shell, ''-c'', rc]\<rparr>
      else cmd\<lparr>cm_Path := shell, cm_Args := [CHR ''-'' # filepath_Base shell]\<rparr>)"

abbreviation session_EnvName :: bytes where "session_EnvName \<equiv> ''BIFROEST_SESSION_ID''"
abbreviation AuthSockEnvName :: bytes where "AuthSockEnvName \<equiv> ''SSH_AUTH_SOCK''"

definition taskCommand :: "run_os \<Rightarrow> local_env \<Rightarrow> 'k env_task \<Rightarrow> command \<Rightarrow> env_err + command" where
  "taskCommand os this t cmd =
     (if et_taskType t = TaskTypeShell then Inr (configureShellCmd this t cmd)
      else if et_taskType t = TaskTypeSftp
      then bindR (wrapR (\<lambda>e. EErrTyped TSystem ''cannot resolve the location of the server's executable location'' (Some e)) (ro_executable os)) (\<lambda>efn.
           Inr (cmd\<lparr>cm_Path := efn, cm_Args := [efn, ''sftp-server'']\<rparr>))
      else Inl (EErrTyped TSystem ''illegal task type'' None))"

text \<open>\<^verbatim>\<open>Run\<close> up to the start of the process; \<open>uuidText\<close> is the text of a session's id.\<close>

definition prepareRun :: "(sid \<Rightarrow> bytes) \<Rightarrow> run_os \<Rightarrow> local_env \<Rightarrow> 'k env_task \<Rightarrow> env_err + command" where
  "prepareRun uuidText os this t =
     (case au_session (ec_authorization t) of
        None \<Rightarrow> Inl (EErrTyped TSystem ''authorization without session is not supported to run docker environment'' None)
      | Some sess \<Rightarrow>
          (let (cmd0, ev0) = createCmdAndEnv os this t;
               ev1 = EnvVars_setAll [session_EnvName, uuidText (ss_id sess)] ev0
           in bindR (taskCommand os this t cmd0) (\<lambda>cmd1.
              bindR (if et_agentRequested t
                     then bindR (wrapR (\<lambda>e. EErrTyped TSystem ''cannot listen to agent'' (Some e)) (ro_agentPipe os)) (\<lambda>path.
                          Inr (EnvVars_setAll [AuthSockEnvName, path] ev1))
                     else Inr ev1) (\<lambda>ev2.
              bindR (case et_pty t of
                       None \<Rightarrow> Inr (cmd1, ev2)
                     | Some term \<Rightarrow>
                         bindR (wrapR (\<lambda>e. EErrTyped TSystem ''cannot allocate pty'' (Some e)) (ro_openPty os)) (\<lambda>_.
                         Inr (cmd1\<lparr>cm_onPty := True\<rparr>, EnvVars_setAll [''TERM'', term] ev2))) (\<lambda>(cmd2, ev3).
              Inr (cmd2\<lparr>cm_Env := EnvVars_Strings ev3\<rparr>))))))"

subsection \<open>The loop\<close>

text \<open>
  What the \<^verbatim>\<open>select\<close> of the loop receives, one after the other: a signal of the client, the end of the task's context, the
  result of the process, or the end of one of the two copies; \<open>None\<close> is a receive from a closed channel.
\<close>

datatype run_event =
    EvSignal "bytes option"
  | EvContextDone
  | EvProcessDone "(int \<times> env_err option) option"
  | EvCopyDone "env_err option option"

text \<open>
  The answer is the exit code and the error of \<^verbatim>\<open>Run\<close>, or \<open>None\<close> while the loop still waits, and the signals that were sent
  to the process. \<^verbatim>\<open>rErr\<close> is only set by the two branches that return.
\<close>

fun runLoop :: "run_event list \<Rightarrow> (int \<times> env_err option) option \<times> signal list" where
  "runLoop [] = (None, [])"
| "runLoop (EvSignal (Some s) # evs) = (let (r, sent) = runLoop evs in (r, signalFor s # sent))"
| "runLoop (EvSignal None # evs) = runLoop evs"
| "runLoop (EvContextDone # evs) = (Some (-2, None), [])"
| "runLoop (EvProcessDone (Some (exitCode, err)) # evs) = (Some (exitCode, err), [])"
| "runLoop (EvProcessDone None # evs) = runLoop evs"
| "runLoop (EvCopyDone (Some (Some err)) # evs) = (Some (-1, Some err), [])"
| "runLoop (EvCopyDone _ # evs) = runLoop evs"

text \<open>
  \<^verbatim>\<open>Run\<close>: \<open>start\<close> is the answer of \<^verbatim>\<open>cmd.Start\<close>. When the loop has ended the deferred \<^verbatim>\<open>kill\<close> follows: the last signal is
  \<^verbatim>\<open>SIGKILL\<close>, which a process that is done no longer gets.
\<close>

definition local_Run ::
    "(sid \<Rightarrow> bytes) \<Rightarrow> run_os \<Rightarrow> (command \<Rightarrow> env_err + unit) \<Rightarrow> local_env \<Rightarrow> 'k env_task \<Rightarrow> run_event list \<Rightarrow>
     (int \<times> env_err option) option \<times> signal list" where
  "local_Run uuidText os start this t evs =
     (case prepareRun uuidText os this t of
        Inl e \<Rightarrow> (Some (-1, Some e), [])
      | Inr cmd \<Rightarrow>
          (case start cmd of
             Inl e \<Rightarrow> (Some (-1, Some (EErrTyped TSystem ''cannot start process'' (Some e))), [])
           | Inr _ \<Rightarrow>
               (let (r, sent) = runLoop evs in
                if r = None then (None, sent) else (r, sent @ [SIGKILL]))))"

subsection \<open>Lemmas\<close>

text \<open>The keys of a map of variables: those of the authorization are the only ones that can hold an equals sign.\<close>

definition plain_keys :: "env_map \<Rightarrow> bool" where
  "plain_keys ev \<longleftrightarrow> (\<forall>k \<in> fst ` set ev. CHR ''='' \<notin> set k)"

lemma plain_update: "plain_keys ev \<Longrightarrow> CHR ''='' \<notin> set k \<Longrightarrow> plain_keys (AList.update k v ev)"
  by (simp add: plain_keys_def dom_update)

lemma plain_AddAllOf: "plain_keys ev \<Longrightarrow> plain_keys other \<Longrightarrow> plain_keys (EnvVars_AddAllOf other ev)"
proof (induction other arbitrary: ev)
  case (Cons e other)
  then show ?case
    by (cases e) (simp add: EnvVars_AddAllOf_def plain_update plain_keys_def[of "_ # _"] plain_keys_def[of other])
qed (simp add: EnvVars_AddAllOf_def)

lemma plain_Add: "plain_keys ev \<Longrightarrow> plain_keys (EnvVars_Add lines ev)"
proof (induction lines arbitrary: ev)
  case (Cons l lines)
  obtain k v where "CHR ''='' \<notin> set k" "EnvVars_add l ev = EnvVars_set k v ev" using EnvVars_add_shape by blast
  with Cons show ?case by (simp add: EnvVars_Add_def plain_update)
qed (simp add: EnvVars_Add_def)

lemma key_of_line:
  assumes "take (Suc (length k)) l = k @ ''=''" "CHR ''='' \<notin> set k"
  shows "takeWhile (\<lambda>z. z \<noteq> CHR ''='') l = k"
proof -
  have "l = (k @ ''='') @ drop (Suc (length k)) l" using append_take_drop_id[of "Suc (length k)" l] assms(1) by metis
  then have "l = k @ CHR ''='' # drop (Suc (length k)) l" by simp
  then show ?thesis using takeWhile_sep(1)[OF assms(2)] by metis
qed

lemma lines_of_key:
  assumes "distinct (map fst ev)" "plain_keys ev" "map_of ev k = Some v" "CHR ''='' \<notin> set k"
  shows "filter (\<lambda>l. take (Suc (length k)) l = k @ ''='') (EnvVars_Strings ev) = [k @ ''='' @ v]"
proof -
  have key: "take (Suc (length k)) (k' @ ''='' @ v') = k @ ''='' \<longleftrightarrow> k' = k" if "CHR ''='' \<notin> set k'" for k' v'
    using key_of_line[OF _ assms(4), of "k' @ ''='' @ v'"] that by auto
  have "filter (\<lambda>l. take (Suc (length k)) l = k @ ''='') (EnvVars_Strings ev) = map (\<lambda>(k, v). k @ ''='' @ v) (filter (\<lambda>e. fst e = k) ev)"
    using assms(2) key by (auto simp: EnvVars_Strings_def filter_map plain_keys_def intro!: arg_cong[of _ _ "map _"] filter_cong)
  also have "filter (\<lambda>e. fst e = k) ev = [(k, v)]"
    using assms(1,3) by (induction ev) (force simp: filter_empty_conv dest: map_of_SomeD split: if_splits)+
  finally show ?thesis by simp
qed

definition identityVars :: "(sid \<Rightarrow> bytes) \<Rightarrow> local_env \<Rightarrow> fs_session \<Rightarrow> env_map" where
  "identityVars uuidText this sess =
     [(''HOME'', us_HomeDir (le_user this)), (''USER'', us_Name (le_user this)), (''LOGNAME'', us_Name (le_user this)),
      (''SHELL'', us_Shell (le_user this)), (session_EnvName, uuidText (ss_id sess))]"

text \<open>The variables of a prepared command, before they become lines.\<close>

lemma prepareRun_vars:
  assumes "prepareRun uuidText os this t = Inr cmd" "plain_keys (au_envVars (ec_authorization t))"
  obtains sess ev where "au_session (ec_authorization t) = Some sess" "cm_Env cmd = EnvVars_Strings ev"
    "distinct (map fst ev)" "plain_keys ev" "\<forall>(k, v) \<in> set (identityVars uuidText this sess). map_of ev k = Some v"
    "cm_Credential cmd = User_ToCredentials (le_user this)" "cm_Dir cmd = us_HomeDir (le_user this)"
proof -
  obtain sess where s: "au_session (ec_authorization t) = Some sess" using assms(1) by (auto simp: prepareRun_def split: option.splits)
  obtain cmd0 ev0 where c0: "createCmdAndEnv os this t = (cmd0, ev0)" by fastforce
  define ev1 where "ev1 = EnvVars_setAll [session_EnvName, uuidText (ss_id sess)] ev0"
  obtain cmd1 where c1: "taskCommand os this t cmd0 = Inr cmd1"
    using assms(1) s c0 by (auto simp: prepareRun_def Let_def bindR_Inr_iff)
  have "\<exists>b ev a p. cmd = cmd1\<lparr>cm_onPty := b, cm_Env := EnvVars_Strings ev\<rparr> \<and>
      (ev = ev1 \<or> ev = AList.update AuthSockEnvName a ev1 \<or> ev = AList.update ''TERM'' p ev1 \<or>
       ev = AList.update ''TERM'' p (AList.update AuthSockEnvName a ev1))"
    using assms(1) s c0 c1 unfolding ev1_def
    by (cases cmd1) (fastforce simp: prepareRun_def Let_def bindR_Inr_iff split: option.splits if_splits)
  then obtain b ev a p where cmd: "cmd = cmd1\<lparr>cm_onPty := b, cm_Env := EnvVars_Strings ev\<rparr>"
    and ev: "ev = ev1 \<or> ev = AList.update AuthSockEnvName a ev1 \<or> ev = AList.update ''TERM'' p ev1 \<or>
       ev = AList.update ''TERM'' p (AList.update AuthSockEnvName a ev1)" by blast
  have p: "plain_keys [(''PATH'', x)]" "plain_keys [(''PATH'', x), (''TZ'', y)]" for x y by (simp_all add: plain_keys_def)
  have e0: "distinct (map fst ev0)" "plain_keys ev0" "cm_Credential cmd0 = User_ToCredentials (le_user this)"
      "cm_Dir cmd0 = us_HomeDir (le_user this)"
    "map_of ev0 ''HOME'' = Some (us_HomeDir (le_user this))" "map_of ev0 ''USER'' = Some (us_Name (le_user this))"
    "map_of ev0 ''LOGNAME'' = Some (us_Name (le_user this))" "map_of ev0 ''SHELL'' = Some (us_Shell (le_user this))"
    using c0 assms(2) unfolding createCmdAndEnv_def Let_def
    by (auto simp: update_conv' p split: option.splits intro!: plain_update plain_Add plain_AddAllOf distinct_update distinct_EnvVars)
  have e1: "distinct (map fst ev1)" "plain_keys ev1" "\<forall>(k, v) \<in> set (identityVars uuidText this sess). map_of ev1 k = Some v"
    using e0 by (auto simp: ev1_def identityVars_def update_conv' intro!: plain_update)
  have "distinct (map fst ev)" "plain_keys ev" "\<forall>(k, v) \<in> set (identityVars uuidText this sess). map_of ev k = Some v"
    using e1 ev by (auto simp: identityVars_def update_conv' intro!: plain_update)
  moreover have "cm_Credential cmd1 = cm_Credential cmd0" "cm_Dir cmd1 = cm_Dir cmd0"
    using c1 by (auto simp: taskCommand_def configureShellCmd_def Let_def bindR_Inr_iff split: if_splits)
  ultimately show ?thesis using s cmd e0(3,4) by (intro that[of sess ev]) auto
qed

lemma runLoop_signals: "runLoop (map (\<lambda>s. EvSignal (Some s)) ss @ evs) = (fst (runLoop evs), map signalFor ss @ snd (runLoop evs))"
  by (induction ss) (auto simp: case_prod_beta)

subsection \<open>Theorems\<close>

text \<open>
  C23: whatever variables the client sent and the authorization brings along, the process gets exactly one line
  for each of the five variables that name the user and the session, with the user's own values, and it runs as that
  user in the user's home directory.
\<close>

theorem identity_variables_fixed:
  assumes "prepareRun uuidText os this t = Inr cmd" and "plain_keys (au_envVars (ec_authorization t))"
    and "au_session (ec_authorization t) = Some sess" and "(k, v) \<in> set (identityVars uuidText this sess)"
  shows "filter (\<lambda>l. take (Suc (length k)) l = k @ ''='') (cm_Env cmd) = [k @ ''='' @ v] \<and>
    cm_Credential cmd = User_ToCredentials (le_user this) \<and> cm_Dir cmd = us_HomeDir (le_user this)"
proof -
  obtain ev where ev: "cm_Env cmd = EnvVars_Strings ev" "distinct (map fst ev)" "plain_keys ev"
      "\<forall>(k, v) \<in> set (identityVars uuidText this sess). map_of ev k = Some v"
      "cm_Credential cmd = User_ToCredentials (le_user this)" "cm_Dir cmd = us_HomeDir (le_user this)"
    by (rule prepareRun_vars[OF assms(1,2)]) (use assms(3) in simp)
  have "CHR ''='' \<notin> set k" using assms(4) unfolding identityVars_def by force
  moreover have "map_of ev k = Some v" using ev(4) assms(4) by blast
  ultimately show ?thesis using lines_of_key[OF ev(2,3), of k v] ev(1,5,6) by simp
qed

definition exTask :: "bool env_task" where
  "exTask = \<lparr>ec_authorization = \<lparr>au_details = DNone, au_remote = None, au_envVars = [(''LOGNAME'', ''a'')], au_flow = ''f'',
     au_session = Some \<lparr>ss_flow = ''f'', ss_id = ''i'', ss_state = StateNew, ss_createdAt = 0, ss_remoteUser = [], ss_remoteHost = []\<rparr>,
     au_sessionsPublicKey = None\<rparr>, ec_remote = ([], []),
     et_taskType = TaskTypeShell, et_rawCommand = ''id'', et_environ = [''HOME=/root'', ''HOME'', ''USER=root=x'', ''LANG=C''],
     et_agentRequested = False, et_pty = Some ''xterm''\<rparr>"

definition exRunOs :: run_os where
  "exRunOs = \<lparr>ro_lookupEnv = (\<lambda>_. None), ro_executable = Inr ''/b'', ro_agentPipe = Inr ''/a'', ro_openPty = Inr ()\<rparr>"

definition exRunEnv :: local_env where
  "exRunEnv = \<lparr>le_session = the (au_session (ec_authorization exTask)),
     le_user = \<lparr>us_Name = ''u'', us_DisplayName = [], us_Uid = 5, us_Group = \<lparr>gr_Gid = 7, gr_Name = ''g''\<rparr>, us_Groups = [],
       us_Shell = ''/bin/sh'', us_HomeDir = ''/h''\<rparr>,
     le_portForwardingAllowed = True, le_deleteUserOnDispose = False, le_deleteUserHomeDirOnDispose = False,
     le_killUserProcessesOnDispose = False\<rparr>"

lemma exPrepared: "\<exists>cmd. prepareRun id exRunOs exRunEnv exTask = Inr cmd"
proof -
  obtain cmd0 ev0 where c0: "createCmdAndEnv exRunOs exRunEnv exTask = (cmd0, ev0)" by fastforce
  have "au_session (ec_authorization exTask) = Some (le_session exRunEnv)" "et_taskType exTask = TaskTypeShell"
      "et_agentRequested exTask = False" "et_pty exTask = Some ''xterm''" "ro_openPty exRunOs = Inr ()"
    by (simp_all add: exRunEnv_def exTask_def exRunOs_def)
  then show ?thesis by (simp add: prepareRun_def c0 taskCommand_def)
qed

theorem identity_variables_fixed_witness:
  "\<exists>cmd. prepareRun id exRunOs exRunEnv exTask = Inr cmd \<and>
     filter (\<lambda>l. take 5 l = ''HOME='') (cm_Env cmd) = [''HOME=/h'']"
proof -
  obtain cmd where c: "prepareRun id exRunOs exRunEnv exTask = Inr cmd" using exPrepared by blast
  have "au_session (ec_authorization exTask) = Some (le_session exRunEnv)" by (simp add: exRunEnv_def exTask_def)
  from identity_variables_fixed[OF c _ this, of "''HOME''" "''/h''"] c show ?thesis
    by (auto simp: identityVars_def exRunEnv_def plain_keys_def exTask_def eval_nat_numeral)
qed

text \<open>The events that end the loop, with the answer they give, and the signals among the others.\<close>

fun endsRun :: "run_event \<Rightarrow> (int \<times> env_err option) option" where
  "endsRun EvContextDone = Some (-2, None)"
| "endsRun (EvProcessDone r) = r"
| "endsRun (EvCopyDone (Some (Some err))) = Some (-1, Some err)"
| "endsRun _ = None"

fun signalOf :: "run_event \<Rightarrow> bytes option" where
  "signalOf (EvSignal s) = s"
| "signalOf _ = None"

lemma runLoop_first:
  "runLoop evs =
     (Option.bind (find (\<lambda>e. endsRun e \<noteq> None) evs) endsRun,
      map signalFor (List.map_filter signalOf (takeWhile (\<lambda>e. endsRun e = None) evs)))"
  by (induction evs rule: runLoop.induct) (auto simp: List.map_filter_simps)

text \<open>
  a run answers with the first event that ends it, and until then every signal of the client reached the
  process, in order; a name that is no signal was sent as \<^verbatim>\<open>SIGKILL\<close>.
\<close>

theorem run_answers_first_end:
  "runLoop evs =
     (Option.bind (find (\<lambda>e. endsRun e \<noteq> None) evs) endsRun,
      map signalFor (List.map_filter signalOf (takeWhile (\<lambda>e. endsRun e = None) evs)))"
  by (rule runLoop_first)

end
