(* ===== verification/DockerRun.thy ===== *)
theory DockerRun
  imports Docker EnvRun
begin

section \<open>Cleaning and running (docker-repository.go, docker-usage-specific.go, docker-api-client.go)\<close>

text \<open>
  What is left of the containers' repository: the removal of containers whose flow is gone, a task in a container, and how the engine is
  reached.
\<close>

subsection \<open>Orphans (docker-repository.go)\<close>

fun cleanupEach :: "('k, 'e) docker_deps \<Rightarrow> 'k docker_repository \<Rightarrow> (bytes \<Rightarrow> env_err + bool) \<Rightarrow> container list \<Rightarrow> ('e, unit) dm" where
  "cleanupEach dd this hasFlow [] = returnE ()"
| "cleanupEach dd this hasFlow (c # list) =
     (case FlowName_UnmarshalText (labelOf (ct_Labels c) DockerLabelFlow) of
        None \<Rightarrow> cleanupEach dd this hasFlow list
      | Some flow \<Rightarrow>
          if flow = [] \<or> flow = dk_flow this then cleanupEach dd this hasFlow list
          else bindE (liftS (hasFlow flow)) (\<lambda>globalHasFlow.
               if globalHasFlow then cleanupEach dd this hasFlow list
               else bindE (liftS (dc_CleanOrphan (dk_conf this) c)) (\<lambda>shouldBeCleaned.
                    if \<not> shouldBeCleaned then cleanupEach dd this hasFlow list
                    else bindE (removeUnchecked dd (ct_ID c)) (\<lambda>_. cleanupEach dd this hasFlow list))))"

definition docker_Cleanup :: "('k, 'e) docker_deps \<Rightarrow> 'k docker_repository \<Rightarrow> (bytes \<Rightarrow> env_err + bool) option \<Rightarrow> ('e, unit) dm" where
  "docker_Cleanup dd this flowOfNamePredicate =
     mapErrE (onEnvErr (env_wrapf TSystem ''cannot cleanup potential orhpan docker containers''))
       (bindE (engineE apiError (dd_list dd None (ByLabel DockerLabelFlow None))) (\<lambda>list.
        cleanupEach dd this (case flowOfNamePredicate of Some p \<Rightarrow> p | None \<Rightarrow> (\<lambda>_. Inr False)) list))"

text \<open>\<^verbatim>\<open>dockerContainerContext.GetField\<close>: \<open>None\<close> is nil.\<close>

definition trimSlash :: "bytes \<Rightarrow> bytes" where
  "trimSlash n = (case n of c # cs \<Rightarrow> if c = CHR ''/'' then cs else n | [] \<Rightarrow> [])"

definition container_GetField :: "container \<Rightarrow> bytes \<Rightarrow> env_err + bytes option" where
  "container_GetField this name =
     (if name = ''id'' then Inr (Some (ct_ID this))
      else if name = ''image'' then Inr (Some (ct_Image this))
      else if name = ''name'' then Inr (case ct_Names this of [] \<Rightarrow> None | n # _ \<Rightarrow> Some (trimSlash n))
      else if name = ''flow'' then
        (case map_of (ct_Labels this) DockerLabelFlow of
           None \<Rightarrow> Inr None
         | Some plain \<Rightarrow>
             (case FlowName_UnmarshalText plain of
                None \<Rightarrow> Inl (EErrText ''illegal flow name'')
              | Some flow \<Rightarrow> Inr (if flow = [] then None else Some flow)))
      else Inl (EErrText ''unknown field''))"

subsection \<open>A task (docker-usage-specific.go)\<close>

text \<open>
  \<open>du_agentPipe\<close> is the answer of the helper process that is asked for a pipe, \<open>du_execCreate\<close> and \<open>du_execAttach\<close> those of the engine,
  \<open>du_connIdText\<close> the text of the connection's id.
\<close>

record exec_options =
  ex_User :: bytes
  ex_WorkingDir :: bytes
  ex_Cmd :: "bytes list"
  ex_Env :: "bytes list"
  ex_Tty :: bool

record docker_run_os =
  du_lookupEnv :: "bytes \<Rightarrow> bytes option"
  du_agentPipe :: "go_error + bytes"
  du_connIdText :: bytes
  du_execCreate :: "exec_options \<Rightarrow> env_err + bytes"
  du_execAttach :: "bytes \<Rightarrow> env_err + unit"

definition viaImp :: "go_error + 'a \<Rightarrow> env_err + 'a" where
  "viaImp r = map_sum (EErrText \<circ> error_text) id r"

text \<open>\<^verbatim>\<open>errors.As\<close> for a \<^verbatim>\<open>RemoteError\<close>.\<close>

fun isRemoteError :: "go_error \<Rightarrow> bool" where
  "isRemoteError (ErrRemote _) = True"
| "isRemoteError (ErrPlain _ c) = (case c of None \<Rightarrow> False | Some e \<Rightarrow> isRemoteError e)"
| "isRemoteError (ErrNet _ _ c) = (case c of None \<Rightarrow> False | Some e \<Rightarrow> isRemoteError e)"
| "isRemoteError (ErrTyped _ _ c _) = (case c of None \<Rightarrow> False | Some e \<Rightarrow> isRemoteError e)"

definition docker_taskCommand :: "docker_env \<Rightarrow> 'k env_task \<Rightarrow> env_err + bytes list" where
  "docker_taskCommand this t =
     (if et_taskType t = TaskTypeShell
      then Inr (if length (et_rawCommand t) > 0 then do_execCommand this @ [et_rawCommand t] else do_shellCommand this)
      else if et_taskType t = TaskTypeSftp then Inr (do_sftpCommand this)
      else Inl (EErrTyped TSystem ''illegal task type'' None))"

definition docker_environ :: "('k, 'e) docker_deps \<Rightarrow> docker_run_os \<Rightarrow> 'k env_task \<Rightarrow> fs_session \<Rightarrow> env_map" where
  "docker_environ dd os t sess =
     (let ev0 = (case du_lookupEnv os ''TZ'' of Some v \<Rightarrow> EnvVars_setAll [''TZ'', v] [] | None \<Rightarrow> []);
          ev1 = EnvVars_AddAllOf (au_envVars (ec_authorization t)) ev0;
          ev2 = EnvVars_Add (et_environ t) ev1
      in EnvVars_setAll [connection_EnvName, du_connIdText os] (EnvVars_setAll [session_EnvName, dd_idText dd (ss_id sess)] ev2))"

definition docker_prepareRun :: "('k, 'e) docker_deps \<Rightarrow> docker_run_os \<Rightarrow> docker_env \<Rightarrow> 'k env_task \<Rightarrow> env_err + exec_options" where
  "docker_prepareRun dd os this t =
     (case au_session (ec_authorization t) of
        None \<Rightarrow> Inl (EErrTyped TSystem ''authorization without session is not supported to run docker environment'' None)
      | Some sess \<Rightarrow>
          bindR (docker_taskCommand this t) (\<lambda>cmd.
          bindR (if et_agentRequested t
                 then case du_agentPipe os of
                     Inr path \<Rightarrow> Inr (EnvVars_setAll [AuthSockEnvName, path] (docker_environ dd os t sess))
                   | Inl err \<Rightarrow> if isRemoteError err then Inr (docker_environ dd os t sess) else viaImp (Inl err)
                 else Inr (docker_environ dd os t sess)) (\<lambda>ev.
          Inr \<lparr>ex_User = do_user this, ex_WorkingDir = do_directory this, ex_Cmd = cmd,
               ex_Env = EnvVars_Strings (case et_pty t of Some term \<Rightarrow> EnvVars_setAll [''TERM'', term] ev | None \<Rightarrow> ev),
               ex_Tty = (et_pty t \<noteq> None)\<rparr>)))"

text \<open>
  What the loop receives: a signal of the client, the end of the context, or the end of one of the two copies (\<open>None\<close> from a closed
  channel) together with what the engine says of the execution then: whether it runs, and its exit code. The second part of the answer
  are the signals that are sent to the process by the helper process.
\<close>

datatype docker_event =
    DevSignal "bytes option"
  | DevContextDone
  | DevCopyDone "env_err option option" "env_err + bool \<times> int"

abbreviation SIGINT :: signal where "SIGINT \<equiv> 2"

fun docker_runLoop :: "docker_event list \<Rightarrow> (int \<times> env_err option) option \<times> signal list" where
  "docker_runLoop [] = (None, [])"
| "docker_runLoop (DevSignal (Some s) # evs) = (let (r, sent) = docker_runLoop evs in (r, signalFor s # sent))"
| "docker_runLoop (DevSignal None # evs) = docker_runLoop evs"
| "docker_runLoop (DevContextDone # evs) = (Some (-2, None), [SIGINT])"
| "docker_runLoop (DevCopyDone (Some (Some err)) _ # evs) = (Some (-1, Some err), [SIGINT])"
| "docker_runLoop (DevCopyDone _ inspected # evs) =
     (case inspected of
        Inl err \<Rightarrow> (Some (-1, Some (env_wrapf TSystem ''cannot inspect execution'' err)), [SIGINT])
      | Inr (running, exitCode) \<Rightarrow>
          if \<not> running \<and> exitCode \<ge> 0 then (Some (exitCode, None), [SIGINT])
          else (let (r, sent) = docker_runLoop evs in (r, SIGINT # sent)))"

definition docker_Run ::
    "('k, 'e) docker_deps \<Rightarrow> docker_run_os \<Rightarrow> docker_env \<Rightarrow> 'k env_task \<Rightarrow> docker_event list \<Rightarrow> (int \<times> env_err option) option \<times> signal list" where
  "docker_Run dd os this t evs =
     (case bindR (docker_prepareRun dd os this t) (\<lambda>opts.
           bindR (wrapR (env_wrapf TSystem ''cannot execute command'') (du_execCreate os opts)) (\<lambda>execId.
           wrapR (env_wrapf TSystem ''cannot attach to execution'') (du_execAttach os execId))) of
        Inl e \<Rightarrow> (Some (-1, Some e), [])
      | Inr _ \<Rightarrow> docker_runLoop evs)"

definition docker_Banner :: "'k docker_repository \<Rightarrow> ('k, bytes) tmpl" where
  "docker_Banner this req = String_Render (dc_Banner (dk_conf this)) req"

definition docker_IsPortForwardingAllowed :: "docker_env \<Rightarrow> bool" where
  "docker_IsPortForwardingAllowed this \<longleftrightarrow> do_portForwardingAllowed this"

definition docker_NewDestinationConnection :: "env_err + conn_id \<Rightarrow> (conn_id \<Rightarrow> host_port \<Rightarrow> go_error + 'c) \<Rightarrow> docker_env \<Rightarrow> host_port \<Rightarrow> env_err + 'c" where
  "docker_NewDestinationConnection newId initiateTcpForward this dest =
     (if \<not> do_portForwardingAllowed this then Inl (EErrTyped TPermission ''portforwarning not allowed'' None)
      else bindR newId (\<lambda>connId. viaImp (initiateTcpForward connId dest)))"

text \<open>
  The command of a run is \<^verbatim>\<open>append\<close>ed to the slice of the environment. With room in the slice's array, the element is written into
  the array that all runs of the environment share: \<open>sliceAppend\<close> gives the array and the slice, of which \<open>sliceView\<close> is what it shows.
\<close>

datatype go_slice = SharedSlice nat | OwnSlice "bytes list"

definition sliceAppend :: "nat \<Rightarrow> bytes \<Rightarrow> bytes list \<Rightarrow> bytes list \<times> go_slice" where
  "sliceAppend len v array =
     (if len < length array then (array[len := v], SharedSlice (Suc len)) else (array, OwnSlice (take len array @ [v])))"

definition sliceView :: "go_slice \<Rightarrow> bytes list \<Rightarrow> bytes list" where
  "sliceView s array = (case s of SharedSlice len \<Rightarrow> take len array | OwnSlice xs \<Rightarrow> xs)"

subsection \<open>The connection to the engine (docker-api-client.go)\<close>

record docker_reference =
  dn_host :: bytes
  dn_apiVersion :: bytes
  dn_certPath :: bytes
  dn_tlsVerify :: bool

definition newDockerConnectionReference :: "'k env_docker_conf \<Rightarrow> env_err + docker_reference" where
  "newDockerConnectionReference conf =
     bindR (configE ''cannot evaluate host'' (dc_Host conf)) (\<lambda>host.
     bindR (configE ''cannot evaluate apiVersion'' (dc_ApiVersion conf)) (\<lambda>apiVersion.
     bindR (configE ''cannot evaluate certPath'' (dc_CertPath conf)) (\<lambda>certPath.
     bindR (configE ''cannot evaluate tlsVerify'' (dc_TlsVerify conf)) (\<lambda>tlsVerify.
     Inr \<lparr>dn_host = host, dn_apiVersion = apiVersion, dn_certPath = certPath, dn_tlsVerify = tlsVerify\<rparr>))))"

text \<open>The options of the client; the files of the certificates and whether those of the engine go unchecked.\<close>

datatype client_opt = WithHTTPClient | WithHost bytes | WithVersion bytes
datatype client_tls = ClientTls (tls_CAFile: bytes) (tls_CertFile: bytes) (tls_KeyFile: bytes) (tls_InsecureSkipVerify: bool)

definition toApiClient :: "(client_tls \<Rightarrow> env_err + 't) \<Rightarrow> ('t option \<Rightarrow> client_opt list \<Rightarrow> env_err + 'c) \<Rightarrow> docker_reference \<Rightarrow> env_err + 'c" where
  "toApiClient tlsClient newClient this =
     bindR (if dn_certPath this \<noteq> []
            then map_sum id Some (tlsClient (ClientTls (filepath_Join [dn_certPath this, ''ca.pem'']) (filepath_Join [dn_certPath this, ''cert.pem''])
                   (filepath_Join [dn_certPath this, ''key.pem'']) (\<not> dn_tlsVerify this)))
            else Inr None) (\<lambda>tls.
     newClient tls (WithHTTPClient # (if dn_host this \<noteq> [] then [WithHost (dn_host this)] else []) @
       (if dn_apiVersion this \<noteq> [] then [WithVersion (dn_apiVersion this)] else [])))"

definition newDockerApiClient :: "(client_tls \<Rightarrow> env_err + 't) \<Rightarrow> ('t option \<Rightarrow> client_opt list \<Rightarrow> env_err + 'c) \<Rightarrow> 'k env_docker_conf \<Rightarrow> env_err + 'c" where
  "newDockerApiClient tlsClient newClient conf = bindR (newDockerConnectionReference conf) (toApiClient tlsClient newClient)"

text \<open>\<^verbatim>\<open>NewDockerRepository\<close>: \<open>serverVersion\<close> gives the operating system and the architecture, \<open>levelName\<close> the name of the log level.\<close>

definition NewDockerRepository ::
    "(client_tls \<Rightarrow> env_err + 't) \<Rightarrow> ('t option \<Rightarrow> client_opt list \<Rightarrow> env_err + 'c) \<Rightarrow> ('c \<Rightarrow> env_err + bytes \<times> bytes) \<Rightarrow> env_err + bytes \<Rightarrow>
     bytes \<Rightarrow> 'k env_docker_conf option \<Rightarrow> env_err + 'k docker_repository" where
  "NewDockerRepository tlsClient newClient serverVersion levelName flow conf =
     (case conf of
        None \<Rightarrow> Inl (EErrText ''nil configuration'')
      | Some conf \<Rightarrow>
          bindR (newDockerApiClient tlsClient newClient conf) (\<lambda>apiClient.
          bindR (wrapR (EErrMsg ''cannot retrieve docker host's version'') (serverVersion apiClient)) (\<lambda>(os, arch).
          case Os_SetOci os of
            None \<Rightarrow> Inl (EErrMsg ''cannot parse docker host's os'' (EErrText (''illegal-os: '' @ os)))
          | Some hostOs \<Rightarrow>
              (case Arch_SetOci arch of
                 None \<Rightarrow> Inl (EErrMsg ''cannot parse docker host's os'' (EErrText (''illegal-arch: '' @ arch)))
               | Some hostArch \<Rightarrow>
                   bindR (wrapR (EErrMsg ''cannot transform to name of level'') levelName) (\<lambda>level.
                   Inr \<lparr>dk_flow = flow, dk_conf = conf, dk_hostOs = hostOs, dk_hostArch = hostArch, dk_defaultLogLevelName = level\<rparr>)))))"

end
