(* ===== verification/KubeModel.thy ===== *)
theory KubeModel
  imports DockerRun
begin

section \<open>Pods as environments: configuration and what is asked of the cluster (kubernetes-repository.go)\<close>

text \<open>
  The cluster, the encodings and the helper process are parameters, gathered in the record \<open>kube_deps\<close>; \<open>'e\<close> is the state of the cluster
  and of everything else outside of the program. Here are the data the cluster is given and gives, and how the settings of a flow become
  a pod, its secret for pulling images and its namespace. The effects are those of \<open>SharedEnvs\<close>.
\<close>

subsection \<open>Errors\<close>

definition podContainsProblemsErr :: env_err where
  "podContainsProblemsErr = EErrTyped TSystem ''pod contains problems'' None"

definition ErrPodNotFound :: env_err where "ErrPodNotFound = EErrText ''pod not found''"
definition ErrEndpointNotFound :: env_err where "ErrEndpointNotFound = EErrText ''endpoint not found''"

definition isPodProblem :: "env_err \<Rightarrow> bool" where
  "isPodProblem err \<longleftrightarrow> errorsIs err podContainsProblemsErr \<or> errorsIs err ErrEndpointNotFound \<or> errorsIs err ErrPodNotFound"

text \<open>
  An error of the cluster: its text, whether the function \<^verbatim>\<open>IsNotFound\<close> of the cluster's client holds of it, and whether the one of the
  container engine's package holds of it, which looks for a method that errors of the cluster's client do not have.
\<close>

datatype kube_err = KubeErr (kb_text: bytes) (kb_notFound: bool) (kb_engineNotFound: bool)

definition kubeError :: "kube_err \<Rightarrow> env_err" where
  "kubeError e = EErrText (kb_text e)"

subsection \<open>Pods\<close>

abbreviation PodPending :: bytes where "PodPending \<equiv> ''Pending''"
abbreviation PodRunning :: bytes where "PodRunning \<equiv> ''Running''"

record volume_mount =
  vm_Name :: bytes
  vm_MountPath :: bytes
  vm_SubPath :: bytes
  vm_ReadOnly :: bool

text \<open>\<open>pc_ProbePort\<close> is the port of both probes; \<open>pc_RunAs\<close> user and group.\<close>

record pod_container =
  pc_Name :: bytes
  pc_Image :: bytes
  pc_ImagePullPolicy :: bytes
  pc_Ports :: "(bytes \<times> nat) list"
  pc_Command :: "bytes list"
  pc_Args :: "bytes list"
  pc_RunAs :: "(int \<times> int) option"
  pc_Env :: "(bytes \<times> bytes) list"
  pc_VolumeMounts :: "volume_mount list"
  pc_ProbePort :: "nat option"
  pc_Capabilities :: "bytes list"
  pc_Privileged :: "bool option"

record pod =
  po_Name :: bytes
  po_Namespace :: bytes
  po_Phase :: bytes
  po_Labels :: "(bytes \<times> bytes) list"
  po_Annotations :: "(bytes \<times> bytes) list"
  po_Containers :: "pod_container list"
  po_InitContainers :: "pod_container list"
  po_Os :: bytes
  po_ImagePullSecrets :: "bytes list"
  po_ServiceAccountName :: bytes
  po_RestartPolicy :: bytes
  po_NodeSelector :: "(bytes \<times> bytes) list"
  po_Volumes :: "bytes list"
  po_Nameservers :: "bytes list"
  po_Searches :: "bytes list"

text \<open>What is received before the timer of the waiting fires.\<close>

datatype pod_event = PevContextDone env_err | PevPod pod | PevOther
datatype remove_event = RevContextDone env_err | RevDeleted | RevChanged | RevOther

text \<open>An environment in memory.\<close>

record kube_env = env_instance +
  ku_name :: bytes
  ku_namespace :: bytes
  ku_remoteUser :: bytes
  ku_remoteHost :: net_host
  ku_shellCommand :: "bytes list"
  ku_execCommand :: "bytes list"
  ku_sftpCommand :: "bytes list"
  ku_user :: bytes
  ku_group :: bytes
  ku_directory :: bytes
  ku_portForwardingAllowed :: bool
  ku_environ :: env_map

type_synonym 'e kube_state = "('e, unit kube_env_ext) shared_state"
type_synonym ('e, 'a) km = "('e kube_state, shared_err, 'a) sm"

subsection \<open>Settings\<close>

text \<open>
  \<^verbatim>\<open>pkg/configuration/environment-kubernetes.go\<close>; \<open>kc_hardCodedNamespace\<close> is the text of the namespace's template if it is no real
  template. \<open>kr_clientNamespace\<close> is the namespace of the client's context.
\<close>

record 'k env_kubernetes_conf =
  kc_LoginAllowed :: "('k, bool) tmpl"
  kc_Name :: "'k str_tmpl"
  kc_Namespace :: "'k str_tmpl"
  kc_hardCodedNamespace :: "bytes option"
  kc_Os :: sys_os
  kc_Arch :: sys_arch
  kc_ServiceAccountName :: "'k str_tmpl"
  kc_Image :: "'k str_tmpl"
  kc_ImagePullPolicy :: pull_policy
  kc_ImagePullSecretName :: "'k str_tmpl"
  kc_ImagePullCredentials :: "'k str_tmpl"
  kc_ReadyTimeout :: "('k, int) tmpl"
  kc_Capabilities :: "'k str_tmpl list"
  kc_Privileged :: "('k, bool) tmpl"
  kc_DnsServers :: "'k str_tmpl list"
  kc_DnsSearch :: "'k str_tmpl list"
  kc_ShellCommand :: "'k str_tmpl list"
  kc_ExecCommand :: "'k str_tmpl list"
  kc_SftpCommand :: "'k str_tmpl list"
  kc_Directory :: "'k str_tmpl"
  kc_User :: "'k str_tmpl"
  kc_Group :: "'k str_tmpl"
  kc_Banner :: "'k str_tmpl"
  kc_PortForwardingAllowed :: "('k, bool) tmpl"
  kc_CleanOrphan :: "pod \<Rightarrow> env_err + bool"

record 'k kubernetes_repository =
  kr_flow :: bytes
  kr_conf :: "'k env_kubernetes_conf"
  kr_clientNamespace :: bytes
  kr_defaultLogLevelName :: bytes

text \<open>\<^verbatim>\<open>client.Namespace\<close>\<close>

definition client_Namespace :: "bytes \<Rightarrow> bytes" where
  "client_Namespace namespace = (if namespace \<noteq> [] then namespace else ''default'')"

text \<open>
  \<open>kd_dlv\<close>: whether the build embeds the debugger, and whether it waits. \<open>kd_slowImage\<close>: the search for an image takes longer than a
  second. \<open>kd_podList\<close> takes the namespace (empty for all), the label with its value, the limit and the mark where to go on, and gives
  the next mark. \<open>kd_podDelete\<close> is told whether deletion is in the foreground. \<open>kd_podEvents\<close> and \<open>kd_removeEvents\<close> are what the loops receive;
  \<open>kd_noDone\<close> says whether the request's context can never end. \<open>kd_pullSecret\<close>: the text is a secret with at least one registry.
\<close>

record ('k, 'e) kube_deps =
  kd_idText :: "sid \<Rightarrow> bytes"
  kd_idParse :: "bytes \<Rightarrow> sid option"
  kd_jsonEncode :: "bytes list \<Rightarrow> bytes"
  kd_jsonDecode :: "bytes \<Rightarrow> bytes list option"
  kd_net :: net_lib
  kd_base64 :: "bytes \<Rightarrow> bytes"
  kd_pullSecret :: "bytes \<Rightarrow> bool"
  kd_authDecode :: "bytes \<Rightarrow> auth_config option"
  kd_authJson :: "bytes \<Rightarrow> auth_config option"
  kd_secretEncode :: "bytes \<Rightarrow> auth_config \<Rightarrow> env_err + bytes"
  kd_masterKey :: "env_err + bytes"
  kd_dlv :: "bool option"
  kd_clientSet :: "env_err + unit"
  kd_findOciImage :: "sys_os \<Rightarrow> sys_arch \<Rightarrow> 'e \<Rightarrow> (env_err + bytes) \<times> 'e"
  kd_slowImage :: "'e \<Rightarrow> bool"
  kd_startPreparation :: "'k env_context \<Rightarrow> bytes \<Rightarrow> 'e \<Rightarrow> (env_err + bool) \<times> 'e"
  kd_report :: "rat \<Rightarrow> 'e \<Rightarrow> (env_err + unit) \<times> 'e"
  kd_completed :: "'e \<Rightarrow> (env_err + unit) \<times> 'e"
  kd_reportError :: "'e \<Rightarrow> (env_err + unit) \<times> 'e"
  kd_namespaceGet :: "bytes \<Rightarrow> 'e \<Rightarrow> (kube_err + unit) \<times> 'e"
  kd_namespaceCreate :: "bytes \<Rightarrow> 'e \<Rightarrow> (kube_err + unit) \<times> 'e"
  kd_secretApply :: "bytes \<Rightarrow> bytes \<Rightarrow> bytes \<Rightarrow> (bytes \<times> bytes) list \<Rightarrow> 'e \<Rightarrow> (kube_err + unit) \<times> 'e"
  kd_secretDelete :: "bytes \<Rightarrow> bytes \<Rightarrow> 'e \<Rightarrow> (kube_err + unit) \<times> 'e"
  kd_secretOwner :: "bytes \<Rightarrow> bytes \<Rightarrow> pod \<Rightarrow> 'e \<Rightarrow> (kube_err + unit) \<times> 'e"
  kd_podCreate :: "pod \<Rightarrow> 'e \<Rightarrow> (kube_err + pod) \<times> 'e"
  kd_podWatch :: "bytes \<Rightarrow> bytes \<Rightarrow> 'e \<Rightarrow> (kube_err + unit) \<times> 'e"
  kd_podGet :: "bytes \<Rightarrow> bytes \<Rightarrow> 'e \<Rightarrow> (kube_err + unit) \<times> 'e"
  kd_podDelete :: "bool \<Rightarrow> bytes \<Rightarrow> bytes \<Rightarrow> 'e \<Rightarrow> (kube_err + unit) \<times> 'e"
  kd_podList :: "bytes \<Rightarrow> bytes \<Rightarrow> bytes option \<Rightarrow> nat option \<Rightarrow> bytes \<Rightarrow> 'e \<Rightarrow> (kube_err + pod list \<times> bytes) \<times> 'e"
  kd_podEvents :: "'e \<Rightarrow> pod_event list"
  kd_removeEvents :: "'e \<Rightarrow> remove_event list"
  kd_impOpen :: "kube_env \<Rightarrow> env_err + unit"
  kd_newConnId :: "'e \<Rightarrow> (env_err + conn_id) \<times> 'e"
  kd_ctxErr :: "'e \<Rightarrow> env_err option"
  kd_getEnvironment :: "kube_env \<Rightarrow> conn_id \<Rightarrow> 'e \<Rightarrow> env_map try_result \<times> 'e"
  kd_sleep :: "'e \<Rightarrow> (env_err + unit) \<times> 'e"
  kd_noDone :: bool

abbreviation KubernetesLabelFlow :: bytes where "KubernetesLabelFlow \<equiv> ''org.engity.bifroest/flow''"
abbreviation KubernetesLabelSessionId :: bytes where "KubernetesLabelSessionId \<equiv> ''org.engity.bifroest/session-id''"
abbreviation KubernetesAnnotationCreatedRemoteUser :: bytes where "KubernetesAnnotationCreatedRemoteUser \<equiv> ''org.engity.bifroest/created-remote-user''"
abbreviation KubernetesAnnotationCreatedRemoteHost :: bytes where "KubernetesAnnotationCreatedRemoteHost \<equiv> ''org.engity.bifroest/created-remote-host''"
abbreviation KubernetesAnnotationShellCommand :: bytes where "KubernetesAnnotationShellCommand \<equiv> ''org.engity.bifroest/shellCommand''"
abbreviation KubernetesAnnotationExecCommand :: bytes where "KubernetesAnnotationExecCommand \<equiv> ''org.engity.bifroest/execCommand''"
abbreviation KubernetesAnnotationSftpCommand :: bytes where "KubernetesAnnotationSftpCommand \<equiv> ''org.engity.bifroest/sftpCommand''"
abbreviation KubernetesAnnotationUser :: bytes where "KubernetesAnnotationUser \<equiv> ''org.engity.bifroest/user''"
abbreviation KubernetesAnnotationGroup :: bytes where "KubernetesAnnotationGroup \<equiv> ''org.engity.bifroest/group''"
abbreviation KubernetesAnnotationDirectory :: bytes where "KubernetesAnnotationDirectory \<equiv> ''org.engity.bifroest/directory''"
abbreviation KubernetesAnnotationPortForwardingAllowed :: bytes where "KubernetesAnnotationPortForwardingAllowed \<equiv> ''org.engity.bifroest/portForwardingAllowed''"

abbreviation debug_DlvPort :: nat where "debug_DlvPort \<equiv> 8693"

subsection \<open>Commands\<close>

text \<open>The command of the settings, or a default; its first argument is not empty.\<close>

definition kube_resolveEncodedShellCommand :: "('k, 'e) kube_deps \<Rightarrow> 'k kubernetes_repository \<Rightarrow> ('k, bytes) tmpl" where
  "kube_resolveEncodedShellCommand kd this req =
     bindR (configE ''cannot evaluate shellCommand'' (Strings_Render (kc_ShellCommand (kr_conf this)) req)) (\<lambda>v.
     if length v = 0 then
       if kc_Os (kr_conf this) = OsWindows then Inr (kd_jsonEncode kd [windowsShell])
       else if kc_Os (kr_conf this) = OsLinux then Inr (kd_jsonEncode kd [''/bin/sh''])
       else Inl (EErrTyped TConfig ''shellCommand was not defined for kubernetes environment and default cannot be resolved'' None)
     else if length (hd v) = 0 then Inl (EErrTyped TConfig ''first argument of shellCommand is empty'' None)
     else Inr (kd_jsonEncode kd v))"

definition kube_resolveEncodedExecCommand :: "('k, 'e) kube_deps \<Rightarrow> 'k kubernetes_repository \<Rightarrow> ('k, bytes) tmpl" where
  "kube_resolveEncodedExecCommand kd this req =
     bindR (configE ''cannot evaluate execCommand'' (Strings_Render (kc_ExecCommand (kr_conf this)) req)) (\<lambda>v.
     if length v = 0 then
       if kc_Os (kr_conf this) = OsWindows then Inr (kd_jsonEncode kd [windowsShell, ''/C''])
       else if kc_Os (kr_conf this) = OsLinux then Inr (kd_jsonEncode kd [''/bin/sh'', ''-c''])
       else Inl (EErrTyped TConfig ''execCommand was not defined for kubernetes environment and default cannot be resolved'' None)
     else if length (hd v) = 0 then Inl (EErrTyped TConfig ''first argument of execCommand is empty'' None)
     else Inr (kd_jsonEncode kd v))"

definition kube_resolveEncodedSftpCommand :: "('k, 'e) kube_deps \<Rightarrow> 'k kubernetes_repository \<Rightarrow> ('k, bytes) tmpl" where
  "kube_resolveEncodedSftpCommand kd this req =
     bindR (configE ''cannot evaluate sftpCommand'' (Strings_Render (kc_SftpCommand (kr_conf this)) req)) (\<lambda>v.
     if length v = 0 then
       if length (BifroestBinaryFileLocation (kc_Os (kr_conf this))) = 0
       then Inl (EErrTyped TConfig ''sftpCommand was not defined for kubernetes environment and default cannot be resolved'' None)
       else Inr (kd_jsonEncode kd [BifroestBinaryFileLocation (kc_Os (kr_conf this)), ''sftp-server''])
     else if length (hd v) = 0 then Inl (EErrTyped TConfig ''first argument of sftpCommand is empty'' None)
     else Inr (kd_jsonEncode kd v))"

subsection \<open>Registries and credentials\<close>

text \<open>\<^verbatim>\<open>strings.SplitAfterN(s, sep, 2)\<close>: the separator stays at the end of the first part.\<close>

definition splitAfter2 :: "char \<Rightarrow> bytes \<Rightarrow> bytes list" where
  "splitAfter2 c s =
     (let h = takeWhile (\<lambda>x. x \<noteq> c) s; rest = drop (length h) s in
      if rest = [] then [s] else [h @ [c], drop 1 rest])"

definition extractRegistryFromImage :: "bytes \<Rightarrow> bytes" where
  "extractRegistryFromImage ref =
     (let path = hd (splitAfter2 (CHR '':'') ref); slashed = splitAfter2 (CHR ''/'') path in
      if length slashed < 2 then ''index.docker.io''
      else if CHR ''.'' \<notin> set (hd slashed) then ''index.docker.io''
      else hd slashed)"

definition kube_resolvePullCredentials :: "('k, 'e) kube_deps \<Rightarrow> 'k kubernetes_repository \<Rightarrow> 'k env_context \<Rightarrow> bytes \<Rightarrow> env_err + bytes" where
  "kube_resolvePullCredentials kd this req ref =
     configE ''cannot resolve image pull credentials''
       (bindR (String_Render (kc_ImagePullCredentials (kr_conf this)) req) (\<lambda>plain.
        if plain = [] then Inr []
        else if kd_pullSecret kd plain then Inr plain
        else let ir = extractRegistryFromImage ref in
          kd_secretEncode kd ir
            (case (case kd_authDecode kd plain of Some v \<Rightarrow> if authComplete v then Some v else None | None \<Rightarrow> None) of
               Some v \<Rightarrow> v
             | None \<Rightarrow>
                 (case (case kd_authJson kd plain of Some v \<Rightarrow> if authComplete v then Some v else None | None \<Rightarrow> None) of
                    Some v \<Rightarrow> v
                  | None \<Rightarrow> \<lparr>ac_Auth = plain, ac_Username = [], ac_Password = []\<rparr>))))"

definition secretNameE :: "err_type \<Rightarrow> env_err \<Rightarrow> env_err" where
  "secretNameE t e = env_wrapf t ''cannot resolve image pull secret name'' e"

text \<open>The name of the secret, and whether it was made here.\<close>

definition resolvePullSecretName ::
    "('k, 'e) kube_deps \<Rightarrow> 'k kubernetes_repository \<Rightarrow> 'k env_context \<Rightarrow> bytes \<Rightarrow> pod \<Rightarrow> ('e, bytes \<times> bool) km" where
  "resolvePullSecretName kd this req forImage p =
     bindE (liftS (wrapR (secretNameE TConfig) (String_Render (kc_ImagePullSecretName (kr_conf this)) req))) (\<lambda>name0.
     bindE (liftS (wrapR (secretNameE TConfig) (kube_resolvePullCredentials kd this req forImage))) (\<lambda>credentials.
     if length credentials = 0 then returnE (name0, False)
     else let name = (if name0 = [] then ''pull-secret.'' @ po_Name p else name0) in
       bindE (liftS (wrapR (secretNameE TSystem) (kd_clientSet kd))) (\<lambda>_.
       bindE (engineE (\<lambda>e. secretNameE TSystem (env_wrapf TSystem ''cannot apply image secret'' (kubeError e)))
                (kd_secretApply kd (po_Namespace p) name credentials (po_Labels p))) (\<lambda>_.
       returnE (name, True)))))"

subsection \<open>Containers of a pod\<close>

definition withLogging :: "'k kubernetes_repository \<Rightarrow> bytes list \<Rightarrow> bytes list" where
  "withLogging this xs = xs @ [''--log.colorMode=always''] @ (if kr_defaultLogLevelName this \<noteq> [] then [''--log.level='' @ kr_defaultLogLevelName this] else [])"

definition kube_pullPolicy :: "pull_policy \<Rightarrow> bytes option" where
  "kube_pullPolicy p =
     (if p = PullPolicyIfAbsent then Some ''IfNotPresent'' else if p = PullPolicyAlways then Some ''Always''
      else if p = PullPolicyNever then Some ''Never'' else None)"

definition kube_resolveContainerConfig ::
    "('k, 'e) kube_deps \<Rightarrow> 'k kubernetes_repository \<Rightarrow> 'k env_context \<Rightarrow> fs_session \<Rightarrow> env_err + pod_container" where
  "kube_resolveContainerConfig kd this req sess =
     (let conf = kr_conf this in
      bindR (String_Render (kc_Image conf) req) (\<lambda>image.
      case kube_pullPolicy (kc_ImagePullPolicy conf) of
        None \<Rightarrow> Inl (EErrTyped TConfig ''image pull policy is not supported for kubernetes environments'' None)
      | Some policy \<Rightarrow>
          let location = BifroestBinaryFileLocation (kc_Os conf) in
          if length location = 0 then Inl (EErrTyped TConfig ''cannot resolve target path for host'' None)
          else bindR (kd_masterKey kd) (\<lambda>masterPub.
            bindR (configE ''cannot evaluate capabilities'' (Strings_Render (kc_Capabilities conf) req)) (\<lambda>capabilities.
            bindR (configE ''cannot evaluate capabilities'' (kc_Privileged conf req)) (\<lambda>privileged.
            Inr \<lparr>pc_Name = ''bifroest'', pc_Image = image, pc_ImagePullPolicy = policy,
              pc_Ports = (''imp'', imp_ServicePort) # (if kd_dlv kd \<noteq> None then [(''dlv'', debug_DlvPort)] else []),
              pc_Command = [location],
              pc_Args = (case kd_dlv kd of
                  Some wait \<Rightarrow> withLogging this (''dlv'' # (if wait then [''--wait''] else [])) @ [''--''] @ withLogging this [''imp'']
                | None \<Rightarrow> withLogging this [''imp'']),
              pc_RunAs = (if kc_Os conf = OsLinux then Some (0, 0) else None),
              pc_Env = [(''BIFROEST_MASTER_PUBLIC_KEY'', kd_base64 kd masterPub), (session_EnvName, kd_idText kd (ss_id sess))],
              pc_VolumeMounts = [\<lparr>vm_Name = ''imp'', vm_MountPath = location, vm_SubPath = Os_AppendExtToFilename (kc_Os conf) ''bifroest'', vm_ReadOnly = True\<rparr>],
              pc_ProbePort = Some (if kd_dlv kd \<noteq> None then debug_DlvPort else imp_ServicePort),
              pc_Capabilities = capabilities, pc_Privileged = Some privileged\<rparr>)))))"

text \<open>
  While the image of the helper process is looked for, a client that waits for more than a second is shown a progress. An error of showing it
  is the error of the function, unless no image is found.
\<close>

definition imageProgress :: "('k, 'e) kube_deps \<Rightarrow> 'k env_context \<Rightarrow> ('e, env_err + bool) km" where
  "imageProgress kd req s =
     (if kd_slowImage kd (es_engine s)
      then let (r, e) = kd_startPreparation kd req ''ensure-image'' (es_engine s) in (Inr r, s\<lparr>es_engine := e\<rparr>)
      else (Inr (Inr False), s))"

definition initImage :: "('k, 'e) kube_deps \<Rightarrow> 'k kubernetes_repository \<Rightarrow> 'k env_context \<Rightarrow> ('e, bytes) km" where
  "initImage kd this req =
     bindE (imageProgress kd req) (\<lambda>progress.
     bindE (onErrorE (engineE id (kd_findOciImage kd (kc_Os (kr_conf this)) (kc_Arch (kr_conf this))))
              (if progress = Inr True then engineE id (kd_reportError kd) else returnE ())) (\<lambda>ref.
     case progress of
       Inl err \<Rightarrow> throwE (SErr err)
     | Inr shown \<Rightarrow> bindE (if shown then engineE id (kd_completed kd) else returnE ()) (\<lambda>_. returnE ref)))"

definition resolveInitContainerConfig :: "('k, 'e) kube_deps \<Rightarrow> 'k kubernetes_repository \<Rightarrow> 'k env_context \<Rightarrow> ('e, pod_container) km" where
  "resolveInitContainerConfig kd this req =
     bindE (initImage kd this req) (\<lambda>image.
     bindE (liftS (if kc_Os (kr_conf this) = OsLinux then Inr ''/var/lib/engity/bifroest/init''
                   else if kc_Os (kr_conf this) = OsWindows then Inr (backslashed [''C:'', ''ProgramData'', ''Engity'', ''Bifroest'', ''init''])
                   else Inl (EErrTyped TConfig ''os is unsupported for kubernetes environments'' None))) (\<lambda>targetPath.
     returnE \<lparr>pc_Name = ''init'', pc_Image = image, pc_ImagePullPolicy = [], pc_Ports = [], pc_Command = [],
       pc_Args = [''imp-init'', ''--targetPath='' @ targetPath, ''--log.colorMode=always''] @
         (if kr_defaultLogLevelName this \<noteq> [] then [''--log.level='' @ kr_defaultLogLevelName this] else []),
       pc_RunAs = None, pc_Env = [],
       pc_VolumeMounts = [\<lparr>vm_Name = ''imp'', vm_MountPath = targetPath, vm_SubPath = [], vm_ReadOnly = False\<rparr>],
       pc_ProbePort = None, pc_Capabilities = [], pc_Privileged = None\<rparr>))"

subsection \<open>The pod\<close>

definition ensureNamespace :: "('k, 'e) kube_deps \<Rightarrow> bytes \<Rightarrow> ('e, unit) km" where
  "ensureNamespace kd namespace =
     mapErrE (onEnvErr (env_wrapf TSystem ''cannot ensure namespace''))
       (bindE (liftS (kd_clientSet kd)) (\<lambda>_ s.
        case kd_namespaceGet kd namespace (es_engine s) of
          (Inr _, e) \<Rightarrow> (Inr (), s\<lparr>es_engine := e\<rparr>)
        | (Inl err, e) \<Rightarrow>
            if kb_notFound err then engineE kubeError (kd_namespaceCreate kd namespace) (s\<lparr>es_engine := e\<rparr>)
            else (Inl (SErr (kubeError err)), s\<lparr>es_engine := e\<rparr>)))"

definition podLabels :: "('k, 'e) kube_deps \<Rightarrow> 'k kubernetes_repository \<Rightarrow> fs_session \<Rightarrow> (bytes \<times> bytes) list" where
  "podLabels kd this sess = [(KubernetesLabelFlow, kr_flow this), (KubernetesLabelSessionId, kd_idText kd (ss_id sess))]"

text \<open>The annotations of a pod: what is needed to use it again later.\<close>

definition podAnnotations :: "('k, 'e) kube_deps \<Rightarrow> 'k kubernetes_repository \<Rightarrow> 'k env_context \<Rightarrow> env_err + (bytes \<times> bytes) list" where
  "podAnnotations kd this req =
     bindR (kube_resolveEncodedShellCommand kd this req) (\<lambda>shell.
     bindR (kube_resolveEncodedExecCommand kd this req) (\<lambda>exec.
     bindR (kube_resolveEncodedSftpCommand kd this req) (\<lambda>sftp.
     bindR (configE ''cannot evaluate user'' (String_Render (kc_User (kr_conf this)) req)) (\<lambda>user.
     bindR (configE ''cannot evaluate group'' (String_Render (kc_Group (kr_conf this)) req)) (\<lambda>group.
     bindR (configE ''cannot evaluate directory'' (String_Render (kc_Directory (kr_conf this)) req)) (\<lambda>directory.
     bindR (configE ''cannot evaluate portForwardingAllowed'' (kc_PortForwardingAllowed (kr_conf this) req)) (\<lambda>pf.
     Inr ([(KubernetesAnnotationCreatedRemoteUser, fst (ec_remote req)), (KubernetesAnnotationCreatedRemoteHost, snd (ec_remote req)),
           (KubernetesAnnotationShellCommand, shell), (KubernetesAnnotationExecCommand, exec), (KubernetesAnnotationSftpCommand, sftp),
           (KubernetesAnnotationUser, user), (KubernetesAnnotationGroup, group), (KubernetesAnnotationDirectory, directory)] @
          (if pf then [(KubernetesAnnotationPortForwardingAllowed, ''true'')] else [])))))))))"

definition podOs :: "sys_os \<Rightarrow> env_err + bytes" where
  "podOs os = (if os = OsLinux then Inr ''linux'' else if os = OsWindows then Inr ''windows''
     else Inl (EErrTyped TConfig ''os is unsupported for kubernetes environments'' None))"

text \<open>The pod, and the name of its secret if that was made for it.\<close>

definition resolvePodConfig :: "('k, 'e) kube_deps \<Rightarrow> 'k kubernetes_repository \<Rightarrow> 'k env_context \<Rightarrow> fs_session \<Rightarrow> ('e, pod \<times> bytes) km" where
  "resolvePodConfig kd this req sess =
     (let conf = kr_conf this in
      bindE (liftS (String_Render (kc_Name conf) req)) (\<lambda>name.
      bindE (liftS (String_Render (kc_Namespace conf) req)) (\<lambda>namespace0.
      let namespace = (if namespace0 = [] then client_Namespace (kr_clientNamespace this) else namespace0) in
      bindE (mapErrE (onEnvErr (env_wrapf TConfig ''cannot ensure namespace of POD'')) (ensureNamespace kd namespace)) (\<lambda>_.
      bindE (liftS (podAnnotations kd this req)) (\<lambda>annotations.
      bindE (liftS (kube_resolveContainerConfig kd this req sess)) (\<lambda>c.
      bindE (resolveInitContainerConfig kd this req) (\<lambda>initC.
      bindE (liftS (podOs (kc_Os conf))) (\<lambda>os.
      let result = \<lparr>po_Name = name, po_Namespace = namespace, po_Phase = [], po_Labels = podLabels kd this sess, po_Annotations = annotations,
          po_Containers = [c], po_InitContainers = [initC], po_Os = os, po_ImagePullSecrets = [], po_ServiceAccountName = [],
          po_RestartPolicy = [], po_NodeSelector = [], po_Volumes = [], po_Nameservers = [], po_Searches = []\<rparr> in
      bindE (resolvePullSecretName kd this req (pc_Image c) result) (\<lambda>(secretName, secretManaged).
      bindE (liftS (String_Render (kc_ServiceAccountName conf) req)) (\<lambda>account.
      bindE (liftS (configE ''cannot evaluate dnsServer'' (Strings_Render (kc_DnsServers conf) req))) (\<lambda>nameservers.
      bindE (liftS (configE ''cannot evaluate dnsSearch'' (Strings_Render (kc_DnsSearch conf) req))) (\<lambda>searches.
      returnE (result\<lparr>po_ImagePullSecrets := (if secretName \<noteq> [] then [secretName] else []), po_ServiceAccountName := account,
          po_RestartPolicy := ''Never'',
          po_NodeSelector := [(''kubernetes.io/os'', Os_String (kc_Os conf)), (''kubernetes.io/arch'', Arch_Oci (kc_Arch conf))],
          po_Volumes := [''imp''], po_Nameservers := nameservers, po_Searches := searches\<rparr>,
        if secretManaged then secretName else [])))))))))))))"

end
