(* ===== verification/Kube.thy ===== *)
theory Kube
  imports KubeModel
begin

section \<open>The repository of pods (kubernetes-repository.go, kubernetes.go)\<close>

text \<open>
  The repository on the state of \<open>SharedEnvs\<close>; the outside is the cluster. A loop that waits receives a list of events and ends with its timer
  when the list does. \<open>es_removed\<close> has the pods whose deletion was asked for, as namespace and name.
\<close>

subsection \<open>Creating and removing (kubernetes-repository.go)\<close>

text \<open>A client that is shown a progress is shown a failure, too.\<close>

definition failing :: "('k, 'e) kube_deps \<Rightarrow> bool \<Rightarrow> ('e, 'a) km \<Rightarrow> ('e, 'a) km" where
  "failing kd progress m = onErrorE m (if progress then engineE id (kd_reportError kd) else returnE ())"

definition podId :: "bytes \<Rightarrow> bytes \<Rightarrow> bytes" where
  "podId namespace name = namespace @ ''/'' @ name"

text \<open>Deletion is asked for: it counts as asked whatever the answer is.\<close>

definition askDelete :: "('k, 'e) kube_deps \<Rightarrow> bool \<Rightarrow> bytes \<Rightarrow> bytes \<Rightarrow> 'e kube_state \<Rightarrow> (kube_err + unit) \<times> 'e kube_state" where
  "askDelete kd foreground namespace name s =
     (let (r, e) = kd_podDelete kd foreground namespace name (es_engine s) in
      (r, s\<lparr>es_engine := e, es_removed := es_removed s @ [podId namespace name]\<rparr>))"

definition deletePullSecret :: "('k, 'e) kube_deps \<Rightarrow> bytes \<Rightarrow> pod \<Rightarrow> ('e, unit) km" where
  "deletePullSecret kd name p =
     mapErrE (onEnvErr (env_wrapf TSystem ''cannot remove image pull secret''))
       (bindE (liftS (kd_clientSet kd)) (\<lambda>_ s.
        case kd_secretDelete kd (po_Namespace p) name (es_engine s) of
          (Inr _, e) \<Rightarrow> (Inr (), s\<lparr>es_engine := e\<rparr>)
        | (Inl err, e) \<Rightarrow> (if kb_notFound err then Inr () else Inl (SErr (kubeError err)), s\<lparr>es_engine := e\<rparr>)))"

definition deletePod :: "('k, 'e) kube_deps \<Rightarrow> pod \<Rightarrow> ('e, unit) km" where
  "deletePod kd p =
     mapErrE (onEnvErr (env_wrapf TSystem ''cannot remove pod''))
       (bindE (liftS (kd_clientSet kd)) (\<lambda>_ s.
        case askDelete kd True (po_Namespace p) (po_Name p) s of
          (Inr _, t) \<Rightarrow> (Inr (), t)
        | (Inl err, t) \<Rightarrow> (if kb_notFound err then Inr () else Inl (SErr (kubeError err)), t)))"

definition addOwnerReferenceToPullSecret :: "('k, 'e) kube_deps \<Rightarrow> bytes \<Rightarrow> pod \<Rightarrow> ('e, unit) km" where
  "addOwnerReferenceToPullSecret kd name p =
     mapErrE (onEnvErr (env_wrapf TSystem ''cannot add owner reference for image pull secret''))
       (bindE (liftS (kd_clientSet kd)) (\<lambda>_. engineE kubeError (kd_secretOwner kd (po_Namespace p) name p)))"

fun podLoop :: "('k, 'e) kube_deps \<Rightarrow> bool \<Rightarrow> pod_event list \<Rightarrow> ('e, pod) km" where
  "podLoop kd progress [] = failing kd progress (throwE (SErr (EErrTyped TSystem ''pod was still not ready'' None)))"
| "podLoop kd progress (PevContextDone err # evs) = throwE (SErr err)"
| "podLoop kd progress (PevOther # evs) = podLoop kd progress evs"
| "podLoop kd progress (PevPod p # evs) =
     (if po_Phase p = PodPending
      then bindE (if progress then engineE id (kd_report kd (3 / 10)) else returnE ()) (\<lambda>_. podLoop kd progress evs)
      else if po_Phase p = PodRunning
      then bindE (if progress then engineE id (kd_completed kd) else returnE ()) (\<lambda>_. returnE p)
      else failing kd progress (throwE (SErr (EErrTyped TSystem ''pod is in unexpected state'' None))))"

definition awaitCreated ::
    "('k, 'e) kube_deps \<Rightarrow> 'k kubernetes_repository \<Rightarrow> 'k env_context \<Rightarrow> pod \<Rightarrow> bytes \<Rightarrow> bool \<Rightarrow> pod \<Rightarrow> ('e, pod) km" where
  "awaitCreated kd this req config secret progress p =
     bindE (failing kd progress
       (bindE (if secret \<noteq> [] then addOwnerReferenceToPullSecret kd secret p else returnE ()) (\<lambda>_.
        bindE (engineE (\<lambda>e. env_wrapf TSystem ''cannot watch POD'' (kubeError e)) (kd_podWatch kd (po_Namespace config) (po_Name p))) (\<lambda>_.
        liftS (kc_ReadyTimeout (kr_conf this) req))))) (\<lambda>readyTimeout s.
     podLoop kd progress (kd_podEvents kd (es_engine s)) s)"

definition createResolved ::
    "('k, 'e) kube_deps \<Rightarrow> 'k kubernetes_repository \<Rightarrow> 'k env_context \<Rightarrow> pod \<Rightarrow> bytes \<Rightarrow> ('e, pod) km" where
  "createResolved kd this req config secret =
     bindE (liftS (kd_clientSet kd)) (\<lambda>_.
     bindE (engineE id (kd_startPreparation kd req ''create-pod'')) (\<lambda>progress.
     bindE (failing kd progress (engineE (\<lambda>e. env_wrapf TSystem ''cannot create POD'' (kubeError e)) (kd_podCreate kd config))) (\<lambda>p.
     onErrorE (awaitCreated kd this req config secret progress p) (deletePod kd config))))"

definition createPodBy :: "('k, 'e) kube_deps \<Rightarrow> 'k kubernetes_repository \<Rightarrow> 'k env_context \<Rightarrow> fs_session \<Rightarrow> ('e, pod) km" where
  "createPodBy kd this req sess =
     bindE (resolvePodConfig kd this req sess) (\<lambda>(config, secret).
     onErrorE (createResolved kd this req config secret) (if secret \<noteq> [] then deletePullSecret kd secret config else returnE ()))"

text \<open>\<^verbatim>\<open>removePod\<close>: an answer that the pod is gone ends it, as far as it is recognized.\<close>

definition cannotRemovePod :: "env_err \<Rightarrow> env_err" where
  "cannotRemovePod e = env_wrapf TSystem ''cannot remove pod'' e"

definition unlessGone :: "('e kube_state \<Rightarrow> (kube_err + unit) \<times> 'e kube_state) \<Rightarrow> ('e, bool) km \<Rightarrow> ('e, bool) km" where
  "unlessGone call m s =
     (case call s of
        (Inr _, t) \<Rightarrow> m t
      | (Inl err, t) \<Rightarrow> if kb_engineNotFound err then (Inr False, t) else (Inl (SErr (cannotRemovePod (kubeError err))), t))"

definition asked :: "('e \<Rightarrow> (kube_err + unit) \<times> 'e) \<Rightarrow> 'e kube_state \<Rightarrow> (kube_err + unit) \<times> 'e kube_state" where
  "asked call s = (let (r, e) = call (es_engine s) in (r, s\<lparr>es_engine := e\<rparr>))"

fun removeLoop :: "('k, 'e) kube_deps \<Rightarrow> bytes \<Rightarrow> bytes \<Rightarrow> remove_event list \<Rightarrow> ('e, bool) km" where
  "removeLoop kd namespace name [] =
     (\<lambda>s. case asked (kd_podGet kd namespace name) s of
        (r, t) \<Rightarrow> (if (\<exists>err. r = Inl err \<and> kb_engineNotFound err) then Inr False
                  else Inl (SErr (cannotRemovePod (EErrTyped TSystem ''pod was still not removed'' None))), t))"
| "removeLoop kd namespace name (RevContextDone err # evs) = throwE (SErr err)"
| "removeLoop kd namespace name (RevDeleted # evs) = returnE True"
| "removeLoop kd namespace name (RevChanged # evs) = removeLoop kd namespace name evs"
| "removeLoop kd namespace name (RevOther # evs) = throwE (SErr (cannotRemovePod (EErrTyped TSystem ''pod is in unexpected state'' None)))"

definition removeWatched :: "('k, 'e) kube_deps \<Rightarrow> bytes \<Rightarrow> bytes \<Rightarrow> ('e, bool) km" where
  "removeWatched kd namespace name =
     bindE (mapErrE (onEnvErr cannotRemovePod) (liftS (kd_clientSet kd))) (\<lambda>_.
     unlessGone (asked (kd_podGet kd namespace name))
       (unlessGone (asked (kd_podWatch kd namespace name))
         (unlessGone (askDelete kd False namespace name)
           (\<lambda>s. removeLoop kd namespace name (kd_removeEvents kd (es_engine s)) s))))"

definition removePod :: "('k, 'e) kube_deps \<Rightarrow> bytes \<Rightarrow> bytes \<Rightarrow> 'k env_context option \<Rightarrow> ('e, bool) km" where
  "removePod kd namespace name ppe =
     bindE (case ppe of
         Some req \<Rightarrow> mapErrE (onEnvErr cannotRemovePod) (engineE id (kd_startPreparation kd req ''remove-pod''))
       | None \<Rightarrow> returnE False) (\<lambda>progress.
     bindE (failing kd progress (removeWatched kd namespace name)) (\<lambda>ok.
     if progress then bindE (engineE id (kd_completed kd)) (\<lambda>_. returnE ok) else returnE ok))"

text \<open>The namespace that is searched, empty for all of them.\<close>

definition podsClient :: "'k kubernetes_repository \<Rightarrow> bytes" where
  "podsClient this =
     (case kc_hardCodedNamespace (kr_conf this) of
        Some v \<Rightarrow> if v \<noteq> [] then v else client_Namespace (kr_clientNamespace this)
      | None \<Rightarrow> [])"

definition findPodBySession :: "('k, 'e) kube_deps \<Rightarrow> 'k kubernetes_repository \<Rightarrow> sid \<Rightarrow> ('e, pod option) km" where
  "findPodBySession kd this i =
     mapErrE (onEnvErr (env_wrapf TSystem ''cannot find pod by session''))
       (bindE (liftS (kd_clientSet kd)) (\<lambda>_.
        bindE (engineE kubeError (kd_podList kd (podsClient this) KubernetesLabelSessionId (Some (kd_idText kd i)) (Some 1) [])) (\<lambda>(items, _).
        returnE (case items of [] \<Rightarrow> None | p # _ \<Rightarrow> Some p))))"

subsection \<open>Environments from pods (kubernetes.go)\<close>

definition podProblem :: "string \<Rightarrow> env_err + 'a" where
  "podProblem msg = Inl (EErrMsg msg podContainsProblemsErr)"

definition decodedAnnotation :: "('k, 'e) kube_deps \<Rightarrow> bytes \<Rightarrow> env_err + bytes list" where
  "decodedAnnotation kd v =
     (case kd_jsonDecode kd v of
        None \<Rightarrow> podProblem ''cannot decode annotation''
      | Some r \<Rightarrow> if length r = 0 \<or> length (hd r) = 0 then podProblem ''illegal annotation value'' else Inr r)"

definition parsePod :: "('k, 'e) kube_deps \<Rightarrow> 'k kubernetes_repository \<Rightarrow> pod \<Rightarrow> env_err + kube_env" where
  "parsePod kd this p =
     (let label = labelOf (po_Labels p); annotation = labelOf (po_Annotations p) in
      if label KubernetesLabelFlow = [] then podProblem ''missing label flow''
      else if label KubernetesLabelFlow \<noteq> kr_flow this then podProblem ''expected another flow''
      else if label KubernetesLabelSessionId = [] then podProblem ''missing label session-id''
      else bindR (case kd_idParse kd (label KubernetesLabelSessionId) of None \<Rightarrow> podProblem ''cannot decode label session-id'' | Some i \<Rightarrow> Inr i) (\<lambda>sessionId.
      if annotation KubernetesAnnotationCreatedRemoteHost = [] then podProblem ''missing annotation created-remote-host''
      else if annotation KubernetesAnnotationShellCommand = [] then podProblem ''missing annotation shellCommand''
      else bindR (decodedAnnotation kd (annotation KubernetesAnnotationShellCommand)) (\<lambda>shell.
      if annotation KubernetesAnnotationExecCommand = [] then podProblem ''missing annotation execCommand''
      else bindR (decodedAnnotation kd (annotation KubernetesAnnotationExecCommand)) (\<lambda>exec.
      bindR (if annotation KubernetesAnnotationSftpCommand = [] then Inr [] else decodedAnnotation kd (annotation KubernetesAnnotationSftpCommand)) (\<lambda>sftp.
      Inr \<lparr>ei_sessionId = sessionId, ei_owners = 0, ku_name = po_Name p, ku_namespace = po_Namespace p,
           ku_remoteUser = annotation KubernetesAnnotationCreatedRemoteUser,
           ku_remoteHost = Host_UnmarshalText (kd_net kd) (annotation KubernetesAnnotationCreatedRemoteHost),
           ku_shellCommand = shell, ku_execCommand = exec, ku_sftpCommand = sftp, ku_user = annotation KubernetesAnnotationUser,
           ku_group = annotation KubernetesAnnotationGroup, ku_directory = annotation KubernetesAnnotationDirectory,
           ku_portForwardingAllowed = (annotation KubernetesAnnotationPortForwardingAllowed = ''true''), ku_environ = []\<rparr>)))))"

definition withEnviron :: "env_map option \<Rightarrow> kube_env \<Rightarrow> kube_env" where
  "withEnviron ev env = (case ev of Some x \<Rightarrow> env\<lparr>ku_environ := x\<rparr> | None \<Rightarrow> env)"

definition wrapTry :: "(env_err \<Rightarrow> env_err) \<Rightarrow> 'a try_result \<times> 'e \<Rightarrow> 'a try_result \<times> 'e" where
  "wrapTry w r = (case fst r of TryFailed err \<Rightarrow> (TryFailed (w err), snd r) | _ \<Rightarrow> r)"

definition newKubernetes :: "('k, 'e) kube_deps \<Rightarrow> 'k kubernetes_repository \<Rightarrow> pod \<Rightarrow> ('e, nat) km" where
  "newKubernetes kd this p =
     mapErrE (onEnvErr (env_wrapf TSystem ''cannot create environment from pod''))
       (bindE (liftS (wrapR (env_wrapf TSystem ''cannot parse pod'') (parsePod kd this p))) (\<lambda>env.
        bindE (liftS (wrapR (env_wrapf TSystem ''cannot open IMP session'') (kd_impOpen kd env))) (\<lambda>_.
        bindE (engineE (env_wrapf TSystem ''cannot create new connection ID'') (kd_newConnId kd)) (\<lambda>connId.
        bindE (awaitReady (kd_ctxErr kd) (\<lambda>e. wrapTry (env_wrapf TSystem ''cannot get environment of created pod'') (kd_getEnvironment kd env connId e))
                 (kd_sleep kd) 200) (\<lambda>ev.
        remember (withEnviron ev env))))))"

subsection \<open>Finding and ensuring (kubernetes-repository.go)\<close>

definition removePodUnchecked :: "('k, 'e) kube_deps \<Rightarrow> pod \<Rightarrow> ('e, unit) km" where
  "removePodUnchecked kd p s = (Inr (), snd (removePod kd (po_Namespace p) (po_Name p) None s))"

text \<open>The pod that is used: one that is neither pending nor running is removed and replaced.\<close>

definition createdOr :: "('k, 'e) kube_deps \<Rightarrow> 'k kubernetes_repository \<Rightarrow> fs_session \<Rightarrow> 'k env_context option \<Rightarrow> ('e, pod) km" where
  "createdOr kd this sess createUsing =
     (case createUsing of None \<Rightarrow> throwE (SErr ErrNoSuchEnvironment) | Some req \<Rightarrow> createPodBy kd this req sess)"

definition chosenPod ::
    "('k, 'e) kube_deps \<Rightarrow> 'k kubernetes_repository \<Rightarrow> fs_session \<Rightarrow> bool option option \<Rightarrow> 'k env_context option \<Rightarrow> pod option \<Rightarrow> ('e, pod) km" where
  "chosenPod kd this sess opts createUsing existing =
     (case existing of
        None \<Rightarrow> createdOr kd this sess createUsing
      | Some p \<Rightarrow>
          if po_Phase p \<noteq> PodPending \<and> po_Phase p \<noteq> PodRunning
          then bindE (if FindOpts_IsAutoCleanUpAllowed opts \<or> createUsing \<noteq> None
                      then bindE (removePod kd (po_Namespace p) (po_Name p) createUsing) (\<lambda>_. returnE ()) else returnE ()) (\<lambda>_.
               createdOr kd this sess createUsing)
          else returnE p)"

definition freshPod ::
    "('k, 'e) kube_deps \<Rightarrow> 'k kubernetes_repository \<Rightarrow> fs_session \<Rightarrow> bool option option \<Rightarrow> 'k env_context option \<Rightarrow> pod option \<Rightarrow> ('e, nat) km" where
  "freshPod kd this sess opts createUsing existing =
     bindE (chosenPod kd this sess opts createUsing existing) (\<lambda>p s.
     case newKubernetes kd this p s of
       (Inr ref, t) \<Rightarrow> activate (ss_id sess) ref t
     | (Inl (SErr err), t) \<Rightarrow>
         if isPodProblem err then
           if createUsing \<noteq> None then bindE (removePodUnchecked kd p) (\<lambda>_. throwE (SErr err)) t
           else if FindOpts_IsAutoCleanUpAllowed opts then bindE (removePodUnchecked kd p) (\<lambda>_. throwE (SErr ErrNoSuchEnvironment)) t
           else (Inl (SErr err), t)
         else (Inl (SErr err), t)
     | (Inl NeverReturns, t) \<Rightarrow> (Inl NeverReturns, t))"

definition searchPod :: "('k, 'e) kube_deps \<Rightarrow> 'k kubernetes_repository \<Rightarrow> sid \<Rightarrow> bool \<Rightarrow> ('e, pod option) km" where
  "searchPod kd this i creating =
     bindE (findPodBySession kd this i) (\<lambda>existing.
     if existing = None \<and> \<not> creating then throwE (SErr ErrNoSuchEnvironment) else returnE existing)"

definition kube_findOrEnsureBySession ::
    "('k, 'e) kube_deps \<Rightarrow> ('e kube_state \<Rightarrow> 'e kube_state) \<Rightarrow> 'k kubernetes_repository \<Rightarrow> fs_session \<Rightarrow> bool option option \<Rightarrow>
     'k env_context option \<Rightarrow> ('e, nat) km" where
  "kube_findOrEnsureBySession kd others this sess opts createUsing =
     sharedOr others (ss_id sess) (searchPod kd this (ss_id sess) (createUsing \<noteq> None)) (freshPod kd this sess opts createUsing)"

definition kube_WillBeAccepted :: "'k kubernetes_repository \<Rightarrow> ('k, bool) tmpl" where
  "kube_WillBeAccepted this ctx = wrapR (EErrMsg ''cannot evaluate if user is allowed to login or not'') (kc_LoginAllowed (kr_conf this) ctx)"

definition kube_DoesSupportPty :: "'k env_context \<Rightarrow> bytes \<Rightarrow> env_err + bool" where
  "kube_DoesSupportPty ctx pty = Inr True"

text \<open>\<open>ensureTries\<close>: as many further attempts as the number says, if the context of the request can never end.\<close>

abbreviation amountOfEnsureTries :: nat where "amountOfEnsureTries \<equiv> 5"

fun ensureTries ::
    "('k, 'e) kube_deps \<Rightarrow> ('e kube_state \<Rightarrow> 'e kube_state) \<Rightarrow> 'k kubernetes_repository \<Rightarrow> fs_session \<Rightarrow> 'k env_context \<Rightarrow> nat \<Rightarrow> ('e, nat) km" where
  "ensureTries kd others this sess req 0 = kube_findOrEnsureBySession kd others this sess None (Some req)"
| "ensureTries kd others this sess req (Suc tries) =
     (\<lambda>s. case kube_findOrEnsureBySession kd others this sess None (Some req) s of
        (Inl (SErr err), t) \<Rightarrow>
          if isPodProblem err \<and> kd_noDone kd then ensureTries kd others this sess req tries t else (Inl (SErr err), t)
      | (r, t) \<Rightarrow> (r, t))"

definition kube_Ensure ::
    "('k, 'e) kube_deps \<Rightarrow> ('e kube_state \<Rightarrow> 'e kube_state) \<Rightarrow> 'k kubernetes_repository \<Rightarrow> 'k env_context \<Rightarrow> ('e, nat) km" where
  "kube_Ensure kd others this req =
     bindE (liftS (kube_WillBeAccepted this req)) (\<lambda>ok.
     if \<not> ok then throwE (SErr ErrNotAcceptable)
     else case au_session (ec_authorization req) of
         None \<Rightarrow> throwE (SErr (EErrTyped TSystem ''authorization without session'' None))
       | Some sess \<Rightarrow> ensureTries kd others this sess req amountOfEnsureTries)"

definition kube_FindBySession ::
    "('k, 'e) kube_deps \<Rightarrow> ('e kube_state \<Rightarrow> 'e kube_state) \<Rightarrow> 'k kubernetes_repository \<Rightarrow> fs_session \<Rightarrow> bool option option \<Rightarrow> ('e, nat) km" where
  "kube_FindBySession kd others this sess opts = kube_findOrEnsureBySession kd others this sess opts None"

subsection \<open>Disposing and closing (kubernetes.go)\<close>

definition kube_Dispose :: "('k, 'e) kube_deps \<Rightarrow> nat \<Rightarrow> ('e, bool) km" where
  "kube_Dispose kd ref s =
     (let env = es_instances s ! ref in
      withLock Writing (ei_sessionId env)
        (deferE (mapErrE (onEnvErr (env_wrapf TSystem ''cannot dispose environment'')) (removePod kd (ku_namespace env) (ku_name env) None))
           (closeGuarded ref)) s)"

definition kube_Close :: "nat \<Rightarrow> ('e, unit) km" where
  "kube_Close ref s = withLock Writing (ei_sessionId (es_instances s ! ref)) (closeGuarded ref) s"

subsection \<open>Orphans (kubernetes-repository.go)\<close>

text \<open>\<open>hasSession\<close> answers whether a session exists, if it can be told.\<close>

definition cleanupPod ::
    "('k, 'e) kube_deps \<Rightarrow> 'k kubernetes_repository \<Rightarrow> (bytes \<Rightarrow> env_err + bool) \<Rightarrow> (bytes \<Rightarrow> sid \<Rightarrow> env_err + bool option) \<Rightarrow> pod \<Rightarrow> ('e, unit) km" where
  "cleanupPod kd this hasFlow hasSession candidate =
     (case FlowName_UnmarshalText (labelOf (po_Labels candidate) KubernetesLabelFlow) of
        None \<Rightarrow> returnE ()
      | Some flow \<Rightarrow>
          if flow = [] then returnE ()
          else case kd_idParse kd (labelOf (po_Labels candidate) KubernetesLabelSessionId) of
              None \<Rightarrow> removePodUnchecked kd candidate
            | Some sessionId \<Rightarrow>
                if flow = kr_flow this then
                  if po_Phase candidate = PodPending \<or> po_Phase candidate = PodRunning
                  then if hasSession (kr_flow this) sessionId = Inr (Some False) then removePodUnchecked kd candidate else returnE ()
                  else removePodUnchecked kd candidate
                else bindE (liftS (hasFlow flow)) (\<lambda>globalHasFlow.
                  if globalHasFlow then returnE ()
                  else bindE (liftS (kc_CleanOrphan (kr_conf this) candidate)) (\<lambda>shouldBeCleaned.
                    if \<not> shouldBeCleaned then returnE () else removePodUnchecked kd candidate)))"

text \<open>The pages of the list, until the cluster gives no mark to go on from: this may never end, which is \<open>None\<close>.\<close>

partial_function (option) cleanupPages ::
    "('k, 'e) kube_deps \<Rightarrow> 'k kubernetes_repository \<Rightarrow> (bytes \<Rightarrow> env_err + bool) \<Rightarrow> (bytes \<Rightarrow> sid \<Rightarrow> env_err + bool option) \<Rightarrow> bytes \<Rightarrow>
     'e kube_state \<Rightarrow> ((shared_err + unit) \<times> 'e kube_state) option" where
  "cleanupPages kd this hasFlow hasSession mark s =
     (case engineE kubeError (kd_podList kd (podsClient this) KubernetesLabelFlow None None mark) s of
        (Inl err, t) \<Rightarrow> Some (Inl err, t)
      | (Inr (items, next), t) \<Rightarrow>
          (case forE (cleanupPod kd this hasFlow hasSession) items t of
             (Inl err, u) \<Rightarrow> Some (Inl err, u)
           | (Inr _, u) \<Rightarrow> if next = [] then Some (Inr (), u) else cleanupPages kd this hasFlow hasSession next u))"

definition kube_Cleanup ::
    "('k, 'e) kube_deps \<Rightarrow> 'k kubernetes_repository \<Rightarrow> (bytes \<Rightarrow> env_err + bool) option \<Rightarrow> (bytes \<Rightarrow> sid \<Rightarrow> env_err + bool) option \<Rightarrow>
     'e kube_state \<Rightarrow> ((shared_err + unit) \<times> 'e kube_state) option" where
  "kube_Cleanup kd this flowOfNamePredicate sessionExists s =
     (let wrapped = map_option (\<lambda>(r, t). (map_sum (onEnvErr (env_wrapf TSystem ''cannot cleanup potential orhpan kubernetes containers'')) id r, t)) in
      wrapped (case kd_clientSet kd of
          Inl err \<Rightarrow> Some (Inl (SErr err), s)
        | Inr _ \<Rightarrow> cleanupPages kd this (case flowOfNamePredicate of Some p \<Rightarrow> p | None \<Rightarrow> (\<lambda>_. Inr False))
            (case sessionExists of Some p \<Rightarrow> (\<lambda>flow i. map_sum id Some (p flow i)) | None \<Rightarrow> (\<lambda>_ _. Inr None)) [] s))"

text \<open>\<^verbatim>\<open>kubernetesPodContext.GetField\<close>: \<open>None\<close> is nil.\<close>

definition pod_GetField :: "pod \<Rightarrow> bytes \<Rightarrow> env_err + bytes option" where
  "pod_GetField this name =
     (if name = ''namespace'' then Inr (Some (po_Namespace this))
      else if name = ''name'' then Inr (Some (po_Name this))
      else if name = ''image'' then Inr (map_option pc_Image (find (\<lambda>c. pc_Name c = ''bifroest'') (po_Containers this)))
      else if name = ''flow'' then
        (case map_of (po_Labels this) KubernetesLabelFlow of
           None \<Rightarrow> Inr None
         | Some plain \<Rightarrow>
             (case FlowName_UnmarshalText plain of
                None \<Rightarrow> Inl (EErrText ''illegal flow name'')
              | Some flow \<Rightarrow> Inr (if flow = [] then None else Some flow)))
      else Inl (EErrText ''unknown field''))"

subsection \<open>The repository itself\<close>

text \<open>\<open>config\<close> and \<open>context\<close> are rendered without data; \<open>getClient\<close> gives the namespace of the client's context.\<close>

definition NewKubernetesRepository ::
    "env_err + 'c \<Rightarrow> env_err + bytes \<Rightarrow> ('c \<Rightarrow> bytes \<Rightarrow> env_err + bytes) \<Rightarrow> env_err + bytes \<Rightarrow> bytes \<Rightarrow> 'k env_kubernetes_conf option \<Rightarrow>
     env_err + 'k kubernetes_repository" where
  "NewKubernetesRepository config kctx getClient levelName flow conf =
     (case conf of
        None \<Rightarrow> Inl (EErrText ''nil configuration'')
      | Some conf \<Rightarrow>
          bindR config (\<lambda>kCfg.
          bindR kctx (\<lambda>kCtx.
          bindR (getClient kCfg kCtx) (\<lambda>namespace.
          bindR (wrapR (EErrMsg ''cannot transform to name of level'') levelName) (\<lambda>level.
          Inr \<lparr>kr_flow = flow, kr_conf = conf, kr_clientNamespace = namespace, kr_defaultLogLevelName = level\<rparr>)))))"

end
