(* ===== verification/KubeRun.thy ===== *)
theory KubeRun
  imports Kube
begin

section \<open>A task in a pod (kubernetes-usage-specific.go)\<close>

text \<open>
  \<open>kw_agentPipe\<close> is the answer of the helper process that is asked for a pipe, \<open>kw_connIdText\<close> the text of the connection's id, \<open>kw_executor\<close>
  the client's answer to the request for an execution. \<open>kw_spare\<close> is the room in the array of the environment's command beyond its end.
\<close>

record kube_run_os =
  kw_lookupEnv :: "bytes \<Rightarrow> bytes option"
  kw_agentPipe :: "go_error + bytes"
  kw_connIdText :: bytes
  kw_executor :: "env_err + unit"
  kw_spare :: nat

record pod_exec_options =
  px_Command :: "bytes list"
  px_TTY :: bool

definition kube_environ :: "('k, 'e) kube_deps \<Rightarrow> kube_run_os \<Rightarrow> kube_env \<Rightarrow> 'k env_task \<Rightarrow> fs_session \<Rightarrow> env_map" where
  "kube_environ kd os this t sess =
     (let ev0 = EnvVars_AddAllOf (ku_environ this) [];
          ev1 = (case kw_lookupEnv os ''TZ'' of Some v \<Rightarrow> EnvVars_setAll [''TZ'', v] ev0 | None \<Rightarrow> ev0);
          ev2 = EnvVars_AddAllOf (au_envVars (ec_authorization t)) ev1;
          ev3 = EnvVars_Add (et_environ t) ev2
      in EnvVars_setAll [session_EnvName, kd_idText kd (ss_id sess)] ev3)"

text \<open>
  The path, the command and the environment afterwards. The command of the client is \<^verbatim>\<open>append\<close>ed to the slice of the environment: with room in
  its array, both share their elements, and the change of the first one is seen by all later runs.
\<close>

definition indexPanic :: env_err where
  "indexPanic = EErrText ''runtime error: index out of range [0] with length 0''"

definition kube_taskCommand :: "kube_run_os \<Rightarrow> sys_os \<Rightarrow> kube_env \<Rightarrow> 'k env_task \<Rightarrow> env_err + (bytes \<times> bytes list) \<times> kube_env" where
  "kube_taskCommand os hostOs this t =
     bindR (if et_taskType t = TaskTypeShell
            then Inr (if length (et_rawCommand t) > 0 then (ku_execCommand this @ [et_rawCommand t], kw_spare os > 0) else (ku_shellCommand this, False))
            else if et_taskType t = TaskTypeSftp then Inr (ku_sftpCommand this, False)
            else Inl (EErrTyped TSystem ''illegal task type'' None)) (\<lambda>(command, shared).
     case command of
       [] \<Rightarrow> Inl indexPanic
     | path # rest \<Rightarrow>
         if hostOs = OsLinux then
           let first = (if et_taskType t = TaskTypeShell then CHR ''-'' # filepath_Base path else filepath_Base path) in
           Inr ((path, first # rest),
                if shared then this\<lparr>ku_execCommand := (ku_execCommand this)[0 := first]\<rparr> else this)
         else Inr ((path, command), this))"

definition kube_execArgs :: "kube_run_os \<Rightarrow> sys_os \<Rightarrow> kube_env \<Rightarrow> bytes \<Rightarrow> bytes list \<Rightarrow> env_map \<Rightarrow> bytes list" where
  "kube_execArgs os hostOs this path command ev =
     [BifroestBinaryFileLocation hostOs, ''exec'', ''-c'', kw_connIdText os, ''-p'', path, ''-x''] @
     (if length (ku_directory this) > 0 then [''-d'', ku_directory this] else []) @
     map (\<lambda>(k, v). ''-e'' @ k @ ''='' @ v) ev @
     (if hostOs = OsLinux
      then (if length (ku_user this) > 0 then [''-u'', ku_user this] else []) @ (if length (ku_group this) > 0 then [''-g'', ku_group this] else [])
      else []) @
     [''--''] @ command"

definition kube_prepareRun ::
    "('k, 'e) kube_deps \<Rightarrow> kube_run_os \<Rightarrow> 'k kubernetes_repository \<Rightarrow> kube_env \<Rightarrow> 'k env_task \<Rightarrow> (env_err + pod_exec_options) \<times> kube_env" where
  "kube_prepareRun kd os repo this t =
     (let hostOs = kc_Os (kr_conf repo) in
      case au_session (ec_authorization t) of
        None \<Rightarrow> (Inl (EErrTyped TSystem ''authorization without session is not supported to run kubernetes environment'' None), this)
      | Some sess \<Rightarrow>
          (case bindR (kd_clientSet kd) (\<lambda>_. kube_taskCommand os hostOs this t) of
             Inl err \<Rightarrow> (Inl err, this)
           | Inr ((path, command), this') \<Rightarrow>
               (bindR (if et_agentRequested t
                       then case kw_agentPipe os of
                           Inr pipe \<Rightarrow> Inr (EnvVars_setAll [AuthSockEnvName, pipe] (kube_environ kd os this t sess))
                         | Inl err \<Rightarrow> if isRemoteError err then Inr (kube_environ kd os this t sess) else viaImp (Inl err)
                       else Inr (kube_environ kd os this t sess)) (\<lambda>ev.
                bindR (kw_executor os) (\<lambda>_.
                Inr \<lparr>px_Command = kube_execArgs os hostOs this path command
                       (case et_pty t of Some term \<Rightarrow> EnvVars_setAll [''TERM'', term] ev | None \<Rightarrow> ev), px_TTY = (et_pty t \<noteq> None)\<rparr>)), this')))"

text \<open>
  What the loop receives: a signal of the client, the end of the context, or the end of the streams (\<open>None\<close> from a closed channel) together
  with what the helper process says of the exit code. The second part of the answer are the signals that are sent.
\<close>

datatype kube_event =
    KevSignal "bytes option"
  | KevContextDone
  | KevStreamDone "env_err option option" "go_error + int"

definition kube_finish :: "go_error + int \<Rightarrow> int" where
  "kube_finish r = (case r of Inr exitCode \<Rightarrow> exitCode | Inl err \<Rightarrow> if err = ErrNotFound then 0 else 1)"

fun kube_runLoop :: "kube_event list \<Rightarrow> (int \<times> env_err option) option \<times> signal list" where
  "kube_runLoop [] = (None, [])"
| "kube_runLoop (KevSignal (Some s) # evs) = (let (r, sent) = kube_runLoop evs in (r, signalFor s # sent))"
| "kube_runLoop (KevSignal None # evs) = kube_runLoop evs"
| "kube_runLoop (KevContextDone # evs) = (Some (-2, None), [SIGINT])"
| "kube_runLoop (KevStreamDone (Some (Some err)) _ # evs) = (Some (-1, Some err), [SIGINT])"
| "kube_runLoop (KevStreamDone _ answer # evs) =
     (if kube_finish answer \<ge> 0 then (Some (kube_finish answer, None), [SIGINT])
      else (let (r, sent) = kube_runLoop evs in (r, SIGINT # sent)))"

definition kube_Run ::
    "('k, 'e) kube_deps \<Rightarrow> kube_run_os \<Rightarrow> 'k kubernetes_repository \<Rightarrow> kube_env \<Rightarrow> 'k env_task \<Rightarrow> kube_event list \<Rightarrow>
     ((int \<times> env_err option) option \<times> signal list) \<times> kube_env" where
  "kube_Run kd os repo this t evs =
     (case kube_prepareRun kd os repo this t of
        (Inl e, this') \<Rightarrow> ((Some (-1, Some e), []), this')
      | (Inr _, this') \<Rightarrow> (kube_runLoop evs, this'))"

definition kube_Banner :: "'k kubernetes_repository \<Rightarrow> ('k, bytes) tmpl" where
  "kube_Banner this req = String_Render (kc_Banner (kr_conf this)) req"

definition kube_IsPortForwardingAllowed :: "kube_env \<Rightarrow> bool" where
  "kube_IsPortForwardingAllowed this \<longleftrightarrow> ku_portForwardingAllowed this"

definition kube_NewDestinationConnection :: "env_err + conn_id \<Rightarrow> (conn_id \<Rightarrow> host_port \<Rightarrow> go_error + 'c) \<Rightarrow> kube_env \<Rightarrow> host_port \<Rightarrow> env_err + 'c" where
  "kube_NewDestinationConnection newId initiateTcpForward this dest =
     (if \<not> ku_portForwardingAllowed this then Inl (EErrTyped TPermission ''portforwarning not allowed'' None)
      else bindR newId (\<lambda>connId. viaImp (initiateTcpForward connId dest)))"

end
