(* ===== verification/KubeProps.thy ===== *)
theory KubeProps
  imports KubeRun
begin

section \<open>What the repository of pods guarantees\<close>

text \<open>
  The repository of pods keeps the contract \<open>shared_environments\<close>, too, and always returns. The other theorems: disposing an environment whose pod
  is gone, which pods a clean-up removes and when it ends, that the annotations of a pod restore the settings, and what a second run starts.
\<close>

subsection \<open>Everything returns and leaves the memory as it is\<close>

text \<open>Operations on the cluster: they return, and touch neither environments nor active ones nor locks.\<close>

definition outside :: "('e, 'm, 'a) em \<Rightarrow> bool" where
  "outside m \<longleftrightarrow> returns m \<and> (\<forall>x. preserves (memory x) m)"

lemma outsideD: "outside m \<Longrightarrow> returns m" "outside m \<Longrightarrow> preserves (memory x) m"
  unfolding outside_def by blast+

lemma outside_bind: "outside m \<Longrightarrow> (\<And>x. outside (f x)) \<Longrightarrow> outside (bindE m f)"
  by (simp add: outside_def returns_bind preserves_bindE)

lemma outside_simps [simp]: "outside (returnE x)" "outside (throwE (SErr e))" "outside (engineE w call)" "outside (liftS r)"
  by (simp_all add: outside_def returns_rules memory_shared preserve)

lemma outside_mapErr: "outside m \<Longrightarrow> outside (mapErrE (onEnvErr w) m)"
  by (simp add: outside_def returns_mapErr preserves_mapErrE)

lemma outside_onError: "outside m \<Longrightarrow> outside c \<Longrightarrow> outside (onErrorE m c)"
  by (simp add: outside_def returns_onError preserves_onErrorE)

lemma outside_if: "(b \<Longrightarrow> outside m) \<Longrightarrow> (\<not> b \<Longrightarrow> outside n) \<Longrightarrow> outside (if b then m else n)"
  by simp

text \<open>A call that answers in one of finitely many ways by the state of the cluster.\<close>

lemma outside_fun: "(\<And>s. fst (m s) \<noteq> Inl NeverReturns \<and> (\<forall>x. memory x s \<longrightarrow> memory x (snd (m s)))) \<Longrightarrow> outside m"
  by (simp add: outside_def returns_def preserves_def)

lemma outside_state: "outside (f e) \<Longrightarrow> outside (\<lambda>s. f (g s) s)" if "\<And>e. outside (f e)" for f g
  using that by (simp add: outside_def returns_def preserves_def)

lemma outside_failing: "outside m \<Longrightarrow> outside (failing kd progress m)"
  unfolding failing_def by (intro outside_onError outside_if outside_simps)

lemmas outside_rules = outside_bind outside_mapErr outside_onError outside_failing outside_if outside_simps

lemma outside_imageProgress: "outside (imageProgress kd req)"
  by (rule outside_fun) (simp add: imageProgress_def memory_def split: prod.splits)

lemma outside_initImage: "outside (initImage kd this req)"
  unfolding initImage_def by (intro outside_rules outside_imageProgress) (auto intro!: outside_rules split: sum.splits)

lemma outside_secretName: "outside (resolvePullSecretName kd this req forImage p)"
  unfolding resolvePullSecretName_def Let_def by (intro outside_rules)

lemma outside_namespace: "outside (ensureNamespace kd namespace)"
proof -
  have c: "outside (engineE kubeError (kd_namespaceCreate kd namespace))" by simp
  have "outside (\<lambda>s. case kd_namespaceGet kd namespace (es_engine s) of
          (Inr _, e) \<Rightarrow> (Inr (), s\<lparr>es_engine := e\<rparr>)
        | (Inl err, e) \<Rightarrow>
            if kb_notFound err then engineE kubeError (kd_namespaceCreate kd namespace) (s\<lparr>es_engine := e\<rparr>)
            else (Inl (SErr (kubeError err)), s\<lparr>es_engine := e\<rparr>))"
    by (rule outside_fun) (use c in \<open>auto simp: outside_def returns_def preserves_def memory_def split: prod.splits sum.splits\<close>)
  then show ?thesis unfolding ensureNamespace_def by (intro outside_rules)
qed

lemma outside_resolvePod: "outside (resolvePodConfig kd this req sess)"
  unfolding resolvePodConfig_def resolveInitContainerConfig_def Let_def split_def
  by (intro outside_rules outside_namespace outside_initImage outside_secretName)

lemma outside_deletePullSecret: "outside (deletePullSecret kd name p)"
proof -
  have "outside (\<lambda>s. case kd_secretDelete kd (po_Namespace p) name (es_engine s) of
          (Inr _, e) \<Rightarrow> (Inr (), s\<lparr>es_engine := e\<rparr>)
        | (Inl err, e) \<Rightarrow> (if kb_notFound err then Inr () else Inl (SErr (kubeError err)), s\<lparr>es_engine := e\<rparr>))"
    by (rule outside_fun) (auto simp: memory_def split: prod.splits sum.splits)
  then show ?thesis unfolding deletePullSecret_def by (intro outside_rules)
qed

lemma askDelete_memory: "askDelete kd foreground namespace name s = (r, t) \<Longrightarrow> memory x t = memory x s"
  by (auto simp: askDelete_def memory_def split: prod.splits)

lemma outside_deletePod: "outside (deletePod kd p)"
proof -
  have "outside (\<lambda>s. case askDelete kd True (po_Namespace p) (po_Name p) s of
          (Inr _, t) \<Rightarrow> (Inr (), t)
        | (Inl err, t) \<Rightarrow> (if kb_notFound err then Inr () else Inl (SErr (kubeError err)), t))"
    by (rule outside_fun) (auto simp: askDelete_memory split: prod.splits sum.splits)
  then show ?thesis unfolding deletePod_def by (intro outside_rules)
qed

lemma outside_podLoop: "outside (podLoop kd progress evs)"
  by (induction kd progress evs rule: podLoop.induct) (auto intro!: outside_rules)

lemma outside_created: "outside (createPodBy kd this req sess)"
proof -
  have l: "outside (\<lambda>s. podLoop kd progress (kd_podEvents kd (es_engine s)) s)" for progress
    by (rule outside_state) (rule outside_podLoop)+
  have "outside (awaitCreated kd this req config secret progress p)" for config secret progress p
    unfolding awaitCreated_def addOwnerReferenceToPullSecret_def by (intro outside_rules l)
  then have "outside (createResolved kd this req config secret)" for config secret
    unfolding createResolved_def by (intro outside_rules outside_deletePod)
  then show ?thesis
    unfolding createPodBy_def split_def by (intro outside_rules outside_resolvePod outside_deletePullSecret)
qed

lemma outside_unlessGone:
  assumes "outside m" and "\<And>s r t x. call s = (r, t) \<Longrightarrow> memory x t = memory x s"
  shows "outside (unlessGone call m)"
  using assms(1) assms(2)
  by (intro outside_fun) (auto simp: unlessGone_def outside_def returns_def preserves_def split: prod.splits sum.splits)

lemma asked_memory: "asked call s = (r, t) \<Longrightarrow> memory x t = memory x s"
  by (auto simp: asked_def memory_def split: prod.splits)

lemma outside_removeLoop: "outside (removeLoop kd namespace name evs)"
proof (induction kd namespace name evs rule: removeLoop.induct)
  case (1 kd namespace name)
  show ?case by (rule outside_fun) (auto simp: asked_memory split: prod.splits)
qed simp_all

lemma outside_remove: "outside (removePod kd namespace name ppe)"
proof -
  have l: "outside (\<lambda>s. removeLoop kd namespace name (kd_removeEvents kd (es_engine s)) s)"
    by (rule outside_state) (rule outside_removeLoop)+
  have "outside (removeWatched kd namespace name)"
    unfolding removeWatched_def by (intro outside_rules outside_unlessGone l asked_memory askDelete_memory)
  then show ?thesis
    unfolding removePod_def by (intro outside_rules) (auto intro!: outside_rules split: option.splits)
qed

lemma outside_unchecked: "outside (removePodUnchecked kd p)"
proof (rule outside_fun)
  fix s
  have "memory x s \<longrightarrow> memory x (snd (removePod kd (po_Namespace p) (po_Name p) None s))" for x
    using preservesD[OF outsideD(2)[OF outside_remove]] by blast
  then show "fst (removePodUnchecked kd p s) \<noteq> Inl NeverReturns \<and> (\<forall>x. memory x s \<longrightarrow> memory x (snd (removePodUnchecked kd p s)))"
    unfolding removePodUnchecked_def by simp
qed

lemma outside_search: "outside (searchPod kd this i creating)"
  unfolding searchPod_def findPodBySession_def split_def by (intro outside_rules)

lemma outside_chosen: "outside (chosenPod kd this sess opts createUsing existing)"
  unfolding chosenPod_def createdOr_def
  by (auto intro!: outside_rules outside_remove outside_created split: option.splits)

subsection \<open>One environment for a session\<close>

lemma newKubernetes_cases:
  fixes kd :: "('k, 'e) kube_deps"
  assumes "newKubernetes kd this p s = (r, t)"
  obtains (made) env ev where "parsePod kd this p = Inr env" "r = Inr (length (es_instances s))"
      "memory (es_instances s @ [(withEnviron ev env)\<lparr>ei_owners := 1\<rparr>], es_active s, es_held s) t"
  | (failed) err where "r = Inl (SErr err)" "memory (es_instances s, es_active s, es_held s) t"
proof -
  define probe where "probe env connId = (\<lambda>e. wrapTry (env_wrapf TSystem ''cannot get environment of created pod'') (kd_getEnvironment kd env connId e))"
    for env connId
  define prep :: "('e, kube_env) km" where
    "prep = bindE (liftS (wrapR (env_wrapf TSystem ''cannot parse pod'') (parsePod kd this p))) (\<lambda>env.
        bindE (liftS (wrapR (env_wrapf TSystem ''cannot open IMP session'') (kd_impOpen kd env))) (\<lambda>_.
        bindE (engineE (env_wrapf TSystem ''cannot create new connection ID'') (kd_newConnId kd)) (\<lambda>connId.
        bindE (awaitReady (kd_ctxErr kd) (probe env connId) (kd_sleep kd) 200) (\<lambda>ev. returnE (withEnviron ev env)))))"
  have n: "newKubernetes kd this p = mapErrE (onEnvErr (env_wrapf TSystem ''cannot create environment from pod'')) (bindE prep remember)"
    unfolding newKubernetes_def prep_def probe_def by (simp add: bindE_assoc)
  have P: "preserves (memory x) prep" for x
    unfolding prep_def by (intro preserve memory_shared)
  have R: "returns prep"
    unfolding prep_def by (intro returns_rules)
  have env: "prep s = (Inr env, u) \<Longrightarrow> \<exists>e ev. parsePod kd this p = Inr e \<and> env = withEnviron ev e" for env u
    unfolding prep_def bindE_Inr_iff liftS_Inr wrapR_simps(3) returnE_def by blast
  from assms[unfolded n] P R show thesis
  proof (cases rule: remember_cases)
    case (made e u)
    with env obtain x ev where "parsePod kd this p = Inr x" "e = withEnviron ev x" by blast
    with made show thesis by (intro that(1)) auto
  qed (rule that(2))
qed

lemma returns_newKubernetes: "returns (newKubernetes kd this p)"
  unfolding newKubernetes_def by (intro returns_rules)

text \<open>
  What is relied on: the text of a session's id is read back, the cluster answers a search by a label with pods that have it, and a pod
  that is watched after it was created, and maybe made the owner of its secret, has at least the labels that it was created with (an
  admission controller may add some).
\<close>

definition cluster_ok :: "('k, 'e) kube_deps \<Rightarrow> bool" where
  "cluster_ok kd \<longleftrightarrow>
     (\<forall>i. kd_idParse kd (kd_idText kd i) = Some i) \<and>
     (\<forall>ns name v n mark e items next e' p. kd_podList kd ns name (Some v) n mark e = (Inr (items, next), e') \<longrightarrow> p \<in> set items \<longrightarrow>
        map_of (po_Labels p) name = Some v) \<and>
     (\<forall>config e p e1 ns n e2 r e3 q. kd_podCreate kd config e = (Inr p, e1) \<longrightarrow> e2 = e1 \<or> kd_secretOwner kd ns n p e1 = (r, e2) \<longrightarrow>
        kd_podWatch kd (po_Namespace config) (po_Name p) e2 = (Inr (), e3) \<longrightarrow> PevPod q \<in> set (kd_podEvents kd e3) \<longrightarrow>
        (\<forall>name v. map_of (po_Labels config) name = Some v \<longrightarrow> map_of (po_Labels q) name = Some v))"

lemma watched_labels:
  assumes "cluster_ok kd" and "kd_podCreate kd config e = (Inr p, e1)" and "e2 = e1 \<or> (\<exists>ns n r. kd_secretOwner kd ns n p e1 = (r, e2))"
    and "kd_podWatch kd (po_Namespace config) (po_Name p) e2 = (Inr (), e3)" and "PevPod q \<in> set (kd_podEvents kd e3)"
    and "map_of (po_Labels config) name = Some v"
  shows "map_of (po_Labels q) name = Some v"
proof -
  have c: "\<forall>config e p e1 ns n e2 r e3 q. kd_podCreate kd config e = (Inr p, e1) \<longrightarrow> e2 = e1 \<or> kd_secretOwner kd ns n p e1 = (r, e2) \<longrightarrow>
      kd_podWatch kd (po_Namespace config) (po_Name p) e2 = (Inr (), e3) \<longrightarrow> PevPod q \<in> set (kd_podEvents kd e3) \<longrightarrow>
      (\<forall>name v. map_of (po_Labels config) name = Some v \<longrightarrow> map_of (po_Labels q) name = Some v)"
    using assms(1) unfolding cluster_ok_def by (elim conjE)
  have "map_of (po_Labels q) name = Some v" if "e2 = e1 \<or> kd_secretOwner kd ns n p e1 = (r, e2)" for ns n r
    by (rule c[rule_format, OF assms(2) that assms(4-6)])
  with assms(3) show ?thesis by blast
qed

lemma podLoop_Inr: "podLoop kd progress evs s = (Inr q, t) \<Longrightarrow> PevPod q \<in> set evs"
  by (induction kd progress evs arbitrary: s rule: podLoop.induct)
    (auto simp: failing_def onErrorE_def throwE_def returnE_def bindE_Inr_iff split: if_splits prod.splits)

lemma failing_Inr: "failing kd progress m s = (Inr x, t) \<longleftrightarrow> m s = (Inr x, t)"
  by (auto simp: failing_def onErrorE_def split: prod.splits sum.splits)

lemma onError_Inr: "onErrorE m c s = (Inr x, t) \<longleftrightarrow> m s = (Inr x, t)"
  by (auto simp: onErrorE_def split: prod.splits sum.splits)

lemma resolvePod_labels:
  "resolvePodConfig kd this req sess s = (Inr (config, secret), t) \<Longrightarrow> po_Labels config = podLabels kd this sess"
  by (auto simp: resolvePodConfig_def Let_def bindE_Inr_iff returnE_def split_def)

lemma created_pod_label:
  assumes "cluster_ok kd" and "createPodBy kd this req sess s = (Inr q, t)"
  shows "map_of (po_Labels q) KubernetesLabelSessionId = Some (kd_idText kd (ss_id sess))"
proof -
  from assms(2) obtain config secret u where c: "resolvePodConfig kd this req sess s = (Inr (config, secret), u)"
      and r: "createResolved kd this req config secret u = (Inr q, t)"
    by (auto simp: createPodBy_def bindE_Inr_iff onError_Inr)
  from r obtain e p e1 progress v where p: "kd_podCreate kd config e = (Inr p, e1)" and a: "awaitCreated kd this req config secret progress p v = (Inr q, t)"
      and v: "es_engine v = e1"
    by (auto simp: createResolved_def bindE_Inr_iff onError_Inr failing_Inr engineE_Inr)
  from a have "\<exists>x e3 w. (if secret \<noteq> [] then addOwnerReferenceToPullSecret kd secret p else returnE ()) v = (Inr (), x) \<and>
      kd_podWatch kd (po_Namespace config) (po_Name p) (es_engine x) = (Inr (), e3) \<and> podLoop kd progress (kd_podEvents kd e3) w = (Inr q, t)"
    by (fastforce simp: awaitCreated_def bindE_Inr_iff failing_Inr engineE_Inr liftS_Inr)
  then obtain x where x: "(if secret \<noteq> [] then addOwnerReferenceToPullSecret kd secret p else returnE ()) v = (Inr (), x)"
      and w: "\<exists>e3 w. kd_podWatch kd (po_Namespace config) (po_Name p) (es_engine x) = (Inr (), e3) \<and> podLoop kd progress (kd_podEvents kd e3) w = (Inr q, t)"
    by blast
  from x have owned: "es_engine x = e1 \<or> (\<exists>ns n r. kd_secretOwner kd ns n p e1 = (r, es_engine x))"
    using v by (auto simp: addOwnerReferenceToPullSecret_def mapErrE_Inr_iff bindE_Inr_iff engineE_Inr liftS_Inr returnE_def split: if_splits)
  from w obtain e3 w where "kd_podWatch kd (po_Namespace config) (po_Name p) (es_engine x) = (Inr (), e3)" "PevPod q \<in> set (kd_podEvents kd e3)"
    using podLoop_Inr by metis
  from watched_labels[OF assms(1) p owned this] show ?thesis using resolvePod_labels[OF c] by (simp add: podLabels_def)
qed

lemma created_or_Inr: "createdOr kd this sess createUsing s = (Inr q, t) \<longleftrightarrow> (\<exists>req. createUsing = Some req \<and> createPodBy kd this req sess s = (Inr q, t))"
  by (auto simp: createdOr_def throwE_def split: option.splits)

text \<open>What the search finds has the label of the session.\<close>

definition pod_labelled :: "('k, 'e) kube_deps \<Rightarrow> sid \<Rightarrow> pod option \<Rightarrow> bool" where
  "pod_labelled kd i found \<longleftrightarrow> (\<forall>p. found = Some p \<longrightarrow> map_of (po_Labels p) KubernetesLabelSessionId = Some (kd_idText kd i))"

lemma searched_pod_label:
  assumes "cluster_ok kd" and "searchPod kd this i creating s = (Inr found, t)"
  shows "pod_labelled kd i found"
proof -
  from assms(2) obtain items m e e' where l: "kd_podList kd (podsClient this) KubernetesLabelSessionId (Some (kd_idText kd i)) (Some 1) [] e = (Inr (items, m), e')"
      and f: "found = (case items of [] \<Rightarrow> None | p # _ \<Rightarrow> Some p)"
    by (auto simp: searchPod_def findPodBySession_def bindE_Inr_iff mapErrE_Inr_iff engineE_Inr returnE_def throwE_def split: if_splits)
  have "map_of (po_Labels p) KubernetesLabelSessionId = Some (kd_idText kd i)" if "found = Some p" for p
  proof -
    from that f have "p \<in> set items" by (cases items) auto
    with assms(1) l show ?thesis unfolding cluster_ok_def by blast
  qed
  then show ?thesis by (simp add: pod_labelled_def)
qed

lemma chosen_pod_label:
  assumes "cluster_ok kd" and "pod_labelled kd (ss_id sess) found" and "chosenPod kd this sess opts createUsing found s = (Inr p, t)"
  shows "map_of (po_Labels p) KubernetesLabelSessionId = Some (kd_idText kd (ss_id sess))"
  using assms(2,3) created_pod_label[OF assms(1)]
  by (auto simp: chosenPod_def pod_labelled_def created_or_Inr bindE_Inr_iff returnE_def split: option.splits if_splits)

lemma parsed_pod_session:
  assumes "cluster_ok kd" and "parsePod kd this p = Inr env" and "map_of (po_Labels p) KubernetesLabelSessionId = Some (kd_idText kd i)"
  shows "ei_sessionId env = i"
proof -
  have "labelOf (po_Labels p) KubernetesLabelSessionId = kd_idText kd i" using assms(3) by (simp add: labelOf_def)
  with assms(2) show ?thesis unfolding parsePod_def Let_def
    by (auto simp: bindR_Inr_iff assms(1)[unfolded cluster_ok_def] podProblem_def split: if_splits)
qed

lemma withEnviron_session [simp]: "ei_sessionId (withEnviron ev env) = ei_sessionId env"
  by (simp add: withEnviron_def split: option.splits)

lemma fresh_pod:
  assumes "cluster_ok kd"
  shows "fresh_ok (ss_id sess) (pod_labelled kd (ss_id sess)) (freshPod kd this sess opts createUsing)"
  unfolding fresh_ok_def
proof (intro allI impI)
  fix found s ref t
  assume l: "pod_labelled kd (ss_id sess) found" and ok: "active_ok s" and f: "freshPod kd this sess opts createUsing found s = (Inr ref, t)"
  from f obtain p u where q: "chosenPod kd this sess opts createUsing found s = (Inr p, u)"
    by (auto simp: freshPod_def bindE_Inr_iff)
  have u: "memory (es_instances s, es_active s, es_held s) u" by (rule memory_keeps[OF outsideD(2)[OF outside_chosen] q])
  obtain r v where n: "newKubernetes kd this p u = (r, v)" by (cases "newKubernetes kd this p u")
  then show "active_ok t \<and> es_active t (ss_id sess) = Some ref \<and> es_held t = es_held s"
  proof (cases rule: newKubernetes_cases)
    case (made env ev)
    have "active_ok (v\<lparr>es_active := (es_active v)(ss_id sess := Some (length (es_instances u)))\<rparr>)"
      by (rule remembered_active[OF active_ok_same[OF u ok] made(3)])
        (use parsed_pod_session[OF assms made(1) chosen_pod_label[OF assms l q]] in simp)
    with f q n made u show ?thesis by (auto simp: freshPod_def bindE_def activate_def memory_def)
  next
    case (failed err)
    with f q n show ?thesis
      by (auto simp: freshPod_def bindE_def removePodUnchecked_def throwE_def split: if_splits)
  qed
qed

text \<open>A failed attempt leaves the active environments and the locks in order, too, and always returns.\<close>

lemma memory_unchecked_pod: "memory x s \<Longrightarrow> memory x (snd (removePodUnchecked kd p s))"
  using preservesD[OF outsideD(2)[OF outside_unchecked]] by blast

lemma freshPod_failed:
  assumes q: "chosenPod kd this sess opts createUsing found s = (Inr p, u)" and n: "newKubernetes kd this p u = (Inl (SErr err), v)"
    and f: "freshPod kd this sess opts createUsing found s = (r, t)"
  shows "r \<noteq> Inl NeverReturns \<and> (t = v \<or> t = snd (removePodUnchecked kd p v))"
  using assms by (auto simp: freshPod_def bindE_def removePodUnchecked_def throwE_def split: if_splits)

lemma fresh_pod_keeps:
  assumes "cluster_ok kd"
  shows "fresh_keeps (ss_id sess) (pod_labelled kd (ss_id sess)) (freshPod kd this sess opts createUsing)"
  unfolding fresh_keeps_def
proof (intro allI impI)
  fix found s r t
  assume l: "pod_labelled kd (ss_id sess) found" and ok: "active_ok s" and held: "es_held s (ss_id sess) = Writing"
    and f: "freshPod kd this sess opts createUsing found s = (r, t)"
  obtain c u where q: "chosenPod kd this sess opts createUsing found s = (c, u)" by (cases "chosenPod kd this sess opts createUsing found s")
  have u: "memory (es_instances s, es_active s, es_held s) u" by (rule memory_keeps[OF outsideD(2)[OF outside_chosen] q])
  show "r \<noteq> Inl NeverReturns \<and> active_ok t \<and> es_held t = es_held s"
  proof (cases c)
    case (Inl e)
    with f q have "r = Inl e" "t = u" by (simp_all add: freshPod_def bindE_def)
    with returnsD[OF outsideD(1)[OF outside_chosen] q] Inl u active_ok_same[OF u ok] show ?thesis by (auto simp: memory_def)
  next
    case (Inr p)
    obtain n v where n: "newKubernetes kd this p u = (n, v)" by (cases "newKubernetes kd this p u")
    then show ?thesis
    proof (cases rule: newKubernetes_cases)
      case (made env ev)
      with f q Inr n have "freshPod kd this sess opts createUsing found s = (Inr (length (es_instances u)), t)" "r = Inr (length (es_instances u))"
        by (auto simp: freshPod_def bindE_def activate_def)
      with fresh_okD[OF fresh_pod[OF assms] l ok held] show ?thesis by simp
    next
      case (failed err)
      have "memory (es_instances u, es_active u, es_held u) t"
        using freshPod_failed[OF q[unfolded Inr] n[unfolded failed(1)] f] failed(2) memory_unchecked_pod by blast
      with u have t: "memory (es_instances s, es_active s, es_held s) t" by (simp add: memory_def)
      with freshPod_failed[OF q[unfolded Inr] n[unfolded failed(1)] f] active_ok_same[OF t ok] show ?thesis by (simp add: memory_def)
    qed
  qed
qed

subsection \<open>Attempts\<close>

definition kube_ready :: "('k, 'e) kube_deps \<Rightarrow> ('e kube_state \<Rightarrow> 'e kube_state) \<Rightarrow> 'e kube_state \<Rightarrow> bool" where
  "kube_ready kd others s \<longleftrightarrow> cluster_ok kd \<and> others_ok others \<and> active_ok s \<and> (\<forall>i. es_held s i = Free)"

definition kube_wanted :: "'k kubernetes_repository \<Rightarrow> 'k env_context \<Rightarrow> sid option" where
  "kube_wanted this req = (if kube_WillBeAccepted this req = Inr True then map_option ss_id (au_session (ec_authorization req)) else None)"

lemma pod_attempt:
  assumes ready: "kube_ready kd others s" and f: "kube_findOrEnsureBySession kd others this sess opts createUsing s = (r, t)"
  shows "r \<noteq> Inl NeverReturns \<and> kube_ready kd others t \<and> (\<forall>ref. r = Inr ref \<longrightarrow> es_active t (ss_id sess) = Some ref)"
proof -
  from ready have e: "cluster_ok kd" "others_ok others" "active_ok s" "es_held s (ss_id sess) = Free" by (auto simp: kube_ready_def)
  note search = outsideD(2)[OF outside_search] outsideD(1)[OF outside_search] searched_pod_label[OF e(1)]
  note shared = f[unfolded kube_findOrEnsureBySession_def]
  from sharedOr_keeps[OF e(2-4) search(1,2) _ fresh_pod_keeps[OF e(1)] shared] search(3) ready
  have "r \<noteq> Inl NeverReturns \<and> kube_ready kd others t" by (simp add: kube_ready_def)
  moreover have "es_active t (ss_id sess) = Some ref" if "r = Inr ref" for ref
  proof -
    from f that have "sharedOr others (ss_id sess) (searchPod kd this (ss_id sess) (createUsing \<noteq> None)) (freshPod kd this sess opts createUsing) s = (Inr ref, t)"
      by (simp add: kube_findOrEnsureBySession_def)
    from sharedOr_success[OF e(2-4) search(1,2) _ fresh_pod[OF e(1)] this] search(3) show ?thesis by blast
  qed
  ultimately show ?thesis by blast
qed

lemma pod_tries:
  assumes "kube_ready kd others s" and "ensureTries kd others this sess req n s = (r, t)"
  shows "r \<noteq> Inl NeverReturns \<and> kube_ready kd others t \<and> (\<forall>ref. r = Inr ref \<longrightarrow> es_active t (ss_id sess) = Some ref)"
  using assms
proof (induction n arbitrary: s)
  case 0
  then show ?case using pod_attempt by simp
next
  case (Suc n)
  obtain q u where q: "kube_findOrEnsureBySession kd others this sess None (Some req) s = (q, u)"
    by (cases "kube_findOrEnsureBySession kd others this sess None (Some req) s")
  from pod_attempt[OF Suc.prems(1) q] q Suc.prems(2) Suc.IH[of u] show ?case
    by (auto split: sum.splits shared_err.splits if_splits)
qed

lemma pod_active:
  assumes "kube_ready kd others s" and "es_active s (ss_id sess) = Some ref"
  shows "kube_findOrEnsureBySession kd others this sess opts createUsing s = (Inr ref, addOwner 1 ref s)"
  unfolding kube_findOrEnsureBySession_def by (rule sharedOr_active) (use assms in \<open>simp_all add: kube_ready_def\<close>)

lemma kube_Ensure_cases:
  assumes "kube_Ensure kd others this req s = (r, t)"
  obtains (refused) err where "r = Inl (SErr err)" "t = s"
  | (tried) sess where "kube_wanted this req = Some (ss_id sess)" "ensureTries kd others this sess req amountOfEnsureTries s = (r, t)"
proof (cases "kube_WillBeAccepted this req")
  case (Inl err)
  with assms show thesis by (intro refused) (auto simp: kube_Ensure_def liftS_def liftE_def bindE_def)
next
  case (Inr ok)
  show thesis
  proof (cases "ok \<and> au_session (ec_authorization req) \<noteq> None")
    case True
    then obtain sess where "au_session (ec_authorization req) = Some sess" by auto
    with True assms Inr show thesis by (intro tried[of sess]) (auto simp: kube_Ensure_def liftS_def bindE_def kube_wanted_def)
  next
    case False
    with assms Inr show thesis
      by (intro refused[of "if ok then EErrTyped TSystem ''authorization without session'' None else ErrNotAcceptable"])
        (auto simp: kube_Ensure_def liftS_def bindE_def throwE_def split: if_splits)
  qed
qed

interpretation pods: shared_environments "kube_ready kd others" es_active "\<lambda>s ref. ei_sessionId (es_instances s ! ref)"
    "kube_wanted this" "kube_Ensure kd others this" "\<lambda>f :: fs_session \<times> bool option option. ss_id (fst f)" "\<lambda>f. kube_FindBySession kd others this (fst f) (snd f)"
proof unfold_locales
  fix s i r assume "kube_ready kd others s" "es_active s i = Some r"
  then show "ei_sessionId (es_instances s ! r) = i" by (simp add: kube_ready_def active_ok_def)
next
  fix s req r t assume s: "kube_ready kd others s" and "kube_Ensure kd others this req s = (Inr r, t)"
  then show "kube_ready kd others t \<and> (\<exists>i. kube_wanted this req = Some i \<and> es_active t i = Some r)"
    by (elim kube_Ensure_cases) (use pod_tries[OF s] in blast)+
next
  fix s r t and f :: "fs_session \<times> bool option option" assume "kube_ready kd others s" "kube_FindBySession kd others this (fst f) (snd f) s = (Inr r, t)"
  then show "kube_ready kd others t \<and> es_active t (ss_id (fst f)) = Some r"
    unfolding kube_FindBySession_def using pod_attempt by blast
next
  fix s r and f :: "fs_session \<times> bool option option" assume "kube_ready kd others s" "es_active s (ss_id (fst f)) = Some r"
  then show "fst (kube_FindBySession kd others this (fst f) (snd f) s) = Inr r"
    by (simp add: kube_FindBySession_def pod_active)
qed

lemma pods_return:
  assumes "kube_ready kd others s"
  shows "fst (kube_Ensure kd others this req s) \<noteq> Inl NeverReturns" and "fst (kube_FindBySession kd others this sess opts s) \<noteq> Inl NeverReturns"
proof -
  obtain r t where f: "kube_Ensure kd others this req s = (r, t)" by (cases "kube_Ensure kd others this req s")
  then show "fst (kube_Ensure kd others this req s) \<noteq> Inl NeverReturns"
    by (cases rule: kube_Ensure_cases) (use pod_tries[OF assms] f in auto)
  show "fst (kube_FindBySession kd others this sess opts s) \<noteq> Inl NeverReturns"
    using pod_attempt[OF assms surjective_pairing] unfolding kube_FindBySession_def by blast
qed

end
