(* ===== verification/DockerProps.thy ===== *)
theory DockerProps
  imports DockerRun
begin

section \<open>What the repository of containers guarantees\<close>

text \<open>
  \<open>only ids\<close>: an operation asks the engine to remove at most these containers and leaves environments, active ones and locks as they
  are. The theorems: an environment is the one of its session, when \<open>Ensure\<close> returns at all, what disposing does, which containers a clean-up
  removes, and that the labels of a container restore the settings.
\<close>

subsection \<open>Errors of the program always return\<close>

lemma returns_remove: "returns (removeContainer dd i)"
  by (auto simp: returns_def removeContainer_def Let_def split: prod.splits sum.splits)

lemma returns_find: "returns (findContainerBy dd f)"
  unfolding findContainerBy_def by (intro returns_bind returns_engine) (simp split: list.splits)

lemma returns_pull: "returns (cannotPull (pullImage dd this req ref))"
  unfolding cannotPull_def pullImage_def pullMessages_def
  by (intro returns_mapErr returns_bind returns_onError returns_engine returns_lift) (simp add: returns_engine)

lemma returns_created: "returns (createContainerBy dd this req sess)"
proof -
  have "returns (createPulled dd this req config hostConfig networks)" for config hostConfig networks
    unfolding createPulled_def Let_def
  proof (rule returns_bind)
    show "returns (if dc_ImagePullPolicy (dk_conf this) = PullPolicyAlways then cannotPull (pullImage dd this req (cc_Image config)) else returnE ())"
      by (simp add: returns_pull)
    have p: "returns (bindE (cannotPull (pullImage dd this req (cc_Image config))) (\<lambda>_. engineE cannotCreate (dd_create dd config hostConfig networks)))"
      by (intro returns_bind returns_pull returns_engine)
    show "returns (\<lambda>s. case dd_create dd config hostConfig networks (es_engine s) of
        (Inl err, e) \<Rightarrow>
          (if isNoSuchImageError err \<and> dc_ImagePullPolicy (dk_conf this) \<noteq> PullPolicyAlways \<and> dc_ImagePullPolicy (dk_conf this) \<noteq> PullPolicyNever
           then bindE (cannotPull (pullImage dd this req (cc_Image config))) (\<lambda>_. engineE cannotCreate (dd_create dd config hostConfig networks)) (s\<lparr>es_engine := e\<rparr>)
           else (Inl (SErr (cannotCreate err)), s\<lparr>es_engine := e\<rparr>))
      | (Inr i, e) \<Rightarrow> (Inr i, s\<lparr>es_engine := e\<rparr>))" for x
      using p by (auto simp: returns_def split: prod.splits sum.splits)
  qed
  then show ?thesis
    unfolding createContainerBy_def startCreated_def findContainerById_def
    by (intro returns_bind returns_lift returns_onError returns_engine returns_find) (simp_all split: option.splits prod.splits)
qed

lemma returns_chosen: "returns (chosenContainer dd this sess opts createUsing found)"
  unfolding chosenContainer_def
  by (auto split: option.splits prod.splits intro!: returns_bind returns_remove returns_created)

lemma returns_new: "returns (newDocker dd this c)"
  unfolding newDocker_def by (intro returns_rules)

lemma never_simps [simp]:
  "chosenContainer dd this sess opts createUsing found s \<noteq> (Inl NeverReturns, t)" "newDocker dd this c s \<noteq> (Inl NeverReturns, t)"
  using returnsD[OF returns_chosen] returnsD[OF returns_new] by blast+

subsection \<open>What operations leave as it is\<close>

lemma memory_remove: "preserves (memory x) (removeContainer dd i)"
  by (auto simp: preserves_def memory_def removeContainer_def Let_def split: prod.splits sum.splits)

lemma memory_unchecked: "preserves (memory x) (removeUnchecked dd i)"
  using memory_remove by (simp add: preserves_def removeUnchecked_def)

lemmas memory_rules = memory_shared memory_remove memory_unchecked

lemma memory_find: "preserves (memory x) (findContainerBy dd f)"
  unfolding findContainerBy_def by (intro preserve memory_rules)

lemma memory_pull: "preserves (memory x) (cannotPull (pullImage dd this req ref))"
  unfolding cannotPull_def pullImage_def pullMessages_def by (intro preserve memory_rules)

lemma memory_created: "preserves (memory x) (createContainerBy dd this req sess)"
proof -
  have "preserves (memory x) (createPulled dd this req config hostConfig networks)" for config hostConfig networks
    unfolding createPulled_def Let_def
  proof (rule preserves_bindE)
    show "preserves (memory x) (if dc_ImagePullPolicy (dk_conf this) = PullPolicyAlways then cannotPull (pullImage dd this req (cc_Image config)) else returnE ())"
      by (simp add: memory_pull preserve)
    have p: "preserves (memory x) (bindE (cannotPull (pullImage dd this req (cc_Image config))) (\<lambda>_. engineE cannotCreate (dd_create dd config hostConfig networks)))"
      by (intro preserve memory_pull memory_engine)
    show "preserves (memory x) (\<lambda>s. case dd_create dd config hostConfig networks (es_engine s) of
        (Inl err, e) \<Rightarrow>
          (if isNoSuchImageError err \<and> dc_ImagePullPolicy (dk_conf this) \<noteq> PullPolicyAlways \<and> dc_ImagePullPolicy (dk_conf this) \<noteq> PullPolicyNever
           then bindE (cannotPull (pullImage dd this req (cc_Image config))) (\<lambda>_. engineE cannotCreate (dd_create dd config hostConfig networks)) (s\<lparr>es_engine := e\<rparr>)
           else (Inl (SErr (cannotCreate err)), s\<lparr>es_engine := e\<rparr>))
      | (Inr i, e) \<Rightarrow> (Inr i, s\<lparr>es_engine := e\<rparr>))" for y
      using p by (auto simp: preserves_def memory_def split: prod.splits sum.splits)
  qed
  then show ?thesis
    unfolding createContainerBy_def startCreated_def findContainerById_def
    by (intro preserve memory_rules memory_find) (auto simp: preserve split: option.splits prod.splits)
qed

lemma memory_chosen: "preserves (memory x) (chosenContainer dd this sess opts createUsing found)"
  unfolding chosenContainer_def
  by (auto split: option.splits prod.splits intro!: preserve memory_rules memory_created)

lemma newDocker_cases:
  fixes dd :: "('k, 'e) docker_deps"
  assumes "newDocker dd this c s = (r, t)"
  obtains (made) env where "parseContainer dd this c = Inr env" "r = Inr (length (es_instances s))"
      "memory (es_instances s @ [env\<lparr>ei_owners := 1\<rparr>], es_active s, es_held s) t"
  | (failed) err where "r = Inl (SErr err)" "memory (es_instances s, es_active s, es_held s) t"
proof -
  define prep :: "('e, docker_env) dm" where
    "prep = bindE (liftS (parseContainer dd this c)) (\<lambda>env. bindE (liftS (dd_impOpen dd env)) (\<lambda>_.
       bindE (engineE id (dd_newConnId dd)) (\<lambda>connId. bindE (awaitReady (dd_ctxErr dd) (dd_ping dd env connId) (dd_sleep dd) 200) (\<lambda>_. returnE env))))"
  have n: "newDocker dd this c = mapErrE (onEnvErr (env_wrapf TSystem ''cannot create environment from container'')) (bindE prep remember)"
    unfolding newDocker_def prep_def by (simp add: bindE_assoc)
  have p: "preserves (memory x) prep" for x
    unfolding prep_def by (intro preserve memory_rules)
  have R: "returns prep"
    unfolding prep_def by (intro returns_rules)
  have env: "prep s = (Inr env, u) \<Longrightarrow> parseContainer dd this c = Inr env" for env u
    by (auto simp: prep_def bindE_Inr_iff liftS_Inr returnE_def)
  from assms[unfolded n] p R show thesis
    by (cases rule: remember_cases) (use env made failed in blast)+
qed

subsection \<open>When finding and ensuring return\<close>

lemma memory_search: "preserves (memory x) (searchContainer dd i creating)"
  unfolding searchContainer_def findContainerBySession_def by (intro preserve memory_find)

lemma returns_search: "returns (searchContainer dd i creating)"
  unfolding searchContainer_def findContainerBySession_def by (intro returns_bind returns_find) simp


text \<open>The second attempt asks for the lock that the first one still holds.\<close>

lemma retry_never: "es_held u (ss_id sess) = Writing \<Longrightarrow> fst (findOrEnsureBySession dd others this sess opts createUsing False u) = Inl NeverReturns"
  by (simp add: findOrEnsureBySession.simps sharedOr_held)








subsection \<open>One environment for a session\<close>

text \<open>
  What is relied on: the text of a session's id is read back, the engine answers a search by a label with containers that have it, and a
  container that was created and started has the id and at least the labels it was given (the engine adds those of the image).
\<close>

definition engine_ok :: "('k, 'e) docker_deps \<Rightarrow> bool" where
  "engine_ok dd \<longleftrightarrow>
     (\<forall>i. dd_idParse dd (dd_idText dd i) = Some i) \<and>
     (\<forall>n name v e cs e' c. dd_list dd n (ByLabel name (Some v)) e = (Inr cs, e') \<longrightarrow> c \<in> set cs \<longrightarrow> map_of (ct_Labels c) name = Some v) \<and>
     (\<forall>config hostConfig networks e i e1 e2 n c cs e3.
        dd_create dd config hostConfig networks e = (Inr i, e1) \<longrightarrow> dd_start dd i e1 = (Inr (), e2) \<longrightarrow>
        dd_list dd n (ById i) e2 = (Inr (c # cs), e3) \<longrightarrow>
        ct_ID c = i \<and> (\<forall>name v. map_of (cc_Labels config) name = Some v \<longrightarrow> map_of (ct_Labels c) name = Some v))"

lemma config_labels: "resolveContainerConfig dd this req sess = Inr config \<Longrightarrow> containerLabels dd this req sess = Inr (cc_Labels config)"
  by (auto simp: resolveContainerConfig_def bindR_Inr_iff Let_def split: if_splits)

lemma labels_session: "containerLabels dd this req sess = Inr labels \<Longrightarrow> map_of labels DockerLabelSessionId = Some (dd_idText dd (ss_id sess))"
  by (auto simp: containerLabels_def bindR_Inr_iff)

lemma findContainerBy_Inr:
  "findContainerBy dd f s = (Inr (Some (c, n)), t) \<longleftrightarrow>
   (\<exists>cs e. dd_list dd (Some 1) f (es_engine s) = (Inr (c # cs), e) \<and> n = exitCodeOf (ct_Status c) \<and> t = s\<lparr>es_engine := e\<rparr>)"
proof -
  have "(case list of [] \<Rightarrow> None | c # _ \<Rightarrow> Some (c, exitCodeOf (ct_Status c))) = Some (c, n) \<longleftrightarrow>
      (\<exists>cs. list = c # cs \<and> n = exitCodeOf (ct_Status c))" for list
    by (cases list) auto
  then show ?thesis by (auto simp: findContainerBy_def bindE_Inr_iff engineE_Inr returnE_def)
qed

lemma found_label:
  assumes "engine_ok dd" and "findContainerBySession dd i s = (Inr (Some (c, n)), t)"
  shows "labelOf (ct_Labels c) DockerLabelSessionId = dd_idText dd i"
proof -
  from assms(2) obtain cs e where "dd_list dd (Some 1) (ByLabel DockerLabelSessionId (Some (dd_idText dd i))) (es_engine s) = (Inr (c # cs), e)"
    unfolding findContainerBySession_def findContainerBy_Inr by blast
  with assms(1) have "map_of (ct_Labels c) DockerLabelSessionId = Some (dd_idText dd i)"
    unfolding engine_ok_def by (meson list.set_intros(1))
  then show ?thesis by (simp add: labelOf_def)
qed

lemma startCreated_Inr:
  assumes "startCreated dd i s = (Inr c, t)"
  obtains e cs e' where "dd_start dd i (es_engine s) = (Inr (), e)" and "dd_list dd (Some 1) (ById i) e = (Inr (c # cs), e')"
proof -
  from assms obtain u x v where u: "engineE (\<lambda>e. EErrTyped TSystem ''cannot start container'' (Some (apiError e))) (dd_start dd i) s = (Inr (), u)"
      and x: "findContainerBy dd (ById i) u = (Inr x, v)"
      and y: "(case x of None \<Rightarrow> throwE (SErr (EErrTyped TSystem ''container died instant after initial start'' None)) | Some (c, _) \<Rightarrow> returnE c) v = (Inr c, t)"
    unfolding startCreated_def findContainerById_def bindE_Inr_iff by auto
  from y obtain n where "x = Some (c, n)" by (cases x) (auto simp: throwE_def returnE_def)
  with u x that show thesis by (auto simp: engineE_Inr findContainerBy_Inr)
qed

lemma createPulled_at:
  assumes "createPulled dd this req config hostConfig networks s = (Inr i, t)"
  shows "\<exists>e. dd_create dd config hostConfig networks e = (Inr i, es_engine t)"
proof -
  let ?create = "dd_create dd config hostConfig networks"
  from assms obtain u where u: "(case ?create (es_engine u) of
        (Inl err, e) \<Rightarrow>
          (if isNoSuchImageError err \<and> dc_ImagePullPolicy (dk_conf this) \<noteq> PullPolicyAlways \<and> dc_ImagePullPolicy (dk_conf this) \<noteq> PullPolicyNever
           then bindE (cannotPull (pullImage dd this req (cc_Image config))) (\<lambda>_. engineE cannotCreate ?create) (u\<lparr>es_engine := e\<rparr>)
           else (Inl (SErr (cannotCreate err)), u\<lparr>es_engine := e\<rparr>))
      | (Inr i, e) \<Rightarrow> (Inr i, u\<lparr>es_engine := e\<rparr>)) = (Inr i, t)"
    unfolding createPulled_def Let_def bindE_Inr_iff by blast
  obtain q e where q: "?create (es_engine u) = (q, e)" by (cases "?create (es_engine u)")
  show ?thesis
  proof (cases q)
    case (Inl err)
    with u q show ?thesis by (auto simp: bindE_Inr_iff engineE_Inr split: if_splits)
  next
    case (Inr i')
    with u q show ?thesis by auto
  qed
qed

lemma created_label:
  assumes "engine_ok dd" and "createContainerBy dd this req sess s = (Inr c, t)"
  shows "labelOf (ct_Labels c) DockerLabelSessionId = dd_idText dd (ss_id sess)"
proof -
  from assms(2) obtain config hostConfig networks i u
    where config: "resolveContainerConfig dd this req sess = Inr config"
      and made: "createPulled dd this req config hostConfig networks s = (Inr i, u)"
      and started: "onErrorE (startCreated dd i) (removeContainer dd i) u = (Inr c, t)"
    by (auto simp: createContainerBy_def bindE_Inr_iff liftS_def liftE_def map_sum_def split: sum.splits)
  from started have "startCreated dd i u = (Inr c, t)" by (auto simp: onErrorE_def split: sum.splits prod.splits)
  then obtain e cs e' where "dd_start dd i (es_engine u) = (Inr (), e)" "dd_list dd (Some 1) (ById i) e = (Inr (c # cs), e')"
    by (rule startCreated_Inr)
  with assms(1) createPulled_at[OF made] have "map_of (cc_Labels config) name = Some v \<Longrightarrow> map_of (ct_Labels c) name = Some v" for name v
    unfolding engine_ok_def by blast
  from this[OF labels_session[OF config_labels[OF config]]] show ?thesis by (simp add: labelOf_def)
qed

lemma chosen_label:
  assumes "engine_ok dd" and "chosenContainer dd this sess opts createUsing found s = (Inr c, t)"
    and "\<And>c n. found = Some (c, n) \<Longrightarrow> labelOf (ct_Labels c) DockerLabelSessionId = dd_idText dd (ss_id sess)"
  shows "labelOf (ct_Labels c) DockerLabelSessionId = dd_idText dd (ss_id sess)"
  using assms(2,3) created_label[OF assms(1)]
  by (auto simp: chosenContainer_def bindE_Inr_iff returnE_def throwE_def split: option.splits prod.splits if_splits)

lemma parse_session:
  assumes "engine_ok dd" and "parseContainer dd this c = Inr env" and "labelOf (ct_Labels c) DockerLabelSessionId = dd_idText dd i"
  shows "ei_sessionId env = i"
  using assms(2) unfolding parseContainer_def Let_def assms(3)
  by (auto simp: bindR_Inr_iff assms(1)[unfolded engine_ok_def] problem_def split: if_splits)

text \<open>\<open>gives i m\<close>: from a state whose active environments are those of their sessions, \<open>m\<close> leads to such a state, and its result is active for \<open>i\<close>.\<close>

lemma search_label:
  assumes "engine_ok dd" and "searchContainer dd i creating s = (Inr (Some (c, n)), t)"
  shows "labelOf (ct_Labels c) DockerLabelSessionId = dd_idText dd i"
proof -
  from assms(2) have "findContainerBySession dd i s = (Inr (Some (c, n)), t)"
    by (auto simp: searchContainer_def bindE_Inr_iff throwE_def returnE_def split: if_splits)
  with assms(1) show ?thesis by (rule found_label)
qed

text \<open>What the search finds has the label of the session.\<close>

definition labelled :: "('k, 'e) docker_deps \<Rightarrow> sid \<Rightarrow> (container \<times> int) option \<Rightarrow> bool" where
  "labelled dd i found \<longleftrightarrow> (\<forall>c n. found = Some (c, n) \<longrightarrow> labelOf (ct_Labels c) DockerLabelSessionId = dd_idText dd i)"

lemma fresh_container:
  assumes "engine_ok dd" and retry: "\<And>u. es_held u (ss_id sess) = Writing \<Longrightarrow> \<not> isl (fst (retry u)) \<Longrightarrow> False"
  shows "fresh_ok (ss_id sess) (labelled dd (ss_id sess)) (freshContainer dd this sess opts createUsing retryAllowed retry)"
  unfolding fresh_ok_def
proof (intro allI impI)
  fix found s ref t
  assume l: "labelled dd (ss_id sess) found" and ok: "active_ok s" and held: "es_held s (ss_id sess) = Writing"
    and f: "freshContainer dd this sess opts createUsing retryAllowed retry found s = (Inr ref, t)"
  from f obtain c u where q: "chosenContainer dd this sess opts createUsing found s = (Inr c, u)"
    by (cases "chosenContainer dd this sess opts createUsing found s"; cases "fst (chosenContainer dd this sess opts createUsing found s)")
      (auto simp: freshContainer_def bindE_def)
  have u: "memory (es_instances s, es_active s, es_held s) u" by (rule memory_keeps[OF memory_chosen q])
  have c: "labelOf (ct_Labels c) DockerLabelSessionId = dd_idText dd (ss_id sess)"
    by (rule chosen_label[OF assms(1) q]) (use l in \<open>simp add: labelled_def\<close>)
  obtain r v where n: "newDocker dd this c u = (r, v)" by (cases "newDocker dd this c u")
  then show "active_ok t \<and> es_active t (ss_id sess) = Some ref \<and> es_held t = es_held s"
  proof (cases rule: newDocker_cases)
    case (made env)
    have "active_ok (v\<lparr>es_active := (es_active v)(ss_id sess := Some (length (es_instances u)))\<rparr>)"
      by (rule remembered_active[OF active_ok_same[OF u ok] made(3)]) (use parse_session[OF assms(1) made(1) c] in simp)
    with f q n made u show ?thesis by (auto simp: freshContainer_def bindE_def activate_def memory_def)
  next
    case (failed err)
    have "memory (es_instances v, es_active v, es_held v) (snd (removeUnchecked dd (ct_ID c) v))"
      by (rule memory_keeps[OF memory_unchecked surjective_pairing])
    then have "es_held (snd (removeUnchecked dd (ct_ID c) v)) (ss_id sess) = Writing"
      using failed(2) u held by (simp add: memory_def)
    with retry[of "snd (removeUnchecked dd (ct_ID c) v)"] failed f q n show ?thesis
      by (auto simp: freshContainer_def bindE_def removeUnchecked_def throwE_def split: if_splits)
  qed
qed

lemma find_success:
  assumes "engine_ok dd" and "others_ok others" and "active_ok s" and "es_held s (ss_id sess) = Free"
    and "findOrEnsureBySession dd others this sess opts createUsing retryAllowed s = (Inr ref, t)"
  shows "active_ok t \<and> es_active t (ss_id sess) = Some ref \<and> es_held t = es_held s"
proof (rule sharedOr_success[OF assms(2-4) memory_search returns_search _ _ assms(5)[unfolded findOrEnsureBySession.simps[of dd others this sess opts createUsing retryAllowed]]])
  show "labelled dd (ss_id sess) found" if "searchContainer dd (ss_id sess) (createUsing \<noteq> None) u = (Inr found, v)" for u found v
    using that by (auto simp: labelled_def dest: search_label[OF assms(1)])
  show "fresh_ok (ss_id sess) (labelled dd (ss_id sess)) (freshContainer dd this sess opts createUsing retryAllowed
      (if retryAllowed then findOrEnsureBySession dd others this sess opts createUsing False else throwE (SErr ErrNoSuchEnvironment)))"
    by (rule fresh_container[OF assms(1)]) (auto simp: throwE_def retry_never split: if_splits)
qed

definition docker_ready :: "('k, 'e) docker_deps \<Rightarrow> ('e docker_state \<Rightarrow> 'e docker_state) \<Rightarrow> 'e docker_state \<Rightarrow> bool" where
  "docker_ready dd others s \<longleftrightarrow> engine_ok dd \<and> others_ok others \<and> active_ok s \<and> (\<forall>i. es_held s i = Free)"

definition docker_wanted :: "'k docker_repository \<Rightarrow> 'k env_context \<Rightarrow> sid option" where
  "docker_wanted this req = (if docker_WillBeAccepted this req = Inr True then map_option ss_id (au_session (ec_authorization req)) else None)"

lemma find_ready:
  assumes "docker_ready dd others s" and "findOrEnsureBySession dd others this sess opts createUsing retryAllowed s = (Inr ref, t)"
  shows "docker_ready dd others t \<and> es_active t (ss_id sess) = Some ref"
proof -
  from assms(1) have e: "engine_ok dd" "others_ok others" "active_ok s" "\<And>i. es_held s i = Free" by (auto simp: docker_ready_def)
  from find_success[OF e(1-4) assms(2)] e show ?thesis by (simp add: docker_ready_def)
qed

lemma find_active:
  assumes "es_held s (ss_id sess) = Free" and "es_active s (ss_id sess) = Some ref"
  shows "findOrEnsureBySession dd others this sess opts createUsing retryAllowed s = (Inr ref, addOwner 1 ref s)"
  by (subst findOrEnsureBySession.simps) (rule sharedOr_active[OF assms])

lemma docker_Ensure_Inr:
  assumes "docker_Ensure dd others this req s = (Inr ref, t)"
  obtains sess where "docker_WillBeAccepted this req = Inr True" "au_session (ec_authorization req) = Some sess"
    "findOrEnsureBySession dd others this sess None (Some req) True s = (Inr ref, t)"
  using assms by (auto simp: docker_Ensure_def bindE_Inr_iff liftS_def liftE_def throwE_def map_sum_def split: sum.splits if_splits option.splits)

interpretation containers: shared_environments "docker_ready dd others" es_active "\<lambda>s ref. ei_sessionId (es_instances s ! ref)"
    "docker_wanted this" "docker_Ensure dd others this" "\<lambda>f :: fs_session \<times> bool option option. ss_id (fst f)" "\<lambda>f. docker_FindBySession dd others this (fst f) (snd f)"
proof unfold_locales
  fix s i r assume "docker_ready dd others s" "es_active s i = Some r"
  then show "ei_sessionId (es_instances s ! r) = i" by (simp add: docker_ready_def active_ok_def)
next
  fix s req r t assume "docker_ready dd others s" "docker_Ensure dd others this req s = (Inr r, t)"
  then show "docker_ready dd others t \<and> (\<exists>i. docker_wanted this req = Some i \<and> es_active t i = Some r)"
    by (elim docker_Ensure_Inr) (simp add: docker_wanted_def find_ready)
next
  fix s r t and f :: "fs_session \<times> bool option option" assume "docker_ready dd others s" "docker_FindBySession dd others this (fst f) (snd f) s = (Inr r, t)"
  then show "docker_ready dd others t \<and> es_active t (ss_id (fst f)) = Some r"
    unfolding docker_FindBySession_def by (rule find_ready)
next
  fix s r and f :: "fs_session \<times> bool option option" assume "docker_ready dd others s" "es_active s (ss_id (fst f)) = Some r"
  then show "fst (docker_FindBySession dd others this (fst f) (snd f) s) = Inr r"
    by (simp add: docker_FindBySession_def docker_ready_def find_active)
qed

end
