(* ===== verification/DockerEffects.thy ===== *)
theory DockerEffects
  imports DockerProps
begin

section \<open>Sharing, disposing, cleaning and restoring containers\<close>

text \<open>
  The theorems about the repository of containers that rest on the contract \<open>shared_environments\<close>: environments of sessions, what happens to an
  environment that is disposed while others use it, the clean-up of orphans, the labels of a container, and the progress of a pull.
\<close>

text \<open>
  C29: From a state in which the active environments are those of their sessions and no lock is held for good, with an engine that answers
  as it documents (\<open>docker_ready\<close>): the environment a request is given is the one of its session, and the request was accepted; a later
  search for the session finds the same one, and the state is such a state again.
\<close>

theorem container_of_session:
  assumes "docker_ready dd others s" and "docker_Ensure dd others this req s = (Inr ref, t)"
  shows "docker_ready dd others t \<and> docker_wanted this req = Some (ei_sessionId (es_instances t ! ref)) \<and>
    (ss_id sess = ei_sessionId (es_instances t ! ref) \<longrightarrow> fst (docker_FindBySession dd others this sess opts t) = Inr ref)"
  using containers.ensured[OF assms] containers.ensured_session[OF assms]
    containers.ensured_then_found[OF assms, of "(sess, opts)"] by simp

subsection \<open>Disposing\<close>

lemma docker_Dispose_Inr:
  assumes "docker_Dispose dd ref s = (Inr b, t)" and i: "ei_sessionId (es_instances s ! ref) = i" and free: "es_held s i = Free"
    and "ref < length (es_instances s)"
  shows "\<exists>e. t = (addOwner (-1) ref s)\<lparr>es_engine := e, es_removed := es_removed s @ [do_containerId (es_instances s ! ref)],
      es_active := (if sint (ei_owners (es_instances s ! ref) - 1) > 0 then es_active s else (es_active s)(i := None))\<rparr>"
proof -
  let ?s = "s\<lparr>es_held := (es_held s)(i := Writing)\<rparr>"
  obtain r e where r: "dd_remove dd (do_containerId (es_instances s ! ref)) (es_engine s) = (r, e)"
    by (cases "dd_remove dd (do_containerId (es_instances s ! ref)) (es_engine s)")
  have h: "(es_held s)(i := Free) = es_held s" using free by (simp add: fun_upd_idem)
  from assms(1) have "withLock Writing i (deferE (mapErrE (onEnvErr (env_wrapf TSystem ''cannot dispose environment''))
      (removeContainer dd (do_containerId (es_instances s ! ref)))) (closeGuarded ref)) s = (Inr b, t)"
    by (simp add: docker_Dispose_def i)
  then have "t = (addOwner (-1) ref s)\<lparr>es_engine := e, es_removed := es_removed s @ [do_containerId (es_instances s ! ref)],
      es_active := (if sint (ei_owners (es_instances s ! ref) - 1) > 0 then es_active s else (es_active s)(i := None))\<rparr>"
    using r free h assms(4) i
    by (auto simp: withLock_free deferE_def mapErrE_def removeContainer_def closeGuarded_def addOwner_def unlockS_def Let_def
        split: sum.splits if_splits)
  then show ?thesis by blast
qed

text \<open>
  C30: Disposing the active environment of a session removes its container. When its counter of owners, a number of 32 bits, is not
  positive after that, the session has no environment any more; with more owners the disposed environment stays active, and the next
  search hands out the environment whose container is gone.
\<close>

theorem disposed_while_shared:
  assumes "es_active s (ss_id sess) = Some ref" and "ref < length (es_instances s)" and "ei_sessionId (es_instances s ! ref) = ss_id sess"
    and "es_held s (ss_id sess) = Free" and "docker_Dispose dd ref s = (Inr b, t)"
  shows "es_removed t = es_removed s @ [do_containerId (es_instances s ! ref)] \<and>
    (if sint (ei_owners (es_instances s ! ref) - 1) > 0 then docker_FindBySession dd others this sess opts t = (Inr ref, addOwner 1 ref t)
     else es_active t (ss_id sess) = None)"
proof -
  from docker_Dispose_Inr[OF assms(5,3,4,2)] obtain e where t: "t = (addOwner (-1) ref s)\<lparr>es_engine := e,
      es_removed := es_removed s @ [do_containerId (es_instances s ! ref)],
      es_active := (if sint (ei_owners (es_instances s ! ref) - 1) > 0 then es_active s else (es_active s)(ss_id sess := None))\<rparr>" by blast
  show ?thesis
  proof (cases "sint (ei_owners (es_instances s ! ref) - 1) > 0")
    case True
    have "docker_FindBySession dd others this sess opts t = (Inr ref, addOwner 1 ref t)"
      unfolding docker_FindBySession_def by (rule find_active) (use t True assms in simp_all)
    with t True show ?thesis by simp
  qed (use t in simp)
qed

subsection \<open>Orphans\<close>

definition orphan :: "'k docker_repository \<Rightarrow> (bytes \<Rightarrow> env_err + bool) \<Rightarrow> container \<Rightarrow> bool" where
  "orphan this hasFlow c \<longleftrightarrow>
     (\<exists>flow. FlowName_UnmarshalText (labelOf (ct_Labels c) DockerLabelFlow) = Some flow \<and> flow \<noteq> [] \<and> flow \<noteq> dk_flow this \<and>
        hasFlow flow = Inr False) \<and> dc_CleanOrphan (dk_conf this) c = Inr True"

lemma removeUnchecked_removed: "removeUnchecked dd i s = (r, t) \<Longrightarrow> r = Inr () \<and> es_removed t = es_removed s @ [i]"
  by (auto simp: removeUnchecked_def removeContainer_def Let_def split: prod.splits sum.splits)

lemma cleanupEach_removed:
  "cleanupEach dd this hasFlow cs s = (r, t) \<Longrightarrow>
   (\<exists>ids. es_removed t = es_removed s @ ids \<and> set ids \<subseteq> ct_ID ` {c \<in> set cs. orphan this hasFlow c} \<and>
     (\<forall>x. r = Inr x \<longrightarrow> ids = map ct_ID (filter (orphan this hasFlow) cs)))"
proof (induction cs arbitrary: s)
  case (Cons c cs)
  let ?flow = "FlowName_UnmarshalText (labelOf (ct_Labels c) DockerLabelFlow)"
  show ?case
  proof (cases "orphan this hasFlow c")
    case True
    then obtain flow where flow: "?flow = Some flow" "flow \<noteq> []" "flow \<noteq> dk_flow this" "hasFlow flow = Inr False" "dc_CleanOrphan (dk_conf this) c = Inr True"
      by (auto simp: orphan_def)
    obtain q u where q: "removeUnchecked dd (ct_ID c) s = (q, u)" by (cases "removeUnchecked dd (ct_ID c) s")
    note rm = removeUnchecked_removed[OF q]
    from Cons.prems flow q rm have "cleanupEach dd this hasFlow cs u = (r, t)" by (simp add: liftS_def bindE_def)
    from Cons.IH[OF this] True rm show ?thesis by (elim exE conjE, intro exI[of _ "ct_ID c # _"]) (auto simp: image_iff)
  next
    case False
    then have "cleanupEach dd this hasFlow (c # cs) s = cleanupEach dd this hasFlow cs s \<or> (\<exists>e. cleanupEach dd this hasFlow (c # cs) s = (Inl e, s))"
      by (auto simp: orphan_def liftS_def bindE_def liftE_def map_sum_def split: option.splits sum.splits)
    then show ?thesis
    proof
      assume "cleanupEach dd this hasFlow (c # cs) s = cleanupEach dd this hasFlow cs s"
      with Cons.prems Cons.IH[of s] False show ?thesis by auto
    qed (use Cons.prems in auto)
  qed
qed (simp add: returnE_def)

text \<open>
  C31: A clean-up asks the engine to remove only containers that it listed with the label of a flow, whose flow is neither the one of this
  repository nor any other that is configured, and for which \<open>cleanOrphan\<close> is true; when it succeeds it asked for all of these. (Without
  the predicate of the flows no other flow exists.)
\<close>

theorem cleanup_removes_orphans_only:
  assumes "docker_Cleanup dd this flows s = (r, t)" and "dd_list dd None (ByLabel DockerLabelFlow None) (es_engine s) = (Inr cs, e)"
  shows "\<exists>ids. es_removed t = es_removed s @ ids \<and>
     set ids \<subseteq> ct_ID ` {c \<in> set cs. orphan this (case flows of Some p \<Rightarrow> p | None \<Rightarrow> (\<lambda>_. Inr False)) c} \<and>
     (\<forall>x. r = Inr x \<longrightarrow> ids = map ct_ID (filter (orphan this (case flows of Some p \<Rightarrow> p | None \<Rightarrow> (\<lambda>_. Inr False))) cs))"
proof -
  let ?p = "case flows of Some p \<Rightarrow> p | None \<Rightarrow> (\<lambda>_. Inr False)"
  obtain q u where q: "cleanupEach dd this ?p cs (s\<lparr>es_engine := e\<rparr>) = (q, u)" by (cases "cleanupEach dd this ?p cs (s\<lparr>es_engine := e\<rparr>)")
  have "engineE apiError (dd_list dd None (ByLabel DockerLabelFlow None)) s = (Inr cs, s\<lparr>es_engine := e\<rparr>)"
    using assms(2) by (simp add: engineE_def)
  with assms(1) q have "t = u" and "\<And>x. r = Inr x \<Longrightarrow> q = Inr x"
    by (auto simp: docker_Cleanup_def mapErrE_def bindE_def map_sum_def split: sum.splits)
  with cleanupEach_removed[OF q] show ?thesis by auto
qed

subsection \<open>Labels\<close>

text \<open>JSON texts of lists of commands are read back, and are not empty.\<close>

definition docker_json_ok :: "('k, 'e) docker_deps \<Rightarrow> bool" where
  "docker_json_ok dd \<longleftrightarrow>
     (\<forall>i. dd_idParse dd (dd_idText dd i) = Some i \<and> dd_idText dd i \<noteq> []) \<and>
     (\<forall>xs. dd_jsonEncode dd xs \<noteq> [] \<and> (list_all utf8_ValidString xs \<longrightarrow> dd_jsonDecode dd (dd_jsonEncode dd xs) = Some xs))"

text \<open>The command that is encoded: what is configured, else the default of the operating system.\<close>

definition effective :: "bytes list \<Rightarrow> bytes list \<Rightarrow> bytes list" where
  "effective fallback v = (if v = [] then fallback else v)"

text \<open>
  The labels of a container whose image has none of its own restore what the settings said when it was created: session, remote, user, directory, the permission to
  forward, and the configured commands, or those of Linux where none is configured.
\<close>

theorem container_settings_restored:
  assumes "docker_json_ok dd" and "dk_flow this \<noteq> []" and "snd (ec_remote req) \<noteq> []" and "dk_hostOs this = OsLinux"
    and "resolveContainerConfig dd this req sess = Inr config" and "ct_Labels c = cc_Labels config"
    and "resolveImpBinding dd this c = Inr binding"
    and "Strings_Render (dc_ShellCommand (dk_conf this)) req = Inr shell" "list_all utf8_ValidString shell"
    and "Strings_Render (dc_ExecCommand (dk_conf this)) req = Inr exec" "list_all utf8_ValidString exec"
    and "Strings_Render (dc_SftpCommand (dk_conf this)) req = Inr sftp" "list_all utf8_ValidString sftp"
  shows "\<exists>env user directory pf. parseContainer dd this c = Inr env \<and>
    String_Render (dc_User (dk_conf this)) req = Inr user \<and> String_Render (dc_Directory (dk_conf this)) req = Inr directory \<and>
    dc_PortForwardingAllowed (dk_conf this) req = Inr pf \<and>
    env = \<lparr>ei_sessionId = ss_id sess, ei_owners = 0, do_containerId = ct_ID c, do_remoteUser = fst (ec_remote req),
      do_remoteHost = Host_UnmarshalText (dd_net dd) (snd (ec_remote req)), do_shellCommand = effective [''/bin/sh''] shell,
      do_execCommand = effective [''/bin/sh'', ''-c''] exec, do_sftpCommand = effective [''/usr/bin/bifroest'', ''sftp-server''] sftp,
      do_user = user, do_directory = directory, do_portForwardingAllowed = pf, do_impBinding = binding\<rparr>"
proof -
  have j: "dd_jsonDecode dd (dd_jsonEncode dd xs) = Some xs" if "list_all utf8_ValidString xs" for xs
    using assms(1) that by (simp add: docker_json_ok_def)
  have i: "dd_idParse dd (dd_idText dd k) = Some k" "dd_idText dd k \<noteq> []" "dd_jsonEncode dd xs \<noteq> []" for k xs
    using assms(1) by (simp_all add: docker_json_ok_def)
  have v: "list_all utf8_ValidString [''/bin/sh'']" "list_all utf8_ValidString [''/bin/sh'', ''-c'']"
    "list_all utf8_ValidString [''/usr/bin/bifroest'', ''sftp-server'']"
    by code_simp+
  have commands: "resolveEncodedShellCommand dd this req = Inr (dd_jsonEncode dd (effective [''/bin/sh''] shell))"
    "resolveEncodedExecCommand dd this req = Inr (dd_jsonEncode dd (effective [''/bin/sh'', ''-c''] exec))"
    "resolveEncodedSftpCommand dd this req = Inr (dd_jsonEncode dd (effective [''/usr/bin/bifroest'', ''sftp-server''] sftp))"
    using assms(4,8,10,12)
    by (simp_all add: resolveEncodedShellCommand_def resolveEncodedExecCommand_def resolveEncodedSftpCommand_def configE_def effective_def
        BifroestBinaryFileLocation_def)
  from config_labels[OF assms(5)] obtain user directory pf
    where r: "String_Render (dc_User (dk_conf this)) req = Inr user" "String_Render (dc_Directory (dk_conf this)) req = Inr directory"
        "dc_PortForwardingAllowed (dk_conf this) req = Inr pf"
      and l: "cc_Labels config =
       [(DockerLabelFlow, dk_flow this), (DockerLabelSessionId, dd_idText dd (ss_id sess)),
        (DockerLabelCreatedRemoteUser, fst (ec_remote req)), (DockerLabelCreatedRemoteHost, snd (ec_remote req)),
        (DockerLabelShellCommand, dd_jsonEncode dd (effective [''/bin/sh''] shell)),
        (DockerLabelExecCommand, dd_jsonEncode dd (effective [''/bin/sh'', ''-c''] exec)),
        (DockerLabelSftpCommand, dd_jsonEncode dd (effective [''/usr/bin/bifroest'', ''sftp-server''] sftp)),
        (DockerLabelUser, user), (DockerLabelDirectory, directory)] @ (if pf then [(DockerLabelPortForwardingAllowed, ''true'')] else [])"
    unfolding containerLabels_def commands by (auto simp: bindR_Inr_iff configE_def)
  have look: "labelOf (ct_Labels c) DockerLabelFlow = dk_flow this" "labelOf (ct_Labels c) DockerLabelSessionId = dd_idText dd (ss_id sess)"
    "labelOf (ct_Labels c) DockerLabelCreatedRemoteUser = fst (ec_remote req)" "labelOf (ct_Labels c) DockerLabelCreatedRemoteHost = snd (ec_remote req)"
    "labelOf (ct_Labels c) DockerLabelShellCommand = dd_jsonEncode dd (effective [''/bin/sh''] shell)"
    "labelOf (ct_Labels c) DockerLabelExecCommand = dd_jsonEncode dd (effective [''/bin/sh'', ''-c''] exec)"
    "labelOf (ct_Labels c) DockerLabelSftpCommand = dd_jsonEncode dd (effective [''/usr/bin/bifroest'', ''sftp-server''] sftp)"
    "labelOf (ct_Labels c) DockerLabelUser = user" "labelOf (ct_Labels c) DockerLabelDirectory = directory"
    "(labelOf (ct_Labels c) DockerLabelPortForwardingAllowed = ''true'') = pf"
    unfolding assms(6) l by (simp_all add: labelOf_def)
  have d: "decodedLabel dd (ct_Labels c) DockerLabelShellCommand = Inr (effective [''/bin/sh''] shell)"
    "decodedLabel dd (ct_Labels c) DockerLabelExecCommand = Inr (effective [''/bin/sh'', ''-c''] exec)"
    "decodedLabel dd (ct_Labels c) DockerLabelSftpCommand = Inr (effective [''/usr/bin/bifroest'', ''sftp-server''] sftp)"
    using assms(9,11,13) v by (simp_all add: decodedLabel_def look i j effective_def)
  show ?thesis
    unfolding parseContainer_def Let_def look d using assms(2,3,7) i r by simp
qed

subsection \<open>The progress of a pull\<close>

text \<open>Rounding is monotone and exact at 0 and 1; numbers of bytes are not negative.\<close>

definition go_float_ok :: "go_float \<Rightarrow> bool" where
  "go_float_ok gf \<longleftrightarrow> mono (fl gf) \<and> mono (fl32 gf) \<and> fl gf 0 = 0 \<and> fl gf 1 = 1 \<and> fl32 gf 0 = 0 \<and> fl32 gf 1 = 1"

definition layers_ok :: "(bytes \<times> pull_layer) list \<Rightarrow> bool" where
  "layers_ok layers \<longleftrightarrow> (\<forall>(k, y) \<in> set layers. pl_last y \<ge> 0 \<and> pl_total y \<ge> 0)"

definition message_ok :: "env_err + pull_message \<Rightarrow> bool" where
  "message_ok m = (case m of Inr jm \<Rightarrow> (case pm_Progress jm of Some (n, k) \<Rightarrow> n \<ge> 0 \<and> k \<ge> 0 | None \<Rightarrow> True) | Inl _ \<Rightarrow> True)"

lemma fl_nonneg: "go_float_ok gf \<Longrightarrow> x \<ge> 0 \<Longrightarrow> fl gf x \<ge> 0"
  unfolding go_float_ok_def by (metis monoD)

lemma sumLayers_nonneg:
  "go_float_ok gf \<Longrightarrow> layers_ok layers \<Longrightarrow> l \<ge> 0 \<Longrightarrow> t \<ge> 0 \<Longrightarrow> sumLayers gf layers l t = Some (l', t') \<Longrightarrow> l' \<ge> 0 \<and> t' \<ge> 0"
proof (induction gf layers l t rule: sumLayers.induct)
  case (2 gf k y layers l t)
  from "2.prems" have y: "pl_last y \<ge> 0" "pl_total y \<ge> 0" and r: "layers_ok layers" by (auto simp: layers_ok_def)
  from "2.prems" have e: "\<not> (\<not> pl_complete y \<and> pl_total y \<le> 0)" by (auto split: if_splits)
  show ?case
    by (rule "2.IH"[OF e refl "2.prems"(1) r _ _]) (use "2.prems" y e in \<open>auto intro!: fl_nonneg add_nonneg_nonneg simp: Let_def split: if_splits\<close>)
qed simp

lemma calculateProgress_le:
  assumes "go_float_ok gf" and "layers_ok layers" shows "calculateProgress gf layers \<le> 1"
proof (cases "sumLayers gf layers 0 0")
  case (Some x)
  obtain l t where x: "x = (l, t)" by (cases x)
  from sumLayers_nonneg[OF assms, of 0 0 l t] Some x have lt: "l \<ge> 0" "t \<ge> 0" by auto
  let ?t1 = "if t < l then l else t" let ?t2 = "if ?t1 = 0 then 1 else ?t1"
  have "l / ?t2 \<le> 1" using lt by (auto simp: field_simps)
  with assms(1) have "fl gf (l / ?t2) \<le> 1" unfolding go_float_ok_def by (metis monoD)
  with assms(1) have "fl32 gf (fl gf (l / ?t2)) \<le> 1" unfolding go_float_ok_def by (metis monoD)
  with Some x show ?thesis by (simp add: calculateProgress_def Let_def)
qed (simp add: calculateProgress_def)

lemma layers_ok_update: "layers_ok layers \<Longrightarrow> pl_last y \<ge> 0 \<Longrightarrow> pl_total y \<ge> 0 \<Longrightarrow> layers_ok (AList.update k y layers)"
  unfolding layers_ok_def by (induction layers) auto

lemma nextLayers_ok:
  assumes "layers_ok layers" and "message_ok (Inr jm)" shows "layers_ok (nextLayers jm layers)"
proof -
  have "map_of layers k = Some y \<Longrightarrow> pl_last y \<ge> 0 \<and> pl_total y \<ge> 0" for k y
    using assms(1) by (auto simp: layers_ok_def dest: map_of_SomeD)
  with assms show ?thesis
    by (auto simp: nextLayers_def message_ok_def Let_def intro!: layers_ok_update split: option.splits)
qed

text \<open>A client that is shown the progress: \<open>answers\<close> may refuse any report.\<close>

definition shown :: "(rat list \<Rightarrow> env_err + unit) \<Rightarrow> rat \<Rightarrow> (rat list, env_err, unit) sm" where
  "shown answers p ps = (answers ps, ps @ [p])"

lemma bind_shown: "bindE (shown answers p) f ps = (case answers ps of Inl e \<Rightarrow> (Inl e, ps @ [p]) | Inr x \<Rightarrow> f x (ps @ [p]))"
  by (simp add: bindE_def shown_def)

lemma pullLoop_reports:
  assumes gf: "go_float_ok gf"
  shows "layers_ok layers \<Longrightarrow> list_all message_ok msgs \<Longrightarrow> 0 \<le> progress \<Longrightarrow>
    \<exists>new. snd (pullLoop gf (shown answers) msgs layers progress ps) = ps @ new \<and> sorted_wrt (<) (progress # new) \<and> set new \<subseteq> {0<..1}"
proof (induction msgs arbitrary: layers progress ps)
  case (Cons m msgs)
  show ?case
  proof (cases m)
    case (Inr jm)
    let ?p = "calculateProgress gf (nextLayers jm layers)"
    have l: "layers_ok (nextLayers jm layers)" using nextLayers_ok[OF Cons.prems(1)] Cons.prems(2) Inr by simp
    have p: "?p \<le> 1" by (rule calculateProgress_le[OF gf l])
    have ms: "list_all message_ok msgs" using Cons.prems(2) by simp
    show ?thesis
    proof (cases "pm_Error jm = None \<and> ?p > progress")
      case True
      then have pos: "0 < ?p" using Cons.prems(3) by linarith
      from Cons.IH[OF l ms, of ?p "ps @ [?p]"] pos obtain new where
        new: "snd (pullLoop gf (shown answers) msgs (nextLayers jm layers) ?p (ps @ [?p])) = ps @ ?p # new"
          "sorted_wrt (<) (?p # new)" "set new \<subseteq> {0<..1}" by auto
      show ?thesis
      proof (cases "answers ps")
        case (Inl e)
        with Inr True p pos show ?thesis
          by (intro exI[of _ "[?p]"]) (simp add: bind_shown Let_def)
      next
        case (Inr x)
        with \<open>m = Inr jm\<close> True p pos new show ?thesis
          by (intro exI[of _ "?p # new"]) (auto simp: bind_shown Let_def)
      qed
    next
      case False
      with Inr Cons.IH[OF l ms Cons.prems(3), of ps] show ?thesis
        by (cases "pm_Error jm") (auto simp: Let_def throwE_def)
    qed
  qed (simp add: throwE_def)
qed (simp add: returnE_def)

text \<open>
  Whatever messages a pull sends, the progress that the client is shown only grows and stays above 0 and at most 1, when the
  numbers of bytes are not negative and rounding is monotone; also when a report is refused and the pull ends.
\<close>

theorem pull_progress_grows:
  assumes "go_float_ok gf" and "list_all message_ok msgs"
  shows "sorted_wrt (<) (snd (handleImagePullProgress gf (shown answers) (returnE ()) msgs [])) \<and>
    set (snd (handleImagePullProgress gf (shown answers) (returnE ()) msgs [])) \<subseteq> {0<..1}"
proof -
  obtain new where new: "snd (pullLoop gf (shown answers) msgs [] 0 []) = new" "sorted_wrt (<) (0 # new)" "set new \<subseteq> {0<..1}"
    using pullLoop_reports[OF assms(1) _ assms(2), of "[]" 0 answers "[]"] by (auto simp: layers_ok_def)
  then have "snd (handleImagePullProgress gf (shown answers) (returnE ()) msgs []) = new"
    by (auto simp: handleImagePullProgress_def bindE_def returnE_def split: prod.splits sum.splits)
  with new show ?thesis by simp
qed

subsection \<open>Running\<close>

text \<open>
  The first copy that ends, as the input of a client that has nothing more to send, interrupts the process: it gets \<^verbatim>\<open>SIGINT\<close> although it
  may still run and its output is not complete.
\<close>

lemma first_copy_interrupts:
  "snd (docker_runLoop (DevCopyDone (Some None) (Inr (True, exitCode)) # evs)) = SIGINT # snd (docker_runLoop evs)"
  by (simp split: prod.splits)

text \<open>Two runs of one environment whose slice has room show the same command: the one of the second run.\<close>

lemma shared_commands:
  assumes "len < length array" and "sliceAppend len v array = (array1, run1)" and "sliceAppend len w array1 = (array2, run2)"
  shows "sliceView run1 array2 = take len array @ [w] \<and> sliceView run2 array2 = take len array @ [w]"
  using assms by (auto simp: sliceAppend_def sliceView_def take_Suc_conv_app_nth)

end
