(* ===== verification/KubeEffects.thy ===== *)
theory KubeEffects
  imports KubeProps DockerEffects
begin

section \<open>Ensuring, disposing, cleaning and restoring pods\<close>

text \<open>
  The theorems about the repository of pods: environments of sessions on the contract \<open>shared_environments\<close>, an environment whose pod is gone,
  which pods a clean-up removes, the annotations of a pod, and the command that a second run starts.
\<close>

text \<open>
  C32: Where no lock is held for good and the active environments are those of their sessions (\<open>kube_ready\<close>), ensuring and finding the
  environment of a session return, unlike for containers, and leave such a state. The environment a request is given is the one of
  its session, and the request was accepted; a later search for the session finds the same one.
\<close>

theorem pod_of_session:
  assumes "kube_ready kd others s"
  shows "fst (kube_FindBySession kd others this sess opts s) \<noteq> Inl NeverReturns \<and>
    (case kube_Ensure kd others this req s of
       (Inl err, t) \<Rightarrow> err \<noteq> NeverReturns
     | (Inr ref, t) \<Rightarrow> kube_ready kd others t \<and> kube_wanted this req = Some (ei_sessionId (es_instances t ! ref)) \<and>
         (ss_id sess = ei_sessionId (es_instances t ! ref) \<longrightarrow> fst (kube_FindBySession kd others this sess opts t) = Inr ref))"
proof -
  obtain r t where f: "kube_Ensure kd others this req s = (r, t)" by (cases "kube_Ensure kd others this req s")
  show ?thesis
  proof (cases r)
    case (Inl err)
    with pods_return(1)[OF assms, of this req] f have "err \<noteq> NeverReturns" by simp
    with f Inl pods_return(2)[OF assms] show ?thesis by simp
  next
    case (Inr ref)
    note ensured = pods.ensured[OF assms f[unfolded Inr]] pods.ensured_session[OF assms f[unfolded Inr]]
    have "fst (kube_FindBySession kd others this sess opts t) = Inr ref" if "ss_id sess = ei_sessionId (es_instances t ! ref)"
      using pods.ensured_then_found[OF assms f[unfolded Inr], of "(sess, opts)"] ensured(2) that by simp
    with f Inr ensured pods_return(2)[OF assms] show ?thesis by simp
  qed
qed

subsection \<open>Disposing\<close>

lemma removePod_plain: "removePod kd namespace name None s = removeWatched kd namespace name s"
  by (simp add: removePod_def failing_def onErrorE_def bindE_def returnE_def split: prod.splits sum.splits)

lemma removeWatched_gone:
  assumes "kd_clientSet kd = Inr ()" and "kd_podGet kd namespace name (es_engine s) = (Inl err, e)" and "\<not> kb_engineNotFound err"
  shows "removeWatched kd namespace name s = (Inl (SErr (cannotRemovePod (kubeError err))), s\<lparr>es_engine := e\<rparr>)"
  using assms by (simp add: removeWatched_def liftS_def liftE_def mapErrE_def bindE_def unlessGone_def asked_def)

text \<open>
  C33: Disposing an environment whose pod is already gone fails: the cluster's answer that there is no such pod is not recognized, since
  the code asks the package of the container engine. No pod is asked to be removed, but the environment is closed nevertheless, and the
  session has none any more if its counter of owners is not positive after that.
\<close>

theorem gone_pod_not_disposed:
  assumes "kube_ready kd others s" and "es_active s (ss_id sess) = Some ref" and "kd_clientSet kd = Inr ()"
    and "kd_podGet kd (ku_namespace (es_instances s ! ref)) (ku_name (es_instances s ! ref)) (es_engine s) = (Inl err, e)"
    and "kb_notFound err \<and> \<not> kb_engineNotFound err"
  shows "\<exists>msg t. kube_Dispose kd ref s = (Inl (SErr msg), t) \<and> es_removed t = es_removed s \<and> (\<forall>i. es_held t i = Free) \<and>
    (if sint (ei_owners (es_instances s ! ref) - 1) > 0 then fst (kube_FindBySession kd others this sess opts t) = Inr ref
     else es_active t (ss_id sess) = None)"
proof -
  from assms(1,2) have s: "\<And>i. es_held s i = Free" "ref < length (es_instances s)" "ei_sessionId (es_instances s ! ref) = ss_id sess"
    by (auto simp: kube_ready_def active_ok_def)
  let ?s = "s\<lparr>es_held := (es_held s)(ss_id sess := Writing)\<rparr>"
  have h: "(es_held s)(ss_id sess := Free) = es_held s" using s by (simp add: fun_upd_idem)
  have gone: "kd_podGet kd (ku_namespace (es_instances s ! ref)) (ku_name (es_instances s ! ref)) (es_engine ?s) = (Inl err, e)" using assms(4) by simp
  let ?t = "(addOwner (-1) ref s)\<lparr>es_engine := e,
      es_active := (if sint (ei_owners (es_instances s ! ref) - 1) > 0 then es_active s else (es_active s)(ss_id sess := None))\<rparr>"
  have d: "kube_Dispose kd ref s = (Inl (SErr (env_wrapf TSystem ''cannot dispose environment'' (cannotRemovePod (kubeError err)))), ?t)"
    using removeWatched_gone[OF assms(3) gone] assms(5) s h
    by (auto simp: kube_Dispose_def Let_def withLock_free deferE_def mapErrE_def removePod_plain closeGuarded_def addOwner_def unlockS_def onEnvErr_def)
  have "kube_FindBySession kd others this sess opts ?t = (Inr ref, addOwner 1 ref ?t)" if "sint (ei_owners (es_instances s ! ref) - 1) > 0"
    unfolding kube_FindBySession_def kube_findOrEnsureBySession_def by (rule sharedOr_active) (use that s assms(2) in simp_all)
  moreover have "es_removed ?t = es_removed s" by (simp add: addOwner_def)
  ultimately show ?thesis using d s by simp
qed


subsection \<open>Orphans\<close>

text \<open>The pods that a clean-up may remove.\<close>

definition doomed_pod ::
    "('k, 'e) kube_deps \<Rightarrow> 'k kubernetes_repository \<Rightarrow> (bytes \<Rightarrow> env_err + bool) \<Rightarrow> (bytes \<Rightarrow> sid \<Rightarrow> env_err + bool option) \<Rightarrow> pod \<Rightarrow> bool" where
  "doomed_pod kd this hasFlow hasSession p \<longleftrightarrow>
     (\<exists>flow. FlowName_UnmarshalText (labelOf (po_Labels p) KubernetesLabelFlow) = Some flow \<and> flow \<noteq> [] \<and>
       (case kd_idParse kd (labelOf (po_Labels p) KubernetesLabelSessionId) of
          None \<Rightarrow> True
        | Some i \<Rightarrow>
            if flow = kr_flow this then po_Phase p \<notin> {PodPending, PodRunning} \<or> hasSession flow i = Inr (Some False)
            else hasFlow flow = Inr False \<and> kc_CleanOrphan (kr_conf this) p = Inr True))"

lemma removeLoop_removed: "removeLoop kd namespace name evs s = (r, t) \<Longrightarrow> es_removed t = es_removed s"
  by (induction kd namespace name evs rule: removeLoop.induct) (auto simp: asked_def throwE_def returnE_def split: prod.splits)

lemma removed_unchecked_pod:
  assumes "removePodUnchecked kd p s = (r, t)"
  shows "es_removed t = es_removed s \<or> es_removed t = es_removed s @ [podId (po_Namespace p) (po_Name p)]"
proof -
  obtain q u where q: "removeWatched kd (po_Namespace p) (po_Name p) s = (q, u)" by (cases "removeWatched kd (po_Namespace p) (po_Name p) s")
  from assms q have "t = u" by (simp add: removePodUnchecked_def removePod_plain)
  with q show ?thesis
    by (auto simp: removeWatched_def bindE_def mapErrE_def liftS_def liftE_def unlessGone_def asked_def askDelete_def dest!: removeLoop_removed
        split: prod.splits sum.splits if_splits)
qed

text \<open>\<open>removes ids s t\<close>: from \<open>s\<close> to \<open>t\<close> at most these were asked to be removed.\<close>

definition removes :: "bytes set \<Rightarrow> 'e kube_state \<Rightarrow> 'e kube_state \<Rightarrow> bool" where
  "removes A s t \<longleftrightarrow> (\<exists>ids. es_removed t = es_removed s @ ids \<and> set ids \<subseteq> A)"

lemma removes_refl: "es_removed t = es_removed s \<Longrightarrow> removes A s t"
  by (simp add: removes_def)

lemma removes_trans: "removes A s t \<Longrightarrow> removes A t u \<Longrightarrow> removes A s u"
  by (force simp: removes_def)

lemma removes_mono: "removes A s t \<Longrightarrow> A \<subseteq> B \<Longrightarrow> removes B s t"
  by (force simp: removes_def)

lemma removes_unchecked: "removePodUnchecked kd p s = (r, t) \<Longrightarrow> removes {podId (po_Namespace p) (po_Name p)} s t"
  using removed_unchecked_pod[of kd p s r t] by (auto simp: removes_def)

lemma bindE_liftS: "bindE (liftS r) f s = (case r of Inl e \<Rightarrow> (Inl (SErr e), s) | Inr x \<Rightarrow> f x s)"
  by (simp add: bindE_def liftS_def liftE_def split: sum.splits)

text \<open>What happens to one pod of the list: it is removed, which it may be, or nothing is done.\<close>

lemma cleanupPod_cases:
  obtains (removed) "cleanupPod kd this hasFlow hasSession p s = removePodUnchecked kd p s" "doomed_pod kd this hasFlow hasSession p"
  | (left) r where "cleanupPod kd this hasFlow hasSession p s = (r, s)" "r \<noteq> Inl NeverReturns"
proof (cases "FlowName_UnmarshalText (labelOf (po_Labels p) KubernetesLabelFlow)")
  case None
  then show thesis by (intro left) (auto simp: cleanupPod_def returnE_def)
next
  case flow: (Some flow)
  show thesis
  proof (cases "kd_idParse kd (labelOf (po_Labels p) KubernetesLabelSessionId)")
    case None
    with flow removed left[of "Inr ()"] show thesis by (cases "flow = []") (simp_all add: cleanupPod_def doomed_pod_def returnE_def)
  next
    case id: (Some i)
    show thesis
    proof (cases "flow = [] \<or> flow = kr_flow this")
      case True
      with flow id removed left[of "Inr ()"] show thesis
        by (cases "flow = []"; cases "hasSession flow i = Inr (Some False)"; cases "po_Phase p \<in> {PodPending, PodRunning}")
          (auto simp: cleanupPod_def doomed_pod_def returnE_def)
    next
      case False
      then have c: "cleanupPod kd this hasFlow hasSession p s = bindE (liftS (hasFlow flow)) (\<lambda>b.
          if b then returnE () else bindE (liftS (kc_CleanOrphan (kr_conf this) p)) (\<lambda>b. if \<not> b then returnE () else removePodUnchecked kd p)) s"
        using flow id by (simp add: cleanupPod_def)
      show thesis
      proof (cases "hasFlow flow = Inr False \<and> kc_CleanOrphan (kr_conf this) p = Inr True")
        case True
        with False flow id show thesis by (intro removed) (auto simp: c bindE_liftS doomed_pod_def)
      next
        case other: False
        then have "\<exists>r. cleanupPod kd this hasFlow hasSession p s = (r, s) \<and> r \<noteq> Inl NeverReturns"
          by (auto simp: c bindE_liftS returnE_def split: sum.splits)
        with left show thesis by blast
      qed
    qed
  qed
qed

lemma cleanupPod_removes:
  assumes "cleanupPod kd this hasFlow hasSession p s = (r, t)"
  shows "r \<noteq> Inl NeverReturns \<and> removes {podId (po_Namespace p) (po_Name p) | x :: unit. doomed_pod kd this hasFlow hasSession p} s t"
proof (cases rule: cleanupPod_cases[of kd this hasFlow hasSession p s])
  case removed
  with assms removes_unchecked[of kd p s r t] show ?thesis by (auto simp: removePodUnchecked_def)
next
  case (left r)
  with assms show ?thesis by (simp add: removes_refl)
qed

lemma cleanup_items:
  assumes "forE (cleanupPod kd this hasFlow hasSession) items s = (r, t)"
  shows "r \<noteq> Inl NeverReturns \<and> removes {podId (po_Namespace p) (po_Name p) | p. p \<in> set items \<and> doomed_pod kd this hasFlow hasSession p} s t"
  using assms
proof (induction items arbitrary: s)
  case (Cons p items)
  let ?ids = "\<lambda>items. {podId (po_Namespace p) (po_Name p) | p. p \<in> set items \<and> doomed_pod kd this hasFlow hasSession p}"
  obtain q u where q: "cleanupPod kd this hasFlow hasSession p s = (q, u)" by (cases "cleanupPod kd this hasFlow hasSession p s")
  have u: "removes (?ids (p # items)) s u" using cleanupPod_removes[OF q] by (auto elim!: removes_mono)
  show ?case
  proof (cases q)
    case (Inl e)
    with Cons.prems q u cleanupPod_removes[OF q] show ?thesis by (auto simp: bindE_def)
  next
    case (Inr x)
    with Cons.prems q have "forE (cleanupPod kd this hasFlow hasSession) items u = (r, t)" by (simp add: bindE_def)
    from Cons.IH[OF this] show ?thesis using removes_trans[OF u removes_mono] by (auto 4 4)
  qed
qed (auto simp: returnE_def removes_refl)

text \<open>
  A pod is listed by a run that starts with a mark in a state: it is on the page that the cluster gives in this state, or it is listed by
  what follows, in the state in which the removals for the whole page have ended, with the mark that came with the page.
\<close>

inductive listed ::
    "('k, 'e) kube_deps \<Rightarrow> 'k kubernetes_repository \<Rightarrow> (bytes \<Rightarrow> env_err + bool) \<Rightarrow> (bytes \<Rightarrow> sid \<Rightarrow> env_err + bool option) \<Rightarrow> bytes \<Rightarrow> 'e kube_state \<Rightarrow> pod \<Rightarrow> bool"
  for kd this hasFlow hasSession where
  page: "engineE kubeError (kd_podList kd (podsClient this) KubernetesLabelFlow None None mark) s = (Inr (items, m), t) \<Longrightarrow> p \<in> set items \<Longrightarrow>
    listed kd this hasFlow hasSession mark s p"
| later: "engineE kubeError (kd_podList kd (podsClient this) KubernetesLabelFlow None None mark) s = (Inr (items, m), t) \<Longrightarrow>
    forE (cleanupPod kd this hasFlow hasSession) items t = (Inr (), u) \<Longrightarrow> m \<noteq> [] \<Longrightarrow> listed kd this hasFlow hasSession m u p \<Longrightarrow>
    listed kd this hasFlow hasSession mark s p"

inductive_cases listedE: "listed kd this hasFlow hasSession mark s p"

text \<open>The ids of the pods of a run that may be removed: listed in it, and doomed as they were listed.\<close>

definition doomed_ids ::
    "('k, 'e) kube_deps \<Rightarrow> 'k kubernetes_repository \<Rightarrow> (bytes \<Rightarrow> env_err + bool) \<Rightarrow> (bytes \<Rightarrow> sid \<Rightarrow> env_err + bool option) \<Rightarrow> bytes \<Rightarrow> 'e kube_state \<Rightarrow> bytes set" where
  "doomed_ids kd this hasFlow hasSession mark s =
     {podId (po_Namespace p) (po_Name p) | p. listed kd this hasFlow hasSession mark s p \<and> doomed_pod kd this hasFlow hasSession p}"

lemma page_removes:
  assumes "engineE kubeError (kd_podList kd (podsClient this) KubernetesLabelFlow None None mark) s = (Inr (items, m), t)"
    and "forE (cleanupPod kd this hasFlow hasSession) items t = (r, u)"
  shows "removes (doomed_ids kd this hasFlow hasSession mark s) s u"
proof -
  have "{podId (po_Namespace p) (po_Name p) | p. p \<in> set items \<and> doomed_pod kd this hasFlow hasSession p} \<subseteq> doomed_ids kd this hasFlow hasSession mark s"
    unfolding doomed_ids_def using listed.page[OF assms(1)] by blast
  with cleanup_items[OF assms(2)] have "removes (doomed_ids kd this hasFlow hasSession mark s) t u"
    by (auto elim: removes_mono)
  moreover have "es_removed t = es_removed s" using assms(1) by (auto simp: engineE_Inr)
  ultimately show ?thesis by (simp add: removes_def)
qed

lemma pages_remove:
  assumes "cleanupPages kd this hasFlow hasSession mark s = Some rt"
  shows "removes (doomed_ids kd this hasFlow hasSession mark s) s (snd rt)"
proof (rule cleanupPages.raw_induct[where P = "\<lambda>kd this hasFlow hasSession mark s rt. removes (doomed_ids kd this hasFlow hasSession mark s) s (snd rt)", OF _ assms], goal_cases)
  case (1 f kd this hasFlow hasSession mark s rt)
  obtain q t where q: "engineE kubeError (kd_podList kd (podsClient this) KubernetesLabelFlow None None mark) s = (q, t)"
    by (cases "engineE kubeError (kd_podList kd (podsClient this) KubernetesLabelFlow None None mark) s")
  show ?case
  proof (cases q)
    case (Inl err)
    then have "rt = (Inl err, t)" using q 1(2) by simp
    moreover have "es_removed t = es_removed s" using q by (auto simp: engineE_def split: prod.splits)
    ultimately show ?thesis by (simp add: removes_refl)
  next
    case (Inr page)
    obtain items m where page: "page = (items, m)" by (cases page)
    obtain r u where r: "forE (cleanupPod kd this hasFlow hasSession) items t = (r, u)" by (cases "forE (cleanupPod kd this hasFlow hasSession) items t")
    note su = page_removes[OF q[unfolded Inr page] r]
    show ?thesis
    proof (cases "r = Inr () \<and> m \<noteq> []")
      case True
      with 1(2) q r Inr page have "f kd this hasFlow hasSession m u = Some rt" by simp
      from 1(1)[OF this] have "removes (doomed_ids kd this hasFlow hasSession m u) u (snd rt)" .
      moreover have "doomed_ids kd this hasFlow hasSession m u \<subseteq> doomed_ids kd this hasFlow hasSession mark s"
        unfolding doomed_ids_def using listed.later[OF q[unfolded Inr page], of hasFlow hasSession u] r True by blast
      ultimately show ?thesis using su by (blast intro: removes_trans removes_mono)
    next
      case False
      with 1(2) q r Inr page have "snd rt = u" by (cases r) (auto split: if_splits)
      with su show ?thesis by simp
    qed
  qed
qed

definition flowPredicate :: "(bytes \<Rightarrow> env_err + bool) option \<Rightarrow> bytes \<Rightarrow> env_err + bool" where
  "flowPredicate p = (case p of Some p \<Rightarrow> p | None \<Rightarrow> (\<lambda>_. Inr False))"

definition sessionPredicate :: "(bytes \<Rightarrow> sid \<Rightarrow> env_err + bool) option \<Rightarrow> bytes \<Rightarrow> sid \<Rightarrow> env_err + bool option" where
  "sessionPredicate p = (case p of Some p \<Rightarrow> (\<lambda>flow i. map_sum id Some (p flow i)) | None \<Rightarrow> (\<lambda>_ _. Inr None))"

lemma kube_Cleanup_pages:
  "kube_Cleanup kd this flows sessions s =
     map_option (\<lambda>(r, t). (map_sum (onEnvErr (env_wrapf TSystem ''cannot cleanup potential orhpan kubernetes containers'')) id r, t))
       (case kd_clientSet kd of Inl err \<Rightarrow> Some (Inl (SErr err), s) | Inr _ \<Rightarrow> cleanupPages kd this (flowPredicate flows) (sessionPredicate sessions) [] s)"
  unfolding kube_Cleanup_def Let_def flowPredicate_def sessionPredicate_def by (rule refl)

text \<open>
  C34: A clean-up that ends asked for the removal only of pods that the cluster gave it for the label of a flow, on one of the pages of
  this very run and as they were on that page, and that either have an id of a session that cannot be read; or are of this flow and neither pending nor running, or of a session that is known not to exist; or
  are of a flow that is not configured, and \<open>cleanOrphan\<close> is true for them.
\<close>

theorem pods_cleaned_are_doomed:
  assumes "kube_Cleanup kd this flows sessions s = Some (r, t)"
  shows "\<exists>ids. es_removed t = es_removed s @ ids \<and> set ids \<subseteq> doomed_ids kd this (flowPredicate flows) (sessionPredicate sessions) [] s"
proof (cases "kd_clientSet kd")
  case (Inl err)
  with assms show ?thesis by (simp add: kube_Cleanup_pages)
next
  case (Inr x)
  with assms obtain q where "cleanupPages kd this (flowPredicate flows) (sessionPredicate sessions) [] s = Some (q, t)"
    by (auto simp: kube_Cleanup_pages)
  from pages_remove[OF this] show ?thesis by (simp add: removes_def)
qed

text \<open>Nothing but the cluster's marks makes a clean-up end: a cluster that gives the same mark again and again keeps it going.\<close>

lemma same_mark_never_ends:
  assumes "\<And>mark e. kd_podList kd (podsClient this) KubernetesLabelFlow None None mark e = (Inr ([], m), e)" and "m \<noteq> []"
  shows "cleanupPages kd this hasFlow hasSession mark s = None"
proof (rule ccontr)
  assume "cleanupPages kd this hasFlow hasSession mark s \<noteq> None"
  then obtain y where y: "cleanupPages kd this hasFlow hasSession mark s = Some y" by blast
  have "kd_podList kd (podsClient this) KubernetesLabelFlow None None = (\<lambda>mark e. (Inr ([], m), e)) \<longrightarrow> False"
    by (rule cleanupPages.raw_induct[where P = "\<lambda>kd this _ _ _ _ _. kd_podList kd (podsClient this) KubernetesLabelFlow None None =
        (\<lambda>mark e. (Inr ([], m), e)) \<longrightarrow> False", OF _ y])
      (use assms(2) in \<open>auto simp: engineE_def returnE_def\<close>)
  with assms(1) show False by blast
qed

subsection \<open>Annotations\<close>

text \<open>JSON texts of lists of commands are read back, and are not empty.\<close>

definition kube_json_ok :: "('k, 'e) kube_deps \<Rightarrow> bool" where
  "kube_json_ok kd \<longleftrightarrow>
     (\<forall>i. kd_idParse kd (kd_idText kd i) = Some i \<and> kd_idText kd i \<noteq> []) \<and>
     (\<forall>xs. kd_jsonEncode kd xs \<noteq> [] \<and> (list_all utf8_ValidString xs \<longrightarrow> kd_jsonDecode kd (kd_jsonEncode kd xs) = Some xs))"

lemma resolvePod_annotations:
  "resolvePodConfig kd this req sess s = (Inr (config, secret), t) \<Longrightarrow> podAnnotations kd this req = Inr (po_Annotations config)"
  by (auto simp: resolvePodConfig_def Let_def bindE_Inr_iff liftS_Inr returnE_def split_def)

text \<open>
  C36: The labels and annotations of a pod restore what the settings said when it was created: session, remote, user, group, directory, the
  permission to forward, and the configured commands, or those of Linux where none is configured.
\<close>

theorem pod_settings_restored:
  assumes "kube_json_ok kd" and "kr_flow this \<noteq> []" and "snd (ec_remote req) \<noteq> []" and "kc_Os (kr_conf this) = OsLinux"
    and "resolvePodConfig kd this req sess s = (Inr (config, secret), t)"
    and "po_Labels p = po_Labels config" and "po_Annotations p = po_Annotations config"
    and "Strings_Render (kc_ShellCommand (kr_conf this)) req = Inr shell" and "list_all utf8_ValidString shell \<and> (shell \<noteq> [] \<longrightarrow> hd shell \<noteq> [])"
    and "Strings_Render (kc_ExecCommand (kr_conf this)) req = Inr exec" and "list_all utf8_ValidString exec \<and> (exec \<noteq> [] \<longrightarrow> hd exec \<noteq> [])"
    and "Strings_Render (kc_SftpCommand (kr_conf this)) req = Inr sftp" and "list_all utf8_ValidString sftp \<and> (sftp \<noteq> [] \<longrightarrow> hd sftp \<noteq> [])"
  shows "\<exists>user group directory pf. String_Render (kc_User (kr_conf this)) req = Inr user \<and> String_Render (kc_Group (kr_conf this)) req = Inr group \<and>
    String_Render (kc_Directory (kr_conf this)) req = Inr directory \<and> kc_PortForwardingAllowed (kr_conf this) req = Inr pf \<and>
    parsePod kd this p = Inr \<lparr>ei_sessionId = ss_id sess, ei_owners = 0, ku_name = po_Name p, ku_namespace = po_Namespace p,
      ku_remoteUser = fst (ec_remote req), ku_remoteHost = Host_UnmarshalText (kd_net kd) (snd (ec_remote req)),
      ku_shellCommand = effective [''/bin/sh''] shell, ku_execCommand = effective [''/bin/sh'', ''-c''] exec,
      ku_sftpCommand = effective [''/usr/bin/bifroest'', ''sftp-server''] sftp, ku_user = user, ku_group = group, ku_directory = directory,
      ku_portForwardingAllowed = pf, ku_environ = []\<rparr>"
proof -
  from assms(1) have i: "kd_idParse kd (kd_idText kd (ss_id sess)) = Some (ss_id sess)" "kd_idText kd (ss_id sess) \<noteq> []"
    and j: "\<And>xs. kd_jsonEncode kd xs \<noteq> []" "\<And>xs. list_all utf8_ValidString xs \<Longrightarrow> kd_jsonDecode kd (kd_jsonEncode kd xs) = Some xs"
    by (auto simp: kube_json_ok_def)
  have v: "list_all utf8_ValidString [''/bin/sh'']" "list_all utf8_ValidString [''/bin/sh'', ''-c'']" "list_all utf8_ValidString [''/usr/bin/bifroest'', ''sftp-server'']"
    by code_simp+
  have commands: "kube_resolveEncodedShellCommand kd this req = Inr (kd_jsonEncode kd (effective [''/bin/sh''] shell))"
    "kube_resolveEncodedExecCommand kd this req = Inr (kd_jsonEncode kd (effective [''/bin/sh'', ''-c''] exec))"
    "kube_resolveEncodedSftpCommand kd this req = Inr (kd_jsonEncode kd (effective [''/usr/bin/bifroest'', ''sftp-server''] sftp))"
    using assms(4,8-13)
    by (simp_all add: kube_resolveEncodedShellCommand_def kube_resolveEncodedExecCommand_def kube_resolveEncodedSftpCommand_def configE_def
        effective_def BifroestBinaryFileLocation_def)
  from resolvePod_annotations[OF assms(5)] obtain user group directory pf
    where r: "String_Render (kc_User (kr_conf this)) req = Inr user" "String_Render (kc_Group (kr_conf this)) req = Inr group"
        "String_Render (kc_Directory (kr_conf this)) req = Inr directory" "kc_PortForwardingAllowed (kr_conf this) req = Inr pf"
      and l: "po_Annotations config =
       [(KubernetesAnnotationCreatedRemoteUser, fst (ec_remote req)), (KubernetesAnnotationCreatedRemoteHost, snd (ec_remote req)),
        (KubernetesAnnotationShellCommand, kd_jsonEncode kd (effective [''/bin/sh''] shell)),
        (KubernetesAnnotationExecCommand, kd_jsonEncode kd (effective [''/bin/sh'', ''-c''] exec)),
        (KubernetesAnnotationSftpCommand, kd_jsonEncode kd (effective [''/usr/bin/bifroest'', ''sftp-server''] sftp)),
        (KubernetesAnnotationUser, user), (KubernetesAnnotationGroup, group), (KubernetesAnnotationDirectory, directory)] @
        (if pf then [(KubernetesAnnotationPortForwardingAllowed, ''true'')] else [])"
    unfolding podAnnotations_def commands by (auto simp: bindR_Inr_iff configE_def)
  have look: "labelOf (po_Labels p) KubernetesLabelFlow = kr_flow this" "labelOf (po_Labels p) KubernetesLabelSessionId = kd_idText kd (ss_id sess)"
    using resolvePod_labels[OF assms(5)] assms(6) by (simp_all add: labelOf_def podLabels_def)
  have look': "labelOf (po_Annotations p) KubernetesAnnotationCreatedRemoteUser = fst (ec_remote req)"
    "labelOf (po_Annotations p) KubernetesAnnotationCreatedRemoteHost = snd (ec_remote req)"
    "labelOf (po_Annotations p) KubernetesAnnotationShellCommand = kd_jsonEncode kd (effective [''/bin/sh''] shell)"
    "labelOf (po_Annotations p) KubernetesAnnotationExecCommand = kd_jsonEncode kd (effective [''/bin/sh'', ''-c''] exec)"
    "labelOf (po_Annotations p) KubernetesAnnotationSftpCommand = kd_jsonEncode kd (effective [''/usr/bin/bifroest'', ''sftp-server''] sftp)"
    "labelOf (po_Annotations p) KubernetesAnnotationUser = user" "labelOf (po_Annotations p) KubernetesAnnotationGroup = group"
    "labelOf (po_Annotations p) KubernetesAnnotationDirectory = directory"
    "(labelOf (po_Annotations p) KubernetesAnnotationPortForwardingAllowed = ''true'') = pf"
    unfolding assms(7) l by (simp_all add: labelOf_def)
  have d: "decodedAnnotation kd (kd_jsonEncode kd (effective [''/bin/sh''] shell)) = Inr (effective [''/bin/sh''] shell)"
    "decodedAnnotation kd (kd_jsonEncode kd (effective [''/bin/sh'', ''-c''] exec)) = Inr (effective [''/bin/sh'', ''-c''] exec)"
    "decodedAnnotation kd (kd_jsonEncode kd (effective [''/usr/bin/bifroest'', ''sftp-server''] sftp)) =
       Inr (effective [''/usr/bin/bifroest'', ''sftp-server''] sftp)"
    using assms(9,11,13) v by (simp_all add: decodedAnnotation_def j effective_def)
  show ?thesis
    unfolding parsePod_def Let_def look look' using assms(2,3) i r j d by simp
qed

subsection \<open>A second run\<close>

text \<open>
  C40: When the array of the environment's command has room for one more element, the first run of a client's command starts the program of
  the command, and the second one another program: the name that a login shell is given, a dash and the base of the path.
\<close>

theorem second_run_path:
  assumes "kw_spare os > 0" and "et_taskType t = TaskTypeShell" "et_rawCommand t \<noteq> []" and "et_taskType u = TaskTypeShell" "et_rawCommand u \<noteq> []"
    and "ku_execCommand env = path # rest"
    and "kube_taskCommand os OsLinux env t = Inr ((p1, c1), env1)" and "kube_taskCommand os OsLinux env1 u = Inr ((p2, c2), env2)"
  shows "p1 = path \<and> p2 = CHR ''-'' # filepath_Base path"
  using assms by (auto simp: kube_taskCommand_def Let_def)


end
