(* ===== verification/SessionFrame.thy ===== *)
theory SessionFrame
  imports SessionStore
begin

section \<open>Frames of the session store: open files, unchanged files\<close>

text \<open>
  Every operation closes what it opens. The rules here treat the pattern "open, then a body under a
  deferred close" once: \<open>opens m\<close> says that \<open>m\<close> opens exactly the file it returns.
\<close>

subsection \<open>Open files\<close>

lemma leak_open: "(\<And>h. preserves (handles_are h) m) \<Longrightarrow> w_open (snd (m s)) = w_open s"
  by (simp add: preserves_def handles_are_def)

definition opens :: "bytes fm \<Rightarrow> bool" where
  "opens m \<longleftrightarrow> (\<forall>s. case m s of
     (Inr fn, t) \<Rightarrow> w_open t = (w_open s)(fn := Suc (w_open s fn)) | (Inl e, t) \<Rightarrow> w_open t = w_open s)"

lemma opensD:
  "opens m \<Longrightarrow> m s = (Inr fn, t) \<Longrightarrow> w_open t = (w_open s)(fn := Suc (w_open s fn))"
  "opens m \<Longrightarrow> m s = (Inl e, t) \<Longrightarrow> w_open t = w_open s"
  unfolding opens_def by (metis (mono_tags, lifting) case_prod_conv old.sum.simps(5,6))+

lemma opens_read: "opens (bindE (osE (os_OpenRead p)) (\<lambda>_. returnE p))"
  by (auto simp: opens_def bindE_def mapErrE_def returnE_def os_OpenRead_def opened_def split: option.splits)

lemma opens_create: "opens (bindE (osE (os_OpenCreate tr m p)) (\<lambda>_. returnE p))"
  by (auto simp: opens_def bindE_def mapErrE_def returnE_def os_OpenCreate_def opened_def split: option.splits)

lemma opens_bindE: "(\<And>h. preserves (handles_are h) m) \<Longrightarrow> (\<And>x. opens (f x)) \<Longrightarrow> opens (bindE m f)"
  unfolding opens_def
proof (intro allI)
  fix s assume m: "\<And>h. preserves (handles_are h) m"
    and f: "\<And>x. \<forall>s. case f x s of (Inr fn, t) \<Rightarrow> w_open t = (w_open s)(fn := Suc (w_open s fn)) | (Inl e, t) \<Rightarrow> w_open t = w_open s"
  obtain r t where r: "m s = (r, t)" by (cases "m s")
  have "w_open t = w_open s" using preserves_result[OF m, of "w_open s" s r t] r by (simp add: handles_are_def)
  then show "case bindE m f s of (Inr fn, t) \<Rightarrow> w_open t = (w_open s)(fn := Suc (w_open s fn)) | (Inl e, t) \<Rightarrow> w_open t = w_open s"
  proof (cases r)
    case (Inr b)
    then show ?thesis using r \<open>w_open t = w_open s\<close> spec[OF f[of b], of t] by (auto simp: bindE_def split: prod.splits sum.splits)
  qed (use r \<open>w_open t = w_open s\<close> in \<open>simp add: bindE_def\<close>)
qed

lemma opens_sess_openRead: "opens (sess_openRead d flow i kind)"
  unfolding sess_openRead_def by (intro opens_bindE opens_read preserve)

lemma opens_sess_openWrite: "opens (sess_openWrite d flow i kind rw)"
  unfolding sess_openWrite_def case_prod_beta by (intro opens_bindE opens_create preserve)

lemma close_handles:
  "w_open s = h(fn := Suc (h fn)) \<Longrightarrow> w_open (snd (os_Close fn s)) = h"
  "w_open s = h(fn := Suc (h fn)) \<Longrightarrow> w_open (snd (osE (os_Close fn) s)) = h"
  by (simp_all add: os_Close_def mapErrE_def)

lemma body_handles:
  fixes m :: "'x fm" and t :: fsrepo
  assumes "\<And>h. preserves (handles_are h) m" "w_open t = h(fn := Suc (h fn))"
  shows "w_open (snd (finallyE m (os_Close fn) t)) = h" "w_open (snd (deferE m (osE (os_Close fn)) t)) = h"
proof -
  have "w_open (snd (m t)) = h(fn := Suc (h fn))"
    using preservesD[OF assms(1), where s = t] assms(2) by (simp add: handles_are_def)
  from close_handles[OF this]
  show "w_open (snd (finallyE m (os_Close fn) t)) = h" "w_open (snd (deferE m (osE (os_Close fn)) t)) = h"
    by (auto simp: finallyE_def deferE_def split: prod.splits sum.splits)
qed

lemma preserves_opened [preserve]:
  assumes "opens m" "\<And>fn h. preserves (handles_are h) (body fn)"
  shows "preserves (handles_are h) (bindE m (\<lambda>fn. finallyE (body fn) (os_Close fn)))"
    and "preserves (handles_are h) (bindE m (\<lambda>fn. deferE (body fn) (osE (os_Close fn))))"
proof -
  have "w_open (snd (bindE m (\<lambda>fn. finallyE (body fn) (os_Close fn)) s)) = w_open s \<and>
    w_open (snd (bindE m (\<lambda>fn. deferE (body fn) (osE (os_Close fn))) s)) = w_open s" for s
    using opensD[OF assms(1), of s] body_handles[OF assms(2), where h = "w_open s"]
    by (cases "m s"; cases "fst (m s)") (auto simp: bindE_def)
  then show "preserves (handles_are h) (bindE m (\<lambda>fn. finallyE (body fn) (os_Close fn)))"
    and "preserves (handles_are h) (bindE m (\<lambda>fn. deferE (body fn) (osE (os_Close fn))))"
    by (simp_all add: preserves_def handles_are_def)
qed

lemma preserves_try_opened [preserve]:
  assumes "opens m" "\<And>e h. preserves (handles_are h) (bad e)" "\<And>fn h. preserves (handles_are h) (body fn)"
  shows "preserves (handles_are h) (bindE (tryE m) (\<lambda>r. case r of Inl e \<Rightarrow> bad e | Inr fn \<Rightarrow> finallyE (body fn) (os_Close fn)))"
    and "preserves (handles_are h) (bindE (tryE m) (\<lambda>r. case r of Inl e \<Rightarrow> bad e | Inr fn \<Rightarrow> deferE (body fn) (osE (os_Close fn))))"
proof -
  have b: "w_open (snd (bad e s)) = w_open s" for e s
    using preservesD[OF assms(2), where s = s] by (simp add: handles_are_def)
  have "w_open (snd (bindE (tryE m) (\<lambda>r. case r of Inl e \<Rightarrow> bad e | Inr fn \<Rightarrow> finallyE (body fn) (os_Close fn)) s)) = w_open s \<and>
    w_open (snd (bindE (tryE m) (\<lambda>r. case r of Inl e \<Rightarrow> bad e | Inr fn \<Rightarrow> deferE (body fn) (osE (os_Close fn))) s)) = w_open s" for s
    using opensD[OF assms(1), of s] body_handles[OF assms(3), where h = "w_open s"] b
    by (cases "m s"; cases "fst (m s)") (auto simp: bindE_def tryE_def)
  then show "preserves (handles_are h) (bindE (tryE m) (\<lambda>r. case r of Inl e \<Rightarrow> bad e | Inr fn \<Rightarrow> finallyE (body fn) (os_Close fn)))"
    and "preserves (handles_are h) (bindE (tryE m) (\<lambda>r. case r of Inl e \<Rightarrow> bad e | Inr fn \<Rightarrow> deferE (body fn) (osE (os_Close fn))))"
    by (simp_all add: preserves_def handles_are_def)
qed

lemmas leak_opens = opens_sess_openRead opens_sess_openWrite opens_create opens_read

lemma leak_info_save [preserve]: "preserves (handles_are h) (info_save d sess)"
  unfolding info_save_def by (intro preserve leak_opens)

lemma leak_la_save [preserve]: "preserves (handles_are h) (la_save d sess u hh)"
  unfolding la_save_def sess_stat_def by (intro preserve leak_opens)

lemma leak_notify [preserve]: "preserves (handles_are h) (notifyLastAccess d sess u hh st)"
  unfolding notifyLastAccess_def Let_def by (intro preserve)

lemma leak_tokens [preserve]:
  "preserves (handles_are h) (getToken d sess kind)" "preserves (handles_are h) (setToken d sess kind data)"
  unfolding getToken_def setToken_def by (intro preserve leak_opens)+

lemma leak_lastAccessed [preserve]: "preserves (handles_are h) (lastAccessed d sess)"
  unfolding lastAccessed_def by (intro preserve leak_opens)

lemma leak_findByWith:
  assumes "\<And>h. preserves (handles_are h) clean" "\<And>x h. preserves (handles_are h) (unexpected x)"
    "\<And>x h. preserves (handles_are h) (Predicates_Matches ps x)"
  shows "preserves (handles_are h) (findByWith d clean unexpected ps ex flow i)"
  unfolding findByWith_def Let_def by (intro preserve leak_opens assms)

lemma leak_disposeBy [preserve]: "preserves (handles_are h) (disposeBy d flow i)"
proof -
  have "preserves (handles_are h) (disposeStack flow i)" for h
    by (auto simp: preserves_def handles_are_def disposeStack_def updateStack_def split: option.splits)
  then show ?thesis
    unfolding disposeBy_def findByPlain_def by (intro preserve leak_findByWith) (auto intro: preserve)
qed

lemma leak_deleteBy [preserve]: "preserves (handles_are h) (deleteBy d flow i)"
  unfolding deleteBy_def by (intro preserve)

lemma opened_at: "os_OpenRead p s = (r, t) \<Longrightarrow> w_open t = (if isl r then w_open s else (w_open s)(p := Suc (w_open s p)))"
  by (auto simp: os_OpenRead_def opened_def split: if_splits option.splits)

lemma preserves_opened_at [preserve]:
  fixes body :: "'x fm"
  assumes "\<And>h. preserves (handles_are h) body"
  shows "preserves (handles_are h) (bindE (osE (os_OpenRead p)) (\<lambda>_. finallyE body (os_Close p)))"
proof -
  have "w_open (snd (bindE (osE (os_OpenRead p)) (\<lambda>_. finallyE body (os_Close p)) s)) = w_open s" for s
    using opened_at[of p s] body_handles(1)[OF assms, where h = "w_open s" and fn = p]
    by (cases "os_OpenRead p s"; cases "fst (os_OpenRead p s)") (auto simp: bindE_def mapErrE_def)
  then show ?thesis by (simp add: preserves_def handles_are_def)
qed

lemma preserves_try_opened_at:
  fixes body :: "'x fm"
  assumes "\<And>e h. preserves (handles_are h) (bad e)" "\<And>h. preserves (handles_are h) body"
  shows "preserves (handles_are h) (bindE (tryE (osE (os_OpenRead p)))
      (\<lambda>r. case r of Inl e \<Rightarrow> bad e | Inr _ \<Rightarrow> deferE body (osE (os_Close p))))"
proof -
  have b: "w_open (snd (bad e s)) = w_open s" for e s
    using preservesD[OF assms(1), where s = s] by (simp add: handles_are_def)
  have "w_open (snd (bindE (tryE (osE (os_OpenRead p)))
    (\<lambda>r. case r of Inl e \<Rightarrow> bad e | Inr _ \<Rightarrow> deferE body (osE (os_Close p))) s)) = w_open s" for s
    using opened_at[of p s] body_handles(2)[OF assms(2), where h = "w_open s" and fn = p] b
    by (cases "os_OpenRead p s"; cases "fst (os_OpenRead p s)") (auto simp: bindE_def tryE_def mapErrE_def)
  then show ?thesis by (simp add: preserves_def handles_are_def)
qed

lemma leak_deleteUnexpectedFiles [preserve]: "preserves (handles_are h) (deleteUnexpectedFiles d sess)"
  unfolding deleteUnexpectedFiles_def Let_def case_prod_beta by (intro preserve leak_opens)

text \<open>The predicates of a search may be any function; each of its own must close what it opens.\<close>

definition tidy_opts :: "find_opts option \<Rightarrow> bool" where
  "tidy_opts opts \<longleftrightarrow> (\<forall>p \<in> set (GetPredicates opts). \<forall>x h. preserves (handles_are h) (p x))"

lemma leak_matches: "(\<And>p x. p \<in> set ps \<Longrightarrow> preserves (handles_are h) (p x)) \<Longrightarrow> preserves (handles_are h) (Predicates_Matches ps sess)"
  by (induction ps) (auto intro!: preserve)

lemma leak_findBy: "tidy_opts opts \<Longrightarrow> preserves (handles_are h) (findBy d flow i opts ex)"
  unfolding findBy_def doFindAutoCleanIfAllowed_def doAutoCleanUnexpectedFilesIfAllowed_def
  by (intro leak_findByWith preserve leak_matches) (auto simp: tidy_opts_def)

lemma leak_predicates:
  "preserves (handles_are h) (IsExpired d x)" "preserves (handles_are h) (IsStillValid d x)"
  "preserves (handles_are h) (IsFlow flow x)" "preserves (handles_are h) (IsRemoteName name x)"
  unfolding IsStillValid_def IsNotExpired_def IsExpired_def isExpiredWithThreshold_def ValidUntil_def Let_def
    IsFlow_def IsRemoteName_def case_prod_beta by (intro preserve)+

subsection \<open>Creating, public keys, searching\<close>

lemma leak_Create: "preserves (handles_are h) (sess_Create d flow u hh tok)"
proof -
  have "preserves (handles_are h) (newUuid d)"
    by (auto simp: preserves_def handles_are_def newUuid_def split: option.splits)
  then show ?thesis unfolding sess_Create_def Let_def case_prod_beta by (intro preserve)
qed

lemma leak_keyLoop:
  assumes "\<And>a c. preserves (handles_are h) (consumer a c)"
  shows "preserves (handles_are h) (keyLoop d consumer n acc ls)"
  by (induction ls arbitrary: n acc) (auto intro!: preserve assms split: option.splits)

lemma leak_findPublicKeyIn:
  assumes "\<And>a c h. preserves (handles_are h) (consumer a c)"
  shows "preserves (handles_are h) (findPublicKeyIn d fn consumer acc)"
  unfolding findPublicKeyIn_def by (intro preserve leak_keyLoop assms)

lemma leak_matchKey [preserve]: "preserves (handles_are h) (matchKey pub a c)"
  unfolding matchKey_def by (intro preserve)

lemma leak_hasPublicKey [preserve]: "preserves (handles_are h) (hasPublicKey d flow i pub)"
  unfolding hasPublicKey_def by (intro preserve leak_opens leak_findPublicKeyIn)

lemma leak_addPublicKey [preserve]: "preserves (handles_are h) (addPublicKey d flow i pub)"
  unfolding addPublicKey_def sess_stat_def by (intro preserve leak_opens leak_findPublicKeyIn)

lemma leak_deletePublicKeyMain: "preserves (handles_are h) (deletePublicKeyMain d pub fn buf)"
  unfolding deletePublicKeyMain_def by (intro preserve leak_findPublicKeyIn)

lemma preserves_create_at:
  fixes body :: "'x fm"
  assumes "\<And>h. preserves (handles_are h) body" "\<And>x y h. preserves (handles_are h) (rest x y)"
  shows "preserves (handles_are h) (bindE (osE (os_OpenCreate tr mode p)) (\<lambda>_.
     bindE (tryE body) (\<lambda>x :: sess_err + 'x. bindE (tryE (osE (os_Close p))) (\<lambda>y :: sess_err + unit. rest x y))))"
    (is "preserves _ ?m")
proof -
  have "w_open (snd (?m s)) = w_open s" for s
  proof (cases "os_OpenCreate tr mode p s")
    case (Pair r t)
    let ?u = "snd (body t)" and ?v = "snd (os_Close p (snd (body t)))"
    show ?thesis
    proof (cases r)
      case (Inl e)
      then show ?thesis using os_Open_counts(4) Pair by (simp add: bindE_def mapErrE_def)
    next
      case (Inr x)
      then have "w_open t = (w_open s)(p := Suc (w_open s p))" using os_Open_counts(3) Pair by blast
      then have "w_open ?u = (w_open s)(p := Suc (w_open s p))"
        using preservesD[OF assms(1), where s = t] by (simp add: handles_are_def)
      then have v: "w_open ?v = w_open s" by (rule close_handles)
      have "w_open (snd (rest x y ?v)) = w_open ?v" for x y
        using preservesD[OF assms(2), where s = ?v] by (simp add: handles_are_def)
      then show ?thesis using v Pair Inr by (simp add: bindE_def mapErrE_def tryE_def)
    qed
  qed
  then show ?thesis by (simp add: preserves_def handles_are_def)
qed

lemma leak_deletePublicKey [preserve]: "preserves (handles_are h) (deletePublicKey d flow i pub)"
  unfolding deletePublicKey_def
  by (intro preserve leak_opens preserves_create_at leak_deletePublicKeyMain)

lemma leak_hasAccessToken [preserve]: "preserves (handles_are h) (hasAccessToken d flow i t)"
  unfolding hasAccessToken_def by (intro preserve leak_opens)

lemma leak_entryLoop:
  assumes "\<And>a c. preserves (handles_are h) (consumer a c)"
  shows "preserves (handles_are h) (entryLoop opts dir parse consumer acc es)"
  by (induction es arbitrary: acc) (auto intro!: preserve assms simp: cleanPath_def split: option.splits)

lemma leak_iterateFlows:
  assumes "\<And>a c h. preserves (handles_are h) (consumer a c)"
  shows "preserves (handles_are h) (iterateFlows opts consumer acc)"
  unfolding iterateFlows_def
  by (rule preserves_bindE[OF preserves_getE], rule preserves_try_opened_at) (intro preserve leak_entryLoop assms)+

lemma leak_iterateFlowDirs:
  assumes "\<And>a c h. preserves (handles_are h) (consumer a c)"
  shows "preserves (handles_are h) (iterateFlowDirs d flow opts consumer acc)"
  unfolding iterateFlowDirs_def case_prod_beta bindE_assoc[symmetric]
  by (intro preserve leak_entryLoop preserves_try_opened_at assms)

lemma leak_tryCandidate:
  assumes "tidy_opts opts" "\<And>f i h. preserves (handles_are h) (probe f i)"
  shows "preserves (handles_are h) (tryCandidate d probe opts flow i)"
  unfolding tryCandidate_def by (intro preserve leak_findBy assms)

lemma leak_searchFirst:
  assumes "tidy_opts opts" "\<And>f i h. preserves (handles_are h) (probe f i)"
  shows "preserves (handles_are h) (searchFirst d probe opts)"
  unfolding searchFirst_def by (intro preserve leak_iterateFlows leak_iterateFlowDirs leak_tryCandidate assms)

lemma leak_FindAll:
  assumes "tidy_opts opts" "\<And>x h. preserves (handles_are h) (consumer x)"
  shows "preserves (handles_are h) (FindAll d consumer opts)"
  unfolding FindAll_def by (intro preserve leak_iterateFlows leak_iterateFlowDirs leak_tryCandidate assms)

end
