(* ===== verification/Paths.thy ===== *)
theory Paths
  imports World
begin

section \<open>Absolute paths as lists of components\<close>

text \<open>
  \<open>path_of cs\<close> is the absolute path with the components \<open>cs\<close>. For proper components, that is not
  empty, without a slash and neither \<^verbatim>\<open>.\<close> nor \<^verbatim>\<open>..\<close>, the functions of \<^verbatim>\<open>path/filepath\<close> and the file
  tree are list operations: joining appends, the directory drops the last component, a path lies
  under another one when its components extend the other's.
\<close>

definition proper :: "bytes \<Rightarrow> bool" where
  "proper c \<longleftrightarrow> c \<noteq> [] \<and> CHR ''/'' \<notin> set c \<and> c \<noteq> ''.'' \<and> c \<noteq> ''..''"

definition path_of :: "bytes list \<Rightarrow> bytes" where
  "path_of cs = CHR ''/'' # bytes_join (CHR ''/'') cs"

named_theorems path_simps "file paths over lists of proper components"

lemma proper_noslash: "list_all proper cs \<Longrightarrow> \<forall>x \<in> set cs. CHR ''/'' \<notin> set x"
  by (induction cs) (auto simp: proper_def)

lemma split_path:
  assumes "list_all proper cs" "cs \<noteq> []"
  shows "bytes_split (CHR ''/'') (path_of cs) = [] # cs"
  using bytes_split_join[of cs "CHR ''/''"] proper_noslash[OF assms(1)] assms(2) by (simp add: path_of_def)

lemma clean_proper: "list_all proper ps \<Longrightarrow> clean_components r out (ps @ qs) = clean_components r (rev ps @ out) qs"
  by (induction ps arbitrary: out) (auto simp: proper_def)

lemma clean_proper_all: "list_all proper ps \<Longrightarrow> clean_components r [] ps = ps"
  using clean_proper[of ps r "[]" "[]"] by simp

lemma Clean_path: "list_all proper cs \<Longrightarrow> cs \<noteq> [] \<Longrightarrow> filepath_Clean (path_of cs) = path_of cs"
  by (simp add: filepath_Clean_def split_path clean_proper_all) (simp add: path_of_def)

lemma path_nonempty [simp]: "path_of cs \<noteq> []"
  by (simp add: path_of_def)

lemma join_snoc: "cs \<noteq> [] \<Longrightarrow> bytes_join c (cs @ [x]) = bytes_join c cs @ c # x"
  by (induction c cs rule: bytes_join.induct) auto

lemma path_snoc: "cs \<noteq> [] \<Longrightarrow> path_of (cs @ [x]) = path_of cs @ CHR ''/'' # x"
  by (simp add: path_of_def join_snoc)

lemma path_append: "cs \<noteq> [] \<Longrightarrow> ds \<noteq> [] \<Longrightarrow> path_of (cs @ ds) = path_of cs @ path_of ds"
proof (induction ds rule: rev_induct)
  case (snoc x xs)
  then show ?case
    by (cases "xs = []") (use path_snoc[of "cs @ xs" x] path_snoc[of xs x] in \<open>auto simp: path_snoc path_of_def\<close>)
qed simp

lemma Join_path [path_simps]:
  "list_all proper cs \<Longrightarrow> cs \<noteq> [] \<Longrightarrow> proper a \<Longrightarrow> filepath_Join [path_of cs, a] = path_of (cs @ [a])"
  "list_all proper cs \<Longrightarrow> cs \<noteq> [] \<Longrightarrow> proper a \<Longrightarrow> proper b \<Longrightarrow>
     filepath_Join [path_of cs, a, b] = path_of (cs @ [a, b])"
proof -
  assume c: "list_all proper cs" "cs \<noteq> []" "proper a"
  then show "filepath_Join [path_of cs, a] = path_of (cs @ [a])"
    using Clean_path[of "cs @ [a]"] by (simp add: filepath_Join_def path_snoc)
  assume "proper b"
  then show "filepath_Join [path_of cs, a, b] = path_of (cs @ [a, b])"
    using Clean_path[of "cs @ [a, b]"] c path_snoc[of "cs @ [a]" b] by (simp add: filepath_Join_def path_snoc)
qed

lemma Dir_path [path_simps]:
  assumes "list_all proper cs" "cs \<noteq> []" "proper a"
  shows "filepath_Dir (path_of (cs @ [a])) = path_of cs"
proof -
  have "CHR ''/'' \<notin> set (rev a)" using assms(3) by (simp add: proper_def)
  then have "dropWhile (\<lambda>c. c \<noteq> CHR ''/'') (rev (path_of (cs @ [a]))) = CHR ''/'' # rev (path_of cs)"
    using assms(2) by (simp add: path_snoc)
  then have "filepath_Dir (path_of (cs @ [a])) = filepath_Clean (path_of cs @ ''/'')"
    by (simp add: filepath_Dir_def)
  also have "\<dots> = path_of cs"
  proof -
    have "bytes_split (CHR ''/'') (path_of cs @ ''/'') = [] # cs @ [[]]"
      using bytes_split_join[of "cs @ [[]]" "CHR ''/''"] proper_noslash[OF assms(1)] assms(2)
      by (auto simp: path_of_def join_snoc)
    moreover have "clean_components True [] ([] # cs @ [[]]) = cs"
      using clean_proper[OF assms(1), of True "[]" "[[]]"] by simp
    ultimately show ?thesis by (simp add: filepath_Clean_def path_of_def)
  qed
  finally show ?thesis .
qed

lemma path_inj [path_simps]:
  assumes "list_all proper cs" "list_all proper ds" "cs \<noteq> []" "ds \<noteq> []"
  shows "path_of cs = path_of ds \<longleftrightarrow> cs = ds"
  using split_path[OF assms(1,3)] split_path[OF assms(2,4)] by (metis list.inject)

lemma split_append: "bytes_split c (x @ c # y) = bytes_split c x @ bytes_split c y"
  by (induction x) (auto split: list.splits)

lemma under_path [path_simps]:
  assumes "list_all proper cs" "list_all proper ds" "cs \<noteq> []" "ds \<noteq> []"
  shows "under (path_of cs) (path_of ds) \<longleftrightarrow> (\<exists>r. ds = cs @ r)"
proof
  assume u: "under (path_of cs) (path_of ds)"
  show "\<exists>r. ds = cs @ r"
  proof (cases "path_of ds = path_of cs")
    case True
    then show ?thesis using assms by (simp add: path_inj)
  next
    case False
    then have "take (Suc (length (path_of cs))) (path_of ds) = path_of cs @ ''/''" using u by (simp add: under_def)
    then have "path_of ds = path_of cs @ CHR ''/'' # drop (Suc (length (path_of cs))) (path_of ds)"
      using append_take_drop_id[of "Suc (length (path_of cs))" "path_of ds"] by simp
    then have "[] # ds = ([] # cs) @ bytes_split (CHR ''/'') (drop (Suc (length (path_of cs))) (path_of ds))"
      using split_append[of "CHR ''/''" "path_of cs"] split_path[OF assms(1,3)] split_path[OF assms(2,4)] by metis
    then show ?thesis by auto
  qed
next
  assume "\<exists>r. ds = cs @ r"
  then obtain r where r: "ds = cs @ r" ..
  show "under (path_of cs) (path_of ds)"
  proof (cases "r = []")
    case False
    then have "path_of ds = path_of cs @ CHR ''/'' # bytes_join (CHR ''/'') r"
      using r assms(3) path_append[of cs r] by (simp add: path_of_def[of r])
    then show ?thesis by (simp add: under_def)
  qed (simp add: r)
qed

lemma prefixes_path: "path_prefixes base cs = map (\<lambda>n. base @ path_of (take n cs)) [1..<Suc (length cs)]"
proof (induction cs arbitrary: base)
  case (Cons c cs)
  have "map (\<lambda>n. (base @ CHR ''/'' # c) @ path_of (take n cs)) [1..<Suc (length cs)]
      = map (\<lambda>n. base @ path_of (take (Suc n) (c # cs))) [1..<Suc (length cs)]"
  proof (rule map_cong)
    fix n assume "n \<in> set [1..<Suc (length cs)]"
    then have "take n cs \<noteq> []" by auto
    then show "(base @ CHR ''/'' # c) @ path_of (take n cs) = base @ path_of (take (Suc n) (c # cs))"
      using path_append[of "[c]" "take n cs"] by (simp add: path_of_def[of "[c]"])
  qed simp
  also have "\<dots> = map (\<lambda>n. base @ path_of (take n (c # cs))) [2..<Suc (length (c # cs))]"
    using map_Suc_upt[of 1 "Suc (length cs)"] by (metis (no_types, lifting) One_nat_def Suc_1 length_Cons list.map_comp map_eq_conv comp_apply)
  finally have e: "map (\<lambda>n. (base @ CHR ''/'' # c) @ path_of (take n cs)) [1..<Suc (length cs)]
      = map (\<lambda>n. base @ path_of (take n (c # cs))) [2..<Suc (length (c # cs))]" .
  have "[1..<Suc (length (c # cs))] = 1 # [2..<Suc (length (c # cs))]"
    using upt_conv_Cons[of 1 "Suc (length (c # cs))"] by (simp only: Suc_1) simp
  then show ?case using e Cons.IH[of "base @ CHR ''/'' # c"] by (simp add: Let_def path_of_def[of "[c]"])
qed simp

lemma ancestors_path [path_simps]:
  assumes "list_all proper cs" "cs \<noteq> []"
  shows "ancestors (path_of cs) = map (\<lambda>n. path_of (take n cs)) [1..<Suc (length cs)]"
proof -
  have "filter (\<lambda>x. x \<noteq> []) cs = cs" using assms(1) by (induction cs) (auto simp: proper_def)
  then show ?thesis using split_path[OF assms] prefixes_path[of "[]" cs] by (simp add: ancestors_def)
qed

lemma ancestors_set:
  assumes "list_all proper cs" "cs \<noteq> []"
  shows "q \<in> set (ancestors (path_of cs)) \<longleftrightarrow> (\<exists>ds r. q = path_of ds \<and> ds \<noteq> [] \<and> cs = ds @ r)"
proof
  assume "q \<in> set (ancestors (path_of cs))"
  then obtain n where "q = path_of (take n cs)" "1 \<le> n" using assms by (auto simp: ancestors_path)
  then show "\<exists>ds r. q = path_of ds \<and> ds \<noteq> [] \<and> cs = ds @ r"
    using assms(2) by (intro exI[of _ "take n cs"] exI[of _ "drop n cs"]) auto
next
  assume "\<exists>ds r. q = path_of ds \<and> ds \<noteq> [] \<and> cs = ds @ r"
  then obtain ds r where d: "q = path_of ds" "ds \<noteq> []" "cs = ds @ r" by blast
  then have "q = path_of (take (length ds) cs)" "length ds \<in> set [1..<Suc (length cs)]"
    by (auto simp: Suc_le_eq)
  then show "q \<in> set (ancestors (path_of cs))"
    unfolding ancestors_path[OF assms] set_map by (rule image_eqI)
qed

lemma child_path [path_simps]:
  assumes "list_all proper cs" "cs \<noteq> []" "proper a"
  shows "child_name (path_of cs) (path_of (cs @ [a])) = Some a"
  using assms by (simp add: child_name_def path_snoc proper_def)

lemma child_nameD: "child_name dir p = Some n \<Longrightarrow> p = dir @ CHR ''/'' # n \<and> n \<noteq> [] \<and> CHR ''/'' \<notin> set n"
proof -
  assume "child_name dir p = Some n"
  then have "take (Suc (length dir)) p = dir @ ''/''" "n = drop (Suc (length dir)) p" "n \<noteq> []" "CHR ''/'' \<notin> set n"
    by (auto simp: child_name_def Let_def split: if_splits)
  then show ?thesis using append_take_drop_id[of "Suc (length dir)" p] by simp
qed

end
