(* ===== verification/SessionQuiet.thy ===== *)
theory SessionQuiet
  imports SessionFrame Paths
begin

section \<open>The session store when the operating system reports no failure\<close>

text \<open>
  With no failing call the readers of the session store are functions of the file tree that leave the
  state as it was, and the writers replace one file. The collection \<open>quiet_eqs\<close> holds the readers'
  equations, \<open>wrote\<close> says what a write did.
\<close>

named_theorems quiet_eqs "operations of the session store as functions of the file tree"

definition quiet :: "'w world_scheme \<Rightarrow> bool" where
  "quiet s \<longleftrightarrow> w_fault s = (\<lambda>_ _. False)"

subsection \<open>Readers\<close>

lemma reopened [simp]:
  "(opened p s)\<lparr>w_open := (w_open (opened p s))(p := w_open (opened p s) p - Suc 0)\<rparr> = (s :: fsrepo)"
  by (simp add: opened_def)

lemma quiet_opened [simp]: "quiet (opened p s) = quiet s" "w_files (opened p s) = w_files s" "w_now (opened p s) = w_now s"
  by (simp_all add: quiet_def opened_def)

lemma quiet_calls:
  assumes "quiet s"
  shows "os_OpenRead p s = (case fs_get (w_files s) p of None \<Rightarrow> (Inl (ENotExist p), s) | Some _ \<Rightarrow> (Inr (), opened p s))"
    and "os_Stat p s = (case fs_get (w_files s) p of None \<Rightarrow> (Inl (ENotExist p), s) | Some n \<Rightarrow> (Inr n, s))"
    and "os_ReadAll p s = (Inr (case fs_get (w_files s) p of None \<Rightarrow> [] | Some n \<Rightarrow> n_content n), s)"
    and "os_ReadDir p s = (Inr (fs_children (w_files s) p), s)"
    and "os_Close p s = (Inr (), s\<lparr>w_open := (w_open s)(p := w_open s p - 1)\<rparr>)"
    and "os_RemoveAll p s = (Inr (), s\<lparr>w_files := fs_delTree (w_files s) p\<rparr>)"
  using assms by (simp_all add: quiet_def os_OpenRead_def os_Stat_def os_ReadAll_def os_ReadDir_def os_Close_def
      os_RemoveAll_def split: option.splits)

lemma getToken_quiet [quiet_eqs]:
  "quiet s \<Longrightarrow> getToken d sess kind s =
     (Inr (case fs_get (w_files s) (fileOf d (ss_flow sess) (ss_id sess) kind s) of None \<Rightarrow> [] | Some n \<Rightarrow> n_content n), s)"
  by (cases "fs_get (w_files s) (fileOf d (ss_flow sess) (ss_id sess) kind s)")
    (simp_all add: getToken_def sess_openRead_def sm_defs quiet_calls)

definition tokenMatches :: "'k deps \<Rightarrow> bytes \<Rightarrow> bytes \<Rightarrow> sid \<Rightarrow> fsrepo \<Rightarrow> bool" where
  "tokenMatches d t flow i s =
     (case fs_get (w_files s) (fileOf d flow i FsFileAccessToken s) of
        None \<Rightarrow> False
      | Some n \<Rightarrow> t = [] \<or> isReaderEqualToBytes (n_content n) t)"

lemma hasAccessToken_quiet [quiet_eqs]: "quiet s \<Longrightarrow> hasAccessToken d flow i t s = (Inr (tokenMatches d t flow i s), s)"
  by (cases "fs_get (w_files s) (fileOf d flow i FsFileAccessToken s)")
    (simp_all add: hasAccessToken_def sess_openRead_def sm_defs quiet_calls tokenMatches_def
      isReaderEqualToBytes.simps[of _ "[]"])

definition storedSession :: "'k deps \<Rightarrow> bytes \<Rightarrow> sid \<Rightarrow> fsrepo \<Rightarrow> sess_err + fs_session" where
  "storedSession d flow i s =
     (case fs_get (w_files s) (fileOf d flow i FsFileSession s) of
        None \<Rightarrow> Inl ErrNoSuchSession
      | Some n \<Rightarrow>
          (case d_infoDecode d (n_content n) of
             None \<Rightarrow> Inl (SErrDecode (fileOf d flow i FsFileSession s))
           | Some (st, u, h) \<Rightarrow>
               Inr \<lparr>ss_flow = flow, ss_id = i, ss_state = st, ss_createdAt = n_mtime n, ss_remoteUser = u, ss_remoteHost = h\<rparr>))"

lemma findByPlain_quiet [quiet_eqs]: "quiet s \<Longrightarrow> findByPlain d flow i s = (storedSession d flow i s, s)"
  by (cases "fs_get (w_files s) (fileOf d flow i FsFileSession s)")
    (auto simp: findByPlain_def findByWith_def sess_openRead_def sm_defs quiet_calls storedSession_def Let_def
      split: option.splits)

lemma FindBy_quiet [quiet_eqs]: "quiet s \<Longrightarrow> FindBy d flow i None s = (storedSession d flow i s, s)"
  by (simp add: FindBy_def findBy_plain quiet_eqs)

lemma findBy_expected_quiet [quiet_eqs]: "quiet s \<Longrightarrow> findBy d flow i None True s = (storedSession d flow i s, s)"
proof -
  assume q: "quiet s"
  have e: "doAutoCleanUnexpectedFilesIfAllowed d None = (\<lambda>_. returnE ())" "doFindAutoCleanIfAllowed d flow i None = returnE ()"
    by (auto simp: doAutoCleanUnexpectedFilesIfAllowed_def doFindAutoCleanIfAllowed_def IsAutoCleanUpAllowed_def)
  show ?thesis using q unfolding findBy_def e
    by (cases "fs_get (w_files s) (fileOf d flow i FsFileSession s)")
      (auto simp: GetPredicates_def findByWith_def sess_openRead_def sm_defs quiet_calls storedSession_def Let_def
        split: option.splits)
qed

lemma lastAccessed_quiet [quiet_eqs]:
  "quiet s \<Longrightarrow> lastAccessed d sess s =
     ((let fn = fileOf d (ss_flow sess) (ss_id sess) FsFileLastAccessed s in
       case fs_get (w_files s) fn of
        None \<Rightarrow> Inl (SErrOs (ENotExist fn))
      | Some n \<Rightarrow> (case d_laDecode d (n_content n) of None \<Rightarrow> Inl (SErrDecode fn) | Some la \<Rightarrow> Inr (la, n_mtime n))), s)"
  by (cases "fs_get (w_files s) (fileOf d (ss_flow sess) (ss_id sess) FsFileLastAccessed s)")
    (auto simp: lastAccessed_def sess_openRead_def sm_defs quiet_calls Let_def split: option.splits)

subsection \<open>Searching\<close>

text \<open>The first candidate that is a hit; an error on the way ends the search.\<close>

primrec firstHit :: "('n \<Rightarrow> 'e + 'x option) \<Rightarrow> 'n list \<Rightarrow> 'e + 'x option" where
  "firstHit p [] = Inr None"
| "firstHit p (n # ns) =
     (case p n of Inl e \<Rightarrow> Inl e | Inr None \<Rightarrow> firstHit p ns | Inr (Some x) \<Rightarrow> Inr (Some x))"

lemma firstHit_concat:
  "firstHit (\<lambda>n. firstHit (\<lambda>m. p (n, m)) (g n)) ns = firstHit p (concat (map (\<lambda>n. map (Pair n) (g n)) ns))"
proof -
  have a: "firstHit p (xs @ ys) =
      (case firstHit p xs of Inl e \<Rightarrow> Inl e | Inr None \<Rightarrow> firstHit p ys | Inr (Some x) \<Rightarrow> Inr (Some x))" for xs ys
    by (induction xs) (auto split: sum.splits option.splits)
  have m: "firstHit p (map (Pair n) ms) = firstHit (\<lambda>m. p (n, m)) ms" for n ms
    by (induction ms) (auto split: sum.splits option.splits)
  show ?thesis by (induction ns) (auto simp: a m split: sum.splits option.splits)
qed

lemma firstHit_Inr: "firstHit p ns = Inr (Some x) \<Longrightarrow> \<exists>n \<in> set ns. p n = Inr (Some x)"
  by (induction ns) (auto split: sum.splits option.splits)

lemma firstHit_None: "firstHit p ns = Inr None \<longleftrightarrow> (\<forall>n \<in> set ns. p n = Inr None)"
  by (induction ns) (auto split: sum.splits option.splits)

definition properNames :: "(bytes \<Rightarrow> 'n option) \<Rightarrow> (bytes \<times> bool) list \<Rightarrow> 'n list" where
  "properNames parse es = List.map_filter (\<lambda>(name, isDir). if isDir then parse name else None) es"

lemma entryLoop_quiet:
  assumes "\<And>n. consumer None n s = (map_sum id (\<lambda>x. (x, x = None)) (p n), s)" "\<not> IsAutoCleanUpAllowed opts"
  shows "entryLoop opts dir parse consumer None es s = (firstHit p (properNames parse es), s)"
proof (induction es)
  case (Cons e es)
  obtain name isDir where e: "e = (name, isDir)" by (cases e)
  have c: "cleanPath opts fn = returnE ()" for fn using assms(2) by (simp add: cleanPath_def)
  show ?case
  proof (cases "if isDir then parse name else None")
    case None
    then show ?thesis using Cons.IH by (auto simp: e c properNames_def map_filter_simps split: if_splits)
  next
    case (Some n)
    then have pn: "isDir" "parse name = Some n" by (auto split: if_splits)
    then have h: "properNames parse (e # es) = n # properNames parse es"
      by (simp add: e properNames_def map_filter_simps)
    show ?thesis
    proof (cases "p n")
      case (Inl err)
      then show ?thesis using assms(1)[of n] unfolding h by (simp add: e pn bindE_def)
    next
      case (Inr x)
      then show ?thesis using assms(1)[of n] Cons.IH unfolding h
        by (cases x) (simp_all add: e pn bindE_def returnE_def)
    qed
  qed
qed (simp add: properNames_def map_filter_simps returnE_def)

text \<open>The sessions a search goes through: the directories with proper names, in the order of the tree.\<close>

definition namesIn :: "(bytes \<Rightarrow> 'n option) \<Rightarrow> bytes \<Rightarrow> fsrepo \<Rightarrow> 'n list" where
  "namesIn parse dir s =
     (case fs_get (w_files s) dir of None \<Rightarrow> [] | Some _ \<Rightarrow> properNames parse (fs_children (w_files s) dir))"

definition storedIds :: "'k deps \<Rightarrow> fsrepo \<Rightarrow> (bytes \<times> sid) list" where
  "storedIds d s =
     concat (map (\<lambda>flow. map (Pair flow) (namesIn (d_uuidParse d) (filepath_Join [sr_Storage s, flow]) s))
       (namesIn FlowName_UnmarshalText (sr_Storage s) s))"

lemma iterateFlows_quiet:
  assumes "quiet s" "\<And>n t. t = s \<or> t = opened (sr_Storage s) s \<Longrightarrow> consumer None n t = (map_sum id (\<lambda>x. (x, x = None)) (p n), t)"
    "\<not> IsAutoCleanUpAllowed opts"
  shows "iterateFlows opts consumer None s = (firstHit p (namesIn FlowName_UnmarshalText (sr_Storage s) s), s)"
proof (cases "fs_get (w_files s) (sr_Storage s)")
  case None
  then show ?thesis using assms(1) by (simp add: iterateFlows_def sm_defs quiet_calls namesIn_def)
next
  case (Some n)
  let ?t = "opened (sr_Storage s) s"
  have e: "entryLoop opts dir FlowName_UnmarshalText consumer None es ?t = (firstHit p (properNames FlowName_UnmarshalText es), ?t)"
    for dir es by (rule entryLoop_quiet) (rule assms(2), simp, rule assms(3))
  show ?thesis using assms(1) Some e
    by (cases "firstHit p (properNames FlowName_UnmarshalText (fs_children (w_files s) (sr_Storage s)))")
      (simp_all add: iterateFlows_def namesIn_def bindE_def getE_def tryE_def mapErrE_def deferE_def quiet_calls)
qed

lemma iterateFlowDirs_quiet:
  assumes "quiet s" "\<And>n t. quiet t \<Longrightarrow> w_files t = w_files s \<Longrightarrow> w_now t = w_now s \<Longrightarrow> world.more t = world.more s \<Longrightarrow>
     consumer None n t = (map_sum id (\<lambda>x. (x, x = None)) (p n), t)"
    "\<not> IsAutoCleanUpAllowed opts"
  shows "iterateFlowDirs d flow opts consumer None s =
     (firstHit p (namesIn (d_uuidParse d) (filepath_Join [sr_Storage s, flow]) s), s)"
proof (cases "fs_get (w_files s) (filepath_Join [sr_Storage s, flow])")
  case None
  then show ?thesis using assms(1,3)
    by (simp add: iterateFlowDirs_def sm_defs quiet_calls namesIn_def)
next
  case (Some n)
  let ?dir = "filepath_Join [sr_Storage s, flow]"
  let ?t = "opened ?dir s"
  have "consumer None n ?t = (map_sum id (\<lambda>x. (x, x = None)) (p n), ?t)" for n
    by (rule assms(2)) (simp add: assms(1), simp, simp, simp add: opened_def)
  then have e: "entryLoop opts dir (d_uuidParse d) consumer None es ?t = (firstHit p (properNames (d_uuidParse d) es), ?t)"
    for dir es using assms(3) by (rule entryLoop_quiet)
  show ?thesis using assms(1,3) Some e
    by (cases "firstHit p (properNames (d_uuidParse d) (fs_children (w_files s) ?dir))")
      (simp_all add: iterateFlowDirs_def namesIn_def bindE_def getE_def tryE_def mapErrE_def deferE_def returnE_def
        quiet_calls)
qed

text \<open>What a search does with one candidate.\<close>

definition candidateOf :: "'k deps \<Rightarrow> (bytes \<Rightarrow> sid \<Rightarrow> fsrepo \<Rightarrow> sess_err + bool) \<Rightarrow> fsrepo \<Rightarrow> bytes \<times> sid \<Rightarrow> sess_err + fs_session option" where
  "candidateOf d probe s = (\<lambda>(flow, i).
     (case bindR (probe flow i s) (\<lambda>ok. if ok then storedSession d flow i s else Inl ErrNoSuchSession) of
        Inl e \<Rightarrow> if isNoSuchSession e then Inr None else Inl e
      | Inr sess \<Rightarrow> Inr (Some sess)))"

definition sameStore :: "fsrepo \<Rightarrow> fsrepo \<Rightarrow> bool" where
  "sameStore s t \<longleftrightarrow> quiet t \<and> w_files t = w_files s \<and> w_now t = w_now s \<and> world.more t = world.more s"

lemma sameStore_path: "sameStore s t \<Longrightarrow> fileOf d flow i kind t = fileOf d flow i kind s" "sameStore s t \<Longrightarrow> sr_Storage t = sr_Storage s"
  by (cases s, cases t, simp add: sameStore_def fileOf_def)+

lemma sameStore_stored: "sameStore s t \<Longrightarrow> storedSession d flow i t = storedSession d flow i s"
  using sameStore_path(1)[of s t d] by (simp add: storedSession_def sameStore_def split: option.split)

lemma sameStore_names: "sameStore s t \<Longrightarrow> namesIn parse dir t = namesIn parse dir s"
  by (simp add: namesIn_def sameStore_def split: option.split)

lemma search_quiet:
  assumes q: "quiet s" and nc: "\<not> IsAutoCleanUpAllowed opts"
    and c: "\<And>flow i t. sameStore s t \<Longrightarrow> tryCandidate d probe opts flow i t = (cand (flow, i), t)"
  shows "searchFirst d probe opts s =
     (case firstHit cand (storedIds d s) of
        Inl e \<Rightarrow> Inl (SErrCannotFind e) | Inr None \<Rightarrow> Inl ErrNoSuchSession | Inr (Some sess) \<Rightarrow> Inr sess, s)"
proof -
  define inner where "inner flow = firstHit (\<lambda>i. cand (flow, i)) (namesIn (d_uuidParse d) (filepath_Join [sr_Storage s, flow]) s)" for flow
  have i: "iterateFlowDirs d flow opts (\<lambda>result i. bindE (tryCandidate d probe opts flow i)
      (\<lambda>c. case c of None \<Rightarrow> returnE (result, True) | Some sess \<Rightarrow> returnE (Some sess, False))) None t = (inner flow, t)"
    if t: "sameStore s t" for flow t
  proof -
    have "iterateFlowDirs d flow opts (\<lambda>result i. bindE (tryCandidate d probe opts flow i)
      (\<lambda>c. case c of None \<Rightarrow> returnE (result, True) | Some sess \<Rightarrow> returnE (Some sess, False))) None t =
      (firstHit (\<lambda>i. cand (flow, i)) (namesIn (d_uuidParse d) (filepath_Join [sr_Storage t, flow]) t), t)"
    proof (rule iterateFlowDirs_quiet[OF _ _ nc])
      show "quiet t" using t by (simp add: sameStore_def)
      fix i u assume "quiet u" "w_files u = w_files t" "w_now u = w_now t" "world.more u = world.more t"
      then have "sameStore s u" using t by (simp add: sameStore_def)
      from c[OF this, of flow i]
      show "bindE (tryCandidate d probe opts flow i)
        (\<lambda>c. case c of None \<Rightarrow> returnE (None, True) | Some sess \<Rightarrow> returnE (Some sess, False)) u =
        (map_sum id (\<lambda>x. (x, x = None)) (cand (flow, i)), u)"
        by (simp add: bindE_def returnE_def split: sum.splits option.splits)
    qed
    then show ?thesis using sameStore_path(2)[OF t] by (simp add: inner_def sameStore_names[OF t])
  qed
  have o: "iterateFlows opts (\<lambda>result flow. bindE (iterateFlowDirs d flow opts (\<lambda>result i. bindE (tryCandidate d probe opts flow i)
      (\<lambda>c. case c of None \<Rightarrow> returnE (result, True) | Some sess \<Rightarrow> returnE (Some sess, False))) result)
      (\<lambda>result'. returnE (result', result' = None))) None s = (firstHit inner (namesIn FlowName_UnmarshalText (sr_Storage s) s), s)"
  proof (rule iterateFlows_quiet[OF q _ nc])
    fix flow t assume "t = s \<or> t = opened (sr_Storage s) s"
    then have "sameStore s t" using q by (auto simp: sameStore_def opened_def quiet_def)
    from i[OF this, of flow]
    show "bindE (iterateFlowDirs d flow opts (\<lambda>result i. bindE (tryCandidate d probe opts flow i)
      (\<lambda>c. case c of None \<Rightarrow> returnE (result, True) | Some sess \<Rightarrow> returnE (Some sess, False))) None)
      (\<lambda>result'. returnE (result', result' = None)) t = (map_sum id (\<lambda>x. (x, x = None)) (inner flow), t)"
      by (simp add: bindE_def returnE_def split: sum.splits)
  qed
  have "firstHit inner (namesIn FlowName_UnmarshalText (sr_Storage s) s) = firstHit (cand) (storedIds d s)"
    unfolding inner_def storedIds_def by (rule firstHit_concat)
  then show ?thesis using o
    by (simp add: searchFirst_def bindE_def mapErrE_def throwE_def returnE_def split: sum.splits option.splits)
qed

lemma searchFirst_quiet:
  assumes q: "quiet s" and probe: "\<And>flow i t. sameStore s t \<Longrightarrow> probe flow i t = (v flow i s, t)"
  shows "searchFirst d probe None s =
     (case firstHit (candidateOf d v s) (storedIds d s) of
        Inl e \<Rightarrow> Inl (SErrCannotFind e) | Inr None \<Rightarrow> Inl ErrNoSuchSession | Inr (Some sess) \<Rightarrow> Inr sess, s)"
proof (rule search_quiet[OF q])
  fix flow i t assume t: "sameStore s t"
  then have q: "quiet t" by (simp add: sameStore_def)
  show "tryCandidate d probe None flow i t = (candidateOf d v s (flow, i), t)"
    using probe[OF t] findBy_expected_quiet[OF q, of d flow i] sameStore_stored[OF t, of d flow i]
    by (cases "v flow i s"; cases "storedSession d flow i s")
      (auto simp: tryCandidate_def candidateOf_def sm_defs)
qed (simp add: IsAutoCleanUpAllowed_def)

end
