(* ===== verification/SessionWrites.thy ===== *)
theory SessionWrites
  imports SessionQuiet
begin

section \<open>The writers of the session store when the operating system reports no failure\<close>

text \<open>
  \<open>placed\<close>: the storage directory and the flow's name are proper paths, so the files of a session are
  the components storage, flow, UUID, kind. \<open>writable\<close>: nothing stands in the way of writing the file.
  \<open>wrote p c s t\<close>: from \<open>s\<close> to \<open>t\<close> the file \<open>p\<close> got the content \<open>c\<close>, missing directories above it were
  made, and nothing else changed.
\<close>

subsection \<open>Paths of a session\<close>

definition placed :: "bytes list \<Rightarrow> bytes \<Rightarrow> fsrepo \<Rightarrow> bool" where
  "placed st flow s \<longleftrightarrow> sr_Storage s = path_of st \<and> st \<noteq> [] \<and> list_all proper st \<and> proper flow"

lemma proper_uuid: "deps_ok d \<Longrightarrow> proper (d_uuidText d i)"
  unfolding proper_def deps_ok_def by (metis list.set_intros(1))

lemma proper_kinds [simp]:
  "proper FsFileSession" "proper FsFileLastAccessed" "proper FsFileAccessToken" "proper FsFileEnvironmentToken"
  by (simp_all add: proper_def)

lemma proper_publicKeyKind: "deps_ok d \<Longrightarrow> proper (publicKeyKind d k)"
  by (auto simp: proper_def deps_ok_def publicKeyKind_def)

lemma dirOf_path:
  "placed st flow s \<Longrightarrow> deps_ok d \<Longrightarrow> dirOf d flow i s = path_of (st @ [flow, d_uuidText d i])"
  by (simp add: placed_def dirOf_def sess_dir_def path_simps proper_uuid)

lemma fileOf_path:
  assumes "placed st flow s" "deps_ok d" "proper kind"
  shows "fileOf d flow i kind s = path_of (st @ [flow, d_uuidText d i, kind])"
proof -
  have "list_all proper (st @ [flow, d_uuidText d i])"
    using assms proper_uuid[OF assms(2)] by (simp add: placed_def)
  then have "filepath_Join [path_of (st @ [flow, d_uuidText d i]), kind] = path_of ((st @ [flow, d_uuidText d i]) @ [kind])"
    using assms(3) by (intro Join_path) auto
  then show ?thesis using dirOf_path[OF assms(1,2), of i] by (simp add: fileOf_def sess_file_def dirOf_def)
qed

lemma Dir_fileOf:
  assumes "placed st flow s" "deps_ok d" "proper kind"
  shows "filepath_Dir (fileOf d flow i kind s) = dirOf d flow i s"
proof -
  have "list_all proper (st @ [flow, d_uuidText d i])"
    using assms proper_uuid[OF assms(2)] by (simp add: placed_def)
  then show ?thesis using Dir_path[of "st @ [flow, d_uuidText d i]" kind] assms
    by (simp add: fileOf_path dirOf_path)
qed

lemma fileOf_inj:
  assumes "placed st flow s" "deps_ok d" "proper kind" "proper kind'"
  shows "fileOf d flow i kind s = fileOf d flow i kind' s \<longleftrightarrow> kind = kind'"
  using assms proper_uuid[OF assms(2), of i] unfolding fileOf_path[OF assms(1,2,3)] fileOf_path[OF assms(1,2,4)]
  by (subst path_inj) (simp_all add: placed_def)

lemma fileOf_not_ancestor:
  assumes "placed st flow s" "deps_ok d" "proper kind"
  shows "fileOf d flow i kind s \<notin> set (ancestors (dirOf d flow i s))"
proof
  let ?cs = "st @ [flow, d_uuidText d i]"
  assume "fileOf d flow i kind s \<in> set (ancestors (dirOf d flow i s))"
  moreover have p: "list_all proper ?cs" "list_all proper (?cs @ [kind])"
    using assms proper_uuid[OF assms(2)] by (simp_all add: placed_def)
  moreover have ne: "?cs \<noteq> []" by simp
  moreover have "path_of (?cs @ [kind]) = fileOf d flow i kind s" using fileOf_path[OF assms] by simp
  ultimately obtain ds r where d: "path_of (?cs @ [kind]) = path_of ds" "ds \<noteq> []" "?cs = ds @ r"
    using ancestors_set[OF p(1) ne, of "fileOf d flow i kind s"] unfolding dirOf_path[OF assms(1,2)] by metis
  then have "list_all proper ds" using p by (metis list_all_append)
  then have "?cs @ [kind] = ds" using path_inj[of "?cs @ [kind]" ds] d p by simp
  then have "length ds = Suc (length ?cs)" by auto
  then show False using arg_cong[OF d(3), of length] by simp
qed

lemma dir_ancestor:
  assumes "placed st flow s" "deps_ok d"
  shows "dirOf d flow i s \<in> set (ancestors (dirOf d flow i s))"
proof -
  let ?cs = "st @ [flow, d_uuidText d i]"
  have "list_all proper ?cs" using assms proper_uuid[OF assms(2)] by (simp add: placed_def)
  from ancestors_set[OF this, of "path_of ?cs"] show ?thesis using assms by (auto simp: dirOf_path)
qed

subsection \<open>What a write does\<close>

definition wrote :: "bytes \<Rightarrow> bytes \<Rightarrow> fsrepo \<Rightarrow> fsrepo \<Rightarrow> bool" where
  "wrote p c s t \<longleftrightarrow>
     t = s\<lparr>w_files := w_files t\<rparr> \<and>
     (\<exists>n. fs_get (w_files t) p = Some n \<and> \<not> n_isDir n \<and> n_content n = c \<and> n_mtime n = w_now s) \<and>
     (\<forall>a \<in> set (ancestors (filepath_Dir p)). \<exists>n. fs_get (w_files t) a = Some n \<and> n_isDir n) \<and>
     (\<forall>q. q \<noteq> p \<longrightarrow> q \<notin> set (ancestors (filepath_Dir p)) \<longrightarrow> fs_get (w_files t) q = fs_get (w_files s) q)"

definition writable :: "'k deps \<Rightarrow> bytes list \<Rightarrow> bytes \<Rightarrow> sid \<Rightarrow> bytes \<Rightarrow> fsrepo \<Rightarrow> bool" where
  "writable d st flow i kind s \<longleftrightarrow>
     quiet s \<and> deps_ok d \<and> placed st flow s \<and> proper kind \<and>
     (\<forall>a \<in> set (ancestors (dirOf d flow i s)). \<forall>n. fs_get (w_files s) a = Some n \<longrightarrow> n_isDir n) \<and>
     (\<forall>n. fs_get (w_files s) (fileOf d flow i kind s) = Some n \<longrightarrow> \<not> n_isDir n)"

lemma MkdirAll_quiet:
  assumes "quiet s" "\<forall>a \<in> set (ancestors p). \<forall>n. fs_get (w_files s) a = Some n \<longrightarrow> n_isDir n"
  shows "\<exists>F. os_MkdirAll p m s = (Inr (), s\<lparr>w_files := F\<rparr>) \<and>
     (\<forall>q. fs_get F q = (if q \<in> set (ancestors p) \<and> fs_get (w_files s) q = None then Some (newDir (w_now s) m)
        else fs_get (w_files s) q))"
proof -
  define step where "step = (\<lambda>a (s :: 'a world_scheme).
        if w_fault s OpMkdir a then (Inl (EFault OpMkdir a), s)
        else case fs_get (w_files s) a of
            None \<Rightarrow> (Inr (), s\<lparr>w_files := fs_put (w_files s) a (newDir (w_now s) m)\<rparr>)
          | Some n \<Rightarrow> if n_isDir n then (Inr (), s) else (Inl (ENotDir a), s))"
  have "quiet s \<Longrightarrow> \<forall>a \<in> set as. \<forall>n. fs_get (w_files s) a = Some n \<longrightarrow> n_isDir n \<Longrightarrow>
     \<exists>F. forE step as s = (Inr (), s\<lparr>w_files := F\<rparr>) \<and>
     (\<forall>q. fs_get F q = (if q \<in> set as \<and> fs_get (w_files s) q = None then Some (newDir (w_now s) m)
        else fs_get (w_files s) q))" for as and s :: "'a world_scheme"
  proof (induction as arbitrary: s)
    case Nil
    then show ?case by (intro exI[of _ "w_files s"]) (simp add: returnE_def)
  next
    case (Cons a as)
    show ?case
    proof (cases "fs_get (w_files s) a")
      case None
      let ?t = "s\<lparr>w_files := fs_put (w_files s) a (newDir (w_now s) m)\<rparr>"
      have "step a s = (Inr (), ?t)" using None Cons.prems(1) by (simp add: step_def quiet_def)
      moreover have "quiet ?t" "\<forall>a \<in> set as. \<forall>n. fs_get (w_files ?t) a = Some n \<longrightarrow> n_isDir n"
        using Cons.prems by (auto simp: quiet_def newDir_def)
      moreover obtain F where "forE step as ?t = (Inr (), ?t\<lparr>w_files := F\<rparr>)"
        and "\<And>q. fs_get F q = (if q \<in> set as \<and> fs_get (w_files ?t) q = None then Some (newDir (w_now ?t) m)
           else fs_get (w_files ?t) q)" using Cons.IH[of ?t] calculation by blast
      ultimately show ?thesis using None by (intro exI[of _ F]) (auto simp: bindE_def)
    next
      case (Some n)
      then have "step a s = (Inr (), s)" using Cons.prems by (simp add: step_def quiet_def)
      then show ?thesis using Cons.IH[of s] Cons.prems Some by (auto simp: bindE_def)
    qed
  qed
  then show ?thesis using assms by (simp add: os_MkdirAll_def step_def)
qed

lemma openWrite_quiet:
  assumes w: "writable d st flow i kind s"
  defines "fn \<equiv> fileOf d flow i kind s"
  shows "\<exists>t. sess_openWrite d flow i kind False s = (Inr fn, opened fn t) \<and> wrote fn [] s t"
proof -
  let ?dir = "dirOf d flow i s" and ?m = "unat (dirFileMode (sr_FileMode s))"
  have q: "quiet s" and dir: "filepath_Dir fn = ?dir" and na: "fn \<notin> set (ancestors ?dir)" and da: "?dir \<in> set (ancestors ?dir)"
    using w Dir_fileOf[of st flow s d kind i] fileOf_not_ancestor[of st flow s d kind i] dir_ancestor[of st flow s d i]
    by (auto simp: writable_def fn_def)
  obtain F where F: "os_MkdirAll ?dir ?m s = (Inr (), s\<lparr>w_files := F\<rparr>)"
    and get: "\<And>q. fs_get F q = (if q \<in> set (ancestors ?dir) \<and> fs_get (w_files s) q = None
       then Some (newDir (w_now s) ?m) else fs_get (w_files s) q)"
    using MkdirAll_quiet[OF q, of ?dir ?m] w by (auto simp: writable_def)
  define G where "G = (case fs_get F fn of
      Some n \<Rightarrow> fs_put F fn (n\<lparr>n_content := [], n_mtime := w_now s\<rparr>)
    | None \<Rightarrow> fs_put F fn (newFile (w_now s) (unat (sr_FileMode s))))"
  have dirs: "\<forall>a \<in> set (ancestors ?dir). \<exists>n. fs_get F a = Some n \<and> n_isDir n"
    using w get by (auto simp: writable_def newDir_def)
  have nd: "\<forall>n. fs_get F fn = Some n \<longrightarrow> \<not> n_isDir n" using w get na by (auto simp: writable_def fn_def)
  have "os_OpenCreate True (unat (sr_FileMode s)) fn (s\<lparr>w_files := F\<rparr>) = (Inr (), opened fn (s\<lparr>w_files := G\<rparr>))"
    using q nd dirs da by (auto simp: os_OpenCreate_def quiet_def G_def dir split: option.splits)
  then have "sess_openWrite d flow i kind False s = (Inr fn, opened fn (s\<lparr>w_files := G\<rparr>))"
    using F dir by (simp add: sess_openWrite_def fn_def[symmetric] sm_defs)
  moreover have "wrote fn [] s (s\<lparr>w_files := G\<rparr>)"
    unfolding wrote_def dir using nd dirs get na
    by (auto simp: G_def newFile_def split: option.splits)
  ultimately show ?thesis by blast
qed

lemma wrote_fields:
  assumes "wrote p c s t"
  shows "quiet t = quiet s" "world.more t = world.more s" "w_now t = w_now s" "w_open t = w_open s"
    "sr_Storage t = sr_Storage s" "fileOf d flow i kind t = fileOf d flow i kind s" "dirOf d flow i t = dirOf d flow i s"
    "placed st flow t = placed st flow s"
proof -
  have t: "t = s\<lparr>w_files := w_files t\<rparr>" using assms by (simp add: wrote_def)
  show "quiet t = quiet s" "world.more t = world.more s" "w_now t = w_now s" "w_open t = w_open s"
    "sr_Storage t = sr_Storage s" "fileOf d flow i kind t = fileOf d flow i kind s" "dirOf d flow i t = dirOf d flow i s"
    "placed st flow t = placed st flow s"
    by (subst t, simp add: quiet_def fileOf_def dirOf_def placed_def)+
qed

lemma write_opened:
  assumes "wrote p c s t" "quiet s"
  shows "\<exists>u. osE (os_Write p bs) (opened p t) = (Inr (), opened p u) \<and> wrote p (c @ bs) s u"
    and "\<exists>u. osE (os_Chtimes p (w_now s)) (opened p t) = (Inr (), opened p u) \<and> wrote p c s u"
    and "osE (os_Close p) (opened p t) = (Inr (), t)" "os_Close p (opened p t) = (Inr (), t)"
proof -
  obtain T where t: "t = s\<lparr>w_files := T\<rparr>" and w: "wrote p c s (s\<lparr>w_files := T\<rparr>)"
    using assms(1) by (metis wrote_def)
  obtain n where n: "fs_get T p = Some n" "\<not> n_isDir n" "n_content n = c" "n_mtime n = w_now s"
    using w by (auto simp: wrote_def)
  have q: "w_fault s = (\<lambda>_ _. False)" using assms(2) by (simp add: quiet_def)
  have put: "wrote p (n_content m) s (s\<lparr>w_files := fs_put T p m\<rparr>)" if "\<not> n_isDir m" "n_mtime m = w_now s" for m
    using w that unfolding wrote_def by auto
  show "\<exists>u. osE (os_Write p bs) (opened p t) = (Inr (), opened p u) \<and> wrote p (c @ bs) s u"
    using n q put[of "n\<lparr>n_content := c @ bs, n_mtime := w_now s\<rparr>"]
    by (intro exI[of _ "s\<lparr>w_files := fs_put T p (n\<lparr>n_content := c @ bs, n_mtime := w_now s\<rparr>)\<rparr>"])
      (simp add: os_Write_def mapErrE_def opened_def fs_setContent_def t)
  show "\<exists>u. osE (os_Chtimes p (w_now s)) (opened p t) = (Inr (), opened p u) \<and> wrote p c s u"
    using n q put[of "n\<lparr>n_mtime := w_now s\<rparr>"]
    by (intro exI[of _ "s\<lparr>w_files := fs_put T p (n\<lparr>n_mtime := w_now s\<rparr>)\<rparr>"])
      (simp add: os_Chtimes_def mapErrE_def opened_def t)
  show "osE (os_Close p) (opened p t) = (Inr (), t)" "os_Close p (opened p t) = (Inr (), t)"
    using q reopened[of p t] by (simp_all add: os_Close_def mapErrE_def opened_def t)
qed

subsection \<open>The writers\<close>

lemma writableD:
  "writable d st flow i kind s \<Longrightarrow> quiet s" "writable d st flow i kind s \<Longrightarrow> deps_ok d"
  "writable d st flow i kind s \<Longrightarrow> placed st flow s" "writable d st flow i kind s \<Longrightarrow> proper kind"
  by (simp_all add: writable_def)

text \<open>After a write the file can be written again, and another kind can be if it could be before.\<close>

lemma wrote_writable:
  assumes w: "writable d st flow i kind s" and t: "wrote (fileOf d flow i kind s) c s t"
  shows "writable d st flow i kind t"
    and "writable d st flow i kind' s \<Longrightarrow> writable d st flow i kind' t"
    and "proper kind' \<Longrightarrow> kind' \<noteq> kind \<Longrightarrow>
       fs_get (w_files t) (fileOf d flow i kind' s) = fs_get (w_files s) (fileOf d flow i kind' s)"
proof -
  have p: "placed st flow s" "deps_ok d" "proper kind" using w by (simp_all add: writable_def)
  note f = wrote_fields[OF t] and D = Dir_fileOf[OF p, of i]
  have dirs: "\<forall>a \<in> set (ancestors (dirOf d flow i s)). \<forall>n. fs_get (w_files t) a = Some n \<longrightarrow> n_isDir n"
    using t unfolding wrote_def D by auto
  have fil: "\<forall>n. fs_get (w_files t) (fileOf d flow i kind s) = Some n \<longrightarrow> \<not> n_isDir n"
    using t by (auto simp: wrote_def)
  show other: "fs_get (w_files t) (fileOf d flow i k s) = fs_get (w_files s) (fileOf d flow i k s)"
    if "proper k" "k \<noteq> kind" for k
    using t fileOf_inj[OF p(1,2) that(1) p(3), of i] fileOf_not_ancestor[OF p(1,2) that(1), of i] that
    unfolding wrote_def D by blast
  show "writable d st flow i kind t" using w dirs fil by (simp add: writable_def f)
  assume k: "writable d st flow i kind' s"
  show "writable d st flow i kind' t"
  proof (cases "kind' = kind")
    case False
    then show ?thesis using k dirs other[of kind'] by (simp add: writable_def f)
  qed (use w dirs fil in \<open>simp add: writable_def f\<close>)
qed

lemma setToken_quiet:
  assumes w: "writable d st (ss_flow sess) (ss_id sess) kind s" and "data \<noteq> []"
  shows "\<exists>t. setToken d sess kind data s = (Inr (), t) \<and> wrote (fileOf d (ss_flow sess) (ss_id sess) kind s) data s t"
proof -
  let ?fn = "fileOf d (ss_flow sess) (ss_id sess) kind s"
  obtain a where a: "sess_openWrite d (ss_flow sess) (ss_id sess) kind False s = (Inr ?fn, opened ?fn a)" "wrote ?fn [] s a"
    using openWrite_quiet[OF w] by blast
  obtain b where b: "osE (os_Write ?fn data) (opened ?fn a) = (Inr (), opened ?fn b)" "wrote ?fn data s b"
    using write_opened(1)[OF a(2) writableD(1)[OF w], of data] by auto
  have "setToken d sess kind data s = (Inr (), b)"
    using assms(2) a(1) b(1) write_opened(3)[OF b(2) writableD(1)[OF w]] by (simp add: setToken_def bindE_def deferE_def)
  then show ?thesis using b(2) by blast
qed

lemma info_save_quiet:
  assumes w: "writable d st (ss_flow sess) (ss_id sess) FsFileSession s" and v: "State_MarshalText (ss_state sess) \<noteq> None"
  shows "\<exists>t. info_save d sess s = (Inr (), t) \<and>
     wrote (fileOf d (ss_flow sess) (ss_id sess) FsFileSession s) (d_infoEncode d (ss_state sess, ss_remoteUser sess, ss_remoteHost sess)) s t"
proof -
  let ?fn = "fileOf d (ss_flow sess) (ss_id sess) FsFileSession s"
    and ?c = "d_infoEncode d (ss_state sess, ss_remoteUser sess, ss_remoteHost sess)"
  obtain a where a: "sess_openWrite d (ss_flow sess) (ss_id sess) FsFileSession False s = (Inr ?fn, opened ?fn a)" "wrote ?fn [] s a"
    using openWrite_quiet[OF w] by blast
  obtain b where b: "osE (os_Write ?fn ?c) (opened ?fn a) = (Inr (), opened ?fn b)" "wrote ?fn ?c s b"
    using write_opened(1)[OF a(2) writableD(1)[OF w], of ?c] by auto
  obtain e where e: "osE (os_Chtimes ?fn (w_now s)) (opened ?fn b) = (Inr (), opened ?fn e)" "wrote ?fn ?c s e"
    using write_opened(2)[OF b(2) writableD(1)[OF w]] by auto
  have "info_save d sess s = (Inr (), e)"
    using v a(1) b(1) e(1) wrote_fields(3)[OF b(2)] write_opened(4)[OF e(2) writableD(1)[OF w]]
    by (auto simp add: info_save_def bindE_def finallyE_def getE_def)
  then show ?thesis using e(2) by blast
qed

lemma la_save_quiet:
  assumes w: "writable d st (ss_flow sess) (ss_id sess) FsFileLastAccessed s"
    and ex: "fs_get (w_files s) (fileOf d (ss_flow sess) (ss_id sess) FsFileSession s) \<noteq> None"
  shows "\<exists>t. la_save d sess u h s = (Inr (), t) \<and>
     wrote (fileOf d (ss_flow sess) (ss_id sess) FsFileLastAccessed s) (d_laEncode d (u, h)) s t"
proof -
  let ?fn = "fileOf d (ss_flow sess) (ss_id sess) FsFileLastAccessed s" and ?c = "d_laEncode d (u, h)"
  obtain a where a: "sess_openWrite d (ss_flow sess) (ss_id sess) FsFileLastAccessed False s = (Inr ?fn, opened ?fn a)" "wrote ?fn [] s a"
    using openWrite_quiet[OF w] by blast
  obtain b where b: "osE (os_Write ?fn ?c) (opened ?fn a) = (Inr (), opened ?fn b)" "wrote ?fn ?c s b"
    using write_opened(1)[OF a(2) writableD(1)[OF w], of ?c] by auto
  obtain e where e: "osE (os_Chtimes ?fn (w_now s)) (opened ?fn b) = (Inr (), opened ?fn e)" "wrote ?fn ?c s e"
    using write_opened(2)[OF b(2) writableD(1)[OF w]] by auto
  have "la_save d sess u h s = (Inr (), e)"
    using ex a(1) b(1) e(1) wrote_fields(3)[OF b(2)] write_opened(4)[OF e(2) writableD(1)[OF w]] writableD(1)[OF w]
    by (auto simp: la_save_def sess_stat_def bindE_def finallyE_def getE_def mapErrE_def quiet_calls)
  then show ?thesis using e(2) by blast
qed

end
