(* ===== verification/SessionExample.thy ===== *)
theory SessionExample
  imports SessionWrites
begin

section \<open>A concrete instance of what the session store takes from elsewhere\<close>

text \<open>
  Text forms that round-trip: bytes as pairs of letters, a record's fields separated by a dot. The
  instance shows that \<open>deps_ok\<close> can hold, and the witnesses of the session properties compute on it.
\<close>

fun hexed :: "bytes \<Rightarrow> bytes" where
  "hexed [] = []"
| "hexed (c # cs) = char_of (65 + of_char c div 16 :: nat) # char_of (65 + of_char c mod 16 :: nat) # hexed cs"

fun unhexed :: "bytes \<Rightarrow> bytes option" where
  "unhexed [] = Some []"
| "unhexed [_] = None"
| "unhexed (a # b # cs) = map_option ((#) (char_of ((of_char a - 65) * 16 + (of_char b - 65) :: nat))) (unhexed cs)"

lemma nibble [simp]: "n < 16 \<Longrightarrow> of_char (char_of (65 + n :: nat)) = 65 + n"
  by (simp add: take_bit_eq_mod)

lemma char_bound: "(of_char c :: nat) < 256"
  using of_char_mod_256[of c, where 'a = nat] by (metis mod_less_divisor zero_less_numeral)

lemma unhexed_hexed [simp]: "unhexed (hexed cs) = Some cs"
proof (induction cs)
  case (Cons c cs)
  have n: "(of_char c :: nat) div 16 < 16" "(of_char c :: nat) mod 16 < 16" using char_bound[of c] by (simp_all add: div_less_iff_less_mult)
  have "char_of (of_char c div 16 * 16 + of_char c mod 16 :: nat) = c"
    by (metis char_of_char mod_div_decomp add.commute mult.commute)
  then show ?case using Cons n by simp
qed simp

lemma hexed_chars: "c \<in> set (hexed cs) \<Longrightarrow> 65 \<le> (of_char c :: nat) \<and> (of_char c :: nat) < 81"
proof (induction cs)
  case (Cons a cs)
  have n: "(of_char a :: nat) div 16 < 16" "(of_char a :: nat) mod 16 < 16" using char_bound[of a] by (simp_all add: div_less_iff_less_mult)
  show ?case
  proof (cases "c \<in> set (hexed cs)")
    case False
    then have "c = char_of (65 + of_char a div 16 :: nat) \<or> c = char_of (65 + of_char a mod 16 :: nat)"
      using Cons.prems by auto
    then show ?thesis using n by (auto simp del: of_char_of)
  qed (rule Cons.IH)
qed simp

lemma hexed_plain [simp]: "CHR ''/'' \<notin> set (hexed cs)" "CHR ''.'' \<notin> set (hexed cs)"
  using hexed_chars[of "CHR ''/''" cs] hexed_chars[of "CHR ''.''" cs] by auto

definition exPair :: "bytes \<Rightarrow> bytes \<Rightarrow> bytes" where
  "exPair u h = hexed u @ CHR ''.'' # hexed h"

definition exUnpair :: "bytes \<Rightarrow> (bytes \<times> bytes) option" where
  "exUnpair t =
     (case bytes_split (CHR ''.'') t of
        [u, h] \<Rightarrow> (case unhexed u of None \<Rightarrow> None | Some u' \<Rightarrow> map_option (Pair u') (unhexed h))
      | _ \<Rightarrow> None)"

lemma exUnpair_exPair [simp]: "exUnpair (exPair u h) = Some (u, h)"
  by (simp add: exPair_def exUnpair_def bytes_split_append bytes_split_noSep)

definition exDeps :: "bool deps" where
  "exDeps = \<lparr>
     d_newUuid = (\<lambda>n. Some (replicate n (CHR ''x''))),
     d_uuidText = (\<lambda>i. CHR ''U'' # hexed i),
     d_uuidParse = (\<lambda>t. if t = [] \<or> hd t \<noteq> CHR ''U'' then None else unhexed (tl t)),
     d_infoEncode = (\<lambda>(st, u, h). char_of (unat st) # exPair u h),
     d_infoDecode = (\<lambda>t. if t = [] then None else (case exUnpair (tl t) of
        Some (u, h) \<Rightarrow> if utf8_ValidString u \<and> utf8_ValidString h \<and> State_MarshalText (word_of_nat (of_char (hd t))) \<noteq> None
          then Some (word_of_nat (of_char (hd t)), u, h) else None | None \<Rightarrow> None)),
     d_hostText = (\<lambda>h. h),
     d_laEncode = (\<lambda>(u, h). exPair u h),
     d_laDecode = exUnpair,
     d_isKeyHash = (\<lambda>t. t = ''kt'' \<or> t = ''kf''),
     d_keyHash = (\<lambda>b. if b then ''kt'' else ''kf''),
     d_keyLine = (\<lambda>b. if b then ''T'' else ''F''),
     d_keyParse = (\<lambda>l. if l = ''T'' then Some True else if l = ''F'' then Some False else None)\<rparr>"

lemma exDeps_ok: "deps_ok exDeps"
proof -
  have "word_of_nat (of_char (char_of (unat st :: nat))) = (st :: 8 word)" for st
    using unsigned_less[of st, where 'a = nat] by (simp add: take_bit_nat_eq_self)
  then show ?thesis
    by (auto simp: deps_ok_def exDeps_def validNames_def plain_line_def maxFsRepositoryPublicKeyLineSize_def split: option.splits if_splits)
qed

lemma exDeps_host [simp]: "d_hostText exDeps h = h"
  by (simp add: exDeps_def)

text \<open>An empty store at \<^verbatim>\<open>/s\<close> and a flow \<^verbatim>\<open>f\<close>.\<close>

definition exDir :: fnode where "exDir = newDir 0 0"

definition exStore :: fsrepo where
  "exStore = \<lparr>w_files = [(''/'', exDir), (''/s'', exDir)], w_fault = (\<lambda>_ _. False), w_now = 5000000, w_open = (\<lambda>_. 0), w_procs = [],
     sr_Storage = ''/s'', sr_FileMode = 0, sr_IdleTimeout = 100, sr_MaxTimeout = 50, sr_MaxConnections = 2, sr_touchThreshold = 25,
     sr_uuids = 0, sr_stacks = [], sr_interceptors = []\<rparr>"

lemma exStore_ready:
  "quiet exStore" "placed [''s''] ''f'' exStore" "deps_ok exDeps" "d_newUuid exDeps (sr_uuids exStore) = Some []"
  by (simp_all add: quiet_def exStore_def placed_def path_of_def proper_def exDeps_ok) (simp add: exDeps_def)

lemma exStore_dir: "dirOf exDeps ''f'' [] exStore = path_of [''s'', ''f'', ''U'']"
  using dirOf_path[OF exStore_ready(2,3)] by (simp add: exDeps_def)

lemma exStore_file: "proper kind \<Longrightarrow> fileOf exDeps ''f'' [] kind exStore = path_of [''s'', ''f'', ''U'', kind]"
  using fileOf_path[OF exStore_ready(2,3)] by (simp add: exDeps_def)

lemma exStore_ancestors: "ancestors (dirOf exDeps ''f'' [] exStore) = [''/s'', ''/s/f'', ''/s/f/U'']"
  unfolding exStore_dir by (subst ancestors_path) (simp_all add: proper_def path_of_def upt_rec)

lemma exStore_free:
  "\<forall>a \<in> set (ancestors (dirOf exDeps ''f'' [] exStore)). \<forall>n. fs_get (w_files exStore) a = Some n \<longrightarrow> n_isDir n"
  "fs_get (w_files exStore) (path_of (''s'' # ''f'' # cs)) = None"
  unfolding exStore_ancestors by (simp_all add: fs_get_def exStore_def exDir_def newDir_def path_of_def)

lemma exStore_writable: "proper kind \<Longrightarrow> writable exDeps [''s''] ''f'' [] kind exStore"
  using exStore_ready exStore_free(1) by (simp add: writable_def exStore_file exStore_free(2))

end
