(* ===== verification/SessionProps.thy ===== *)
theory SessionProps
  imports SessionExample
begin

section \<open>Properties of the session store\<close>

text \<open>
  What the operations of \<^verbatim>\<open>FsRepository\<close> and of its sessions promise, on the concrete store of
  \<open>SessionExample\<close> in the witnesses.
\<close>

subsection \<open>Creating and finding\<close>

definition freshPlace :: "'k deps \<Rightarrow> bytes list \<Rightarrow> bytes \<Rightarrow> sid \<Rightarrow> fsrepo \<Rightarrow> bool" where
  "freshPlace d st flow i s \<longleftrightarrow>
     quiet s \<and> deps_ok d \<and> placed st flow s \<and>
     (\<forall>a \<in> set (ancestors (dirOf d flow i s)). \<forall>n. fs_get (w_files s) a = Some n \<longrightarrow> n_isDir n) \<and>
     (\<forall>kind. proper kind \<longrightarrow> fs_get (w_files s) (fileOf d flow i kind s) = None)"

lemma freshPlace_writable: "freshPlace d st flow i s \<Longrightarrow> proper kind \<Longrightarrow> writable d st flow i kind s"
  by (simp add: freshPlace_def writable_def)

lemma uuids_frame [simp]:
  "quiet (s\<lparr>sr_uuids := n\<rparr>) = quiet s" "placed st flow (s\<lparr>sr_uuids := n\<rparr>) = placed st flow s"
  "dirOf d flow i (s\<lparr>sr_uuids := n\<rparr>) = dirOf d flow i s" "fileOf d flow i kind (s\<lparr>sr_uuids := n\<rparr>) = fileOf d flow i kind s"
  by (simp_all add: quiet_def placed_def dirOf_def fileOf_def)

lemma freshPlace_uuid: "freshPlace d st flow i s \<Longrightarrow> freshPlace d st flow i (s\<lparr>sr_uuids := n\<rparr>)"
  by (simp add: freshPlace_def)

lemma exStore_fresh: "freshPlace exDeps [''s''] ''f'' [] exStore"
  using exStore_ready exStore_free(1) by (simp add: freshPlace_def exStore_file exStore_free(2))

lemma deps_ok_decode:
  "deps_ok d \<Longrightarrow> validNames d u h \<Longrightarrow> State_MarshalText x \<noteq> None \<Longrightarrow> d_infoDecode d (d_infoEncode d (x, u, h)) = Some (x, u, h)"
  "deps_ok d \<Longrightarrow> validNames d u h \<Longrightarrow> d_laDecode d (d_laEncode d (u, h)) = Some (u, h)"
  unfolding deps_ok_def by blast+

lemma wrote_at: "wrote p c s t \<Longrightarrow> \<exists>n. fs_get (w_files t) p = Some n \<and> n_content n = c \<and> n_mtime n = w_now s"
  by (auto simp: wrote_def)

text \<open>What \<open>Create\<close> leaves: the files of the new session, every other kind of file still absent, and everything writable.\<close>

definition created ::
    "'k deps \<Rightarrow> bytes list \<Rightarrow> bytes \<Rightarrow> sid \<Rightarrow> bytes \<Rightarrow> bytes \<Rightarrow> bytes \<Rightarrow> fsrepo \<Rightarrow> fsrepo \<Rightarrow> bool" where
  "created d st flow i user host tok s t \<longleftrightarrow>
     quiet t \<and> validNames d user host \<and> w_now t = w_now s \<and> world.more t = world.more (s\<lparr>sr_uuids := Suc (sr_uuids s)\<rparr>) \<and>
     storedSession d flow i t = Inr \<lparr>ss_flow = flow, ss_id = i, ss_state = StateNew, ss_createdAt = w_now s,
       ss_remoteUser = user, ss_remoteHost = host\<rparr> \<and>
     (\<exists>n. fs_get (w_files t) (fileOf d flow i FsFileLastAccessed t) = Some n \<and> n_content n = d_laEncode d (user, host) \<and>
        n_mtime n = w_now s) \<and>
     (case fs_get (w_files t) (fileOf d flow i FsFileAccessToken t) of None \<Rightarrow> [] | Some n \<Rightarrow> n_content n) = tok \<and>
     (\<forall>kind. proper kind \<longrightarrow> writable d st flow i kind t \<and>
        (kind \<notin> {FsFileSession, FsFileLastAccessed, FsFileAccessToken} \<longrightarrow>
           fs_get (w_files t) (fileOf d flow i kind t) = None))"

lemma sess_Create_quiet:
  assumes "freshPlace d st flow i s" "d_newUuid d (sr_uuids s) = Some i" "validNames d user host"
  shows "\<exists>t. sess_Create d flow user host tok s =
      (Inr \<lparr>ss_flow = flow, ss_id = i, ss_state = StateNew, ss_createdAt = truncateMilli (w_now s),
             ss_remoteUser = user, ss_remoteHost = host\<rparr>, t) \<and> created d st flow i user host tok s t"
proof -
  define u where "u = s\<lparr>sr_uuids := Suc (sr_uuids s)\<rparr>"
  define sess where "sess = \<lparr>ss_flow = flow, ss_id = i, ss_state = StateNew, ss_createdAt = truncateMilli (w_now s),
    ss_remoteUser = user, ss_remoteHost = host\<rparr>"
  let ?f = "\<lambda>kind. fileOf d flow i kind u"
  have fr: "freshPlace d st flow i u" using freshPlace_uuid[OF assms(1)] by (simp add: u_def)
  then have dec: "d_infoDecode d (d_infoEncode d (StateNew, user, host)) = Some (StateNew, user, host)" and q: "quiet u"
    using assms(3) by (simp_all add: freshPlace_def deps_ok_decode)
  note w = freshPlace_writable[OF fr]
  have absent: "proper kind \<Longrightarrow> fs_get (w_files u) (?f kind) = None" for kind using fr by (simp add: freshPlace_def)
  obtain a where a: "info_save d sess u = (Inr (), a)" "wrote (?f FsFileSession) (d_infoEncode d (StateNew, user, host)) u a"
    using info_save_quiet[of d st sess u] w[of FsFileSession] by (auto simp: sess_def State_MarshalText_def)
  note fa = wrote_fields[OF a(2)] and wa = wrote_writable[OF w[OF proper_kinds(1)] a(2)]
  have wla: "writable d st flow i FsFileLastAccessed a" "writable d st flow i FsFileAccessToken a"
    by (rule wa(2), rule w, simp)+
  obtain b where b: "la_save d sess user host a = (Inr (), b)" "wrote (?f FsFileLastAccessed) (d_laEncode d (user, host)) a b"
    using la_save_quiet[of d st sess a user host] wla(1) wrote_at[OF a(2)] fa(6)[of d flow i] by (auto simp: sess_def)
  have b2: "wrote (fileOf d flow i FsFileLastAccessed a) (d_laEncode d (user, host)) a b" using b(2) by (simp add: fa(6))
  note fb = wrote_fields[OF b(2)] and wb = wrote_writable[OF wla(1) b2]
  have wtok: "writable d st flow i FsFileAccessToken b" by (rule wb(2)) (rule wla(2))
  obtain c where c: "(if length tok > 0 then setToken d sess FsFileAccessToken tok else returnE ()) b = (Inr (), c)"
    and cm: "w_now c = w_now b" "world.more c = world.more b" "\<And>kind. proper kind \<Longrightarrow> writable d st flow i kind c"
    and cf: "quiet c" "\<And>kind. fileOf d flow i kind c = ?f kind"
      "\<And>kind. proper kind \<Longrightarrow> kind \<noteq> FsFileAccessToken \<Longrightarrow> fs_get (w_files c) (?f kind) = fs_get (w_files b) (?f kind)"
      "(case fs_get (w_files c) (?f FsFileAccessToken) of None \<Rightarrow> [] | Some n \<Rightarrow> n_content n) = tok"
  proof (cases "tok = []")
    case True
    have "fs_get (w_files b) (?f FsFileAccessToken) = None"
      using wb(3)[of FsFileAccessToken] wa(3)[of FsFileAccessToken] fr by (simp add: freshPlace_def fa(6))
    then show ?thesis using True q by (intro that[of b]) (simp_all add: returnE_def fa(1,6) fb(1,6) wb(2) wa(2) w)
  next
    case False
    obtain c where s: "setToken d sess FsFileAccessToken tok b = (Inr (), c)" "wrote (fileOf d flow i FsFileAccessToken b) tok b c"
      using setToken_quiet[of d st sess FsFileAccessToken b tok] wtok False by (auto simp: sess_def)
    show ?thesis
      using False s(1) wrote_fields(1,6)[OF s(2)] wrote_writable(2,3)[OF wtok s(2)] wrote_at[OF s(2)] q wrote_fields(2,3)[OF s(2)]
      by (intro that[of c]) (auto simp: fa(1,6) fb(1,6) wb(2) wa(2) w)
  qed
  obtain n where n: "fs_get (w_files a) (?f FsFileSession) = Some n" "n_content n = d_infoEncode d (StateNew, user, host)" "n_mtime n = w_now s"
    using wrote_at[OF a(2)] by (auto simp: u_def)
  have "fs_get (w_files c) (?f FsFileSession) = Some n"
    using cf(3)[of FsFileSession] wb(3)[of FsFileSession] n(1) by (simp add: fa(6))
  then have st: "storedSession d flow i c = Inr (sess\<lparr>ss_createdAt := w_now s\<rparr>)"
    using n(2,3) dec by (simp add: storedSession_def cf(2) sess_def)
  obtain m where m: "fs_get (w_files b) (?f FsFileLastAccessed) = Some m" "n_content m = d_laEncode d (user, host)" "n_mtime m = w_now s"
    using wrote_at[OF b(2)] fa(3) by (auto simp: u_def)
  have la': "fs_get (w_files c) (?f FsFileLastAccessed) = Some m" using cf(3)[of FsFileLastAccessed] m(1) by simp
  have "newUuid d s = (Inr i, u)" using assms(2) by (simp add: newUuid_def u_def)
  moreover have "notifyLastAccess d sess user host StateUnchanged a = (Inr (StateNew, sess), b)"
    using b(1) by (simp add: notifyLastAccess_def bindE_def returnE_def sess_def)
  ultimately have cr: "sess_Create d flow user host tok s = (Inr sess, c)"
    using a(1) c unfolding sess_Create_def mapErrE_def bindE_def getE_def
    by (simp add: sess_def[symmetric] u_def Let_def returnE_def)
  have other: "fs_get (w_files c) (fileOf d flow i kind c) = None"
    if "proper kind" "kind \<notin> {FsFileSession, FsFileLastAccessed, FsFileAccessToken}" for kind
    using that cf(3)[of kind] wb(3)[of kind] wa(3)[of kind] absent[of kind] by (simp add: cf(2) fa(6))
  have "created d st flow i user host tok s c"
    unfolding created_def using assms(3) cf(1,2,4) cm fa(2,3) fb(2,3) st la' m other by (simp add: u_def sess_def)
  then show ?thesis using cr by (auto simp: sess_def)
qed

text \<open>
  C4: Creating a session stores it. In an unused place, without failures of the operating system
  and for a remote with UTF-8 names whose host is in the form \<^verbatim>\<open>net.Host\<close> writes, \<^verbatim>\<open>Create\<close> returns a new session with the generated id; afterwards \<^verbatim>\<open>FindBy\<close> finds the same session
  (with the time of its file as its creation time), its authorization token is the given one, and its last
  access is the creation by the given remote.
\<close>

theorem create_then_find:
  assumes "freshPlace d st flow i s" "d_newUuid d (sr_uuids s) = Some i" "validNames d user host"
  shows "\<exists>sess t. sess_Create d flow user host tok s = (Inr sess, t) \<and>
    ss_id sess = i \<and> ss_state sess = StateNew \<and> ss_remoteUser sess = user \<and> ss_remoteHost sess = host \<and>
    FindBy d flow i None t = (Inr (sess\<lparr>ss_createdAt := w_now s\<rparr>), t) \<and>
    AuthorizationToken d sess t = (Inr tok, t) \<and>
    lastAccessed d sess t = (Inr ((user, host), w_now s), t)"
proof -
  obtain t where t: "sess_Create d flow user host tok s =
      (Inr \<lparr>ss_flow = flow, ss_id = i, ss_state = StateNew, ss_createdAt = truncateMilli (w_now s),
             ss_remoteUser = user, ss_remoteHost = host\<rparr>, t)" and c: "created d st flow i user host tok s t"
    using sess_Create_quiet[OF assms] by blast
  have q: "quiet t" and "deps_ok d" using c assms(1) by (simp_all add: created_def freshPlace_def)
  then show ?thesis using t c
    by (auto simp: created_def FindBy_quiet[OF q] AuthorizationToken_def getToken_quiet[OF q] lastAccessed_quiet[OF q] deps_ok_decode Let_def)
qed

lemma create_then_find_witness:
  "\<exists>sess t. sess_Create exDeps ''f'' ''u'' ''h'' ''tok'' exStore = (Inr sess, t) \<and>
    FindBy exDeps ''f'' [] None t = (Inr (sess\<lparr>ss_createdAt := 5000000\<rparr>), t) \<and> AuthorizationToken exDeps sess t = (Inr ''tok'', t)"
  using create_then_find[OF exStore_fresh exStore_ready(4), of "''u''" "''h''" "''tok''"]
  by (auto simp: exStore_def validNames_def)

subsection \<open>Tokens\<close>

text \<open>
  A token that is set is the token that is read, an empty one included, for which the file is
  removed; the session's other files are as before.
\<close>

theorem token_roundtrip:
  assumes "writable d st (ss_flow sess) (ss_id sess) kind s"
    and "\<not> fs_hasChildren (w_files s) (fileOf d (ss_flow sess) (ss_id sess) kind s)"
  shows "\<exists>t. setToken d sess kind tok s = (Inr (), t) \<and> getToken d sess kind t = (Inr tok, t) \<and>
    (\<forall>kind'. proper kind' \<longrightarrow> kind' \<noteq> kind \<longrightarrow>
       fs_get (w_files t) (fileOf d (ss_flow sess) (ss_id sess) kind' t) =
       fs_get (w_files s) (fileOf d (ss_flow sess) (ss_id sess) kind' s))"
proof (cases "tok = []")
  case True
  let ?fn = "\<lambda>kind. fileOf d (ss_flow sess) (ss_id sess) kind s"
  let ?t = "if fs_get (w_files s) (?fn kind) = None then s else s\<lparr>w_files := fs_del (w_files s) (?fn kind)\<rparr>"
  have q: "quiet s" and p: "placed st (ss_flow sess) s" "deps_ok d" "proper kind" using assms(1) by (simp_all add: writable_def)
  have "setToken d sess kind tok s = (Inr (), ?t)"
    using True assms(2) q by (auto simp: setToken_def sm_defs os_Remove_def quiet_def)
  moreover have f: "fileOf d (ss_flow sess) (ss_id sess) k ?t = ?fn k" and "quiet ?t" for k
    using q by (simp_all add: fileOf_def quiet_def)
  moreover have "fs_get (w_files ?t) (?fn k) = fs_get (w_files s) (?fn k)" if "proper k" "k \<noteq> kind" for k
    using fileOf_inj[OF p(1,2) that(1) p(3)] that by simp
  ultimately show ?thesis using True by (intro exI[of _ ?t]) (simp add: getToken_quiet)
next
  case False
  obtain t where t: "setToken d sess kind tok s = (Inr (), t)" "wrote (fileOf d (ss_flow sess) (ss_id sess) kind s) tok s t"
    using setToken_quiet[OF assms(1) False] by blast
  note f = wrote_fields[OF t(2)]
  have "getToken d sess kind t = (Inr tok, t)"
    using wrote_at[OF t(2)] writableD(1)[OF assms(1)] by (auto simp: getToken_quiet f)
  then show ?thesis using t(1) wrote_writable(3)[OF assms(1) t(2)] by (auto simp: f)
qed

lemma exStore_noChild: "proper kind \<Longrightarrow> \<not> fs_hasChildren (w_files exStore) (fileOf exDeps ''f'' [] kind exStore)"
  unfolding exStore_file by (simp add: fs_hasChildren_def exStore_def under_def path_of_def)

definition exSession :: fs_session where
  "exSession = \<lparr>ss_flow = ''f'', ss_id = [], ss_state = StateNew, ss_createdAt = 0, ss_remoteUser = ''u'', ss_remoteHost = ''h''\<rparr>"

lemma token_roundtrip_witness:
  "\<exists>t. setToken exDeps exSession FsFileEnvironmentToken ''abc'' exStore = (Inr (), t) \<and>
     getToken exDeps exSession FsFileEnvironmentToken t = (Inr ''abc'', t)"
  using token_roundtrip[of exDeps "[''s'']" exSession FsFileEnvironmentToken exStore "''abc''"]
    exStore_writable[of FsFileEnvironmentToken] exStore_noChild[of FsFileEnvironmentToken]
  by (auto simp: exSession_def)

text \<open>
  C18: What \<^verbatim>\<open>hasAccessToken\<close> answers without failures: whether the session's token file is there and
  equals the given token. There are two exceptions: an empty token is accepted for every session that has
  the file, and a token whose length is a multiple of 4096 is accepted when it is a prefix of the file.
\<close>

theorem access_token_equality:
  assumes "quiet s"
  shows "hasAccessToken d flow i t s =
    (Inr (case fs_get (w_files s) (fileOf d flow i FsFileAccessToken s) of
        None \<Rightarrow> False
      | Some n \<Rightarrow> n_content n = t \<or> (length t mod 4096 = 0 \<and> take (length t) (n_content n) = t)), s)"
proof -
  have "t = [] \<or> isReaderEqualToBytes c t \<longleftrightarrow> c = t \<or> (length t mod 4096 = 0 \<and> take (length t) c = t)" for c
    unfolding isReaderEqualToBytes_iff by (auto simp: readerBufferSize_def)
  then show ?thesis unfolding hasAccessToken_quiet[OF assms] tokenMatches_def by (simp split: option.split)
qed

definition exTokens :: fsrepo where
  "exTokens = exStore\<lparr>w_files :=
     (path_of [''s'', ''f'', ''U'', ''at''], (newFile 0 0)\<lparr>n_content := ''abc''\<rparr>) # w_files exStore\<rparr>"

lemma access_token_equality_witness:
  "hasAccessToken exDeps ''f'' [] ''abc'' exTokens = (Inr True, exTokens) \<and>
   hasAccessToken exDeps ''f'' [] ''ab'' exTokens = (Inr False, exTokens) \<and>
   hasAccessToken exDeps ''f'' [] [] exTokens = (Inr True, exTokens)"
proof -
  have q: "quiet exTokens" using exStore_ready(1) by (simp add: exTokens_def quiet_def)
  have "fileOf exDeps ''f'' [] FsFileAccessToken exTokens = path_of [''s'', ''f'', ''U'', ''at'']"
    using exStore_file[of FsFileAccessToken] by (simp add: exTokens_def fileOf_def)
  then have "fs_get (w_files exTokens) (fileOf exDeps ''f'' [] FsFileAccessToken exTokens) = Some ((newFile 0 0)\<lparr>n_content := ''abc''\<rparr>)"
    by (simp add: exTokens_def fs_get_def)
  then show ?thesis
    using access_token_equality[OF q, of exDeps "''f''" "[]" "''abc''"] access_token_equality[OF q, of exDeps "''f''" "[]" "''ab''"]
      access_token_equality[OF q, of exDeps "''f''" "[]" "[]"] by simp
qed

text \<open>
  \<^verbatim>\<open>FindByAccessToken\<close> without options refines the search over the list of stored sessions: the
  result is the first one whose token file matches and that has a session file; a matching session that
  cannot be decoded ends the search with that error; \<^verbatim>\<open>ErrNoSuchSession\<close> means that no stored session
  matches. The state is unchanged.
\<close>

theorem find_by_token_refines:
  assumes "quiet s"
  shows "FindByAccessToken d t None s =
    (case firstHit (\<lambda>(flow, i).
        if \<not> tokenMatches d t flow i s \<or> fs_get (w_files s) (fileOf d flow i FsFileSession s) = None then Inr None
        else map_sum id Some (storedSession d flow i s)) (storedIds d s) of
       Inl e \<Rightarrow> Inl (SErrCannotFind e) | Inr None \<Rightarrow> Inl ErrNoSuchSession | Inr (Some sess) \<Rightarrow> Inr sess, s)"
proof -
  define v where "v = (\<lambda>flow i s. Inr (tokenMatches d t flow i s) :: sess_err + bool)"
  have h: "hasAccessToken d flow i t u = (v flow i s, u)" if "sameStore s u" for flow i u
  proof -
    have q: "quiet u" "w_files u = w_files s" using that by (simp_all add: sameStore_def)
    show ?thesis unfolding hasAccessToken_quiet[OF q(1)] tokenMatches_def v_def using q sameStore_path(1)[OF that, of d] by simp
  qed
  have "candidateOf d v s = (\<lambda>(flow, i).
        if \<not> tokenMatches d t flow i s \<or> fs_get (w_files s) (fileOf d flow i FsFileSession s) = None then Inr None
        else map_sum id Some (storedSession d flow i s))"
    by (rule ext) (auto simp: candidateOf_def storedSession_def v_def split: option.splits)
  moreover have "searchFirst d (\<lambda>flow i. hasAccessToken d flow i t) None s =
     (case firstHit (candidateOf d v s) (storedIds d s) of
        Inl e \<Rightarrow> Inl (SErrCannotFind e) | Inr None \<Rightarrow> Inl ErrNoSuchSession | Inr (Some sess) \<Rightarrow> Inr sess, s)"
    by (rule searchFirst_quiet[OF assms]) (rule h)
  ultimately show ?thesis unfolding FindByAccessToken_def by simp
qed

definition exSessions :: fsrepo where
  "exSessions = exStore\<lparr>w_files :=
     [(path_of [''s'', ''f''], exDir), (path_of [''s'', ''f'', ''U''], exDir),
      (path_of [''s'', ''f'', ''U'', ''at''], (newFile 0 0)\<lparr>n_content := ''abc''\<rparr>),
      (path_of [''s'', ''f'', ''U'', ''s''], (newFile 7 0)\<lparr>n_content := d_infoEncode exDeps (StateNew, [], [])\<rparr>)] @ w_files exStore\<rparr>"

lemma find_by_token_refines_witness:
  "FindByAccessToken exDeps ''abc'' None exSessions =
     (Inr \<lparr>ss_flow = ''f'', ss_id = [], ss_state = StateNew, ss_createdAt = 7, ss_remoteUser = [], ss_remoteHost = []\<rparr>, exSessions)"
proof -
  have q: "quiet exSessions" using exStore_ready(1) by (simp add: exSessions_def quiet_def)
  have f: "fileOf exDeps ''f'' [] k exSessions = path_of [''s'', ''f'', ''U'', k]" if "proper k" for k
    using exStore_file[OF that] by (simp add: exSessions_def fileOf_def)
  have j: "filepath_Join [''/s'', ''f''] = ''/s/f''"
    using Join_path(1)[of "[''s'']" "''f''"] by (simp add: path_of_def proper_def)
  have "FlowName_UnmarshalText ''f'' = Some ''f''"
    by (simp add: FlowName_UnmarshalText_def FlowName_Validate_def flowChar_def)
  then have "storedIds exDeps exSessions = [(''f'', [])]"
    by (simp add: storedIds_def namesIn_def properNames_def fs_children_def child_name_def fs_get_def exSessions_def exStore_def
        path_of_def map_filter_simps exDir_def newDir_def newFile_def j) (simp add: exDeps_def)
  then show ?thesis
    unfolding find_by_token_refines[OF q]
    by (simp add: tokenMatches_def storedSession_def f deps_ok_decode[OF exDeps_ok] validNames_def isReaderEqualToBytes_iff)
      (simp add: exSessions_def fs_get_def path_of_def newFile_def deps_ok_decode[OF exDeps_ok] validNames_def isReaderEqualToBytes_iff)
qed

end
