(* ===== verification/DockerExample.thy ===== *)
theory DockerExample
  imports DockerEffects SessionProps
begin

section \<open>Containers at a concrete engine\<close>

text \<open>
  An engine with the list of its containers as its state; creating one replaces the list. Lists of texts are written as pairs of a mark
  and a character. The properties of the repository of containers are applied here.
\<close>

subsection \<open>The engine\<close>

definition writeTexts :: "bytes list \<Rightarrow> bytes" where
  "writeTexts xs = CHR ''['' # concat (map (\<lambda>x. concat (map (\<lambda>c. [CHR ''c'', c]) x) @ ''n.'') xs)"

fun readTexts :: "bytes \<Rightarrow> bytes \<Rightarrow> bytes list" where
  "readTexts acc (t # c # rest) = (if t = CHR ''n'' then acc # readTexts [] rest else readTexts (acc @ [c]) rest)"
| "readTexts acc _ = []"

lemma readTexts_text: "readTexts acc (concat (map (\<lambda>c. [CHR ''c'', c]) x) @ CHR ''n'' # CHR ''.'' # rest) = (acc @ x) # readTexts [] rest"
  by (induction x arbitrary: acc) simp_all

lemma readTexts_write: "readTexts [] (drop 1 (writeTexts xs)) = xs"
  by (induction xs) (simp_all add: writeTexts_def readTexts_text)

fun selected :: "container_filter \<Rightarrow> container \<Rightarrow> bool" where
  "selected (ByLabel name v) c = (case map_of (ct_Labels c) name of None \<Rightarrow> False | Some w \<Rightarrow> v = None \<or> v = Some w)"
| "selected (ById i) c = (ct_ID c = i)"

definition created :: "container_config \<Rightarrow> container" where
  "created config = \<lparr>ct_ID = ''id'', ct_Status = ''Up'', ct_Image = cc_Image config, ct_Names = [''n''], ct_Labels = cc_Labels config,
     ct_Networks = Some [(''bridge'', ''0.4'')], ct_Ports = []\<rparr>"

definition exDocker :: "(bool, container list) docker_deps" where
  "exDocker = \<lparr>dd_idText = (\<lambda>i. CHR ''i'' # i), dd_idParse = (\<lambda>t. if t = [] then None else Some (tl t)),
     dd_jsonEncode = writeTexts, dd_jsonDecode = (\<lambda>t. Some (readTexts [] (drop 1 t))), dd_net = exNetLib,
     dd_base64 = id, dd_base64Url = id, dd_authDecode = (\<lambda>_. None), dd_authJson = (\<lambda>_. None), dd_authEncode = (\<lambda>a. Inr (ac_Auth a)),
     dd_parseMount = (\<lambda>_. Inl ErrNotAcceptable), dd_masterKey = Inr ''k'', dd_findBinary = (\<lambda>_ _. Inr ''/b''), dd_absPath = Inr,
     dd_list = (\<lambda>n f e. (Inr ((case n of None \<Rightarrow> id | Some k \<Rightarrow> take k) (filter (selected f) e)), e)),
     dd_create = (\<lambda>config hostConfig networks e. (Inr ''id'', [created config])), dd_start = (\<lambda>i e. (Inr (), e)),
     dd_remove = (\<lambda>i e. (if i \<in> ct_ID ` set e then Inr () else Inl (ApiErr ''none'' True None), filter (\<lambda>c. ct_ID c \<noteq> i) e)),
     dd_pull = (\<lambda>ref auth e. (Inr [], e)), dd_float = \<lparr>fl = id, fl32 = id\<rparr>,
     dd_report = (\<lambda>p e. (Inr (), e)), dd_completed = (\<lambda>e. (Inr (), e)), dd_reportError = (\<lambda>e. (Inr (), e)),
     dd_startPreparation = (\<lambda>req ref e. (Inr False, e)),
     dd_impOpen = (\<lambda>_. Inr ()), dd_newConnId = (\<lambda>e. (Inr (replicate 16 (CHR ''a'')), e)), dd_ctxErr = (\<lambda>_. None),
     dd_ping = (\<lambda>env i e. (TryOk (), e)), dd_sleep = (\<lambda>e. (Inr (), e))\<rparr>"

lemma exDocker_simps [simp]:
  "dd_create exDocker config hostConfig networks e = (Inr ''id'', [created config])" "dd_start exDocker i e = (Inr (), e)"
  "dd_list exDocker (Some k) f e = (Inr (take k (filter (selected f) e)), e)" "dd_list exDocker None f e = (Inr (filter (selected f) e), e)"
  "dd_remove exDocker i e = (if i \<in> ct_ID ` set e then Inr () else Inl (ApiErr ''none'' True None), filter (\<lambda>c. ct_ID c \<noteq> i) e)"
  "dd_impOpen exDocker env = Inr ()" "dd_newConnId exDocker e = (Inr (replicate 16 (CHR ''a'')), e)" "dd_ctxErr exDocker e = None"
  "dd_ping exDocker env j e = (TryOk (), e)" "dd_idText exDocker t = CHR ''i'' # t"
  by (simp_all add: exDocker_def)

lemma exDocker_engine_ok: "engine_ok exDocker"
  by (auto simp: engine_ok_def exDocker_def created_def take_Cons' split: option.splits if_splits dest!: in_set_takeD)

lemma exDocker_json_ok: "docker_json_ok exDocker"
proof -
  have "writeTexts xs \<noteq> []" for xs by (simp add: writeTexts_def)
  moreover have "readTexts [] (drop (Suc 0) (writeTexts xs)) = xs" for xs using readTexts_write by simp
  ultimately show ?thesis by (simp add: docker_json_ok_def exDocker_def)
qed

definition exDockerConf :: "bool env_docker_conf" where
  "exDockerConf = \<lparr>dc_LoginAllowed = (\<lambda>_. Inr True), dc_Host = Inr [], dc_ApiVersion = Inr [], dc_CertPath = Inr [], dc_TlsVerify = Inr False,
     dc_Image = Some (\<lambda>_. Inr ''alpine''), dc_ImagePullPolicy = PullPolicyIfAbsent, dc_ImagePullCredentials = None, dc_Networks = [],
     dc_Volumes = [], dc_Mounts = [], dc_Capabilities = [], dc_Privileged = (\<lambda>_. Inr False), dc_DnsServers = [], dc_DnsSearch = [],
     dc_ShellCommand = [Some (\<lambda>_. Inr ''/sh'')], dc_ExecCommand = [], dc_SftpCommand = [], dc_Directory = Some (\<lambda>_. Inr ''/d''),
     dc_User = Some (\<lambda>_. Inr ''u''), dc_Banner = None, dc_PortForwardingAllowed = (\<lambda>_. Inr True), dc_ImpPublishHost = \<lparr>nh_IP = [], nh_Dns = []\<rparr>,
     dc_CleanOrphan = (\<lambda>_. Inr True)\<rparr>"

definition exDockerRepository :: "bool docker_repository" where
  "exDockerRepository = \<lparr>dk_flow = ''f'', dk_conf = exDockerConf, dk_hostOs = OsLinux, dk_hostArch = ArchAmd64, dk_defaultLogLevelName = []\<rparr>"

definition exDockerRequest :: "bool env_context" where
  "exDockerRequest = \<lparr>ec_authorization = \<lparr>au_details = DNone, au_remote = None, au_envVars = [], au_flow = ''f'',
     au_session = Some exSession, au_sessionsPublicKey = None\<rparr>, ec_remote = (''u'', ''h'')\<rparr>"

definition exLabels :: "(bytes \<times> bytes) list" where
  "exLabels = [(DockerLabelFlow, ''f''), (DockerLabelSessionId, ''i''), (DockerLabelCreatedRemoteUser, ''u''), (DockerLabelCreatedRemoteHost, ''h''),
     (DockerLabelShellCommand, writeTexts [''/sh'']), (DockerLabelExecCommand, writeTexts [''/bin/sh'', ''-c'']),
     (DockerLabelSftpCommand, writeTexts [''/usr/bin/bifroest'', ''sftp-server'']), (DockerLabelUser, ''u''), (DockerLabelDirectory, ''/d''),
     (DockerLabelPortForwardingAllowed, ''true'')]"


lemma exLabels_of: "containerLabels exDocker exDockerRepository exDockerRequest exSession = Inr exLabels"
  by (simp add: containerLabels_def exDocker_def exDockerRepository_def exDockerConf_def exDockerRequest_def exSession_def exLabels_def
      resolveEncodedShellCommand_def resolveEncodedExecCommand_def resolveEncodedSftpCommand_def configE_def wrapR_def String_Render_def
      BifroestBinaryFileLocation_def)

definition exConfig :: container_config where
  "exConfig = (case resolveContainerConfig exDocker exDockerRepository exDockerRequest exSession of Inr c \<Rightarrow> c | Inl _ \<Rightarrow> undefined)"

lemma exConfig_of: "resolveContainerConfig exDocker exDockerRepository exDockerRequest exSession = Inr exConfig" "cc_Labels exConfig = exLabels"
proof -
  obtain c where c: "resolveContainerConfig exDocker exDockerRepository exDockerRequest exSession = Inr c"
    by (simp add: resolveContainerConfig_def exLabels_of)
      (simp add: exDocker_def exDockerRepository_def exDockerConf_def configE_def wrapR_def String_Render_def BifroestBinaryFileLocation_def)
  then show "resolveContainerConfig exDocker exDockerRepository exDockerRequest exSession = Inr exConfig" by (simp add: exConfig_def)
  then show "cc_Labels exConfig = exLabels" using config_labels[of exDocker exDockerRepository exDockerRequest exSession exConfig] exLabels_of by simp
qed

lemma exBinding: "resolveImpBinding exDocker exDockerRepository (created config) = Inr \<lparr>hp_Host = Host_UnmarshalText exNetLib ''0.4'', hp_Port = 8683\<rparr>"
  by (simp add: resolveImpBinding_def exDockerRepository_def exDockerConf_def Host_IsZero_def created_def exDocker_def)

theorem container_settings_restored_witness:
  "\<exists>env. parseContainer exDocker exDockerRepository (created exConfig) = Inr env \<and> ei_sessionId env = [] \<and> do_shellCommand env = [''/sh''] \<and>
     do_execCommand env = [''/bin/sh'', ''-c''] \<and> do_user env = ''u''"
proof -
  have v: "list_all utf8_ValidString [''/sh'']" by code_simp
  have r: "Strings_Render (dc_ShellCommand (dk_conf exDockerRepository)) exDockerRequest = Inr [''/sh'']"
    "Strings_Render (dc_ExecCommand (dk_conf exDockerRepository)) exDockerRequest = Inr []"
    "Strings_Render (dc_SftpCommand (dk_conf exDockerRepository)) exDockerRequest = Inr []"
    by (simp_all add: exDockerRepository_def exDockerConf_def wrapR_def String_Render_def)
  have o: "dk_flow exDockerRepository \<noteq> []" "snd (ec_remote exDockerRequest) \<noteq> []" "dk_hostOs exDockerRepository = OsLinux"
    by (simp_all add: exDockerRepository_def exDockerRequest_def)
  have c: "ct_Labels (created exConfig) = cc_Labels exConfig" by (simp add: created_def)
  from container_settings_restored[OF exDocker_json_ok o exConfig_of(1) c exBinding r(1) v r(2) _ r(3)]
  show ?thesis
    by (auto simp: effective_def exSession_def exDockerRepository_def exDockerConf_def String_Render_def)
qed

subsection \<open>Ensuring\<close>

definition engineAt :: "container list \<Rightarrow> container list docker_state" where
  "engineAt cs = \<lparr>es_engine = cs, es_instances = [], es_active = (\<lambda>_. None), es_held = (\<lambda>_. Free), es_removed = []\<rparr>"

lemma engineAt_simps [simp]:
  "es_engine (engineAt cs) = cs" "es_instances (engineAt cs) = []" "es_active (engineAt cs) i = None" "es_held (engineAt cs) i = Free"
  "es_removed (engineAt cs) = []"
  by (simp_all add: engineAt_def)

lemma engineAt_ready: "docker_ready exDocker id (engineAt cs)"
  by (simp add: docker_ready_def exDocker_engine_ok others_ok_def active_ok_def)

lemma exAccepted: "docker_WillBeAccepted exDockerRepository exDockerRequest = Inr True" "au_session (ec_authorization exDockerRequest) = Some exSession"
  "ss_id exSession = []"
  by (simp_all add: docker_WillBeAccepted_def exDockerRepository_def exDockerConf_def exDockerRequest_def exSession_def wrapR_def)

lemma held_again: "(\<lambda>x. if x = i then Free else es_held (engineAt cs) x) = es_held (engineAt cs)"
  by auto




text \<open>Without any container one is created, started and used.\<close>

lemma exParsed: obtains env where "parseContainer exDocker exDockerRepository (created exConfig) = Inr env" "ei_sessionId env = []"
proof -
  have l: "ct_Labels (created exConfig) = exLabels" by (simp add: created_def exConfig_of)
  have "labelOf exLabels DockerLabelFlow = dk_flow exDockerRepository" "dk_flow exDockerRepository \<noteq> []" "labelOf exLabels DockerLabelSessionId = ''i''"
    "labelOf exLabels DockerLabelCreatedRemoteHost = ''h''" "dd_idParse exDocker ''i'' = Some []"
    by (simp_all add: labelOf_def exLabels_def exDockerRepository_def exDocker_def)
  moreover have "\<exists>v. decodedLabel exDocker exLabels name = Inr v" if "labelOf exLabels name \<noteq> []" for name
    using that by (simp add: decodedLabel_def exDocker_def)
  moreover have "labelOf exLabels DockerLabelShellCommand \<noteq> []" "labelOf exLabels DockerLabelExecCommand \<noteq> []"
    by (simp_all add: labelOf_def exLabels_def writeTexts_def)
  ultimately obtain shell exec sftp where
    "decodedLabel exDocker exLabels DockerLabelShellCommand = Inr shell" "decodedLabel exDocker exLabels DockerLabelExecCommand = Inr exec"
    "(if labelOf exLabels DockerLabelSftpCommand = [] then Inr [] else decodedLabel exDocker exLabels DockerLabelSftpCommand) = Inr sftp"
    by metis
  with \<open>labelOf exLabels DockerLabelFlow = _\<close> \<open>dk_flow exDockerRepository \<noteq> []\<close> \<open>labelOf exLabels DockerLabelSessionId = _\<close>
    \<open>labelOf exLabels DockerLabelCreatedRemoteHost = _\<close> \<open>dd_idParse exDocker _ = _\<close>
  have "\<exists>env. parseContainer exDocker exDockerRepository (created exConfig) = Inr env \<and> ei_sessionId env = []"
    unfolding parseContainer_def Let_def l exBinding by simp
  with that show thesis by blast
qed

lemma exContainerCreated: "\<exists>t. createContainerBy exDocker exDockerRepository exDockerRequest exSession s = (Inr (created exConfig), t) \<and> es_instances t = es_instances s"
proof -
  obtain h where h: "resolveHostConfig exDocker exDockerRepository exDockerRequest = Inr h"
    by (simp add: resolveHostConfig_def exDockerRepository_def exDockerConf_def configE_def wrapR_def exDocker_def String_Render_def
        BifroestBinaryFileLocation_def Let_def)
  have n: "resolveNetworkingConfig exDockerRepository exDockerRequest = Inr []"
    by (simp add: resolveNetworkingConfig_def exDockerRepository_def exDockerConf_def configE_def wrapR_def)
  have p: "dc_ImagePullPolicy (dk_conf exDockerRepository) \<noteq> PullPolicyAlways" by (simp add: exDockerRepository_def exDockerConf_def)
  have started: "startCreated exDocker ''id'' s = (Inr (created exConfig), s)" if "es_engine s = [created exConfig]" for s
    using that by (simp add: startCreated_def engineE_def bindE_def findContainerById_def findContainerBy_def returnE_def created_def)
  have "createPulled exDocker exDockerRepository exDockerRequest exConfig h [] s = (Inr ''id'', s\<lparr>es_engine := [created exConfig]\<rparr>)"
    using p by (simp add: createPulled_def bindE_def returnE_def)
  with started show ?thesis
    by (simp add: createContainerBy_def exConfig_of(1) h n liftS_def bindE_def onErrorE_def)
qed

lemma exContainerNew: "parseContainer exDocker exDockerRepository c = Inr env \<Longrightarrow>
    newDocker exDocker exDockerRepository c s = (Inr (length (es_instances s)), s\<lparr>es_instances := es_instances s @ [env\<lparr>ei_owners := 1\<rparr>]\<rparr>)"
  by (simp add: newDocker_def remember_def liftS_def bindE_def engineE_def mapErrE_def eval_nat_numeral)

lemma exContainerEnsured: obtains t where "docker_Ensure exDocker id exDockerRepository exDockerRequest (engineAt []) = (Inr 0, t)"
    "ei_sessionId (es_instances t ! 0) = []"
proof -
  let ?s = "engineAt []"
  have r: "readPhase (searchContainer exDocker [] True) [] ?s = (Inr (Inr None), ?s)"
    by (simp add: readPhase_def withLock_free searchContainer_def findContainerBySession_def findContainerBy_def engineE_def bindE_def returnE_def
        unlockS_def engineAt_def fun_upd_def cong: if_cong)
  obtain t where t: "createContainerBy exDocker exDockerRepository exDockerRequest exSession (locked [] ?s) = (Inr (created exConfig), t)"
      "es_instances t = []"
    using exContainerCreated[of "locked [] ?s"] by (auto simp: locked_def)
  obtain env where env: "parseContainer exDocker exDockerRepository (created exConfig) = Inr env" "ei_sessionId env = []" by (rule exParsed)
  let ?t = "unlockS [] (t\<lparr>es_instances := [env\<lparr>ei_owners := 1\<rparr>], es_active := (es_active t)([] := Some 0)\<rparr>)"
  have "docker_Ensure exDocker id exDockerRepository exDockerRequest ?s = (Inr 0, ?t)"
    using r t exContainerNew[OF env(1), of t] by (simp add: docker_Ensure_def exAccepted liftS_def bindE_def findOrEnsureBySession.simps withLock_free sharedOr_def freshContainer_def activate_def
        orActive_def chosenContainer_def locked_def unlockS_def)
  then show thesis by (rule that) (simp add: unlockS_def env(2))
qed

theorem container_of_session_witness:
  "\<exists>t. docker_Ensure exDocker id exDockerRepository exDockerRequest (engineAt []) = (Inr 0, t) \<and>
     fst (docker_FindBySession exDocker id exDockerRepository exSession None t) = Inr 0"
proof -
  obtain t where t: "docker_Ensure exDocker id exDockerRepository exDockerRequest (engineAt []) = (Inr 0, t)" "ei_sessionId (es_instances t ! 0) = []"
    by (rule exContainerEnsured)
  from container_of_session[OF engineAt_ready t(1), of exSession None] t show ?thesis by (simp add: exAccepted)
qed

subsection \<open>Disposing, cleaning, and progress\<close>

text \<open>Two connections share the environment of the session; one of them disposes it.\<close>

definition exShared :: "container list docker_state" where
  "exShared = (engineAt [created exConfig])\<lparr>es_instances := [\<lparr>ei_sessionId = [], ei_owners = 2, do_containerId = ''id'', do_remoteUser = ''u'',
     do_remoteHost = \<lparr>nh_IP = [], nh_Dns = ''h''\<rparr>, do_shellCommand = [], do_execCommand = [], do_sftpCommand = [], do_user = [], do_directory = [],
     do_portForwardingAllowed = True, do_impBinding = \<lparr>hp_Host = \<lparr>nh_IP = [], nh_Dns = []\<rparr>, hp_Port = 0\<rparr>\<rparr>],
     es_active := (\<lambda>i. if i = [] then Some 0 else None)\<rparr>"

theorem disposed_while_shared_witness:
  "\<exists>t b. docker_Dispose exDocker 0 exShared = (Inr b, t) \<and> es_removed t = [''id''] \<and>
     fst (docker_FindBySession exDocker id exDockerRepository exSession None t) = Inr 0"
proof -
  have active: "es_active exShared (ss_id exSession) = Some 0" "0 < length (es_instances exShared)"
    "ei_sessionId (es_instances exShared ! 0) = ss_id exSession" "es_held exShared (ss_id exSession) = Free"
    by (simp_all add: exShared_def exAccepted)
  obtain b t where t: "docker_Dispose exDocker 0 exShared = (Inr b, t)"
    by (simp add: docker_Dispose_def exShared_def withLock_free deferE_def mapErrE_def removeContainer_def closeGuarded_def addOwner_def
        created_def)
  have s: "ei_owners (es_instances exShared ! 0) = 2" "es_removed exShared = []" "do_containerId (es_instances exShared ! 0) = ''id''"
    by (simp_all add: exShared_def)
  from disposed_while_shared[OF active t, of id exDockerRepository None] s t show ?thesis by simp
qed

text \<open>One container of this flow, one of a flow that does not exist any more.\<close>

definition exOrphans :: "container list" where
  "exOrphans = [created exConfig, (created exConfig)\<lparr>ct_ID := ''old'', ct_Labels := [(DockerLabelFlow, ''g'')]\<rparr>]"

theorem cleanup_removes_orphans_only_witness:
  "\<exists>t. docker_Cleanup exDocker exDockerRepository (Some (\<lambda>_. Inr False)) (engineAt exOrphans) = (Inr (), t) \<and> es_removed t = [''old'']"
proof -
  have listed: "dd_list exDocker None (ByLabel DockerLabelFlow None) (es_engine (engineAt exOrphans)) = (Inr exOrphans, exOrphans)"
    by (simp add: exOrphans_def created_def exConfig_of exLabels_def)
  have o: "orphan exDockerRepository (\<lambda>_. Inr False) (exOrphans ! 1)" "\<not> orphan exDockerRepository (\<lambda>_. Inr False) (exOrphans ! 0)"
    by (simp_all add: orphan_def exOrphans_def labelOf_def FlowName_UnmarshalText_def FlowName_Validate_def flowChar_def exDockerRepository_def
        exDockerConf_def created_def exConfig_of exLabels_def)
  obtain t where t: "docker_Cleanup exDocker exDockerRepository (Some (\<lambda>_. Inr False)) (engineAt exOrphans) = (Inr (), t)"
    by (simp add: docker_Cleanup_def mapErrE_def bindE_def engineE_def exOrphans_def created_def exConfig_of exLabels_def labelOf_def
        FlowName_UnmarshalText_def FlowName_Validate_def flowChar_def exDockerRepository_def exDockerConf_def liftS_def removeUnchecked_def
        removeContainer_def returnE_def)
  from cleanup_removes_orphans_only[OF t listed] o t show ?thesis by (simp add: exOrphans_def)
qed

definition exactFloat :: go_float where "exactFloat = \<lparr>fl = id, fl32 = id\<rparr>"

definition exPull :: "(env_err + pull_message) list" where
  "exPull = [Inr \<lparr>pm_ID = ''a'', pm_Status = ''Downloading'', pm_Progress = Some (1, 2), pm_Error = None\<rparr>,
     Inr \<lparr>pm_ID = ''a'', pm_Status = ''Downloading'', pm_Progress = Some (2, 2), pm_Error = None\<rparr>]"

theorem pull_progress_grows_witness:
  "sorted_wrt (<) (snd (handleImagePullProgress exactFloat (shown (\<lambda>_. Inr ())) (returnE ()) exPull []))"
proof -
  have "go_float_ok exactFloat" by (simp add: go_float_ok_def exactFloat_def mono_def)
  moreover have "list_all message_ok exPull" by (simp add: exPull_def message_ok_def)
  ultimately show ?thesis using pull_progress_grows by blast
qed

end
