(* ===== verification/KubeExample.thy ===== *)
theory KubeExample
  imports KubeEffects DockerExample
begin

section \<open>Pods at a concrete cluster\<close>

text \<open>
  A cluster with the list of its pods as its state: a pod that is created runs at once, and a list is a single page. The properties of the
  repository of pods are applied here.
\<close>

subsection \<open>The cluster\<close>

definition podMatches :: "bytes \<Rightarrow> bytes option \<Rightarrow> pod \<Rightarrow> bool" where
  "podMatches name v p = (case map_of (po_Labels p) name of None \<Rightarrow> False | Some w \<Rightarrow> v = None \<or> v = Some w)"

definition noPod :: kube_err where "noPod = KubeErr ''pods not found'' True False"

definition podStarted :: "pod \<Rightarrow> pod" where "podStarted config = config\<lparr>po_Phase := PodRunning\<rparr>"

definition exKube :: "(bool, pod list) kube_deps" where
  "exKube = \<lparr>kd_idText = (\<lambda>i. CHR ''i'' # i), kd_idParse = (\<lambda>t. if t = [] then None else Some (tl t)),
     kd_jsonEncode = writeTexts, kd_jsonDecode = (\<lambda>t. Some (readTexts [] (drop 1 t))), kd_net = exNetLib, kd_base64 = id,
     kd_pullSecret = (\<lambda>_. False), kd_authDecode = (\<lambda>_. None), kd_authJson = (\<lambda>_. None), kd_secretEncode = (\<lambda>_ a. Inr (ac_Auth a)),
     kd_masterKey = Inr ''k'', kd_dlv = None, kd_clientSet = Inr (), kd_findOciImage = (\<lambda>os arch e. (Inr ''bifroest'', e)),
     kd_slowImage = (\<lambda>_. False), kd_startPreparation = (\<lambda>req ref e. (Inr False, e)), kd_report = (\<lambda>p e. (Inr (), e)),
     kd_completed = (\<lambda>e. (Inr (), e)), kd_reportError = (\<lambda>e. (Inr (), e)), kd_namespaceGet = (\<lambda>n e. (Inr (), e)),
     kd_namespaceCreate = (\<lambda>n e. (Inr (), e)), kd_secretApply = (\<lambda>n m c l e. (Inr (), e)), kd_secretDelete = (\<lambda>n m e. (Inr (), e)),
     kd_secretOwner = (\<lambda>n m p e. (Inr (), e)), kd_podCreate = (\<lambda>config e. (Inr config, [podStarted config])),
     kd_podWatch = (\<lambda>n m e. (if (n, m) \<in> set (map (\<lambda>p. (po_Namespace p, po_Name p)) e) then Inr () else Inl noPod, e)),
     kd_podGet = (\<lambda>n m e. (if (n, m) \<in> set (map (\<lambda>p. (po_Namespace p, po_Name p)) e) then Inr () else Inl noPod, e)),
     kd_podDelete = (\<lambda>fg n m e. (Inr (), filter (\<lambda>p. (po_Namespace p, po_Name p) \<noteq> (n, m)) e)),
     kd_podList = (\<lambda>ns name v n mark e. (Inr ((case n of None \<Rightarrow> id | Some k \<Rightarrow> take k) (filter (podMatches name v) e), []), e)),
     kd_podEvents = map PevPod, kd_removeEvents = (\<lambda>e. [RevDeleted]), kd_impOpen = (\<lambda>_. Inr ()),
     kd_newConnId = (\<lambda>e. (Inr (replicate 16 (CHR ''a'')), e)), kd_ctxErr = (\<lambda>_. None),
     kd_getEnvironment = (\<lambda>env i e. (TryOk [], e)), kd_sleep = (\<lambda>e. (Inr (), e)), kd_noDone = True\<rparr>"

lemma exKube_simps [simp]:
  "kd_idText exKube i = CHR ''i'' # i" "kd_clientSet exKube = Inr ()" "kd_slowImage exKube e = False" "kd_findOciImage exKube os arch e = (Inr ''bifroest'', e)"
  "kd_startPreparation exKube req ref e = (Inr False, e)" "kd_namespaceGet exKube ns e = (Inr (), e)" "kd_podCreate exKube config e = (Inr config, [podStarted config])"
  "kd_podWatch exKube ns m e = (if (ns, m) \<in> set (map (\<lambda>p. (po_Namespace p, po_Name p)) e) then Inr () else Inl noPod, e)"
  "kd_podGet exKube ns m e = (if (ns, m) \<in> set (map (\<lambda>p. (po_Namespace p, po_Name p)) e) then Inr () else Inl noPod, e)"
  "kd_podDelete exKube fg ns m e = (Inr (), filter (\<lambda>p. (po_Namespace p, po_Name p) \<noteq> (ns, m)) e)"
  "kd_podList exKube ns name v n mark e = (Inr ((case n of None \<Rightarrow> id | Some k \<Rightarrow> take k) (filter (podMatches name v) e), []), e)"
  "kd_podEvents exKube e = map PevPod e" "kd_removeEvents exKube e = [RevDeleted]" "kd_impOpen exKube env = Inr ()"
  "kd_newConnId exKube e = (Inr (replicate 16 (CHR ''a'')), e)" "kd_ctxErr exKube e = None" "kd_getEnvironment exKube env i e = (TryOk [], e)"
  "kd_idParse exKube t = (if t = [] then None else Some (tl t))" "kd_secretOwner exKube ns m p e = (Inr (), e)"
  by (simp_all add: exKube_def)

lemma exKube_cluster_ok: "cluster_ok exKube"
  by (auto simp: cluster_ok_def podMatches_def podStarted_def take_Cons' split: option.splits if_splits dest!: in_set_takeD)

lemma exKube_json_ok: "kube_json_ok exKube"
  using exDocker_json_ok by (simp add: kube_json_ok_def docker_json_ok_def exKube_def exDocker_def)

definition exKubeConf :: "bool env_kubernetes_conf" where
  "exKubeConf = \<lparr>kc_LoginAllowed = (\<lambda>_. Inr True), kc_Name = Some (\<lambda>_. Inr ''p''), kc_Namespace = Some (\<lambda>_. Inr ''n''), kc_hardCodedNamespace = Some ''n'',
     kc_Os = OsLinux, kc_Arch = ArchAmd64, kc_ServiceAccountName = None, kc_Image = Some (\<lambda>_. Inr ''alpine''), kc_ImagePullPolicy = PullPolicyIfAbsent,
     kc_ImagePullSecretName = None, kc_ImagePullCredentials = None, kc_ReadyTimeout = (\<lambda>_. Inr 1), kc_Capabilities = [],
     kc_Privileged = (\<lambda>_. Inr False), kc_DnsServers = [], kc_DnsSearch = [], kc_ShellCommand = [Some (\<lambda>_. Inr ''/sh'')], kc_ExecCommand = [],
     kc_SftpCommand = [], kc_Directory = Some (\<lambda>_. Inr ''/d''), kc_User = Some (\<lambda>_. Inr ''u''), kc_Group = None, kc_Banner = None,
     kc_PortForwardingAllowed = (\<lambda>_. Inr True), kc_CleanOrphan = (\<lambda>_. Inr True)\<rparr>"

definition exKubeRepository :: "bool kubernetes_repository" where
  "exKubeRepository = \<lparr>kr_flow = ''f'', kr_conf = exKubeConf, kr_clientNamespace = [], kr_defaultLogLevelName = []\<rparr>"

definition clusterAt :: "pod list \<Rightarrow> pod list kube_state" where
  "clusterAt ps = \<lparr>es_engine = ps, es_instances = [], es_active = (\<lambda>_. None), es_held = (\<lambda>_. Free), es_removed = []\<rparr>"

lemma clusterAt_simps [simp]:
  "es_engine (clusterAt ps) = ps" "es_instances (clusterAt ps) = []" "es_active (clusterAt ps) i = None" "es_held (clusterAt ps) i = Free"
  "es_removed (clusterAt ps) = []"
  by (simp_all add: clusterAt_def)

lemma clusterAt_ready: "kube_ready exKube id (clusterAt ps)"
  by (simp add: kube_ready_def exKube_cluster_ok others_ok_def active_ok_def)

lemma exKubeRepository_simps [simp]: "kr_flow exKubeRepository = ''f''" "kr_conf exKubeRepository = exKubeConf" "kr_clientNamespace exKubeRepository = []"
  "kr_defaultLogLevelName exKubeRepository = []" "ec_remote exDockerRequest = (''u'', ''h'')" "au_session (ec_authorization exDockerRequest) = Some exSession"
  "ss_id exSession = []"
  by (simp_all add: exKubeRepository_def exDockerRequest_def exSession_def)

lemma exPodConfig: "\<exists>config. (\<forall>s. resolvePodConfig exKube exKubeRepository exDockerRequest exSession s = (Inr (config, []), s)) \<and>
    po_Name config = ''p'' \<and> po_Namespace config = ''n''"
proof -
  have image: "String_Render (kc_Image exKubeConf) req = Inr ''alpine''" for req by (simp add: exKubeConf_def String_Render_def)
  have rest: "String_Render (kc_Name exKubeConf) req = Inr ''p''" "String_Render (kc_Namespace exKubeConf) req = Inr ''n''" "kc_Os exKubeConf = OsLinux"
      "String_Render (kc_ServiceAccountName exKubeConf) req = Inr []" "Strings_Render (kc_DnsServers exKubeConf) req = Inr []"
      "Strings_Render (kc_DnsSearch exKubeConf) req = Inr []" "String_Render (kc_ImagePullSecretName exKubeConf) req = Inr []"
      "String_Render (kc_ImagePullCredentials exKubeConf) req = Inr []" for req
    by (simp_all add: exKubeConf_def String_Render_def wrapR_def)
  obtain a where a: "podAnnotations exKube exKubeRepository exDockerRequest = Inr a"
    by (simp add: podAnnotations_def kube_resolveEncodedShellCommand_def kube_resolveEncodedExecCommand_def kube_resolveEncodedSftpCommand_def
        exKubeConf_def configE_def wrapR_def String_Render_def BifroestBinaryFileLocation_def)
  obtain c where c: "kube_resolveContainerConfig exKube exKubeRepository exDockerRequest exSession = Inr c"
    by (simp add: kube_resolveContainerConfig_def kube_pullPolicy_def exKubeConf_def configE_def wrapR_def String_Render_def
        BifroestBinaryFileLocation_def exKube_def Let_def)
  obtain i where i: "\<And>s. resolveInitContainerConfig exKube exKubeRepository exDockerRequest s = (Inr i, s)"
    by (simp add: resolveInitContainerConfig_def initImage_def imageProgress_def engineE_def bindE_def onErrorE_def returnE_def liftS_def liftE_def rest)
  show ?thesis
    by (simp add: resolvePodConfig_def Let_def bindE_def liftS_def liftE_def returnE_def mapErrE_def ensureNamespace_def rest a c i podOs_def
        resolvePullSecretName_def kube_resolvePullCredentials_def configE_def)
qed

definition exPod :: pod where
  "exPod = (case resolvePodConfig exKube exKubeRepository exDockerRequest exSession (clusterAt []) of (Inr (config, _), _) \<Rightarrow> config | _ \<Rightarrow> undefined)"

lemma exPod_of:
  "resolvePodConfig exKube exKubeRepository exDockerRequest exSession s = (Inr (exPod, []), s)" "po_Name exPod = ''p''" "po_Namespace exPod = ''n''"
  using exPodConfig by (auto simp: exPod_def)

theorem pod_settings_restored_witness:
  "\<exists>env. parsePod exKube exKubeRepository (podStarted exPod) = Inr env \<and> ei_sessionId env = [] \<and> ku_shellCommand env = [''/sh''] \<and>
     ku_execCommand env = [''/bin/sh'', ''-c''] \<and> ku_user env = ''u'' \<and> ku_environ env = []"
proof -
  have r: "Strings_Render (kc_ShellCommand (kr_conf exKubeRepository)) exDockerRequest = Inr [''/sh'']"
    "Strings_Render (kc_ExecCommand (kr_conf exKubeRepository)) exDockerRequest = Inr []"
    "Strings_Render (kc_SftpCommand (kr_conf exKubeRepository)) exDockerRequest = Inr []"
    by (simp_all add: exKubeConf_def wrapR_def String_Render_def)
  have v: "list_all utf8_ValidString [''/sh''] \<and> ([''/sh''] \<noteq> [] \<longrightarrow> hd [''/sh''] \<noteq> [])" by code_simp
  have o: "kr_flow exKubeRepository \<noteq> []" "snd (ec_remote exDockerRequest) \<noteq> []" "kc_Os (kr_conf exKubeRepository) = OsLinux"
    by (simp_all add: exKubeConf_def)
  have p: "po_Labels (podStarted exPod) = po_Labels exPod" "po_Annotations (podStarted exPod) = po_Annotations exPod"
    by (simp_all add: podStarted_def)
  from pod_settings_restored[OF exKube_json_ok o exPod_of(1) p r(1) v r(2) _ r(3)]
  show ?thesis by (auto simp: effective_def exKubeConf_def String_Render_def)
qed

subsection \<open>Ensuring\<close>

definition exAnnotations :: "(bytes \<times> bytes) list" where
  "exAnnotations = [(KubernetesAnnotationCreatedRemoteUser, ''u''), (KubernetesAnnotationCreatedRemoteHost, ''h''),
     (KubernetesAnnotationShellCommand, writeTexts [''/sh'']), (KubernetesAnnotationExecCommand, writeTexts [''/bin/sh'', ''-c'']),
     (KubernetesAnnotationSftpCommand, writeTexts [''/usr/bin/bifroest'', ''sftp-server'']), (KubernetesAnnotationUser, ''u''),
     (KubernetesAnnotationGroup, []), (KubernetesAnnotationDirectory, ''/d''), (KubernetesAnnotationPortForwardingAllowed, ''true'')]"

lemma exAnnotations_of: "podAnnotations exKube exKubeRepository exDockerRequest = Inr exAnnotations"
  by (simp add: podAnnotations_def configE_def kube_resolveEncodedShellCommand_def kube_resolveEncodedExecCommand_def exAnnotations_def
        kube_resolveEncodedSftpCommand_def exKubeConf_def wrapR_def String_Render_def BifroestBinaryFileLocation_def exKube_def)

lemma exPodParsed: "\<exists>env. parsePod exKube exKubeRepository (podStarted exPod) = Inr env \<and> ei_sessionId env = []"
proof -
  have l: "po_Labels (podStarted exPod) = podLabels exKube exKubeRepository exSession" "po_Annotations (podStarted exPod) = exAnnotations"
    using resolvePod_labels[OF exPod_of(1)] resolvePod_annotations[OF exPod_of(1)] exAnnotations_of by (simp_all add: podStarted_def)
  have c: "decodedAnnotation exKube (writeTexts (x # xs)) = Inr (x # xs)" if "x \<noteq> []" for x xs
    using that readTexts_write[of "x # xs"] by (simp add: decodedAnnotation_def exKube_def)
  moreover have "writeTexts ys \<noteq> []" for ys by (simp add: writeTexts_def)
  ultimately show ?thesis
    unfolding parsePod_def l Let_def by (simp add: podLabels_def labelOf_def exAnnotations_def)
qed

lemma exPodCreated: "createPodBy exKube exKubeRepository exDockerRequest exSession s = (Inr (podStarted exPod), s\<lparr>es_engine := [podStarted exPod]\<rparr>)"
proof -
  have "kc_ReadyTimeout exKubeConf req = Inr 1" for req by (simp add: exKubeConf_def)
  moreover have "po_Namespace (podStarted exPod) = ''n''" "po_Name (podStarted exPod) = ''p''" "po_Phase (podStarted exPod) = PodRunning"
    by (simp_all add: podStarted_def exPod_of)
  ultimately show ?thesis
    by (simp add: createPodBy_def createResolved_def awaitCreated_def exPod_of bindE_def onErrorE_def failing_def engineE_def liftS_def liftE_def returnE_def)
qed

lemma exPodNew: "parsePod exKube exKubeRepository p = Inr env \<Longrightarrow>
    newKubernetes exKube exKubeRepository p s = (Inr (length (es_instances s)), s\<lparr>es_instances := es_instances s @ [(withEnviron (Some []) env)\<lparr>ei_owners := 1\<rparr>]\<rparr>)"
  by (simp add: newKubernetes_def remember_def liftS_def liftE_def bindE_def engineE_def mapErrE_def wrapTry_def eval_nat_numeral)

lemma exPodEnsured: "\<exists>t. kube_Ensure exKube id exKubeRepository exDockerRequest (clusterAt []) = (Inr 0, t) \<and> es_engine t = [podStarted exPod]"
proof -
  have f: "findPodBySession exKube exKubeRepository [] s = (Inr None, s)" if "es_engine s = []" for s
    using that by (simp add: findPodBySession_def mapErrE_def bindE_def liftS_def liftE_def engineE_def returnE_def)
  then have r: "readPhase (searchPod exKube exKubeRepository [] True) [] (clusterAt []) = (Inr (Inr None), clusterAt [])"
    by (simp add: readPhase_def withLock_free searchPod_def bindE_def returnE_def unlockS_def clusterAt_def fun_upd_def cong: if_cong)
  obtain env where env: "parsePod exKube exKubeRepository (podStarted exPod) = Inr env" "ei_sessionId env = []" using exPodParsed by blast
  have a: "kube_WillBeAccepted exKubeRepository exDockerRequest = Inr True" by (simp add: kube_WillBeAccepted_def exKubeConf_def)
  let ?s = "clusterAt []"
  have "kube_findOrEnsureBySession exKube id exKubeRepository exSession None (Some exDockerRequest) ?s =
      (Inr 0, unlockS [] ((locked [] ?s)\<lparr>es_engine := [podStarted exPod], es_instances := [(withEnviron (Some []) env)\<lparr>ei_owners := 1\<rparr>],
         es_active := (es_active ?s)([] := Some 0)\<rparr>))"
    using r by (simp add: kube_findOrEnsureBySession_def sharedOr_def bindE_def withLock_free orActive_def freshPod_def chosenPod_def createdOr_def
        exPodCreated exPodNew[OF env(1)] activate_def locked_def)
  then show ?thesis
    by (auto simp: kube_Ensure_def a liftS_def liftE_def bindE_def unlockS_def locked_def eval_nat_numeral)
qed

theorem pod_of_session_witness:
  "\<exists>t. kube_Ensure exKube id exKubeRepository exDockerRequest (clusterAt []) = (Inr 0, t) \<and> ei_sessionId (es_instances t ! 0) = [] \<and>
     fst (kube_FindBySession exKube id exKubeRepository exSession None t) = Inr 0"
proof -
  obtain t where t: "kube_Ensure exKube id exKubeRepository exDockerRequest (clusterAt []) = (Inr 0, t)" using exPodEnsured by blast
  have "kube_wanted exKubeRepository exDockerRequest = Some []" by (simp add: kube_wanted_def kube_WillBeAccepted_def exKubeConf_def)
  with pod_of_session[OF clusterAt_ready, of exKubeRepository exSession None "[]" exDockerRequest] t show ?thesis by simp
qed

subsection \<open>Disposing and cleaning\<close>

text \<open>The pod of the environment of the session is gone.\<close>

definition exGone :: "pod list kube_state" where
  "exGone = (clusterAt [])\<lparr>es_instances := [\<lparr>ei_sessionId = [], ei_owners = 1, ku_name = ''p'', ku_namespace = ''n'', ku_remoteUser = ''u'',
     ku_remoteHost = \<lparr>nh_IP = [], nh_Dns = ''h''\<rparr>, ku_shellCommand = [], ku_execCommand = [], ku_sftpCommand = [], ku_user = [], ku_group = [],
     ku_directory = [], ku_portForwardingAllowed = True, ku_environ = []\<rparr>],
     es_active := (\<lambda>i. if i = [] then Some 0 else None)\<rparr>"

theorem gone_pod_not_disposed_witness:
  "\<exists>msg t. kube_Dispose exKube 0 exGone = (Inl (SErr msg), t) \<and> es_removed t = [] \<and> es_active t [] = None"
proof -
  have ready: "kube_ready exKube id exGone"
    by (auto simp: kube_ready_def exKube_cluster_ok others_ok_def active_ok_def exGone_def)
  have s: "es_active exGone (ss_id exSession) = Some 0" "ei_owners (es_instances exGone ! 0) = 1" "es_removed exGone = []"
    by (simp_all add: exGone_def)
  have gone: "kd_podGet exKube (ku_namespace (es_instances exGone ! 0)) (ku_name (es_instances exGone ! 0)) (es_engine exGone) = (Inl noPod, [])"
    by (simp add: exGone_def)
  from gone_pod_not_disposed[OF ready s(1) exKube_simps(2) gone, of exKubeRepository None] s show ?thesis
    by (auto simp: noPod_def)
qed

text \<open>A pod of a session that does not exist any more, one of a session that does, and one of a flow that is not configured.\<close>

definition podOf :: "bytes \<Rightarrow> bytes \<Rightarrow> bytes \<Rightarrow> pod" where
  "podOf name flow i = exPod\<lparr>po_Name := name, po_Phase := PodRunning, po_Labels := [(KubernetesLabelFlow, flow), (KubernetesLabelSessionId, i)]\<rparr>"

lemma podOf_simps [simp]: "po_Name (podOf name flow i) = name" "po_Namespace (podOf name flow i) = ''n''" "po_Phase (podOf name flow i) = PodRunning"
  "po_Labels (podOf name flow i) = [(KubernetesLabelFlow, flow), (KubernetesLabelSessionId, i)]"
  by (simp_all add: podOf_def exPod_of)

definition exPods :: "pod list" where
  "exPods = [podOf ''a'' ''f'' ''i'', podOf ''b'' ''f'' ''ix'', podOf ''c'' ''g'' ''i'']"

abbreviation exHasFlow :: "bytes \<Rightarrow> env_err + bool" where "exHasFlow \<equiv> flowPredicate (Some (\<lambda>_. Inr False))"
abbreviation exHasSession :: "bytes \<Rightarrow> sid \<Rightarrow> env_err + bool option" where "exHasSession \<equiv> sessionPredicate (Some (\<lambda>_ i. Inr (i \<noteq> [])))"

lemma exRemoved: "(''n'', name) \<in> set (map (\<lambda>p. (po_Namespace p, po_Name p)) (es_engine s)) \<Longrightarrow> po_Namespace p = ''n'' \<Longrightarrow> po_Name p = name \<Longrightarrow>
    removePodUnchecked exKube p s = (Inr (), s\<lparr>es_engine := filter (\<lambda>q. (po_Namespace q, po_Name q) \<noteq> (''n'', name)) (es_engine s),
      es_removed := es_removed s @ [podId ''n'' name]\<rparr>)"
  by (simp add: removePodUnchecked_def removePod_plain removeWatched_def bindE_def mapErrE_def liftS_def liftE_def unlessGone_def asked_def askDelete_def returnE_def)

lemma exFlows: "FlowName_UnmarshalText ''f'' = Some ''f''" "FlowName_UnmarshalText ''g'' = Some ''g''"
  by (simp_all add: FlowName_UnmarshalText_def FlowName_Validate_def flowChar_def)

lemma exPods_cleaned: "\<exists>t. kube_Cleanup exKube exKubeRepository (Some (\<lambda>_. Inr False)) (Some (\<lambda>_ i. Inr (i \<noteq> []))) (clusterAt exPods) = Some (Inr (), t) \<and>
    es_removed t = [''n/a'', ''n/c'']"
proof -
  let ?a = "podOf ''a'' ''f'' ''i''" and ?b = "podOf ''b'' ''f'' ''ix''" and ?c = "podOf ''c'' ''g'' ''i''"
  have "cleanupPod exKube exKubeRepository exHasFlow exHasSession ?a = removePodUnchecked exKube ?a"
    by (simp add: cleanupPod_def labelOf_def exFlows sessionPredicate_def)
  moreover have "cleanupPod exKube exKubeRepository exHasFlow exHasSession ?b = returnE ()"
    by (simp add: cleanupPod_def labelOf_def exFlows sessionPredicate_def)
  moreover have "cleanupPod exKube exKubeRepository exHasFlow exHasSession ?c = removePodUnchecked exKube ?c"
    by (rule ext) (simp add: cleanupPod_def labelOf_def exFlows flowPredicate_def bindE_liftS exKubeConf_def)
  ultimately have "\<exists>t. forE (cleanupPod exKube exKubeRepository exHasFlow exHasSession) exPods (clusterAt exPods) = (Inr (), t) \<and> es_removed t = [''n/a'', ''n/c'']"
    by (simp add: exPods_def bindE_def returnE_def exRemoved[of "''a''"] exRemoved[of "''c''"] podId_def)
  then obtain t where t: "forE (cleanupPod exKube exKubeRepository exHasFlow exHasSession) exPods (clusterAt exPods) = (Inr (), t)" "es_removed t = [''n/a'', ''n/c'']"
    by blast
  have "filter (podMatches KubernetesLabelFlow None) exPods = exPods" by (simp add: exPods_def podMatches_def)
  then have l: "engineE kubeError (kd_podList exKube (podsClient exKubeRepository) KubernetesLabelFlow None None []) (clusterAt exPods) = (Inr (exPods, []), clusterAt exPods)"
    by (simp add: engineE_def clusterAt_def)
  have "cleanupPages exKube exKubeRepository exHasFlow exHasSession [] (clusterAt exPods) = Some (Inr (), t)"
    by (subst cleanupPages.simps) (simp add: l t)
  with t(2) show ?thesis by (simp add: kube_Cleanup_pages)
qed

lemma exListed: "listed exKube exKubeRepository exHasFlow exHasSession [] (clusterAt exPods) p \<Longrightarrow> p \<in> set exPods"
  by (erule listedE) (auto simp: engineE_def)

text \<open>The pods of the ended session and of the unknown flow are removed; the one of the living session may not be.\<close>

theorem pods_cleaned_are_doomed_witness:
  "{''n/a'', ''n/c''} \<subseteq> doomed_ids exKube exKubeRepository exHasFlow exHasSession [] (clusterAt exPods) \<and>
   ''n/b'' \<notin> doomed_ids exKube exKubeRepository exHasFlow exHasSession [] (clusterAt exPods)"
proof
  obtain t where t: "kube_Cleanup exKube exKubeRepository (Some (\<lambda>_. Inr False)) (Some (\<lambda>_ i. Inr (i \<noteq> []))) (clusterAt exPods) = Some (Inr (), t)"
    "es_removed t = [''n/a'', ''n/c'']" using exPods_cleaned by blast
  from pods_cleaned_are_doomed[OF t(1)] t(2)
  show "{''n/a'', ''n/c''} \<subseteq> doomed_ids exKube exKubeRepository exHasFlow exHasSession [] (clusterAt exPods)" by auto
  have "\<not> doomed_pod exKube exKubeRepository exHasFlow exHasSession (podOf ''b'' ''f'' ''ix'')"
    by (simp add: doomed_pod_def labelOf_def exFlows sessionPredicate_def)
  then show "''n/b'' \<notin> doomed_ids exKube exKubeRepository exHasFlow exHasSession [] (clusterAt exPods)"
    using exListed by (fastforce simp: doomed_ids_def podId_def exPods_def)
qed

subsection \<open>A second run\<close>

definition exPodRun :: kube_run_os where
  "exPodRun = \<lparr>kw_lookupEnv = (\<lambda>_. None), kw_agentPipe = Inr [], kw_connIdText = ''c'', kw_executor = Inr (), kw_spare = 1\<rparr>"

definition exPodTask :: "bool env_task" where
  "exPodTask = \<lparr>ec_authorization = ec_authorization exDockerRequest, ec_remote = (''u'', ''h''), et_taskType = TaskTypeShell, et_rawCommand = ''ls'',
     et_environ = [], et_agentRequested = False, et_pty = None\<rparr>"

theorem second_run_path_witness:
  "\<exists>c1 env1 c2 env2. kube_taskCommand exPodRun OsLinux ((es_instances exGone ! 0)\<lparr>ku_execCommand := [''/bin/sh'', ''-c'']\<rparr>) exPodTask = Inr ((''/bin/sh'', c1), env1) \<and>
     kube_taskCommand exPodRun OsLinux env1 exPodTask = Inr ((''-sh'', c2), env2)"
proof -
  let ?env = "(es_instances exGone ! 0)\<lparr>ku_execCommand := [''/bin/sh'', ''-c'']\<rparr>"
  have base: "filepath_Base ''/bin/sh'' = ''sh''" by code_simp
  have t: "kw_spare exPodRun > 0" "et_taskType exPodTask = TaskTypeShell" "et_rawCommand exPodTask \<noteq> []" "ku_execCommand ?env = ''/bin/sh'' # [''-c'']"
    by (simp_all add: exPodRun_def exPodTask_def)
  obtain p1 c1 env1 p2 c2 env2 where r: "kube_taskCommand exPodRun OsLinux ?env exPodTask = Inr ((p1, c1), env1)"
      "kube_taskCommand exPodRun OsLinux env1 exPodTask = Inr ((p2, c2), env2)"
    using t by (simp add: kube_taskCommand_def Let_def)
  from second_run_path[OF t(1-3) t(2-4) r] r show ?thesis by (auto simp: base)
qed

end
