(* ===== verification/ImpProps.thy ===== *)
theory ImpProps
  imports ImpProtocol
begin

section \<open>Calls of the master, answered by the helper process\<close>

text \<open>What an operation writes on a fresh stream.\<close>

definition written :: "unit ms \<Rightarrow> bytes" where
  "written m = st_out (snd (m \<lparr>st_in = [], st_out = [], st_limit = None\<rparr>))"

lemma Master_do_open:
  "Master_do mp (Inr (imp_of nl mp os)) cid method action =
     fst (bindE (Header_EncodeMsgPack mp \<lparr>ih_Method = method, ih_ConnectionId = cid\<rparr>)
        (\<lambda>_. action (imp_of nl mp os) \<lparr>ih_Method = method, ih_ConnectionId = cid\<rparr>) \<lparr>st_in = [], st_out = [], st_limit = None\<rparr>)"
  by (auto simp: Master_do_def Let_def openStream_def imp_of_def deferE_def liftE_def split: prod.splits sum.splits)

lemma handleFromServerSide_answers:
  assumes "dec s = (Inr q, s1)" and "action q s1 = (Inr p, s2)" and "enc p s2 = (Inr (), s3)"
  shows "handleFromServerSide h dec action enc s = (Inr Answered, s3)"
  using assms by (simp add: handleFromServerSide_def mapErrE_def bindE_def returnE_def)

text \<open>
  A call that the server handles with \<open>action\<close>: the master gets the response that the action gives to its request, as the
  response arrives, and the process has sent the signals of the action.
\<close>

lemma rpc:
  fixes encReq :: "unit ms" and decReq :: "'q im" and encRsp :: "'p \<Rightarrow> unit im" and decRsp :: "'r ms"
  assumes ok: "msgpack_ok mp" "header_ok h"
    and serve: "\<And>s t. Header_DecodeMsgPack mp s = (Inr h, t) \<Longrightarrow> serveConn nl mp os s = handleFromServerSide h decReq action encRsp t"
    and req: "carries encReq decReq q"
    and act: "\<And>s. action q s = (Inr p, s\<lparr>is_sent := is_sent s @ sigs\<rparr>)"
    and rsp: "carries (encRsp p) decRsp r"
  shows "Master_do mp (Inr (imp_of nl mp os)) (ih_ConnectionId h) (ih_Method h) (\<lambda>peer header. handleFromClientSide peer header encReq decRsp f) = f r"
    and "is_sent (snd (serveConn nl mp os (imp_started (written (bindE (Header_EncodeMsgPack mp h) (\<lambda>_. encReq)))))) = sigs"
proof -
  have h: "carries (Header_EncodeMsgPack mp h) (Header_DecodeMsgPack mp) h"
    using headerMessage.transfer[of mp h] ok by simp
  obtain hb where hb: "\<And>s :: stream. st_limit s = None \<Longrightarrow> Header_EncodeMsgPack mp h s = (Inr (), s\<lparr>st_out := st_out s @ hb\<rparr>)"
    "\<And>(s :: imp_state) rest. st_in s = hb @ rest \<Longrightarrow> Header_DecodeMsgPack mp s = (Inr h, s\<lparr>st_in := rest\<rparr>)"
    using h unfolding carries_def by blast
  obtain qb where qb: "\<And>s. st_limit s = None \<Longrightarrow> encReq s = (Inr (), s\<lparr>st_out := st_out s @ qb\<rparr>)"
    "\<And>s rest. st_in s = qb @ rest \<Longrightarrow> decReq s = (Inr q, s\<lparr>st_in := rest\<rparr>)"
    using req unfolding carries_def by blast
  obtain rb where rb: "\<And>s. st_limit s = None \<Longrightarrow> encRsp p s = (Inr (), s\<lparr>st_out := st_out s @ rb\<rparr>)"
    "\<And>s rest. st_in s = rb @ rest \<Longrightarrow> decRsp s = (Inr r, s\<lparr>st_in := rest\<rparr>)"
    using rsp unfolding carries_def by blast
  have "Header_DecodeMsgPack mp (imp_started (hb @ qb)) = (Inr h, imp_started qb)"
    by (subst hb(2)) (simp_all add: imp_started_def)
  then have "serveConn nl mp os (imp_started (hb @ qb)) = handleFromServerSide h decReq action encRsp (imp_started qb)" by (rule serve)
  moreover have "decReq (imp_started qb) = (Inr q, imp_started [])"
    by (subst qb(2)[of _ "[]"]) (simp_all add: imp_started_def)
  moreover note act[of "imp_started []"]
  moreover have "encRsp p (imp_started []\<lparr>is_sent := is_sent (imp_started []) @ sigs\<rparr>) =
      (Inr (), \<lparr>st_in = [], st_out = rb, st_limit = None, is_sent = sigs\<rparr>)"
    by (subst rb(1)) (simp_all add: imp_started_def)
  ultimately have served: "serveConn nl mp os (imp_started (hb @ qb)) =
      (Inr Answered, \<lparr>st_in = [], st_out = rb, st_limit = None, is_sent = sigs\<rparr>)"
    using handleFromServerSide_answers[of decReq "imp_started qb" q "imp_started []" action p] by simp
  have w: "written (bindE (Header_EncodeMsgPack mp h) (\<lambda>_. encReq)) = hb @ qb"
    by (simp add: written_def bindE_def hb(1) qb(1))
  show "is_sent (snd (serveConn nl mp os (imp_started (written (bindE (Header_EncodeMsgPack mp h) (\<lambda>_. encReq)))))) = sigs"
    by (simp add: w served)
  have "fst (handleFromClientSide (imp_of nl mp os) h encReq decRsp f \<lparr>st_in = [], st_out = hb, st_limit = None\<rparr>) = f r"
    by (simp add: handleFromClientSide_def mapErrE_def bindE_def qb(1) awaitPeer_def modifyE_def imp_of_def served rb(2)[of _ "[]"] liftE_def)
  then show "Master_do mp (Inr (imp_of nl mp os)) (ih_ConnectionId h) (ih_Method h) (\<lambda>peer header. handleFromClientSide peer header encReq decRsp f) = f r"
    using hb(1)[of "\<lparr>st_in = [], st_out = [], st_limit = None\<rparr>"] by (cases h) (simp add: Master_do_open bindE_def)
qed

lemmas rpc_call = rpc(1)[where h = "\<lparr>ih_Method = m, ih_ConnectionId = cid\<rparr>" and sigs = "[]" for m cid, simplified]

lemma methods_known:
  "protocolMethodToString MethodPing = Some ''ping''" "protocolMethodToString MethodKill = Some ''kill''"
  "protocolMethodToString MethodTcpForward = Some ''tcpForward''" "protocolMethodToString MethodNamedPipe = Some ''namedPipe''"
  "protocolMethodToString MethodGetConnectionExitCode = Some ''getConnectionExitCode''"
  "protocolMethodToString MethodGetEnvironment = Some ''getEnvironment''"
  by (simp_all add: protocolMethodToString_def stringToProtocolMethod_def)

lemma serveConn_dispatch:
  assumes "Header_DecodeMsgPack mp s = (Inr h, t)"
  shows "ih_Method h = MethodPing \<Longrightarrow> serveConn nl mp os s = handleMethodPing mp h t"
    and "ih_Method h = MethodKill \<Longrightarrow> serveConn nl mp os s = handleMethodKill mp os h t"
    and "ih_Method h = MethodTcpForward \<Longrightarrow> serveConn nl mp os s = handleMethodTcpForward nl mp os h t"
    and "ih_Method h = MethodNamedPipe \<Longrightarrow> serveConn nl mp os s = handleMethodNamedPipe mp os h t"
    and "ih_Method h = MethodGetConnectionExitCode \<Longrightarrow> serveConn nl mp os s = handleMethodGetConnectionExitCode mp os h t"
    and "ih_Method h = MethodGetEnvironment \<Longrightarrow> serveConn nl mp os s = handleMethodGetEnvironment mp os h t"
  by (simp_all add: serveConn_def bindE_def assms)

lemma remoteResult_simps [simp]:
  "remoteResult None v = Inr v" "remoteResult (Some e) v = Inl (ErrRemote e)"
  by (simp_all add: remoteResult_def AsRemoteError_def)

subsection \<open>Exit codes and variables\<close>

text \<open>
  The exit code of a connection is the number in its file. A file that is missing or holds no number, and the zero id, are
  answered as a connection that is not found; another error of reading arrives with its text.
\<close>

theorem remote_exit_code:
  assumes "msgpack_ok mp" and "length cid = 16"
    and "\<And>e. io_readFile os (filepath_Join [io_exitCodePath os, io_idText os cid]) = FileError e \<Longrightarrow> error_fits (Some e)"
  shows "methodGetConnectionExitCode mp (Inr (imp_of nl mp os)) cid =
    (if Id_IsZero cid then Inl ErrNotFound
     else case io_readFile os (filepath_Join [io_exitCodePath os, io_idText os cid]) of
         FileNotExist \<Rightarrow> Inl ErrNotFound
       | FileError e \<Rightarrow> (case wire_error (Some e) of Some e' \<Rightarrow> Inl (ErrRemote e') | None \<Rightarrow> Inl ErrNotFound)
       | FileContent b \<Rightarrow> (case strconv_Atoi (bytes_TrimSpace b) of Some v \<Rightarrow> Inr v | None \<Rightarrow> Inl ErrNotFound))"
proof -
  let ?h = "\<lparr>ih_Method = MethodGetConnectionExitCode, ih_ConnectionId = cid\<rparr>"
  obtain p where p: "\<And>s. exitCodeAction os ?h () s = (Inr p, s)" by (simp add: exitCodeAction_def returnE_def)
  have v: "int64 (er_exitCode p) \<and> error_fits (er_error p)"
    using p[of "imp_started []"] assms(3)
    by (auto simp: exitCodeAction_def returnE_def int64_def strconv_Atoi_def Let_def split: read_result.splits option.splits if_splits prod.splits)
  have "methodGetConnectionExitCode mp (Inr (imp_of nl mp os)) cid =
      bindR (remoteResult (er_error (exit_received p)) ()) (\<lambda>_. if \<not> er_found (exit_received p) then Inl ErrNotFound else Inr (er_exitCode (exit_received p)))"
    unfolding methodGetConnectionExitCode_def
    by (rule rpc_call[where action = "exitCodeAction os ?h" and p = p, OF _ _ _ emptyRequest.transfer[simplified] _ exitResponse.transfer])
      (simp_all add: assms(1,2) v p header_ok_def methods_known serveConn_dispatch handleMethodGetConnectionExitCode_def)
  then show ?thesis using p[of "imp_started []"]
    by (auto simp: exitCodeAction_def returnE_def exit_received_def wire_error_def split: read_result.splits option.splits if_splits)
qed

text \<open>The variables of the process arrive as the map they are.\<close>

theorem remote_environment:
  assumes "msgpack_ok mp" and "length cid = 16" and "variables_ok (EnvVars_Add (io_environ os) [])"
  shows "\<exists>vs. methodGetEnvironment mp (Inr (imp_of nl mp os)) cid = Inr vs \<and>
    map_of vs = map_of (EnvVars_Add (io_environ os) []) \<and> distinct (map fst vs)"
proof -
  let ?h = "\<lparr>ih_Method = MethodGetEnvironment, ih_ConnectionId = cid\<rparr>" and ?vs = "EnvVars_Add (io_environ os) []"
  have "methodGetEnvironment mp (Inr (imp_of nl mp os)) cid =
      remoteResult (snd (map_prod (\<lambda>vs. EnvVars_AddAllOf vs []) wire_error (?vs, None))) (fst (map_prod (\<lambda>vs. EnvVars_AddAllOf vs []) wire_error (?vs, None)))"
    unfolding methodGetEnvironment_def
    by (rule rpc_call[where action = "\<lambda>_. returnE (?vs, None)" and p = "(?vs, None)" and encRsp = "environmentResponse_EncodeMsgPack mp",
          OF _ _ _ emptyRequest.transfer[simplified] _ environmentResponse.transfer])
      (simp_all add: assms header_ok_def methods_known serveConn_dispatch handleMethodGetEnvironment_def returnE_def)
  then have "methodGetEnvironment mp (Inr (imp_of nl mp os)) cid = Inr (EnvVars_AddAllOf ?vs [])" by (simp add: wire_error_def)
  moreover have "distinct (map fst ?vs)" by (rule distinct_EnvVars) simp
  ultimately show ?thesis by (auto simp: map_of_foldl_update intro: distinct_EnvVars)
qed

subsection \<open>Signals\<close>

text \<open>The search for the process of a connection is that for the first one with the variable.\<close>

lemma processOf_find:
  "processOf v ps = (case find (\<lambda>(p, es). p \<noteq> 0 \<and> (\<exists>xs. es = Some xs \<and> v \<in> set xs)) ps of None \<Rightarrow> 0 | Some (p, _) \<Rightarrow> p)"
  by (induction v ps rule: processOf.induct) (auto split: option.splits)

text \<open>
  C27: A signal without a process id goes to the first process whose variables hold the id of the connection, and to no other;
  without such a process nothing is sent, and the master reads \<^verbatim>\<open>no such process\<close>.
\<close>

theorem remote_kill_of_connection:
  assumes "msgpack_ok mp" and "length cid = 16" and "io_processes os = Inr ps"
    and "pid = (case find (\<lambda>(p, es). p \<noteq> 0 \<and> (\<exists>xs. es = Some xs \<and> connection_EnvName @ ''='' @ io_idText os cid \<in> set xs)) ps of
          None \<Rightarrow> 0 | Some (p, _) \<Rightarrow> p)"
    and "pid \<noteq> 0 \<Longrightarrow> io_signal os pid sig = SignalSent"
    and "kill = bindE (Header_EncodeMsgPack mp \<lparr>ih_Method = MethodKill, ih_ConnectionId = cid\<rparr>)
           (\<lambda>_. killRequest_EncodeMsgPack mp \<lparr>kr_pid = 0, kr_signal = sig\<rparr>)"
  shows "methodKill mp (Inr (imp_of nl mp os)) cid 0 sig =
      (if pid = 0 then Inl (ErrRemote (ErrTyped ErrSystem ''no such process'' None False)) else Inr ()) \<and>
    is_sent (snd (serveConn nl mp os (imp_started (written kill)))) = (if pid = 0 then [] else [(pid, sig)])"
proof -
  let ?h = "\<lparr>ih_Method = MethodKill, ih_ConnectionId = cid\<rparr>" and ?r = "\<lparr>kr_pid = 0, kr_signal = sig\<rparr>"
  let ?p = "if pid = 0 then Some ErrNoSuchProcess else None" and ?sigs = "if pid = 0 then [] else [(pid, sig)]"
  have a: "killAction os ?h ?r s = (Inr ?p, s\<lparr>is_sent := is_sent s @ ?sigs\<rparr>)" for s
    using assms(3,5) assms(4)[folded processOf_find] by (auto simp: killAction_def Let_def bindE_def tryE_def imp_kill_def returnE_def)
  have fits: "error_fits ?p" by (simp add: ErrNoSuchProcess_def Newf_def short_def)
  have q: "carries (killRequest_EncodeMsgPack mp ?r) (killRequest_DecodeMsgPack mp) ?r"
    using killRequest.transfer[of mp ?r] assms(1) by (simp add: int64_def)
  have p: "carries (errorResponse_EncodeMsgPack mp ?p) (errorResponse_DecodeMsgPack mp) (wire_error ?p)"
    by (rule errorResponse.transfer) (use assms(1) fits in simp)
  have "header_ok ?h" using assms(2) by (simp add: header_ok_def methods_known)
  note call = rpc[where nl = nl and os = os and action = "killAction os ?h" and encRsp = "errorResponse_EncodeMsgPack mp", OF assms(1) this _ q a p]
  have "methodKill mp (Inr (imp_of nl mp os)) cid 0 sig = remoteResult (wire_error ?p) ()"
    unfolding methodKill_def
    by (rule call(1)[simplified]) (simp add: serveConn_dispatch handleMethodKill_def)
  moreover have "is_sent (snd (serveConn nl mp os (imp_started (written kill)))) = ?sigs"
    unfolding assms(6) by (rule call(2)) (simp add: serveConn_dispatch handleMethodKill_def)
  ultimately show ?thesis by (simp add: wire_error_def ErrNoSuchProcess_def Newf_def)
qed

subsection \<open>Forwarded connections\<close>

text \<open>
  The process connects to the target that arrived and to nothing else. The master is told whether it could; an error of
  the network arrives with the text of its most specific part, for users to see.
\<close>

theorem remote_forward:
  assumes "msgpack_ok mp" and "length cid = 16" and "target_ok nl target"
    and "\<And>e. io_dial os (HostPort_String nl (arrived_target nl target)) = Inl e \<Longrightarrow> error_fits (Some (reWrapIfUserFacingNetworkErrors e))"
    and "forward = bindE (Header_EncodeMsgPack mp \<lparr>ih_Method = MethodTcpForward, ih_ConnectionId = cid\<rparr>) (\<lambda>_. tcpForwardRequest_EncodeMsgPack nl mp target)"
  shows "case io_dial os (HostPort_String nl (arrived_target nl target)) of
      Inr _ \<Rightarrow> methodTcpForward nl mp (Inr (imp_of nl mp os)) cid target = Inr () \<and>
        fst (serveConn nl mp os (imp_started (written forward))) = Inr (CopyTarget (arrived_target nl target))
    | Inl e \<Rightarrow> methodTcpForward nl mp (Inr (imp_of nl mp os)) cid target =
          (case wire_error (Some (reWrapIfUserFacingNetworkErrors e)) of
             Some e' \<Rightarrow> Inl (requestFailed MethodTcpForward (ErrRemote e')) | None \<Rightarrow> Inr ()) \<and>
        fst (serveConn nl mp os (imp_started (written forward))) = Inr Answered"
proof -
  let ?h = "\<lparr>ih_Method = MethodTcpForward, ih_ConnectionId = cid\<rparr>" and ?t = "arrived_target nl target"
  obtain err outcome where eo: "(case io_dial os (HostPort_String nl ?t) of Inl e \<Rightarrow> (Some (reWrapIfUserFacingNetworkErrors e), Answered)
      | Inr _ \<Rightarrow> (None, CopyTarget ?t)) = (err, outcome)" by fastforce
  have h: "carries (Header_EncodeMsgPack mp ?h) (Header_DecodeMsgPack mp) ?h"
    using headerMessage.transfer[of mp ?h] assms(1,2) by (simp add: header_ok_def methods_known)
  obtain hb where hb: "\<And>s :: stream. st_limit s = None \<Longrightarrow> Header_EncodeMsgPack mp ?h s = (Inr (), s\<lparr>st_out := st_out s @ hb\<rparr>)"
    "\<And>(s :: imp_state) rest. st_in s = hb @ rest \<Longrightarrow> Header_DecodeMsgPack mp s = (Inr ?h, s\<lparr>st_in := rest\<rparr>)"
    using h unfolding carries_def by blast
  have "carries (tcpForwardRequest_EncodeMsgPack nl mp target :: unit ms) (tcpForwardRequest_DecodeMsgPack nl mp :: host_port im) ?t"
    by (rule forwardRequest.transfer) (use assms(1,3) in simp)
  then obtain qb where qb: "\<And>s :: stream. st_limit s = None \<Longrightarrow> tcpForwardRequest_EncodeMsgPack nl mp target s = (Inr (), s\<lparr>st_out := st_out s @ qb\<rparr>)"
    "\<And>(s :: imp_state) rest. st_in s = qb @ rest \<Longrightarrow> tcpForwardRequest_DecodeMsgPack nl mp s = (Inr ?t, s\<lparr>st_in := rest\<rparr>)"
    unfolding carries_def by blast
  have "error_fits err" using eo assms(4) by (auto split: sum.splits)
  then have "carries (errorResponse_EncodeMsgPack mp err :: unit im) (errorResponse_DecodeMsgPack mp :: go_error option ms) (wire_error err)"
    by (intro errorResponse.transfer) (use assms(1) in simp)
  then obtain rb where rb: "\<And>s :: imp_state. st_limit s = None \<Longrightarrow> errorResponse_EncodeMsgPack mp err s = (Inr (), s\<lparr>st_out := st_out s @ rb\<rparr>)"
    "\<And>(s :: stream) rest. st_in s = rb @ rest \<Longrightarrow> errorResponse_DecodeMsgPack mp s = (Inr (wire_error err), s\<lparr>st_in := rest\<rparr>)"
    unfolding carries_def by blast
  have "Header_DecodeMsgPack mp (imp_started (hb @ qb)) = (Inr ?h, imp_started qb)"
    by (subst hb(2)) (simp_all add: imp_started_def)
  from serveConn_dispatch(3)[OF this]
  have "serveConn nl mp os (imp_started (hb @ qb)) = handleMethodTcpForward nl mp os ?h (imp_started qb)" by simp
  also have "\<dots> = (Inr outcome, \<lparr>st_in = [], st_out = rb, st_limit = None, is_sent = []\<rparr>)"
    using eo rb(1)[of "imp_started []"] qb(2)[of "imp_started qb" "[]"]
    by (auto simp: handleMethodTcpForward_def mapErrE_def bindE_def imp_started_def returnE_def split: sum.splits)
  finally have served: "serveConn nl mp os (imp_started (hb @ qb)) = (Inr outcome, \<lparr>st_in = [], st_out = rb, st_limit = None, is_sent = []\<rparr>)" .
  have "written forward = hb @ qb" by (simp add: written_def assms(5) bindE_def hb(1) qb(1))
  moreover have "methodTcpForward nl mp (Inr (imp_of nl mp os)) cid target =
      map_sum (requestFailed MethodTcpForward) id (remoteResult (wire_error err) ())"
    by (simp add: methodTcpForward_def openStream_def imp_of_def bindE_def hb(1) qb(1) awaitPeer_def modifyE_def served rb(2)[of _ "[]"] liftE_def)
  ultimately show ?thesis using eo served by (auto simp: wire_error_def split: sum.splits option.splits)
qed

subsection \<open>Who is accepted\<close>

lemma sessionName_iff:
  "sessionName oid parseId expected names = Inr () \<longleftrightarrow>
     (\<exists>t v. find (\<lambda>(t, _). oid = t) names = Some (t, Some v) \<and> parseId v = Some expected)"
  by (induction names) (auto simp: ObjectIdSessionId_type_def split: option.splits bind_splits if_splits)

text \<open>
  A helper process is accepted by the key of its first certificate, when the master knows the key; otherwise by the id of
  the session that this certificate, which the process signed itself, names first. Without one of both there is no connection.
\<close>

theorem peer_accepted_iff:
  assumes "tlsConfigFor oid parse sameKey parseId isZero publicKey sessionId = Inr verify"
  shows "verify rawCerts = Inr () \<longleftrightarrow>
    (\<exists>raw rest cert. rawCerts = raw # rest \<and> parse raw = Some cert \<and>
       (case publicKey of
          Some pub \<Rightarrow> \<exists>k. ce_PublicKey cert = Some k \<and> sameKey pub k
        | None \<Rightarrow> \<not> isZero sessionId \<and>
            (\<exists>t v. find (\<lambda>(t, _). oid = t) (ce_Names cert) = Some (t, Some v) \<and> parseId v = Some sessionId)))"
proof (cases publicKey)
  case None
  then show ?thesis using assms
    by (auto simp: tlsConfigFor_def peerVerifierForSessionId_def sessionName_iff split: if_splits list.splits option.splits)
next
  case (Some pub)
  then show ?thesis using assms
    by (auto simp: tlsConfigFor_def peerVerifierForPublicKey_def split: if_splits list.splits option.splits)
qed

theorem peer_accepted_iff_witness:
  "peerVerifierForSessionId ''o'' (\<lambda>raw. Some \<lparr>ce_PublicKey = None, ce_Names = [(''n'', Some ''x''), (''o'', Some raw)]\<rparr>) Some ''s'' [''s''] = Inr ()"
  using peer_accepted_iff[where parse = "\<lambda>raw. Some \<lparr>ce_PublicKey = None, ce_Names = [(''n'', Some ''x''), (''o'', Some raw)]\<rparr>"
      and publicKey = None and oid = "''o''" and sessionId = "''s''" and isZero = "\<lambda>i. i = []" and parseId = Some
      and sameKey = "(=)" and rawCerts = "[''s'']"]
  by (auto simp: tlsConfigFor_def)

end
