(* ===== verification/ImpAnswers.thy ===== *)
theory ImpAnswers
  imports ImpProps
begin

section \<open>Whatever the process receives, the master can read its answer\<close>

definition reads_all :: "'a ms \<Rightarrow> bytes \<Rightarrow> bool" where
  "reads_all d answer =
     (case d \<lparr>st_in = answer, st_out = [], st_limit = None\<rparr> of (Inl _, _) \<Rightarrow> False | (Inr _, s) \<Rightarrow> st_in s = [])"

text \<open>The response that the master expects of a method.\<close>

definition readable :: "msgpack \<Rightarrow> imp_method \<Rightarrow> bytes \<Rightarrow> bool" where
  "readable mp m answer =
     (if m = MethodNamedPipe then reads_all (namedPipeResponse_DecodeMsgPack mp) answer
      else if m = MethodGetConnectionExitCode then reads_all (exitCodeResponse_DecodeMsgPack mp) answer
      else if m = MethodGetEnvironment then reads_all (environmentResponse_DecodeMsgPack mp) answer
      else reads_all (errorResponse_DecodeMsgPack mp) answer)"

text \<open>What the process finds on its host fits into messages: texts have less than \<^verbatim>\<open>2^32\<close> bytes, and errors a known type.\<close>

definition imp_os_ok :: "imp_os \<Rightarrow> bool" where
  "imp_os_ok os \<longleftrightarrow>
     (\<forall>h r e. io_processes os = Inl e \<longrightarrow> error_fits (Some (cannotKill os h r 0 e))) \<and>
     (\<forall>h r pid sig. case io_signal os pid sig of
        SignalSent \<Rightarrow> True
      | ErrProcessDone \<Rightarrow> error_fits (Some (cannotKill os h r pid ErrNoSuchProcess))
      | SignalError e \<Rightarrow> error_fits (Some (cannotKill os h r pid e))) \<and>
     variables_ok (EnvVars_Add (io_environ os) []) \<and>
     (\<forall>fn e. io_readFile os fn = FileError e \<longrightarrow> error_fits (Some e)) \<and>
     (\<forall>t e. io_dial os t = Inl e \<longrightarrow> error_fits (Some (reWrapIfUserFacingNetworkErrors e))) \<and>
     (\<forall>p. case io_newPipe os p of Inl e \<Rightarrow> error_fits (Some (reWrapIfUserFacingNetworkErrors e)) | Inr path \<Rightarrow> short path)"

text \<open>Reading a request writes nothing.\<close>

definition reading :: "imp_state \<Rightarrow> bool" where
  "reading s \<longleftrightarrow> st_out s = [] \<and> st_limit s = None \<and> is_sent s = []"

lemma reading_readE [preserve]: "preserves reading (readE r)"
  by (auto simp: preserves_def readE_def reading_def split: sum.splits prod.splits)

lemmas decoders = Header_DecodeMsgPack_def Method_DecodeMsgPack_def Id_DecodeMsgPack_def emptyRequest_DecodeMsgPack_def
  killRequest_DecodeMsgPack_def Signal_DecodeMsgPack_def tcpForwardRequest_DecodeMsgPack_def namedPipeRequest_DecodeMsgPack_def

lemma reading_decoders:
  "preserves reading (Header_DecodeMsgPack mp)" "preserves reading emptyRequest_DecodeMsgPack"
  "preserves reading (killRequest_DecodeMsgPack mp)" "preserves reading (tcpForwardRequest_DecodeMsgPack nl mp)"
  "preserves reading (namedPipeRequest_DecodeMsgPack mp)"
  unfolding decoders by (intro preserve)+

lemma started_reading [simp]: "reading (imp_started bs)"
  by (simp add: reading_def imp_started_def)

text \<open>An answer that carries is read by the other side; what follows in the handler writes nothing more.\<close>

lemma carries_reads_all:
  assumes "carries (enc :: unit im) (dec :: 'r ms) r" and "st_out s = []" and "st_limit s = None"
  obtains bs where "enc s = (Inr (), s\<lparr>st_out := bs\<rparr>)" "reads_all dec bs"
proof -
  obtain bs where b: "\<And>s. st_limit s = None \<Longrightarrow> enc s = (Inr (), s\<lparr>st_out := st_out s @ bs\<rparr>)"
    "\<And>s rest. st_in s = bs @ rest \<Longrightarrow> dec s = (Inr r, s\<lparr>st_in := rest\<rparr>)"
    using assms(1) unfolding carries_def by blast
  show thesis by (rule that[of bs]) (simp_all add: b(1)[OF assms(3)] assms(2) reads_all_def b(2)[of _ "[]"])
qed

definition answered :: "('r ms) \<Rightarrow> imp_state \<Rightarrow> bool" where
  "answered dec s \<longleftrightarrow> st_out s = [] \<or> reads_all dec (st_out s)"

lemma server_side_answered:
  assumes "preserves reading decReq" and "reading s"
    and act: "\<And>q t. reading t \<Longrightarrow> \<exists>p sigs. action q t = (Inr p, t\<lparr>is_sent := sigs\<rparr>) \<and> (\<exists>r. carries (encRsp p :: unit im) (decRsp :: 'r ms) r) \<and> (silent \<longrightarrow> sigs = [])"
  shows "answered decRsp (snd (handleFromServerSide h decReq action encRsp s)) \<and>
    (silent \<longrightarrow> is_sent (snd (handleFromServerSide h decReq action encRsp s)) = [])"
proof (cases "decReq s")
  case (Pair r t)
  have t: "reading t" using preserves_result[OF assms(1,2) Pair] .
  show ?thesis
  proof (cases r)
    case (Inl e)
    then show ?thesis using Pair t by (simp add: handleFromServerSide_def mapErrE_def bindE_def answered_def reading_def)
  next
    case (Inr q)
    obtain p sigs where a: "action q t = (Inr p, t\<lparr>is_sent := sigs\<rparr>)" "silent \<longrightarrow> sigs = []" "\<exists>r. carries (encRsp p) decRsp r"
      using act[OF t, of q] by blast
    obtain bs where "encRsp p (t\<lparr>is_sent := sigs\<rparr>) = (Inr (), t\<lparr>is_sent := sigs, st_out := bs\<rparr>)" "reads_all decRsp bs"
      using a(3) t by (auto simp: reading_def elim!: carries_reads_all[where s = "t\<lparr>is_sent := sigs\<rparr>"])
    with a(1,2) Pair Inr show ?thesis
      using handleFromServerSide_answers[of decReq s q t action p _ encRsp _ h] by (auto simp: answered_def)
  qed
qed

lemma kill_action_answers:
  assumes "imp_os_ok os" and "msgpack_ok mp"
  shows "\<exists>p sigs. killAction os h q t = (Inr p, t\<lparr>is_sent := sigs\<rparr>) \<and>
    (\<exists>r. carries (errorResponse_EncodeMsgPack mp p :: unit im) (errorResponse_DecodeMsgPack mp :: go_error option ms) r)"
proof -
  define target where "target =
    (if kr_pid q = 0 then map_sum (cannotKill os h q 0) (processOf (connection_EnvName @ ''='' @ io_idText os (ih_ConnectionId h))) (io_processes os)
     else Inr (kr_pid q))"
  have k: "killAction os h q t = (case target of
        Inl err \<Rightarrow> (Inr (Some err), t)
      | Inr pid \<Rightarrow> if pid = 0 then (Inr (Some ErrNoSuchProcess), t)
          else case io_signal os pid (kr_signal q) of
              SignalSent \<Rightarrow> (Inr None, t\<lparr>is_sent := is_sent t @ [(pid, kr_signal q)]\<rparr>)
            | ErrProcessDone \<Rightarrow> (Inr (Some (cannotKill os h q pid ErrNoSuchProcess)), t)
            | SignalError e \<Rightarrow> (Inr (Some (cannotKill os h q pid e)), t))"
    unfolding target_def killAction_def Let_def
    by (simp add: bindE_def tryE_def returnE_def imp_kill_def split: sum.split signal_result.split)
  have keep: "\<exists>p sigs. killAction os h q t = (Inr p, t\<lparr>is_sent := sigs\<rparr>) \<and> error_fits p"
    if "killAction os h q t = (Inr p, t)" "error_fits p" for p
    by (rule exI[of _ p], rule exI[of _ "is_sent t"]) (simp add: that)
  have none: "error_fits (Some ErrNoSuchProcess)" by (simp add: ErrNoSuchProcess_def Newf_def short_def)
  have "\<exists>p sigs. killAction os h q t = (Inr p, t\<lparr>is_sent := sigs\<rparr>) \<and> error_fits p"
  proof (cases target)
    case (Inl err)
    then obtain e where "io_processes os = Inl e" "err = cannotKill os h q 0 e"
      by (auto simp: target_def map_sum_def split: if_splits sum.splits)
    then have "error_fits (Some err)" using assms(1) unfolding imp_os_ok_def by blast
    then show ?thesis by (intro keep[of "Some err"]) (simp add: k Inl)
  next
    case (Inr pid)
    have f: "case io_signal os pid (kr_signal q) of SignalSent \<Rightarrow> True
      | ErrProcessDone \<Rightarrow> error_fits (Some (cannotKill os h q pid ErrNoSuchProcess))
      | SignalError e \<Rightarrow> error_fits (Some (cannotKill os h q pid e))"
      using assms(1) unfolding imp_os_ok_def by blast
    show ?thesis
    proof (cases "pid = 0")
      case True
      show ?thesis by (rule keep[of "Some ErrNoSuchProcess"]) (simp_all only: k Inr True none sum.case simp_thms if_True)
    next
      case False
      show ?thesis
      proof (cases "io_signal os pid (kr_signal q)")
        case SignalSent
        then have "killAction os h q t = (Inr None, t\<lparr>is_sent := is_sent t @ [(pid, kr_signal q)]\<rparr>)" using k Inr False by simp
        then show ?thesis by (intro exI conjI) (assumption, simp)
      next
        case ErrProcessDone
        show ?thesis by (rule keep[of "Some (cannotKill os h q pid ErrNoSuchProcess)"]) (use k Inr False f ErrProcessDone in simp_all)
      next
        case (SignalError e)
        show ?thesis by (rule keep[of "Some (cannotKill os h q pid e)"]) (use k Inr False f SignalError in simp_all)
      qed
    qed
  qed
  then show ?thesis using errorResponse.transfer assms(2) by blast
qed

lemma exit_action_answers:
  assumes "imp_os_ok os" and "msgpack_ok mp"
  shows "\<exists>p. exitCodeAction os h q t = (Inr p, t) \<and>
    (\<exists>r. carries (exitCodeResponse_EncodeMsgPack mp p :: unit im) (exitCodeResponse_DecodeMsgPack mp :: exit_response ms) r)"
proof -
  obtain p where p: "exitCodeAction os h q t = (Inr p, t)" by (simp add: exitCodeAction_def returnE_def)
  have "\<forall>fn e. io_readFile os fn = FileError e \<longrightarrow> error_fits (Some e)" using assms(1) unfolding imp_os_ok_def by blast
  then have "int64 (er_exitCode p) \<and> error_fits (er_error p)"
    using p by (auto simp: exitCodeAction_def returnE_def int64_def strconv_Atoi_def Let_def
        simp del: error_fits.simps(2) split: read_result.splits option.splits if_splits prod.splits)
  then show ?thesis using p exitResponse.transfer[of mp p] assms(2) by blast
qed

lemma sequel_answered:
  assumes "carries (enc :: unit im) (dec :: 'r ms) r" and "reading s"
  shows "answered dec (snd (bindE enc (\<lambda>_. returnE x) s)) \<and> is_sent (snd (bindE enc (\<lambda>_. returnE x) s)) = []"
    and "answered dec (snd (bindE (mapErrE g enc) (\<lambda>_. returnE x) s)) \<and> is_sent (snd (bindE (mapErrE g enc) (\<lambda>_. returnE x) s)) = []"
proof -
  obtain bs where e: "enc s = (Inr (), s\<lparr>st_out := bs\<rparr>)" "reads_all dec bs"
    by (rule carries_reads_all[OF assms(1), of s]) (use assms(2) in \<open>auto simp: reading_def\<close>)
  show "answered dec (snd (bindE enc (\<lambda>_. returnE x) s)) \<and> is_sent (snd (bindE enc (\<lambda>_. returnE x) s)) = []"
    and "answered dec (snd (bindE (mapErrE g enc) (\<lambda>_. returnE x) s)) \<and> is_sent (snd (bindE (mapErrE g enc) (\<lambda>_. returnE x) s)) = []"
    using e assms(2) by (simp_all add: mapErrE_def bindE_def returnE_def answered_def reading_def)
qed

lemma started_handlers:
  assumes os: "imp_os_ok os" and mp: "msgpack_ok mp" and s: "reading s"
  shows "answered (errorResponse_DecodeMsgPack mp) (snd (handleMethodPing mp h s)) \<and> is_sent (snd (handleMethodPing mp h s)) = []"
    and "answered (errorResponse_DecodeMsgPack mp) (snd (handleMethodKill mp os h s))"
    and "answered (exitCodeResponse_DecodeMsgPack mp) (snd (handleMethodGetConnectionExitCode mp os h s)) \<and>
      is_sent (snd (handleMethodGetConnectionExitCode mp os h s)) = []"
    and "answered (environmentResponse_DecodeMsgPack mp) (snd (handleMethodGetEnvironment mp os h s)) \<and>
      is_sent (snd (handleMethodGetEnvironment mp os h s)) = []"
proof -
  have none: "\<exists>r. carries (errorResponse_EncodeMsgPack mp None :: unit im) (errorResponse_DecodeMsgPack mp :: go_error option ms) r"
    using errorResponse.transfer[of mp None] mp by auto
  have env: "\<exists>r. carries (environmentResponse_EncodeMsgPack mp (EnvVars_Add (io_environ os) [], None) :: unit im)
      (environmentResponse_DecodeMsgPack mp :: (env_map \<times> go_error option) ms) r"
    using environmentResponse.transfer[of mp "(EnvVars_Add (io_environ os) [], None)"] mp os by (auto simp: imp_os_ok_def)
  have same: "t = t\<lparr>is_sent := []\<rparr>" if "reading t" for t using that by (simp add: reading_def)
  show "answered (errorResponse_DecodeMsgPack mp) (snd (handleMethodPing mp h s)) \<and> is_sent (snd (handleMethodPing mp h s)) = []"
    unfolding handleMethodPing_def
    by (rule server_side_answered[where silent = True, simplified, OF reading_decoders(2) s])
      (use none same in \<open>auto simp: returnE_def\<close>)
  show "answered (environmentResponse_DecodeMsgPack mp) (snd (handleMethodGetEnvironment mp os h s)) \<and>
      is_sent (snd (handleMethodGetEnvironment mp os h s)) = []"
    unfolding handleMethodGetEnvironment_def
    by (rule server_side_answered[where silent = True, simplified, OF reading_decoders(2) s])
      (use env same in \<open>auto simp: returnE_def\<close>)
  show "answered (exitCodeResponse_DecodeMsgPack mp) (snd (handleMethodGetConnectionExitCode mp os h s)) \<and>
      is_sent (snd (handleMethodGetConnectionExitCode mp os h s)) = []"
    unfolding handleMethodGetConnectionExitCode_def
    by (rule server_side_answered[where silent = True, simplified, OF reading_decoders(2) s])
      (use exit_action_answers[OF os mp] same in metis)
  show "answered (errorResponse_DecodeMsgPack mp) (snd (handleMethodKill mp os h s))"
    unfolding handleMethodKill_def
    by (rule server_side_answered[where silent = False, simplified, OF reading_decoders(3) s])
      (use kill_action_answers[OF os mp] in blast)
qed

lemma mapErrE_outer: "snd (mapErrE f m s) = snd (m s)"
  by (simp add: mapErrE_def)

lemma read_then_answered:
  assumes "preserves reading dec" and "reading s"
    and "\<And>v t. reading t \<Longrightarrow> answered d (snd (k v t)) \<and> is_sent (snd (k v t)) = []"
  shows "answered d (snd (bindE dec k s)) \<and> is_sent (snd (bindE dec k s)) = []"
proof (cases "dec s")
  case (Pair r t)
  have "reading t" using preserves_result[OF assms(1,2) Pair] .
  then show ?thesis using Pair assms(3) by (cases r) (auto simp: bindE_def answered_def reading_def)
qed

lemma connecting_handlers:
  assumes os: "imp_os_ok os" and mp: "msgpack_ok mp" and s: "reading s"
  shows "answered (errorResponse_DecodeMsgPack mp) (snd (handleMethodTcpForward nl mp os h s)) \<and> is_sent (snd (handleMethodTcpForward nl mp os h s)) = []"
    and "answered (namedPipeResponse_DecodeMsgPack mp) (snd (handleMethodNamedPipe mp os h s)) \<and> is_sent (snd (handleMethodNamedPipe mp os h s)) = []"
proof -
  have rsp: "error_fits e \<Longrightarrow> \<exists>r. carries (errorResponse_EncodeMsgPack mp e :: unit im) (errorResponse_DecodeMsgPack mp :: go_error option ms) r" for e
    using errorResponse.transfer[of mp e] mp by auto
  have pipe: "short p \<Longrightarrow> error_fits e \<Longrightarrow>
      \<exists>r. carries (namedPipeResponse_EncodeMsgPack mp (p, e) :: unit im) (namedPipeResponse_DecodeMsgPack mp :: (bytes \<times> go_error option) ms) r" for p e
    using pipeResponse.transfer[of mp "(p, e)"] mp by auto
  have dial: "\<And>t e. io_dial os t = Inl e \<Longrightarrow> error_fits (Some (reWrapIfUserFacingNetworkErrors e))"
    and newPipe: "\<And>p. case io_newPipe os p of Inl e \<Rightarrow> error_fits (Some (reWrapIfUserFacingNetworkErrors e)) | Inr path \<Rightarrow> short path"
    using os unfolding imp_os_ok_def by blast+
  show "answered (errorResponse_DecodeMsgPack mp) (snd (handleMethodTcpForward nl mp os h s)) \<and> is_sent (snd (handleMethodTcpForward nl mp os h s)) = []"
    unfolding handleMethodTcpForward_def mapErrE_outer
  proof (rule read_then_answered[OF reading_decoders(4) s], goal_cases)
    case (1 v t)
    show ?case
    proof (cases "io_dial os (HostPort_String nl v)")
      case (Inl e)
      obtain r where "carries (errorResponse_EncodeMsgPack mp (Some (reWrapIfUserFacingNetworkErrors e)) :: unit im)
          (errorResponse_DecodeMsgPack mp :: go_error option ms) r" using rsp[OF dial[OF Inl]] by blast
      then show ?thesis unfolding Inl sum.case by (rule sequel_answered(1)[OF _ 1])
    next
      case (Inr u)
      obtain r where "carries (errorResponse_EncodeMsgPack mp None :: unit im) (errorResponse_DecodeMsgPack mp :: go_error option ms) r"
        using rsp[of None] by auto
      then show ?thesis unfolding Inr sum.case by (rule sequel_answered(1)[OF _ 1])
    qed
  qed
  show "answered (namedPipeResponse_DecodeMsgPack mp) (snd (handleMethodNamedPipe mp os h s)) \<and> is_sent (snd (handleMethodNamedPipe mp os h s)) = []"
    unfolding handleMethodNamedPipe_def mapErrE_outer
  proof (rule read_then_answered[OF preserves_mapErrE[OF reading_decoders(5)] s], goal_cases)
    case (1 v t)
    show ?case
    proof (cases "io_newPipe os v")
      case (Inl e)
      obtain r where "carries (namedPipeResponse_EncodeMsgPack mp ([], Some (reWrapIfUserFacingNetworkErrors e)) :: unit im)
          (namedPipeResponse_DecodeMsgPack mp :: (bytes \<times> go_error option) ms) r"
        using pipe[of "[]" "Some (reWrapIfUserFacingNetworkErrors e)"] newPipe[of v] Inl by (auto simp: short_def simp del: error_fits.simps(2))
      then show ?thesis unfolding Inl sum.case by (rule sequel_answered(1)[OF _ 1])
    next
      case (Inr path)
      obtain r where "carries (namedPipeResponse_EncodeMsgPack mp (path, None) :: unit im)
          (namedPipeResponse_DecodeMsgPack mp :: (bytes \<times> go_error option) ms) r"
        using pipe[of path None] newPipe[of v] Inr by auto
      then show ?thesis unfolding Inr sum.case by (rule sequel_answered(2)[OF _ 1])
    qed
  qed
qed

lemma Header_Decode_known:
  "Header_DecodeMsgPack mp s = (Inr h, t) \<Longrightarrow> protocolMethodToString (ih_Method h) \<noteq> None"
  by (auto simp: Header_DecodeMsgPack_def Method_DecodeMsgPack_def Method_Validate_def Method_MarshalText_def bindE_Inr_iff liftE_def returnE_def
      throwE_def bindR_def split: if_splits option.splits sum.splits)

lemma known_methods:
  "protocolMethodToString m \<noteq> None \<Longrightarrow> m \<in> {MethodPing, MethodKill, MethodTcpForward, MethodNamedPipe, MethodGetConnectionExitCode, MethodGetEnvironment}"
  by (auto simp: protocolMethodToString_def stringToProtocolMethod_def split: if_splits)

text \<open>
  C26: Whatever bytes the process receives: without a header of a known method it answers nothing and sends no signal. With one
  it answers nothing, or exactly one response of the type that the master reads for this method; signals are only sent for
  the method that asks for them. So the branch for an unsupported method is never reached.
\<close>

theorem answers_well_typed:
  assumes "imp_os_ok os" and "msgpack_ok mp"
  shows "case Header_DecodeMsgPack mp (imp_started received) of
      (Inl e, _) \<Rightarrow> fst (serveConn nl mp os (imp_started received)) = Inl e \<and>
        st_out (snd (serveConn nl mp os (imp_started received))) = [] \<and> is_sent (snd (serveConn nl mp os (imp_started received))) = []
    | (Inr h, _) \<Rightarrow> protocolMethodToString (ih_Method h) \<noteq> None \<and>
        (st_out (snd (serveConn nl mp os (imp_started received))) = [] \<or>
         readable mp (ih_Method h) (st_out (snd (serveConn nl mp os (imp_started received))))) \<and>
        (ih_Method h = MethodKill \<or> is_sent (snd (serveConn nl mp os (imp_started received))) = [])"
proof (cases "Header_DecodeMsgPack mp (imp_started received)")
  case (Pair r t)
  have t: "reading t" using preserves_result[OF reading_decoders(1) started_reading Pair] .
  show ?thesis
  proof (cases r)
    case (Inl e)
    then show ?thesis using Pair t by (simp add: serveConn_def bindE_def reading_def)
  next
    case (Inr h)
    note d = serveConn_dispatch[OF Pair[unfolded Inr], where nl = nl and os = os]
    have k: "protocolMethodToString (ih_Method h) \<noteq> None" using Header_Decode_known Pair Inr by blast
    from known_methods[OF k] started_handlers[OF assms t, where h = h] connecting_handlers(1)[OF assms t, where nl = nl and h = h] connecting_handlers(2)[OF assms t, where h = h] k show ?thesis
      by (auto simp: Pair Inr d readable_def answered_def)
  qed
qed

end
