(* ===== verification/ImpExample.thy ===== *)
theory ImpExample
  imports ImpAnswers
begin

section \<open>A helper process, and the properties at it\<close>

text \<open>An encoding that reads back what it wrote: numbers as digits with an end mark, texts with their length before them.\<close>

definition readNum :: "bytes \<Rightarrow> nat \<times> bytes" where
  "readNum s = (digits_val (takeWhile is_digit s), drop 1 (dropWhile is_digit s))"

definition exMsgpack :: msgpack where
  "exMsgpack =
     \<lparr>mp_uint8 = (\<lambda>w. format_uint (unat w) @ '';''), mp_uint16 = (\<lambda>w. format_uint (unat w) @ '';''),
      mp_int = (\<lambda>n. (if n < 0 then CHR ''-'' else CHR ''+'') # format_uint (nat \<bar>n\<bar>) @ '';''),
      mp_bool = (\<lambda>b. if b then ''1'' else ''0''),
      mp_string = (\<lambda>s. format_uint (length s) @ '':'' @ s), mp_bytes = (\<lambda>s. format_uint (length s) @ '':'' @ s),
      mp_readUint8 = (\<lambda>s. let (n, rest) = readNum s in Inr (of_nat n, rest)),
      mp_readUint16 = (\<lambda>s. let (n, rest) = readNum s in Inr (of_nat n, rest)),
      mp_readInt = (\<lambda>s. let (n, rest) = readNum (tl s) in Inr (if take 1 s = ''-'' then - int n else int n, rest)),
      mp_readBool = (\<lambda>s. Inr (take 1 s = ''1'', drop 1 s)),
      mp_readString = (\<lambda>s. let (n, rest) = readNum s in Inr (take n rest, drop n rest)),
      mp_readBytes = (\<lambda>s. let (n, rest) = readNum s in Inr (take n rest, drop n rest))\<rparr>"

lemma readNum_format: "\<not> is_digit c \<Longrightarrow> readNum (format_uint n @ c # rest) = (n, rest)"
proof -
  assume c: "\<not> is_digit c"
  have d: "\<forall>x \<in> set (format_uint n). is_digit x" using format_uint_digits[of n] by (simp add: list_all_iff)
  then show ?thesis using c by (simp add: readNum_def takeWhile_append2 dropWhile_append2 digits_val_format_uint)
qed

lemma exMsgpack_ok: "msgpack_ok exMsgpack"
proof -
  have marks: "\<not> is_digit (CHR '';'')" "\<not> is_digit (CHR '':'')" by (simp_all add: is_digit_def)
  show ?thesis
    by (auto simp: msgpack_ok_def reads_back_def exMsgpack_def readNum_format[OF marks(1)] readNum_format[OF marks(2)])
qed

definition exConnId :: conn_id where "exConnId = replicate 16 (CHR ''a'')"

lemma exConnId_simps [simp]: "length exConnId = 16" "\<not> Id_IsZero exConnId"
  by (simp_all add: exConnId_def Id_IsZero_def list_all_iff)

definition exImpOs :: imp_os where
  "exImpOs =
     \<lparr>io_processes = Inr [(3, None), (4, Some [''A=b'']), (5, Some [connection_EnvName @ ''='' @ ''c'']), (6, Some [connection_EnvName @ ''='' @ ''c''])],
      io_environ = [''A=b''], io_readFile = (\<lambda>fn. FileContent ''7''), io_signal = (\<lambda>p s. SignalSent),
      io_dial = (\<lambda>t. if t = ''h:22'' then Inr () else Inl (ErrPlain ''unexpected'' None)), io_newPipe = (\<lambda>p. Inr ''/tmp/pipe''),
      io_idText = (\<lambda>_. ''c''), io_exitCodePath = ''/e'', io_signalNames = strToSignal\<rparr>"

lemma exImpOs_simps [simp]:
  "io_processes exImpOs = Inr [(3, None), (4, Some [''A=b'']), (5, Some [connection_EnvName @ ''='' @ ''c'']), (6, Some [connection_EnvName @ ''='' @ ''c''])]"
  "io_environ exImpOs = [''A=b'']" "io_readFile exImpOs fn = FileContent ''7''" "io_signal exImpOs p s = SignalSent"
  "io_dial exImpOs t = (if t = ''h:22'' then Inr () else Inl (ErrPlain ''unexpected'' None))" "io_newPipe exImpOs b = Inr ''/tmp/pipe''"
  "io_idText exImpOs i = ''c''" "io_exitCodePath exImpOs = ''/e''"
  by (simp_all add: exImpOs_def)

lemma exVariables: "EnvVars_Add [''A=b''] [] = [(''A'', ''b'')]"
  by (simp add: EnvVars_Add_def EnvVars_add_def numeral_2_eq_2)

lemma exImpOs_ok: "imp_os_ok exImpOs"
proof -
  have "variables_ok [(''A'', ''b'')]" by (simp add: variables_ok_def short_def)
  moreover have "error_fits (Some (reWrapIfUserFacingNetworkErrors (ErrPlain ''unexpected'' None)))"
    by (simp add: reWrapIfUserFacingNetworkErrors_def short_def)
  moreover have "short ''/tmp/pipe''" by (simp add: short_def)
  ultimately show ?thesis unfolding imp_os_ok_def exImpOs_simps exVariables
    by (simp del: error_fits.simps(2))
qed

theorem remote_exit_code_witness:
  "methodGetConnectionExitCode exMsgpack (Inr (imp_of exNetLib exMsgpack exImpOs)) exConnId = Inr 7"
proof -
  have "bytes_TrimSpace ''7'' = ''7''" by code_simp
  moreover have "strconv_Atoi ''7'' = Some 7" by (simp add: strconv_Atoi_def parse_uint_def is_digit_def digits_val_def digit_val_def int64_def)
  ultimately show ?thesis by (subst remote_exit_code[OF exMsgpack_ok]) simp_all
qed

theorem remote_environment_witness:
  "\<exists>vs. methodGetEnvironment exMsgpack (Inr (imp_of exNetLib exMsgpack exImpOs)) exConnId = Inr vs \<and> map_of vs ''A'' = Some ''b''"
  using remote_environment[OF exMsgpack_ok, of exConnId exImpOs exNetLib] by (auto simp: exVariables variables_ok_def short_def)

theorem remote_kill_of_connection_witness:
  "methodKill exMsgpack (Inr (imp_of exNetLib exMsgpack exImpOs)) exConnId 0 15 = Inr () \<and>
   is_sent (snd (serveConn exNetLib exMsgpack exImpOs (imp_started (written
     (bindE (Header_EncodeMsgPack exMsgpack \<lparr>ih_Method = MethodKill, ih_ConnectionId = exConnId\<rparr>)
        (\<lambda>_. killRequest_EncodeMsgPack exMsgpack \<lparr>kr_pid = 0, kr_signal = 15\<rparr>)))))) = [(5, 15)]"
proof -
  have p: "(case find (\<lambda>(p, es). p \<noteq> 0 \<and> (\<exists>xs. es = Some xs \<and> connection_EnvName @ ''='' @ io_idText exImpOs exConnId \<in> set xs))
      [(3, None), (4, Some [''A=b'']), (5, Some [connection_EnvName @ ''='' @ ''c'']), (6, Some [connection_EnvName @ ''='' @ ''c''])] of
      None \<Rightarrow> 0 | Some (p, _) \<Rightarrow> p) = (5 :: int)"
    by (simp add: connection_EnvName_def)
  show ?thesis
    using remote_kill_of_connection[OF exMsgpack_ok exConnId_simps(1) exImpOs_simps(1) p[symmetric] exImpOs_simps(4) refl, where nl = exNetLib and sig = 15]
    by simp
qed

definition exTarget :: host_port where
  "exTarget = \<lparr>hp_Host = \<lparr>nh_IP = [], nh_Dns = ''h''\<rparr>, hp_Port = 22\<rparr>"

lemma exTarget_text:
  "HostPort_MarshalText exNetLib exTarget = Inr ''h:22''" "HostPort_String exNetLib exTarget = ''h:22''"
  "HostPort_UnmarshalText exNetLib ''h:22'' = Inr exTarget"
proof -
  have "format_uint 22 = ''22''" by code_simp
  then show "HostPort_MarshalText exNetLib exTarget = Inr ''h:22''" "HostPort_String exNetLib exTarget = ''h:22''"
    by (simp_all add: exTarget_def HostPort_MarshalText_def HostPort_Validate_def Host_Validate_def Host_MarshalText_def Host_IsZero_def
        bracketed_def HostPort_String_def Host_String_def)
  show "HostPort_UnmarshalText exNetLib ''h:22'' = Inr exTarget"
    by (simp add: HostPort_UnmarshalText_def splitHostPort_def parse_uint_def is_digit_def digits_val_def digit_val_def Host_UnmarshalText_def
        exNetLib_def exTarget_def)
qed

lemma exTarget_arrives: "target_ok exNetLib exTarget" "arrived_target exNetLib exTarget = exTarget"
  by (simp_all add: target_ok_def arrived_target_def exTarget_text short_def)

theorem remote_forward_witness:
  "methodTcpForward exNetLib exMsgpack (Inr (imp_of exNetLib exMsgpack exImpOs)) exConnId exTarget = Inr ()"
  using remote_forward[OF exMsgpack_ok _ exTarget_arrives(1) _ refl, of exConnId exImpOs] by (simp add: exTarget_arrives(2) exTarget_text)

theorem answers_well_typed_witness: "is_sent (snd (serveConn exNetLib exMsgpack exImpOs (imp_started [CHR ''x'']))) = []"
proof -
  have magic: "CHR ''x'' \<noteq> HeaderMagic" by code_simp
  have "Header_DecodeMsgPack exMsgpack (imp_started ''x'') =
      (Inl (ErrPlain (''header magic number is invalid - expected 183, got '' @ format_uint 120) None), imp_started [])"
    using magic by (simp add: Header_DecodeMsgPack_def bindE_def readE_def imp_started_def throwE_def)
  then show ?thesis using answers_well_typed[OF exImpOs_ok exMsgpack_ok, where received = "''x''" and nl = exNetLib] by simp
qed

end
