(* ===== verification/UserFrame.thy ===== *)
theory UserFrame
  imports EtcDelete
begin

section \<open>Frames: what the calls of the repository leave alone\<close>

text \<open>
  A call of the operating system changes the world and nothing of the repository, a load
  changes nothing of the world, and the bodies of the operations open no file. These are the
  frame rules the properties of the package rest on.
\<close>

subsection \<open>Calls keep the repository's own fields\<close>

lemma more_is_encode [preserve]: "preserves (more_is m) (colon_entries_encode enc ab fn es)"
proof -
  have "preserves (more_is m) (colon_encode_loop enc ab fn k es)" for k
    by (induction es arbitrary: k) (auto intro!: preserve simp: colon_entry_encode_def)
  then show ?thesis unfolding colon_entries_encode_def by (intro preserve)
qed

lemma more_is_save_file [preserve]: "preserves (more_is m) (save_file enc ab fn es)"
  unfolding save_file_def by (intro preserve)

lemma more_is_save [preserve]:
  "preserves (more_is m) passwd_save" "preserves (more_is m) group_save" "preserves (more_is m) shadow_save"
  using more_is_save_file unfolding passwd_save_def group_save_def shadow_save_def preserves_def by blast+

lemma more_is_handles_save [preserve]: "preserves (more_is m) handles_save"
  unfolding handles_save_def by (intro preserve)

lemma more_is_close [preserve]: "preserves (more_is m) (opened_close fs)"
proof -
  have c: "preserves (more_is m) (close_file f)" for f
    by (cases f rule: close_file.cases) (auto intro!: preserve)
  have "preserves (more_is m) (close_files fs')" for fs'
    by (induction fs') (auto intro!: preserve c)
  then show ?thesis by (simp add: opened_close_def)
qed

lemma more_is_chownRecursively [preserve]: "preserves (more_is m) (chownRecursively p u g)"
  unfolding chownRecursively_def by (intro preserve)

lemma more_is_homeDirCheck [preserve]: "preserves (more_is m) (existingHomeDirCheck u g p o')"
  unfolding existingHomeDirCheck_def by (intro preserve)

lemma more_is_moveHomeDir [preserve]: "preserves (more_is m) (moveHomeDir u g p q o')"
  unfolding moveHomeDir_def by (intro preserve)

lemma more_is_createHomeDir:
  "preserves (more_is m) (cp skel p u g) \<Longrightarrow> preserves (more_is m) (createHomeDir cp u g skel p o')"
  unfolding createHomeDir_def by (intro preserve)

text \<open>From the frame to the fields.\<close>

lemma repo_is_fields:
  assumes "world.more s = world.more (t :: repo)"
  shows "r_passwd s = r_passwd t" "r_group s = r_group t" "r_shadow s = r_shadow t"
    "r_heapP s = r_heapP t" "r_heapG s = r_heapG t" "r_heapS s = r_heapS t" "r_next s = r_next t"
    "r_nameToUser s = r_nameToUser t" "r_idToUser s = r_idToUser t" "r_nameToGroup s = r_nameToGroup t"
    "r_idToGroup s = r_idToGroup t" "r_usernameToGroups s = r_usernameToGroups t"
    "r_AllowBadName s = r_AllowBadName t" "r_AllowBadLine s = r_AllowBadLine t"
  using assms by (cases s; cases t; simp)+

lemma frame_fields:
  assumes "\<And>k. preserves (more_is k) m" "m s = (r, t)"
  shows "world.more t = world.more (s :: repo)"
  using preservesD[OF assms(1), of "world.more s" s] assms(2) by (simp add: more_is_def)

text \<open>A predicate of the repository's own fields is kept by a call that only touches the world.\<close>

lemma preserves_frame:
  assumes "\<And>k. preserves (more_is k) m" "\<And>s t. world.more s = world.more t \<Longrightarrow> P s \<Longrightarrow> P (t :: repo)"
  shows "preserves P m"
proof (rule preservesI)
  fix s assume "P s"
  moreover have "world.more (snd (m s)) = world.more s"
    using frame_fields[OF assms(1), of s "fst (m s)" "snd (m s)"] by simp
  ultimately show "P (snd (m s))" using assms(2)[of s "snd (m s)"] by simp
qed

subsection \<open>Bodies open no file\<close>

lemma handles_modifyE: "(\<And>s. w_open (f s) = w_open s) \<Longrightarrow> preserves (handles_are h) (modifyE f)"
  by (rule preserves_modifyE) (simp add: handles_are_def)

lemma handles_updateGroupRow [simp]: "w_open (updateGroupRow f a s) = w_open s"
  by (simp add: updateGroupRow_def split: option.splits)

lemma handles_foldl_rows [simp]: "w_open (foldl (\<lambda>s a. updateGroupRow f a s) s as) = w_open s"
  by (induction as arbitrary: s) auto

lemma handles_getRow [preserve]:
  "preserves (handles_are h) (getGroupRow a)" "preserves (handles_are h) (getPasswdRow a)"
  by (auto simp: preserves_def getGroupRow_def getPasswdRow_def split: option.splits)

lemma handles_modifyGroup [preserve]: "preserves (handles_are h) (modifyGroup r a)"
  unfolding modifyGroup_def Let_def by (intro preserve handles_modifyE) auto

lemma handles_ensureGroup [preserve]: "preserves (handles_are h) (ensureGroup u r o')"
proof (rule preservesI)
  fix s :: repo assume I: "handles_are h s"
  show "handles_are h (snd (ensureGroup u r o' s))"
    using I preservesD[OF handles_modifyGroup I]
    by (auto simp: ensureGroup_def Let_def createGroup_def handles_are_def split: sum.splits option.splits)
qed

lemma handles_ensureGroups [preserve]: "preserves (handles_are h) (ensureGroups rs o')"
  unfolding ensureGroups_def by (intro preserve)

lemma handles_chownRecursively [preserve]: "preserves (handles_are h) (chownRecursively p u g)"
  unfolding chownRecursively_def by (intro preserve)

lemma handles_homeDirCheck [preserve]: "preserves (handles_are h) (existingHomeDirCheck u g p o')"
  unfolding existingHomeDirCheck_def by (intro preserve)

lemma handles_moveHomeDir [preserve]: "preserves (handles_are h) (moveHomeDir u g p q o')"
  unfolding moveHomeDir_def by (intro preserve)

lemma handles_createHomeDir:
  "preserves (handles_are h) (cp skel p u g) \<Longrightarrow> preserves (handles_are h) (createHomeDir cp u g skel p o')"
  unfolding createHomeDir_def by (intro preserve)

lemma handles_createUser:
  assumes "\<And>a b c d. preserves (handles_are h) (cp a b c d)"
  shows "preserves (handles_are h) (createUser cp q skel o' g rs)"
  unfolding createUser_def Let_def case_prod_beta
  by (intro preserve handles_modifyE handles_createHomeDir assms) auto

lemma handles_updateUserRows [preserve]: "preserves (handles_are h) (updateUserRows q g e)"
  unfolding updateUserRows_def Let_def by (intro preserve handles_modifyE) auto

lemma handles_modifyUser [preserve]: "preserves (handles_are h) (modifyUser q o' g rs e)"
  unfolding modifyUser_def by (intro preserve handles_modifyE) auto

lemma handles_ensureOpened:
  assumes "\<And>a b c d. preserves (handles_are h) (cp a b c d)"
  shows "preserves (handles_are h) (ensureOpened cp q skel o')"
proof (rule preservesI)
  fix s :: repo assume I: "handles_are h s"
  have b: "preserves (handles_are h)
     (bindE (ensureGroup (Some q) (rq_Group q) o') (\<lambda>(_, grp, _).
      bindE (ensureGroups (rq_Groups q) o') (\<lambda>groupRefs.
      case e of None \<Rightarrow> createUser cp q skel o' grp groupRefs
        | Some ref \<Rightarrow> modifyUser q o' grp groupRefs ref)))" for e
    unfolding case_prod_beta by (intro preserve handles_createUser assms)
  show "handles_are h (snd (ensureOpened cp q skel o' s))"
    using I preservesD[OF b I] by (auto simp: ensureOpened_def split: sum.splits option.splits)
qed

lemma handles_killEach [preserve]: "preserves (handles_are h) (killEach u ps)"
  by (induction u ps rule: killEach.induct) (auto intro!: preserve handles_modifyE)

lemma handles_killAllOf [preserve]: "preserves (handles_are h) (killAllOf u)"
  unfolding killAllOf_def by (intro preserve)

lemma handles_deleteOpened [preserve]: "preserves (handles_are h) (deleteOpened o' sel)"
proof -
  have w: "preserves (handles_are h) (\<lambda>s. (withoutShadow (r_heapS s) x (h_entries (r_shadow s)), s))" for x
    by (simp add: preserves_def)
  show ?thesis unfolding deleteOpened_def by (intro preserve handles_modifyE w) auto
qed

lemma handles_deleteGroupOpened [preserve]: "preserves (handles_are h) (deleteGroupOpened sel)"
  unfolding deleteGroupOpened_def by (intro preserve handles_modifyE) auto

end
