(* ===== verification/UserFiles.thy ===== *)
theory UserFiles
  imports UserFrame
begin

section \<open>The account files: saving and loading\<close>

text \<open>
  What \<open>handles_save\<close> leaves in the three files and what \<open>handles_load\<close> makes of it. The rows
  of a repository are its entries with the pointers followed (\<open>passwdEntries\<close>, \<open>groupEntries\<close>,
  \<open>shadowEntries\<close>). The file round trips of the three row types come from their
  interpretations of \<open>colon_value\<close>.
\<close>

definition passwdEntries :: "repo \<Rightarrow> etcPasswdEntry colon_entry list" where
  "passwdEntries s = map (deref (r_heapP s)) (h_entries (r_passwd s))"

definition groupEntries :: "repo \<Rightarrow> etcGroupEntry colon_entry list" where
  "groupEntries s = map (deref (r_heapG s)) (h_entries (r_group s))"

definition shadowEntries :: "repo \<Rightarrow> etcShadowEntry colon_entry list" where
  "shadowEntries s = map (deref (r_heapS s)) (h_entries (r_shadow s))"

definition nonzero :: "'a colon_entry list \<Rightarrow> 'a colon_entry list" where
  "nonzero es = filter (\<lambda>e. \<not> colon_entry_IsZero e) es"

text \<open>The three files are different, exist and can be read, truncated and written.\<close>

definition file_ready :: "repo \<Rightarrow> bytes \<Rightarrow> bool" where
  "file_ready s fn \<longleftrightarrow> writable s fn \<and> \<not> w_fault s OpRead fn \<and> file_content s fn \<noteq> None"

definition files_ready :: "repo \<Rightarrow> bool" where
  "files_ready s \<longleftrightarrow>
     distinct [h_fn (r_passwd s), h_fn (r_group s), h_fn (r_shadow s)] \<and>
     file_ready s (h_fn (r_passwd s)) \<and> file_ready s (h_fn (r_group s)) \<and> file_ready s (h_fn (r_shadow s)) \<and>
     h_numberOfColons (r_passwd s) = etcPasswdColons \<and> h_numberOfColons (r_group s) = etcGroupColons \<and>
     h_numberOfColons (r_shadow s) = etcShadowColons"

definition rows_stable :: "repo \<Rightarrow> bool" where
  "rows_stable s \<longleftrightarrow>
     list_all (entry_stable etcPasswd_decode etcPasswd_encode etcPasswdColons etcPasswd_wf
       (getAllowBadName s) (getAllowBadLine s)) (passwdEntries s) \<and>
     list_all (entry_stable etcGroup_decode etcGroup_encode etcGroupColons etcGroup_wf
       (getAllowBadName s) (getAllowBadLine s)) (groupEntries s) \<and>
     list_all (entry_stable etcShadow_decode etcShadow_encode etcShadowColons etcShadow_wf
       (getAllowBadName s) (getAllowBadLine s)) (shadowEntries s)"

subsection \<open>One file\<close>

text \<open>A call on one file leaves the other files, the fault plan and the repository's fields alone.\<close>

definition outside :: "bytes \<Rightarrow> repo \<Rightarrow> repo \<Rightarrow> bool" where
  "outside fn s0 s \<longleftrightarrow> w_fault s = w_fault s0 \<and> world.more s = world.more s0 \<and>
     (\<forall>q. q \<noteq> fn \<longrightarrow> file_content s q = file_content s0 q)"

lemma outside_refl [simp]: "outside fn s s"
  by (simp add: outside_def)

lemma outside_call [preserve]:
  "preserves (outside fn s0) (os_Check op p)"
  "preserves (outside fn s0) (os_Truncate0 fn)"
  "preserves (outside fn s0) (os_Write fn bs)"
  by (auto simp: preserves_def outside_def os_Check_def os_Truncate0_def os_Write_def)

lemma outside_save_file [preserve]: "preserves (outside fn s0) (save_file enc ab fn es)"
proof -
  have "preserves (outside fn s0) (colon_encode_loop enc ab fn k es)" for k
    by (induction es arbitrary: k) (auto intro!: preserve simp: colon_entry_encode_def)
  then show ?thesis unfolding save_file_def colon_entries_encode_def by (intro preserve)
qed

lemma save_file_outside: "save_file enc ab fn es s = (r, t) \<Longrightarrow> outside fn s t"
  using preserves_result[OF outside_save_file outside_refl] by blast

lemma save_file_writes:
  assumes "writable s fn" "file_content s fn \<noteq> None" "save_file enc ab fn es s = (r, t)"
  shows "file_content t fn = Some (encodable_prefix enc ab es)"
    "r = Inr () \<longleftrightarrow> (\<exists>x. entries_text enc ab es = Inr x)"
proof -
  let ?s = "fs_setContent fn (\<lambda>_. []) s"
  obtain c where c: "file_content s fn = Some c" using assms(2) by blast
  have eq: "save_file enc ab fn es s = colon_entries_encode enc ab fn es ?s"
    using assms(1) by (simp add: save_file_def bindE_def mapErrE_def os_Check_def os_Truncate0_def writable_def)
  have w: "writable ?s fn" "file_content ?s fn = Some []"
    using assms(1) c by (simp_all add: writable_def)
  have res: "colon_entries_encode enc ab fn es ?s = (r, t)" using eq assms(3) by simp
  from colon_entries_encode_writes[OF w, of enc ab es]
  show "file_content t fn = Some (encodable_prefix enc ab es)"
    "r = Inr () \<longleftrightarrow> (\<exists>x. entries_text enc ab es = Inr x)"
    unfolding res by auto
qed

lemma outside_fields:
  assumes "outside fn s t"
  shows "passwdEntries t = passwdEntries s" "groupEntries t = groupEntries s" "shadowEntries t = shadowEntries s"
    "getAllowBadName t = getAllowBadName s" "getAllowBadLine t = getAllowBadLine s"
    "r_passwd t = r_passwd s" "r_group t = r_group s" "r_shadow t = r_shadow s"
    "q \<noteq> fn \<Longrightarrow> file_ready t q = file_ready s q" "q \<noteq> fn \<Longrightarrow> file_content t q = file_content s q"
    "w_fault t = w_fault s"
proof -
  have m: "world.more t = world.more s" using assms by (simp add: outside_def)
  note f = repo_is_fields[OF m]
  show "passwdEntries t = passwdEntries s" "groupEntries t = groupEntries s" "shadowEntries t = shadowEntries s"
    "getAllowBadName t = getAllowBadName s" "getAllowBadLine t = getAllowBadLine s"
    "r_passwd t = r_passwd s" "r_group t = r_group s" "r_shadow t = r_shadow s"
    "q \<noteq> fn \<Longrightarrow> file_ready t q = file_ready s q" "q \<noteq> fn \<Longrightarrow> file_content t q = file_content s q"
    "w_fault t = w_fault s"
    using assms f
    by (simp_all add: passwdEntries_def groupEntries_def shadowEntries_def getAllowBadName_def getAllowBadLine_def
        outside_def file_ready_def writable_def)
qed

subsection \<open>The three files\<close>

lemma passwd_save_eq: "passwd_save s = save_file etcPasswd_encode (getAllowBadName s) (h_fn (r_passwd s)) (passwdEntries s) s"
  by (simp add: passwd_save_def passwdEntries_def)

lemma group_save_eq: "group_save s = save_file etcGroup_encode (getAllowBadName s) (h_fn (r_group s)) (groupEntries s) s"
  by (simp add: group_save_def groupEntries_def)

lemma shadow_save_eq: "shadow_save s = save_file etcShadow_encode (getAllowBadName s) (h_fn (r_shadow s)) (shadowEntries s) s"
  by (simp add: shadow_save_def shadowEntries_def)

lemmas save_eqs = passwd_save_eq group_save_eq shadow_save_eq

text \<open>A save that reports success has written the text of all rows of the three files.\<close>

lemma handles_save_writes:
  assumes ready: "files_ready s"
    and tp: "entries_text etcPasswd_encode (getAllowBadName s) (passwdEntries s) = Inr xp"
    and tg: "entries_text etcGroup_encode (getAllowBadName s) (groupEntries s) = Inr xg"
    and ts: "entries_text etcShadow_encode (getAllowBadName s) (shadowEntries s) = Inr xs"
  obtains t where "handles_save s = (Inr (), t)" "world.more t = world.more s" "w_fault t = w_fault s"
    "file_content t (h_fn (r_passwd s)) = Some xp" "file_content t (h_fn (r_group s)) = Some xg"
    "file_content t (h_fn (r_shadow s)) = Some xs"
proof -
  let ?p = "h_fn (r_passwd s)" and ?g = "h_fn (r_group s)" and ?h = "h_fn (r_shadow s)"
  from ready have d: "?p \<noteq> ?g" "?p \<noteq> ?h" "?g \<noteq> ?h"
    and fr: "file_ready s ?p" "file_ready s ?g" "file_ready s ?h" by (simp_all add: files_ready_def)
  obtain r1 t1 where s1: "passwd_save s = (r1, t1)" by (cases "passwd_save s")
  note o1 = save_file_outside[OF s1[unfolded passwd_save_eq]]
  have w1: "file_content t1 ?p = Some xp" "r1 = Inr ()"
    using save_file_writes[OF _ _ s1[unfolded passwd_save_eq]] fr(1) tp encodable_prefix_all[OF tp]
    by (simp_all add: file_ready_def)
  note f1 = outside_fields[OF o1]
  obtain r2 t2 where s2: "group_save t1 = (r2, t2)" by (cases "group_save t1")
  have s2': "save_file etcGroup_encode (getAllowBadName s) ?g (groupEntries s) t1 = (r2, t2)"
    using s2 by (simp add: group_save_eq f1)
  note o2 = save_file_outside[OF s2']
  have w2: "file_content t2 ?g = Some xg" "r2 = Inr ()"
    using save_file_writes[OF _ _ s2'] f1(9)[of ?g] d fr(2) tg encodable_prefix_all[OF tg]
    by (auto simp: file_ready_def)
  note f2 = outside_fields[OF o2]
  obtain r3 t3 where s3: "shadow_save t2 = (r3, t3)" by (cases "shadow_save t2")
  have s3': "save_file etcShadow_encode (getAllowBadName s) ?h (shadowEntries s) t2 = (r3, t3)"
    using s3 by (simp add: shadow_save_eq f1 f2)
  note o3 = save_file_outside[OF s3']
  have w3: "file_content t3 ?h = Some xs" "r3 = Inr ()"
    using save_file_writes[OF _ _ s3'] f1(9)[of ?h] f2(9)[of ?h] d fr(3) ts encodable_prefix_all[OF ts]
    by (auto simp: file_ready_def)
  note f3 = outside_fields[OF o3]
  have "handles_save s = (Inr (), t3)"
    using s1 s2 s3 w1 w2 w3 by (simp add: handles_save_def bindE_def)
  moreover have "world.more t3 = world.more s" "w_fault t3 = w_fault s"
    using o1 o2 o3 by (simp_all add: outside_def)
  moreover have "file_content t3 ?p = Some xp" "file_content t3 ?g = Some xg"
    using w1 w2 f2(10)[of ?p] f3(10)[of ?p] f3(10)[of ?g] d by simp_all
  ultimately show thesis using that w3(1) by blast
qed

subsection \<open>Loading\<close>

lemma scanned_content:
  "\<not> w_fault s OpRead fn \<Longrightarrow> file_content s fn = Some x \<Longrightarrow> scanned fn s = x"
  by (auto simp: scanned_def os_ReadAll_def file_content_def)

lemma scanned_more [simp]:
  "scanned fn (r_passwd_update f s) = scanned fn s" "scanned fn (r_heapP_update hp s) = scanned fn s"
  "scanned fn (r_group_update f s) = scanned fn s" "scanned fn (r_heapG_update hg s) = scanned fn s"
  "scanned fn (r_shadow_update f s) = scanned fn s" "scanned fn (r_heapS_update hs s) = scanned fn s"
  "scanned fn (r_next_update g s) = scanned fn s"
  by (simp_all add: scanned_def os_ReadAll_def)

lemma handles_load_reads:
  assumes p: "colon_entries_decode etcPasswd_decode etcPasswd_reslice (h_numberOfColons (r_passwd s)) (getAllowBadName s)
      (getAllowBadLine s) (h_fn (r_passwd s)) (scanned (h_fn (r_passwd s)) s) = Inr ps"
    and g: "colon_entries_decode etcGroup_decode etcGroup_reslice (h_numberOfColons (r_group s)) (getAllowBadName s)
      (getAllowBadLine s) (h_fn (r_group s)) (scanned (h_fn (r_group s)) s) = Inr gs"
    and h: "colon_entries_decode etcShadow_decode etcShadow_reslice (h_numberOfColons (r_shadow s)) (getAllowBadName s)
      (getAllowBadLine s) (h_fn (r_shadow s)) (scanned (h_fn (r_shadow s)) s) = Inr hs"
  obtains t where "handles_load s = (Inr (), t)" "passwdEntries t = ps" "groupEntries t = gs" "shadowEntries t = hs"
proof -
  obtain as hp n where ap: "alloc_entries (r_next s) ps (r_heapP s) = (as, hp, n)" by (metis prod_cases3)
  obtain bs hg m where ag: "alloc_entries n gs (r_heapG s) = (bs, hg, m)" by (metis prod_cases3)
  obtain cs hs' k where ah: "alloc_entries m hs (r_heapS s) = (cs, hs', k)" by (metis prod_cases3)
  have l: "\<exists>t. handles_load s = (Inr (), t) \<and> r_heapP t = hp \<and> h_entries (r_passwd t) = as \<and>
      r_heapG t = hg \<and> h_entries (r_group t) = bs \<and> r_heapS t = hs' \<and> h_entries (r_shadow t) = cs"
    using p g h ap ag ah
    by (simp add: handles_load_def bindE_def passwd_load_def group_load_def shadow_load_def
        getAllowBadName_def getAllowBadLine_def)
  then obtain t where "handles_load s = (Inr (), t)" "r_heapP t = hp" "h_entries (r_passwd t) = as"
      "r_heapG t = hg" "h_entries (r_group t) = bs" "r_heapS t = hs'" "h_entries (r_shadow t) = cs" by blast
  with alloc_entries_props(4)[OF ap] alloc_entries_props(4)[OF ag] alloc_entries_props(4)[OF ah] that[of t]
  show thesis by (simp add: passwdEntries_def groupEntries_def shadowEntries_def)
qed

end
