(* ===== verification/AccountDb.thy ===== *)
theory AccountDb
  imports UserFiles
begin

section \<open>The abstract account database\<close>

text \<open>
  What the account files mean, without pointers and index maps: three lists of rows, where the
  last row with a key wins, a user is in a group as often as the group's row lists them, and a
  user of an unknown primary group gets a group named after its id. The locale
  \<open>account_source\<close> states that a repository's lookups answer from this database, and
  holds what a client may conclude; \<open>EtcColonRepository\<close> interprets it.
\<close>

record account_db =
  db_passwd :: "etcPasswdEntry list"
  db_groups :: "etcGroupEntry list"

definition db_last :: "('a \<Rightarrow> 'k) \<Rightarrow> 'a list \<Rightarrow> 'k \<Rightarrow> 'a option" where
  "db_last key xs k = find (\<lambda>v. key v = k) (rev xs)"

definition db_primary :: "account_db \<Rightarrow> gid \<Rightarrow> group" where
  "db_primary db g =
     (case db_last g_gid (db_groups db) g of
        Some e \<Rightarrow> refToGroup e
      | None \<Rightarrow> \<lparr>gr_Gid = g, gr_Name = CHR ''g'' # formatUint32 g\<rparr>)"

definition db_memberships :: "account_db \<Rightarrow> bytes \<Rightarrow> group list" where
  "db_memberships db n =
     concat (map (\<lambda>g. replicate (count_list (g_userNames g) n) (refToGroup g)) (db_groups db))"

definition db_user :: "account_db \<Rightarrow> etcPasswdEntry \<Rightarrow> user" where
  "db_user db e = refAndGroupsToUser e (db_primary db (p_gid e)) (db_memberships db (p_name e))"

definition found :: "user_err \<Rightarrow> ('a \<Rightarrow> 'b) \<Rightarrow> 'a option \<Rightarrow> user_err + 'b" where
  "found err f r = (case r of None \<Rightarrow> Inl err | Some x \<Rightarrow> Inr (f x))"

lemma found_Inr_iff: "found err f r = Inr y \<longleftrightarrow> (\<exists>x. r = Some x \<and> f x = y)"
  by (auto simp: found_def split: option.splits)

lemma db_last_Some: "db_last key xs k = Some v \<Longrightarrow> v \<in> set xs \<and> key v = k"
  by (auto simp: db_last_def find_Some_iff) (metis length_rev nth_mem set_rev)

lemma db_last_distinct:
  assumes "distinct (map key xs)" "v \<in> set xs"
  shows "db_last key xs (key v) = Some v"
proof -
  have "find (\<lambda>w. key w = key v) (rev xs) \<noteq> None" using assms(2) by (auto simp: find_None_iff)
  then obtain w where w: "db_last key xs (key v) = Some w" by (auto simp: db_last_def)
  from db_last_Some[OF this] assms have "w = v" by (auto simp: distinct_map dest: inj_onD)
  with w show ?thesis by simp
qed

subsection \<open>The interface of a source of accounts\<close>

locale account_source =
  fixes valid :: "'s \<Rightarrow> bool" and view :: "'s \<Rightarrow> account_db"
    and byName :: "'s \<Rightarrow> bytes \<Rightarrow> user_err + user" and byId :: "'s \<Rightarrow> uid \<Rightarrow> user_err + user"
    and groupByName :: "'s \<Rightarrow> bytes \<Rightarrow> user_err + group" and groupById :: "'s \<Rightarrow> gid \<Rightarrow> user_err + group"
  assumes byName_spec: "valid s \<Longrightarrow>
      byName s n = found ErrNoSuchUser (db_user (view s)) (db_last p_name (db_passwd (view s)) n)"
    and byId_spec: "valid s \<Longrightarrow>
      byId s i = found ErrNoSuchUser (db_user (view s)) (db_last p_uid (db_passwd (view s)) i)"
    and groupByName_spec: "valid s \<Longrightarrow>
      groupByName s n = found ErrNoSuchGroup refToGroup (db_last g_name (db_groups (view s)) n)"
    and groupById_spec: "valid s \<Longrightarrow>
      groupById s g = found ErrNoSuchGroup refToGroup (db_last g_gid (db_groups (view s)) g)"
begin

lemma byName_name: "valid s \<Longrightarrow> byName s n = Inr u \<Longrightarrow> us_Name u = n"
  by (auto simp: byName_spec found_Inr_iff db_user_def refAndGroupsToUser_def dest!: db_last_Some)

lemma byId_uid: "valid s \<Longrightarrow> byId s i = Inr u \<Longrightarrow> us_Uid u = i"
  by (auto simp: byId_spec found_Inr_iff db_user_def refAndGroupsToUser_def dest!: db_last_Some)

lemma name_then_id:
  assumes v: "valid s" and d: "distinct (map p_uid (db_passwd (view s)))" and u: "byName s n = Inr u"
  shows "byId s (us_Uid u) = Inr u"
proof -
  obtain e where e: "db_last p_name (db_passwd (view s)) n = Some e" "u = db_user (view s) e"
    using u v by (auto simp: byName_spec found_Inr_iff)
  from db_last_distinct[OF d] db_last_Some[OF e(1)]
  have "db_last p_uid (db_passwd (view s)) (p_uid e) = Some e" by simp
  then show ?thesis using v e(2) by (simp add: byId_spec found_def db_user_def refAndGroupsToUser_def)
qed

text \<open>The primary group of a user is what the group lookup gives, or the group is unknown there.\<close>

lemma primary_group:
  assumes "valid s" "byName s n = Inr u"
  shows "groupById s (gr_Gid (us_Group u)) = Inr (us_Group u) \<or>
    groupById s (gr_Gid (us_Group u)) = Inl ErrNoSuchGroup"
proof -
  obtain e where u: "u = db_user (view s) e" using assms by (auto simp: byName_spec found_Inr_iff)
  show ?thesis
  proof (cases "db_last g_gid (db_groups (view s)) (p_gid e)")
    case None
    then show ?thesis using u assms(1)
      by (simp add: db_user_def refAndGroupsToUser_def db_primary_def groupById_spec found_def)
  next
    case (Some g)
    then show ?thesis using u assms(1) db_last_Some[OF Some]
      by (simp add: db_user_def refAndGroupsToUser_def db_primary_def groupById_spec found_def refToGroup_def)
  qed
qed

end

subsection \<open>The repository is such a source\<close>

definition db_of :: "repo \<Rightarrow> account_db" where
  "db_of s = \<lparr>db_passwd = List.map_filter ce_entry (passwdEntries s),
              db_groups = List.map_filter ce_entry (groupEntries s)\<rparr>"

text \<open>The maps are those that \<^verbatim>\<open>rebuildIndexes\<close> would build from the entries.\<close>

definition indexed :: "repo \<Rightarrow> bool" where
  "indexed s \<longleftrightarrow> snd (rebuildIndexes s :: (user_err + unit) \<times> repo) = s"

lemma loadAndIndex_indexed: "loadAndIndex s = (Inr (), t) \<Longrightarrow> indexed t"
  by (auto simp: loadAndIndex_def bindE_Inr_iff indexed_def rebuildIndexes_def modifyE_def Let_def case_prod_beta)

lemma rows_values: "map snd (rows h (pointers es)) = List.map_filter ce_entry (map (deref h) es)"
proof (induction es)
  case Nil
  show ?case by (simp add: pointers_def List.map_filter_simps)
next
  case (Cons e es)
  then show ?case
    by (auto simp: pointers_def List.map_filter_simps deref_def split: option.splits)
qed

lemma find_map: "find P (map f xs) = map_option f (find (P \<circ> f) xs)"
  by (induction xs) auto

lemma index_of_db_last: "map_option snd (index_of key rs k) = db_last key (map snd rs) k"
  by (simp add: index_of_def db_last_def rev_map find_map comp_def case_prod_unfold)

lemma index_of_row:
  assumes "index_of key (rows h (pointers es)) k = r"
  shows "(case r of None \<Rightarrow> db_last key (List.map_filter ce_entry (map (deref h) es)) k = None
    | Some (a, v) \<Rightarrow> h a = Some v \<and> db_last key (List.map_filter ce_entry (map (deref h) es)) k = Some v)"
  using index_of_db_last[of key "rows h (pointers es)" k, unfolded rows_values assms] assms
  by (auto simp: in_rows dest: index_of_Some split: option.splits prod.splits)

definition shadowOf :: "repo \<Rightarrow> bytes \<Rightarrow> nat option" where
  "shadowOf s n = map_option fst (index_of s_name (rows (r_heapS s) (pointers (h_entries (r_shadow s)))) n)"

lemma indexed_maps:
  assumes "indexed s"
  shows "r_nameToGroup s n = map_option fst (index_of g_name (rows (r_heapG s) (pointers (h_entries (r_group s)))) n)"
    "r_idToGroup s i = map_option fst (index_of g_gid (rows (r_heapG s) (pointers (h_entries (r_group s)))) i)"
    "members (r_usernameToGroups s) un = concat (map (\<lambda>(a, g). replicate (count_list (g_userNames g) un) a)
       (rows (r_heapG s) (pointers (h_entries (r_group s)))))"
    "r_nameToUser s n = map_option (\<lambda>(a, e). \<lparr>pr_passwd = a, pr_shadow = shadowOf s (p_name e)\<rparr>)
       (index_of p_name (rows (r_heapP s) (pointers (h_entries (r_passwd s)))) n)"
    "r_idToUser s j = map_option (\<lambda>(a, e). \<lparr>pr_passwd = a, pr_shadow = shadowOf s (p_name e)\<rparr>)
       (index_of p_uid (rows (r_heapP s) (pointers (h_entries (r_passwd s)))) j)"
proof -
  let ?g = "loadGroupsRefs (r_heapG s) (pointers (h_entries (r_group s))) (\<lambda>_. None, \<lambda>_. None, \<lambda>_. None)"
  let ?sh = "loadShadowsRefs (r_heapS s) (pointers (h_entries (r_shadow s))) (\<lambda>_. None)"
  have sh: "?sh = shadowOf s" by (simp add: loadShadowsRefs_index shadowOf_def fun_eq_iff)
  let ?u = "loadUsersRefs (r_heapP s) ?sh (pointers (h_entries (r_passwd s))) (\<lambda>_. None, \<lambda>_. None)"
  have eq: "s = s\<lparr>r_nameToGroup := fst ?g, r_idToGroup := fst (snd ?g), r_usernameToGroups := snd (snd ?g),
      r_nameToUser := fst ?u, r_idToUser := snd ?u\<rparr>"
    using assms by (simp add: indexed_def rebuildIndexes_def modifyE_def case_prod_beta Let_def)
  have m: "r_nameToGroup s = fst ?g" "r_idToGroup s = fst (snd ?g)" "r_usernameToGroups s = snd (snd ?g)"
      "r_nameToUser s = fst ?u" "r_idToUser s = snd ?u"
    using arg_cong[OF eq, of r_nameToGroup] arg_cong[OF eq, of r_idToGroup] arg_cong[OF eq, of r_usernameToGroups]
      arg_cong[OF eq, of r_nameToUser] arg_cong[OF eq, of r_idToUser] by simp_all
  show "r_nameToGroup s n = map_option fst (index_of g_name (rows (r_heapG s) (pointers (h_entries (r_group s)))) n)"
    "r_idToGroup s i = map_option fst (index_of g_gid (rows (r_heapG s) (pointers (h_entries (r_group s)))) i)"
    by (simp_all add: m loadGroupsRefs_index)
  show "members (r_usernameToGroups s) un = concat (map (\<lambda>(a, g). replicate (count_list (g_userNames g) un) a)
       (rows (r_heapG s) (pointers (h_entries (r_group s)))))"
    by (simp add: m loadGroupsRefs_members) (simp add: members_def)
  show "r_nameToUser s n = map_option (\<lambda>(a, e). \<lparr>pr_passwd = a, pr_shadow = shadowOf s (p_name e)\<rparr>)
       (index_of p_name (rows (r_heapP s) (pointers (h_entries (r_passwd s)))) n)"
    by (simp add: m loadUsersRefs_index sh)
  show "r_idToUser s j = map_option (\<lambda>(a, e). \<lparr>pr_passwd = a, pr_shadow = shadowOf s (p_name e)\<rparr>)
       (index_of p_uid (rows (r_heapP s) (pointers (h_entries (r_passwd s)))) j)"
    by (simp add: m loadUsersRefs_index sh)
qed

lemma indexed_group_by_id:
  assumes "indexed s"
  shows "lookupGroupById s i = map_option refToGroup (db_last g_gid (db_groups (db_of s)) i)"
  using index_of_row[OF refl, of g_gid "r_heapG s" "h_entries (r_group s)" i]
  by (auto simp: lookupGroupById_def indexed_maps(2)[OF assms] db_of_def groupEntries_def
      split: option.splits prod.splits)

lemma groupsOf_members: "groupsOf s n = map refToGroup (List.map_filter (r_heapG s) (members (r_usernameToGroups s) n))"
  by (simp add: groupsOf_def members_def List.map_filter_simps split: option.splits)

lemma memberships_rows:
  "(\<And>a g. (a, g) \<in> set rs \<Longrightarrow> h a = Some g) \<Longrightarrow>
   map refToGroup (List.map_filter h (concat (map (\<lambda>(a, g). replicate (count_list (g_userNames g) n) a) rs))) =
   concat (map (\<lambda>g. replicate (count_list (g_userNames g) n) (refToGroup g)) (map snd rs))"
proof (induction rs)
  case Nil
  show ?case by (simp add: List.map_filter_simps)
next
  case (Cons r rs)
  obtain a g where r: "r = (a, g)" by (cases r)
  have "List.map_filter h (replicate k a) = replicate k g" for k
    using Cons.prems[of a g] r by (induction k) (auto simp: List.map_filter_simps)
  moreover have "List.map_filter h (xs @ ys) = List.map_filter h xs @ List.map_filter h ys" for xs ys
    by (simp add: List.map_filter_def)
  ultimately show ?case using Cons r by simp
qed

lemma indexed_memberships:
  assumes "indexed s"
  shows "groupsOf s n = db_memberships (db_of s) n"
  unfolding groupsOf_members indexed_maps(3)[OF assms]
  by (subst memberships_rows)
     (auto simp: in_rows rows_values db_memberships_def db_of_def groupEntries_def)

lemma indexed_refToUser:
  assumes "indexed s" "r_heapP s (pr_passwd ref) = Some e"
  shows "refToUser s ref = Inr (db_user (db_of s) e)"
  using assms(2)
  by (simp add: refToUser_def indexed_group_by_id[OF assms(1)] indexed_memberships[OF assms(1)] db_user_def
      db_primary_def split: option.splits)

text \<open>The pointers of the maps: a user's row has the key, its shadow row is the last one with its name.\<close>

definition shadow_rows :: "repo \<Rightarrow> etcShadowEntry list" where
  "shadow_rows s = List.map_filter ce_entry (shadowEntries s)"

lemma shadowOf_row:
  "(case shadowOf s n of None \<Rightarrow> db_last s_name (shadow_rows s) n = None
    | Some a \<Rightarrow> \<exists>e. r_heapS s a = Some e \<and> db_last s_name (shadow_rows s) n = Some e)"
  using index_of_row[OF refl, of s_name "r_heapS s" "h_entries (r_shadow s)" n]
  by (auto simp: shadowOf_def shadow_rows_def shadowEntries_def split: option.splits prod.splits)

lemma indexed_nameToUser:
  assumes "indexed s" "r_nameToUser s n = Some ref"
  obtains e where "r_heapP s (pr_passwd ref) = Some e" "db_last p_name (db_passwd (db_of s)) n = Some e"
    "p_name e = n" "pr_shadow ref = shadowOf s n"
proof -
  from assms obtain a e where i: "index_of p_name (rows (r_heapP s) (pointers (h_entries (r_passwd s)))) n = Some (a, e)"
    and r: "ref = \<lparr>pr_passwd = a, pr_shadow = shadowOf s (p_name e)\<rparr>" by (auto simp: indexed_maps)
  from index_of_row[OF i] index_of_Some[OF i] r that[of e] show thesis
    by (simp add: db_of_def passwdEntries_def)
qed

lemma indexed_idToUser:
  assumes "indexed s" "r_idToUser s i = Some ref"
  obtains e where "r_heapP s (pr_passwd ref) = Some e" "db_last p_uid (db_passwd (db_of s)) i = Some e"
    "p_uid e = i" "pr_shadow ref = shadowOf s (p_name e)"
proof -
  from assms obtain a e where i: "index_of p_uid (rows (r_heapP s) (pointers (h_entries (r_passwd s)))) i = Some (a, e)"
    and r: "ref = \<lparr>pr_passwd = a, pr_shadow = shadowOf s (p_name e)\<rparr>" by (auto simp: indexed_maps)
  from index_of_row[OF i] index_of_Some[OF i] r that[of e] show thesis
    by (simp add: db_of_def passwdEntries_def)
qed

interpretation etcAccounts: account_source indexed db_of LookupByName LookupById LookupGroupByName LookupGroupById
proof (unfold_locales, goal_cases)
  case (1 s n)
  show ?case
    using index_of_row[OF refl, of p_name "r_heapP s" "h_entries (r_passwd s)" n]
    by (auto simp: LookupByName_def indexed_maps(4)[OF 1] found_def db_of_def[of s] passwdEntries_def
        indexed_refToUser[OF 1, unfolded db_of_def passwdEntries_def] split: option.splits prod.splits)
next
  case (2 s i)
  show ?case
    using index_of_row[OF refl, of p_uid "r_heapP s" "h_entries (r_passwd s)" i]
    by (auto simp: LookupById_def indexed_maps(5)[OF 2] found_def db_of_def[of s] passwdEntries_def
        indexed_refToUser[OF 2, unfolded db_of_def passwdEntries_def] split: option.splits prod.splits)
next
  case (3 s n)
  show ?case
    using index_of_row[OF refl, of g_name "r_heapG s" "h_entries (r_group s)" n]
    by (auto simp: LookupGroupByName_def indexed_maps(1)[OF 3] found_def db_of_def groupEntries_def
        split: option.splits prod.splits)
next
  case (4 s g)
  show ?case by (simp add: LookupGroupById_def indexed_group_by_id[OF 4] found_def split: option.splits)
qed

end
