(* ===== verification/UserProps.thy ===== *)
theory UserProps
  imports AccountDb
begin

section \<open>Properties of the account repository\<close>

text \<open>
  The claims about package \<^verbatim>\<open>user\<close>: the files, the lookups, the generated ids, the passwords,
  and what \<^verbatim>\<open>Ensure\<close> and the deletions do. Each witness runs its claim on a small repository.
\<close>

subsection \<open>A concrete repository\<close>

definition exHandle :: "bytes \<Rightarrow> nat \<Rightarrow> nat colon_entry list \<Rightarrow> handle" where
  "exHandle fn n es = \<lparr>h_fn = fn, h_tempFn = [], h_numberOfColons = n, h_entries = es, h_numberOfReads = 0\<rparr>"

definition exFile :: "bytes \<Rightarrow> fnode" where
  "exFile c = \<lparr>n_isDir = False, n_content = c, n_uid = 0, n_gid = 0, n_mode = 384, n_mtime = 0\<rparr>"

definition exDir :: fnode where
  "exDir = \<lparr>n_isDir = True, n_content = [], n_uid = 0, n_gid = 0, n_mode = 448, n_mtime = 0\<rparr>"

definition exPasswd :: "bytes \<Rightarrow> uint32 \<Rightarrow> uint32 \<Rightarrow> etcPasswdEntry" where
  "exPasswd n u g = \<lparr>p_name = n, p_password = ''x'', p_uid = u, p_gid = g, p_geocs = ''d'',
     p_homeDir = ''/h'', p_shell = ''/s''\<rparr>"

definition exShadow :: "bytes \<Rightarrow> etcShadowEntry" where
  "exShadow n = \<lparr>s_name = n, s_password = ''*'', s_lastChangedAtInDays = 1, s_minimumAgeInDays = 0,
     s_maximumAgeInDays = 9, s_warnAgeInDays = 0, s_hasWarnAge = False, s_inactiveAgeInDays = 0,
     s_hasInactiveAge = False, s_expireAtTsInDays = 0, s_hasExpire = False\<rparr>"

definition exGroup :: "bytes \<Rightarrow> uint32 \<Rightarrow> bytes list \<Rightarrow> etcGroupEntry" where
  "exGroup n g us = \<lparr>g_name = n, g_password = ''x'', g_gid = g, g_userNames = us\<rparr>"

text \<open>One user \<open>u\<close> (uid 5, gid 7) in one group \<open>g\<close>, with a shadow row; the rows live at 0, 1 and 2.\<close>

definition exRepo :: repo where
  "exRepo =
     \<lparr>w_files = [(''/e'', exDir), (''/e/p'', exFile ''u:x:5:7:d:/h:/s\<newline>''), (''/e/g'', exFile ''g:x:7:u\<newline>''),
        (''/e/s'', exFile ''u:*:1:0:9::::\<newline>'')],
      w_fault = \<lambda>_ _. False, w_now = 0, w_open = \<lambda>_. 0, w_procs = [],
      r_CreateFilesIfAbsent = None, r_AllowBadName = None, r_AllowBadLine = None,
      r_passwd = exHandle ''/e/p'' etcPasswdColons [\<lparr>ce_entry = Some 0, ce_rawLine = []\<rparr>],
      r_group = exHandle ''/e/g'' etcGroupColons [\<lparr>ce_entry = Some 1, ce_rawLine = []\<rparr>],
      r_shadow = exHandle ''/e/s'' etcShadowColons [\<lparr>ce_entry = Some 2, ce_rawLine = []\<rparr>],
      r_heapP = [0 \<mapsto> exPasswd ''u'' 5 7], r_heapG = [1 \<mapsto> exGroup ''g'' 7 [''u'']], r_heapS = [2 \<mapsto> exShadow ''u''],
      r_next = 3,
      r_nameToUser = [''u'' \<mapsto> \<lparr>pr_passwd = 0, pr_shadow = Some 2\<rparr>],
      r_idToUser = [5 \<mapsto> \<lparr>pr_passwd = 0, pr_shadow = Some 2\<rparr>],
      r_nameToGroup = [''g'' \<mapsto> 1], r_idToGroup = [7 \<mapsto> 1], r_usernameToGroups = [''u'' \<mapsto> [1]]\<rparr>"

lemmas ex_defs = exRepo_def exHandle_def exFile_def exDir_def exPasswd_def exShadow_def exGroup_def

lemmas file_eval = files_ready_def file_ready_def writable_def file_content_def fs_get_def

lemmas name_eval = validateUserName_def validateGroupName_def validateBadUnixUser_def badUnixChar_def
  validateGeocs_def validateColonFilePathColumn_def illegalColumnChar_def

lemma digit_char_eval:
  "digit_char 0 = CHR ''0''" "digit_char (Suc 0) = CHR ''1''" "digit_char 1 = CHR ''1''" "digit_char 2 = CHR ''2''"
  "digit_char 3 = CHR ''3''" "digit_char 4 = CHR ''4''" "digit_char 5 = CHR ''5''" "digit_char 6 = CHR ''6''"
  "digit_char 7 = CHR ''7''" "digit_char 8 = CHR ''8''" "digit_char 9 = CHR ''9''"
  by code_simp+

lemmas entry_eval = passwdEntries_def groupEntries_def shadowEntries_def deref_def entry_stable_def
  getAllowBadName_def getAllowBadLine_def etcPasswd_encode_def etcPasswd_validate_def etcPasswd_wf_def
  etcGroup_encode_def etcGroup_validate_def etcGroup_wf_def etcShadow_encode_def etcShadow_validate_def
  etcShadow_wf_def column_clean_def formatUint32_def format_uint.simps digit_char_eval optColumn_def
  bufio_MaxScanTokenSize_def name_eval

subsection \<open>The files\<close>

text \<open>The text of the rows fits into the first buffer of the scanner.\<close>

definition text_fits :: "'a row_encode \<Rightarrow> bool \<Rightarrow> 'a colon_entry list \<Rightarrow> bool" where
  "text_fits enc ab es \<longleftrightarrow> (case entries_text enc ab es of Inl _ \<Rightarrow> True | Inr txt \<Rightarrow> length txt \<le> startBufSize)"

definition files_fit :: "repo \<Rightarrow> bool" where
  "files_fit s \<longleftrightarrow> text_fits etcPasswd_encode (getAllowBadName s) (passwdEntries s) \<and>
     text_fits etcGroup_encode (getAllowBadName s) (groupEntries s) \<and>
     text_fits etcShadow_encode (getAllowBadName s) (shadowEntries s)"

text \<open>
  C1: a save that follows any change of the rows succeeds when every row is stable (valid, in
  separable columns, in a line the scanner accepts), and the load after it gives the same rows back,
  bad lines that are kept verbatim included; only the empty lines are gone. The text of each file has to
  fit into the 4096 bytes of the scanner's first buffer: the rows are slices of the buffer, which the reads of a longer file
  overwrite.
\<close>

theorem save_load_roundtrip:
  assumes ready: "files_ready s" and stable: "rows_stable s" and fits: "files_fit s"
  shows "\<exists>t u. handles_save s = (Inr (), t) \<and> handles_load t = (Inr (), u) \<and>
    passwdEntries u = nonzero (passwdEntries s) \<and> groupEntries u = nonzero (groupEntries s) \<and>
    shadowEntries u = nonzero (shadowEntries s)"
proof -
  have st: "\<forall>e \<in> set (passwdEntries s). entry_stable etcPasswd_decode etcPasswd_encode etcPasswdColons etcPasswd_wf (getAllowBadName s) (getAllowBadLine s) e"
    "\<forall>e \<in> set (groupEntries s). entry_stable etcGroup_decode etcGroup_encode etcGroupColons etcGroup_wf (getAllowBadName s) (getAllowBadLine s) e"
    "\<forall>e \<in> set (shadowEntries s). entry_stable etcShadow_decode etcShadow_encode etcShadowColons etcShadow_wf (getAllowBadName s) (getAllowBadLine s) e"
    using stable by (simp_all add: rows_stable_def list_all_iff)
  obtain xp xg xs where x: "entries_text etcPasswd_encode (getAllowBadName s) (passwdEntries s) = Inr xp"
      "entries_text etcGroup_encode (getAllowBadName s) (groupEntries s) = Inr xg"
      "entries_text etcShadow_encode (getAllowBadName s) (shadowEntries s) = Inr xs"
    using passwdRow.entries_encodable[OF st(1)] groupRow.entries_encodable[OF st(2)] shadowRow.entries_encodable[OF st(3)] by blast
  have l: "length xp \<le> startBufSize" "length xg \<le> startBufSize" "length xs \<le> startBufSize"
    using fits x by (simp_all add: files_fit_def text_fits_def)
  note d = passwdRow.entries_roundtrip[OF st(1) x(1) l(1)] groupRow.entries_roundtrip[OF st(2) x(2) l(2)]
    shadowRow.entries_roundtrip[OF st(3) x(3) l(3)]
  obtain t where t: "handles_save s = (Inr (), t)" "world.more t = world.more s" "w_fault t = w_fault s"
      "file_content t (h_fn (r_passwd s)) = Some xp" "file_content t (h_fn (r_group s)) = Some xg"
      "file_content t (h_fn (r_shadow s)) = Some xs"
    by (rule handles_save_writes[OF ready x])
  note f = repo_is_fields[OF t(2)]
  have sc: "scanned (h_fn (r_passwd s)) t = xp" "scanned (h_fn (r_group s)) t = xg"
      "scanned (h_fn (r_shadow s)) t = xs"
    using ready t by (simp_all add: scanned_content files_ready_def file_ready_def)
  obtain u where "handles_load t = (Inr (), u)" "passwdEntries u = nonzero (passwdEntries s)"
      "groupEntries u = nonzero (groupEntries s)" "shadowEntries u = nonzero (shadowEntries s)"
    by (rule handles_load_reads[of t])
       (use f sc d ready in \<open>simp_all add: files_ready_def getAllowBadName_def getAllowBadLine_def nonzero_def\<close>)
  with t(1) show ?thesis by blast
qed

theorem save_load_roundtrip_witness:
  "\<exists>t u. handles_save exRepo = (Inr (), t) \<and> handles_load t = (Inr (), u) \<and>
    passwdEntries u = nonzero (passwdEntries exRepo) \<and> groupEntries u = nonzero (groupEntries exRepo) \<and>
    shadowEntries u = nonzero (shadowEntries exRepo)"
proof (rule save_load_roundtrip)
  show "files_ready exRepo"
    by (simp add: ex_defs file_eval)
  show "rows_stable exRepo"
    by (simp add: ex_defs rows_stable_def entry_eval)
  show "files_fit exRepo"
    by (simp add: ex_defs files_fit_def text_fits_def startBufSize_def entry_eval colon_entry_text_def)
qed

text \<open>
  a save that meets a row it cannot encode is not undone. The password file, truncated at
  the start, keeps exactly the text of the rows before that row, and the other two files keep
  their old content; so the rows after it are lost and the files disagree.
\<close>

theorem failed_save_loses_rows:
  assumes "files_ready s" and "handles_save s = (r, t)"
    and "entries_text etcPasswd_encode (getAllowBadName s) (passwdEntries s) = Inl err"
  shows "(\<exists>e. r = Inl e) \<and>
    file_content t (h_fn (r_passwd s)) =
      Some (encodable_prefix etcPasswd_encode (getAllowBadName s) (passwdEntries s)) \<and>
    file_content t (h_fn (r_group s)) = file_content s (h_fn (r_group s)) \<and>
    file_content t (h_fn (r_shadow s)) = file_content s (h_fn (r_shadow s))"
proof -
  obtain r1 t1 where s1: "passwd_save s = (r1, t1)" by (cases "passwd_save s")
  note s1' = s1[unfolded passwd_save_eq]
  have fr: "file_ready s (h_fn (r_passwd s))" using assms(1) by (simp add: files_ready_def)
  then have w: "file_content t1 (h_fn (r_passwd s)) =
      Some (encodable_prefix etcPasswd_encode (getAllowBadName s) (passwdEntries s))" "r1 \<noteq> Inr ()"
    using save_file_writes[OF _ _ s1'] assms(3) by (auto simp: file_ready_def)
  then obtain e where e: "r1 = Inl e" by (cases r1) auto
  then have "r = Inl e" "t = t1" using s1 assms(2) by (auto simp: handles_save_def bindE_def)
  with w(1) outside_fields(10)[OF save_file_outside[OF s1']] assms(1) show ?thesis
    by (auto simp: files_ready_def)
qed

text \<open>Two rows; the first one got a display name with a colon, and the second one is lost.\<close>

definition exBadRepo :: repo where
  "exBadRepo = exRepo\<lparr>
     r_passwd := exHandle ''/e/p'' etcPasswdColons [\<lparr>ce_entry = Some 0, ce_rawLine = []\<rparr>, \<lparr>ce_entry = Some 3, ce_rawLine = []\<rparr>],
     r_heapP := [0 \<mapsto> (exPasswd ''u'' 5 7)\<lparr>p_geocs := ''a:b''\<rparr>, 3 \<mapsto> exPasswd ''v'' 6 7]\<rparr>"

theorem failed_save_loses_rows_witness:
  "file_content (snd (handles_save exBadRepo)) ''/e/p'' = Some []"
proof -
  have "files_ready exBadRepo"
    by (simp add: exBadRepo_def ex_defs file_eval)
  moreover have "entries_text etcPasswd_encode (getAllowBadName exBadRepo) (passwdEntries exBadRepo) = Inl ErrIllegalGeocs"
    by (simp add: exBadRepo_def ex_defs entry_eval colon_entry_text_def)
  moreover have "encodable_prefix etcPasswd_encode (getAllowBadName exBadRepo) (passwdEntries exBadRepo) = []"
    "h_fn (r_passwd exBadRepo) = ''/e/p''"
    by (simp_all add: exBadRepo_def ex_defs entry_eval colon_entry_text_def)
  ultimately show ?thesis using failed_save_loses_rows[OF _ surjective_pairing] by metis
qed

subsection \<open>Lookups\<close>

text \<open>
  C2: after every successful load the four lookups are those of the abstract account
  database: the last row with the key, the primary group or one named after its id, and one
  group for every time a group row lists the user.
\<close>

theorem lookups_refine_database:
  assumes "loadAndIndex s = (Inr (), t)"
  shows "LookupByName t n = found ErrNoSuchUser (db_user (db_of t)) (db_last p_name (db_passwd (db_of t)) n) \<and>
    LookupById t i = found ErrNoSuchUser (db_user (db_of t)) (db_last p_uid (db_passwd (db_of t)) i) \<and>
    LookupGroupByName t n = found ErrNoSuchGroup refToGroup (db_last g_name (db_groups (db_of t)) n) \<and>
    LookupGroupById t g = found ErrNoSuchGroup refToGroup (db_last g_gid (db_groups (db_of t)) g)"
  using loadAndIndex_indexed[OF assms]
  by (simp add: etcAccounts.byName_spec etcAccounts.byId_spec etcAccounts.groupByName_spec etcAccounts.groupById_spec)

lemmas row_eval = entry_eval ex_defs colon_entry_text_def colon_entry_IsZero_def startBufSize_def

lemma exRepo_decoded:
  "colon_entries_decode etcPasswd_decode etcPasswd_reslice etcPasswdColons True True ''/e/p'' ''u:x:5:7:d:/h:/s\<newline>'' =
     Inr [\<lparr>ce_entry = Some (exPasswd ''u'' 5 7), ce_rawLine = []\<rparr>]"
  "colon_entries_decode etcGroup_decode etcGroup_reslice etcGroupColons True True ''/e/g'' ''g:x:7:u\<newline>'' =
     Inr [\<lparr>ce_entry = Some (exGroup ''g'' 7 [''u'']), ce_rawLine = []\<rparr>]"
  "colon_entries_decode etcShadow_decode etcShadow_reslice etcShadowColons True True ''/e/s'' ''u:*:1:0:9::::\<newline>'' =
     Inr [\<lparr>ce_entry = Some (exShadow ''u''), ce_rawLine = []\<rparr>]"
proof -
  show "colon_entries_decode etcPasswd_decode etcPasswd_reslice etcPasswdColons True True ''/e/p'' ''u:x:5:7:d:/h:/s\<newline>'' =
     Inr [\<lparr>ce_entry = Some (exPasswd ''u'' 5 7), ce_rawLine = []\<rparr>]"
    by (subst passwdRow.entries_roundtrip[of "[\<lparr>ce_entry = Some (exPasswd ''u'' 5 7), ce_rawLine = []\<rparr>]" True True])
      (simp_all add: row_eval)
  show "colon_entries_decode etcGroup_decode etcGroup_reslice etcGroupColons True True ''/e/g'' ''g:x:7:u\<newline>'' =
     Inr [\<lparr>ce_entry = Some (exGroup ''g'' 7 [''u'']), ce_rawLine = []\<rparr>]"
    by (subst groupRow.entries_roundtrip[of "[\<lparr>ce_entry = Some (exGroup ''g'' 7 [''u'']), ce_rawLine = []\<rparr>]" True True])
      (simp_all add: row_eval)
  show "colon_entries_decode etcShadow_decode etcShadow_reslice etcShadowColons True True ''/e/s'' ''u:*:1:0:9::::\<newline>'' =
     Inr [\<lparr>ce_entry = Some (exShadow ''u''), ce_rawLine = []\<rparr>]"
    by (subst shadowRow.entries_roundtrip[of "[\<lparr>ce_entry = Some (exShadow ''u''), ce_rawLine = []\<rparr>]" True True])
      (simp_all add: row_eval)
qed




lemma exRepo_loaded:
  "\<exists>t. loadAndIndex exRepo = (Inr (), t) \<and> db_passwd (db_of t) = [exPasswd ''u'' 5 7] \<and>
    db_groups (db_of t) = [exGroup ''g'' 7 [''u'']]"
proof -
  obtain t where t: "handles_load exRepo = (Inr (), t)"
      "passwdEntries t = [\<lparr>ce_entry = Some (exPasswd ''u'' 5 7), ce_rawLine = []\<rparr>]"
      "groupEntries t = [\<lparr>ce_entry = Some (exGroup ''g'' 7 [''u'']), ce_rawLine = []\<rparr>]"
    by (rule handles_load_reads[of exRepo])
       (simp_all add: exRepo_decoded[unfolded exPasswd_def exGroup_def exShadow_def] ex_defs getAllowBadName_def
         getAllowBadLine_def scanned_def os_ReadAll_def fs_get_def)
  then show ?thesis
    by (simp add: loadAndIndex_def bindE_def rebuildIndexes_def modifyE_def case_prod_beta Let_def db_of_def
        passwdEntries_def groupEntries_def List.map_filter_simps)
qed

theorem lookups_refine_database_witness:
  "\<exists>t u. loadAndIndex exRepo = (Inr (), t) \<and> LookupByName t ''u'' = Inr u \<and> us_Uid u = 5"
proof -
  obtain t where t: "loadAndIndex exRepo = (Inr (), t)" "db_passwd (db_of t) = [exPasswd ''u'' 5 7]"
    using exRepo_loaded by blast
  have "LookupByName t ''u'' = Inr (db_user (db_of t) (exPasswd ''u'' 5 7))"
    using lookups_refine_database[OF t(1), of "''u''" 0 0] t(2) by (simp add: db_last_def found_def exPasswd_def)
  with t(1) show ?thesis by (simp add: db_user_def refAndGroupsToUser_def exPasswd_def)
qed

text \<open>
  when no two rows of the password file share a user id, looking a user up by name and
  then by the id found gives the same user.
\<close>

theorem lookup_name_then_id:
  assumes "loadAndIndex s = (Inr (), t)" "distinct (map p_uid (db_passwd (db_of t)))" "LookupByName t n = Inr u"
  shows "us_Name u = n \<and> LookupById t (us_Uid u) = Inr u"
  using etcAccounts.name_then_id[OF loadAndIndex_indexed[OF assms(1)] assms(2,3)]
    etcAccounts.byName_name[OF loadAndIndex_indexed[OF assms(1)] assms(3)] by simp

theorem lookup_name_then_id_witness:
  "\<exists>t u. loadAndIndex exRepo = (Inr (), t) \<and> us_Name u = ''u'' \<and> LookupById t (us_Uid u) = Inr u"
proof -
  obtain t where t: "loadAndIndex exRepo = (Inr (), t)" "db_passwd (db_of t) = [exPasswd ''u'' 5 7]"
    using exRepo_loaded by blast
  have "LookupByName t ''u'' = Inr (db_user (db_of t) (exPasswd ''u'' 5 7))"
    using etcAccounts.byName_spec[OF loadAndIndex_indexed[OF t(1)], of "''u''"] t(2)
    by (simp add: db_last_def found_def exPasswd_def)
  from lookup_name_then_id[OF t(1) _ this] t show ?thesis by auto
qed

subsection \<open>Generated ids\<close>

lemma highest_bound:
  fixes key :: "'a \<Rightarrow> uint32" and skip :: "'a \<Rightarrow> bool"
  defines "step \<equiv> \<lambda>r e. if skip e then r else if key e > r then key e else r"
  shows "z \<le> foldl step z es \<and> (\<forall>e \<in> set es. skip e \<or> key e \<le> foldl step z es)"
proof (induction es arbitrary: z)
  case (Cons e es)
  have "z \<le> step z e" "skip e \<or> key e \<le> step z e" by (auto simp: step_def)
  with Cons[of "step z e"] show ?case by (auto intro: order_trans)
qed simp

lemma heap_values: "List.map_filter h (pointers es) = List.map_filter ce_entry (map (deref h) es)"
proof (induction es)
  case Nil
  show ?case by (simp add: pointers_def List.map_filter_simps)
next
  case (Cons e es)
  then show ?case by (auto simp: pointers_def List.map_filter_simps deref_def split: option.splits)
qed

lemma uid_bound: "e \<in> set (db_passwd (db_of s)) \<Longrightarrow> (p_uid e = 65534 \<and> p_name e = ''nobody'') \<or> p_uid e \<le> findHighestUid s"
  using highest_bound[where z = 0 and key = p_uid and skip = "\<lambda>e. p_uid e = 65534 \<and> p_name e = ''nobody''"
      and es = "db_passwd (db_of s)"]
  by (auto simp: findHighestUid_def heap_values db_of_def passwdEntries_def)

lemma gid_bound: "e \<in> set (db_groups (db_of s)) \<Longrightarrow> (g_gid e = 65534 \<and> g_name e = ''nogroup'') \<or> g_gid e \<le> findHighestGid s"
  using highest_bound[where z = 0 and key = g_gid and skip = "\<lambda>e. g_gid e = 65534 \<and> g_name e = ''nogroup''"
      and es = "db_groups (db_of s)"]
  by (auto simp: findHighestGid_def heap_values db_of_def groupEntries_def)

lemma nextId_bounds:
  assumes "h \<noteq> 0xFFFFFFFF"
  shows "1000 \<le> nextId h" "nextId h \<noteq> 65534" "h < nextId h"
proof -
  have l: "unat h < 0xFFFFFFFF"
    using unsigned_less[of h, where 'a = nat] assms by (simp add: word_unat_eq_iff)
  show "1000 \<le> nextId h" "nextId h \<noteq> 65534" "h < nextId h"
    using l by (auto simp: nextId_def Let_def word_le_nat_alt word_less_nat_alt unat_word_ariths)
qed

text \<open>
  an id generated for a new user or group is new in the loaded file, not below 1000 and
  not 65534, as long as the highest id is not the last 32-bit number.
\<close>

theorem generated_ids_fresh:
  assumes "findHighestUid s \<noteq> 0xFFFFFFFF" and "findHighestGid s \<noteq> 0xFFFFFFFF"
  shows "1000 \<le> nextId (findHighestUid s) \<and> nextId (findHighestUid s) \<noteq> 65534 \<and>
    nextId (findHighestUid s) \<notin> p_uid ` set (db_passwd (db_of s)) \<and>
    1000 \<le> nextId (findHighestGid s) \<and> nextId (findHighestGid s) \<noteq> 65534 \<and>
    nextId (findHighestGid s) \<notin> g_gid ` set (db_groups (db_of s))"
proof -
  note u = nextId_bounds[OF assms(1)] and g = nextId_bounds[OF assms(2)]
  have "nextId (findHighestUid s) \<noteq> p_uid e" if "e \<in> set (db_passwd (db_of s))" for e
    using uid_bound[OF that] u by auto
  moreover have "nextId (findHighestGid s) \<noteq> g_gid e" if "e \<in> set (db_groups (db_of s))" for e
    using gid_bound[OF that] g by auto
  ultimately show ?thesis using u g by auto
qed

theorem generated_ids_fresh_witness:
  "nextId (findHighestUid exRepo) = 1000 \<and> nextId (findHighestUid exRepo) \<notin> p_uid ` set (db_passwd (db_of exRepo))"
proof -
  have h: "findHighestUid exRepo = 5" "findHighestGid exRepo = 7"
    by (simp_all add: findHighestUid_def findHighestGid_def ex_defs pointers_def List.map_filter_simps)
  from generated_ids_fresh[of exRepo] show ?thesis by (simp add: h nextId_def)
qed

text \<open>
  the increment wraps. When the password file holds a row with the user id 4294967295, a user
  created without an id gets the id 0 and is root.
\<close>

theorem generated_uid_wraps_to_root:
  assumes "e \<in> set (db_passwd (db_of s))" "p_uid e = 0xFFFFFFFF" "rq_Uid q = None"
  shows "p_uid (fst (toEtcPasswdRef q gid (nextId (findHighestUid s)) today)) = 0"
proof -
  have "0xFFFFFFFF \<le> findHighestUid s" using uid_bound[OF assms(1)] assms(2) by simp
  then have h: "findHighestUid s = 0xFFFFFFFF"
    using unsigned_less[of "findHighestUid s", where 'a = nat] by (simp add: word_le_nat_alt word_unat_eq_iff)
  show ?thesis using assms(3) by (simp add: h toEtcPasswdRef_def nextId_def Let_def)
qed

definition exRequirement :: requirement where
  "exRequirement = \<lparr>rq_Name = ''n'', rq_DisplayName = [], rq_Uid = None, rq_Group = \<lparr>gq_Gid = None, gq_Name = ''g''\<rparr>,
     rq_Groups = [], rq_Shell = ''/s'', rq_HomeDir = ''/h/n'', rq_Skel = []\<rparr>"

theorem generated_uid_wraps_to_root_witness:
  "p_uid (fst (toEtcPasswdRef exRequirement 7
     (nextId (findHighestUid (exRepo\<lparr>r_heapP := [0 \<mapsto> exPasswd ''u'' 0xFFFFFFFF 7]\<rparr>))) 0)) = 0"
  by (rule generated_uid_wraps_to_root[of "exPasswd ''u'' 0xFFFFFFFF 7"])
     (simp_all add: ex_defs db_of_def passwdEntries_def deref_def List.map_filter_simps exRequirement_def)

subsection \<open>Passwords\<close>

lemma etcShadow_validatePassword_True:
  "etcShadow_validatePassword insts today e pass = Inr True \<Longrightarrow>
   s_password e \<notin> {[], ''*'', ''!'', ''!!''} \<and> password_Validate insts pass (s_password e) = Inr True \<and>
   (s_hasExpire e \<longrightarrow> today < s_expireAtTsInDays e) \<and>
   (s_hasInactiveAge e \<longrightarrow> today < s_maximumAgeInDays e + s_lastChangedAtInDays e + s_inactiveAgeInDays e)"
  by (auto simp: etcShadow_validatePassword_def bindR_Inr_iff split: if_splits)

text \<open>
  C20: a password is accepted for a name only if the last shadow row of that name is not locked,
  holds a hash a registered method accepts for the password, and is neither expired nor inactive; or if
  there is no shadow row of that name and the password file holds the password itself.
\<close>

theorem password_accepted_only_if:
  assumes "loadAndIndex s0 = (Inr (), s)" and "ValidatePasswordByName insts s n pass = Inr True"
  shows "(\<exists>e. db_last s_name (shadow_rows s) n = Some e \<and> s_password e \<notin> {[], ''*'', ''!'', ''!!''} \<and>
      password_Validate insts pass (s_password e) = Inr True \<and>
      (s_hasExpire e \<longrightarrow> todayInDays s < s_expireAtTsInDays e) \<and>
      (s_hasInactiveAge e \<longrightarrow>
        todayInDays s < s_maximumAgeInDays e + s_lastChangedAtInDays e + s_inactiveAgeInDays e)) \<or>
    (db_last s_name (shadow_rows s) n = None \<and>
     (\<exists>e. db_last p_name (db_passwd (db_of s)) n = Some e \<and> p_password e = pass \<and> pass \<noteq> ''x''))"
proof -
  obtain ref where r: "r_nameToUser s n = Some ref" "etcPasswdRef_validatePassword insts s ref pass = Inr True"
    using assms(2) by (auto simp: ValidatePasswordByName_def split: option.splits)
  obtain e where e: "r_heapP s (pr_passwd ref) = Some e" "db_last p_name (db_passwd (db_of s)) n = Some e"
      "pr_shadow ref = shadowOf s n"
    using indexed_nameToUser[OF loadAndIndex_indexed[OF assms(1)] r(1)] by metis
  show ?thesis
  proof (cases "shadowOf s n")
    case None
    then show ?thesis using shadowOf_row[of s n] r(2) e
      by (auto simp: etcPasswdRef_validatePassword_def etcPasswd_validatePassword_def split: if_splits)
  next
    case (Some a)
    then obtain se where "r_heapS s a = Some se" "db_last s_name (shadow_rows s) n = Some se"
      using shadowOf_row[of s n] by auto
    with Some e(3) r(2) etcShadow_validatePassword_True[of insts "todayInDays s" se pass] show ?thesis
      by (auto simp: etcPasswdRef_validatePassword_def)
  qed
qed

text \<open>A repository whose user has the hash \<open>$h\<close>, with a method that accepts the hash without its mark.\<close>

definition exMethods :: "(bytes \<times> crypt) list" where
  "exMethods = [(''$'', \<lambda>pass hash. Inr (hash = ''$'' @ pass))]"

definition exHashed :: etcShadowEntry where
  "exHashed = (exShadow ''u'')\<lparr>s_password := ''$h''\<rparr>"

definition exPwRepo :: repo where
  "exPwRepo = exRepo\<lparr>w_files := [(''/e/p'', exFile ''u:x:5:7:d:/h:/s\<newline>''), (''/e/g'', exFile ''g:x:7:u\<newline>''),
        (''/e/s'', exFile ''u:$h:1:0:9::::\<newline>'')]\<rparr>"

lemma exPwRepo_loaded:
  "\<exists>t. loadAndIndex exPwRepo = (Inr (), t) \<and> db_passwd (db_of t) = [exPasswd ''u'' 5 7] \<and> shadow_rows t = [exHashed]"
proof -
  have d: "colon_entries_decode etcShadow_decode etcShadow_reslice etcShadowColons True True ''/e/s'' ''u:$h:1:0:9::::\<newline>'' =
     Inr [\<lparr>ce_entry = Some exHashed, ce_rawLine = []\<rparr>]"
    by (subst shadowRow.entries_roundtrip[of "[\<lparr>ce_entry = Some exHashed, ce_rawLine = []\<rparr>]" True True])
      (simp_all add: row_eval exHashed_def)
  obtain t where t: "handles_load exPwRepo = (Inr (), t)"
      "passwdEntries t = [\<lparr>ce_entry = Some (exPasswd ''u'' 5 7), ce_rawLine = []\<rparr>]"
      "shadowEntries t = [\<lparr>ce_entry = Some exHashed, ce_rawLine = []\<rparr>]"
    by (rule handles_load_reads[of exPwRepo])
       (simp_all add: exRepo_decoded[unfolded exPasswd_def exGroup_def exShadow_def] d exPwRepo_def ex_defs
         getAllowBadName_def getAllowBadLine_def scanned_def os_ReadAll_def fs_get_def)
  then show ?thesis
    by (simp add: loadAndIndex_def bindE_def rebuildIndexes_def modifyE_def case_prod_beta Let_def db_of_def
        shadow_rows_def passwdEntries_def shadowEntries_def List.map_filter_simps)
qed

theorem password_accepted_only_if_witness:
  "\<exists>t. ValidatePasswordByName exMethods t ''u'' ''h'' = Inr True \<and>
     (\<exists>e. db_last s_name (shadow_rows t) ''u'' = Some e \<and> password_Validate exMethods ''h'' (s_password e) = Inr True)"
proof -
  obtain t where t: "loadAndIndex exPwRepo = (Inr (), t)" "db_passwd (db_of t) = [exPasswd ''u'' 5 7]"
      "shadow_rows t = [exHashed]" using exPwRepo_loaded by blast
  have i: "indexed t" by (rule loadAndIndex_indexed[OF t(1)])
  obtain a where a: "shadowOf t ''u'' = Some a" "r_heapS t a = Some exHashed"
    using shadowOf_row[of t "''u''"] t(3) by (auto simp: db_last_def exHashed_def exShadow_def split: option.splits)
  have "LookupByName t ''u'' \<noteq> Inl ErrNoSuchUser"
    using etcAccounts.byName_spec[OF i, of "''u''"] t(2) by (simp add: db_last_def found_def exPasswd_def)
  then obtain ref where r: "r_nameToUser t ''u'' = Some ref" by (auto simp: LookupByName_def split: option.splits)
  have "pr_shadow ref = Some a" using indexed_nameToUser[OF i r] a(1) by metis
  then have v: "ValidatePasswordByName exMethods t ''u'' ''h'' = Inr True"
    using r a(2) by (simp add: ValidatePasswordByName_def etcPasswdRef_validatePassword_def
        etcShadow_validatePassword_def exHashed_def exMethods_def exShadow_def)
  from password_accepted_only_if[OF t(1) v] v t(3) show ?thesis
    by (auto simp: db_last_def exHashed_def exShadow_def)
qed

subsection \<open>Names\<close>

text \<open>
  a user or group name either setting accepts is at most 32 bytes, not empty and free of
  the separators of the files (colon, comma, newline and all other bytes up to the space), and a name
  the strict setting accepts is accepted by the lax one.
\<close>

theorem accepted_names_are_columns:
  assumes "validateUserName n ab = None \<or> validateGroupName n ab = None"
  shows "n \<noteq> [] \<and> length n \<le> 32 \<and> CHR '':'' \<notin> set n \<and> CHR '','' \<notin> set n \<and> CHR 0x0A \<notin> set n \<and>
    (\<forall>c \<in> set n. 32 < byte c) \<and>
    (validateUserName n ab = None \<longrightarrow> validateUserName n True = None) \<and>
    (validateGroupName n ab = None \<longrightarrow> validateGroupName n True = None)"
proof -
  have c: "name_clean n" using assms validateUserName_clean validateGroupName_clean by blast
  have "\<forall>c \<in> set n. 32 < byte c" using name_clean_char[OF c] by fastforce
  then show ?thesis
    using c name_clean_column[OF c] name_clean_no_comma[OF c] validateUserName_bad validateGroupName_bad
    by (auto simp: name_clean_def column_clean_def)
qed

theorem accepted_names_are_columns_witness:
  "validateUserName ''a-b'' False = None \<and> CHR '':'' \<notin> set ''a-b'' \<and> validateUserName ''a-b'' True = None"
proof -
  have "validateUserName ''a-b'' False = None" by (simp add: validateUserName_def validateUnixName_def Let_def)
  with accepted_names_are_columns[of "''a-b''" False] show ?thesis by auto
qed

end
