(* ===== verification/UserEffects.thy ===== *)
theory UserEffects
  imports UserProps
begin

section \<open>Properties of the changing operations of the account repository\<close>

text \<open>
  \<^verbatim>\<open>Ensure\<close>, \<^verbatim>\<open>EnsureGroup\<close> and the deletions: what they leave open, what they change without
  permission (nothing), what their results promise, which rows are gone after a deletion, and how
  the index maps fall out of step with the rows.
\<close>

subsection \<open>Open files\<close>

text \<open>
  C13: no path through the repository leaves a file open, whatever call fails: the operations
  close on every error what they opened. The library that copies the skeleton directory is
  assumed to close its own files.
\<close>

theorem no_handle_leaks:
  assumes "\<forall>h a b c d. preserves (handles_are h) (cp a b c d)"
  shows "w_open (snd (load s)) = w_open s \<and>
    w_open (snd (Ensure cp q opts s)) = w_open s \<and> w_open (snd (EnsureGroup gq opts s)) = w_open s \<and>
    w_open (snd (DeleteById i dopts s)) = w_open s \<and> w_open (snd (DeleteByName n dopts s)) = w_open s \<and>
    w_open (snd (DeleteGroupById g s)) = w_open s \<and> w_open (snd (DeleteGroupByName n s)) = w_open s"
proof -
  have 1: "w_open (snd (load s)) = w_open s"
    unfolding load_def
    by (rule open_body_close_balanced)
       (auto intro!: preserve handles_modifyE simp: loadAndIndex_def rebuildIndexes_def case_prod_beta Let_def)
  have 2: "w_open (snd (Ensure cp q opts s)) = w_open s"
    using open_load_body_close_balanced[where body = "\<lambda>f. ensureOpened cp (Requirement_OrDefaults q) (rq_Skel q) opts"
        and s = s] handles_ensureOpened[of _ cp] assms
    by (auto simp: Ensure_def Let_def split: sum.splits option.splits)
  have b: "preserves (handles_are h) (bindE (ensureGroup None r opts) (\<lambda>(_, g, r).
             bindE (if r = EnsureResultModified \<or> r = EnsureResultCreated then handles_save else returnE ()) (\<lambda>_.
             returnE (g, r))))" for h r
    by (intro preserve)
  have 3: "w_open (snd (EnsureGroup gq opts s)) = w_open s"
    using open_load_body_close_balanced[OF b]
    by (auto simp: EnsureGroup_def Let_def split: sum.splits option.splits)
  show ?thesis
    using 1 2 3 open_load_body_close_balanced[OF handles_deleteOpened]
      open_load_body_close_balanced[OF handles_deleteGroupOpened]
    by (simp add: DeleteById_def DeleteByName_def deleteRef_def DeleteGroupById_def DeleteGroupByName_def
        deleteGroupRef_def)
qed

theorem no_handle_leaks_witness:
  "w_open (snd (Ensure (\<lambda>_ _ _ _. returnE ()) exRequirement None exRepo)) = w_open exRepo"
  using no_handle_leaks[where cp = "\<lambda>_ _ _ _. returnE ()" and s = exRepo and q = exRequirement and opts = None
      and gq = "\<lparr>gq_Gid = None, gq_Name = []\<rparr>" and i = 0 and dopts = None and n = "[]" and g = 0]
  by (auto intro: preserve)

subsection \<open>Permissions\<close>

text \<open>
  without the permission to modify, \<^verbatim>\<open>Ensure\<close> and \<^verbatim>\<open>EnsureGroup\<close> change nothing at
  all, neither a file nor the maps, and answer with an error or with the unchanged account; this holds with
  the permission to create, too, so that permission alone never creates anything.
\<close>

theorem no_modify_no_change:
  assumes "\<not> IsModifyAllowed opts"
  shows "snd (Ensure cp q opts s) = s \<and> snd (EnsureGroup gq opts s) = s \<and>
    (\<forall>u r. fst (Ensure cp q opts s) = Inr (u, r) \<longrightarrow> r = EnsureResultUnchanged) \<and>
    (\<forall>g r. fst (EnsureGroup gq opts s) = Inr (g, r) \<longrightarrow> r = EnsureResultUnchanged)"
proof -
  have e: "ensurePreChecks s t opts = Inr (x, y) \<Longrightarrow> y \<noteq> None" for t x y
    using assms by (auto simp: ensurePreChecks_def bindR_Inr_iff split: option.splits if_splits)
  have g: "preEnsureGroup s t opts = Inr (x, y, r) \<Longrightarrow> x \<noteq> None \<and> y \<noteq> None \<and> r = EnsureResultUnchanged" for t x y r
    using assms by (force simp: preEnsureGroup_def Let_def fulfilsGroup_def dest: sym split: option.splits if_splits)
  show ?thesis
    using e[of "Requirement_OrDefaults q"] g[of "GroupRequirement_OrDefaults gq"]
    by (auto simp: Ensure_def EnsureGroup_def Let_def split: sum.splits option.splits)
qed

theorem no_modify_no_change_witness:
  "snd (Ensure (\<lambda>_ _ _ _. returnE ()) exRequirement
     (Some \<lparr>eo_CreateAllowed = Some True, eo_ModifyAllowed = Some False, eo_HomeDir = None, eo_OnHomeDirExist = 0\<rparr>) exRepo) = exRepo"
  using no_modify_no_change by (simp add: IsModifyAllowed_def optTrue_def)

text \<open>
  without the permission to create, an absent user or group is reported as such and
  nothing is changed.
\<close>

theorem no_create_absent:
  assumes "\<not> IsCreateAllowed opts"
    and "lookupByRequirement s (Requirement_OrDefaults q) = None"
    and "lookupGroupByRequirement s (GroupRequirement_OrDefaults gq) = None"
  shows "Ensure cp q opts s = (Inl ErrNoSuchUser, s) \<and> EnsureGroup gq opts s = (Inl ErrNoSuchGroup, s)"
  using assms
  by (simp add: Ensure_def EnsureGroup_def ensurePreChecks_def isRequirementFulfilled_def preEnsureGroup_def Let_def)

theorem no_create_absent_witness:
  "EnsureGroup \<lparr>gq_Gid = Some 99, gq_Name = []\<rparr>
     (Some \<lparr>eo_CreateAllowed = Some False, eo_ModifyAllowed = None, eo_HomeDir = None, eo_OnHomeDirExist = 0\<rparr>) exRepo =
   (Inl ErrNoSuchGroup, exRepo)"
  using no_create_absent[of "Some \<lparr>eo_CreateAllowed = Some False, eo_ModifyAllowed = None, eo_HomeDir = None, eo_OnHomeDirExist = 0\<rparr>"
      exRepo exRequirement "\<lparr>gq_Gid = Some 99, gq_Name = []\<rparr>"]
  by (simp add: IsCreateAllowed_def optTrue_def exRequirement_def Requirement_OrDefaults_def GroupRequirement_OrDefaults_def
      lookupByRequirement_def lookupGroupByRequirement_def ex_defs GroupRequirement_IsZero_def entry_eval Let_def)

subsection \<open>What a successful \<^verbatim>\<open>Ensure\<close> promises\<close>

definition group_fulfils :: "group_requirement \<Rightarrow> group \<Rightarrow> bool" where
  "group_fulfils r g \<longleftrightarrow> (gq_Name r = [] \<or> gr_Name g = gq_Name r) \<and>
     (case gq_Gid r of None \<Rightarrow> True | Some i \<Rightarrow> gr_Gid g = i)"

definition user_fulfils :: "requirement \<Rightarrow> user \<Rightarrow> bool" where
  "user_fulfils q u \<longleftrightarrow> (rq_Name q = [] \<or> us_Name u = rq_Name q) \<and> us_DisplayName u = rq_DisplayName q \<and>
     (case rq_Uid q of None \<Rightarrow> True | Some i \<Rightarrow> us_Uid u = i) \<and> us_Shell u = rq_Shell q \<and> us_HomeDir u = rq_HomeDir q"

lemma deferE_Inr: "deferE m c s = (Inr x, t) \<Longrightarrow> \<exists>u. m s = (Inr x, u)"
  by (auto simp: deferE_def split: prod.splits sum.splits)

lemma group_fulfils_defaults:
  "group_fulfils (GroupRequirement_OrDefaultsForUser r u) g \<Longrightarrow> group_fulfils r g"
  by (auto simp: group_fulfils_def GroupRequirement_OrDefaultsForUser_def GroupRequirement_OrDefaults_def Let_def
      split: option.splits if_splits)

lemma ensureGroup_fulfils:
  assumes "ensureGroup u r opts s = (Inr (a, g, x), t)"
  shows "group_fulfils r g"
proof (rule group_fulfils_defaults[where u = u])
  let ?r = "GroupRequirement_OrDefaultsForUser r u"
  have f: "group_fulfils ?r (refToGroup (toEtcGroupRef ?r i))" "group_fulfils ?r (refToGroup (updateEtcGroupRef ?r e))" for i e
    by (auto simp: toEtcGroupRef_def updateEtcGroupRef_def refToGroup_def group_fulfils_def Let_def split: option.splits)
  have c: "createGroup ?r s = (Inr (a, g, x), t) \<Longrightarrow> group_fulfils ?r g"
    using f(1) by (auto simp: createGroup_def Let_def)
  have m: "modifyGroup ?r b s = (Inr (a, g, x), t) \<Longrightarrow> group_fulfils ?r g" for b
    using f(2) by (auto simp: modifyGroup_def bindE_Inr_iff returnE_def Let_def)
  have p: "preEnsureGroup s ?r opts = Inr (Some a, Some g, x) \<Longrightarrow> group_fulfils ?r g"
    by (auto simp: preEnsureGroup_def fulfilsGroup_def GroupRequirement_doesFulfilRef_def refToGroup_def
        group_fulfils_def Let_def split: option.splits if_splits)
  show "group_fulfils ?r g"
    using assms c m p by (auto simp: ensureGroup_def Let_def split: sum.splits option.splits)
qed

lemma ensureGroups_fulfil:
  "ensureGroups rs opts s = (Inr gs, t) \<Longrightarrow> list_all2 group_fulfils rs (map snd gs)"
proof (induction rs arbitrary: s gs t)
  case Nil
  then show ?case by (simp add: ensureGroups_def returnE_def)
next
  case (Cons r rs)
  from Cons.prems obtain a g x s1 gs' s2 where "ensureGroup None r opts s = (Inr (a, g, x), s1)"
      "ensureGroups rs opts s1 = (Inr gs', s2)" "gs = (a, g) # gs'"
    by (auto simp: ensureGroups_def bindE_Inr_iff returnE_def)
  with Cons.IH ensureGroup_fulfils show ?case by simp
qed

lemma createUser_fulfils:
  assumes "createUser cp q skel opts g gs s = (Inr (u, r), t)"
  shows "user_fulfils q u \<and> us_Group u = g \<and> us_Groups u = map snd gs \<and> r = EnsureResultCreated"
proof -
  obtain pe se where pe: "toEtcPasswdRef q (gr_Gid g) (nextId (findHighestUid s)) (todayInDays s) = (pe, se)"
    by (metis surj_pair)
  have "u = refAndGroupsToUser pe g (map snd gs) \<and> r = EnsureResultCreated"
    using assms pe by (auto simp: createUser_def bindE_Inr_iff returnE_def getE_def Let_def)
  with pe show ?thesis
    by (auto simp: refAndGroupsToUser_def user_fulfils_def toEtcPasswdRef_def Let_def split: option.splits if_splits)
qed

lemma updateUserRows_result:
  "updateUserRows q gid e s = (Inr new, t) \<Longrightarrow> \<exists>old. r_heapP s (pr_passwd e) = Some old \<and> new = updateEtcPasswdRow q gid old"
  by (auto simp: updateUserRows_def bindE_Inr_iff returnE_def throwE_def getPasswdRow_def Let_def
      split: option.splits if_splits)

lemma modifyUser_fulfils:
  assumes "modifyUser q opts g gs e s = (Inr (u, r), t)"
  shows "user_fulfils q u \<and> us_Group u = g \<and> us_Groups u = map snd gs \<and> r = EnsureResultModified"
proof -
  let ?P = "\<lambda>(u, r). user_fulfils q u \<and> us_Group u = g \<and> us_Groups u = map snd gs \<and> r = EnsureResultModified"
  have w: "triple (\<lambda>_. True) (updateUserRows q (gr_Gid g) e)
      (\<lambda>new _. \<exists>old. new = updateEtcPasswdRow q (gr_Gid g) old)"
    using updateUserRows_result by (fastforce simp: triple_def)
  have f: "?P (refAndGroupsToUser (updateEtcPasswdRow q (gr_Gid g) old) g (map snd gs), EnsureResultModified)" for old
    by (auto simp: refAndGroupsToUser_def user_fulfils_def updateEtcPasswdRow_def Let_def split: option.splits)
  have "triple (\<lambda>_. True) (modifyUser q opts g gs e) (\<lambda>x _. ?P x)"
    unfolding modifyUser_def
    by (rule triple_step[OF preserves_True], rule triple_bindE[OF w], rule triple_const, elim exE,
        intro triple_step[OF preserves_True] triple_returnE) (use f in auto)
  from tripleD[OF this TrueI assms] show ?thesis by simp
qed

lemma isRequirementFulfilled_user:
  "isRequirementFulfilled s q = Inr (e, Some u) \<Longrightarrow> user_fulfils q u"
  by (auto simp: isRequirementFulfilled_def refToUser_def refAndGroupsToUser_def user_fulfils_def
      Requirement_doesFulfilRef_def bindR_Inr_iff Let_def split: option.splits if_splits)

lemma ensurePreChecks_user:
  "ensurePreChecks s q opts = Inr (e, Some u) \<Longrightarrow> user_fulfils q u"
  by (auto simp: ensurePreChecks_def bindR_Inr_iff split: option.splits if_splits dest: isRequirementFulfilled_user)

text \<open>
  C5: the user a successful \<^verbatim>\<open>Ensure\<close> returns has the required name, id, display name, shell and
  home directory (defaults filled in); when it created or modified the account, the primary
  group and the further groups, one for each requirement and in their order, are the required ones, too.
\<close>

theorem ensure_result_fulfils_requirement:
  assumes "Ensure cp q opts s = (Inr (u, r), t)"
  shows "user_fulfils (Requirement_OrDefaults q) u \<and>
    (r \<noteq> EnsureResultUnchanged \<longrightarrow>
       group_fulfils (rq_Group (Requirement_OrDefaults q)) (us_Group u) \<and>
       list_all2 group_fulfils (rq_Groups (Requirement_OrDefaults q)) (us_Groups u))"
proof -
  let ?q = "Requirement_OrDefaults q"
  have o: "ensureOpened cp ?q (rq_Skel q) opts s1 = (Inr (u, r), s2) \<Longrightarrow> ?thesis" for s1 s2
    by (auto simp: ensureOpened_def bindE_Inr_iff split: sum.splits option.splits
        dest!: ensurePreChecks_user createUser_fulfils modifyUser_fulfils ensureGroup_fulfils ensureGroups_fulfil)
  from assms consider "r = EnsureResultUnchanged \<and> user_fulfils ?q u"
    | s1 s2 where "ensureOpened cp ?q (rq_Skel q) opts s1 = (Inr (u, r), s2)"
    by (auto simp: Ensure_def bindE_Inr_iff Let_def split: sum.splits option.splits
        dest!: ensurePreChecks_user deferE_Inr)
  then show ?thesis using o by cases auto
qed

subsection \<open>The index maps after a change\<close>

lemma updateGroupRow_fields [simp]:
  "r_heapP (updateGroupRow f a s) = r_heapP s" "r_heapS (updateGroupRow f a s) = r_heapS s"
  "r_passwd (updateGroupRow f a s) = r_passwd s" "r_group (updateGroupRow f a s) = r_group s"
  "r_shadow (updateGroupRow f a s) = r_shadow s" "r_nameToUser (updateGroupRow f a s) = r_nameToUser s"
  "r_idToUser (updateGroupRow f a s) = r_idToUser s" "r_usernameToGroups (updateGroupRow f a s) = r_usernameToGroups s"
  by (auto simp: updateGroupRow_def split: option.splits)

lemma foldl_rows_fields [simp]:
  "r_heapP (foldl (\<lambda>s a. updateGroupRow f a s) s as) = r_heapP s"
  "r_heapS (foldl (\<lambda>s a. updateGroupRow f a s) s as) = r_heapS s"
  "r_passwd (foldl (\<lambda>s a. updateGroupRow f a s) s as) = r_passwd s"
  "r_group (foldl (\<lambda>s a. updateGroupRow f a s) s as) = r_group s"
  "r_shadow (foldl (\<lambda>s a. updateGroupRow f a s) s as) = r_shadow s"
  "r_nameToUser (foldl (\<lambda>s a. updateGroupRow f a s) s as) = r_nameToUser s"
  "r_idToUser (foldl (\<lambda>s a. updateGroupRow f a s) s as) = r_idToUser s"
  by (induction as arbitrary: s) auto

lemma createUser_maps:
  assumes cp: "\<forall>k a b c d. preserves (more_is k) (cp a b c d)"
    and c: "createUser cp q skel opts g gs s = (Inr (u, r), t)"
  obtains ref pe where "r_heapP t (pr_passwd ref) = Some pe" "us_Name u = p_name pe" "us_Uid u = p_uid pe"
    "p_gid pe = gr_Gid g" "r_idToUser t = (r_idToUser s)(gr_Gid g := Some ref)"
proof -
  obtain pe se where pe: "toEtcPasswdRef q (gr_Gid g) (nextId (findHighestUid s)) (todayInDays s) = (pe, se)"
    by (metis surj_pair)
  have gid: "p_gid pe = gr_Gid g" using pe by (auto simp: toEtcPasswdRef_def Let_def)
  let ?ref = "\<lparr>pr_passwd = r_next s, pr_shadow = Some (Suc (r_next s))\<rparr>"
  let ?tail = "bindE handles_save (\<lambda>_. if length (p_homeDir pe) > 0 \<and> EnsureOpts_IsHomeDir opts
            then createHomeDir cp (p_uid pe) (p_gid pe) skel (p_homeDir pe) (GetOnHomeDirExist opts)
            else returnE ())"
  define s1 where "s1 = foldl (\<lambda>s ga. updateGroupRow (\<lambda>e. e\<lparr>g_userNames := g_userNames e @ [p_name pe]\<rparr>) ga s)
     (s\<lparr>r_heapP := (r_heapP s)(r_next s := Some pe), r_heapS := (r_heapS s)(Suc (r_next s) := Some se),
        r_next := Suc (Suc (r_next s)),
        r_passwd := (r_passwd s)\<lparr>h_entries := h_entries (r_passwd s) @ [\<lparr>ce_entry = Some (r_next s), ce_rawLine = []\<rparr>]\<rparr>,
        r_shadow := (r_shadow s)\<lparr>h_entries := h_entries (r_shadow s) @ [\<lparr>ce_entry = Some (Suc (r_next s)), ce_rawLine = []\<rparr>]\<rparr>,
        r_nameToUser := (r_nameToUser s)(p_name pe := Some ?ref),
        r_idToUser := (r_idToUser s)(gr_Gid g := Some ?ref)\<rparr>) (map fst gs)"
  have s1: "r_heapP s1 (r_next s) = Some pe" "r_idToUser s1 = (r_idToUser s)(gr_Gid g := Some ?ref)"
    by (simp_all add: s1_def)
  have tl: "?tail s1 = (Inr (), t)" and u: "u = refAndGroupsToUser pe g (map snd gs)"
    using c pe gid by (auto simp: createUser_def bindE_Inr_iff returnE_def getE_def modifyE_def Let_def s1_def)
  have fr: "preserves (more_is k) ?tail" for k
    using cp by (intro preserve more_is_createHomeDir) simp
  note f = repo_is_fields[OF frame_fields[OF fr tl]]
  show thesis by (rule that[of ?ref pe]) (use s1 f u gid in \<open>simp_all add: refAndGroupsToUser_def\<close>)
qed

text \<open>
  a user just created is indexed under the id of its primary group: until the next reload
  a lookup by its own id misses it, when the two ids differ, and a lookup of the group's id
  as a user id finds it.
\<close>

theorem created_user_indexed_by_gid:
  assumes "\<forall>k a b c d. preserves (more_is k) (cp a b c d)"
    and "createUser cp q skel opts g gs s = (Inr (u, r), t)"
    and "us_Uid u \<noteq> gr_Gid g" and "r_idToUser s (us_Uid u) = None"
  shows "LookupById t (us_Uid u) = Inl ErrNoSuchUser \<and>
    (\<exists>v. LookupById t (gr_Gid g) = Inr v \<and> us_Name v = us_Name u \<and> us_Uid v = us_Uid u)"
proof -
  obtain ref pe where "r_heapP t (pr_passwd ref) = Some pe" "us_Name u = p_name pe" "us_Uid u = p_uid pe"
    "p_gid pe = gr_Gid g" "r_idToUser t = (r_idToUser s)(gr_Gid g := Some ref)"
    using createUser_maps[OF assms(1,2)] .
  with assms(3,4) show ?thesis
    by (auto simp: LookupById_def refToUser_def refAndGroupsToUser_def Let_def)
qed

definition exNoHome :: "ensure_opts option" where
  "exNoHome = Some \<lparr>eo_CreateAllowed = None, eo_ModifyAllowed = None, eo_HomeDir = Some False, eo_OnHomeDirExist = 0\<rparr>"

definition exNoCopy :: copier where
  "exNoCopy = (\<lambda>_ _ _ _. returnE ())"

lemmas save_eval = handles_save_def passwd_save_def group_save_def shadow_save_def save_file_def
  colon_entries_encode_def colon_entry_encode_def colon_entry_text_def os_Check_def os_Truncate0_def os_Write_def
  fs_setContent_def fs_get_def fs_put_def fs_del_def sm_defs

lemma exCreated:
  "\<exists>u r t. createUser exNoCopy exRequirement [] exNoHome \<lparr>gr_Gid = 7, gr_Name = ''g''\<rparr> [] exRepo = (Inr (u, r), t) \<and>
     us_Uid u = 1000"
  by (simp add: createUser_def exRequirement_def ex_defs exNoHome_def EnsureOpts_IsHomeDir_def optTrue_def
      toEtcPasswdRef_def findHighestUid_def nextId_def todayInDays_def pointers_def List.map_filter_simps
      save_eval entry_eval refAndGroupsToUser_def Let_def)

theorem created_user_indexed_by_gid_witness:
  "\<exists>(u :: user) t. us_Uid u = 1000 \<and> LookupById t 1000 = Inl ErrNoSuchUser \<and> (\<exists>v. LookupById t 7 = Inr v \<and> us_Uid v = 1000)"
proof -
  obtain u r t where c: "createUser exNoCopy exRequirement [] exNoHome \<lparr>gr_Gid = 7, gr_Name = ''g''\<rparr> [] exRepo = (Inr (u, r), t)"
      "us_Uid u = 1000" using exCreated by blast
  have "\<forall>k a b c d. preserves (more_is k) (exNoCopy a b c d)" by (simp add: exNoCopy_def preserves_returnE)
  from created_user_indexed_by_gid[OF this c(1)] c(2) show ?thesis
    by (intro exI[of _ u] exI[of _ t]) (auto simp: exRepo_def)
qed

lemma updateUserRows_maps:
  assumes "updateUserRows q gid e s = (Inr new, t)"
  shows "r_heapP t = (r_heapP s)(pr_passwd e := Some new)" "r_nameToUser t = r_nameToUser s"
  using assms
  by (auto simp: updateUserRows_def bindE_Inr_iff returnE_def throwE_def modifyE_def getPasswdRow_def Let_def
      split: option.splits if_splits)

lemma modifyUser_names:
  assumes m: "modifyUser q opts g gs e s = (Inr (u, r), t)" and o: "r_heapP s (pr_passwd e) = Some old"
  shows "(p_name old \<noteq> us_Name u \<longrightarrow> r_nameToUser t = r_nameToUser s) \<and>
    (\<exists>new. r_heapP t (pr_passwd e) = Some new \<and> us_Name u = p_name new)"
proof -
  let ?I = "\<lambda>new s'. r_heapP s' (pr_passwd e) = Some new \<and>
    (p_name old \<noteq> p_name new \<longrightarrow> r_nameToUser s' = r_nameToUser s)"
  have 1: "triple (\<lambda>s'. s' = s) (getPasswdRow (pr_passwd e)) (\<lambda>x s'. x = old \<and> s' = s)"
    using o by (auto simp: triple_def getPasswdRow_def)
  have 2: "triple (\<lambda>s'. x = old \<and> s' = s) (updateUserRows q (gr_Gid g) e) (\<lambda>new s'. x = old \<and> ?I new s')" for x
    using updateUserRows_maps by (auto simp: triple_def)
  have fr: "preserves (?I new) m" if "\<And>k. preserves (more_is k) m" for new and m :: "'x rm"
    by (rule preserves_frame[OF that]) (auto dest: repo_is_fields)
  have md: "preserves (?I new) (modifyE f)" if "\<And>s. r_heapP (f s) = r_heapP s \<and>
      (p_name old \<noteq> p_name new \<longrightarrow> r_nameToUser (f s) = r_nameToUser s)" for new f
    using that by (intro preserves_modifyE) auto
  have "triple (\<lambda>s'. s' = s) (modifyUser q opts g gs e) (\<lambda>(u, r) t. \<exists>new. us_Name u = p_name new \<and> ?I new t)"
    unfolding modifyUser_def
    by (rule triple_bindE[OF 1], rule triple_bindE[OF 2], rule triple_facts, simp only:,
        intro triple_step triple_returnE md preserves_getE fr preserve) (auto simp: refAndGroupsToUser_def)
  from tripleD[OF this refl m] show ?thesis by auto
qed

text \<open>
  when \<^verbatim>\<open>Ensure\<close> renames a user, the map from names is not updated (the comparison of the
  two names is inverted): until the next reload the new name is not found, if it was not there before, and
  the old name still finds the renamed user.
\<close>

theorem renamed_user_keeps_old_name:
  assumes "modifyUser q opts g gs e s = (Inr (u, r), t)"
    and "r_heapP s (pr_passwd e) = Some old" and "p_name old \<noteq> us_Name u"
    and "r_nameToUser s (p_name old) = Some e" and "r_nameToUser s (us_Name u) = None"
  shows "LookupByName t (us_Name u) = Inl ErrNoSuchUser \<and>
    (\<exists>v. LookupByName t (p_name old) = Inr v \<and> us_Name v = us_Name u)"
  using modifyUser_names[OF assms(1,2)] assms(3-5)
  by (auto simp: LookupByName_def refToUser_def refAndGroupsToUser_def Let_def)

lemma exRenamed:
  "\<exists>u r t. modifyUser exRequirement exNoHome \<lparr>gr_Gid = 7, gr_Name = ''g''\<rparr> [] \<lparr>pr_passwd = 0, pr_shadow = Some 2\<rparr> exRepo = (Inr (u, r), t) \<and>
     us_Name u = ''n''"
  by (simp add: modifyUser_def exRequirement_def ex_defs exNoHome_def EnsureOpts_IsHomeDir_def optTrue_def
      updateUserRows_def updateEtcPasswdRow_def getPasswdRow_def notAlreadyHandled_def members_def updateGroupRow_def
      removeUserName_def save_eval entry_eval refAndGroupsToUser_def Let_def)

theorem renamed_user_keeps_old_name_witness:
  "\<exists>t. LookupByName t ''n'' = Inl ErrNoSuchUser \<and> (\<exists>v. LookupByName t ''u'' = Inr v \<and> us_Name v = ''n'')"
proof -
  obtain u r t where m: "modifyUser exRequirement exNoHome \<lparr>gr_Gid = 7, gr_Name = ''g''\<rparr> []
      \<lparr>pr_passwd = 0, pr_shadow = Some 2\<rparr> exRepo = (Inr (u, r), t)" "us_Name u = ''n''"
    using exRenamed by blast
  from renamed_user_keeps_old_name[OF m(1), of "exPasswd ''u'' 5 7"] m(2) show ?thesis
    by (auto simp: ex_defs)
qed

text \<open>
  when a group gets a new id, the map keeps the group under the old one (the entry deleted is
  that of the new id): until the next reload a lookup of the old id gives a group with another id.
\<close>

theorem renumbered_group_keeps_old_id:
  assumes "modifyGroup q a s = (Inr (b, g, r), t)" and "r_heapG s a = Some old"
    and "r_idToGroup s (g_gid old) = Some a" and "gr_Gid g \<noteq> g_gid old"
  shows "LookupGroupById t (g_gid old) = Inr g \<and> LookupGroupById t (gr_Gid g) = Inr g"
proof -
  let ?new = "updateEtcGroupRef q old"
  have g: "g = refToGroup ?new" and t: "r_heapG t a = Some ?new"
      "r_idToGroup t = (if g_gid old \<noteq> g_gid ?new then (r_idToGroup s)(g_gid ?new := Some a) else r_idToGroup s)"
    using assms(1,2) by (auto simp: modifyGroup_def getGroupRow_def sm_defs Let_def)
  then show ?thesis using assms(3,4)
    by (auto simp: LookupGroupById_def lookupGroupById_def refToGroup_def)
qed

theorem renumbered_group_keeps_old_id_witness:
  "\<exists>t g. LookupGroupById t 7 = Inr g \<and> gr_Gid g = 8"
proof -
  obtain t where t: "modifyGroup \<lparr>gq_Gid = Some 8, gq_Name = ''g''\<rparr> 1 exRepo = (Inr (1, \<lparr>gr_Gid = 8, gr_Name = ''g''\<rparr>, EnsureResultModified), t)"
    by (simp add: modifyGroup_def getGroupRow_def sm_defs ex_defs updateEtcGroupRef_def refToGroup_def Let_def)
  from renumbered_group_keeps_old_id[OF t, of "exGroup ''g'' 7 [''u'']"] show ?thesis
    by (intro exI[of _ t] exI[of _ "\<lparr>gr_Gid = 8, gr_Name = ''g''\<rparr>"]) (simp add: ex_defs)
qed

subsection \<open>Deletions\<close>

lemma onErrorE_Inr: "onErrorE m c s = (Inr x, t) \<Longrightarrow> m s = (Inr x, t)"
  by (auto simp: onErrorE_def split: prod.splits sum.splits)

lemma openAndLoad_indexed: "openAndLoad s = (Inr f, t) \<Longrightarrow> indexed t"
  by (auto simp: openAndLoad_def bindE_Inr_iff returnE_def dest!: onErrorE_Inr dest: loadAndIndex_indexed)

lemma deferE_Inr_close:
  "deferE m (opened_close f) s = (Inr x, t) \<Longrightarrow> \<exists>u. m s = (Inr x, u) \<and> world.more t = world.more u"
  using frame_fields[OF more_is_close]
  by (auto simp: deferE_def split: prod.splits sum.splits)

lemma more_is_killEach [preserve]: "preserves (more_is k) (killEach u ps)"
proof (induction u ps rule: killEach.induct)
  case (2 uid pid uids ps)
  have "preserves (more_is k) (modifyE (\<lambda>s :: repo. s\<lparr>w_procs := filter (\<lambda>p. fst p \<noteq> pid) (w_procs s)\<rparr>))"
    by (rule preserves_modifyE) (simp add: more_is_def)
  with 2 show ?case unfolding killEach.simps by (intro preserve) auto
qed (simp add: preserves_returnE)

lemma more_is_killAllOf [preserve]: "preserves (more_is k) (killAllOf u)"
  unfolding killAllOf_def by (intro preserve)

lemma removeUserName_idem [simp]: "removeUserName n (removeUserName n e) = removeUserName n e"
  by (simp add: removeUserName_def)

lemma foldl_removeUserName:
  "r_heapG (foldl (\<lambda>s a. updateGroupRow (removeUserName n) a s) s as) b =
     (if b \<in> set as then map_option (removeUserName n) (r_heapG s b) else r_heapG s b)"
  by (induction as arbitrary: s) (auto simp: updateGroupRow_def option.map_comp comp_def split: option.splits)

lemma removeUserName_absent: "n \<notin> set (g_userNames e) \<Longrightarrow> removeUserName n e = e"
  by (cases e) (auto simp: removeUserName_def filter_id_conv)

text \<open>After the memberships are removed along the index, no row lists the user.\<close>

lemma memberships_removed:
  assumes "indexed s" "a \<in> set (pointers (h_entries (r_group s)))"
  shows "r_heapG (foldl (\<lambda>s a. updateGroupRow (removeUserName n) a s) s (members (r_usernameToGroups s) n)) a =
    map_option (removeUserName n) (r_heapG s a)"
proof (cases "r_heapG s a")
  case (Some e)
  have "a \<in> set (members (r_usernameToGroups s) n)" if "n \<in> set (g_userNames e)"
    unfolding indexed_maps(3)[OF assms(1)] using that Some assms(2)
    by (force simp: in_rows count_list_0_iff set_replicate_conv_if)
  then show ?thesis using Some removeUserName_absent[of n e]
    by (cases "n \<in> set (g_userNames e)") (auto simp: foldl_removeUserName)
qed (simp add: foldl_removeUserName)

text \<open>The rows of a handle after a filter on them, and after a change of the heap under them.\<close>

lemma rows_filter:
  "(\<And>e. Q e \<longleftrightarrow> (case Option.bind (ce_entry e) h of None \<Rightarrow> True | Some v \<Rightarrow> P v)) \<Longrightarrow>
   List.map_filter ce_entry (map (deref h) (filter Q es)) = filter P (List.map_filter ce_entry (map (deref h) es))"
  by (induction es) (auto simp: List.map_filter_simps deref_def split: option.splits)

lemma rows_map:
  "(\<And>a. a \<in> set (pointers es) \<Longrightarrow> h' a = map_option f (h a)) \<Longrightarrow>
   List.map_filter ce_entry (map (deref h') es) = map f (List.map_filter ce_entry (map (deref h) es))"
proof (induction es)
  case (Cons e es)
  show ?case
  proof (cases "ce_entry e")
    case None
    with Cons show ?thesis by (simp add: List.map_filter_simps deref_def pointers_def)
  next
    case (Some a)
    then have "h' a = map_option f (h a)" using Cons.prems by (simp add: pointers_def List.map_filter_simps)
    with Cons Some show ?thesis
      by (simp add: List.map_filter_simps deref_def pointers_def split: option.splits)
  qed
qed (simp add: List.map_filter_simps)

lemma rows_none: "\<forall>e \<in> set es. ce_entry e = None \<Longrightarrow> List.map_filter ce_entry (map (deref h) es) = []"
  by (induction es) (auto simp: List.map_filter_simps deref_def)

lemma withoutUid_rows:
  "List.map_filter ce_entry (map (deref h) (withoutUid h i es)) =
     filter (\<lambda>e. p_uid e \<noteq> i) (List.map_filter ce_entry (map (deref h) es))"
  unfolding withoutUid_def by (rule rows_filter) (auto split: option.splits)

lemma withoutGid_rows:
  "List.map_filter ce_entry (map (deref h) (withoutGid h i es)) =
     filter (\<lambda>e. g_gid e \<noteq> i) (List.map_filter ce_entry (map (deref h) es))"
  unfolding withoutGid_def by (rule rows_filter) (auto split: option.splits)

lemma withoutShadow_rows:
  assumes "withoutShadow (r_heapS s) (shadowOf s n) (h_entries (r_shadow s)) = Inr es"
  shows "List.map_filter ce_entry (map (deref (r_heapS s)) es) = filter (\<lambda>e. s_name e \<noteq> n) (shadow_rows s)"
proof (cases "shadowOf s n")
  case None
  then have "es = h_entries (r_shadow s)" "\<forall>e \<in> set es. ce_entry e = None"
    using assms by (auto simp: withoutShadow_def list_ex_iff split: if_splits)
  then show ?thesis by (simp add: shadow_rows_def shadowEntries_def rows_none)
next
  case (Some a)
  then obtain e where e: "r_heapS s a = Some e" "db_last s_name (shadow_rows s) n = Some e"
    using shadowOf_row[of s n] by auto
  then have "s_name e = n" using db_last_Some by fastforce
  with assms Some e have "es = filter (\<lambda>e. map_option s_name (Option.bind (ce_entry e) (r_heapS s)) \<noteq> Some n) (h_entries (r_shadow s))"
    by (simp add: withoutShadow_def)
  then show ?thesis unfolding shadow_rows_def shadowEntries_def
    by (simp only:) (rule rows_filter, auto split: option.splits)
qed

text \<open>What a deletion of a user does to the rows, as a relation between the loaded rows and the new ones.\<close>

definition user_deleted :: "uid \<Rightarrow> bytes \<Rightarrow> repo \<Rightarrow> repo \<Rightarrow> bool" where
  "user_deleted i n s t \<longleftrightarrow>
     db_passwd (db_of t) = filter (\<lambda>e. p_uid e \<noteq> i) (db_passwd (db_of s)) \<and>
     db_groups (db_of t) = map (removeUserName n) (db_groups (db_of s)) \<and>
     shadow_rows t = filter (\<lambda>e. s_name e \<noteq> n) (shadow_rows s) \<and>
     r_idToUser t i = None \<and> r_nameToUser t n = None"

lemma user_deleted_frame:
  assumes "world.more t = world.more u" "user_deleted i n s u"
  shows "user_deleted i n s t"
  using repo_is_fields[OF assms(1)] assms(2)
  by (simp add: user_deleted_def db_of_def shadow_rows_def passwdEntries_def groupEntries_def shadowEntries_def)

lemma deleteOpened_deletes:
  assumes i: "indexed s" and sel: "sel s = Some ref" and row: "r_heapP s (pr_passwd ref) = Some row"
    and sh: "pr_shadow ref = shadowOf s (p_name row)"
    and d: "deleteOpened opts sel s = (Inr (), t)"
  shows "user_deleted (p_uid row) (p_name row) s t"
proof -
  let ?rm = "\<lambda>s. foldl (\<lambda>s ga. updateGroupRow (removeUserName (p_name row)) ga s) s (members (r_usernameToGroups s) (p_name row))"
  let ?tail = "bindE handles_save (\<lambda>_.
         bindE (if IsKillProcesses opts then killAllOf (p_uid row) else returnE ()) (\<lambda>_.
         if DeleteOpts_IsHomeDir opts then mapErrE ErrOs (os_RemoveAll (p_homeDir row)) else returnE ()))"
  define s1 where "s1 = s\<lparr>r_nameToUser := (r_nameToUser s)(p_name row := None), r_idToUser := (r_idToUser s)(p_uid row := None)\<rparr>"
  let ?s4 = "\<lambda>es. ?rm s1\<lparr>r_usernameToGroups := (r_usernameToGroups s)(p_name row := None),
        r_passwd := (r_passwd s)\<lparr>h_entries := withoutUid (r_heapP s) (p_uid row) (h_entries (r_passwd s))\<rparr>,
        r_shadow := (r_shadow s)\<lparr>h_entries := es\<rparr>\<rparr>"
  obtain es where es: "withoutShadow (r_heapS s) (shadowOf s (p_name row)) (h_entries (r_shadow s)) = Inr es"
    and tl: "?tail (?s4 es) = (Inr (), t)"
    using d sel row sh
    by (auto simp: deleteOpened_def bindE_Inr_iff getE_def modifyE_def getPasswdRow_def s1_def)
  have "preserves (more_is k) ?tail" for k by (intro preserve)
  from frame_fields[OF this tl] have fr: "world.more t = world.more (?s4 es)" .
  have i1: "indexed s \<Longrightarrow> a \<in> set (pointers (h_entries (r_group s))) \<Longrightarrow>
      r_heapG (?rm s1) a = map_option (removeUserName (p_name row)) (r_heapG s a)" for a
    using memberships_removed[of s a "p_name row"] by (simp add: s1_def foldl_removeUserName split: if_splits)
  have "user_deleted (p_uid row) (p_name row) s (?s4 es)"
    using withoutShadow_rows[OF es] rows_map[OF i1[OF i]]
    by (simp add: user_deleted_def db_of_def shadow_rows_def passwdEntries_def groupEntries_def shadowEntries_def
        withoutUid_rows s1_def)
  with user_deleted_frame[OF fr] show ?thesis by blast
qed

lemma idToUser_Some:
  assumes "indexed s" "r_idToUser s i = Some ref"
  obtains e where "r_heapP s (pr_passwd ref) = Some e" "p_uid e = i" "pr_shadow ref = shadowOf s (p_name e)"
  using indexed_idToUser[OF assms] that by metis

lemma delete_by_id_rows:
  assumes "DeleteById i opts s = (Inr (), t)"
  shows "\<exists>f s1 u. openAndLoad s = (Inr f, s1) \<and> LookupById s1 i = Inr u \<and> us_Uid u = i \<and>
    user_deleted i (us_Name u) s1 t"
proof -
  obtain f s1 t1 where o: "openAndLoad s = (Inr f, s1)"
    and d: "deleteOpened opts (\<lambda>s. r_idToUser s i) s1 = (Inr (), t1)" and m: "world.more t = world.more t1"
    using assms by (auto simp: DeleteById_def deleteRef_def bindE_Inr_iff dest!: deferE_Inr_close)
  note ix = openAndLoad_indexed[OF o]
  obtain ref where r: "r_idToUser s1 i = Some ref"
    using d by (auto simp: deleteOpened_def bindE_Inr_iff getE_def throwE_def split: option.splits)
  obtain e where e: "r_heapP s1 (pr_passwd ref) = Some e" "p_uid e = i" "pr_shadow ref = shadowOf s1 (p_name e)"
    by (rule idToUser_Some[OF ix r])
  have "LookupById s1 i = Inr (db_user (db_of s1) e)"
    by (simp add: LookupById_def r indexed_refToUser[OF ix e(1)])
  moreover have "user_deleted i (p_name e) s1 t"
    using deleteOpened_deletes[OF ix r e(1,3) d] e(2) user_deleted_frame[OF m] by simp
  ultimately show ?thesis using o e(2) by (auto simp: db_user_def refAndGroupsToUser_def)
qed

text \<open>
  C6: a deletion by id that reports success leaves, of the rows it loaded, exactly those of the
  password file with another id and those of the shadow file with another name, takes the user's
  name out of every group row and changes nothing else in the groups; the user is in no map any more.
\<close>

theorem delete_by_id_removes_user:
  assumes "DeleteById i opts s = (Inr (), t)"
  shows "\<exists>f s1 u. openAndLoad s = (Inr f, s1) \<and> LookupById s1 i = Inr u \<and> us_Uid u = i \<and>
    user_deleted i (us_Name u) s1 t"
  by (rule delete_by_id_rows[OF assms])

text \<open>
  a user who is in the password file but not in the shadow file cannot be deleted: as soon as
  the shadow file has any row, the deletion dereferences a nil pointer, after the user was already
  taken out of the maps.
\<close>

theorem delete_without_shadow_panics:
  assumes "sel s = Some ref" and "r_heapP s (pr_passwd ref) = Some row" and "pr_shadow ref = None"
    and "list_ex (\<lambda>e. ce_entry e \<noteq> None) (h_entries (r_shadow s))"
  shows "\<exists>t. deleteOpened opts sel s = (Inl (Panic ''nil pointer dereference''), t) \<and>
    r_nameToUser t (p_name row) = None \<and> w_files t = w_files s"
proof -
  have f: "w_files (foldl (\<lambda>s ga. updateGroupRow g ga s) s' as) = w_files s'" for g s' as
    by (induction as arbitrary: s') (auto simp: updateGroupRow_def split: option.splits)
  show ?thesis
    using assms by (simp add: deleteOpened_def bindE_def getE_def modifyE_def getPasswdRow_def withoutShadow_def f)
qed

theorem delete_without_shadow_panics_witness:
  "\<exists>t. deleteOpened None (\<lambda>s. Some \<lparr>pr_passwd = 0, pr_shadow = None\<rparr>) exRepo = (Inl (Panic ''nil pointer dereference''), t)"
  using delete_without_shadow_panics[of "\<lambda>s. Some \<lparr>pr_passwd = 0, pr_shadow = None\<rparr>" exRepo
      "\<lparr>pr_passwd = 0, pr_shadow = None\<rparr>" "exPasswd ''u'' 5 7" None]
  by (auto simp: ex_defs)

text \<open>
  a deletion of a group by id that reports success leaves exactly the group rows with
  another id, changes no row of the password file, and no user there has the id as its primary group.
\<close>

theorem delete_group_by_id:
  assumes "DeleteGroupById i s = (Inr (), t)"
  shows "\<exists>f s1. openAndLoad s = (Inr f, s1) \<and>
    db_groups (db_of t) = filter (\<lambda>g. g_gid g \<noteq> i) (db_groups (db_of s1)) \<and>
    db_passwd (db_of t) = db_passwd (db_of s1) \<and> (\<forall>e \<in> set (db_passwd (db_of t)). p_gid e \<noteq> i)"
proof -
  obtain f s1 t1 where o: "openAndLoad s = (Inr f, s1)"
    and d: "deleteGroupOpened (\<lambda>s. r_idToGroup s i) s1 = (Inr (), t1)" and m: "world.more t = world.more t1"
    using assms by (auto simp: DeleteGroupById_def deleteGroupRef_def bindE_Inr_iff dest!: deferE_Inr_close)
  note ix = openAndLoad_indexed[OF o]
  obtain a where a: "r_idToGroup s1 i = Some a"
    using d by (auto simp: deleteGroupOpened_def bindE_Inr_iff getE_def throwE_def split: option.splits)
  obtain row where row: "r_heapG s1 a = Some row" "g_gid row = i"
    using a index_of_Some by (fastforce simp: indexed_maps(2)[OF ix] in_rows)
  have u: "groupUser s1 i = None"
    using d a row by (auto simp: deleteGroupOpened_def bindE_Inr_iff getE_def throwE_def getGroupRow_def split: option.splits)
  have sv: "handles_save (s1\<lparr>r_nameToGroup := (r_nameToGroup s1)(g_name row := None),
        r_idToGroup := (r_idToGroup s1)(i := None),
        r_group := (r_group s1)\<lparr>h_entries := withoutGid (r_heapG s1) i (h_entries (r_group s1))\<rparr>\<rparr>) = (Inr (), t1)"
    using d a row u by (auto simp: deleteGroupOpened_def bindE_Inr_iff getE_def getGroupRow_def modifyE_def)
  note f1 = repo_is_fields[OF frame_fields[OF more_is_handles_save sv]] and f2 = repo_is_fields[OF m]
  have "\<forall>e \<in> set (db_passwd (db_of s1)). p_gid e \<noteq> i"
    using u by (auto simp: groupUser_def find_None_iff heap_values db_of_def passwdEntries_def)
  with o f1 f2 show ?thesis
    by (simp add: db_of_def groupEntries_def passwdEntries_def withoutGid_rows)
qed

lemmas open_eval = openAndLoad_def handles_open_def getDirectories_def filepath_Dir_def filepath_Clean_def filepath_Join_def
  handles_openFile_def os_OpenCreate_def opened_def newFile_def lockOrClose_def opened_close_def os_Close_def
  loadAndIndex_def handles_load_def passwd_load_def group_load_def shadow_load_def scanned_def os_ReadAll_def
  rebuildIndexes_def pointers_def addMember_def

lemma exDeleted:
  "\<exists>t. DeleteById 5 (Some \<lparr>do_HomeDir = Some False, do_KillProcesses = Some False\<rparr>) exRepo = (Inr (), t) \<and>
    w_fault t = (\<lambda>_ _. False) \<and> fs_get (w_files t) ''/s/f/U/et'' = None"
  by (simp add: DeleteById_def deleteRef_def deleteOpened_def open_eval
      exRepo_decoded[unfolded exPasswd_def exGroup_def exShadow_def] getPasswdRow_def members_def updateGroupRow_def
      removeUserName_def withoutUid_def withoutShadow_def IsKillProcesses_def DeleteOpts_IsHomeDir_def optTrue_def
      ex_defs save_eval entry_eval List.map_filter_simps Let_def)

theorem delete_by_id_removes_user_witness:
  "\<exists>f s1 (u :: user) t. openAndLoad exRepo = (Inr f, s1) \<and> us_Uid u = 5 \<and> user_deleted 5 (us_Name u) s1 t"
proof -
  obtain t where "DeleteById 5 (Some \<lparr>do_HomeDir = Some False, do_KillProcesses = Some False\<rparr>) exRepo = (Inr (), t)"
    using exDeleted by blast
  from delete_by_id_removes_user[OF this] show ?thesis by blast
qed

definition exUnusedRepo :: repo where
  "exUnusedRepo = exRepo\<lparr>w_files := [(''/e'', exDir), (''/e/p'', exFile []), (''/e/g'', exFile ''g:x:7:u\<newline>''),
        (''/e/s'', exFile ''u:*:1:0:9::::\<newline>'')]\<rparr>"

theorem delete_group_by_id_witness:
  "\<exists>f s1 t. openAndLoad exUnusedRepo = (Inr f, s1) \<and>
    db_groups (db_of t) = filter (\<lambda>g. g_gid g \<noteq> 7) (db_groups (db_of s1))"
proof -
  have "\<exists>t. DeleteGroupById 7 exUnusedRepo = (Inr (), t)"
    by (simp add: DeleteGroupById_def deleteGroupRef_def deleteGroupOpened_def open_eval exUnusedRepo_def
      exRepo_decoded[unfolded exPasswd_def exGroup_def exShadow_def] getGroupRow_def groupUser_def
      withoutGid_def ex_defs save_eval entry_eval List.map_filter_simps Let_def)
  then obtain t where "DeleteGroupById 7 exUnusedRepo = (Inr (), t)" by blast
  from delete_group_by_id[OF this] show ?thesis by blast
qed

text \<open>
  a group that is the primary group of some user of the password file is not deleted: the
  error names such a user, and neither a row nor a file nor a map is changed.
\<close>

theorem delete_group_in_use_refused:
  assumes "sel s = Some a" and "r_heapG s a = Some g" and "e \<in> set (db_passwd (db_of s))" and "p_gid e = g_gid g"
  shows "\<exists>v \<in> set (db_passwd (db_of s)). p_gid v = g_gid g \<and>
    deleteGroupOpened sel s = (Inl (ErrGroupStillUsed (p_uid v) (p_name v)), s)"
proof -
  have "groupUser s (g_gid g) \<noteq> None"
    using assms(3,4) by (auto simp: groupUser_def find_None_iff heap_values db_of_def passwdEntries_def)
  then obtain v where v: "groupUser s (g_gid g) = Some v" by blast
  then have "v \<in> set (db_passwd (db_of s))" "p_gid v = g_gid g"
    by (auto simp: groupUser_def find_Some_iff heap_values db_of_def passwdEntries_def)
  moreover have "deleteGroupOpened sel s = (Inl (ErrGroupStillUsed (p_uid v) (p_name v)), s)"
    using assms(1,2) v by (simp add: deleteGroupOpened_def bindE_def getE_def getGroupRow_def throwE_def)
  ultimately show ?thesis by blast
qed

theorem delete_group_in_use_refused_witness:
  "deleteGroupOpened (\<lambda>_. Some 1) exRepo = (Inl (ErrGroupStillUsed 5 ''u''), exRepo)"
  using delete_group_in_use_refused[of "\<lambda>_. Some 1" exRepo 1 "exGroup ''g'' 7 [''u'']" "exPasswd ''u'' 5 7"]
  by (auto simp: ex_defs db_of_def passwdEntries_def deref_def List.map_filter_simps)

lemma killEach_kills:
  assumes "killEach uid ps s = (Inr (), t)"
  shows "w_procs t = filter (\<lambda>(pid, _). pid \<notin> {pid. \<exists>us. (pid, us) \<in> set ps \<and> us \<noteq> [] \<and> hd us = uid}) (w_procs s)"
  using assms
proof (induction uid ps arbitrary: s rule: killEach.induct)
  case (1 uid)
  then show ?case by (simp add: returnE_def filter_id_conv)
next
  case (2 uid pid us ps)
  show ?case
  proof (cases "us = [] \<or> hd us \<noteq> uid")
    case True
    then have "killEach uid ps s = (Inr (), t)"
      using "2.prems" by (auto simp: bindE_Inr_iff mapErrE_def os_Check_def split: if_splits)
    from "2.IH"(1)[OF True this] True show ?thesis by (auto intro!: filter_cong)
  next
    case False
    then have "killEach uid ps (s\<lparr>w_procs := filter (\<lambda>p. fst p \<noteq> pid) (w_procs s)\<rparr>) = (Inr (), t)"
      using "2.prems" by (auto simp: bindE_Inr_iff mapErrE_def os_Check_def modifyE_def split: if_splits)
    from "2.IH"(2)[OF False this] False show ?thesis by (auto intro!: filter_cong)
  qed
qed

text \<open>
  when the processes of a deleted user are killed without an error, exactly the processes whose
  first user id is the user's are gone.
\<close>

theorem kill_all_of_user:
  assumes "killAllOf uid s = (Inr (), t)" and "distinct (map fst (w_procs s))"
  shows "w_procs t = filter (\<lambda>(_, us). us = [] \<or> hd us \<noteq> uid) (w_procs s)"
proof -
  have k: "killEach uid (w_procs s) s = (Inr (), t)"
    using assms(1)
    by (auto simp: killAllOf_def mapErrE_Inr_iff bindE_Inr_iff os_Check_def getE_def split: if_splits)
  have u: "(p, us) \<in> set (w_procs s) \<Longrightarrow> (p, vs) \<in> set (w_procs s) \<Longrightarrow> us = vs" for p us vs
    using assms(2) by (metis eq_key_imp_eq_value)
  show ?thesis unfolding killEach_kills[OF k] by (rule filter_cong) (auto dest: u)
qed

theorem kill_all_of_user_witness:
  "w_procs (snd (killAllOf 5 (exRepo\<lparr>w_procs := [(1, [0]), (2, [5]), (3, []), (4, [5, 0])]\<rparr>))) = [(1, [0]), (3, [])]"
proof -
  let ?s = "exRepo\<lparr>w_procs := [(1, [0]), (2, [5]), (3, []), (4, [5, 0])]\<rparr>"
  obtain t where t: "killAllOf 5 ?s = (Inr (), t)"
    by (simp add: killAllOf_def sm_defs os_Check_def ex_defs)
  from kill_all_of_user[OF t] t show ?thesis by simp
qed

text \<open>On the example repository \<^verbatim>\<open>Ensure\<close> reloads the files, creates the default group and the user, and saves.\<close>

lemma exEnsured:
  "\<exists>u t. Ensure exNoCopy exRequirement exNoHome exRepo = (Inr (u, EnsureResultCreated), t)"
  by (simp add: Ensure_def ensureOpened_def ensurePreChecks_def isRequirementFulfilled_def lookupByRequirement_def
      Requirement_OrDefaults_def exRequirement_def GroupRequirement_IsZero_def defaultGroupName_def exNoHome_def
      IsModifyAllowed_def IsCreateAllowed_def EnsureOpts_IsHomeDir_def optTrue_def open_eval
      exRepo_decoded[unfolded exPasswd_def exGroup_def exShadow_def] ensureGroup_def ensureGroups_def
      preEnsureGroup_def lookupGroupByRequirement_def fulfilsGroup_def GroupRequirement_doesFulfilRef_def
      GroupRequirement_OrDefaultsForUser_def GroupRequirement_OrDefaults_def createGroup_def toEtcGroupRef_def
      findHighestGid_def createUser_def toEtcPasswdRef_def findHighestUid_def nextId_def todayInDays_def
      updateGroupRow_def refToGroup_def refAndGroupsToUser_def
      ex_defs save_eval entry_eval List.map_filter_simps Let_def)

theorem ensure_result_fulfils_requirement_witness:
  "\<exists>u. fst (Ensure exNoCopy exRequirement exNoHome exRepo) = Inr (u, EnsureResultCreated) \<and>
     user_fulfils (Requirement_OrDefaults exRequirement) u \<and>
     list_all2 group_fulfils (rq_Groups (Requirement_OrDefaults exRequirement)) (us_Groups u)"
proof -
  obtain u t where e: "Ensure exNoCopy exRequirement exNoHome exRepo = (Inr (u, EnsureResultCreated), t)"
    using exEnsured by blast
  from ensure_result_fulfils_requirement[OF e] e show ?thesis by auto
qed

end
