(* ===== verification/SessionLife.thy ===== *)
theory SessionLife
  imports SessionProps
begin

section \<open>The life of a stored session: validity, disposal, deletion, clean-up\<close>

text \<open>
  How long a session is valid, what disposing and deleting do to it, what the automatic clean-up
  removes, and that none of the operations leaves a file open.
\<close>

subsection \<open>Validity\<close>

text \<open>The smaller one of the positive timeouts.\<close>

definition timeoutOf :: "fsrepo \<Rightarrow> int option" where
  "timeoutOf s =
     (let idle = sr_IdleTimeout s; maxT = sr_MaxTimeout s in
      if idle > 0 \<and> maxT > 0 then Some (min idle maxT)
      else if idle > 0 then Some idle else if maxT > 0 then Some maxT else None)"

text \<open>
  A session is valid until its last access plus the smaller one of the positive timeouts; without a
  positive timeout it is valid for ever. The creation time has no part in it: a recorded access moves the
  end of \<^verbatim>\<open>maxTimeout\<close> as well.
\<close>

theorem access_moves_every_timeout:
  assumes "writable d st (ss_flow sess) (ss_id sess) FsFileLastAccessed s"
    and "fs_get (w_files s) (fileOf d (ss_flow sess) (ss_id sess) FsFileSession s) \<noteq> None" and "validNames d user host"
  shows "\<exists>t. notifyLastAccess d sess user host StateUnchanged s = (Inr (ss_state sess, sess), t) \<and>
    ValidUntil d sess t = (Inr (map_option (\<lambda>v. w_now s + v) (timeoutOf s)), t) \<and>
    ValidUntil d (sess\<lparr>ss_createdAt := c\<rparr>) t = ValidUntil d sess t"
proof -
  obtain t where t: "la_save d sess user host s = (Inr (), t)"
    "wrote (fileOf d (ss_flow sess) (ss_id sess) FsFileLastAccessed s) (d_laEncode d (user, host)) s t"
    using la_save_quiet[OF assms(1,2)] by blast
  note f = wrote_fields[OF t(2)]
  have q: "quiet t" and r: "sr_IdleTimeout t = sr_IdleTimeout s" "sr_MaxTimeout t = sr_MaxTimeout s"
    using assms(1) f(1,2) by (simp_all add: writable_def, (cases s, cases t, simp)+)
  obtain n where n: "fs_get (w_files t) (fileOf d (ss_flow sess) (ss_id sess) FsFileLastAccessed s) = Some n"
     "n_content n = d_laEncode d (user, host)" "n_mtime n = w_now s"
    using wrote_at[OF t(2)] by blast
  have la: "lastAccessed d sess' t = (Inr ((user, host), w_now s), t)" if "ss_flow sess' = ss_flow sess" "ss_id sess' = ss_id sess" for sess'
    using n that deps_ok_decode(2)[OF writableD(2)[OF assms(1)] assms(3)] by (simp add: lastAccessed_quiet[OF q] f Let_def)
  have v: "ValidUntil d sess' t = (Inr (map_option (\<lambda>v. w_now s + v) (timeoutOf s)), t)"
    if "ss_flow sess' = ss_flow sess" "ss_id sess' = ss_id sess" for sess'
    using la[OF that] r by (auto simp: ValidUntil_def bindE_def getE_def returnE_def timeoutOf_def Let_def min_def)
  show ?thesis
    using t(1) v[of sess] v[of "sess\<lparr>ss_createdAt := c\<rparr>"] by (simp add: notifyLastAccess_def bindE_def returnE_def)
qed

definition exLive :: fsrepo where
  "exLive = exStore\<lparr>w_files :=
     (path_of [''s'', ''f'', ''U'', ''s''], (newFile 7 0)\<lparr>n_content := d_infoEncode exDeps (StateNew, [], [])\<rparr>) # w_files exStore\<rparr>"

lemma exLive_frame: "quiet exLive" "placed [''s''] ''f'' exLive" "fileOf exDeps ''f'' [] k exLive = fileOf exDeps ''f'' [] k exStore"
   "dirOf exDeps ''f'' [] exLive = dirOf exDeps ''f'' [] exStore"
  using exStore_ready(1,2) by (simp_all add: exLive_def quiet_def placed_def fileOf_def dirOf_def)

lemma exLive_get:
  "fs_get (w_files exLive) (path_of [''s'', ''f'', ''U'', k]) =
     (if k = ''s'' then Some ((newFile 7 0)\<lparr>n_content := d_infoEncode exDeps (StateNew, [], [])\<rparr>) else None)"
  using exStore_free(2)[of "[''U'', k]"] by (simp add: exLive_def fs_get_def path_of_def)

lemma exLive_writable: "proper k \<Longrightarrow> writable exDeps [''s''] ''f'' [] k exLive"
  unfolding writable_def exLive_frame(3,4) exStore_ancestors
  by (simp add: exLive_frame(1,2) exDeps_ok exStore_file exLive_get)
    (simp add: exLive_def fs_get_def path_of_def exStore_def exDir_def newDir_def newFile_def)

lemma exLive_stored: "storedSession exDeps ''f'' [] exLive =
   Inr \<lparr>ss_flow = ''f'', ss_id = [], ss_state = StateNew, ss_createdAt = 7, ss_remoteUser = [], ss_remoteHost = []\<rparr>"
  by (simp add: storedSession_def exLive_frame(3) exStore_file exLive_get deps_ok_decode[OF exDeps_ok] validNames_def) (simp add: newFile_def)

lemma access_moves_every_timeout_witness:
  "\<exists>t. notifyLastAccess exDeps exSession ''a'' ''b'' StateUnchanged exLive = (Inr (StateNew, exSession), t) \<and>
     ValidUntil exDeps exSession t = (Inr (Some 5000050), t)"
  using access_moves_every_timeout[of exDeps "[''s'']" exSession exLive "''a''" "''b''" 0] exLive_writable[of FsFileLastAccessed]
  by (simp add: validNames_def exSession_def exLive_frame(3) exStore_file exLive_get timeoutOf_def) (auto simp: exLive_def exStore_def)

subsection \<open>Disposing and deleting\<close>

lemma disposeStack_frame:
  assumes "disposeStack flow i s = (r, t)"
  shows "isl r = False" "w_files t = w_files s" "quiet t = quiet s" "w_now t = w_now s" "fileOf d f k kind t = fileOf d f k kind s"
    "dirOf d f k t = dirOf d f k s" "placed st f t = placed st f s" "w_open t = w_open s"
    "sr_Storage t = sr_Storage s"
  using assms by (auto simp: disposeStack_def updateStack_def quiet_def fileOf_def dirOf_def placed_def split: option.splits if_splits)

lemma storedSession_names: "deps_ok d \<Longrightarrow> storedSession d flow i s = Inr sess \<Longrightarrow> validNames d (ss_remoteUser sess) (ss_remoteHost sess)"
  by (auto simp: storedSession_def deps_ok_def split: option.splits)

lemma storedSession_cong:
  "w_files t = w_files s \<Longrightarrow> sr_Storage t = sr_Storage s \<Longrightarrow> storedSession d f k t = storedSession d f k s"
  by (simp add: storedSession_def fileOf_def split: option.split)

lemma disposeStack_stored: "disposeStack flow i s = (r, t) \<Longrightarrow> storedSession d f k t = storedSession d f k s"
  by (rule storedSession_cong) (rule disposeStack_frame(2,9), assumption)+

lemma disposeBy_missing:
  assumes "quiet s" "storedSession d flow i s = Inl ErrNoSuchSession"
  shows "disposeBy d flow i s = disposeStack flow i s"
proof -
  obtain r t where t: "disposeStack flow i s = (r, t)" by (cases "disposeStack flow i s")
  note f = disposeStack_frame[OF t]
  have "storedSession d flow i t = Inl ErrNoSuchSession" unfolding disposeStack_stored[OF t] by (rule assms(2))
  then show ?thesis using t f(1) assms(1) f(3)
    by (cases r) (simp_all add: disposeBy_def bindE_def tryE_def findByPlain_quiet returnE_def)
qed

text \<open>
  A session that cannot be decoded is never removed. \<^verbatim>\<open>DeleteBy\<close> fails with an error of the
  disposal before it touches a file, and a search with the automatic clean-up, which promises to remove
  broken sessions entirely, leaves every file and returns the decoding error.
\<close>

theorem broken_session_stays:
  assumes "quiet s" "storedSession d flow i s = Inl (SErrDecode fn)" "IsAutoCleanUpAllowed opts"
  shows "(\<exists>t. DeleteBy d flow i s = (Inl (SErrCannotDispose (SErrDecode fn)), t) \<and> w_files t = w_files s) \<and>
    (\<exists>t. FindBy d flow i opts s = (Inl (SErrDecode fn), t) \<and> w_files t = w_files s)"
proof -
  have del: "\<exists>t. deleteBy d flow i u = (Inl (SErrCannotDispose (SErrDecode fn)), t) \<and> w_files t = w_files u"
    if u: "quiet u" "storedSession d flow i u = Inl (SErrDecode fn)" for u
  proof -
    obtain r t where t: "disposeStack flow i u = (r, t)" by (cases "disposeStack flow i u")
    note f = disposeStack_frame[OF t]
    have "disposeBy d flow i u = (Inl (SErrCannotDispose (SErrDecode fn)), t)"
      using t f(1,3) u disposeStack_stored[OF t, of d flow i]
      by (cases r) (simp_all add: disposeBy_def bindE_def tryE_def findByPlain_quiet throwE_def)
    then show ?thesis using f(2) by (simp add: deleteBy_def bindE_def getE_def)
  qed
  then have A: "\<exists>t. DeleteBy d flow i s = (Inl (SErrCannotDispose (SErrDecode fn)), t) \<and> w_files t = w_files s"
    using assms(1,2) by (simp add: DeleteBy_def)
  let ?fn = "fileOf d flow i FsFileSession s"
  obtain n where n: "fs_get (w_files s) ?fn = Some n" "d_infoDecode d (n_content n) = None" "fn = ?fn"
    using assms(2) by (auto simp: storedSession_def split: option.splits)
  let ?o = "opened ?fn s"
  have fo: "fileOf d flow i FsFileSession ?o = ?fn" by (simp add: opened_def fileOf_def)
  have "quiet ?o" "storedSession d flow i ?o = Inl (SErrDecode fn)"
    using assms(1) n by (simp_all add: storedSession_def fo)
  from del[OF this] obtain t where t: "deleteBy d flow i ?o = (Inl (SErrCannotDispose (SErrDecode fn)), t)" "w_files t = w_files s"
    by auto
  have c: "doFindAutoCleanIfAllowed d flow i opts ?o = (Inr (), t)"
    using t(1) assms(3) by (simp add: doFindAutoCleanIfAllowed_def bindE_def tryE_def returnE_def)
  have "FindBy d flow i opts s = (Inl (SErrDecode fn), snd (os_Close ?fn t))"
    using n c assms(1)
    by (simp add: FindBy_def findBy_def findByWith_def sess_openRead_def bindE_def tryE_def getE_def mapErrE_def returnE_def
        throwE_def finallyE_def quiet_calls)
  then show ?thesis using A t(2) by (simp add: os_Close_def)
qed

definition exBroken :: fsrepo where
  "exBroken = exStore\<lparr>w_files := (path_of [''s'', ''f'', ''U'', ''s''], newFile 7 0) # w_files exStore\<rparr>"

lemma broken_session_stays_witness:
  "\<exists>t. FindBy exDeps ''f'' [] (Some \<lparr>fo_Predicates = [], fo_AutoCleanUpAllowed = Some True\<rparr>) exBroken =
       (Inl (SErrDecode (path_of [''s'', ''f'', ''U'', ''s''])), t) \<and> w_files t = w_files exBroken"
proof -
  have q: "quiet exBroken" using exStore_ready(1) by (simp add: exBroken_def quiet_def)
  have f: "fileOf exDeps ''f'' [] FsFileSession exBroken = path_of [''s'', ''f'', ''U'', ''s'']"
    using exStore_file[of FsFileSession] by (simp add: exBroken_def fileOf_def)
  have "storedSession exDeps ''f'' [] exBroken = Inl (SErrDecode (path_of [''s'', ''f'', ''U'', ''s'']))"
    unfolding storedSession_def f by (simp add: exBroken_def fs_get_def newFile_def exDeps_def)
  from broken_session_stays[OF q this] show ?thesis by (simp add: IsAutoCleanUpAllowed_def)
qed

lemma disposeBy_live:
  assumes "writable d st flow i FsFileSession s" "storedSession d flow i s = Inr sess" "ss_state sess \<noteq> StateDisposed"
  shows "\<exists>b t. disposeBy d flow i s = (Inr b, t) \<and>
    (b \<longleftrightarrow> (\<exists>k. lookupStack s flow i = Some k \<and> k < length (sr_stacks s) \<and> 0 < sint (st_active (sr_stacks s ! k)))) \<and>
    (\<forall>k. lookupStack s flow i = Some k \<longrightarrow> k < length (sr_stacks s) \<longrightarrow> st_disposed (sr_stacks t ! k)) \<and>
    storedSession d flow i t = Inr (sess\<lparr>ss_state := StateDisposed, ss_createdAt := w_now s\<rparr>) \<and>
    IsExpired d (sess\<lparr>ss_state := StateDisposed, ss_createdAt := w_now s\<rparr>) t = (Inr True, t) \<and>
    fst (disposeBy d flow i t) = Inr True \<and> writable d st flow i FsFileSession t \<and> w_now t = w_now s"
proof -
  obtain b u where u: "disposeStack flow i s = (Inr b, u)"
    using disposeStack_frame(1)[of flow i s] by (cases "disposeStack flow i s"; cases "fst (disposeStack flow i s)") auto
  note fu = disposeStack_frame[OF u]
  have b: "b \<longleftrightarrow> (\<exists>k. lookupStack s flow i = Some k \<and> k < length (sr_stacks s) \<and> 0 < sint (st_active (sr_stacks s ! k)))"
    and flag: "\<forall>k. lookupStack s flow i = Some k \<longrightarrow> k < length (sr_stacks s) \<longrightarrow> st_disposed (sr_stacks u ! k)"
    using u by (auto simp: disposeStack_def updateStack_def split: option.splits)
  have sf: "ss_flow sess = flow" "ss_id sess = i"
    using assms(2) by (auto simp: storedSession_def split: option.splits)
  let ?new = "sess\<lparr>ss_state := StateDisposed\<rparr>"
  have w: "writable d st (ss_flow ?new) (ss_id ?new) FsFileSession u"
    using assms(1) by (simp add: sf writable_def fu)
  have "State_MarshalText (ss_state ?new) \<noteq> None" by (simp add: State_MarshalText_def)
  from info_save_quiet[OF w this] obtain t where t: "info_save d ?new u = (Inr (), t)"
    "wrote (fileOf d flow i FsFileSession u) (d_infoEncode d (StateDisposed, ss_remoteUser sess, ss_remoteHost sess)) u t"
    by (auto simp: sf)
  note ft = wrote_fields[OF t(2)]
  have q: "quiet u" "quiet t" using w ft(1) by (simp_all add: writable_def)
  have st: "storedSession d flow i t = Inr (sess\<lparr>ss_state := StateDisposed, ss_createdAt := w_now s\<rparr>)"
    using wrote_at[OF t(2)] deps_ok_decode(1)[OF writableD(2)[OF w] storedSession_names[OF writableD(2)[OF w] assms(2)]] sf
    by (auto simp: storedSession_def ft(6) fu(4))
  have d: "disposeBy d flow i s = (Inr b, t)"
    using u t(1) assms(2,3) disposeStack_stored[OF u, of d flow i]
    by (simp add: disposeBy_def bindE_def tryE_def mapErrE_def findByPlain_quiet[OF q(1)] returnE_def)
  obtain b' v where v: "disposeStack flow i t = (Inr b', v)"
    using disposeStack_frame(1)[of flow i t] by (cases "disposeStack flow i t"; cases "fst (disposeStack flow i t)") auto
  have "quiet v" using disposeStack_frame(3)[OF v] q by simp
  then have "fst (disposeBy d flow i t) = Inr True"
    using v st disposeStack_stored[OF v, of d flow i] by (simp add: disposeBy_def bindE_def tryE_def findByPlain_quiet returnE_def)
  moreover have "sr_stacks t = sr_stacks u" using ft(2) by (cases t, cases u) simp
  moreover have "writable d st flow i FsFileSession t" using wrote_writable(1)[of d st flow i FsFileSession u] w t(2) sf by simp
  moreover have "w_now t = w_now s" using ft(3) fu(4) by simp
  ultimately show ?thesis using d b flag st
    by (intro exI[of _ b] exI[of _ t]) (simp add: IsExpired_def isExpiredWithThreshold_def returnE_def)
qed

text \<open>
  Disposing a live session marks its connections and stores the state \<^verbatim>\<open>disposed\<close>: it answers
  whether the session has active connections, and whoever finds the session afterwards finds it disposed
  and expired. The creation time found afterwards is the time of the disposal, because saving the
  session touches its file. Disposing it again answers true.
\<close>

theorem dispose_marks_session:
  assumes "writable d st flow i FsFileSession s" "storedSession d flow i s = Inr sess" "ss_state sess \<noteq> StateDisposed"
  shows "\<exists>b t. disposeBy d flow i s = (Inr b, t) \<and>
    (b \<longleftrightarrow> (\<exists>k. lookupStack s flow i = Some k \<and> k < length (sr_stacks s) \<and> 0 < sint (st_active (sr_stacks s ! k)))) \<and>
    (\<forall>k. lookupStack s flow i = Some k \<longrightarrow> k < length (sr_stacks s) \<longrightarrow> st_disposed (sr_stacks t ! k)) \<and>
    storedSession d flow i t = Inr (sess\<lparr>ss_state := StateDisposed, ss_createdAt := w_now s\<rparr>) \<and>
    IsExpired d (sess\<lparr>ss_state := StateDisposed, ss_createdAt := w_now s\<rparr>) t = (Inr True, t) \<and>
    fst (disposeBy d flow i t) = Inr True"
  using disposeBy_live[OF assms] by blast

lemma dispose_marks_session_witness:
  "\<exists>b t. disposeBy exDeps ''f'' [] exLive = (Inr b, t) \<and> \<not> b \<and>
     storedSession exDeps ''f'' [] t =
       Inr \<lparr>ss_flow = ''f'', ss_id = [], ss_state = StateDisposed, ss_createdAt = 5000000, ss_remoteUser = [], ss_remoteHost = []\<rparr>"
  using dispose_marks_session[OF exLive_writable[OF proper_kinds(1)] exLive_stored]
  by (auto simp: exLive_def exStore_def lookupStack_def)

lemma deleteBy_removes:
  assumes "writable d st flow i FsFileSession s" "\<forall>fn. storedSession d flow i s \<noteq> Inl (SErrDecode fn)"
  shows "\<exists>t. DeleteBy d flow i s = (Inr (), t) \<and>
    (\<forall>p. under (dirOf d flow i s) p \<longrightarrow> fs_get (w_files t) p = None) \<and>
    (\<forall>p. \<not> under (dirOf d flow i s) p \<longrightarrow> p \<notin> set (ancestors (dirOf d flow i s)) \<longrightarrow>
       fs_get (w_files t) p = fs_get (w_files s) p) \<and>
    FindBy d flow i None t = (Inl ErrNoSuchSession, t)"
proof -
  let ?dir = "dirOf d flow i s" and ?fn = "fileOf d flow i FsFileSession s"
  have q: "quiet s" and p: "placed st flow s" "deps_ok d" using assms(1) by (simp_all add: writable_def)
  have cs: "list_all proper (st @ [flow, d_uuidText d i])" "list_all proper (st @ [flow, d_uuidText d i, FsFileSession])"
    using p proper_uuid[OF p(2)] by (simp_all add: placed_def)
  have uf: "under ?dir ?fn"
    unfolding dirOf_path[OF p] fileOf_path[OF p proper_kinds(1)] using under_path[OF cs] by simp
  have "\<exists>b t. disposeBy d flow i s = (Inr b, t) \<and> quiet t \<and> sr_Storage t = sr_Storage s \<and>
      (\<forall>p. p \<noteq> ?fn \<longrightarrow> p \<notin> set (ancestors ?dir) \<longrightarrow> fs_get (w_files t) p = fs_get (w_files s) p)"
  proof (cases "storedSession d flow i s")
    case (Inl e)
    then have "e = ErrNoSuchSession" using assms(2) by (auto simp: storedSession_def split: option.splits)
    then have d: "disposeBy d flow i s = disposeStack flow i s" using disposeBy_missing[OF q] Inl by simp
    obtain b t where t: "disposeStack flow i s = (Inr b, t)"
      using disposeStack_frame(1)[of flow i s] by (cases "disposeStack flow i s"; cases "fst (disposeStack flow i s)") auto
    then show ?thesis using d disposeStack_frame[OF t] q by auto
  next
    case (Inr sess)
    obtain b u where u: "disposeStack flow i s = (Inr b, u)"
      using disposeStack_frame(1)[of flow i s] by (cases "disposeStack flow i s"; cases "fst (disposeStack flow i s)") auto
    note fu = disposeStack_frame[OF u]
    have su: "storedSession d flow i u = Inr sess" using disposeStack_stored[OF u, of d flow i] Inr by simp
    have sf: "ss_flow sess = flow" "ss_id sess = i" using Inr by (auto simp: storedSession_def split: option.splits)
    have qu: "quiet u" using q fu(3) by simp
    show ?thesis
    proof (cases "ss_state sess = StateDisposed")
      case True
      then have "disposeBy d flow i s = (Inr True, u)"
        using u su by (simp add: disposeBy_def bindE_def tryE_def findByPlain_quiet[OF qu] returnE_def)
      then show ?thesis using fu q by auto
    next
      case False
      let ?new = "sess\<lparr>ss_state := StateDisposed\<rparr>"
      have w: "writable d st (ss_flow ?new) (ss_id ?new) FsFileSession u" using assms(1) by (simp add: sf writable_def fu)
      have "State_MarshalText (ss_state ?new) \<noteq> None" by (simp add: State_MarshalText_def)
      from info_save_quiet[OF w this] obtain c t where t: "info_save d ?new u = (Inr (), t)" "wrote ?fn c u t"
        by (auto simp: sf fu)
      have "disposeBy d flow i s = (Inr b, t)"
        using u su t(1) False by (simp add: disposeBy_def bindE_def tryE_def mapErrE_def findByPlain_quiet[OF qu] returnE_def)
      moreover have "\<forall>p. p \<noteq> ?fn \<longrightarrow> p \<notin> set (ancestors ?dir) \<longrightarrow> fs_get (w_files t) p = fs_get (w_files u) p"
        using t(2) unfolding wrote_def Dir_fileOf[OF p proper_kinds(1)] by blast
      ultimately show ?thesis using wrote_fields(1,5)[OF t(2)] fu q by auto
    qed
  qed
  then obtain b t where t: "disposeBy d flow i s = (Inr b, t)" "quiet t" "sr_Storage t = sr_Storage s"
    and keep: "\<forall>p. p \<noteq> ?fn \<longrightarrow> p \<notin> set (ancestors ?dir) \<longrightarrow> fs_get (w_files t) p = fs_get (w_files s) p" by blast
  let ?t = "t\<lparr>w_files := fs_delTree (w_files t) ?dir\<rparr>"
  have del: "DeleteBy d flow i s = (Inr (), ?t)"
    using t by (simp add: DeleteBy_def deleteBy_def sm_defs quiet_calls)
  have fn: "fileOf d flow i FsFileSession ?t = ?fn" using t(3) by (simp add: fileOf_def)
  have "FindBy d flow i None ?t = (Inl ErrNoSuchSession, ?t)"
    using FindBy_quiet[of ?t d flow i] t(2) uf by (simp add: quiet_def storedSession_def fn)
  moreover have "fs_get (w_files ?t) p = fs_get (w_files s) p" if "\<not> under ?dir p" "p \<notin> set (ancestors ?dir)" for p
    using keep that uf by (cases "p = ?fn") auto
  ultimately show ?thesis using del by (intro exI[of _ ?t]) simp
qed

text \<open>
  C17: Deleting removes the whole session. A session that can be read, or is not there at all, is
  removed with everything under its directory: \<^verbatim>\<open>FindBy\<close> reports \<^verbatim>\<open>ErrNoSuchSession\<close> afterwards. Files
  outside of the session's directory and of the directories above it are as before.
\<close>

theorem delete_removes_session:
  assumes "writable d st flow i FsFileSession s" "\<forall>fn. storedSession d flow i s \<noteq> Inl (SErrDecode fn)"
  shows "\<exists>t. DeleteBy d flow i s = (Inr (), t) \<and>
    (\<forall>p. under (dirOf d flow i s) p \<longrightarrow> fs_get (w_files t) p = None) \<and>
    (\<forall>p. \<not> under (dirOf d flow i s) p \<longrightarrow> p \<notin> set (ancestors (dirOf d flow i s)) \<longrightarrow>
       fs_get (w_files t) p = fs_get (w_files s) p) \<and>
    FindBy d flow i None t = (Inl ErrNoSuchSession, t)"
  using deleteBy_removes[OF assms] by blast

lemma delete_removes_session_witness:
  "\<exists>t. DeleteBy exDeps ''f'' [] exLive = (Inr (), t) \<and> FindBy exDeps ''f'' [] None t = (Inl ErrNoSuchSession, t)"
  using delete_removes_session[OF exLive_writable[OF proper_kinds(1)]] by (auto simp: exLive_stored)

subsection \<open>Where sessions live, and what the clean-up removes\<close>

text \<open>
  Every valid flow name but one keeps its sessions below the storage directory. The exception is
  \<^verbatim>\<open>..\<close>, which the validation accepts: its sessions are directories next to the storage.
\<close>

theorem session_dir_confined:
  assumes "FlowName_UnmarshalText name = Some flow" "deps_ok d" "st \<noteq> []" "list_all proper st"
  shows "if flow = ''..'' then sess_dir d (path_of st) flow i = path_of (butlast st @ [d_uuidText d i])
    else \<exists>r. sess_dir d (path_of st) flow i = path_of (st @ r @ [d_uuidText d i])"
proof -
  have n: "flow \<noteq> []" "list_all flowChar flow"
    using assms(1) by (auto simp: FlowName_UnmarshalText_def FlowName_Validate_def split: if_splits)
  then have slash: "CHR ''/'' \<notin> set flow" by (auto simp: list_all_iff flowChar_def Let_def)
  have u: "proper (d_uuidText d i)" by (rule proper_uuid[OF assms(2)])
  have us: "CHR ''/'' \<notin> set (d_uuidText d i)" using u by (simp add: proper_def)
  have split: "bytes_split (CHR ''/'') (path_of st @ CHR ''/'' # flow @ CHR ''/'' # d_uuidText d i) = ([] # st) @ [flow, d_uuidText d i]"
    using slash us split_path[OF assms(4,3)]
    by (simp add: split_append bytes_split_append bytes_split_noSep)
  have join: "sess_dir d (path_of st) flow i = filepath_Clean (path_of st @ CHR ''/'' # flow @ CHR ''/'' # d_uuidText d i)"
    by (simp add: sess_dir_def filepath_Join_def)
  have hd: "hd (path_of st @ x) = CHR ''/''" for x by (simp add: path_of_def)
  have body: "filepath_Clean (path_of st @ CHR ''/'' # flow @ CHR ''/'' # d_uuidText d i) =
      path_of (clean_components True (rev st) [flow, d_uuidText d i])"
    unfolding filepath_Clean_def split using hd clean_proper[OF assms(4), of True "[]"] by (simp add: path_of_def)
  show ?thesis
  proof (cases "flow = ''..''")
    case True
    obtain q qs where r: "rev st = q # qs" using assms(3) by (cases "rev st") auto
    then have st: "st = rev qs @ [q]" by (metis rev_rev_ident rev.simps(2))
    then have "proper q" using assms(4) by simp
    then have "clean_components True (rev st) [flow, d_uuidText d i] = rev qs @ [d_uuidText d i]"
      using True r u by (simp add: proper_def)
    then show ?thesis using True join body st by simp
  next
    case False
    have "clean_components True (rev st) [flow, d_uuidText d i] = st @ (if flow = ''.'' then [] else [flow]) @ [d_uuidText d i]"
      using False n(1) u by (auto simp: proper_def)
    then have "sess_dir d (path_of st) flow i = path_of (st @ (if flow = ''.'' then [] else [flow]) @ [d_uuidText d i])"
      using join body by simp
    with False show ?thesis by (simp only: if_False) (rule exI, rule refl)
  qed
qed

lemma session_dir_confined_witness:
  "FlowName_UnmarshalText ''..'' = Some ''..'' \<and>
   sess_dir exDeps (path_of [''var'', ''sessions'']) ''..'' [] = path_of [''var'', ''U'']"
proof -
  have "FlowName_UnmarshalText ''..'' = Some ''..''"
    by (simp add: FlowName_UnmarshalText_def FlowName_Validate_def flowChar_def)
  then show ?thesis using session_dir_confined[OF _ exDeps_ok, of "''..''" "''..''" "[''var'', ''sessions'']" "[]"]
    by (simp add: proper_def) (simp add: exDeps_def)
qed

text \<open>
  The clean-up of a session's directory removes exactly the entries with a name that no file of a
  session has, each with everything under it, and reports no error.
\<close>

theorem cleanup_keeps_expected:
  assumes "quiet s" "deps_ok d" "placed st (ss_flow sess) s"
    and "fs_get (w_files s) (dirOf d (ss_flow sess) (ss_id sess) s) \<noteq> None"
    and "\<forall>(name, _) \<in> set (fs_children (w_files s) (dirOf d (ss_flow sess) (ss_id sess) s)). proper name"
  shows "\<exists>t. deleteUnexpectedFiles d sess s = (Inr (), t) \<and> w_open t = w_open s \<and>
    (\<forall>p. fs_get (w_files t) p =
       (if \<exists>name isDir. (name, isDir) \<in> set (fs_children (w_files s) (dirOf d (ss_flow sess) (ss_id sess) s)) \<and>
             \<not> isExpectedFile d name \<and> under (filepath_Join [dirOf d (ss_flow sess) (ss_id sess) s, name]) p
        then None else fs_get (w_files s) p))"
proof -
  let ?dir = "dirOf d (ss_flow sess) (ss_id sess) s"
  let ?es = "fs_children (w_files s) ?dir"
  define step :: "bytes \<times> bool \<Rightarrow> unit fm" where "step = (\<lambda>(name, _).
      if isExpectedFile d name then returnE ()
      else bindE (tryE (osE (os_Stat (filepath_Join [?dir, name])))) (\<lambda>r.
        case r of Inl e \<Rightarrow> if sessIsNotExist e then returnE () else throwE e
        | Inr _ \<Rightarrow> osE (os_RemoveAll (filepath_Join [?dir, name]))))"
  define gone where "gone es p \<longleftrightarrow> (\<exists>name isDir. (name, isDir) \<in> set es \<and> \<not> isExpectedFile d name \<and>
      under (filepath_Join [?dir, name]) p)" for es :: "(bytes \<times> bool) list" and p
  have cs: "list_all proper ((st @ [ss_flow sess, d_uuidText d (ss_id sess)]) @ [name])" if "proper name" for name
    using assms(2,3) proper_uuid[OF assms(2)] that by (auto simp: placed_def)
  have join: "filepath_Join [?dir, name] = path_of ((st @ [ss_flow sess, d_uuidText d (ss_id sess)]) @ [name])" if "proper name" for name
    using Join_path(1)[of "st @ [ss_flow sess, d_uuidText d (ss_id sess)]" name] cs[OF that] that
      dirOf_path[OF assms(3,2)] by simp
  have ex: "\<exists>n. fs_get (w_files s) (filepath_Join [?dir, name]) = Some n" if c: "(name, isDir) \<in> set ?es" for name isDir
  proof -
    have pr: "proper name" using assms(5) c by auto
    obtain p n where pn: "(p, n) \<in> set (w_files s)" "child_name ?dir p = Some name"
      using c by (auto simp: fs_children_def map_filter_def)
    have "p = ?dir @ CHR ''/'' # name" using child_nameD[OF pn(2)] by simp
    also have "\<dots> = filepath_Join [?dir, name]"
      using join[OF pr] path_snoc[of "st @ [ss_flow sess, d_uuidText d (ss_id sess)]" name] dirOf_path[OF assms(3,2)] by simp
    finally show ?thesis using pn(1) unfolding fs_get_def by (metis map_of_eq_None_iff image_eqI fst_conv not_Some_eq)
  qed
  have same: "filepath_Join [?dir, m] = filepath_Join [?dir, n]"
    if "proper m" "proper n" "under (filepath_Join [?dir, m]) (filepath_Join [?dir, n])" for m n
    using that under_path[OF cs[OF that(1)] cs[OF that(2)]] by (auto simp: join)
  define whole where "whole u \<longleftrightarrow> (\<forall>(name, _) \<in> set ?es. fs_get (w_files u) (filepath_Join [?dir, name]) = None \<longrightarrow>
      (\<forall>p. under (filepath_Join [?dir, name]) p \<longrightarrow> fs_get (w_files u) p = None))" for u :: fsrepo
  have loop: "\<exists>F. forE step es u = (Inr (), u\<lparr>w_files := F\<rparr>) \<and> (\<forall>p. fs_get F p = (if gone es p then None else fs_get (w_files u) p))"
    if "set es \<subseteq> set ?es" "quiet u" "whole u" for es u
    using that
  proof (induction es arbitrary: u)
    case Nil
    then show ?case by (intro exI[of _ "w_files u"]) (simp add: returnE_def gone_def)
  next
    case (Cons e es)
    obtain name isDir where e: "e = (name, isDir)" by (cases e)
    let ?fn = "filepath_Join [?dir, name]"
    have mem: "(name, isDir) \<in> set ?es" using Cons.prems(1) e by simp
    have g: "gone (e # es) p \<longleftrightarrow> \<not> isExpectedFile d name \<and> under ?fn p \<or> gone es p" for p
      by (auto simp: gone_def e)
    define v where "v = (if isExpectedFile d name \<or> fs_get (w_files u) ?fn = None then u
      else u\<lparr>w_files := fs_delTree (w_files u) ?fn\<rparr>)"
    have v: "step e u = (Inr (), v)"
      using Cons.prems(2) by (auto simp: step_def e v_def sm_defs quiet_calls split: option.splits)
    have vg: "fs_get (w_files v) p = (if \<not> isExpectedFile d name \<and> under ?fn p then None else fs_get (w_files u) p)" for p
      using Cons.prems(3) mem by (auto simp: v_def whole_def)
    have "quiet v" using Cons.prems(2) by (simp add: v_def quiet_def)
    moreover have "whole v"
      unfolding whole_def
    proof (intro ballI, clarify)
      fix m b p
      assume m: "(m, b) \<in> set ?es" "fs_get (w_files v) (filepath_Join [?dir, m]) = None" "under (filepath_Join [?dir, m]) p"
      show "fs_get (w_files v) p = None"
      proof (cases "\<not> isExpectedFile d name \<and> under ?fn (filepath_Join [?dir, m])")
        case True
        then have "?fn = filepath_Join [?dir, m]" using same[of name m] assms(5) mem m(1) by auto
        then show ?thesis using True m(3) vg by simp
      next
        case False
        then have "fs_get (w_files u) (filepath_Join [?dir, m]) = None" using m(2) vg by auto
        then show ?thesis using Cons.prems(3) m vg by (auto simp: whole_def)
      qed
    qed
    ultimately obtain F where F: "forE step es v = (Inr (), v\<lparr>w_files := F\<rparr>)"
       "\<forall>p. fs_get F p = (if gone es p then None else fs_get (w_files v) p)"
      using Cons.IH[of v] Cons.prems(1) by auto
    have "v\<lparr>w_files := F\<rparr> = u\<lparr>w_files := F\<rparr>" by (simp add: v_def)
    then show ?case using F v g vg by (intro exI[of _ F]) (auto simp: bindE_def)
  qed
  have "whole (opened ?dir s)" using ex by (fastforce simp: whole_def)
  then obtain F where F: "forE step ?es (opened ?dir s) = (Inr (), (opened ?dir s)\<lparr>w_files := F\<rparr>)"
     "\<forall>p. fs_get F p = (if gone ?es p then None else fs_get (w_files s) p)"
    using loop[of ?es "opened ?dir s"] assms(1) by auto
  have q: "quiet ((opened ?dir s)\<lparr>w_files := F\<rparr>)" using assms(1) by (simp add: quiet_def opened_def)
  have "deleteUnexpectedFiles d sess s =
      bindE (osE (os_OpenRead ?dir)) (\<lambda>_. finallyE (bindE (osE (os_ReadDir ?dir)) (forE step)) (os_Close ?dir)) s"
    unfolding deleteUnexpectedFiles_def step_def Let_def by (simp add: bindE_def getE_def)
  also have "\<dots> = (Inr (), snd (os_Close ?dir ((opened ?dir s)\<lparr>w_files := F\<rparr>)))"
    using F(1) assms(1,4) by (auto simp: bindE_def mapErrE_def finallyE_def quiet_calls)
  finally have "deleteUnexpectedFiles d sess s = (Inr (), snd (os_Close ?dir ((opened ?dir s)\<lparr>w_files := F\<rparr>)))" .
  then show ?thesis using F(2) by (auto simp: os_Close_def opened_def gone_def)
qed

definition exMessy :: fsrepo where
  "exMessy = exStore\<lparr>w_files :=
     [(path_of [''s'', ''f'', ''U''], exDir), (path_of [''s'', ''f'', ''U'', ''s''], newFile 1 0),
      (path_of [''s'', ''f'', ''U'', ''junk''], exDir), (path_of [''s'', ''f'', ''U'', ''junk'', ''x''], newFile 2 0)]\<rparr>"

lemma cleanup_keeps_expected_witness:
  "\<exists>t. deleteUnexpectedFiles exDeps exSession exMessy = (Inr (), t) \<and>
     fs_get (w_files t) (path_of [''s'', ''f'', ''U'', ''junk'', ''x'']) = None \<and>
     fs_get (w_files t) (path_of [''s'', ''f'', ''U'', ''s'']) = Some (newFile 1 0)"
proof -
  have f: "quiet exMessy" "placed [''s''] (ss_flow exSession) exMessy"
    "dirOf exDeps (ss_flow exSession) (ss_id exSession) exMessy = path_of [''s'', ''f'', ''U'']"
    using exStore_ready(1,2) exStore_dir by (simp_all add: exMessy_def quiet_def placed_def dirOf_def exSession_def)
  have c: "fs_children (w_files exMessy) (path_of [''s'', ''f'', ''U'']) = [(''s'', False), (''junk'', True)]"
    by (simp add: fs_children_def map_filter_simps exMessy_def child_name_def path_of_def newFile_def exDir_def newDir_def)
  have j: "filepath_Join [path_of [''s'', ''f'', ''U''], ''junk''] = path_of [''s'', ''f'', ''U'', ''junk'']"
    "filepath_Join [path_of [''s'', ''f'', ''U''], ''s''] = path_of [''s'', ''f'', ''U'', ''s'']"
    by (simp_all add: Join_path proper_def)
  have e: "\<not> isExpectedFile exDeps ''junk''" "isExpectedFile exDeps ''s''" by (simp_all add: isExpectedFile_def)
  have g: "fs_get (w_files exMessy) (path_of [''s'', ''f'', ''U'']) \<noteq> None"
    "fs_get (w_files exMessy) (path_of [''s'', ''f'', ''U'', ''s'']) = Some (newFile 1 0)"
    by (simp_all add: exMessy_def fs_get_def path_of_def)
  have u: "under (path_of [''s'', ''f'', ''U'', ''junk'']) (path_of [''s'', ''f'', ''U'', ''junk'', ''x''])"
    "\<not> under (path_of [''s'', ''f'', ''U'', ''junk'']) (path_of [''s'', ''f'', ''U'', ''s''])"
    by (simp_all add: under_def path_of_def)
  have pr: "proper ''s''" "proper ''junk''" by (simp_all add: proper_def)
  have x: "(\<exists>name isDir. (name, isDir) \<in> set [(''s'', False), (''junk'', True)] \<and> Q name) \<longleftrightarrow> Q ''s'' \<or> Q ''junk''" for Q
    by auto
  have "fs_get (w_files exMessy) (dirOf exDeps (ss_flow exSession) (ss_id exSession) exMessy) \<noteq> None"
    "\<forall>(name, _) \<in> set (fs_children (w_files exMessy) (dirOf exDeps (ss_flow exSession) (ss_id exSession) exMessy)). proper name"
    using g(1) pr unfolding f(3) c by simp_all
  from cleanup_keeps_expected[OF f(1) exDeps_ok f(2) this] obtain t where "deleteUnexpectedFiles exDeps exSession exMessy = (Inr (), t)"
    "\<forall>p. fs_get (w_files t) p = (if under (path_of [''s'', ''f'', ''U'', ''junk'']) p then None else fs_get (w_files exMessy) p)"
    unfolding f(3) c x using e by (auto simp: j)
  then show ?thesis using u g(2) by auto
qed

subsection \<open>Open files\<close>

text \<open>
  C14: No operation of the session store leaks an open file, whatever calls of the operating system
  fail: after each of them the open files are those of before. The predicates and consumers handed to
  a search are assumed to do the same.
\<close>

theorem no_session_handle_leaks:
  fixes s :: fsrepo
  assumes "tidy_opts opts" "\<And>x h. preserves (handles_are h) (consumer x)"
  shows "w_open (snd (sess_Create d flow user host tok s)) = w_open s \<and>
    w_open (snd (FindBy d flow i opts s)) = w_open s \<and>
    w_open (snd (FindByPublicKey d key opts s)) = w_open s \<and>
    w_open (snd (FindByAccessToken d tok opts s)) = w_open s \<and>
    w_open (snd (FindAll d consumer opts s)) = w_open s \<and>
    w_open (snd (DeleteBy d flow i s)) = w_open s \<and>
    w_open (snd (fs_Dispose d sess s)) = w_open s \<and>
    w_open (snd (notifyLastAccess d sess user host newState s)) = w_open s \<and>
    w_open (snd (getToken d sess kind s)) = w_open s \<and> w_open (snd (setToken d sess kind tok s)) = w_open s \<and>
    w_open (snd (hasPublicKey d flow i key s)) = w_open s \<and> w_open (snd (addPublicKey d flow i key s)) = w_open s \<and>
    w_open (snd (deletePublicKey d flow i key s)) = w_open s \<and> w_open (snd (lastAccessed d sess s)) = w_open s"
proof -
  note p = leak_Create leak_findBy[OF assms(1)] leak_deleteBy leak_disposeBy leak_notify leak_tokens leak_hasPublicKey
    leak_addPublicKey leak_deletePublicKey leak_lastAccessed leak_hasAccessToken
    leak_searchFirst[OF assms(1)] leak_FindAll[OF assms(1)] assms(2)
  show ?thesis
    unfolding FindBy_def FindByPublicKey_def FindByAccessToken_def DeleteBy_def fs_Dispose_def
    by (intro conjI leak_open p)
qed

lemma no_session_handle_leaks_witness:
  "w_open (snd (FindBy exDeps ''f'' [] (Some \<lparr>fo_Predicates = [IsStillValid exDeps], fo_AutoCleanUpAllowed = Some True\<rparr>) exLive)) = w_open exLive"
  by (rule no_session_handle_leaks[where consumer = "\<lambda>_. returnE True", THEN conjunct2, THEN conjunct1])
    (simp_all add: tidy_opts_def GetPredicates_def leak_predicates preserves_returnE)

text \<open>
  The threshold below which an access is not written to the disk is at most a minute and, for a
  positive timeout, below it, so that a session in use is written before it would expire. Without any
  timeout it is 30 seconds, half of the minute the constant announces.
\<close>

theorem touch_threshold_bounds:
  "0 \<le> sr_touchThreshold (NewFsRepository s) \<and> sr_touchThreshold (NewFsRepository s) \<le> 60 * 1000000000 \<and>
   (0 < sr_IdleTimeout s \<longrightarrow> sr_touchThreshold (NewFsRepository s) < sr_IdleTimeout s) \<and>
   (0 < sr_MaxTimeout s \<longrightarrow> sr_touchThreshold (NewFsRepository s) < sr_MaxTimeout s) \<and>
   (sr_IdleTimeout s \<le> 0 \<and> sr_MaxTimeout s \<le> 0 \<longrightarrow> sr_touchThreshold (NewFsRepository s) = 30 * 1000000000)"
  using touchThreshold_bounds[of "sr_IdleTimeout s" "sr_MaxTimeout s"]
  by (auto simp: NewFsRepository_def defaultTouchThreshold_def touchThresholdOf_def)

lemma touch_threshold_bounds_witness:
  "sr_touchThreshold (NewFsRepository exStore) < 50 \<and>
   sr_touchThreshold (NewFsRepository (exStore\<lparr>sr_IdleTimeout := 0, sr_MaxTimeout := 0\<rparr>)) = 30000000000"
  using touch_threshold_bounds[of exStore] touch_threshold_bounds[of "exStore\<lparr>sr_IdleTimeout := 0, sr_MaxTimeout := 0\<rparr>"]
  by (simp add: exStore_def)

end
