(* ===== verification/SessionKeys.thy ===== *)
theory SessionKeys
  imports SessionLife
begin

section \<open>The public keys of a session (pkg/session/fs-repository.go)\<close>

text \<open>
  A session keeps a file for each hash of a public key, with one line for each key of that hash. \<open>keysHeld\<close>
  abstracts the file to the list of its keys; the operations on the file are operations on the list.
\<close>

definition keyContent :: "'k deps \<Rightarrow> 'k list \<Rightarrow> bytes" where
  "keyContent d ks = concat (map (\<lambda>k. d_keyLine d k @ [CHR 0x0A]) ks)"

definition contentAt :: "bytes \<Rightarrow> fsrepo \<Rightarrow> bytes" where
  "contentAt p s = (case fs_get (w_files s) p of None \<Rightarrow> [] | Some n \<Rightarrow> n_content n)"

definition keysHeld :: "'k deps \<Rightarrow> bytes \<Rightarrow> sid \<Rightarrow> 'k \<Rightarrow> 'k list \<Rightarrow> fsrepo \<Rightarrow> bool" where
  "keysHeld d flow i pub ks s \<longleftrightarrow> contentAt (fileOf d flow i (publicKeyKind d pub) s) s = keyContent d ks"

lemma key_lines: "deps_ok d \<Longrightarrow> scan_lines maxFsRepositoryPublicKeyLineSize (keyContent d ks) = map (d_keyLine d) ks"
  using scan_lines_concat[of "map (d_keyLine d) ks" maxFsRepositoryPublicKeyLineSize]
  by (auto simp: keyContent_def deps_ok_def comp_def)

lemma key_line: "deps_ok d \<Longrightarrow> d_keyLine d k \<noteq> []" "deps_ok d \<Longrightarrow> d_keyParse d (d_keyLine d k) = Some k"
  by (simp_all add: deps_ok_def)

lemma keyLoop_match:
  assumes "deps_ok d"
  shows "keyLoop d (matchKey pub) n False (map (d_keyLine d) ks) s = (Inr (pub \<in> set ks), s)"
  by (induction ks arbitrary: n) (auto simp: key_line[OF assms] matchKey_def returnE_def)

lemma findPublicKeyIn_match:
  assumes "deps_ok d" "quiet s" "contentAt fn s = keyContent d ks"
  shows "findPublicKeyIn d fn (matchKey pub) False s = (Inr (pub \<in> set ks), s)"
  using assms(3) by (simp add: findPublicKeyIn_def bindE_def tryE_def mapErrE_def quiet_calls[OF assms(2)] contentAt_def[symmetric]
      key_lines[OF assms(1)] keyLoop_match[OF assms(1)])

lemma contentAt_opened [simp]: "contentAt p (opened q s) = contentAt p s"
  by (simp add: contentAt_def)

lemma hasPublicKey_quiet:
  assumes "deps_ok d" "quiet s" "keysHeld d flow i pub ks s"
  shows "hasPublicKey d flow i pub s = (Inr (pub \<in> set ks), s)"
proof (cases "fs_get (w_files s) (fileOf d flow i (publicKeyKind d pub) s)")
  case None
  have "ks = []" using assms(3) None by (cases ks) (auto simp: keysHeld_def contentAt_def keyContent_def)
  then show ?thesis using None assms(2) by (simp add: hasPublicKey_def sess_openRead_def sm_defs quiet_calls)
next
  case (Some n)
  let ?fn = "fileOf d flow i (publicKeyKind d pub) s"
  have "findPublicKeyIn d ?fn (matchKey pub) False (opened ?fn s) = (Inr (pub \<in> set ks), opened ?fn s)"
    using assms by (intro findPublicKeyIn_match) (simp_all add: keysHeld_def)
  then show ?thesis using Some assms(2)
    by (simp add: hasPublicKey_def sess_openRead_def bindE_def tryE_def getE_def mapErrE_def returnE_def deferE_def quiet_calls)
qed

text \<open>What a call on one file leaves alone: everything but the file and the directories above it, which are there afterwards.\<close>

definition touched :: "bytes \<Rightarrow> fsrepo \<Rightarrow> fsrepo \<Rightarrow> bool" where
  "touched p s t \<longleftrightarrow>
     t = s\<lparr>w_files := w_files t\<rparr> \<and>
     (\<exists>n. fs_get (w_files t) p = Some n \<and> \<not> n_isDir n) \<and>
     (\<forall>a \<in> set (ancestors (filepath_Dir p)). \<exists>n. fs_get (w_files t) a = Some n \<and> n_isDir n) \<and>
     (\<forall>q. q \<noteq> p \<longrightarrow> q \<notin> set (ancestors (filepath_Dir p)) \<longrightarrow> fs_get (w_files t) q = fs_get (w_files s) q)"

lemma wrote_touched: "wrote p c s t \<Longrightarrow> touched p s t"
  by (auto simp: wrote_def touched_def)

text \<open>Opening for reading and writing keeps the content.\<close>

lemma openWrite_rw_quiet:
  assumes w: "writable d st flow i kind s"
  defines "fn \<equiv> fileOf d flow i kind s"
  shows "\<exists>F n. sess_openWrite d flow i kind True s = (Inr fn, opened fn (s\<lparr>w_files := F\<rparr>)) \<and>
    fs_get F fn = Some n \<and> \<not> n_isDir n \<and> n_content n = contentAt fn s \<and> touched fn s (s\<lparr>w_files := F\<rparr>)"
proof -
  let ?dir = "dirOf d flow i s" and ?m = "unat (dirFileMode (sr_FileMode s))"
  have q: "quiet s" and dir: "filepath_Dir fn = ?dir" and na: "fn \<notin> set (ancestors ?dir)" and da: "?dir \<in> set (ancestors ?dir)"
    using w Dir_fileOf[of st flow s d kind i] fileOf_not_ancestor[of st flow s d kind i] dir_ancestor[of st flow s d i]
    by (auto simp: writable_def fn_def)
  obtain F where F: "os_MkdirAll ?dir ?m s = (Inr (), s\<lparr>w_files := F\<rparr>)"
    and get: "\<And>q. fs_get F q = (if q \<in> set (ancestors ?dir) \<and> fs_get (w_files s) q = None
       then Some (newDir (w_now s) ?m) else fs_get (w_files s) q)"
    using MkdirAll_quiet[OF q, of ?dir ?m] w by (auto simp: writable_def)
  define G where "G = (if fs_get F fn = None then fs_put F fn (newFile (w_now s) (unat (sr_FileMode s))) else F)"
  have dirs: "\<forall>a \<in> set (ancestors ?dir). \<exists>n. fs_get F a = Some n \<and> n_isDir n"
    using w get by (auto simp: writable_def newDir_def)
  then have "\<exists>n. fs_get F ?dir = Some n \<and> n_isDir n" using da by blast
  moreover have nd: "\<forall>n. fs_get F fn = Some n \<longrightarrow> \<not> n_isDir n" using w get na by (auto simp: writable_def fn_def)
  ultimately have "os_OpenCreate False (unat (sr_FileMode s)) fn (s\<lparr>w_files := F\<rparr>) = (Inr (), opened fn (s\<lparr>w_files := G\<rparr>))"
    using q by (auto simp: os_OpenCreate_def quiet_def G_def dir split: option.splits)
  then have "sess_openWrite d flow i kind True s = (Inr fn, opened fn (s\<lparr>w_files := G\<rparr>))"
    using F dir by (simp add: sess_openWrite_def fn_def[symmetric] sm_defs)
  moreover have "\<exists>n. fs_get G fn = Some n \<and> \<not> n_isDir n \<and> n_content n = contentAt fn s"
    using nd get na by (auto simp: G_def contentAt_def newFile_def split: option.splits)
  moreover have "touched fn s (s\<lparr>w_files := G\<rparr>)"
    unfolding touched_def dir using nd dirs get na by (auto simp: G_def newFile_def)
  ultimately show ?thesis by blast
qed

lemma addPublicKey_quiet:
  assumes "writable d st flow i (publicKeyKind d pub) s" "fs_get (w_files s) (fileOf d flow i FsFileSession s) \<noteq> None"
    and "keysHeld d flow i pub ks s"
  shows "\<exists>t. addPublicKey d flow i pub s = (Inr (), t) \<and> quiet t \<and>
    touched (fileOf d flow i (publicKeyKind d pub) s) s t \<and>
    keysHeld d flow i pub (if pub \<in> set ks then ks else ks @ [pub]) t"
proof -
  let ?fn = "fileOf d flow i (publicKeyKind d pub) s"
  have q: "quiet s" and ok: "deps_ok d" using assms(1) by (simp_all add: writable_def)
  obtain F n where o: "sess_openWrite d flow i (publicKeyKind d pub) True s = (Inr ?fn, opened ?fn (s\<lparr>w_files := F\<rparr>))"
    "fs_get F ?fn = Some n" "n_content n = keyContent d ks" "touched ?fn s (s\<lparr>w_files := F\<rparr>)" "\<not> n_isDir n"
    using openWrite_rw_quiet[OF assms(1)] assms(3) by (auto simp: keysHeld_def)
  let ?s1 = "s\<lparr>w_files := F\<rparr>"
  have q1: "quiet ?s1" using q by (simp add: quiet_def)
  have f1: "contentAt ?fn (opened ?fn ?s1) = keyContent d ks" using o(2,3) by (simp add: contentAt_def)
  have fnF: "fileOf d flow i (publicKeyKind d pub) (s\<lparr>w_files := G\<rparr>) = ?fn" for G by (simp add: fileOf_def)
  have "quiet (opened ?fn ?s1)" using q1 by simp
  note found = findPublicKeyIn_match[OF ok this f1, of pub]
  define t where "t = (if pub \<in> set ks then ?s1
    else s\<lparr>w_files := fs_put F ?fn (n\<lparr>n_content := n_content n @ d_keyLine d pub @ [CHR 0x0A], n_mtime := w_now s\<rparr>)\<rparr>)"
  have body: "(if pub \<in> set ks then returnE () else osE (os_Write ?fn (d_keyLine d pub @ [CHR 0x0A]))) (opened ?fn ?s1) =
     (Inr (), opened ?fn t)"
    using o(2) q1 by (simp add: t_def returnE_def mapErrE_def os_Write_def quiet_def fs_setContent_def opened_def)
  have qt: "quiet t" using q by (simp add: t_def quiet_def)
  have close: "osE (os_Close ?fn) (opened ?fn t) = (Inr (), t)"
    using qt reopened[of ?fn t] by (simp add: mapErrE_def os_Close_def quiet_def opened_def)
  have "addPublicKey d flow i pub s = (Inr (), t)"
    using assms(2) o(1) found body close
    by (auto simp: addPublicKey_def sess_stat_def bindE_def getE_def mapErrE_def deferE_def quiet_calls[OF q])
  moreover have "keysHeld d flow i pub (if pub \<in> set ks then ks else ks @ [pub]) t"
    using o(2,3) by (auto simp: keysHeld_def t_def fnF contentAt_def keyContent_def)
  moreover have "touched ?fn s t" using o(2,4,5) by (auto simp: touched_def t_def)
  ultimately show ?thesis using qt by blast
qed

text \<open>
  Adding a public key works like adding to a list: afterwards the file holds the key, once, after the keys it
  held before, and \<^verbatim>\<open>hasPublicKey\<close> answers whether the list has the key.
\<close>

theorem public_key_added:
  assumes "writable d st flow i (publicKeyKind d pub) s" "fs_get (w_files s) (fileOf d flow i FsFileSession s) \<noteq> None"
    and "keysHeld d flow i pub ks s"
  shows "hasPublicKey d flow i pub s = (Inr (pub \<in> set ks), s) \<and>
    (\<exists>t. addPublicKey d flow i pub s = (Inr (), t) \<and> hasPublicKey d flow i pub t = (Inr True, t) \<and>
      keysHeld d flow i pub (if pub \<in> set ks then ks else ks @ [pub]) t)"
proof -
  have q: "quiet s" and ok: "deps_ok d" using assms(1) by (simp_all add: writable_def)
  obtain t where t: "addPublicKey d flow i pub s = (Inr (), t)" "quiet t"
    "keysHeld d flow i pub (if pub \<in> set ks then ks else ks @ [pub]) t"
    using addPublicKey_quiet[OF assms] by blast
  then show ?thesis using hasPublicKey_quiet[OF ok q assms(3)] hasPublicKey_quiet[OF ok t(2,3)] by auto
qed

lemma public_key_added_witness:
  "\<exists>t. addPublicKey exDeps ''f'' [] True exLive = (Inr (), t) \<and> hasPublicKey exDeps ''f'' [] True t = (Inr True, t)"
proof -
  have k: "proper (publicKeyKind exDeps True)" by (rule proper_publicKeyKind[OF exDeps_ok])
  have kk: "publicKeyKind exDeps True = ''pk-kt''" by (simp add: publicKeyKind_def exDeps_def)
  have "keysHeld exDeps ''f'' [] True [] exLive"
    using k by (simp add: keysHeld_def contentAt_def keyContent_def exLive_frame(3) exStore_file exLive_get kk)
  then show ?thesis
    using public_key_added[OF exLive_writable[OF k], of "[]"] by (auto simp: exLive_frame(3) exStore_file exLive_get)
qed

subsection \<open>Deleting a key\<close>

lemma under_drop_eq_Nil: "under p r \<Longrightarrow> drop (length p) r = [] \<longleftrightarrow> r = p"
proof
  assume u: "under p r" and "drop (length p) r = []"
  then have l: "length r \<le> length p" by simp
  have "r \<noteq> p @ ''/''" using l by auto
  with u l show "r = p" by (auto simp: under_def)
qed simp

lemma fs_get_move: "fs_get (fs_move fs p q) q = fs_get fs p"
proof -
  have a: "map_of (map (\<lambda>(r, n). (q @ drop (length p) r, n)) (filter (\<lambda>e. under p (fst e)) fs)) q = map_of fs p"
  proof (induction fs)
    case (Cons e fs)
    show ?case
    proof (cases "under p (fst e)")
      case True
      then show ?thesis using Cons under_drop_eq_Nil[OF True] by (cases e) auto
    next
      case False
      then show ?thesis using Cons by (cases e) (auto simp: under_refl)
    qed
  qed simp
  have b: "map_of (filter (\<lambda>e. \<not> under p (fst e) \<and> \<not> under q (fst e)) fs) q = None"
    by (induction fs) (auto simp: under_refl)
  show ?thesis using a b unfolding fs_get_def fs_move_def by (simp add: map_add_def split: option.split)
qed

text \<open>The keys the closure \<^verbatim>\<open>add\<close> writes are copies of the deleted key.\<close>

lemma deleteLoop:
  assumes "deps_ok d" "quiet s" "fs_get (w_files s) buf = Some n" "n_content n = keyContent d (replicate k pub)"
  shows "\<exists>F. keyLoop d (\<lambda>nAdded candidate.
        if pub \<noteq> candidate
        then bindE (osE (os_Write buf (d_keyLine d pub @ [CHR 0x0A]))) (\<lambda>_. returnE (Suc nAdded, True))
        else returnE (nAdded, True)) l k (map (d_keyLine d) ks) s =
      (Inr (k + length (filter (\<lambda>c. c \<noteq> pub) ks)), s\<lparr>w_files := F\<rparr>) \<and>
     (\<forall>q. q \<noteq> buf \<longrightarrow> fs_get F q = fs_get (w_files s) q) \<and>
     (\<exists>n. fs_get F buf = Some n \<and> n_content n = keyContent d (replicate (k + length (filter (\<lambda>c. c \<noteq> pub) ks)) pub))"
  using assms(2-)
proof (induction ks arbitrary: k l s n)
  case Nil
  then show ?case by (intro exI[of _ "w_files s"]) (simp add: returnE_def)
next
  case (Cons c ks)
  show ?case
  proof (cases "c = pub")
    case True
    then show ?thesis using Cons.IH[OF Cons.prems, of "Suc l"] by (simp add: key_line[OF assms(1)])
  next
    case False
    let ?n = "n\<lparr>n_content := n_content n @ d_keyLine d pub @ [CHR 0x0A], n_mtime := w_now s\<rparr>"
    let ?t = "s\<lparr>w_files := fs_put (w_files s) buf ?n\<rparr>"
    have w: "osE (os_Write buf (d_keyLine d pub @ [CHR 0x0A])) s = (Inr (), ?t)"
      using Cons.prems(1,2) by (simp add: mapErrE_def os_Write_def quiet_def fs_setContent_def)
    have "n_content ?n = keyContent d (replicate (Suc k) pub)"
      using Cons.prems(3) by (simp add: keyContent_def replicate_append_same[symmetric] del: replicate.simps)
        (simp add: replicate_append_same[symmetric])
    moreover have "quiet ?t" using Cons.prems(1) by (simp add: quiet_def)
    ultimately obtain F where "keyLoop d (\<lambda>nAdded candidate.
        if pub \<noteq> candidate
        then bindE (osE (os_Write buf (d_keyLine d pub @ [CHR 0x0A]))) (\<lambda>_. returnE (Suc nAdded, True))
        else returnE (nAdded, True)) (Suc l) (Suc k) (map (d_keyLine d) ks) ?t =
      (Inr (Suc k + length (filter (\<lambda>c. c \<noteq> pub) ks)), ?t\<lparr>w_files := F\<rparr>) \<and>
     (\<forall>q. q \<noteq> buf \<longrightarrow> fs_get F q = fs_get (w_files ?t) q) \<and>
     (\<exists>n. fs_get F buf = Some n \<and> n_content n = keyContent d (replicate (Suc k + length (filter (\<lambda>c. c \<noteq> pub) ks)) pub))"
      using Cons.IH[of ?t ?n "Suc k" "Suc l"] by auto
    then show ?thesis using False w
      by (intro exI[of _ F]) (simp add: key_line[OF assms(1)] bindE_def returnE_def)
  qed
qed

lemma fs_hasChildren_iff: "fs_hasChildren fs p \<longleftrightarrow> (\<exists>q. under p q \<and> q \<noteq> p \<and> fs_get fs q \<noteq> None)"
proof -
  have "fs_get fs q \<noteq> None \<longleftrightarrow> q \<in> fst ` set fs" for q by (simp add: fs_get_def map_of_eq_None_iff)
  then show ?thesis by (auto simp: fs_hasChildren_def list_ex_iff simp del: not_None_eq)
qed

text \<open>
  With no other key the file is removed; with others it ends up with as many copies of the deleted key as there
  were others.
\<close>

lemma deletePublicKeyMain_quiet:
  assumes "deps_ok d" "quiet s" "contentAt fn s = keyContent d ks" "fs_get (w_files s) fn \<noteq> None"
    and "fs_get (w_files s) buf = Some n" "n_content n = []" "\<not> under fn buf"
    and "fs_get (w_files s) (filepath_Dir fn) \<noteq> None" "\<forall>q. under fn q \<longrightarrow> q \<noteq> fn \<longrightarrow> fs_get (w_files s) q = None"
  shows "\<exists>F. deletePublicKeyMain d pub fn buf s = (Inr (\<exists>k \<in> set ks. k \<noteq> pub), s\<lparr>w_files := F\<rparr>) \<and>
    contentAt fn (s\<lparr>w_files := F\<rparr>) = keyContent d (replicate (length (filter (\<lambda>k. k \<noteq> pub) ks)) pub)"
proof -
  let ?m = "length (filter (\<lambda>k. k \<noteq> pub) ks)"
  have "n_content n = keyContent d (replicate 0 pub)" using assms(6) by (simp add: keyContent_def)
  from deleteLoop[OF assms(1,2,5) this, of 0 ks] obtain F n' where F:
    "keyLoop d (\<lambda>nAdded candidate.
        if pub \<noteq> candidate
        then bindE (osE (os_Write buf (d_keyLine d pub @ [CHR 0x0A]))) (\<lambda>_. returnE (Suc nAdded, True))
        else returnE (nAdded, True)) 0 0 (map (d_keyLine d) ks) s = (Inr ?m, s\<lparr>w_files := F\<rparr>)"
    "\<forall>q. q \<noteq> buf \<longrightarrow> fs_get F q = fs_get (w_files s) q" "fs_get F buf = Some n'" "n_content n' = keyContent d (replicate ?m pub)"
    by auto
  have nc: "\<not> fs_hasChildren F fn"
  proof
    assume "fs_hasChildren F fn"
    then obtain q where q: "under fn q" "q \<noteq> fn" "fs_get F q \<noteq> None" by (auto simp: fs_hasChildren_iff)
    then have "q \<noteq> buf" using assms(7) by auto
    then show False using q F(2) assms(9) by simp
  qed
  have ne: "buf \<noteq> fn" using assms(7) by auto
  have "fs_get F (filepath_Dir fn) \<noteq> None" using F(2,3) assms(8) by (cases "filepath_Dir fn = buf") auto
  then have rn: "os_Rename buf fn (s\<lparr>w_files := F\<rparr>) = (Inr (), s\<lparr>w_files := fs_move F buf fn\<rparr>)"
    using assms(2) nc F(3) by (simp add: os_Rename_def quiet_def)
  have rm: "os_Remove fn (s\<lparr>w_files := F\<rparr>) = (Inr (), s\<lparr>w_files := fs_del F fn\<rparr>)"
    using assms(2,4) ne nc F(2) by (simp add: os_Remove_def quiet_def)
  have find: "findPublicKeyIn d fn (\<lambda>nAdded candidate.
        if pub \<noteq> candidate
        then bindE (osE (os_Write buf (d_keyLine d pub @ [CHR 0x0A]))) (\<lambda>_. returnE (Suc nAdded, True))
        else returnE (nAdded, True)) 0 s = (Inr ?m, s\<lparr>w_files := F\<rparr>)"
    using F(1) assms(3)
    by (simp add: findPublicKeyIn_def bindE_def tryE_def mapErrE_def quiet_calls[OF assms(2)] contentAt_def[symmetric] key_lines[OF assms(1)])
  have z: "?m = 0 \<longleftrightarrow> (\<forall>k \<in> set ks. k = pub)" by (auto simp: filter_empty_conv)
  show ?thesis
  proof (cases "?m = 0")
    case True
    then show ?thesis using find rm z
      by (intro exI[of _ "fs_del F fn"])
        (auto simp: deletePublicKeyMain_def bindE_def mapErrE_def returnE_def contentAt_def keyContent_def)
  next
    case False
    then show ?thesis using find rn z F(3,4) fs_get_move[of F buf fn]
      by (intro exI[of _ "fs_move F buf fn"])
        (auto simp: deletePublicKeyMain_def bindE_def mapErrE_def returnE_def contentAt_def)
  qed
qed

lemma Remove_quiet: "\<exists>G. snd (os_Remove p s) = s\<lparr>w_files := G\<rparr> \<and> (\<forall>q. q \<noteq> p \<longrightarrow> fs_get G q = fs_get (w_files s) q)"
proof -
  have "s = s\<lparr>w_files := w_files s\<rparr>" by simp
  then have "\<exists>G. s = s\<lparr>w_files := G\<rparr> \<and> (\<forall>q. q \<noteq> p \<longrightarrow> fs_get G q = fs_get (w_files s) q)" by blast
  moreover have "\<exists>G. s\<lparr>w_files := fs_del (w_files s) p\<rparr> = s\<lparr>w_files := G\<rparr> \<and> (\<forall>q. q \<noteq> p \<longrightarrow> fs_get G q = fs_get (w_files s) q)"
    by (intro exI[of _ "fs_del (w_files s) p"]) simp
  ultimately show ?thesis by (simp add: os_Remove_def)
qed

lemma buffer_path:
  assumes "placed st flow s" "deps_ok d" "proper kind"
  shows "fileOf d flow i kind s @ ''~'' = path_of (st @ [flow, d_uuidText d i, kind @ ''~''])"
    and "proper (kind @ ''~'')" "\<not> under (fileOf d flow i kind s) (fileOf d flow i kind s @ ''~'')"
proof -
  show e: "fileOf d flow i kind s @ ''~'' = path_of (st @ [flow, d_uuidText d i, kind @ ''~''])"
    using path_snoc[of "st @ [flow, d_uuidText d i]" kind] path_snoc[of "st @ [flow, d_uuidText d i]" "kind @ ''~''"]
    by (simp add: fileOf_path[OF assms])
  show "proper (kind @ ''~'')" using assms(3) by (cases kind) (auto simp: proper_def)
  show "\<not> under (fileOf d flow i kind s) (fileOf d flow i kind s @ ''~'')" by (simp add: under_def)
qed

text \<open>
  Deleting a key from a file that also holds other keys replaces the others by the deleted one: the file ends
  up with as many copies of the deleted key as there were others, the deleted key is still accepted and the
  others are lost. Only a key that is alone in its file is really deleted.
\<close>

theorem delete_key_replaces_others:
  assumes "writable d st flow i (publicKeyKind d pub) s" "keysHeld d flow i pub ks s"
    and "fs_get (w_files s) (fileOf d flow i (publicKeyKind d pub) s) \<noteq> None"
    and "fs_get (w_files s) (fileOf d flow i (publicKeyKind d pub) s @ ''~'') = None"
    and "\<exists>n. fs_get (w_files s) (dirOf d flow i s) = Some n \<and> n_isDir n"
    and "\<forall>q. under (fileOf d flow i (publicKeyKind d pub) s) q \<longrightarrow> q \<noteq> fileOf d flow i (publicKeyKind d pub) s \<longrightarrow>
      fs_get (w_files s) q = None"
  shows "\<exists>t. deletePublicKey d flow i pub s = (Inr (), t) \<and>
    keysHeld d flow i pub (replicate (length (filter (\<lambda>k. k \<noteq> pub) ks)) pub) t \<and>
    hasPublicKey d flow i pub t = (Inr (\<exists>k \<in> set ks. k \<noteq> pub), t)"
proof -
  let ?k = "publicKeyKind d pub"
  let ?fn = "fileOf d flow i ?k s" and ?m = "length (filter (\<lambda>k. k \<noteq> pub) ks)"
  let ?buf = "?fn @ ''~''" and ?n = "newFile (w_now s) (unat (sr_FileMode s))"
  have q: "quiet s" and ok: "deps_ok d" and pl: "placed st flow s" using assms(1) by (simp_all add: writable_def)
  note pk = proper_publicKeyKind[OF ok, of pub]
  note bp = buffer_path(1)[OF pl ok pk, of i] buffer_path(2)[OF pl ok pk] buffer_path(3)[OF pl ok pk, of i]
  have dir: "filepath_Dir ?buf = dirOf d flow i s" "filepath_Dir ?fn = dirOf d flow i s"
    using Dir_fileOf[OF pl ok bp(2), of i] Dir_fileOf[OF pl ok pk, of i] fileOf_path[OF pl ok bp(2), of i] bp(1) by simp_all
  define s1 where "s1 = opened ?buf ((opened ?fn s)\<lparr>w_files := fs_put (w_files s) ?buf ?n\<rparr>)"
  have oc: "os_OpenCreate True (unat (sr_FileMode s)) ?buf (opened ?fn s) = (Inr (), s1)"
    using q assms(4,5) dir(1) by (auto simp: os_OpenCreate_def s1_def quiet_def opened_def)
  have q1: "quiet s1" and f1: "w_files s1 = fs_put (w_files s) ?buf ?n" using q by (simp_all add: s1_def opened_def quiet_def)
  have "\<exists>F. deletePublicKeyMain d pub ?fn ?buf s1 = (Inr (\<exists>k \<in> set ks. k \<noteq> pub), s1\<lparr>w_files := F\<rparr>) \<and>
    contentAt ?fn (s1\<lparr>w_files := F\<rparr>) = keyContent d (replicate ?m pub)"
    by (rule deletePublicKeyMain_quiet[OF ok q1, of _ _ _ ?n])
      (use assms bp(3) dir in \<open>auto simp: f1 contentAt_def keysHeld_def newFile_def\<close>)
  then obtain F where F: "deletePublicKeyMain d pub ?fn ?buf s1 = (Inr (\<exists>k \<in> set ks. k \<noteq> pub), s1\<lparr>w_files := F\<rparr>)"
    "contentAt ?fn (s1\<lparr>w_files := F\<rparr>) = keyContent d (replicate ?m pub)" by blast
  define s2 where "s2 = (opened ?fn s)\<lparr>w_files := F\<rparr>"
  have cl: "os_Close ?buf (s1\<lparr>w_files := F\<rparr>) = (Inr (), s2)"
    using q by (simp add: os_Close_def quiet_def s1_def s2_def opened_def fun_upd_idem)
  obtain G where G: "snd (os_Remove ?buf s2) = s2\<lparr>w_files := G\<rparr>" "\<forall>p. p \<noteq> ?buf \<longrightarrow> fs_get G p = fs_get F p"
    using Remove_quiet[of ?buf s2] by (auto simp: s2_def)
  define t where "t = s\<lparr>w_files := if \<exists>k \<in> set ks. k \<noteq> pub then F else G\<rparr>"
  have cl2: "os_Close ?fn (s2\<lparr>w_files := H\<rparr>) = (Inr (), s\<lparr>w_files := H\<rparr>)" for H
    using q by (simp add: os_Close_def quiet_def s2_def opened_def fun_upd_idem)
  have mode: "sr_FileMode (opened ?fn s) = sr_FileMode s" by (simp add: opened_def)
  have "deletePublicKey d flow i pub s = (Inr (), t)"
    using mode assms(3) oc F(1) cl G(1) cl2[of F] cl2[of G]
    by (cases "os_Remove ?buf s2") (auto simp: deletePublicKey_def sess_openRead_def sm_defs quiet_calls[OF q] t_def s2_def)
  moreover have h: "keysHeld d flow i pub (replicate ?m pub) t"
    using F(2) G(2) by (auto simp: keysHeld_def t_def contentAt_def fileOf_def)
  moreover have "quiet t" using q by (simp add: t_def quiet_def)
  ultimately show ?thesis using hasPublicKey_quiet[OF ok _ h] by (auto simp: filter_empty_conv)
qed

definition exKeyed :: fsrepo where
  "exKeyed = exLive\<lparr>w_files :=
     (path_of [''s'', ''f'', ''U'', ''pk-kt''], (newFile 7 0)\<lparr>n_content := keyContent exDeps [True, False]\<rparr>) #
     (path_of [''s'', ''f'', ''U''], exDir) # (path_of [''s'', ''f''], exDir) # w_files exLive\<rparr>"

lemma exKeyed_file: "fileOf exDeps ''f'' [] (publicKeyKind exDeps True) exKeyed = path_of [''s'', ''f'', ''U'', ''pk-kt'']"
  "dirOf exDeps ''f'' [] exKeyed = path_of [''s'', ''f'', ''U'']"
  "ancestors (dirOf exDeps ''f'' [] exKeyed) = [''/s'', ''/s/f'', ''/s/f/U'']"
proof -
  have "proper (publicKeyKind exDeps True)" by (rule proper_publicKeyKind[OF exDeps_ok])
  moreover have "publicKeyKind exDeps True = ''pk-kt''" by (simp add: publicKeyKind_def exDeps_def)
  moreover have "fileOf exDeps ''f'' [] k exKeyed = fileOf exDeps ''f'' [] k exStore"
    "dirOf exDeps ''f'' [] exKeyed = dirOf exDeps ''f'' [] exStore" for k
    by (simp_all add: exKeyed_def exLive_def fileOf_def dirOf_def)
  ultimately show "fileOf exDeps ''f'' [] (publicKeyKind exDeps True) exKeyed = path_of [''s'', ''f'', ''U'', ''pk-kt'']"
    "dirOf exDeps ''f'' [] exKeyed = path_of [''s'', ''f'', ''U'']"
    "ancestors (dirOf exDeps ''f'' [] exKeyed) = [''/s'', ''/s/f'', ''/s/f/U'']"
    using exStore_file[of "''pk-kt''"] exStore_dir exStore_ancestors by simp_all
qed

lemma exKeyed_files: "w_files exKeyed =
  [(''/s/f/U/pk-kt'', (newFile 7 0)\<lparr>n_content := keyContent exDeps [True, False]\<rparr>), (''/s/f/U'', exDir), (''/s/f'', exDir),
   (''/s/f/U/s'', (newFile 7 0)\<lparr>n_content := d_infoEncode exDeps (StateNew, [], [])\<rparr>), (''/'', exDir), (''/s'', exDir)]"
  by (simp add: exKeyed_def exLive_def exStore_def path_of_def)

lemma delete_key_replaces_others_witness:
  "\<exists>t. deletePublicKey exDeps ''f'' [] True exKeyed = (Inr (), t) \<and> hasPublicKey exDeps ''f'' [] True t = (Inr True, t)"
proof -
  let ?fn = "''/s/f/U/pk-kt''"
  have fn: "path_of [''s'', ''f'', ''U'', ''pk-kt''] = ?fn" "path_of [''s'', ''f'', ''U''] = ''/s/f/U''" by (simp_all add: path_of_def)
  have g: "fs_get (w_files exKeyed) ?fn = Some ((newFile 7 0)\<lparr>n_content := keyContent exDeps [True, False]\<rparr>)"
    by (simp add: exKeyed_files fs_get_def)
  have pl: "placed [''s''] ''f'' exKeyed" "quiet exKeyed" using exLive_frame(1,2) by (simp_all add: exKeyed_def placed_def quiet_def)
  have w: "writable exDeps [''s''] ''f'' [] (publicKeyKind exDeps True) exKeyed"
    using pl proper_publicKeyKind[OF exDeps_ok, of True] unfolding writable_def exKeyed_file(1,3) fn g
    by (simp add: exDeps_ok newFile_def) (simp add: exKeyed_files fs_get_def exDir_def newDir_def)
  have "under ?fn q \<Longrightarrow> q \<noteq> ?fn \<Longrightarrow> fs_get (w_files exKeyed) q = None" for q
    by (auto simp: exKeyed_files fs_get_def under_def)
  then show ?thesis
    using delete_key_replaces_others[OF w, of "[True, False]"] unfolding keysHeld_def exKeyed_file fn contentAt_def g
    by (auto simp: exKeyed_files fs_get_def exDir_def newDir_def)
qed

end
