(* ===== verification/RequestSearch.thy ===== *)
theory RequestSearch
  imports AuthModel SessionLife SessionKeys
begin

section \<open>The search for the session of a request, as a function of the stored sessions\<close>

text \<open>
  The authorizers look for a session with the predicates \<open>IsFlow\<close>, \<open>IsStillValid\<close> and \<open>IsRemoteName\<close>. Without
  failures of the operating system the search changes nothing and its result is the first stored session that
  the probe (a key or a token) selects, of the flow, valid, and created by the remote user.
\<close>

definition stillValidAt :: "'k deps \<Rightarrow> fs_session \<Rightarrow> fsrepo \<Rightarrow> sess_err + bool" where
  "stillValidAt d sess s =
     (if ss_state sess = StateDisposed then Inr False
      else case fst (lastAccessed d sess s) of
          Inl e \<Rightarrow> Inl e
        | Inr (_, at) \<Rightarrow> Inr (case timeoutOf s of None \<Rightarrow> True | Some v \<Rightarrow> w_now s < at + v))"

lemma lastAccessed_same: "quiet s \<Longrightarrow> lastAccessed d sess s = (fst (lastAccessed d sess s), s)"
  by (simp add: lastAccessed_quiet)

lemma ValidUntil_quiet:
  assumes "quiet s"
  shows "ValidUntil d sess s =
    (case fst (lastAccessed d sess s) of Inl e \<Rightarrow> Inl e | Inr (_, at) \<Rightarrow> Inr (map_option (\<lambda>v. at + v) (timeoutOf s)), s)"
  by (subst ValidUntil_def, subst bindE_def, subst lastAccessed_same[OF assms])
    (auto simp: bindE_def getE_def returnE_def timeoutOf_def Let_def min_def split: sum.splits)

lemma IsStillValid_quiet: "quiet s \<Longrightarrow> IsStillValid d sess s = (stillValidAt d sess s, s)"
  using ValidUntil_quiet[of s d sess]
  by (auto simp: IsStillValid_def IsNotExpired_def IsExpired_def isExpiredWithThreshold_def stillValidAt_def bindE_def
      returnE_def getE_def split: sum.splits option.splits)

definition requestCandidate ::
    "'k deps \<Rightarrow> bytes \<Rightarrow> bytes \<Rightarrow> (bytes \<Rightarrow> sid \<Rightarrow> fsrepo \<Rightarrow> sess_err + bool) \<Rightarrow> fsrepo \<Rightarrow> bytes \<times> sid \<Rightarrow> sess_err + fs_session option" where
  "requestCandidate d flow name probe s = (\<lambda>(flow', i).
     (case bindR (probe flow' i s) (\<lambda>ok. if ok then storedSession d flow' i s else Inl ErrNoSuchSession) of
        Inl e \<Rightarrow> if isNoSuchSession e then Inr None else Inl e
      | Inr sess \<Rightarrow>
          if flow' \<noteq> flow then Inr None
          else (case stillValidAt d sess s of
             Inl e \<Rightarrow> Inl e
           | Inr ok \<Rightarrow> Inr (if ok \<and> ss_remoteUser sess = name then Some sess else None))))"

definition requestSearch ::
    "'k deps \<Rightarrow> bytes \<Rightarrow> bytes \<Rightarrow> (bytes \<Rightarrow> sid \<Rightarrow> fsrepo \<Rightarrow> sess_err + bool) \<Rightarrow> fsrepo \<Rightarrow> sess_err + fs_session option" where
  "requestSearch d flow name probe s = firstHit (requestCandidate d flow name probe s) (storedIds d s)"

lemma stillValid_plain_error: "quiet s \<Longrightarrow> stillValidAt d sess s = Inl e \<Longrightarrow> \<not> isNoSuchSession e"
  by (auto simp: stillValidAt_def lastAccessed_quiet Let_def split: if_splits sum.splits option.splits)

lemma stored_fields: "storedSession d flow i s = Inr sess \<Longrightarrow> ss_flow sess = flow \<and> ss_id sess = i"
  by (auto simp: storedSession_def split: option.splits)

lemma requestOpts_simps [simp]:
  "\<not> IsAutoCleanUpAllowed (requestOpts d flow req)"
  "GetPredicates (requestOpts d flow req) = [IsFlow flow, IsStillValid d, IsRemoteName (fst (ar_remote req))]"
  by (simp_all add: requestOpts_def IsAutoCleanUpAllowed_def GetPredicates_def)

lemma Matches_request_quiet:
  "quiet s \<Longrightarrow> Predicates_Matches [IsFlow flow, IsStillValid d, IsRemoteName name] sess s =
    (if ss_flow sess \<noteq> flow then Inr False
     else (case stillValidAt d sess s of Inl e \<Rightarrow> Inl e | Inr ok \<Rightarrow> Inr (ok \<and> ss_remoteUser sess = name)), s)"
  by (auto simp: IsFlow_def IsRemoteName_def bindE_def IsStillValid_quiet returnE_def split: sum.splits)

text \<open>\<open>findBy\<close> with these predicates; the predicates run while the session's file is open.\<close>

lemma stillValid_opened [simp]: "quiet s \<Longrightarrow> stillValidAt d sess (opened p s) = stillValidAt d sess (s :: fsrepo)"
  by (simp add: stillValidAt_def lastAccessed_quiet timeoutOf_def Let_def opened_def quiet_def fileOf_def split: option.splits)

lemma findBy_request_quiet:
  assumes "quiet s"
  shows "findBy d flow' i (requestOpts d flow req) True s =
    (case storedSession d flow' i s of
       Inl e \<Rightarrow> Inl e
     | Inr sess \<Rightarrow>
         if flow' \<noteq> flow then Inl ErrNoSuchSession
         else (case stillValidAt d sess s of
             Inl e \<Rightarrow> Inl e
           | Inr ok \<Rightarrow> if ok \<and> ss_remoteUser sess = fst (ar_remote req) then Inr sess else Inl ErrNoSuchSession), s)"
proof -
  have e: "doAutoCleanUnexpectedFilesIfAllowed d (requestOpts d flow req) = (\<lambda>_. returnE ())"
    "doFindAutoCleanIfAllowed d flow' i (requestOpts d flow req) = returnE ()"
    by (auto simp: doAutoCleanUnexpectedFilesIfAllowed_def doFindAutoCleanIfAllowed_def)
  note m = Matches_request_quiet[where flow = flow and name = "fst (ar_remote req)" and d = d]
  show ?thesis
  proof (cases "fs_get (w_files s) (fileOf d flow' i FsFileSession s)")
    case None
    then show ?thesis using assms unfolding findBy_def e
      by (simp add: findByWith_def sess_openRead_def sm_defs quiet_calls storedSession_def)
  next
    case (Some n)
    show ?thesis
    proof (cases "d_infoDecode d (n_content n)")
      case None
      then show ?thesis using assms Some unfolding findBy_def e
        by (simp add: findByWith_def sess_openRead_def sm_defs quiet_calls storedSession_def)
    next
      case (Some x)
      obtain st u h where x: "x = (st, u, h)" by (cases x)
      let ?p = "fileOf d flow' i FsFileSession s"
      let ?sess = "\<lparr>ss_flow = flow', ss_id = i, ss_state = st, ss_createdAt = n_mtime n, ss_remoteUser = u, ss_remoteHost = h\<rparr>"
      have st: "storedSession d flow' i s = Inr ?sess"
        using Some x \<open>fs_get (w_files s) ?p = Some n\<close> by (simp add: storedSession_def)
      have q: "quiet (opened ?p s)" using assms by simp
      define R where "R = (if flow' \<noteq> flow then Inr False
        else (case stillValidAt d ?sess s of Inl e \<Rightarrow> Inl e | Inr ok \<Rightarrow> Inr (ok \<and> u = fst (ar_remote req))))"
      have m: "Predicates_Matches (GetPredicates (requestOpts d flow req)) ?sess (opened ?p s) = (R, opened ?p s)"
        using Matches_request_quiet[OF q, of flow d "fst (ar_remote req)" ?sess] assms
        by (simp add: R_def del: Predicates_Matches.simps cong: if_cong split: sum.splits)
      have c: "os_Close ?p (opened ?p s) = (Inr (), s)" using quiet_calls(5)[OF q, of ?p] by simp
      have "findBy d flow' i (requestOpts d flow req) True s =
        (case R of Inl e \<Rightarrow> Inl e | Inr ok \<Rightarrow> if ok then Inr ?sess else Inl ErrNoSuchSession, s)"
        using Some x \<open>fs_get (w_files s) ?p = Some n\<close> assms m c unfolding findBy_def e
        by (simp add: findByWith_def sess_openRead_def sm_defs quiet_calls Let_def del: Predicates_Matches.simps requestOpts_simps(2)
            split: sum.split)
      then show ?thesis using st by (simp add: R_def split: sum.splits)
    qed
  qed
qed

lemma searchFirst_request:
  assumes q: "quiet s" and probe: "\<And>flow' i t. sameStore s t \<Longrightarrow> probe flow' i t = (v flow' i s, t)"
  shows "searchFirst d probe (requestOpts d flow req) s =
     (case requestSearch d flow (fst (ar_remote req)) v s of
        Inl e \<Rightarrow> Inl (SErrCannotFind e) | Inr None \<Rightarrow> Inl ErrNoSuchSession | Inr (Some sess) \<Rightarrow> Inr sess, s)"
  unfolding requestSearch_def
proof (rule search_quiet[OF q])
  fix flow' i t assume t: "sameStore s t"
  then have q: "quiet t" by (simp add: sameStore_def)
  have st: "stillValidAt d sess t = stillValidAt d sess s" for sess
    using t sameStore_path(1)[OF t, of d] \<open>quiet s\<close>
    by (cases s, cases t, simp add: stillValidAt_def lastAccessed_quiet timeoutOf_def Let_def sameStore_def split: option.splits)
  show "tryCandidate d probe (requestOpts d flow req) flow' i t = (requestCandidate d flow (fst (ar_remote req)) v s (flow', i), t)"
    using probe[OF t, of flow' i] findBy_request_quiet[OF q, of d flow' i flow req] sameStore_stored[OF t, of d flow' i]
      stillValid_plain_error[OF \<open>quiet s\<close>]
    by (cases "v flow' i s"; cases "storedSession d flow' i s")
      (auto simp: tryCandidate_def requestCandidate_def sm_defs st split: sum.splits)
qed simp

subsection \<open>The two probes\<close>

lemma searchResult_cases:
  obtains (error) e where "r = Inl e" | (absent) "r = Inr None" | (found) x where "r = Inr (Some x)"
  by (metis option.exhaust sum.exhaust)

fun keyInLines :: "'k deps \<Rightarrow> 'k \<Rightarrow> nat \<Rightarrow> bytes list \<Rightarrow> sess_err + bool" where
  "keyInLines d pub n [] = Inr False"
| "keyInLines d pub n (l # ls) =
     (if l = [] then keyInLines d pub (Suc n) ls
      else case d_keyParse d l of
          None \<Rightarrow> Inl (SErrKey n)
        | Some c \<Rightarrow> if c = pub then Inr True else keyInLines d pub (Suc n) ls)"

definition keyStored :: "'k deps \<Rightarrow> 'k \<Rightarrow> bytes \<Rightarrow> sid \<Rightarrow> fsrepo \<Rightarrow> sess_err + bool" where
  "keyStored d pub flow i s =
     (case fs_get (w_files s) (fileOf d flow i (publicKeyKind d pub) s) of
        None \<Rightarrow> Inr False
      | Some n \<Rightarrow> keyInLines d pub 0 (scan_lines maxFsRepositoryPublicKeyLineSize (n_content n)))"

definition tokenStored :: "'k deps \<Rightarrow> bytes \<Rightarrow> bytes \<Rightarrow> sid \<Rightarrow> fsrepo \<Rightarrow> sess_err + bool" where
  "tokenStored d at flow i s = Inr (tokenMatches d at flow i s)"

lemma keyLoop_lines: "keyLoop d (matchKey pub) n False ls s = (keyInLines d pub n ls, s)"
  by (induction ls arbitrary: n) (auto simp: returnE_def throwE_def bindE_def matchKey_def split: option.split)

lemma hasPublicKey_at:
  assumes "quiet s"
  shows "hasPublicKey d flow i pub s = (keyStored d pub flow i s, s)"
proof (cases "fs_get (w_files s) (fileOf d flow i (publicKeyKind d pub) s)")
  case (Some n)
  let ?p = "fileOf d flow i (publicKeyKind d pub) s"
  have q: "quiet (opened ?p s)" using assms by simp
  have f: "findPublicKeyIn d ?p (matchKey pub) False (opened ?p s) =
     (keyInLines d pub 0 (scan_lines maxFsRepositoryPublicKeyLineSize (n_content n)), opened ?p s)"
    using Some by (simp add: findPublicKeyIn_def bindE_def tryE_def mapErrE_def quiet_calls(3)[OF q] keyLoop_lines)
  have c: "os_Close ?p (opened ?p s) = (Inr (), s)" using quiet_calls(5)[OF q, of ?p] by simp
  show ?thesis using assms Some f c
    by (simp add: hasPublicKey_def sess_openRead_def bindE_def getE_def tryE_def mapErrE_def returnE_def deferE_def
        quiet_calls keyStored_def split: sum.split)
qed (use assms in \<open>simp add: hasPublicKey_def sess_openRead_def sm_defs quiet_calls keyStored_def\<close>)

lemma keyStored_same: "sameStore s t \<Longrightarrow> keyStored d pub flow i t = keyStored d pub flow i s"
  using sameStore_path(1)[of s t d] by (simp add: keyStored_def sameStore_def split: option.split)

lemma tokenStored_same: "sameStore s t \<Longrightarrow> tokenStored d at flow i t = tokenStored d at flow i s"
  using sameStore_path(1)[of s t d] by (simp add: tokenStored_def tokenMatches_def sameStore_def split: option.split)

lemma firstHit_Inl: "firstHit p ns = Inl e \<Longrightarrow> \<exists>n \<in> set ns. p n = Inl e"
  by (induction ns) (auto split: sum.splits option.splits)

lemma requestSearch_error: "quiet s \<Longrightarrow> requestSearch d flow name v s = Inl e \<Longrightarrow> \<not> isNoSuchSession e"
  using stillValid_plain_error[of s d]
  by (force simp: requestSearch_def requestCandidate_def dest!: firstHit_Inl split: sum.splits if_splits)

lemma findSessionByKey_quiet:
  assumes "quiet s"
  shows "findSessionByKey d flow req s =
    (map_sum (AErrSession \<circ> SErrCannotFind) id (requestSearch d flow (fst (ar_remote req)) (keyStored d (ar_key req)) s), s)"
proof -
  have "hasPublicKey d flow' i key t = (keyStored d key flow' i s, t)" if "sameStore s t" for flow' i t key
    using hasPublicKey_at[of t d flow' i key] keyStored_same[OF that, of d key flow' i] that by (simp add: sameStore_def)
  from searchFirst_request[where probe = "\<lambda>flow i. hasPublicKey d flow i (ar_key req)" and v = "keyStored d (ar_key req)",
      OF assms this, of d flow req]
  show ?thesis using requestSearch_error[OF assms, of d flow "fst (ar_remote req)" "keyStored d (ar_key req)"]
    by (cases "requestSearch d flow (fst (ar_remote req)) (keyStored d (ar_key req)) s" rule: searchResult_cases)
      (simp_all add: findSessionByKey_def FindByPublicKey_def sm_defs)
qed

text \<open>\<open>ensureSession\<close> returns the session that holds the token, or creates one.\<close>

lemma ensureSession_quiet:
  assumes "quiet s"
  shows "ensureSession d flow req at s =
    (case requestSearch d flow (fst (ar_remote req)) (tokenStored d at) s of
       Inl e \<Rightarrow> (Inl (AErrSession (SErrCannotFind e)), s)
     | Inr (Some sess) \<Rightarrow> (Inr sess, s)
     | Inr None \<Rightarrow> sessE (sess_Create d flow (fst (ar_remote req)) (snd (ar_remote req)) at) s)"
proof -
  have "hasAccessToken d flow' i at t = (tokenStored d at flow' i s, t)" if "sameStore s t" for flow' i t
    using hasAccessToken_quiet[of t d flow' i at] tokenStored_same[OF that, of d at flow' i] that
    by (simp add: sameStore_def tokenStored_def)
  from searchFirst_request[where probe = "\<lambda>flow i. hasAccessToken d flow i at" and v = "tokenStored d at",
      OF assms this, of d flow req]
  show ?thesis using requestSearch_error[OF assms, of d flow "fst (ar_remote req)" "tokenStored d at"]
    by (cases "requestSearch d flow (fst (ar_remote req)) (tokenStored d at) s" rule: searchResult_cases)
      (simp_all add: ensureSession_def FindByAccessToken_def sm_defs)
qed

lemma requestSearch_found:
  assumes "requestSearch d flow name v s = Inr (Some sess)"
  shows "v flow (ss_id sess) s = Inr True" "ss_flow sess = flow" "ss_remoteUser sess = name"
    "storedSession d flow (ss_id sess) s = Inr sess" "stillValidAt d sess s = Inr True"
proof -
  obtain n where n: "requestCandidate d flow name v s n = Inr (Some sess)"
    using firstHit_Inr[OF assms[unfolded requestSearch_def]] by metis
  obtain flow' i where f: "n = (flow', i)" by (cases n)
  have "flow' = flow \<and> storedSession d flow i s = Inr sess \<and> v flow i s = Inr True \<and> ss_remoteUser sess = name \<and> stillValidAt d sess s = Inr True"
    using n by (cases "v flow' i s"; cases "storedSession d flow' i s"; cases "stillValidAt d (projr (storedSession d flow' i s)) s")
      (simp_all add: requestCandidate_def f split: if_splits)
  then show "v flow (ss_id sess) s = Inr True" "ss_flow sess = flow" "ss_remoteUser sess = name"
    "storedSession d flow (ss_id sess) s = Inr sess" "stillValidAt d sess s = Inr True"
    using stored_fields[of d flow i s sess] by simp_all
qed

end
