(* ===== verification/AuthorizerContract.thy ===== *)
theory AuthorizerContract
  imports RequestSearch
begin

section \<open>The contract of an authorizer (pkg/authorization/authorizer.go)\<close>

text \<open>
  The interface \<^verbatim>\<open>Authorizer\<close> as a record of its operations, and what every implementation promises, as a locale. The
  facade and the service rest on these laws only. Each authorizer's theory interprets the locale.
\<close>

record 'k authorizer_ops =
  az_PublicKey :: "'k request \<Rightarrow> 'k answer am"
  az_Password :: "'k request \<Rightarrow> 'k answer am"
  az_Interactive :: "'k request \<Rightarrow> 'k answer am"
  az_Restore :: "fs_session \<Rightarrow> bool option option \<Rightarrow> 'k answer am"

text \<open>
  An accepted request has an authorization of the flow with a session of the flow that the remote user created.
  A rejected one changes nothing.
\<close>

definition fitting :: "bytes \<Rightarrow> 'k request \<Rightarrow> 'k authorization \<Rightarrow> bool" where
  "fitting flow req au \<longleftrightarrow>
     au_flow au = flow \<and>
     (\<exists>sess. au_session au = Some sess \<and> ss_flow sess = flow \<and> ss_remoteUser sess = fst (ar_remote req))"

definition loginLaw :: "bytes \<Rightarrow> ('k request \<Rightarrow> 'k answer am) \<Rightarrow> bool" where
  "loginLaw flow login \<longleftrightarrow>
     (\<forall>req s a t. quiet s \<longrightarrow> login req s = (Inr a, t) \<longrightarrow>
        (case a of Forbidden r \<Rightarrow> r = ar_remote req \<and> t = s | Authorized au \<Rightarrow> fitting flow req au))"

lemma loginLaw_rejected: "loginLaw flow login \<Longrightarrow> quiet s \<Longrightarrow> login req s = (Inr (Forbidden r), t) \<Longrightarrow> r = ar_remote req \<and> t = s"
  by (simp add: loginLaw_def) (drule spec[of _ req], drule spec[of _ s], drule mp, assumption, drule spec[of _ "Forbidden r"], simp)

lemma loginLaw_accepted: "loginLaw flow login \<Longrightarrow> quiet s \<Longrightarrow> login req s = (Inr (Authorized au), t) \<Longrightarrow> fitting flow req au"
  by (simp add: loginLaw_def) (drule spec[of _ req], drule spec[of _ s], drule mp, assumption, drule spec[of _ "Authorized au"], simp)

locale authorizer =
  fixes flow :: bytes and ops :: "'k authorizer_ops"
  assumes publicKey: "loginLaw flow (az_PublicKey ops)"
    and password: "loginLaw flow (az_Password ops)"
    and interactive: "loginLaw flow (az_Interactive ops)"
    and restore_other: "ss_flow sess \<noteq> flow \<Longrightarrow> az_Restore ops sess opts s = (Inl AErrNoSuchAuthorization, s)"
    and restore_own: "az_Restore ops sess opts s = (Inr a, t) \<Longrightarrow>
      \<exists>au. a = Authorized au \<and> au_flow au = flow \<and> au_session au = Some sess"
begin

lemma login_rejected:
  assumes "m \<in> {az_PublicKey ops, az_Password ops, az_Interactive ops}" "quiet s" "m req s = (Inr (Forbidden r), t)"
  shows "r = ar_remote req \<and> t = s"
proof -
  have "loginLaw flow m" using assms(1) publicKey password interactive by blast
  from loginLaw_rejected[OF this assms(2,3)] show ?thesis .
qed

lemma login_accepted:
  assumes "m \<in> {az_PublicKey ops, az_Password ops, az_Interactive ops}" "quiet s" "m req s = (Inr (Authorized au), t)"
  shows "fitting flow req au"
proof -
  have "loginLaw flow m" using assms(1) publicKey password interactive by blast
  from loginLaw_accepted[OF this assms(2,3)] show ?thesis .
qed

lemma restored_same_session: "az_Restore ops sess opts s = (Inr a, t) \<Longrightarrow> FindSession a = Some sess \<and> ss_flow sess = flow"
  using restore_own[of sess opts s a t] restore_other[of sess opts s] by (auto simp: FindSession_def)

end

subsection \<open>Rules for the laws\<close>

text \<open>
  \<open>lawful\<close> is the law of one run, with the candidate that the run started from. It goes through the pure checks that an
  authorizer makes before it touches a session.
\<close>

definition lawful :: "bytes \<Rightarrow> 'k request \<Rightarrow> fsrepo \<Rightarrow> 'k answer am \<Rightarrow> bool" where
  "lawful flow req s m \<longleftrightarrow>
     (\<forall>a t. m s = (Inr a, t) \<longrightarrow>
        (case a of Forbidden r \<Rightarrow> r = ar_remote req \<and> t = s | Authorized au \<Rightarrow> fitting flow req au))"

named_theorems lawful_rules "how the contract of a login goes through its steps"

lemma loginLaw_lawful: "(\<And>req s. quiet s \<Longrightarrow> lawful flow req s (login req)) \<Longrightarrow> loginLaw flow login"
  by (auto simp: loginLaw_def lawful_def)

lemma lawful_forbidden [lawful_rules]: "lawful flow req s (forbidden req)"
  by (simp add: lawful_def forbidden_def returnE_def)

lemma lawful_throwE [lawful_rules]: "lawful flow req s (throwE e)"
  by (simp add: lawful_def throwE_def)

lemma lawful_liftE [lawful_rules]: "(\<And>x. r = Inr x \<Longrightarrow> lawful flow req s (f x)) \<Longrightarrow> lawful flow req s (bindE (liftE r) f)"
  by (cases r) (auto simp: lawful_def bindE_def liftE_def)

lemma lawful_if [lawful_rules]:
  "(b \<Longrightarrow> lawful flow req s m) \<Longrightarrow> (\<not> b \<Longrightarrow> lawful flow req s m') \<Longrightarrow> lawful flow req s (if b then m else m')"
  by simp

lemma lawful_option [lawful_rules]:
  "(x = None \<Longrightarrow> lawful flow req s m) \<Longrightarrow> (\<And>y. x = Some y \<Longrightarrow> lawful flow req s (f y)) \<Longrightarrow>
   lawful flow req s (case x of None \<Rightarrow> m | Some y \<Rightarrow> f y)"
  by (cases x) simp_all

lemma lawful_sum [lawful_rules]:
  "(\<And>e. x = Inl e \<Longrightarrow> lawful flow req s (f e)) \<Longrightarrow> (\<And>y. x = Inr y \<Longrightarrow> lawful flow req s (g y)) \<Longrightarrow>
   lawful flow req s (case x of Inl e \<Rightarrow> f e | Inr y \<Rightarrow> g y)"
  by (cases x) simp_all

lemma lawful_prod [lawful_rules]: "(\<And>a b. x = (a, b) \<Longrightarrow> lawful flow req s (f a b)) \<Longrightarrow> lawful flow req s (case x of (a, b) \<Rightarrow> f a b)"
  by (cases x) simp

text \<open>A step that only looks at the state leaves a quiet state as it is.\<close>

definition looks :: "fsrepo \<Rightarrow> 'a am \<Rightarrow> bool" where
  "looks s m \<longleftrightarrow> snd (m s) = s"

lemma looks_preserves: "looks s m \<longleftrightarrow> preserves (\<lambda>t. t = s) m"
  by (simp add: looks_def preserves_def)

lemma lawful_looks:
  "looks s m \<Longrightarrow> (\<And>x. m s = (Inr x, s) \<Longrightarrow> lawful flow req s (f x)) \<Longrightarrow> lawful flow req s (bindE m f)"
  by (cases "m s"; cases "fst (m s)") (auto simp: lawful_def looks_def bindE_def)

text \<open>The last step: a session that fits, and the authorization with it.\<close>

lemma lawful_session [lawful_rules]:
  assumes "\<And>sess t. m s = (Inr sess, t) \<Longrightarrow> ss_flow sess = flow \<and> ss_remoteUser sess = fst (ar_remote req)"
    and "\<And>sess. au_session (f sess) = Some sess" "\<And>sess. au_flow (f sess) = flow"
  shows "lawful flow req s (bindE m (\<lambda>sess. returnE (Authorized (f sess))))"
  using assms by (auto simp: lawful_def bindE_def returnE_def fitting_def split: prod.splits sum.splits)

lemma lawful_found [lawful_rules]:
  assumes "ss_flow sess = flow" "ss_remoteUser sess = fst (ar_remote req)" "au_session au = Some sess" "au_flow au = flow"
  shows "lawful flow req s (returnE (Authorized au))"
  using assms by (auto simp: lawful_def returnE_def fitting_def)

lemma mapErrE_Inr: "mapErrE w m s = (Inr x, t) \<longleftrightarrow> m s = (Inr x, t)"
  by (cases "m s") (auto simp: mapErrE_def map_sum_Inr_iff)

lemma findSessionByKey_looks: "quiet s \<Longrightarrow> looks s (findSessionByKey d flow req)"
  by (simp add: looks_def findSessionByKey_quiet)

lemma findSessionByKey_found:
  assumes "quiet s" "findSessionByKey d flow req s = (Inr (Some sess), t)"
  shows "ss_flow sess = flow" "ss_remoteUser sess = fst (ar_remote req)"
    "keyStored d (ar_key req) flow (ss_id sess) s = Inr True" "storedSession d flow (ss_id sess) s = Inr sess"
    "stillValidAt d sess s = Inr True"
proof -
  have "requestSearch d flow (fst (ar_remote req)) (keyStored d (ar_key req)) s = Inr (Some sess)"
    using assms(2) by (auto simp: findSessionByKey_quiet[OF assms(1)] map_sum_Inr_iff)
  from requestSearch_found[OF this]
  show "ss_flow sess = flow" "ss_remoteUser sess = fst (ar_remote req)"
    "keyStored d (ar_key req) flow (ss_id sess) s = Inr True" "storedSession d flow (ss_id sess) s = Inr sess"
    "stillValidAt d sess s = Inr True" by simp_all
qed

lemma sess_Create_fields:
  assumes "sess_Create d flow user host tok s = (Inr sess, t)"
  shows "ss_flow sess = flow" "ss_remoteUser sess = user" "ss_remoteHost sess = host" "ss_state sess = StateNew"
  using assms
  by (auto simp: sess_Create_def notifyLastAccess_def mapErrE_def bindE_def getE_def returnE_def Let_def
      split: prod.splits sum.splits if_splits)

lemma ensureSession_fields:
  assumes "quiet s" "ensureSession d flow req at s = (Inr sess, t)"
  shows "ss_flow sess = flow \<and> ss_remoteUser sess = fst (ar_remote req)"
proof (cases "requestSearch d flow (fst (ar_remote req)) (tokenStored d at) s" rule: searchResult_cases)
  case absent
  then have "sess_Create d flow (fst (ar_remote req)) (snd (ar_remote req)) at s = (Inr sess, t)"
    using assms(2) by (cases "sess_Create d flow (fst (ar_remote req)) (snd (ar_remote req)) at s")
      (auto simp: ensureSession_quiet[OF assms(1)] mapErrE_def map_sum_Inr_iff)
  then show ?thesis by (simp add: sess_Create_fields)
qed (use assms(2) in \<open>auto simp: ensureSession_quiet[OF assms(1)] dest: requestSearch_found\<close>)

subsection \<open>Reading files of authorized keys\<close>

lemma ReadFile_quiet:
  "quiet s \<Longrightarrow> os_ReadFile f (s :: fsrepo) =
    (case fs_get (w_files s) f of None \<Rightarrow> Inl (ENotExist f) | Some n \<Rightarrow> Inr (n_content n), s)"
  by (cases "fs_get (w_files s) f") (simp_all add: os_ReadFile_def bindE_def finallyE_def quiet_calls)

lemma DoWithEach_looks: "quiet s \<Longrightarrow> looks s (DoWithEachAuthorizedKey ad req cb acc files)"
  by (induction files arbitrary: acc)
    (auto simp: looks_def bindE_def tryE_def returnE_def throwE_def liftE_def ReadFile_quiet split: sum.split option.split prod.split)

text \<open>The keys of a text, up to the first entry that cannot be parsed.\<close>

function keysOf :: "(bytes \<Rightarrow> ('k \<times> bytes) option) \<Rightarrow> bytes \<Rightarrow> 'k list" where
  "keysOf parse rest =
     (if rest = [] then []
      else case parse rest of
          None \<Rightarrow> []
        | Some (pub, rest') \<Rightarrow> pub # (if length rest' < length rest then keysOf parse rest' else []))"
  by pat_completeness auto
termination by (relation "measure (\<lambda>(_, rest). length rest)") auto

declare keysOf.simps [simp del]

definition matchesKey :: "'k \<Rightarrow> 'k \<Rightarrow> bool \<times> bool" where
  "matchesKey remote candidate = (if remote \<noteq> candidate then (False, True) else (True, False))"

lemma matchesKey_eqs: "matchesKey key key = (True, False)" "c \<noteq> key \<Longrightarrow> matchesKey key c = (False, True)"
  by (simp_all add: matchesKey_def)

lemma eachKeyOf_match:
  "eachKeyOf (matchesKey key) parse file acc rest = Inr (found, b) \<Longrightarrow> found \<Longrightarrow> \<not> acc \<Longrightarrow> key \<in> set (keysOf parse rest)"
proof (induction rest arbitrary: acc rule: length_induct)
  case (1 rest)
  have nonempty: "rest \<noteq> []" using "1.prems" by (auto simp: eachKeyOf.simps)
  then obtain pub rest' where p: "parse rest = Some (pub, rest')"
    using "1.prems"(1) by (auto simp: eachKeyOf.simps[of _ _ _ _ rest] split: option.splits)
  note k = keysOf.simps[of parse rest, unfolded p, simplified nonempty, simplified]
  show ?case
  proof (cases "pub = key")
    case False
    then have "length rest' < length rest \<and> eachKeyOf (matchesKey key) parse file False rest' = Inr (found, b)"
      using "1.prems"(1) nonempty p
      by (simp add: eachKeyOf.simps[of _ _ _ _ rest] matchesKey_eqs split: if_splits)
    then show ?thesis using "1.IH" "1.prems"(2) k by auto
  qed (simp add: k)
qed

lemma DoWithEach_match:
  "quiet s \<Longrightarrow> DoWithEachAuthorizedKey ad False (matchesKey key) False files s = (Inr True, t) \<Longrightarrow>
   \<exists>f \<in> set files. \<exists>n. fs_get (w_files s) f = Some n \<and> key \<in> set (keysOf (ad_parseAuthorizedKey ad) (n_content n))"
proof (induction files)
  case (Cons f files)
  have rec: "\<And>r. DoWithEachAuthorizedKey ad False (matchesKey key) r files s = (Inr True, t) \<Longrightarrow> \<not> r \<Longrightarrow> ?case"
    using Cons.IH[OF Cons.prems(1)] by auto
  show ?case
  proof (cases "fs_get (w_files s) f")
    case None
    then show ?thesis using Cons.prems rec[of False] by (simp add: bindE_def tryE_def ReadFile_quiet)
  next
    case (Some n)
    then obtain r b where r: "eachKeyOf (matchesKey key) (ad_parseAuthorizedKey ad) f False (n_content n) = Inr (r, b)"
      using Cons.prems by (auto simp: bindE_def tryE_def ReadFile_quiet liftE_def split: sum.splits)
    then have "(if b then DoWithEachAuthorizedKey ad False (matchesKey key) r files else returnE r) s = (Inr True, t)"
      using Cons.prems Some by (simp add: bindE_def tryE_def ReadFile_quiet liftE_def)
    then show ?thesis using rec[of r] eachKeyOf_match[OF r] Some by (cases r) (auto simp: returnE_def split: if_splits)
  qed
qed (simp add: returnE_def)

subsection \<open>What a login leaves for the next connection\<close>

text \<open>The session of a login holds the token and its last access, whether it was found or created.\<close>

definition holdsLogin :: "'k deps \<Rightarrow> fs_session \<Rightarrow> bytes \<Rightarrow> fsrepo \<Rightarrow> bool" where
  "holdsLogin d sess at t \<longleftrightarrow>
     quiet t \<and> AuthorizationToken d sess t = (Inr at, t) \<and> (\<exists>la. lastAccessed d sess t = (Inr la, t))"

lemma created_holds:
  assumes "created d st flow i user host at s t" "deps_ok d"
  shows "holdsLogin d \<lparr>ss_flow = flow, ss_id = i, ss_state = x, ss_createdAt = c, ss_remoteUser = user, ss_remoteHost = host\<rparr> at t"
proof -
  have q: "quiet t" using assms(1) by (simp add: created_def)
  show ?thesis using assms
    by (auto simp: holdsLogin_def created_def q AuthorizationToken_def getToken_quiet[OF q] lastAccessed_quiet[OF q] deps_ok_decode Let_def)
qed

lemma found_holds:
  assumes "quiet s" "requestSearch d flow name (tokenStored d at) s = Inr (Some sess)" "at \<noteq> []" "length at mod 4096 \<noteq> 0"
  shows "holdsLogin d sess at s"
proof -
  note f = requestSearch_found[OF assms(2)]
  have "AuthorizationToken d sess s = (Inr at, s)"
    using f(1,2) assms(3,4)
    by (auto simp: tokenStored_def tokenMatches_def AuthorizationToken_def getToken_quiet[OF assms(1)] isReaderEqualToBytes_iff
        readerBufferSize_def split: option.splits)
  moreover have "\<exists>la. fst (lastAccessed d sess s) = Inr la"
    using f(5) by (auto simp: stillValidAt_def split: if_splits sum.splits)
  ultimately show ?thesis using assms(1) lastAccessed_same[OF assms(1), of d sess] by (auto simp: holdsLogin_def)
qed

lemma ensureSession_holds:
  assumes "freshPlace d st flow i s" "d_newUuid d (sr_uuids s) = Some i" "at \<noteq> []" "length at mod 4096 \<noteq> 0"
    and "ensureSession d flow req at s = (Inr sess, t)" and "validNames d (fst (ar_remote req)) (snd (ar_remote req))"
  shows "holdsLogin d sess at t \<and> ss_flow sess = flow \<and> ss_remoteUser sess = fst (ar_remote req)"
proof -
  have q: "quiet s" and ok: "deps_ok d" using assms(1) by (simp_all add: freshPlace_def)
  have "holdsLogin d sess at t"
  proof (cases "requestSearch d flow (fst (ar_remote req)) (tokenStored d at) s" rule: searchResult_cases)
    case absent
    obtain u where u: "sess_Create d flow (fst (ar_remote req)) (snd (ar_remote req)) at s =
      (Inr \<lparr>ss_flow = flow, ss_id = i, ss_state = StateNew, ss_createdAt = truncateMilli (w_now s),
             ss_remoteUser = fst (ar_remote req), ss_remoteHost = snd (ar_remote req)\<rparr>, u)"
      "created d st flow i (fst (ar_remote req)) (snd (ar_remote req)) at s u"
      using sess_Create_quiet[OF assms(1,2,6)] by blast
    have "sessE (sess_Create d flow (fst (ar_remote req)) (snd (ar_remote req)) at) s = (Inr sess, t)"
      using assms(5) unfolding ensureSession_quiet[OF q] absent by simp
    then show ?thesis using u(1) created_holds[OF u(2) ok] by (auto simp: mapErrE_def)
  next
    case (found x)
    then show ?thesis using assms(5) found_holds[OF q found assms(3,4)] by (auto simp: ensureSession_quiet[OF q])
  qed (use assms(5) in \<open>simp add: ensureSession_quiet[OF q]\<close>)
  then show ?thesis using ensureSession_fields[OF q assms(5)] by blast
qed

lemma holdsLogin_restored:
  "holdsLogin d sess at t \<Longrightarrow> restoredRemote d sess t = (Inr (ss_remoteUser sess, ss_remoteHost sess), t)"
  by (auto simp: holdsLogin_def restoredRemote_def mapErrE_def bindE_def returnE_def LastAccessedRemote_def split: prod.splits)

end
