(* ===== verification/LocalEnvProps.thy ===== *)
theory LocalEnvProps
  imports LocalEnv UserEffects SessionLife AuthorizerContract
begin

section \<open>Properties of the local environments\<close>

text \<open>
  What a stored token brings back, who is deleted by a disposal and who is not. Nothing here assumes that the
  operating system works: where a call reports success, its effect follows from the success.
\<close>

subsection \<open>A token that was stored\<close>

lemma setToken_stores:
  assumes "setToken d sess kind data s = (Inr (), t)" and "data \<noteq> []"
    and "\<not> w_fault t OpRead (fileOf d (ss_flow sess) (ss_id sess) kind t)"
  shows "getToken d sess kind t = (Inr data, t)"
proof -
  let ?fn = "fileOf d (ss_flow sess) (ss_id sess) kind s"
  let ?m = "unat (sr_FileMode s)"
  obtain s1 where mk: "s1 = snd (os_MkdirAll (filepath_Dir ?fn) (unat (dirFileMode (sr_FileMode s))) s)" by simp
  have s1: "w_fault s1 = w_fault s" "world.more s1 = world.more s"
    using MkdirAll_fault[of "filepath_Dir ?fn" _ s] more_is_MkdirAll[of "world.more s"] unfolding mk
    by (auto simp: preserves_def more_is_def)
  have "bindE (osE (os_OpenCreate True ?m ?fn)) (\<lambda>_. deferE (osE (os_Write ?fn data)) (osE (os_Close ?fn))) s1 = (Inr (), t)"
    using assms(1,2) mk
    by (simp add: setToken_def sess_openWrite_def bindE_def getE_def tryE_def mapErrE_def returnE_def split: prod.splits sum.splits)
  then obtain s2 where c: "os_OpenCreate True ?m ?fn s1 = (Inr (), s2)"
    and w: "deferE (osE (os_Write ?fn data)) (osE (os_Close ?fn)) s2 = (Inr (), t)"
    by (auto simp: bindE_Inr_iff mapErrE_Inr_iff)
  obtain n where n: "s2 = opened ?fn (s1\<lparr>w_files := fs_put (w_files s1) ?fn n\<rparr>)" "n_content n = []" and o: "\<not> w_fault s1 OpOpen ?fn"
    using c by (auto simp: os_OpenCreate_def newFile_def split: if_splits option.splits)
  have t: "t = s1\<lparr>w_files := fs_put (fs_put (w_files s1) ?fn n) ?fn (n\<lparr>n_content := data, n_mtime := w_now s1\<rparr>)\<rparr>"
    and cl: "\<not> w_fault s1 OpClose ?fn"
    using w n(2) unfolding n(1)
    by (auto simp: deferE_def mapErrE_def os_Write_def os_Close_def fs_setContent_def opened_def split: if_splits prod.splits sum.splits)
  have fn: "fileOf d (ss_flow sess) (ss_id sess) kind t = ?fn"
    using s1(2) by (cases s; cases s1) (simp add: t fileOf_def)
  have "w_fault t = w_fault s1" "fs_get (w_files t) ?fn = Some (n\<lparr>n_content := data, n_mtime := w_now s1\<rparr>)"
    by (simp_all add: t)
  with o cl assms(3) show ?thesis
    by (simp add: getToken_def sess_openRead_def fn sm_defs os_OpenRead_def os_ReadAll_def os_Close_def) (simp add: opened_def)
qed

lemma getToken_same: "getToken d sess kind s = (Inr x, t) \<Longrightarrow> t = s"
  by (auto simp: getToken_def sess_openRead_def sm_defs os_OpenRead_def os_ReadAll_def os_Close_def opened_def
      split: if_splits option.splits)

text \<open>A token that was taken away: the file is gone, and no other file was touched.\<close>

lemma setToken_clears:
  assumes "setToken d sess kind [] s = (r, t)"
  shows "world.more t = world.more s" "\<And>p. p \<noteq> fileOf d (ss_flow sess) (ss_id sess) kind s \<Longrightarrow> fs_get (w_files t) p = fs_get (w_files s) p"
    and "r = Inr () \<Longrightarrow> fs_get (w_files t) (fileOf d (ss_flow sess) (ss_id sess) kind t) = None"
proof -
  show m: "world.more t = world.more s" "\<And>p. p \<noteq> fileOf d (ss_flow sess) (ss_id sess) kind s \<Longrightarrow> fs_get (w_files t) p = fs_get (w_files s) p"
    using assms by (auto simp: setToken_def sm_defs os_Remove_def split: if_splits)
  have "fileOf d (ss_flow sess) (ss_id sess) kind t = fileOf d (ss_flow sess) (ss_id sess) kind s"
    using m(1) by (cases s; cases t) (simp add: fileOf_def)
  then show "r = Inr () \<Longrightarrow> fs_get (w_files t) (fileOf d (ss_flow sess) (ss_id sess) kind t) = None"
    using assms by (auto simp: setToken_def sm_defs os_Remove_def split: if_splits)
qed

lemma newLocalEnv_simps [simp]:
  "le_user (newLocalEnv u sess pfa lt) = u" "le_session (newLocalEnv u sess pfa lt) = sess"
  "le_portForwardingAllowed (newLocalEnv u sess pfa lt) = pfa"
  "le_deleteUserOnDispose (newLocalEnv u sess pfa lt) = lt_DeleteOnDispose lt"
  by (simp_all add: newLocalEnv_def)

lemma local_FindBySession_Inr:
  "local_FindBySession ld d sess opts h = (Inr env, t) \<longleftrightarrow>
   t = h \<and> (\<exists>ltb lt u. EnvironmentToken d sess (storeOf h) = (Inr ltb, storeOf h) \<and> ltb \<noteq> [] \<and> ld_decode ld ltb = Some lt \<and>
     (if lt_Name lt \<noteq> [] then LookupByName (usersOf h) (lt_Name lt) = Inr u
      else \<exists>i. lt_Uid lt = Some i \<and> LookupById (usersOf h) i = Inr u) \<and>
     env = newLocalEnv u sess (lt_PortForwardingAllowed lt) lt)"
  (is "?L \<longleftrightarrow> t = h \<and> ?R")
proof -
  have user: "local_tokenUser d sess opts lt r s = (Inr env, t) \<longleftrightarrow>
      t = s \<and> (\<exists>u. r = Inr u \<and> env = newLocalEnv u sess (lt_PortForwardingAllowed lt) lt)" for lt r s
    by (cases r) (auto simp: local_tokenUser_def local_userNotFound_def throwE_def returnE_def bindE_Inr_iff)
  obtain r s1 where e: "EnvironmentToken d sess (storeOf h) = (r, s1)" by fastforce
  show ?thesis
  proof (cases r)
    case (Inl x)
    then show ?thesis using e by (simp add: local_FindBySession_def bindE_def mapErrE_def viaStore_def)
  next
    case (Inr ltb)
    have s1: "s1 = storeOf h" using e Inr by (auto simp: EnvironmentToken_def dest: getToken_same)
    then have v: "viaStore EErrSession (EnvironmentToken d sess) h = (Inr ltb, h)" using e Inr by (simp add: viaStore_def)
    show ?thesis
    proof (cases "ltb = [] \<or> ld_decode ld ltb = None")
      case True
      then show ?thesis using e Inr s1
        by (auto simp: local_FindBySession_def bindE_def mapErrE_def v throwE_def)
    next
      case False
      then obtain lt where "ld_decode ld ltb = Some lt" "ltb \<noteq> []" by auto
      then show ?thesis using e Inr s1
        by (cases "lt_Uid lt"; cases "lt_Name lt = []")
          (auto simp: local_FindBySession_def bindE_def mapErrE_def v throwE_def getE_def user)
    qed
  qed
qed

subsection \<open>The two ways to an environment\<close>

lemma newLocalToken_Inr:
  assumes "newLocalToken this u req m = Inr lt"
  shows "lt_Name lt = us_Name u" "lt_Uid lt = Some (us_Uid u)" "lt_Managed lt = m"
    "el_PortForwardingAllowed (lr_conf this) req = Inr (lt_PortForwardingAllowed lt)"
    "lt_DeleteOnDispose lt \<longleftrightarrow> ld_DeleteManagedUser (el_Dispose (lr_conf this)) req = Inr True \<and> m"
    "lt_DeleteHomeDirOnDispose lt \<longrightarrow> lt_DeleteOnDispose lt"
    "lt_KillProcessesOnDispose lt \<longrightarrow> m"
  using assms by (auto simp: newLocalToken_def bindR_Inr_iff)

definition freshUser :: "copier \<Rightarrow> 'k local_repository \<Rightarrow> 'k env_context \<Rightarrow> local_ensure_opts \<Rightarrow> user em" where
  "freshUser cp this req opts =
     (if canCreateOrUpdate opts then bindE (ensureUserByTask cp this req opts) (\<lambda>(u, _). returnE u) else lookupUserBy this req)"

definition ensuredAnew ::
    "copier \<Rightarrow> local_deps \<Rightarrow> 'k deps \<Rightarrow> 'k local_repository \<Rightarrow> 'k env_context \<Rightarrow> fs_session \<Rightarrow> local_env \<Rightarrow> host \<Rightarrow> host \<Rightarrow> bool" where
  "ensuredAnew cp ld d this req sess env h0 t \<longleftrightarrow>
     (\<exists>opts u h1 lt. getEnsureOptsOf this req = Inr opts \<and> freshUser cp this req opts h0 = (Inr u, h1) \<and>
        newLocalToken this u req (canCreateOrUpdate opts) = Inr lt \<and>
        viaStore EErrSession (SetEnvironmentToken d sess (ld_encode ld lt)) h1 = (Inr (), t) \<and>
        env = newLocalEnv u sess (lt_PortForwardingAllowed lt) lt)"

lemma local_Ensure_cases:
  assumes "local_Ensure cp ld d this req h = (Inr env, t)"
  obtains sess where "au_session (ec_authorization req) = Some sess" "el_LoginAllowed (lr_conf this) req = Inr True"
    "local_FindBySession ld d sess None h = (Inr env, t)"
  | sess e h0 where "au_session (ec_authorization req) = Some sess" "el_LoginAllowed (lr_conf this) req = Inr True"
    "local_FindBySession ld d sess None h = (Inl e, h0)" "ensuredAnew cp ld d this req sess env h0 t"
proof -
  obtain sess where s: "au_session (ec_authorization req) = Some sess" and ok: "el_LoginAllowed (lr_conf this) req = Inr True"
    using assms by (auto simp: local_Ensure_def local_WillBeAccepted_def bindE_Inr_iff liftE_def throwE_def split: option.splits if_splits)
  obtain r h0 where f: "local_FindBySession ld d sess None h = (r, h0)" by fastforce
  show ?thesis
  proof (cases r)
    case (Inr x)
    with assms s ok f have "local_FindBySession ld d sess None h = (Inr env, t)"
      by (simp add: local_Ensure_def local_WillBeAccepted_def bindE_def tryE_def liftE_def returnE_def)
    with s ok show ?thesis by (rule that(1))
  next
    case (Inl e)
    have "ensuredAnew cp ld d this req sess env h0 t"
      using assms s ok f Inl
      by (auto simp: local_Ensure_def local_WillBeAccepted_def bindE_Inr_iff mapErrE_Inr_iff tryE_def liftE_def returnE_def throwE_def
          ensuredAnew_def freshUser_def bindE_def[of "liftE (Inr True)"] newLocalToken_Inr(4) split: if_splits)
    with s ok f Inl show ?thesis by (intro that(2)) auto
  qed
qed

lemma local_Ensure_anew:
  assumes "au_session (ec_authorization req) = Some sess" "el_LoginAllowed (lr_conf this) req = Inr True"
    and "local_FindBySession ld d sess None h = (Inl e, h0)" "ensuredAnew cp ld d this req sess env h0 t"
  shows "local_Ensure cp ld d this req h = (Inr env, t)"
proof -
  obtain opts u h1 lt where a: "getEnsureOptsOf this req = Inr opts" "freshUser cp this req opts h0 = (Inr u, h1)"
      "newLocalToken this u req (canCreateOrUpdate opts) = Inr lt"
      "viaStore EErrSession (SetEnvironmentToken d sess (ld_encode ld lt)) h1 = (Inr (), t)"
      "env = newLocalEnv u sess (lt_PortForwardingAllowed lt) lt"
    using assms(4) by (auto simp: ensuredAnew_def)
  have "(if \<not> canCreateOrUpdate opts then bindE (lookupUserBy this req) (\<lambda>u. returnE (u, False))
      else bindE (ensureUserByTask cp this req opts) (\<lambda>(u, _). returnE (u, True))) h0 = (Inr (u, canCreateOrUpdate opts), h1)"
    using a(2) by (auto simp: freshUser_def bindE_Inr_iff returnE_def)
  then show ?thesis
    using assms(1-3) a newLocalToken_Inr(4)[OF a(3)]
    by (simp add: local_Ensure_def local_WillBeAccepted_def bindE_def liftE_def tryE_def mapErrE_def returnE_def)
qed

text \<open>Looking a user up changes nothing, and a failed search for an environment leaves the user repository alone.\<close>

lemma lookupUserBy_same: "lookupUserBy this req h = (r, t) \<Longrightarrow> t = h"
  by (auto simp: lookupUserBy_def lookupByName_def lookupByUid_def bindE_def liftE_def throwE_def viaUsers_def
      split: if_splits option.splits sum.splits)

lemma users_viaStore: "preserves (\<lambda>x. ho_users x = k) (viaStore w m)"
  by (rule preservesI) (metis viaStore_users prod.collapse)

lemma local_FindBySession_users: "local_FindBySession ld d sess opts h = (r, t) \<Longrightarrow> ho_users t = ho_users h"
proof -
  have "preserves (\<lambda>x. ho_users x = ho_users h) (local_FindBySession ld d sess opts)"
    unfolding local_FindBySession_def local_tokenUser_def local_userNotFound_def by (intro preserve users_viaStore)
  then show "local_FindBySession ld d sess opts h = (r, t) \<Longrightarrow> ho_users t = ho_users h"
    by (rule preserves_result) (rule refl)
qed

text \<open>A session without a token has no environment.\<close>

lemma local_FindBySession_empty:
  assumes "EnvironmentToken d sess (storeOf h) = (Inr [], s)"
  shows "local_FindBySession ld d sess opts h = (Inl ErrNoSuchEnvironment, h)"
proof -
  have "s = storeOf h" using assms by (auto simp: EnvironmentToken_def dest: getToken_same)
  then show ?thesis using assms by (simp add: local_FindBySession_def viaStore_def bindE_def mapErrE_def throwE_def)
qed

subsection \<open>Theorems\<close>

text \<open>
  C22: the environment that \<^verbatim>\<open>Ensure\<close> returns is the one that \<^verbatim>\<open>FindBySession\<close> restores from the session
  afterwards, whatever its options, and restoring changes nothing: user, permission to forward ports and the three
  decisions about the disposal survive in the token. The token has to be readable, and the user repository to find
  the user under a name that JSON can carry.
\<close>

theorem local_environment_restored:
  assumes "local_deps_ok ld" and "local_Ensure cp ld d this req h = (Inr env, t)"
    and "\<not> w_fault (ho_world t) OpRead (fileOf d (ss_flow (le_session env)) (ss_id (le_session env)) FsFileEnvironmentToken (storeOf t))"
    and "us_Name (le_user env) \<noteq> []" "utf8_ValidString (us_Name (le_user env))"
    and "LookupByName (usersOf t) (us_Name (le_user env)) = Inr (le_user env)"
  shows "au_session (ec_authorization req) = Some (le_session env) \<and>
    local_FindBySession ld d (le_session env) opts t = (Inr env, t)"
  using assms(2)
proof (cases rule: local_Ensure_cases)
  case (1 sess)
  then have "le_session env = sess" by (auto simp: local_FindBySession_Inr)
  with 1 show ?thesis by (auto simp: local_FindBySession_Inr)
next
  case (2 sess e h0)
  obtain opts' u h1 lt where n: "newLocalToken this u req (canCreateOrUpdate opts') = Inr lt"
    and v: "viaStore EErrSession (SetEnvironmentToken d sess (ld_encode ld lt)) h1 = (Inr (), t)"
    and env: "env = newLocalEnv u sess (lt_PortForwardingAllowed lt) lt"
    using 2 by (auto simp: ensuredAnew_def)
  have eu: "le_user env = u" "le_session env = sess" by (simp_all add: env)
  have "setToken d sess FsFileEnvironmentToken (ld_encode ld lt) (storeOf h1) = (Inr (), storeOf t)"
    using v by (auto simp: viaStore_def SetEnvironmentToken_def map_sum_Inr_iff split: prod.splits)
  then have "EnvironmentToken d sess (storeOf t) = (Inr (ld_encode ld lt), storeOf t)"
    unfolding EnvironmentToken_def using assms(1,3) eu by (intro setToken_stores) (auto simp: local_deps_ok_def)
  moreover have "lt_Name lt = us_Name u" by (rule newLocalToken_Inr(1)[OF n])
  ultimately have "local_FindBySession ld d sess opts t = (Inr env, t)"
    using assms(1,4,5,6) eu by (auto simp: local_FindBySession_Inr env local_deps_ok_def)
  with 2(1) eu show ?thesis by simp
qed

lemma dispose_without_delete:
  assumes "\<not> le_deleteUserOnDispose env" "local_Dispose d env h = (r, t)"
  shows "ho_users t = ho_users h" "r \<noteq> Inr True"
    "\<And>p. p \<noteq> fileOf d (ss_flow (le_session env)) (ss_id (le_session env)) FsFileEnvironmentToken (storeOf h) \<Longrightarrow>
       fs_get (w_files (ho_world t)) p = fs_get (w_files (ho_world h)) p"
proof -
  obtain r' s where s: "setToken d (le_session env) FsFileEnvironmentToken [] (storeOf h) = (r', s)" by fastforce
  then have "t = putStore s h" "r = map_sum (\<lambda>e. EErrTyped TSystem ''cannot dispose environment'' (Some (EErrSession e))) (\<lambda>_. False) r'"
    using assms
    by (cases r'; simp add: local_Dispose_def local_dispose_def viaStore_def SetEnvironmentToken_def returnE_def bindE_def mapErrE_def)+
  then show "ho_users t = ho_users h" "r \<noteq> Inr True"
    "\<And>p. p \<noteq> fileOf d (ss_flow (le_session env)) (ss_id (le_session env)) FsFileEnvironmentToken (storeOf h) \<Longrightarrow>
       fs_get (w_files (ho_world t)) p = fs_get (w_files (ho_world h)) p"
    using setToken_clears(2)[OF s] by (simp_all add: putStore_def world.defs) (cases r'; simp)
qed

text \<open>
  A user that the environment was only allowed to look up is never touched: neither making the environment
  nor disposing it later, in any state, changes the user repository, and of all files only the token of the session
  changes.
\<close>

theorem looked_up_user_survives:
  assumes "local_Ensure cp ld d this req h = (Inr env, t)"
    and "EnvironmentToken d (le_session env) (storeOf h) = (Inr [], s)"
    and "getEnsureOptsOf this req = Inr opts" "\<not> canCreateOrUpdate opts"
    and "local_Dispose d env h2 = (r, t2)"
  shows "ho_users t = ho_users h \<and> ho_users t2 = ho_users h2 \<and> r \<noteq> Inr True \<and>
    (\<forall>p. p \<noteq> fileOf d (ss_flow (le_session env)) (ss_id (le_session env)) FsFileEnvironmentToken (storeOf h2) \<longrightarrow>
       fs_get (w_files (ho_world t2)) p = fs_get (w_files (ho_world h2)) p)"
  using assms(1)
proof (cases rule: local_Ensure_cases)
  case (1 sess)
  then have "le_session env = sess" by (auto simp: local_FindBySession_Inr)
  with 1 assms(2) show ?thesis by (auto simp: local_FindBySession_Inr)
next
  case (2 sess e h0)
  obtain u h1 lt where l: "lookupUserBy this req h0 = (Inr u, h1)" and n: "newLocalToken this u req False = Inr lt"
    and v: "viaStore EErrSession (SetEnvironmentToken d sess (ld_encode ld lt)) h1 = (Inr (), t)"
    and env: "env = newLocalEnv u sess (lt_PortForwardingAllowed lt) lt"
    using 2(4) assms(3,4) by (auto simp: ensuredAnew_def freshUser_def)
  have "ho_users t = ho_users h"
    using viaStore_users[OF v] lookupUserBy_same[OF l] local_FindBySession_users[OF 2(3)] by simp
  moreover have "\<not> le_deleteUserOnDispose env" using newLocalToken_Inr(5)[OF n] by (simp add: env)
  ultimately show ?thesis using dispose_without_delete[OF _ assms(5)] by blast
qed

text \<open>
  a disposal that reports success has taken the environment's token away, and one that answers true has deleted
  the user: the rows of the environment's user id and of the name it has in the freshly loaded files are gone, nothing
  else of the accounts is.
\<close>

theorem managed_user_removed:
  assumes "local_Dispose d env h = (Inr disposed, t)"
  shows "fs_get (w_files (ho_world t))
       (fileOf d (ss_flow (le_session env)) (ss_id (le_session env)) FsFileEnvironmentToken (storeOf t)) = None \<and>
    (disposed \<longrightarrow> le_deleteUserOnDispose env \<and>
      (\<exists>f s u. openAndLoad (usersOf h) = (Inr f, s) \<and> LookupById s (us_Uid (le_user env)) = Inr u \<and>
         user_deleted (us_Uid (le_user env)) (us_Name u) s (usersOf t)))"
proof -
  obtain h1 where dp: "local_dispose env h = (Inr disposed, h1)"
    and v: "viaStore EErrSession (SetEnvironmentToken d (le_session env) []) h1 = (Inr (), t)"
    using assms by (auto simp: local_Dispose_def mapErrE_Inr_iff bindE_Inr_iff returnE_def)
  obtain s1 where s1: "setToken d (le_session env) FsFileEnvironmentToken [] (storeOf h1) = (Inr (), s1)" "t = putStore s1 h1"
    using v by (auto simp: viaStore_def SetEnvironmentToken_def map_sum_Inr_iff split: prod.splits)
  have gone: "fs_get (w_files (ho_world t)) (fileOf d (ss_flow (le_session env)) (ss_id (le_session env)) FsFileEnvironmentToken (storeOf t)) = None"
    using setToken_clears(3)[OF s1(1)] s1(2) by simp
  have "le_deleteUserOnDispose env \<and>
      (\<exists>f s u. openAndLoad (usersOf h) = (Inr f, s) \<and> LookupById s (us_Uid (le_user env)) = Inr u \<and>
         user_deleted (us_Uid (le_user env)) (us_Name u) s (usersOf t))" if dis: disposed
  proof -
    have del: "le_deleteUserOnDispose env" using dp dis by (auto simp: local_dispose_def returnE_def split: if_splits)
    then obtain u1 where u1: "DeleteById (us_Uid (le_user env)) (Some \<lparr>do_HomeDir = Some (le_deleteUserHomeDirOnDispose env),
        do_KillProcesses = Some (le_killUserProcessesOnDispose env)\<rparr>) (usersOf h) = (Inr (), u1)" "h1 = putUsers u1 h"
      using dp dis
      by (auto simp: local_dispose_def bindE_def tryE_def viaUsers_def throwE_def returnE_def sum.map_id split: prod.splits sum.splits if_splits)
    have "world.more (usersOf t) = world.more u1"
      using viaStore_users[OF v] u1(2) by (simp add: usersOf_def putUsers_def world.defs)
    then show ?thesis using del delete_by_id_rows[OF u1(1)] user_deleted_frame by blast
  qed
  with gone show ?thesis by blast
qed

text \<open>
  whether the user was there before does not matter: with a configuration that may create or update users,
  the environment of a user who already fulfils the requirement, and whom nobody created or changed, deletes that
  user when it is disposed, unless the deletion of managed users is switched off.
\<close>

theorem existing_user_counts_as_managed:
  assumes "au_session (ec_authorization req) = Some sess" and "EnvironmentToken d sess (storeOf h) = (Inr [], s)"
    and "getEnsureOptsOf this req = Inr opts" "canCreateOrUpdate opts"
    and "ensureUserByTask cp this req opts h = (Inr (u, EnsureResultUnchanged), h1)"
    and "ld_DeleteManagedUser (el_Dispose (lr_conf this)) req = Inr True"
    and "local_Ensure cp ld d this req h = (Inr env, t)"
  shows "le_user env = u \<and> le_deleteUserOnDispose env \<and> ho_users t = ho_users h1"
  using assms(7)
proof (cases rule: local_Ensure_cases)
  case (1 sess')
  with local_FindBySession_empty[OF assms(2)] assms(1) show ?thesis by simp
next
  case (2 sess' e h0)
  have "h0 = h" using 2(1,3) local_FindBySession_empty[OF assms(2)] assms(1) by simp
  then obtain lt where n: "newLocalToken this u req True = Inr lt"
    and v: "viaStore EErrSession (SetEnvironmentToken d sess' (ld_encode ld lt)) h1 = (Inr (), t)"
    and env: "env = newLocalEnv u sess' (lt_PortForwardingAllowed lt) lt"
    using 2(4) assms(3,4,5) by (auto simp: ensuredAnew_def freshUser_def bindE_Inr_iff returnE_def)
  show ?thesis using newLocalToken_Inr(5)[OF n] assms(6) viaStore_users[OF v] by (simp add: env)
qed

end
