(* ===== verification/EnvFacade.thy ===== *)
theory EnvFacade
  imports LocalEnvProps EnvRun NetModel
begin

section \<open>The repositories of all flows together (pkg/environment/repository.go, dummy*.go, facade-repository.go)\<close>

text \<open>
  The interface \<^verbatim>\<open>Repository\<close> as a record of its operations and what every implementation promises as a locale; the local
  and the dummy repository interpret it, and so does the facade over repositories that keep it. The facade holds one
  repository for each name of a flow. The registered factories are a parameter \<open>registry\<close>, given by \<open>registry_of\<close> for the four
  kinds of environments. The factories of the two remote kinds, containers and pods, are arguments of \<open>registry_of\<close>: their repositories,
  which work on the state of another system, are the theories \<open>Docker\<close> and \<open>Kube\<close>, and an environment of theirs is here what
  the interface \<^verbatim>\<open>Environment\<close> says of it, the record \<open>remote_env\<close>.
\<close>

record ('k, 'e) env_ops =
  er_WillBeAccepted :: "('k, bool) tmpl"
  er_DoesSupportPty :: "('k, bool) tmpl"
  er_Ensure :: "'k env_context \<Rightarrow> 'e em"
  er_FindBySession :: "fs_session \<Rightarrow> bool option option \<Rightarrow> 'e em"
  er_Cleanup :: "unit em"

text \<open>
  An environment that is ensured belongs to the session of the authorization, and the request was accepted; one that is
  found belongs to the session it was searched for, and the search changed nothing.
\<close>

locale env_repository =
  fixes session_of :: "'e \<Rightarrow> fs_session" and ops :: "('k, 'e) env_ops"
  assumes ensured: "er_Ensure ops req h = (Inr e, t) \<Longrightarrow>
      au_session (ec_authorization req) = Some (session_of e) \<and> er_WillBeAccepted ops req = Inr True"
    and found: "er_FindBySession ops sess opts h = (Inr e, t) \<Longrightarrow> session_of e = sess \<and> t = h"
begin

lemma not_accepted: "er_WillBeAccepted ops req \<noteq> Inr True \<Longrightarrow> isl (fst (er_Ensure ops req h))"
  using ensured[of req h] by (cases "er_Ensure ops req h"; cases "fst (er_Ensure ops req h)") auto

lemma no_session: "au_session (ec_authorization req) = None \<Longrightarrow> isl (fst (er_Ensure ops req h))"
  using ensured[of req h] by (cases "er_Ensure ops req h"; cases "fst (er_Ensure ops req h)") auto

lemma found_again:
  assumes "er_FindBySession ops sess opts h = (Inr e, t)"
  shows "er_FindBySession ops sess opts t = (Inr e, t)"
  using assms found[OF assms] by simp

end

subsection \<open>Dummy environments (dummy-repository.go, dummy.go)\<close>

record 'k env_dummy_conf =
  ey_ExitCode :: "'k env_task \<Rightarrow> env_err + int"
  ey_Banner :: "'k str_tmpl"

record 'k dummy_repository =
  dr_flow :: bytes
  dr_conf :: "'k env_dummy_conf"

datatype dummy_env = Dummy (dy_session: fs_session)

definition dummy_FindBySession :: "'k dummy_repository \<Rightarrow> fs_session \<Rightarrow> bool option option \<Rightarrow> dummy_env em" where
  "dummy_FindBySession this sess opts = returnE (Dummy sess)"

definition dummy_Ensure :: "'k dummy_repository \<Rightarrow> 'k env_context \<Rightarrow> dummy_env em" where
  "dummy_Ensure this req =
     (case au_session (ec_authorization req) of
        None \<Rightarrow> throwE (EErrTyped TSystem ''authorization without session'' None)
      | Some sess \<Rightarrow> dummy_FindBySession this sess None)"

text \<open>\<^verbatim>\<open>Banner\<close>: a nil reader for the empty text.\<close>

definition dummy_Banner :: "'k dummy_repository \<Rightarrow> ('k, bytes option) tmpl" where
  "dummy_Banner this req = bindR (String_Render (ey_Banner (dr_conf this)) req) (\<lambda>banner. Inr (if banner = [] then None else Some banner))"

text \<open>\<^verbatim>\<open>Run\<close>; an \<^verbatim>\<open>int\<close> has 64 bits.\<close>

definition dummy_Run :: "'k dummy_repository \<Rightarrow> 'k env_task \<Rightarrow> int \<times> env_err option" where
  "dummy_Run this t =
     (case ey_ExitCode (dr_conf this) t of
        Inl e \<Rightarrow> (-1, Some e)
      | Inr exitCode \<Rightarrow> if exitCode < -(2 ^ 63) \<or> exitCode > 2 ^ 63 - 1 then (1, None) else (exitCode, None))"

subsection \<open>The kinds of environments as one type\<close>

text \<open>
  A container or a pod as an environment: the operations of \<^verbatim>\<open>Environment\<close> (environment.go). Whether it allows forwarding is a
  field of it in both kinds, and a connection is made from within it. \<open>re_session\<close> is the session it was made for, of which both kinds keep the
  id (\<^verbatim>\<open>SessionId\<close>); no operation reads it. \<open>RemoteEnvs\<close> gives this record for the two kinds as they are modelled.
\<close>

record 'k remote_env =
  re_session :: fs_session
  re_Banner :: "('k, bytes option) tmpl"
  re_Run :: "'k env_task \<Rightarrow> run_event list \<Rightarrow> (int \<times> env_err option) option"
  re_IsPortForwardingAllowed :: bool
  re_NewDestinationConnection :: "host_port \<Rightarrow> env_err + unit option"
  re_Dispose :: "bool em"

text \<open>An environment points to its repository, whose configuration it renders.\<close>

datatype 'k environment =
    EnvLocal "'k local_repository" local_env
  | EnvDummy "'k dummy_repository" dummy_env
  | EnvRemote "'k remote_env"

fun environment_session :: "'k environment \<Rightarrow> fs_session" where
  "environment_session (EnvLocal _ e) = le_session e"
| "environment_session (EnvDummy _ y) = dy_session y"
| "environment_session (EnvRemote e) = re_session e"

fun environment_Dispose :: "'k deps \<Rightarrow> 'k environment \<Rightarrow> bool em" where
  "environment_Dispose d (EnvLocal _ e) = local_Dispose d e"
| "environment_Dispose d (EnvDummy _ _) = returnE False"
| "environment_Dispose d (EnvRemote e) = re_Dispose e"

fun environment_IsPortForwardingAllowed :: "'k environment \<Rightarrow> bool" where
  "environment_IsPortForwardingAllowed (EnvLocal _ e) = local_IsPortForwardingAllowed e"
| "environment_IsPortForwardingAllowed (EnvDummy _ _) = False"
| "environment_IsPortForwardingAllowed (EnvRemote e) = re_IsPortForwardingAllowed e"

text \<open>The banner is a reader: the local environment always returns one, the dummy none for the empty text.\<close>

fun environment_Banner :: "'k environment \<Rightarrow> ('k, bytes option) tmpl" where
  "environment_Banner (EnvLocal r _) req = bindR (local_Banner r req) (\<lambda>b. Inr (Some b))"
| "environment_Banner (EnvDummy r _) req = dummy_Banner r req"
| "environment_Banner (EnvRemote e) req = re_Banner e req"

fun environment_Run ::
    "(sid \<Rightarrow> bytes) \<Rightarrow> run_os \<Rightarrow> (command \<Rightarrow> env_err + unit) \<Rightarrow> 'k environment \<Rightarrow> 'k env_task \<Rightarrow> run_event list \<Rightarrow>
     (int \<times> env_err option) option" where
  "environment_Run uuidText os start (EnvLocal _ e) t evs = fst (local_Run uuidText os start e t evs)"
| "environment_Run uuidText os start (EnvDummy r _) t evs = Some (dummy_Run r t)"
| "environment_Run uuidText os start (EnvRemote e) t evs = re_Run e t evs"

text \<open>\<^verbatim>\<open>NewDestinationConnection\<close>: the dummy answers a nil connection.\<close>

fun environment_NewDestinationConnection :: "(host_port \<Rightarrow> env_err + unit) \<Rightarrow> 'k environment \<Rightarrow> host_port \<Rightarrow> env_err + unit option" where
  "environment_NewDestinationConnection dial (EnvLocal _ e) dest = bindR (local_NewDestinationConnection dial e dest) (\<lambda>c. Inr (Some c))"
| "environment_NewDestinationConnection dial (EnvDummy _ _) dest = Inr None"
| "environment_NewDestinationConnection dial (EnvRemote e) dest = re_NewDestinationConnection e dest"

definition wrapE :: "('a \<Rightarrow> 'b) \<Rightarrow> 'a em \<Rightarrow> 'b em" where
  "wrapE f m = bindE m (\<lambda>x. returnE (f x))"

definition localEnvOps :: "copier \<Rightarrow> local_deps \<Rightarrow> 'k deps \<Rightarrow> 'k local_repository \<Rightarrow> ('k, 'k environment) env_ops" where
  "localEnvOps cp ld d this =
     \<lparr>er_WillBeAccepted = local_WillBeAccepted this, er_DoesSupportPty = local_DoesSupportPty this,
      er_Ensure = (\<lambda>req. wrapE (EnvLocal this) (local_Ensure cp ld d this req)),
      er_FindBySession = (\<lambda>sess opts. wrapE (EnvLocal this) (local_FindBySession ld d sess opts)),
      er_Cleanup = returnE ()\<rparr>"

definition dummyEnvOps :: "'k dummy_repository \<Rightarrow> ('k, 'k environment) env_ops" where
  "dummyEnvOps this =
     \<lparr>er_WillBeAccepted = (\<lambda>_. Inr True), er_DoesSupportPty = (\<lambda>_. Inr True),
      er_Ensure = (\<lambda>req. wrapE (EnvDummy this) (dummy_Ensure this req)),
      er_FindBySession = (\<lambda>sess opts. wrapE (EnvDummy this) (dummy_FindBySession this sess opts)),
      er_Cleanup = returnE ()\<rparr>"

definition remoteEnvOps :: "('k, 'k remote_env) env_ops \<Rightarrow> ('k, 'k environment) env_ops" where
  "remoteEnvOps ops =
     \<lparr>er_WillBeAccepted = er_WillBeAccepted ops, er_DoesSupportPty = er_DoesSupportPty ops,
      er_Ensure = (\<lambda>req. wrapE EnvRemote (er_Ensure ops req)),
      er_FindBySession = (\<lambda>sess opts. wrapE EnvRemote (er_FindBySession ops sess opts)),
      er_Cleanup = er_Cleanup ops\<rparr>"

interpretation localRepository: env_repository environment_session "localEnvOps cp ld d this"
proof unfold_locales
  fix req h e t
  assume "er_Ensure (localEnvOps cp ld d this) req h = (Inr e, t)"
  then obtain env where e: "e = EnvLocal this env" and l: "local_Ensure cp ld d this req h = (Inr env, t)"
    by (auto simp: localEnvOps_def wrapE_def bindE_Inr_iff returnE_def)
  from l show "au_session (ec_authorization req) = Some (environment_session e) \<and> er_WillBeAccepted (localEnvOps cp ld d this) req = Inr True"
    by (cases rule: local_Ensure_cases)
      (auto simp: e localEnvOps_def local_WillBeAccepted_def local_FindBySession_Inr ensuredAnew_def)
next
  fix sess opts h e t
  assume "er_FindBySession (localEnvOps cp ld d this) sess opts h = (Inr e, t)"
  then show "environment_session e = sess \<and> t = h"
    by (auto simp: localEnvOps_def wrapE_def bindE_Inr_iff returnE_def local_FindBySession_Inr)
qed

interpretation dummyRepository: env_repository environment_session "dummyEnvOps this"
  by unfold_locales
    (auto simp: dummyEnvOps_def dummy_Ensure_def dummy_FindBySession_def wrapE_def bindE_Inr_iff returnE_def throwE_def split: option.splits)

subsection \<open>The facade (facade-repository.go)\<close>

type_synonym ('k, 'e) factory = "bytes \<Rightarrow> env_err + ('k, 'e) env_ops"

record 'c env_flow =
  ev_Name :: bytes
  ev_Environment :: "'c option"

definition newInstance :: "('c \<Rightarrow> ('k, 'e) factory option) \<Rightarrow> 'c env_flow \<Rightarrow> env_err + ('k, 'e) env_ops" where
  "newInstance registry flow =
     wrapR (\<lambda>e. EErrTyped TSystem ''cannot initizalize environment for flow'' (Some e))
       (case ev_Environment flow of
          None \<Rightarrow> Inl (EErrTyped TConfig ''no environment configured'' None)
        | Some c \<Rightarrow>
            (case registry c of
               None \<Rightarrow> Inl (EErrTyped TConfig ''cannot handle environment type'' None)
             | Some factory \<Rightarrow> factory (ev_Name flow)))"

type_synonym ('k, 'e) entries = "(bytes \<times> ('k, 'e) env_ops) list"

fun newEntries :: "('c \<Rightarrow> ('k, 'e) factory option) \<Rightarrow> 'c env_flow list \<Rightarrow> ('k, 'e) entries \<Rightarrow> env_err + ('k, 'e) entries" where
  "newEntries registry [] entries = Inr entries"
| "newEntries registry (flow # flows) entries =
     bindR (newInstance registry flow) (\<lambda>i. newEntries registry flows (AList.update (ev_Name flow) i entries))"

definition NewRepositoryFacade :: "('c \<Rightarrow> ('k, 'e) factory option) \<Rightarrow> 'c env_flow list option \<Rightarrow> env_err + ('k, 'e) entries" where
  "NewRepositoryFacade registry flows = (case flows of None \<Rightarrow> Inr [] | Some fs \<Rightarrow> newEntries registry fs [])"

definition noEnvironmentFor :: env_err where
  "noEnvironmentFor = EErrText ''does not find valid environment for flow''"

definition envFacade_WillBeAccepted :: "('k, 'e) entries \<Rightarrow> ('k, bool) tmpl" where
  "envFacade_WillBeAccepted entries ctx =
     (case map_of entries (au_flow (ec_authorization ctx)) of None \<Rightarrow> Inl noEnvironmentFor | Some c \<Rightarrow> er_WillBeAccepted c ctx)"

definition envFacade_DoesSupportPty :: "('k, 'e) entries \<Rightarrow> ('k, bool) tmpl" where
  "envFacade_DoesSupportPty entries ctx =
     (case map_of entries (au_flow (ec_authorization ctx)) of None \<Rightarrow> Inl noEnvironmentFor | Some c \<Rightarrow> er_DoesSupportPty c ctx)"

definition envFacade_Ensure :: "('k, 'e) entries \<Rightarrow> 'k env_context \<Rightarrow> 'e em" where
  "envFacade_Ensure entries req =
     (case map_of entries (au_flow (ec_authorization req)) of None \<Rightarrow> throwE noEnvironmentFor | Some c \<Rightarrow> er_Ensure c req)"

definition envFacade_FindBySession :: "('k, 'e) entries \<Rightarrow> fs_session \<Rightarrow> bool option option \<Rightarrow> 'e em" where
  "envFacade_FindBySession entries sess opts =
     (case map_of entries (ss_flow sess) of None \<Rightarrow> throwE ErrNoSuchEnvironment | Some c \<Rightarrow> er_FindBySession c sess opts)"

text \<open>\<^verbatim>\<open>Cleanup\<close> ranges over the map: the entries are in the order of that range.\<close>

definition envFacade_Cleanup :: "('k, 'e) entries \<Rightarrow> unit em" where
  "envFacade_Cleanup entries = forE (\<lambda>(_, c). er_Cleanup c) entries"

definition envFacadeOps :: "('k, 'e) entries \<Rightarrow> ('k, 'e) env_ops" where
  "envFacadeOps entries =
     \<lparr>er_WillBeAccepted = envFacade_WillBeAccepted entries, er_DoesSupportPty = envFacade_DoesSupportPty entries,
      er_Ensure = envFacade_Ensure entries, er_FindBySession = envFacade_FindBySession entries,
      er_Cleanup = envFacade_Cleanup entries\<rparr>"

text \<open>
  The kinds that are registered (\<^verbatim>\<open>RegisterRepository\<close> in the \<^verbatim>\<open>init\<close> of each kind's file). The configurations of containers and of pods
  are types \<open>'d\<close> and \<open>'p\<close>, which only their factories look at.
\<close>

datatype ('k, 'd, 'p) env_conf =
    EnvConfLocal "'k env_local_conf option"
  | EnvConfDummy "'k env_dummy_conf"
  | EnvConfDocker 'd
  | EnvConfKubernetes 'p
  | EnvConfUnknown

record ('k, 'd, 'p) remote_kinds =
  rk_docker :: "'d \<Rightarrow> ('k, 'k remote_env) factory"
  rk_kubernetes :: "'p \<Rightarrow> ('k, 'k remote_env) factory"

definition registry_of ::
    "copier \<Rightarrow> local_deps \<Rightarrow> 'k deps \<Rightarrow> env_err + unit \<Rightarrow> ('k, 'd, 'p) remote_kinds \<Rightarrow> ('k, 'd, 'p) env_conf \<Rightarrow>
     ('k, 'k environment) factory option" where
  "registry_of cp ld d users rk c =
     (case c of
        EnvConfLocal conf \<Rightarrow> Some (\<lambda>flow. bindR (NewLocalRepository users flow conf) (\<lambda>r. Inr (localEnvOps cp ld d r)))
      | EnvConfDummy conf \<Rightarrow> Some (\<lambda>flow. Inr (dummyEnvOps \<lparr>dr_flow = flow, dr_conf = conf\<rparr>))
      | EnvConfDocker conf \<Rightarrow> Some (\<lambda>flow. bindR (rk_docker rk conf flow) (\<lambda>ops. Inr (remoteEnvOps ops)))
      | EnvConfKubernetes conf \<Rightarrow> Some (\<lambda>flow. bindR (rk_kubernetes rk conf flow) (\<lambda>ops. Inr (remoteEnvOps ops)))
      | EnvConfUnknown \<Rightarrow> None)"

subsection \<open>Lemmas\<close>

lemma facade_env_repository:
  assumes "\<forall>(n, c) \<in> set entries. env_repository session_of c"
  shows "env_repository session_of (envFacadeOps entries)"
proof
  have c: "env_repository session_of c" if "map_of entries n = Some c" for n c
    using assms map_of_SomeD[OF that] by blast
  show "au_session (ec_authorization req) = Some (session_of e) \<and> er_WillBeAccepted (envFacadeOps entries) req = Inr True"
    if "er_Ensure (envFacadeOps entries) req h = (Inr e, t)" for req h e t
    using that env_repository.ensured[OF c, of _ _ req h e t]
    by (auto simp: envFacadeOps_def envFacade_Ensure_def envFacade_WillBeAccepted_def throwE_def split: option.splits)
  show "session_of e = sess \<and> t = h" if "er_FindBySession (envFacadeOps entries) sess opts h = (Inr e, t)" for sess opts h e t
    using that env_repository.found[OF c, of _ _ sess opts h e t]
    by (auto simp: envFacadeOps_def envFacade_FindBySession_def throwE_def split: option.splits)
qed

lemma find_snoc: "find P (xs @ ys) = (case find P xs of None \<Rightarrow> find P ys | Some x \<Rightarrow> Some x)"
  by (induction xs) auto

lemma set_update_subset: "set (AList.update k v xs) \<subseteq> insert (k, v) (set xs)"
  by (induction xs) auto

text \<open>The entry of a name is the instance of the last flow that has it.\<close>

lemma newEntries_map:
  "newEntries registry flows entries = Inr r \<Longrightarrow>
   map_of r n = (case find (\<lambda>f. ev_Name f = n) (rev flows) of
     None \<Rightarrow> map_of entries n
   | Some f \<Rightarrow> (case newInstance registry f of Inl _ \<Rightarrow> None | Inr i \<Rightarrow> Some i))"
proof (induction registry flows entries rule: newEntries.induct)
  case (2 registry flow flows entries)
  then obtain i where i: "newInstance registry flow = Inr i"
    and r: "newEntries registry flows (AList.update (ev_Name flow) i entries) = Inr r"
    by (auto simp: bindR_Inr_iff)
  show ?case using 2(1)[OF r] i by (auto simp: update_conv' find_snoc split: option.splits)
qed simp

lemma newEntries_set:
  "newEntries registry flows entries = Inr r \<Longrightarrow> (n, c) \<in> set r \<Longrightarrow>
   (n, c) \<in> set entries \<or> (\<exists>f \<in> set flows. ev_Name f = n \<and> newInstance registry f = Inr c)"
proof (induction registry flows entries rule: newEntries.induct)
  case (2 registry flow flows entries)
  then obtain i where i: "newInstance registry flow = Inr i"
    and r: "newEntries registry flows (AList.update (ev_Name flow) i entries) = Inr r"
    by (auto simp: bindR_Inr_iff)
  show ?case using 2(1)[OF r 2(3)] i set_update_subset[of "ev_Name flow" i entries] by auto
qed simp

text \<open>The repositories of the two kinds on this host keep the contract; those of the remote kinds give remote environments.\<close>

lemma registry_ensured:
  assumes "newInstance (registry_of cp ld d users rk) flow = Inr c" "er_Ensure c req h = (Inr e, t)"
  shows "(\<exists>re. e = EnvRemote re) \<or>
    au_session (ec_authorization req) = Some (environment_session e) \<and> er_WillBeAccepted c req = Inr True"
proof -
  consider (local) r where "c = localEnvOps cp ld d r" | (dummy) r where "c = dummyEnvOps r" | (remote) ops where "c = remoteEnvOps ops"
    using assms(1) by (auto simp: newInstance_def registry_of_def bindR_Inr_iff split: option.splits env_conf.splits)
  then show ?thesis
  proof cases
    case remote
    then show ?thesis using assms(2) by (auto simp: remoteEnvOps_def wrapE_def bindE_Inr_iff returnE_def)
  qed (use assms(2) localRepository.ensured dummyRepository.ensured in blast)+
qed

lemma facade_entry:
  assumes "NewRepositoryFacade registry (Some flows) = Inr entries" "envFacade_Ensure entries req h = (Inr e, t)"
  obtains c f where "map_of entries (au_flow (ec_authorization req)) = Some c" "er_Ensure c req h = (Inr e, t)"
    "find (\<lambda>f. ev_Name f = au_flow (ec_authorization req)) (rev flows) = Some f" "newInstance registry f = Inr c"
proof -
  obtain c where c: "map_of entries (au_flow (ec_authorization req)) = Some c" "er_Ensure c req h = (Inr e, t)"
    using assms(2) by (auto simp: envFacade_Ensure_def throwE_def split: option.splits)
  have "newEntries registry flows [] = Inr entries" using assms(1) by (simp add: NewRepositoryFacade_def)
  from newEntries_map[OF this, of "au_flow (ec_authorization req)"] c show thesis
    by (auto split: option.splits sum.splits intro: that)
qed

text \<open>What the service gets for an authorization, of every kind.\<close>

definition ensuredFor :: "('k, 'k environment) entries \<Rightarrow> 'k env_context \<Rightarrow> 'k environment \<Rightarrow> bool" where
  "ensuredFor entries req env \<longleftrightarrow>
     (case env of
        EnvRemote _ \<Rightarrow> True
      | _ \<Rightarrow> au_session (ec_authorization req) = Some (environment_session env) \<and> envFacade_WillBeAccepted entries req = Inr True)"

lemma facade_ensured:
  assumes "NewRepositoryFacade (registry_of cp ld d users rk) (Some flows) = Inr entries" "envFacade_Ensure entries req h = (Inr e, t)"
  shows "ensuredFor entries req e"
proof -
  obtain c f where c: "map_of entries (au_flow (ec_authorization req)) = Some c" "er_Ensure c req h = (Inr e, t)"
    "newInstance (registry_of cp ld d users rk) f = Inr c"
    by (rule facade_entry[OF assms])
  from registry_ensured[OF c(3,2)] c(1) show ?thesis
    by (auto simp: ensuredFor_def envFacade_WillBeAccepted_def split: environment.splits)
qed

end
