(* ===== verification/LocalEnvExample.thy ===== *)
theory LocalEnvExample
  imports LocalEnvProps
begin

section \<open>The local environments on a concrete host\<close>

text \<open>
  The accounts of \<open>exRepo\<close>, one user \<^verbatim>\<open>u\<close>, and the session store of \<open>exLive\<close> with one session, on one world.
\<close>

definition flagChar :: "bool \<Rightarrow> char" where
  "flagChar b = (if b then CHR ''1'' else CHR ''0'')"

definition exLocalDeps :: local_deps where
  "exLocalDeps = \<lparr>
     ld_encode = (\<lambda>lt. flagChar (lt_Managed lt) # flagChar (lt_DeleteOnDispose lt) # flagChar (lt_DeleteHomeDirOnDispose lt) #
        flagChar (lt_KillProcessesOnDispose lt) # flagChar (lt_PortForwardingAllowed lt) #
        (case lt_Uid lt of None \<Rightarrow> [] | Some i \<Rightarrow> formatUint32 i) @ CHR '':'' # lt_Name lt),
     ld_decode = (\<lambda>t. case t of
         m # del # home # kill # fwd # rest \<Rightarrow>
           (case bytes_splitN (CHR '':'') 2 rest of
              [i, n] \<Rightarrow> Some \<lparr>lt_Name = n, lt_Uid = map_option of_nat (parse_uint 32 i), lt_Managed = (m = CHR ''1''),
                lt_DeleteOnDispose = (del = CHR ''1''), lt_DeleteHomeDirOnDispose = (home = CHR ''1''),
                lt_KillProcessesOnDispose = (kill = CHR ''1''), lt_PortForwardingAllowed = (fwd = CHR ''1'')\<rparr>
            | _ \<Rightarrow> None)
       | _ \<Rightarrow> None)\<rparr>"

lemma exLocalDeps_ok: "local_deps_ok exLocalDeps"
proof -
  have "ld_decode exLocalDeps (ld_encode exLocalDeps lt) = Some lt" for lt
  proof (cases "lt_Uid lt")
    case None
    then show ?thesis by (cases lt) (simp add: exLocalDeps_def flagChar_def numeral_2_eq_2 parse_uint_def)
  next
    case (Some i)
    have "CHR '':'' \<notin> set (formatUint32 i)"
      unfolding formatUint32_def by (rule not_digit_notin_format) (simp add: is_digit_def)
    moreover have "parse_uint 32 (formatUint32 i) = Some (unat i)"
      unfolding formatUint32_def by (rule parse_format_uint) (use unsigned_less[of i, where 'a = nat] in simp)
    ultimately show ?thesis using Some by (cases lt) (simp add: exLocalDeps_def flagChar_def numeral_2_eq_2)
  qed
  then show ?thesis by (auto simp: local_deps_ok_def) (simp add: exLocalDeps_def)
qed

definition exEnvHost :: host where
  "exEnvHost = \<lparr>ho_world = world.truncate exLive, ho_users = world.more exRepo, ho_store = world.more exLive\<rparr>"

definition exContext :: "bool env_context" where
  "exContext = \<lparr>ec_authorization = \<lparr>au_details = DNone, au_remote = None, au_envVars = [], au_flow = ''f'',
     au_session = Some exSession, au_sessionsPublicKey = None\<rparr>, ec_remote = (''u'', ''h'')\<rparr>"

definition exUserTemplate :: "bool user_requirement_template" where
  "exUserTemplate = \<lparr>ut_Name = Some (\<lambda>_. Inr ''u''), ut_DisplayName = Some (\<lambda>_. Inr ''d''), ut_Uid = None,
     ut_Group = \<lparr>gt_Gid = None, gt_Name = Some (\<lambda>_. Inr ''g'')\<rparr>, ut_Groups = [\<lparr>gt_Gid = None, gt_Name = Some (\<lambda>_. Inr ''g'')\<rparr>],
     ut_Shell = Some (\<lambda>_. Inr ''/s''), ut_HomeDir = Some (\<lambda>_. Inr ''/h''), ut_Skel = None\<rparr>"

definition exLocalRepository :: "bool \<Rightarrow> bool local_repository" where
  "exLocalRepository manage = \<lparr>lr_flow = ''f'', lr_conf =
     \<lparr>el_User = exUserTemplate, el_LoginAllowed = (\<lambda>_. Inr True), el_CreateIfAbsent = (\<lambda>_. Inr manage),
      el_UpdateIfDifferent = (\<lambda>_. Inr manage),
      el_Dispose = \<lparr>ld_DeleteManagedUser = (\<lambda>_. Inr True), ld_DeleteManagedUserHomeDir = (\<lambda>_. Inr False),
        ld_KillManagedUserProcesses = (\<lambda>_. Inr False)\<rparr>,
      el_Banner = None, el_PortForwardingAllowed = (\<lambda>_. Inr True)\<rparr>\<rparr>"

definition exUser :: user where
  "exUser = \<lparr>us_Name = ''u'', us_DisplayName = ''d'', us_Uid = 5, us_Group = \<lparr>gr_Gid = 7, gr_Name = ''g''\<rparr>,
     us_Groups = [\<lparr>gr_Gid = 7, gr_Name = ''g''\<rparr>], us_Shell = ''/s'', us_HomeDir = ''/h''\<rparr>"

lemmas exRepository_eval = exLocalRepository_def exUserTemplate_def exContext_def
  getEnsureOptsOf_def canCreateOrUpdate_def

lemma exEnvHost_views: "storeOf exEnvHost = exLive" "world.more (usersOf exEnvHost) = world.more exRepo"
  by (simp_all add: exEnvHost_def storeOf_def usersOf_def world_split) (simp add: world.defs)

lemma exEnvHost_lookup: "ho_users h = ho_users exEnvHost \<Longrightarrow> LookupByName (usersOf h) ''u'' = Inr exUser"
  by (simp add: usersOf_def exEnvHost_def LookupByName_def refToUser_def lookupGroupById_def groupsOf_def refAndGroupsToUser_def
      refToGroup_def world.defs ex_defs List.map_filter_simps exUser_def)

text \<open>\<^verbatim>\<open>Ensure\<close> on the example host stores the token of a user who is there, whether or not it may create users.\<close>

lemma exEnvHost_token: "EnvironmentToken exDeps exSession (storeOf exEnvHost) = (Inr [], exLive)"
  by (simp add: EnvironmentToken_def exEnvHost_views getToken_quiet exLive_frame exSession_def exStore_file exLive_get)

lemma exEnsuredUser:
  assumes "ho_users h = ho_users exEnvHost"
  shows "ensureUserByTask exNoCopy (exLocalRepository True) req \<lparr>leo_createIfAbsent = True, leo_updateIfDifferent = True\<rparr> h =
     (Inr (exUser, EnsureResultUnchanged), h)"
proof -
  have h: "usersOf h = world.extend (ho_world h) (world.more exRepo)" using assms by (simp add: usersOf_def exEnvHost_def)
  have "ensurePreChecks (usersOf h) (Requirement_OrDefaults
      \<lparr>rq_Name = ''u'', rq_DisplayName = ''d'', rq_Uid = None, rq_Group = \<lparr>gq_Gid = None, gq_Name = ''g''\<rparr>,
       rq_Groups = [\<lparr>gq_Gid = None, gq_Name = ''g''\<rparr>], rq_Shell = ''/s'', rq_HomeDir = ''/h'', rq_Skel = []\<rparr>) opts = Inr (None, Some exUser)" for opts
    by (simp add: ensurePreChecks_def isRequirementFulfilled_def lookupByRequirement_def Requirement_OrDefaults_def
        GroupRequirement_IsZero_def Requirement_doesFulfilRef_def lookupGroupByRequirement_def fulfilsGroup_def
        GroupRequirement_doesFulfilRef_def groupsFulfilled_def members_def refToUser_def lookupGroupById_def groupsOf_def
        refAndGroupsToUser_def refToGroup_def h world.defs ex_defs List.map_filter_simps exUser_def)
  then show ?thesis
    by (simp add: ensureUserByTask_def UserRequirementTemplate_Render_def renderOptional_def GroupRequirementTemplate_Render_def
        String_Render_def exRepository_eval local_ensureUser_def bindE_def liftE_def mapErrE_def viaUsers_def Ensure_def Let_def)
qed

lemma exEnsuredEnv_at:
  assumes "ho_users h = ho_users exEnvHost" "writable exDeps [''s''] ''f'' [] FsFileEnvironmentToken (storeOf h)"
    and "EnvironmentToken exDeps sess (storeOf h) = (Inr [], s)" "ss_flow sess = ''f''" "ss_id sess = []"
    and "au_session (ec_authorization req) = Some sess"
  obtains lt t where "local_Ensure exNoCopy exLocalDeps exDeps (exLocalRepository m) req h = (Inr (newLocalEnv exUser sess True lt), t)"
    "ho_users t = ho_users exEnvHost" "quiet (storeOf t)"
proof -
  define lt where "lt = \<lparr>lt_Name = ''u'', lt_Uid = Some 5, lt_Managed = m, lt_DeleteOnDispose = m,
     lt_DeleteHomeDirOnDispose = False, lt_KillProcessesOnDispose = False, lt_PortForwardingAllowed = True\<rparr>"
  have n: "newLocalToken (exLocalRepository m) exUser req m = Inr lt"
    by (simp add: newLocalToken_def exRepository_eval exUser_def lt_def)
  have "quiet (storeOf h)" using assms(2) by (simp add: writable_def)
  then obtain s2 where s2: "setToken exDeps sess FsFileEnvironmentToken (ld_encode exLocalDeps lt) (storeOf h) = (Inr (), s2)" "quiet s2"
    using setToken_quiet[of exDeps "[''s'']" sess FsFileEnvironmentToken "storeOf h" "ld_encode exLocalDeps lt"]
      assms(2,4,5) exLocalDeps_ok wrote_fields(1)
    by (auto simp: local_deps_ok_def)
  note f = local_FindBySession_empty[OF assms(3)]
  have lk: "lookupUserBy (exLocalRepository m) req h = (Inr exUser, h)"
    by (simp add: lookupUserBy_def lookupByName_def exRepository_eval String_Render_def bindE_def liftE_def viaUsers_def
        exEnvHost_lookup[OF assms(1)])
  have v: "viaStore EErrSession (SetEnvironmentToken exDeps sess (ld_encode exLocalDeps lt)) h = (Inr (), putStore s2 h)"
    using s2(1) by (simp add: viaStore_def SetEnvironmentToken_def)
  have u: "freshUser exNoCopy (exLocalRepository m) req \<lparr>leo_createIfAbsent = m, leo_updateIfDifferent = m\<rparr> h = (Inr exUser, h)"
    using lk exEnsuredUser[OF assms(1)] by (cases m) (simp_all add: freshUser_def canCreateOrUpdate_def bindE_def returnE_def)
  have "ensuredAnew exNoCopy exLocalDeps exDeps (exLocalRepository m) req sess (newLocalEnv exUser sess True lt) h (putStore s2 h)"
    unfolding ensuredAnew_def
    by (rule exI[of _ "\<lparr>leo_createIfAbsent = m, leo_updateIfDifferent = m\<rparr>"], rule exI[of _ exUser], rule exI[of _ h], rule exI[of _ lt])
      (use n u v in \<open>simp add: canCreateOrUpdate_def, simp add: exLocalRepository_def getEnsureOptsOf_def lt_def\<close>)
  then have "local_Ensure exNoCopy exLocalDeps exDeps (exLocalRepository m) req h = (Inr (newLocalEnv exUser sess True lt), putStore s2 h)"
    by (rule local_Ensure_anew[OF assms(6) _ f, rotated]) (simp add: exLocalRepository_def)
  from that[OF this] show ?thesis using s2(2) assms(1) by simp
qed

lemma exEnsuredEnv:
  obtains env t where "local_Ensure exNoCopy exLocalDeps exDeps (exLocalRepository m) exContext exEnvHost = (Inr env, t)"
    "le_user env = exUser" "le_session env = exSession" "ho_users t = ho_users exEnvHost" "w_fault (ho_world t) = (\<lambda>_ _. False)"
proof -
  have c: "au_session (ec_authorization exContext) = Some exSession" "ss_flow exSession = ''f''" "ss_id exSession = []"
    by (simp_all add: exContext_def exSession_def)
  have w: "writable exDeps [''s''] ''f'' [] FsFileEnvironmentToken (storeOf exEnvHost)"
    using exLive_writable[of FsFileEnvironmentToken] by (simp add: exEnvHost_views)
  obtain lt t where t: "local_Ensure exNoCopy exLocalDeps exDeps (exLocalRepository m) exContext exEnvHost = (Inr (newLocalEnv exUser exSession True lt), t)"
    "ho_users t = ho_users exEnvHost" "quiet (storeOf t)"
    by (rule exEnsuredEnv_at[OF refl w exEnvHost_token c(2,3,1)])
  from that[OF t(1)] t(2,3) show ?thesis by (simp add: quiet_def)
qed

subsection \<open>Witnesses\<close>

theorem local_environment_restored_witness:
  "\<exists>env t. local_Ensure exNoCopy exLocalDeps exDeps (exLocalRepository False) exContext exEnvHost = (Inr env, t) \<and>
     le_user env = exUser \<and> local_FindBySession exLocalDeps exDeps exSession None t = (Inr env, t)"
proof -
  obtain env t where e: "local_Ensure exNoCopy exLocalDeps exDeps (exLocalRepository False) exContext exEnvHost = (Inr env, t)"
    "le_user env = exUser" "le_session env = exSession" "ho_users t = ho_users exEnvHost" "w_fault (ho_world t) = (\<lambda>_ _. False)"
    by (rule exEnsuredEnv)
  have "LookupByName (usersOf t) (us_Name exUser) = Inr exUser" using exEnvHost_lookup[OF e(4)] by (simp add: exUser_def)
  then show ?thesis
    using local_environment_restored[OF exLocalDeps_ok e(1), of None] e by (simp add: exUser_def)
qed

theorem looked_up_user_survives_witness:
  "\<exists>env t t2 r. local_Ensure exNoCopy exLocalDeps exDeps (exLocalRepository False) exContext exEnvHost = (Inr env, t) \<and>
     local_Dispose exDeps env t = (r, t2) \<and> r \<noteq> Inr True \<and> ho_users t2 = ho_users exEnvHost"
proof -
  obtain env t where e: "local_Ensure exNoCopy exLocalDeps exDeps (exLocalRepository False) exContext exEnvHost = (Inr env, t)"
    "le_session env = exSession" by (rule exEnsuredEnv)
  obtain r t2 where d: "local_Dispose exDeps env t = (r, t2)" by fastforce
  have "getEnsureOptsOf (exLocalRepository False) exContext = Inr \<lparr>leo_createIfAbsent = False, leo_updateIfDifferent = False\<rparr>"
    by (simp add: exRepository_eval)
  from looked_up_user_survives[OF e(1) _ this _ d] exEnvHost_token e d show ?thesis by (auto simp: canCreateOrUpdate_def)
qed

theorem existing_user_counts_as_managed_witness:
  "\<exists>env t. local_Ensure exNoCopy exLocalDeps exDeps (exLocalRepository True) exContext exEnvHost = (Inr env, t) \<and>
     le_user env = exUser \<and> le_deleteUserOnDispose env"
proof -
  obtain env t where e: "local_Ensure exNoCopy exLocalDeps exDeps (exLocalRepository True) exContext exEnvHost = (Inr env, t)"
    by (rule exEnsuredEnv)
  have o: "getEnsureOptsOf (exLocalRepository True) exContext = Inr \<lparr>leo_createIfAbsent = True, leo_updateIfDifferent = True\<rparr>"
    by (simp add: exRepository_eval)
  have "au_session (ec_authorization exContext) = Some exSession" by (simp add: exContext_def)
  from existing_user_counts_as_managed[OF this exEnvHost_token o _ exEnsuredUser[OF refl] _ e] e
  show ?thesis by (auto simp: canCreateOrUpdate_def exLocalRepository_def)
qed

text \<open>The accounts of \<open>exRepo\<close> in their files, for a deletion.\<close>

definition exDeleteHost :: host where
  "exDeleteHost = \<lparr>ho_world = world.truncate exRepo, ho_users = world.more exRepo, ho_store = world.more exStore\<rparr>"

theorem managed_user_removed_witness:
  "\<exists>t f s u. local_Dispose exDeps \<lparr>le_session = exSession, le_user = exUser, le_portForwardingAllowed = True,
       le_deleteUserOnDispose = True, le_deleteUserHomeDirOnDispose = False, le_killUserProcessesOnDispose = False\<rparr> exDeleteHost = (Inr True, t) \<and>
     openAndLoad exRepo = (Inr f, s) \<and> user_deleted 5 (us_Name (u :: user)) s (usersOf t)"
proof -
  let ?env = "\<lparr>le_session = exSession, le_user = exUser, le_portForwardingAllowed = True,
       le_deleteUserOnDispose = True, le_deleteUserHomeDirOnDispose = False, le_killUserProcessesOnDispose = False\<rparr>"
  have u: "usersOf exDeleteHost = exRepo" by (simp add: usersOf_def exDeleteHost_def world_split)
  obtain t1 where t1: "DeleteById 5 (Some \<lparr>do_HomeDir = Some False, do_KillProcesses = Some False\<rparr>) exRepo = (Inr (), t1)"
      "w_fault t1 = (\<lambda>_ _. False)" "fs_get (w_files t1) ''/s/f/U/et'' = None"
    using exDeleted by blast
  let ?h = "putUsers t1 exDeleteHost"
  have "fileOf exDeps (ss_flow exSession) (ss_id exSession) FsFileEnvironmentToken (storeOf ?h) =
      fileOf exDeps ''f'' [] FsFileEnvironmentToken exStore"
    by (simp add: fileOf_def storeOf_def putUsers_def exDeleteHost_def world.defs exSession_def exStore_def)
  then have fn: "fileOf exDeps (ss_flow exSession) (ss_id exSession) FsFileEnvironmentToken (storeOf ?h) = ''/s/f/U/et''"
    by (simp add: exStore_file) (simp add: path_of_def)
  have "SetEnvironmentToken exDeps exSession [] (storeOf ?h) = (Inr (), storeOf ?h)"
    using t1(2,3) by (simp add: SetEnvironmentToken_def setToken_def sm_defs fn os_Remove_def)
  then have "local_Dispose exDeps ?env exDeleteHost = (Inr True, ?h)"
    using t1(1) by (simp add: local_Dispose_def local_dispose_def bindE_def tryE_def mapErrE_def returnE_def viaUsers_def viaStore_def u exUser_def)
  from managed_user_removed[OF this] this u show ?thesis by (auto simp: exUser_def)
qed

end
