(* ===== verification/EnvProps.thy ===== *)
theory EnvProps
  imports EnvFacade LocalEnvExample
begin

section \<open>Properties of the environments of all flows\<close>

lemma registry_kind:
  assumes "newInstance (registry_of cp ld d users rk) f = Inr c" "er_Ensure c req h = (Inr e, t)"
  shows "case ev_Environment f of
      Some (EnvConfLocal conf) \<Rightarrow> (\<exists>r env. e = EnvLocal r env \<and> lr_flow r = ev_Name f \<and> Some (lr_conf r) = conf)
    | Some (EnvConfDummy conf) \<Rightarrow> (\<exists>r y. e = EnvDummy r y \<and> dr_flow r = ev_Name f \<and> dr_conf r = conf)
    | Some (EnvConfDocker conf) \<Rightarrow> (\<exists>ops re. rk_docker rk conf (ev_Name f) = Inr ops \<and> e = EnvRemote re \<and> er_Ensure ops req h = (Inr re, t))
    | Some (EnvConfKubernetes conf) \<Rightarrow> (\<exists>ops re. rk_kubernetes rk conf (ev_Name f) = Inr ops \<and> e = EnvRemote re \<and> er_Ensure ops req h = (Inr re, t))
    | _ \<Rightarrow> False"
  using assms
  by (auto simp: newInstance_def registry_of_def bindR_Inr_iff NewLocalRepository_def localEnvOps_def dummyEnvOps_def remoteEnvOps_def wrapE_def
      bindE_Inr_iff returnE_def split: option.splits env_conf.splits)

text \<open>
  the environment that the service gets for an authorization is one of the last flow of the configuration that has the
  authorization's flow name, whatever its kind, and for the kinds on this host it belongs to the authorization's session and its
  repository accepted the request. The authorizers of flows with one name are asked from the first on.
\<close>

theorem environment_of_last_flow:
  assumes "NewRepositoryFacade (registry_of cp ld d users rk) (Some flows) = Inr entries"
    and "envFacade_Ensure entries req h = (Inr e, t)"
  shows "ensuredFor entries req e \<and>
    (\<exists>f. find (\<lambda>f. ev_Name f = au_flow (ec_authorization req)) (rev flows) = Some f \<and>
      (case ev_Environment f of
         Some (EnvConfLocal conf) \<Rightarrow> (\<exists>r env. e = EnvLocal r env \<and> lr_flow r = ev_Name f \<and> Some (lr_conf r) = conf)
       | Some (EnvConfDummy conf) \<Rightarrow> (\<exists>r y. e = EnvDummy r y \<and> dr_flow r = ev_Name f \<and> dr_conf r = conf)
       | Some (EnvConfDocker conf) \<Rightarrow> (\<exists>ops re. rk_docker rk conf (ev_Name f) = Inr ops \<and> e = EnvRemote re \<and> er_Ensure ops req h = (Inr re, t))
       | Some (EnvConfKubernetes conf) \<Rightarrow> (\<exists>ops re. rk_kubernetes rk conf (ev_Name f) = Inr ops \<and> e = EnvRemote re \<and> er_Ensure ops req h = (Inr re, t))
       | _ \<Rightarrow> False))"
proof -
  obtain c f where c: "er_Ensure c req h = (Inr e, t)"
    "find (\<lambda>f. ev_Name f = au_flow (ec_authorization req)) (rev flows) = Some f" "newInstance (registry_of cp ld d users rk) f = Inr c"
    by (rule facade_entry[OF assms])
  from facade_ensured[OF assms] c(2) registry_kind[OF c(3,1)] show ?thesis by blast
qed

definition exRemoteKinds :: "(bool, unit, unit) remote_kinds" where
  "exRemoteKinds = \<lparr>rk_docker = (\<lambda>_ _. Inl (EErrText [])), rk_kubernetes = (\<lambda>_ _. Inl (EErrText []))\<rparr>"

definition exFlows :: "(bool, unit, unit) env_conf env_flow list" where
  "exFlows =
     [\<lparr>ev_Name = ''f'', ev_Environment = Some (EnvConfDummy \<lparr>ey_ExitCode = (\<lambda>_. Inr 0), ey_Banner = None\<rparr>)\<rparr>,
      \<lparr>ev_Name = ''g'', ev_Environment = Some (EnvConfDummy \<lparr>ey_ExitCode = (\<lambda>_. Inr 1), ey_Banner = None\<rparr>)\<rparr>,
      \<lparr>ev_Name = ''f'', ev_Environment = Some (EnvConfLocal (Some (lr_conf (exLocalRepository False))))\<rparr>]"

theorem environment_of_last_flow_witness:
  "\<exists>entries e t. NewRepositoryFacade (registry_of exNoCopy exLocalDeps exDeps (Inr ()) exRemoteKinds) (Some exFlows) = Inr entries \<and>
     envFacade_Ensure entries exContext exEnvHost = (Inr e, t) \<and> environment_session e = exSession \<and> (\<exists>r env. e = EnvLocal r env)"
proof -
  obtain env t where e: "local_Ensure exNoCopy exLocalDeps exDeps (exLocalRepository False) exContext exEnvHost = (Inr env, t)"
    "le_session env = exSession" by (rule exEnsuredEnv)
  have r: "\<lparr>lr_flow = ''f'', lr_conf = lr_conf (exLocalRepository False)\<rparr> = exLocalRepository False"
    by (simp add: exLocalRepository_def)
  obtain entries where n: "NewRepositoryFacade (registry_of exNoCopy exLocalDeps exDeps (Inr ()) exRemoteKinds) (Some exFlows) = Inr entries"
    by (simp add: NewRepositoryFacade_def exFlows_def newInstance_def registry_of_def NewLocalRepository_def)
  then have m: "map_of entries ''f'' = Some (localEnvOps exNoCopy exLocalDeps exDeps (exLocalRepository False))"
    by (auto simp: NewRepositoryFacade_def exFlows_def newInstance_def registry_of_def NewLocalRepository_def r)
  have fl: "au_flow (ec_authorization exContext) = ''f''" by (simp add: exContext_def)
  have en: "envFacade_Ensure entries exContext exEnvHost = (Inr (EnvLocal (exLocalRepository False) env), t)"
    using e(1) by (simp add: envFacade_Ensure_def fl m localEnvOps_def wrapE_def bindE_def returnE_def)
  from environment_of_last_flow[OF n en] n en show ?thesis by (auto simp: exContext_def ensuredFor_def)
qed

end
