(* ===== verification/LocalAuthorizer.thy ===== *)
theory LocalAuthorizer
  imports AuthorizerContract
begin

section \<open>The authorizer of local users (pkg/authorization/local-authorizer.go)\<close>

text \<open>
  The build without PAM (\<^verbatim>\<open>local-authorizer_without_pam.go\<close>). The templates of the configuration are functions of the
  request, and of the user for the files of authorized keys. \<open>lo_users\<close> is the user repository, which is only read.
\<close>

record 'k local_conf =
  lc_AuthorizedKeys :: "('k request \<Rightarrow> user \<Rightarrow> auth_err + bytes) list"
  lc_PasswordAllowed :: "'k request \<Rightarrow> auth_err + bool"
  lc_InteractiveAllowed :: "'k request \<Rightarrow> auth_err + bool"
  lc_EmptyAllowed :: "'k request \<Rightarrow> auth_err + bool"
  lc_PamService :: bytes

record 'k local_authorizer =
  lo_flow :: bytes
  lo_conf :: "'k local_conf"
  lo_users :: repo

text \<open>\<^verbatim>\<open>NewLocal\<close>; \<open>users\<close> is what \<^verbatim>\<open>user.DefaultRepositoryProvider.Create\<close> answers.\<close>

definition NewLocal :: "auth_err + repo \<Rightarrow> bytes \<Rightarrow> 'k local_conf option \<Rightarrow> auth_err + 'k local_authorizer" where
  "NewLocal users flow conf =
     (case conf of
        None \<Rightarrow> Inl (AErrTyped TConfig ''nil configuration'')
      | Some c \<Rightarrow> bindR users (\<lambda>r. Inr \<lparr>lo_flow = flow, lo_conf = c, lo_users = r\<rparr>))"

text \<open>\<^verbatim>\<open>common.MapSliceErr\<close>: the first error is the result.\<close>

fun MapSliceErr :: "('a \<Rightarrow> 'e + 'b) \<Rightarrow> 'a list \<Rightarrow> 'e + 'b list" where
  "MapSliceErr f [] = Inr []"
| "MapSliceErr f (x # xs) = bindR (f x) (\<lambda>y. bindR (MapSliceErr f xs) (\<lambda>ys. Inr (y # ys)))"

definition localCandidate :: "'k local_authorizer \<Rightarrow> 'k request \<Rightarrow> user \<Rightarrow> 'k authorization" where
  "localCandidate lo req u =
     \<lparr>au_details = DLocal u, au_remote = Some (ar_remote req), au_envVars = [], au_flow = lo_flow lo,
      au_session = None, au_sessionsPublicKey = None\<rparr>"

definition local_getAuthorizedKeysFilesOf :: "'k local_authorizer \<Rightarrow> 'k request \<Rightarrow> user \<Rightarrow> auth_err + bytes list" where
  "local_getAuthorizedKeysFilesOf lo req u = MapSliceErr (\<lambda>tmpl. tmpl req u) (lc_AuthorizedKeys (lo_conf lo))"

definition local_isAuthorizedViaPublicKey :: "'k adeps \<Rightarrow> 'k local_authorizer \<Rightarrow> 'k request \<Rightarrow> user \<Rightarrow> bool am" where
  "local_isAuthorizedViaPublicKey ad lo req u =
     bindE (liftE (local_getAuthorizedKeysFilesOf lo req u)) (\<lambda>files.
     if files = [] then returnE False
     else DoWithEachAuthorizedKey ad False (matchesKey (ar_key req)) False files)"

definition local_ensureSessionFor :: "'k adeps \<Rightarrow> 'k deps \<Rightarrow> 'k local_authorizer \<Rightarrow> 'k request \<Rightarrow> user \<Rightarrow> fs_session am" where
  "local_ensureSessionFor ad d lo req u =
     ensureSession d (lo_flow lo) req (ad_localEncode ad (us_Name u, Some (us_Uid u), []))"

definition local_AuthorizePublicKey :: "'k adeps \<Rightarrow> 'k deps \<Rightarrow> 'k local_authorizer \<Rightarrow> 'k request \<Rightarrow> 'k answer am" where
  "local_AuthorizePublicKey ad d lo req =
     (if lc_AuthorizedKeys (lo_conf lo) = [] then forbidden req
      else case LookupByName (lo_users lo) (fst (ar_remote req)) of
          Inl e \<Rightarrow> if e = ErrNoSuchUser then forbidden req else throwE (AErrUser e)
        | Inr u \<Rightarrow>
            let candidate = localCandidate lo req u in
            bindE (liftE (ar_validate req candidate)) (\<lambda>ok.
            if \<not> ok then forbidden req
            else bindE (findSessionByKey d (lo_flow lo) req) (\<lambda>found.
              case found of
                Some sess \<Rightarrow>
                  returnE (Authorized (candidate\<lparr>au_session := Some sess, au_sessionsPublicKey := Some (ar_key req)\<rparr>))
              | None \<Rightarrow>
                  bindE (local_isAuthorizedViaPublicKey ad lo req u) (\<lambda>ok.
                  if \<not> ok then forbidden req
                  else bindE (local_ensureSessionFor ad d lo req u) (\<lambda>sess.
                    returnE (Authorized (candidate\<lparr>au_session := Some sess\<rparr>)))))))"

definition local_validatePassword :: "'k local_authorizer \<Rightarrow> bytes \<Rightarrow> 'k request \<Rightarrow> auth_err + bool" where
  "local_validatePassword lo password req =
     (if length password = 0
      then bindR (lc_EmptyAllowed (lo_conf lo) req) (\<lambda>allowed. if \<not> allowed then Inr False else Inr True)
      else Inr True)"

text \<open>
  \<^verbatim>\<open>checkPasswordValueViaRepository\<close>: the name and the environment variables on success, \<open>None\<close> when the password
  is not accepted.
\<close>

definition checkPasswordValueViaRepository ::
    "'k adeps \<Rightarrow> 'k local_authorizer \<Rightarrow> 'k request \<Rightarrow> bytes \<Rightarrow> bytes \<Rightarrow> auth_err + (bytes \<times> env_vars) option" where
  "checkPasswordValueViaRepository ad lo req password username =
     bindR (local_validatePassword lo password req) (\<lambda>ok.
     if \<not> ok then Inr None
     else case ValidatePasswordByName (ad_crypts ad) (lo_users lo) username password of
         Inl e \<Rightarrow> Inl (AErrUser e)
       | Inr ok' \<Rightarrow> Inr (if ok' then Some (username, []) else None))"

definition assertNoPamServiceConfigured :: "'k local_authorizer \<Rightarrow> auth_err + unit" where
  "assertNoPamServiceConfigured lo =
     (if lc_PamService (lo_conf lo) \<noteq> [] then Inl (AErrMsg ''build without PAM support'') else Inr ())"

definition local_checkPassword :: "'k adeps \<Rightarrow> 'k local_authorizer \<Rightarrow> 'k request \<Rightarrow> bytes \<Rightarrow> auth_err + (bytes \<times> env_vars) option" where
  "local_checkPassword ad lo req username =
     bindR (assertNoPamServiceConfigured lo) (\<lambda>_.
     checkPasswordValueViaRepository ad lo req (ar_password req) username)"

definition local_checkInteractive :: "'k adeps \<Rightarrow> 'k local_authorizer \<Rightarrow> 'k request \<Rightarrow> bytes \<Rightarrow> auth_err + (bytes \<times> env_vars) option" where
  "local_checkInteractive ad lo req username =
     bindR (assertNoPamServiceConfigured lo) (\<lambda>_.
     bindR (ar_prompt req) (\<lambda>pass.
     checkPasswordValueViaRepository ad lo req pass username))"

text \<open>\<^verbatim>\<open>AuthorizePassword\<close> and \<^verbatim>\<open>AuthorizeInteractive\<close> differ in the setting that allows them and in the check.\<close>

definition local_authorizeWith ::
    "'k adeps \<Rightarrow> 'k deps \<Rightarrow> 'k local_authorizer \<Rightarrow> ('k request \<Rightarrow> auth_err + bool) \<Rightarrow>
     ('k request \<Rightarrow> bytes \<Rightarrow> auth_err + (bytes \<times> env_vars) option) \<Rightarrow> 'k request \<Rightarrow> 'k answer am" where
  "local_authorizeWith ad d lo allowed check req =
     bindE (liftE (allowed req)) (\<lambda>allowed.
     if \<not> allowed then forbidden req
     else bindE (liftE (check req (fst (ar_remote req)))) (\<lambda>r.
       case r of
         None \<Rightarrow> forbidden req
       | Some (username, ev) \<Rightarrow>
           (case LookupByName (lo_users lo) username of
              Inl e \<Rightarrow> if e = ErrNoSuchUser then forbidden req else throwE (AErrUser e)
            | Inr u \<Rightarrow>
                let candidate = (localCandidate lo req u)\<lparr>au_envVars := ev\<rparr> in
                bindE (liftE (ar_validate req candidate)) (\<lambda>ok.
                if \<not> ok then forbidden req
                else bindE (local_ensureSessionFor ad d lo req u) (\<lambda>sess.
                  returnE (Authorized (candidate\<lparr>au_session := Some sess\<rparr>)))))))"

definition local_AuthorizePassword :: "'k adeps \<Rightarrow> 'k deps \<Rightarrow> 'k local_authorizer \<Rightarrow> 'k request \<Rightarrow> 'k answer am" where
  "local_AuthorizePassword ad d lo req =
     local_authorizeWith ad d lo (lc_PasswordAllowed (lo_conf lo)) (local_checkPassword ad lo) req"

definition local_AuthorizeInteractive :: "'k adeps \<Rightarrow> 'k deps \<Rightarrow> 'k local_authorizer \<Rightarrow> 'k request \<Rightarrow> 'k answer am" where
  "local_AuthorizeInteractive ad d lo req =
     local_authorizeWith ad d lo (lc_InteractiveAllowed (lo_conf lo)) (local_checkInteractive ad lo) req"

definition local_restoreFound ::
    "'k deps \<Rightarrow> 'k local_authorizer \<Rightarrow> fs_session \<Rightarrow> bool option option \<Rightarrow> env_vars \<Rightarrow> user_err + user \<Rightarrow> 'k answer am" where
  "local_restoreFound d lo sess opts ev found =
     (case found of
        Inl e \<Rightarrow> if e = ErrNoSuchUser then cleanFromSessionOnly d sess opts else throwE (AErrUser e)
      | Inr u \<Rightarrow>
          bindE (restoredRemote d sess) (\<lambda>remote.
          returnE (Authorized \<lparr>au_details = DLocal u, au_remote = Some remote, au_envVars = ev, au_flow = lo_flow lo,
            au_session = Some sess, au_sessionsPublicKey = None\<rparr>)))"

definition local_RestoreFromSession ::
    "'k adeps \<Rightarrow> 'k deps \<Rightarrow> 'k local_authorizer \<Rightarrow> fs_session \<Rightarrow> bool option option \<Rightarrow> 'k answer am" where
  "local_RestoreFromSession ad d lo sess opts =
     (if ss_flow sess \<noteq> lo_flow lo then throwE AErrNoSuchAuthorization
      else bindE (sessE (AuthorizationToken d sess)) (\<lambda>tb.
        if tb = [] then throwE AErrNoSuchAuthorization
        else case ad_localDecode ad tb of
            None \<Rightarrow> throwE (AErrTyped TSystem ''cannot decode token'')
          | Some (name, uid, ev) \<Rightarrow>
              if name \<noteq> [] then local_restoreFound d lo sess opts ev (LookupByName (lo_users lo) name)
              else case uid of
                  Some i \<Rightarrow> local_restoreFound d lo sess opts ev (LookupById (lo_users lo) i)
                | None \<Rightarrow> throwE AErrNoSuchAuthorization))"

definition localOps :: "'k adeps \<Rightarrow> 'k deps \<Rightarrow> 'k local_authorizer \<Rightarrow> 'k authorizer_ops" where
  "localOps ad d lo =
     \<lparr>az_PublicKey = local_AuthorizePublicKey ad d lo, az_Password = local_AuthorizePassword ad d lo,
      az_Interactive = local_AuthorizeInteractive ad d lo, az_Restore = local_RestoreFromSession ad d lo\<rparr>"

subsection \<open>The contract\<close>

lemma localCandidate_fields [simp]:
  "au_flow (localCandidate lo req u) = lo_flow lo" "au_session (localCandidate lo req u) = None"
  "au_details (localCandidate lo req u) = DLocal u"
  by (simp_all add: localCandidate_def)

lemma local_viaKey_looks: "quiet s \<Longrightarrow> looks s (local_isAuthorizedViaPublicKey ad lo req u)"
  using DoWithEach_looks[of s]
  by (cases "local_getAuthorizedKeysFilesOf lo req u")
    (auto simp: local_isAuthorizedViaPublicKey_def looks_def bindE_def liftE_def returnE_def)

lemma local_ensure_fields:
  "quiet s \<Longrightarrow> local_ensureSessionFor ad d lo req u s = (Inr sess, t) \<Longrightarrow>
   ss_flow sess = lo_flow lo \<and> ss_remoteUser sess = fst (ar_remote req)"
  by (simp add: local_ensureSessionFor_def ensureSession_fields)

lemma local_publicKey_law: "loginLaw (lo_flow lo) (local_AuthorizePublicKey ad d lo)"
  unfolding local_AuthorizePublicKey_def Let_def
  by (rule loginLaw_lawful)
    (auto intro!: lawful_rules lawful_looks[OF findSessionByKey_looks] lawful_looks[OF local_viaKey_looks]
      dest: findSessionByKey_found local_ensure_fields)

lemma local_with_law: "loginLaw (lo_flow lo) (local_authorizeWith ad d lo allowed check)"
  unfolding local_authorizeWith_def Let_def
  by (rule loginLaw_lawful) (auto intro!: lawful_rules dest: local_ensure_fields)

lemma local_restore_law:
  "ss_flow sess \<noteq> lo_flow lo \<Longrightarrow> local_RestoreFromSession ad d lo sess opts s = (Inl AErrNoSuchAuthorization, s)"
  "local_RestoreFromSession ad d lo sess opts s = (Inr a, t) \<Longrightarrow>
     \<exists>au. a = Authorized au \<and> au_flow au = lo_flow lo \<and> au_session au = Some sess"
  by (auto simp: local_RestoreFromSession_def local_restoreFound_def cleanFromSessionOnly_def throwE_def returnE_def bindE_def
      split: if_splits sum.splits prod.splits option.splits)

interpretation localAuth: authorizer "lo_flow lo" "localOps ad d lo"
  by unfold_locales
    (simp_all add: localOps_def local_publicKey_law local_with_law local_restore_law local_AuthorizePassword_def[abs_def]
      local_AuthorizeInteractive_def[abs_def])

subsection \<open>Properties\<close>

lemma bindE_InrE:
  assumes "bindE m f s = (Inr y, t)"
  obtains x u where "m s = (Inr x, u)" "f x u = (Inr y, t)"
  using assms by (auto simp: bindE_def split: prod.splits sum.splits)

lemma forbidden_result [simp]: "forbidden req s \<noteq> (Inr (Authorized au), t)"
  by (simp add: forbidden_def returnE_def)

lemma localCandidate_keys [simp]: "au_sessionsPublicKey (localCandidate lo req u) = None"
  by (simp add: localCandidate_def)

text \<open>
  C10: A key opens a local account only if the user exists, the request validates, and one of two things holds: the key
  is stored in a valid session of the flow that this remote user created, and nothing changes; or no session has the key,
  and one of the files of authorized keys that the templates give for the user has it. The session of the login is of the
  flow and of this remote user either way.
\<close>

theorem local_key_accepted:
  assumes "quiet s" "local_AuthorizePublicKey ad d lo req s = (Inr (Authorized au), t)"
  shows "\<exists>u sess. LookupByName (lo_users lo) (fst (ar_remote req)) = Inr u \<and> au_details au = DLocal u \<and>
    ar_validate req (localCandidate lo req u) = Inr True \<and> au_session au = Some sess \<and>
    ss_flow sess = lo_flow lo \<and> ss_remoteUser sess = fst (ar_remote req) \<and>
    (case au_sessionsPublicKey au of
       Some key \<Rightarrow> key = ar_key req \<and> t = s \<and> keyStored d key (lo_flow lo) (ss_id sess) s = Inr True \<and>
         storedSession d (lo_flow lo) (ss_id sess) s = Inr sess \<and> stillValidAt d sess s = Inr True
     | None \<Rightarrow> requestSearch d (lo_flow lo) (fst (ar_remote req)) (keyStored d (ar_key req)) s = Inr None \<and>
         (\<exists>files f n. local_getAuthorizedKeysFilesOf lo req u = Inr files \<and> f \<in> set files \<and>
            fs_get (w_files s) f = Some n \<and> ar_key req \<in> set (keysOf (ad_parseAuthorizedKey ad) (n_content n))))"
proof -
  note r = assms(2)[unfolded local_AuthorizePublicKey_def Let_def]
  obtain u where u: "LookupByName (lo_users lo) (fst (ar_remote req)) = Inr u"
    using r by (auto simp: throwE_def split: if_splits sum.splits)
  let ?c = "localCandidate lo req u"
  obtain v where v: "ar_validate req ?c = Inr v" using r u by (auto simp: bindE_def liftE_def split: if_splits sum.splits)
  have vt: "v" using r u v by (auto simp: bindE_def liftE_def split: if_splits)
  define body where "body = (\<lambda>found. case found of
      Some sess \<Rightarrow> returnE (Authorized (?c\<lparr>au_session := Some sess, au_sessionsPublicKey := Some (ar_key req)\<rparr>))
    | None \<Rightarrow> bindE (local_isAuthorizedViaPublicKey ad lo req u) (\<lambda>ok.
        if \<not> ok then forbidden req
        else bindE (local_ensureSessionFor ad d lo req u) (\<lambda>sess. returnE (Authorized (?c\<lparr>au_session := Some sess\<rparr>)))))"
  have "bindE (findSessionByKey d (lo_flow lo) req) body s = (Inr (Authorized au), t)"
    using r u v vt by (simp add: body_def split: if_splits)
  then obtain found s' where f: "findSessionByKey d (lo_flow lo) req s = (Inr found, s')" "body found s' = (Inr (Authorized au), t)"
    by (rule bindE_InrE)
  then have ss: "s' = s" and rs: "requestSearch d (lo_flow lo) (fst (ar_remote req)) (keyStored d (ar_key req)) s = Inr found"
    by (auto simp: findSessionByKey_quiet[OF assms(1)] map_sum_Inr_iff)
  show ?thesis
  proof (cases found)
    case (Some sess)
    then show ?thesis using f u v vt ss findSessionByKey_found[OF assms(1), of d "lo_flow lo" req sess s]
      by (auto simp: body_def returnE_def)
  next
    case None
    obtain ok s2 where k: "local_isAuthorizedViaPublicKey ad lo req u s = (Inr ok, s2)"
      "(if \<not> ok then forbidden req else bindE (local_ensureSessionFor ad d lo req u)
         (\<lambda>sess. returnE (Authorized (?c\<lparr>au_session := Some sess\<rparr>)))) s2 = (Inr (Authorized au), t)"
      using f(2) None ss by (auto simp: body_def elim!: bindE_InrE)
    then have ok: "ok" by (auto split: if_splits)
    obtain sess where au: "au = ?c\<lparr>au_session := Some sess\<rparr>"
      using k(2) ok by (auto simp: returnE_def elim!: bindE_InrE)
    obtain files where fl: "local_getAuthorizedKeysFilesOf lo req u = Inr files"
      and de: "DoWithEachAuthorizedKey ad False (matchesKey (ar_key req)) False files s = (Inr True, s2)"
      using k(1) ok by (cases "local_getAuthorizedKeysFilesOf lo req u")
        (auto simp: local_isAuthorizedViaPublicKey_def bindE_def liftE_def returnE_def split: if_splits)
    have "s2 = s" using local_viaKey_looks[OF assms(1), of ad lo req u] k(1) by (simp add: looks_def)
    then have "local_ensureSessionFor ad d lo req u s = (Inr sess, t)"
      using k(2) ok au by (auto simp: returnE_def localCandidate_def elim!: bindE_InrE)
    from local_ensure_fields[OF assms(1) this]
    show ?thesis using u v vt au fl DoWithEach_match[OF assms(1) de] rs None by auto
  qed
qed

lemma local_authorizeWith_accepted:
  "local_authorizeWith ad d lo allowed check req s = (Inr (Authorized au), t) \<longleftrightarrow>
     allowed req = Inr True \<and>
     (\<exists>n ev u sess. check req (fst (ar_remote req)) = Inr (Some (n, ev)) \<and> LookupByName (lo_users lo) n = Inr u \<and>
        ar_validate req ((localCandidate lo req u)\<lparr>au_envVars := ev\<rparr>) = Inr True \<and>
        local_ensureSessionFor ad d lo req u s = (Inr sess, t) \<and>
        au = (localCandidate lo req u)\<lparr>au_envVars := ev, au_session := Some sess\<rparr>)"
proof (cases "allowed req = Inr True \<and> (\<exists>n ev u. check req (fst (ar_remote req)) = Inr (Some (n, ev)) \<and>
    LookupByName (lo_users lo) n = Inr u \<and> ar_validate req ((localCandidate lo req u)\<lparr>au_envVars := ev\<rparr>) = Inr True)")
  case True
  then obtain n ev u where c: "allowed req = Inr True" "check req (fst (ar_remote req)) = Inr (Some (n, ev))"
    "LookupByName (lo_users lo) n = Inr u" "ar_validate req ((localCandidate lo req u)\<lparr>au_envVars := ev\<rparr>) = Inr True" by blast
  show ?thesis
    by (cases "local_ensureSessionFor ad d lo req u s"; cases "fst (local_ensureSessionFor ad d lo req u s)")
      (auto simp: local_authorizeWith_def c bindE_def liftE_def returnE_def)
next
  case False
  then have "local_authorizeWith ad d lo allowed check req s \<noteq> (Inr (Authorized au), t)"
    by (cases "allowed req"; cases "check req (fst (ar_remote req))" rule: searchResult_cases)
      (auto simp: local_authorizeWith_def bindE_def liftE_def throwE_def Let_def split: sum.splits prod.splits if_splits)
  then show ?thesis using False by blast
qed

text \<open>A login that does not come by a key of a session has ensured its session in the state it began in.\<close>

lemma local_key_ensured:
  assumes "quiet s" "local_AuthorizePublicKey ad d lo req s = (Inr (Authorized au), t)" "au_sessionsPublicKey au = None"
    and "LookupByName (lo_users lo) (fst (ar_remote req)) = Inr u"
  shows "\<exists>sess. local_ensureSessionFor ad d lo req u s = (Inr sess, t) \<and> au = (localCandidate lo req u)\<lparr>au_session := Some sess\<rparr>"
proof -
  note r = assms(2)[unfolded local_AuthorizePublicKey_def Let_def]
  let ?c = "localCandidate lo req u"
  obtain v where v: "ar_validate req ?c = Inr v" using r assms(4) by (auto simp: bindE_def liftE_def split: if_splits sum.splits)
  have vt: "v" using r assms(4) v by (auto simp: bindE_def liftE_def split: if_splits)
  have "bindE (findSessionByKey d (lo_flow lo) req) (\<lambda>found. case found of
      Some sess \<Rightarrow> returnE (Authorized (?c\<lparr>au_session := Some sess, au_sessionsPublicKey := Some (ar_key req)\<rparr>))
    | None \<Rightarrow> bindE (local_isAuthorizedViaPublicKey ad lo req u) (\<lambda>ok.
        if \<not> ok then forbidden req
        else bindE (local_ensureSessionFor ad d lo req u) (\<lambda>sess. returnE (Authorized (?c\<lparr>au_session := Some sess\<rparr>))))) s =
      (Inr (Authorized au), t)"
    using r assms(4) v vt by (simp split: if_splits)
  then obtain found s1 where f: "findSessionByKey d (lo_flow lo) req s = (Inr found, s1)" and
    b: "(case found of
      Some sess \<Rightarrow> returnE (Authorized (?c\<lparr>au_session := Some sess, au_sessionsPublicKey := Some (ar_key req)\<rparr>))
    | None \<Rightarrow> bindE (local_isAuthorizedViaPublicKey ad lo req u) (\<lambda>ok.
        if \<not> ok then forbidden req
        else bindE (local_ensureSessionFor ad d lo req u) (\<lambda>sess. returnE (Authorized (?c\<lparr>au_session := Some sess\<rparr>))))) s1 =
      (Inr (Authorized au), t)"
    by (rule bindE_InrE)
  have s1: "s1 = s" using f by (simp add: findSessionByKey_quiet[OF assms(1)])
  have none: "found = None" using b assms(3) by (auto simp: returnE_def split: option.splits)
  obtain ok s2 where k: "local_isAuthorizedViaPublicKey ad lo req u s = (Inr ok, s2)"
    and e: "(if \<not> ok then forbidden req
        else bindE (local_ensureSessionFor ad d lo req u) (\<lambda>sess. returnE (Authorized (?c\<lparr>au_session := Some sess\<rparr>)))) s2 =
      (Inr (Authorized au), t)"
    using b unfolding none s1 option.case by (rule bindE_InrE)
  have "s2 = s" using local_viaKey_looks[OF assms(1), of ad lo req u] k by (simp add: looks_def)
  then show ?thesis using e by (auto simp: returnE_def elim!: bindE_InrE split: if_splits)
qed

lemma local_check_env:
  "local_checkPassword ad lo req name = Inr (Some (n, ev)) \<Longrightarrow> n = name \<and> ev = []"
  "local_checkInteractive ad lo req name = Inr (Some (n, ev)) \<Longrightarrow> n = name \<and> ev = []"
proof -
  have v: "n = name \<and> ev = []" if "checkPasswordValueViaRepository ad lo req pass name = Inr (Some (n, ev))" for pass
    using that unfolding checkPasswordValueViaRepository_def bindR_Inr_iff by (auto split: sum.splits if_splits)
  show "local_checkPassword ad lo req name = Inr (Some (n, ev)) \<Longrightarrow> n = name \<and> ev = []"
    unfolding local_checkPassword_def bindR_Inr_iff using v by blast
  show "local_checkInteractive ad lo req name = Inr (Some (n, ev)) \<Longrightarrow> n = name \<and> ev = []"
    unfolding local_checkInteractive_def bindR_Inr_iff using v by blast
qed

lemma local_login_ensured:
  assumes "quiet s" "op \<in> {local_AuthorizePassword ad d lo, local_AuthorizeInteractive ad d lo, local_AuthorizePublicKey ad d lo}"
    and "op req s = (Inr (Authorized au), t)" "au_sessionsPublicKey au = None"
    and "LookupByName (lo_users lo) (fst (ar_remote req)) = Inr u"
  shows "\<exists>sess. local_ensureSessionFor ad d lo req u s = (Inr sess, t) \<and> au = (localCandidate lo req u)\<lparr>au_session := Some sess\<rparr>"
proof (cases "op = local_AuthorizePublicKey ad d lo")
  case True
  then show ?thesis using local_key_ensured[OF assms(1) _ assms(4,5)] assms(3) by blast
next
  case False
  have "(local_AuthorizePassword ad d lo req s = (Inr (Authorized au), t)) \<or> (local_AuthorizeInteractive ad d lo req s = (Inr (Authorized au), t))"
    using False assms(2,3) by auto
  then obtain n env u' sess where
    c: "local_checkPassword ad lo req (fst (ar_remote req)) = Inr (Some (n, env)) \<or>
      local_checkInteractive ad lo req (fst (ar_remote req)) = Inr (Some (n, env))"
    and l: "LookupByName (lo_users lo) n = Inr u'" "local_ensureSessionFor ad d lo req u' s = (Inr sess, t)"
      "au = (localCandidate lo req u')\<lparr>au_envVars := env, au_session := Some sess\<rparr>"
    unfolding local_AuthorizePassword_def local_AuthorizeInteractive_def local_authorizeWith_accepted by blast
  have "n = fst (ar_remote req)" "env = []" using c local_check_env by blast+
  then show ?thesis using l assms(5) by (auto simp: localCandidate_def)
qed

lemma local_password_result:
  "local_AuthorizePassword ad d lo req s = (Inr (Authorized au), t) \<longleftrightarrow>
     lc_PasswordAllowed (lo_conf lo) req = Inr True \<and> lc_PamService (lo_conf lo) = [] \<and>
     (ar_password req = [] \<longrightarrow> lc_EmptyAllowed (lo_conf lo) req = Inr True) \<and>
     ValidatePasswordByName (ad_crypts ad) (lo_users lo) (fst (ar_remote req)) (ar_password req) = Inr True \<and>
     (\<exists>u sess. LookupByName (lo_users lo) (fst (ar_remote req)) = Inr u \<and>
        ar_validate req (localCandidate lo req u) = Inr True \<and> local_ensureSessionFor ad d lo req u s = (Inr sess, t) \<and>
        au = (localCandidate lo req u)\<lparr>au_session := Some sess\<rparr>)"
proof -
  have check: "local_checkPassword ad lo req name = Inr (Some (n, ev)) \<longleftrightarrow>
     lc_PamService (lo_conf lo) = [] \<and> (ar_password req = [] \<longrightarrow> lc_EmptyAllowed (lo_conf lo) req = Inr True) \<and>
     ValidatePasswordByName (ad_crypts ad) (lo_users lo) name (ar_password req) = Inr True \<and> n = name \<and> ev = []" for name n ev
    by (auto simp: local_checkPassword_def assertNoPamServiceConfigured_def checkPasswordValueViaRepository_def bindR_Inr_iff
        local_validatePassword_def split: sum.splits if_splits)
  have ev: "(localCandidate lo req u)\<lparr>au_envVars := []\<rparr> = localCandidate lo req u" for u by (simp add: localCandidate_def)
  show ?thesis
    unfolding local_AuthorizePassword_def local_authorizeWith_accepted check by (auto simp: ev localCandidate_def)
qed

text \<open>
  C11: A password opens a local account exactly if passwords are allowed for the request, no PAM service is configured, an
  empty password is allowed where it is empty, the user repository accepts the password and knows the user, the request
  validates, and a session can be had.
\<close>

theorem local_password_accepted:
  "local_AuthorizePassword ad d lo req s = (Inr (Authorized au), t) \<longleftrightarrow>
     lc_PasswordAllowed (lo_conf lo) req = Inr True \<and> lc_PamService (lo_conf lo) = [] \<and>
     (ar_password req = [] \<longrightarrow> lc_EmptyAllowed (lo_conf lo) req = Inr True) \<and>
     ValidatePasswordByName (ad_crypts ad) (lo_users lo) (fst (ar_remote req)) (ar_password req) = Inr True \<and>
     (\<exists>u sess. LookupByName (lo_users lo) (fst (ar_remote req)) = Inr u \<and>
        ar_validate req (localCandidate lo req u) = Inr True \<and> local_ensureSessionFor ad d lo req u s = (Inr sess, t) \<and>
        au = (localCandidate lo req u)\<lparr>au_session := Some sess\<rparr>)"
  by (rule local_password_result)

text \<open>
  C12: A login by a password, by an interactive exchange or by a file of authorized keys lasts: on the next connection
  \<^verbatim>\<open>RestoreFromSession\<close> gets the same user out of the session, for a user whose name leads to itself. A login by the key of a
  session is not meant, whose session may hold no token any more; and the length of the encoded token must not be a multiple of
  4096, for which the search for a session of the token matches prefixes (C18).
\<close>

theorem local_login_restores:
  assumes "adeps_ok ad" "freshPlace d st (lo_flow lo) i s" "d_newUuid d (sr_uuids s) = Some i"
    and "op \<in> {local_AuthorizePassword ad d lo, local_AuthorizeInteractive ad d lo, local_AuthorizePublicKey ad d lo}"
    and "op req s = (Inr (Authorized au), t)" "au_sessionsPublicKey au = None"
    and "LookupByName (lo_users lo) (fst (ar_remote req)) = Inr u"
    and "us_Name u = fst (ar_remote req)" "us_Name u \<noteq> []" "validNames d (fst (ar_remote req)) (snd (ar_remote req))"
    and "length (ad_localEncode ad (us_Name u, Some (us_Uid u), [])) mod 4096 \<noteq> 0"
  shows "\<exists>sess. au_session au = Some sess \<and>
    local_RestoreFromSession ad d lo sess opts t = (Inr (Authorized
      \<lparr>au_details = au_details au, au_remote = Some (fst (ar_remote req), ss_remoteHost sess), au_envVars = [],
       au_flow = lo_flow lo, au_session = Some sess, au_sessionsPublicKey = None\<rparr>), t)"
proof -
  let ?at = "ad_localEncode ad (us_Name u, Some (us_Uid u), [])"
  obtain sess where ens: "local_ensureSessionFor ad d lo req u s = (Inr sess, t)"
    and au: "au = (localCandidate lo req u)\<lparr>au_session := Some sess\<rparr>"
    using local_login_ensured[OF _ assms(4-7)] assms(2) by (auto simp: freshPlace_def)
  have at: "?at \<noteq> []" "ad_localDecode ad ?at = Some (us_Name u, Some (us_Uid u), [])"
    using assms(1,8,10) by (simp_all add: adeps_ok_def validNames_def)
  from ensureSession_holds[OF assms(2,3) at(1) assms(11) ens[unfolded local_ensureSessionFor_def] assms(10)]
  have h: "holdsLogin d sess ?at t" and f: "ss_flow sess = lo_flow lo" "ss_remoteUser sess = fst (ar_remote req)" by simp_all
  have "AuthorizationToken d sess t = (Inr ?at, t)" using h by (simp add: holdsLogin_def)
  then have "local_RestoreFromSession ad d lo sess opts t = local_restoreFound d lo sess opts [] (Inr u) t"
    using f(1) at assms(7,8,9) by (simp add: local_RestoreFromSession_def mapErrE_def bindE_def)
  then show ?thesis using holdsLogin_restored[OF h] f(2) au
    by (simp add: local_restoreFound_def bindE_def returnE_def localCandidate_def)
qed

end
