(* ===== verification/SimpleAuthorizer.thy ===== *)
theory SimpleAuthorizer
  imports AuthorizerContract
begin

section \<open>The authorizer of configured entries (pkg/authorization/simple-authorizer.go)\<close>

text \<open>
  A name of the configuration with its keys and its password. The request's name is compared with
  \<^verbatim>\<open>strings.EqualFold\<close>, the name in a session's token exactly.
\<close>

record simple_authorizer =
  si_flow :: bytes
  si_entries :: "simple_entry list"

definition NewSimple :: "bytes \<Rightarrow> simple_entry list option \<Rightarrow> auth_err + simple_authorizer" where
  "NewSimple flow conf =
     (case conf of
        None \<Rightarrow> Inl (AErrTyped TConfig ''nil configuration'')
      | Some es \<Rightarrow> Inr \<lparr>si_flow = flow, si_entries = es\<rparr>)"

abbreviation pwE :: "(fsrepo, pw_err, 'a) sm \<Rightarrow> 'a am" where
  "pwE \<equiv> mapErrE AErrPassword"

definition simpleCandidate :: "simple_authorizer \<Rightarrow> 'k request \<Rightarrow> simple_entry \<Rightarrow> 'k authorization" where
  "simpleCandidate si req e =
     \<lparr>au_details = DSimple e, au_remote = Some (ar_remote req), au_envVars = [], au_flow = si_flow si,
      au_session = None, au_sessionsPublicKey = None\<rparr>"

text \<open>\<^verbatim>\<open>lookupEntry\<close>: the entry and its authorization, or \<open>None\<close> when there is none or the request does not validate.\<close>

definition simple_lookupEntry ::
    "'k adeps \<Rightarrow> simple_authorizer \<Rightarrow> 'k request \<Rightarrow> auth_err + (simple_entry \<times> 'k authorization) option" where
  "simple_lookupEntry ad si req =
     (case find (\<lambda>e. ad_equalFold ad (se_Name e) (fst (ar_remote req))) (si_entries si) of
        None \<Rightarrow> Inr None
      | Some e \<Rightarrow>
          (let auth = simpleCandidate si req e in
           bindR (ar_validate req auth) (\<lambda>accepted. Inr (if accepted then Some (e, auth) else None))))"

text \<open>The consumer of both loops over keys; the accumulator is \<^verbatim>\<open>foundMatch\<close>.\<close>

definition matchConsumer :: "'k \<Rightarrow> ('k, bool) key_consumer" where
  "matchConsumer remote i key comment opts found = (if remote = key then Inr (True, False) else Inr (found, True))"

definition simple_isAuthorizedViaPublicKey :: "'k adeps \<Rightarrow> 'k request \<Rightarrow> simple_entry \<Rightarrow> bool am" where
  "simple_isAuthorizedViaPublicKey ad req e =
     bindE (if se_AuthorizedKeysFile e \<noteq> []
            then pwE (AuthorizedKeysFile_ForEach (ad_unquote ad) (ad_parsePublicKey ad) (matchConsumer (ar_key req)) False (se_AuthorizedKeysFile e))
            else returnE False) (\<lambda>foundMatch.
     if foundMatch then returnE True
     else if \<not> AuthorizedKeys_IsZero (se_AuthorizedKeys e)
     then pwE (liftE (map_sum ErrKeys id
            (AuthorizedKeys_ForEach (ad_unquote ad) (ad_parsePublicKey ad) (matchConsumer (ar_key req)) False (se_AuthorizedKeys e))))
     else returnE False)"

definition simple_ensureSessionFor :: "'k adeps \<Rightarrow> 'k deps \<Rightarrow> simple_authorizer \<Rightarrow> 'k request \<Rightarrow> simple_entry \<Rightarrow> fs_session am" where
  "simple_ensureSessionFor ad d si req e = ensureSession d (si_flow si) req (ad_nameEncode ad (se_Name e, []))"

definition simple_AuthorizePublicKey :: "'k adeps \<Rightarrow> 'k deps \<Rightarrow> simple_authorizer \<Rightarrow> 'k request \<Rightarrow> 'k answer am" where
  "simple_AuthorizePublicKey ad d si req =
     bindE (liftE (simple_lookupEntry ad si req)) (\<lambda>r.
     case r of
       None \<Rightarrow> forbidden req
     | Some (entry, auth) \<Rightarrow>
         bindE (findSessionByKey d (si_flow si) req) (\<lambda>found.
         case found of
           Some sess \<Rightarrow> returnE (Authorized (auth\<lparr>au_session := Some sess, au_sessionsPublicKey := Some (ar_key req)\<rparr>))
         | None \<Rightarrow>
             bindE (simple_isAuthorizedViaPublicKey ad req entry) (\<lambda>ok.
             if \<not> ok then forbidden req
             else bindE (simple_ensureSessionFor ad d si req entry) (\<lambda>sess.
               returnE (Authorized (auth\<lparr>au_session := Some sess\<rparr>))))))"

text \<open>What \<^verbatim>\<open>AuthorizePassword\<close> and \<^verbatim>\<open>AuthorizeInteractive\<close> do with the password; an error of the comparison is a mismatch.\<close>

definition simple_checkPassword :: "'k adeps \<Rightarrow> simple_entry \<Rightarrow> bytes \<Rightarrow> bool am" where
  "simple_checkPassword ad entry pass =
     bindE (pwE (simpleEntry_GetPassword entry)) (\<lambda>expected.
     if expected = [] then returnE False
     else case Password_Compare (ad_bcrypt ad) expected pass of
         Inl _ \<Rightarrow> returnE False
       | Inr ok \<Rightarrow> returnE ok)"

definition simple_authorizeWith :: "'k adeps \<Rightarrow> 'k deps \<Rightarrow> simple_authorizer \<Rightarrow> ('k request \<Rightarrow> auth_err + bytes) \<Rightarrow> 'k request \<Rightarrow> 'k answer am" where
  "simple_authorizeWith ad d si password req =
     bindE (liftE (simple_lookupEntry ad si req)) (\<lambda>r.
     case r of
       None \<Rightarrow> forbidden req
     | Some (entry, auth) \<Rightarrow>
         bindE (liftE (password req)) (\<lambda>pass.
         bindE (simple_checkPassword ad entry pass) (\<lambda>ok.
         if \<not> ok then forbidden req
         else bindE (simple_ensureSessionFor ad d si req entry) (\<lambda>sess.
           returnE (Authorized (auth\<lparr>au_session := Some sess\<rparr>))))))"

definition simple_AuthorizePassword :: "'k adeps \<Rightarrow> 'k deps \<Rightarrow> simple_authorizer \<Rightarrow> 'k request \<Rightarrow> 'k answer am" where
  "simple_AuthorizePassword ad d si req = simple_authorizeWith ad d si (\<lambda>req. Inr (ar_password req)) req"

definition simple_AuthorizeInteractive :: "'k adeps \<Rightarrow> 'k deps \<Rightarrow> simple_authorizer \<Rightarrow> 'k request \<Rightarrow> 'k answer am" where
  "simple_AuthorizeInteractive ad d si req = simple_authorizeWith ad d si ar_prompt req"

definition simple_RestoreFromSession ::
    "'k adeps \<Rightarrow> 'k deps \<Rightarrow> simple_authorizer \<Rightarrow> fs_session \<Rightarrow> bool option option \<Rightarrow> 'k answer am" where
  "simple_RestoreFromSession ad d si sess opts =
     (if ss_flow sess \<noteq> si_flow si then throwE AErrNoSuchAuthorization
      else bindE (sessE (AuthorizationToken d sess)) (\<lambda>tb.
        if tb = [] then throwE AErrNoSuchAuthorization
        else case ad_nameDecode ad tb of
            None \<Rightarrow> throwE (AErrTyped TSystem ''cannot decode token'')
          | Some (name, ev) \<Rightarrow>
              (case find (\<lambda>e. se_Name e = name) (si_entries si) of
                 None \<Rightarrow> cleanFromSessionOnly d sess opts
               | Some entry \<Rightarrow>
                   bindE (restoredRemote d sess) (\<lambda>remote.
                   returnE (Authorized \<lparr>au_details = DSimple entry, au_remote = Some remote, au_envVars = ev,
                     au_flow = si_flow si, au_session = Some sess, au_sessionsPublicKey = None\<rparr>)))))"

definition simpleOps :: "'k adeps \<Rightarrow> 'k deps \<Rightarrow> simple_authorizer \<Rightarrow> 'k authorizer_ops" where
  "simpleOps ad d si =
     \<lparr>az_PublicKey = simple_AuthorizePublicKey ad d si, az_Password = simple_AuthorizePassword ad d si,
      az_Interactive = simple_AuthorizeInteractive ad d si, az_Restore = simple_RestoreFromSession ad d si\<rparr>"

subsection \<open>The contract\<close>

lemma GetPassword_quiet:
  "quiet s \<Longrightarrow> PasswordFile_GetPassword f (s :: fsrepo) =
    (if f = [] then Inr []
     else (case fs_get (w_files s) f of
        None \<Rightarrow> Inr []
      | Some n \<Rightarrow> (case Password_Validate (n_content n) of Inl _ \<Rightarrow> Inl ErrIllegalPasswordFile | Inr _ \<Rightarrow> Inr (n_content n))), s)"
  by (cases "fs_get (w_files s) f")
    (auto simp: PasswordFile_GetPassword_def bindE_def tryE_def mapErrE_def finallyE_def returnE_def throwE_def quiet_calls
      split: sum.split)

lemma KeysFile_quiet: "quiet s \<Longrightarrow> snd (AuthorizedKeysFile_ForEach unquote parse consumer acc f (s :: fsrepo)) = s"
  by (cases "fs_get (w_files s) f")
    (auto simp: AuthorizedKeysFile_ForEach_def bindE_def mapErrE_def finallyE_def returnE_def liftE_def quiet_calls split: sum.split)

lemma simple_viaKey_looks: "quiet s \<Longrightarrow> looks s (simple_isAuthorizedViaPublicKey ad req e)"
  unfolding looks_preserves simple_isAuthorizedViaPublicKey_def
  by (intro preserve) (auto simp: preserves_def KeysFile_quiet)

lemma simple_checkPassword_looks: "quiet s \<Longrightarrow> looks s (simple_checkPassword ad e pass)"
  by (simp add: simple_checkPassword_def looks_def simpleEntry_GetPassword_def bindE_def mapErrE_def returnE_def GetPassword_quiet
      split: option.split sum.split)

lemma simple_lookupEntry_found:
  assumes "simple_lookupEntry ad si req = Inr (Some (e, auth))"
  shows "auth = simpleCandidate si req e" "e \<in> set (si_entries si)" "ad_equalFold ad (se_Name e) (fst (ar_remote req))"
    "ar_validate req auth = Inr True"
proof -
  obtain x where x: "find (\<lambda>e. ad_equalFold ad (se_Name e) (fst (ar_remote req))) (si_entries si) = Some x"
    using assms by (auto simp: simple_lookupEntry_def split: option.splits)
  with assms show "auth = simpleCandidate si req e" "e \<in> set (si_entries si)" "ad_equalFold ad (se_Name e) (fst (ar_remote req))"
    "ar_validate req auth = Inr True"
    using find_Some_iff[of "\<lambda>e. ad_equalFold ad (se_Name e) (fst (ar_remote req))" "si_entries si" x]
    by (auto simp: simple_lookupEntry_def bindR_Inr_iff Let_def split: if_splits)
qed

lemma simpleCandidate_fields [simp]:
  "au_flow (simpleCandidate si req e) = si_flow si" "au_details (simpleCandidate si req e) = DSimple e"
  "au_sessionsPublicKey (simpleCandidate si req e) = None"
  by (simp_all add: simpleCandidate_def)

lemma simple_ensure_fields:
  "quiet s \<Longrightarrow> simple_ensureSessionFor ad d si req e s = (Inr sess, t) \<Longrightarrow>
   ss_flow sess = si_flow si \<and> ss_remoteUser sess = fst (ar_remote req)"
  by (simp add: simple_ensureSessionFor_def ensureSession_fields)

lemma simple_publicKey_law: "loginLaw (si_flow si) (simple_AuthorizePublicKey ad d si)"
  unfolding simple_AuthorizePublicKey_def
  by (rule loginLaw_lawful)
    (auto intro!: lawful_rules lawful_looks[OF findSessionByKey_looks] lawful_looks[OF simple_viaKey_looks]
      dest: findSessionByKey_found simple_ensure_fields simple_lookupEntry_found(1))

lemma simple_with_law: "loginLaw (si_flow si) (simple_authorizeWith ad d si password)"
  unfolding simple_authorizeWith_def
  by (rule loginLaw_lawful)
    (auto intro!: lawful_rules lawful_looks[OF simple_checkPassword_looks] dest: simple_ensure_fields simple_lookupEntry_found(1))

lemma simple_restore_law:
  "ss_flow sess \<noteq> si_flow si \<Longrightarrow> simple_RestoreFromSession ad d si sess opts s = (Inl AErrNoSuchAuthorization, s)"
  "simple_RestoreFromSession ad d si sess opts s = (Inr a, t) \<Longrightarrow>
     \<exists>au. a = Authorized au \<and> au_flow au = si_flow si \<and> au_session au = Some sess"
  by (auto simp: simple_RestoreFromSession_def cleanFromSessionOnly_def throwE_def returnE_def bindE_def
      split: if_splits sum.splits prod.splits option.splits)

interpretation simpleAuth: authorizer "si_flow si" "simpleOps ad d si"
  by unfold_locales
    (simp_all add: simpleOps_def simple_publicKey_law simple_with_law simple_restore_law simple_AuthorizePassword_def[abs_def]
      simple_AuthorizeInteractive_def[abs_def])

end
