(* ===== verification/OtherAuthorizers.thy ===== *)
theory OtherAuthorizers
  imports AuthorizerContract
begin

section \<open>The authorizers htpasswd and none (pkg/authorization)\<close>

text \<open>
  An htpasswd file is what \<^verbatim>\<open>tg123/go-htpasswd\<close> made of it: a function from name and password to whether they match;
  \<open>None\<close> is the zero value. The \<open>none\<close> authorizer accepts everybody.
\<close>

subsection \<open>htpasswd-authorizer.go\<close>

record htpasswd_authorizer =
  hp_flow :: bytes
  hp_File :: "(bytes \<Rightarrow> bytes \<Rightarrow> bool) option"
  hp_Entries :: "(bytes \<Rightarrow> bytes \<Rightarrow> bool) option"

definition NewHtpasswd ::
    "bytes \<Rightarrow> ((bytes \<Rightarrow> bytes \<Rightarrow> bool) option \<times> (bytes \<Rightarrow> bytes \<Rightarrow> bool) option) option \<Rightarrow> auth_err + htpasswd_authorizer" where
  "NewHtpasswd flow conf =
     (case conf of
        None \<Rightarrow> Inl (AErrTyped TConfig ''nil configuration'')
      | Some (f, e) \<Rightarrow> Inr \<lparr>hp_flow = flow, hp_File = f, hp_Entries = e\<rparr>)"

definition Htpasswd_Match :: "(bytes \<Rightarrow> bytes \<Rightarrow> bool) option \<Rightarrow> bytes \<Rightarrow> bytes \<Rightarrow> bool" where
  "Htpasswd_Match f username password = (case f of Some v \<Rightarrow> v username password | None \<Rightarrow> False)"

definition plainCandidate :: "details \<Rightarrow> bytes \<Rightarrow> 'k request \<Rightarrow> 'k authorization" where
  "plainCandidate details flow req =
     \<lparr>au_details = details, au_remote = Some (ar_remote req), au_envVars = [], au_flow = flow,
      au_session = None, au_sessionsPublicKey = None\<rparr>"

definition htpasswd_AuthorizePublicKey :: "'k deps \<Rightarrow> htpasswd_authorizer \<Rightarrow> 'k request \<Rightarrow> 'k answer am" where
  "htpasswd_AuthorizePublicKey d hp req =
     bindE (findSessionByKey d (hp_flow hp) req) (\<lambda>found.
     case found of
       None \<Rightarrow> forbidden req
     | Some sess \<Rightarrow>
         (let auth = (plainCandidate DHtpasswd (hp_flow hp) req)\<lparr>au_session := Some sess, au_sessionsPublicKey := Some (ar_key req)\<rparr> in
          bindE (liftE (ar_validate req auth)) (\<lambda>accepted.
          if \<not> accepted then forbidden req else returnE (Authorized auth))))"

definition htpasswd_lookupEntry :: "htpasswd_authorizer \<Rightarrow> 'k request \<Rightarrow> bytes \<Rightarrow> auth_err + 'k authorization option" where
  "htpasswd_lookupEntry hp req password =
     (let match1 = (hp_File hp \<noteq> None \<and> Htpasswd_Match (hp_File hp) (fst (ar_remote req)) password);
          match = (if \<not> match1 \<and> hp_Entries hp \<noteq> None then Htpasswd_Match (hp_Entries hp) (fst (ar_remote req)) password else match1) in
      if \<not> match then Inr None
      else let auth = plainCandidate DHtpasswd (hp_flow hp) req in
        bindR (ar_validate req auth) (\<lambda>accepted. Inr (if accepted then Some auth else None)))"

definition htpasswd_ensureSessionFor :: "'k adeps \<Rightarrow> 'k deps \<Rightarrow> htpasswd_authorizer \<Rightarrow> 'k request \<Rightarrow> fs_session am" where
  "htpasswd_ensureSessionFor ad d hp req = ensureSession d (hp_flow hp) req (ad_nameEncode ad (fst (ar_remote req), []))"

definition htpasswd_authorizeWith ::
    "'k adeps \<Rightarrow> 'k deps \<Rightarrow> htpasswd_authorizer \<Rightarrow> ('k request \<Rightarrow> auth_err + bytes) \<Rightarrow> 'k request \<Rightarrow> 'k answer am" where
  "htpasswd_authorizeWith ad d hp password req =
     bindE (liftE (password req)) (\<lambda>pass.
     bindE (liftE (htpasswd_lookupEntry hp req pass)) (\<lambda>r.
     case r of
       None \<Rightarrow> forbidden req
     | Some auth \<Rightarrow>
         bindE (htpasswd_ensureSessionFor ad d hp req) (\<lambda>sess.
         returnE (Authorized (auth\<lparr>au_session := Some sess\<rparr>)))))"

definition htpasswd_AuthorizePassword :: "'k adeps \<Rightarrow> 'k deps \<Rightarrow> htpasswd_authorizer \<Rightarrow> 'k request \<Rightarrow> 'k answer am" where
  "htpasswd_AuthorizePassword ad d hp req = htpasswd_authorizeWith ad d hp (\<lambda>req. Inr (ar_password req)) req"

definition htpasswd_AuthorizeInteractive :: "'k adeps \<Rightarrow> 'k deps \<Rightarrow> htpasswd_authorizer \<Rightarrow> 'k request \<Rightarrow> 'k answer am" where
  "htpasswd_AuthorizeInteractive ad d hp req = htpasswd_authorizeWith ad d hp ar_prompt req"

text \<open>The token is decoded for its environment variables; its name is not looked up.\<close>

definition htpasswd_RestoreFromSession ::
    "'k adeps \<Rightarrow> 'k deps \<Rightarrow> htpasswd_authorizer \<Rightarrow> fs_session \<Rightarrow> bool option option \<Rightarrow> 'k answer am" where
  "htpasswd_RestoreFromSession ad d hp sess opts =
     (if ss_flow sess \<noteq> hp_flow hp then throwE AErrNoSuchAuthorization
      else bindE (sessE (AuthorizationToken d sess)) (\<lambda>tb.
        if tb = [] then throwE AErrNoSuchAuthorization
        else case ad_nameDecode ad tb of
            None \<Rightarrow> throwE (AErrTyped TSystem ''cannot decode token'')
          | Some (name, ev) \<Rightarrow>
              bindE (restoredRemote d sess) (\<lambda>remote.
              returnE (Authorized \<lparr>au_details = DHtpasswd, au_remote = Some remote, au_envVars = ev,
                au_flow = hp_flow hp, au_session = Some sess, au_sessionsPublicKey = None\<rparr>))))"

definition htpasswdOps :: "'k adeps \<Rightarrow> 'k deps \<Rightarrow> htpasswd_authorizer \<Rightarrow> 'k authorizer_ops" where
  "htpasswdOps ad d hp =
     \<lparr>az_PublicKey = htpasswd_AuthorizePublicKey d hp, az_Password = htpasswd_AuthorizePassword ad d hp,
      az_Interactive = htpasswd_AuthorizeInteractive ad d hp, az_Restore = htpasswd_RestoreFromSession ad d hp\<rparr>"

subsection \<open>none-authorizer.go\<close>

definition NewNone :: "bytes \<Rightarrow> unit option \<Rightarrow> auth_err + bytes" where
  "NewNone flow conf = (case conf of None \<Rightarrow> Inl (AErrTyped TConfig ''nil configuration'') | Some _ \<Rightarrow> Inr flow)"

definition none_Create :: "'k deps \<Rightarrow> bytes \<Rightarrow> 'k request \<Rightarrow> fs_session am" where
  "none_Create d flow req = sessE (sess_Create d flow (fst (ar_remote req)) (snd (ar_remote req)) [])"

definition none_AuthorizePublicKey :: "'k deps \<Rightarrow> bytes \<Rightarrow> 'k request \<Rightarrow> 'k answer am" where
  "none_AuthorizePublicKey d flow req =
     bindE (findSessionByKey d flow req) (\<lambda>found.
     case found of
       None \<Rightarrow> bindE (none_Create d flow req) (\<lambda>sess. returnE (Authorized ((plainCandidate DNone flow req)\<lparr>au_session := Some sess\<rparr>)))
     | Some sess \<Rightarrow>
         returnE (Authorized ((plainCandidate DNone flow req)\<lparr>au_session := Some sess, au_sessionsPublicKey := Some (ar_key req)\<rparr>)))"

definition none_AuthorizePassword :: "'k deps \<Rightarrow> bytes \<Rightarrow> 'k request \<Rightarrow> 'k answer am" where
  "none_AuthorizePassword d flow req =
     bindE (none_Create d flow req) (\<lambda>sess. returnE (Authorized ((plainCandidate DNone flow req)\<lparr>au_session := Some sess\<rparr>)))"

definition none_AuthorizeInteractive :: "'k deps \<Rightarrow> bytes \<Rightarrow> 'k request \<Rightarrow> 'k answer am" where
  "none_AuthorizeInteractive d flow req =
     bindE (none_Create d flow req) (\<lambda>sess. returnE (Authorized ((plainCandidate DNone flow req)\<lparr>au_session := Some sess\<rparr>)))"

definition none_RestoreFromSession :: "'k deps \<Rightarrow> bytes \<Rightarrow> fs_session \<Rightarrow> bool option option \<Rightarrow> 'k answer am" where
  "none_RestoreFromSession d flow sess opts =
     (if ss_flow sess \<noteq> flow then throwE AErrNoSuchAuthorization
      else bindE (restoredRemote d sess) (\<lambda>remote.
        returnE (Authorized \<lparr>au_details = DNone, au_remote = Some remote, au_envVars = [], au_flow = flow,
          au_session = Some sess, au_sessionsPublicKey = None\<rparr>)))"

definition noneOps :: "'k deps \<Rightarrow> bytes \<Rightarrow> 'k authorizer_ops" where
  "noneOps d flow =
     \<lparr>az_PublicKey = none_AuthorizePublicKey d flow, az_Password = none_AuthorizePassword d flow,
      az_Interactive = none_AuthorizeInteractive d flow, az_Restore = none_RestoreFromSession d flow\<rparr>"

subsection \<open>The contract\<close>

lemma plainCandidate_fields [simp]:
  "au_flow (plainCandidate x flow req) = flow" "au_details (plainCandidate x flow req) = x"
  "au_sessionsPublicKey (plainCandidate x flow req) = None"
  by (simp_all add: plainCandidate_def)

lemma htpasswd_ensure_fields:
  "quiet s \<Longrightarrow> htpasswd_ensureSessionFor ad d hp req s = (Inr sess, t) \<Longrightarrow>
   ss_flow sess = hp_flow hp \<and> ss_remoteUser sess = fst (ar_remote req)"
  by (simp add: htpasswd_ensureSessionFor_def ensureSession_fields)

lemma htpasswd_lookupEntry_found: "htpasswd_lookupEntry hp req pass = Inr (Some auth) \<Longrightarrow> au_flow auth = hp_flow hp"
  by (auto simp: htpasswd_lookupEntry_def Let_def bindR_Inr_iff split: if_splits)

lemma htpasswd_publicKey_law: "loginLaw (hp_flow hp) (htpasswd_AuthorizePublicKey d hp)"
  unfolding htpasswd_AuthorizePublicKey_def Let_def
  by (rule loginLaw_lawful) (auto intro!: lawful_rules lawful_looks[OF findSessionByKey_looks] dest: findSessionByKey_found)

lemma htpasswd_with_law: "loginLaw (hp_flow hp) (htpasswd_authorizeWith ad d hp password)"
  unfolding htpasswd_authorizeWith_def
  by (rule loginLaw_lawful) (auto intro!: lawful_rules dest: htpasswd_ensure_fields htpasswd_lookupEntry_found)

lemma htpasswd_restore_law:
  "ss_flow sess \<noteq> hp_flow hp \<Longrightarrow> htpasswd_RestoreFromSession ad d hp sess opts s = (Inl AErrNoSuchAuthorization, s)"
  "htpasswd_RestoreFromSession ad d hp sess opts s = (Inr a, t) \<Longrightarrow>
     \<exists>au. a = Authorized au \<and> au_flow au = hp_flow hp \<and> au_session au = Some sess"
  by (auto simp: htpasswd_RestoreFromSession_def throwE_def returnE_def bindE_def split: if_splits sum.splits prod.splits option.splits)

interpretation htpasswdAuth: authorizer "hp_flow hp" "htpasswdOps ad d hp"
  by unfold_locales
    (simp_all add: htpasswdOps_def htpasswd_publicKey_law htpasswd_with_law htpasswd_restore_law
      htpasswd_AuthorizePassword_def[abs_def] htpasswd_AuthorizeInteractive_def[abs_def])

lemma none_Create_fields:
  "none_Create d flow req s = (Inr sess, t) \<Longrightarrow> ss_flow sess = flow \<and> ss_remoteUser sess = fst (ar_remote req)"
  unfolding none_Create_def mapErrE_Inr using sess_Create_fields(1,2) by blast

lemma none_create_law: "lawful flow req s (bindE (none_Create d flow req) (\<lambda>sess. returnE (Authorized ((plainCandidate DNone flow req)\<lparr>au_session := Some sess\<rparr>))))"
  by (rule lawful_session) (simp_all add: none_Create_fields)

lemma none_laws:
  "loginLaw flow (none_AuthorizePassword d flow)" "loginLaw flow (none_AuthorizeInteractive d flow)"
  by (rule loginLaw_lawful, simp add: none_AuthorizePassword_def none_AuthorizeInteractive_def none_create_law)+

lemma none_publicKey_law: "loginLaw flow (none_AuthorizePublicKey d flow)"
  unfolding none_AuthorizePublicKey_def
  by (rule loginLaw_lawful, rule lawful_looks[OF findSessionByKey_looks], assumption, rule lawful_option, rule none_create_law,
      rule lawful_found) (simp_all add: findSessionByKey_found)

lemma none_restore_law:
  "ss_flow sess \<noteq> flow \<Longrightarrow> none_RestoreFromSession d flow sess opts s = (Inl AErrNoSuchAuthorization, s)"
  "none_RestoreFromSession d flow sess opts s = (Inr a, t) \<Longrightarrow>
     \<exists>au. a = Authorized au \<and> au_flow au = flow \<and> au_session au = Some sess"
  by (auto simp: none_RestoreFromSession_def throwE_def returnE_def bindE_def split: if_splits sum.splits prod.splits)

interpretation noneAuth: authorizer flow "noneOps d flow"
  by unfold_locales (simp_all add: noneOps_def none_laws none_publicKey_law none_restore_law)

end
