(* ===== verification/OidcAuthorizer.thy ===== *)
theory OidcAuthorizer
  imports AuthorizerContract
begin

section \<open>The authorizer of OIDC device logins (pkg/authorization/oidc-device-auth-authorizer.go)\<close>

text \<open>
  The identity provider is reached through \<^verbatim>\<open>x/oauth2\<close> and \<^verbatim>\<open>go-oidc\<close>; the record \<open>idp\<close> has the four calls that the
  code makes and what they answer. \<^verbatim>\<open>None\<close> of \<open>rt_extraIdToken\<close> is an extra field that is absent or no string.
\<close>

record device_auth =
  dv_DeviceCode :: bytes
  dv_UserCode :: bytes
  dv_URI :: bytes
  dv_URIComplete :: bytes

record raw_token =
  rt_accessToken :: bytes
  rt_refreshToken :: bytes
  rt_extraIdToken :: "bytes option"

datatype device_err = DevDeadline | DevCanceled | DevRetrieve bytes | DevOther
datatype verify_err = TokenExpired int | VerifyOther

record idp =
  ip_deviceAuth :: "device_auth option"
  ip_deviceAccessToken :: "device_auth \<Rightarrow> device_err + raw_token"
  ip_verify :: "bytes \<Rightarrow> verify_err + bytes"
  ip_userInfo :: "oidc_token \<Rightarrow> bytes option"

record oidc_authorizer =
  oi_flow :: bytes
  oi_RetrieveIdToken :: bool
  oi_RetrieveUserInfo :: bool
  oi_idp :: idp
  oi_scopes :: "bytes list"

text \<open>\<^verbatim>\<open>NewOidcDeviceAuth\<close> after the templates were rendered: the scopes without blanks and empty ones.\<close>

definition NewOidcDeviceAuth ::
    "auth_err + idp \<Rightarrow> bytes \<Rightarrow> ((auth_err + bytes list) \<times> bool \<times> bool) option \<Rightarrow> auth_err + oidc_authorizer" where
  "NewOidcDeviceAuth provider flow conf =
     (case conf of
        None \<Rightarrow> Inl (AErrTyped TConfig ''nil configuration'')
      | Some (rawScopes, idToken, userInfo) \<Rightarrow>
          bindR provider (\<lambda>p. bindR rawScopes (\<lambda>scopes.
          Inr \<lparr>oi_flow = flow, oi_RetrieveIdToken = idToken, oi_RetrieveUserInfo = userInfo, oi_idp = p,
               oi_scopes = filter (\<lambda>t. t \<noteq> []) (map bytes_TrimSpace scopes)\<rparr>)))"

definition newOidcToken :: "raw_token \<Rightarrow> oidc_token" where
  "newOidcToken t =
     \<lparr>ot_accessToken = rt_accessToken t, ot_refreshToken = rt_refreshToken t,
      ot_idToken = (case rt_extraIdToken t of None \<Rightarrow> [] | Some v \<Rightarrow> v)\<rparr>"

definition initiateDeviceAuth :: "oidc_authorizer \<Rightarrow> auth_err + device_auth" where
  "initiateDeviceAuth oi =
     (case ip_deviceAuth (oi_idp oi) of
        None \<Rightarrow> Inl (AErrTyped TNetwork ''cannot initiate successful device auth'')
      | Some r \<Rightarrow> Inr r)"

definition retrieveDeviceAuthToken :: "oidc_authorizer \<Rightarrow> device_auth \<Rightarrow> auth_err + raw_token" where
  "retrieveDeviceAuthToken oi using =
     (if dv_DeviceCode using = [] then Inl (AErrTyped TSystem ''no device auth response provided'')
      else case ip_deviceAccessToken (oi_idp oi) using of
          Inl DevDeadline \<Rightarrow> Inl (AErrTyped TUser ''authorize of device timed out'')
        | Inl DevCanceled \<Rightarrow> Inl (AErrTyped TUser ''authorize canceled by user'')
        | Inl (DevRetrieve code) \<Rightarrow>
            if code = ''expired_token'' then Inl (AErrTyped TUser ''authorize of device timed out by IdP'')
            else Inl (AErrTyped TNetwork ''cannot authorize device'')
        | Inl DevOther \<Rightarrow> Inl (AErrTyped TNetwork ''cannot authorize device'')
        | Inr t \<Rightarrow> Inr t)"

text \<open>
  \<^verbatim>\<open>errors.Is(err, (*coidc.TokenExpiredError)(nil))\<close> compares pointers: the error that the library returns is not the
  nil pointer.
\<close>

definition errorsIs_nilTokenExpired :: "verify_err \<Rightarrow> bool" where
  "errorsIs_nilTokenExpired e = (case e of TokenExpired _ \<Rightarrow> False | VerifyOther \<Rightarrow> False)"

definition verifyToken :: "oidc_authorizer \<Rightarrow> oidc_token \<Rightarrow> auth_err + bytes" where
  "verifyToken oi t =
     (if ot_accessToken t = [] then Inl (AErrTyped TSystem ''no token provided'')
      else if ot_idToken t = [] then Inl (AErrTyped TPermission ''token does not contain id_token'')
      else case ip_verify (oi_idp oi) (ot_idToken t) of
          Inl e \<Rightarrow>
            if errorsIs_nilTokenExpired e then Inl (AErrTyped TExpired ''cannot verify ID token'')
            else Inl (AErrTyped TPermission ''cannot verify ID token'')
        | Inr idToken \<Rightarrow> Inr idToken)"

definition getUserInfo :: "oidc_authorizer \<Rightarrow> oidc_token \<Rightarrow> auth_err + bytes" where
  "getUserInfo oi t =
     (case ip_userInfo (oi_idp oi) t of None \<Rightarrow> Inl (AErrTyped TPermission ''user info'') | Some u \<Rightarrow> Inr u)"

definition finalizeAuth :: "oidc_authorizer \<Rightarrow> oidc_token \<Rightarrow> bool \<Rightarrow> auth_err + 'k authorization" where
  "finalizeAuth oi t retrieveArtifactsAllowed =
     bindR (if retrieveArtifactsAllowed \<and> oi_RetrieveIdToken oi then map_sum id Some (verifyToken oi t) else Inr None) (\<lambda>idToken.
     bindR (if retrieveArtifactsAllowed \<and> oi_RetrieveUserInfo oi then map_sum id Some (getUserInfo oi t) else Inr None) (\<lambda>userInfo.
     Inr \<lparr>au_details = DOidc t idToken userInfo, au_remote = None, au_envVars = [], au_flow = oi_flow oi,
          au_session = None, au_sessionsPublicKey = None\<rparr>))"

definition updateSessionWith :: "'k adeps \<Rightarrow> 'k deps \<Rightarrow> oidc_token \<Rightarrow> fs_session \<Rightarrow> unit am" where
  "updateSessionWith ad d t sess = sessE (SetAuthorizationToken d sess (ad_oidcEncode ad t))"

definition oidc_ensureSessionFor :: "'k adeps \<Rightarrow> 'k deps \<Rightarrow> oidc_authorizer \<Rightarrow> 'k request \<Rightarrow> oidc_token \<Rightarrow> fs_session am" where
  "oidc_ensureSessionFor ad d oi req t =
     sessE (sess_Create d (oi_flow oi) (fst (ar_remote req)) (snd (ar_remote req)) (ad_oidcEncode ad t))"

definition verificationMessage :: "'k adeps \<Rightarrow> device_auth \<Rightarrow> bytes" where
  "verificationMessage ad dar =
     (if dv_URIComplete dar \<noteq> [] then ''Open the following URL in your browser to login: '' @ dv_URIComplete dar
      else ''Open the following URL in your browser and provide the code '' @ ad_quote ad (dv_UserCode dar) @ '' to login: '' @ dv_URI dar)"

definition oidc_AuthorizeInteractive :: "'k adeps \<Rightarrow> 'k deps \<Rightarrow> oidc_authorizer \<Rightarrow> 'k request \<Rightarrow> 'k answer am" where
  "oidc_AuthorizeInteractive ad d oi req =
     bindE (liftE (initiateDeviceAuth oi)) (\<lambda>dar.
     bindE (liftE (ar_sendInfo req (verificationMessage ad dar))) (\<lambda>_.
     bindE (liftE (retrieveDeviceAuthToken oi dar)) (\<lambda>buf.
     bindE (liftE (finalizeAuth oi (newOidcToken buf) True)) (\<lambda>auth0.
     let auth = auth0\<lparr>au_remote := Some (ar_remote req)\<rparr> in
     bindE (liftE (ar_validate req auth)) (\<lambda>ok.
     if \<not> ok then forbidden req
     else bindE (oidc_ensureSessionFor ad d oi req (newOidcToken buf)) (\<lambda>sess.
       returnE (Authorized (auth\<lparr>au_session := Some sess\<rparr>))))))))"

definition oidc_AuthorizePublicKey :: "'k adeps \<Rightarrow> 'k deps \<Rightarrow> oidc_authorizer \<Rightarrow> 'k request \<Rightarrow> 'k answer am" where
  "oidc_AuthorizePublicKey ad d oi req =
     bindE (findSessionByKey d (oi_flow oi) req) (\<lambda>found.
     case found of
       None \<Rightarrow> forbidden req
     | Some sess \<Rightarrow>
         bindE (sessE (AuthorizationToken d sess)) (\<lambda>at.
         if at = [] then forbidden req
         else bindE (liftE (case ad_oidcDecode ad at of None \<Rightarrow> Inl (AErrMsg ''cannot decode token'') | Some t \<Rightarrow> Inr t)) (\<lambda>t.
           bindE (liftE (finalizeAuth oi t True)) (\<lambda>auth0.
           let auth = auth0\<lparr>au_sessionsPublicKey := Some (ar_key req)\<rparr> in
           bindE (liftE (ar_validate req auth)) (\<lambda>ok.
           if \<not> ok then forbidden req
           else bindE (updateSessionWith ad d t sess) (\<lambda>_. returnE (Authorized (auth\<lparr>au_session := Some sess\<rparr>))))))))"

definition oidc_AuthorizePassword :: "'k request \<Rightarrow> 'k answer am" where
  "oidc_AuthorizePassword req = forbidden req"

definition oidc_RestoreFromSession ::
    "'k adeps \<Rightarrow> 'k deps \<Rightarrow> oidc_authorizer \<Rightarrow> fs_session \<Rightarrow> bool option option \<Rightarrow> 'k answer am" where
  "oidc_RestoreFromSession ad d oi sess opts =
     (if ss_flow sess \<noteq> oi_flow oi then throwE AErrNoSuchAuthorization
      else bindE (sessE (AuthorizationToken d sess)) (\<lambda>tb.
        if tb = [] then throwE AErrNoSuchAuthorization
        else case ad_oidcDecode ad tb of
            None \<Rightarrow> throwE (AErrTyped TSystem ''cannot decode token'')
          | Some t \<Rightarrow>
              (case finalizeAuth oi t (\<not> RestoreOpts_IsAutoCleanUpAllowed opts) of
                 Inl e \<Rightarrow> if isType {TExpired, TPermission} e then cleanFromSessionOnly d sess opts else throwE e
               | Inr auth \<Rightarrow>
                   bindE (updateSessionWith ad d t sess) (\<lambda>_. returnE (Authorized (auth\<lparr>au_session := Some sess\<rparr>))))))"

definition oidcOps :: "'k adeps \<Rightarrow> 'k deps \<Rightarrow> oidc_authorizer \<Rightarrow> 'k authorizer_ops" where
  "oidcOps ad d oi =
     \<lparr>az_PublicKey = oidc_AuthorizePublicKey ad d oi, az_Password = oidc_AuthorizePassword,
      az_Interactive = oidc_AuthorizeInteractive ad d oi, az_Restore = oidc_RestoreFromSession ad d oi\<rparr>"

subsection \<open>The contract\<close>

lemma finalizeAuth_flow: "finalizeAuth oi t b = Inr auth \<Longrightarrow> au_flow auth = oi_flow oi"
  by (auto simp: finalizeAuth_def bindR_Inr_iff)

lemma AuthorizationToken_looks: "quiet s \<Longrightarrow> looks s (sessE (AuthorizationToken d sess))"
  by (simp add: looks_def mapErrE_def AuthorizationToken_def getToken_quiet)

lemma oidc_ensure_fields:
  "oidc_ensureSessionFor ad d oi req t s = (Inr sess, s') \<Longrightarrow> ss_flow sess = oi_flow oi \<and> ss_remoteUser sess = fst (ar_remote req)"
  unfolding oidc_ensureSessionFor_def mapErrE_Inr using sess_Create_fields(1,2) by blast

lemma oidc_interactive_law: "loginLaw (oi_flow oi) (oidc_AuthorizeInteractive ad d oi)"
  unfolding oidc_AuthorizeInteractive_def Let_def
  by (rule loginLaw_lawful) (auto intro!: lawful_rules dest: oidc_ensure_fields finalizeAuth_flow)

lemma lawful_kept:
  assumes "ss_flow sess = flow" "ss_remoteUser sess = fst (ar_remote req)" "au_session au = Some sess" "au_flow au = flow"
  shows "lawful flow req s (bindE m (\<lambda>_. returnE (Authorized au)))"
  using assms by (auto simp: lawful_def bindE_def returnE_def fitting_def split: prod.splits sum.splits)

lemma oidc_publicKey_law: "loginLaw (oi_flow oi) (oidc_AuthorizePublicKey ad d oi)"
  unfolding oidc_AuthorizePublicKey_def Let_def
  by (rule loginLaw_lawful)
    (auto intro!: lawful_forbidden lawful_option lawful_if lawful_liftE lawful_kept lawful_looks[OF findSessionByKey_looks]
      lawful_looks[OF AuthorizationToken_looks] dest: findSessionByKey_found finalizeAuth_flow)

lemma oidc_restore_law:
  "ss_flow sess \<noteq> oi_flow oi \<Longrightarrow> oidc_RestoreFromSession ad d oi sess opts s = (Inl AErrNoSuchAuthorization, s)"
  "oidc_RestoreFromSession ad d oi sess opts s = (Inr a, t) \<Longrightarrow>
     \<exists>au. a = Authorized au \<and> au_flow au = oi_flow oi \<and> au_session au = Some sess"
  by (auto simp: oidc_RestoreFromSession_def cleanFromSessionOnly_def throwE_def returnE_def bindE_def dest: finalizeAuth_flow
      split: if_splits sum.splits prod.splits option.splits)

lemma oidc_password_law: "loginLaw flow oidc_AuthorizePassword"
  by (rule loginLaw_lawful) (simp add: oidc_AuthorizePassword_def lawful_forbidden)

interpretation oidcAuth: authorizer "oi_flow oi" "oidcOps ad d oi"
  by unfold_locales (simp_all add: oidcOps_def oidc_publicKey_law oidc_password_law oidc_interactive_law oidc_restore_law)

subsection \<open>Properties\<close>

lemma finalizeAuth_unchecked:
  "finalizeAuth oi t False = Inr \<lparr>au_details = DOidc t None None, au_remote = None, au_envVars = [], au_flow = oi_flow oi,
      au_session = None, au_sessionsPublicKey = None\<rparr>"
  by (simp add: finalizeAuth_def)

text \<open>
  With the clean-up allowed, nothing is checked. A session of the flow whose token decodes is restored, whatever the
  identity provider says of the tokens, and the branch that clears the token of an expired login is not reached;
  \<^verbatim>\<open>verifyToken\<close> never reports \<^verbatim>\<open>Expired\<close>.
\<close>

theorem oidc_cleanup_checks_nothing:
  assumes "RestoreOpts_IsAutoCleanUpAllowed opts" "ss_flow sess = oi_flow oi"
    and "AuthorizationToken d sess s = (Inr tb, s)" "tb \<noteq> []" "ad_oidcDecode ad tb = Some t"
  shows "oidc_RestoreFromSession ad d oi sess opts s =
      (case SetAuthorizationToken d sess (ad_oidcEncode ad t) s of
         (Inl e, s') \<Rightarrow> (Inl (AErrSession e), s')
       | (Inr _, s') \<Rightarrow> (Inr (Authorized \<lparr>au_details = DOidc t None None, au_remote = None, au_envVars = [], au_flow = oi_flow oi,
            au_session = Some sess, au_sessionsPublicKey = None\<rparr>), s')) \<and>
    verifyToken oi t \<noteq> Inl (AErrTyped TExpired msg)"
proof
  show "oidc_RestoreFromSession ad d oi sess opts s =
      (case SetAuthorizationToken d sess (ad_oidcEncode ad t) s of
         (Inl e, s') \<Rightarrow> (Inl (AErrSession e), s')
       | (Inr _, s') \<Rightarrow> (Inr (Authorized \<lparr>au_details = DOidc t None None, au_remote = None, au_envVars = [], au_flow = oi_flow oi,
            au_session = Some sess, au_sessionsPublicKey = None\<rparr>), s'))"
    using assms by (cases "SetAuthorizationToken d sess (ad_oidcEncode ad t) s"; cases "fst (SetAuthorizationToken d sess (ad_oidcEncode ad t) s)")
      (simp_all add: oidc_RestoreFromSession_def finalizeAuth_unchecked bindE_def mapErrE_def updateSessionWith_def returnE_def)
  show "verifyToken oi t \<noteq> Inl (AErrTyped TExpired msg)"
    by (simp add: verifyToken_def errorsIs_nilTokenExpired_def split: sum.split verify_err.split)
qed

end
