(* ===== verification/AuthorizerFacade.thy ===== *)
theory AuthorizerFacade
  imports LocalAuthorizer SimpleAuthorizer OtherAuthorizers OidcAuthorizer
begin

section \<open>The authorizers of all flows together (pkg/authorization/facade-authorizer.go)\<close>

text \<open>
  The facade asks the flows' authorizers in the order of the configuration: those whose requirement on the name is met. The
  first authorization is the answer; an error ends the search. A regular expression is a function, \<open>None\<close> the zero value. The
  configuration's type selects the factory. \<open>sdeps\<close> holds what the factories get from elsewhere.
\<close>

record requirement_conf =
  rq_included :: "(bytes \<Rightarrow> bool) option"
  rq_excluded :: "(bytes \<Rightarrow> bool) option"

datatype 'k authorization_conf =
    ConfLocal "'k local_conf"
  | ConfSimple "simple_entry list"
  | ConfHtpasswd "(bytes \<Rightarrow> bytes \<Rightarrow> bool) option" "(bytes \<Rightarrow> bytes \<Rightarrow> bool) option"
  | ConfNone
  | ConfOidc "auth_err + idp" "auth_err + bytes list" bool bool
  | ConfUnknown

record 'k flow_conf =
  fl_Name :: bytes
  fl_Requirement :: requirement_conf
  fl_Authorization :: "'k authorization_conf"

record 'k facaded =
  fc_ops :: "'k authorizer_ops"
  fc_flow :: bytes
  fc_requirement :: requirement_conf

text \<open>\<^verbatim>\<open>facaded.newFrom\<close> with the registered factories.\<close>

definition newFrom :: "'k adeps \<Rightarrow> 'k deps \<Rightarrow> auth_err + repo \<Rightarrow> 'k flow_conf \<Rightarrow> auth_err + 'k facaded" where
  "newFrom ad d users flow =
     bindR (case fl_Authorization flow of
         ConfLocal c \<Rightarrow> bindR (NewLocal users (fl_Name flow) (Some c)) (\<lambda>a. Inr (localOps ad d a))
       | ConfSimple es \<Rightarrow> bindR (NewSimple (fl_Name flow) (Some es)) (\<lambda>a. Inr (simpleOps ad d a))
       | ConfHtpasswd f e \<Rightarrow> bindR (NewHtpasswd (fl_Name flow) (Some (f, e))) (\<lambda>a. Inr (htpasswdOps ad d a))
       | ConfNone \<Rightarrow> bindR (NewNone (fl_Name flow) (Some ())) (\<lambda>a. Inr (noneOps d a))
       | ConfOidc p scopes it ui \<Rightarrow> bindR (NewOidcDeviceAuth p (fl_Name flow) (Some (scopes, it, ui))) (\<lambda>a. Inr (oidcOps ad d a))
       | ConfUnknown \<Rightarrow> Inl (AErrTyped TConfig ''cannot handle authorization type'')) (\<lambda>ops.
     Inr \<lparr>fc_ops = ops, fc_flow = fl_Name flow, fc_requirement = fl_Requirement flow\<rparr>)"

definition NewAuthorizerFacade ::
    "'k adeps \<Rightarrow> 'k deps \<Rightarrow> auth_err + repo \<Rightarrow> 'k flow_conf list option \<Rightarrow> auth_err + 'k facaded list" where
  "NewAuthorizerFacade ad d users flows =
     (case flows of None \<Rightarrow> Inr [] | Some fs \<Rightarrow> MapSliceErr (newFrom ad d users) fs)"

definition canHandle :: "'k facaded \<Rightarrow> 'k request \<Rightarrow> bool" where
  "canHandle fc req =
     (let incl = rq_included (fc_requirement fc); excl = rq_excluded (fc_requirement fc); user = fst (ar_remote req) in
      if (case incl of None \<Rightarrow> False | Some match \<Rightarrow> \<not> match user) then False
      else if (case excl of None \<Rightarrow> False | Some match \<Rightarrow> match user) then False
      else True)"

text \<open>The loop of the three operations; \<open>op\<close> selects the operation of the candidate.\<close>

fun facadeLoop :: "('k authorizer_ops \<Rightarrow> 'k request \<Rightarrow> 'k answer am) \<Rightarrow> 'k facaded list \<Rightarrow> 'k request \<Rightarrow> 'k answer am" where
  "facadeLoop op [] req = forbidden req"
| "facadeLoop op (c # cs) req =
     (if canHandle c req
      then bindE (mapErrE (AErrFlow (fc_flow c)) (op (fc_ops c) req)) (\<lambda>resp.
        if IsAuthorized resp then returnE resp else facadeLoop op cs req)
      else facadeLoop op cs req)"

definition facade_AuthorizePublicKey :: "'k facaded list \<Rightarrow> 'k request \<Rightarrow> 'k answer am" where
  "facade_AuthorizePublicKey fa req = facadeLoop az_PublicKey fa req"

definition facade_AuthorizePassword :: "'k facaded list \<Rightarrow> 'k request \<Rightarrow> 'k answer am" where
  "facade_AuthorizePassword fa req = facadeLoop az_Password fa req"

definition facade_AuthorizeInteractive :: "'k facaded list \<Rightarrow> 'k request \<Rightarrow> 'k answer am" where
  "facade_AuthorizeInteractive fa req = facadeLoop az_Interactive fa req"

fun facade_RestoreFromSession :: "'k facaded list \<Rightarrow> fs_session \<Rightarrow> bool option option \<Rightarrow> 'k answer am" where
  "facade_RestoreFromSession [] sess opts = throwE AErrNoSuchAuthorization"
| "facade_RestoreFromSession (c # cs) sess opts =
     bindE (tryE (az_Restore (fc_ops c) sess opts)) (\<lambda>r :: auth_err + 'k answer.
     case r of
       Inl e \<Rightarrow> if isNoSuchAuthorization e then facade_RestoreFromSession cs sess opts else throwE (AErrFlow (fc_flow c) e)
     | Inr auth \<Rightarrow> returnE auth)"

subsection \<open>Every entry keeps the contract\<close>

definition facaded_ok :: "'k facaded \<Rightarrow> bool" where
  "facaded_ok fc \<longleftrightarrow> authorizer (fc_flow fc) (fc_ops fc)"

lemma authorizers_ok:
  "lo_flow a = flow \<Longrightarrow> authorizer flow (localOps ad d a)" "si_flow b = flow \<Longrightarrow> authorizer flow (simpleOps ad d b)"
  "hp_flow c = flow \<Longrightarrow> authorizer flow (htpasswdOps ad d c)" "authorizer flow (noneOps d flow)"
  "oi_flow e = flow \<Longrightarrow> authorizer flow (oidcOps ad d e)"
  using localAuth.authorizer_axioms simpleAuth.authorizer_axioms htpasswdAuth.authorizer_axioms noneAuth.authorizer_axioms
    oidcAuth.authorizer_axioms by blast+

lemma newFrom_ok: "newFrom ad d users flow = Inr fc \<Longrightarrow> facaded_ok fc \<and> fc_flow fc = fl_Name flow"
  by (cases "fl_Authorization flow")
    (auto simp: newFrom_def bindR_Inr_iff NewLocal_def NewSimple_def NewHtpasswd_def NewNone_def NewOidcDeviceAuth_def facaded_ok_def
      intro!: authorizers_ok)

lemma MapSliceErr_set: "MapSliceErr f xs = Inr ys \<Longrightarrow> y \<in> set ys \<Longrightarrow> \<exists>x \<in> set xs. f x = Inr y"
proof (induction xs arbitrary: ys)
  case (Cons x xs)
  then obtain z zs where "f x = Inr z" "MapSliceErr f xs = Inr zs" "ys = z # zs" by (auto simp: bindR_Inr_iff)
  then show ?case using Cons.IH[of zs] Cons.prems(2) by auto
qed simp

lemma MapSliceErr_map: "MapSliceErr f xs = Inr ys \<Longrightarrow> (\<And>x y. f x = Inr y \<Longrightarrow> g y = h x) \<Longrightarrow> map g ys = map h xs"
  by (induction xs arbitrary: ys) (auto simp: bindR_Inr_iff)

lemma facade_ok:
  assumes "NewAuthorizerFacade ad d users flows = Inr fa"
  shows "\<forall>c \<in> set fa. facaded_ok c"
    "map fc_flow fa = (case flows of None \<Rightarrow> [] | Some fs \<Rightarrow> map fl_Name fs)"
proof -
  have "\<exists>x \<in> set fs. newFrom ad d users x = Inr c" if "flows = Some fs" "c \<in> set fa" for c fs
    using assms that MapSliceErr_set[of "newFrom ad d users" fs fa c] by (simp add: NewAuthorizerFacade_def)
  then show "\<forall>c \<in> set fa. facaded_ok c"
    using assms newFrom_ok by (cases flows) (auto simp: NewAuthorizerFacade_def, blast)
  have "map fc_flow fa = map fl_Name fs" if "flows = Some fs" for fs
  proof (rule MapSliceErr_map)
    show "MapSliceErr (newFrom ad d users) fs = Inr fa" using assms that by (simp add: NewAuthorizerFacade_def)
  qed (use newFrom_ok in blast)
  then show "map fc_flow fa = (case flows of None \<Rightarrow> [] | Some fs \<Rightarrow> map fl_Name fs)"
    using assms by (cases flows) (simp_all add: NewAuthorizerFacade_def)
qed

subsection \<open>Properties\<close>

text \<open>The three operations of the interface.\<close>

definition login_ops :: "('k authorizer_ops \<Rightarrow> 'k request \<Rightarrow> 'k answer am) set" where
  "login_ops = {az_PublicKey, az_Password, az_Interactive}"

lemma facaded_law: "facaded_ok c \<Longrightarrow> op \<in> login_ops \<Longrightarrow> loginLaw (fc_flow c) (op (fc_ops c))"
  unfolding facaded_ok_def login_ops_def
  by (auto simp: authorizer.publicKey authorizer.password authorizer.interactive)

text \<open>What the loop computes: the answer of the first flow, among those that can handle the request, that does not reject it.\<close>

definition firstAnswer :: "('k authorizer_ops \<Rightarrow> 'k request \<Rightarrow> 'k answer am) \<Rightarrow> 'k facaded list \<Rightarrow> 'k request \<Rightarrow> 'k answer am" where
  "firstAnswer op fa req s =
     (case find (\<lambda>c. canHandle c req \<and> op (fc_ops c) req s \<noteq> (Inr (Forbidden (ar_remote req)), s)) fa of
        None \<Rightarrow> (Inr (Forbidden (ar_remote req)), s)
      | Some c \<Rightarrow> mapErrE (AErrFlow (fc_flow c)) (op (fc_ops c) req) s)"

lemma facadeLoop_first:
  assumes "\<forall>c \<in> set fa. facaded_ok c" "op \<in> login_ops" "quiet s"
  shows "facadeLoop op fa req s = firstAnswer op fa req s"
  using assms(1)
proof (induction fa)
  case Nil
  then show ?case by (simp add: forbidden_def returnE_def firstAnswer_def)
next
  case (Cons c fa)
  then have IH: "facadeLoop op fa req s = firstAnswer op fa req s" by simp
  have law: "loginLaw (fc_flow c) (op (fc_ops c))" using Cons.prems assms(2) by (simp add: facaded_law)
  show ?case
  proof (cases "canHandle c req \<and> op (fc_ops c) req s \<noteq> (Inr (Forbidden (ar_remote req)), s)")
    case False
    then have "facadeLoop op (c # fa) req s = facadeLoop op fa req s" by (auto simp: bindE_def mapErrE_def IsAuthorized_def)
    then show ?thesis using False IH unfolding firstAnswer_def find.simps by (simp only: if_False)
  next
    case True
    have "facadeLoop op (c # fa) req s = mapErrE (AErrFlow (fc_flow c)) (op (fc_ops c) req) s"
    proof (cases "op (fc_ops c) req s")
      case (Pair r u)
      show ?thesis
      proof (cases r)
        case (Inr a)
        then have "IsAuthorized a"
          using loginLaw_rejected[OF law assms(3)] Pair True by (cases a) (auto simp: IsAuthorized_def)
        then show ?thesis using True Pair Inr by (simp add: bindE_def mapErrE_def returnE_def)
      qed (use True Pair in \<open>simp add: bindE_def mapErrE_def\<close>)
    qed
    then show ?thesis using True by (simp add: firstAnswer_def)
  qed
qed

text \<open>
  C9: The facade of a configuration answers a login, by key, password or dialogue, with the answer of the first flow whose
  requirement the name meets and that does not reject the request; an error of that flow is the answer too, so that the flows
  after it are not asked. When every such flow rejects, the answer is \<^verbatim>\<open>Forbidden\<close>, and nothing has changed.
\<close>

theorem facade_first_match:
  assumes "NewAuthorizerFacade ad d users flows = Inr fa" "quiet s"
  shows "facade_AuthorizePublicKey fa req s = firstAnswer az_PublicKey fa req s \<and>
    facade_AuthorizePassword fa req s = firstAnswer az_Password fa req s \<and>
    facade_AuthorizeInteractive fa req s = firstAnswer az_Interactive fa req s"
  using facadeLoop_first[OF facade_ok(1)[OF assms(1)] _ assms(2)]
  by (simp add: facade_AuthorizePublicKey_def facade_AuthorizePassword_def facade_AuthorizeInteractive_def login_ops_def)

lemma restore_other_flow:
  "facaded_ok c \<Longrightarrow> fc_flow c \<noteq> ss_flow sess \<Longrightarrow> az_Restore (fc_ops c) sess opts u = (Inl AErrNoSuchAuthorization, u)"
  using authorizer.restore_other[of "fc_flow c" "fc_ops c" sess] by (auto simp: facaded_ok_def)

lemma restore_misses:
  "\<forall>c \<in> set cs. facaded_ok c \<Longrightarrow> \<forall>c \<in> set cs. fc_flow c \<noteq> ss_flow sess \<Longrightarrow>
   facade_RestoreFromSession cs sess opts u = (Inl AErrNoSuchAuthorization, u)"
  by (induction cs) (simp_all add: throwE_def bindE_def tryE_def restore_other_flow)

lemma restore_in_flow:
  assumes "\<forall>c \<in> set cs. facaded_ok c" "distinct (map fc_flow cs)"
  shows "facade_RestoreFromSession cs sess opts s =
    (case find (\<lambda>c. fc_flow c = ss_flow sess) cs of
       None \<Rightarrow> (Inl AErrNoSuchAuthorization, s)
     | Some c \<Rightarrow>
         (case az_Restore (fc_ops c) sess opts s of
            (Inl e, t) \<Rightarrow> (Inl (if isNoSuchAuthorization e then AErrNoSuchAuthorization else AErrFlow (fc_flow c) e), t)
          | (Inr a, t) \<Rightarrow> (Inr a, t)))"
  using assms
proof (induction cs)
  case (Cons c cs)
  show ?case
  proof (cases "fc_flow c = ss_flow sess")
    case True
    then have "\<forall>c' \<in> set cs. fc_flow c' \<noteq> ss_flow sess" using Cons.prems(2) by force
    then show ?thesis using restore_misses[of cs] Cons.prems(1) True
      by (simp add: bindE_def tryE_def throwE_def returnE_def split: prod.split sum.split)
  next
    case False
    then have "az_Restore (fc_ops c) sess opts s = (Inl AErrNoSuchAuthorization, s)"
      using Cons.prems(1) by (simp add: restore_other_flow)
    then show ?thesis using Cons False by (simp add: bindE_def tryE_def)
  qed
qed (simp add: throwE_def)

text \<open>
  A session belongs to one flow. When the names of the flows are distinct, \<^verbatim>\<open>RestoreFromSession\<close> of the facade is that
  of the flow with the session's name, and without such a flow there is no authorization.
\<close>

theorem facade_restores_in_flow:
  assumes "NewAuthorizerFacade ad d users (Some flows) = Inr fa" "distinct (map fl_Name flows)"
  shows "facade_RestoreFromSession fa sess opts s =
    (case find (\<lambda>c. fc_flow c = ss_flow sess) fa of
       None \<Rightarrow> (Inl AErrNoSuchAuthorization, s)
     | Some c \<Rightarrow>
         (case az_Restore (fc_ops c) sess opts s of
            (Inl e, t) \<Rightarrow> (Inl (if isNoSuchAuthorization e then AErrNoSuchAuthorization else AErrFlow (fc_flow c) e), t)
          | (Inr a, t) \<Rightarrow> (Inr a, t)))"
  using restore_in_flow[OF facade_ok(1)[OF assms(1)]] facade_ok(2)[OF assms(1)] assms(2) by simp

text \<open>
  A user whom the host does not know stops the login by password. With a local flow first that allows passwords, the answer
  is its error and not a rejection: the flows after it, which may know the user, are not asked.
\<close>

theorem unknown_local_user_stops_login:
  assumes "NewAuthorizerFacade ad d (Inr repo)
      (Some (\<lparr>fl_Name = n, fl_Requirement = \<lparr>rq_included = None, rq_excluded = None\<rparr>, fl_Authorization = ConfLocal c\<rparr> # rest)) = Inr fa"
    and "lc_PasswordAllowed c req = Inr True" "lc_PamService c = []" "ar_password req \<noteq> []"
    and "r_nameToUser repo (fst (ar_remote req)) = None"
  shows "facade_AuthorizePassword fa req s = (Inl (AErrFlow n (AErrUser ErrNoSuchUser)), s)"
proof -
  let ?lo = "\<lparr>lo_flow = n, lo_conf = c, lo_users = repo\<rparr>"
  obtain cs where fa: "fa = \<lparr>fc_ops = localOps ad d ?lo, fc_flow = n, fc_requirement = \<lparr>rq_included = None, rq_excluded = None\<rparr>\<rparr> # cs"
    using assms(1) by (auto simp: NewAuthorizerFacade_def newFrom_def NewLocal_def bindR_Inr_iff)
  have "local_AuthorizePassword ad d ?lo req s = (Inl (AErrUser ErrNoSuchUser), s)"
    using assms(2-5)
    by (simp add: local_AuthorizePassword_def local_authorizeWith_def local_checkPassword_def assertNoPamServiceConfigured_def
        checkPasswordValueViaRepository_def local_validatePassword_def ValidatePasswordByName_def bindE_def liftE_def)
  then show ?thesis
    by (simp add: facade_AuthorizePassword_def fa canHandle_def localOps_def bindE_def mapErrE_def)
qed

end
