(* ===== verification/KeyRestrictions.thy ===== *)
theory KeyRestrictions
  imports GoLib
begin

section \<open>Which keys may be used (pkg/crypto/*-restriction.go, pkg/configuration/keys.go)\<close>

text \<open>
  A restriction is a byte with named values; each of the four kinds of keys has one. A key is what the type switches
  distinguish: \<open>Wrapped\<close> is a \<^verbatim>\<open>PrivateKey\<close>, \<^verbatim>\<open>PublicKey\<close>, \<^verbatim>\<open>ssh.Signer\<close> or \<^verbatim>\<open>ssh.CryptoPublicKey\<close> around a key, the others are the
  keys of the standard library, public or private, by value or by pointer, with their size: the bits of the modulus \<open>N\<close>, of the
  prime \<open>P\<close> and of the curve, and the bytes of an Ed25519 key.
\<close>

type_synonym restriction = "8 word"

datatype sdk_key =
    Wrapped sdk_key
  | RsaKey nat
  | DsaKey nat
  | EcdsaKey nat
  | Ed25519Key nat
  | OtherKey

text \<open>\<^verbatim>\<open>illegal\<close> errors carry the value or the text.\<close>

datatype restriction_err = IllegalRestriction restriction | IllegalRestrictionText bytes

abbreviation RestrictionNone :: restriction where "RestrictionNone \<equiv> 0"
abbreviation RestrictionAll :: restriction where "RestrictionAll \<equiv> 1"

subsection \<open>rsa-restriction.go\<close>

definition DefaultRsaRestriction :: restriction where
  "DefaultRsaRestriction = 5"

definition RsaRestriction_Validate :: "restriction \<Rightarrow> restriction_err + unit" where
  "RsaRestriction_Validate this = (if this \<in> {0, 1, 2, 3, 4, 5} then Inr () else Inl (IllegalRestriction this))"

definition RsaRestriction_MarshalText :: "restriction \<Rightarrow> restriction_err + bytes" where
  "RsaRestriction_MarshalText this =
     (if this = RestrictionNone then Inr ''none''
      else if this = RestrictionAll then Inr ''all''
      else if this = 2 then Inr ''at-least-1024-bits''
      else if this = 3 then Inr ''at-least-2048-bits''
      else if this = 4 then Inr ''at-least-3072-bits''
      else if this = 5 then Inr ''at-least-4096-bits''
      else Inl (IllegalRestriction this))"

definition RsaRestriction_UnmarshalText :: "bytes \<Rightarrow> restriction_err + restriction" where
  "RsaRestriction_UnmarshalText text =
     (let t = to_lower text in
      if t \<in> {[], ''none'', ''forbidden''} then Inr RestrictionNone
      else if t \<in> {''all'', ''unrestricted''} then Inr RestrictionAll
      else if t \<in> {''at-least-1024-bits'', ''atleast1024bits'', ''at_least_1024_bits'', ''at-least-1024'',
                     ''atleast1024'', ''at_least_1024'', ''1024'', ''1024bits''} then Inr 2
      else if t \<in> {''at-least-2048-bits'', ''atleast2048bits'', ''at_least_2048_bits'', ''at-least-2048'',
                     ''atleast2048'', ''at_least_2048'', ''2048'', ''2048bits''} then Inr 3
      else if t \<in> {''at-least-3072-bits'', ''atleast3072bits'', ''at_least_3072_bits'', ''at-least-3072'',
                     ''atleast3072'', ''at_least_3072'', ''3072'', ''3072bits''} then Inr 4
      else if t \<in> {''at-least-4096-bits'', ''atleast4096bits'', ''at_least_4096_bits'', ''at-least-4096'',
                     ''atleast4096'', ''at_least_4096'', ''4096'', ''4096bits''} then Inr 5
      else Inl (IllegalRestrictionText text))"

definition RsaRestriction_BitsAllowed :: "restriction \<Rightarrow> nat \<Rightarrow> bool" where
  "RsaRestriction_BitsAllowed this bits =
     (if this = RestrictionAll then True
      else if this = 2 then bits \<ge> 1024
      else if this = 3 then bits \<ge> 2048
      else if this = 4 then bits \<ge> 3072
      else if this = 5 then bits \<ge> 4096
      else False)"

fun RsaRestriction_KeyAllowed :: "restriction \<Rightarrow> sdk_key \<Rightarrow> bool" where
  "RsaRestriction_KeyAllowed this (Wrapped k) = RsaRestriction_KeyAllowed this k"
| "RsaRestriction_KeyAllowed this (RsaKey bits) = RsaRestriction_BitsAllowed this bits"
| "RsaRestriction_KeyAllowed this _ = False"

subsection \<open>dsa-restriction.go\<close>

definition DefaultDsaRestriction :: restriction where
  "DefaultDsaRestriction = 0"

definition DsaRestriction_Validate :: "restriction \<Rightarrow> restriction_err + unit" where
  "DsaRestriction_Validate this = (if this \<in> {0, 1, 2, 3, 4} then Inr () else Inl (IllegalRestriction this))"

definition DsaRestriction_MarshalText :: "restriction \<Rightarrow> restriction_err + bytes" where
  "DsaRestriction_MarshalText this =
     (if this = RestrictionNone then Inr ''none''
      else if this = RestrictionAll then Inr ''all''
      else if this = 2 then Inr ''at-least-1024-bits''
      else if this = 3 then Inr ''at-least-2048-bits''
      else if this = 4 then Inr ''at-least-3072-bits''
      else Inl (IllegalRestriction this))"

definition DsaRestriction_UnmarshalText :: "bytes \<Rightarrow> restriction_err + restriction" where
  "DsaRestriction_UnmarshalText text =
     (let t = to_lower text in
      if t \<in> {[], ''none'', ''forbidden''} then Inr RestrictionNone
      else if t \<in> {''all'', ''unrestricted''} then Inr RestrictionAll
      else if t \<in> {''at-least-1024-bits'', ''atleast1024bits'', ''at_least_1024_bits'', ''at-least-1024'',
                     ''atleast1024'', ''at_least_1024'', ''1024'', ''1024bits''} then Inr 2
      else if t \<in> {''at-least-2048-bits'', ''atleast2048bits'', ''at_least_2048_bits'', ''at-least-2048'',
                     ''atleast2048'', ''at_least_2048'', ''2048'', ''2048bits''} then Inr 3
      else if t \<in> {''at-least-3072-bits'', ''atleast3072bits'', ''at_least_3072_bits'', ''at-least-3072'',
                     ''atleast3072'', ''at_least_3072'', ''3072'', ''3072bits''} then Inr 4
      else Inl (IllegalRestrictionText text))"

definition DsaRestriction_BitsAllowed :: "restriction \<Rightarrow> nat \<Rightarrow> bool" where
  "DsaRestriction_BitsAllowed this bits =
     (if this = RestrictionAll then True
      else if this = 2 then bits \<ge> 1024
      else if this = 3 then bits \<ge> 2048
      else if this = 4 then bits \<ge> 3072
      else False)"

fun DsaRestriction_KeyAllowed :: "restriction \<Rightarrow> sdk_key \<Rightarrow> bool" where
  "DsaRestriction_KeyAllowed this (Wrapped k) = DsaRestriction_KeyAllowed this k"
| "DsaRestriction_KeyAllowed this (DsaKey bits) = DsaRestriction_BitsAllowed this bits"
| "DsaRestriction_KeyAllowed this _ = False"

subsection \<open>ecdsa-restriction.go\<close>

definition DefaultEcdsaRestriction :: restriction where
  "DefaultEcdsaRestriction = 3"

definition EcdsaRestriction_Validate :: "restriction \<Rightarrow> restriction_err + unit" where
  "EcdsaRestriction_Validate this = (if this \<in> {0, 1, 2, 3, 4} then Inr () else Inl (IllegalRestriction this))"

definition EcdsaRestriction_MarshalText :: "restriction \<Rightarrow> restriction_err + bytes" where
  "EcdsaRestriction_MarshalText this =
     (if this = RestrictionNone then Inr ''none''
      else if this = RestrictionAll then Inr ''all''
      else if this = 2 then Inr ''at-least-256-bits''
      else if this = 3 then Inr ''at-least-384-bits''
      else if this = 4 then Inr ''at-least-521-bits''
      else Inl (IllegalRestriction this))"

definition EcdsaRestriction_UnmarshalText :: "bytes \<Rightarrow> restriction_err + restriction" where
  "EcdsaRestriction_UnmarshalText text =
     (let t = to_lower text in
      if t \<in> {[], ''none'', ''forbidden''} then Inr RestrictionNone
      else if t \<in> {''all'', ''unrestricted''} then Inr RestrictionAll
      else if t \<in> {''at-least-256-bits'', ''atleast256bits'', ''at_least_256_bits'', ''at-least-256'',
                     ''atleast256'', ''at_least_256'', ''256'', ''256bits''} then Inr 2
      else if t \<in> {''at-least-384-bits'', ''atleast384bits'', ''at_least_384_bits'', ''at-least-384'',
                     ''atleast384'', ''at_least_384'', ''384'', ''384bits''} then Inr 3
      else if t \<in> {''at-least-521-bits'', ''atleast521bits'', ''at_least_521_bits'', ''at-least-521'',
                     ''atleast521'', ''at_least_521'', ''521'', ''521bits''} then Inr 4
      else Inl (IllegalRestrictionText text))"

definition EcdsaRestriction_BitsAllowed :: "restriction \<Rightarrow> nat \<Rightarrow> bool" where
  "EcdsaRestriction_BitsAllowed this bits =
     (if this = RestrictionAll then True
      else if this = 2 then bits \<ge> 256
      else if this = 3 then bits \<ge> 384
      else if this = 4 then bits \<ge> 521
      else False)"

fun EcdsaRestriction_KeyAllowed :: "restriction \<Rightarrow> sdk_key \<Rightarrow> bool" where
  "EcdsaRestriction_KeyAllowed this (Wrapped k) = EcdsaRestriction_KeyAllowed this k"
| "EcdsaRestriction_KeyAllowed this (EcdsaKey bits) = EcdsaRestriction_BitsAllowed this bits"
| "EcdsaRestriction_KeyAllowed this _ = False"

subsection \<open>ed25519-restriction.go\<close>

definition DefaultEd25519Restriction :: restriction where
  "DefaultEd25519Restriction = 1"

definition Ed25519Restriction_Validate :: "restriction \<Rightarrow> restriction_err + unit" where
  "Ed25519Restriction_Validate this = (if this \<in> {0, 1, 2} then Inr () else Inl (IllegalRestriction this))"

definition Ed25519Restriction_MarshalText :: "restriction \<Rightarrow> restriction_err + bytes" where
  "Ed25519Restriction_MarshalText this =
     (if this = RestrictionNone then Inr ''none''
      else if this = RestrictionAll then Inr ''all''
      else if this = 2 then Inr ''at-least-256-bits''
      else Inl (IllegalRestriction this))"

definition Ed25519Restriction_UnmarshalText :: "bytes \<Rightarrow> restriction_err + restriction" where
  "Ed25519Restriction_UnmarshalText text =
     (let t = to_lower text in
      if t \<in> {[], ''none'', ''forbidden''} then Inr RestrictionNone
      else if t \<in> {''all'', ''unrestricted''} then Inr RestrictionAll
      else if t \<in> {''at-least-256-bits'', ''atleast256bits'', ''at_least_256_bits'', ''at-least-256'',
                     ''atleast256'', ''at_least_256'', ''256'', ''256bits''} then Inr 2
      else Inl (IllegalRestrictionText text))"

definition Ed25519Restriction_BitsAllowed :: "restriction \<Rightarrow> nat \<Rightarrow> bool" where
  "Ed25519Restriction_BitsAllowed this bits =
     (if this = RestrictionAll then True
      else if this = 2 then bits \<ge> 256
      else False)"

fun Ed25519Restriction_KeyAllowed :: "restriction \<Rightarrow> sdk_key \<Rightarrow> bool" where
  "Ed25519Restriction_KeyAllowed this (Wrapped k) = Ed25519Restriction_KeyAllowed this k"
| "Ed25519Restriction_KeyAllowed this (Ed25519Key len) = Ed25519Restriction_BitsAllowed this (len * 8)"
| "Ed25519Restriction_KeyAllowed this _ = False"

subsection \<open>The restrictions together (keys.go)\<close>

record keys_conf =
  ky_Rsa :: restriction
  ky_Dsa :: restriction
  ky_Ecdsa :: restriction
  ky_Ed25519 :: restriction

definition Keys_SetDefaults :: keys_conf where
  "Keys_SetDefaults =
     \<lparr>ky_Rsa = DefaultRsaRestriction, ky_Dsa = DefaultDsaRestriction, ky_Ecdsa = DefaultEcdsaRestriction,
      ky_Ed25519 = DefaultEd25519Restriction\<rparr>"

definition Keys_KeyAllowed :: "keys_conf \<Rightarrow> sdk_key \<Rightarrow> bool" where
  "Keys_KeyAllowed this k =
     (if RsaRestriction_KeyAllowed (ky_Rsa this) k then True
      else if DsaRestriction_KeyAllowed (ky_Dsa this) k then True
      else if EcdsaRestriction_KeyAllowed (ky_Ecdsa this) k then True
      else if Ed25519Restriction_KeyAllowed (ky_Ed25519 this) k then True
      else False)"

subsection \<open>Properties\<close>

text \<open>The key inside its wrappers.\<close>

fun unwrapped :: "sdk_key \<Rightarrow> sdk_key" where
  "unwrapped (Wrapped k) = unwrapped k"
| "unwrapped k = k"

lemma KeyAllowed_unwrapped:
  "RsaRestriction_KeyAllowed r (unwrapped k) = RsaRestriction_KeyAllowed r k"
  "DsaRestriction_KeyAllowed r (unwrapped k) = DsaRestriction_KeyAllowed r k"
  "EcdsaRestriction_KeyAllowed r (unwrapped k) = EcdsaRestriction_KeyAllowed r k"
  "Ed25519Restriction_KeyAllowed r (unwrapped k) = Ed25519Restriction_KeyAllowed r k"
  by (induction k) simp_all

text \<open>
  A key is allowed exactly if the restriction of its own kind allows its size; a key of another kind is never allowed. In
  the default configuration that is RSA from 4096 bits, ECDSA from 384 bits, Ed25519, and no DSA.
\<close>

theorem key_allowed_by_own_kind:
  "Keys_KeyAllowed c k \<longleftrightarrow>
     (case unwrapped k of
        RsaKey bits \<Rightarrow> RsaRestriction_BitsAllowed (ky_Rsa c) bits
      | DsaKey bits \<Rightarrow> DsaRestriction_BitsAllowed (ky_Dsa c) bits
      | EcdsaKey bits \<Rightarrow> EcdsaRestriction_BitsAllowed (ky_Ecdsa c) bits
      | Ed25519Key len \<Rightarrow> Ed25519Restriction_BitsAllowed (ky_Ed25519 c) (len * 8)
      | _ \<Rightarrow> False) \<and>
   (Keys_KeyAllowed Keys_SetDefaults k \<longleftrightarrow>
     (case unwrapped k of RsaKey bits \<Rightarrow> 4096 \<le> bits | EcdsaKey bits \<Rightarrow> 384 \<le> bits | Ed25519Key _ \<Rightarrow> True | _ \<Rightarrow> False))"
proof -
  have nw: "unwrapped k \<noteq> Wrapped x" for x by (induction k) simp_all
  have "Keys_KeyAllowed c k \<longleftrightarrow>
     (case unwrapped k of
        RsaKey bits \<Rightarrow> RsaRestriction_BitsAllowed (ky_Rsa c) bits
      | DsaKey bits \<Rightarrow> DsaRestriction_BitsAllowed (ky_Dsa c) bits
      | EcdsaKey bits \<Rightarrow> EcdsaRestriction_BitsAllowed (ky_Ecdsa c) bits
      | Ed25519Key len \<Rightarrow> Ed25519Restriction_BitsAllowed (ky_Ed25519 c) (len * 8)
      | _ \<Rightarrow> False)" for c
    unfolding Keys_KeyAllowed_def KeyAllowed_unwrapped[symmetric, of _ k] using nw by (cases "unwrapped k") auto
  from this[of c] this[of Keys_SetDefaults] show ?thesis
    by (auto simp: Keys_SetDefaults_def DefaultRsaRestriction_def DefaultDsaRestriction_def DefaultEcdsaRestriction_def
        DefaultEd25519Restriction_def RsaRestriction_BitsAllowed_def DsaRestriction_BitsAllowed_def
        EcdsaRestriction_BitsAllowed_def Ed25519Restriction_BitsAllowed_def split: sdk_key.splits)
qed

text \<open>Texts without capitals and without bytes beyond ASCII.\<close>

definition plainLower :: "bytes \<Rightarrow> bool" where
  "plainLower t \<longleftrightarrow> list_all (\<lambda>c. (of_char c :: nat) < 65 \<or> 90 < (of_char c :: nat) \<and> (of_char c :: nat) < 128) t"

lemma to_lower_plain: "plainLower t \<Longrightarrow> to_lower t = t"
  by (induction t rule: to_lower.induct) (auto simp: plainLower_def char_lower_def)

lemma Rsa_texts:
  "RsaRestriction_MarshalText r = Inr t \<longleftrightarrow>
     r = 0 \<and> t = ''none'' \<or> r = 1 \<and> t = ''all'' \<or> r = 2 \<and> t = ''at-least-1024-bits'' \<or>
     r = 3 \<and> t = ''at-least-2048-bits'' \<or> r = 4 \<and> t = ''at-least-3072-bits'' \<or> r = 5 \<and> t = ''at-least-4096-bits''"
  by (auto simp: RsaRestriction_MarshalText_def)

lemma Rsa_roundtrip:
  assumes "RsaRestriction_MarshalText r = Inr t"
  shows "RsaRestriction_UnmarshalText t = Inr r"
proof -
  have "to_lower t = t" by (rule to_lower_plain) (use assms in \<open>unfold Rsa_texts, elim disjE conjE; simp add: plainLower_def\<close>)
  with assms show ?thesis unfolding Rsa_texts RsaRestriction_UnmarshalText_def Let_def
    by (elim disjE conjE; simp del: to_lower.simps)
qed

lemma Rsa_valid: "RsaRestriction_Validate r = Inr () \<longleftrightarrow> (\<exists>u. RsaRestriction_MarshalText r = Inr u)"
  by (auto simp: Rsa_texts RsaRestriction_Validate_def)

lemma Dsa_texts:
  "DsaRestriction_MarshalText r = Inr t \<longleftrightarrow>
     r = 0 \<and> t = ''none'' \<or> r = 1 \<and> t = ''all'' \<or> r = 2 \<and> t = ''at-least-1024-bits'' \<or>
     r = 3 \<and> t = ''at-least-2048-bits'' \<or> r = 4 \<and> t = ''at-least-3072-bits''"
  by (auto simp: DsaRestriction_MarshalText_def)

lemma Dsa_roundtrip:
  assumes "DsaRestriction_MarshalText r = Inr t"
  shows "DsaRestriction_UnmarshalText t = Inr r"
proof -
  have "to_lower t = t" by (rule to_lower_plain) (use assms in \<open>unfold Dsa_texts, elim disjE conjE; simp add: plainLower_def\<close>)
  with assms show ?thesis unfolding Dsa_texts DsaRestriction_UnmarshalText_def Let_def
    by (elim disjE conjE; simp del: to_lower.simps)
qed

lemma Dsa_valid: "DsaRestriction_Validate r = Inr () \<longleftrightarrow> (\<exists>u. DsaRestriction_MarshalText r = Inr u)"
  by (auto simp: Dsa_texts DsaRestriction_Validate_def)

lemma Ecdsa_texts:
  "EcdsaRestriction_MarshalText r = Inr t \<longleftrightarrow>
     r = 0 \<and> t = ''none'' \<or> r = 1 \<and> t = ''all'' \<or> r = 2 \<and> t = ''at-least-256-bits'' \<or>
     r = 3 \<and> t = ''at-least-384-bits'' \<or> r = 4 \<and> t = ''at-least-521-bits''"
  by (auto simp: EcdsaRestriction_MarshalText_def)

lemma Ecdsa_roundtrip:
  assumes "EcdsaRestriction_MarshalText r = Inr t"
  shows "EcdsaRestriction_UnmarshalText t = Inr r"
proof -
  have "to_lower t = t" by (rule to_lower_plain) (use assms in \<open>unfold Ecdsa_texts, elim disjE conjE; simp add: plainLower_def\<close>)
  with assms show ?thesis unfolding Ecdsa_texts EcdsaRestriction_UnmarshalText_def Let_def
    by (elim disjE conjE; simp del: to_lower.simps)
qed

lemma Ecdsa_valid: "EcdsaRestriction_Validate r = Inr () \<longleftrightarrow> (\<exists>u. EcdsaRestriction_MarshalText r = Inr u)"
  by (auto simp: Ecdsa_texts EcdsaRestriction_Validate_def)

lemma Ed25519_texts:
  "Ed25519Restriction_MarshalText r = Inr t \<longleftrightarrow>
     r = 0 \<and> t = ''none'' \<or> r = 1 \<and> t = ''all'' \<or> r = 2 \<and> t = ''at-least-256-bits''"
  by (auto simp: Ed25519Restriction_MarshalText_def)

lemma Ed25519_roundtrip:
  assumes "Ed25519Restriction_MarshalText r = Inr t"
  shows "Ed25519Restriction_UnmarshalText t = Inr r"
proof -
  have "to_lower t = t" by (rule to_lower_plain) (use assms in \<open>unfold Ed25519_texts, elim disjE conjE; simp add: plainLower_def\<close>)
  with assms show ?thesis unfolding Ed25519_texts Ed25519Restriction_UnmarshalText_def Let_def
    by (elim disjE conjE; simp del: to_lower.simps)
qed

lemma Ed25519_valid: "Ed25519Restriction_Validate r = Inr () \<longleftrightarrow> (\<exists>u. Ed25519Restriction_MarshalText r = Inr u)"
  by (auto simp: Ed25519_texts Ed25519Restriction_Validate_def)

text \<open>
  The texts of a restriction: what is written is read back, and exactly the values that validate have a text.
\<close>

theorem restriction_text_roundtrip:
  "(RsaRestriction_MarshalText r = Inr t \<longrightarrow> RsaRestriction_UnmarshalText t = Inr r) \<and>
   (DsaRestriction_MarshalText r = Inr t \<longrightarrow> DsaRestriction_UnmarshalText t = Inr r) \<and>
   (EcdsaRestriction_MarshalText r = Inr t \<longrightarrow> EcdsaRestriction_UnmarshalText t = Inr r) \<and>
   (Ed25519Restriction_MarshalText r = Inr t \<longrightarrow> Ed25519Restriction_UnmarshalText t = Inr r) \<and>
   (RsaRestriction_Validate r = Inr () \<longleftrightarrow> (\<exists>u. RsaRestriction_MarshalText r = Inr u)) \<and>
   (DsaRestriction_Validate r = Inr () \<longleftrightarrow> (\<exists>u. DsaRestriction_MarshalText r = Inr u)) \<and>
   (EcdsaRestriction_Validate r = Inr () \<longleftrightarrow> (\<exists>u. EcdsaRestriction_MarshalText r = Inr u)) \<and>
   (Ed25519Restriction_Validate r = Inr () \<longleftrightarrow> (\<exists>u. Ed25519Restriction_MarshalText r = Inr u))"
  by (intro conjI impI) (erule Rsa_roundtrip Dsa_roundtrip Ecdsa_roundtrip Ed25519_roundtrip | rule Rsa_valid Dsa_valid Ecdsa_valid Ed25519_valid)+

end
