(* ===== verification/ServiceAuth.thy ===== *)
theory ServiceAuth
  imports AuthorizerFacade KeyRestrictions
begin

section \<open>Logins of the SSH server (pkg/service/service-authorization.go)\<close>

text \<open>
  The handlers of one connection. \<open>conn_ctx\<close> holds the two values of the connection's context that the handlers set: the
  authorization, and the first key that was offered. \<open>svc\<close> holds the service's parts: the facade of the authorizers, the key
  restrictions, and how a key of the protocol looks to them. The remote and the validation of a request, the same for a whole
  connection, are in \<open>req\<close>; a session's pointer is shared, so that its new state is written back into the context.
\<close>

record 'k service_parts =
  sv_authorizer :: "'k facaded list"
  sv_keys :: keys_conf
  sv_sdkKey :: "'k \<Rightarrow> sdk_key"

record 'k conn_ctx =
  cc_auth :: "'k answer option"
  cc_handshakeKey :: "'k option"

definition handlePublicKey :: "'k service_parts \<Rightarrow> 'k request \<Rightarrow> 'k \<Rightarrow> 'k conn_ctx \<Rightarrow> (bool \<times> 'k conn_ctx) am" where
  "handlePublicKey svc req key ctx =
     (if \<not> Keys_KeyAllowed (sv_keys svc) (sv_sdkKey svc key) then returnE (False, ctx)
      else let ctx1 = (if cc_handshakeKey ctx = None then ctx\<lparr>cc_handshakeKey := Some key\<rparr> else ctx) in
        bindE (tryE (facade_AuthorizePublicKey (sv_authorizer svc) (req\<lparr>ar_key := key\<rparr>))) (\<lambda>r.
        case r of
          Inl _ \<Rightarrow> returnE (False, ctx1)
        | Inr auth \<Rightarrow>
            if \<not> IsAuthorized auth then returnE (False, ctx1)
            else returnE (True, ctx1\<lparr>cc_auth := Some auth, cc_handshakeKey := None\<rparr>)))"

definition handleWith :: "('k request \<Rightarrow> 'k answer am) \<Rightarrow> 'k request \<Rightarrow> 'k conn_ctx \<Rightarrow> (bool \<times> 'k conn_ctx) am" where
  "handleWith authorize req ctx =
     bindE (tryE (authorize req)) (\<lambda>r.
     case r of
       Inl _ \<Rightarrow> returnE (False, ctx)
     | Inr auth \<Rightarrow> if \<not> IsAuthorized auth then returnE (False, ctx) else returnE (True, ctx\<lparr>cc_auth := Some auth\<rparr>))"

definition handlePassword :: "'k service_parts \<Rightarrow> 'k request \<Rightarrow> bytes \<Rightarrow> 'k conn_ctx \<Rightarrow> (bool \<times> 'k conn_ctx) am" where
  "handlePassword svc req password ctx =
     handleWith (facade_AuthorizePassword (sv_authorizer svc)) (req\<lparr>ar_password := password\<rparr>) ctx"

definition handleKeyboardInteractiveChallenge :: "'k service_parts \<Rightarrow> 'k request \<Rightarrow> 'k conn_ctx \<Rightarrow> (bool \<times> 'k conn_ctx) am" where
  "handleKeyboardInteractiveChallenge svc req ctx = handleWith (facade_AuthorizeInteractive (sv_authorizer svc)) req ctx"

fun withSession :: "fs_session \<Rightarrow> 'k answer \<Rightarrow> 'k answer" where
  "withSession sess (Authorized au) = Authorized (au\<lparr>au_session := Some sess\<rparr>)"
| "withSession sess (Forbidden r) = Forbidden r"

definition resolveAuthorizationAndSession ::
    "'k deps \<Rightarrow> 'k request \<Rightarrow> 'k conn_ctx \<Rightarrow> ('k answer \<times> fs_session \<times> session_state \<times> 'k conn_ctx) am" where
  "resolveAuthorizationAndSession d req ctx =
     (case cc_auth ctx of
        None \<Rightarrow> throwE (AErrTyped TSystem ''no authorization resolved, but it should'')
      | Some auth \<Rightarrow>
          (case FindSession auth of
             None \<Rightarrow> throwE (AErrTyped TSystem ''authorization resolved, but does not have a valid session'')
           | Some sess \<Rightarrow>
               bindE (sessE (notifyLastAccess d sess (fst (ar_remote req)) (snd (ar_remote req)) StateAuthorized)) (\<lambda>(oldState, sess').
               bindE (if oldState = StateNew
                      then (case cc_handshakeKey ctx of
                              Some pub \<Rightarrow> sessE (addPublicKey d (ss_flow sess') (ss_id sess') pub)
                            | None \<Rightarrow> returnE ())
                      else returnE ()) (\<lambda>_.
               let auth' = withSession sess' auth in
               returnE (auth', sess', oldState, ctx\<lparr>cc_auth := Some auth'\<rparr>)))))"

subsection \<open>A session that is stored is searched\<close>

lemma child_of_dir:
  assumes "fs_get F (path_of (cs @ [c])) = Some n" "list_all proper cs" "cs \<noteq> []" "proper c"
  shows "(c, n_isDir n) \<in> set (fs_children F (path_of cs))"
proof -
  have "(path_of (cs @ [c]), n) \<in> set F" using assms(1) unfolding fs_get_def by (rule map_of_SomeD)
  moreover have "child_name (path_of cs) (path_of (cs @ [c])) = Some c" using assms(2-4) by (rule child_path)
  ultimately show ?thesis by (force simp: fs_children_def map_filter_def)
qed

lemma properName_of_dir:
  assumes "fs_get (w_files s) (path_of (cs @ [c])) = Some n" "n_isDir n" "list_all proper cs" "cs \<noteq> []" "proper c"
    and "parse c = Some x" "fs_get (w_files s) (path_of cs) \<noteq> None"
  shows "x \<in> set (namesIn parse (path_of cs) s)"
proof -
  have "(c, True) \<in> set (fs_children (w_files s) (path_of cs))" using child_of_dir[OF assms(1,3,4,5)] assms(2) by simp
  then show ?thesis using assms(6,7) by (force simp: namesIn_def properNames_def map_filter_def split: option.splits)
qed

definition dirsExist :: "'k deps \<Rightarrow> bytes \<Rightarrow> sid \<Rightarrow> fsrepo \<Rightarrow> bool" where
  "dirsExist d flow i s \<longleftrightarrow> (\<forall>a \<in> set (ancestors (dirOf d flow i s)). \<exists>n. fs_get (w_files s) a = Some n \<and> n_isDir n)"

lemma stored_here:
  assumes "placed st flow s" "deps_ok d" "FlowName_UnmarshalText flow = Some flow" "dirsExist d flow i s"
  shows "(flow, i) \<in> set (storedIds d s)"
proof -
  let ?u = "d_uuidText d i"
  have p: "list_all proper (st @ [flow, ?u])" "st \<noteq> []" "list_all proper st" "proper flow" "proper ?u"
    using assms(1) proper_uuid[OF assms(2)] by (simp_all add: placed_def)
  have an: "path_of ds \<in> set (ancestors (dirOf d flow i s))" if "ds \<noteq> []" "st @ [flow, ?u] = ds @ r" for ds r
    unfolding dirOf_path[OF assms(1,2)] using p(1) by (subst ancestors_set) (use that in auto)
  have dir: "\<exists>n. fs_get (w_files s) (path_of ds) = Some n \<and> n_isDir n" if "ds \<noteq> []" "st @ [flow, ?u] = ds @ r" for ds r
    using an[OF that] assms(4) by (auto simp: dirsExist_def)
  obtain n where n: "fs_get (w_files s) (path_of (st @ [flow])) = Some n" "n_isDir n" using dir[of "st @ [flow]" "[?u]"] by auto
  obtain m where m: "fs_get (w_files s) (path_of ((st @ [flow]) @ [?u])) = Some m" "n_isDir m"
    using dir[of "st @ [flow, ?u]" "[]"] by auto
  have stn: "fs_get (w_files s) (path_of st) \<noteq> None" using dir[of st "[flow, ?u]"] p(2) by auto
  have j: "filepath_Join [path_of st, flow] = path_of (st @ [flow])" using p by (intro Join_path) auto
  have "flow \<in> set (namesIn FlowName_UnmarshalText (path_of st) s)"
    by (rule properName_of_dir[where parse = FlowName_UnmarshalText and c = flow, OF n p(3,2,4) assms(3) stn])
  moreover have "d_uuidParse d ?u = Some i" using assms(2) by (simp add: deps_ok_def)
  then have "i \<in> set (namesIn (d_uuidParse d) (path_of (st @ [flow])) s)"
    using p n by (intro properName_of_dir[where cs = "st @ [flow]" and c = ?u, OF m]) simp_all
  ultimately show ?thesis using assms(1) j by (force simp: storedIds_def placed_def)
qed

lemma firstHit_found: "n \<in> set ns \<Longrightarrow> p n = Inr (Some x) \<Longrightarrow> firstHit p ns \<noteq> Inr None"
  using firstHit_None[of p ns] by force

subsection \<open>Remembering a key\<close>

text \<open>A session whose files can be written and that holds no key of the kind of \<open>k\<close>, as it is after its creation.\<close>

definition keyless :: "'k deps \<Rightarrow> bytes list \<Rightarrow> fs_session \<Rightarrow> 'k \<Rightarrow> fsrepo \<Rightarrow> bool" where
  "keyless d st sess k t \<longleftrightarrow>
     (\<forall>kind. proper kind \<longrightarrow> writable d st (ss_flow sess) (ss_id sess) kind t) \<and>
     validNames d (ss_remoteUser sess) (ss_remoteHost sess) \<and>
     fs_get (w_files t) (fileOf d (ss_flow sess) (ss_id sess) FsFileSession t) \<noteq> None \<and>
     fs_get (w_files t) (fileOf d (ss_flow sess) (ss_id sess) (publicKeyKind d k) t) = None"

lemma publicKeyKind_other:
  "deps_ok d \<Longrightarrow> publicKeyKind d k \<notin> {FsFileSession, FsFileLastAccessed, FsFileAccessToken}"
  by (auto simp: publicKeyKind_def)

lemma created_keyless:
  assumes "created d st flow i user host tok s t" "deps_ok d"
  shows "keyless d st \<lparr>ss_flow = flow, ss_id = i, ss_state = x, ss_createdAt = c, ss_remoteUser = user, ss_remoteHost = host\<rparr> k t"
  using assms publicKeyKind_other[OF assms(2), of k] proper_publicKeyKind[OF assms(2), of k]
  by (auto simp: keyless_def created_def storedSession_def split: option.splits)

lemma touched_frame:
  assumes "touched (fileOf d flow i kind s) s t" "writable d st flow i kind s"
  shows "quiet t" "w_now t = w_now s" "world.more t = world.more s" "fileOf d flow i k t = fileOf d flow i k s"
    "placed st flow t" "dirsExist d flow i t"
    "proper k \<Longrightarrow> k \<noteq> kind \<Longrightarrow> fs_get (w_files t) (fileOf d flow i k s) = fs_get (w_files s) (fileOf d flow i k s)"
proof -
  have t: "t = s\<lparr>w_files := w_files t\<rparr>" using assms(1) by (simp add: touched_def)
  have p: "placed st flow s" "deps_ok d" "proper kind" "quiet s" using assms(2) by (simp_all add: writable_def)
  show "quiet t" using p(4) by (subst t) (simp add: quiet_def)
  show "w_now t = w_now s" "world.more t = world.more s" "fileOf d flow i k t = fileOf d flow i k s"
    by (subst t, simp add: fileOf_def)+
  show pt: "placed st flow t" using p(1) by (subst t) (simp add: placed_def)
  have D: "dirOf d flow i t = dirOf d flow i s" by (subst t) (simp add: dirOf_def)
  show "dirsExist d flow i t" using assms(1) unfolding dirsExist_def D touched_def Dir_fileOf[OF p(1,2,3)] by blast
  show "fs_get (w_files t) (fileOf d flow i k s) = fs_get (w_files s) (fileOf d flow i k s)" if "proper k" "k \<noteq> kind"
    using assms(1) fileOf_inj[OF p(1,2) that(1) p(3), of i] fileOf_not_ancestor[OF p(1,2) that(1), of i] that(2)
    unfolding touched_def Dir_fileOf[OF p(1,2,3)] by blast
qed

lemma remember_step:
  assumes "keyless d st sess k t" "ss_state sess = StateNew" "validNames d user host"
  shows "\<exists>u t2. notifyLastAccess d sess user host StateAuthorized t = (Inr (StateNew, sess\<lparr>ss_state := StateAuthorized\<rparr>), t2) \<and>
    addPublicKey d (ss_flow sess) (ss_id sess) k t2 = (Inr (), u) \<and> quiet u \<and> placed st (ss_flow sess) u \<and> deps_ok d \<and>
    dirsExist d (ss_flow sess) (ss_id sess) u \<and> keyStored d k (ss_flow sess) (ss_id sess) u = Inr True \<and>
    storedSession d (ss_flow sess) (ss_id sess) u = Inr (sess\<lparr>ss_state := StateAuthorized, ss_createdAt := w_now t\<rparr>) \<and>
    stillValidAt d (sess\<lparr>ss_state := StateAuthorized, ss_createdAt := w_now t\<rparr>) u = Inr True"
proof -
  let ?fl = "ss_flow sess" and ?i = "ss_id sess"
  let ?f = "\<lambda>kind. fileOf d ?fl ?i kind t" and ?pk = "publicKeyKind d k"
  have w: "writable d st ?fl ?i kind t" if "proper kind" for kind using assms(1) that by (simp add: keyless_def)
  have ok: "deps_ok d" and q: "quiet t" using w[of FsFileSession] by (simp_all add: writable_def)
  note pk = proper_publicKeyKind[OF ok, of k] publicKeyKind_other[OF ok, of k]
  obtain a where a: "la_save d sess user host t = (Inr (), a)" "wrote (?f FsFileLastAccessed) (d_laEncode d (user, host)) t a"
    using la_save_quiet[OF w[of FsFileLastAccessed], of user host] assms(1) by (auto simp: keyless_def)
  note fa = wrote_fields[OF a(2)] and wa = wrote_writable[OF w[of FsFileLastAccessed] a(2)]
  have w2: "writable d st ?fl ?i kind a" if "proper kind" for kind using wa(2)[OF _ w[OF that]] by simp
  let ?n = "sess\<lparr>ss_state := StateAuthorized\<rparr>"
  obtain b where b: "info_save d ?n a = (Inr (), b)"
    "wrote (?f FsFileSession) (d_infoEncode d (StateAuthorized, ss_remoteUser sess, ss_remoteHost sess)) a b"
    using info_save_quiet[of d st ?n a] w2[of FsFileSession] by (auto simp: State_MarshalText_def fa(6))
  have b2: "wrote (fileOf d ?fl ?i FsFileSession a) (d_infoEncode d (StateAuthorized, ss_remoteUser sess, ss_remoteHost sess)) a b"
    using b(2) by (simp add: fa(6))
  note fb = wrote_fields[OF b(2)] and wb = wrote_writable[OF w2[of FsFileSession] b2]
  have w3: "writable d st ?fl ?i kind b" if "proper kind" for kind using wb(2)[OF _ w2[OF that]] by simp
  have keys: "keysHeld d ?fl ?i k [] b"
    using assms(1) wb(3)[OF _ pk(1)] wa(3)[OF _ pk(1)] pk(2)
    by (simp add: keysHeld_def contentAt_def keyContent_def keyless_def fa(6) fb(6))
  obtain n where n: "fs_get (w_files b) (?f FsFileSession) = Some n" "n_mtime n = w_now t"
      "n_content n = d_infoEncode d (StateAuthorized, ss_remoteUser sess, ss_remoteHost sess)"
    using wrote_at[OF b(2)] fa(3) by auto
  obtain m where m: "fs_get (w_files b) (?f FsFileLastAccessed) = Some m" "n_mtime m = w_now t" "n_content m = d_laEncode d (user, host)"
    using wrote_at[OF a(2)] wb(3)[of FsFileLastAccessed] by (auto simp: fa(6))
  obtain u where u: "addPublicKey d ?fl ?i k b = (Inr (), u)" "touched (fileOf d ?fl ?i ?pk b) b u" "keysHeld d ?fl ?i k [k] u"
    using addPublicKey_quiet[OF w3[OF pk(1)] _ keys] n(1) by (auto simp: fb(6) fa(6))
  note tf = touched_frame[OF u(2) w3[OF pk(1)]]
  have files: "fs_get (w_files u) (?f FsFileSession) = Some n" "fs_get (w_files u) (?f FsFileLastAccessed) = Some m"
    using tf(7)[of FsFileSession] tf(7)[of FsFileLastAccessed] pk(2) n(1) m(1) by (auto simp: fa(6) fb(6))
  have fu: "fileOf d ?fl ?i kind u = ?f kind" for kind using tf(4) by (simp add: fa(6) fb(6))
  have not: "notifyLastAccess d sess user host StateAuthorized t = (Inr (StateNew, ?n), b)"
    using a(1) b(1) assms(2) by (simp add: notifyLastAccess_def bindE_def returnE_def Let_def)
  have st: "storedSession d ?fl ?i u = Inr (sess\<lparr>ss_state := StateAuthorized, ss_createdAt := w_now t\<rparr>)"
    using files(1) n ok assms(1) by (simp add: storedSession_def fu deps_ok_decode keyless_def)
  have "w_now u = w_now t" using tf(2) fa(3) fb(3) by simp
  then have va: "stillValidAt d (sess\<lparr>ss_state := StateAuthorized, ss_createdAt := w_now t\<rparr>) u = Inr True"
    using files(2) m ok assms(3) tf(1)
    by (auto simp: stillValidAt_def lastAccessed_quiet fu Let_def deps_ok_decode timeoutOf_def min_def split: option.splits)
  have "hasPublicKey d ?fl ?i k u = (Inr True, u)" using hasPublicKey_quiet[OF ok tf(1) u(3)] by simp
  then have "keyStored d k ?fl ?i u = Inr True" by (simp add: hasPublicKey_at[OF tf(1)])
  with not u(1) tf(1,5,6) ok st va show ?thesis by blast
qed

lemma facade_login_fits:
  assumes "\<forall>c \<in> set fa. facaded_ok c" "op \<in> login_ops" "quiet s" "facadeLoop op fa req s = (Inr (Authorized au), t)"
  shows "\<exists>c \<in> set fa. canHandle c req \<and> fitting (fc_flow c) req au"
proof -
  have "firstAnswer op fa req s = (Inr (Authorized au), t)" using facadeLoop_first[OF assms(1-3), of req] assms(4) by simp
  then obtain c where c: "find (\<lambda>c. canHandle c req \<and> op (fc_ops c) req s \<noteq> (Inr (Forbidden (ar_remote req)), s)) fa = Some c"
    "op (fc_ops c) req s = (Inr (Authorized au), t)"
    by (auto simp: firstAnswer_def mapErrE_Inr split: option.splits)
  from c(1) have m: "c \<in> set fa" "canHandle c req" by (auto simp: find_Some_iff)
  then show ?thesis using loginLaw_accepted[OF facaded_law[OF _ assms(2)] assms(3) c(2)] assms(1) by blast
qed

lemma handleWith_accepted:
  "handleWith authorize req ctx s = (Inr (True, ctx'), t) \<Longrightarrow>
   \<exists>au. authorize req s = (Inr (Authorized au), t) \<and> ctx' = ctx\<lparr>cc_auth := Some (Authorized au)\<rparr>"
  by (cases "authorize req s"; cases "fst (authorize req s)")
    (auto simp: handleWith_def bindE_def tryE_def returnE_def IsAuthorized_def split: answer.splits)

lemma handlePublicKey_rejected:
  assumes "handlePublicKey svc req k ctx s = (Inr (False, ctx'), t)" "Keys_KeyAllowed (sv_keys svc) (sv_sdkKey svc k)"
  shows "ctx' = (if cc_handshakeKey ctx = None then ctx\<lparr>cc_handshakeKey := Some k\<rparr> else ctx)"
  using assms
  by (cases "facade_AuthorizePublicKey (sv_authorizer svc) (req\<lparr>ar_key := k\<rparr>) s")
    (auto simp: handlePublicKey_def bindE_def tryE_def returnE_def Let_def split: sum.splits if_splits)

text \<open>
  What the search for a key comes to when one session holds it: that session or another one that holds the key, or the
  error of another stored session, at which the search stops.
\<close>

definition keySearchResult :: "'k deps \<Rightarrow> bytes \<Rightarrow> sid \<Rightarrow> 'k request \<Rightarrow> auth_err + fs_session option \<Rightarrow> fsrepo \<Rightarrow> bool" where
  "keySearchResult d flow i req r u \<longleftrightarrow>
     (\<exists>x. r = Inr (Some x) \<and> ss_flow x = flow \<and> ss_remoteUser x = fst (ar_remote req) \<and>
        keyStored d (ar_key req) flow (ss_id x) u = Inr True \<and> stillValidAt d x u = Inr True) \<or>
     (\<exists>n \<in> set (storedIds d u). n \<noteq> (flow, i) \<and> (\<exists>e. r = Inl (AErrSession (SErrCannotFind e)) \<and>
        requestCandidate d flow (fst (ar_remote req)) (keyStored d (ar_key req)) u n = Inl e))"

lemma stored_key_found:
  assumes "quiet u" "placed st flow u" "deps_ok d" "dirsExist d flow i u" "FlowName_UnmarshalText flow = Some flow"
    and "keyStored d k flow i u = Inr True" "storedSession d flow i u = Inr sess" "stillValidAt d sess u = Inr True"
    and "ar_key req = k" "fst (ar_remote req) = ss_remoteUser sess"
  shows "\<exists>r. findSessionByKey d flow req u = (r, u) \<and> keySearchResult d flow i req r u"
proof -
  let ?search = "requestSearch d flow (fst (ar_remote req)) (keyStored d k) u"
  have c: "requestCandidate d flow (fst (ar_remote req)) (keyStored d k) u (flow, i) = Inr (Some sess)"
    using assms(6-8,10) by (simp add: requestCandidate_def)
  then have ne: "?search \<noteq> Inr None"
    unfolding requestSearch_def using stored_here[OF assms(2,3,5,4)] by (rule firstHit_found[rotated])
  note q = findSessionByKey_quiet[OF assms(1), of d flow req]
  show ?thesis
  proof (cases ?search rule: searchResult_cases)
    case (error e)
    then obtain n where "n \<in> set (storedIds d u)" "requestCandidate d flow (fst (ar_remote req)) (keyStored d k) u n = Inl e"
      using firstHit_Inl unfolding requestSearch_def by metis
    moreover from this(2) c have "n \<noteq> (flow, i)" by auto
    ultimately show ?thesis using error q assms(9) by (auto simp: keySearchResult_def)
  next
    case (found x)
    with requestSearch_found[OF found] q assms(9) show ?thesis by (auto simp: keySearchResult_def)
  qed (use ne in simp)
qed

text \<open>
  C8: The key a client offered first is remembered. It was rejected, the client logged in with a password, and the session of
  that login is new: when the connection's first channel resolves its session, the key is stored with it. On the next
  connection of the same user the search by this key, the first step of every authorizer, gives a valid session of this user
  and flow that holds the key; only an unreadable other session in front of it makes the search fail, with the
  error of that session.
\<close>

theorem remembered_key_found:
  assumes "NewAuthorizerFacade ad d users flows = Inr (sv_authorizer svc)" "quiet s"
    and "cc_handshakeKey ctx0 = None" "Keys_KeyAllowed (sv_keys svc) (sv_sdkKey svc k)"
    and "handlePublicKey svc req k ctx0 s0 = (Inr (False, ctx1), s)"
    and "handlePassword svc req pw ctx1 s = (Inr (True, ctx2), t)"
    and "cc_auth ctx2 = Some auth" "FindSession auth = Some sess" "ss_state sess = StateNew" "keyless d st sess k t"
    and "FlowName_UnmarshalText (ss_flow sess) = Some (ss_flow sess)"
    and "validNames d (fst (ar_remote req)) (snd (ar_remote req))"
  shows "\<exists>auth' ctx3 u.
    resolveAuthorizationAndSession d req ctx2 t = (Inr (auth', sess\<lparr>ss_state := StateAuthorized\<rparr>, StateNew, ctx3), u) \<and>
    hasPublicKey d (ss_flow sess) (ss_id sess) k u = (Inr True, u) \<and>
    (\<forall>req'. ar_key req' = k \<longrightarrow> fst (ar_remote req') = fst (ar_remote req) \<longrightarrow>
       (\<exists>r. findSessionByKey d (ss_flow sess) req' u = (r, u) \<and>
          keySearchResult d (ss_flow sess) (ss_id sess) req' r u))"
proof -
  have c1: "ctx1 = ctx0\<lparr>cc_handshakeKey := Some k\<rparr>" using handlePublicKey_rejected[OF assms(5,4)] assms(3) by simp
  obtain au where au: "facade_AuthorizePassword (sv_authorizer svc) (req\<lparr>ar_password := pw\<rparr>) s = (Inr (Authorized au), t)"
    and c2: "ctx2 = ctx1\<lparr>cc_auth := Some (Authorized au)\<rparr>"
    using handleWith_accepted[OF assms(6)[unfolded handlePassword_def]] by blast
  then have "\<exists>c \<in> set (sv_authorizer svc). fitting (fc_flow c) (req\<lparr>ar_password := pw\<rparr>) au"
    using facade_login_fits[OF facade_ok(1)[OF assms(1)] _ assms(2), of az_Password]
    unfolding facade_AuthorizePassword_def login_ops_def by blast
  then have user: "ss_remoteUser sess = fst (ar_remote req)"
    using assms(7,8) by (auto simp: fitting_def c2 FindSession_def)
  obtain u t2 where
    n: "notifyLastAccess d sess (fst (ar_remote req)) (snd (ar_remote req)) StateAuthorized t =
      (Inr (StateNew, sess\<lparr>ss_state := StateAuthorized\<rparr>), t2)"
    and k: "addPublicKey d (ss_flow sess) (ss_id sess) k t2 = (Inr (), u)"
    and r: "quiet u" "placed st (ss_flow sess) u" "deps_ok d" "dirsExist d (ss_flow sess) (ss_id sess) u"
      "keyStored d k (ss_flow sess) (ss_id sess) u = Inr True"
      "storedSession d (ss_flow sess) (ss_id sess) u = Inr (sess\<lparr>ss_state := StateAuthorized, ss_createdAt := w_now t\<rparr>)"
      "stillValidAt d (sess\<lparr>ss_state := StateAuthorized, ss_createdAt := w_now t\<rparr>) u = Inr True"
    using remember_step[OF assms(10,9,12)] by blast
  have "resolveAuthorizationAndSession d req ctx2 t =
     (Inr (withSession (sess\<lparr>ss_state := StateAuthorized\<rparr>) auth, sess\<lparr>ss_state := StateAuthorized\<rparr>, StateNew,
           ctx2\<lparr>cc_auth := Some (withSession (sess\<lparr>ss_state := StateAuthorized\<rparr>) auth)\<rparr>), u)"
    using n k assms(7,8) by (simp add: resolveAuthorizationAndSession_def c2 c1 bindE_def mapErrE_def returnE_def Let_def)
  moreover have "hasPublicKey d (ss_flow sess) (ss_id sess) k u = (Inr True, u)"
    using hasPublicKey_at[OF r(1), of d "ss_flow sess" "ss_id sess" k] r(5) by simp
  ultimately show ?thesis using stored_key_found[OF r(1-4) assms(11) r(5-7)] user by auto
qed

end
