(* ===== verification/ServiceSession.thy ===== *)
theory ServiceSession
  imports EnvProps ServiceAuth NetModel
begin

section \<open>Channels of an authorized connection (pkg/service/service-session.go, service-direct-tcp-ip.go, service-messages.go)\<close>

text \<open>
  What the service does for a channel of a logged in connection: a shell or a file transfer, and a forwarded TCP
  connection. Both resolve the session, ensure its environment through the facade, and ask the environment. The templates of
  the messages, the process of the server and the network are parameters (\<open>channel_os\<close>).
\<close>

datatype svc_err =
    SvcAuth auth_err
  | SvcEnv env_err
  | SvcCanceled
  | SvcTyped err_type string "svc_err option"

subsection \<open>The type of an error (pkg/errors/error.go)\<close>

text \<open>
  \<^verbatim>\<open>errors.Newf\<close> takes the type of the first typed error it wraps, and its own one otherwise; \<^verbatim>\<open>IsType\<close> looks at the first
  typed error and then at its causes. Of the errors of the other packages only the limit of connections per session,
  which no operation here returns, has the type \<^verbatim>\<open>User\<close>.
\<close>

fun env_errType :: "env_err \<Rightarrow> err_type option" where
  "env_errType (EErrMsg _ e) = env_errType e"
| "env_errType (EErrTyped t _ None) = Some t"
| "env_errType (EErrTyped t _ (Some e)) = (case env_errType e of Some u \<Rightarrow> Some u | None \<Rightarrow> Some t)"
| "env_errType _ = None"

fun svc_errType :: "svc_err \<Rightarrow> err_type option" where
  "svc_errType (SvcAuth e) = (if isType {TUser} e then Some TUser else None)"
| "svc_errType (SvcEnv e) = env_errType e"
| "svc_errType SvcCanceled = None"
| "svc_errType (SvcTyped t _ None) = Some t"
| "svc_errType (SvcTyped t _ (Some e)) = (case svc_errType e of Some u \<Rightarrow> Some u | None \<Rightarrow> Some t)"

fun isCanceled :: "svc_err \<Rightarrow> bool" where
  "isCanceled SvcCanceled = True"
| "isCanceled (SvcTyped _ _ (Some e)) = isCanceled e"
| "isCanceled _ = False"

subsection \<open>Sessions of a shell or of a file transfer\<close>

record 'k channel_os =
  co_run :: run_os
  co_start :: "command \<Rightarrow> env_err + unit"
  co_uuidText :: "sid \<Rightarrow> bytes"
  co_events :: "run_event list"
  co_rememberMe :: "('k answer \<Rightarrow> bool \<Rightarrow> 'k \<Rightarrow> svc_err + bytes) option"
  co_write :: "bytes \<Rightarrow> svc_err + unit"

text \<open>\<^verbatim>\<open>showRememberMe\<close>: the session's own key, or else the first key that was offered.\<close>

definition FindSessionsPublicKey :: "'k answer \<Rightarrow> 'k option" where
  "FindSessionsPublicKey a = (case a of Forbidden _ \<Rightarrow> None | Authorized au \<Rightarrow> au_sessionsPublicKey au)"

definition showRememberMe :: "'k channel_os \<Rightarrow> 'k conn_ctx \<Rightarrow> 'k answer \<Rightarrow> session_state \<Rightarrow> svc_err + unit" where
  "showRememberMe os ctx auth state =
     (case (case FindSessionsPublicKey auth of Some k \<Rightarrow> Some k | None \<Rightarrow> cc_handshakeKey ctx) of
        None \<Rightarrow> Inr ()
      | Some pub \<Rightarrow>
          (case co_rememberMe os of
             None \<Rightarrow> Inr ()
           | Some v \<Rightarrow>
               bindR (wrapR (\<lambda>e. SvcTyped TSystem ''cannot render remember me notification'' (Some e)) (v auth (state = StateNew) pub)) (\<lambda>buf.
               if length buf > 0
               then wrapR (\<lambda>e. SvcTyped TSystem ''cannot send remember me notification'' (Some e)) (co_write os buf)
               else Inr ())))"

definition contextOf :: "'k request \<Rightarrow> 'k answer \<Rightarrow> 'k env_context" where
  "contextOf req auth =
     (case auth of
        Authorized au \<Rightarrow> \<lparr>ec_authorization = au, ec_remote = ar_remote req\<rparr>
      | Forbidden r \<Rightarrow> \<lparr>ec_authorization = \<lparr>au_details = DNone, au_remote = Some r, au_envVars = [], au_flow = [],
          au_session = None, au_sessionsPublicKey = None\<rparr>, ec_remote = ar_remote req\<rparr>)"

text \<open>\<^verbatim>\<open>executeSession\<close>: the exit code and the error, or \<open>None\<close> while the task runs. \<^verbatim>\<open>Close\<close> of both environments returns nil.\<close>

definition showBanner :: "'k channel_os \<Rightarrow> 'k environment \<Rightarrow> 'k env_task \<Rightarrow> 'k env_context \<Rightarrow> svc_err + unit" where
  "showBanner os env task req =
     (if length (et_rawCommand task) = 0 \<and> et_taskType task = TaskTypeShell
      then bindR (wrapR (\<lambda>e. SvcTyped TSystem ''cannot render banner'' (Some (SvcEnv e))) (environment_Banner env req)) (\<lambda>banner.
           case banner of
             None \<Rightarrow> Inr ()
           | Some b \<Rightarrow> wrapR (\<lambda>e. SvcTyped TSystem ''cannot print banner'' (Some e)) (co_write os b))
      else Inr ())"

definition runTask :: "'k channel_os \<Rightarrow> 'k environment \<Rightarrow> 'k env_task \<Rightarrow> (int \<times> svc_err option) option" where
  "runTask os env task =
     (case environment_Run (co_uuidText os) (co_run os) (co_start os) env task (co_events os) of
        None \<Rightarrow> None
      | Some (exitCode, Some e) \<Rightarrow> Some (-1, Some (SvcTyped TSystem ''run of environment failed'' (Some (SvcEnv e))))
      | Some (exitCode, None) \<Rightarrow> Some (exitCode, None))"

text \<open>The authorization's part of the task is the one that was resolved.\<close>

definition taskOf :: "'k env_task \<Rightarrow> 'k env_context \<Rightarrow> 'k env_task" where
  "taskOf task req = task\<lparr>ec_authorization := ec_authorization req, ec_remote := ec_remote req\<rparr>"

definition executeSession ::
    "'k channel_os \<Rightarrow> 'k deps \<Rightarrow> ('k, 'k environment) entries \<Rightarrow> 'k request \<Rightarrow> 'k env_task \<Rightarrow> 'k conn_ctx \<Rightarrow>
     (host, svc_err, (int \<times> svc_err option) option) sm" where
  "executeSession os d entries req task ctx =
     bindE (viaStore SvcAuth (resolveAuthorizationAndSession d req ctx)) (\<lambda>(auth, sess, oldState, ctx').
     bindE (liftE (showRememberMe os ctx' auth oldState)) (\<lambda>_.
     let envReq = contextOf req auth in
     bindE (mapErrE SvcEnv (envFacade_Ensure entries envReq)) (\<lambda>env.
     bindE (liftE (showBanner os env task envReq)) (\<lambda>_.
     returnE (runTask os env (taskOf task envReq))))))"

text \<open>\<^verbatim>\<open>uncheckedExecuteSshSession\<close>: the exit status that the client gets, an \<^verbatim>\<open>int\<close> that is sent with 32 bits.\<close>

definition exitStatus :: "svc_err + int \<times> svc_err option \<Rightarrow> int" where
  "exitStatus r =
     (let (exitCode, err) = (case r of Inl e \<Rightarrow> (-1, Some e) | Inr x \<Rightarrow> x) in
      case err of
        None \<Rightarrow> exitCode
      | Some e \<Rightarrow>
          if isCanceled e then (if exitCode < 0 then 61 else exitCode)
          else if svc_errType e = Some TUser then (if exitCode < 0 then 62 else exitCode)
          else (if exitCode < 0 then 63 else exitCode))"

definition sentExitStatus :: "svc_err + int \<times> svc_err option \<Rightarrow> uint32" where
  "sentExitStatus r = word_of_int (exitStatus r)"

subsection \<open>Forwarded connections (service-direct-tcp-ip.go)\<close>

record forward_data =
  fd_DestAddr :: bytes
  fd_DestPort :: uint32

definition forward_dest :: "net_lib \<Rightarrow> forward_data \<Rightarrow> host_port" where
  "forward_dest nl this = \<lparr>hp_Host = Host_UnmarshalText nl (fd_DestAddr this), hp_Port = ucast (fd_DestPort this)\<rparr>"

datatype reject_reason = Prohibited | ConnectionFailed

datatype forward_result = Rejected reject_reason string | Forwarded host_port

text \<open>
  \<open>dial\<close> is the connection to the destination, \<open>payload\<close> the client's request, \<open>None\<close> when it does not parse. What the
  client is told about a failed connection depends on the error and is left out of the message.
\<close>

definition handleNewDirectTcpIp ::
    "net_lib \<Rightarrow> (host_port \<Rightarrow> env_err + unit) \<Rightarrow> 'k deps \<Rightarrow> ('k, 'k environment) entries \<Rightarrow> 'k request \<Rightarrow> forward_data option \<Rightarrow>
     'k conn_ctx \<Rightarrow> (host, svc_err, forward_result) sm" where
  "handleNewDirectTcpIp nl dial d entries req payload ctx =
     bindE (tryE (viaStore SvcAuth (resolveAuthorizationAndSession d req ctx))) (\<lambda>resolved :: svc_err + _.
     case resolved of
       Inl _ \<Rightarrow> returnE (Rejected ConnectionFailed ''cannot resolve authorization and its session'')
     | Inr (auth, _, _, _) \<Rightarrow>
         (case payload of
            None \<Rightarrow> returnE (Rejected ConnectionFailed ''error parsing forward data'')
          | Some data \<Rightarrow>
              let dest = forward_dest nl data in
              bindE (tryE (envFacade_Ensure entries (contextOf req auth))) (\<lambda>ensured :: env_err + _.
              case ensured of
                Inl _ \<Rightarrow> returnE (Rejected Prohibited ''cannot ensure environment'')
              | Inr env \<Rightarrow>
                  if \<not> environment_IsPortForwardingAllowed env
                  then returnE (Rejected Prohibited ''port forwarding is disabled'')
                  else (case environment_NewDestinationConnection dial env dest of
                      Inl _ \<Rightarrow> returnE (Rejected ConnectionFailed ''cannot connect'')
                    | Inr None \<Rightarrow> returnE (Rejected ConnectionFailed ''rejected'')
                    | Inr (Some _) \<Rightarrow> returnE (Forwarded dest)))))"

text \<open>\<^verbatim>\<open>onReversePortForwardingRequested\<close> allows every request.\<close>

definition onReversePortForwardingRequested :: "'k conn_ctx \<Rightarrow> bytes \<Rightarrow> uint32 \<Rightarrow> bool" where
  "onReversePortForwardingRequested ctx bindHost bindPort = True"

text \<open>\<^verbatim>\<open>onPtyRequest\<close> of \<^verbatim>\<open>service-authorization.go\<close>; a failed check without a relevant error counts as its answer, false.\<close>

definition onPtyRequest :: "('k, 'k environment) entries \<Rightarrow> 'k request \<Rightarrow> 'k conn_ctx \<Rightarrow> bool" where
  "onPtyRequest entries req ctx =
     (case cc_auth ctx of
        None \<Rightarrow> False
      | Some auth \<Rightarrow> (case envFacade_DoesSupportPty entries (contextOf req auth) of Inl _ \<Rightarrow> False | Inr ok \<Rightarrow> ok))"

text \<open>\<^verbatim>\<open>handleBanner\<close>: a template that cannot be rendered shows none.\<close>

definition handleBanner :: "(bytes \<times> bytes \<Rightarrow> svc_err + bytes) \<Rightarrow> bytes \<times> bytes \<Rightarrow> bytes" where
  "handleBanner template remote = (case template remote of Inl _ \<Rightarrow> [] | Inr b \<Rightarrow> b)"

subsection \<open>Properties\<close>

lemma resolve_result:
  assumes "resolveAuthorizationAndSession d req ctx s = (Inr (auth, sess, oldState, ctx'), t)"
  obtains auth0 sess0 where "cc_auth ctx = Some auth0" "FindSession auth0 = Some sess0" "auth = withSession sess auth0"
    "cc_auth ctx' = Some auth"
    "fst (notifyLastAccess d sess0 (fst (ar_remote req)) (snd (ar_remote req)) StateAuthorized s) = Inr (oldState, sess)"
proof -
  obtain auth0 sess0 where a: "cc_auth ctx = Some auth0" "FindSession auth0 = Some sess0"
    using assms by (auto simp: resolveAuthorizationAndSession_def throwE_def split: option.splits)
  moreover have "auth = withSession sess auth0 \<and> cc_auth ctx' = Some auth \<and>
      fst (notifyLastAccess d sess0 (fst (ar_remote req)) (snd (ar_remote req)) StateAuthorized s) = Inr (oldState, sess)"
    using assms a
    by (auto simp: resolveAuthorizationAndSession_def bindE_Inr_iff mapErrE_Inr_iff returnE_def Let_def split: if_splits option.splits)
  ultimately show ?thesis using that by blast
qed

lemma contextOf_session: "FindSession auth0 = Some sess0 \<Longrightarrow> au_session (ec_authorization (contextOf req (withSession sess auth0))) = Some sess"
  by (cases auth0) (auto simp: contextOf_def FindSession_def)

lemma notifyLastAccess_state:
  "fst (notifyLastAccess d sess0 user host StateAuthorized s) = Inr (old, sess) \<Longrightarrow>
   sess = sess0\<lparr>ss_state := StateAuthorized\<rparr> \<and> old = ss_state sess0"
  by (cases "notifyLastAccess d sess0 user host StateAuthorized s")
    (auto simp: notifyLastAccess_def bindE_Inr_iff returnE_def Let_def split: if_splits)

text \<open>What a channel has when its environment is ensured: the authorization with the session that was marked as authorized.\<close>

definition channelEnvironment ::
    "'k deps \<Rightarrow> ('k, 'k environment) entries \<Rightarrow> 'k request \<Rightarrow> 'k conn_ctx \<Rightarrow> host \<Rightarrow> 'k env_context \<Rightarrow> 'k environment \<Rightarrow> host \<Rightarrow> bool" where
  "channelEnvironment d entries req ctx h envReq env t \<longleftrightarrow>
     (\<exists>auth0 sess0 oldState ctx' h1. cc_auth ctx = Some auth0 \<and> FindSession auth0 = Some sess0 \<and>
        envReq = contextOf req (withSession (sess0\<lparr>ss_state := StateAuthorized\<rparr>) auth0) \<and>
        au_session (ec_authorization envReq) = Some (sess0\<lparr>ss_state := StateAuthorized\<rparr>) \<and>
        viaStore SvcAuth (resolveAuthorizationAndSession d req ctx) h =
          (Inr (withSession (sess0\<lparr>ss_state := StateAuthorized\<rparr>) auth0, sess0\<lparr>ss_state := StateAuthorized\<rparr>, oldState, ctx'), h1) \<and>
        envFacade_Ensure entries envReq h1 = (Inr env, t))"

lemma channelEnvironmentI:
  assumes "viaStore SvcAuth (resolveAuthorizationAndSession d req ctx) h = (Inr (auth, sess, oldState, ctx'), h1)"
    and "envFacade_Ensure entries (contextOf req auth) h1 = (Inr env, t)"
  shows "channelEnvironment d entries req ctx h (contextOf req auth) env t"
proof -
  obtain s1 where "resolveAuthorizationAndSession d req ctx (storeOf h) = (Inr (auth, sess, oldState, ctx'), s1)"
    using assms(1) by (auto simp: viaStore_def map_sum_Inr_iff split: prod.splits)
  then obtain auth0 sess0 where i: "cc_auth ctx = Some auth0" "FindSession auth0 = Some sess0" "auth = withSession sess auth0"
    "sess = sess0\<lparr>ss_state := StateAuthorized\<rparr>"
    by (rule resolve_result) (auto dest: notifyLastAccess_state)
  then show ?thesis using assms contextOf_session[OF i(2), of req sess] unfolding channelEnvironment_def by blast
qed

text \<open>
  C24: a task is only run for a connection that is authorized, in the environment that the facade ensured for the
  connection's own authorization, whose session was marked as authorized before: the repository of the last flow with
  the authorization's name made it for this request, and for the kinds on this host it belongs to that session and
  the repository accepted the request. The answer is that of this environment's run with the task of the authorization.
\<close>

theorem executed_session_is_authorized:
  assumes "NewRepositoryFacade (registry_of cp ld d users rk) (Some flows) = Inr entries"
    and "executeSession os d entries req task ctx h = (Inr r, t)"
  shows "\<exists>envReq env. channelEnvironment d entries req ctx h envReq env t \<and> ensuredFor entries envReq env \<and>
    (\<exists>f. find (\<lambda>f. ev_Name f = au_flow (ec_authorization envReq)) (rev flows) = Some f \<and>
      (\<exists>c h1. newInstance (registry_of cp ld d users rk) f = Inr c \<and> er_Ensure c envReq h1 = (Inr env, t))) \<and>
    r = runTask os env (taskOf task envReq)"
proof -
  obtain auth sess oldState ctx' h1 env where
    a: "viaStore SvcAuth (resolveAuthorizationAndSession d req ctx) h = (Inr (auth, sess, oldState, ctx'), h1)"
    and e: "envFacade_Ensure entries (contextOf req auth) h1 = (Inr env, t)"
    and r: "r = runTask os env (taskOf task (contextOf req auth))"
    using assms(2) by (auto simp: executeSession_def bindE_Inr_iff mapErrE_Inr_iff returnE_def liftE_def Let_def)
  obtain c f where "er_Ensure c (contextOf req auth) h1 = (Inr env, t)"
    "find (\<lambda>f. ev_Name f = au_flow (ec_authorization (contextOf req auth))) (rev flows) = Some f"
    "newInstance (registry_of cp ld d users rk) f = Inr c"
    by (rule facade_entry[OF assms(1) e])
  with channelEnvironmentI[OF a e] facade_ensured[OF assms(1) e] r show ?thesis by blast
qed

text \<open>
  C25: a forwarded connection goes through the environment that was ensured for the connection's own authorization and
  session, whatever its kind, and only when that environment was made with the permission to forward ports: the local one dials
  itself, a container or a pod makes the connection, a dummy makes none. The destination is the named host and the
  port of the client's number modulo 65536.
\<close>

theorem forwarded_only_if_allowed:
  assumes "handleNewDirectTcpIp nl dial d entries req payload ctx h = (Inr (Forwarded dest), t)"
  shows "\<exists>envReq env data. channelEnvironment d entries req ctx h envReq env t \<and>
    (case env of
       EnvLocal _ e \<Rightarrow> le_portForwardingAllowed e \<and> dial dest = Inr ()
     | EnvDummy _ _ \<Rightarrow> False
     | EnvRemote e \<Rightarrow> re_IsPortForwardingAllowed e \<and> re_NewDestinationConnection e dest = Inr (Some ())) \<and>
    payload = Some data \<and> hp_Host dest = Host_UnmarshalText nl (fd_DestAddr data) \<and>
    unat (hp_Port dest) = unat (fd_DestPort data) mod 2 ^ 16"
proof -
  obtain res h1 where r: "viaStore SvcAuth (resolveAuthorizationAndSession d req ctx) h = (res, h1)" by fastforce
  obtain auth sess oldState ctx' where res: "res = Inr (auth, sess, oldState, ctx')"
    using assms r by (cases res) (auto simp: handleNewDirectTcpIp_def bindE_def tryE_def returnE_def)
  obtain data where p: "payload = Some data"
    using assms r res by (cases payload) (auto simp: handleNewDirectTcpIp_def bindE_def tryE_def returnE_def)
  obtain ens h2 where e: "envFacade_Ensure entries (contextOf req auth) h1 = (ens, h2)" by fastforce
  obtain env where env: "ens = Inr env" "environment_IsPortForwardingAllowed env" "dest = forward_dest nl data" "h2 = t"
      "environment_NewDestinationConnection dial env dest = Inr (Some ())"
    using assms r res p e
    by (cases ens) (auto simp: handleNewDirectTcpIp_def bindE_def tryE_def returnE_def Let_def split: if_splits sum.splits option.splits)
  have c: "channelEnvironment d entries req ctx h (contextOf req auth) env t"
    using channelEnvironmentI[OF r[unfolded res]] e env(1,4) by simp
  have k: "case env of
       EnvLocal _ e \<Rightarrow> le_portForwardingAllowed e \<and> dial dest = Inr ()
     | EnvDummy _ _ \<Rightarrow> False
     | EnvRemote e \<Rightarrow> re_IsPortForwardingAllowed e \<and> re_NewDestinationConnection e dest = Inr (Some ())"
    using env(2,5) by (cases env)
      (auto simp: local_NewDestinationConnection_def local_IsPortForwardingAllowed_def bindR_Inr_iff split: if_splits)
  have "hp_Host dest = Host_UnmarshalText nl (fd_DestAddr data)" "unat (hp_Port dest) = unat (fd_DestPort data) mod 2 ^ 16"
    by (simp_all add: env(3) forward_dest_def unsigned_ucast_eq take_bit_eq_mod)
  with c k p show ?thesis by blast
qed

text \<open>
  a run that ends because its context is done answers minus two and no error. The service sends it as the
  exit status 4294967294; the status 61 that it keeps for the end of a context is only reached by an error.
\<close>

theorem context_end_exit_status:
  assumes "prepareRun (co_uuidText os) (co_run os) env task = Inr cmd" "co_start os cmd = Inr ()"
    and "find (\<lambda>e. endsRun e \<noteq> None) (co_events os) = Some EvContextDone"
  shows "\<exists>r. runTask os (EnvLocal lr env) task = Some r \<and> sentExitStatus (Inr r) = 4294967294"
proof -
  have "fst (runLoop (co_events os)) = Some (-2, None)"
    using assms(3) by (simp add: runLoop_first)
  then have "environment_Run (co_uuidText os) (co_run os) (co_start os) (EnvLocal lr env) task (co_events os) = Some (-2, None)"
    using assms(1,2) by (simp add: local_Run_def case_prod_beta Let_def)
  then show ?thesis by (simp add: runTask_def sentExitStatus_def exitStatus_def)
qed

subsection \<open>Witnesses\<close>

lemma notify_authorized:
  assumes w: "\<And>kind. proper kind \<Longrightarrow> writable d st (ss_flow sess) (ss_id sess) kind t"
    and "fs_get (w_files t) (fileOf d (ss_flow sess) (ss_id sess) FsFileSession t) \<noteq> None" "ss_state sess \<noteq> StateAuthorized"
  shows "\<exists>u. notifyLastAccess d sess user host StateAuthorized t = (Inr (ss_state sess, sess\<lparr>ss_state := StateAuthorized\<rparr>), u) \<and>
    (\<forall>kind. proper kind \<longrightarrow> writable d st (ss_flow sess) (ss_id sess) kind u) \<and>
    (\<forall>kind. proper kind \<longrightarrow> kind \<notin> {FsFileSession, FsFileLastAccessed} \<longrightarrow>
       fs_get (w_files u) (fileOf d (ss_flow sess) (ss_id sess) kind u) = fs_get (w_files t) (fileOf d (ss_flow sess) (ss_id sess) kind t))"
proof -
  let ?fl = "ss_flow sess" and ?i = "ss_id sess"
  let ?n = "sess\<lparr>ss_state := StateAuthorized\<rparr>"
  obtain a where a: "la_save d sess user host t = (Inr (), a)" "wrote (fileOf d ?fl ?i FsFileLastAccessed t) (d_laEncode d (user, host)) t a"
    using la_save_quiet[OF w[of FsFileLastAccessed], of user host] assms(2) by auto
  note fa = wrote_fields[OF a(2)] and wa = wrote_writable[OF w[of FsFileLastAccessed] a(2)]
  have w2: "writable d st ?fl ?i kind a" if "proper kind" for kind using wa(2)[OF _ w[OF that]] by simp
  obtain b where b: "info_save d ?n a = (Inr (), b)"
    "wrote (fileOf d ?fl ?i FsFileSession a) (d_infoEncode d (StateAuthorized, ss_remoteUser sess, ss_remoteHost sess)) a b"
    using info_save_quiet[of d st ?n a] w2[of FsFileSession] by (auto simp: State_MarshalText_def)
  note fb = wrote_fields[OF b(2)] and wb = wrote_writable[OF w2[of FsFileSession] b(2)]
  have "notifyLastAccess d sess user host StateAuthorized t = (Inr (ss_state sess, ?n), b)"
    using a(1) b(1) assms(3) by (simp add: notifyLastAccess_def bindE_def returnE_def Let_def)
  moreover have "writable d st ?fl ?i kind b" if "proper kind" for kind using wb(2)[OF _ w2[OF that]] by simp
  moreover have "fs_get (w_files b) (fileOf d ?fl ?i kind b) = fs_get (w_files t) (fileOf d ?fl ?i kind t)"
    if "proper kind" "kind \<notin> {FsFileSession, FsFileLastAccessed}" for kind
    using wa(3)[of kind] wb(3)[of kind] that by (simp add: fa(6) fb(6))
  ultimately show ?thesis by blast
qed

definition exSvcRequest :: "bool request" where
  "exSvcRequest = \<lparr>ar_remote = (''u'', ''h''), ar_key = True, ar_password = [], ar_prompt = Inr [], ar_sendInfo = (\<lambda>_. Inr ()),
     ar_validate = (\<lambda>_. Inr True)\<rparr>"

definition exConnCtx :: "bool conn_ctx" where
  "exConnCtx = \<lparr>cc_auth = Some (Authorized (ec_authorization exContext)), cc_handshakeKey = None\<rparr>"

abbreviation exAuthorizedSession :: fs_session where
  "exAuthorizedSession \<equiv> exSession\<lparr>ss_state := StateAuthorized\<rparr>"

abbreviation exResolved :: "bool answer" where
  "exResolved \<equiv> Authorized ((ec_authorization exContext)\<lparr>au_session := Some exAuthorizedSession\<rparr>)"

lemma exResolve:
  obtains ctx' h where "viaStore SvcAuth (resolveAuthorizationAndSession exDeps exSvcRequest exConnCtx) exEnvHost =
      (Inr (exResolved, exAuthorizedSession, StateNew, ctx'), h)" "cc_handshakeKey ctx' = None"
    "ho_users h = ho_users exEnvHost" "writable exDeps [''s''] ''f'' [] FsFileEnvironmentToken (storeOf h)"
    "EnvironmentToken exDeps exAuthorizedSession (storeOf h) = (Inr [], storeOf h)"
proof -
  have s: "ss_flow exSession = ''f''" "ss_id exSession = []" "ss_state exSession = StateNew" by (simp_all add: exSession_def)
  obtain u where u: "notifyLastAccess exDeps exSession ''u'' ''h'' StateAuthorized exLive = (Inr (StateNew, exAuthorizedSession), u)"
    "\<And>kind. proper kind \<Longrightarrow> writable exDeps [''s''] ''f'' [] kind u"
    "fs_get (w_files u) (fileOf exDeps ''f'' [] FsFileEnvironmentToken u) = fs_get (w_files exLive) (fileOf exDeps ''f'' [] FsFileEnvironmentToken exLive)"
    using notify_authorized[of exDeps "[''s'']" exSession exLive "''u''" "''h''"] exLive_writable
    by (auto simp: s exLive_frame(3) exStore_file exLive_get)
  let ?ctx = "exConnCtx\<lparr>cc_auth := Some exResolved\<rparr>"
  have r: "resolveAuthorizationAndSession exDeps exSvcRequest exConnCtx exLive = (Inr (exResolved, exAuthorizedSession, StateNew, ?ctx), u)"
    using u(1) by (simp add: resolveAuthorizationAndSession_def exConnCtx_def exContext_def FindSession_def exSvcRequest_def bindE_def
        mapErrE_def returnE_def Let_def)
  have q: "quiet u" using u(2)[of FsFileSession] by (simp add: writable_def)
  have "EnvironmentToken exDeps exAuthorizedSession u = (Inr [], u)"
    using u(3) by (simp add: EnvironmentToken_def getToken_quiet[OF q] s exLive_frame(3) exStore_file exLive_get)
  moreover have "viaStore SvcAuth (resolveAuthorizationAndSession exDeps exSvcRequest exConnCtx) exEnvHost =
      (Inr (exResolved, exAuthorizedSession, StateNew, ?ctx), putStore u exEnvHost)"
    using r by (simp add: viaStore_def exEnvHost_views)
  ultimately show ?thesis using u(2)[of FsFileEnvironmentToken] by (intro that[of ?ctx "putStore u exEnvHost"]) (simp_all add: exConnCtx_def)
qed

definition exChannelOs :: "bool channel_os" where
  "exChannelOs = \<lparr>co_run = exRunOs, co_start = (\<lambda>_. Inr ()), co_uuidText = id,
     co_events = [EvSignal (Some ''HUP''), EvCopyDone (Some None), EvContextDone, EvProcessDone (Some (0, None))],
     co_rememberMe = None, co_write = (\<lambda>_. Inr ())\<rparr>"

theorem context_end_exit_status_witness:
  "\<exists>r. runTask exChannelOs (EnvLocal (exLocalRepository False) exRunEnv) exTask = Some r \<and> sentExitStatus (Inr r) = 4294967294"
proof -
  obtain cmd where c: "prepareRun id exRunOs exRunEnv exTask = Inr cmd" using exPrepared by blast
  show ?thesis
    by (rule context_end_exit_status[where cmd = cmd]) (use c in \<open>simp_all add: exChannelOs_def\<close>)
qed

text \<open>The flows of the example on its own session: the connection is forwarded by the local environment.\<close>

lemma exForwardEnv:
  assumes "NewRepositoryFacade (registry_of exNoCopy exLocalDeps exDeps (Inr ()) exRemoteKinds) (Some exFlows) = Inr entries"
    and "ho_users h = ho_users exEnvHost" "writable exDeps [''s''] ''f'' [] FsFileEnvironmentToken (storeOf h)"
    and "EnvironmentToken exDeps exAuthorizedSession (storeOf h) = (Inr [], storeOf h)"
  obtains lt t where "envFacade_Ensure entries (contextOf exSvcRequest exResolved) h =
    (Inr (EnvLocal (exLocalRepository False) (newLocalEnv exUser exAuthorizedSession True lt)), t)"
proof -
  have s: "ss_flow exAuthorizedSession = ''f''" "ss_id exAuthorizedSession = []" by (simp_all add: exSession_def)
  have c: "au_session (ec_authorization (contextOf exSvcRequest exResolved)) = Some exAuthorizedSession"
    "au_flow (ec_authorization (contextOf exSvcRequest exResolved)) = ''f''" by (simp_all add: contextOf_def exContext_def)
  obtain lt t where t: "local_Ensure exNoCopy exLocalDeps exDeps (exLocalRepository False) (contextOf exSvcRequest exResolved) h =
      (Inr (newLocalEnv exUser exAuthorizedSession True lt), t)"
    by (rule exEnsuredEnv_at[OF assms(2,3,4) s c(1), of False])
  have r: "\<lparr>lr_flow = ''f'', lr_conf = lr_conf (exLocalRepository False)\<rparr> = exLocalRepository False"
    by (simp add: exLocalRepository_def)
  have m: "map_of entries ''f'' = Some (localEnvOps exNoCopy exLocalDeps exDeps (exLocalRepository False))"
    using assms(1) by (auto simp: NewRepositoryFacade_def exFlows_def newInstance_def registry_of_def NewLocalRepository_def r)
  show ?thesis by (rule that[of lt t]) (simp add: envFacade_Ensure_def c m localEnvOps_def wrapE_def bindE_def returnE_def t)
qed

lemma exEntries: obtains entries where
    "NewRepositoryFacade (registry_of exNoCopy exLocalDeps exDeps (Inr ()) exRemoteKinds) (Some exFlows) = Inr entries"
  by (simp add: NewRepositoryFacade_def exFlows_def newInstance_def registry_of_def NewLocalRepository_def)

theorem forwarded_only_if_allowed_witness:
  "\<exists>entries dest t. NewRepositoryFacade (registry_of exNoCopy exLocalDeps exDeps (Inr ()) exRemoteKinds) (Some exFlows) = Inr entries \<and>
     handleNewDirectTcpIp exNetLib (\<lambda>_. Inr ()) exDeps entries exSvcRequest (Some \<lparr>fd_DestAddr = ''h'', fd_DestPort = 65558\<rparr>) exConnCtx exEnvHost =
       (Inr (Forwarded dest), t) \<and> unat (hp_Port dest) = 22"
proof -
  obtain entries where n: "NewRepositoryFacade (registry_of exNoCopy exLocalDeps exDeps (Inr ()) exRemoteKinds) (Some exFlows) = Inr entries"
    by (rule exEntries)
  obtain ctx' h where r: "viaStore SvcAuth (resolveAuthorizationAndSession exDeps exSvcRequest exConnCtx) exEnvHost =
      (Inr (exResolved, exAuthorizedSession, StateNew, ctx'), h)" "ho_users h = ho_users exEnvHost"
      "writable exDeps [''s''] ''f'' [] FsFileEnvironmentToken (storeOf h)"
      "EnvironmentToken exDeps exAuthorizedSession (storeOf h) = (Inr [], storeOf h)"
    by (rule exResolve)
  obtain lt t where e: "envFacade_Ensure entries (contextOf exSvcRequest exResolved) h =
    (Inr (EnvLocal (exLocalRepository False) (newLocalEnv exUser exAuthorizedSession True lt)), t)"
    by (rule exForwardEnv[OF n r(2,3,4)])
  let ?data = "\<lparr>fd_DestAddr = ''h'', fd_DestPort = 65558\<rparr>"
  have f: "handleNewDirectTcpIp exNetLib (\<lambda>_. Inr ()) exDeps entries exSvcRequest (Some ?data) exConnCtx exEnvHost =
      (Inr (Forwarded (forward_dest exNetLib ?data)), t)"
    using r(1) e by (simp add: handleNewDirectTcpIp_def bindE_def tryE_def returnE_def Let_def local_IsPortForwardingAllowed_def
        local_NewDestinationConnection_def)
  from forwarded_only_if_allowed[OF f] n f show ?thesis by auto
qed

theorem executed_session_is_authorized_witness:
  "\<exists>entries r t env envReq. NewRepositoryFacade (registry_of exNoCopy exLocalDeps exDeps (Inr ()) exRemoteKinds) (Some exFlows) = Inr entries \<and>
     executeSession exChannelOs exDeps entries exSvcRequest exTask exConnCtx exEnvHost = (Inr r, t) \<and>
     channelEnvironment exDeps entries exSvcRequest exConnCtx exEnvHost envReq env t \<and>
     r = runTask exChannelOs env (taskOf exTask envReq)"
proof -
  obtain entries where n: "NewRepositoryFacade (registry_of exNoCopy exLocalDeps exDeps (Inr ()) exRemoteKinds) (Some exFlows) = Inr entries"
    by (rule exEntries)
  obtain ctx' h where r: "viaStore SvcAuth (resolveAuthorizationAndSession exDeps exSvcRequest exConnCtx) exEnvHost =
      (Inr (exResolved, exAuthorizedSession, StateNew, ctx'), h)" "ho_users h = ho_users exEnvHost"
      "writable exDeps [''s''] ''f'' [] FsFileEnvironmentToken (storeOf h)"
      "EnvironmentToken exDeps exAuthorizedSession (storeOf h) = (Inr [], storeOf h)"
    by (rule exResolve)
  obtain lt t where e: "envFacade_Ensure entries (contextOf exSvcRequest exResolved) h =
    (Inr (EnvLocal (exLocalRepository False) (newLocalEnv exUser exAuthorizedSession True lt)), t)"
    by (rule exForwardEnv[OF n r(2,3,4)])
  have sh: "showRememberMe exChannelOs ctx' exResolved StateNew = Inr ()" "\<And>env req. showBanner exChannelOs env exTask req = Inr ()"
    by (auto simp: showRememberMe_def exChannelOs_def showBanner_def exTask_def split: option.splits)
  let ?r = "runTask exChannelOs (EnvLocal (exLocalRepository False) (newLocalEnv exUser exAuthorizedSession True lt))
      (taskOf exTask (contextOf exSvcRequest exResolved))"
  have x: "executeSession exChannelOs exDeps entries exSvcRequest exTask exConnCtx exEnvHost = (Inr ?r, t)"
    using r(1) e sh by (simp add: executeSession_def bindE_def liftE_def mapErrE_def returnE_def Let_def)
  from executed_session_is_authorized[OF n x] obtain envReq env where
    "channelEnvironment exDeps entries exSvcRequest exConnCtx exEnvHost envReq env t" "?r = runTask exChannelOs env (taskOf exTask envReq)"
    by blast
  with n x show ?thesis by metis
qed

end
