(* ===== verification/RemoteEnvs.thy ===== *)
theory RemoteEnvs
  imports ServiceSession DockerRun KubeRun
begin

section \<open>Containers and pods as environments of the facade (docker-usage-specific.go, kubernetes-usage-specific.go)\<close>

text \<open>
  The interface \<open>remote_env\<close> of the facade with the operations of the two remote kinds. What they do to the engine or the cluster is not part of
  the host's state: \<open>dispose\<close> is that effect as the facade sees it, and \<open>events\<close> says what the wait for a run receives there.
\<close>

definition dockerRemote ::
    "('k, 'e) docker_deps \<Rightarrow> docker_run_os \<Rightarrow> (run_event list \<Rightarrow> docker_event list) \<Rightarrow> env_err + conn_id \<Rightarrow> (conn_id \<Rightarrow> host_port \<Rightarrow> go_error + unit) \<Rightarrow>
     bool EnvModel.em \<Rightarrow> 'k docker_repository \<Rightarrow> fs_session \<Rightarrow> docker_env \<Rightarrow> 'k remote_env" where
  "dockerRemote dd os events newId initiateTcpForward dispose repo sess env =
     \<lparr>re_session = sess, re_Banner = (\<lambda>req. map_sum id Some (docker_Banner repo req)), re_Run = (\<lambda>t evs. fst (docker_Run dd os env t (events evs))),
      re_IsPortForwardingAllowed = docker_IsPortForwardingAllowed env,
      re_NewDestinationConnection = (\<lambda>dest. map_sum id Some (docker_NewDestinationConnection newId initiateTcpForward env dest)),
      re_Dispose = dispose\<rparr>"

definition kubeRemote ::
    "('k, 'e) kube_deps \<Rightarrow> kube_run_os \<Rightarrow> (run_event list \<Rightarrow> kube_event list) \<Rightarrow> env_err + conn_id \<Rightarrow> (conn_id \<Rightarrow> host_port \<Rightarrow> go_error + unit) \<Rightarrow>
     bool EnvModel.em \<Rightarrow> 'k kubernetes_repository \<Rightarrow> fs_session \<Rightarrow> kube_env \<Rightarrow> 'k remote_env" where
  "kubeRemote kd os events newId initiateTcpForward dispose repo sess env =
     \<lparr>re_session = sess, re_Banner = (\<lambda>req. map_sum id Some (kube_Banner repo req)), re_Run = (\<lambda>t evs. fst (fst (kube_Run kd os repo env t (events evs)))),
      re_IsPortForwardingAllowed = kube_IsPortForwardingAllowed env,
      re_NewDestinationConnection = (\<lambda>dest. map_sum id Some (kube_NewDestinationConnection newId initiateTcpForward env dest)),
      re_Dispose = dispose\<rparr>"

text \<open>A remote environment makes a connection only when it was made with the permission to, and through its helper process.\<close>

lemma docker_connects:
  "environment_NewDestinationConnection dial (EnvRemote (dockerRemote dd os events newId initiateTcpForward dispose repo sess env)) dest = Inr (Some ()) \<longleftrightarrow>
   do_portForwardingAllowed env \<and> (\<exists>connId. newId = Inr connId \<and> initiateTcpForward connId dest = Inr ())"
  by (auto simp: dockerRemote_def docker_NewDestinationConnection_def viaImp_def map_sum_def bindR_def split: sum.splits)

lemma kube_connects:
  "environment_NewDestinationConnection dial (EnvRemote (kubeRemote kd os events newId initiateTcpForward dispose repo sess env)) dest = Inr (Some ()) \<longleftrightarrow>
   ku_portForwardingAllowed env \<and> (\<exists>connId. newId = Inr connId \<and> initiateTcpForward connId dest = Inr ())"
  by (auto simp: kubeRemote_def kube_NewDestinationConnection_def viaImp_def map_sum_def bindR_def split: sum.splits)

text \<open>A task in an environment of the service is the task in the container, without a session an error and no execution.\<close>

lemma docker_needs_session:
  "au_session (ec_authorization t) = None \<Longrightarrow>
   environment_Run uuidText os start (EnvRemote (dockerRemote dd ros events newId initiateTcpForward dispose repo sess env)) t evs =
     Some (-1, Some (EErrTyped TSystem ''authorization without session is not supported to run docker environment'' None))"
  by (simp add: dockerRemote_def docker_Run_def docker_prepareRun_def bindR_def)

end
