(* ===== verification/StepSystem.thy ===== *)
theory StepSystem
  imports Prelude
begin

section \<open>Interleaved steps\<close>

text \<open>
  Goroutines that share state are modelled by a list of operations, each of which is one atomic step
  that may be disabled. \<open>runOps doOp ops\<close> runs a schedule, \<open>reach doOp c0\<close> are the states that some
  schedule reaches. The locale \<open>safe_system\<close> is the interface between a component's steps and what
  is claimed of its reachable states: an invariant that holds initially and is kept by every step.
\<close>

fun runOps :: "('op \<Rightarrow> 'c \<Rightarrow> 'c option) \<Rightarrow> 'op list \<Rightarrow> 'c \<Rightarrow> 'c option" where
  "runOps doOp [] c = Some c"
| "runOps doOp (x # xs) c = (case doOp x c of None \<Rightarrow> None | Some c' \<Rightarrow> runOps doOp xs c')"

inductive reach :: "('op \<Rightarrow> 'c \<Rightarrow> 'c option) \<Rightarrow> 'c \<Rightarrow> 'c \<Rightarrow> bool" for doOp c0 where
  reach_init: "reach doOp c0 c0"
| reach_step: "reach doOp c0 c \<Longrightarrow> doOp x c = Some c' \<Longrightarrow> reach doOp c0 c'"

lemma runOps_append: "runOps doOp (xs @ ys) c = Option.bind (runOps doOp xs c) (runOps doOp ys)"
  by (induction xs arbitrary: c) (auto split: option.splits)

lemma reach_runOps: "reach doOp c0 c \<Longrightarrow> runOps doOp ops c = Some c' \<Longrightarrow> reach doOp c0 c'"
proof (induction ops arbitrary: c)
  case (Cons x ops)
  then obtain u where u: "doOp x c = Some u" "runOps doOp ops u = Some c'" by (auto split: option.splits)
  from Cons.IH[OF reach_step[where c' = u and x = x, OF Cons.prems(1) u(1)] u(2)] show ?case .
qed simp

lemma reach_iff_run: "reach doOp c0 c \<longleftrightarrow> (\<exists>ops. runOps doOp ops c0 = Some c)"
proof
  assume "reach doOp c0 c"
  then show "\<exists>ops. runOps doOp ops c0 = Some c"
  proof induction
    case reach_init
    then show ?case by (intro exI[of _ "[]"]) simp
  next
    case (reach_step c x c')
    then obtain ops where "runOps doOp ops c0 = Some c" by blast
    then show ?case using reach_step.hyps(2) by (intro exI[of _ "ops @ [x]"]) (simp add: runOps_append)
  qed
qed (metis reach_init reach_runOps)

text \<open>The program counters are a list, one for each goroutine; \<open>count P ps\<close> of them satisfy \<open>P\<close>.\<close>

definition count :: "('p \<Rightarrow> bool) \<Rightarrow> 'p list \<Rightarrow> nat" where
  "count P ps = length (filter P ps)"

lemma count_update:
  assumes "t < length ps"
  shows "int (count P (ps[t := p])) = int (count P ps) - (if P (ps ! t) then 1 else 0) + (if P p then 1 else 0)"
proof -
  have "length (filter P (take t ps @ [p] @ drop (Suc t) ps)) + (if P (ps ! t) then 1 else 0) =
      length (filter P (take t ps @ [ps ! t] @ drop (Suc t) ps)) + (if P p then 1 else 0)" by simp
  then have "length (filter P (ps[t := p])) + (if P (ps ! t) then 1 else 0) = length (filter P ps) + (if P p then 1 else 0)"
    using assms id_take_nth_drop[OF assms] upd_conv_take_nth_drop[OF assms, of p] by simp
  then show ?thesis by (simp add: count_def split: if_splits)
qed

lemma count_zero: "(\<And>p. p \<in> set ps \<Longrightarrow> \<not> P p) \<Longrightarrow> count P ps = 0"
  by (simp add: count_def)

lemma count_pos: "p \<in> set ps \<Longrightarrow> P p \<Longrightarrow> 0 < count P ps"
  by (auto simp: count_def filter_empty_conv)

lemma count_pos_nth: "t < length ps \<Longrightarrow> P (ps ! t) \<Longrightarrow> 0 < count P ps"
  by (metis count_pos nth_mem)

lemma count_none: "count P ps = 0 \<longleftrightarrow> (\<forall>p \<in> set ps. \<not> P p)"
  by (auto simp: count_def filter_empty_conv)

lemma count_less: "t < length ps \<Longrightarrow> \<not> P (ps ! t) \<Longrightarrow> count P ps < length ps"
  unfolding count_def by (rule length_filter_less) simp_all

lemma count_le: "count P ps \<le> length ps"
  by (simp add: count_def)

text \<open>An \<^verbatim>\<open>atomic.Int32\<close> wraps around; it counts as long as its value stays in the range.\<close>

lemma int32_add:
  "-(2 ^ 31) \<le> sint w + n \<Longrightarrow> sint w + n < 2 ^ 31 \<Longrightarrow> sint (w + word_of_int n :: 32 word) = sint w + n"
proof -
  assume "-(2 ^ 31) \<le> sint w + n" "sint w + n < 2 ^ 31"
  then have "signed_take_bit 31 (sint w + n) = sint w + n" by (intro signed_take_bit_int_eq_self) simp_all
  moreover have "w + word_of_int n = word_of_int (sint w + n)" by simp
  ultimately show ?thesis by (simp only: sint_sbintrunc' len_bit0 len_num1) simp
qed

lemma set_updateD: "x \<in> set (ps[t := p]) \<Longrightarrow> x = p \<or> x \<in> set ps"
  using set_update_subset_insert[of ps t p] by auto

locale safe_system =
  fixes doOp :: "'op \<Rightarrow> 'c \<Rightarrow> 'c option" and start :: "'c \<Rightarrow> bool" and safe :: "'c \<Rightarrow> bool"
  assumes safe_start: "start c \<Longrightarrow> safe c"
    and safe_step: "safe c \<Longrightarrow> doOp x c = Some c' \<Longrightarrow> safe c'"
begin

lemma safe_reach: "start c0 \<Longrightarrow> reach doOp c0 c \<Longrightarrow> safe c"
proof -
  assume s: "start c0" and "reach doOp c0 c"
  from this(2) show "safe c" by induction (auto intro: safe_start s safe_step)
qed

lemma safe_run: "start c0 \<Longrightarrow> runOps doOp ops c0 = Some c \<Longrightarrow> safe c"
  by (rule safe_reach) (auto simp: reach_iff_run)

end

end
