(* ===== verification/SessionConns.thy ===== *)
theory SessionConns
  imports SessionLife StepSystem "HOL-Library.AList"
begin

section \<open>The connections of a session (pkg/session/fs-connection-interceptor.go)\<close>

text \<open>
  All connections of a session share a \<open>stack\<close> with a counter of active connections. The counter is
  atomic, the map of the stacks is guarded by the repository's mutex, and closing decrements the counter
  before it takes the mutex. So the steps of the goroutines are modelled one by one, \<open>connOp\<close>, and
  \<open>c_pc\<close> are the program counters of the goroutines, each of which opens one connection of a
  given session and closes it at most once (\<^verbatim>\<open>fsConnectionInterceptor.closed\<close>).
\<close>

subsection \<open>State\<close>

text \<open>
  A goroutine is before \<^verbatim>\<open>ConnectionInterceptor\<close> (\<open>Idle\<close>), in \<^verbatim>\<open>create\<close> after \<^verbatim>\<open>active.Add(1)\<close> returned
  the number, with the mutex (\<open>Checking\<close>), has an open connection of a stack (\<open>Open\<close>), was refused with
  \<^verbatim>\<open>ErrMaxConnectionsPerSessionReached\<close> (\<open>Rejected\<close>), is in \<^verbatim>\<open>close\<close> as the last one and waits for the
  mutex (\<open>Removing\<close>), is done, or has panicked.
\<close>

datatype pc = Idle bytes sid | Checking nat int | Open nat | Rejected | Removing nat | Closed | Panicked string

record conns =
  c_repo :: fsrepo
  c_locked :: bool
  c_pc :: "pc list"

subsection \<open>Steps\<close>

definition newStack :: "bytes \<Rightarrow> sid \<Rightarrow> fsrepo \<Rightarrow> stack" where
  "newStack flow i s =
     \<lparr>st_flow = flow, st_id = i, st_created = w_now s div 1000000, st_active = 0, st_lastActivity = w_now s div 1000000,
      st_disposed = False\<rparr>"

text \<open>The stack of a session, registered when there is none.\<close>

definition registerStack :: "bytes \<Rightarrow> sid \<Rightarrow> fsrepo \<Rightarrow> nat \<times> fsrepo" where
  "registerStack flow i s =
     (case lookupStack s flow i of
        Some k \<Rightarrow> (k, s)
      | None \<Rightarrow>
          (let k = length (sr_stacks s);
               byFlow = (case map_of (sr_interceptors s) flow of None \<Rightarrow> [] | Some m \<Rightarrow> m)
           in (k, s\<lparr>sr_stacks := sr_stacks s @ [newStack flow i s],
                   sr_interceptors := AList.update flow (AList.update i k byFlow) (sr_interceptors s)\<rparr>)))"

text \<open>The counter is an \<^verbatim>\<open>atomic.Int32\<close>, which wraps around.\<close>

definition activeOf :: "fsrepo \<Rightarrow> nat \<Rightarrow> int" where
  "activeOf s k = sint (st_active (sr_stacks s ! k))"

definition addActive :: "int \<Rightarrow> nat \<Rightarrow> fsrepo \<Rightarrow> fsrepo" where
  "addActive n k s = updateStack k (\<lambda>st. st\<lparr>st_active := st_active st + word_of_int n\<rparr>) s"

text \<open>\<^verbatim>\<open>ConnectionInterceptor\<close> up to the first line of \<^verbatim>\<open>create\<close>, with the mutex taken.\<close>

definition beginOpen :: "nat \<Rightarrow> conns \<Rightarrow> conns option" where
  "beginOpen t c =
     (if t < length (c_pc c) \<and> \<not> c_locked c then
        (case c_pc c ! t of
           Idle flow i \<Rightarrow>
             (let (k, s) = registerStack flow i (c_repo c); s' = addActive 1 k s in
              Some (c\<lparr>c_repo := s', c_locked := True, c_pc := (c_pc c)[t := Checking k (activeOf s' k)]\<rparr>))
         | _ \<Rightarrow> None)
      else None)"

text \<open>The rest of \<^verbatim>\<open>create\<close>; then the mutex is released.\<close>

definition endOpen :: "nat \<Rightarrow> conns \<Rightarrow> conns option" where
  "endOpen t c =
     (if t < length (c_pc c) then
        (case c_pc c ! t of
           Checking k n \<Rightarrow>
             (let v = sr_MaxConnections (c_repo c) in
              if v > 0 \<and> n > int (unat v)
              then Some (c\<lparr>c_repo := addActive (-1) k (c_repo c), c_locked := False, c_pc := (c_pc c)[t := Rejected]\<rparr>)
              else Some (c\<lparr>c_locked := False, c_pc := (c_pc c)[t := Open k]\<rparr>))
         | _ \<Rightarrow> None)
      else None)"

text \<open>\<^verbatim>\<open>close\<close> without the mutex: the decrement and the decision.\<close>

definition beginClose :: "nat \<Rightarrow> conns \<Rightarrow> conns option" where
  "beginClose t c =
     (if t < length (c_pc c) then
        (case c_pc c ! t of
           Open k \<Rightarrow>
             (let s' = addActive (-1) k (c_repo c); n = activeOf s' k in
              Some (c\<lparr>c_repo := s', c_pc := (c_pc c)[t :=
                if n < 0 then Panicked ''closed more where created'' else if n > 0 then Closed else Removing k]\<rparr>))
         | _ \<Rightarrow> None)
      else None)"

text \<open>\<^verbatim>\<open>close\<close> with the mutex: the stack's session is taken out of the map.\<close>

definition endClose :: "nat \<Rightarrow> conns \<Rightarrow> conns option" where
  "endClose t c =
     (if t < length (c_pc c) \<and> \<not> c_locked c then
        (case c_pc c ! t of
           Removing k \<Rightarrow>
             (let s = c_repo c; st = sr_stacks s ! k in
              case map_of (sr_interceptors s) (st_flow st) of
                None \<Rightarrow> Some (c\<lparr>c_pc := (c_pc c)[t := Panicked ''connectionInterceptors[flow] is nil'']\<rparr>)
              | Some byFlow \<Rightarrow>
                  (let byFlow' = AList.delete (st_id st) byFlow in
                   Some (c\<lparr>c_repo := s\<lparr>sr_interceptors :=
                       (if byFlow' = [] then AList.delete (st_flow st) (sr_interceptors s)
                        else AList.update (st_flow st) byFlow' (sr_interceptors s))\<rparr>,
                     c_pc := (c_pc c)[t := Closed]\<rparr>)))
         | _ \<Rightarrow> None)
      else None)"

text \<open>The connections' part of \<^verbatim>\<open>disposeBy\<close>, with the mutex.\<close>

definition disposeConns :: "bytes \<Rightarrow> sid \<Rightarrow> conns \<Rightarrow> conns option" where
  "disposeConns flow i c = (if c_locked c then None else Some (c\<lparr>c_repo := snd (disposeStack flow i (c_repo c))\<rparr>))"

datatype conn_op = BeginOpen nat | EndOpen nat | BeginClose nat | EndClose nat | DisposeOf bytes sid

fun connOp :: "conn_op \<Rightarrow> conns \<Rightarrow> conns option" where
  "connOp (BeginOpen t) c = beginOpen t c"
| "connOp (EndOpen t) c = endOpen t c"
| "connOp (BeginClose t) c = beginClose t c"
| "connOp (EndClose t) c = endClose t c"
| "connOp (DisposeOf flow i) c = disposeConns flow i c"

definition initConns :: "fsrepo \<Rightarrow> (bytes \<times> sid) list \<Rightarrow> conns" where
  "initConns s ts = \<lparr>c_repo = s\<lparr>sr_stacks := [], sr_interceptors := []\<rparr>, c_locked = False, c_pc = map (\<lambda>(f, i). Idle f i) ts\<rparr>"

subsection \<open>Counting\<close>

definition holding :: "nat \<Rightarrow> pc \<Rightarrow> bool" where
  "holding k p \<longleftrightarrow> p = Open k \<or> (\<exists>n. p = Checking k n)"

definition inCheck :: "pc \<Rightarrow> bool" where
  "inCheck p \<longleftrightarrow> (\<exists>k n. p = Checking k n)"

text \<open>
  The invariant: a stack's counter is the number of goroutines that hold it, the one that checks holds
  the mutex, and it saw at least the connections that are open; every open connection is within the limit. There are fewer goroutines than
  the counter of 32 bits can count.
\<close>

definition conns_inv :: "conns \<Rightarrow> bool" where
  "conns_inv c \<longleftrightarrow> length (c_pc c) < 2 ^ 31 \<and>
     (\<forall>k < length (sr_stacks (c_repo c)). activeOf (c_repo c) k = int (count (holding k) (c_pc c))) \<and>
     (\<forall>p \<in> set (c_pc c). \<forall>k. holding k p \<or> p = Removing k \<longrightarrow> k < length (sr_stacks (c_repo c))) \<and>
     (\<forall>flow i k. lookupStack (c_repo c) flow i = Some k \<longrightarrow> k < length (sr_stacks (c_repo c))) \<and>
     count inCheck (c_pc c) = (if c_locked c then 1 else 0) \<and>
     (\<forall>k n. Checking k n \<in> set (c_pc c) \<longrightarrow> int (count (\<lambda>p. p = Open k) (c_pc c)) < n) \<and>
     (\<forall>k. sr_MaxConnections (c_repo c) > 0 \<longrightarrow> count (\<lambda>p. p = Open k) (c_pc c) \<le> unat (sr_MaxConnections (c_repo c)))"

lemma count_split: "count (holding k) (c_pc c) = count (\<lambda>p. p = Open k) (c_pc c) + count (\<lambda>p. \<exists>n. p = Checking k n) (c_pc c)"
proof -
  have "length (filter (holding k) ps) = length (filter (\<lambda>p. p = Open k) ps) + length (filter (\<lambda>p. \<exists>n. p = Checking k n) ps)" for ps
    by (induction ps) (auto simp: holding_def)
  then show ?thesis by (simp add: count_def)
qed

lemma updateStack_facts [simp]:
  "length (sr_stacks (updateStack k f s)) = length (sr_stacks s)"
  "sr_interceptors (updateStack k f s) = sr_interceptors s"
  "sr_MaxConnections (updateStack k f s) = sr_MaxConnections s"
  "lookupStack (updateStack k f s) = lookupStack s"
  "j < length (sr_stacks s) \<Longrightarrow> sr_stacks (updateStack k f s) ! j = (if j = k then f (sr_stacks s ! j) else sr_stacks s ! j)"
  by (auto simp: updateStack_def lookupStack_def fun_eq_iff)

lemma activeOf_add:
  assumes "j < length (sr_stacks s)" and "-(2 ^ 31) \<le> activeOf s k + n" and "activeOf s k + n < 2 ^ 31"
  shows "activeOf (addActive n k s) j = (if j = k then activeOf s j + n else activeOf s j)"
  using assms int32_add[of "st_active (sr_stacks s ! k)" n] by (auto simp: activeOf_def addActive_def)

lemma addActive_facts [simp]:
  "length (sr_stacks (addActive n k s)) = length (sr_stacks s)" "lookupStack (addActive n k s) = lookupStack s"
  "sr_MaxConnections (addActive n k s) = sr_MaxConnections s"
  by (simp_all add: addActive_def)

lemma map_of_AList [simp]:
  "map_of (AList.update k v m) = (map_of m)(k \<mapsto> v)" "map_of (AList.delete k m) = (map_of m)(k := None)"
  by (simp_all add: update_conv' delete_conv')

lemma registerStack_facts:
  assumes "registerStack flow i s = (k, u)" "\<forall>f j n. lookupStack s f j = Some n \<longrightarrow> n < length (sr_stacks s)"
  shows "k < length (sr_stacks u)" "length (sr_stacks s) \<le> length (sr_stacks u)"
    "\<forall>f j n. lookupStack u f j = Some n \<longrightarrow> n < length (sr_stacks u)"
    "\<forall>j < length (sr_stacks u). activeOf u j = (if j < length (sr_stacks s) then activeOf s j else 0)"
    "sr_MaxConnections u = sr_MaxConnections s" "lookupStack u flow i = Some k"
proof -
  have "k < length (sr_stacks u) \<and> length (sr_stacks s) \<le> length (sr_stacks u) \<and>
    (\<forall>f j n. lookupStack u f j = Some n \<longrightarrow> n < length (sr_stacks u)) \<and>
    (\<forall>j < length (sr_stacks u). activeOf u j = (if j < length (sr_stacks s) then activeOf s j else 0)) \<and>
    sr_MaxConnections u = sr_MaxConnections s \<and> lookupStack u flow i = Some k"
  proof (cases "lookupStack s flow i")
    case None
    then have u: "k = length (sr_stacks s)" "u = s\<lparr>sr_stacks := sr_stacks s @ [newStack flow i s],
        sr_interceptors := AList.update flow (AList.update i (length (sr_stacks s))
          (case map_of (sr_interceptors s) flow of None \<Rightarrow> [] | Some m \<Rightarrow> m)) (sr_interceptors s)\<rparr>"
      using assms(1) by (auto simp: registerStack_def Let_def)
    have "lookupStack u f j = (if f = flow \<and> j = i then Some k else lookupStack s f j)" for f j
      using None by (auto simp: u lookupStack_def split: option.splits)
    then show ?thesis using assms(2) by (auto simp: u activeOf_def newStack_def nth_append less_Suc_eq)
  qed (use assms in \<open>auto simp: registerStack_def\<close>)
  then show "k < length (sr_stacks u)" "length (sr_stacks s) \<le> length (sr_stacks u)"
    "\<forall>f j n. lookupStack u f j = Some n \<longrightarrow> n < length (sr_stacks u)"
    "\<forall>j < length (sr_stacks u). activeOf u j = (if j < length (sr_stacks s) then activeOf s j else 0)"
    "sr_MaxConnections u = sr_MaxConnections s" "lookupStack u flow i = Some k" by blast+
qed

subsection \<open>The invariant is kept\<close>

text \<open>An update of one goroutine's program counter: what has to hold of the new state.\<close>

lemma conns_invI:
  assumes "conns_inv c" "t < length (c_pc c)" "c_pc c' = (c_pc c)[t := p]"
    and "length (sr_stacks (c_repo c)) \<le> length (sr_stacks (c_repo c'))"
    and "sr_MaxConnections (c_repo c') = sr_MaxConnections (c_repo c)"
    and "\<And>k. holding k p \<or> p = Removing k \<Longrightarrow> k < length (sr_stacks (c_repo c'))"
    and "\<And>f j n. lookupStack (c_repo c') f j = Some n \<Longrightarrow> n < length (sr_stacks (c_repo c'))"
    and "\<And>k. k < length (sr_stacks (c_repo c')) \<Longrightarrow> activeOf (c_repo c') k =
      (if k < length (sr_stacks (c_repo c)) then activeOf (c_repo c) k else 0) -
      (if holding k (c_pc c ! t) then 1 else 0) + (if holding k p then 1 else 0)"
    and "int (if c_locked c' then 1 else 0) = int (if c_locked c then 1 else 0) -
      (if inCheck (c_pc c ! t) then 1 else 0) + (if inCheck p then 1 else 0)"
    and "\<And>k n. p = Checking k n \<Longrightarrow> n = activeOf (c_repo c') k \<and> \<not> c_locked c"
    and "\<And>k. p = Open k \<Longrightarrow> \<exists>n. c_pc c ! t = Checking k n \<and>
      (sr_MaxConnections (c_repo c) > 0 \<longrightarrow> n \<le> int (unat (sr_MaxConnections (c_repo c))))"
  shows "conns_inv c'"
proof -
  note cu = count_update[OF assms(2), where p = p, folded assms(3)]
  have act: "activeOf (c_repo c') k = int (count (holding k) (c_pc c'))" if k: "k < length (sr_stacks (c_repo c'))" for k
  proof (cases "k < length (sr_stacks (c_repo c))")
    case True
    then show ?thesis using assms(1) assms(8)[of k] k cu[of "holding k"] by (simp add: conns_inv_def)
  next
    case False
    then have "count (holding k) (c_pc c) = 0" using assms(1) by (intro count_zero) (auto simp: conns_inv_def)
    then show ?thesis using assms(8)[OF k] False cu[of "holding k"] by simp
  qed
  have range: "holding k q \<or> q = Removing k \<longrightarrow> k < length (sr_stacks (c_repo c'))" if "q \<in> set (c_pc c')" for q k
    using that assms(1,4) assms(6)[of k] set_update_subset_insert[of "c_pc c" t p]
    unfolding assms(3) conns_inv_def by (metis insertE less_le_trans subsetD)
  have lock: "count inCheck (c_pc c') = (if c_locked c' then 1 else 0)"
    using assms(1,9) cu[of inCheck] by (simp add: conns_inv_def split: if_splits)
  have chk: "int (count (\<lambda>p. p = Open k) (c_pc c')) < n" if m: "Checking k n \<in> set (c_pc c')" for k n
  proof (cases "p = Checking k n")
    case True
    then have "Checking k n \<in> set (c_pc c')" using assms(2,3) set_update_memI by metis
    then have "0 < count (\<lambda>p. \<exists>n. p = Checking k n) (c_pc c')" by (rule count_pos) simp
    moreover have "k < length (sr_stacks (c_repo c'))" using assms(6)[of k] True by (auto simp: holding_def)
    ultimately show ?thesis using act[of k] assms(10)[OF True] count_split[of k c'] by simp
  next
    case False
    then have o: "Checking k n \<in> set (c_pc c)" using m set_update_subset_insert[of "c_pc c" t p] unfolding assms(3) by auto
    then have b: "int (count (\<lambda>p. p = Open k) (c_pc c)) < n" using assms(1) by (simp add: conns_inv_def)
    show ?thesis
    proof (cases "p = Open k")
      case True
      then obtain n' where n': "c_pc c ! t = Checking k n'" using assms(11) by blast
      have "count inCheck (c_pc c) = 1" using o assms(1) count_pos[OF o, of inCheck] by (auto simp: conns_inv_def inCheck_def split: if_splits)
      then have "count inCheck (c_pc c') = 0" using cu[of inCheck] n' True by (auto simp: inCheck_def)
      then show ?thesis using count_pos[OF m, of inCheck] by (simp add: inCheck_def)
    next
      case no: False
      then show ?thesis using cu[of "\<lambda>p. p = Open k"] b by (auto split: if_splits)
    qed
  qed
  have lim: "count (\<lambda>p. p = Open k) (c_pc c') \<le> unat (sr_MaxConnections (c_repo c'))" if v: "sr_MaxConnections (c_repo c') > 0" for k
  proof (cases "p = Open k")
    case True
    then obtain n where n: "c_pc c ! t = Checking k n" "n \<le> int (unat (sr_MaxConnections (c_repo c)))"
      using assms(5,11) v by auto
    then have "Checking k n \<in> set (c_pc c)" using assms(2) by (metis nth_mem)
    then have "int (count (\<lambda>p. p = Open k) (c_pc c)) < n" using assms(1) by (simp add: conns_inv_def)
    then have "int (count (\<lambda>p. p = Open k) (c_pc c')) \<le> int (unat (sr_MaxConnections (c_repo c)))"
      using cu[of "\<lambda>p. p = Open k"] True n by simp
    then show ?thesis unfolding assms(5) of_nat_le_iff .
  next
    case False
    have "count (\<lambda>p. p = Open k) (c_pc c) \<le> unat (sr_MaxConnections (c_repo c))" using assms(1,5) v by (simp add: conns_inv_def)
    then show ?thesis using cu[of "\<lambda>p. p = Open k"] False assms(5) by (simp split: if_splits)
  qed
  have "length (c_pc c') < 2 ^ 31" using assms(1,3) by (simp add: conns_inv_def)
  then show ?thesis using act range lock chk lim assms(7) unfolding conns_inv_def by blast
qed

lemma conns_invD:
  "conns_inv c \<Longrightarrow> p \<in> set (c_pc c) \<Longrightarrow> holding k p \<or> p = Removing k \<Longrightarrow> k < length (sr_stacks (c_repo c))"
  "conns_inv c \<Longrightarrow> lookupStack (c_repo c) flow i = Some k \<Longrightarrow> k < length (sr_stacks (c_repo c))"
  "conns_inv c \<Longrightarrow> k < length (sr_stacks (c_repo c)) \<Longrightarrow> activeOf (c_repo c) k = int (count (holding k) (c_pc c))"
  "conns_inv c \<Longrightarrow> length (c_pc c) < 2 ^ 31"
  unfolding conns_inv_def by blast+

text \<open>The counter is in range before and after a step.\<close>

lemma active_range:
  assumes "conns_inv c" and "k < length (sr_stacks (c_repo c))"
  shows "0 \<le> activeOf (c_repo c) k" and "activeOf (c_repo c) k < 2 ^ 31"
    and "t < length (c_pc c) \<Longrightarrow> \<not> holding k (c_pc c ! t) \<Longrightarrow> activeOf (c_repo c) k + 1 < 2 ^ 31"
    and "t < length (c_pc c) \<Longrightarrow> holding k (c_pc c ! t) \<Longrightarrow> 0 < activeOf (c_repo c) k"
proof -
  note n = conns_invD(3)[OF assms] conns_invD(4)[OF assms(1)]
  have r: "0 \<le> activeOf (c_repo c) k \<and> activeOf (c_repo c) k < 2 ^ 31"
  proof -
    have "int (count (holding k) (c_pc c)) \<le> int (length (c_pc c))" using count_le[of "holding k" "c_pc c"] by (simp only: of_nat_le_iff)
    moreover have "int (length (c_pc c)) < 2 ^ 31" using n(2) by (metis of_nat_less_iff of_nat_numeral of_nat_power)
    ultimately show ?thesis using n(1) by linarith
  qed
  show "0 \<le> activeOf (c_repo c) k" "activeOf (c_repo c) k < 2 ^ 31" using r by simp_all
  assume t: "t < length (c_pc c)"
  show "activeOf (c_repo c) k + 1 < 2 ^ 31" if "\<not> holding k (c_pc c ! t)"
  proof -
    have "int (count (holding k) (c_pc c)) + 1 \<le> int (length (c_pc c))" using count_less[OF t, of "holding k"] that by linarith
    moreover have "int (length (c_pc c)) < 2 ^ 31" using n(2) by (metis of_nat_less_iff of_nat_numeral of_nat_power)
    ultimately show ?thesis using n(1) by linarith
  qed
  show "0 < activeOf (c_repo c) k" if "holding k (c_pc c ! t)"
    using n count_pos_nth[OF t, of "holding k"] that by linarith
qed

lemma holding_simps [simp]:
  "holding k (Idle f i) = False" "holding k (Checking j n) = (j = k)" "holding k (Open j) = (j = k)" "holding k Rejected = False"
  "holding k (Removing j) = False" "holding k Closed = False" "holding k (Panicked m) = False"
  "inCheck (Idle f i) = False" "inCheck (Checking j n) = True" "inCheck (Open j) = False" "inCheck Rejected = False"
  "inCheck (Removing j) = False" "inCheck Closed = False" "inCheck (Panicked m) = False"
  by (auto simp: holding_def inCheck_def)

lemma beginOpen_inv:
  assumes "conns_inv c" "beginOpen t c = Some c'"
  shows "conns_inv c'"
proof -
  obtain flow i where t: "t < length (c_pc c)" "\<not> c_locked c" "c_pc c ! t = Idle flow i"
    using assms(2) by (auto simp: beginOpen_def split: if_splits pc.splits)
  obtain k s where r: "registerStack flow i (c_repo c) = (k, s)" by (cases "registerStack flow i (c_repo c)")
  have "\<forall>f j n. lookupStack (c_repo c) f j = Some n \<longrightarrow> n < length (sr_stacks (c_repo c))"
    using conns_invD(2)[OF assms(1)] by blast
  note f = registerStack_facts[OF r this]
  have c': "c' = c\<lparr>c_repo := addActive 1 k s, c_locked := True, c_pc := (c_pc c)[t := Checking k (activeOf (addActive 1 k s) k)]\<rparr>"
    using assms(2) t r by (simp add: beginOpen_def Let_def)
  have a: "0 \<le> activeOf s k" "activeOf s k + 1 < 2 ^ 31"
    using f(4)[rule_format, OF f(1)] active_range(1)[OF assms(1), of k] active_range(3)[OF assms(1) _ t(1), of k] t(3) by (simp_all split: if_splits)
  have add: "activeOf (addActive 1 k s) j = (if j = k then activeOf s j + 1 else activeOf s j)" if "j < length (sr_stacks s)" for j
    by (rule activeOf_add[OF that]) (use a in linarith)+
  show ?thesis
    by (rule conns_invI[OF assms(1) t(1), where p = "Checking k (activeOf (addActive 1 k s) k)"])
      (use f t in \<open>auto simp: c' add\<close>)
qed

lemma endOpen_inv:
  assumes "conns_inv c" "endOpen t c = Some c'"
  shows "conns_inv c'"
proof -
  obtain k n where t: "t < length (c_pc c)" "c_pc c ! t = Checking k n"
    using assms(2) by (auto simp: endOpen_def split: if_splits pc.splits)
  have m: "Checking k n \<in> set (c_pc c)" using t by (metis nth_mem)
  then have k: "k < length (sr_stacks (c_repo c))" by (rule conns_invD(1)[OF assms(1)]) simp
  have l: "c_locked c" using assms(1) count_pos[OF m, of inCheck] by (auto simp: conns_inv_def split: if_splits)
  have p: "0 < activeOf (c_repo c) k" "activeOf (c_repo c) k < 2 ^ 31" using active_range[OF assms(1) k] t by simp_all
  have add: "activeOf (addActive (- 1) k (c_repo c)) j = (if j = k then activeOf (c_repo c) j - 1 else activeOf (c_repo c) j)"
    if "j < length (sr_stacks (c_repo c))" for j using activeOf_add[OF that, of k "- 1"] p by simp
  let ?v = "sr_MaxConnections (c_repo c)"
  show ?thesis
  proof (cases "?v > 0 \<and> n > int (unat ?v)")
    case True
    then have c': "c' = c\<lparr>c_repo := addActive (-1) k (c_repo c), c_locked := False, c_pc := (c_pc c)[t := Rejected]\<rparr>"
      using assms(2) t by (simp add: endOpen_def Let_def)
    show ?thesis
      by (rule conns_invI[OF assms(1) t(1), where p = Rejected]) (use t k l conns_invD(2)[OF assms(1)] in \<open>auto simp: c' add\<close>)
  next
    case False
    then have c': "c' = c\<lparr>c_locked := False, c_pc := (c_pc c)[t := Open k]\<rparr>"
      using assms(2) t by (auto simp: endOpen_def Let_def split: if_splits)
    show ?thesis
      by (rule conns_invI[OF assms(1) t(1), where p = "Open k"]) (use t k l False conns_invD(2)[OF assms(1)] in \<open>auto simp: c'\<close>)
  qed
qed

text \<open>The counter that \<^verbatim>\<open>close\<close> sees is never negative: its first panic is not reachable.\<close>

lemma beginClose_inv:
  assumes "conns_inv c" "beginClose t c = Some c'"
  shows "conns_inv c'" "c_pc c' ! t = Closed \<or> (\<exists>k. c_pc c' ! t = Removing k)"
proof -
  obtain k where t: "t < length (c_pc c)" "c_pc c ! t = Open k"
    using assms(2) by (auto simp: beginClose_def split: if_splits pc.splits)
  have m: "Open k \<in> set (c_pc c)" using t by (metis nth_mem)
  then have k: "k < length (sr_stacks (c_repo c))" by (rule conns_invD(1)[OF assms(1)]) simp
  have q: "0 < activeOf (c_repo c) k" "activeOf (c_repo c) k < 2 ^ 31" using active_range[OF assms(1) k] t by simp_all
  have add: "activeOf (addActive (- 1) k (c_repo c)) j = (if j = k then activeOf (c_repo c) j - 1 else activeOf (c_repo c) j)"
    if "j < length (sr_stacks (c_repo c))" for j using activeOf_add[OF that, of k "- 1"] q by simp
  have n: "\<not> activeOf (addActive (-1) k (c_repo c)) k < 0" using add[OF k] q(1) by simp
  define p where "p = (if activeOf (addActive (-1) k (c_repo c)) k > 0 then Closed else Removing k)"
  have c': "c' = c\<lparr>c_repo := addActive (-1) k (c_repo c), c_pc := (c_pc c)[t := p]\<rparr>"
    using assms(2) t n by (simp add: beginClose_def Let_def p_def)
  show "conns_inv c'"
    by (rule conns_invI[OF assms(1) t(1), where p = p]) (use t k conns_invD(2)[OF assms(1)] in \<open>auto simp: c' p_def add split: if_splits\<close>)
  show "c_pc c' ! t = Closed \<or> (\<exists>k. c_pc c' ! t = Removing k)" using t by (simp add: c' p_def)
qed

lemma lookup_removed:
  assumes "lookupStack (s\<lparr>sr_interceptors := (if AList.delete j m = [] then AList.delete f (sr_interceptors s)
     else AList.update f (AList.delete j m) (sr_interceptors s))\<rparr>) flow i = Some k" "map_of (sr_interceptors s) f = Some m"
  shows "lookupStack s flow i = Some k"
  using assms by (auto simp: lookupStack_def split: if_splits option.splits)

lemma endClose_inv:
  assumes "conns_inv c" "endClose t c = Some c'"
  shows "conns_inv c'"
proof -
  obtain k where t: "t < length (c_pc c)" "c_pc c ! t = Removing k" "\<not> c_locked c"
    using assms(2) by (auto simp: endClose_def split: if_splits pc.splits)
  let ?st = "sr_stacks (c_repo c) ! k"
  show ?thesis
  proof (cases "map_of (sr_interceptors (c_repo c)) (st_flow ?st)")
    case None
    then have c': "c' = c\<lparr>c_pc := (c_pc c)[t := Panicked ''connectionInterceptors[flow] is nil'']\<rparr>"
      using assms(2) t by (simp add: endClose_def Let_def)
    show ?thesis
      by (rule conns_invI[OF assms(1) t(1), where p = "Panicked ''connectionInterceptors[flow] is nil''"])
        (use t conns_invD(2)[OF assms(1)] in \<open>auto simp: c'\<close>)
  next
    case (Some m)
    let ?m' = "if AList.delete (st_id ?st) m = [] then AList.delete (st_flow ?st) (sr_interceptors (c_repo c))
      else AList.update (st_flow ?st) (AList.delete (st_id ?st) m) (sr_interceptors (c_repo c))"
    have c': "c' = c\<lparr>c_repo := (c_repo c)\<lparr>sr_interceptors := ?m'\<rparr>, c_pc := (c_pc c)[t := Closed]\<rparr>"
      using assms(2) t Some by (simp add: endClose_def Let_def)
    have lk: "n < length (sr_stacks (c_repo c))" if "lookupStack ((c_repo c)\<lparr>sr_interceptors := ?m'\<rparr>) f j = Some n" for f j n
      using lookup_removed[OF that Some] conns_invD(2)[OF assms(1)] by blast
    have ac: "activeOf ((c_repo c)\<lparr>sr_interceptors := ?m'\<rparr>) n = activeOf (c_repo c) n" for n by (simp add: activeOf_def)
    show ?thesis
      by (rule conns_invI[OF assms(1) t(1), where p = Closed]) (use t lk ac in \<open>simp_all add: c'\<close>)
  qed
qed

lemma dispose_inv:
  assumes "conns_inv c" "disposeConns flow i c = Some c'"
  shows "conns_inv c'"
proof -
  have c': "c' = c\<lparr>c_repo := snd (disposeStack flow i (c_repo c))\<rparr>" using assms(2) by (auto simp: disposeConns_def split: if_splits)
  have "length (sr_stacks (c_repo c')) = length (sr_stacks (c_repo c))" "lookupStack (c_repo c') = lookupStack (c_repo c)"
    "sr_MaxConnections (c_repo c') = sr_MaxConnections (c_repo c)"
    "k < length (sr_stacks (c_repo c)) \<Longrightarrow> activeOf (c_repo c') k = activeOf (c_repo c) k" for k
    by (auto simp: c' disposeStack_def activeOf_def split: option.splits)
  then show ?thesis using assms(1) by (simp add: conns_inv_def count_def c')
qed

lemma init_inv:
  assumes "length ts < 2 ^ 31"
  shows "conns_inv (initConns s ts)"
proof -
  have "count P (c_pc (initConns s ts)) = 0" if "\<And>f i. \<not> P (Idle f i)" for P
    using that by (intro count_zero) (auto simp: initConns_def)
  then show ?thesis using assms by (auto simp: conns_inv_def lookupStack_def) (auto simp: initConns_def)
qed

lemma connOp_inv: "conns_inv c \<Longrightarrow> connOp x c = Some c' \<Longrightarrow> conns_inv c'"
  by (cases x) (auto intro: beginOpen_inv endOpen_inv beginClose_inv(1) endClose_inv dispose_inv)

lemma pcs_of_step:
  assumes "connOp x c = Some c'" "conns_inv c" "Panicked ''closed more where created'' \<notin> set (c_pc c)"
  shows "Panicked ''closed more where created'' \<notin> set (c_pc c')"
proof (cases x)
  case (BeginOpen t)
  then show ?thesis using assms(1,3)
    by (fastforce simp: beginOpen_def Let_def split: if_splits pc.splits prod.splits dest!: set_updateD)
next
  case (EndOpen t)
  then show ?thesis using assms(1,3)
    by (fastforce simp: endOpen_def Let_def split: if_splits pc.splits dest!: set_updateD)
next
  case (BeginClose t)
  then have st: "beginClose t c = Some c'" using assms(1) by simp
  then obtain p where p: "c_pc c' = (c_pc c)[t := p]" "t < length (c_pc c)"
    by (auto simp: beginClose_def Let_def split: if_splits pc.splits)
  moreover have "p \<noteq> Panicked ''closed more where created''" using beginClose_inv(2)[OF assms(2) st] p by auto
  ultimately show ?thesis using assms(3) by (auto dest!: set_updateD)
next
  case (EndClose t)
  then show ?thesis using assms(1,3)
    by (fastforce simp: endClose_def Let_def split: if_splits pc.splits option.splits dest!: set_updateD)
next
  case (DisposeOf flow i)
  then show ?thesis using assms(1,3) by (auto simp: disposeConns_def split: if_splits)
qed

definition conns_safe :: "conns \<Rightarrow> bool" where
  "conns_safe c \<longleftrightarrow> conns_inv c \<and> Panicked ''closed more where created'' \<notin> set (c_pc c)"

interpretation conn_steps: safe_system connOp "\<lambda>c. \<exists>s ts. length ts < 2 ^ 31 \<and> c = initConns s ts" conns_safe
proof unfold_locales
  fix c assume "\<exists>s ts. length ts < 2 ^ 31 \<and> c = initConns s ts"
  then show "conns_safe c" using init_inv by (auto simp: conns_safe_def) (auto simp: initConns_def)
qed (auto simp: conns_safe_def intro: connOp_inv dest: pcs_of_step)

subsection \<open>What the steps guarantee\<close>

text \<open>
  C3: In every reachable state of fewer than \<open>2^31\<close> goroutines that open and close connections, while
  sessions are disposed, the counter of 32 bits of a stack is the number of goroutines that hold it, so it is never
  negative and the panic \<^verbatim>\<open>closed more where created\<close> is unreachable; and with a limit no more
  connections of one stack are open than the limit allows.
\<close>

theorem connection_counter_exact:
  assumes "length ts < 2 ^ 31" and "reach connOp (initConns s ts) c"
  shows "(\<forall>k < length (sr_stacks (c_repo c)). sint (st_active (sr_stacks (c_repo c) ! k)) =
      int (length (filter (\<lambda>p. p = Open k \<or> (\<exists>n. p = Checking k n)) (c_pc c)))) \<and>
    Panicked ''closed more where created'' \<notin> set (c_pc c) \<and>
    (sr_MaxConnections (c_repo c) > 0 \<longrightarrow>
      (\<forall>k. length (filter (\<lambda>p. p = Open k) (c_pc c)) \<le> unat (sr_MaxConnections (c_repo c))))"
proof -
  have "conns_safe c" using conn_steps.safe_reach[OF _ assms(2)] assms(1) by blast
  moreover have "holding k = (\<lambda>p. p = Open k \<or> (\<exists>n. p = Checking k n))" for k by (rule ext) (simp add: holding_def)
  ultimately show ?thesis by (simp add: conns_safe_def conns_inv_def activeOf_def count_def)
qed

lemmas conn_eval = beginOpen_def endOpen_def beginClose_def endClose_def registerStack_def newStack_def addActive_def activeOf_def
  updateStack_def lookupStack_def initConns_def Let_def

lemma exRace:
  "runOps connOp [BeginOpen 0, EndOpen 0, BeginClose 0, BeginOpen 1, EndOpen 1, EndClose 0]
     (initConns (s\<lparr>sr_MaxConnections := 1\<rparr>) [(flow, i), (flow, i), (flow, i)]) =
   Some \<lparr>c_repo = s\<lparr>sr_MaxConnections := 1, sr_stacks := [(newStack flow i s)\<lparr>st_active := 1\<rparr>], sr_interceptors := []\<rparr>,
     c_locked = False, c_pc = [Closed, Open 0, Idle flow i]\<rparr>"
  by (simp add: conn_eval)

text \<open>
  The limit holds for a stack, not for a session. When a connection is opened between the last
  connection's decrement and the removal of the stack, the stack of the open connection is taken out of
  the map: the next connection gets a new stack, so with a limit of one connection two are open, and
  disposing the session reaches only the new stack.
\<close>

theorem close_race_exceeds_limit:
  "\<exists>c. reach connOp (initConns (s\<lparr>sr_MaxConnections := 1\<rparr>) [(flow, i), (flow, i), (flow, i)]) c \<and> sr_MaxConnections (c_repo c) = 1 \<and>
     c_pc c ! 1 = Open 0 \<and> c_pc c ! 2 = Open 1 \<and>
     st_flow (sr_stacks (c_repo c) ! 0) = flow \<and> st_id (sr_stacks (c_repo c) ! 0) = i \<and>
     st_flow (sr_stacks (c_repo c) ! 1) = flow \<and> st_id (sr_stacks (c_repo c) ! 1) = i \<and>
     (\<exists>c'. disposeConns flow i c = Some c' \<and> \<not> st_disposed (sr_stacks (c_repo c') ! 0) \<and> st_disposed (sr_stacks (c_repo c') ! 1))"
proof -
  let ?u = "s\<lparr>sr_MaxConnections := 1\<rparr>" and ?ts = "[(flow, i), (flow, i), (flow, i)]"
  obtain a where a: "runOps connOp [BeginOpen 0, EndOpen 0, BeginClose 0, BeginOpen 1, EndOpen 1, EndClose 0] (initConns ?u ?ts) = Some a"
    "a = \<lparr>c_repo = s\<lparr>sr_MaxConnections := 1, sr_stacks := [(newStack flow i s)\<lparr>st_active := 1\<rparr>], sr_interceptors := []\<rparr>,
     c_locked = False, c_pc = [Closed, Open 0, Idle flow i]\<rparr>" using exRace by blast
  have r: "reach connOp (initConns ?u ?ts) a" by (rule reach_runOps[OF reach_init a(1)])
  define b where "b = \<lparr>c_repo = s\<lparr>sr_MaxConnections := 1, sr_stacks := [(newStack flow i s)\<lparr>st_active := 1\<rparr>, (newStack flow i s)\<lparr>st_active := 1\<rparr>],
      sr_interceptors := [(flow, [(i, 1)])]\<rparr>, c_locked = False, c_pc = [Closed, Open 0, Open 1]\<rparr>"
  have "runOps connOp [BeginOpen 2, EndOpen 2] a = Some b" by (simp add: a(2) b_def conn_eval numeral_2_eq_2)
  from reach_runOps[OF r this] have "reach connOp (initConns ?u ?ts) b" .
  moreover have "disposeConns flow i b = Some (b\<lparr>c_repo := snd (disposeStack flow i (c_repo b))\<rparr>)"
    by (simp add: disposeConns_def b_def)
  ultimately show ?thesis
    by (intro exI[of _ b]) (simp add: b_def newStack_def disposeStack_def updateStack_def lookupStack_def)
qed

text \<open>
  The same race ends in a panic when no new connection comes: closing the connection that lost its
  stack finds no entry of its flow any more.
\<close>

theorem close_race_panics:
  "\<exists>c. reach connOp (initConns s [(flow, i), (flow, i)]) c \<and> c_pc c ! 1 = Panicked ''connectionInterceptors[flow] is nil''"
proof -
  have v: "\<not> (0 < sr_MaxConnections s \<and> uint (sr_MaxConnections s) < 1)"
    using uint_0_iff[of "sr_MaxConnections s"] uint_ge_0[of "sr_MaxConnections s"] by (auto simp: word_less_def)
  obtain c where c: "runOps connOp [BeginOpen 0, EndOpen 0, BeginClose 0, BeginOpen 1, EndOpen 1, EndClose 0, BeginClose 1, EndClose 1]
      (initConns s [(flow, i), (flow, i)]) = Some c" "c_pc c ! 1 = Panicked ''connectionInterceptors[flow] is nil''"
    using v by (simp add: conn_eval endClose_def)
  show ?thesis using reach_runOps[OF reach_init c(1)] c(2) by blast
qed

lemma connection_counter_exact_witness:
  "\<exists>c. reach connOp (initConns (exStore\<lparr>sr_MaxConnections := 1\<rparr>) [(''f'', []), (''f'', []), (''f'', [])]) c \<and>
     c_pc c = [Closed, Open 0, Idle ''f'' []] \<and> st_active (sr_stacks (c_repo c) ! 0) = 1"
proof -
  let ?c = "\<lparr>c_repo = exStore\<lparr>sr_MaxConnections := 1, sr_stacks := [(newStack ''f'' [] exStore)\<lparr>st_active := 1\<rparr>], sr_interceptors := []\<rparr>,
     c_locked = False, c_pc = [Closed, Open 0, Idle ''f'' []]\<rparr>"
  have r: "reach connOp (initConns (exStore\<lparr>sr_MaxConnections := 1\<rparr>) [(''f'', []), (''f'', []), (''f'', [])]) ?c"
    by (rule reach_runOps[OF reach_init exRace])
  then show ?thesis using connection_counter_exact[OF _ r] by (intro exI[of _ ?c]) simp
qed

subsection \<open>An action on a connection\<close>

datatype conn_result = ResultNone | ResultIdle | ResultMax | ResultDisposed

text \<open>\<^verbatim>\<open>Duration.Milliseconds\<close>: Go's division truncates towards zero.\<close>

definition milliseconds :: "int \<Rightarrow> int" where
  "milliseconds v = (if v < 0 then - ((- v) div 1000000) else v div 1000000)"

text \<open>
  \<^verbatim>\<open>onConnectionAction\<close> of the stack \<open>k\<close>: the deadline of the connection (\<open>None\<close> is the zero time) and what
  it is due to. An error of the touch leaves the last activity as it was.
\<close>

definition onConnectionAction :: "'k deps \<Rightarrow> nat \<Rightarrow> (int option \<times> conn_result) fm" where
  "onConnectionAction d k =
     bindE (getE (\<lambda>s. (sr_stacks s ! k, w_now s))) (\<lambda>(st, now).
     if st_disposed st then returnE (None, ResultDisposed)
     else bindE (getE (\<lambda>s. (milliseconds (sr_touchThreshold s), fileOf d (st_flow st) (st_id st) FsFileLastAccessed s))) (\<lambda>(threshold, fn).
       let nowMilli = now div 1000000 in
       bindE (if st_lastActivity st + threshold < nowMilli
              then bindE (osE (os_Chtimes fn now)) (\<lambda>_. modifyE (updateStack k (\<lambda>st. st\<lparr>st_lastActivity := nowMilli\<rparr>)))
              else returnE ()) (\<lambda>_.
       bindE (getE (\<lambda>s. (sr_IdleTimeout s, sr_MaxTimeout s))) (\<lambda>(idle, maxT).
       let (deadline, t) = (if idle \<noteq> 0 then (Some (now + idle), ResultIdle) else (None, ResultNone)) in
       returnE (if maxT \<noteq> 0 then
           (let maxDeadline = (st_created st + milliseconds maxT) * 1000000 in
            case deadline of
              None \<Rightarrow> (Some maxDeadline, ResultMax)
            | Some dl \<Rightarrow> if dl > maxDeadline then (Some maxDeadline, ResultMax) else (deadline, t))
         else (deadline, t))))))"

lemma updateStack_world [simp]:
  "w_files (updateStack k f s) = w_files s" "sr_IdleTimeout (updateStack k f s) = sr_IdleTimeout s"
  "sr_MaxTimeout (updateStack k f s) = sr_MaxTimeout s"
  by (simp_all add: updateStack_def)

text \<open>
  An action on a connection of a disposed session is told to close. Otherwise the deadline is the
  earlier one of the idle deadline, from now, and the deadline of the maximum, from the first connection
  of the stack, each only when configured; and the last-accessed file carries the time of the action when the
  last recorded activity is more than the threshold ago, and is untouched when it is not.
\<close>

theorem connection_action_deadline:
  assumes "quiet s" "k < length (sr_stacks s)" "sr_stacks s ! k = stk"
    and "fs_get (w_files s) (fileOf d (st_flow stk) (st_id stk) FsFileLastAccessed s) = Some n"
  defines "due \<equiv> st_lastActivity stk + milliseconds (sr_touchThreshold s) < w_now s div 1000000"
    and "idleAt \<equiv> w_now s + sr_IdleTimeout s"
    and "maxAt \<equiv> (st_created stk + milliseconds (sr_MaxTimeout s)) * 1000000"
  shows "\<exists>t. onConnectionAction d k s =
     (Inr (if st_disposed stk then (None, ResultDisposed)
           else if sr_IdleTimeout s = 0 \<and> sr_MaxTimeout s = 0 then (None, ResultNone)
           else if sr_MaxTimeout s = 0 \<or> (sr_IdleTimeout s \<noteq> 0 \<and> idleAt \<le> maxAt) then (Some idleAt, ResultIdle)
           else (Some maxAt, ResultMax)), t) \<and>
     fs_get (w_files t) (fileOf d (st_flow stk) (st_id stk) FsFileLastAccessed s) =
       (if due \<and> \<not> st_disposed stk then Some (n\<lparr>n_mtime := w_now s\<rparr>) else Some n)"
proof -
  let ?fn = "fileOf d (st_flow stk) (st_id stk) FsFileLastAccessed s"
  let ?touched = "updateStack k (\<lambda>st. st\<lparr>st_lastActivity := w_now s div 1000000\<rparr>)
    (s\<lparr>w_files := fs_put (w_files s) ?fn (n\<lparr>n_mtime := w_now s\<rparr>)\<rparr>)"
  define t where "t = (if due \<and> \<not> st_disposed stk then ?touched else s)"
  have chtimes: "osE (os_Chtimes ?fn (w_now s)) s = (Inr (), s\<lparr>w_files := fs_put (w_files s) ?fn (n\<lparr>n_mtime := w_now s\<rparr>)\<rparr>)"
    using assms(1,4) by (simp add: os_Chtimes_def mapErrE_def quiet_def)
  have "sr_IdleTimeout t = sr_IdleTimeout s" "sr_MaxTimeout t = sr_MaxTimeout s" by (simp_all add: t_def)
  then have "onConnectionAction d k s =
     (Inr (if st_disposed stk then (None, ResultDisposed)
           else if sr_IdleTimeout s = 0 \<and> sr_MaxTimeout s = 0 then (None, ResultNone)
           else if sr_MaxTimeout s = 0 \<or> (sr_IdleTimeout s \<noteq> 0 \<and> idleAt \<le> maxAt) then (Some idleAt, ResultIdle)
           else (Some maxAt, ResultMax)), t)"
    using assms(3) chtimes
    by (auto simp: onConnectionAction_def bindE_def getE_def returnE_def modifyE_def Let_def t_def due_def idleAt_def maxAt_def)
  moreover have "fs_get (w_files t) ?fn = (if due \<and> \<not> st_disposed stk then Some (n\<lparr>n_mtime := w_now s\<rparr>) else Some n)"
    using assms(4) by (simp add: t_def)
  ultimately show ?thesis by blast
qed

definition exActive :: fsrepo where
  "exActive = exStore\<lparr>w_files := (path_of [''s'', ''f'', ''U'', ''la''], newFile 1 0) # w_files exStore,
     sr_stacks := [\<lparr>st_flow = ''f'', st_id = [], st_created = 5, st_active = 1, st_lastActivity = 1, st_disposed = False\<rparr>]\<rparr>"

lemma connection_action_deadline_witness:
  "fst (onConnectionAction exDeps 0 exActive) = Inr (Some 5000000, ResultMax)"
proof -
  have q: "quiet exActive" using exStore_ready(1) by (simp add: exActive_def quiet_def)
  have "fileOf exDeps ''f'' [] FsFileLastAccessed exActive = path_of [''s'', ''f'', ''U'', ''la'']"
    using exStore_file[of FsFileLastAccessed] by (simp add: exActive_def fileOf_def)
  then have g: "fs_get (w_files exActive) (fileOf exDeps ''f'' [] FsFileLastAccessed exActive) = Some (newFile 1 0)"
    by (simp add: exActive_def fs_get_def)
  show ?thesis
    using connection_action_deadline[OF q, of 0 "sr_stacks exActive ! 0" exDeps "newFile 1 0"] g
    by (auto simp: exActive_def exStore_def milliseconds_def)
qed

end
