(* ===== verification/KeyedMutex.thy ===== *)
theory KeyedMutex
  imports StepSystem "HOL-Library.AList"
begin

section \<open>A mutex for each key (pkg/common/keyed-mutex.go)\<close>

text \<open>
  \<^verbatim>\<open>KeyedMutex\<close> keeps one read-write mutex for each key in use. \<open>km_instances\<close> are the objects
  \<^verbatim>\<open>keyMutex\<close> ever made, each with its counter \<^verbatim>\<open>numberOfHoldes\<close> and the state of its \<^verbatim>\<open>sync.RWMutex\<close>,
  \<open>km_map\<close> is \<^verbatim>\<open>keyToMutex\<close> and \<open>km_uber\<close> whether some goroutine holds \<^verbatim>\<open>uberMutex\<close> for writing. The
  section under its read lock is only a lookup, one step. Each goroutine locks and unlocks once. The counter
  is an \<^verbatim>\<open>atomic.Int32\<close>, which wraps around; a \<^verbatim>\<open>sync.RWMutex\<close> is documented for fewer than \<open>2^30\<close> readers.
\<close>

record 'k key_mutex =
  ki_key :: 'k
  ki_holders :: "32 word"
  ki_writer :: bool
  ki_readers :: nat

text \<open>
  Where a goroutine is: before \<^verbatim>\<open>Lock\<close> (write) or \<^verbatim>\<open>RLock\<close>; after the lookup, with an instance or without;
  after \<^verbatim>\<open>numberOfHoldes.Add(1)\<close>, waiting for the instance (the flag: it holds \<^verbatim>\<open>uberMutex\<close>); holding;
  after the instance's unlock; after \<^verbatim>\<open>Add(-1)\<close> returned 0, before \<^verbatim>\<open>uberMutex.Lock\<close>; done.
\<close>

datatype 'k kpc =
    Start 'k bool | Found nat bool | Missing 'k bool | Waiting nat bool bool | Holding nat bool | Released nat | Cleaning nat
  | Done | Panicked

record 'k keyed_mutex =
  km_instances :: "'k key_mutex list"
  km_map :: "('k \<times> nat) list"
  km_uber :: bool
  km_pc :: "'k kpc list"

definition setPc :: "nat \<Rightarrow> 'k kpc \<Rightarrow> 'k keyed_mutex \<Rightarrow> 'k keyed_mutex" where
  "setPc t p m = m\<lparr>km_pc := (km_pc m)[t := p]\<rparr>"

definition setInstance :: "nat \<Rightarrow> ('k key_mutex \<Rightarrow> 'k key_mutex) \<Rightarrow> 'k keyed_mutex \<Rightarrow> 'k keyed_mutex" where
  "setInstance k f m = m\<lparr>km_instances := (km_instances m)[k := f (km_instances m ! k)]\<rparr>"

definition addHolders :: "int \<Rightarrow> 'k key_mutex \<Rightarrow> 'k key_mutex" where
  "addHolders n i = i\<lparr>ki_holders := ki_holders i + word_of_int n\<rparr>"

text \<open>\<^verbatim>\<open>lockBy\<close>: the lookup under the read lock.\<close>

definition kmLookup :: "nat \<Rightarrow> 'k keyed_mutex \<Rightarrow> 'k keyed_mutex option" where
  "kmLookup t m =
     (if t < length (km_pc m) \<and> \<not> km_uber m then
        (case km_pc m ! t of
           Start key write \<Rightarrow>
             Some (setPc t (case map_of (km_map m) key of Some k \<Rightarrow> Found k write | None \<Rightarrow> Missing key write) m)
         | _ \<Rightarrow> None)
      else None)"

text \<open>\<^verbatim>\<open>instanceLocker\<close> after a successful lookup, without \<^verbatim>\<open>uberMutex\<close>.\<close>

definition kmCount :: "nat \<Rightarrow> 'k keyed_mutex \<Rightarrow> 'k keyed_mutex option" where
  "kmCount t m =
     (if t < length (km_pc m) then
        (case km_pc m ! t of
           Found k write \<Rightarrow> Some (setPc t (Waiting k write False) (setInstance k (addHolders 1) m))
         | _ \<Rightarrow> None)
      else None)"

text \<open>The second lookup, with \<^verbatim>\<open>uberMutex\<close> taken, and the new instance when there is none.\<close>

definition kmEnter :: "nat \<Rightarrow> 'k keyed_mutex \<Rightarrow> 'k keyed_mutex option" where
  "kmEnter t m =
     (if t < length (km_pc m) \<and> \<not> km_uber m then
        (case km_pc m ! t of
           Missing key write \<Rightarrow>
             (case map_of (km_map m) key of
                Some k \<Rightarrow> Some (setPc t (Waiting k write True) (setInstance k (addHolders 1) (m\<lparr>km_uber := True\<rparr>)))
              | None \<Rightarrow>
                  (let k = length (km_instances m) in
                   Some (setPc t (Waiting k write True)
                     (m\<lparr>km_uber := True, km_map := AList.update key k (km_map m),
                        km_instances := km_instances m @ [\<lparr>ki_key = key, ki_holders = 1, ki_writer = False, ki_readers = 0\<rparr>]\<rparr>))))
         | _ \<Rightarrow> None)
      else None)"

text \<open>\<^verbatim>\<open>mutex.Lock()\<close> or \<^verbatim>\<open>mutex.RLock()\<close> returns; \<^verbatim>\<open>lockBy\<close>'s deferred unlock of \<^verbatim>\<open>uberMutex\<close>.\<close>

definition kmAcquire :: "nat \<Rightarrow> 'k keyed_mutex \<Rightarrow> 'k keyed_mutex option" where
  "kmAcquire t m =
     (if t < length (km_pc m) then
        (case km_pc m ! t of
           Waiting k write uber \<Rightarrow>
             (let i = km_instances m ! k in
              if ki_writer i \<or> (write \<and> ki_readers i > 0) then None
              else Some (setPc t (Holding k write)
                (setInstance k (\<lambda>i. if write then i\<lparr>ki_writer := True\<rparr> else i\<lparr>ki_readers := Suc (ki_readers i)\<rparr>)
                  (if uber then m\<lparr>km_uber := False\<rparr> else m))))
         | _ \<Rightarrow> None)
      else None)"

text \<open>\<^verbatim>\<open>unlock\<close> and \<^verbatim>\<open>rUnlock\<close>.\<close>

definition kmRelease :: "nat \<Rightarrow> 'k keyed_mutex \<Rightarrow> 'k keyed_mutex option" where
  "kmRelease t m =
     (if t < length (km_pc m) then
        (case km_pc m ! t of
           Holding k write \<Rightarrow>
             Some (setPc t (Released k)
               (setInstance k (\<lambda>i. if write then i\<lparr>ki_writer := False\<rparr> else i\<lparr>ki_readers := ki_readers i - 1\<rparr>) m))
         | _ \<Rightarrow> None)
      else None)"

text \<open>\<^verbatim>\<open>afterUnlock\<close>: the decrement and the decision.\<close>

definition kmDecrement :: "nat \<Rightarrow> 'k keyed_mutex \<Rightarrow> 'k keyed_mutex option" where
  "kmDecrement t m =
     (if t < length (km_pc m) then
        (case km_pc m ! t of
           Released k \<Rightarrow>
             (let m' = setInstance k (addHolders (-1)) m; left = sint (ki_holders (km_instances m' ! k)) in
              Some (setPc t (if left < 0 then Panicked else if left > 0 then Done else Cleaning k) m'))
         | _ \<Rightarrow> None)
      else None)"

text \<open>\<^verbatim>\<open>afterUnlock\<close>: the removal under \<^verbatim>\<open>uberMutex\<close>, by key.\<close>

definition kmClean :: "nat \<Rightarrow> 'k keyed_mutex \<Rightarrow> 'k keyed_mutex option" where
  "kmClean t m =
     (if t < length (km_pc m) \<and> \<not> km_uber m then
        (case km_pc m ! t of
           Cleaning k \<Rightarrow> Some (setPc t Done (m\<lparr>km_map := AList.delete (ki_key (km_instances m ! k)) (km_map m)\<rparr>))
         | _ \<Rightarrow> None)
      else None)"

datatype km_op = Lookup nat | Count nat | Enter nat | Acquire nat | Release nat | Decrement nat | Clean nat

fun kmOp :: "km_op \<Rightarrow> 'k keyed_mutex \<Rightarrow> 'k keyed_mutex option" where
  "kmOp (Lookup t) m = kmLookup t m"
| "kmOp (Count t) m = kmCount t m"
| "kmOp (Enter t) m = kmEnter t m"
| "kmOp (Acquire t) m = kmAcquire t m"
| "kmOp (Release t) m = kmRelease t m"
| "kmOp (Decrement t) m = kmDecrement t m"
| "kmOp (Clean t) m = kmClean t m"

definition initKeyed :: "('k \<times> bool) list \<Rightarrow> 'k keyed_mutex" where
  "initKeyed ts = \<lparr>km_instances = [], km_map = [], km_uber = False, km_pc = map (\<lambda>(k, w). Start k w) ts\<rparr>"

subsection \<open>The invariant\<close>

definition counted :: "nat \<Rightarrow> 'k kpc \<Rightarrow> bool" where
  "counted k p \<longleftrightarrow> (\<exists>w u. p = Waiting k w u) \<or> (\<exists>w. p = Holding k w) \<or> p = Released k"

fun refersTo :: "'k kpc \<Rightarrow> nat option" where
  "refersTo (Found k w) = Some k"
| "refersTo (Waiting k w u) = Some k"
| "refersTo (Holding k w) = Some k"
| "refersTo (Released k) = Some k"
| "refersTo (Cleaning k) = Some k"
| "refersTo _ = None"

text \<open>The counters of an instance, also before it is made.\<close>

definition holdersOf :: "'k keyed_mutex \<Rightarrow> nat \<Rightarrow> int" where
  "holdersOf m k = (if k < length (km_instances m) then sint (ki_holders (km_instances m ! k)) else 0)"

definition writersOf :: "'k keyed_mutex \<Rightarrow> nat \<Rightarrow> int" where
  "writersOf m k = (if k < length (km_instances m) \<and> ki_writer (km_instances m ! k) then 1 else 0)"

definition readersOf :: "'k keyed_mutex \<Rightarrow> nat \<Rightarrow> int" where
  "readersOf m k = (if k < length (km_instances m) then int (ki_readers (km_instances m ! k)) else 0)"

text \<open>
  The invariant: the counter is the number of goroutines that counted themselves in, the state of an
  instance's \<^verbatim>\<open>RWMutex\<close> is the number of goroutines that hold it, a writer excludes readers, and an instance in the
  map is in use or about to be removed.
\<close>

definition keyed_inv :: "'k keyed_mutex \<Rightarrow> bool" where
  "keyed_inv m \<longleftrightarrow> length (km_pc m) < 2 ^ 30 \<and>
     (\<forall>p \<in> set (km_pc m). \<forall>k. refersTo p = Some k \<longrightarrow> k < length (km_instances m)) \<and>
     (\<forall>k. holdersOf m k = int (count (counted k) (km_pc m))) \<and>
     (\<forall>k. writersOf m k = int (count (\<lambda>p. p = Holding k True) (km_pc m))) \<and>
     (\<forall>k. readersOf m k = int (count (\<lambda>p. p = Holding k False) (km_pc m))) \<and>
     (\<forall>k. writersOf m k = 0 \<or> readersOf m k = 0) \<and>
     (\<forall>key k. map_of (km_map m) key = Some k \<longrightarrow>
        k < length (km_instances m) \<and> ki_key (km_instances m ! k) = key \<and>
        (holdersOf m k > 0 \<or> Cleaning k \<in> set (km_pc m))) \<and>
     Panicked \<notin> set (km_pc m)"

lemma keyed_invI:
  assumes m: "keyed_inv m" and t: "t < length (km_pc m)" and pc: "km_pc m' = (km_pc m)[t := p]"
    and len: "length (km_instances m) \<le> length (km_instances m')"
    and ref: "\<And>k. refersTo p = Some k \<Longrightarrow> k < length (km_instances m')" and np: "p \<noteq> Panicked"
    and h: "\<And>k. holdersOf m' k = holdersOf m k - (if counted k (km_pc m ! t) then 1 else 0) + (if counted k p then 1 else 0)"
    and w: "\<And>k. writersOf m' k = writersOf m k - (if km_pc m ! t = Holding k True then 1 else 0) + (if p = Holding k True then 1 else 0)"
    and r: "\<And>k. readersOf m' k = readersOf m k - (if km_pc m ! t = Holding k False then 1 else 0) + (if p = Holding k False then 1 else 0)"
    and x: "\<And>k. writersOf m' k = 0 \<or> readersOf m' k = 0"
    and mp: "\<And>key k. map_of (km_map m') key = Some k \<Longrightarrow>
        k < length (km_instances m') \<and> ki_key (km_instances m' ! k) = key \<and>
        (holdersOf m' k > 0 \<or> Cleaning k \<in> set (km_pc m'))"
  shows "keyed_inv m'"
  unfolding keyed_inv_def
proof (intro conjI allI ballI impI)
  note i = m[unfolded keyed_inv_def] and c = count_update[OF t, where p = p, folded pc]
  fix q k assume q: "q \<in> set (km_pc m')" "refersTo q = Some k"
  show "k < length (km_instances m')"
    using set_updateD[OF q(1)[unfolded pc]] ref q(2) i len by (metis less_le_trans)
next
  fix k
  note i = m[unfolded keyed_inv_def] and c = count_update[OF t, where p = p, folded pc]
  show "holdersOf m' k = int (count (counted k) (km_pc m'))" using h[of k] i c[of "counted k"] by simp
  show "writersOf m' k = int (count (\<lambda>p. p = Holding k True) (km_pc m'))" using w[of k] i c[of "\<lambda>p. p = Holding k True"] by simp
  show "readersOf m' k = int (count (\<lambda>p. p = Holding k False) (km_pc m'))" using r[of k] i c[of "\<lambda>p. p = Holding k False"] by simp
  show "writersOf m' k = 0 \<or> readersOf m' k = 0" by (rule x)
next
  fix key k assume "map_of (km_map m') key = Some k"
  from mp[OF this] show "k < length (km_instances m')" "ki_key (km_instances m' ! k) = key"
    "holdersOf m' k > 0 \<or> Cleaning k \<in> set (km_pc m')" by blast+
next
  show "length (km_pc m') < 2 ^ 30" using m pc by (simp add: keyed_inv_def)
next
  show "Panicked \<notin> set (km_pc m')" using set_updateD[of Panicked "km_pc m" t p] np m unfolding pc keyed_inv_def by blast
qed

subsection \<open>Every step keeps it\<close>

lemma frame [simp]:
  "km_pc (setPc t p m) = (km_pc m)[t := p]" "km_instances (setPc t p m) = km_instances m" "km_map (setPc t p m) = km_map m"
  "km_uber (setPc t p m) = km_uber m" "km_pc (setInstance k f m) = km_pc m" "km_map (setInstance k f m) = km_map m"
  "length (km_instances (setInstance k f m)) = length (km_instances m)"
  "j < length (km_instances m) \<Longrightarrow> km_instances (setInstance k f m) ! j = (if j = k then f (km_instances m ! j) else km_instances m ! j)"
  by (auto simp: setPc_def setInstance_def nth_list_update)

lemma counters_frame [simp]:
  "holdersOf (setPc t p m) = holdersOf m" "writersOf (setPc t p m) = writersOf m" "readersOf (setPc t p m) = readersOf m"
  "holdersOf (m\<lparr>km_uber := b\<rparr>) = holdersOf m" "writersOf (m\<lparr>km_uber := b\<rparr>) = writersOf m" "readersOf (m\<lparr>km_uber := b\<rparr>) = readersOf m"
  "holdersOf (m\<lparr>km_map := f\<rparr>) = holdersOf m" "writersOf (m\<lparr>km_map := f\<rparr>) = writersOf m" "readersOf (m\<lparr>km_map := f\<rparr>) = readersOf m"
  by (simp_all add: fun_eq_iff holdersOf_def writersOf_def readersOf_def)

lemma counters_setInstance [simp]:
  "k < length (km_instances m) \<Longrightarrow> holdersOf (setInstance k f m) j = (if j = k then sint (ki_holders (f (km_instances m ! k))) else holdersOf m j)"
  "k < length (km_instances m) \<Longrightarrow> writersOf (setInstance k f m) j = (if j = k then (if ki_writer (f (km_instances m ! k)) then 1 else 0) else writersOf m j)"
  "k < length (km_instances m) \<Longrightarrow> readersOf (setInstance k f m) j = (if j = k then int (ki_readers (f (km_instances m ! k))) else readersOf m j)"
  by (auto simp: holdersOf_def writersOf_def readersOf_def split: if_splits)

lemma addHolders_simps [simp]:
  "ki_writer (addHolders n i) = ki_writer i" "ki_readers (addHolders n i) = ki_readers i"
  "ki_key (addHolders n i) = ki_key i"
  by (simp_all add: addHolders_def)

lemma holders_add:
  "sint (ki_holders i) + 1 < 2 ^ 31 \<Longrightarrow> sint (ki_holders (addHolders 1 i)) = sint (ki_holders i) + 1"
  "0 < sint (ki_holders i) \<Longrightarrow> sint (ki_holders (addHolders (- 1) i)) = sint (ki_holders i) - 1"
proof -
  have ge: "- (2 ^ 31) \<le> sint (ki_holders i)" and lt: "sint (ki_holders i) < 2 ^ 31"
    using sint_ge[of "ki_holders i"] sint_lt[of "ki_holders i"] by simp_all
  show "sint (ki_holders i) + 1 < 2 ^ 31 \<Longrightarrow> sint (ki_holders (addHolders 1 i)) = sint (ki_holders i) + 1"
    using int32_add[of "ki_holders i" 1] ge by (simp add: addHolders_def)
  show "0 < sint (ki_holders i) \<Longrightarrow> sint (ki_holders (addHolders (- 1) i)) = sint (ki_holders i) - 1"
    using int32_add[of "ki_holders i" "- 1"] lt by (simp add: addHolders_def)
qed

lemma counted_simps [simp]:
  "counted k (Waiting j w u) = (j = k)" "counted k (Holding j w) = (j = k)" "counted k (Released j) = (j = k)"
  "\<not> counted k (Start key w)" "\<not> counted k (Found j w)" "\<not> counted k (Missing key w)" "\<not> counted k (Cleaning j)" "\<not> counted k Done"
  by (auto simp: counted_def)

lemma keyed_invD:
  assumes "keyed_inv m"
  shows "p \<in> set (km_pc m) \<Longrightarrow> refersTo p = Some k \<Longrightarrow> k < length (km_instances m)"
    and "holdersOf m k = int (count (counted k) (km_pc m))"
    and "writersOf m k = int (count (\<lambda>p. p = Holding k True) (km_pc m))"
    and "readersOf m k = int (count (\<lambda>p. p = Holding k False) (km_pc m))"
    and "writersOf m k = 0 \<or> readersOf m k = 0"
    and "map_of (km_map m) key = Some k \<Longrightarrow> k < length (km_instances m) \<and> ki_key (km_instances m ! k) = key \<and>
        (holdersOf m k > 0 \<or> Cleaning k \<in> set (km_pc m))"
    and "length (km_pc m) < 2 ^ 30"
  using assms unfolding keyed_inv_def by blast+

text \<open>Before a goroutine counts itself in, the counter is below the number of goroutines.\<close>

lemma holders_room:
  assumes "keyed_inv m" and "t < length (km_pc m)" and "\<not> counted k (km_pc m ! t)" and "k < length (km_instances m)"
  shows "sint (ki_holders (km_instances m ! k)) + 1 < 2 ^ 31"
  using keyed_invD(2)[OF assms(1), of k] keyed_invD(7)[OF assms(1)] count_less[OF assms(2), of "counted k", OF assms(3)] assms(4)
  by (simp add: holdersOf_def)

lemma refers_nth: "keyed_inv m \<Longrightarrow> t < length (km_pc m) \<Longrightarrow> refersTo (km_pc m ! t) = Some k \<Longrightarrow> k < length (km_instances m)"
  by (rule keyed_invD(1)) simp_all

lemma cleaning_stays: "Cleaning k \<in> set ps \<Longrightarrow> ps ! t \<noteq> Cleaning k \<Longrightarrow> Cleaning k \<in> set (ps[t := p])"
  by (metis in_set_conv_nth length_list_update nth_list_update_neq)

text \<open>A step that leaves the map alone.\<close>

lemma keyed_invI_same:
  assumes m: "keyed_inv m" and t: "t < length (km_pc m)" and pc: "km_pc m' = (km_pc m)[t := p]"
    and len: "length (km_instances m') = length (km_instances m)" and mp: "km_map m' = km_map m"
    and keys: "\<And>k. k < length (km_instances m) \<Longrightarrow> ki_key (km_instances m' ! k) = ki_key (km_instances m ! k)"
    and ref: "refersTo p = None \<or> refersTo p = refersTo (km_pc m ! t) \<or> (\<exists>k < length (km_instances m). refersTo p = Some k)"
    and np: "p \<noteq> Panicked" "\<And>k. km_pc m ! t \<noteq> Cleaning k"
    and h: "\<And>k. holdersOf m' k = holdersOf m k - (if counted k (km_pc m ! t) then 1 else 0) + (if counted k p then 1 else 0)"
    and w: "\<And>k. writersOf m' k = writersOf m k - (if km_pc m ! t = Holding k True then 1 else 0) + (if p = Holding k True then 1 else 0)"
    and r: "\<And>k. readersOf m' k = readersOf m k - (if km_pc m ! t = Holding k False then 1 else 0) + (if p = Holding k False then 1 else 0)"
    and x: "\<And>k. writersOf m' k = 0 \<or> readersOf m' k = 0"
    and cl: "\<And>k. holdersOf m k > 0 \<Longrightarrow> holdersOf m' k > 0 \<or> p = Cleaning k"
  shows "keyed_inv m'"
proof (rule keyed_invI[OF m t pc _ _ np(1) h w r x])
  show "length (km_instances m) \<le> length (km_instances m')" using len by simp
  fix k assume "refersTo p = Some k"
  then show "k < length (km_instances m')" using ref refers_nth[OF m t, of k] len by auto
next
  fix key k assume "map_of (km_map m') key = Some k"
  then have a: "k < length (km_instances m) \<and> ki_key (km_instances m ! k) = key \<and> (holdersOf m k > 0 \<or> Cleaning k \<in> set (km_pc m))"
    using keyed_invD(6)[OF m] mp by simp
  have "holdersOf m' k > 0 \<or> Cleaning k \<in> set (km_pc m')"
  proof (cases "holdersOf m k > 0")
    case True
    from cl[OF this] show ?thesis using t set_update_memI[OF t, of p] unfolding pc by auto
  next
    case False
    then show ?thesis using a cleaning_stays[of k "km_pc m" t p] np(2)[of k] unfolding pc by blast
  qed
  then show "k < length (km_instances m') \<and> ki_key (km_instances m' ! k) = key \<and> (holdersOf m' k > 0 \<or> Cleaning k \<in> set (km_pc m'))"
    using a len keys by simp
qed

lemma keyed_nonneg: "keyed_inv m \<Longrightarrow> 0 \<le> holdersOf m k"
  by (simp add: keyed_invD(2))

lemma keyed_excl: "keyed_inv m \<Longrightarrow> k < length (km_instances m) \<Longrightarrow> ki_writer (km_instances m ! k) \<Longrightarrow> ki_readers (km_instances m ! k) = 0"
  using keyed_invD(5)[of m k] by (auto simp: writersOf_def readersOf_def split: if_splits)

lemma kmLookup_inv:
  assumes "keyed_inv m" "kmLookup t m = Some m'"
  shows "keyed_inv m'"
proof -
  obtain key w where t: "t < length (km_pc m)" "km_pc m ! t = Start key w"
    using assms(2) by (auto simp: kmLookup_def split: if_splits kpc.splits)
  define p where "p = (case map_of (km_map m) key of Some k \<Rightarrow> Found k w | None \<Rightarrow> Missing key w)"
  have m': "m' = setPc t p m" using assms(2) t by (simp add: kmLookup_def p_def split: if_splits)
  show ?thesis
    by (rule keyed_invI_same[OF assms(1) t(1), where p = p])
      (use t keyed_invD(5,6)[OF assms(1)] in \<open>auto simp: m' p_def split: option.splits\<close>)
qed

lemma kmCount_inv:
  assumes "keyed_inv m" "kmCount t m = Some m'"
  shows "keyed_inv m'"
proof -
  obtain k w where t: "t < length (km_pc m)" "km_pc m ! t = Found k w"
    using assms(2) by (auto simp: kmCount_def split: if_splits kpc.splits)
  have k: "k < length (km_instances m)" using refers_nth[OF assms(1) t(1)] t(2) by simp
  have m': "m' = setPc t (Waiting k w False) (setInstance k (addHolders 1) m)" using assms(2) t by (simp add: kmCount_def)
  note room = holders_add(1)[OF holders_room[OF assms(1) t(1) _ k]]
  show ?thesis
    by (rule keyed_invI_same[OF assms(1) t(1), where p = "Waiting k w False"])
      (use t k keyed_excl[OF assms(1)] in \<open>auto simp: m' room holdersOf_def writersOf_def readersOf_def split: if_splits\<close>)
qed

lemma kmAcquire_inv:
  assumes "keyed_inv m" "kmAcquire t m = Some m'"
  shows "keyed_inv m'"
proof -
  obtain k w u where t: "t < length (km_pc m)" "km_pc m ! t = Waiting k w u"
    using assms(2) by (auto simp: kmAcquire_def split: if_splits kpc.splits)
  have k: "k < length (km_instances m)" using refers_nth[OF assms(1) t(1)] t(2) by simp
  let ?i = "km_instances m ! k"
  have free: "\<not> ki_writer ?i" "w \<Longrightarrow> ki_readers ?i = 0"
    using assms(2) t by (auto simp: kmAcquire_def Let_def split: if_splits)
  define v where "v = (if u then m\<lparr>km_uber := False\<rparr> else m)"
  have m': "m' = setPc t (Holding k w) (setInstance k (\<lambda>i. if w then i\<lparr>ki_writer := True\<rparr> else i\<lparr>ki_readers := Suc (ki_readers i)\<rparr>) v)"
    using assms(2) t free by (auto simp: kmAcquire_def Let_def v_def split: if_splits)
  have v: "km_instances v = km_instances m" "km_pc v = km_pc m" "km_map v = km_map m" by (simp_all add: v_def)
  show ?thesis
    by (rule keyed_invI_same[OF assms(1) t(1), where p = "Holding k w"])
      (use t k free keyed_excl[OF assms(1)] in \<open>auto simp: m' v holdersOf_def writersOf_def readersOf_def split: if_splits\<close>)
qed

lemma kmRelease_inv:
  assumes "keyed_inv m" "kmRelease t m = Some m'"
  shows "keyed_inv m'"
proof -
  obtain k w where t: "t < length (km_pc m)" "km_pc m ! t = Holding k w"
    using assms(2) by (auto simp: kmRelease_def split: if_splits kpc.splits)
  have k: "k < length (km_instances m)" using refers_nth[OF assms(1) t(1)] t(2) by simp
  have held: "if w then ki_writer (km_instances m ! k) else ki_readers (km_instances m ! k) > 0"
    using keyed_invD(3,4)[OF assms(1), of k] count_pos_nth[OF t(1), of "\<lambda>p. p = Holding k w"] t(2) k
    by (auto simp: writersOf_def readersOf_def split: if_splits)
  have m': "m' = setPc t (Released k) (setInstance k (\<lambda>i. if w then i\<lparr>ki_writer := False\<rparr> else i\<lparr>ki_readers := ki_readers i - 1\<rparr>) m)"
    using assms(2) t by (simp add: kmRelease_def)
  have one: "writersOf m k \<le> 1" by (simp add: writersOf_def)
  show ?thesis
    by (rule keyed_invI_same[OF assms(1) t(1), where p = "Released k"])
      (use t k held keyed_excl[OF assms(1)] in \<open>auto simp: m' holdersOf_def writersOf_def readersOf_def of_nat_diff split: if_splits\<close>)
qed

lemma kmDecrement_inv:
  assumes "keyed_inv m" "kmDecrement t m = Some m'"
  shows "keyed_inv m'"
proof -
  obtain k where t: "t < length (km_pc m)" "km_pc m ! t = Released k"
    using assms(2) by (auto simp: kmDecrement_def split: if_splits kpc.splits)
  have k: "k < length (km_instances m)" using refers_nth[OF assms(1) t(1)] t(2) by simp
  have "0 < holdersOf m k" using keyed_invD(2)[OF assms(1), of k] count_pos_nth[OF t(1), of "counted k"] t(2) by simp
  then have pos: "0 < sint (ki_holders (km_instances m ! k))" using k by (simp add: holdersOf_def)
  note less = holders_add(2)[OF pos]
  define p where "p = (if sint (ki_holders (km_instances m ! k)) > 1 then Done else Cleaning k :: 'a kpc)"
  have m': "m' = setPc t p (setInstance k (addHolders (-1)) m)"
    using assms(2) t k pos by (auto simp: kmDecrement_def Let_def p_def less)
  show ?thesis
    by (rule keyed_invI_same[OF assms(1) t(1), where p = p])
      (use t k pos keyed_excl[OF assms(1)] in \<open>auto simp: m' p_def less holdersOf_def writersOf_def readersOf_def split: if_splits\<close>)
qed

lemma kmEnter_inv:
  assumes "keyed_inv m" "kmEnter t m = Some m'"
  shows "keyed_inv m'"
proof -
  obtain key w where t: "t < length (km_pc m)" "km_pc m ! t = Missing key w"
    using assms(2) by (auto simp: kmEnter_def split: if_splits kpc.splits)
  show ?thesis
  proof (cases "map_of (km_map m) key")
    case (Some k)
    have k: "k < length (km_instances m)" using keyed_invD(6)[OF assms(1) Some] by blast
    have m': "m' = setPc t (Waiting k w True) (setInstance k (addHolders 1) (m\<lparr>km_uber := True\<rparr>))"
      using assms(2) t Some by (simp add: kmEnter_def split: if_splits)
    note room = holders_add(1)[OF holders_room[OF assms(1) t(1) _ k]]
    show ?thesis
      by (rule keyed_invI_same[OF assms(1) t(1), where p = "Waiting k w True"])
        (use t k keyed_excl[OF assms(1)] in \<open>auto simp: m' room holdersOf_def writersOf_def readersOf_def split: if_splits\<close>)
  next
    case None
    let ?k = "length (km_instances m)"
    let ?new = "\<lparr>ki_key = key, ki_holders = 1, ki_writer = False, ki_readers = 0\<rparr>"
    have m': "m' = setPc t (Waiting ?k w True)
        (m\<lparr>km_uber := True, km_map := AList.update key ?k (km_map m), km_instances := km_instances m @ [?new]\<rparr>)"
      using assms(2) t None by (simp add: kmEnter_def Let_def split: if_splits)
    have mp: "k < length (km_instances m') \<and> ki_key (km_instances m' ! k) = key' \<and> (holdersOf m' k > 0 \<or> Cleaning k \<in> set (km_pc m'))"
      if "map_of (km_map m') key' = Some k" for key' k
    proof (cases "key' = key")
      case True
      then show ?thesis using that by (auto simp: m' update_conv' holdersOf_def nth_append)
    next
      case False
      then have "map_of (km_map m) key' = Some k" using that by (simp add: m' update_conv')
      from keyed_invD(6)[OF assms(1) this] show ?thesis
        using cleaning_stays[of k "km_pc m" t "Waiting ?k w True"] t(2) by (auto simp: m' holdersOf_def nth_append)
    qed
    show ?thesis
    proof (rule keyed_invI[OF assms(1) t(1), where p = "Waiting ?k w True"])
      fix key' k assume "map_of (km_map m') key' = Some k"
      then show "k < length (km_instances m') \<and> ki_key (km_instances m' ! k) = key' \<and> (holdersOf m' k > 0 \<or> Cleaning k \<in> set (km_pc m'))"
        by (rule mp)
    qed (use t keyed_excl[OF assms(1)] in \<open>auto simp: m' holdersOf_def writersOf_def readersOf_def nth_append split: if_splits\<close>)
  qed
qed

lemma kmClean_inv:
  assumes "keyed_inv m" "kmClean t m = Some m'"
  shows "keyed_inv m'"
proof -
  obtain k where t: "t < length (km_pc m)" "km_pc m ! t = Cleaning k"
    using assms(2) by (auto simp: kmClean_def split: if_splits kpc.splits)
  have m': "m' = setPc t Done (m\<lparr>km_map := AList.delete (ki_key (km_instances m ! k)) (km_map m)\<rparr>)"
    using assms(2) t by (simp add: kmClean_def split: if_splits)
  have mp: "j < length (km_instances m') \<and> ki_key (km_instances m' ! j) = key \<and> (holdersOf m' j > 0 \<or> Cleaning j \<in> set (km_pc m'))"
    if "map_of (km_map m') key = Some j" for key j
  proof -
    have a: "key \<noteq> ki_key (km_instances m ! k)" "map_of (km_map m) key = Some j"
      using that by (auto simp: m' delete_conv' split: if_splits)
    note b = keyed_invD(6)[OF assms(1) a(2)]
    then have "j \<noteq> k" using a(1) by auto
    then show ?thesis using b cleaning_stays[of j "km_pc m" t Done] t(2) by (auto simp: m')
  qed
  show ?thesis
  proof (rule keyed_invI[OF assms(1) t(1), where p = Done])
    fix key j assume "map_of (km_map m') key = Some j"
    then show "j < length (km_instances m') \<and> ki_key (km_instances m' ! j) = key \<and> (holdersOf m' j > 0 \<or> Cleaning j \<in> set (km_pc m'))"
      by (rule mp)
  qed (use t keyed_excl[OF assms(1)] in \<open>auto simp: m' holdersOf_def writersOf_def readersOf_def split: if_splits\<close>)
qed

interpretation km_steps: safe_system kmOp "\<lambda>m. \<exists>ts. length ts < 2 ^ 30 \<and> m = initKeyed ts" keyed_inv
proof unfold_locales
  fix m :: "'k keyed_mutex" assume "\<exists>ts. length ts < 2 ^ 30 \<and> m = initKeyed ts"
  then obtain ts where m: "length ts < 2 ^ 30" "m = initKeyed ts" by blast
  have "count P (km_pc m) = 0" if "\<And>k w. \<not> P (Start k w)" for P
    using that by (intro count_zero) (auto simp: m(2) initKeyed_def)
  then show "keyed_inv m" using m(1) unfolding keyed_inv_def
    by (auto simp: holdersOf_def writersOf_def readersOf_def counted_def) (auto simp: m(2) initKeyed_def)
next
  fix x and m m' :: "'k keyed_mutex" assume "keyed_inv m" "kmOp x m = Some m'"
  then show "keyed_inv m'"
    by (cases x) (auto intro: kmLookup_inv kmCount_inv kmEnter_inv kmAcquire_inv kmRelease_inv kmDecrement_inv kmClean_inv)
qed

subsection \<open>What it guarantees\<close>

text \<open>
  C7: For fewer than \<open>2^30\<close> goroutines and any schedule, the holders of one instance exclude each other:
  beside a writer there is no other holder of the same instance. The panic about a mutex leak is
  unreachable, and when every goroutine is done no mutex is left in the map.
\<close>

theorem instance_exclusion_and_no_leak:
  assumes "length ts < 2 ^ 30" and "reach kmOp (initKeyed ts) m"
  shows "(\<forall>t u k w. t < length (km_pc m) \<longrightarrow> u < length (km_pc m) \<longrightarrow> km_pc m ! t = Holding k True \<longrightarrow>
      km_pc m ! u = Holding k w \<longrightarrow> t = u) \<and>
    Panicked \<notin> set (km_pc m) \<and>
    ((\<forall>p \<in> set (km_pc m). p = Done) \<longrightarrow> (\<forall>key. map_of (km_map m) key = None))"
proof -
  have inv: "keyed_inv m" using km_steps.safe_reach[OF _ assms(2)] assms(1) by blast
  have "t = u" if tu: "t < length (km_pc m)" "u < length (km_pc m)" "km_pc m ! t = Holding k True" "km_pc m ! u = Holding k w" for t u k w
  proof (rule ccontr)
    assume ne: "t \<noteq> u"
    have "writersOf m k = int (count (\<lambda>p. p = Holding k True) (km_pc m))" by (rule keyed_invD(3)[OF inv])
    moreover have "writersOf m k \<le> 1" by (simp add: writersOf_def)
    moreover have "0 < count (\<lambda>p. p = Holding k True) (km_pc m)" using count_pos_nth[OF tu(1), of "\<lambda>p. p = Holding k True"] tu(3) by simp
    ultimately have w1: "writersOf m k = 1" "count (\<lambda>p. p = Holding k True) (km_pc m) = 1" by linarith+
    show False
    proof (cases w)
      case True
      have "count (\<lambda>p. p = Holding k True) ((km_pc m)[t := Done]) = 0"
        using count_update[OF tu(1), of "\<lambda>p. p = Holding k True" Done] w1(2) tu(3) by simp
      moreover have "(km_pc m)[t := Done] ! u = Holding k True" using ne tu True by simp
      ultimately show False using count_pos_nth[of u "(km_pc m)[t := Done]" "\<lambda>p. p = Holding k True"] tu(2) by simp
    next
      case False
      then have "0 < count (\<lambda>p. p = Holding k False) (km_pc m)" using count_pos_nth[OF tu(2), of "\<lambda>p. p = Holding k False"] tu(4) by simp
      then have "0 < readersOf m k" using keyed_invD(4)[OF inv, of k] by simp
      then show False using keyed_invD(5)[OF inv, of k] w1(1) by simp
    qed
  qed
  moreover have "map_of (km_map m) key = None" if fin: "\<forall>p \<in> set (km_pc m). p = Done" for key
  proof (rule ccontr)
    assume "map_of (km_map m) key \<noteq> None"
    then obtain k where "map_of (km_map m) key = Some k" by blast
    from keyed_invD(6)[OF inv this] have "holdersOf m k > 0 \<or> Cleaning k \<in> set (km_pc m)" by blast
    moreover have "count (counted k) (km_pc m) = 0" using fin by (intro count_zero) auto
    ultimately show False using keyed_invD(2)[OF inv, of k] fin by auto
  qed
  ultimately show ?thesis using inv unfolding keyed_inv_def by blast
qed

lemmas km_eval = kmLookup_def kmCount_def kmEnter_def kmAcquire_def kmRelease_def kmDecrement_def kmClean_def setPc_def setInstance_def
  addHolders_def initKeyed_def Let_def numeral_2_eq_2

text \<open>
  Keys are not exclusive. While the last holder of a key waits to remove its mutex, another goroutine
  can lock that mutex; after the removal a third one gets a new mutex for the same key, and both hold
  the key for writing at the same time.
\<close>

theorem same_key_held_twice:
  "\<exists>m. reach kmOp (initKeyed [(key, True), (key, True), (key, True)]) m \<and>
     (\<exists>j k. km_pc m ! 1 = Holding j True \<and> km_pc m ! 2 = Holding k True \<and> j \<noteq> k \<and>
       ki_key (km_instances m ! j) = key \<and> ki_key (km_instances m ! k) = key)"
proof -
  obtain m where m: "runOps kmOp [Lookup 0, Enter 0, Acquire 0, Release 0, Decrement 0, Lookup 1, Count 1, Acquire 1, Clean 0,
      Lookup 2, Enter 2, Acquire 2] (initKeyed [(key, True), (key, True), (key, True)]) = Some m"
    "km_pc m ! 1 = Holding 0 True" "km_pc m ! 2 = Holding 1 True"
    "ki_key (km_instances m ! 0) = key" "ki_key (km_instances m ! 1) = key"
    by (simp add: km_eval)
  have "reach kmOp (initKeyed [(key, True), (key, True), (key, True)]) m" by (rule reach_runOps[OF reach_init m(1)])
  then show ?thesis using m(2-5) by (intro exI[of _ m]) (auto intro!: exI[of _ 0] exI[of _ 1])
qed

lemma instance_exclusion_and_no_leak_witness:
  "\<exists>m. reach kmOp (initKeyed [(7 :: nat, True), (7, False)]) m \<and> km_pc m = [Done, Done] \<and> map_of (km_map m) 7 = None"
proof -
  obtain m where m: "runOps kmOp [Lookup 0, Enter 0, Acquire 0, Lookup 1, Count 1, Release 0, Decrement 0, Acquire 1, Release 1,
      Decrement 1, Clean 1] (initKeyed [(7 :: nat, True), (7, False)]) = Some m" "km_pc m = [Done, Done]"
    by (simp add: km_eval)
  have r: "reach kmOp (initKeyed [(7 :: nat, True), (7, False)]) m" by (rule reach_runOps[OF reach_init m(1)])
  show ?thesis using r m(2) instance_exclusion_and_no_leak[OF _ r] by (intro exI[of _ m]) simp
qed

end
