(* ===== verification/SharedProvider.thy ===== *)
theory SharedProvider
  imports StepSystem
begin

section \<open>Sharing one user repository (pkg/user/repository.go)\<close>

text \<open>
  \<^verbatim>\<open>SharedRepositoryProvider\<close> hands out one repository to many users: the first \<^verbatim>\<open>Create\<close> initializes it, the last
  \<^verbatim>\<open>Close\<close> closes it. \<open>sp_shares\<close> are the handed out \<^verbatim>\<open>sharedRepository\<close> values with their \<^verbatim>\<open>closed\<close>
  flags, \<open>sp_live\<close> whether \<^verbatim>\<open>Init\<close> of the repository succeeded since its last \<^verbatim>\<open>Close\<close>. Whether the repository's own
  \<^verbatim>\<open>Init\<close> and \<^verbatim>\<open>Close\<close> succeed is an argument of the operations. The mutex makes each of them one step.
  The first result tells whether the call returned without an error. The counter has 16 bits.
\<close>

record shared_provider =
  sp_usages :: "16 word"
  sp_shares :: "bool list"
  sp_live :: bool
  sp_panicked :: bool

datatype sp_op = Create bool | CloseShare nat bool

definition shared_Create :: "bool \<Rightarrow> shared_provider \<Rightarrow> bool \<times> shared_provider" where
  "shared_Create initOk s =
     (if sp_usages s = 0 \<and> \<not> initOk then (False, s)
      else (True, s\<lparr>sp_live := (if sp_usages s = 0 then True else sp_live s), sp_usages := sp_usages s + 1,
                    sp_shares := sp_shares s @ [False]\<rparr>))"

definition shared_Close :: "nat \<Rightarrow> bool \<Rightarrow> shared_provider \<Rightarrow> bool \<times> shared_provider" where
  "shared_Close h closeOk s =
     (if sp_shares s ! h then (True, s)
      else let u = sp_usages s - 1; s' = s\<lparr>sp_shares := (sp_shares s)[h := True], sp_usages := u\<rparr> in
        if sint u < 0 then (False, s'\<lparr>sp_panicked := True\<rparr>)
        else if u = 0 then (closeOk, s'\<lparr>sp_live := False\<rparr>)
        else (True, s'))"

fun spOp :: "sp_op \<Rightarrow> shared_provider \<Rightarrow> shared_provider option" where
  "spOp (Create ok) s = Some (snd (shared_Create ok s))"
| "spOp (CloseShare h ok) s = (if h < length (sp_shares s) then Some (snd (shared_Close h ok s)) else None)"

definition initShared :: shared_provider where
  "initShared = \<lparr>sp_usages = 0, sp_shares = [], sp_live = False, sp_panicked = False\<rparr>"

definition openShares :: "shared_provider \<Rightarrow> nat" where
  "openShares s = count Not (sp_shares s)"

definition shared_inv :: "shared_provider \<Rightarrow> bool" where
  "shared_inv s \<longleftrightarrow> sp_usages s = word_of_nat (openShares s) \<and>
     (length (sp_shares s) < 2 ^ 15 \<longrightarrow> \<not> sp_panicked s \<and> (sp_live s \<longleftrightarrow> openShares s > 0))"

lemma count_append: "count P (xs @ ys) = count P xs + count P ys"
  by (simp add: count_def)

lemma small_word: "n < 2 ^ 15 \<Longrightarrow> (word_of_nat n :: 16 word) = 0 \<longleftrightarrow> n = 0"
  using dvd_imp_le[of "65536" n] by (auto simp: word_of_nat_eq_0_iff)

lemma openShares_le: "openShares s \<le> length (sp_shares s)"
  by (simp add: openShares_def count_def)

lemma shared_Create_inv: "shared_inv s \<Longrightarrow> shared_inv (snd (shared_Create ok s))"
  using small_word[of "openShares s"] openShares_le[of s]
  by (auto simp: shared_inv_def shared_Create_def openShares_def count_append) (auto simp: count_def)

lemma shared_Close_inv:
  assumes "shared_inv s" "h < length (sp_shares s)"
  shows "shared_inv (snd (shared_Close h ok s))"
proof (cases "sp_shares s ! h")
  case True
  then show ?thesis using assms(1) by (simp add: shared_Close_def)
next
  case False
  let ?n = "openShares s"
  have pos: "0 < ?n" using count_pos_nth[OF assms(2), of Not] False by (simp add: openShares_def)
  have open': "count Not ((sp_shares s)[h := True]) = ?n - 1"
    using count_update[OF assms(2), of Not True] False pos by (simp add: openShares_def)
  define v :: "16 word" where "v = word_of_nat (?n - 1)"
  have u: "sp_usages s - 1 = v"
    using assms(1) pos by (simp add: shared_inv_def of_nat_diff v_def)
  have small: "0 \<le> sint v \<and> (v = 0 \<longleftrightarrow> ?n - 1 = 0)" if "length (sp_shares s) < 2 ^ 15"
  proof -
    have "int (?n - 1) < 2 ^ 15" "?n - 1 < 2 ^ 15" using that openShares_le[of s] by simp_all
    then show ?thesis using small_word[of "?n - 1"] unfolding v_def by (simp add: signed_of_nat signed_take_bit_int_eq_self)
  qed
  have "sp_usages (snd (shared_Close h ok s)) = v" "sp_shares (snd (shared_Close h ok s)) = (sp_shares s)[h := True]"
    "sp_panicked (snd (shared_Close h ok s)) \<longleftrightarrow> sp_panicked s \<or> sint v < 0"
    "0 \<le> sint v \<Longrightarrow> sp_live (snd (shared_Close h ok s)) \<longleftrightarrow> sp_live s \<and> v \<noteq> 0"
    using False by (auto simp: shared_Close_def Let_def u)
  then show ?thesis using assms(1) small open' pos unfolding shared_inv_def openShares_def v_def[symmetric, unfolded openShares_def]
    by (auto simp: v_def openShares_def)
qed

interpretation shared_steps: safe_system spOp "\<lambda>s. s = initShared" shared_inv
proof unfold_locales
  fix x s s' assume "shared_inv s" "spOp x s = Some s'"
  then show "shared_inv s'" by (cases x) (auto intro: shared_Create_inv shared_Close_inv split: if_splits)
qed (simp add: shared_inv_def initShared_def openShares_def count_def)

text \<open>
  C16: As long as fewer than \<open>2 ^ 15\<close> shares were handed out, the repository is initialized exactly while a
  share is open, whatever fails and however often a share is closed, and the provider does not panic. The counter
  is the number of open shares modulo \<open>2 ^ 16\<close>.
\<close>

theorem shared_live_iff_open:
  assumes "reach spOp initShared s"
  shows "sp_usages s = word_of_nat (length (filter Not (sp_shares s))) \<and>
    (length (sp_shares s) < 2 ^ 15 \<longrightarrow> \<not> sp_panicked s \<and> (sp_live s \<longleftrightarrow> False \<in> set (sp_shares s)))"
proof -
  have "shared_inv s" using shared_steps.safe_reach[OF _ assms] by blast
  moreover have "0 < openShares s \<longleftrightarrow> False \<in> set (sp_shares s)"
    using count_none[of Not "sp_shares s"] by (auto simp: openShares_def)
  ultimately show ?thesis by (simp add: shared_inv_def openShares_def count_def)
qed

lemma shared_live_iff_open_witness:
  "\<exists>s. reach spOp initShared s \<and> sp_shares s = [True, False] \<and> sp_live s \<and> sp_usages s = 1"
proof -
  obtain s where s: "runOps spOp [Create False, Create True, Create True, CloseShare 0 True, CloseShare 0 True] initShared = Some s"
    "sp_shares s = [True, False]" by (simp add: initShared_def shared_Create_def shared_Close_def)
  have r: "reach spOp initShared s" by (rule reach_runOps[OF reach_init s(1)])
  then show ?thesis using s(2) shared_live_iff_open[OF r] by (intro exI[of _ s]) simp
qed

text \<open>
  The counter wraps. After \<open>2 ^ 16\<close> shares were handed out without a close, it is 0 again: the next
  \<^verbatim>\<open>Create\<close> initializes the repository that is in use, and if that fails refuses the share.
\<close>

theorem shared_counter_wraps:
  "\<exists>s. reach spOp initShared s \<and> sp_usages s = 0 \<and> length (filter Not (sp_shares s)) = 2 ^ 16 \<and> shared_Create False s = (False, s)"
proof -
  have "\<exists>s. reach spOp initShared s \<and> sp_usages s = word_of_nat n \<and> sp_shares s = replicate n False" for n
  proof (induction n)
    case 0
    then show ?case by (intro exI[of _ initShared]) (auto simp: initShared_def intro: reach_init)
  next
    case (Suc n)
    then obtain s where s: "reach spOp initShared s" "sp_usages s = word_of_nat n" "sp_shares s = replicate n False" by blast
    have "reach spOp initShared (snd (shared_Create True s))" by (rule reach_step[OF s(1), of "Create True"]) simp
    moreover have "sp_usages (snd (shared_Create True s)) = word_of_nat (Suc n)" "sp_shares (snd (shared_Create True s)) = replicate (Suc n) False"
      using s by (simp_all add: shared_Create_def replicate_append_same)
    ultimately show ?case by blast
  qed
  from this[of "2 ^ 16"] obtain s where s: "reach spOp initShared s" "sp_usages s = word_of_nat (2 ^ 16)" "sp_shares s = replicate (2 ^ 16) False"
    by blast
  then have "sp_usages s = 0" by simp
  then show ?thesis using s(1,3) by (intro exI[of _ s]) (simp add: shared_Create_def)
qed

end
