(* ===== verification/ServiceConns.thy ===== *)
theory ServiceConns
  imports SessionConns
begin

section \<open>The connections of the service (pkg/service/connection.go)\<close>

text \<open>
  The service limits all its connections by one atomic counter, \<open>sc_active\<close>. \<^verbatim>\<open>newConnection\<close> counts with a
  compare-and-swap loop, each load and each swap is a step of its goroutine. On every read and write a
  connection asks its session's interceptor, whose answer is the argument of \<open>onAction\<close>, and sets its
  deadline. Times of a connection are in milliseconds, deadlines and \<open>now\<close> in nanoseconds.
\<close>

subsection \<open>Counting connections\<close>

text \<open>
  A goroutine is before the load, has loaded a value, has a connection, was refused because of the limit, got
  an error of \<^verbatim>\<open>NewId\<close> after it was counted, is closed, or panicked in \<^verbatim>\<open>Close\<close>.
\<close>

datatype spc = SNew | SLoaded int | SCounted | SOpen | SRefused | SFailed | SClosed | SPanicked

record service =
  sc_max :: int
  sc_active :: int
  sc_pc :: "spc list"

definition scLoad :: "nat \<Rightarrow> service \<Rightarrow> service option" where
  "scLoad t s =
     (if t < length (sc_pc s) \<and> sc_pc s ! t = SNew then
        (let current = sc_active s in
         Some (s\<lparr>sc_pc := (sc_pc s)[t := if current \<ge> sc_max s then SRefused else SLoaded current]\<rparr>))
      else None)"

definition scSwap :: "nat \<Rightarrow> service \<Rightarrow> service option" where
  "scSwap t s =
     (if t < length (sc_pc s) then
        (case sc_pc s ! t of
           SLoaded current \<Rightarrow>
             if sc_active s = current then Some (s\<lparr>sc_active := current + 1, sc_pc := (sc_pc s)[t := SCounted]\<rparr>)
             else Some (s\<lparr>sc_pc := (sc_pc s)[t := SNew]\<rparr>)
         | _ \<Rightarrow> None)
      else None)"

text \<open>The rest of \<^verbatim>\<open>newConnection\<close>: whether \<^verbatim>\<open>NewId\<close> succeeds is an argument.\<close>

definition scFinish :: "nat \<Rightarrow> bool \<Rightarrow> service \<Rightarrow> service option" where
  "scFinish t idOk s =
     (if t < length (sc_pc s) \<and> sc_pc s ! t = SCounted
      then Some (s\<lparr>sc_pc := (sc_pc s)[t := if idOk then SOpen else SFailed]\<rparr>) else None)"

definition scClose :: "nat \<Rightarrow> service \<Rightarrow> service option" where
  "scClose t s =
     (if t < length (sc_pc s) \<and> sc_pc s ! t = SOpen then
        (let v = sc_active s - 1 in
         Some (s\<lparr>sc_active := v, sc_pc := (sc_pc s)[t := if v < 0 then SPanicked else SClosed]\<rparr>))
      else None)"

datatype sc_op = ScLoad nat | ScSwap nat | ScFinish nat bool | ScClose nat

fun scOp :: "sc_op \<Rightarrow> service \<Rightarrow> service option" where
  "scOp (ScLoad t) s = scLoad t s"
| "scOp (ScSwap t) s = scSwap t s"
| "scOp (ScFinish t ok) s = scFinish t ok s"
| "scOp (ScClose t) s = scClose t s"

definition initService :: "int \<Rightarrow> nat \<Rightarrow> service" where
  "initService mx n = \<lparr>sc_max = mx, sc_active = 0, sc_pc = replicate n SNew\<rparr>"

definition sCounted :: "spc \<Rightarrow> bool" where
  "sCounted p \<longleftrightarrow> p = SCounted \<or> p = SOpen \<or> p = SFailed"

definition service_inv :: "service \<Rightarrow> bool" where
  "service_inv s \<longleftrightarrow> sc_active s = int (count sCounted (sc_pc s)) \<and> sc_active s \<le> max 0 (sc_max s) \<and>
     (\<forall>n. SLoaded n \<in> set (sc_pc s) \<longrightarrow> n < sc_max s) \<and> SPanicked \<notin> set (sc_pc s)"

lemma scOp_inv:
  assumes "service_inv s" "scOp x s = Some s'"
  shows "service_inv s'"
proof -
  have pos: "0 < sc_active s" if "t < length (sc_pc s)" "sc_pc s ! t = SOpen" for t
    using assms(1) count_pos_nth[OF that(1), of sCounted] that(2) by (simp add: service_inv_def sCounted_def)
  have ld: "n < sc_max s" if "t < length (sc_pc s)" "sc_pc s ! t = SLoaded n" for t n
    using assms(1) nth_mem[OF that(1)] that(2) by (auto simp: service_inv_def)
  show ?thesis
    using assms pos ld
    by (cases x)
      (auto simp: scLoad_def scSwap_def scFinish_def scClose_def Let_def service_inv_def sCounted_def count_update
        max_def dest!: set_updateD dest: ld split: if_splits spc.splits)
qed

interpretation service_steps: safe_system scOp "\<lambda>s. \<exists>mx n. s = initService mx n" service_inv
proof unfold_locales
  fix s assume "\<exists>mx n. s = initService mx n"
  then show "service_inv s" by (auto simp: service_inv_def initService_def count_def sCounted_def)
qed (rule scOp_inv)

text \<open>
  C15: However the goroutines interleave, never more connections are counted than the limit allows, and \<^verbatim>\<open>Close\<close>
  never panics. The counter is the number of open connections plus the connections whose id could not be
  made, which stay counted for ever.
\<close>

theorem service_connection_limit:
  assumes "reach scOp (initService mx n) s" "0 \<le> mx"
  shows "sc_active s \<le> mx \<and> SPanicked \<notin> set (sc_pc s) \<and>
    sc_active s = int (length (filter (\<lambda>p. p = SCounted \<or> p = SOpen) (sc_pc s)) + length (filter (\<lambda>p. p = SFailed) (sc_pc s)))"
proof -
  have inv: "service_inv s" using service_steps.safe_reach[OF _ assms(1)] by blast
  have "sc_max s = mx"
    using assms(1)
  proof induction
    case (reach_step c x c')
    then show ?case by (cases x) (auto simp: scLoad_def scSwap_def scFinish_def scClose_def Let_def split: if_splits spc.splits)
  qed (simp add: initService_def)
  moreover have "count sCounted ps = length (filter (\<lambda>p. p = SCounted \<or> p = SOpen) ps) + length (filter (\<lambda>p. p = SFailed) ps)" for ps
    by (induction ps) (auto simp: count_def sCounted_def)
  ultimately show ?thesis using inv assms(2) by (simp add: service_inv_def)
qed

lemma service_connection_limit_witness:
  "\<exists>s. reach scOp (initService 1 3) s \<and> sc_pc s = [SFailed, SRefused, SNew] \<and> sc_active s = 1"
proof -
  obtain s where s: "runOps scOp [ScLoad 0, ScSwap 0, ScFinish 0 False, ScLoad 1] (initService 1 3) = Some s"
    "sc_pc s = [SFailed, SRefused, SNew]"
    by (simp add: initService_def scLoad_def scSwap_def scFinish_def Let_def numeral_3_eq_3)
  have r: "reach scOp (initService 1 3) s" by (rule reach_runOps[OF reach_init s(1)])
  then show ?thesis using s(2) service_connection_limit[OF r] by (intro exI[of _ s]) simp
qed

subsection \<open>An action on a connection\<close>

datatype time_type = TNone | TSessionIdle | TSessionMax | TSessionDisposed | TConnectionIdle | TConnectionMax

fun timeTypeOf :: "conn_result \<Rightarrow> time_type" where
  "timeTypeOf ResultNone = TNone"
| "timeTypeOf ResultIdle = TSessionIdle"
| "timeTypeOf ResultMax = TSessionMax"
| "timeTypeOf ResultDisposed = TSessionDisposed"

record connection =
  cn_created :: int
  cn_lastActivity :: int
  cn_lastTimeType :: time_type

datatype action_result = ForceClosed time_type | Proceed "int option"

text \<open>The earlier one of two deadlines, the zero time meaning none.\<close>

definition sooner :: "int option \<times> time_type \<Rightarrow> int \<Rightarrow> time_type \<Rightarrow> int option \<times> time_type" where
  "sooner d at t =
     (case fst d of None \<Rightarrow> (Some at, t) | Some v \<Rightarrow> if v > at then (Some at, t) else d)"

text \<open>
  \<^verbatim>\<open>doWithInterceptorOnAction\<close> after the interceptor answered \<open>(ad, atype)\<close>; without an interceptor it is
  \<open>(None, ResultNone)\<close>. \<open>idle\<close> and \<open>maxT\<close> are the timeouts of the ssh configuration.
\<close>

definition onAction :: "int \<Rightarrow> int \<Rightarrow> int \<Rightarrow> int option \<times> conn_result \<Rightarrow> connection \<Rightarrow> action_result \<times> connection" where
  "onAction idle maxT now answer c =
     (let d0 = (fst answer, timeTypeOf (snd answer)) in
      if snd d0 = TSessionDisposed then (ForceClosed TSessionDisposed, c)
      else
        let d1 = (if idle \<noteq> 0 then sooner d0 ((cn_lastActivity c + milliseconds idle) * 1000000) TConnectionIdle else d0);
            d2 = (if maxT \<noteq> 0 then sooner d1 ((cn_created c + milliseconds maxT) * 1000000) TConnectionMax else d1)
        in if (case fst d2 of None \<Rightarrow> False | Some v \<Rightarrow> now > v) then (ForceClosed (snd d2), c)
           else (Proceed (fst d2), c\<lparr>cn_lastTimeType := snd d2, cn_lastActivity := now div 1000000\<rparr>))"

text \<open>All deadlines that are configured.\<close>

definition deadlines :: "int \<Rightarrow> int \<Rightarrow> int option \<Rightarrow> connection \<Rightarrow> int list" where
  "deadlines idle maxT ad c =
     (case ad of None \<Rightarrow> [] | Some v \<Rightarrow> [v]) @
     (if idle \<noteq> 0 then [(cn_lastActivity c + milliseconds idle) * 1000000] else []) @
     (if maxT \<noteq> 0 then [(cn_created c + milliseconds maxT) * 1000000] else [])"

lemma sooner_fst: "fst (sooner d at t) = Some (case fst d of None \<Rightarrow> at | Some v \<Rightarrow> min v at)"
  by (auto simp: sooner_def split: option.splits)

text \<open>
  An action goes ahead exactly when the session is not disposed and no configured deadline has passed:
  of the session's interceptor, of the connection's own inactivity and of its age. It then sets the earliest of them as the
  connection's deadline and records the activity; otherwise the connection is closed and its record
  is unchanged.
\<close>

theorem action_goes_ahead_iff:
  fixes c :: connection
  assumes "ds = deadlines idle maxT ad c"
  shows "if r = ResultDisposed then onAction idle maxT now (ad, r) c = (ForceClosed TSessionDisposed, c)
    else if \<exists>v \<in> set ds. now > v then (\<exists>t. onAction idle maxT now (ad, r) c = (ForceClosed t, c))
    else \<exists>t. onAction idle maxT now (ad, r) c =
      (Proceed (if ds = [] then None else Some (Min (set ds))), c\<lparr>cn_lastTimeType := t, cn_lastActivity := now div 1000000\<rparr>)"
proof -
  let ?i = "(cn_lastActivity c + milliseconds idle) * 1000000" and ?m = "(cn_created c + milliseconds maxT) * 1000000"
  define d1 where "d1 = (if idle \<noteq> 0 then sooner (ad, timeTypeOf r) ?i TConnectionIdle else (ad, timeTypeOf r))"
  define d2 where "d2 = (if maxT \<noteq> 0 then sooner d1 ?m TConnectionMax else d1)"
  have f: "fst d2 = (if ds = [] then None else Some (Min (set ds)))"
    unfolding assms d2_def d1_def deadlines_def
    by (cases ad) (auto simp: sooner_fst min_def split: option.splits)
  have late: "(case fst d2 of None \<Rightarrow> False | Some v \<Rightarrow> now > v) \<longleftrightarrow> (\<exists>v \<in> set ds. now > v)"
    unfolding f by (auto simp: Min_less_iff)
  have "timeTypeOf r = TSessionDisposed \<longleftrightarrow> r = ResultDisposed" by (cases r) auto
  then show ?thesis using late f
    by (auto simp: onAction_def Let_def d1_def[symmetric] d2_def[symmetric])
qed

lemma action_goes_ahead_iff_witness:
  "\<exists>t. onAction 10000000 0 5000000 (Some 9000000, ResultIdle) \<lparr>cn_created = 0, cn_lastActivity = 1, cn_lastTimeType = TNone\<rparr> =
     (Proceed (Some 9000000), \<lparr>cn_created = 0, cn_lastActivity = 5, cn_lastTimeType = t\<rparr>)"
  using action_goes_ahead_iff[of _ 10000000 0 "Some 9000000" "\<lparr>cn_created = 0, cn_lastActivity = 1, cn_lastTimeType = TNone\<rparr>" ResultIdle 5000000]
  by (auto simp: deadlines_def milliseconds_def)

text \<open>
  The inactivity deadline of an action is counted from the action before it. A read that starts
  \<open>gap\<close> milliseconds after the previous action gets a deadline that lies only the rest of the idle timeout
  ahead, so a connection is closed for inactivity although it was active less than the timeout ago.
\<close>

theorem idle_deadline_from_previous_action:
  fixes c :: connection
  assumes "0 < idle" "idle mod 1000000 = 0" "0 \<le> gap" "gap * 1000000 \<le> idle" "now mod 1000000 = 0"
    and "now = (cn_lastActivity c + gap) * 1000000"
  shows "\<exists>c'. onAction idle 0 now (None, ResultNone) c = (Proceed (Some (now + idle - gap * 1000000)), c') \<and>
    cn_lastActivity c' * 1000000 = now"
proof -
  have ms: "milliseconds idle * 1000000 = idle"
    using assms(1,2) by (simp add: milliseconds_def dvd_div_mult_self mod_eq_0_iff_dvd)
  have e: "(cn_lastActivity c + milliseconds idle) * 1000000 = now + idle - gap * 1000000"
    using ms assms(6) by (simp add: algebra_simps)
  have "now div 1000000 * 1000000 = now" using assms(5) by auto
  then show ?thesis using assms(1,4) e
    by (auto simp: onAction_def Let_def sooner_def)
qed

lemma idle_deadline_from_previous_action_witness:
  "\<exists>c'. onAction 10000000 0 9000000 (None, ResultNone) \<lparr>cn_created = 0, cn_lastActivity = 0, cn_lastTimeType = TNone\<rparr> =
     (Proceed (Some 10000000), c')"
proof -
  have "\<exists>c'. onAction 10000000 0 9000000 (None, ResultNone) \<lparr>cn_created = 0, cn_lastActivity = 0, cn_lastTimeType = TNone\<rparr> =
     (Proceed (Some (9000000 + 10000000 - 9 * 1000000)), c') \<and> cn_lastActivity c' * 1000000 = 9000000"
    by (rule idle_deadline_from_previous_action) simp_all
  then show ?thesis by auto
qed

end
