(* ===== verification/Housekeeper.thy ===== *)
theory Housekeeper
  imports SessionLife
begin

section \<open>Housekeeping (pkg/service/housekeeper.go)\<close>

text \<open>
  The housekeeper inspects every stored session: an expired one is disposed with its environment and its
  authorization, and deleted once it has been expired for long enough. The environments and the
  authorizer are the interfaces \<^verbatim>\<open>environment.Repository\<close> and \<^verbatim>\<open>authorization.Authorizer\<close>; their operations are
  the parameter \<open>others\<close>, with \<open>None\<close> for \<^verbatim>\<open>ErrNoSuchEnvironment\<close> and \<^verbatim>\<open>ErrNoSuchAuthorization\<close>. The timer
  and the logging are left out.
\<close>

record ('e, 'a) others =
  o_findEnvironment :: "fs_session \<Rightarrow> 'e option fm"
  o_disposeEnvironment :: "'e \<Rightarrow> bool fm"
  o_closeEnvironment :: "'e \<Rightarrow> unit fm"
  o_restoreAuthorization :: "fs_session \<Rightarrow> 'a option fm"
  o_disposeAuthorization :: "'a \<Rightarrow> bool fm"
  o_cleanupEnvironments :: "(bytes \<Rightarrow> bool) \<Rightarrow> (bytes \<Rightarrow> sid \<Rightarrow> bool fm) \<Rightarrow> unit fm"

record hk_conf =
  hk_KeepExpiredFor :: int
  hk_AutoRepair :: bool
  hk_Every :: int

definition disposeEnvironment :: "('e, 'a) others \<Rightarrow> fs_session \<Rightarrow> bool fm" where
  "disposeEnvironment others sess =
     bindE (o_findEnvironment others sess) (\<lambda>env.
     case env of
       None \<Rightarrow> returnE False
     | Some e \<Rightarrow> deferE (o_disposeEnvironment others e) (o_closeEnvironment others e))"

text \<open>An error of the authorization is reported only.\<close>

definition disposeAuthorization :: "('e, 'a) others \<Rightarrow> fs_session \<Rightarrow> bool fm" where
  "disposeAuthorization others sess =
     bindE (tryE (o_restoreAuthorization others sess)) (\<lambda>auth :: sess_err + 'a option.
     case auth of
       Inl _ \<Rightarrow> returnE False
     | Inr None \<Rightarrow> returnE False
     | Inr (Some a) \<Rightarrow>
         bindE (tryE (o_disposeAuthorization others a)) (\<lambda>disposed :: sess_err + bool.
         case disposed of Inl _ \<Rightarrow> returnE False | Inr b \<Rightarrow> returnE b))"

definition hk_dispose :: "'k deps \<Rightarrow> ('e, 'a) others \<Rightarrow> fs_session \<Rightarrow> bool fm" where
  "hk_dispose d others sess =
     mapErrE SErrCannotDispose
       (bindE (disposeEnvironment others sess) (\<lambda>environmentDisposed.
        bindE (disposeAuthorization others sess) (\<lambda>authorizationDisposed.
        bindE (fs_Dispose d sess) (\<lambda>sessionDisposed.
        returnE (environmentDisposed \<or> authorizationDisposed \<or> sessionDisposed)))))"

text \<open>\<^verbatim>\<open>inspectSession\<close>: each error is reported, and the inspection goes on with the next session.\<close>

definition inspectBody :: "'k deps \<Rightarrow> ('e, 'a) others \<Rightarrow> hk_conf \<Rightarrow> fs_session \<Rightarrow> unit fm" where
  "inspectBody d others conf sess =
     bindE (isExpiredWithThreshold d (hk_KeepExpiredFor conf) sess) (\<lambda>shouldBeDeleted.
     if shouldBeDeleted then
       bindE (hk_dispose d others sess) (\<lambda>_. DeleteBy d (ss_flow sess) (ss_id sess))
     else
       bindE (IsExpired d sess) (\<lambda>expired.
       if expired then bindE (hk_dispose d others sess) (\<lambda>_. returnE ()) else returnE ()))"

definition inspectSession :: "'k deps \<Rightarrow> ('e, 'a) others \<Rightarrow> hk_conf \<Rightarrow> fs_session \<Rightarrow> bool fm" where
  "inspectSession d others conf sess =
     bindE (tryE (inspectBody d others conf sess)) (\<lambda>_ :: sess_err + unit. returnE True)"

definition inspectSessions :: "'k deps \<Rightarrow> ('e, 'a) others \<Rightarrow> hk_conf \<Rightarrow> unit fm" where
  "inspectSessions d others conf =
     FindAll d (inspectSession d others conf)
       (Some \<lparr>fo_Predicates = [], fo_AutoCleanUpAllowed = Some (hk_AutoRepair conf)\<rparr>)"

definition doesSessionExist :: "'k deps \<Rightarrow> bytes \<Rightarrow> sid \<Rightarrow> bool fm" where
  "doesSessionExist d flow i =
     bindE (tryE (FindBy d flow i (Some \<lparr>fo_Predicates = [], fo_AutoCleanUpAllowed = Some True\<rparr>))) (\<lambda>r.
     case r of
       Inl e \<Rightarrow> if isNoSuchSession e then returnE False else throwE e
     | Inr _ \<Rightarrow> returnE True)"

definition hk_cleanup :: "'k deps \<Rightarrow> ('e, 'a) others \<Rightarrow> bytes list \<Rightarrow> unit fm" where
  "hk_cleanup d others knownFlows =
     o_cleanupEnvironments others (\<lambda>name. name \<in> set knownFlows) (doesSessionExist d)"

definition hk_run :: "'k deps \<Rightarrow> ('e, 'a) others \<Rightarrow> hk_conf \<Rightarrow> bytes list \<Rightarrow> unit fm" where
  "hk_run d others conf knownFlows =
     bindE (inspectSessions d others conf) (\<lambda>_. hk_cleanup d others knownFlows)"

subsection \<open>Properties\<close>

text \<open>
  Inspecting a session never stops the inspection of the others: whatever fails, it returns no error and
  asks to continue. When the environment of a session that is due cannot be disposed, the inspection
  ends there: authorization and session are not touched, so that the next run finds the session again.
\<close>

theorem inspection_continues:
  "fst (inspectSession d others conf sess s) = Inr True \<and>
   (\<forall>e u v. isExpiredWithThreshold d (hk_KeepExpiredFor conf) sess s = (Inr True, u) \<longrightarrow>
      disposeEnvironment others sess u = (Inl e, v) \<longrightarrow> inspectSession d others conf sess s = (Inr True, v))"
  by (auto simp: inspectSession_def inspectBody_def hk_dispose_def bindE_def tryE_def returnE_def mapErrE_def)

lemma inspection_continues_witness:
  "\<exists>others :: (unit, unit) others. fst (inspectSession exDeps others \<lparr>hk_KeepExpiredFor = 0, hk_AutoRepair = False, hk_Every = 1\<rparr>
     (exSession\<lparr>ss_state := StateDisposed\<rparr>) exLive) = Inr True \<and>
   inspectSession exDeps others \<lparr>hk_KeepExpiredFor = 0, hk_AutoRepair = False, hk_Every = 1\<rparr> (exSession\<lparr>ss_state := StateDisposed\<rparr>) exLive =
     (Inr True, exLive)"
proof -
  define others :: "(unit, unit) others" where "others =
    \<lparr>o_findEnvironment = (\<lambda>_. throwE SErrUuid), o_disposeEnvironment = (\<lambda>_. returnE True), o_closeEnvironment = (\<lambda>_. returnE ()),
     o_restoreAuthorization = (\<lambda>_. returnE None), o_disposeAuthorization = (\<lambda>_. returnE True), o_cleanupEnvironments = (\<lambda>_ _. returnE ())\<rparr>"
  let ?conf = "\<lparr>hk_KeepExpiredFor = 0, hk_AutoRepair = False, hk_Every = 1\<rparr>" and ?sess = "exSession\<lparr>ss_state := StateDisposed\<rparr>"
  have "isExpiredWithThreshold exDeps (hk_KeepExpiredFor ?conf) ?sess exLive = (Inr True, exLive)"
    by (simp add: isExpiredWithThreshold_def returnE_def)
  moreover have "disposeEnvironment others ?sess exLive = (Inl SErrUuid, exLive)"
    by (simp add: disposeEnvironment_def others_def throwE_def)
  ultimately show ?thesis
    using inspection_continues[of exDeps others ?conf ?sess exLive] by (intro exI[of _ others]) blast
qed

lemma disposeStack_writable: "disposeStack flow i s = (r, t) \<Longrightarrow> writable d st f k kind t = writable d st f k kind s"
  by (simp add: writable_def disposeStack_frame)

text \<open>
  What the environments and the authorizer do when a session is disposed may be anything that does not fail and that
  leaves the session's own file: they find an environment and dispose it or find none, they restore an authorization and dispose
  it, which may clear the token, or restore none.
\<close>

definition keepsSession :: "'k deps \<Rightarrow> bytes list \<Rightarrow> bytes \<Rightarrow> sid \<Rightarrow> bool fm \<Rightarrow> bool" where
  "keepsSession d st flow i m \<longleftrightarrow>
     (\<forall>s. writable d st flow i FsFileSession s \<longrightarrow>
        (\<exists>b t. m s = (Inr b, t) \<and> writable d st flow i FsFileSession t \<and> storedSession d flow i t = storedSession d flow i s))"

definition othersDispose :: "'k deps \<Rightarrow> bytes list \<Rightarrow> bytes \<Rightarrow> sid \<Rightarrow> ('e, 'a) others \<Rightarrow> bool" where
  "othersDispose d st flow i others \<longleftrightarrow>
     (\<forall>sess. ss_flow sess = flow \<longrightarrow> ss_id sess = i \<longrightarrow>
        keepsSession d st flow i (disposeEnvironment others sess) \<and> keepsSession d st flow i (disposeAuthorization others sess))"

lemma hk_dispose_others:
  assumes "othersDispose d st (ss_flow sess) (ss_id sess) others" "writable d st (ss_flow sess) (ss_id sess) FsFileSession s"
  shows "\<exists>b s'. writable d st (ss_flow sess) (ss_id sess) FsFileSession s' \<and>
    storedSession d (ss_flow sess) (ss_id sess) s' = storedSession d (ss_flow sess) (ss_id sess) s \<and>
    (\<forall>c t. disposeBy d (ss_flow sess) (ss_id sess) s' = (Inr c, t) \<longrightarrow> hk_dispose d others sess s = (Inr (b \<or> c), t))"
proof -
  obtain b1 s1 where e: "disposeEnvironment others sess s = (Inr b1, s1)" "writable d st (ss_flow sess) (ss_id sess) FsFileSession s1"
    "storedSession d (ss_flow sess) (ss_id sess) s1 = storedSession d (ss_flow sess) (ss_id sess) s"
    using assms unfolding othersDispose_def keepsSession_def by blast
  obtain b2 s2 where a: "disposeAuthorization others sess s1 = (Inr b2, s2)" "writable d st (ss_flow sess) (ss_id sess) FsFileSession s2"
    "storedSession d (ss_flow sess) (ss_id sess) s2 = storedSession d (ss_flow sess) (ss_id sess) s1"
    using assms(1) e(2) unfolding othersDispose_def keepsSession_def by blast
  have "hk_dispose d others sess s = (Inr ((b1 \<or> b2) \<or> c), t)" if "disposeBy d (ss_flow sess) (ss_id sess) s2 = (Inr c, t)" for c t
    using e(1) a(1) that by (simp add: hk_dispose_def fs_Dispose_def bindE_def returnE_def mapErrE_def)
  then show ?thesis using a(2,3) e(3) by metis
qed

lemma disposeBy_disposed:
  assumes "writable d st flow i FsFileSession s" "storedSession d flow i s = Inr sess" "ss_state sess = StateDisposed"
  shows "\<exists>t. disposeBy d flow i s = (Inr True, t) \<and> writable d st flow i FsFileSession t \<and> storedSession d flow i t = Inr sess"
proof -
  obtain r t where t: "disposeStack flow i s = (r, t)" by (cases "disposeStack flow i s")
  note f = disposeStack_frame[OF t]
  have "quiet s" by (rule writableD(1)[OF assms(1)])
  then have "disposeBy d flow i s = (Inr True, t)"
    using t f(1,3) assms(2,3) disposeStack_stored[OF t, of d flow i]
    by (cases r) (simp_all add: disposeBy_def bindE_def tryE_def findByPlain_quiet returnE_def)
  then show ?thesis using assms(1,2) disposeStack_stored[OF t, of d flow i] disposeStack_writable[OF t, of d st flow i] by simp
qed

text \<open>
  C21: The time to keep an expired session has no effect on the sessions the housekeeper disposed itself. A
  session that has expired, but not for as long as it should be kept, is disposed by one inspection, and the next
  inspection deletes it, whatever \<^verbatim>\<open>keepExpiredFor\<close> is, because a disposed session counts as expired for
  any threshold. The documentation says that \<^verbatim>\<open>keepExpiredFor\<close> is how long a disposed session is kept. The environment and
  the authorization of the session, if there are any, are disposed without failure (a failure ends the inspection before
  the session is touched).
\<close>

theorem next_run_deletes_disposed:
  assumes "othersDispose d st (ss_flow sess) (ss_id sess) others" "writable d st (ss_flow sess) (ss_id sess) FsFileSession s"
    and "storedSession d (ss_flow sess) (ss_id sess) s = Inr sess" "ss_state sess \<noteq> StateDisposed"
    and "isExpiredWithThreshold d (hk_KeepExpiredFor conf) sess s = (Inr False, s)" "IsExpired d sess s = (Inr True, s)"
  shows "\<exists>t u sess'. inspectSession d others conf sess s = (Inr True, t) \<and>
    FindBy d (ss_flow sess) (ss_id sess) None t = (Inr sess', t) \<and> ss_state sess' = StateDisposed \<and>
    inspectSession d others conf sess' t = (Inr True, u) \<and>
    FindBy d (ss_flow sess) (ss_id sess) None u = (Inl ErrNoSuchSession, u)"
proof -
  obtain b s1 where s1: "writable d st (ss_flow sess) (ss_id sess) FsFileSession s1" "storedSession d (ss_flow sess) (ss_id sess) s1 = Inr sess"
    "\<forall>c t. disposeBy d (ss_flow sess) (ss_id sess) s1 = (Inr c, t) \<longrightarrow> hk_dispose d others sess s = (Inr (b \<or> c), t)"
    using hk_dispose_others[OF assms(1,2)] assms(3) by auto
  let ?new = "sess\<lparr>ss_state := StateDisposed, ss_createdAt := w_now s1\<rparr>"
  obtain c t where t: "disposeBy d (ss_flow sess) (ss_id sess) s1 = (Inr c, t)"
    "storedSession d (ss_flow sess) (ss_id sess) t = Inr ?new" "writable d st (ss_flow sess) (ss_id sess) FsFileSession t"
    using disposeBy_live[OF s1(1,2) assms(4)] by blast
  have first: "inspectSession d others conf sess s = (Inr True, t)"
    using assms(5,6) s1(3) t(1) by (simp add: inspectSession_def inspectBody_def bindE_def tryE_def returnE_def)
  have "othersDispose d st (ss_flow ?new) (ss_id ?new) others" "writable d st (ss_flow ?new) (ss_id ?new) FsFileSession t"
    using assms(1) t(3) by simp_all
  then obtain b' t1 where t1: "writable d st (ss_flow sess) (ss_id sess) FsFileSession t1" "storedSession d (ss_flow sess) (ss_id sess) t1 = Inr ?new"
    "\<forall>c v. disposeBy d (ss_flow sess) (ss_id sess) t1 = (Inr c, v) \<longrightarrow> hk_dispose d others ?new t = (Inr (b' \<or> c), v)"
    using hk_dispose_others[of d st ?new others t] t(2) by auto
  obtain v where v: "disposeBy d (ss_flow sess) (ss_id sess) t1 = (Inr True, v)" "writable d st (ss_flow sess) (ss_id sess) FsFileSession v"
    "storedSession d (ss_flow sess) (ss_id sess) v = Inr ?new"
    using disposeBy_disposed[OF t1(1,2)] by auto
  obtain u where u: "DeleteBy d (ss_flow sess) (ss_id sess) v = (Inr (), u)"
    "FindBy d (ss_flow sess) (ss_id sess) None u = (Inl ErrNoSuchSession, u)"
    using deleteBy_removes[OF v(2)] v(3) by auto
  have "isExpiredWithThreshold d (hk_KeepExpiredFor conf) ?new t = (Inr True, t)"
    by (simp add: isExpiredWithThreshold_def returnE_def)
  then have "inspectSession d others conf ?new t = (Inr True, u)"
    using t1(3)[rule_format, OF v(1)] u(1) by (simp add: inspectSession_def inspectBody_def bindE_def tryE_def returnE_def)
  then show ?thesis using first u(2) FindBy_quiet[OF writableD(1)[OF t(3)], of d "ss_flow sess" "ss_id sess"] t(2)
    by (intro exI[of _ t] exI[of _ u] exI[of _ ?new]) simp
qed

definition exExpired :: fsrepo where
  "exExpired = exLive\<lparr>w_files :=
     (path_of [''s'', ''f'', ''U'', ''la''], (newFile 7 0)\<lparr>n_content := d_laEncode exDeps ([], [])\<rparr>) # w_files exLive\<rparr>"

lemma next_run_deletes_disposed_witness:
  "\<exists>(others :: (unit, unit) others) sess t u sess'. ss_state sess = StateNew \<and>
     inspectSession exDeps others \<lparr>hk_KeepExpiredFor = 1209600000000000, hk_AutoRepair = False, hk_Every = 1\<rparr> sess exExpired = (Inr True, t) \<and>
     inspectSession exDeps others \<lparr>hk_KeepExpiredFor = 1209600000000000, hk_AutoRepair = False, hk_Every = 1\<rparr> sess' t = (Inr True, u) \<and>
     FindBy exDeps ''f'' [] None u = (Inl ErrNoSuchSession, u)"
proof -
  define others :: "(unit, unit) others" where "others =
    \<lparr>o_findEnvironment = (\<lambda>_. returnE (Some ())), o_disposeEnvironment = (\<lambda>_. returnE True), o_closeEnvironment = (\<lambda>_. returnE ()),
     o_restoreAuthorization = (\<lambda>_. returnE (Some ())), o_disposeAuthorization = (\<lambda>_. returnE True), o_cleanupEnvironments = (\<lambda>_ _. returnE ())\<rparr>"
  have n: "othersDispose exDeps [''s''] flow i others" for flow i
    by (simp add: othersDispose_def keepsSession_def disposeEnvironment_def disposeAuthorization_def others_def bindE_def tryE_def
        returnE_def deferE_def) (auto intro: exI[of _ True])
  let ?conf = "\<lparr>hk_KeepExpiredFor = 1209600000000000, hk_AutoRepair = False, hk_Every = 1\<rparr>"
  define sess where "sess = \<lparr>ss_flow = ''f'', ss_id = [], ss_state = StateNew, ss_createdAt = 7, ss_remoteUser = [], ss_remoteHost = []\<rparr>"
  have fr: "quiet exExpired" "placed [''s''] ''f'' exExpired" "fileOf exDeps ''f'' [] k exExpired = fileOf exDeps ''f'' [] k exStore"
    "dirOf exDeps ''f'' [] exExpired = dirOf exDeps ''f'' [] exStore" for k
    using exStore_ready(1,2) by (simp_all add: exExpired_def exLive_def quiet_def placed_def fileOf_def dirOf_def)
  have g: "fs_get (w_files exExpired) (path_of [''s'', ''f'', ''U'', k]) =
     (if k = ''la'' then Some ((newFile 7 0)\<lparr>n_content := d_laEncode exDeps ([], [])\<rparr>)
      else if k = ''s'' then Some ((newFile 7 0)\<lparr>n_content := d_infoEncode exDeps (StateNew, [], [])\<rparr>) else None)" for k
    using exLive_get[of k] by (simp add: exExpired_def fs_get_def path_of_def)
  have w: "writable exDeps [''s''] (ss_flow sess) (ss_id sess) FsFileSession exExpired"
    unfolding writable_def by (simp add: sess_def fr exDeps_ok exStore_file g exStore_ancestors)
      (simp add: exExpired_def exLive_def fs_get_def path_of_def exStore_def exDir_def newDir_def newFile_def)
  have st: "storedSession exDeps (ss_flow sess) (ss_id sess) exExpired = Inr sess"
    by (simp add: storedSession_def sess_def fr(3) exStore_file g deps_ok_decode[OF exDeps_ok] validNames_def) (simp add: newFile_def)
  have la: "lastAccessed exDeps sess exExpired = (Inr (([], []), 7), exExpired)"
    by (simp add: lastAccessed_quiet[OF fr(1)] sess_def fr(3) exStore_file g deps_ok_decode[OF exDeps_ok] validNames_def Let_def) (simp add: newFile_def)
  have ex: "isExpiredWithThreshold exDeps k sess exExpired = (Inr (\<not> 5000000 < 57 + k), exExpired)" for k
    using la by (simp add: isExpiredWithThreshold_def ValidUntil_def bindE_def getE_def returnE_def Let_def)
      (simp add: sess_def exExpired_def exLive_def exStore_def)
  have "isExpiredWithThreshold exDeps (hk_KeepExpiredFor ?conf) sess exExpired = (Inr False, exExpired)"
    "IsExpired exDeps sess exExpired = (Inr True, exExpired)" "ss_state sess \<noteq> StateDisposed"
    using ex by (simp_all add: IsExpired_def) (simp add: sess_def)
  from next_run_deletes_disposed[OF n w st this(3,1,2)] obtain t u sess' where
    "inspectSession exDeps others ?conf sess exExpired = (Inr True, t)" "inspectSession exDeps others ?conf sess' t = (Inr True, u)"
    "FindBy exDeps ''f'' [] None u = (Inl ErrNoSuchSession, u)"
    by (auto simp: sess_def)
  then show ?thesis
    by (intro exI[of _ others] exI[of _ sess] exI[of _ t] exI[of _ u] exI[of _ sess']) (simp add: sess_def)
qed

end
