(* ===== verification/AuthExample.thy ===== *)
theory AuthExample
  imports ServiceAuth
begin

section \<open>Concrete logins\<close>

text \<open>
  An instance of what the authorizers take from elsewhere, a host with one user \<open>u\<close> and a request of this user. The witnesses
  of the properties of the authorizers, the facade and the service compute on it.
\<close>

subsection \<open>The instance\<close>

definition exAdeps :: "bool adeps" where
  "exAdeps = \<lparr>
     ad_localEncode = (\<lambda>(n, u, ev). hexed n @ CHR ''.'' # (case u of None \<Rightarrow> [] | Some i \<Rightarrow> format_uint (unat i))),
     ad_localDecode = (\<lambda>t. case bytes_split (CHR ''.'') t of
        [n, u] \<Rightarrow> map_option (\<lambda>n'. (n', map_option word_of_nat (parse_uint 32 u), [])) (unhexed n) | _ \<Rightarrow> None),
     ad_nameEncode = (\<lambda>(n, ev). CHR ''N'' # hexed n),
     ad_nameDecode = (\<lambda>t. if t = [] then None else map_option (\<lambda>n. (n, [])) (unhexed (tl t))),
     ad_oidcEncode = (\<lambda>t. exPair (ot_accessToken t) (ot_idToken t)),
     ad_oidcDecode = (\<lambda>t. map_option (\<lambda>(a, i). \<lparr>ot_accessToken = a, ot_refreshToken = [], ot_idToken = i\<rparr>) (exUnpair t)),
     ad_equalFold = (\<lambda>a b. to_lower a = to_lower b),
     ad_unquote = (\<lambda>_. None), ad_quote = (\<lambda>t. CHR 0x22 # t @ [CHR 0x22]),
     ad_parsePublicKey = (\<lambda>t. if t = ''T'' then Some True else if t = ''F'' then Some False else None),
     ad_parseAuthorizedKey = (\<lambda>t. case t of [] \<Rightarrow> None
        | c # r \<Rightarrow> if c = CHR ''T'' then Some (True, r) else if c = CHR ''F'' then Some (False, r) else None),
     ad_bcrypt = \<lparr>bc_generate = Some, bc_compare = (\<lambda>h p. if h = p then BcMatch else BcMismatch)\<rparr>,
     ad_crypts = []\<rparr>"

lemma exAdeps_ok: "adeps_ok exAdeps"
proof -
  have u: "parse_uint 32 (format_uint (unat i)) = Some (unat i)" for i :: uint32
    using unsigned_less[of i, where 'a = nat] by (intro parse_format_uint) simp
  have f: "CHR ''.'' \<notin> set (format_uint n)" for n by (rule not_digit_notin_format) (simp add: is_digit_def)
  have n: "parse_uint 32 [] = None" by (simp add: parse_uint_def)
  show ?thesis
    by (auto simp: adeps_ok_def exAdeps_def bytes_split_append bytes_split_noSep f u n exPair_def split: option.splits list.splits if_splits)
qed

definition exUsers :: repo where
  "exUsers =
     \<lparr>w_files = [], w_fault = \<lambda>_ _. False, w_now = 0, w_open = \<lambda>_. 0, w_procs = [],
      r_CreateFilesIfAbsent = None, r_AllowBadName = None, r_AllowBadLine = None,
      r_passwd = \<lparr>h_fn = [], h_tempFn = [], h_numberOfColons = 7, h_entries = [\<lparr>ce_entry = Some 0, ce_rawLine = []\<rparr>], h_numberOfReads = 0\<rparr>,
      r_group = \<lparr>h_fn = [], h_tempFn = [], h_numberOfColons = 4, h_entries = [], h_numberOfReads = 0\<rparr>,
      r_shadow = \<lparr>h_fn = [], h_tempFn = [], h_numberOfColons = 9, h_entries = [], h_numberOfReads = 0\<rparr>,
      r_heapP = [0 \<mapsto> \<lparr>p_name = ''u'', p_password = ''pw'', p_uid = 5, p_gid = 7, p_geocs = [], p_homeDir = ''/h'', p_shell = ''/s''\<rparr>],
      r_heapG = Map.empty, r_heapS = Map.empty, r_next = 1,
      r_nameToUser = [''u'' \<mapsto> \<lparr>pr_passwd = 0, pr_shadow = None\<rparr>], r_idToUser = [5 \<mapsto> \<lparr>pr_passwd = 0, pr_shadow = None\<rparr>],
      r_nameToGroup = Map.empty, r_idToGroup = Map.empty, r_usernameToGroups = Map.empty\<rparr>"

definition exUser :: user where
  "exUser = \<lparr>us_Name = ''u'', us_DisplayName = [], us_Uid = 5, us_Group = \<lparr>gr_Gid = 7, gr_Name = ''g7''\<rparr>, us_Groups = [],
     us_Shell = ''/s'', us_HomeDir = ''/h''\<rparr>"

lemma exUsers_u:
  "LookupByName exUsers ''u'' = Inr exUser" "ValidatePasswordByName cs exUsers ''u'' ''pw'' = Inr True"
  by (simp_all add: LookupByName_def exUsers_def refToUser_def lookupGroupById_def refAndGroupsToUser_def groupsOf_def exUser_def
      formatUint32_def digit_char_def ValidatePasswordByName_def etcPasswdRef_validatePassword_def etcPasswd_validatePassword_def
      format_uint.simps[of 7] char_of_eq_iff)

definition exLocalConf :: "bool local_conf" where
  "exLocalConf = \<lparr>lc_AuthorizedKeys = [\<lambda>_ _. Inr ''/k''], lc_PasswordAllowed = \<lambda>_. Inr True,
     lc_InteractiveAllowed = \<lambda>_. Inr True, lc_EmptyAllowed = \<lambda>_. Inr False, lc_PamService = []\<rparr>"

definition exLocal :: "bool local_authorizer" where
  "exLocal = \<lparr>lo_flow = ''f'', lo_conf = exLocalConf, lo_users = exUsers\<rparr>"

definition exRequest :: "bool request" where
  "exRequest = \<lparr>ar_remote = (''u'', ''h''), ar_key = True, ar_password = ''pw'', ar_prompt = Inr ''pw'',
     ar_sendInfo = (\<lambda>_. Inr ()), ar_validate = (\<lambda>_. Inr True)\<rparr>"

text \<open>The empty store, with the file of authorized keys \<^verbatim>\<open>/k\<close>.\<close>

definition exKeyFile :: fsrepo where
  "exKeyFile = exStore\<lparr>w_files := w_files exStore @ [(''/k'', (newFile 0 0)\<lparr>n_content := ''FT''\<rparr>)]\<rparr>"

lemma exKeyFile_ready: "quiet exKeyFile" "deps_ok exDeps" "d_newUuid exDeps (sr_uuids exKeyFile) = Some []"
  using exStore_ready by (simp_all add: exKeyFile_def quiet_def)

lemma exKeyFile_fresh: "freshPlace exDeps [''s''] ''f'' [] exKeyFile"
proof -
  have f: "fileOf exDeps ''f'' [] kind exKeyFile = fileOf exDeps ''f'' [] kind exStore"
    "dirOf exDeps ''f'' [] exKeyFile = dirOf exDeps ''f'' [] exStore" for kind
    by (simp_all add: exKeyFile_def fileOf_def dirOf_def)
  have g: "fs_get (w_files exKeyFile) p = (case fs_get (w_files exStore) p of Some n \<Rightarrow> Some n
     | None \<Rightarrow> if p = ''/k'' then Some ((newFile 0 0)\<lparr>n_content := ''FT''\<rparr>) else None)" for p
    by (auto simp: exKeyFile_def fs_get_def map_add_def split: option.split)
  have k: "path_of (''s'' # ''f'' # cs) \<noteq> ''/k''" for cs by (simp add: path_of_def)
  have pl: "placed [''s''] ''f'' exKeyFile" using exStore_ready(2) by (simp add: placed_def exKeyFile_def)
  have "\<forall>a \<in> set (ancestors (dirOf exDeps ''f'' [] exStore)). \<forall>n. fs_get (w_files exKeyFile) a = Some n \<longrightarrow> n_isDir n"
    using exStore_free(1) unfolding exStore_ancestors g by (simp split: option.split)
  then show ?thesis
    using exKeyFile_ready pl by (simp add: freshPlace_def f g exStore_file exStore_free(2) k)
qed

lemma exKeyFile_empty: "storedIds exDeps exKeyFile = []" "storedIds exDeps exStore = []"
  by (simp_all add: storedIds_def namesIn_def properNames_def fs_children_def child_name_def fs_get_def exKeyFile_def exStore_def
      map_filter_simps exDir_def newDir_def newFile_def)

lemma exKeyFile_search: "requestSearch exDeps flow name v exKeyFile = Inr None" "requestSearch exDeps flow name v exStore = Inr None"
  by (simp_all add: requestSearch_def exKeyFile_empty)

subsection \<open>Logins on the instance\<close>

lemma exNames: "validNames exDeps ''u'' ''h''"
  by (simp add: validNames_def exDeps_host)

lemma exRequest_remote: "ar_remote exRequest = (''u'', ''h'')"
  by (simp add: exRequest_def)

text \<open>A search on the empty store finds nothing, so that a login creates its session.\<close>

lemma exKeyFile_creates:
  "\<exists>sess t. ensureSession exDeps ''f'' req tok exKeyFile = (Inr sess, t) \<and>
     sess = \<lparr>ss_flow = ''f'', ss_id = [], ss_state = StateNew, ss_createdAt = truncateMilli (w_now exKeyFile),
       ss_remoteUser = fst (ar_remote req), ss_remoteHost = snd (ar_remote req)\<rparr> \<and>
     created exDeps [''s''] ''f'' [] (fst (ar_remote req)) (snd (ar_remote req)) tok exKeyFile t"
  if "ar_remote req = (''u'', ''h'')"
  using that sess_Create_quiet[OF exKeyFile_fresh exKeyFile_ready(3) exNames, of tok]
  by (auto simp: ensureSession_quiet[OF exKeyFile_ready(1)] exKeyFile_search mapErrE_def)

lemma exLocal_password:
  "\<exists>au t. local_AuthorizePassword exAdeps exDeps exLocal exRequest exKeyFile = (Inr (Authorized au), t)"
  using exKeyFile_creates[OF exRequest_remote, of "ad_localEncode exAdeps (us_Name exUser, Some (us_Uid exUser), [])"]
  by (auto simp: local_password_result local_ensureSessionFor_def exLocal_def exLocalConf_def exRequest_def exUsers_u)

lemma exLocal_key:
  "\<exists>au t. local_AuthorizePublicKey exAdeps exDeps exLocal exRequest exKeyFile = (Inr (Authorized au), t)"
proof -
  have "findSessionByKey exDeps ''f'' exRequest exKeyFile = (Inr None, exKeyFile)"
    by (simp add: findSessionByKey_quiet[OF exKeyFile_ready(1)] exKeyFile_search)
  moreover have "\<exists>n. fs_get (w_files exKeyFile) ''/k'' = Some n \<and> n_content n = ''FT''"
    by (simp add: exKeyFile_def exStore_def fs_get_def)
  then have "local_isAuthorizedViaPublicKey exAdeps exLocal exRequest exUser exKeyFile = (Inr True, exKeyFile)"
    by (auto simp: local_isAuthorizedViaPublicKey_def local_getAuthorizedKeysFilesOf_def exLocal_def exLocalConf_def bindE_def liftE_def
        tryE_def returnE_def ReadFile_quiet[OF exKeyFile_ready(1)] eachKeyOf.simps[of _ _ _ _ "_ # _"] exAdeps_def matchesKey_def exRequest_def)
  ultimately show ?thesis
    using exKeyFile_creates[OF exRequest_remote, of "ad_localEncode exAdeps (us_Name exUser, Some (us_Uid exUser), [])"]
    by (auto simp: local_AuthorizePublicKey_def local_ensureSessionFor_def exLocal_def exLocalConf_def exUsers_u
        exRequest_def bindE_def liftE_def returnE_def Let_def)
qed

lemma local_key_accepted_witness:
  "\<exists>au t sess. local_AuthorizePublicKey exAdeps exDeps exLocal exRequest exKeyFile = (Inr (Authorized au), t) \<and>
     au_details au = DLocal exUser \<and> au_session au = Some sess"
proof -
  obtain au t where "local_AuthorizePublicKey exAdeps exDeps exLocal exRequest exKeyFile = (Inr (Authorized au), t)"
    using exLocal_key by blast
  from this local_key_accepted[OF exKeyFile_ready(1) this] show ?thesis
    by (auto simp: exLocal_def exRequest_def exUsers_u)
qed

lemma local_password_accepted_witness:
  "\<exists>au t. local_AuthorizePassword exAdeps exDeps exLocal exRequest exKeyFile = (Inr (Authorized au), t) \<and>
     au_details au = DLocal exUser"
proof -
  obtain au t where r: "local_AuthorizePassword exAdeps exDeps exLocal exRequest exKeyFile = (Inr (Authorized au), t)"
    using exLocal_password by blast
  from r[unfolded local_password_accepted] have "au_details au = DLocal exUser"
    by (auto simp: exLocal_def exRequest_def exUsers_u)
  with r show ?thesis by blast
qed

lemma local_login_restores_witness:
  "\<exists>au t sess au'. local_AuthorizePassword exAdeps exDeps exLocal exRequest exKeyFile = (Inr (Authorized au), t) \<and>
     au_session au = Some sess \<and> local_RestoreFromSession exAdeps exDeps exLocal sess None t = (Inr (Authorized au'), t) \<and>
     au_details au' = au_details au"
proof -
  obtain au t where r: "local_AuthorizePassword exAdeps exDeps exLocal exRequest exKeyFile = (Inr (Authorized au), t)"
    using exLocal_password by blast
  have c: "freshPlace exDeps [''s''] (lo_flow exLocal) [] exKeyFile" using exKeyFile_fresh by (simp add: exLocal_def)
  have u: "LookupByName (lo_users exLocal) (fst (ar_remote exRequest)) = Inr exUser"
    "us_Name exUser = fst (ar_remote exRequest)" "us_Name exUser \<noteq> []"
    "validNames exDeps (fst (ar_remote exRequest)) (snd (ar_remote exRequest))"
    by (simp_all add: exLocal_def exRequest_def exUsers_u exNames) (simp_all add: exUser_def)
  have l: "length (ad_localEncode exAdeps (us_Name exUser, Some (us_Uid exUser), [])) mod 4096 \<noteq> 0"
    by (simp add: exAdeps_def exUser_def format_uint.simps[of 5])
  have k: "au_sessionsPublicKey au = None" using r by (auto simp: local_password_result)
  have o: "local_AuthorizePassword exAdeps exDeps exLocal \<in> {local_AuthorizePassword exAdeps exDeps exLocal,
      local_AuthorizeInteractive exAdeps exDeps exLocal, local_AuthorizePublicKey exAdeps exDeps exLocal}" by simp
  from local_login_restores[OF exAdeps_ok c exKeyFile_ready(3) o r k u l, of None] r show ?thesis by auto
qed

subsection \<open>Facade, service and keys\<close>

definition anybody :: requirement_conf where
  "anybody = \<lparr>rq_included = None, rq_excluded = None\<rparr>"

definition exFlow :: "bool authorization_conf \<Rightarrow> bool flow_conf" where
  "exFlow c = \<lparr>fl_Name = ''f'', fl_Requirement = anybody, fl_Authorization = c\<rparr>"

lemma facade_first_match_witness:
  "\<exists>fa. NewAuthorizerFacade exAdeps exDeps (Inr exUsers) (Some [exFlow (ConfLocal exLocalConf), exFlow ConfNone]) = Inr fa \<and>
     facade_AuthorizePassword fa exRequest exKeyFile = firstAnswer az_Password fa exRequest exKeyFile"
proof -
  obtain fa where fa: "NewAuthorizerFacade exAdeps exDeps (Inr exUsers) (Some [exFlow (ConfLocal exLocalConf), exFlow ConfNone]) = Inr fa"
    by (auto simp: NewAuthorizerFacade_def newFrom_def exFlow_def NewLocal_def NewNone_def)
  from fa facade_first_match[OF fa exKeyFile_ready(1), of exRequest] show ?thesis by blast
qed

lemma facade_restores_in_flow_witness:
  "\<exists>fa. NewAuthorizerFacade exAdeps exDeps (Inr exUsers) (Some [exFlow ConfNone]) = Inr fa \<and>
     facade_RestoreFromSession fa \<lparr>ss_flow = ''x'', ss_id = [], ss_state = StateNew, ss_createdAt = 0,
       ss_remoteUser = [], ss_remoteHost = []\<rparr> None exStore = (Inl AErrNoSuchAuthorization, exStore)"
proof -
  obtain fa where fa: "NewAuthorizerFacade exAdeps exDeps (Inr exUsers) (Some [exFlow ConfNone]) = Inr fa"
    and fl: "map fc_flow fa = [''f'']"
    by (auto simp: NewAuthorizerFacade_def newFrom_def exFlow_def NewNone_def)
  have "distinct (map fl_Name [exFlow ConfNone])" by simp
  from facade_restores_in_flow[OF fa this] fl fa show ?thesis by auto
qed

lemma unknown_local_user_stops_login_witness:
  "\<exists>fa. NewAuthorizerFacade exAdeps exDeps (Inr exUsers) (Some [exFlow (ConfLocal exLocalConf), exFlow ConfNone]) = Inr fa \<and>
     facade_AuthorizePassword fa (exRequest\<lparr>ar_remote := (''w'', ''h'')\<rparr>) exStore =
       (Inl (AErrFlow ''f'' (AErrUser ErrNoSuchUser)), exStore)"
proof -
  obtain fa where fa: "NewAuthorizerFacade exAdeps exDeps (Inr exUsers) (Some [exFlow (ConfLocal exLocalConf), exFlow ConfNone]) = Inr fa"
    by (auto simp: NewAuthorizerFacade_def newFrom_def exFlow_def NewLocal_def NewNone_def)
  have "lc_PasswordAllowed exLocalConf r = Inr True" "lc_PamService exLocalConf = []" for r by (simp_all add: exLocalConf_def)
  moreover have "ar_password (exRequest\<lparr>ar_remote := (''w'', ''h'')\<rparr>) \<noteq> []"
    "r_nameToUser exUsers (fst (ar_remote (exRequest\<lparr>ar_remote := (''w'', ''h'')\<rparr>))) = None"
    by (simp_all add: exRequest_def exUsers_def)
  ultimately have "facade_AuthorizePassword fa (exRequest\<lparr>ar_remote := (''w'', ''h'')\<rparr>) exStore =
       (Inl (AErrFlow ''f'' (AErrUser ErrNoSuchUser)), exStore)"
    using unknown_local_user_stops_login[OF fa[unfolded exFlow_def[of "ConfLocal _"] anybody_def]] by blast
  with fa show ?thesis by blast
qed

lemma restriction_text_roundtrip_witness:
  "RsaRestriction_UnmarshalText ''all'' = Inr 1 \<and> DsaRestriction_UnmarshalText ''all'' = Inr 1 \<and>
   EcdsaRestriction_UnmarshalText ''all'' = Inr 1 \<and> Ed25519Restriction_UnmarshalText ''all'' = Inr 1"
  using restriction_text_roundtrip[of 1 "''all''"]
  by (simp add: RsaRestriction_MarshalText_def DsaRestriction_MarshalText_def EcdsaRestriction_MarshalText_def
      Ed25519Restriction_MarshalText_def)

text \<open>An identity provider that no token passes, and a session that holds a token.\<close>

definition exOidc :: oidc_authorizer where
  "exOidc = \<lparr>oi_flow = ''f'', oi_RetrieveIdToken = True, oi_RetrieveUserInfo = True,
     oi_idp = \<lparr>ip_deviceAuth = None, ip_deviceAccessToken = \<lambda>_. Inl DevOther, ip_verify = \<lambda>_. Inl (TokenExpired 0), ip_userInfo = \<lambda>_. None\<rparr>,
     oi_scopes = []\<rparr>"

definition exToken :: oidc_token where
  "exToken = \<lparr>ot_accessToken = ''a'', ot_refreshToken = [], ot_idToken = ''i''\<rparr>"

lemma exToken_stored:
  "\<exists>sess t. sess_Create exDeps ''f'' ''u'' ''h'' (ad_oidcEncode exAdeps exToken) exStore = (Inr sess, t) \<and>
     AuthorizationToken exDeps sess t = (Inr (ad_oidcEncode exAdeps exToken), t) \<and> ss_flow sess = ''f''"
  using sess_Create_quiet[OF exStore_fresh exStore_ready(4) exNames, of "ad_oidcEncode exAdeps exToken"]
  by (auto simp: created_def AuthorizationToken_def getToken_quiet split: option.split)

lemma oidc_cleanup_checks_nothing_witness:
  "\<exists>sess s. AuthorizationToken exDeps sess s = (Inr (ad_oidcEncode exAdeps exToken), s) \<and>
     (case oidc_RestoreFromSession exAdeps exDeps exOidc sess (Some (Some True)) s of
        (Inl e, _) \<Rightarrow> \<exists>e'. e = AErrSession e' | (Inr a, _) \<Rightarrow> IsAuthorized a) \<and>
     verifyToken exOidc exToken = Inl (AErrTyped TPermission ''cannot verify ID token'')"
proof -
  obtain sess s where s: "AuthorizationToken exDeps sess s = (Inr (ad_oidcEncode exAdeps exToken), s)" "ss_flow sess = ''f''"
    using exToken_stored by blast
  have "RestoreOpts_IsAutoCleanUpAllowed (Some (Some True))" "ss_flow sess = oi_flow exOidc"
    "ad_oidcEncode exAdeps exToken \<noteq> []" "ad_oidcDecode exAdeps (ad_oidcEncode exAdeps exToken) = Some exToken"
    using s(2) exAdeps_ok
    by (simp_all add: RestoreOpts_IsAutoCleanUpAllowed_def exOidc_def adeps_ok_def) (simp add: exAdeps_def exToken_def)
  from oidc_cleanup_checks_nothing[OF this(1,2) s(1) this(3,4)] s(1) show ?thesis
    by (intro exI[of _ sess] exI[of _ s])
      (auto simp: IsAuthorized_def verifyToken_def exOidc_def exToken_def errorsIs_nilTokenExpired_def split: prod.splits sum.splits)
qed

definition exService :: "bool service_parts" where
  "exService =
     \<lparr>sv_authorizer = [\<lparr>fc_ops = htpasswdOps exAdeps exDeps \<lparr>hp_flow = ''f'', hp_File = None, hp_Entries = Some (\<lambda>_ _. True)\<rparr>,
        fc_flow = ''f'', fc_requirement = anybody\<rparr>],
      sv_keys = Keys_SetDefaults, sv_sdkKey = \<lambda>_. RsaKey 4096\<rparr>"

lemma exService_facade:
  "NewAuthorizerFacade exAdeps exDeps (Inr exUsers) (Some [exFlow (ConfHtpasswd None (Some (\<lambda>_ _. True)))]) = Inr (sv_authorizer exService)"
  by (simp add: NewAuthorizerFacade_def newFrom_def exFlow_def NewHtpasswd_def exService_def)

definition exCtx :: "bool conn_ctx" where
  "exCtx = \<lparr>cc_auth = None, cc_handshakeKey = None\<rparr>"

lemma exService_refuses_key:
  "Keys_KeyAllowed (sv_keys exService) (sv_sdkKey exService k)"
  "handlePublicKey exService exRequest k exCtx exStore = (Inr (False, exCtx\<lparr>cc_handshakeKey := Some k\<rparr>), exStore)"
proof -
  show a: "Keys_KeyAllowed (sv_keys exService) (sv_sdkKey exService k)" for k
    by (simp add: exService_def Keys_KeyAllowed_def Keys_SetDefaults_def DefaultRsaRestriction_def RsaRestriction_BitsAllowed_def)
  show "handlePublicKey exService exRequest k exCtx exStore = (Inr (False, exCtx\<lparr>cc_handshakeKey := Some k\<rparr>), exStore)"
    using a findSessionByKey_quiet[OF exStore_ready(1), of exDeps "''f''" "exRequest\<lparr>ar_key := k\<rparr>"]
    by (simp add: handlePublicKey_def Let_def exCtx_def exService_def facade_AuthorizePublicKey_def canHandle_def anybody_def
        htpasswdOps_def htpasswd_AuthorizePublicKey_def exKeyFile_search bindE_def tryE_def mapErrE_def forbidden_def returnE_def
        IsAuthorized_def)
qed

lemma exService_accepts_password:
  "\<exists>au sess t. handlePassword exService exRequest ''pw'' ctx exStore = (Inr (True, ctx\<lparr>cc_auth := Some (Authorized au)\<rparr>), t) \<and>
     au_session au = Some sess \<and> ss_flow sess = ''f'' \<and> ss_state sess = StateNew \<and> keyless exDeps [''s''] sess k t"
proof -
  let ?sess = "\<lparr>ss_flow = ''f'', ss_id = [], ss_state = StateNew, ss_createdAt = truncateMilli (w_now exStore),
    ss_remoteUser = ''u'', ss_remoteHost = ''h''\<rparr>"
  obtain t where c: "sess_Create exDeps ''f'' ''u'' ''h'' (ad_nameEncode exAdeps (''u'', [])) exStore = (Inr ?sess, t)"
    and created: "created exDeps [''s''] ''f'' [] ''u'' ''h'' (ad_nameEncode exAdeps (''u'', [])) exStore t"
    using sess_Create_quiet[OF exStore_fresh exStore_ready(4) exNames] by blast
  let ?au = "(plainCandidate DHtpasswd ''f'' (exRequest\<lparr>ar_password := ''pw''\<rparr>))\<lparr>au_session := Some ?sess\<rparr>"
  have "handlePassword exService exRequest ''pw'' ctx exStore = (Inr (True, ctx\<lparr>cc_auth := Some (Authorized ?au)\<rparr>), t)"
    using c
    by (simp add: handlePassword_def handleWith_def exService_def facade_AuthorizePassword_def canHandle_def anybody_def
        htpasswdOps_def htpasswd_AuthorizePassword_def htpasswd_authorizeWith_def htpasswd_lookupEntry_def Htpasswd_Match_def
        htpasswd_ensureSessionFor_def ensureSession_quiet[OF exStore_ready(1)] exKeyFile_search bindE_def liftE_def tryE_def
        mapErrE_def returnE_def IsAuthorized_def exRequest_def)
  moreover have "keyless exDeps [''s''] ?sess k t" by (rule created_keyless[OF created exStore_ready(3)])
  ultimately show ?thesis by (intro exI[of _ ?au] exI[of _ ?sess] exI[of _ t]) simp
qed

lemma remembered_key_found_witness:
  "\<exists>ctx1 ctx2 sess t u auth ctx3.
     handlePublicKey exService exRequest True exCtx exStore = (Inr (False, ctx1), exStore) \<and>
     handlePassword exService exRequest ''pw'' ctx1 exStore = (Inr (True, ctx2), t) \<and>
     resolveAuthorizationAndSession exDeps exRequest ctx2 t = (Inr (auth, sess, StateNew, ctx3), u) \<and>
     hasPublicKey exDeps ''f'' (ss_id sess) True u = (Inr True, u) \<and>
     keySearchResult exDeps ''f'' (ss_id sess) exRequest (fst (findSessionByKey exDeps ''f'' exRequest u)) u"
proof -
  define ctx1 where "ctx1 = exCtx\<lparr>cc_handshakeKey := Some True\<rparr>"
  obtain au sess t where pw: "handlePassword exService exRequest ''pw'' ctx1 exStore = (Inr (True, ctx1\<lparr>cc_auth := Some (Authorized au)\<rparr>), t)"
    and sess: "au_session au = Some sess" "ss_flow sess = ''f''" "ss_state sess = StateNew" "keyless exDeps [''s''] sess True t"
    using exService_accepts_password by blast
  note pk = exService_refuses_key(2)[of True]
  have names: "validNames exDeps (fst (ar_remote exRequest)) (snd (ar_remote exRequest))" by (simp add: exRequest_def exNames)
  have auth: "cc_auth (ctx1\<lparr>cc_auth := Some (Authorized au)\<rparr>) = Some (Authorized au)" "FindSession (Authorized au) = Some sess"
    "cc_handshakeKey exCtx = None" "FlowName_UnmarshalText (ss_flow sess) = Some (ss_flow sess)"
    using sess(1,2) by (simp_all add: FindSession_def exCtx_def FlowName_UnmarshalText_def FlowName_Validate_def flowChar_def)
  obtain auth' ctx3 u where u: "resolveAuthorizationAndSession exDeps exRequest (ctx1\<lparr>cc_auth := Some (Authorized au)\<rparr>) t =
      (Inr (auth', sess\<lparr>ss_state := StateAuthorized\<rparr>, StateNew, ctx3), u)"
    "hasPublicKey exDeps (ss_flow sess) (ss_id sess) True u = (Inr True, u)"
    "\<forall>req'. ar_key req' = True \<longrightarrow> fst (ar_remote req') = fst (ar_remote exRequest) \<longrightarrow>
       (\<exists>r. findSessionByKey exDeps (ss_flow sess) req' u = (r, u) \<and> keySearchResult exDeps (ss_flow sess) (ss_id sess) req' r u)"
    using remembered_key_found[OF exService_facade exStore_ready(1) auth(3) exService_refuses_key(1) pk[unfolded ctx1_def[symmetric]] pw auth(1,2) sess(3,4) auth(4) names]
    by blast
  have "ar_key exRequest" by (simp add: exRequest_def)
  then have "keySearchResult exDeps ''f'' (ss_id sess) exRequest (fst (findSessionByKey exDeps ''f'' exRequest u)) u"
    using u(3) sess(2) by force
  with pk pw u(1) u(2) sess(2) show ?thesis unfolding ctx1_def
    by (intro exI[of _ "exCtx\<lparr>cc_handshakeKey := Some True\<rparr>"] exI[of _ "exCtx\<lparr>cc_handshakeKey := Some True, cc_auth := Some (Authorized au)\<rparr>"]
      exI[of _ "sess\<lparr>ss_state := StateAuthorized\<rparr>"] exI[of _ t] exI[of _ u]) auto
qed

end
