(* ===== verification/Spec2Isabelle.thy ===== *)
theory Spec2Isabelle
  imports TemplateExample KubeExample ImpExample RemoteEnvs UserEffects SessionConns SessionKeys KeyedMutex SharedProvider ServiceConns Housekeeper AuthExample AuthorizedKeys
begin

text \<open>
  \<^bold>\<open>Bifroest, an SSH server: a verified model.\<close>

  \<^bold>\<open>The program.\<close> A client that connects over SSH meets a list of flows. The service (\<^verbatim>\<open>pkg/service\<close>) passes its login to
  the authorizers of the flows (\<^verbatim>\<open>pkg/authorization\<close>), which look into the accounts of the host (\<^verbatim>\<open>pkg/user\<close>), into entries and
  files of the configuration (\<^verbatim>\<open>pkg/crypto\<close>, \<^verbatim>\<open>pkg/configuration\<close>) or ask an identity provider. An accepted login has a session, stored
  by \<^verbatim>\<open>pkg/session\<close> below a directory, with a token of the login and the public keys that open it again. Its shells, commands and
  forwarded connections run in the environment of the flow (\<^verbatim>\<open>pkg/environment\<close>): an account of the host, or a container or pod in which
  a helper process (\<^verbatim>\<open>internal/imp\<close>) serves the requests of the server. A housekeeper disposes expired sessions and deletes them later.

  \<^bold>\<open>Conventions\<close> (theories \<open>Prelude\<close>, \<open>GoLib\<close>, \<open>World\<close>). A function of the source that can fail or changes state is a function
  from a state to a result and the state after it, \<open>('s, 'e, 'a) sm\<close>: an error keeps the changes made before it. \<open>bindE\<close> is the
  sequence with the check of \<^verbatim>\<open>err\<close>, \<open>tryE\<close> gives the error as a value, \<open>finallyE\<close> and \<open>onErrorE\<close> are the two forms of \<^verbatim>\<open>defer\<close>. A
  panic is an error \<open>Panic\<close> or a state of its own. Bytes and strings are lists of 8-bit characters; integers of a width are words, with
  the wrap-around of the source. \<open>World\<close> has the file system (paths, contents, modes, times, directories), the open handles, the
  processes and the time. Every call of the operating system asks \<open>w_fault\<close> first whether it fails, so that theorems speak of all
  combinations of failing calls; \<open>quiet\<close> is a world in which no call fails.

  \<^bold>\<open>User accounts\<close>, \<^verbatim>\<open>pkg/user\<close>.
  \<^item> \<open>EtcUnix\<close> (\<^verbatim>\<open>etc-unix.go\<close>), \<open>EtcColon\<close> (\<^verbatim>\<open>etc-colon-entry.go\<close>), \<open>EtcRows\<close> (\<^verbatim>\<open>etc-group.go\<close>, \<^verbatim>\<open>etc-passwd.go\<close>,
    \<^verbatim>\<open>etc-shadow.go\<close>): validators, the colon separated format, generic in the locale \<open>colon_value\<close> that the three row types interpret. Rows are
    slices of the buffer of the library's \<^verbatim>\<open>bufio.Scanner\<close>, whose later reads change them: \<open>LineScanner\<close> has the scanner with its buffer.
  \<^item> \<open>UserModel\<close>: requirements, options and value types. \<open>EtcHandles\<close>: opening, locking, loading and saving of the three files.
    \<open>EtcRepository\<close>: indexes and lookups. \<open>EtcEnsure\<close>, \<open>EtcDelete\<close>: \<^verbatim>\<open>Ensure\<close>, \<^verbatim>\<open>EnsureGroup\<close> and the deletions.
    The record \<open>repo\<close> extends the world by the three handles, a heap of rows and the five index maps, so that rows are shared
    between the entries and the maps as the pointers of the source are.
  \<^item> \<open>AccountDb\<close> is the abstract account database (locale \<open>account_source\<close>); \<open>UserFrame\<close>, \<open>UserFiles\<close>: what operations leave as it is, and the contents
    of files after a save. \<open>UserProps\<close>, \<open>UserEffects\<close>: the round trip of saving and loading, the refinement of the database by the lookups, the effects of
    \<^verbatim>\<open>Ensure\<close> and of the deletions, generated ids, passwords, and that no handle stays open.
  \<^item> \<open>SharedProvider\<close> (\<^verbatim>\<open>repository.go\<close>): the shared repository with its 16-bit counter.

  \<^bold>\<open>Sessions\<close>, \<^verbatim>\<open>pkg/session\<close>.
  \<^item> \<open>SessionModel\<close>, \<open>SessionStore\<close>: the state \<open>fsrepo\<close> of \<^verbatim>\<open>FsRepository\<close> (\<^verbatim>\<open>fs-repository.go\<close>) and every operation, on the files of the world. \<open>deps\<close> holds
    the encodings the package takes from elsewhere; \<open>deps_ok\<close> says that they round-trip.
  \<^item> \<open>Paths\<close>, \<open>SessionFrame\<close>, \<open>SessionQuiet\<close>, \<open>SessionWrites\<close>: where a session's files are, which calls keep handles and files, what an operation reads and
    writes when no call fails.
  \<^item> \<open>SessionProps\<close>, \<open>SessionLife\<close>, \<open>SessionKeys\<close>: creating and finding, tokens, the search as a first match over the list of stored sessions,
    disposing, deleting, cleaning, keys as a list, and that no handle stays open.
  \<^item> \<open>StepSystem\<close> is a locale of systems of atomic steps with an invariant; \<open>SessionConns\<close> interprets it with the connection interceptors, \<open>KeyedMutex\<close>
    with \<^verbatim>\<open>common/keyed-mutex.go\<close>, \<open>ServiceConns\<close> with the connection limit of \<^verbatim>\<open>service/connection.go\<close>, \<open>SharedProvider\<close> with the shares. Goroutines are
    program counters, their steps interleave in any order, and the counters have the 32 bits of the source.

  \<^bold>\<open>Keys and passwords\<close>, \<^verbatim>\<open>pkg/crypto\<close>. \<open>AuthorizedKeys\<close>: the parser of \<^verbatim>\<open>authorized_keys\<close>. \<open>Passwords\<close>: password texts and files, entries of the
  configuration. \<open>KeyRestrictions\<close>: the restrictions of the four kinds of keys.

  \<^bold>\<open>Authorization\<close>, \<^verbatim>\<open>pkg/authorization\<close>.
  \<^item> \<open>AuthModel\<close>: requests, authorizations, the session of a request. \<open>RequestSearch\<close>: which session a request finds.
  \<^item> \<open>AuthorizerContract\<close>: the locale \<open>authorizer\<close>, what every implementation of the interface promises: an accepted login has a session of the flow and the user,
    a rejected one changes nothing, a session of another flow is not restored. \<open>LocalAuthorizer\<close>, \<open>SimpleAuthorizer\<close>, \<open>OtherAuthorizers\<close> (htpasswd and none) and
    \<open>OidcAuthorizer\<close> interpret it.
  \<^item> \<open>AuthorizerFacade\<close>: the facade over all flows, proved from the contract. \<open>ServiceAuth\<close>: the handlers of the service and the key that is remembered.
    \<open>AuthExample\<close>: an instance, and the witnesses.

  \<^bold>\<open>Environments\<close>, \<^verbatim>\<open>pkg/environment\<close>.
  \<^item> \<open>SysModel\<close> (signals, environment variables of \<^verbatim>\<open>pkg/sys\<close>), \<open>EnvModel\<close> (contexts, tasks, templates of users and groups), \<open>LocalEnv\<close>: the repository of
    local environments and its tokens; the locale of \<open>EnvFacade\<close> is what every repository promises, interpreted with the local and the dummy ones. Containers
    and pods enter the facade by the interface of an environment, since their repositories work on the state of the engine or the cluster; \<open>RemoteEnvs\<close> gives
    this interface with their modelled operations.
  \<^item> \<open>EnvRun\<close>: the command of a task and the loop that waits for it. \<open>LocalEnvProps\<close>, \<open>EnvProps\<close>: restored environments, whose users are deleted, the facade.
  \<^item> \<open>NetModel\<close> (\<^verbatim>\<open>pkg/net\<close>): hosts, ports, addresses and purposes as texts. \<open>Enums\<close>: operating systems, architectures, editions and modes of files
    (\<^verbatim>\<open>pkg/sys\<close>), the algorithms of \<^verbatim>\<open>pkg/ssh\<close> and the pull policy; the locale \<open>enumeration\<close> is a table of names and is interpreted with each of them.
  \<^item> \<open>SharedEnvs\<close>: what the repositories of containers and of pods do alike. The state has everything outside of the program, the environments in memory
    with their 32-bit counters of owners, and the locks of sessions that nobody gives up while a goroutine waits, its own and those of goroutines that are stuck:
    to wait for one is the outcome \<open>NeverReturns\<close>, which leaves it held; other goroutines are a function that runs where the lock is given up. The locale \<open>shared_environments\<close> is the contract
    of repositories that share the environment of a session between its connections.
  \<^item> Containers: \<open>DockerModel\<close> (the progress of a pull of \<^verbatim>\<open>docker-image-pull-progress.go\<close>, how the settings become the configuration of a container), \<open>Docker\<close>
    (\<^verbatim>\<open>docker-repository.go\<close>, \<^verbatim>\<open>docker.go\<close>: finding, ensuring, disposing), \<open>DockerRun\<close> (orphans, tasks, the connection to the engine). \<open>DockerProps\<close> interprets the
    contract and shows when ensuring returns, \<open>DockerEffects\<close> has sharing, disposing, cleaning, restoring and progress, \<open>DockerExample\<close> an engine and the witnesses.
  \<^item> Pods: \<open>KubeModel\<close> (how the settings become a pod, its secret and its namespace), \<open>Kube\<close> (\<^verbatim>\<open>kubernetes-repository.go\<close>, \<^verbatim>\<open>kubernetes.go\<close>: creating, finding,
    ensuring, removing, cleaning), \<open>KubeRun\<close> (\<^verbatim>\<open>kubernetes-usage-specific.go\<close>). \<open>KubeProps\<close> interprets the contract and shows that ensuring and finding always
    return, \<open>KubeEffects\<close> has disposing, cleaning, restoring and the command of a second run, \<open>KubeExample\<close> a cluster and the witnesses.

  \<^bold>\<open>Helper process\<close>, \<^verbatim>\<open>internal/imp/protocol\<close>. \<open>ImpWire\<close>: errors and their types, and every message on a stream; the locale \<open>message\<close> is the round trip of a message
  and is interpreted with all of them. \<open>ImpProtocol\<close>: the handlers of the helper process, the calls of the master, the verification of certificates. \<open>ImpProps\<close>,
  \<open>ImpAnswers\<close>: what the master gets from a call, and that every answer is well typed.

  \<^bold>\<open>Templates\<close>, \<^verbatim>\<open>pkg/template\<close>. \<open>Templates\<close>: texts of the configuration that are a value or a template of one (\<^verbatim>\<open>string.go\<close>, \<^verbatim>\<open>bool.go\<close>, \<^verbatim>\<open>int64.go\<close>,
  \<^verbatim>\<open>uint64.go\<close>, \<^verbatim>\<open>duration.go\<close>, \<^verbatim>\<open>url.go\<close>, \<^verbatim>\<open>text-marshaller.go\<close>). The locale \<open>template_text\<close> promises that a value is read again from its text,
  \<open>template_value\<close> that hard-coding a value does not change its meaning; both are interpreted with the types of the source. \<open>engine_law\<close> is what is relied on of
  the engine. \<open>TemplateFuncs\<close> (\<^verbatim>\<open>funcs.go\<close>): the functions a template may call. \<open>TemplateExample\<close>: the properties, an engine and the witnesses.

  \<^bold>\<open>Service\<close>. \<open>ServiceConns\<close>: limit and deadlines of connections. \<open>ServiceSession\<close>: the channels of a connection. \<open>Housekeeper\<close>: one run over all sessions.

  \<^bold>\<open>Bounds and fuel.\<close> Nothing here runs on fuel: loops are structural recursions over lists, or have a measure (the lines of a file, the rest of a text, whether
  a second attempt is allowed); the 200 tries of \<open>awaitReady\<close> and the 5 of \<open>ensureTries\<close> are those of the source. The clean-up of pods may never end: it is a
  \<^verbatim>\<open>partial_function\<close>, and a cluster that gives the same page again and again keeps it going. What a loop receives while it waits is a list, at whose end its timer fires. In \<open>eachKeyOf\<close>
  the parser of a third party could fail to advance, which is an error of the model that \<open>adeps_ok\<close> excludes. Properties with a bound: fewer than
  \<^verbatim>\<open>2^15\<close> shares, fewer than \<^verbatim>\<open>2^31\<close> goroutines with connections and \<^verbatim>\<open>2^30\<close> at the keyed mutex, whose counters wrap, account files of at most the 4096 bytes of the
  scanner's first buffer, and tokens whose length is not a multiple of 4096 where a search by token is involved.

  \<^bold>\<open>Parameters.\<close> Hash functions of passwords, bcrypt, JSON, base58, base64, uuids and ssh keys, the engine of the templates (elsewhere a template is a function of the data), regular expressions, htpasswd files, the
  identity provider, the environments (for the housekeeper), copying of directory trees, addresses (\<^verbatim>\<open>net.ParseIP\<close>, resolution of names), the encodings of msgpack, the engine of
  the containers, the cluster of the pods and the rounding of floating point numbers are arguments of the definitions.

  \<^bold>\<open>Not modelled.\<close> The watcher of the account files with its timer, cancellation of contexts, log output, \<^verbatim>\<open>String\<close> and \<^verbatim>\<open>GetField\<close> (access by templates), the wrappers
  \<^verbatim>\<open>IsEqualTo\<close> over \<^verbatim>\<open>any\<close>, YAML decoding and the default values of
  the configuration, PAM and Windows builds. The copy of Go's template engine under \<^verbatim>\<open>internal\<close> works by reflection on the values of the host language; the
  SSH and SFTP adapters, the msgpack codec, command lines and the build tool are I/O and calls of other libraries and systems. Letters outside ASCII are not folded where the source lower-cases the text of a key restriction.
\<close>

end
